(* ===== verification/Fesvr_Prelude.thy ===== *)
theory Fesvr_Prelude
  imports Main "HOL-Library.Word" "HOL-Library.Char_ord" "HOL-Library.List_Lexorder"
begin

text \<open>
  Shared vocabulary of the development: the machine integers of the code, faults as values, the
  state-and-fault functions in which every effectful operation is written, little-endian byte
  sequences, the byte-addressed memory that the interfaces promise, and \<open>std::map\<close> as an
  association list in key order.
\<close>

section \<open>Machine integers\<close>

unbundle bit_operations_syntax

type_synonym u8 = "8 word"
type_synonym u16 = "16 word"
type_synonym u32 = "32 word"
type_synonym u64 = "64 word"

text \<open>\<open>reg_t\<close> and \<open>addr_t\<close> of \<open>memif.h\<close> are both \<open>uint64_t\<close>.\<close>

type_synonym reg = u64
type_synonym addr = u64

named_theorems prog_simps \<open>one-step evaluation of the state-and-fault functions\<close>
named_theorems byte_simps \<open>byte sequences and the words they encode\<close>
named_theorems mem_simps \<open>byte-addressed memory\<close>

section \<open>Faults\<close>

text \<open>
  Everything that ends a C++ function other than by \<open>return\<close>: a failed \<open>assert\<close>, an exception,
  \<open>exit\<close>, \<open>abort\<close>, a loop that never ends, and an access or a shift the language leaves
  undefined.
\<close>

datatype fault =
    Assert_failed string
  | Runtime_error string
  | Length_error
  | Exited int
  | Aborted
  | Diverges
  | Undefined string

section \<open>Operations with state and faults\<close>

text \<open>
  An operation takes the state it works on and returns the value or the fault together with the
  state reached. A fault keeps the state: what was written before a throw stays written.
\<close>

type_synonym ('s, 'a) prog = "'s \<Rightarrow> (fault + 'a) \<times> 's"

definition ret :: "'a \<Rightarrow> ('s, 'a) prog" where
  "ret x s = (Inr x, s)"

definition raise :: "fault \<Rightarrow> ('s, 'a) prog" where
  "raise e s = (Inl e, s)"

definition bnd :: "('s, 'a) prog \<Rightarrow> ('a \<Rightarrow> ('s, 'b) prog) \<Rightarrow> ('s, 'b) prog" where
  "bnd m f s = (case m s of (Inl e, s') \<Rightarrow> (Inl e, s') | (Inr x, s') \<Rightarrow> f x s')"

definition andThen :: "('s, 'a) prog \<Rightarrow> ('s, 'b) prog \<Rightarrow> ('s, 'b) prog" where
  "andThen m n = bnd m (\<lambda>_. n)"

definition getS :: "('s \<Rightarrow> 'a) \<Rightarrow> ('s, 'a) prog" where
  "getS f s = (Inr (f s), s)"

definition modS :: "('s \<Rightarrow> 's) \<Rightarrow> ('s, unit) prog" where
  "modS f s = (Inr (), f s)"

text \<open>\<open>assert(b)\<close>, and an access that is undefined unless \<open>b\<close>.\<close>

definition assertM :: "string \<Rightarrow> bool \<Rightarrow> ('s, unit) prog" where
  "assertM msg b = (if b then ret () else raise (Assert_failed msg))"

definition definedM :: "string \<Rightarrow> bool \<Rightarrow> ('s, unit) prog" where
  "definedM msg b = (if b then ret () else raise (Undefined msg))"

text \<open>A list of statements in order.\<close>

fun seqM :: "('s, unit) prog list \<Rightarrow> ('s, unit) prog" where
  "seqM [] = ret ()"
| "seqM (m # ms) = andThen m (seqM ms)"

text \<open>A \<open>for\<close> loop whose body runs once for each element of a list.\<close>

fun forM :: "'a list \<Rightarrow> ('a \<Rightarrow> ('s, unit) prog) \<Rightarrow> ('s, unit) prog" where
  "forM [] f = ret ()"
| "forM (x # xs) f = andThen (f x) (forM xs f)"

text \<open>The values of an operation on each element of a list, in order.\<close>

fun mapM :: "('a \<Rightarrow> ('s, 'b) prog) \<Rightarrow> 'a list \<Rightarrow> ('s, 'b list) prog" where
  "mapM f [] = ret []"
| "mapM f (x # xs) = bnd (f x) (\<lambda>y. bnd (mapM f xs) (\<lambda>ys. ret (y # ys)))"

text \<open>
  A loop that repeats an operation until its value satisfies a condition. How long the other side
  takes is not the program's to say, so the loop has fuel; when that runs out it counts as a loop
  that does not end. More fuel never changes a result that was reached.
\<close>

fun poll :: "nat \<Rightarrow> ('s, 'a) prog \<Rightarrow> ('a \<Rightarrow> bool) \<Rightarrow> ('s, 'a) prog" where
  "poll 0 m P = raise Diverges"
| "poll (Suc n) m P = bnd m (\<lambda>x. if P x then ret x else poll n m P)"

text \<open>\<open>reads_until m P n s x s'\<close>: the first \<open>n\<close> runs give values that fail \<open>P\<close>, the next gives \<open>x\<close>.\<close>

inductive reads_until :: "('s, 'a) prog \<Rightarrow> ('a \<Rightarrow> bool) \<Rightarrow> nat \<Rightarrow> 's \<Rightarrow> 'a \<Rightarrow> 's \<Rightarrow> bool"
  for m P where
  now: "m s = (Inr x, s') \<Longrightarrow> P x \<Longrightarrow> reads_until m P 0 s x s'"
| later: "m s = (Inr y, s') \<Longrightarrow> \<not> P y \<Longrightarrow> reads_until m P n s' x s'' \<Longrightarrow> reads_until m P (Suc n) s x s''"

lemma ret_run [simp, prog_simps]: "ret x s = (Inr x, s)"
  by (simp add: ret_def)

lemma raise_run [simp, prog_simps]: "raise e s = (Inl e, s)"
  by (simp add: raise_def)

lemma getS_run [simp, prog_simps]: "getS f s = (Inr (f s), s)"
  by (simp add: getS_def)

lemma modS_run [simp, prog_simps]: "modS f s = (Inr (), f s)"
  by (simp add: modS_def)

lemma bnd_Inr: "m s = (Inr x, s') \<Longrightarrow> bnd m f s = f x s'"
  by (simp add: bnd_def)

lemma bnd_Inl: "m s = (Inl e, s') \<Longrightarrow> bnd m f s = (Inl e, s')"
  by (simp add: bnd_def)

lemma andThen_Inr: "m s = (Inr x, s') \<Longrightarrow> andThen m n s = n s'"
  by (simp add: andThen_def bnd_def)

lemma andThen_Inl: "m s = (Inl e, s') \<Longrightarrow> andThen m n s = (Inl e, s')"
  by (simp add: andThen_def bnd_def)

lemma bnd_ret [simp, prog_simps]: "bnd (ret x) f = f x"
  by (rule ext) (simp add: bnd_def)

lemma bnd_raise [simp, prog_simps]: "bnd (raise e) f = raise e"
  by (rule ext) (simp add: bnd_def)

lemma bnd_getS [prog_simps]: "bnd (getS g) f s = f (g s) s"
  by (simp add: bnd_def)

lemma bnd_modS [prog_simps]: "bnd (modS g) f s = f () (g s)"
  by (simp add: bnd_def)

lemma andThen_ret [simp, prog_simps]: "andThen (ret x) n = n"
  by (simp add: andThen_def)

lemma andThen_raise [simp, prog_simps]: "andThen (raise e) n = raise e"
  by (simp add: andThen_def)

lemma andThen_modS [prog_simps]: "andThen (modS g) n s = n (g s)"
  by (simp add: andThen_def bnd_def)

lemma bnd_assoc: "bnd (bnd m f) g = bnd m (\<lambda>x. bnd (f x) g)"
  by (rule ext) (simp add: bnd_def split: prod.splits sum.splits)

lemma andThen_assoc: "andThen (andThen l m) n = andThen l (andThen m n)"
  by (simp add: andThen_def bnd_assoc)

lemma bnd_ret_right [simp]: "bnd m ret = m"
  by (rule ext) (simp add: bnd_def split: prod.splits sum.splits)

lemma assertM_True [simp, prog_simps]: "assertM msg True = ret ()"
  by (simp add: assertM_def)

lemma assertM_False [simp, prog_simps]: "assertM msg False = raise (Assert_failed msg)"
  by (simp add: assertM_def)

lemma definedM_True [simp, prog_simps]: "definedM msg True = ret ()"
  by (simp add: definedM_def)

lemma definedM_False [simp, prog_simps]: "definedM msg False = raise (Undefined msg)"
  by (simp add: definedM_def)

lemma seqM_append: "seqM (xs @ ys) = andThen (seqM xs) (seqM ys)"
  by (induction xs) (auto simp add: andThen_assoc andThen_ret simp del: ret_run)

lemma forM_append: "forM (xs @ ys) f = andThen (forM xs f) (forM ys f)"
  by (induction xs) (auto simp add: andThen_assoc andThen_ret simp del: ret_run)

lemma forM_seqM: "forM xs f = seqM (map f xs)"
  by (induction xs) simp_all

lemma bnd_cases:
  assumes "bnd m f s = (r, s'')"
  obtains (fail) e where "m s = (Inl e, s'')" "r = Inl e"
        | (ok) x s' where "m s = (Inr x, s')" "f x s' = (r, s'')"
  using assms by (auto simp: bnd_def split: prod.splits sum.splits)

lemma poll_enough: "reads_until m P n s x s' \<Longrightarrow> n < k \<Longrightarrow> poll k m P s = (Inr x, s')"
proof (induction arbitrary: k rule: reads_until.induct)
  case (now s x s')
  then show ?case by (cases k) (simp_all add: bnd_Inr)
next
  case (later s y s' n x s'')
  then show ?case by (cases k) (simp_all add: bnd_Inr)
qed

lemma poll_result: "poll k m P s = (Inr x, s') \<Longrightarrow> \<exists>n < k. reads_until m P n s x s'"
proof (induction k arbitrary: s)
  case (Suc k)
  from Suc.prems obtain y s1 where y: "m s = (Inr y, s1)"
      "(if P y then ret y else poll k m P) s1 = (Inr x, s')"
    by (auto elim: bnd_cases)
  show ?case
  proof (cases "P y")
    case True
    with y show ?thesis by (auto intro: reads_until.now)
  next
    case False
    with y Suc.IH [of s1] show ?thesis by (auto intro: reads_until.later)
  qed
qed simp

text \<open>An invariant that an operation keeps whatever it returns.\<close>

definition keeps :: "('s \<Rightarrow> bool) \<Rightarrow> ('s, 'a) prog \<Rightarrow> bool" where
  "keeps I m \<longleftrightarrow> (\<forall>s. I s \<longrightarrow> I (snd (m s)))"

lemma keepsI: "(\<And>s. I s \<Longrightarrow> I (snd (m s))) \<Longrightarrow> keeps I m"
  by (simp add: keeps_def)

lemma keepsD: "keeps I m \<Longrightarrow> I s \<Longrightarrow> I (snd (m s))"
  by (simp add: keeps_def)

lemma keeps_ret [intro, simp]: "keeps I (ret x)"
  by (simp add: keeps_def)

lemma keeps_raise [intro, simp]: "keeps I (raise e)"
  by (simp add: keeps_def)

lemma keeps_getS [intro, simp]: "keeps I (getS f)"
  by (simp add: keeps_def)

lemma keeps_bnd [intro]:
  assumes "keeps I m" and "\<And>x. keeps I (f x)"
  shows "keeps I (bnd m f)"
proof (rule keepsI)
  fix s
  assume "I s"
  then have i: "I (snd (m s))"
    using assms(1) by (rule keepsD[rotated])
  show "I (snd (bnd m f s))"
  proof (cases "m s")
    case (Pair r s')
    then show ?thesis
      using i keepsD[OF assms(2), of s'] by (cases r) (simp_all add: bnd_def)
  qed
qed

lemma keeps_andThen [intro]: "keeps I m \<Longrightarrow> keeps I n \<Longrightarrow> keeps I (andThen m n)"
  unfolding andThen_def by (rule keeps_bnd) simp_all

lemma keeps_if [intro]: "keeps I m \<Longrightarrow> keeps I n \<Longrightarrow> keeps I (if b then m else n)"
  by simp

lemma keeps_assertM [intro, simp]: "keeps I (assertM msg b)"
  by (cases b) simp_all

lemma keeps_definedM [intro, simp]: "keeps I (definedM msg b)"
  by (cases b) simp_all

lemma keeps_forM [intro]: "(\<And>x. keeps I (f x)) \<Longrightarrow> keeps I (forM xs f)"
  by (induction xs) (simp_all add: keeps_andThen)

lemma keeps_poll: "keeps I m \<Longrightarrow> keeps I (poll n m P)"
  by (induction n) (auto intro: keeps_bnd)

lemma keeps_seqM: "keeps I (seqM [])" "keeps I m \<Longrightarrow> keeps I (seqM ms) \<Longrightarrow> keeps I (seqM (m # ms))"
  by (auto intro: keeps_andThen)

lemma keeps_pair: "(\<And>a b. keeps I (f a b)) \<Longrightarrow> keeps I (case p of (a, b) \<Rightarrow> f a b)"
  by (auto split: prod.split)

lemma keeps_option: "keeps I n \<Longrightarrow> (\<And>x. keeps I (g x)) \<Longrightarrow> keeps I (case q of None \<Rightarrow> n | Some x \<Rightarrow> g x)"
  by (auto split: option.split)

text \<open>
  Operations that only compute: the state stays, and the value or fault does not depend on it.
  \<open>yields m Q\<close> says of such an operation that no access in it is undefined and that a value it
  returns satisfies \<open>Q\<close>.
\<close>

definition pure_prog :: "('s, 'a) prog \<Rightarrow> bool" where
  "pure_prog m \<longleftrightarrow> (\<exists>r. \<forall>s. m s = (r, s))"

lemma pure_ret [intro, simp]: "pure_prog (ret x)"
  by (simp add: pure_prog_def)

lemma pure_raise [intro, simp]: "pure_prog (raise e)"
  by (simp add: pure_prog_def)

lemma pure_assertM [intro, simp]: "pure_prog (assertM msg b)"
  by (cases b) simp_all

lemma pure_bnd [intro]:
  assumes "pure_prog m" and "\<And>x. pure_prog (f x)"
  shows "pure_prog (bnd m f)"
proof -
  obtain r where r: "\<And>s. m s = (r, s)"
    using assms(1) by (auto simp: pure_prog_def)
  show ?thesis
  proof (cases r)
    case (Inl e)
    then show ?thesis
      by (auto simp: pure_prog_def bnd_def r)
  next
    case (Inr x)
    then show ?thesis
      using assms(2) [of x] by (auto simp: pure_prog_def bnd_def r)
  qed
qed

lemma pure_andThen [intro]: "pure_prog m \<Longrightarrow> pure_prog n \<Longrightarrow> pure_prog (andThen m n)"
  unfolding andThen_def by (rule pure_bnd)

lemma pure_run: "pure_prog m \<Longrightarrow> m s = (r, s') \<Longrightarrow> m t = (r, t)"
  by (auto simp: pure_prog_def)

definition yields :: "('s, 'a) prog \<Rightarrow> ('a \<Rightarrow> bool) \<Rightarrow> bool" where
  "yields m Q \<longleftrightarrow> (\<forall>s. case fst (m s) of Inl e \<Rightarrow> (\<forall>msg. e \<noteq> Undefined msg) | Inr x \<Rightarrow> Q x)"

lemma yields_ret: "Q x \<Longrightarrow> yields (ret x) Q"
  by (simp add: yields_def)

lemma yields_raise: "(\<And>msg. e \<noteq> Undefined msg) \<Longrightarrow> yields (raise e) Q"
  by (simp add: yields_def)

lemma yields_assertM: "(b \<Longrightarrow> Q ()) \<Longrightarrow> yields (assertM msg b) Q"
  by (cases b) (simp_all add: yields_def)

lemma yields_if: "yields m Q \<Longrightarrow> yields n Q \<Longrightarrow> yields (if b then m else n) Q"
  by simp

lemma yields_bnd:
  assumes "yields m P" and "\<And>x. P x \<Longrightarrow> yields (f x) Q"
  shows "yields (bnd m f) Q"
  unfolding yields_def
proof
  fix s
  obtain r s' where r: "m s = (r, s')"
    by fastforce
  show "case fst (bnd m f s) of Inl e \<Rightarrow> (\<forall>msg. e \<noteq> Undefined msg) | Inr x \<Rightarrow> Q x"
  proof (cases r)
    case (Inl e)
    then show ?thesis
      using assms(1) r by (auto simp: yields_def bnd_def dest: spec [of _ s])
  next
    case (Inr x)
    then have "P x"
      using assms(1) r by (auto simp: yields_def dest: spec [of _ s])
    then show ?thesis
      using assms(2) [of x] r Inr by (auto simp: yields_def bnd_def)
  qed
qed

lemma yields_andThen: "yields m (\<lambda>_. B) \<Longrightarrow> (B \<Longrightarrow> yields n Q) \<Longrightarrow> yields (andThen m n) Q"
  unfolding andThen_def by (rule yields_bnd [where P = "\<lambda>_. B"])

lemma yields_forM: "(\<And>x. x \<in> set xs \<Longrightarrow> yields (f x) (\<lambda>_. True)) \<Longrightarrow> yields (forM xs f) (\<lambda>_. True)"
  by (induction xs) (auto intro: yields_ret yields_andThen simp del: ret_run)

lemma yieldsD: "yields m Q \<Longrightarrow> fst (m s) \<noteq> Inl (Undefined msg)"
  by (auto simp: yields_def dest: spec [of _ s])

section \<open>Little-endian byte sequences\<close>

text \<open>
  The bytes of an integer object in memory, lowest address first, on the little-endian host the
  code runs on: \<open>le_bytes n w\<close> are the low \<open>n\<close> bytes of \<open>w\<close>, \<open>le_word\<close> reads them back.
\<close>

primrec le_bytes :: "nat \<Rightarrow> 'a::len word \<Rightarrow> u8 list" where
  "le_bytes 0 w = []"
| "le_bytes (Suc n) w = ucast w # le_bytes n (drop_bit 8 w)"

fun le_word :: "u8 list \<Rightarrow> 'a::len word" where
  "le_word [] = 0"
| "le_word (b # bs) = ucast b OR push_bit 8 (le_word bs)"

lemma length_le_bytes [simp, byte_simps]: "length (le_bytes n w) = n"
  by (induction n arbitrary: w) simp_all

lemma le_bytes_eq_Nil [simp]: "le_bytes n w = [] \<longleftrightarrow> n = 0"
  by (cases n) simp_all

lemma bit_le_word:
  "bit (le_word bs :: 'a::len word) i \<longleftrightarrow> i < LENGTH('a) \<and> i < 8 * length bs \<and> bit (bs ! (i div 8)) (i mod 8)"
proof (induction bs arbitrary: i)
  case (Cons b bs)
  show ?case
  proof (cases "i < 8")
    case True
    then show ?thesis by (auto simp: bit_simps)
  next
    case False
    then have "i div 8 = Suc ((i - 8) div 8)" and "(i - 8) mod 8 = i mod 8"
      by (simp_all add: le_div_geq le_mod_geq)
    with False Cons.IH [of "i - 8"] show ?thesis
      by (auto simp: bit_simps dest: bit_imp_le_length)
  qed
qed simp

lemma nth_le_bytes: "i < n \<Longrightarrow> le_bytes n w ! i = ucast (drop_bit (8 * i) w)"
  by (induction n arbitrary: i w) (auto simp: nth_Cons drop_bit_drop_bit add.commute split: nat.splits)

lemma le_word_le_bytes [byte_simps]:
  "le_word (le_bytes n (w :: 'a::len word)) = (take_bit (8 * n) w :: 'a word)"
proof (rule bit_word_eqI)
  fix i assume "i < LENGTH('a)"
  moreover have "i div 8 < n" if "i < 8 * n"
    using that by simp
  ultimately show "bit (le_word (le_bytes n w) :: 'a word) i \<longleftrightarrow> bit (take_bit (8 * n) w) i"
    by (auto simp: bit_le_word nth_le_bytes bit_simps)
qed

lemma le_word_le_bytes_full [byte_simps]:
  "LENGTH('a) \<le> 8 * n \<Longrightarrow> le_word (le_bytes n (w :: 'a::len word)) = w"
  by (simp add: le_word_le_bytes take_bit_word_eq_self)

lemma le_bytes_le_word [byte_simps]:
  assumes "length bs = n" and "8 * n \<le> LENGTH('a::len)"
  shows "le_bytes n (le_word bs :: 'a word) = bs"
proof (rule nth_equalityI)
  show "length (le_bytes n (le_word bs :: 'a word)) = length bs"
    using assms by simp
next
  fix i assume "i < length (le_bytes n (le_word bs :: 'a word))"
  with assms show "le_bytes n (le_word bs :: 'a word) ! i = bs ! i"
    by (auto intro!: bit_word_eqI simp: nth_le_bytes bit_le_word bit_simps)
qed

lemma le_bytes_split:
  "le_bytes (m + n) w = le_bytes m w @ le_bytes n (drop_bit (8 * m) w)"
  by (induction m arbitrary: w) (simp_all add: drop_bit_drop_bit add.commute)

lemma le_bytes_zero [simp]: "le_bytes n 0 = replicate n 0"
  by (induction n) simp_all

text \<open>Arrays of 64-bit words as byte sequences.\<close>

fun words_of :: "nat \<Rightarrow> u8 list \<Rightarrow> u64 list" where
  "words_of 0 bs = []"
| "words_of (Suc n) bs = le_word (take 8 bs) # words_of n (drop 8 bs)"

definition bytes_of_words :: "u64 list \<Rightarrow> u8 list" where
  "bytes_of_words ws = concat (map (le_bytes 8) ws)"

lemma length_words_of [simp]: "length (words_of n bs) = n"
  by (induction n arbitrary: bs) simp_all

lemma bytes_of_words_Nil [simp]: "bytes_of_words [] = []"
  and bytes_of_words_Cons [simp]: "bytes_of_words (w # ws) = le_bytes 8 w @ bytes_of_words ws"
  and bytes_of_words_append [simp]: "bytes_of_words (ws @ vs) = bytes_of_words ws @ bytes_of_words vs"
  by (simp_all add: bytes_of_words_def)

lemma length_bytes_of_words [simp]: "length (bytes_of_words ws) = 8 * length ws"
  by (induction ws) simp_all

lemma le_bytes_le_word_8: "length bs = 8 \<Longrightarrow> le_bytes 8 (le_word bs :: u64) = bs"
  by (rule le_bytes_le_word) simp_all

lemma bytes_of_words_of: "8 * n \<le> length bs \<Longrightarrow> bytes_of_words (words_of n bs) = take (8 * n) bs"
proof (induction n arbitrary: bs)
  case (Suc n)
  then have "bytes_of_words (words_of (Suc n) bs) = take 8 bs @ take (8 * n) (drop 8 bs)"
    by (simp add: le_bytes_le_word_8)
  also have "\<dots> = take (8 + 8 * n) bs"
    by (simp add: take_add)
  finally show ?case by simp
qed simp

lemma words_of_bytes_of_words: "n = length ws \<Longrightarrow> words_of n (bytes_of_words ws) = ws"
  by (induction ws arbitrary: n) (simp_all add: le_word_le_bytes_full)

lemma le_bytes_4_lo:
  "length bs = 8 \<Longrightarrow> le_bytes 4 (ucast (le_word bs :: u64) :: u32) = take 4 bs"
  by (rule nth_equalityI)
    (auto simp: nth_le_bytes bit_le_word intro!: bit_word_eqI simp: bit_simps dest: bit_imp_le_length)

lemma le_bytes_4_hi:
  assumes "length bs = 8"
  shows "le_bytes 4 (ucast (drop_bit 32 (le_word bs :: u64)) :: u32) = drop 4 bs"
proof (rule nth_equalityI)
  have *: "(32 + (8 * i + n)) div 8 = 4 + i \<and> (32 + (8 * i + n)) mod 8 = n" if "n < 8" for i n :: nat
    using that by presburger
  fix i assume "i < length (le_bytes 4 (ucast (drop_bit 32 (le_word bs :: u64)) :: u32))"
  then show "le_bytes 4 (ucast (drop_bit 32 (le_word bs :: u64)) :: u32) ! i = drop 4 bs ! i"
    using assms * by (auto simp: nth_le_bytes bit_le_word intro!: bit_word_eqI simp: bit_simps)
qed (use assms in simp)

section \<open>Byte-addressed memory\<close>

text \<open>
  What the chunk interfaces promise is stated on a memory that maps each 64-bit address to a byte;
  a range wraps at \<open>2^64\<close> as the address arithmetic of the code does.
\<close>

type_synonym memory = "addr \<Rightarrow> u8"

definition get_range :: "memory \<Rightarrow> addr \<Rightarrow> nat \<Rightarrow> u8 list" where
  "get_range m a n = map (\<lambda>i. m (a + of_nat i)) [0..<n]"

definition upd_range :: "memory \<Rightarrow> addr \<Rightarrow> u8 list \<Rightarrow> memory" where
  "upd_range m a bs = (\<lambda>x. if unat (x - a) < length bs then bs ! unat (x - a) else m x)"

lemma length_get_range [simp, mem_simps]: "length (get_range m a n) = n"
  by (simp add: get_range_def)

lemma nth_get_range [simp, mem_simps]: "i < n \<Longrightarrow> get_range m a n ! i = m (a + of_nat i)"
  by (simp add: get_range_def)

lemma get_range_0 [simp, mem_simps]: "get_range m a 0 = []"
  by (simp add: get_range_def)

lemma upd_range_Nil [simp, mem_simps]: "upd_range m a [] = m"
  by (simp add: upd_range_def)

lemma get_range_add: "get_range m a (j + k) = get_range m a j @ get_range m (a + of_nat j) k"
  by (rule nth_equalityI) (auto simp: nth_append ac_simps simp flip: of_nat_add)

lemma get_range_split:
  "k \<le> n \<Longrightarrow> get_range m a n = get_range m a k @ get_range m (a + of_nat k) (n - k)"
  using get_range_add [of m a k "n - k"] by simp

lemma unat_of_nat_u64 [simp]: "n < 2 ^ 64 \<Longrightarrow> unat (of_nat n :: u64) = n"
  by (simp add: unsigned_of_nat take_bit_nat_eq_self)

lemma unat_power: "k < 64 \<Longrightarrow> unat (2 ^ k :: u64) = 2 ^ k"
  using unat_of_nat_u64 [of "2 ^ k"] power_strict_increasing [of k 64 "2 :: nat"] by simp

lemma power_ne_0 [simp]: "k < 64 \<Longrightarrow> (2 ^ k :: u64) \<noteq> 0"
  using unat_power [of k] by (metis power_not_zero unat_0 zero_neq_numeral)

lemma unat_minus_of_nat:
  fixes d :: u64
  assumes "n < 2 ^ 64"
  shows "unat (d - of_nat n) = (if n \<le> unat d then unat d - n else unat d + 2 ^ 64 - n)"
  using assms by (simp add: unat_sub_if_size word_size)

lemma upd_range_append:
  assumes "length xs + length ys \<le> 2 ^ 64"
  shows "upd_range m a (xs @ ys) = upd_range (upd_range m a xs) (a + of_nat (length xs)) ys"
proof (cases "length xs = 2 ^ 64")
  case True
  with assms show ?thesis by simp
next
  case False
  show ?thesis
  proof (rule ext)
    fix x
    have *: "unat (x - (a + of_nat (length xs))) =
        (if length xs \<le> unat (x - a) then unat (x - a) - length xs
         else unat (x - a) + 2 ^ 64 - length xs)"
      using unat_minus_of_nat [of "length xs" "x - a"] assms False by (simp add: algebra_simps)
    have "unat (x - a) < 2 ^ 64"
      using unsigned_less [of "x - a"] by simp
    with assms show "upd_range m a (xs @ ys) x =
        upd_range (upd_range m a xs) (a + of_nat (length xs)) ys x"
      unfolding upd_range_def by (auto simp: * nth_append)
  qed
qed

lemma upd_range_append_rev:
  assumes "length xs + length ys \<le> 2 ^ 64"
  shows "upd_range m a (xs @ ys) = upd_range (upd_range m (a + of_nat (length xs)) ys) a xs"
proof (cases "length xs = 2 ^ 64")
  case True
  with assms show ?thesis by simp
next
  case False
  show ?thesis
  proof (rule ext)
    fix x
    have *: "unat (x - (a + of_nat (length xs))) =
        (if length xs \<le> unat (x - a) then unat (x - a) - length xs
         else unat (x - a) + 2 ^ 64 - length xs)"
      using unat_minus_of_nat [of "length xs" "x - a"] assms False by (simp add: algebra_simps)
    with assms show "upd_range m a (xs @ ys) x =
        upd_range (upd_range m (a + of_nat (length xs)) ys) a xs x"
      unfolding upd_range_def by (auto simp: nth_append)
  qed
qed

lemma upd_range_take_drop:
  assumes "length xs \<le> 2 ^ 64" and "n \<le> length xs"
  shows "upd_range (upd_range m (a + of_nat n) (drop n xs)) a (take n xs) = upd_range m a xs"
  using upd_range_append_rev [of "take n xs" "drop n xs" m a] assms by simp

lemma take_drop_get_range:
  "j + n \<le> k \<Longrightarrow> take n (drop j (get_range m a k)) = get_range m (a + of_nat j) n"
  by (intro nth_equalityI) (auto simp: ac_simps)

lemma take_get_range: "n \<le> k \<Longrightarrow> take n (get_range m a k) = get_range m a n"
  using take_drop_get_range [of 0 n k m a] by simp

lemma get_upd_range_same:
  assumes "length bs \<le> 2 ^ 64" and "n = length bs"
  shows "get_range (upd_range m a bs) a n = bs"
  using assms by (intro nth_equalityI) (auto simp: upd_range_def)

lemma upd_range_id: "upd_range m a (get_range m a n) = m"
  by (rule ext) (simp add: upd_range_def)

text \<open>Two ranges that share no address.\<close>

definition range_disjoint :: "addr \<Rightarrow> nat \<Rightarrow> addr \<Rightarrow> nat \<Rightarrow> bool" where
  "range_disjoint a n b k \<longleftrightarrow> (\<forall>i < n. k \<le> unat (a + of_nat i - b))"

lemma get_upd_range_disjoint:
  "range_disjoint a n b (length bs) \<Longrightarrow> get_range (upd_range m b bs) a n = get_range m a n"
  by (intro nth_equalityI) (auto simp: upd_range_def range_disjoint_def)

lemma upd_range_splice:
  assumes "length bs + k \<le> n" and "n \<le> 2 ^ 64"
  shows "upd_range m a (take k (get_range m a n) @ bs @ drop (k + length bs) (get_range m a n))
    = upd_range m (a + of_nat k) bs"
proof (cases "k = 2 ^ 64")
  case True
  with assms have "length bs = 0" and "n = k" by linarith+
  then show ?thesis by (simp add: upd_range_id)
next
  case False
  have k: "k < 2 ^ 64" using assms False by linarith
  show ?thesis
  proof (rule ext)
    fix x
    have *: "unat (x - (a + of_nat k)) =
        (if k \<le> unat (x - a) then unat (x - a) - k else unat (x - a) + 2 ^ 64 - k)"
      using unat_minus_of_nat [OF k, of "x - a"] by (simp add: algebra_simps)
    have "unat (x - a) < 2 ^ 64"
      using unsigned_less [of "x - a"] by simp
    with assms k show "upd_range m a (take k (get_range m a n) @ bs
          @ drop (k + length bs) (get_range m a n)) x = upd_range m (a + of_nat k) bs x"
      unfolding upd_range_def by (auto simp: * nth_append min_def)
  qed
qed

section \<open>Characters and C strings\<close>

definition byte_of :: "char \<Rightarrow> u8" where
  "byte_of c = of_char c"

definition char_of_byte :: "u8 \<Rightarrow> char" where
  "char_of_byte b = char_of (unat b)"

definition bytes_of :: "string \<Rightarrow> u8 list" where
  "bytes_of cs = map byte_of cs"

definition string_of :: "u8 list \<Rightarrow> string" where
  "string_of bs = map char_of_byte bs"

text \<open>The string a \<open>char*\<close> points to: the characters before the first NUL of the object.\<close>

definition c_str :: "string \<Rightarrow> string" where
  "c_str s = takeWhile (\<lambda>c. c \<noteq> CHR 0x00) s"

text \<open>\<open>std::to_string\<close> and \<open>%d\<close> of a natural number.\<close>

fun to_dec :: "nat \<Rightarrow> string" where
  "to_dec n = (if n < 10 then [''0123456789'' ! n] else to_dec (n div 10) @ [''0123456789'' ! (n mod 10)])"

declare to_dec.simps [simp del]

lemma length_bytes_of [simp]: "length (bytes_of s) = length s"
  by (simp add: bytes_of_def)

lemma length_string_of [simp]: "length (string_of s) = length s"
  by (simp add: string_of_def)

lemma char_of_byte_of [simp]: "char_of_byte (byte_of c) = c"
proof -
  have "unat (of_nat (of_char c) :: u8) = (of_char c :: nat)"
    by (simp only: unsigned_of_nat) (simp add: take_bit_nat_def)
  then have "unat (of_char c :: u8) = (of_char c :: nat)"
    by (simp only: of_nat_of_char)
  then show ?thesis by (simp add: byte_of_def char_of_byte_def)
qed

lemma string_of_bytes_of [simp]: "string_of (bytes_of s) = s"
  by (simp add: string_of_def bytes_of_def comp_def)

section \<open>\<open>std::map\<close>\<close>

text \<open>An association list sorted by key; iteration visits the keys in increasing order.\<close>

fun smap_get :: "('k \<times> 'v) list \<Rightarrow> 'k \<Rightarrow> 'v option" where
  "smap_get [] k = None"
| "smap_get ((k', v) # m) k = (if k = k' then Some v else smap_get m k)"

fun smap_put :: "'k::linorder \<Rightarrow> 'v \<Rightarrow> ('k \<times> 'v) list \<Rightarrow> ('k \<times> 'v) list" where
  "smap_put k v [] = [(k, v)]"
| "smap_put k v ((k', v') # m) =
    (if k < k' then (k, v) # (k', v') # m
     else if k = k' then (k, v) # m
     else (k', v') # smap_put k v m)"

definition smap_inv :: "('k::linorder \<times> 'v) list \<Rightarrow> bool" where
  "smap_inv m \<longleftrightarrow> sorted (map fst m) \<and> distinct (map fst m)"

lemma smap_inv_Nil [simp]: "smap_inv []"
  by (simp add: smap_inv_def)

lemma smap_get_put [simp]:
  "smap_get (smap_put k v m) k' = (if k' = k then Some v else smap_get m k')"
  by (induction k v m rule: smap_put.induct) auto

lemma set_smap_put [simp]: "set (map fst (smap_put k v m)) = insert k (set (map fst m))"
  by (induction k v m rule: smap_put.induct) auto

lemma smap_inv_put [simp]: "smap_inv m \<Longrightarrow> smap_inv (smap_put k v m)"
  unfolding smap_inv_def
proof (induction k v m rule: smap_put.induct)
  case (2 k v k' v' m)
  then show ?case
    by (cases "k < k'"; cases "k = k'")
      (simp_all del: set_map add: set_smap_put, force+)
qed simp

end
