(* ===== verification/Memif.thy ===== *)
theory Memif
  imports Fesvr_Prelude
begin

text \<open>
  The memory interface of the front-end server, \<open>memif.cc\<close> and \<open>memif.h\<close>. \<open>memif_t\<close> turns reads
  and writes of any address and length into the chunk operations of an \<open>htif_t\<close>, here the record
  \<open>htif_ops\<close> of its virtual functions. The locale \<open>chunk_target\<close> states what those functions
  promise; inside it \<open>memif_t::read\<close> and \<open>memif_t::write\<close> are proved to read and update exactly
  the bytes asked for.
\<close>

section \<open>The chunk operations of a target\<close>

datatype rw_target = DMA | L2 | DDR | DMA_BURST

text \<open>
  The virtual functions of \<open>htif_t\<close>. \<open>read_chunk\<close> takes the contents of the
  destination buffer and returns its contents afterwards, so that a target which fills it only
  in part is told apart from one that fills it. \<open>junk\<close> is the content of an uninitialised local.
\<close>

record 't htif_ops =
  chunk_align :: nat
  chunk_max_size :: nat
  read_chunk :: "addr \<Rightarrow> u8 list \<Rightarrow> rw_target \<Rightarrow> ('t, u8 list) prog"
  write_chunk :: "addr \<Rightarrow> u8 list \<Rightarrow> rw_target \<Rightarrow> ('t, unit) prog"
  clear_chunk :: "addr \<Rightarrow> nat \<Rightarrow> ('t, unit) prog"
  reset :: "('t, unit) prog"
  idle :: "('t, unit) prog"
  junk :: "nat \<Rightarrow> u8"

definition uninit :: "'t htif_ops \<Rightarrow> nat \<Rightarrow> u8 list" where
  "uninit h n = map (junk h) [0..<n]"

lemma length_uninit [simp]: "length (uninit h n) = n"
  by (simp add: uninit_def)

text \<open>
  \<open>htif_t::clear_chunk\<close>, the default that no target overrides: zeros in steps of
  \<open>chunk_max_size\<close>, always to the default target \<open>L2\<close> whatever target it was given.
\<close>

function htif_clear_chunk ::
    "nat \<Rightarrow> (addr \<Rightarrow> u8 list \<Rightarrow> rw_target \<Rightarrow> ('t, unit) prog) \<Rightarrow> addr \<Rightarrow> nat \<Rightarrow> ('t, unit) prog" where
  "htif_clear_chunk mx wr a n =
    (if n = 0 then ret ()
     else if mx = 0 then raise Diverges
     else andThen (wr a (replicate (min n mx) 0) L2) (htif_clear_chunk mx wr (a + of_nat mx) (n - mx)))"
  by pat_completeness auto
termination
  by (relation "measure (\<lambda>(mx, wr, a, n). n)") auto

declare htif_clear_chunk.simps [simp del]

section \<open>Reading\<close>

text \<open>
  The loop that reads the aligned middle in steps of \<open>chunk_max_size\<close>. With a step of zero it
  never ends.
\<close>

function read_blocks :: "'t htif_ops \<Rightarrow> addr \<Rightarrow> u8 list \<Rightarrow> rw_target \<Rightarrow> ('t, u8 list) prog" where
  "read_blocks h a dst tgt =
    (if dst = [] then ret []
     else if chunk_max_size h = 0 then raise Diverges
     else bnd (read_chunk h a (take (chunk_max_size h) dst) tgt) (\<lambda>b.
          bnd (read_blocks h (a + of_nat (chunk_max_size h)) (drop (chunk_max_size h) dst) tgt) (\<lambda>bs.
          ret (b @ bs))))"
  by pat_completeness auto
termination
  by (relation "measure (\<lambda>(h, a, dst, tgt). length dst)") auto

declare read_blocks.simps [simp del]

text \<open>The unaligned bytes at the front, and how many there are.\<close>

definition read_head :: "'t htif_ops \<Rightarrow> addr \<Rightarrow> nat \<Rightarrow> rw_target \<Rightarrow> ('t, u8 list) prog" where
  "read_head h a len tgt =
    (let align = of_nat (chunk_align h) :: u64; off = a AND (align - 1) in
     if len \<noteq> 0 \<and> off \<noteq> 0 then
       bnd (read_chunk h (a AND NOT (align - 1)) (uninit h (chunk_align h)) tgt) (\<lambda>chunk.
         ret (take (min len (unat (align - off))) (drop (unat off) chunk)))
     else ret [])"

text \<open>The bytes of the last, partly used block.\<close>

definition tail_len :: "'t htif_ops \<Rightarrow> nat \<Rightarrow> nat" where
  "tail_len h len = unat ((of_nat len :: u64) AND (of_nat (chunk_align h) - 1))"

definition read_tail :: "'t htif_ops \<Rightarrow> addr \<Rightarrow> nat \<Rightarrow> rw_target \<Rightarrow> ('t, u8 list) prog" where
  "read_tail h a len tgt =
    (if tail_len h len \<noteq> 0 then
       bnd (read_chunk h (a + of_nat (len - tail_len h len)) (uninit h (chunk_align h)) tgt) (\<lambda>chunk.
         ret (take (tail_len h len) chunk))
     else ret [])"

text \<open>\<open>memif_t::read\<close>; an address below \<open>0x80000000\<close> is passed on unaligned.\<close>

definition memif_read :: "'t htif_ops \<Rightarrow> addr \<Rightarrow> u8 list \<Rightarrow> rw_target \<Rightarrow> ('t, u8 list) prog" where
  "memif_read h a dst tgt =
    (if 0x80000000 \<le> a then
       bnd (read_head h a (length dst) tgt) (\<lambda>hd.
         let a' = a + of_nat (length hd); dst' = drop (length hd) dst;
             start = length dst' - tail_len h (length dst') in
         bnd (read_tail h a' (length dst') tgt) (\<lambda>tl.
         bnd (read_blocks h a' (take start dst') tgt) (\<lambda>body.
         ret (hd @ body @ tl))))
     else read_blocks h a dst tgt)"

section \<open>Writing\<close>

function write_blocks :: "'t htif_ops \<Rightarrow> addr \<Rightarrow> u8 list \<Rightarrow> rw_target \<Rightarrow> ('t, unit) prog" where
  "write_blocks h a bs tgt =
    (if bs = [] then ret ()
     else if chunk_max_size h = 0 then raise Diverges
     else andThen (write_chunk h a (take (chunk_max_size h) bs) tgt)
            (write_blocks h (a + of_nat (chunk_max_size h)) (drop (chunk_max_size h) bs) tgt))"
  by pat_completeness auto
termination
  by (relation "measure (\<lambda>(h, a, bs, tgt). length bs)") auto

declare write_blocks.simps [simp del]

text \<open>
  Read-modify-write of the first and of the last block. Both return the number of bytes they
  disposed of.
\<close>

definition write_head :: "'t htif_ops \<Rightarrow> addr \<Rightarrow> u8 list \<Rightarrow> rw_target \<Rightarrow> ('t, nat) prog" where
  "write_head h a bs tgt =
    (let align = of_nat (chunk_align h) :: u64; off = a AND (align - 1); base = a AND NOT (align - 1);
         n = min (length bs) (unat (align - off)) in
     if bs \<noteq> [] \<and> off \<noteq> 0 then
       bnd (read_chunk h base (uninit h (chunk_align h)) tgt) (\<lambda>chunk.
       bnd (write_chunk h base
              (take (unat off) chunk @ take n bs @ drop (unat off + n) chunk) tgt) (\<lambda>_.
       ret n))
     else ret 0)"

definition write_tail :: "'t htif_ops \<Rightarrow> addr \<Rightarrow> u8 list \<Rightarrow> rw_target \<Rightarrow> ('t, nat) prog" where
  "write_tail h a bs tgt =
    (let n = tail_len h (length bs); start = length bs - n in
     if n \<noteq> 0 then
       bnd (read_chunk h (a + of_nat start) (uninit h (chunk_align h)) tgt) (\<lambda>chunk.
       bnd (write_chunk h (a + of_nat start) (drop start bs @ drop n chunk) tgt) (\<lambda>_.
       ret n))
     else ret 0)"

text \<open>
  The last step of \<open>memif_t::write\<close>: \<open>all_zero\<close> is computed and then overwritten with \<open>0\<close>, so
  \<open>clear_chunk\<close> is never called.
\<close>

definition write_middle :: "'t htif_ops \<Rightarrow> addr \<Rightarrow> u8 list \<Rightarrow> rw_target \<Rightarrow> ('t, unit) prog" where
  "write_middle h a bs tgt =
    (let all_zero = (bs \<noteq> [] \<and> list_all (\<lambda>b. b = 0) bs);
         all_zero = False in
     if all_zero then clear_chunk h a (length bs) else write_blocks h a bs tgt)"

definition memif_write :: "'t htif_ops \<Rightarrow> addr \<Rightarrow> u8 list \<Rightarrow> rw_target \<Rightarrow> ('t, unit) prog" where
  "memif_write h a bs tgt =
    (if 0x80000000 \<le> a then
       bnd (write_head h a bs tgt) (\<lambda>n.
         let a' = a + of_nat n; bs' = drop n bs in
         bnd (write_tail h a' bs' tgt) (\<lambda>t.
         write_middle h a' (take (length bs' - t) bs') tgt))
     else write_middle h a bs tgt)"

section \<open>Integers in memory\<close>

text \<open>
  \<open>MEMIF_READ_FUNC\<close> and \<open>MEMIF_WRITE_FUNC\<close> for an integer of \<open>n\<close> bytes; the transfer uses the
  default target \<open>DMA\<close> of \<open>memif.h\<close>.
\<close>

definition memif_read_func :: "'t htif_ops \<Rightarrow> nat \<Rightarrow> addr \<Rightarrow> ('t, 'a::len word) prog" where
  "memif_read_func h n a =
    (if a AND (of_nat n - 1) \<noteq> 0 then raise (Runtime_error ''misaligned address'')
     else bnd (memif_read h a (uninit h n) DMA) (\<lambda>bs. ret (le_word bs)))"

definition memif_write_func :: "'t htif_ops \<Rightarrow> nat \<Rightarrow> addr \<Rightarrow> 'a::len word \<Rightarrow> ('t, unit) prog" where
  "memif_write_func h n a v =
    (if a AND (of_nat n - 1) \<noteq> 0 then raise (Runtime_error ''misaligned address'')
     else memif_write h a (le_bytes n v) DMA)"

text \<open>
  The accessors. The signed ones move the same bytes; their value is the word read with \<open>sint\<close>.
  \<open>write_uint64\<close> is the exception: it skips the alignment check and the blocking, and goes to
  \<open>write_chunk\<close> with the default target \<open>L2\<close> of \<open>htif.h\<close>.
\<close>

definition read_uint8 :: "'t htif_ops \<Rightarrow> addr \<Rightarrow> ('t, u8) prog" where
  "read_uint8 h a = memif_read_func h 1 a"
definition read_int8 :: "'t htif_ops \<Rightarrow> addr \<Rightarrow> ('t, int) prog" where
  "read_int8 h a = bnd (memif_read_func h 1 a) (\<lambda>v :: u8. ret (sint v))"
definition write_uint8 :: "'t htif_ops \<Rightarrow> addr \<Rightarrow> u8 \<Rightarrow> ('t, unit) prog" where
  "write_uint8 h a v = memif_write_func h 1 a v"
definition write_int8 :: "'t htif_ops \<Rightarrow> addr \<Rightarrow> int \<Rightarrow> ('t, unit) prog" where
  "write_int8 h a v = memif_write_func h 1 a (of_int v :: u8)"

definition read_uint16 :: "'t htif_ops \<Rightarrow> addr \<Rightarrow> ('t, u16) prog" where
  "read_uint16 h a = memif_read_func h 2 a"
definition read_int16 :: "'t htif_ops \<Rightarrow> addr \<Rightarrow> ('t, int) prog" where
  "read_int16 h a = bnd (memif_read_func h 2 a) (\<lambda>v :: u16. ret (sint v))"
definition write_uint16 :: "'t htif_ops \<Rightarrow> addr \<Rightarrow> u16 \<Rightarrow> ('t, unit) prog" where
  "write_uint16 h a v = memif_write_func h 2 a v"
definition write_int16 :: "'t htif_ops \<Rightarrow> addr \<Rightarrow> int \<Rightarrow> ('t, unit) prog" where
  "write_int16 h a v = memif_write_func h 2 a (of_int v :: u16)"

definition read_uint32 :: "'t htif_ops \<Rightarrow> addr \<Rightarrow> ('t, u32) prog" where
  "read_uint32 h a = memif_read_func h 4 a"
definition read_int32 :: "'t htif_ops \<Rightarrow> addr \<Rightarrow> ('t, int) prog" where
  "read_int32 h a = bnd (memif_read_func h 4 a) (\<lambda>v :: u32. ret (sint v))"
definition write_uint32 :: "'t htif_ops \<Rightarrow> addr \<Rightarrow> u32 \<Rightarrow> ('t, unit) prog" where
  "write_uint32 h a v = memif_write_func h 4 a v"
definition write_int32 :: "'t htif_ops \<Rightarrow> addr \<Rightarrow> int \<Rightarrow> ('t, unit) prog" where
  "write_int32 h a v = memif_write_func h 4 a (of_int v :: u32)"

definition read_uint64 :: "'t htif_ops \<Rightarrow> addr \<Rightarrow> ('t, u64) prog" where
  "read_uint64 h a = memif_read_func h 8 a"
definition read_int64 :: "'t htif_ops \<Rightarrow> addr \<Rightarrow> ('t, int) prog" where
  "read_int64 h a = bnd (memif_read_func h 8 a) (\<lambda>v :: u64. ret (sint v))"
definition write_uint64 :: "'t htif_ops \<Rightarrow> addr \<Rightarrow> u64 \<Rightarrow> ('t, unit) prog" where
  "write_uint64 h a v = write_chunk h a (le_bytes 8 v) L2"
definition write_int64 :: "'t htif_ops \<Rightarrow> addr \<Rightarrow> int \<Rightarrow> ('t, unit) prog" where
  "write_int64 h a v = memif_write_func h 8 a (of_int v :: u64)"

section \<open>Alignment\<close>

lemma and_not_mask_eq: "a AND NOT (mask k) = a - take_bit k (a :: u64)"
proof -
  have "a AND NOT (mask k) = push_bit k (drop_bit k a)"
    by (rule bit_word_eqI) (auto simp: bit_simps)
  then show ?thesis
    using bits_ident [of k a] by (simp add: algebra_simps)
qed

lemma take_bit_add_mult:
  assumes "2 ^ k dvd n" and "k \<le> 64"
  shows "take_bit k (a + of_nat n :: u64) = take_bit k a"
proof (rule word_unat_eq_iff [THEN iffD2])
  have d: "2 ^ k dvd (18446744073709551616 :: nat)"
    using le_imp_power_dvd [OF assms(2), of "2 :: nat"] by simp
  have "unat (take_bit k (a + of_nat n)) = (unat a + n mod 2 ^ 64) mod 2 ^ 64 mod 2 ^ k"
    by (simp add: unsigned_take_bit_eq unat_word_ariths unat_of_nat take_bit_nat_def)
  also have "\<dots> = (unat a + n) mod 2 ^ k"
    by (simp add: mod_mod_cancel [OF d] mod_add_right_eq)
  also have "\<dots> = unat a mod 2 ^ k"
    using assms(1) by (auto elim!: dvdE)
  finally show "unat (take_bit k (a + of_nat n)) = unat (take_bit k a)"
    by (simp add: unsigned_take_bit_eq take_bit_nat_def)
qed

lemma take_bit_base: "take_bit k (a - take_bit k (a :: u64)) = 0"
  by (auto intro!: bit_word_eqI simp: bit_simps simp flip: and_not_mask_eq)

lemma drop_bit_base: "drop_bit k (a - take_bit k (a :: u64)) = drop_bit k a"
  using bit_imp_le_length [of a] by (auto intro!: bit_word_eqI simp: bit_simps simp flip: and_not_mask_eq)

lemma add_in_block:
  fixes a :: u64
  assumes "take_bit k a = 0" and "i < 2 ^ k"
  shows "drop_bit k (a + of_nat i) = drop_bit k a" and "take_bit k (a + of_nat i) = of_nat i"
proof -
  have b: "\<not> bit i j" if "k \<le> j" for j
  proof -
    have "i = take_bit k i"
      using assms(2) by (simp add: take_bit_nat_eq_self)
    with that show ?thesis by (metis bit_take_bit_iff not_le)
  qed
  have c: "\<not> bit a j" if "j < k" for j
    using assms(1) that by (metis bit_0_eq bit_take_bit_iff bot_apply bot_bool_def)
  have "a + of_nat i = a OR of_nat i"
  proof (rule disjunctive_add_eq_or, rule bit_word_eqI)
    fix n show "bit (a AND of_nat i) n \<longleftrightarrow> bit (0 :: u64) n"
      using b [of n] c [of n] by (cases "n < k") (auto simp: bit_simps)
  qed
  then show "drop_bit k (a + of_nat i) = drop_bit k a" and "take_bit k (a + of_nat i) = of_nat i"
    using bit_imp_le_length [of a] b c by (auto intro!: bit_word_eqI simp: bit_simps not_less)
qed

lemma in_block_iff:
  fixes a x :: u64
  assumes "take_bit k a = 0" and "k < 64"
  shows "drop_bit k x = drop_bit k a \<longleftrightarrow> unat (x - a) < 2 ^ k"
    and "drop_bit k x = drop_bit k a \<Longrightarrow> take_bit k x = x - a"
proof -
  have id: "push_bit k (drop_bit k x) + take_bit k x = x" "push_bit k (drop_bit k a) = a"
    using bits_ident [of k x] bits_ident [of k a] assms(1) by simp_all
  show tb: "take_bit k x = x - a" if "drop_bit k x = drop_bit k a"
    using id that by (simp add: algebra_simps)
  show "drop_bit k x = drop_bit k a \<longleftrightarrow> unat (x - a) < 2 ^ k"
  proof
    assume "drop_bit k x = drop_bit k a"
    with tb show "unat (x - a) < 2 ^ k"
      by (metis take_bit_nat_less_exp unsigned_take_bit_eq)
  next
    assume "unat (x - a) < 2 ^ k"
    then show "drop_bit k x = drop_bit k a"
      using add_in_block(1) [OF assms(1), of "unat (x - a)"] by simp
  qed
qed

lemma take_bit_diff_0:
  assumes "take_bit k a = 0" and "take_bit k b = (0 :: u64)"
  shows "take_bit k (a - b) = 0"
proof -
  have "a = push_bit k (drop_bit k a)" and "b = push_bit k (drop_bit k b)"
    using bits_ident [of k a] bits_ident [of k b] assms by simp_all
  then have "a - b = push_bit k (drop_bit k a - drop_bit k b)"
    by (simp add: push_bit_eq_mult left_diff_distrib)
  then show ?thesis by (simp add: take_bit_push_bit)
qed

lemma drop_bit_diff_aligned:
  fixes b x y :: u64
  assumes "take_bit k b = 0" and "drop_bit k x = drop_bit k y"
  shows "drop_bit k (x - b) = drop_bit k (y - b)"
proof -
  let ?a = "push_bit k (drop_bit k x)"
  have al: "take_bit k (?a - b) = 0"
    by (rule take_bit_diff_0) (simp_all add: assms(1) take_bit_push_bit)
  have "drop_bit k (z - b) = drop_bit k (?a - b)" if "drop_bit k z = drop_bit k x" for z
  proof -
    have "unat (take_bit k z) < 2 ^ k"
      by (simp add: unsigned_take_bit_eq take_bit_nat_def)
    moreover have "z - b = (?a - b) + of_nat (unat (take_bit k z))"
      using bits_ident [of k z] that by (simp add: algebra_simps)
    ultimately show ?thesis
      using add_in_block(1) [OF al] by metis
  qed
  with assms(2) show ?thesis by metis
qed

lemma align_mask [simp]: "(2 ^ k :: u64) - 1 = mask k"
  by (simp add: mask_eq_exp_minus_1)

section \<open>The contract of a chunk target\<close>

text \<open>
  What a class derived from \<open>htif_t\<close> owes \<open>memif_t\<close>: its block size is a power of two that
  divides its largest transfer, and an aligned transfer of whole blocks, no longer than that and
  inside the addresses it serves, reads or updates exactly those bytes of the memory \<open>mem\<close> that
  the state stands for.
\<close>

locale chunk_target =
  fixes h :: "'t htif_ops"
    and tgt :: rw_target
    and k :: nat
    and inv :: "'t \<Rightarrow> bool"
    and mem :: "'t \<Rightarrow> memory"
    and ok :: "addr \<Rightarrow> bool"
  assumes align_pow: "chunk_align h = 2 ^ k"
    and align_bound: "k < 64"
    and max_mult: "2 ^ k dvd chunk_max_size h"
    and max_pos: "0 < chunk_max_size h"
    and ok_block: "ok x \<Longrightarrow> drop_bit k x = drop_bit k y \<Longrightarrow> ok y"
    and read_law: "\<lbrakk>inv s; take_bit k a = 0; 2 ^ k dvd length dst; dst \<noteq> [];
        length dst \<le> chunk_max_size h; \<forall>i < length dst. ok (a + of_nat i)\<rbrakk>
      \<Longrightarrow> \<exists>s'. read_chunk h a dst tgt s = (Inr (get_range (mem s) a (length dst)), s')
          \<and> inv s' \<and> mem s' = mem s"
    and write_law: "\<lbrakk>inv s; take_bit k a = 0; 2 ^ k dvd length bs; bs \<noteq> [];
        length bs \<le> chunk_max_size h; \<forall>i < length bs. ok (a + of_nat i)\<rbrakk>
      \<Longrightarrow> \<exists>s'. write_chunk h a bs tgt s = (Inr (), s')
          \<and> inv s' \<and> mem s' = upd_range (mem s) a bs"
begin

lemma read_blocks_law:
  assumes "inv s" and "take_bit k a = 0" and "2 ^ k dvd length dst"
    and "\<forall>i < length dst. ok (a + of_nat i)"
  shows "\<exists>s'. read_blocks h a dst tgt s = (Inr (get_range (mem s) a (length dst)), s')
    \<and> inv s' \<and> mem s' = mem s"
  using assms
proof (induction "length dst" arbitrary: a dst s rule: less_induct)
  case less
  let ?m = "chunk_max_size h"
  show ?case
  proof (cases "dst = []")
    case True
    with less.prems show ?thesis by (simp add: read_blocks.simps)
  next
    case False
    have dvd: "2 ^ k dvd min (length dst) ?m"
      using less.prems(3) max_mult by (simp add: min_def)
    obtain s1 where s1: "read_chunk h a (take ?m dst) tgt s
          = (Inr (get_range (mem s) a (min (length dst) ?m)), s1)" "inv s1" "mem s1 = mem s"
      using read_law [of s a "take ?m dst"] dvd less.prems False max_pos by auto
    have "inv s1 \<and> take_bit k (a + of_nat ?m) = 0 \<and> 2 ^ k dvd length (drop ?m dst) \<and>
        (\<forall>i < length (drop ?m dst). ok (a + of_nat ?m + of_nat i))"
      using less.prems max_mult align_bound s1(2)
      by (simp add: take_bit_add_mult add.assoc flip: of_nat_add)
    moreover have "length (drop ?m dst) < length dst"
      using False max_pos by simp
    ultimately obtain s2 where s2: "read_blocks h (a + of_nat ?m) (drop ?m dst) tgt s1
          = (Inr (get_range (mem s1) (a + of_nat ?m) (length dst - ?m)), s2)"
        "inv s2" "mem s2 = mem s1"
      using less.hyps [of "drop ?m dst" s1 "a + of_nat ?m"] by auto
    have "get_range (mem s) a (length dst) = get_range (mem s) a (min (length dst) ?m)
        @ get_range (mem s) (a + of_nat ?m) (length dst - ?m)"
      by (cases "?m \<le> length dst")
        (simp_all add: min_def get_range_split [of ?m "length dst"])
    with s1 s2 False max_pos show ?thesis
      by (subst read_blocks.simps) (simp add: bnd_Inr)
  qed
qed

lemma write_blocks_law:
  assumes "inv s" and "take_bit k a = 0" and "2 ^ k dvd length bs"
    and "\<forall>i < length bs. ok (a + of_nat i)" and "length bs \<le> 2 ^ 64"
  shows "\<exists>s'. write_blocks h a bs tgt s = (Inr (), s') \<and> inv s' \<and> mem s' = upd_range (mem s) a bs"
  using assms
proof (induction "length bs" arbitrary: a bs s rule: less_induct)
  case less
  let ?m = "chunk_max_size h"
  show ?case
  proof (cases "bs = []")
    case True
    with less.prems show ?thesis by (simp add: write_blocks.simps)
  next
    case False
    have dvd: "2 ^ k dvd min (length bs) ?m"
      using less.prems(3) max_mult by (simp add: min_def)
    obtain s1 where s1: "write_chunk h a (take ?m bs) tgt s = (Inr (), s1)" "inv s1"
        "mem s1 = upd_range (mem s) a (take ?m bs)"
      using write_law [of s a "take ?m bs"] dvd less.prems False max_pos by auto
    have "inv s1 \<and> take_bit k (a + of_nat ?m) = 0 \<and> 2 ^ k dvd length (drop ?m bs) \<and>
        (\<forall>i < length (drop ?m bs). ok (a + of_nat ?m + of_nat i))"
      using less.prems max_mult align_bound s1(2)
      by (simp add: take_bit_add_mult add.assoc flip: of_nat_add)
    moreover have "length (drop ?m bs) < length bs" and "length (drop ?m bs) \<le> 2 ^ 64"
      using False max_pos less.prems(5) by auto
    ultimately obtain s2 where s2: "write_blocks h (a + of_nat ?m) (drop ?m bs) tgt s1 = (Inr (), s2)"
        "inv s2" "mem s2 = upd_range (mem s1) (a + of_nat ?m) (drop ?m bs)"
      using less.hyps [of "drop ?m bs" s1 "a + of_nat ?m"] by auto
    have "mem s2 = upd_range (mem s) a bs"
    proof (cases "?m \<le> length bs")
      case True
      then show ?thesis
        using upd_range_append [of "take ?m bs" "drop ?m bs" "mem s" a] less.prems(5) s1 s2 by simp
    next
      case False
      then show ?thesis using s1 s2 by simp
    qed
    with s1 s2 False max_pos show ?thesis
      by (subst write_blocks.simps) (simp add: andThen_Inr)
  qed
qed

lemma of_nat_align [simp]: "of_nat (chunk_align h) - 1 = (mask k :: u64)"
  by (simp add: align_pow)

lemma tail_len_eq: "tail_len h n = n mod 2 ^ k"
proof -
  have d: "2 ^ k dvd (18446744073709551616 :: nat)"
    using le_imp_power_dvd [of k 64 "2 :: nat"] align_bound by simp
  have "tail_len h n = unat (take_bit k (of_nat n :: u64))"
    by (simp add: tail_len_def take_bit_eq_mask)
  then show ?thesis
    by (simp add: unsigned_take_bit_eq take_bit_nat_def unat_of_nat mod_mod_cancel [OF d])
qed

definition head_len :: "addr \<Rightarrow> nat \<Rightarrow> nat" where
  "head_len a n = (if take_bit k a = 0 then 0 else min n (2 ^ k - unat (take_bit k a)))"

lemma off_less: "unat (take_bit k (a :: u64)) < 2 ^ k"
  by (simp add: unsigned_take_bit_eq take_bit_nat_def)

lemma unat_align: "unat (2 ^ k - take_bit k (a :: u64)) = 2 ^ k - unat (take_bit k a)"
proof -
  have "unat (2 ^ k :: u64) = 2 ^ k"
    using unat_of_nat_u64 [of "2 ^ k"] power_strict_increasing [OF align_bound, of "2 :: nat"] by simp
  with off_less [of a] show ?thesis
    by (simp add: unat_sub word_le_nat_alt)
qed

lemma aligned_after_head:
  assumes "head_len a n < n"
  shows "take_bit k (a + of_nat (head_len a n)) = 0"
proof (cases "take_bit k a = 0")
  case True
  then show ?thesis by (simp add: head_len_def)
next
  case False
  with assms have n: "head_len a n = 2 ^ k - unat (take_bit k a)"
    by (auto simp: head_len_def min_def split: if_splits)
  have "a + of_nat (head_len a n) = (a - take_bit k a) + of_nat (2 ^ k)"
    using off_less [of a] by (simp add: n of_nat_diff)
  then show ?thesis
    using align_bound take_bit_base [of k a] by (metis dvd_refl less_imp_le take_bit_add_mult)
qed

lemma head_block_ok:
  assumes "ok a" and "i < 2 ^ k"
  shows "ok (a - take_bit k a + of_nat i)"
  using ok_block [OF assms(1)] add_in_block(1) [OF take_bit_base assms(2)] drop_bit_base by metis

lemma read_head_law:
  assumes "inv s" and "\<forall>i < n. ok (a + of_nat i)"
  shows "\<exists>s'. read_head h a n tgt s = (Inr (get_range (mem s) a (head_len a n)), s')
    \<and> inv s' \<and> mem s' = mem s"
proof (cases "n \<noteq> 0 \<and> take_bit k a \<noteq> 0")
  case False
  with assms(1) show ?thesis
    by (auto simp: read_head_def head_len_def Let_def simp flip: take_bit_eq_mask)
next
  case True
  let ?t = "take_bit k a"
  have "ok a"
    using True assms(2) by force
  then obtain s' where s': "read_chunk h (a - ?t) (uninit h (2 ^ k)) tgt s
        = (Inr (get_range (mem s) (a - ?t) (2 ^ k)), s')" "inv s'" "mem s' = mem s"
    using read_law [of s "a - ?t" "uninit h (2 ^ k)"] assms(1) take_bit_base head_block_ok
      dvd_imp_le [OF max_mult max_pos] by (auto simp flip: length_greater_0_conv)
  have "take (min n (2 ^ k - unat ?t)) (drop (unat ?t) (get_range (mem s) (a - ?t) (2 ^ k)))
      = get_range (mem s) a (head_len a n)"
    using True off_less [of a] by (subst take_drop_get_range) (auto simp: head_len_def)
  with True s' show ?thesis
    by (simp add: read_head_def Let_def align_pow and_not_mask_eq bnd_Inr unat_align flip: take_bit_eq_mask)
qed

lemma block_ok:
  assumes "take_bit k a = 0" and "ok a" and "i < 2 ^ k"
  shows "ok (a + of_nat i)"
  using head_block_ok [of a i] assms by simp

lemma uninit_align [simp]: "uninit h (2 ^ k) \<noteq> []"
  by (simp flip: length_greater_0_conv)

lemma one_block_read:
  assumes "inv s" and "take_bit k a = 0" and "ok a"
  shows "\<exists>s'. read_chunk h a (uninit h (2 ^ k)) tgt s = (Inr (get_range (mem s) a (2 ^ k)), s')
    \<and> inv s' \<and> mem s' = mem s"
  using read_law [of s a "uninit h (2 ^ k)"] assms block_ok dvd_imp_le [OF max_mult max_pos] by simp

lemma one_block_write:
  assumes "inv s" and "take_bit k a = 0" and "ok a" and "length bs = 2 ^ k"
  shows "\<exists>s'. write_chunk h a bs tgt s = (Inr (), s') \<and> inv s' \<and> mem s' = upd_range (mem s) a bs"
proof -
  have "bs \<noteq> []" using assms(4) by auto
  then show ?thesis
    using write_law [of s a bs] assms block_ok dvd_imp_le [OF max_mult max_pos] by simp
qed

lemma start_mult: "2 ^ k dvd (n :: nat) - n mod 2 ^ k"
  by (rule dvd_minus_mod)

lemma read_tail_law:
  assumes "inv s" and "take_bit k a = 0 \<or> n = 0" and "\<forall>i < n. ok (a + of_nat i)"
  shows "\<exists>s'. read_tail h a n tgt s
      = (Inr (get_range (mem s) (a + of_nat (n - n mod 2 ^ k)) (n mod 2 ^ k)), s')
    \<and> inv s' \<and> mem s' = mem s"
proof (cases "n mod 2 ^ k = 0")
  case True
  with assms(1) show ?thesis by (simp add: read_tail_def tail_len_eq)
next
  case False
  let ?b = "a + of_nat (n - n mod 2 ^ k)"
  have "ok ?b"
    using assms(3) False by (metis diff_less gr0I mod_0)
  moreover have "take_bit k ?b = 0"
    using assms(2) False align_bound take_bit_add_mult [OF start_mult, of a n] by auto
  ultimately obtain s' where "read_chunk h ?b (uninit h (2 ^ k)) tgt s
      = (Inr (get_range (mem s) ?b (2 ^ k)), s')" "inv s'" "mem s' = mem s"
    using one_block_read assms(1) by blast
  with False show ?thesis
    by (simp add: read_tail_def tail_len_eq align_pow bnd_Inr take_get_range less_imp_le)
qed

text \<open>
  \<open>memif_t::read\<close> fills the buffer with the bytes of the range, for every length and every
  address that is cacheable, and for whole aligned blocks below \<open>0x80000000\<close>.
\<close>

lemma memif_read_law:
  assumes i: "inv s" and a: "0x80000000 \<le> a \<or> take_bit k a = 0 \<and> 2 ^ k dvd length dst"
    and ok: "\<forall>i < length dst. ok (a + of_nat i)"
  shows "\<exists>s'. memif_read h a dst tgt s = (Inr (get_range (mem s) a (length dst)), s')
    \<and> inv s' \<and> mem s' = mem s"
proof (cases "0x80000000 \<le> a")
  case False
  with assms show ?thesis by (simp add: memif_read_def read_blocks_law)
next
  case True
  let ?n = "head_len a (length dst)" and ?m = "mem s"
  let ?a = "a + of_nat ?n" and ?l = "length dst - head_len a (length dst)"
  let ?t = "?l mod 2 ^ k"
  obtain s1 where 1: "read_head h a (length dst) tgt s = (Inr (get_range ?m a ?n), s1)"
      "inv s1" "mem s1 = ?m"
    using read_head_law [OF i ok] by blast
  have n: "?n \<le> length dst"
    by (simp add: head_len_def)
  have al: "take_bit k ?a = 0 \<or> ?l = 0"
    using aligned_after_head [of a "length dst"] by linarith
  have ok': "\<forall>i < ?l. ok (?a + of_nat i)"
    using ok n by (auto simp: add.assoc simp flip: of_nat_add)
  obtain s2 where 2: "read_tail h ?a ?l tgt s1
      = (Inr (get_range ?m (?a + of_nat (?l - ?t)) ?t), s2)" "inv s2" "mem s2 = ?m"
    using read_tail_law [OF 1(2) al ok'] 1(3) by auto
  obtain s3 where 3: "read_blocks h ?a (take (?l - ?t) (drop ?n dst)) tgt s2
      = (Inr (get_range ?m ?a (?l - ?t)), s3)" "inv s3" "mem s3 = ?m"
  proof (cases "?l = 0")
    case True
    then show ?thesis
      using that [of s2] 2 by (simp add: read_blocks.simps)
  next
    case False
    then show ?thesis
      using that read_blocks_law [OF 2(2), of ?a "take (?l - ?t) (drop ?n dst)"] al ok'
        start_mult [of ?l] 2(3) by auto
  qed
  have "get_range ?m a (length dst) = get_range ?m a ?n @ get_range ?m ?a (?l - ?t)
      @ get_range ?m (?a + of_nat (?l - ?t)) ?t"
    using get_range_split [OF n, of ?m a] get_range_split [of "?l - ?t" ?l ?m ?a]
    by (simp only: diff_diff_cancel diff_le_self mod_less_eq_dividend)
  with 1 2 3 True show ?thesis
    by (simp add: memif_read_def bnd_Inr tail_len_eq Let_def)
qed

lemma write_head_law:
  assumes "inv s" and "\<forall>i < length bs. ok (a + of_nat i)"
  shows "\<exists>s'. write_head h a bs tgt s = (Inr (head_len a (length bs)), s')
    \<and> inv s' \<and> mem s' = upd_range (mem s) a (take (head_len a (length bs)) bs)"
proof (cases "bs \<noteq> [] \<and> take_bit k a \<noteq> 0")
  case False
  with assms(1) show ?thesis
    by (auto simp: write_head_def head_len_def Let_def simp flip: take_bit_eq_mask)
next
  case True
  let ?t = "take_bit k a" and ?n = "head_len a (length bs)"
  let ?new = "take (unat ?t) (get_range (mem s) (a - ?t) (2 ^ k)) @ take ?n bs
    @ drop (unat ?t + ?n) (get_range (mem s) (a - ?t) (2 ^ k))"
  have "ok a"
    using True assms(2) by force
  then have okb: "ok (a - ?t)"
    using head_block_ok [of a 0] by simp
  have n: "?n = min (length bs) (2 ^ k - unat ?t)"
    using True by (simp add: head_len_def)
  obtain s1 where 1: "read_chunk h (a - ?t) (uninit h (2 ^ k)) tgt s
        = (Inr (get_range (mem s) (a - ?t) (2 ^ k)), s1)" "inv s1" "mem s1 = mem s"
    using one_block_read [OF assms(1) take_bit_base okb] by blast
  have "length ?new = 2 ^ k"
    using n off_less [of a] by auto
  then obtain s2 where 2: "write_chunk h (a - ?t) ?new tgt s1 = (Inr (), s2)" "inv s2"
      "mem s2 = upd_range (mem s1) (a - ?t) ?new"
    using one_block_write [OF 1(2) take_bit_base okb] by blast
  have "mem s2 = upd_range (mem s) a (take ?n bs)"
    using upd_range_splice [of "take ?n bs" "unat ?t" "2 ^ k" "mem s" "a - ?t"] n off_less [of a]
      align_bound power_increasing [of k 64 "2 :: nat"] 1(3) 2(3) by simp
  with True 1 2 n show ?thesis
    by (simp add: write_head_def Let_def align_pow and_not_mask_eq bnd_Inr unat_align
        flip: take_bit_eq_mask)
qed

lemma write_tail_law:
  assumes "inv s" and "take_bit k a = 0 \<or> bs = []" and "\<forall>i < length bs. ok (a + of_nat i)"
  shows "\<exists>s'. write_tail h a bs tgt s = (Inr (length bs mod 2 ^ k), s') \<and> inv s'
    \<and> mem s' = upd_range (mem s) (a + of_nat (length bs - length bs mod 2 ^ k))
        (drop (length bs - length bs mod 2 ^ k) bs)"
proof (cases "length bs mod 2 ^ k = 0")
  case True
  with assms(1) show ?thesis by (simp add: write_tail_def tail_len_eq)
next
  case False
  let ?n = "length bs mod 2 ^ k"
  let ?d = "drop (length bs - ?n) bs" and ?b = "a + of_nat (length bs - ?n)"
  let ?new = "?d @ drop ?n (get_range (mem s) ?b (2 ^ k))"
  have okb: "ok ?b"
    using assms(3) False by (metis diff_less gr0I mod_0)
  have al: "take_bit k ?b = 0"
    using assms(2) False align_bound take_bit_add_mult [OF start_mult, of a "length bs"] by auto
  obtain s1 where 1: "read_chunk h ?b (uninit h (2 ^ k)) tgt s
      = (Inr (get_range (mem s) ?b (2 ^ k)), s1)" "inv s1" "mem s1 = mem s"
    using one_block_read [OF assms(1) al okb] by blast
  have lt: "?n < 2 ^ k" and len: "length ?d = ?n"
    by simp_all
  then obtain s2 where 2: "write_chunk h ?b ?new tgt s1 = (Inr (), s2)" "inv s2"
      "mem s2 = upd_range (mem s1) ?b ?new"
    using one_block_write [OF 1(2) al okb, of ?new] by auto
  have "mem s2 = upd_range (mem s) ?b ?d"
    using upd_range_splice [of ?d 0 "2 ^ k" "mem s" ?b] lt len
      align_bound power_increasing [of k 64 "2 :: nat"] 1(3) 2(3) by simp
  with False 1 2 show ?thesis
    by (simp add: write_tail_def tail_len_eq align_pow bnd_Inr Let_def)
qed

text \<open>
  \<open>memif_t::write\<close> updates exactly the bytes of the range: the read-modify-write of the first and
  last block puts every other byte back.
\<close>

lemma memif_write_law:
  assumes i: "inv s" and a: "0x80000000 \<le> a \<or> take_bit k a = 0 \<and> 2 ^ k dvd length bs"
    and ok: "\<forall>i < length bs. ok (a + of_nat i)" and len: "length bs \<le> 2 ^ 64"
  shows "\<exists>s'. memif_write h a bs tgt s = (Inr (), s') \<and> inv s' \<and> mem s' = upd_range (mem s) a bs"
proof (cases "0x80000000 \<le> a")
  case False
  with assms show ?thesis by (simp add: memif_write_def write_middle_def write_blocks_law)
next
  case True
  let ?n = "head_len a (length bs)"
  let ?a = "a + of_nat ?n" and ?bs = "drop ?n bs"
  let ?l = "length bs - ?n" and ?h = "take ?n bs"
  let ?u = "?l - ?l mod 2 ^ k"
  obtain s1 where 1: "write_head h a bs tgt s = (Inr ?n, s1)" "inv s1"
      "mem s1 = upd_range (mem s) a ?h"
    using write_head_law [OF i ok] by blast
  have n: "?n \<le> length bs"
    by (simp add: head_len_def)
  have al: "take_bit k ?a = 0 \<or> ?l = 0"
    using aligned_after_head [of a "length bs"] by linarith
  have ok': "\<forall>i < ?l. ok (?a + of_nat i)"
    using ok n by (auto simp: add.assoc simp flip: of_nat_add)
  obtain s2 where 2: "write_tail h ?a ?bs tgt s1 = (Inr (?l mod 2 ^ k), s2)" "inv s2"
      "mem s2 = upd_range (mem s1) (?a + of_nat ?u) (drop ?u ?bs)"
    using write_tail_law [OF 1(2), of ?a ?bs] al ok' by auto
  have sh: "length (take ?u ?bs) \<le> 2 ^ 64"
    by (rule order.trans [OF _ len]) simp
  obtain s3 where 3: "write_blocks h ?a (take ?u ?bs) tgt s2 = (Inr (), s3)" "inv s3"
      "mem s3 = upd_range (mem s2) ?a (take ?u ?bs)"
  proof (cases "?l = 0")
    case True
    then show ?thesis
      using that [of s2] 2 by (simp add: write_blocks.simps)
  next
    case False
    then show ?thesis
      using that write_blocks_law [OF 2(2), of ?a "take ?u ?bs"] al ok' start_mult [of ?l] sh
      by auto
  qed
  have "mem s3 = upd_range (mem s1) ?a ?bs"
    unfolding 3(3) 2(3) by (rule upd_range_take_drop) (use len in simp_all)
  also have "\<dots> = upd_range (mem s) a bs"
    using upd_range_append [of ?h ?bs "mem s" a] len 1(3) n by simp
  finally show ?thesis
    using 1 2 3 True by (simp add: memif_write_def write_middle_def bnd_Inr Let_def)
qed

text \<open>What a write followed by a read returns, for any two ranges.\<close>

lemma memif_write_read_law:
  assumes "inv s" and "0x80000000 \<le> a" and "0x80000000 \<le> b"
    and "\<forall>i < length bs. ok (a + of_nat i)" and "\<forall>i < length dst. ok (b + of_nat i)"
    and "length bs \<le> 2 ^ 64"
  shows "\<exists>s'. bnd (memif_write h a bs tgt) (\<lambda>_. memif_read h b dst tgt) s
      = (Inr (get_range (upd_range (mem s) a bs) b (length dst)), s')"
proof -
  obtain s1 where 1: "memif_write h a bs tgt s = (Inr (), s1)" "inv s1"
      "mem s1 = upd_range (mem s) a bs"
    using memif_write_law assms by blast
  then show ?thesis
    using memif_read_law [of s1 b dst] assms by (auto simp: bnd_Inr)
qed

end

section \<open>The ideal target\<close>

text \<open>
  The specification as a target of its own: a memory that is read and updated directly. The other
  targets are measured against it, and it serves to try operations out.
\<close>

definition ideal :: "memory htif_ops" where
  "ideal =
    \<lparr>chunk_align = 8, chunk_max_size = 2048,
     read_chunk = (\<lambda>a dst tgt m. (Inr (get_range m a (length dst)), m)),
     write_chunk = (\<lambda>a bs tgt m. (Inr (), upd_range m a bs)),
     clear_chunk = (\<lambda>a n m. (Inr (), upd_range m a (replicate n 0))),
     reset = ret (), idle = ret (), junk = (\<lambda>_. 0x5a)\<rparr>"

lemma ideal_is_chunk_target: "chunk_target ideal tgt 3 (\<lambda>_. True) (\<lambda>m. m) (\<lambda>_. True)"
  by unfold_locales (simp_all add: ideal_def)

interpretation ideal: chunk_target ideal tgt 3 "\<lambda>_. True" "\<lambda>m. m" "\<lambda>_. True" for tgt
  by (rule ideal_is_chunk_target)

end
