(* ===== verification/Hexwriter.thy ===== *)
theory Hexwriter
  imports Memif
begin

text \<open>
  \<open>htif_hexwriter_t\<close> of \<open>htif_hexwriter.cc\<close>: a target that keeps the loaded image in memory, one
  row of \<open>width\<close> bytes per entry of a map, and prints it as the hex file of a memory macro. It is
  the simplest provider of the chunk interface, and the interpretation at the end makes the laws
  of \<open>memif_t\<close> hold for it.
\<close>

section \<open>State and operations\<close>

type_synonym hexmem = "u64 \<rightharpoonup> u8 list"

text \<open>\<open>mem[row]\<close> followed by the \<open>resize\<close> of a row that is still empty.\<close>

definition hexwriter_row :: "u64 \<Rightarrow> hexmem \<Rightarrow> u64 \<Rightarrow> u8 list" where
  "hexwriter_row w m r =
    (let row = (case m r of None \<Rightarrow> [] | Some v \<Rightarrow> v) in
     if row = [] then replicate (unat w) 0 else row)"

text \<open>
  The two \<open>while(len)\<close> loops. The loop of \<open>write_chunk\<close> does not advance \<open>src\<close>: every row of a
  longer transfer gets the first \<open>width\<close> bytes. A length that is no multiple of the width would
  wrap below zero; the assertion before the loop excludes it.
\<close>

function hexwriter_read_rows :: "u64 \<Rightarrow> u64 \<Rightarrow> nat \<Rightarrow> (hexmem, u8 list) prog" where
  "hexwriter_read_rows w t len =
    (if len = 0 then ret []
     else if w = 0 \<or> len < unat w then raise (Undefined ''len wraps below zero'')
     else bnd (getS (\<lambda>m. hexwriter_row w m (t div w))) (\<lambda>row.
          andThen (modS (\<lambda>m. m(t div w \<mapsto> row)))
            (bnd (hexwriter_read_rows w (t + w) (len - unat w)) (\<lambda>rest.
              ret (take (unat w) row @ rest)))))"
  by pat_completeness auto
termination
  by (relation "measure (\<lambda>(w, t, len). len)") (auto simp: unat_gt_0)

function hexwriter_write_rows :: "u64 \<Rightarrow> u64 \<Rightarrow> nat \<Rightarrow> u8 list \<Rightarrow> (hexmem, unit) prog" where
  "hexwriter_write_rows w t len src =
    (if len = 0 then ret ()
     else if w = 0 \<or> len < unat w then raise (Undefined ''len wraps below zero'')
     else bnd (getS (\<lambda>m. hexwriter_row w m (t div w))) (\<lambda>row.
          andThen (modS (\<lambda>m. m(t div w \<mapsto> take (unat w) src @ drop (unat w) row)))
            (hexwriter_write_rows w (t + w) (len - unat w) src)))"
  by pat_completeness auto
termination
  by (relation "measure (\<lambda>(w, t, len, src). len)") (auto simp: unat_gt_0)

declare hexwriter_read_rows.simps [simp del] hexwriter_write_rows.simps [simp del]

text \<open>The assertions both operations start with; \<open>%\<close> by a zero width is undefined.\<close>

definition hexwriter_check :: "u64 \<Rightarrow> u64 \<Rightarrow> u64 \<Rightarrow> u64 \<Rightarrow> (hexmem, unit) prog" where
  "hexwriter_check w d t len = seqM
    [definedM ''len % 0'' (w \<noteq> 0),
     assertM ''len % chunk_align() == 0'' (len mod w = 0),
     assertM ''taddr < width*depth'' (t < w * d),
     assertM ''taddr+len <= width*depth'' (t + len \<le> w * d)]"

definition hexwriter_read_chunk ::
    "u64 \<Rightarrow> u64 \<Rightarrow> u64 \<Rightarrow> addr \<Rightarrow> u8 list \<Rightarrow> rw_target \<Rightarrow> (hexmem, u8 list) prog" where
  "hexwriter_read_chunk b w d a dst tgt =
    andThen (hexwriter_check w d (a - b) (of_nat (length dst)))
      (hexwriter_read_rows w (a - b) (length dst))"

definition hexwriter_write_chunk ::
    "u64 \<Rightarrow> u64 \<Rightarrow> u64 \<Rightarrow> addr \<Rightarrow> u8 list \<Rightarrow> rw_target \<Rightarrow> (hexmem, unit) prog" where
  "hexwriter_write_chunk b w d a src tgt =
    andThen (hexwriter_check w d (a - b) (of_nat (length src)))
      (hexwriter_write_rows w (a - b) (length src) src)"

text \<open>The class as a chunk target: block size and largest transfer are both \<open>width\<close>.\<close>

definition hexwriter :: "u64 \<Rightarrow> u64 \<Rightarrow> u64 \<Rightarrow> (nat \<Rightarrow> u8) \<Rightarrow> hexmem htif_ops" where
  "hexwriter b w d jk =
    \<lparr>chunk_align = unat w, chunk_max_size = unat w,
     read_chunk = hexwriter_read_chunk b w d, write_chunk = hexwriter_write_chunk b w d,
     clear_chunk = htif_clear_chunk (unat w) (hexwriter_write_chunk b w d),
     reset = ret (), idle = ret (), junk = jk\<rparr>"

text \<open>\<open>operator<<\<close>: a line per row, the highest byte first, absent rows as zeros.\<close>

definition hex_digit :: "u8 \<Rightarrow> char" where
  "hex_digit x = ''0123456789abcdef'' ! unat (x AND 0xF)"

definition hexwriter_line :: "u64 \<Rightarrow> hexmem \<Rightarrow> u64 \<Rightarrow> string" where
  "hexwriter_line w m r =
    (case m r of
       None \<Rightarrow> concat (replicate (unat w) ''00'')
     | Some row \<Rightarrow> concat (map (\<lambda>j. [hex_digit (drop_bit 4 (row ! (unat w - j - 1))),
                                        hex_digit (row ! (unat w - j - 1))]) [0..<unat w]))"

definition hexwriter_print :: "u64 \<Rightarrow> u64 \<Rightarrow> hexmem \<Rightarrow> string" where
  "hexwriter_print w d m = concat (map (\<lambda>r. hexwriter_line w m (of_nat r) @ [CHR 0x0A]) [0..<unat d])"

section \<open>The memory the rows stand for\<close>

definition hexwriter_inv :: "u64 \<Rightarrow> hexmem \<Rightarrow> bool" where
  "hexwriter_inv w m \<longleftrightarrow> (\<forall>row \<in> ran m. length row = unat w)"

definition hexwriter_mem :: "u64 \<Rightarrow> u64 \<Rightarrow> hexmem \<Rightarrow> memory" where
  "hexwriter_mem b w m x =
    (case m ((x - b) div w) of None \<Rightarrow> 0 | Some row \<Rightarrow> row ! unat ((x - b) mod w))"

definition hexwriter_ok :: "u64 \<Rightarrow> u64 \<Rightarrow> u64 \<Rightarrow> addr \<Rightarrow> bool" where
  "hexwriter_ok b w d x \<longleftrightarrow> x - b < w * d"

text \<open>The geometries for which the class works: a power-of-two width, an aligned base, no overflow.\<close>

definition hexwriter_geometry :: "u64 \<Rightarrow> nat \<Rightarrow> u64 \<Rightarrow> bool" where
  "hexwriter_geometry b k d \<longleftrightarrow> k < 64 \<and> take_bit k b = 0 \<and> 2 ^ k * unat d < 2 ^ 64"

lemma hexwriter_row_length [simp]:
  "hexwriter_inv w m \<Longrightarrow> w \<noteq> 0 \<Longrightarrow> length (hexwriter_row w m r) = unat w"
  by (auto simp: hexwriter_row_def hexwriter_inv_def ran_def Let_def split: option.splits)

lemma hexwriter_row_nth:
  assumes "hexwriter_inv w m" and "w \<noteq> 0" and "i < unat w"
  shows "hexwriter_row w m r ! i = (case m r of None \<Rightarrow> 0 | Some row \<Rightarrow> row ! i)"
proof (cases "m r")
  case None
  with assms show ?thesis by (simp add: hexwriter_row_def)
next
  case (Some row)
  with assms(1) have "length row = unat w"
    by (auto simp: hexwriter_inv_def ran_def)
  with assms Some show ?thesis by (auto simp: hexwriter_row_def)
qed

lemma hexwriter_inv_upd:
  "hexwriter_inv w m \<Longrightarrow> length row = unat w \<Longrightarrow> hexwriter_inv w (m(r \<mapsto> row))"
  by (auto simp: hexwriter_inv_def ran_def)

lemma hexwriter_get_row:
  assumes "hexwriter_inv (2 ^ k) m" and "k < 64" and "take_bit k (a - b) = 0"
  shows "get_range (hexwriter_mem b (2 ^ k) m) a (2 ^ k)
    = hexwriter_row (2 ^ k) m ((a - b) div 2 ^ k)"
proof (rule nth_equalityI)
  show "length (get_range (hexwriter_mem b (2 ^ k) m) a (2 ^ k))
      = length (hexwriter_row (2 ^ k) m ((a - b) div 2 ^ k))"
    using assms by (simp add: unat_power)
next
  fix i assume "i < length (get_range (hexwriter_mem b (2 ^ k) m) a (2 ^ k))"
  then have i: "i < 2 ^ k" by simp
  with assms(2) have "i < 2 ^ 64"
    by (meson less_le_trans less_imp_le one_le_numeral power_increasing)
  then have "unat (of_nat i :: u64) = i" by simp
  with i assms add_in_block [OF assms(3) i]
  show "get_range (hexwriter_mem b (2 ^ k) m) a (2 ^ k) ! i
      = hexwriter_row (2 ^ k) m ((a - b) div 2 ^ k) ! i"
    by (simp add: hexwriter_mem_def hexwriter_row_nth unat_power add_diff_eq add.commute
        flip: drop_bit_eq_div take_bit_eq_mod split: option.split)
qed

lemma hexwriter_put_row:
  assumes "k < 64" and "take_bit k (a - b) = 0" and "length row = 2 ^ k"
  shows "hexwriter_mem b (2 ^ k) (m((a - b) div 2 ^ k \<mapsto> row))
    = upd_range (hexwriter_mem b (2 ^ k) m) a row"
proof (rule ext)
  fix x
  show "hexwriter_mem b (2 ^ k) (m((a - b) div 2 ^ k \<mapsto> row)) x
      = upd_range (hexwriter_mem b (2 ^ k) m) a row x"
    using in_block_iff [OF assms(2,1), of "x - b"] assms(3)
    by (simp add: hexwriter_mem_def upd_range_def flip: drop_bit_eq_div take_bit_eq_mod)
qed

text \<open>The assertions hold on every block of the window.\<close>

lemma hexwriter_check_ok:
  assumes "hexwriter_geometry b k d" and "take_bit k a = 0" and "hexwriter_ok b (2 ^ k) d a"
  shows "hexwriter_check (2 ^ k) d (a - b) (2 ^ k) = ret ()"
proof -
  let ?t = "unat (a - b)"
  have k: "k < 64" and al: "take_bit k (a - b) = 0" and ov: "2 ^ k * unat d < 2 ^ 64"
    using assms by (simp_all add: hexwriter_geometry_def take_bit_diff_0)
  have wd: "unat (2 ^ k * d) = 2 ^ k * unat d"
    using ov k by (simp add: unat_word_ariths unat_power)
  have lt: "?t < 2 ^ k * unat d"
    using assms(3) wd by (simp add: hexwriter_ok_def word_less_nat_alt)
  have "?t mod 2 ^ k = 0"
    using al by (metis take_bit_nat_def unat_0 unsigned_take_bit_eq)
  then obtain q where q: "?t = 2 ^ k * q"
    by (metis mod_0_imp_dvd dvdE)
  with lt have "q + 1 \<le> unat d" by simp
  then have le: "?t + 2 ^ k \<le> 2 ^ k * unat d"
    unfolding q by (metis mult_le_mono2 distrib_left mult.right_neutral)
  with ov k have "unat (a - b + 2 ^ k) = ?t + 2 ^ k"
    by (simp add: unat_word_ariths unat_power)
  with le wd have "a - b + 2 ^ k \<le> 2 ^ k * d"
    by (simp add: word_le_nat_alt)
  with assms(3) k show ?thesis
    by (simp add: hexwriter_check_def hexwriter_ok_def)
qed

lemma hexwriter_read_one:
  assumes "k < 64" and "hexwriter_inv (2 ^ k) m"
  shows "hexwriter_read_rows (2 ^ k) t (2 ^ k) m
    = (Inr (hexwriter_row (2 ^ k) m (t div 2 ^ k)), m(t div 2 ^ k \<mapsto> hexwriter_row (2 ^ k) m (t div 2 ^ k)))"
  using assms by (simp add: hexwriter_read_rows.simps unat_power bnd_getS andThen_modS)

lemma hexwriter_write_one:
  assumes "k < 64" and "hexwriter_inv (2 ^ k) m" and "length src = 2 ^ k"
  shows "hexwriter_write_rows (2 ^ k) t (2 ^ k) src m = (Inr (), m(t div 2 ^ k \<mapsto> src))"
  using assms by (simp add: hexwriter_write_rows.simps unat_power bnd_getS andThen_modS)

lemma hexwriter_ok_iff:
  assumes "hexwriter_geometry b k d"
  shows "hexwriter_ok b (2 ^ k) d x \<longleftrightarrow> drop_bit k (x - b) < d"
proof -
  have k: "k < 64" and ov: "2 ^ k * unat d < 2 ^ 64"
    using assms by (simp_all add: hexwriter_geometry_def)
  have "unat (2 ^ k * d) = unat d * 2 ^ k"
    using ov k by (simp add: unat_word_ariths unat_power mult.commute)
  then show ?thesis
    using k by (simp add: hexwriter_ok_def word_less_nat_alt drop_bit_eq_div unat_div unat_power
        div_less_iff_less_mult)
qed

lemma hexwriter_is_chunk_target:
  assumes "hexwriter_geometry b k d"
  shows "chunk_target (hexwriter b (2 ^ k) d jk) tgt k (hexwriter_inv (2 ^ k))
    (hexwriter_mem b (2 ^ k)) (hexwriter_ok b (2 ^ k) d)"
proof -
  have k: "k < 64" and b: "take_bit k b = 0"
    using assms by (simp_all add: hexwriter_geometry_def)
  show ?thesis
  proof (unfold_locales, goal_cases)
    case (5 x y)
    with drop_bit_diff_aligned [OF b this(2)] show ?case
      by (simp add: hexwriter_ok_iff [OF assms])
  next
    case (6 s a dst)
    then have "length dst = 2 ^ k"
      using k by (auto simp: hexwriter_def unat_power dest!: dvd_imp_le)
    moreover from this 6 have "hexwriter_ok b (2 ^ k) d a"
      by force
    ultimately show ?case
      using 6 k b hexwriter_check_ok [OF assms 6(2)]
      by (simp add: hexwriter_def hexwriter_read_chunk_def hexwriter_read_one hexwriter_get_row
          take_bit_diff_0 hexwriter_inv_upd unat_power hexwriter_put_row upd_range_id
          flip: hexwriter_get_row)
  next
    case (7 s a bs)
    then have "length bs = 2 ^ k"
      using k by (auto simp: hexwriter_def unat_power dest!: dvd_imp_le)
    moreover from this 7 have "hexwriter_ok b (2 ^ k) d a"
      by force
    ultimately show ?case
      using 7 k b hexwriter_check_ok [OF assms 7(2)]
      by (simp add: hexwriter_def hexwriter_write_chunk_def hexwriter_write_one
          take_bit_diff_0 hexwriter_inv_upd unat_power hexwriter_put_row)
  qed (use k in \<open>simp_all add: hexwriter_def unat_power\<close>)
qed

text \<open>The geometry \<open>elf2hex 16 8192\<close> of a 128 KiB image at the bottom of the cacheable memory.\<close>

lemma hexwriter_geometry_16: "hexwriter_geometry 0x80000000 4 8192"
  by (simp add: hexwriter_geometry_def)

interpretation hex16: chunk_target "hexwriter 0x80000000 (2 ^ 4) 8192 jk" tgt 4
    "hexwriter_inv (2 ^ 4)" "hexwriter_mem 0x80000000 (2 ^ 4)" "hexwriter_ok 0x80000000 (2 ^ 4) 8192"
  for jk tgt
  by (rule hexwriter_is_chunk_target [OF hexwriter_geometry_16])

section \<open>Properties\<close>

text \<open>
  \<open>memif_t::write\<close> on a hex writer with a power-of-two width and an aligned base updates exactly
  the bytes of the range, whatever its alignment and length: it raises no fault, and every other
  byte of the image keeps its value.
\<close>

theorem hexwriter_memif_write:
  assumes "hexwriter_geometry b k d" and "hexwriter_inv (2 ^ k) m" and "0x80000000 \<le> a"
    and "\<forall>i < length bs. hexwriter_ok b (2 ^ k) d (a + of_nat i)" and "length bs \<le> 2 ^ 64"
  shows "\<exists>m'. memif_write (hexwriter b (2 ^ k) d jk) a bs tgt m = (Inr (), m')
    \<and> hexwriter_inv (2 ^ k) m'
    \<and> hexwriter_mem b (2 ^ k) m' = upd_range (hexwriter_mem b (2 ^ k) m) a bs"
  by (rule chunk_target.memif_write_law [OF hexwriter_is_chunk_target [OF assms(1)]])
    (use assms in simp_all)

theorem hexwriter_memif_write_witness:
  "\<exists>m'. memif_write (hexwriter 0x80000000 (2 ^ 4) 8192 (\<lambda>_. 7)) 0x80000013 [1, 2, 3] DMA Map.empty
      = (Inr (), m') \<and> hexwriter_inv (2 ^ 4) m'
    \<and> hexwriter_mem 0x80000000 (2 ^ 4) m'
      = upd_range (hexwriter_mem 0x80000000 (2 ^ 4) Map.empty) 0x80000013 [1, 2, 3]"
  by (rule hexwriter_memif_write [OF hexwriter_geometry_16])
    (simp_all add: hexwriter_inv_def hexwriter_ok_def less_Suc_eq numeral_3_eq_3)

text \<open>
  \<open>memif_t::read\<close> on a hex writer returns the bytes of the range, whatever its alignment and
  length, and changes no byte of the image.
\<close>

theorem hexwriter_memif_read:
  assumes "hexwriter_geometry b k d" and "hexwriter_inv (2 ^ k) m" and "0x80000000 \<le> a"
    and "\<forall>i < length dst. hexwriter_ok b (2 ^ k) d (a + of_nat i)"
  shows "\<exists>m'. memif_read (hexwriter b (2 ^ k) d jk) a dst tgt m
      = (Inr (get_range (hexwriter_mem b (2 ^ k) m) a (length dst)), m')
    \<and> hexwriter_inv (2 ^ k) m' \<and> hexwriter_mem b (2 ^ k) m' = hexwriter_mem b (2 ^ k) m"
  by (rule chunk_target.memif_read_law [OF hexwriter_is_chunk_target [OF assms(1)]])
    (use assms in simp_all)

theorem hexwriter_memif_read_witness:
  "\<exists>m'. memif_read (hexwriter 0x80000000 (2 ^ 4) 8192 (\<lambda>_. 7)) 0x80000013 [9, 9, 9] DMA Map.empty
      = (Inr (get_range (hexwriter_mem 0x80000000 (2 ^ 4) Map.empty) 0x80000013 (length [9, 9, 9 :: u8])), m')
    \<and> hexwriter_inv (2 ^ 4) m'
    \<and> hexwriter_mem 0x80000000 (2 ^ 4) m' = hexwriter_mem 0x80000000 (2 ^ 4) Map.empty"
  by (rule hexwriter_memif_read [OF hexwriter_geometry_16])
    (simp_all add: hexwriter_inv_def hexwriter_ok_def less_Suc_eq numeral_3_eq_3)

end
