(* ===== verification/Host.thy ===== *)
theory Host
  imports Memif
begin

text \<open>
  The state of the front-end server around the chip: the objects \<open>htif_t\<close> owns (\<open>htif.h\<close>,
  \<open>syscall.h\<close>, \<open>device.h\<close>) and the services of the host operating system it calls. The operating
  system is not code of this repository; it is the record \<open>os_ops\<close> of functions on an environment
  state, and every definition that calls it takes that record as a parameter.
\<close>

section \<open>The host operating system\<close>

text \<open>\<open>struct stat\<close> of the host, as far as the server copies it.\<close>

record host_stat =
  st_dev :: u64
  st_ino :: u64
  st_mode :: u32
  st_nlink :: u64
  st_uid :: u32
  st_gid :: u32
  st_rdev :: u64
  st_size :: u64
  st_blksize :: u64
  st_blocks :: u64
  st_atime :: u64
  st_mtime :: u64
  st_ctime :: u64

text \<open>
  Each service returns what the C function returns, an \<open>int\<close> or \<open>ssize_t\<close> with \<open>-1\<close> for failure;
  the data it put into the caller's buffer comes beside it. \<open>os_errno\<close> is the value of \<open>errno\<close>.
  A buffer that a failing call leaves alone keeps its old contents, so the stat calls are given
  the old contents.
\<close>

record 'e os_ops =
  os_errno :: "'e \<Rightarrow> int"
  os_read :: "int \<Rightarrow> nat \<Rightarrow> 'e \<Rightarrow> (int \<times> u8 list) \<times> 'e"
  os_pread :: "int \<Rightarrow> nat \<Rightarrow> int \<Rightarrow> 'e \<Rightarrow> (int \<times> u8 list) \<times> 'e"
  os_write :: "int \<Rightarrow> u8 list \<Rightarrow> 'e \<Rightarrow> int \<times> 'e"
  os_pwrite :: "int \<Rightarrow> u8 list \<Rightarrow> int \<Rightarrow> 'e \<Rightarrow> int \<times> 'e"
  os_open :: "string \<Rightarrow> 'e \<Rightarrow> int \<times> 'e"
  os_close :: "int \<Rightarrow> 'e \<Rightarrow> int \<times> 'e"
  os_lseek :: "int \<Rightarrow> int \<Rightarrow> int \<Rightarrow> 'e \<Rightarrow> int \<times> 'e"
  os_fstat :: "int \<Rightarrow> host_stat \<Rightarrow> 'e \<Rightarrow> (int \<times> host_stat) \<times> 'e"
  os_lstat :: "string \<Rightarrow> host_stat \<Rightarrow> 'e \<Rightarrow> (int \<times> host_stat) \<times> 'e"
  os_fstatat :: "int \<Rightarrow> string \<Rightarrow> host_stat \<Rightarrow> int \<Rightarrow> 'e \<Rightarrow> (int \<times> host_stat) \<times> 'e"
  os_fcntl :: "int \<Rightarrow> int \<Rightarrow> reg \<Rightarrow> 'e \<Rightarrow> int \<times> 'e"
  os_ftruncate :: "int \<Rightarrow> int \<Rightarrow> 'e \<Rightarrow> int \<times> 'e"
  os_openat :: "int \<Rightarrow> string \<Rightarrow> int \<Rightarrow> reg \<Rightarrow> 'e \<Rightarrow> int \<times> 'e"
  os_faccessat :: "int \<Rightarrow> string \<Rightarrow> int \<Rightarrow> int \<Rightarrow> 'e \<Rightarrow> int \<times> 'e"
  os_renameat :: "int \<Rightarrow> string \<Rightarrow> int \<Rightarrow> string \<Rightarrow> 'e \<Rightarrow> int \<times> 'e"
  os_linkat :: "int \<Rightarrow> string \<Rightarrow> int \<Rightarrow> string \<Rightarrow> int \<Rightarrow> 'e \<Rightarrow> int \<times> 'e"
  os_unlinkat :: "int \<Rightarrow> string \<Rightarrow> int \<Rightarrow> 'e \<Rightarrow> int \<times> 'e"
  os_mkdirat :: "int \<Rightarrow> string \<Rightarrow> u32 \<Rightarrow> 'e \<Rightarrow> int \<times> 'e"
  os_getcwd :: "nat \<Rightarrow> 'e \<Rightarrow> string option \<times> 'e"
  os_chdir :: "string \<Rightarrow> 'e \<Rightarrow> int \<times> 'e"
  os_dup :: "int \<Rightarrow> 'e \<Rightarrow> int \<times> 'e"
  os_poll_stdin :: "'e \<Rightarrow> bool \<times> 'e"
  os_send :: "int \<Rightarrow> u8 list \<Rightarrow> 'e \<Rightarrow> int \<times> 'e"
  os_recv :: "int \<Rightarrow> nat \<Rightarrow> 'e \<Rightarrow> (int \<times> u8 list) \<times> 'e"
  os_shared :: "string \<Rightarrow> nat \<Rightarrow> 'e \<Rightarrow> u32 \<times> 'e"
  os_share :: "string \<Rightarrow> nat \<Rightarrow> u32 \<Rightarrow> 'e \<Rightarrow> 'e"
  os_random :: "'e \<Rightarrow> int \<times> 'e"
  os_thread :: "int \<Rightarrow> 'e \<Rightarrow> int \<times> 'e"
  os_try_client :: "int \<Rightarrow> 'e \<Rightarrow> int option \<times> 'e"

text \<open>
  \<open>os_shared\<close> and \<open>os_share\<close> read and write an element (a \<open>char\<close> or an \<open>int\<close>) of a file the server has mapped shared with
  another process: between two reads the other process may have written, so a read moves the
  environment on. \<open>os_thread\<close> creates the thread that serves the clients of a remote frame buffer, named by
  its display; what that thread shares with the server, its lock and the descriptor of its client, is
  part of the environment, and \<open>os_try_client\<close> tries to take the lock and reads the descriptor under it.
\<close>

section \<open>Devices\<close>

text \<open>
  The member functions that \<open>register_command\<close> is called with, and the classes derived from
  \<open>device_t\<close> with the state each keeps. A queued \<open>command_t\<close> is its \<open>tohost\<close> word: the \<open>htif_t\<close>
  it belongs to and the callback are the same for all.
\<close>

datatype handler =
    H_empty
  | H_null
  | H_identify
  | H_bcd_read
  | H_bcd_write
  | H_disk_read
  | H_disk_write
  | H_syscall
  | H_rfb_configure
  | H_rfb_set_address

record rfb =
  rfb_memif :: bool
  rfb_addr :: u64
  rfb_width :: u16
  rfb_height :: u16
  rfb_bpp :: u16
  rfb_display :: int
  rfb_fb1 :: "u8 list option"
  rfb_fb2 :: "u8 list option"
  rfb_read_pos :: u64

datatype dev_class =
    Null_device
  | Bcd "reg list"
  | Disk string u64 int
  | Syscall_proxy
  | Rfb rfb

record device =
  dev_class :: dev_class
  command_handlers :: "handler list"
  command_names :: "string list"

section \<open>The server\<close>

text \<open>
  \<open>sv_target\<close> is the chip behind the chunk operations, \<open>sv_env\<close> the host environment, the rest
  are members of \<open>htif_t\<close>, \<open>device_list_t\<close>, \<open>syscall_t\<close>, \<open>fds_t\<close> and \<open>console_t\<close>.
  \<open>sv_exitcode\<close> is an \<open>int\<close>.
\<close>

record ('t, 'e) server =
  sv_target :: 't
  sv_env :: 'e
  sv_exitcode :: u32
  sv_fromhost_queue :: "reg list"
  sv_devices :: "device list"
  sv_num_devices :: nat
  sv_chroot :: string
  sv_fds :: "int list"
  sv_symbols :: "(string \<times> u64) list"
  sv_targs :: "string list"
  sv_has_socket :: bool
  sv_sock :: int
  sv_snap_count :: u64
  sv_vfile :: string

type_synonym ('t, 'e, 'a) sprog = "(('t, 'e) server, 'a) prog"

text \<open>An operation of the target, and a call of the host, inside the server.\<close>

definition on_target :: "('t, 'a) prog \<Rightarrow> ('t, 'e, 'a) sprog" where
  "on_target m s = (case m (sv_target s) of (r, t) \<Rightarrow> (r, s\<lparr>sv_target := t\<rparr>))"

definition on_env :: "('e \<Rightarrow> 'a \<times> 'e) \<Rightarrow> ('t, 'e, 'a) sprog" where
  "on_env f s = (case f (sv_env s) of (x, e) \<Rightarrow> (Inr x, s\<lparr>sv_env := e\<rparr>))"

definition set_env :: "('e \<Rightarrow> 'e) \<Rightarrow> ('t, 'e, unit) sprog" where
  "set_env f = modS (\<lambda>s. s\<lparr>sv_env := f (sv_env s)\<rparr>)"

text \<open>\<open>memif().read\<close> and \<open>memif().write\<close> with their default target.\<close>

definition mem_read :: "'t htif_ops \<Rightarrow> addr \<Rightarrow> u8 list \<Rightarrow> ('t, 'e, u8 list) sprog" where
  "mem_read h a dst = on_target (memif_read h a dst DMA)"

definition mem_write :: "'t htif_ops \<Rightarrow> addr \<Rightarrow> u8 list \<Rightarrow> ('t, 'e, unit) sprog" where
  "mem_write h a bs = on_target (memif_write h a bs DMA)"

lemma on_target_ok: "m (sv_target s) = (Inr x, t) \<Longrightarrow> on_target m s = (Inr x, s\<lparr>sv_target := t\<rparr>)"
  by (simp add: on_target_def)

lemma on_env_run: "on_env f s = (Inr (fst (f (sv_env s))), s\<lparr>sv_env := snd (f (sv_env s))\<rparr>)"
  by (simp add: on_env_def split: prod.split)

text \<open>A vector of chars of the given size, zeroed; \<open>&buf[0]\<close> read as a C string.\<close>

definition alloc_vec :: "u64 \<Rightarrow> ('s, u8 list) prog" where
  "alloc_vec n = (if 2 ^ 63 \<le> unat n then raise Length_error else ret (replicate (unat n) 0))"

definition c_string_of :: "u8 list \<Rightarrow> ('s, string) prog" where
  "c_string_of bs =
    (if 0 \<in> set bs then ret (string_of (takeWhile (\<lambda>b. b \<noteq> 0) bs))
     else raise (Undefined ''C string without terminator''))"

text \<open>Conversions between \<open>reg_t\<close> and the signed C types.\<close>

definition int32 :: "reg \<Rightarrow> int" where
  "int32 r = sint (ucast r :: u32)"

definition reg_of_int :: "int \<Rightarrow> reg" where
  "reg_of_int i = of_int i"

section \<open>Target memory seen from the server\<close>

lemma mem_read_law:
  assumes "chunk_target h DMA k iv mem ok" and "iv (sv_target s)" and "0x80000000 \<le> a"
    and "\<forall>i < length dst. ok (a + of_nat i)"
  shows "\<exists>t. mem_read h a dst s = (Inr (get_range (mem (sv_target s)) a (length dst)), s\<lparr>sv_target := t\<rparr>)
    \<and> iv t \<and> mem t = mem (sv_target s)"
proof -
  obtain t where "memif_read h a dst DMA (sv_target s)
      = (Inr (get_range (mem (sv_target s)) a (length dst)), t)" "iv t" "mem t = mem (sv_target s)"
    using chunk_target.memif_read_law [OF assms(1), of "sv_target s" a dst] assms(2-4) by auto
  then show ?thesis
    by (auto simp: mem_read_def on_target_ok)
qed

lemma mem_write_law:
  assumes "chunk_target h DMA k iv mem ok" and "iv (sv_target s)" and "0x80000000 \<le> a"
    and "\<forall>i < length bs. ok (a + of_nat i)" and "length bs \<le> 2 ^ 64"
  shows "\<exists>t. mem_write h a bs s = (Inr (), s\<lparr>sv_target := t\<rparr>) \<and> iv t
    \<and> mem t = upd_range (mem (sv_target s)) a bs"
proof -
  obtain t where "memif_write h a bs DMA (sv_target s) = (Inr (), t)" "iv t"
      "mem t = upd_range (mem (sv_target s)) a bs"
    using chunk_target.memif_write_law [OF assms(1), of "sv_target s" a bs] assms(2-5) by auto
  then show ?thesis
    by (auto simp: mem_write_def on_target_ok)
qed

lemma alloc_vec_ok: "unat n < 2 ^ 63 \<Longrightarrow> alloc_vec n = ret (replicate (unat n) 0)"
  by (simp add: alloc_vec_def)

text \<open>A host that can be used to try an operation out: every call fails, nothing is ever ready.\<close>

definition idle_os :: "int \<Rightarrow> 'e os_ops" where
  "idle_os err =
    \<lparr>os_errno = (\<lambda>_. err), os_read = (\<lambda>_ _ e. ((- 1, []), e)), os_pread = (\<lambda>_ _ _ e. ((- 1, []), e)),
     os_write = (\<lambda>_ _ e. (- 1, e)), os_pwrite = (\<lambda>_ _ _ e. (- 1, e)), os_open = (\<lambda>_ e. (- 1, e)),
     os_close = (\<lambda>_ e. (- 1, e)), os_lseek = (\<lambda>_ _ _ e. (- 1, e)), os_fstat = (\<lambda>_ st e. ((- 1, st), e)),
     os_lstat = (\<lambda>_ st e. ((- 1, st), e)), os_fstatat = (\<lambda>_ _ st _ e. ((- 1, st), e)),
     os_fcntl = (\<lambda>_ _ _ e. (- 1, e)), os_ftruncate = (\<lambda>_ _ e. (- 1, e)), os_openat = (\<lambda>_ _ _ _ e. (- 1, e)),
     os_faccessat = (\<lambda>_ _ _ _ e. (- 1, e)), os_renameat = (\<lambda>_ _ _ _ e. (- 1, e)),
     os_linkat = (\<lambda>_ _ _ _ _ e. (- 1, e)), os_unlinkat = (\<lambda>_ _ _ e. (- 1, e)), os_mkdirat = (\<lambda>_ _ _ e. (- 1, e)),
     os_getcwd = (\<lambda>_ e. (None, e)), os_chdir = (\<lambda>_ e. (- 1, e)), os_dup = (\<lambda>_ e. (- 1, e)),
     os_poll_stdin = (\<lambda>e. (False, e)), os_send = (\<lambda>_ _ e. (- 1, e)), os_recv = (\<lambda>_ _ e. ((- 1, []), e)),
     os_shared = (\<lambda>_ _ e. (0, e)), os_share = (\<lambda>_ _ _ e. e), os_random = (\<lambda>e. (0, e)),
     os_thread = (\<lambda>_ e. (0, e)), os_try_client = (\<lambda>_ e. (None, e))\<rparr>"

abbreviation null_os :: "int \<Rightarrow> unit os_ops" where
  "null_os \<equiv> idle_os"

definition empty_stat :: host_stat where
  "empty_stat = \<lparr>st_dev = 0, st_ino = 0, st_mode = 0, st_nlink = 0, st_uid = 0, st_gid = 0, st_rdev = 0,
     st_size = 0, st_blksize = 0, st_blocks = 0, st_atime = 0, st_mtime = 0, st_ctime = 0\<rparr>"

definition server_on :: "'t \<Rightarrow> 'e \<Rightarrow> ('t, 'e) server" where
  "server_on t e = \<lparr>sv_target = t, sv_env = e, sv_exitcode = 0, sv_fromhost_queue = [], sv_devices = [],
     sv_num_devices = 0, sv_chroot = [], sv_fds = [0, 1, 1], sv_symbols = [], sv_targs = [],
     sv_has_socket = False, sv_sock = 0, sv_snap_count = 0, sv_vfile = []\<rparr>"

end
