(* ===== verification/Device.thy ===== *)
theory Device
  imports Host
begin

text \<open>
  The device framework of \<open>device.h\<close> and \<open>device.cc\<close>: the fields of a \<open>tohost\<close> command, command
  registration, the identity command every device answers, the block character device on the
  terminal and the disk. The dispatch over all devices, which also reaches the system-call
  proxy, is in \<open>Device_List\<close>.
\<close>

section \<open>Commands\<close>

definition cmd_device :: "reg \<Rightarrow> u8" where
  "cmd_device tohost = ucast (drop_bit 56 tohost)"

definition cmd_cmd :: "reg \<Rightarrow> u8" where
  "cmd_cmd tohost = ucast (drop_bit 48 tohost)"

definition cmd_payload :: "reg \<Rightarrow> reg" where
  "cmd_payload tohost = drop_bit 16 (push_bit 16 tohost)"

text \<open>
  \<open>respond\<close>; the callback that \<open>htif_t::run\<close> installs pushes the word onto \<open>fromhost_queue\<close>.
\<close>

definition response :: "reg \<Rightarrow> reg \<Rightarrow> reg" where
  "response tohost resp = push_bit 48 (drop_bit 48 tohost) OR drop_bit 16 (push_bit 16 resp)"

definition respond :: "reg \<Rightarrow> reg \<Rightarrow> ('t, 'e, unit) sprog" where
  "respond tohost resp =
    modS (\<lambda>s. s\<lparr>sv_fromhost_queue := sv_fromhost_queue s @ [response tohost resp]\<rparr>)"

section \<open>Construction and registration\<close>

definition MAX_COMMANDS :: nat where "MAX_COMMANDS = 256"
definition MAX_DEVICES :: nat where "MAX_DEVICES = 256"
definition IDENTITY_SIZE :: nat where "IDENTITY_SIZE = 64"

definition register_command :: "nat \<Rightarrow> handler \<Rightarrow> string \<Rightarrow> (device, unit) prog" where
  "register_command cmd hnd name = seqM
    [assertM ''cmd < command_t::MAX_COMMANDS'' (cmd < MAX_COMMANDS),
     assertM ''strlen(name) < IDENTITY_SIZE'' (length (c_str name) < IDENTITY_SIZE),
     modS (\<lambda>d. d\<lparr>command_handlers := (command_handlers d)[cmd := hnd],
                 command_names := (command_names d)[cmd := c_str name]\<rparr>)]"

text \<open>The constructor of \<open>device_t\<close>, run on vectors of \<open>MAX_COMMANDS\<close> empty functions.\<close>

definition device_raw :: "dev_class \<Rightarrow> device" where
  "device_raw c = \<lparr>dev_class = c, command_handlers = replicate MAX_COMMANDS H_empty,
                   command_names = replicate MAX_COMMANDS []\<rparr>"

definition device_init :: "(device, unit) prog" where
  "device_init =
    andThen (forM [0..<MAX_COMMANDS] (\<lambda>cmd. register_command cmd H_null []))
      (register_command (MAX_COMMANDS - 1) H_identify ''identity'')"

text \<open>A device object: the base constructor, then the registrations of the derived class.\<close>

definition make_device :: "dev_class \<Rightarrow> (nat \<times> handler \<times> string) list \<Rightarrow> fault + device" where
  "make_device c regs =
    (case andThen device_init (forM regs (\<lambda>(cmd, hnd, name). register_command cmd hnd name)) (device_raw c) of
       (Inl e, _) \<Rightarrow> Inl e | (Inr _, d) \<Rightarrow> Inr d)"

definition null_device :: "fault + device" where
  "null_device = make_device Null_device []"

definition bcd_device :: "fault + device" where
  "bcd_device = make_device (Bcd []) [(0, H_bcd_read, ''read''), (1, H_bcd_write, ''write'')]"

definition disk_device :: "string \<Rightarrow> u64 \<Rightarrow> int \<Rightarrow> fault + device" where
  "disk_device nm sz fd =
    make_device (Disk nm sz fd) [(0, H_disk_read, ''read''), (1, H_disk_write, ''write'')]"

definition syscall_device :: "fault + device" where
  "syscall_device = make_device Syscall_proxy [(0, H_syscall, ''syscall'')]"

text \<open>The virtual function \<open>identity\<close>.\<close>

definition identity :: "device \<Rightarrow> string" where
  "identity d = (case dev_class d of
     Null_device \<Rightarrow> ''''
   | Bcd _ \<Rightarrow> ''bcd''
   | Disk nm _ _ \<Rightarrow> c_str nm
   | Syscall_proxy \<Rightarrow> ''syscall_proxy''
   | Rfb _ \<Rightarrow> ''rfb'')"

section \<open>The identity command\<close>

text \<open>\<open>char id[64] = {0}; strcpy(id, name)\<close>.\<close>

definition identity_bytes :: "string \<Rightarrow> u8 list" where
  "identity_bytes name = bytes_of name @ replicate (IDENTITY_SIZE - length name) 0"

definition handle_identify :: "'t htif_ops \<Rightarrow> device \<Rightarrow> reg \<Rightarrow> ('t, 'e, unit) sprog" where
  "handle_identify h d tohost =
    (let what = unat (cmd_payload tohost mod of_nat MAX_COMMANDS);
         a = cmd_payload tohost div of_nat MAX_COMMANDS in
     andThen (assertM ''addr % IDENTITY_SIZE == 0'' (a mod of_nat IDENTITY_SIZE = 0))
     (andThen
       (if what = MAX_COMMANDS - 1
        then assertM ''strlen(identity()) < IDENTITY_SIZE'' (length (identity d) < IDENTITY_SIZE)
        else ret ())
     (andThen
       (mem_write h a (identity_bytes
         (if what = MAX_COMMANDS - 1 then identity d else command_names d ! what)))
       (respond tohost 1))))"

section \<open>The terminal device\<close>

text \<open>\<open>canonical_terminal_t\<close> of \<open>term.cc\<close>.\<close>

definition terminal_read :: "'e os_ops \<Rightarrow> ('t, 'e, int) sprog" where
  "terminal_read os =
    bnd (on_env (os_poll_stdin os)) (\<lambda>ready.
      if \<not> ready then ret (- 1)
      else bnd (on_env (os_read os 0 1)) (\<lambda>(n, bs).
        ret (if n \<le> 0 then - 1 else uint (hd bs))))"

definition terminal_write :: "'e os_ops \<Rightarrow> u8 \<Rightarrow> ('t, 'e, unit) sprog" where
  "terminal_write os ch =
    bnd (on_env (os_write os 1 [ch])) (\<lambda>n. if n \<noteq> 1 then raise Aborted else ret ())"

definition set_device :: "nat \<Rightarrow> device \<Rightarrow> ('t, 'e, unit) sprog" where
  "set_device i d = modS (\<lambda>s. s\<lparr>sv_devices := (sv_devices s)[i := d]\<rparr>)"

definition bcd_handle_read :: "nat \<Rightarrow> device \<Rightarrow> reg list \<Rightarrow> reg \<Rightarrow> ('t, 'e, unit) sprog" where
  "bcd_handle_read i d pending tohost = set_device i (d\<lparr>dev_class := Bcd (pending @ [tohost])\<rparr>)"

definition bcd_handle_write :: "'e os_ops \<Rightarrow> reg \<Rightarrow> ('t, 'e, unit) sprog" where
  "bcd_handle_write os tohost = terminal_write os (ucast (cmd_payload tohost))"

definition bcd_tick :: "'e os_ops \<Rightarrow> nat \<Rightarrow> device \<Rightarrow> reg list \<Rightarrow> ('t, 'e, unit) sprog" where
  "bcd_tick os i d pending =
    (case pending of
       [] \<Rightarrow> ret ()
     | cmd # rest \<Rightarrow> bnd (terminal_read os) (\<lambda>ch.
         if ch = - 1 then ret ()
         else andThen (respond cmd (of_int (0x100 OR ch)))
                (set_device i (d\<lparr>dev_class := Bcd rest\<rparr>))))"

section \<open>The disk\<close>

text \<open>
  The constructor of \<open>disk_t\<close>: opens the file, registers, and names the device after the size the
  host reports for it.
\<close>

definition disk_name :: "u64 \<Rightarrow> string" where
  "disk_name sz = ''disk size='' @ to_dec (unat sz)"

definition disk_new :: "'e os_ops \<Rightarrow> host_stat \<Rightarrow> string \<Rightarrow> ('t, 'e, device) sprog" where
  "disk_new os st0 fn =
    bnd (on_env (os_open os fn)) (\<lambda>fd.
      if fd < 0 then raise (Runtime_error (''could not open '' @ fn))
      else bnd (on_env (os_fstat os fd st0)) (\<lambda>(r, st).
        if r < 0 then raise (Runtime_error (''could not stat '' @ fn))
        else (case disk_device (disk_name (st_size st)) (st_size st) fd of
                Inl e \<Rightarrow> raise e | Inr d \<Rightarrow> ret d)))"

text \<open>\<open>request_t\<close>: four 64-bit words.\<close>

record disk_request =
  rq_addr :: u64
  rq_offset :: u64
  rq_size :: u64
  rq_tag :: u64

definition disk_request_of :: "u8 list \<Rightarrow> disk_request" where
  "disk_request_of bs = \<lparr>rq_addr = le_word (take 8 bs), rq_offset = le_word (take 8 (drop 8 bs)),
     rq_size = le_word (take 8 (drop 16 bs)), rq_tag = le_word (take 8 (drop 24 bs))\<rparr>"

definition disk_handle_read ::
    "'t htif_ops \<Rightarrow> 'e os_ops \<Rightarrow> string \<Rightarrow> int \<Rightarrow> reg \<Rightarrow> ('t, 'e, unit) sprog" where
  "disk_handle_read h os nm fd tohost =
    bnd (mem_read h (cmd_payload tohost) (uninit h 32)) (\<lambda>rq.
    let r = disk_request_of rq in
    bnd (alloc_vec (rq_size r)) (\<lambda>buf.
    bnd (on_env (os_pread os fd (length buf) (sint (rq_offset r)))) (\<lambda>(n, bs).
      if (of_int n :: u64) \<noteq> rq_size r then raise (Runtime_error (''could not read '' @ nm @ '' @ '' @ to_dec (unat (rq_offset r))))
      else andThen (mem_write h (rq_addr r) (take (length buf) (bs @ drop (length bs) buf)))
             (respond tohost (rq_tag r)))))"

definition disk_handle_write ::
    "'t htif_ops \<Rightarrow> 'e os_ops \<Rightarrow> string \<Rightarrow> int \<Rightarrow> reg \<Rightarrow> ('t, 'e, unit) sprog" where
  "disk_handle_write h os nm fd tohost =
    bnd (mem_read h (cmd_payload tohost) (uninit h 32)) (\<lambda>rq.
    let r = disk_request_of rq in
    bnd (alloc_vec (rq_size r)) (\<lambda>buf.
    bnd (mem_read h (rq_addr r) buf) (\<lambda>data.
    bnd (on_env (os_pwrite os fd data (sint (rq_offset r)))) (\<lambda>n.
      if (of_int n :: u64) \<noteq> rq_size r then raise (Runtime_error (''could not write '' @ nm @ '' @ '' @ to_dec (unat (rq_offset r))))
      else respond tohost (rq_tag r)))))"

end
