(* ===== verification/Syscall.thy ===== *)
theory Syscall
  imports Device
begin

text \<open>
  The proxied system calls of \<open>syscall.cc\<close>: the descriptor table, the optional chroot, one
  definition per call, the table of call numbers, and the exchange through the 64 bytes of magic
  memory that the target points at.
\<close>

section \<open>Descriptors\<close>

definition AT_FDCWD :: int where "AT_FDCWD = - 100"
definition ENOMEM :: int where "ENOMEM = 12"

text \<open>\<open>fds_t\<close>: the first free slot, or a new one; the host descriptor of a slot.\<close>

fun free_slot :: "int list \<Rightarrow> nat" where
  "free_slot [] = 0"
| "free_slot (fd # fds) = (if fd = - 1 then 0 else Suc (free_slot fds))"

definition fds_alloc :: "int \<Rightarrow> ('t, 'e, reg) sprog" where
  "fds_alloc fd =
    bnd (getS sv_fds) (\<lambda>fds. let i = free_slot fds in
      andThen (modS (\<lambda>s. s\<lparr>sv_fds := (if i = length fds then fds @ [fd] else fds[i := fd])\<rparr>))
        (ret (of_nat i)))"

definition fds_dealloc :: "reg \<Rightarrow> ('t, 'e, unit) sprog" where
  "fds_dealloc fd =
    bnd (getS sv_fds) (\<lambda>fds.
      andThen (definedM ''fds[fd]'' (unat fd < length fds))
        (modS (\<lambda>s. s\<lparr>sv_fds := fds[unat fd := - 1]\<rparr>)))"

definition fds_lookup :: "int list \<Rightarrow> reg \<Rightarrow> int" where
  "fds_lookup fds fd =
    (if int32 fd = - 100 then AT_FDCWD
     else if length fds \<le> unat fd then - 1 else fds ! unat fd)"

text \<open>A host call on the descriptor behind \<open>fd\<close>.\<close>

definition on_fd :: "reg \<Rightarrow> (int \<Rightarrow> 'e \<Rightarrow> 'a \<times> 'e) \<Rightarrow> ('t, 'e, 'a) sprog" where
  "on_fd fd f = bnd (getS (\<lambda>s. fds_lookup (sv_fds s) fd)) (\<lambda>n. on_env (f n))"

section \<open>The chroot\<close>

definition do_chroot :: "string \<Rightarrow> string \<Rightarrow> string" where
  "do_chroot root fn = (if root \<noteq> [] \<and> fn \<noteq> [] \<and> hd fn = CHR ''/'' then root @ fn else fn)"

definition undo_chroot :: "string \<Rightarrow> string \<Rightarrow> string" where
  "undo_chroot root fn =
    (if root = [] then fn
     else if take (length root) fn = root
       \<and> (last root = CHR ''/'' \<or> length root < length fn \<and> fn ! length root = CHR ''/'')
     then drop (length root - (if last root = CHR ''/'' then 1 else 0)) fn
     else ''/'')"

text \<open>The path an \<open>*at\<close> call uses: chrooted only relative to the current directory.\<close>

definition at_path :: "reg \<Rightarrow> string \<Rightarrow> ('t, 'e, string) sprog" where
  "at_path dirfd name =
    getS (\<lambda>s. if int32 dirfd = - 100 then do_chroot (sv_chroot s) name else name)"

definition set_chroot :: "'e os_ops \<Rightarrow> nat \<Rightarrow> string \<Rightarrow> ('t, 'e, unit) sprog" where
  "set_chroot os path_max where' =
    bnd (on_env (os_getcwd os path_max)) (\<lambda>buf1. case buf1 of None \<Rightarrow> raise (Exited (- 1))
    | Some old \<Rightarrow> bnd (on_env (os_chdir os where')) (\<lambda>r. if r \<noteq> 0 then raise (Exited (- 1))
    else bnd (on_env (os_getcwd os path_max)) (\<lambda>buf2. case buf2 of None \<Rightarrow> raise (Exited (- 1))
    | Some new \<Rightarrow> bnd (on_env (os_chdir os old)) (\<lambda>r. if r \<noteq> 0 then raise (Exited (- 1))
    else modS (\<lambda>s. s\<lparr>sv_chroot := new\<rparr>)))))"

section \<open>Return values and buffers\<close>

text \<open>\<open>sysret_errno\<close>: the value of the host call, or the negated \<open>errno\<close> for \<open>-1\<close>.\<close>

definition sysret_errno :: "'e os_ops \<Rightarrow> int \<Rightarrow> ('t, 'e, reg) sprog" where
  "sysret_errno os r = getS (\<lambda>s. reg_of_int (if r = - 1 then - os_errno os (sv_env s) else r))"

text \<open>A path argument: \<open>len\<close> bytes of target memory, used as a C string.\<close>

definition read_name :: "'t htif_ops \<Rightarrow> reg \<Rightarrow> reg \<Rightarrow> ('t, 'e, string) sprog" where
  "read_name h pname len =
    bnd (alloc_vec len) (\<lambda>buf. bnd (mem_read h pname buf) (\<lambda>bs. c_string_of bs))"

text \<open>\<open>riscv_stat\<close>, byte for byte.\<close>

definition riscv_stat :: "host_stat \<Rightarrow> u8 list" where
  "riscv_stat s =
    le_bytes 8 (st_dev s) @ le_bytes 8 (st_ino s) @ le_bytes 4 (st_mode s)
    @ le_bytes 4 (ucast (st_nlink s) :: u32) @ le_bytes 4 (st_uid s) @ le_bytes 4 (st_gid s)
    @ le_bytes 8 (st_rdev s) @ le_bytes 8 (0 :: u64) @ le_bytes 8 (st_size s)
    @ le_bytes 4 (ucast (st_blksize s) :: u32) @ le_bytes 4 (0 :: u32) @ le_bytes 8 (st_blocks s)
    @ le_bytes 8 (st_atime s) @ le_bytes 8 (0 :: u64) @ le_bytes 8 (st_mtime s)
    @ le_bytes 8 (0 :: u64) @ le_bytes 8 (st_ctime s) @ le_bytes 8 (0 :: u64)
    @ le_bytes 4 (0 :: u32) @ le_bytes 4 (0 :: u32)"

section \<open>The calls\<close>

definition sys_exit :: "reg \<Rightarrow> ('t, 'e, reg) sprog" where
  "sys_exit code = andThen (modS (\<lambda>s. s\<lparr>sv_exitcode := ucast (push_bit 1 code OR 1)\<rparr>)) (ret 0)"

definition sys_read :: "'t htif_ops \<Rightarrow> 'e os_ops \<Rightarrow> reg \<Rightarrow> reg \<Rightarrow> reg \<Rightarrow> ('t, 'e, reg) sprog" where
  "sys_read h os fd pbuf len =
    bnd (alloc_vec len) (\<lambda>buf.
    bnd (on_fd fd (\<lambda>n. os_read os n (length buf))) (\<lambda>(r, bs).
    bnd (sysret_errno os r) (\<lambda>v.
    andThen (if 0 < r then mem_write h pbuf (take (nat r) (bs @ drop (length bs) buf)) else ret ())
      (ret v))))"

definition sys_pread ::
    "'t htif_ops \<Rightarrow> 'e os_ops \<Rightarrow> reg \<Rightarrow> reg \<Rightarrow> reg \<Rightarrow> reg \<Rightarrow> ('t, 'e, reg) sprog" where
  "sys_pread h os fd pbuf len off =
    bnd (alloc_vec len) (\<lambda>buf.
    bnd (on_fd fd (\<lambda>n. os_pread os n (length buf) (sint off))) (\<lambda>(r, bs).
    bnd (sysret_errno os r) (\<lambda>v.
    andThen (if 0 < r then mem_write h pbuf (take (nat r) (bs @ drop (length bs) buf)) else ret ())
      (ret v))))"

definition sys_write :: "'t htif_ops \<Rightarrow> 'e os_ops \<Rightarrow> reg \<Rightarrow> reg \<Rightarrow> reg \<Rightarrow> ('t, 'e, reg) sprog" where
  "sys_write h os fd pbuf len =
    bnd (alloc_vec len) (\<lambda>buf.
    bnd (mem_read h pbuf buf) (\<lambda>bs.
    bnd (on_fd fd (\<lambda>n. os_write os n bs)) (sysret_errno os)))"

definition sys_pwrite ::
    "'t htif_ops \<Rightarrow> 'e os_ops \<Rightarrow> reg \<Rightarrow> reg \<Rightarrow> reg \<Rightarrow> reg \<Rightarrow> ('t, 'e, reg) sprog" where
  "sys_pwrite h os fd pbuf len off =
    bnd (alloc_vec len) (\<lambda>buf.
    bnd (mem_read h pbuf buf) (\<lambda>bs.
    bnd (on_fd fd (\<lambda>n. os_pwrite os n bs (sint off))) (sysret_errno os)))"

definition sys_close :: "'e os_ops \<Rightarrow> reg \<Rightarrow> ('t, 'e, reg) sprog" where
  "sys_close os fd =
    bnd (on_fd fd (os_close os)) (\<lambda>r.
      if r < 0 then sysret_errno os (- 1) else andThen (fds_dealloc fd) (ret 0))"

definition sys_lseek :: "'e os_ops \<Rightarrow> reg \<Rightarrow> reg \<Rightarrow> reg \<Rightarrow> ('t, 'e, reg) sprog" where
  "sys_lseek os fd ptr dir =
    bnd (on_fd fd (\<lambda>n. os_lseek os n (sint ptr) (int32 dir))) (sysret_errno os)"

text \<open>
  The stat calls test the value \<open>sysret_errno\<close> returned against \<open>-1\<close>: after a failure that is
  \<open>-errno\<close>, so the buffer the host did not fill is copied unless \<open>errno\<close> is 1. \<open>st0\<close> is the content
  of the uninitialised local.
\<close>

definition stat_result ::
    "'t htif_ops \<Rightarrow> 'e os_ops \<Rightarrow> reg \<Rightarrow> int \<times> host_stat \<Rightarrow> ('t, 'e, reg) sprog" where
  "stat_result h os pbuf = (\<lambda>(r, st).
    bnd (sysret_errno os r) (\<lambda>v.
      andThen (if v \<noteq> - 1 then mem_write h pbuf (riscv_stat st) else ret ()) (ret v)))"

definition sys_fstat ::
    "'t htif_ops \<Rightarrow> 'e os_ops \<Rightarrow> host_stat \<Rightarrow> reg \<Rightarrow> reg \<Rightarrow> ('t, 'e, reg) sprog" where
  "sys_fstat h os st0 fd pbuf =
    bnd (on_fd fd (\<lambda>n. os_fstat os n st0)) (stat_result h os pbuf)"

definition sys_fcntl :: "'e os_ops \<Rightarrow> reg \<Rightarrow> reg \<Rightarrow> reg \<Rightarrow> ('t, 'e, reg) sprog" where
  "sys_fcntl os fd cmd arg =
    bnd (on_fd fd (\<lambda>n. os_fcntl os n (int32 cmd) arg)) (sysret_errno os)"

definition sys_ftruncate :: "'e os_ops \<Rightarrow> reg \<Rightarrow> reg \<Rightarrow> ('t, 'e, reg) sprog" where
  "sys_ftruncate os fd len =
    bnd (on_fd fd (\<lambda>n. os_ftruncate os n (sint len))) (sysret_errno os)"

definition sys_lstat ::
    "'t htif_ops \<Rightarrow> 'e os_ops \<Rightarrow> host_stat \<Rightarrow> reg \<Rightarrow> reg \<Rightarrow> reg \<Rightarrow> ('t, 'e, reg) sprog" where
  "sys_lstat h os st0 pname len pbuf =
    bnd (read_name h pname len) (\<lambda>name.
    bnd (getS sv_chroot) (\<lambda>root.
    bnd (on_env (os_lstat os (do_chroot root name) st0)) (stat_result h os pbuf)))"

definition sys_openat ::
    "'t htif_ops \<Rightarrow> 'e os_ops \<Rightarrow> reg \<Rightarrow> reg \<Rightarrow> reg \<Rightarrow> reg \<Rightarrow> reg \<Rightarrow> ('t, 'e, reg) sprog" where
  "sys_openat h os dirfd pname len flags mode =
    bnd (read_name h pname len) (\<lambda>name.
    bnd (at_path dirfd name) (\<lambda>path.
    bnd (on_fd dirfd (\<lambda>n. os_openat os n path (int32 flags) mode)) (\<lambda>r.
    bnd (sysret_errno os r) (\<lambda>v.
      if int32 v < 0 then sysret_errno os (- 1) else fds_alloc (int32 v)))))"

definition sys_fstatat ::
    "'t htif_ops \<Rightarrow> 'e os_ops \<Rightarrow> host_stat \<Rightarrow> reg \<Rightarrow> reg \<Rightarrow> reg \<Rightarrow> reg \<Rightarrow> reg \<Rightarrow> ('t, 'e, reg) sprog" where
  "sys_fstatat h os st0 dirfd pname len pbuf flags =
    bnd (read_name h pname len) (\<lambda>name.
    bnd (at_path dirfd name) (\<lambda>path.
    bnd (on_fd dirfd (\<lambda>n. os_fstatat os n path st0 (int32 flags))) (stat_result h os pbuf)))"

definition sys_faccessat ::
    "'t htif_ops \<Rightarrow> 'e os_ops \<Rightarrow> reg \<Rightarrow> reg \<Rightarrow> reg \<Rightarrow> reg \<Rightarrow> ('t, 'e, reg) sprog" where
  "sys_faccessat h os dirfd pname len mode =
    bnd (read_name h pname len) (\<lambda>name.
    bnd (at_path dirfd name) (\<lambda>path.
    bnd (on_fd dirfd (\<lambda>n. os_faccessat os n path (int32 mode) 0)) (sysret_errno os)))"

definition sys_unlinkat ::
    "'t htif_ops \<Rightarrow> 'e os_ops \<Rightarrow> reg \<Rightarrow> reg \<Rightarrow> reg \<Rightarrow> reg \<Rightarrow> ('t, 'e, reg) sprog" where
  "sys_unlinkat h os dirfd pname len flags =
    bnd (read_name h pname len) (\<lambda>name.
    bnd (at_path dirfd name) (\<lambda>path.
    bnd (on_fd dirfd (\<lambda>n. os_unlinkat os n path (int32 flags))) (sysret_errno os)))"

definition sys_mkdirat ::
    "'t htif_ops \<Rightarrow> 'e os_ops \<Rightarrow> reg \<Rightarrow> reg \<Rightarrow> reg \<Rightarrow> reg \<Rightarrow> ('t, 'e, reg) sprog" where
  "sys_mkdirat h os dirfd pname len mode =
    bnd (read_name h pname len) (\<lambda>name.
    bnd (at_path dirfd name) (\<lambda>path.
    bnd (on_fd dirfd (\<lambda>n. os_mkdirat os n path (ucast mode))) (sysret_errno os)))"

text \<open>The calls with two paths read both buffers before the first is used as a string.\<close>

definition two_names ::
    "'t htif_ops \<Rightarrow> reg \<Rightarrow> reg \<Rightarrow> reg \<Rightarrow> reg \<Rightarrow> ('t, 'e, string \<times> string) sprog" where
  "two_names h po ol pn nl =
    bnd (alloc_vec ol) (\<lambda>obuf. bnd (alloc_vec nl) (\<lambda>nbuf.
    bnd (mem_read h po obuf) (\<lambda>obs. bnd (mem_read h pn nbuf) (\<lambda>nbs.
    bnd (c_string_of obs) (\<lambda>o'. bnd (c_string_of nbs) (\<lambda>n'. ret (o', n')))))))"

definition sys_renameat ::
    "'t htif_ops \<Rightarrow> 'e os_ops \<Rightarrow> reg \<Rightarrow> reg \<Rightarrow> reg \<Rightarrow> reg \<Rightarrow> reg \<Rightarrow> reg \<Rightarrow> ('t, 'e, reg) sprog" where
  "sys_renameat h os odirfd popath olen ndirfd pnpath nlen =
    bnd (two_names h popath olen pnpath nlen) (\<lambda>(opath, npath).
    bnd (at_path odirfd opath) (\<lambda>op. bnd (at_path ndirfd npath) (\<lambda>np.
    bnd (getS sv_fds) (\<lambda>fds.
    bnd (on_env (os_renameat os (fds_lookup fds odirfd) op (fds_lookup fds ndirfd) np))
      (sysret_errno os)))))"

definition sys_linkat ::
    "'t htif_ops \<Rightarrow> 'e os_ops \<Rightarrow> reg \<Rightarrow> reg \<Rightarrow> reg \<Rightarrow> reg \<Rightarrow> reg \<Rightarrow> reg \<Rightarrow> reg \<Rightarrow> ('t, 'e, reg) sprog" where
  "sys_linkat h os odirfd poname olen ndirfd pnname nlen flags =
    bnd (two_names h poname olen pnname nlen) (\<lambda>(oname, nname).
    bnd (at_path odirfd oname) (\<lambda>op. bnd (at_path ndirfd nname) (\<lambda>np.
    bnd (getS sv_fds) (\<lambda>fds.
    bnd (on_env (os_linkat os (fds_lookup fds odirfd) op (fds_lookup fds ndirfd) np (int32 flags)))
      (sysret_errno os)))))"

definition sys_getcwd :: "'t htif_ops \<Rightarrow> 'e os_ops \<Rightarrow> reg \<Rightarrow> reg \<Rightarrow> ('t, 'e, reg) sprog" where
  "sys_getcwd h os pbuf size' =
    bnd (alloc_vec size') (\<lambda>buf.
    bnd (on_env (os_getcwd os (length buf))) (\<lambda>r. case r of
      None \<Rightarrow> sysret_errno os (- 1)
    | Some cwd \<Rightarrow> bnd (getS sv_chroot) (\<lambda>root.
        let tmp = undo_chroot root cwd in
        if unat size' \<le> length tmp then ret (reg_of_int (- ENOMEM))
        else andThen (mem_write h pbuf (bytes_of tmp @ [0])) (ret (of_nat (length tmp + 1))))))"

text \<open>
  \<open>sys_getmainvars\<close> lays out \<open>argc\<close>, the argument pointers, two null words and the strings.
\<close>

definition copy_at :: "'a list \<Rightarrow> nat \<Rightarrow> 'a list \<Rightarrow> 'a list" where
  "copy_at xs i ys = take i xs @ ys @ drop (i + length ys) xs"

fun arg_offsets :: "nat \<Rightarrow> string list \<Rightarrow> nat list" where
  "arg_offsets sz [] = []"
| "arg_offsets sz (a # args) = sz # arg_offsets (sz + length a + 1) args"

definition mainvars_size :: "string list \<Rightarrow> nat" where
  "mainvars_size args = (length args + 3) * 8 + sum_list (map (\<lambda>a. length a + 1) args)"

definition mainvars_words :: "reg \<Rightarrow> string list \<Rightarrow> u64 list" where
  "mainvars_words pbuf args =
    of_nat (length args) # map (\<lambda>off. of_nat off + pbuf) (arg_offsets ((length args + 3) * 8) args) @ [0, 0]"

definition mainvars_bytes :: "reg \<Rightarrow> string list \<Rightarrow> u8 list" where
  "mainvars_bytes pbuf args =
    fold (\<lambda>(off, a) bytes. copy_at bytes off (bytes_of (c_str a) @ [0]))
      (zip (arg_offsets ((length args + 3) * 8) args) args)
      (copy_at (replicate (mainvars_size args) 0) 0
        (concat (map (le_bytes 8) (mainvars_words pbuf args))))"

definition sys_getmainvars :: "'t htif_ops \<Rightarrow> reg \<Rightarrow> reg \<Rightarrow> ('t, 'e, reg) sprog" where
  "sys_getmainvars h pbuf limit =
    bnd (getS sv_targs) (\<lambda>args.
      let bytes = mainvars_bytes pbuf args in
      if unat limit < length bytes then ret (reg_of_int (- ENOMEM))
      else andThen (mem_write h pbuf bytes) (ret 0))"

text \<open>
  \<open>sys_chdir\<close> reads the path twice: once to find its length, once into the buffer. The search for
  the terminator has fuel; there are \<open>2^64\<close> addresses to look at before it starts again.
\<close>

fun chdir_size :: "'t htif_ops \<Rightarrow> nat \<Rightarrow> reg \<Rightarrow> nat \<Rightarrow> ('t, 'e, nat) sprog" where
  "chdir_size h 0 path n = raise Diverges"
| "chdir_size h (Suc fuel) path n =
    bnd (on_target (read_uint8 h (path + of_nat n))) (\<lambda>c.
      if c \<noteq> 0 then chdir_size h fuel path (n + 1) else ret (n + 1))"

fun chdir_copy :: "'t htif_ops \<Rightarrow> nat \<Rightarrow> reg \<Rightarrow> nat \<Rightarrow> ('t, 'e, u8 list) sprog" where
  "chdir_copy h 0 path off = raise (Undefined ''buf[offset]'')"
| "chdir_copy h (Suc left) path off =
    bnd (on_target (read_uint8 h (path + of_nat off))) (\<lambda>c.
      if c = 0 then ret [c] else bnd (chdir_copy h left path (off + 1)) (\<lambda>cs. ret (c # cs)))"

definition sys_chdir :: "'t htif_ops \<Rightarrow> 'e os_ops \<Rightarrow> nat \<Rightarrow> reg \<Rightarrow> ('t, 'e, reg) sprog" where
  "sys_chdir h os fuel path =
    bnd (chdir_size h fuel path 0) (\<lambda>n.
    bnd (chdir_copy h n path 0) (\<lambda>buf.
    bnd (c_string_of buf) (\<lambda>dir.
    bnd (on_env (os_chdir os dir)) (sysret_errno os))))"

section \<open>Symbols and the console files\<close>

text \<open>The first symbol, in the order of the map, whose name starts with the given string.\<close>

definition prefix_symbol :: "string \<Rightarrow> (string \<times> u64) list \<Rightarrow> u64" where
  "prefix_symbol name syms =
    (case find (\<lambda>(k, v). take (length name) k = name) syms of None \<Rightarrow> 0 | Some (k, v) \<Rightarrow> v)"

text \<open>
  The name comes in the eight bytes of \<open>a0\<close>. When none of them is zero the loop goes on to shift by
  64, which is undefined.
\<close>

definition sys_read_symbol_addr :: "'t htif_ops \<Rightarrow> reg \<Rightarrow> reg \<Rightarrow> ('t, 'e, reg) sprog" where
  "sys_read_symbol_addr h a0 a1 =
    andThen (definedM ''a0 >> 64'' (0 \<in> set (le_bytes 8 a0)))
     (bnd (getS sv_symbols) (\<lambda>syms.
      andThen (mem_write h a1 (le_bytes 8
          (prefix_symbol (string_of (takeWhile (\<lambda>b. b \<noteq> 0) (le_bytes 8 a0))) syms)))
        (ret 0)))"

definition READ_CONSOLE :: string where "READ_CONSOLE = ''/tmp/read_console.txt''"
definition READ_CONSOLE_DONE :: string where "READ_CONSOLE_DONE = ''/tmp/read_console_done.txt''"
definition WRITE_CONSOLE :: string where "WRITE_CONSOLE = ''/tmp/write_console.txt''"
definition WRITE_CONSOLE_DONE :: string where "WRITE_CONSOLE_DONE = ''/tmp/write_console_done.txt''"
definition LOAD_IMAGE :: string where "LOAD_IMAGE = ''/tmp/load_image.txt''"
definition LOAD_IMAGE_DONE :: string where "LOAD_IMAGE_DONE = ''/tmp/load_image_done.txt''"

definition shared_get :: "'e os_ops \<Rightarrow> string \<Rightarrow> nat \<Rightarrow> ('t, 'e, u32) sprog" where
  "shared_get os f i = on_env (os_shared os f i)"

definition shared_put :: "'e os_ops \<Rightarrow> string \<Rightarrow> nat \<Rightarrow> u32 \<Rightarrow> ('t, 'e, unit) sprog" where
  "shared_put os f i v = set_env (os_share os f i v)"

definition sys_read_console :: "'t htif_ops \<Rightarrow> 'e os_ops \<Rightarrow> nat \<Rightarrow> reg \<Rightarrow> ('t, 'e, reg) sprog" where
  "sys_read_console h os fuel pbuf =
    bnd (shared_get os READ_CONSOLE 0) (\<lambda>c.
      if c \<noteq> 0 then
        bnd (shared_get os READ_CONSOLE 0) (\<lambda>ch.
        andThen (mem_write h pbuf [ucast ch, 0, 0, 0, 0, 0, 0, 0])
        (andThen (shared_put os READ_CONSOLE_DONE 0 1)
        (bnd (poll fuel (shared_get os READ_CONSOLE 0) (\<lambda>x. x = 0)) (\<lambda>_.
        andThen (shared_put os READ_CONSOLE_DONE 0 0) (ret 0)))))
      else andThen (mem_write h pbuf (replicate 8 0)) (ret 0))"

definition sys_write_console :: "'e os_ops \<Rightarrow> nat \<Rightarrow> reg \<Rightarrow> ('t, 'e, reg) sprog" where
  "sys_write_console os fuel buf =
    bnd (shared_get os WRITE_CONSOLE_DONE 0) (\<lambda>d.
    andThen (if d \<noteq> 0
             then bnd (poll fuel (shared_get os WRITE_CONSOLE_DONE 0) (\<lambda>x. x = 0)) (\<lambda>_. ret ())
             else ret ())
    (andThen (shared_put os WRITE_CONSOLE 0 (ucast (ucast buf :: u8)))
    (bnd (poll fuel (shared_get os WRITE_CONSOLE_DONE 0) (\<lambda>x. x \<noteq> 0)) (\<lambda>_.
    andThen (shared_put os WRITE_CONSOLE 0 0) (ret 0)))))"

text \<open>
  The image: its size in KiB is the signed first byte, the data follow it, and word \<open>n\<close> goes to the
  symbol's address plus \<open>1 + 8 n\<close>, the offset of the data in the file.
\<close>

function load_image_words ::
    "'t htif_ops \<Rightarrow> 'e os_ops \<Rightarrow> u64 \<Rightarrow> int \<Rightarrow> nat \<Rightarrow> ('t, 'e, unit) sprog" where
  "load_image_words h os image_addr sz cnt =
    (if int cnt < sz then
       bnd (shared_get os LOAD_IMAGE cnt) (\<lambda>b0. bnd (shared_get os LOAD_IMAGE (cnt + 1)) (\<lambda>b1.
       bnd (shared_get os LOAD_IMAGE (cnt + 2)) (\<lambda>b2. bnd (shared_get os LOAD_IMAGE (cnt + 3)) (\<lambda>b3.
       bnd (shared_get os LOAD_IMAGE (cnt + 4)) (\<lambda>b4. bnd (shared_get os LOAD_IMAGE (cnt + 5)) (\<lambda>b5.
       bnd (shared_get os LOAD_IMAGE (cnt + 6)) (\<lambda>b6. bnd (shared_get os LOAD_IMAGE (cnt + 7)) (\<lambda>b7.
       andThen (mem_write h (image_addr + of_nat cnt) (map ucast [b0, b1, b2, b3, b4, b5, b6, b7]))
         (load_image_words h os image_addr sz (cnt + 8))))))))))
     else ret ())"
  by pat_completeness auto
termination
  by (relation "measure (\<lambda>(h, os, a, sz, cnt). nat (sz - int cnt))") auto

declare load_image_words.simps [simp del]

definition sys_load_image :: "'t htif_ops \<Rightarrow> 'e os_ops \<Rightarrow> nat \<Rightarrow> ('t, 'e, reg) sprog" where
  "sys_load_image h os fuel =
    andThen (shared_put os LOAD_IMAGE_DONE 0 1)
    (bnd (getS (\<lambda>s. prefix_symbol ''image.'' (sv_symbols s))) (\<lambda>image_addr.
     bnd (poll fuel (shared_get os LOAD_IMAGE 0) (\<lambda>x. sint (ucast x :: u8) * 1024 \<noteq> 0)) (\<lambda>x.
     andThen (shared_put os LOAD_IMAGE_DONE 0 0)
     (andThen (load_image_words h os image_addr (sint (ucast x :: u8) * 1024) 1)
     (andThen (shared_put os LOAD_IMAGE 0 0) (ret 0))))))"

section \<open>Printing calls\<close>

text \<open>\<open>%016lx\<close>, and the lines of \<open>sys_fprint\<close>; the output goes to \<open>vfile\<close>.\<close>

definition hex_char :: "u64 \<Rightarrow> char" where
  "hex_char x = ''0123456789abcdef'' ! unat (x AND 0xF)"

definition hex64 :: "u64 \<Rightarrow> string" where
  "hex64 x = map (\<lambda>i. hex_char (drop_bit (4 * (15 - i)) x)) [0..<16]"

definition fprint_line :: "nat \<Rightarrow> reg \<Rightarrow> string" where
  "fprint_line i a = ''sys_fprint a'' @ to_dec i @ '' = 0x'' @ hex64 a @ [CHR 0x0A]"

definition vprint :: "string \<Rightarrow> ('t, 'e, unit) sprog" where
  "vprint t = modS (\<lambda>s. s\<lparr>sv_vfile := sv_vfile s @ t\<rparr>)"

definition sys_fprint :: "reg list \<Rightarrow> ('t, 'e, reg) sprog" where
  "sys_fprint a = andThen (forM [0..<7] (\<lambda>i. vprint (fprint_line i (a ! i)))) (ret 0)"

text \<open>The low four bits of \<open>a0\<close> select how many arguments are printed.\<close>

definition fprint_count :: "reg \<Rightarrow> nat" where
  "fprint_count a0 =
    (let m = a0 AND 0xF in
     if m = 0 then 5 else if m = 1 then 6 else if m = 2 then 5 else if m = 3 then 4
     else if m = 4 then 4 else 0)"

definition sys_fprint_truncated :: "reg list \<Rightarrow> ('t, 'e, reg) sprog" where
  "sys_fprint_truncated a =
    andThen (forM [0..<fprint_count (a ! 0)] (\<lambda>i. vprint (fprint_line i (a ! i)))) (ret 0)"

section \<open>Dispatch\<close>

datatype syscall =
    Getcwd | Fcntl | Mkdirat | Unlinkat | Linkat | Renameat | Ftruncate | Faccessat | Chdir
  | Openat | Close | Lseek | Read | Write | Pread | Pwrite | Fstatat | Fstat | Exit
  | Read_console | Write_console | Read_symbol_addr | Load_image | Fprint | Get_image
  | Return_scores | Get_num_vcores | Fprint_truncated | Fprint_performance | Mem_dump
  | Lstat | Getmainvars

definition syscall_entries :: "(nat \<times> syscall) list" where
  "syscall_entries =
    [(17, Getcwd), (25, Fcntl), (34, Mkdirat), (35, Unlinkat), (37, Linkat), (38, Renameat),
     (46, Ftruncate), (48, Faccessat), (49, Chdir), (56, Openat), (57, Close), (62, Lseek),
     (63, Read), (64, Write), (67, Pread), (68, Pwrite), (79, Fstatat), (80, Fstat), (93, Exit),
     (102, Read_console), (103, Write_console), (104, Read_symbol_addr), (105, Load_image),
     (106, Fprint), (107, Get_image), (108, Return_scores), (109, Get_num_vcores),
     (110, Fprint_truncated), (111, Fprint_performance), (112, Mem_dump), (1039, Lstat),
     (2011, Getmainvars)]"

definition syscall_table :: "reg \<Rightarrow> syscall option" where
  "syscall_table n = (if 2048 \<le> unat n then None else map_of syscall_entries (unat n))"

text \<open>
  The call itself on the seven argument words. The calls on the image socket and the memory dump
  write files and a TCP connection; they are the parameter \<open>ext\<close>.
\<close>

definition run_syscall ::
    "'t htif_ops \<Rightarrow> 'e os_ops \<Rightarrow> host_stat \<Rightarrow> nat \<Rightarrow> (syscall \<Rightarrow> reg list \<Rightarrow> ('t, 'e, reg) sprog)
      \<Rightarrow> syscall \<Rightarrow> reg list \<Rightarrow> ('t, 'e, reg) sprog" where
  "run_syscall h os st0 fuel ext c a = (case c of
     Getcwd \<Rightarrow> sys_getcwd h os (a ! 0) (a ! 1)
   | Fcntl \<Rightarrow> sys_fcntl os (a ! 0) (a ! 1) (a ! 2)
   | Mkdirat \<Rightarrow> sys_mkdirat h os (a ! 0) (a ! 1) (a ! 2) (a ! 3)
   | Unlinkat \<Rightarrow> sys_unlinkat h os (a ! 0) (a ! 1) (a ! 2) (a ! 3)
   | Linkat \<Rightarrow> sys_linkat h os (a ! 0) (a ! 1) (a ! 2) (a ! 3) (a ! 4) (a ! 5) (a ! 6)
   | Renameat \<Rightarrow> sys_renameat h os (a ! 0) (a ! 1) (a ! 2) (a ! 3) (a ! 4) (a ! 5)
   | Ftruncate \<Rightarrow> sys_ftruncate os (a ! 0) (a ! 1)
   | Faccessat \<Rightarrow> sys_faccessat h os (a ! 0) (a ! 1) (a ! 2) (a ! 3)
   | Chdir \<Rightarrow> sys_chdir h os fuel (a ! 0)
   | Openat \<Rightarrow> sys_openat h os (a ! 0) (a ! 1) (a ! 2) (a ! 3) (a ! 4)
   | Close \<Rightarrow> sys_close os (a ! 0)
   | Lseek \<Rightarrow> sys_lseek os (a ! 0) (a ! 1) (a ! 2)
   | Read \<Rightarrow> sys_read h os (a ! 0) (a ! 1) (a ! 2)
   | Write \<Rightarrow> sys_write h os (a ! 0) (a ! 1) (a ! 2)
   | Pread \<Rightarrow> sys_pread h os (a ! 0) (a ! 1) (a ! 2) (a ! 3)
   | Pwrite \<Rightarrow> sys_pwrite h os (a ! 0) (a ! 1) (a ! 2) (a ! 3)
   | Fstatat \<Rightarrow> sys_fstatat h os st0 (a ! 0) (a ! 1) (a ! 2) (a ! 3) (a ! 4)
   | Fstat \<Rightarrow> sys_fstat h os st0 (a ! 0) (a ! 1)
   | Exit \<Rightarrow> sys_exit (a ! 0)
   | Read_console \<Rightarrow> sys_read_console h os fuel (a ! 0)
   | Write_console \<Rightarrow> sys_write_console os fuel (a ! 0)
   | Read_symbol_addr \<Rightarrow> sys_read_symbol_addr h (a ! 0) (a ! 1)
   | Load_image \<Rightarrow> sys_load_image h os fuel
   | Fprint \<Rightarrow> sys_fprint a
   | Fprint_truncated \<Rightarrow> sys_fprint_truncated a
   | Fprint_performance \<Rightarrow> ret 0
   | Lstat \<Rightarrow> sys_lstat h os st0 (a ! 0) (a ! 1) (a ! 2)
   | Getmainvars \<Rightarrow> sys_getmainvars h (a ! 0) (a ! 1)
   | _ \<Rightarrow> ext c a)"

text \<open>
  \<open>dispatch\<close>: the eight words of magic memory are read, and unless the number is unknown the first
  is replaced by the result and all eight are written back.
\<close>

definition dispatch ::
    "'t htif_ops \<Rightarrow> (syscall \<Rightarrow> reg list \<Rightarrow> ('t, 'e, reg) sprog) \<Rightarrow> reg \<Rightarrow> ('t, 'e, unit) sprog" where
  "dispatch h run mm =
    bnd (mem_read h mm (uninit h 64)) (\<lambda>bs.
    let magicmem = words_of 8 bs in
    (case syscall_table (magicmem ! 0) of
       None \<Rightarrow> ret ()
     | Some c \<Rightarrow> bnd (run c (tl magicmem)) (\<lambda>v.
         mem_write h mm (bytes_of_words (v # tl magicmem)))))"

text \<open>
  The command handler: an odd payload is the exit status of the test and is not answered; anything
  else is the address of magic memory.
\<close>

definition handle_syscall ::
    "'t htif_ops \<Rightarrow> (syscall \<Rightarrow> reg list \<Rightarrow> ('t, 'e, reg) sprog) \<Rightarrow> reg \<Rightarrow> ('t, 'e, unit) sprog" where
  "handle_syscall h run tohost =
    (if cmd_payload tohost AND 1 \<noteq> 0
     then modS (\<lambda>s. s\<lparr>sv_exitcode := ucast (cmd_payload tohost)\<rparr>)
     else andThen (dispatch h run (cmd_payload tohost)) (respond tohost 1))"

text \<open>\<open>htif_t::exit_code\<close>: the signed exit word shifted right by one.\<close>

definition exit_code :: "('t, 'e) server \<Rightarrow> int" where
  "exit_code s = drop_bit 1 (sint (sv_exitcode s))"

section \<open>Laws of the pieces\<close>

lemma free_slot_le: "free_slot fds \<le> length fds"
  by (induction fds) auto

lemma free_slot_free: "free_slot fds < length fds \<Longrightarrow> fds ! free_slot fds = - 1"
  by (induction fds) auto

lemma free_slot_least: "i < free_slot fds \<Longrightarrow> fds ! i \<noteq> - 1"
  by (induction fds arbitrary: i) (auto simp: nth_Cons split: nat.splits if_splits)

lemma int32_small: "n < 2 ^ 31 \<Longrightarrow> int32 (of_nat n) = int n"
proof -
  assume n: "n < 2 ^ 31"
  have "(ucast (of_nat n :: u64) :: u32) = of_nat n"
    using n by (simp add: unsigned_of_nat take_bit_nat_eq_self)
  then have "int32 (of_nat n) = sint (of_nat n :: u32)"
    by (simp add: int32_def)
  also have "\<dots> = int n"
    using n by (simp add: signed_of_nat signed_take_bit_int_eq_self)
  finally show ?thesis .
qed

lemma fds_lookup_nth: "i < length fds \<Longrightarrow> length fds < 2 ^ 31 \<Longrightarrow> fds_lookup fds (of_nat i) = fds ! i"
  using int32_small [of i] by (simp add: fds_lookup_def unat_of_nat_u64)

text \<open>The layout \<open>sys_getmainvars\<close> builds, written down directly.\<close>

definition mainvars_layout :: "reg \<Rightarrow> string list \<Rightarrow> u8 list" where
  "mainvars_layout pbuf args =
    bytes_of_words (mainvars_words pbuf args) @ concat (map (\<lambda>a. bytes_of a @ [0]) args)"

lemma copy_at_middle:
  "length ys = length zs \<Longrightarrow> copy_at (xs @ zs @ ws) (length xs) ys = xs @ ys @ ws"
  by (simp add: copy_at_def)

lemma copy_args:
  assumes "\<forall>a \<in> set args. CHR 0x00 \<notin> set a"
  shows "fold (\<lambda>(off, a) bytes. copy_at bytes off (bytes_of (c_str a) @ [0]))
      (zip (arg_offsets (length done) args) args)
      (done @ replicate (sum_list (map (\<lambda>a. length a + 1) args)) 0)
    = done @ concat (map (\<lambda>a. bytes_of a @ [0]) args)"
  using assms
proof (induction args arbitrary: "done")
  case (Cons a args)
  have c: "c_str a = a"
    using Cons.prems by (auto simp: c_str_def takeWhile_eq_all_conv)
  let ?rest = "sum_list (map (\<lambda>a. length a + 1) args)"
  have "copy_at (done @ replicate (length a + 1 + ?rest) 0) (length done) (bytes_of a @ [0])
      = (done @ bytes_of a @ [0]) @ replicate ?rest 0"
    using copy_at_middle [of "bytes_of a @ [0]" "replicate (length a + 1) 0" "done" "replicate ?rest 0"]
    by (simp add: replicate_add [symmetric])
  then show ?case
    using Cons.IH [of "done @ bytes_of a @ [0]"] Cons.prems c by simp
qed simp

lemma length_arg_offsets [simp]: "length (arg_offsets sz args) = length args"
  by (induction args arbitrary: sz) simp_all

lemma length_mainvars_words [simp]: "length (mainvars_words pbuf args) = length args + 3"
  by (simp add: mainvars_words_def)

lemma mainvars_bytes_layout:
  assumes "\<forall>a \<in> set args. CHR 0x00 \<notin> set a"
  shows "mainvars_bytes pbuf args = mainvars_layout pbuf args"
proof -
  let ?ws = "bytes_of_words (mainvars_words pbuf args)"
  have len: "length ?ws = (length args + 3) * 8"
    by simp
  have "copy_at (replicate (mainvars_size args) 0) 0 ?ws
      = ?ws @ replicate (sum_list (map (\<lambda>a. length a + 1) args)) 0"
    using len by (simp add: copy_at_def mainvars_size_def)
  then show ?thesis
    using copy_args [OF assms, of ?ws] len
    by (simp add: mainvars_bytes_def mainvars_layout_def mult.commute flip: bytes_of_words_def)
qed

lemma arg_offsets_nth:
  "i < length args \<Longrightarrow>
    arg_offsets sz args ! i = sz + sum_list (map (\<lambda>a. length a + 1) (take i args))"
  by (induction args arbitrary: sz i) (auto simp: nth_Cons split: nat.splits)

lemma fst_word_range:
  assumes "words_of (Suc n) (get_range m a (8 * Suc n)) = w # ws" and "8 * Suc n \<le> 2 ^ 64"
  shows "upd_range m a (bytes_of_words (v # ws)) = upd_range m a (le_bytes 8 v)"
proof -
  have "bytes_of_words (w # ws) = get_range m a (8 * Suc n)"
    using bytes_of_words_of [of "Suc n" "get_range m a (8 * Suc n)"] assms(1) by simp
  then have "bytes_of_words ws = drop 8 (get_range m a (8 * Suc n))"
    by (metis bytes_of_words_Cons append_eq_conv_conj length_le_bytes)
  then show ?thesis
    using upd_range_splice [of "le_bytes 8 v" 0 "8 * Suc n" m a] assms(2) by simp
qed

lemma dispatch_run:
  assumes "chunk_target h DMA k iv mem ok" and "iv (sv_target s)" and "0x80000000 \<le> mm"
    and "\<forall>i < 64. ok (mm + of_nat i)"
  shows "\<exists>t. iv t \<and> mem t = mem (sv_target s)
    \<and> dispatch h run mm s
      = (let ws = words_of 8 (get_range (mem (sv_target s)) mm 64) in
         case syscall_table (ws ! 0) of
           None \<Rightarrow> (Inr (), s\<lparr>sv_target := t\<rparr>)
         | Some c \<Rightarrow> bnd (run c (tl ws)) (\<lambda>v. mem_write h mm (bytes_of_words (v # tl ws))) (s\<lparr>sv_target := t\<rparr>))"
proof -
  obtain t where "mem_read h mm (uninit h 64) s = (Inr (get_range (mem (sv_target s)) mm 64), s\<lparr>sv_target := t\<rparr>)"
      "iv t" "mem t = mem (sv_target s)"
    using mem_read_law [OF assms(1,2,3), of "uninit h 64"] assms(4) by auto
  then show ?thesis
    by (auto simp: dispatch_def bnd_Inr Let_def split: option.split)
qed

lemma magic_memory_run:
  assumes "chunk_target h DMA k iv mem ok" and "iv (sv_target s)"
    and "mm = cmd_payload tohost" and "mm AND 1 = 0" and "0x80000000 \<le> mm"
    and "\<forall>i < 64. ok (mm + of_nat i)"
    and "words_of 8 (get_range (mem (sv_target s)) mm 64) = n # args" and "syscall_table n = Some c"
    and "\<And>t. iv t \<Longrightarrow> mem t = mem (sv_target s) \<Longrightarrow>
      \<exists>s2. run c args (s\<lparr>sv_target := t\<rparr>) = (Inr v, s2) \<and> iv (sv_target s2) \<and> Q s2"
  shows "\<exists>s2 t'. Q s2 \<and> handle_syscall h run tohost s
      = (Inr (), s2\<lparr>sv_target := t', sv_fromhost_queue := sv_fromhost_queue s2 @ [response tohost 1]\<rparr>)
    \<and> iv t' \<and> mem t' = upd_range (mem (sv_target s2)) mm (bytes_of_words (v # args))"
proof -
  obtain t where t: "iv t" "mem t = mem (sv_target s)"
      "dispatch h run mm s = bnd (run c args) (\<lambda>v. mem_write h mm (bytes_of_words (v # args))) (s\<lparr>sv_target := t\<rparr>)"
    using dispatch_run [OF assms(1,2,5,6), of run] assms(7,8) by auto
  obtain s2 where s2: "run c args (s\<lparr>sv_target := t\<rparr>) = (Inr v, s2)" "iv (sv_target s2)" "Q s2"
    using assms(9) [OF t(1,2)] by blast
  have "length (n # args) = 8"
    using assms(7) length_words_of by metis
  then have "length (bytes_of_words (v # args)) = 64"
    by simp
  then obtain t' where t': "mem_write h mm (bytes_of_words (v # args)) s2 = (Inr (), s2\<lparr>sv_target := t'\<rparr>)" "iv t'"
      "mem t' = upd_range (mem (sv_target s2)) mm (bytes_of_words (v # args))"
    using mem_write_law [OF assms(1) s2(2) assms(5), of "bytes_of_words (v # args)"] assms(6) by auto
  have "dispatch h run mm s = (Inr (), s2\<lparr>sv_target := t'\<rparr>)"
    using t(3) s2(1) t'(1) by (simp add: bnd_Inr)
  then have "handle_syscall h run tohost s
      = (Inr (), s2\<lparr>sv_target := t', sv_fromhost_queue := sv_fromhost_queue s2 @ [response tohost 1]\<rparr>)"
    using assms(3,4) by (simp add: handle_syscall_def andThen_Inr respond_def)
  with s2(3) t' show ?thesis by blast
qed

section \<open>Properties\<close>

text \<open>
  C16: a proxied call through magic memory: when the call the first word names returns \<open>v\<close>, the first
  word becomes \<open>v\<close>, the seven argument words are written back as they were read, and the target is
  answered with 1.
\<close>

theorem magic_memory_result:
  assumes "chunk_target h DMA k iv mem ok" and "iv (sv_target s)"
    and "mm = cmd_payload tohost" and "mm AND 1 = 0" and "0x80000000 \<le> mm"
    and "\<forall>i < 64. ok (mm + of_nat i)"
    and "words_of 8 (get_range (mem (sv_target s)) mm 64) = n # args" and "syscall_table n = Some c"
    and "\<And>t. iv t \<Longrightarrow> mem t = mem (sv_target s) \<Longrightarrow>
      \<exists>s2. run c args (s\<lparr>sv_target := t\<rparr>) = (Inr v, s2) \<and> iv (sv_target s2) \<and> Q s2"
  shows "\<exists>s2 t'. Q s2 \<and> handle_syscall h run tohost s
      = (Inr (), s2\<lparr>sv_target := t', sv_fromhost_queue := sv_fromhost_queue s2 @ [response tohost 1]\<rparr>)
    \<and> iv t' \<and> mem t' = upd_range (mem (sv_target s2)) mm (bytes_of_words (v # args))"
  by (rule magic_memory_run [OF assms(1-8)]) (rule assms(9))

text \<open>A server whose target holds the given words of magic memory at \<open>0x80000000\<close>.\<close>

definition magic_server :: "u64 list \<Rightarrow> (memory, unit) server" where
  "magic_server ws = server_on (upd_range (\<lambda>_. 0) 0x80000000 (bytes_of_words ws)) ()"

lemma magic_server_words:
  assumes "length ws = 8"
  shows "words_of 8 (get_range (sv_target (magic_server ws)) 0x80000000 64) = ws"
proof -
  have "sv_target (magic_server ws) = upd_range (\<lambda>_. 0) 0x80000000 (bytes_of_words ws)"
    by (simp add: magic_server_def server_on_def)
  moreover have "get_range (upd_range (\<lambda>_. 0) 0x80000000 (bytes_of_words ws)) 0x80000000 64 = bytes_of_words ws"
    by (rule get_upd_range_same) (simp_all add: assms)
  ultimately show ?thesis
    using words_of_bytes_of_words [of 8 ws] assms by argo
qed

lemma payload_80000000: "cmd_payload 0x80000000 = 0x80000000"
  by (simp add: cmd_payload_def) 

theorem magic_memory_result_witness:
  "\<exists>s2 t'. True \<and> handle_syscall ideal (\<lambda>c a. ret (hd a + 1)) 0x80000000 (magic_server [64, 5, 0, 0, 0, 0, 0, 0])
      = (Inr (), s2\<lparr>sv_target := t', sv_fromhost_queue := sv_fromhost_queue s2 @ [response 0x80000000 1]\<rparr>)
    \<and> True \<and> t' = upd_range (sv_target s2) 0x80000000 (bytes_of_words (6 # [5, 0, 0, 0, 0, 0, 0]))"
proof (rule magic_memory_result [OF ideal_is_chunk_target, where n = 64 and c = Write
      and Q = "\<lambda>_. True" and tohost = "0x80000000"])
  show "syscall_table 64 = Some Write"
    by (simp add: syscall_table_def syscall_entries_def)
qed (simp_all add: payload_80000000 magic_server_words)

lemma exit_word: "drop_bit 1 (sint (ucast (push_bit 1 code OR 1 :: u64) :: u32)) = signed_take_bit 30 (uint code)"
  by (rule bit_eqI) (auto simp: bit_simps bit_double_iff mult.commute [of code 2] min_def)

text \<open>
  The \<open>exit\<close> call, as the target makes it: the exit word is set so that \<open>exit_code\<close> is the low
  31 bits of the argument read as a signed number, the call returns 0 in the first word of magic
  memory and nothing else in memory changes, and the target is answered.
\<close>

theorem proxied_exit:
  assumes "chunk_target h DMA k iv mem ok" and "iv (sv_target s)"
    and "mm = cmd_payload tohost" and "mm AND 1 = 0" and "0x80000000 \<le> mm"
    and "\<forall>i < 64. ok (mm + of_nat i)"
    and "words_of 8 (get_range (mem (sv_target s)) mm 64) = 93 # code # rest"
  shows "\<exists>s'. handle_syscall h (run_syscall h os st0 fuel ext) tohost s = (Inr (), s')
    \<and> exit_code s' = signed_take_bit 30 (uint code)
    \<and> sv_exitcode s' \<noteq> 0
    \<and> sv_fromhost_queue s' = sv_fromhost_queue s @ [response tohost 1]
    \<and> mem (sv_target s') = upd_range (mem (sv_target s)) mm (le_bytes 8 (0 :: u64))"
proof -
  let ?Q = "\<lambda>s2. exit_code s2 = signed_take_bit 30 (uint code) \<and> sv_exitcode s2 \<noteq> 0
    \<and> sv_fromhost_queue s2 = sv_fromhost_queue s \<and> mem (sv_target s2) = mem (sv_target s)"
  have t: "syscall_table 93 = Some Exit"
    by (simp add: syscall_table_def syscall_entries_def)
  have odd: "ucast (push_bit 1 code OR 1) \<noteq> (0 :: u32)"
  proof
    assume "ucast (push_bit 1 code OR 1) = (0 :: u32)"
    then have "bit (ucast (push_bit 1 code OR 1) :: u32) 0 = bit (0 :: u32) 0" by simp
    then show False by (simp add: bit_simps)
  qed
  have "\<exists>s2. run_syscall h os st0 fuel ext Exit (code # rest) (s\<lparr>sv_target := t\<rparr>) = (Inr 0, s2)
      \<and> iv (sv_target s2) \<and> ?Q s2" if "iv t" "mem t = mem (sv_target s)" for t
    using that odd exit_word [of code]
    by (simp add: run_syscall_def sys_exit_def andThen_modS exit_code_def)
  from magic_memory_run [OF assms t, where Q = ?Q and v = 0
      and run = "run_syscall h os st0 fuel ext", OF this] obtain s2 t' where "?Q s2"
      "handle_syscall h (run_syscall h os st0 fuel ext) tohost s
        = (Inr (), s2\<lparr>sv_target := t', sv_fromhost_queue := sv_fromhost_queue s2 @ [response tohost 1]\<rparr>)"
      "mem t' = upd_range (mem (sv_target s2)) mm (bytes_of_words (0 # code # rest))"
    by blast
  moreover have "upd_range (mem (sv_target s)) mm (bytes_of_words (0 # code # rest))
      = upd_range (mem (sv_target s)) mm (le_bytes 8 (0 :: u64))"
    by (rule fst_word_range [where n = 7]) (use assms(7) in simp_all)
  ultimately show ?thesis
    by (auto simp: exit_code_def)
qed

theorem proxied_exit_witness:
  "\<exists>s'. handle_syscall ideal (run_syscall ideal (null_os 9) empty_stat 10 (\<lambda>_ _. ret 0)) 0x80000000
      (magic_server [93, 3, 0, 0, 0, 0, 0, 0]) = (Inr (), s')
    \<and> exit_code s' = signed_take_bit 30 (uint (3 :: u64)) \<and> sv_exitcode s' \<noteq> 0
    \<and> sv_fromhost_queue s' = sv_fromhost_queue (magic_server [93, 3, 0, 0, 0, 0, 0, 0]) @ [response 0x80000000 1]
    \<and> sv_target s' = upd_range (sv_target (magic_server [93, 3, 0, 0, 0, 0, 0, 0])) 0x80000000 (le_bytes 8 (0 :: u64))"
  by (rule proxied_exit [OF ideal_is_chunk_target, where tohost = "0x80000000" and code = 3
        and rest = "[0, 0, 0, 0, 0, 0]"])
    (simp_all add: payload_80000000 magic_server_words)

text \<open>
  An odd payload ends the test: the exit word becomes the low half of the payload, which is never
  zero, so the run loop stops; the exit code is the word's signed upper 31 bits; nothing is
  answered and memory is not touched.
\<close>

theorem test_end:
  assumes "cmd_payload tohost AND 1 \<noteq> 0"
  shows "\<exists>s'. handle_syscall h run tohost s = (Inr (), s') \<and> s' = s\<lparr>sv_exitcode := ucast (cmd_payload tohost)\<rparr>
    \<and> sv_exitcode s' \<noteq> 0 \<and> exit_code s' = signed_take_bit 30 (drop_bit 1 (uint tohost))"
proof -
  have b: "bit (cmd_payload tohost) n = bit tohost n" if "n < 48" for n
    using that by (simp add: cmd_payload_def bit_simps)
  have "bit (cmd_payload tohost) 0"
    using assms by (simp add: bit_0 and_one_eq mod_2_eq_odd)
  then have "bit (ucast (cmd_payload tohost) :: u32) 0"
    by (simp add: bit_simps)
  then have nz: "(ucast (cmd_payload tohost) :: u32) \<noteq> 0"
    by auto
  have "drop_bit 1 (sint (ucast (cmd_payload tohost) :: u32)) = signed_take_bit 30 (drop_bit 1 (uint tohost))"
    by (rule bit_eqI) (auto simp: bit_simps b min_def)
  with assms nz show ?thesis
    by (simp add: handle_syscall_def exit_code_def)
qed

theorem test_end_witness:
  "\<exists>s'. handle_syscall ideal (\<lambda>_ _. ret 0) 7 (server_on (\<lambda>_. 0) ()) = (Inr (), s')
    \<and> s' = (server_on (\<lambda>_. 0) ())\<lparr>sv_exitcode := ucast (cmd_payload 7)\<rparr>
    \<and> sv_exitcode s' \<noteq> 0 \<and> exit_code s' = signed_take_bit 30 (drop_bit 1 (uint (7 :: u64)))"
  by (rule test_end) (simp add: cmd_payload_def)

text \<open>
  A call number the table does not have is acknowledged like any other, and magic memory is left
  as it was, so the target finds the call number where it looks for the result.
\<close>

theorem unknown_call_is_acknowledged:
  assumes "chunk_target h DMA k iv mem ok" and "iv (sv_target s)"
    and "mm = cmd_payload tohost" and "mm AND 1 = 0" and "0x80000000 \<le> mm"
    and "\<forall>i < 64. ok (mm + of_nat i)"
    and "syscall_table (hd (words_of 8 (get_range (mem (sv_target s)) mm 64))) = None"
  shows "\<exists>t. handle_syscall h run tohost s
      = (Inr (), s\<lparr>sv_target := t, sv_fromhost_queue := sv_fromhost_queue s @ [response tohost 1]\<rparr>)
    \<and> iv t \<and> mem t = mem (sv_target s)"
proof -
  let ?ws = "words_of 8 (get_range (mem (sv_target s)) mm 64)"
  have "?ws ! 0 = hd ?ws"
    by (rule hd_conv_nth [symmetric]) (metis length_words_of list.size(3) zero_neq_numeral)
  then obtain t where "dispatch h run mm s = (Inr (), s\<lparr>sv_target := t\<rparr>)" "iv t" "mem t = mem (sv_target s)"
    using dispatch_run [OF assms(1,2,5,6), of run] assms(7) by auto
  then show ?thesis
    using assms(3,4) by (auto simp: handle_syscall_def andThen_Inr respond_def)
qed

theorem unknown_call_is_acknowledged_witness:
  "\<exists>t. handle_syscall ideal (\<lambda>_ _. ret 0) 0x80000000 (magic_server [1, 2, 3, 4, 5, 6, 7, 8])
      = (Inr (), (magic_server [1, 2, 3, 4, 5, 6, 7, 8])\<lparr>sv_target := t, sv_fromhost_queue :=
          sv_fromhost_queue (magic_server [1, 2, 3, 4, 5, 6, 7, 8]) @ [response 0x80000000 1]\<rparr>)
    \<and> True \<and> t = sv_target (magic_server [1, 2, 3, 4, 5, 6, 7, 8])"
proof (rule unknown_call_is_acknowledged [OF ideal_is_chunk_target, where tohost = "0x80000000" and mm = "0x80000000"])
  have "words_of 8 (get_range (sv_target (magic_server [1, 2, 3, 4, 5, 6, 7, 8])) 0x80000000 64) = [1, 2, 3, 4, 5, 6, 7, 8]"
    by (rule magic_server_words) simp
  then show "syscall_table (hd (words_of 8 (get_range (sv_target (magic_server [1, 2, 3, 4, 5, 6, 7, 8])) 0x80000000 64))) = None"
    by (simp only: list.sel) (simp add: syscall_table_def syscall_entries_def)
qed (simp_all add: payload_80000000)

lemma sys_write_run:
  assumes "chunk_target h DMA k iv mem ok" and "iv (sv_target s)" and "0x80000000 \<le> pbuf"
    and "\<forall>i < unat len. ok (pbuf + of_nat i)" and "unat len < 2 ^ 63"
    and "os_write os (fds_lookup (sv_fds s) fd) (get_range (mem (sv_target s)) pbuf (unat len)) (sv_env s) = (r, e)"
  shows "\<exists>t. sys_write h os fd pbuf len s
      = (Inr (reg_of_int (if r = - 1 then - os_errno os e else r)), s\<lparr>sv_target := t, sv_env := e\<rparr>)
    \<and> iv t \<and> mem t = mem (sv_target s)"
proof -
  obtain t where "mem_read h pbuf (replicate (unat len) 0) s
      = (Inr (get_range (mem (sv_target s)) pbuf (unat len)), s\<lparr>sv_target := t\<rparr>)"
      "iv t" "mem t = mem (sv_target s)"
    using mem_read_law [OF assms(1,2,3), of "replicate (unat len) 0"] assms(4) by auto
  then show ?thesis
    using assms(5,6)
    by (auto simp: sys_write_def alloc_vec_ok bnd_Inr on_fd_def bnd_getS on_env_run sysret_errno_def bnd_def)
qed

text \<open>
  \<open>write\<close> hands the host exactly the bytes of target memory the call names, on the host
  descriptor of the slot, changes nothing on the target, and returns the count or \<open>-errno\<close>.
\<close>

theorem write_sends_target_bytes:
  assumes "chunk_target h DMA k iv mem ok" and "iv (sv_target s)" and "0x80000000 \<le> pbuf"
    and "\<forall>i < unat len. ok (pbuf + of_nat i)" and "unat len < 2 ^ 63"
    and "os_write os (fds_lookup (sv_fds s) fd) (get_range (mem (sv_target s)) pbuf (unat len)) (sv_env s) = (r, e)"
  shows "\<exists>t. sys_write h os fd pbuf len s
      = (Inr (reg_of_int (if r = - 1 then - os_errno os e else r)), s\<lparr>sv_target := t, sv_env := e\<rparr>)
    \<and> iv t \<and> mem t = mem (sv_target s)"
  using assms by (rule sys_write_run)

theorem write_sends_target_bytes_witness:
  "\<exists>t. sys_write ideal ((null_os 9)\<lparr>os_write := (\<lambda>fd bs e. (int (length bs), ()))\<rparr>) 1 0x80000010 3
        (server_on (\<lambda>a. ucast a) ())
      = (Inr (reg_of_int (if (3::int) = - 1 then - os_errno ((null_os 9)\<lparr>os_write := (\<lambda>fd bs e. (int (length bs), ()))\<rparr>) () else 3)),
         (server_on (\<lambda>a. ucast a) ())\<lparr>sv_target := t, sv_env := ()\<rparr>)
    \<and> True \<and> t = sv_target (server_on (\<lambda>a. ucast a) ())"
  by (rule write_sends_target_bytes [OF ideal_is_chunk_target]) simp_all

text \<open>
  \<open>read\<close> puts the bytes the host delivered at the buffer the call names, and only those, and
  returns their number.
\<close>

theorem read_fills_target:
  assumes "chunk_target h DMA k iv mem ok" and "iv (sv_target s)" and "0x80000000 \<le> pbuf"
    and "\<forall>i < unat len. ok (pbuf + of_nat i)" and "unat len < 2 ^ 63"
    and "os_read os (fds_lookup (sv_fds s) fd) (unat len) (sv_env s) = ((int (length bs), bs), e)"
    and "bs \<noteq> []" and "length bs \<le> unat len"
  shows "\<exists>t. sys_read h os fd pbuf len s = (Inr (of_nat (length bs)), s\<lparr>sv_env := e, sv_target := t\<rparr>)
    \<and> iv t \<and> mem t = upd_range (mem (sv_target s)) pbuf bs"
proof -
  let ?s = "s\<lparr>sv_env := e\<rparr>"
  have "length bs \<le> 2 ^ 64"
    using assms(5,8) by simp
  then obtain t where "mem_write h pbuf bs ?s = (Inr (), ?s\<lparr>sv_target := t\<rparr>)" "iv t"
      "mem t = upd_range (mem (sv_target s)) pbuf bs"
    using mem_write_law [OF assms(1), of ?s pbuf bs] assms(2,3,4,8) by auto
  then show ?thesis
    using assms(5-8)
    by (auto simp: sys_read_def alloc_vec_ok on_fd_def bnd_getS on_env_run sysret_errno_def bnd_def andThen_def
        reg_of_int_def)
qed

theorem read_fills_target_witness:
  "\<exists>t. sys_read ideal ((null_os 9)\<lparr>os_read := (\<lambda>fd n e. ((2, [65, 66]), ()))\<rparr>) 0 0x80000010 8
        (server_on (\<lambda>a. 0) ())
      = (Inr (of_nat (length [65, 66 :: u8])), (server_on (\<lambda>a. 0) ())\<lparr>sv_env := (), sv_target := t\<rparr>)
    \<and> True \<and> t = upd_range (sv_target (server_on (\<lambda>a. 0) ())) 0x80000010 [65, 66]"
  by (rule read_fills_target [OF ideal_is_chunk_target]) simp_all

end
