(* ===== verification/Rfb.thy ===== *)
theory Rfb
  imports Device
begin

text \<open>
  The remote frame buffer \<open>rfb_t\<close> of \<open>rfb.h\<close> and \<open>rfb.cc\<close>, as the server sees it: the two commands and the
  tick that copies a block of target memory and sends the finished frame. The thread that accepts
  the clients is in \<open>Rfb_Thread\<close>.
\<close>

section \<open>The buffer\<close>

definition FB_ALIGN :: u64 where "FB_ALIGN = 256"

definition rfb_init :: "int \<Rightarrow> rfb" where
  "rfb_init display = \<lparr>rfb_memif = False, rfb_addr = 0, rfb_width = 0, rfb_height = 0, rfb_bpp = 0,
     rfb_display = display, rfb_fb1 = None, rfb_fb2 = None, rfb_read_pos = 0\<rparr>"

definition rfb_device :: "int \<Rightarrow> fault + device" where
  "rfb_device display =
    make_device (Rfb (rfb_init display)) [(0, H_rfb_configure, ''configure''), (1, H_rfb_set_address, ''set_address'')]"

definition fb_bytes :: "rfb \<Rightarrow> u64" where
  "fb_bytes r = ucast (rfb_width r) * ucast (rfb_height r) * ucast (rfb_bpp r) div 8"

definition set_rfb :: "nat \<Rightarrow> device \<Rightarrow> rfb \<Rightarrow> ('t, 'e, unit) sprog" where
  "set_rfb i d r = set_device i (d\<lparr>dev_class := Rfb r\<rparr>)"

section \<open>Commands\<close>

text \<open>
  \<open>handle_configure\<close>; the two arrays are not initialised. The size is taken over before it is checked,
  but a check that fails ends the server.
\<close>

definition rfb_handle_configure ::
    "'t htif_ops \<Rightarrow> 'e os_ops \<Rightarrow> nat \<Rightarrow> device \<Rightarrow> rfb \<Rightarrow> reg \<Rightarrow> ('t, 'e, unit) sprog" where
  "rfb_handle_configure h os i d r tohost =
    (if rfb_fb1 r \<noteq> None then raise (Runtime_error ''you must only set the rfb configuration once'')
     else let p = cmd_payload tohost;
              r1 = r\<lparr>rfb_width := ucast p, rfb_height := ucast (drop_bit 16 p), rfb_bpp := ucast (drop_bit 32 p)\<rparr>;
              n = unat (fb_bytes r1);
              r2 = r1\<lparr>rfb_fb1 := Some (uninit h n), rfb_fb2 := Some (drop n (uninit h (2 * n)))\<rparr> in
       andThen (set_rfb i d r1)
       (if rfb_bpp r1 \<noteq> 32 then raise (Runtime_error ''rfb requires 32 bpp true color'')
        else if fb_bytes r1 mod FB_ALIGN \<noteq> 0 then raise (Runtime_error ''rfb size must be a multiple of 256'')
        else andThen (set_rfb i d r2)
          (bnd (on_env (os_thread os (rfb_display r2))) (\<lambda>e.
            if e \<noteq> 0 then raise (Runtime_error ''could not create thread'') else respond tohost 1))))"

definition rfb_handle_set_address :: "nat \<Rightarrow> device \<Rightarrow> rfb \<Rightarrow> reg \<Rightarrow> ('t, 'e, unit) sprog" where
  "rfb_handle_set_address i d r tohost =
    (let r1 = r\<lparr>rfb_addr := cmd_payload tohost\<rparr> in
     andThen (set_rfb i d r1)
     (if rfb_addr r1 mod FB_ALIGN \<noteq> 0 then raise (Runtime_error ''rfb address must be 256-byte aligned'')
      else andThen (set_rfb i d (r1\<lparr>rfb_memif := True\<rparr>)) (respond tohost 1)))"

section \<open>Frames\<close>

text \<open>\<open>htons\<close> and \<open>htonl\<close> as \<open>str\<close> makes strings of them.\<close>

definition be16 :: "u16 \<Rightarrow> u8 list" where
  "be16 w = [ucast (drop_bit 8 w), ucast w]"

definition be32 :: "u32 \<Rightarrow> u8 list" where
  "be32 w = rev (le_bytes 4 w)"

text \<open>\<open>fb_update\<close>: one rectangle in raw encoding, all of the buffer. An error of the write is caught.\<close>

definition frame_header :: "rfb \<Rightarrow> u8 list" where
  "frame_header r =
    [0] @ [0] @ be16 1 @ be16 0 @ be16 0 @ be16 (rfb_width r) @ be16 (rfb_height r) @ be32 0"

definition frame_message :: "rfb \<Rightarrow> u8 list \<Rightarrow> u8 list" where
  "frame_message r fb = frame_header r @ take (unat (fb_bytes r)) fb"

definition fb_update :: "'e os_ops \<Rightarrow> rfb \<Rightarrow> int \<Rightarrow> ('t, 'e, unit) sprog" where
  "fb_update os r afd =
    (case rfb_fb1 r of
       None \<Rightarrow> raise (Undefined ''fb1'')
     | Some fb \<Rightarrow> bnd (on_env (os_write os afd (frame_message r fb))) (\<lambda>_. ret ()))"

definition send_frame :: "'e os_ops \<Rightarrow> rfb \<Rightarrow> ('t, 'e, unit) sprog" where
  "send_frame os r =
    bnd (on_env (os_try_client os (rfb_display r))) (\<lambda>c.
      case c of None \<Rightarrow> ret () | Some afd \<Rightarrow> fb_update os r afd)"

text \<open>\<open>tick\<close>: one block into the back buffer; at its end the buffers are swapped.\<close>

definition rfb_tick :: "'t htif_ops \<Rightarrow> 'e os_ops \<Rightarrow> nat \<Rightarrow> device \<Rightarrow> rfb \<Rightarrow> ('t, 'e, unit) sprog" where
  "rfb_tick h os i d r =
    (if fb_bytes r = 0 \<or> \<not> rfb_memif r then ret ()
     else case rfb_fb2 r of
       None \<Rightarrow> raise (Undefined ''fb2'')
     | Some fb2 \<Rightarrow>
         let p = unat (rfb_read_pos r); pos = (rfb_read_pos r + FB_ALIGN) mod fb_bytes r in
         andThen (definedM ''fb2 + read_pos'' (p + 256 \<le> length fb2))
         (bnd (mem_read h (rfb_addr r + rfb_read_pos r) (take 256 (drop p fb2))) (\<lambda>bs.
           let fb2' = take p fb2 @ bs @ drop (p + 256) fb2 in
           if pos \<noteq> 0 then set_rfb i d (r\<lparr>rfb_fb2 := Some fb2', rfb_read_pos := pos\<rparr>)
           else let r' = r\<lparr>rfb_fb1 := Some fb2', rfb_fb2 := rfb_fb1 r, rfb_read_pos := pos\<rparr> in
             andThen (set_rfb i d r') (send_frame os r'))))"

end
