(* ===== verification/Device_List.thy ===== *)
theory Device_List
  imports Syscall Rfb
begin

text \<open>
  \<open>device_list_t\<close> of \<open>device.cc\<close>: the 256 slots of the server, the dispatch of a command to the
  device and handler it names, and the tick of the registered devices.
\<close>

text \<open>The constructor fills every slot with the null device.\<close>

definition device_list_init :: "device \<Rightarrow> device list" where
  "device_list_init null = replicate MAX_COMMANDS null"

definition register_device :: "device \<Rightarrow> ('t, 'e, unit) sprog" where
  "register_device d =
    andThen (modS (\<lambda>s. s\<lparr>sv_num_devices := sv_num_devices s + 1\<rparr>))
      (bnd (getS sv_num_devices) (\<lambda>n.
        andThen (assertM ''num_devices < command_t::MAX_DEVICES'' (n < MAX_DEVICES))
          (set_device (n - 1) d)))"

text \<open>
  A registered member function, run on the device in slot \<open>i\<close>. An empty \<open>std::function\<close> would
  throw when called; no constructed device has one.
\<close>

definition run_handler ::
    "'t htif_ops \<Rightarrow> 'e os_ops \<Rightarrow> (syscall \<Rightarrow> reg list \<Rightarrow> ('t, 'e, reg) sprog)
      \<Rightarrow> nat \<Rightarrow> device \<Rightarrow> handler \<Rightarrow> reg \<Rightarrow> ('t, 'e, unit) sprog" where
  "run_handler h os run i d hnd tohost = (case hnd of
     H_empty \<Rightarrow> raise (Runtime_error ''bad_function_call'')
   | H_null \<Rightarrow> ret ()
   | H_identify \<Rightarrow> handle_identify h d tohost
   | H_bcd_read \<Rightarrow> (case dev_class d of Bcd p \<Rightarrow> bcd_handle_read i d p tohost | _ \<Rightarrow> ret ())
   | H_bcd_write \<Rightarrow> bcd_handle_write os tohost
   | H_disk_read \<Rightarrow> (case dev_class d of Disk nm sz fd \<Rightarrow> disk_handle_read h os nm fd tohost | _ \<Rightarrow> ret ())
   | H_disk_write \<Rightarrow> (case dev_class d of Disk nm sz fd \<Rightarrow> disk_handle_write h os nm fd tohost | _ \<Rightarrow> ret ())
   | H_syscall \<Rightarrow> handle_syscall h run tohost
   | H_rfb_configure \<Rightarrow> (case dev_class d of Rfb r \<Rightarrow> rfb_handle_configure h os i d r tohost | _ \<Rightarrow> ret ())
   | H_rfb_set_address \<Rightarrow> (case dev_class d of Rfb r \<Rightarrow> rfb_handle_set_address i d r tohost | _ \<Rightarrow> ret ()))"

definition handle_command ::
    "'t htif_ops \<Rightarrow> 'e os_ops \<Rightarrow> (syscall \<Rightarrow> reg list \<Rightarrow> ('t, 'e, reg) sprog)
      \<Rightarrow> reg \<Rightarrow> ('t, 'e, unit) sprog" where
  "handle_command h os run tohost =
    bnd (getS sv_devices) (\<lambda>devs.
      let i = unat (cmd_device tohost); d = devs ! i in
      run_handler h os run i d (command_handlers d ! unat (cmd_cmd tohost)) tohost)"

text \<open>The terminal device and the frame buffer override \<open>device_t::tick\<close>.\<close>

definition device_tick :: "'t htif_ops \<Rightarrow> 'e os_ops \<Rightarrow> nat \<Rightarrow> ('t, 'e, unit) sprog" where
  "device_tick h os i =
    bnd (getS (\<lambda>s. sv_devices s ! i)) (\<lambda>d.
      case dev_class d of Bcd p \<Rightarrow> bcd_tick os i d p | Rfb r \<Rightarrow> rfb_tick h os i d r | _ \<Rightarrow> ret ())"

definition device_list_tick :: "'t htif_ops \<Rightarrow> 'e os_ops \<Rightarrow> ('t, 'e, unit) sprog" where
  "device_list_tick h os = bnd (getS sv_num_devices) (\<lambda>n. forM [0..<n] (device_tick h os))"

section \<open>Well-formed devices\<close>

definition device_wf :: "device \<Rightarrow> bool" where
  "device_wf d \<longleftrightarrow>
     length (command_handlers d) = 256 \<and> length (command_names d) = 256
   \<and> H_empty \<notin> set (command_handlers d)
   \<and> command_handlers d ! 255 = H_identify
   \<and> (\<forall>nm \<in> set (command_names d). length nm < 64)"

definition devices_wf :: "('t, 'e) server \<Rightarrow> bool" where
  "devices_wf s \<longleftrightarrow> length (sv_devices s) = 256 \<and> (\<forall>d \<in> set (sv_devices s). device_wf d)
     \<and> sv_num_devices s < 256"

end
