(* ===== verification/Device_Types.thy ===== *)
theory Device_Types
  imports Device_List
begin

text \<open>
  The shape of the device list is an invariant of the server: the constructors establish it, and
  registration, every command of every device and the tick keep it.
\<close>

section \<open>Constructed devices\<close>

lemma fill_next: "n < length xs \<Longrightarrow> (replicate n x @ drop n xs)[n := x] = replicate n x @ x # drop (Suc n) xs"
  by (simp add: list_update_append Cons_nth_drop_Suc [symmetric])

lemma null_commands:
  assumes "n \<le> 256" and "length (command_handlers d) = 256" and "length (command_names d) = 256"
  shows "forM [0..<n] (\<lambda>cmd. register_command cmd H_null []) d
    = (Inr (), d\<lparr>command_handlers := replicate n H_null @ drop n (command_handlers d),
                 command_names := replicate n [] @ drop n (command_names d)\<rparr>)"
  using assms(1)
proof (induction n)
  case (Suc n)
  then show ?case
    using assms(2,3)
    by (simp add: forM_append andThen_Inr register_command_def MAX_COMMANDS_def IDENTITY_SIZE_def c_str_def
        replicate_append_same [symmetric] fill_next)
qed simp

lemma device_init_run: "device_init (device_raw c) = (Inr (),
    \<lparr>dev_class = c, command_handlers = (replicate 256 H_null)[255 := H_identify],
     command_names = (replicate 256 [])[255 := ''identity'']\<rparr>)"
  unfolding device_init_def
  by (subst andThen_Inr [where m = "forM _ _", OF null_commands])
    (simp_all add: device_raw_def MAX_COMMANDS_def register_command_def IDENTITY_SIZE_def c_str_def andThen_Inr)

lemma register_command_wf:
  assumes "device_wf d" and "hnd \<noteq> H_empty" and "cmd < 255" and "length (c_str name) < 64"
  shows "\<exists>d'. register_command cmd hnd name d = (Inr (), d') \<and> device_wf d'"
  using assms
  by (auto simp: register_command_def MAX_COMMANDS_def IDENTITY_SIZE_def andThen_Inr device_wf_def
      dest!: set_update_subset_insert [THEN subsetD])

lemma make_device_wf:
  assumes "\<forall>(cmd, hnd, name) \<in> set regs. hnd \<noteq> H_empty \<and> cmd < 255 \<and> length (c_str name) < 64"
  shows "\<exists>d. make_device c regs = Inr d \<and> device_wf d"
proof -
  have "\<exists>d'. forM regs (\<lambda>(cmd, hnd, name). register_command cmd hnd name) d = (Inr (), d') \<and> device_wf d'"
    if "device_wf d" for d
    using assms that
  proof (induction regs arbitrary: d)
    case (Cons r regs)
    obtain cmd hnd name where r: "r = (cmd, hnd, name)" by (cases r)
    obtain d1 where d1: "register_command cmd hnd name d = (Inr (), d1)" "device_wf d1"
      using register_command_wf [of d hnd cmd name] Cons.prems r by auto
    then show ?case using Cons.IH [of d1] Cons.prems(1) r by (auto simp: andThen_Inr)
  qed simp
  moreover have "device_wf \<lparr>dev_class = c, command_handlers = (replicate 256 H_null)[255 := H_identify],
       command_names = (replicate 256 [])[255 := ''identity'']\<rparr>"
    by (auto simp: device_wf_def dest!: set_update_subset_insert [THEN subsetD])
  ultimately show ?thesis
    unfolding make_device_def andThen_Inr [where m = device_init, OF device_init_run] by (fastforce split: prod.split sum.split)
qed

lemma constructed_devices:
  "\<exists>d. null_device = Inr d \<and> device_wf d" "\<exists>d. bcd_device = Inr d \<and> device_wf d"
  "\<exists>d. disk_device nm sz fd = Inr d \<and> device_wf d" "\<exists>d. syscall_device = Inr d \<and> device_wf d"
  "\<exists>d. rfb_device display = Inr d \<and> device_wf d"
  unfolding null_device_def bcd_device_def disk_device_def syscall_device_def rfb_device_def
  by (rule make_device_wf, simp add: c_str_def)+

section \<open>Operations that leave the list alone\<close>

definition devices_are :: "device list \<Rightarrow> nat \<Rightarrow> ('t, 'e) server \<Rightarrow> bool" where
  "devices_are ds n s \<longleftrightarrow> sv_devices s = ds \<and> sv_num_devices s = n"

named_theorems devices_kept

lemma devices_kept_modS:
  "(\<And>s. sv_devices (f s) = sv_devices s) \<Longrightarrow> (\<And>s. sv_num_devices (f s) = sv_num_devices s) \<Longrightarrow> keeps (devices_are ds n) (modS f)"
  by (simp add: keeps_def devices_are_def)

lemmas devices_kept_base [devices_kept] =
  keeps_ret keeps_raise keeps_getS keeps_bnd keeps_andThen keeps_if keeps_assertM keeps_definedM keeps_forM
  keeps_poll keeps_seqM keeps_pair keeps_option

lemma devices_kept_access [devices_kept]:
  "keeps (devices_are ds n) (on_target p)" "keeps (devices_are ds n) (on_env f)" "keeps (devices_are ds n) (set_env g)"
  "keeps (devices_are ds n) (mem_read h a bs)" "keeps (devices_are ds n) (mem_write h a bs)"
  "keeps (devices_are ds n) (respond tohost v)"
  by (auto simp: keeps_def devices_are_def on_target_def on_env_def set_env_def mem_read_def mem_write_def respond_def
      split: prod.split)

lemma devices_kept_pieces [devices_kept]:
  "keeps (devices_are ds n) (alloc_vec k)" "keeps (devices_are ds n) (c_string_of bs)"
  "keeps (devices_are ds n) (sysret_errno os r)" "keeps (devices_are ds n) (on_fd fd c)"
  "keeps (devices_are ds n) (at_path fd name)" "keeps (devices_are ds n) (read_name h a k)"
  "keeps (devices_are ds n) (two_names h a k a' k')" "keeps (devices_are ds n) (stat_result h os a st)"
  "keeps (devices_are ds n) (shared_get os file i)" "keeps (devices_are ds n) (shared_put os file i v)"
  unfolding alloc_vec_def c_string_of_def sysret_errno_def on_fd_def at_path_def read_name_def two_names_def
    stat_result_def shared_get_def shared_put_def
  by (intro devices_kept)+

lemma devices_kept_changes [devices_kept]:
  "keeps (devices_are ds n) (fds_alloc i)" "keeps (devices_are ds n) (fds_dealloc fd)" "keeps (devices_are ds n) (vprint t)"
  unfolding fds_alloc_def fds_dealloc_def vprint_def Let_def
  by (intro devices_kept devices_kept_modS; simp)+

lemma devices_kept_load_image_words [devices_kept]: "keeps (devices_are ds n) (load_image_words h os a sz cnt)"
  by (induction h os a sz cnt rule: load_image_words.induct)
    (subst load_image_words.simps, auto intro!: devices_kept)

lemma devices_kept_chdir [devices_kept]:
  "keeps (devices_are ds n) (chdir_size h fuel path i)" "keeps (devices_are ds n) (chdir_copy h k path j)"
proof -
  show "keeps (devices_are ds n) (chdir_size h fuel path i)"
    by (induction fuel arbitrary: i) (auto intro!: devices_kept)
  show "keeps (devices_are ds n) (chdir_copy h k path j)"
    by (induction k arbitrary: j) (auto intro!: devices_kept)
qed

lemma devices_kept_file_calls [devices_kept]:
  "keeps (devices_are ds n) (sys_read h os a0 a1 a2)" "keeps (devices_are ds n) (sys_pread h os a0 a1 a2 a3)"
  "keeps (devices_are ds n) (sys_write h os a0 a1 a2)" "keeps (devices_are ds n) (sys_pwrite h os a0 a1 a2 a3)"
  "keeps (devices_are ds n) (sys_close os a0)" "keeps (devices_are ds n) (sys_lseek os a0 a1 a2)"
  "keeps (devices_are ds n) (sys_fstat h os st0 a0 a1)" "keeps (devices_are ds n) (sys_fcntl os a0 a1 a2)"
  "keeps (devices_are ds n) (sys_ftruncate os a0 a1)" "keeps (devices_are ds n) (sys_lstat h os st0 a0 a1 a2)"
  unfolding sys_read_def sys_pread_def sys_write_def sys_pwrite_def sys_close_def sys_lseek_def sys_fstat_def
    sys_fcntl_def sys_ftruncate_def sys_lstat_def
  by (intro devices_kept)+

lemma devices_kept_path_calls [devices_kept]:
  "keeps (devices_are ds n) (sys_openat h os a0 a1 a2 a3 a4)" "keeps (devices_are ds n) (sys_fstatat h os st0 a0 a1 a2 a3 a4)"
  "keeps (devices_are ds n) (sys_faccessat h os a0 a1 a2 a3)" "keeps (devices_are ds n) (sys_unlinkat h os a0 a1 a2 a3)"
  "keeps (devices_are ds n) (sys_mkdirat h os a0 a1 a2 a3)" "keeps (devices_are ds n) (sys_renameat h os a0 a1 a2 a3 a4 a5)"
  "keeps (devices_are ds n) (sys_linkat h os a0 a1 a2 a3 a4 a5 a6)" "keeps (devices_are ds n) (sys_getcwd h os a0 a1)"
  "keeps (devices_are ds n) (sys_chdir h os fuel a0)"
  unfolding sys_openat_def sys_fstatat_def sys_faccessat_def sys_unlinkat_def sys_mkdirat_def sys_renameat_def
    sys_linkat_def sys_getcwd_def sys_chdir_def Let_def
  by (intro devices_kept)+

lemma devices_kept_other_calls [devices_kept]:
  "keeps (devices_are ds n) (sys_exit a0)" "keeps (devices_are ds n) (sys_getmainvars h a0 a1)"
  "keeps (devices_are ds n) (sys_read_symbol_addr h a0 a1)" "keeps (devices_are ds n) (sys_read_console h os fuel a0)"
  "keeps (devices_are ds n) (sys_write_console os fuel a0)" "keeps (devices_are ds n) (sys_load_image h os fuel)"
  "keeps (devices_are ds n) (sys_fprint a)" "keeps (devices_are ds n) (sys_fprint_truncated a)"
  unfolding sys_exit_def sys_getmainvars_def sys_read_symbol_addr_def sys_read_console_def sys_write_console_def
    sys_load_image_def sys_fprint_def sys_fprint_truncated_def Let_def
  by (intro devices_kept devices_kept_modS; simp)+

lemma run_syscall_keeps:
  assumes "\<And>c a. keeps (devices_are ds n) (ext c a)"
  shows "keeps (devices_are ds n) (run_syscall h os st0 fuel ext c a)"
  unfolding run_syscall_def by (cases c) (auto intro!: devices_kept assms)

lemma handle_syscall_keeps:
  assumes "\<And>c a. keeps (devices_are ds n) (run c a)"
  shows "keeps (devices_are ds n) (handle_syscall h run tohost)"
  unfolding handle_syscall_def dispatch_def Let_def
  by (intro devices_kept devices_kept_modS assms; simp)

section \<open>The invariant\<close>

lemma devices_wfD: "devices_wf s \<Longrightarrow> i < 256 \<Longrightarrow> device_wf (sv_devices s ! i)"
  by (simp add: devices_wf_def)

lemma keeps_set_class: "device_wf d \<Longrightarrow> keeps devices_wf (set_device i (d\<lparr>dev_class := c\<rparr>))"
  by (auto simp: keeps_def devices_wf_def set_device_def device_wf_def dest!: set_update_subset_insert [THEN subsetD])

lemma keeps_devices_wf: "(\<And>ds n. keeps (devices_are ds n) m) \<Longrightarrow> keeps devices_wf m"
  by (auto simp: keeps_def devices_are_def devices_wf_def)

lemma keeps_wf_access:
  "keeps devices_wf (on_env f)" "keeps devices_wf (mem_read h a bs)" "keeps devices_wf (respond tohost v)"
  by (intro keeps_devices_wf devices_kept)+

lemma rfb_keeps:
  assumes "device_wf d"
  shows "keeps devices_wf (rfb_handle_configure h os i d r tohost)"
    and "keeps devices_wf (rfb_handle_set_address i d r tohost)"
    and "keeps devices_wf (rfb_tick h os i d r)"
  using assms
  by (auto simp: rfb_handle_configure_def rfb_handle_set_address_def rfb_tick_def set_rfb_def send_frame_def
      fb_update_def Let_def split: option.split
      intro!: keeps_bnd keeps_andThen keeps_raise keeps_ret keeps_definedM keeps_set_class keeps_wf_access)

lemma run_handler_keeps:
  assumes "\<And>c a ds n. keeps (devices_are ds n) (run c a)" and "device_wf d"
  shows "keeps devices_wf (run_handler h os run i d hnd tohost)"
proof (cases hnd)
  case H_bcd_read
  then show ?thesis
    by (cases "dev_class d") (simp_all add: run_handler_def bcd_handle_read_def keeps_set_class assms(2))
next
  case H_disk_read
  then show ?thesis
    by (cases "dev_class d") (auto simp: run_handler_def disk_handle_read_def Let_def intro!: keeps_devices_wf devices_kept)
next
  case H_disk_write
  then show ?thesis
    by (cases "dev_class d") (auto simp: run_handler_def disk_handle_write_def Let_def intro!: keeps_devices_wf devices_kept)
next
  case H_rfb_configure
  then show ?thesis
    by (cases "dev_class d") (simp_all add: run_handler_def rfb_keeps assms(2))
next
  case H_rfb_set_address
  then show ?thesis
    by (cases "dev_class d") (simp_all add: run_handler_def rfb_keeps assms(2))
next
  case H_syscall
  then show ?thesis
    by (auto simp: run_handler_def intro!: keeps_devices_wf handle_syscall_keeps assms(1))
qed (auto simp: run_handler_def handle_identify_def bcd_handle_write_def terminal_write_def Let_def
      intro!: keeps_devices_wf devices_kept)

lemma handle_command_keeps:
  assumes "\<And>c a ds n. keeps (devices_are ds n) (ext c a)"
  shows "keeps devices_wf (handle_command h os (run_syscall h os st0 fuel ext) tohost)"
proof (rule keepsI)
  fix s
  assume wf: "devices_wf (s :: ('a, 'b) server)"
  then have "device_wf (sv_devices s ! unat (cmd_device tohost))"
    using unsigned_less [of "cmd_device tohost", where ?'a = nat] by (intro devices_wfD) simp_all
  then show "devices_wf (snd (handle_command h os (run_syscall h os st0 fuel ext) tohost s))"
    using keepsD [OF run_handler_keeps [OF run_syscall_keeps [OF assms]] wf]
    by (simp add: handle_command_def bnd_getS Let_def)
qed

lemma keeps_each: "(\<And>x. x \<in> set xs \<Longrightarrow> keeps I (f x)) \<Longrightarrow> keeps I (forM xs f)"
  by (induction xs) (simp_all add: keeps_andThen)

lemma device_tick_keeps:
  assumes "i < 256"
  shows "keeps devices_wf (device_tick h os i)"
proof (rule keepsI)
  fix s
  assume wf: "devices_wf (s :: ('a, 'b) server)"
  have read: "keeps devices_wf (terminal_read os)"
    unfolding terminal_read_def by (intro keeps_devices_wf devices_kept)
  have tick: "keeps devices_wf (bcd_tick os i d p)" if "device_wf d" for d p
    by (auto simp: bcd_tick_def split: list.split
        intro!: keeps_bnd keeps_andThen keeps_set_class that read keeps_devices_wf [of "respond _ _"] devices_kept)
  show "devices_wf (snd (device_tick h os i s))"
    using keepsD [OF tick wf] keepsD [OF rfb_keeps(3) wf] wf devices_wfD [OF wf assms]
    by (simp add: device_tick_def bnd_getS split: dev_class.split)
qed

lemma device_list_tick_keeps: "keeps devices_wf (device_list_tick h os)"
proof (rule keepsI)
  fix s
  assume wf: "devices_wf (s :: ('a, 'b) server)"
  then have "keeps devices_wf (forM [0..<sv_num_devices s] (device_tick h os) :: ('a, 'b, unit) sprog)"
    by (intro keeps_each device_tick_keeps) (simp add: devices_wf_def)
  then show "devices_wf (snd (device_list_tick h os s))"
    using wf by (simp add: device_list_tick_def bnd_getS keeps_def)
qed


text \<open>A server as the constructor of \<open>device_list_t\<close> leaves it, every slot a null device.\<close>

definition built :: "fault + device \<Rightarrow> device" where
  "built r = (case r of Inr d \<Rightarrow> d | Inl _ \<Rightarrow> device_raw Null_device)"

definition fresh_server :: "(memory, unit) server" where
  "fresh_server = (server_on (\<lambda>_. 0) ())\<lparr>sv_devices := device_list_init (built null_device), sv_num_devices := 0\<rparr>"


end
