(* ===== verification/Dtm.thy ===== *)
theory Dtm
  imports Memif
begin

text \<open>
  The debug transport \<open>dtm_t\<close> of \<open>dtm.h\<close> and \<open>dtm.cc\<close>: the chunk operations as sequences of
  32-bit debug-module requests, and the handshake \<open>tick\<close> through which the simulator or the board
  driver takes each request and returns its response. The peer that serves a request is a
  parameter here; \<open>Bridge\<close> provides the one of this repository.
\<close>

section \<open>Requests\<close>

record dmi_req =
  rq_dmi_addr :: u32
  rq_op :: u32
  rq_data :: u32

record dmi_resp =
  rs_resp :: u32
  rs_data :: u32

type_synonym 'c dmi_peer = "dmi_req \<Rightarrow> ('c, dmi_resp) prog"

text \<open>The register numbers of \<open>debug_defines.h\<close>, low half then high half of data and address.\<close>

definition data_lo :: "rw_target \<Rightarrow> u32" where
  "data_lo t = (case t of DMA \<Rightarrow> 0x0 | L2 \<Rightarrow> 0x4 | DDR \<Rightarrow> 0x8 | DMA_BURST \<Rightarrow> 0xc)"
definition data_hi :: "rw_target \<Rightarrow> u32" where
  "data_hi t = (case t of DMA \<Rightarrow> 0x1 | L2 \<Rightarrow> 0x5 | DDR \<Rightarrow> 0x9 | DMA_BURST \<Rightarrow> 0xd)"
definition addr_lo :: "rw_target \<Rightarrow> u32" where
  "addr_lo t = (case t of DMA \<Rightarrow> 0x2 | L2 \<Rightarrow> 0x6 | DDR \<Rightarrow> 0xa | DMA_BURST \<Rightarrow> 0xe)"
definition addr_hi :: "rw_target \<Rightarrow> u32" where
  "addr_hi t = (case t of DMA \<Rightarrow> 0x3 | L2 \<Rightarrow> 0x7 | DDR \<Rightarrow> 0xb | DMA_BURST \<Rightarrow> 0xf)"

text \<open>\<open>do_command\<close>: hand over to the peer, and insist on a response without error.\<close>

definition do_command :: "'c dmi_peer \<Rightarrow> dmi_req \<Rightarrow> ('c, u32) prog" where
  "do_command peer r =
    bnd (peer r) (\<lambda>resp. andThen (assertM ''resp_buf.resp == 0'' (rs_resp resp = 0)) (ret (rs_data resp)))"

definition dtm_read :: "'c dmi_peer \<Rightarrow> u32 \<Rightarrow> u32 \<Rightarrow> ('c, u32) prog" where
  "dtm_read peer a d = do_command peer \<lparr>rq_dmi_addr = a, rq_op = 1, rq_data = d\<rparr>"

definition dtm_write :: "'c dmi_peer \<Rightarrow> u32 \<Rightarrow> u32 \<Rightarrow> ('c, u32) prog" where
  "dtm_write peer a d = do_command peer \<lparr>rq_dmi_addr = a, rq_op = 2, rq_data = d\<rparr>"

definition dtm_nop :: "'c dmi_peer \<Rightarrow> ('c, unit) prog" where
  "dtm_nop peer = bnd (do_command peer \<lparr>rq_dmi_addr = 0, rq_op = 0, rq_data = 0\<rparr>) (\<lambda>_. ret ())"

section \<open>The chunk operations\<close>

text \<open>
  \<open>read_chunk\<close>: for each 32-bit word the low half of its address, then the high half, whose
  response is the word. Bytes of \<open>dst\<close> behind the last whole word stay as they are.
\<close>

definition word_lo :: "u64 \<Rightarrow> u32" where "word_lo a = ucast a"
definition word_hi :: "u64 \<Rightarrow> u32" where "word_hi a = ucast (drop_bit 32 a)"

fun dtm_read_words :: "'c dmi_peer \<Rightarrow> addr \<Rightarrow> nat \<Rightarrow> rw_target \<Rightarrow> ('c, u8 list) prog" where
  "dtm_read_words peer a 0 t = ret []"
| "dtm_read_words peer a (Suc n) t =
    bnd (dtm_read peer (addr_lo t) (word_lo a)) (\<lambda>_.
    bnd (dtm_read peer (addr_hi t) (word_hi a)) (\<lambda>result.
    bnd (dtm_read_words peer (a + 4) n t) (\<lambda>bs.
    ret (le_bytes 4 result @ bs))))"

definition dtm_read_chunk :: "'c dmi_peer \<Rightarrow> addr \<Rightarrow> u8 list \<Rightarrow> rw_target \<Rightarrow> ('c, u8 list) prog" where
  "dtm_read_chunk peer a dst t =
    bnd (dtm_read_words peer a (length dst div 4) t) (\<lambda>bs. ret (bs @ drop (length bs) dst))"

text \<open>
  \<open>write_chunk\<close>: the address once, then for each 64-bit word the high half and the low half; every
  word but the last of a transfer to \<open>DMA\<close> goes to the burst registers. Bytes behind the last whole
  word are not sent.
\<close>

definition word_target :: "rw_target \<Rightarrow> nat \<Rightarrow> rw_target" where
  "word_target t left = (if left \<noteq> 0 \<and> t = DMA then DMA_BURST else t)"

fun dtm_write_words :: "'c dmi_peer \<Rightarrow> u8 list \<Rightarrow> nat \<Rightarrow> rw_target \<Rightarrow> ('c, unit) prog" where
  "dtm_write_words peer src 0 t = ret ()"
| "dtm_write_words peer src (Suc n) t =
    bnd (dtm_write peer (data_hi (word_target t n)) (word_hi (le_word (take 8 src)))) (\<lambda>_.
    bnd (dtm_write peer (data_lo (word_target t n)) (word_lo (le_word (take 8 src)))) (\<lambda>_.
    dtm_write_words peer (drop 8 src) n t))"

definition dtm_write_chunk :: "'c dmi_peer \<Rightarrow> addr \<Rightarrow> u8 list \<Rightarrow> rw_target \<Rightarrow> ('c, unit) prog" where
  "dtm_write_chunk peer a src t =
    bnd (dtm_write peer (addr_lo t) (word_lo a)) (\<lambda>_.
    bnd (dtm_write peer (addr_hi t) (word_hi a)) (\<lambda>_.
    dtm_write_words peer src (length src div 8) t))"

text \<open>The override of \<open>clear_chunk\<close> is empty, and so is \<open>reset\<close>; \<open>idle\<close> is ten no-ops.\<close>

definition dtm_clear_chunk :: "addr \<Rightarrow> nat \<Rightarrow> ('c, unit) prog" where
  "dtm_clear_chunk a n = ret ()"

definition max_idle_cycles :: nat where "max_idle_cycles = 10"

definition dtm_idle :: "'c dmi_peer \<Rightarrow> ('c, unit) prog" where
  "dtm_idle peer = forM [0..<max_idle_cycles] (\<lambda>_. dtm_nop peer)"

definition xlen :: nat where "xlen = 64"

text \<open>
  What is left of the operations on harts and control registers: \<open>run_abstract_command\<close> reports no
  error, \<open>modify_csr\<close> and with it every access to a control register is zero, and \<open>die\<close>, which would
  report an error of the former, clears it in the status register of the module.
\<close>

definition run_abstract_command :: "u32 \<Rightarrow> u32 list \<Rightarrow> u32 list \<Rightarrow> ('c, u32) prog" where
  "run_abstract_command command program data = ret 0"

definition die :: "'c dmi_peer \<Rightarrow> u32 \<Rightarrow> ('c, unit) prog" where
  "die peer cmderr = bnd (dtm_write peer 0x16 (push_bit 8 7)) (\<lambda>_. ret ())"

definition modify_csr :: "u32 \<Rightarrow> u64 \<Rightarrow> u32 \<Rightarrow> ('c, u64) prog" where
  "modify_csr which data type' = ret 0"

definition write_csr :: "u32 \<Rightarrow> u64 \<Rightarrow> ('c, u64) prog" where "write_csr which data = modify_csr which data 1"
definition set_csr :: "u32 \<Rightarrow> u64 \<Rightarrow> ('c, u64) prog" where "set_csr which data = modify_csr which data 2"
definition clear_csr :: "u32 \<Rightarrow> u64 \<Rightarrow> ('c, u64) prog" where "clear_csr which data = modify_csr which data 3"
definition read_csr :: "u32 \<Rightarrow> ('c, u64) prog" where "read_csr which = set_csr which 0"

definition dtm :: "'c dmi_peer \<Rightarrow> (nat \<Rightarrow> u8) \<Rightarrow> 'c htif_ops" where
  "dtm peer jk =
    \<lparr>chunk_align = xlen div 8, chunk_max_size = 2048,
     read_chunk = dtm_read_chunk peer, write_chunk = dtm_write_chunk peer,
     clear_chunk = dtm_clear_chunk, reset = ret (), idle = dtm_idle peer, junk = jk\<rparr>"

section \<open>The handshake\<close>

text \<open>
  The host side runs on a context of its own, started in the constructor and resumed with each
  response. It is a process that offers a request and goes on with the response; \<open>producer_thread\<close>
  never returns, so it is infinite.
\<close>

codatatype host = Host (host_req: dmi_req) (host_resume: "dmi_resp \<Rightarrow> host")

record dtm_state =
  req_wait :: bool
  resp_wait :: bool
  dtm_host :: host

definition dtm_start :: "host \<Rightarrow> dtm_state" where
  "dtm_start p = \<lparr>req_wait = False, resp_wait = False, dtm_host = p\<rparr>"

text \<open>\<open>tick\<close>; the assertion in \<open>do_command\<close> is checked when the host is resumed.\<close>

definition dtm_tick :: "bool \<Rightarrow> bool \<Rightarrow> dmi_resp \<Rightarrow> (dtm_state, unit) prog" where
  "dtm_tick req_ready resp_valid resp_bits = seqM
    [modS (\<lambda>s. if \<not> resp_wait s then
                  if \<not> req_wait s then s\<lparr>req_wait := True\<rparr>
                  else if req_ready then s\<lparr>req_wait := False, resp_wait := True\<rparr> else s
                else s),
     if resp_valid then
       bnd (getS resp_wait) (\<lambda>w. seqM
         [assertM ''resp_wait'' w,
          modS (\<lambda>s. s\<lparr>resp_wait := False\<rparr>),
          assertM ''resp_buf.resp == 0'' (rs_resp resp_bits = 0),
          modS (\<lambda>s. s\<lparr>dtm_host := host_resume (dtm_host s) resp_bits\<rparr>)])
     else ret ()]"

text \<open>\<open>return_resp\<close>: a response on every call, whatever was asked.\<close>

definition return_resp :: "dmi_resp \<Rightarrow> (dtm_state, unit) prog" where
  "return_resp resp_bits = seqM
    [assertM ''resp_buf.resp == 0'' (rs_resp resp_bits = 0),
     modS (\<lambda>s. s\<lparr>dtm_host := host_resume (dtm_host s) resp_bits\<rparr>)]"

text \<open>
  One pass of the driver loop of \<open>fesvr2socket.c\<close> around \<open>debug_tick\<close>: the loop keeps the response
  it will offer next, and serves a request whenever one is valid.
\<close>

record 'c driver =
  drv_dtm :: dtm_state
  drv_resp_valid :: bool
  drv_resp :: dmi_resp
  drv_peer :: 'c
  drv_log :: "(dmi_req \<times> dmi_resp) list"

definition on_dtm :: "(dtm_state, 'a) prog \<Rightarrow> ('c driver, 'a) prog" where
  "on_dtm m s = (case m (drv_dtm s) of (r, d) \<Rightarrow> (r, s\<lparr>drv_dtm := d\<rparr>))"

definition on_peer :: "('c, 'a) prog \<Rightarrow> ('c driver, 'a) prog" where
  "on_peer m s = (case m (drv_peer s) of (r, c) \<Rightarrow> (r, s\<lparr>drv_peer := c\<rparr>))"

definition driver_pass :: "'c dmi_peer \<Rightarrow> ('c driver, unit) prog" where
  "driver_pass peer =
    bnd (getS (\<lambda>s. (drv_resp_valid s, drv_resp s))) (\<lambda>(v, r).
    andThen (on_dtm (dtm_tick True v r))
    (bnd (getS (\<lambda>s. (req_wait (drv_dtm s), host_req (dtm_host (drv_dtm s))))) (\<lambda>(req_valid, rq).
      if \<not> req_valid then modS (\<lambda>s. s\<lparr>drv_resp_valid := False\<rparr>)
      else bnd (on_peer (peer rq)) (\<lambda>resp.
        modS (\<lambda>s. s\<lparr>drv_resp_valid := True, drv_resp := resp, drv_log := drv_log s @ [(rq, resp)]\<rparr>)))))"

fun driver_run :: "'c dmi_peer \<Rightarrow> nat \<Rightarrow> ('c driver, unit) prog" where
  "driver_run peer 0 = ret ()"
| "driver_run peer (Suc n) = andThen (driver_pass peer) (driver_run peer n)"

text \<open>The specification: the host process calling the peer directly, \<open>n\<close> times.\<close>

fun direct_run :: "'c dmi_peer \<Rightarrow> nat \<Rightarrow> host \<Rightarrow> 'c \<Rightarrow> (host \<times> 'c \<times> (dmi_req \<times> dmi_resp) list) option" where
  "direct_run peer 0 p c = Some (p, c, [])"
| "direct_run peer (Suc n) p c =
    (case peer (host_req p) c of
       (Inl e, _) \<Rightarrow> None
     | (Inr r, c') \<Rightarrow>
         if rs_resp r \<noteq> 0 then None
         else (case direct_run peer n (host_resume p r) c' of
                 None \<Rightarrow> None
               | Some (p', c'', log) \<Rightarrow> Some (p', c'', (host_req p, r) # log)))"

definition driver_init :: "host \<Rightarrow> 'c \<Rightarrow> dmi_resp \<Rightarrow> 'c driver" where
  "driver_init p c r0 =
    \<lparr>drv_dtm = dtm_start p, drv_resp_valid = False, drv_resp = r0, drv_peer = c, drv_log = []\<rparr>"

text \<open>A pair of passes serves one request and delivers its response.\<close>

definition driver_idle :: "'c driver \<Rightarrow> bool" where
  "driver_idle s \<longleftrightarrow> \<not> req_wait (drv_dtm s) \<and> \<not> resp_wait (drv_dtm s) \<and> \<not> drv_resp_valid s"

lemma driver_two_passes:
  assumes "driver_idle s" and "peer (host_req (dtm_host (drv_dtm s))) (drv_peer s) = (Inr r, c')"
    and "rs_resp r = 0"
  shows "andThen (driver_pass peer) (driver_pass peer) s = (Inr (),
    s\<lparr>drv_dtm := (drv_dtm s)\<lparr>dtm_host := host_resume (dtm_host (drv_dtm s)) r\<rparr>,
      drv_resp := r, drv_peer := c', drv_log := drv_log s @ [(host_req (dtm_host (drv_dtm s)), r)]\<rparr>)"
  using assms
  by (simp add: driver_idle_def driver_pass_def on_dtm_def on_peer_def dtm_tick_def prog_simps
      andThen_def bnd_def)

lemma driver_run_direct:
  assumes "driver_idle s" and "dtm_host (drv_dtm s) = p" and "drv_peer s = c"
    and "direct_run peer n p c = Some (p', c', log)"
  shows "\<exists>s'. driver_run peer (2 * n) s = (Inr (), s') \<and> driver_idle s'
    \<and> dtm_host (drv_dtm s') = p' \<and> drv_peer s' = c' \<and> drv_log s' = drv_log s @ log"
  using assms
proof (induction n arbitrary: s p c log)
  case (Suc n)
  obtain r c1 where r: "peer (host_req p) c = (Inr r, c1)" "rs_resp r = 0"
    using Suc.prems(4) by (auto split: prod.splits sum.splits if_splits)
  with Suc.prems(4) obtain log1 where log1: "direct_run peer n (host_resume p r) c1 = Some (p', c', log1)"
      "log = (host_req p, r) # log1"
    by (auto split: option.splits)
  let ?s = "s\<lparr>drv_dtm := (drv_dtm s)\<lparr>dtm_host := host_resume p r\<rparr>, drv_resp := r, drv_peer := c1,
      drv_log := drv_log s @ [(host_req p, r)]\<rparr>"
  have "andThen (driver_pass peer) (driver_pass peer) s = (Inr (), ?s)"
    using driver_two_passes [OF Suc.prems(1), of peer r c1] Suc.prems(2,3) r by simp
  then have "driver_run peer (2 * Suc n) s = driver_run peer (2 * n) ?s"
    by (simp add: andThen_assoc [symmetric] andThen_Inr)
  moreover have "driver_idle ?s"
    using Suc.prems(1) by (simp add: driver_idle_def)
  ultimately show ?case
    using Suc.IH [of ?s "host_resume p r" c1 log1] log1 by auto
qed simp

section \<open>Properties\<close>

text \<open>
  C7: the handshake between \<open>tick\<close> and the driver loop delivers every request of the host thread to
  the peer exactly once and in order, and each response to the request it answers: after two passes
  per request the host, the peer and the log are where direct calls would have left them, and
  neither assertion fires.
\<close>

theorem handshake_is_direct_call:
  assumes "direct_run peer n p c = Some (p', c', log)"
  shows "\<exists>s'. driver_run peer (2 * n) (driver_init p c r0) = (Inr (), s') \<and> driver_idle s'
    \<and> dtm_host (drv_dtm s') = p' \<and> drv_peer s' = c' \<and> drv_log s' = log"
proof -
  have "driver_idle (driver_init p c r0)"
    by (simp add: driver_init_def driver_idle_def dtm_start_def)
  from driver_run_direct [OF this _ _ assms] show ?thesis
    by (simp add: driver_init_def dtm_start_def)
qed

primcorec nop_host :: host where
  "host_req nop_host = \<lparr>rq_dmi_addr = 0, rq_op = 0, rq_data = 0\<rparr>"
| "host_resume nop_host = (\<lambda>r. nop_host)"

definition counting_peer :: "nat dmi_peer" where
  "counting_peer q n = (Inr \<lparr>rs_resp = 0, rs_data = of_nat n\<rparr>, n + 1)"

theorem handshake_is_direct_call_witness:
  "\<exists>s'. driver_run counting_peer (2 * 2) (driver_init nop_host 5 \<lparr>rs_resp = 0, rs_data = 0\<rparr>) = (Inr (), s')
    \<and> driver_idle s' \<and> dtm_host (drv_dtm s') = nop_host \<and> drv_peer s' = 7
    \<and> drv_log s' = [(host_req nop_host, \<lparr>rs_resp = 0, rs_data = 5\<rparr>),
                     (host_req nop_host, \<lparr>rs_resp = 0, rs_data = 6\<rparr>)]"
  by (rule handshake_is_direct_call) (simp add: counting_peer_def numeral_2_eq_2)

text \<open>
  C9: an integer of four bytes or fewer written below \<open>0x80000000\<close> through this transport never
  arrives: the two halves of the address are sent and no data, so the value is dropped without a
  fault.
\<close>

theorem short_write_is_dropped:
  assumes "a < 0x80000000" and "n \<le> 4" and "n \<noteq> 0" and "a AND (of_nat n - 1) = 0"
  shows "memif_write_func (dtm peer jk) n a v
    = bnd (dtm_write peer (addr_lo DMA) (word_lo a)) (\<lambda>_.
      bnd (dtm_write peer (addr_hi DMA) (word_hi a)) (\<lambda>_. ret ()))"
proof -
  let ?h = "dtm peer jk" and ?bs = "le_bytes n v"
  have low: "\<not> 0x80000000 \<le> a"
    using assms(1) by simp
  have sel: "chunk_max_size ?h = 2048" "write_chunk ?h = dtm_write_chunk peer"
    by (simp_all add: dtm_def)
  have len: "length ?bs div 8 = 0" "length ?bs \<le> 2048" "?bs \<noteq> []"
    using assms(2,3) by simp_all
  have "write_blocks ?h a ?bs DMA = andThen (dtm_write_chunk peer a ?bs DMA) (ret ())"
    using len sel by (simp add: write_blocks.simps [of ?h a] write_blocks.simps [of _ _ "[]"]
        del: ret_run length_le_bytes)
  also have "\<dots> = bnd (dtm_write peer (addr_lo DMA) (word_lo a)) (\<lambda>_.
      bnd (dtm_write peer (addr_hi DMA) (word_hi a)) (\<lambda>_. ret ()))"
    unfolding dtm_write_chunk_def len(1) by (simp add: andThen_def bnd_assoc del: ret_run)
  finally show ?thesis
    using assms(4) low by (simp add: memif_write_func_def memif_write_def write_middle_def)
qed

theorem short_write_is_dropped_witness:
  "memif_write_func (dtm counting_peer (\<lambda>_. 0)) 4 0x801000 (1 :: u32)
    = bnd (dtm_write counting_peer (addr_lo DMA) (word_lo 0x801000)) (\<lambda>_.
      bnd (dtm_write counting_peer (addr_hi DMA) (word_hi 0x801000)) (\<lambda>_. ret ()))"
  by (rule short_write_is_dropped) simp_all

end
