(* ===== verification/Addr_Translate.thy ===== *)
theory Addr_Translate
  imports Fesvr_Prelude
begin

text \<open>
  \<open>pygmy_es1y_addr_translater.c\<close>: the place of a memory word in the on-chip router's address space,
  for the debug windows of the L2 cache RAMs and for the DRAM and DMA ports.
\<close>

text \<open>\<open>orid_map\<close>; \<open>operator[]\<close> on a missing key inserts and returns zero.\<close>

definition orid_map :: "(string \<times> u8) list" where
  "orid_map = [(''rb'', 0x20), (''mmem'', 0x21), (''mp'', 0x22), (''ddr'', 0x23), (''dt'', 0x25),
     (''dma'', 0x27), (''l2_vld'', 0x28), (''l2_dirty'', 0x29), (''l2_tag'', 0x2a),
     (''l2_data'', 0x2b), (''l2_lru'', 0x2c), (''l2_hpm'', 0x2d)]"

definition orid :: "string \<Rightarrow> u64" where
  "orid target = (case smap_get orid_map target of None \<Rightarrow> 0 | Some v \<Rightarrow> ucast v)"

definition substr :: "string \<Rightarrow> nat \<Rightarrow> nat \<Rightarrow> string" where
  "substr s pos n = take n (drop pos s)"

text \<open>\<open>STATION_CACHE_BASE_ADDR_0\<close> to \<open>_3\<close>, and the windows of the RAMs in a bank.\<close>

definition cache_base :: "u64 \<Rightarrow> u64" where
  "cache_base bid =
    (if bid = 0 then 0xa00000 else if bid = 1 then 0xb00000 else if bid = 2 then 0xc00000
     else if bid = 3 then 0xd00000 else 0)"

definition sram_offset :: "string \<Rightarrow> u64" where
  "sram_offset target =
    (if substr target 3 3 = ''vld'' then 0x0
     else if substr target 3 5 = ''dirty'' then 0x20000
     else if substr target 3 3 = ''tag'' then 0x40000
     else if substr target 3 4 = ''data'' then 0x60000
     else if substr target 3 3 = ''lru'' then 0x80000
     else if substr target 3 3 = ''hpm'' then 0xa0000
     else 0)"

text \<open>The fields of an address: data channel, bank, index, way.\<close>

definition l2_dch :: "string \<Rightarrow> addr \<Rightarrow> u64" where
  "l2_dch target a =
    (if substr target 3 3 = ''vld'' \<or> substr target 3 3 = ''tag'' then 0 else drop_bit 3 a AND 0x3)"
definition l2_bid :: "addr \<Rightarrow> u64" where "l2_bid a = drop_bit 5 a AND 0x3"
definition l2_bix :: "addr \<Rightarrow> u64" where "l2_bix a = drop_bit 7 a AND 0x1ff"
definition l2_wid :: "addr \<Rightarrow> u64" where "l2_wid a = drop_bit 16 a AND 0x7"

definition addr2oraddr :: "string \<Rightarrow> addr \<Rightarrow> addr" where
  "addr2oraddr target a =
    (if substr target 0 2 = ''l2'' then
       cache_base (l2_bid a) + sram_offset target
         + push_bit 3 (push_bit 9 (push_bit 2 (l2_wid a) + l2_dch target a) + l2_bix a)
     else if substr target 0 2 = ''dt'' then
       push_bit 3 (push_bit 31 (orid target) + drop_bit 3 a) + 0x5
     else if target = ''mmem'' then
       push_bit 34 (orid target) + push_bit 3 (drop_bit 3 a)
     else if target = ''dma'' then
       push_bit 3 (push_bit 31 (orid target) + drop_bit 3 a) + 0x3
     else 0)"

end
