(* ===== verification/Bridge.thy ===== *)
theory Bridge
  imports Dtm Addr_Translate
begin

text \<open>
  \<open>fesvr2socket.c\<close>, the board driver that serves the requests of \<open>dtm_t\<close>: a four-state machine
  that assembles addresses and data from 32-bit halves and turns them into reads, writes and
  bursts on the bus of the chip. The bus is reached over a socket and is a parameter here.
\<close>

section \<open>The bus\<close>

text \<open>\<open>do_read\<close>, \<open>do_write\<close> and \<open>do_write_burst\<close> of \<open>common-socket.c\<close>, as the driver uses them.\<close>

record 'b bus_ops =
  do_read :: "addr \<Rightarrow> ('b, u64) prog"
  do_write :: "addr \<Rightarrow> u64 \<Rightarrow> ('b, unit) prog"
  do_write_burst :: "addr \<Rightarrow> u64 list \<Rightarrow> ('b, unit) prog"

definition DEBUG_ADDR :: addr where "DEBUG_ADDR = 0x5004e0"
definition DEBUG_REQ_TYPE :: addr where "DEBUG_REQ_TYPE = 0x5004e8"
definition DEBUG_WR_DATA :: addr where "DEBUG_WR_DATA = 0x5004f0"
definition DEBUG_RD_DATA :: addr where "DEBUG_RD_DATA = 0x5004f8"
definition DT_DBG_ADDR :: addr where "DT_DBG_ADDR = 0xe008a0"
definition DT_DBG_DATA :: addr where "DT_DBG_DATA = 0xe008a8"

section \<open>The state of the driver\<close>

datatype bstate = IDLE | WR_ADDR | WR_DATA | RD

text \<open>\<open>rcvd_data\<close> is an \<open>int\<close> that only ever grows; its parity is what the code uses.\<close>

record 'b bridge =
  br_state :: bstate
  rcvd_addr :: nat
  rcvd_data :: nat
  br_data :: u64
  br_addr :: u64
  is_incremental :: bool
  burst_data :: "u64 list"
  is_burst :: bool
  burst_idx :: nat
  br_bus :: 'b

definition bridge_init :: "u64 list \<Rightarrow> 'b \<Rightarrow> 'b bridge" where
  "bridge_init junk' b =
    \<lparr>br_state = IDLE, rcvd_addr = 0, rcvd_data = 0, br_data = 0, br_addr = 0, is_incremental = False,
     burst_data = junk', is_burst = False, burst_idx = 0, br_bus = b\<rparr>"

definition on_bus :: "('b, 'a) prog \<Rightarrow> ('b bridge, 'a) prog" where
  "on_bus m s = (case m (br_bus s) of (r, b) \<Rightarrow> (r, s\<lparr>br_bus := b\<rparr>))"

section \<open>Assembling a word\<close>

text \<open>
  The test for a low half of an address. Its last register is \<open>0xc\<close>, the low half of burst data,
  where \<open>0xe\<close>, the low half of a burst address, would be expected.
\<close>

definition is_addr_lo :: "u32 \<Rightarrow> bool" where
  "is_addr_lo r \<longleftrightarrow> r = 0x2 \<or> r = 0x6 \<or> r = 0xa \<or> r = 0xc"

definition is_addr_reg :: "u32 \<Rightarrow> bool" where
  "is_addr_reg r \<longleftrightarrow> r = 0x2 \<or> r = 0x3 \<or> r = 0x6 \<or> r = 0x7 \<or> r = 0xa \<or> r = 0xb \<or> r = 0xe \<or> r = 0xf"

definition is_data_lo :: "u32 \<Rightarrow> bool" where
  "is_data_lo r \<longleftrightarrow> r = 0x0 \<or> r = 0x4 \<or> r = 0x8 \<or> r = 0xc"

definition is_data_reg :: "u32 \<Rightarrow> bool" where
  "is_data_reg r \<longleftrightarrow> r = 0x0 \<or> r = 0x1 \<or> r = 0x4 \<or> r = 0x5 \<or> r = 0x8 \<or> r = 0x9 \<or> r = 0xc \<or> r = 0xd"

definition put_lo :: "u64 \<Rightarrow> u32 \<Rightarrow> u64" where
  "put_lo d x = (d AND 0xffffffff00000000) OR ucast x"

definition put_hi :: "u64 \<Rightarrow> u32 \<Rightarrow> u64" where
  "put_hi d x = (d AND 0x00000000ffffffff) OR push_bit 32 (ucast x)"

definition put_half :: "bool \<Rightarrow> u64 \<Rightarrow> u32 \<Rightarrow> u64" where
  "put_half lo d x = (if lo then put_lo d x else put_hi d x)"

definition clear_burst :: "('b bridge, unit) prog" where
  "clear_burst = modS (\<lambda>s. s\<lparr>is_incremental := False, is_burst := False, burst_idx := 0\<rparr>)"

text \<open>A half of an address arrives in \<open>IDLE\<close>, \<open>WR_ADDR\<close> or \<open>WR_DATA\<close>.\<close>

definition take_addr_half :: "dmi_req \<Rightarrow> ('b bridge, unit) prog" where
  "take_addr_half q =
    modS (\<lambda>s. s\<lparr>rcvd_addr := rcvd_addr s + 1,
               br_data := put_half (is_addr_lo (rq_dmi_addr q)) (br_data s) (rq_data q)\<rparr>)"

section \<open>A complete data word\<close>

definition store_burst_word :: "('b bridge, unit) prog" where
  "store_burst_word =
    bnd (getS burst_idx) (\<lambda>i.
    andThen (definedM ''burst_data[burst_idx]'' (i < 256))
      (modS (\<lambda>s. s\<lparr>burst_data := (burst_data s)[i := br_data s], burst_idx := i + 1\<rparr>)))"

definition debug_write :: "'b bus_ops \<Rightarrow> addr \<Rightarrow> u64 \<Rightarrow> ('b bridge, unit) prog" where
  "debug_write B a d = seqM
    [on_bus (do_write B DEBUG_ADDR a), on_bus (do_write B DEBUG_REQ_TYPE 2),
     on_bus (do_write B DEBUG_WR_DATA d)]"

definition write_dma_word :: "'b bus_ops \<Rightarrow> ('b bridge, unit) prog" where
  "write_dma_word B =
    bnd (getS (\<lambda>s. s)) (\<lambda>s.
    andThen
      (if is_burst s then
         andThen store_burst_word
           (bnd (getS (\<lambda>s. take (burst_idx s) (burst_data s))) (\<lambda>ws.
             on_bus (do_write_burst B (br_addr s) ws)))
       else if \<not> is_incremental s then debug_write B (br_addr s) (br_data s)
       else on_bus (do_write B DEBUG_WR_DATA (br_data s)))
      (modS (\<lambda>s. s\<lparr>is_burst := False, burst_idx := 0\<rparr>)))"

definition write_l2_word :: "'b bus_ops \<Rightarrow> addr \<Rightarrow> u64 \<Rightarrow> ('b bridge, unit) prog" where
  "write_l2_word B a d = seqM
    [on_bus (do_write B (addr2oraddr ''l2_data'' a) d),
     on_bus (do_write B (addr2oraddr ''l2_tag'' a) (drop_bit 16 a)),
     on_bus (do_write B (addr2oraddr ''l2_vld'' a) 0xffffffffffffffff)]"

definition write_ddr_word :: "'b bus_ops \<Rightarrow> addr \<Rightarrow> u64 \<Rightarrow> ('b bridge, unit) prog" where
  "write_ddr_word B a d = seqM
    [on_bus (do_write B DT_DBG_ADDR a), on_bus (do_write B DT_DBG_DATA d)]"

text \<open>\<open>th\<close> and \<open>fh\<close> are the addresses of \<open>tohost\<close> and \<open>fromhost\<close> that \<open>debug_tick\<close> reports.\<close>

definition write_word :: "'b bus_ops \<Rightarrow> addr \<Rightarrow> addr \<Rightarrow> u32 \<Rightarrow> ('b bridge, unit) prog" where
  "write_word B th fh reg =
    bnd (getS (\<lambda>s. s)) (\<lambda>s.
    andThen
      (if br_addr s < 0x80000000 then on_bus (do_write B (br_addr s) (br_data s))
       else if br_addr s = th \<or> br_addr s = fh then debug_write B (br_addr s) (br_data s)
       else if reg = 0x0 \<or> reg = 0x1 then write_dma_word B
       else if reg = 0x4 \<or> reg = 0x5 then write_l2_word B (br_addr s) (br_data s)
       else if reg = 0x8 \<or> reg = 0x9 then write_ddr_word B (br_addr s) (br_data s)
       else if reg = 0xc \<or> reg = 0xd then andThen (modS (\<lambda>s. s\<lparr>is_burst := True\<rparr>)) store_burst_word
       else ret ())
      (modS (\<lambda>s. s\<lparr>br_addr := (if \<not> is_burst s then br_addr s + 8 else br_addr s),
                 is_incremental := True\<rparr>)))"

section \<open>Reading a word\<close>

definition debug_read :: "'b bus_ops \<Rightarrow> addr \<Rightarrow> ('b bridge, u64) prog" where
  "debug_read B a =
    andThen (on_bus (do_write B DEBUG_ADDR (a AND 0xfffffff8)))
      (andThen (on_bus (do_write B DEBUG_REQ_TYPE 0)) (on_bus (do_read B DEBUG_RD_DATA)))"

definition read_word :: "'b bus_ops \<Rightarrow> addr \<Rightarrow> addr \<Rightarrow> u32 \<Rightarrow> addr \<Rightarrow> ('b bridge, u64) prog" where
  "read_word B th fh reg a =
    (if a < 0x80000000 then on_bus (do_read B a)
     else if a = th \<or> a = fh \<or> a = th + 4 \<or> a = fh + 4 then debug_read B a
     else if reg = 0x2 \<or> reg = 0x3 then debug_read B a
     else if reg = 0x6 \<or> reg = 0x7 then on_bus (do_read B (addr2oraddr ''l2_data'' a))
     else if reg = 0xa \<or> reg = 0xb then
       andThen (on_bus (do_write B DT_DBG_ADDR a)) (on_bus (do_read B DT_DBG_DATA))
     else ret 0)"

section \<open>One request\<close>

definition step_idle :: "dmi_req \<Rightarrow> ('b bridge, u64) prog" where
  "step_idle q =
    andThen clear_burst
     (andThen
       (if rq_op q = 2 then andThen (modS (\<lambda>s. s\<lparr>br_state := WR_ADDR\<rparr>)) (take_addr_half q)
        else if rq_op q = 1 then modS (\<lambda>s. s\<lparr>br_addr := ucast (rq_data q), br_state := RD\<rparr>)
        else ret ())
       (ret 0))"

definition step_wr_addr :: "dmi_req \<Rightarrow> ('b bridge, u64) prog" where
  "step_wr_addr q =
    andThen clear_burst
     (andThen
       (if rq_op q = 2 then
          andThen (take_addr_half q)
            (modS (\<lambda>s. if rcvd_addr s = 2
                        then s\<lparr>br_addr := br_data s, br_state := WR_DATA, rcvd_addr := 0\<rparr> else s))
        else ret ())
       (ret 0))"

definition step_wr_data :: "'b bus_ops \<Rightarrow> addr \<Rightarrow> addr \<Rightarrow> dmi_req \<Rightarrow> ('b bridge, u64) prog" where
  "step_wr_data B th fh q =
    andThen
      (if is_addr_reg (rq_dmi_addr q) \<and> rq_op q = 2 then
         andThen (modS (\<lambda>s. s\<lparr>br_state := WR_ADDR\<rparr>)) (take_addr_half q)
       else if rq_op q = 1 then modS (\<lambda>s. s\<lparr>br_addr := ucast (rq_data q), br_state := RD\<rparr>)
       else if is_data_reg (rq_dmi_addr q) \<and> rq_op q = 2 then
         andThen (modS (\<lambda>s. s\<lparr>rcvd_data := rcvd_data s + 1,
                     br_data := put_half (is_data_lo (rq_dmi_addr q)) (br_data s) (rq_data q)\<rparr>))
           (bnd (getS rcvd_data) (\<lambda>n. if even n then write_word B th fh (rq_dmi_addr q) else ret ()))
       else ret ())
      (ret 0)"

definition step_rd :: "'b bus_ops \<Rightarrow> addr \<Rightarrow> addr \<Rightarrow> dmi_req \<Rightarrow> ('b bridge, u64) prog" where
  "step_rd B th fh q =
    andThen clear_burst
      (if rq_op q = 1 then
         andThen (modS (\<lambda>s. s\<lparr>br_state := IDLE, br_addr := put_hi (br_addr s) (rq_data q)\<rparr>))
           (bnd (getS br_addr) (read_word B th fh (rq_dmi_addr q)))
       else ret 0)"

text \<open>The response: the half of the word that bit 2 of the address selects.\<close>

definition resp_data :: "addr \<Rightarrow> u64 \<Rightarrow> u32" where
  "resp_data a d =
    (if drop_bit 32 a \<in> {0x8c, 0x8d, 0x8e, 0x8f} then ucast d
     else if drop_bit 2 a AND 0x1 \<noteq> 0 then ucast (drop_bit 32 d) else ucast d)"

definition bridge_serve :: "'b bus_ops \<Rightarrow> addr \<Rightarrow> addr \<Rightarrow> 'b bridge dmi_peer" where
  "bridge_serve B th fh q =
    bnd (getS br_state) (\<lambda>st.
    bnd (case st of
           IDLE \<Rightarrow> step_idle q
         | WR_ADDR \<Rightarrow> step_wr_addr q
         | WR_DATA \<Rightarrow> step_wr_data B th fh q
         | RD \<Rightarrow> step_rd B th fh q) (\<lambda>d.
    bnd (getS br_addr) (\<lambda>a. ret \<lparr>rs_resp = 0, rs_data = resp_data a d\<rparr>)))"

section \<open>What the driver relies on\<close>

text \<open>
  The debug port of the chip, as the driver uses it: writing address, type 2 and data stores a word;
  a further data write stores at the next word; a burst stores consecutive words; writing address
  and type 0 and reading the data register loads a word. \<open>bmem\<close> is the memory behind the port,
  \<open>bnext\<close> the address it would use next.
\<close>

definition in_dram :: "addr \<Rightarrow> bool" where
  "in_dram x \<longleftrightarrow> 0x80000000 \<le> x \<and> x < 0x100000000"

definition debug_port ::
    "'b bus_ops \<Rightarrow> ('b \<Rightarrow> bool) \<Rightarrow> ('b \<Rightarrow> memory) \<Rightarrow> ('b \<Rightarrow> addr option) \<Rightarrow> bool" where
  "debug_port B binv bmem bnext \<longleftrightarrow>
     (\<forall>b a d. binv b \<and> in_dram a \<and> take_bit 3 a = 0 \<longrightarrow>
       (\<exists>b'. seqM [do_write B DEBUG_ADDR a, do_write B DEBUG_REQ_TYPE 2, do_write B DEBUG_WR_DATA d] b
            = (Inr (), b') \<and> binv b' \<and> bmem b' = upd_range (bmem b) a (le_bytes 8 d)
            \<and> bnext b' = Some (a + 8)))
   \<and> (\<forall>b a d. binv b \<and> in_dram a \<and> bnext b = Some a \<longrightarrow>
       (\<exists>b'. do_write B DEBUG_WR_DATA d b = (Inr (), b') \<and> binv b'
            \<and> bmem b' = upd_range (bmem b) a (le_bytes 8 d)))
   \<and> (\<forall>b a ws. binv b \<and> in_dram a \<and> take_bit 3 a = 0 \<and> length ws \<le> 256 \<longrightarrow>
       (\<exists>b'. do_write_burst B a ws b = (Inr (), b') \<and> binv b'
            \<and> bmem b' = upd_range (bmem b) a (bytes_of_words ws)))
   \<and> (\<forall>b a. binv b \<and> in_dram a \<and> take_bit 3 a = 0 \<longrightarrow>
       (\<exists>b'. andThen (do_write B DEBUG_ADDR a) (andThen (do_write B DEBUG_REQ_TYPE 0)
              (do_read B DEBUG_RD_DATA)) b
            = (Inr (le_word (get_range (bmem b) a 8)), b') \<and> binv b' \<and> bmem b' = bmem b))"

section \<open>Simulation\<close>

lemma on_bus_Inr: "m (br_bus s) = (Inr x, b) \<Longrightarrow> on_bus m s = (Inr x, s\<lparr>br_bus := b\<rparr>)"
  by (simp add: on_bus_def)

lemma on_bus_andThen: "andThen (on_bus m) (on_bus n) = on_bus (andThen m n)"
  by (rule ext) (simp add: on_bus_def andThen_def bnd_def split: prod.split sum.split)

lemma masks: "(0xffffffff :: u64) = mask 32" "(0xffffffff00000000 :: u64) = push_bit 32 (mask 32)"
  by (simp_all add: mask_eq_exp_minus_1)

lemma put_both: "put_hi (put_lo d (word_lo w)) (word_hi w) = w"
  "put_lo (put_hi d (word_hi w)) (word_lo w) = w"
proof -
  have "bit (put_hi (put_lo d (word_lo w)) (word_hi w)) n = bit w n
      \<and> bit (put_lo (put_hi d (word_hi w)) (word_lo w)) n = bit w n" if "n < 64" for n
    using that by (cases "n < 32")
      (auto simp: put_hi_def put_lo_def word_lo_def word_hi_def masks bit_simps)
  then show "put_hi (put_lo d (word_lo w)) (word_hi w) = w" "put_lo (put_hi d (word_hi w)) (word_lo w) = w"
    by (auto intro!: bit_word_eqI)
qed

lemma put_hi_put_hi: "put_hi (put_hi d x) y = put_hi d y"
  by (rule bit_word_eqI) (auto simp: put_hi_def masks bit_simps)

text \<open>Between chunks the machine is in \<open>IDLE\<close> or \<open>WR_DATA\<close> with whole addresses and words.\<close>

definition bridge_ok :: "('b \<Rightarrow> bool) \<Rightarrow> 'b bridge \<Rightarrow> bool" where
  "bridge_ok binv s \<longleftrightarrow> (br_state s = IDLE \<or> br_state s = WR_DATA) \<and> rcvd_addr s = 0
     \<and> even (rcvd_data s) \<and> length (burst_data s) = 256 \<and> binv (br_bus s)"

lemmas serve_simps = bridge_serve_def step_idle_def step_wr_addr_def step_wr_data_def step_rd_def
  take_addr_half_def clear_burst_def do_command_def dtm_read_def dtm_write_def

lemma serve_address:
  assumes "bridge_ok binv s" and "t = DMA \<or> t = L2 \<or> t = DDR"
  shows "\<exists>s'. bnd (dtm_write (bridge_serve B th fh) (addr_lo t) (word_lo a)) (\<lambda>_.
        dtm_write (bridge_serve B th fh) (addr_hi t) (word_hi a)) s = (Inr (resp_data a 0), s')
    \<and> br_state s' = WR_DATA \<and> rcvd_addr s' = 0 \<and> rcvd_data s' = rcvd_data s \<and> br_addr s' = a
    \<and> \<not> is_incremental s' \<and> burst_data s' = burst_data s \<and> \<not> is_burst s' \<and> burst_idx s' = 0
    \<and> br_bus s' = br_bus s"
  using assms
  by (auto simp: serve_simps bridge_ok_def addr_lo_def addr_hi_def is_addr_lo_def is_addr_reg_def
      put_half_def put_both andThen_def bnd_def)

lemma data_regs [simp]:
  "is_data_lo (data_lo t)" "\<not> is_data_lo (data_hi t)" "is_data_reg (data_lo t)" "is_data_reg (data_hi t)"
  "\<not> is_addr_reg (data_lo t)" "\<not> is_addr_reg (data_hi t)"
  by (cases t; simp add: is_data_lo_def is_data_reg_def is_addr_reg_def data_lo_def data_hi_def)+

lemma serve_data_word:
  assumes "br_state s = WR_DATA" and "even (rcvd_data s)"
  shows "bnd (dtm_write (bridge_serve B th fh) (data_hi t) (word_hi w)) (\<lambda>_.
      bnd (dtm_write (bridge_serve B th fh) (data_lo t) (word_lo w)) (\<lambda>_. k)) s
    = andThen (write_word B th fh (data_lo t)) k (s\<lparr>rcvd_data := rcvd_data s + 2, br_data := w\<rparr>)"
  using assms
  by (simp add: serve_simps put_half_def put_both andThen_def bnd_def split: prod.split sum.split)

lemma on_bus_ret: "on_bus (ret x) = ret x"
  by (rule ext) (simp add: on_bus_def)

lemma debug_write_bus: "debug_write B a d
    = on_bus (seqM [do_write B DEBUG_ADDR a, do_write B DEBUG_REQ_TYPE 2, do_write B DEBUG_WR_DATA d])"
  by (simp add: debug_write_def on_bus_andThen [symmetric] on_bus_ret del: ret_run)

text \<open>Its four clauses, one at a time.\<close>

lemma port_laws:
  assumes "debug_port B binv bmem bnext" and "binv b" and "in_dram a"
  shows "take_bit 3 a = 0 \<Longrightarrow>
      \<exists>b'. seqM [do_write B DEBUG_ADDR a, do_write B DEBUG_REQ_TYPE 2, do_write B DEBUG_WR_DATA d] b
         = (Inr (), b') \<and> binv b' \<and> bmem b' = upd_range (bmem b) a (le_bytes 8 d) \<and> bnext b' = Some (a + 8)"
    and "bnext b = Some a \<Longrightarrow>
      \<exists>b'. do_write B DEBUG_WR_DATA d b = (Inr (), b') \<and> binv b'
         \<and> bmem b' = upd_range (bmem b) a (le_bytes 8 d)"
    and "take_bit 3 a = 0 \<Longrightarrow> length ws \<le> 256 \<Longrightarrow>
      \<exists>b'. do_write_burst B a ws b = (Inr (), b') \<and> binv b'
         \<and> bmem b' = upd_range (bmem b) a (bytes_of_words ws)"
    and "take_bit 3 a = 0 \<Longrightarrow>
      \<exists>b'. andThen (do_write B DEBUG_ADDR a) (andThen (do_write B DEBUG_REQ_TYPE 0)
              (do_read B DEBUG_RD_DATA)) b
         = (Inr (le_word (get_range (bmem b) a 8)), b') \<and> binv b' \<and> bmem b' = bmem b"
  using assms unfolding debug_port_def by blast+

lemma port_write:
  assumes "debug_port B binv bmem bnext" and "binv (br_bus s)" and "in_dram a" and "take_bit 3 a = 0"
  shows "\<exists>b. debug_write B a d s = (Inr (), s\<lparr>br_bus := b\<rparr>) \<and> binv b
    \<and> bmem b = upd_range (bmem (br_bus s)) a (le_bytes 8 d) \<and> bnext b = Some (a + 8)"
  using port_laws(1) [OF assms(1-3) assms(4), of d] on_bus_Inr unfolding debug_write_bus by metis

lemma port_next:
  assumes "debug_port B binv bmem bnext" and "binv (br_bus s)" and "in_dram a" and "bnext (br_bus s) = Some a"
  shows "\<exists>b. on_bus (do_write B DEBUG_WR_DATA d) s = (Inr (), s\<lparr>br_bus := b\<rparr>) \<and> binv b
    \<and> bmem b = upd_range (bmem (br_bus s)) a (le_bytes 8 d)"
  using port_laws(2) [OF assms(1-3) assms(4), of d] on_bus_Inr by metis

lemma port_burst:
  assumes "debug_port B binv bmem bnext" and "binv (br_bus s)" and "in_dram a" and "take_bit 3 a = 0"
    and "length ws \<le> 256"
  shows "\<exists>b. on_bus (do_write_burst B a ws) s = (Inr (), s\<lparr>br_bus := b\<rparr>) \<and> binv b
    \<and> bmem b = upd_range (bmem (br_bus s)) a (bytes_of_words ws)"
  using port_laws(3) [OF assms(1-3) assms(4,5)] on_bus_Inr by metis

lemma port_read:
  assumes "debug_port B binv bmem bnext" and "binv (br_bus s)" and "in_dram a" and "take_bit 3 a = 0"
  shows "\<exists>b. on_bus (andThen (do_write B DEBUG_ADDR a) (andThen (do_write B DEBUG_REQ_TYPE 0)
        (do_read B DEBUG_RD_DATA))) s = (Inr (le_word (get_range (bmem (br_bus s)) a 8)), s\<lparr>br_bus := b\<rparr>)
    \<and> binv b \<and> bmem b = bmem (br_bus s)"
  using port_laws(4) [OF assms(1-3) assms(4)] on_bus_Inr by metis

text \<open>
  In the middle of a transfer to \<open>DMA\<close> with \<open>n\<close> words to come: the memory with the words still held
  back is \<open>V\<close>, and the next word belongs at \<open>a\<close>.
\<close>

definition transfer_inv ::
    "('b \<Rightarrow> bool) \<Rightarrow> ('b \<Rightarrow> memory) \<Rightarrow> ('b \<Rightarrow> addr option) \<Rightarrow> addr \<Rightarrow> addr
      \<Rightarrow> nat \<Rightarrow> memory \<Rightarrow> addr \<Rightarrow> 'b bridge \<Rightarrow> bool" where
  "transfer_inv binv bmem bnext th fh n V a s \<longleftrightarrow>
     br_state s = WR_DATA \<and> rcvd_addr s = 0 \<and> even (rcvd_data s) \<and> length (burst_data s) = 256
   \<and> binv (br_bus s) \<and> burst_idx s + n \<le> 256
   \<and> (if is_burst s then
        in_dram (br_addr s) \<and> take_bit 3 (br_addr s) = 0
        \<and> br_addr s \<noteq> th \<and> br_addr s \<noteq> fh
        \<and> V = upd_range (bmem (br_bus s)) (br_addr s) (bytes_of_words (take (burst_idx s) (burst_data s)))
        \<and> a = br_addr s + of_nat (8 * burst_idx s)
      else
        burst_idx s = 0 \<and> V = bmem (br_bus s) \<and> a = br_addr s
        \<and> (is_incremental s \<longrightarrow> bnext (br_bus s) = Some a))"

lemma store_burst_word_run:
  "burst_idx s < 256 \<Longrightarrow> store_burst_word s = (Inr (),
    s\<lparr>burst_data := (burst_data s)[burst_idx s := br_data s], burst_idx := burst_idx s + 1\<rparr>)"
  by (simp add: store_burst_word_def prog_simps)

lemma in_dram_not_low [simp]: "in_dram a \<Longrightarrow> \<not> a < 0x80000000"
  by (simp add: in_dram_def not_less)

lemma take_Suc_update:
  "i < length xs \<Longrightarrow> take (Suc i) (xs[i := x]) = take i xs @ [x]"
  by (simp add: take_Suc_conv_app_nth)

lemma word_at_tohost:
  assumes port: "debug_port B binv bmem bnext" and inv: "transfer_inv binv bmem bnext th fh (Suc n) V a s"
    and a: "in_dram a" "take_bit 3 a = 0" and hit: "br_addr s = th \<or> br_addr s = fh"
  shows "\<exists>s'. write_word B th fh r s = (Inr (), s')
    \<and> transfer_inv binv bmem bnext th fh n (upd_range V a (le_bytes 8 (br_data s))) (a + 8) s'
    \<and> \<not> is_burst s'"
proof -
  have nb: "\<not> is_burst s" "br_addr s = a" "binv (br_bus s)" "V = bmem (br_bus s)"
    using inv hit by (auto simp: transfer_inv_def split: if_splits)
  obtain b where "debug_write B a (br_data s) s = (Inr (), s\<lparr>br_bus := b\<rparr>)" "binv b"
      "bmem b = upd_range V a (le_bytes 8 (br_data s))" "bnext b = Some (a + 8)"
    using port_write [OF port nb(3) a] nb(4) by metis
  with nb inv hit a show ?thesis
    by (auto simp: write_word_def transfer_inv_def prog_simps andThen_def bnd_def)
qed

lemma word_into_burst:
  assumes inv: "transfer_inv binv bmem bnext th fh (Suc n) V a s"
    and a: "in_dram a" "take_bit 3 a = 0" and miss: "br_addr s \<noteq> th" "br_addr s \<noteq> fh"
  shows "\<exists>s'. write_word B th fh 0xc s = (Inr (), s')
    \<and> transfer_inv binv bmem bnext th fh n (upd_range V a (le_bytes 8 (br_data s))) (a + 8) s'"
proof -
  have i: "burst_idx s < 256" and d: "in_dram (br_addr s)" and len: "length (burst_data s) = 256"
    using inv a by (auto simp: transfer_inv_def split: if_splits)
  let ?s = "s\<lparr>is_burst := True, burst_data := (burst_data s)[burst_idx s := br_data s],
      burst_idx := burst_idx s + 1, is_incremental := True\<rparr>"
  have run: "write_word B th fh 0xc s = (Inr (), ?s)"
    using miss d i store_burst_word_run [of "s\<lparr>is_burst := True\<rparr>"]
    by (simp add: write_word_def prog_simps andThen_def bnd_def)
  have "upd_range V a (le_bytes 8 (br_data s)) = upd_range (bmem (br_bus s)) (br_addr s)
      (bytes_of_words (take (burst_idx s) (burst_data s)) @ le_bytes 8 (br_data s))"
    using inv i len by (auto simp: transfer_inv_def upd_range_append split: if_splits)
  then have "transfer_inv binv bmem bnext th fh n (upd_range V a (le_bytes 8 (br_data s))) (a + 8) ?s"
    using inv i len a miss
    by (auto simp: transfer_inv_def take_Suc_update algebra_simps split: if_splits)
  with run show ?thesis by blast
qed

lemma last_word:
  assumes port: "debug_port B binv bmem bnext" and inv: "transfer_inv binv bmem bnext th fh 1 V a s"
    and a: "in_dram a" "take_bit 3 a = 0" and miss: "br_addr s \<noteq> th" "br_addr s \<noteq> fh"
  shows "\<exists>s'. write_word B th fh 0x0 s = (Inr (), s') \<and> bridge_ok binv s'
    \<and> bmem (br_bus s') = upd_range V a (le_bytes 8 (br_data s))"
proof -
  have bi: "binv (br_bus s)" and d: "in_dram (br_addr s)" and len: "length (burst_data s) = 256"
    using inv a by (auto simp: transfer_inv_def split: if_splits)
  show ?thesis
  proof (cases "is_burst s")
    case True
    then have i: "burst_idx s < 256" and al: "take_bit 3 (br_addr s) = 0"
      using inv by (auto simp: transfer_inv_def)
    let ?ws = "take (burst_idx s) (burst_data s) @ [br_data s]"
    let ?s = "s\<lparr>burst_data := (burst_data s)[burst_idx s := br_data s], burst_idx := burst_idx s + 1\<rparr>"
    obtain b where b: "on_bus (do_write_burst B (br_addr s) ?ws) ?s = (Inr (), ?s\<lparr>br_bus := b\<rparr>)"
        "binv b" "bmem b = upd_range (bmem (br_bus s)) (br_addr s) (bytes_of_words ?ws)"
      using port_burst [OF port, of ?s "br_addr s" ?ws] bi d al i len by auto
    have "bmem b = upd_range V a (le_bytes 8 (br_data s))"
      using inv i len True b(3) by (auto simp: transfer_inv_def upd_range_append)
    with b True inv d miss i len show ?thesis
      by (auto simp: write_word_def write_dma_word_def bridge_ok_def transfer_inv_def prog_simps
          andThen_def bnd_def store_burst_word_run take_Suc_update)
  next
    case False
    then have A: "br_addr s = a" "V = bmem (br_bus s)"
      using inv by (auto simp: transfer_inv_def)
    show ?thesis
    proof (cases "is_incremental s")
      case True
      then obtain b where "on_bus (do_write B DEBUG_WR_DATA (br_data s)) s = (Inr (), s\<lparr>br_bus := b\<rparr>)"
          "binv b" "bmem b = upd_range V a (le_bytes 8 (br_data s))"
        using port_next [OF port bi a(1)] inv False A by (auto simp: transfer_inv_def)
      with True False A inv d miss show ?thesis
        by (auto simp: write_word_def write_dma_word_def bridge_ok_def transfer_inv_def prog_simps
            andThen_def bnd_def)
    next
      case inc: False
      obtain b where "debug_write B a (br_data s) s = (Inr (), s\<lparr>br_bus := b\<rparr>)"
          "binv b" "bmem b = upd_range V a (le_bytes 8 (br_data s))"
        using port_write [OF port bi a] A by metis
      with inc False A inv d miss show ?thesis
        by (auto simp: write_word_def write_dma_word_def bridge_ok_def transfer_inv_def prog_simps
            andThen_def bnd_def)
    qed
  qed
qed

text \<open>The data words of a chunk for \<open>DMA\<close>, however they are split over the four paths above.\<close>

lemma transfer_words:
  assumes port: "debug_port B binv bmem bnext"
    and "transfer_inv binv bmem bnext th fh (Suc n) V a s" and "take_bit 3 a = 0"
    and "\<forall>i < Suc n. in_dram (a + of_nat (8 * i))" and "8 * Suc n \<le> length src" and "Suc n \<le> 256"
  shows "\<exists>s'. dtm_write_words (bridge_serve B th fh) src (Suc n) DMA s = (Inr (), s') \<and> bridge_ok binv s'
    \<and> bmem (br_bus s') = upd_range V a (take (8 * Suc n) src)"
  using assms(2-)
proof (induction n arbitrary: V a s src)
  case 0
  let ?w = "le_word (take 8 src) :: u64"
  let ?s = "s\<lparr>rcvd_data := rcvd_data s + 2, br_data := ?w\<rparr>"
  have inv: "transfer_inv binv bmem bnext th fh (Suc 0) V a ?s"
    using "0.prems"(1) by (simp add: transfer_inv_def)
  have a: "in_dram a" "take_bit 3 a = 0"
    using "0.prems" by auto
  have w: "le_bytes 8 ?w = take 8 src"
    using "0.prems"(4) by (simp add: le_bytes_le_word_8)
  have run: "dtm_write_words (bridge_serve B th fh) src (Suc 0) DMA s
      = andThen (write_word B th fh 0x0) (ret ()) ?s"
    using serve_data_word [of s B th fh DMA ?w "ret ()"] "0.prems"(1)
    by (simp add: transfer_inv_def word_target_def data_lo_def)
  have "\<exists>s'. write_word B th fh 0x0 ?s = (Inr (), s') \<and> bridge_ok binv s'
      \<and> bmem (br_bus s') = upd_range V a (le_bytes 8 ?w)"
  proof (cases "br_addr ?s = th \<or> br_addr ?s = fh")
    case True
    then show ?thesis
      using word_at_tohost [OF port inv a True, of "0x0"] by (auto simp: transfer_inv_def bridge_ok_def)
  next
    case False
    then show ?thesis
      using last_word [OF port _ a, of th fh V ?s] inv by simp
  qed
  with run w show ?case
    by (auto simp: andThen_Inr)
next
  case (Suc n)
  let ?w = "le_word (take 8 src) :: u64"
  let ?s = "s\<lparr>rcvd_data := rcvd_data s + 2, br_data := ?w\<rparr>"
  have inv: "transfer_inv binv bmem bnext th fh (Suc (Suc n)) V a ?s"
    using Suc.prems(1) by (simp add: transfer_inv_def)
  have a: "in_dram a" "take_bit 3 a = 0"
    using Suc.prems(2,3) by force+
  have w: "le_bytes 8 ?w = take 8 src"
    using Suc.prems(4) by (simp add: le_bytes_le_word_8)
  have run: "dtm_write_words (bridge_serve B th fh) src (Suc (Suc n)) DMA s
      = andThen (write_word B th fh 0xc) (dtm_write_words (bridge_serve B th fh) (drop 8 src) (Suc n) DMA) ?s"
    using serve_data_word [of s B th fh DMA_BURST ?w
        "dtm_write_words (bridge_serve B th fh) (drop 8 src) (Suc n) DMA"] Suc.prems(1)
    by (simp add: transfer_inv_def word_target_def data_lo_def)
  obtain s1 where s1: "write_word B th fh 0xc ?s = (Inr (), s1)"
      "transfer_inv binv bmem bnext th fh (Suc n) (upd_range V a (le_bytes 8 ?w)) (a + 8) s1"
    using word_at_tohost [OF port inv a, of "0xc"] word_into_burst [OF inv a, of B] by auto
  have dram: "\<forall>i < Suc n. in_dram (a + 8 + of_nat (8 * i))"
  proof (intro allI impI)
    fix i assume "i < Suc n"
    then show "in_dram (a + 8 + of_nat (8 * i))"
      using Suc.prems(3) [rule_format, of "Suc i"] by (simp add: add.assoc)
  qed
  have al: "take_bit 3 (a + 8) = 0"
    using take_bit_add_mult [of 3 8 a] a(2) by simp
  have len: "8 * Suc n \<le> length (drop 8 src)" "Suc n \<le> 256"
    using Suc.prems(4,5) by auto
  obtain s2 where s2: "dtm_write_words (bridge_serve B th fh) (drop 8 src) (Suc n) DMA s1 = (Inr (), s2)"
      "bridge_ok binv s2"
      "bmem (br_bus s2) = upd_range (upd_range V a (le_bytes 8 ?w)) (a + 8) (take (8 * Suc n) (drop 8 src))"
    using Suc.IH [OF s1(2) al dram len] by blast
  have "take (8 * Suc (Suc n)) src = take 8 src @ take (8 * Suc n) (drop 8 src)"
    using take_add [of 8 "8 * Suc n" src] by simp
  moreover have "upd_range V a (take 8 src @ take (8 * Suc n) (drop 8 src))
      = upd_range (upd_range V a (take 8 src)) (a + 8) (take (8 * Suc n) (drop 8 src))"
    using upd_range_append [of "take 8 src" "take (8 * Suc n) (drop 8 src)" V a] Suc.prems(4,5)
    by (simp add: min_def)
  ultimately show ?case
    using s2 w run s1(1) by (auto simp: andThen_Inr)
qed

lemma dtm_write_chunk_law:
  assumes port: "debug_port B binv bmem bnext" and ok: "bridge_ok binv s" and al: "take_bit 3 a = 0"
    and len: "8 dvd length bs" "bs \<noteq> []" "length bs \<le> 2048" and dram: "\<forall>i < length bs. in_dram (a + of_nat i)"
  shows "\<exists>s'. dtm_write_chunk (bridge_serve B th fh) a bs DMA s = (Inr (), s') \<and> bridge_ok binv s'
    \<and> bmem (br_bus s') = upd_range (bmem (br_bus s)) a bs"
proof -
  obtain n where n: "length bs = 8 * Suc n"
    using len by (metis dvdE length_0_conv mult_is_0 not0_implies_Suc)
  obtain s1 where s1: "bnd (dtm_write (bridge_serve B th fh) (addr_lo DMA) (word_lo a)) (\<lambda>_.
        dtm_write (bridge_serve B th fh) (addr_hi DMA) (word_hi a)) s = (Inr (resp_data a 0), s1)"
      and st: "br_state s1 = WR_DATA" "rcvd_addr s1 = 0" "rcvd_data s1 = rcvd_data s" "br_addr s1 = a"
        "\<not> is_incremental s1" "burst_data s1 = burst_data s" "\<not> is_burst s1" "burst_idx s1 = 0"
        "br_bus s1 = br_bus s"
    using serve_address [OF ok, of DMA B th fh a] by auto
  have "transfer_inv binv bmem bnext th fh (Suc n) (bmem (br_bus s)) a s1"
    using st ok n len(3) by (simp add: transfer_inv_def bridge_ok_def)
  moreover have "\<forall>i < Suc n. in_dram (a + of_nat (8 * i))"
  proof (intro allI impI)
    fix i assume "i < Suc n"
    then show "in_dram (a + of_nat (8 * i))"
      using dram [rule_format, of "8 * i"] n by simp
  qed
  ultimately obtain s2 where "dtm_write_words (bridge_serve B th fh) bs (Suc n) DMA s1 = (Inr (), s2)"
      "bridge_ok binv s2" "bmem (br_bus s2) = upd_range (bmem (br_bus s)) a bs"
    using transfer_words [OF port, of th fh n "bmem (br_bus s)" a s1 bs] al n len(3) by auto
  moreover have "dtm_write_chunk (bridge_serve B th fh) a bs DMA
      = bnd (bnd (dtm_write (bridge_serve B th fh) (addr_lo DMA) (word_lo a)) (\<lambda>_.
          dtm_write (bridge_serve B th fh) (addr_hi DMA) (word_hi a)))
          (\<lambda>_. dtm_write_words (bridge_serve B th fh) bs (Suc n) DMA)"
    using n by (simp add: dtm_write_chunk_def bnd_assoc)
  ultimately show ?thesis
    using s1 by (auto simp: bnd_Inr)
qed

section \<open>Reads\<close>

lemma in_dram_high: "in_dram a \<Longrightarrow> drop_bit 32 a = 0"
  by (simp add: in_dram_def drop_bit_eq_div word_less_nat_alt unat_div word_unat_eq_iff)

lemma dram_block: "in_dram a \<Longrightarrow> a AND 0xfffffff8 = a - take_bit 3 a"
proof -
  assume a: "in_dram a"
  have "a AND 0xfffffff8 = a AND NOT (mask 3)"
  proof (rule bit_word_eqI)
    fix n assume "n < LENGTH(64)"
    have m: "(0xfffffff8 :: u64) = push_bit 3 (mask 29)"
      by (simp add: mask_eq_exp_minus_1)
    have "\<not> bit a n" if "32 \<le> n"
    proof -
      have "bit (drop_bit 32 a) (n - 32) = bit a n"
        using that by (simp add: bit_drop_bit_eq)
      then show ?thesis by (simp add: in_dram_high [OF a])
    qed
    then show "bit (a AND 0xfffffff8) n \<longleftrightarrow> bit (a AND NOT (mask 3)) n"
      using \<open>n < LENGTH(64)\<close> unfolding m by (cases "32 \<le> n") (auto simp: bit_simps)
  qed
  then show ?thesis by (simp add: and_not_mask_eq)
qed

lemma debug_read_bus: "debug_read B a = on_bus (andThen (do_write B DEBUG_ADDR (a AND 0xfffffff8))
    (andThen (do_write B DEBUG_REQ_TYPE 0) (do_read B DEBUG_RD_DATA)))"
  by (simp add: debug_read_def on_bus_andThen)

text \<open>The offset of a 32-bit word in its 64-bit word.\<close>

lemma half_offset:
  assumes "take_bit 2 (a :: u64) = 0"
  shows "take_bit 3 a = (if drop_bit 2 a AND 0x1 \<noteq> 0 then 4 else 0)"
proof (rule bit_word_eqI)
  fix n assume "n < LENGTH(64)"
  have "\<not> bit (take_bit 2 a) 0 \<and> \<not> bit (take_bit 2 a) 1"
    using assms by simp
  then have low: "\<not> bit a 0 \<and> \<not> bit a 1"
    by (simp add: bit_take_bit_iff)
  have sel: "drop_bit 2 a AND 0x1 \<noteq> 0 \<longleftrightarrow> bit a 2"
    by (simp add: and_one_eq mod_2_eq_odd flip: bit_iff_odd_drop_bit)
  have four: "bit (4 :: u64) n \<longleftrightarrow> n = 2"
    using bit_exp_iff [where 'a = "64 word", of 2 n] \<open>n < LENGTH(64)\<close> by auto
  have "n < 3 \<longleftrightarrow> n = 0 \<or> n = 1 \<or> n = 2" by auto
  with low sel four show "bit (take_bit 3 a) n \<longleftrightarrow> bit (if drop_bit 2 a AND 0x1 \<noteq> 0 then 4 else 0 :: u64) n"
    by (auto simp: bit_take_bit_iff)
qed

text \<open>A word of 32 bits: the response selects its half of the 64-bit word that was read.\<close>

lemma resp_half:
  assumes "in_dram a" and "take_bit 2 a = 0"
  shows "le_bytes 4 (resp_data a (le_word (get_range m (a - take_bit 3 a) 8))) = get_range m a 4"
proof -
  show ?thesis
    using half_offset [OF assms(2)] in_dram_high [OF assms(1)] take_drop_get_range [of 4 4 8 m "a - 4"] take_get_range [of 4 8 m a]
    by (auto simp: resp_data_def le_bytes_4_lo le_bytes_4_hi)
qed

lemma put_read_addr: "put_hi (ucast (word_lo a)) (word_hi a) = a"
proof -
  have "put_lo 0 (word_lo a) = ucast (word_lo a)"
    by (simp add: put_lo_def)
  then show ?thesis
    using put_both(1) [of 0 a] by simp
qed

lemma in_dram_iff: "in_dram x \<longleftrightarrow> drop_bit 31 x = 1"
proof -
  have "drop_bit 31 x = 1 \<longleftrightarrow> unat x div 2 ^ 31 = 1"
    by (simp add: drop_bit_eq_div word_unat_eq_iff unat_div)
  also have "\<dots> \<longleftrightarrow> 2 ^ 31 \<le> unat x \<and> unat x < 2 ^ 32"
    by auto
  finally show ?thesis
    by (simp add: in_dram_def word_le_nat_alt word_less_nat_alt)
qed

lemma in_dram_block:
  assumes "in_dram x" and "drop_bit 3 x = drop_bit 3 y"
  shows "in_dram y"
proof -
  have "drop_bit 31 z = drop_bit 28 (drop_bit 3 z)" for z :: u64
    by simp
  then show ?thesis
    using assms by (metis in_dram_iff)
qed

text \<open>A read through the registers of \<open>tgt\<close> that the driver makes over the debug port.\<close>

definition debug_reads :: "'b bus_ops \<Rightarrow> addr \<Rightarrow> addr \<Rightarrow> rw_target \<Rightarrow> addr \<Rightarrow> bool" where
  "debug_reads B th fh tgt a \<longleftrightarrow> read_word B th fh (addr_hi tgt) a = debug_read B a"

lemma debug_reads_dma: "in_dram a \<Longrightarrow> debug_reads B th fh DMA a"
  by (simp add: debug_reads_def read_word_def addr_hi_def)

lemma serve_read_word:
  assumes port: "debug_port B binv bmem bnext" and ok: "bridge_ok binv s" and a: "in_dram a" "take_bit 2 a = 0"
    and rw: "read_word B th fh (addr_hi tgt) a = debug_read B a"
  shows "\<exists>r s'. bnd (dtm_read (bridge_serve B th fh) (addr_lo tgt) (word_lo a)) (\<lambda>_.
        dtm_read (bridge_serve B th fh) (addr_hi tgt) (word_hi a)) s = (Inr r, s')
    \<and> le_bytes 4 r = get_range (bmem (br_bus s)) a 4 \<and> bridge_ok binv s' \<and> bmem (br_bus s') = bmem (br_bus s)"
proof -
  let ?b = "a - take_bit 3 a"
  have al: "take_bit 3 ?b = 0"
    by (rule take_bit_base)
  have db: "in_dram ?b"
    by (rule in_dram_block [OF a(1)]) (simp add: drop_bit_base)
  have "\<exists>s1. bnd (dtm_read (bridge_serve B th fh) (addr_lo tgt) (word_lo a)) (\<lambda>_.
        dtm_read (bridge_serve B th fh) (addr_hi tgt) (word_hi a)) s
      = bnd (debug_read B a) (\<lambda>d. bnd (getS br_addr) (\<lambda>a'. ret (resp_data a' d))) s1
    \<and> br_state s1 = IDLE \<and> rcvd_addr s1 = rcvd_addr s \<and> rcvd_data s1 = rcvd_data s
    \<and> burst_data s1 = burst_data s \<and> br_bus s1 = br_bus s \<and> br_addr s1 = a"
  proof (cases "br_state s = IDLE")
    case True
    with rw show ?thesis
      by (intro exI [of _ "s\<lparr>is_incremental := False, is_burst := False, burst_idx := 0, br_state := IDLE,
            br_addr := a\<rparr>"])
        (simp add: serve_simps put_read_addr andThen_def bnd_def split: prod.split sum.split)
  next
    case False
    with ok have "br_state s = WR_DATA" by (simp add: bridge_ok_def)
    with rw show ?thesis
      by (intro exI [of _ "s\<lparr>is_incremental := False, is_burst := False, burst_idx := 0, br_state := IDLE,
            br_addr := a\<rparr>"])
        (simp add: serve_simps put_read_addr andThen_def bnd_def split: prod.split sum.split)
  qed
  then obtain s1 where s1: "bnd (dtm_read (bridge_serve B th fh) (addr_lo tgt) (word_lo a)) (\<lambda>_.
        dtm_read (bridge_serve B th fh) (addr_hi tgt) (word_hi a)) s
      = bnd (debug_read B a) (\<lambda>d. bnd (getS br_addr) (\<lambda>a'. ret (resp_data a' d))) s1"
    "br_state s1 = IDLE" "rcvd_addr s1 = rcvd_addr s" "rcvd_data s1 = rcvd_data s"
    "burst_data s1 = burst_data s" "br_bus s1 = br_bus s" "br_addr s1 = a"
    by blast
  obtain b where b: "debug_read B a s1 = (Inr (le_word (get_range (bmem (br_bus s)) ?b 8)), s1\<lparr>br_bus := b\<rparr>)"
      "binv b" "bmem b = bmem (br_bus s)"
    using port_read [OF port, of s1 ?b] ok db al dram_block [OF a(1)] s1(6)
    by (auto simp: debug_read_bus bridge_ok_def)
  with s1 ok resp_half [OF a] show ?thesis
    by (auto simp: bnd_Inr bridge_ok_def prog_simps)
qed

lemma dtm_read_words_law:
  assumes port: "debug_port B binv bmem bnext" and "bridge_ok binv s" and "take_bit 2 a = 0"
    and "\<forall>i < n. in_dram (a + of_nat (4 * i)) \<and> debug_reads B th fh tgt (a + of_nat (4 * i))"
  shows "\<exists>s'. dtm_read_words (bridge_serve B th fh) a n tgt s
      = (Inr (get_range (bmem (br_bus s)) a (4 * n)), s')
    \<and> bridge_ok binv s' \<and> bmem (br_bus s') = bmem (br_bus s)"
  using assms(2-)
proof (induction n arbitrary: a s)
  case (Suc n)
  have "in_dram a" and "read_word B th fh (addr_hi tgt) a = debug_read B a"
    using Suc.prems(3) by (force simp: debug_reads_def)+
  then obtain r s1 where 1: "bnd (dtm_read (bridge_serve B th fh) (addr_lo tgt) (word_lo a)) (\<lambda>_.
        dtm_read (bridge_serve B th fh) (addr_hi tgt) (word_hi a)) s = (Inr r, s1)"
      "le_bytes 4 r = get_range (bmem (br_bus s)) a 4" "bridge_ok binv s1"
      "bmem (br_bus s1) = bmem (br_bus s)"
    using serve_read_word [OF port Suc.prems(1) _ Suc.prems(2), of th fh tgt] by blast
  have al: "take_bit 2 (a + 4) = 0"
    using take_bit_add_mult [of 2 4 a] Suc.prems(2) by simp
  have dram: "\<forall>i < n. in_dram (a + 4 + of_nat (4 * i)) \<and> debug_reads B th fh tgt (a + 4 + of_nat (4 * i))"
  proof (intro allI impI)
    fix i assume "i < n"
    then show "in_dram (a + 4 + of_nat (4 * i)) \<and> debug_reads B th fh tgt (a + 4 + of_nat (4 * i))"
      using Suc.prems(3) [rule_format, of "Suc i"] by (simp add: add.assoc)
  qed
  obtain s2 where 2: "dtm_read_words (bridge_serve B th fh) (a + 4) n tgt s1
      = (Inr (get_range (bmem (br_bus s1)) (a + 4) (4 * n)), s2)" "bridge_ok binv s2"
      "bmem (br_bus s2) = bmem (br_bus s1)"
    using Suc.IH [OF 1(3) al dram] by blast
  have "dtm_read_words (bridge_serve B th fh) a (Suc n) tgt
      = bnd (bnd (dtm_read (bridge_serve B th fh) (addr_lo tgt) (word_lo a)) (\<lambda>_.
          dtm_read (bridge_serve B th fh) (addr_hi tgt) (word_hi a))) (\<lambda>result.
        bnd (dtm_read_words (bridge_serve B th fh) (a + 4) n tgt) (\<lambda>bs. ret (le_bytes 4 result @ bs)))"
    by (simp add: bnd_assoc)
  with 1 2 show ?case
    using get_range_add [of "bmem (br_bus s)" a 4 "4 * n"] by (simp add: bnd_Inr)
qed simp

lemma dtm_read_chunk_law:
  assumes port: "debug_port B binv bmem bnext" and ok: "bridge_ok binv s" and al: "take_bit 3 a = 0"
    and len: "8 dvd length dst" and dram: "\<forall>i < length dst. in_dram (a + of_nat i)"
    and dbg: "\<forall>i < length dst. take_bit 2 (a + of_nat i) = 0 \<longrightarrow> debug_reads B th fh tgt (a + of_nat i)"
  shows "\<exists>s'. dtm_read_chunk (bridge_serve B th fh) a dst tgt s
      = (Inr (get_range (bmem (br_bus s)) a (length dst)), s')
    \<and> bridge_ok binv s' \<and> bmem (br_bus s') = bmem (br_bus s)"
proof -
  have n: "4 * (length dst div 4) = length dst"
    using len by (auto elim!: dvdE)
  have "take_bit 2 a = take_bit 2 (take_bit 3 a)"
    by simp
  with al have al2: "take_bit 2 a = 0"
    by (simp only: take_bit_of_0)
  have "\<forall>i < length dst div 4. in_dram (a + of_nat (4 * i)) \<and> debug_reads B th fh tgt (a + of_nat (4 * i))"
  proof (intro allI impI)
    fix i assume "i < length dst div 4"
    then have "4 * i < length dst"
      using n by linarith
    moreover have "take_bit 2 (a + of_nat (4 * i)) = 0"
      using take_bit_add_mult [of 2 "4 * i" a] al2 by simp
    ultimately show "in_dram (a + of_nat (4 * i)) \<and> debug_reads B th fh tgt (a + of_nat (4 * i))"
      using dram dbg by blast
  qed
  then obtain s' where "dtm_read_words (bridge_serve B th fh) a (length dst div 4) tgt s
      = (Inr (get_range (bmem (br_bus s)) a (length dst)), s')" "bridge_ok binv s'"
      "bmem (br_bus s') = bmem (br_bus s)"
    using dtm_read_words_law [OF port ok al2, of "length dst div 4" th fh tgt] n by auto
  then show ?thesis
    by (simp add: dtm_read_chunk_def bnd_Inr)
qed

text \<open>
  The transport over the driver is a chunk target for the DRAM below 4 GiB, whatever the state the
  driver was left in.
\<close>

lemma bridge_is_chunk_target:
  assumes port: "debug_port B binv bmem bnext"
  shows "chunk_target (dtm (bridge_serve B th fh) jk) DMA 3 (bridge_ok binv) (\<lambda>s. bmem (br_bus s)) in_dram"
proof (unfold_locales, goal_cases)
  case (5 x y)
  then show ?case by (rule in_dram_block)
next
  case (6 s a dst)
  then show ?case
    using dtm_read_chunk_law [OF port, of s a dst th fh DMA] by (simp add: dtm_def debug_reads_dma)
next
  case (7 s a bs)
  then show ?case
    using dtm_write_chunk_law [OF port, of s a bs th fh] by (simp add: dtm_def)
qed (simp_all add: dtm_def xlen_def)

section \<open>A debug port\<close>

text \<open>The least a chip can do to be one: three registers in front of a memory.\<close>

record port_chip =
  pc_mem :: memory
  pc_addr :: addr
  pc_type :: u64

definition port_bus :: "port_chip bus_ops" where
  "port_bus =
    \<lparr>do_read = (\<lambda>a c. (Inr (if a = DEBUG_RD_DATA then le_word (get_range (pc_mem c) (pc_addr c) 8) else 0), c)),
     do_write = (\<lambda>a d c. (Inr (),
       if a = DEBUG_ADDR then c\<lparr>pc_addr := d\<rparr>
       else if a = DEBUG_REQ_TYPE then c\<lparr>pc_type := d\<rparr>
       else if a = DEBUG_WR_DATA then
         c\<lparr>pc_mem := upd_range (pc_mem c) (pc_addr c) (le_bytes 8 d), pc_addr := pc_addr c + 8\<rparr>
       else c)),
     do_write_burst = (\<lambda>a ws c. (Inr (), c\<lparr>pc_mem := upd_range (pc_mem c) a (bytes_of_words ws)\<rparr>))\<rparr>"

lemma port_bus_is_debug_port: "debug_port port_bus (\<lambda>_. True) pc_mem (\<lambda>c. Some (pc_addr c))"
  by (simp add: debug_port_def port_bus_def DEBUG_ADDR_def DEBUG_REQ_TYPE_def DEBUG_WR_DATA_def
      DEBUG_RD_DATA_def andThen_def bnd_def)

interpretation port: chunk_target "dtm (bridge_serve port_bus th fh) jk" DMA 3 "bridge_ok (\<lambda>_. True)"
    "\<lambda>s. pc_mem (br_bus s)" in_dram
  for th fh jk
  by (rule bridge_is_chunk_target [OF port_bus_is_debug_port])

lemma serve_nop:
  assumes "bridge_ok binv s"
  shows "\<exists>s'. dtm_nop (bridge_serve B th fh) s = (Inr (), s') \<and> bridge_ok binv s' \<and> br_bus s' = br_bus s"
  using assms
  by (auto simp: dtm_nop_def serve_simps bridge_ok_def is_addr_reg_def andThen_def bnd_def)

lemma serve_nops:
  "bridge_ok binv s \<Longrightarrow>
    \<exists>s'. forM xs (\<lambda>_. dtm_nop (bridge_serve B th fh)) s = (Inr (), s') \<and> bridge_ok binv s' \<and> br_bus s' = br_bus s"
proof (induction xs arbitrary: s)
  case (Cons x xs)
  from serve_nop [OF Cons.prems] obtain s1 where "dtm_nop (bridge_serve B th fh) s = (Inr (), s1)"
      "bridge_ok binv s1" "br_bus s1 = br_bus s"
    by blast
  then show ?case
    using Cons.IH [of s1] by (auto simp: andThen_Inr)
qed simp

section \<open>Properties\<close>

text \<open>
  C5: through the whole stack, \<open>memif_t::write\<close> over \<open>dtm_t\<close> over the board driver over the debug
  port, a write of any length at any address of the DRAM below 4 GiB updates exactly its bytes: the
  split into blocks, the 32-bit requests, the bursts and the special case of \<open>tohost\<close> and
  \<open>fromhost\<close> lose, duplicate and misplace nothing, and no assertion fires.
\<close>

theorem stack_write:
  assumes "debug_port B binv bmem bnext" and "bridge_ok binv s"
    and "\<forall>i < length bs. in_dram (a + of_nat i)" and "0x80000000 \<le> a" and "length bs \<le> 2 ^ 64"
  shows "\<exists>s'. memif_write (dtm (bridge_serve B th fh) jk) a bs DMA s = (Inr (), s') \<and> bridge_ok binv s'
    \<and> bmem (br_bus s') = upd_range (bmem (br_bus s)) a bs"
  by (rule chunk_target.memif_write_law [OF bridge_is_chunk_target [OF assms(1)]]) (use assms in simp_all)

definition sample_bridge :: "port_chip bridge" where
  "sample_bridge = bridge_init (replicate 256 0) \<lparr>pc_mem = (\<lambda>_. 0x55), pc_addr = 0, pc_type = 0\<rparr>"

lemma sample_bridge_ok: "bridge_ok (\<lambda>_. True) sample_bridge"
  by (simp add: sample_bridge_def bridge_init_def bridge_ok_def)

theorem stack_write_witness:
  "\<exists>s'. memif_write (dtm (bridge_serve port_bus 0x80001000 0x80001040) (\<lambda>_. 7)) 0x80000ffd [1, 2, 3, 4] DMA
      sample_bridge = (Inr (), s') \<and> bridge_ok (\<lambda>_. True) s'
    \<and> pc_mem (br_bus s') = upd_range (pc_mem (br_bus sample_bridge)) 0x80000ffd [1, 2, 3, 4]"
  by (rule stack_write [OF port_bus_is_debug_port sample_bridge_ok])
    (simp_all add: in_dram_def All_less_Suc)

text \<open>
  C6: through the same stack, \<open>memif_t::read\<close> returns the bytes of the memory behind the debug port,
  whatever the alignment and length, and leaves that memory as it was.
\<close>

theorem stack_read:
  assumes "debug_port B binv bmem bnext" and "bridge_ok binv s"
    and "\<forall>i < length dst. in_dram (a + of_nat i)" and "0x80000000 \<le> a"
  shows "\<exists>s'. memif_read (dtm (bridge_serve B th fh) jk) a dst DMA s
      = (Inr (get_range (bmem (br_bus s)) a (length dst)), s')
    \<and> bridge_ok binv s' \<and> bmem (br_bus s') = bmem (br_bus s)"
  by (rule chunk_target.memif_read_law [OF bridge_is_chunk_target [OF assms(1)]]) (use assms in simp_all)

theorem stack_read_witness:
  "\<exists>s'. memif_read (dtm (bridge_serve port_bus 0x80001000 0x80001040) (\<lambda>_. 7)) 0x80000ffd [0, 0, 0] DMA
      sample_bridge
      = (Inr (get_range (pc_mem (br_bus sample_bridge)) 0x80000ffd (length [0, 0, 0 :: u8])), s')
    \<and> bridge_ok (\<lambda>_. True) s' \<and> pc_mem (br_bus s') = pc_mem (br_bus sample_bridge)"
  by (rule stack_read [OF port_bus_is_debug_port sample_bridge_ok])
    (simp_all add: in_dram_def All_less_Suc)

text \<open>
  The no-ops that \<open>dtm_t::idle\<close> sends between commands do not reach the bus and leave the
  driver ready for the next command.
\<close>

theorem idle_is_silent:
  assumes "bridge_ok binv s"
  shows "\<exists>s'. dtm_idle (bridge_serve B th fh) s = (Inr (), s') \<and> bridge_ok binv s' \<and> br_bus s' = br_bus s"
  unfolding dtm_idle_def by (rule serve_nops [OF assms])

theorem idle_is_silent_witness:
  "\<exists>s'. dtm_idle (bridge_serve port_bus 0 0) sample_bridge = (Inr (), s') \<and> bridge_ok (\<lambda>_. True) s'
    \<and> br_bus s' = br_bus sample_bridge"
  by (rule idle_is_silent [OF sample_bridge_ok])

text \<open>
  A debug-port read at or above 4 GiB addresses the word 32 bits lower: the mask that aligns the
  address also clears its upper half, which the write path does not do.
\<close>

theorem high_read_aliases:
  "debug_read B a = debug_read B (a AND 0xffffffff)"
proof -
  have "a AND 0xfffffff8 = (a AND 0xffffffff) AND 0xfffffff8"
    by (simp add: and.assoc)
  then show ?thesis by (simp add: debug_read_def)
qed

text \<open>
  When a transfer is addressed through the burst registers, the low half of the address lands in
  the upper half of the assembled word and is then overwritten, so the transfer goes to an address
  whose low half is left over from before.
\<close>

theorem burst_address_lost:
  assumes "bridge_ok binv s"
  shows "\<exists>s'. bnd (dtm_write (bridge_serve B th fh) (addr_lo DMA_BURST) (word_lo a)) (\<lambda>_.
        dtm_write (bridge_serve B th fh) (addr_hi DMA_BURST) (word_hi a)) s = (Inr (resp_data (br_addr s') 0), s')
    \<and> br_addr s' = put_hi (br_data s) (word_hi a)"
  using assms
  by (auto simp: serve_simps bridge_ok_def addr_lo_def addr_hi_def is_addr_lo_def is_addr_reg_def
      put_half_def put_hi_put_hi andThen_def bnd_def)

theorem burst_address_lost_witness:
  "\<exists>s'. bnd (dtm_write (bridge_serve port_bus 0 0) (addr_lo DMA_BURST) (word_lo 0x80001000)) (\<lambda>_.
        dtm_write (bridge_serve port_bus 0 0) (addr_hi DMA_BURST) (word_hi 0x80001000)) sample_bridge
      = (Inr (resp_data (br_addr s') 0), s')
    \<and> br_addr s' = put_hi (br_data sample_bridge) (word_hi 0x80001000)"
  by (rule burst_address_lost [OF sample_bridge_ok])

end
