(* ===== verification/Elfloader.thy ===== *)
theory Elfloader
  imports Host
begin

text \<open>
  The ELF loader, \<open>elfloader.cc\<close> with the structures of \<open>elf.h\<close>. A file is the list of its
  bytes, \<open>None\<close> when it cannot be opened; an access outside those bytes is the fault
  \<open>Undefined\<close>. The loader is one macro instantiated for the two ELF classes; here the class is a
  parameter, and the sums the code forms in the fields' own type wrap at the class's width.
  The lemmas show that the loader puts every segment into target memory and zeroes the rest of
  it, that reading the symbols alone gives the same result, and that a file whose offsets do
  not wrap is never read outside its bytes.
\<close>

section \<open>The structures of the file\<close>

datatype elf_class = ELF32 | ELF64

record elf_ehdr =
  e_ident :: "u8 list"
  e_type :: u16
  e_machine :: u16
  e_version :: u32
  e_entry :: u64
  e_phoff :: u64
  e_shoff :: u64
  e_flags :: u32
  e_ehsize :: u16
  e_phentsize :: u16
  e_phnum :: u16
  e_shentsize :: u16
  e_shnum :: u16
  e_shstrndx :: u16

record elf_shdr =
  sh_name :: u32
  sh_type :: u32
  sh_flags :: u64
  sh_addr :: u64
  sh_offset :: u64
  sh_size :: u64
  sh_link :: u32
  sh_info :: u32
  sh_addralign :: u64
  sh_entsize :: u64

record elf_phdr =
  p_type :: u32
  p_flags :: u32
  p_offset :: u64
  p_vaddr :: u64
  p_paddr :: u64
  p_filesz :: u64
  p_memsz :: u64
  p_align :: u64

record elf_sym =
  st_name :: u32
  st_info :: u8
  st_other :: u8
  st_shndx :: u16
  st_value :: u64
  st_bytes :: u64

text \<open>A field of \<open>n\<close> bytes at offset \<open>i\<close> of a structure.\<close>

definition field :: "nat \<Rightarrow> nat \<Rightarrow> u8 list \<Rightarrow> 'a::len word" where
  "field i n bs = le_word (take n (drop i bs))"

definition ehdr32 :: "u8 list \<Rightarrow> elf_ehdr" where
  "ehdr32 bs = \<lparr>e_ident = take 16 bs, e_type = field 16 2 bs, e_machine = field 18 2 bs,
     e_version = field 20 4 bs, e_entry = field 24 4 bs, e_phoff = field 28 4 bs, e_shoff = field 32 4 bs,
     e_flags = field 36 4 bs, e_ehsize = field 40 2 bs, e_phentsize = field 42 2 bs, e_phnum = field 44 2 bs,
     e_shentsize = field 46 2 bs, e_shnum = field 48 2 bs, e_shstrndx = field 50 2 bs\<rparr>"

definition ehdr64 :: "u8 list \<Rightarrow> elf_ehdr" where
  "ehdr64 bs = \<lparr>e_ident = take 16 bs, e_type = field 16 2 bs, e_machine = field 18 2 bs,
     e_version = field 20 4 bs, e_entry = field 24 8 bs, e_phoff = field 32 8 bs, e_shoff = field 40 8 bs,
     e_flags = field 48 4 bs, e_ehsize = field 52 2 bs, e_phentsize = field 54 2 bs, e_phnum = field 56 2 bs,
     e_shentsize = field 58 2 bs, e_shnum = field 60 2 bs, e_shstrndx = field 62 2 bs\<rparr>"

definition shdr32 :: "u8 list \<Rightarrow> elf_shdr" where
  "shdr32 bs = \<lparr>sh_name = field 0 4 bs, sh_type = field 4 4 bs, sh_flags = field 8 4 bs,
     sh_addr = field 12 4 bs, sh_offset = field 16 4 bs, sh_size = field 20 4 bs, sh_link = field 24 4 bs,
     sh_info = field 28 4 bs, sh_addralign = field 32 4 bs, sh_entsize = field 36 4 bs\<rparr>"

definition shdr64 :: "u8 list \<Rightarrow> elf_shdr" where
  "shdr64 bs = \<lparr>sh_name = field 0 4 bs, sh_type = field 4 4 bs, sh_flags = field 8 8 bs,
     sh_addr = field 16 8 bs, sh_offset = field 24 8 bs, sh_size = field 32 8 bs, sh_link = field 40 4 bs,
     sh_info = field 44 4 bs, sh_addralign = field 48 8 bs, sh_entsize = field 56 8 bs\<rparr>"

definition phdr32 :: "u8 list \<Rightarrow> elf_phdr" where
  "phdr32 bs = \<lparr>p_type = field 0 4 bs, p_flags = field 24 4 bs, p_offset = field 4 4 bs,
     p_vaddr = field 8 4 bs, p_paddr = field 12 4 bs, p_filesz = field 16 4 bs, p_memsz = field 20 4 bs,
     p_align = field 28 4 bs\<rparr>"

definition phdr64 :: "u8 list \<Rightarrow> elf_phdr" where
  "phdr64 bs = \<lparr>p_type = field 0 4 bs, p_flags = field 4 4 bs, p_offset = field 8 8 bs,
     p_vaddr = field 16 8 bs, p_paddr = field 24 8 bs, p_filesz = field 32 8 bs, p_memsz = field 40 8 bs,
     p_align = field 48 8 bs\<rparr>"

definition sym32 :: "u8 list \<Rightarrow> elf_sym" where
  "sym32 bs = \<lparr>st_name = field 0 4 bs, st_info = field 12 1 bs, st_other = field 13 1 bs,
     st_shndx = field 14 2 bs, st_value = field 4 4 bs, st_bytes = field 8 4 bs\<rparr>"

definition sym64 :: "u8 list \<Rightarrow> elf_sym" where
  "sym64 bs = \<lparr>st_name = field 0 4 bs, st_info = field 4 1 bs, st_other = field 5 1 bs,
     st_shndx = field 6 2 bs, st_value = field 8 8 bs, st_bytes = field 16 8 bs\<rparr>"

text \<open>The structures of a class and their sizes.\<close>

definition ehdr_of :: "elf_class \<Rightarrow> u8 list \<Rightarrow> elf_ehdr" where
  "ehdr_of c = (case c of ELF32 \<Rightarrow> ehdr32 | ELF64 \<Rightarrow> ehdr64)"

definition shdr_of :: "elf_class \<Rightarrow> u8 list \<Rightarrow> elf_shdr" where
  "shdr_of c = (case c of ELF32 \<Rightarrow> shdr32 | ELF64 \<Rightarrow> shdr64)"

definition phdr_of :: "elf_class \<Rightarrow> u8 list \<Rightarrow> elf_phdr" where
  "phdr_of c = (case c of ELF32 \<Rightarrow> phdr32 | ELF64 \<Rightarrow> phdr64)"

definition sym_of :: "elf_class \<Rightarrow> u8 list \<Rightarrow> elf_sym" where
  "sym_of c = (case c of ELF32 \<Rightarrow> sym32 | ELF64 \<Rightarrow> sym64)"

definition shdr_size :: "elf_class \<Rightarrow> nat" where
  "shdr_size c = (case c of ELF32 \<Rightarrow> 40 | ELF64 \<Rightarrow> 64)"

definition phdr_size :: "elf_class \<Rightarrow> nat" where
  "phdr_size c = (case c of ELF32 \<Rightarrow> 32 | ELF64 \<Rightarrow> 56)"

definition sym_size :: "elf_class \<Rightarrow> nat" where
  "sym_size c = (case c of ELF32 \<Rightarrow> 16 | ELF64 \<Rightarrow> 24)"

text \<open>The result of arithmetic in the type of the class's address fields.\<close>

definition wide :: "elf_class \<Rightarrow> u64 \<Rightarrow> u64" where
  "wide c x = (case c of ELF32 \<Rightarrow> ucast (ucast x :: u32) | ELF64 \<Rightarrow> x)"

definition IS_ELF :: "u8 list \<Rightarrow> bool" where
  "IS_ELF bs \<longleftrightarrow> take 4 bs = [0x7f, byte_of CHR ''E'', byte_of CHR ''L'', byte_of CHR ''F'']"

definition IS_ELF32 :: "u8 list \<Rightarrow> bool" where
  "IS_ELF32 bs \<longleftrightarrow> IS_ELF bs \<and> bs ! 4 = 1"

definition IS_ELF64 :: "u8 list \<Rightarrow> bool" where
  "IS_ELF64 bs \<longleftrightarrow> IS_ELF bs \<and> bs ! 4 = 2"

definition PT_LOAD :: u32 where
  "PT_LOAD = 1"

definition SHT_NOBITS :: u32 where
  "SHT_NOBITS = 8"

section \<open>Reading the image\<close>

text \<open>The \<open>n\<close> bytes of the mapping at an offset.\<close>

definition slice :: "u8 list \<Rightarrow> u64 \<Rightarrow> nat \<Rightarrow> ('t, u8 list) prog" where
  "slice buf off n =
    (if unat off + n \<le> length buf then ret (take n (drop (unat off) buf))
     else raise (Undefined ''read outside the ELF image''))"

definition shdr_at :: "elf_class \<Rightarrow> u8 list \<Rightarrow> elf_ehdr \<Rightarrow> nat \<Rightarrow> ('t, elf_shdr) prog" where
  "shdr_at c buf eh i =
    bnd (slice buf (e_shoff eh + of_nat (i * shdr_size c)) (shdr_size c)) (\<lambda>bs. ret (shdr_of c bs))"

definition phdr_at :: "elf_class \<Rightarrow> u8 list \<Rightarrow> elf_ehdr \<Rightarrow> nat \<Rightarrow> ('t, elf_phdr) prog" where
  "phdr_at c buf eh i =
    bnd (slice buf (e_phoff eh + of_nat (i * phdr_size c)) (phdr_size c)) (\<lambda>bs. ret (phdr_of c bs))"

definition sym_at :: "elf_class \<Rightarrow> u8 list \<Rightarrow> u64 \<Rightarrow> nat \<Rightarrow> ('t, elf_sym) prog" where
  "sym_at c buf off i = bnd (slice buf (off + of_nat (i * sym_size c)) (sym_size c)) (\<lambda>bs. ret (sym_of c bs))"

text \<open>
  A name of a string table: \<open>assert\<close> that the index is inside the table and that the string ends
  inside it. \<open>max_len\<close> is an \<open>unsigned\<close>; \<open>strnlen\<close> reads up to that many bytes, no
  further than the first zero.
\<close>

definition name_in :: "u8 list \<Rightarrow> elf_shdr \<Rightarrow> u32 \<Rightarrow> ('t, string) prog" where
  "name_in buf tab name =
    (let max_len = unat (ucast (sh_size tab - ucast name) :: u32);
         off = unat (sh_offset tab + ucast name); bs = take max_len (drop off buf) in
     andThen (assertM ''name < sh_size'' (ucast name < sh_size tab))
     (if 0 \<in> set bs then ret (string_of (takeWhile (\<lambda>b. b \<noteq> 0) bs))
      else if length bs < max_len then raise (Undefined ''read outside the ELF image'')
      else raise (Assert_failed ''strnlen < max_len'')))"

section \<open>Segments\<close>

definition PT_LOAD_bytes :: "elf_phdr \<Rightarrow> bool" where
  "PT_LOAD_bytes ph \<longleftrightarrow> p_type ph = PT_LOAD \<and> p_memsz ph \<noteq> 0"

definition file_part_ok :: "elf_class \<Rightarrow> u8 list \<Rightarrow> elf_phdr \<Rightarrow> ('t, unit) prog" where
  "file_part_ok c buf ph =
    assertM ''size >= p_offset + p_filesz'' (wide c (p_offset ph + p_filesz ph) \<le> of_nat (length buf))"

definition load_segment :: "'t htif_ops \<Rightarrow> elf_class \<Rightarrow> u8 list \<Rightarrow> elf_phdr \<Rightarrow> ('t, unit) prog" where
  "load_segment h c buf ph =
    (if PT_LOAD_bytes ph then
       andThen
         (if p_filesz ph \<noteq> 0 then
            andThen (file_part_ok c buf ph)
            (bnd (slice buf (p_offset ph) (unat (p_filesz ph))) (\<lambda>bs. memif_write h (p_vaddr ph) bs DMA))
          else ret ())
         (bnd (alloc_vec (wide c (p_memsz ph - p_filesz ph))) (\<lambda>zeros.
            memif_write h (wide c (p_vaddr ph + p_filesz ph)) zeros DMA))
     else ret ())"

text \<open>The same steps without the writes.\<close>

definition check_segment :: "elf_class \<Rightarrow> u8 list \<Rightarrow> elf_phdr \<Rightarrow> ('t, unit) prog" where
  "check_segment c buf ph =
    (if PT_LOAD_bytes ph then
       andThen (if p_filesz ph \<noteq> 0 then file_part_ok c buf ph else ret ())
         (bnd (alloc_vec (wide c (p_memsz ph - p_filesz ph))) (\<lambda>zeros. ret ()))
     else ret ())"

section \<open>Sections and symbols\<close>

text \<open>
  The scan for the section indices of \<open>.strtab\<close> and \<open>.symtab\<close>. A section whose type has the
  bit of \<open>SHT_NOBITS\<close> set is passed over once its name has been checked.
\<close>

definition scan_section ::
    "elf_class \<Rightarrow> u8 list \<Rightarrow> elf_ehdr \<Rightarrow> elf_shdr \<Rightarrow> nat \<Rightarrow> nat \<times> nat \<Rightarrow> ('t, nat \<times> nat) prog" where
  "scan_section c buf eh shstr i idx =
    bnd (shdr_at c buf eh i) (\<lambda>sh.
    bnd (name_in buf shstr (sh_name sh)) (\<lambda>name.
    if sh_type sh AND SHT_NOBITS \<noteq> 0 then ret idx
    else
      andThen (assertM ''size >= sh_offset + sh_size'' (wide c (sh_offset sh + sh_size sh) \<le> of_nat (length buf)))
        (ret (if name = ''.strtab'' then i else fst idx, if name = ''.symtab'' then i else snd idx))))"

fun scan_sections ::
    "elf_class \<Rightarrow> u8 list \<Rightarrow> elf_ehdr \<Rightarrow> elf_shdr \<Rightarrow> nat list \<Rightarrow> nat \<times> nat \<Rightarrow> ('t, nat \<times> nat) prog" where
  "scan_sections c buf eh shstr [] idx = ret idx"
| "scan_sections c buf eh shstr (i # is) idx =
    bnd (scan_section c buf eh shstr i idx) (\<lambda>idx'. scan_sections c buf eh shstr is idx')"

fun read_symbols ::
    "elf_class \<Rightarrow> u8 list \<Rightarrow> elf_shdr \<Rightarrow> u64 \<Rightarrow> nat list \<Rightarrow> (string \<times> u64) list \<Rightarrow> ('t, (string \<times> u64) list) prog" where
  "read_symbols c buf strtab off [] syms = ret syms"
| "read_symbols c buf strtab off (i # is) syms =
    bnd (sym_at c buf off i) (\<lambda>sym.
    bnd (name_in buf strtab (st_name sym)) (\<lambda>name.
    read_symbols c buf strtab off is (smap_put name (st_value sym) syms)))"

definition symbol_table ::
    "elf_class \<Rightarrow> u8 list \<Rightarrow> elf_ehdr \<Rightarrow> nat \<times> nat \<Rightarrow> ('t, (string \<times> u64) list) prog" where
  "symbol_table c buf eh idx =
    (if fst idx \<noteq> 0 \<and> snd idx \<noteq> 0 then
       bnd (shdr_at c buf eh (fst idx)) (\<lambda>strtab.
       bnd (shdr_at c buf eh (snd idx)) (\<lambda>symtab.
       read_symbols c buf strtab (sh_offset symtab) [0..<unat (sh_size symtab) div sym_size c] []))
     else ret [])"

definition elf_sections :: "elf_class \<Rightarrow> u8 list \<Rightarrow> elf_ehdr \<Rightarrow> ('t, (string \<times> u64) list) prog" where
  "elf_sections c buf eh =
    andThen (assertM ''size >= e_shoff + e_shnum*sizeof(*sh)''
      (e_shoff eh + of_nat (unat (e_shnum eh) * shdr_size c) \<le> of_nat (length buf)))
    (andThen (assertM ''e_shstrndx < e_shnum'' (e_shstrndx eh < e_shnum eh))
    (bnd (shdr_at c buf eh (unat (e_shstrndx eh))) (\<lambda>shstr.
     andThen (assertM ''size >= sh_offset + sh_size'' (wide c (sh_offset shstr + sh_size shstr) \<le> of_nat (length buf)))
     (bnd (scan_sections c buf eh shstr [0..<unat (e_shnum eh)] (0, 0)) (\<lambda>idx.
      symbol_table c buf eh idx)))))"

section \<open>The loader\<close>

text \<open>
  The macro \<open>LOAD_ELF\<close>, with the treatment of a segment as a parameter, and the function around
  it. The result is the value stored at \<open>*entry\<close> and the symbol map.
\<close>

definition LOAD_ELF ::
    "(elf_class \<Rightarrow> u8 list \<Rightarrow> elf_phdr \<Rightarrow> ('t, unit) prog) \<Rightarrow> elf_class \<Rightarrow> u8 list
      \<Rightarrow> ('t, u64 \<times> (string \<times> u64) list) prog" where
  "LOAD_ELF seg c buf =
    (let eh = ehdr_of c buf in
     andThen (assertM ''size >= e_phoff + e_phnum*sizeof(*ph)''
       (e_phoff eh + of_nat (unat (e_phnum eh) * phdr_size c) \<le> of_nat (length buf)))
     (andThen (forM [0..<unat (e_phnum eh)] (\<lambda>i. bnd (phdr_at c buf eh i) (seg c buf)))
     (bnd (elf_sections c buf eh) (\<lambda>symbols. ret (e_entry eh, symbols)))))"

definition elf_file ::
    "(elf_class \<Rightarrow> u8 list \<Rightarrow> elf_phdr \<Rightarrow> ('t, unit) prog) \<Rightarrow> u8 list option
      \<Rightarrow> ('t, u64 \<times> (string \<times> u64) list) prog" where
  "elf_file seg file =
    (case file of
       None \<Rightarrow> raise (Assert_failed ''fd != -1'')
     | Some buf \<Rightarrow>
         andThen (assertM ''buf != MAP_FAILED'' (buf \<noteq> []))
         (andThen (assertM ''size >= sizeof(Elf64_Ehdr)'' (64 \<le> length buf))
         (andThen (assertM ''IS_ELF32 || IS_ELF64'' (IS_ELF32 buf \<or> IS_ELF64 buf))
         (LOAD_ELF seg (if IS_ELF32 buf then ELF32 else ELF64) buf))))"

definition load_elf :: "'t htif_ops \<Rightarrow> u8 list option \<Rightarrow> ('t, u64 \<times> (string \<times> u64) list) prog" where
  "load_elf h file = elf_file (load_segment h) file"

definition load_elf_symbols_only :: "u8 list option \<Rightarrow> ('t, u64 \<times> (string \<times> u64) list) prog" where
  "load_elf_symbols_only file = elf_file check_segment file"

text \<open>The variants that store the values as \<open>int64_t\<close>.\<close>

definition signed_symbols :: "u64 \<times> (string \<times> u64) list \<Rightarrow> u64 \<times> (string \<times> int) list" where
  "signed_symbols r = (fst r, map (\<lambda>(n, v). (n, sint v)) (snd r))"

definition load_elf_s :: "'t htif_ops \<Rightarrow> u8 list option \<Rightarrow> ('t, u64 \<times> (string \<times> int) list) prog" where
  "load_elf_s h file = bnd (elf_file (load_segment h) file) (\<lambda>r. ret (signed_symbols r))"

definition load_elf_symbols_only_s :: "u8 list option \<Rightarrow> ('t, u64 \<times> (string \<times> int) list) prog" where
  "load_elf_symbols_only_s file = bnd (elf_file check_segment file) (\<lambda>r. ret (signed_symbols r))"

section \<open>Symbols alone\<close>

lemma pure_slice [intro, simp]: "pure_prog (slice buf off n)"
  by (simp add: slice_def)

lemma pure_shdr_at [intro, simp]: "pure_prog (shdr_at c buf eh i)"
  by (auto simp: shdr_at_def simp del: ret_run)

lemma pure_phdr_at [intro, simp]: "pure_prog (phdr_at c buf eh i)"
  by (auto simp: phdr_at_def simp del: ret_run)

lemma pure_sym_at [intro, simp]: "pure_prog (sym_at c buf off i)"
  by (auto simp: sym_at_def simp del: ret_run)

lemma pure_name_in [intro, simp]: "pure_prog (name_in buf tab name)"
  by (auto simp: name_in_def Let_def intro!: pure_andThen simp del: ret_run)

lemma pure_scan_section [intro, simp]: "pure_prog (scan_section c buf eh shstr i idx)"
  unfolding scan_section_def by (intro pure_bnd) (auto intro!: pure_andThen simp del: ret_run)

lemma pure_scan_sections [intro, simp]: "pure_prog (scan_sections c buf eh shstr is idx)"
  by (induction "is" arbitrary: idx) (auto intro!: pure_bnd simp del: ret_run)

lemma pure_read_symbols [intro, simp]: "pure_prog (read_symbols c buf strtab off is syms)"
  by (induction "is" arbitrary: syms) (auto intro!: pure_bnd simp del: ret_run)

lemma pure_symbol_table [intro, simp]: "pure_prog (symbol_table c buf eh idx)"
  by (auto simp: symbol_table_def intro!: pure_bnd simp del: ret_run)

lemma pure_elf_sections [intro, simp]: "pure_prog (elf_sections c buf eh)"
  unfolding elf_sections_def by (intro pure_bnd pure_andThen pure_assertM pure_shdr_at pure_scan_sections pure_symbol_table)

lemma pure_file_part_ok [intro, simp]: "pure_prog (file_part_ok c buf ph)"
  by (simp add: file_part_ok_def)

lemma pure_alloc_vec [intro, simp]: "pure_prog (alloc_vec n)"
  by (simp add: alloc_vec_def)

lemma pure_check_segment [intro, simp]: "pure_prog (check_segment c buf ph)"
  by (auto simp: check_segment_def intro!: pure_bnd pure_andThen simp del: ret_run)

text \<open>A statement sequence that returned ran both parts.\<close>

lemma andThen_InrE:
  assumes "andThen m n s = (Inr x, s'')"
  obtains y s' where "m s = (Inr y, s')" "n s' = (Inr x, s'')"
  using assms unfolding andThen_def by (auto elim: bnd_cases)

lemma bnd_InrE:
  assumes "bnd m f s = (Inr x, s'')"
  obtains y s' where "m s = (Inr y, s')" "f y s' = (Inr x, s'')"
  using assms by (auto elim: bnd_cases)

lemma file_part_ok_Inr: "file_part_ok c buf ph s = (Inr u, s') \<Longrightarrow> file_part_ok c buf ph t = (Inr (), t)"
  by (simp add: file_part_ok_def assertM_def split: if_splits)

lemma loaded_segment_checks:
  fixes h :: "'t htif_ops" and t :: 't
  assumes "load_segment h c buf ph s = (Inr u, s')"
  shows "check_segment c buf ph t = (Inr (), t)"
proof (cases "PT_LOAD_bytes ph")
  case True
  obtain s1 where 1: "(if p_filesz ph \<noteq> 0 then
       andThen (file_part_ok c buf ph)
         (bnd (slice buf (p_offset ph) (unat (p_filesz ph))) (\<lambda>bs. memif_write h (p_vaddr ph) bs DMA))
       else ret ()) s = (Inr (), s1)"
      "bnd (alloc_vec (wide c (p_memsz ph - p_filesz ph))) (\<lambda>zeros.
         memif_write h (wide c (p_vaddr ph + p_filesz ph)) zeros DMA) s1 = (Inr u, s')"
    using assms True by (auto simp: load_segment_def elim: andThen_InrE)
  have f: "(if p_filesz ph \<noteq> 0 then file_part_ok c buf ph else ret ()) t = (Inr (), t)"
    using 1(1) by (auto elim!: andThen_InrE dest: file_part_ok_Inr [where t = t])
  obtain z where "alloc_vec (wide c (p_memsz ph - p_filesz ph)) t = (Inr z, t)"
    using 1(2) by (auto elim!: bnd_InrE simp: alloc_vec_def split: if_splits)
  then show ?thesis
    using True f by (simp add: check_segment_def andThen_def bnd_def)
qed (simp add: check_segment_def)

lemma loaded_segments_check:
  fixes h :: "'t htif_ops" and t :: 't
  assumes "forM is (\<lambda>i. bnd (phdr_at c buf eh i) (load_segment h c buf)) s = (Inr u, s')"
  shows "forM is (\<lambda>i. bnd (phdr_at c buf eh i) (check_segment c buf)) t = (Inr (), t)"
  using assms
proof (induction "is" arbitrary: s)
  case (Cons i "is")
  then obtain s1 where 1: "bnd (phdr_at c buf eh i) (load_segment h c buf) s = (Inr (), s1)"
      "forM is (\<lambda>i. bnd (phdr_at c buf eh i) (load_segment h c buf)) s1 = (Inr u, s')"
    by (auto elim: andThen_InrE)
  obtain ph s2 where 2: "phdr_at c buf eh i s = (Inr ph, s2)" "load_segment h c buf ph s2 = (Inr (), s1)"
    using 1(1) by (auto elim: bnd_InrE)
  have "phdr_at c buf eh i t = (Inr ph, t)"
    by (rule pure_run [where s = s]) (simp, rule 2(1))
  then have "bnd (phdr_at c buf eh i) (check_segment c buf) t = (Inr (), t)"
    using loaded_segment_checks [OF 2(2)] by (simp add: bnd_Inr)
  then show ?case
    using Cons.IH [OF 1(2)] by (simp add: andThen_Inr)
qed simp

lemma LOAD_ELF_checks:
  fixes h :: "'t htif_ops" and t :: 't
  assumes "LOAD_ELF (load_segment h) c buf s = (Inr r, s')"
  shows "LOAD_ELF check_segment c buf t = (Inr r, t)"
proof -
  let ?eh = "ehdr_of c buf"
  have a: "e_phoff ?eh + of_nat (unat (e_phnum ?eh) * phdr_size c) \<le> of_nat (length buf)"
    using assms by (auto simp: LOAD_ELF_def Let_def assertM_def split: if_splits)
  obtain s1 where 1: "forM [0..<unat (e_phnum ?eh)] (\<lambda>i. bnd (phdr_at c buf ?eh i) (load_segment h c buf)) s
        = (Inr (), s1)"
      "bnd (elf_sections c buf ?eh) (\<lambda>symbols. ret (e_entry ?eh, symbols)) s1 = (Inr r, s')"
    using assms a by (auto simp: LOAD_ELF_def Let_def elim: andThen_InrE)
  have "pure_prog (bnd (elf_sections c buf ?eh) (\<lambda>symbols. ret (e_entry ?eh, symbols)) :: ('t, _) prog)"
    by (auto intro!: pure_bnd simp del: ret_run)
  then have "bnd (elf_sections c buf ?eh) (\<lambda>symbols. ret (e_entry ?eh, symbols)) t = (Inr r, t)"
    by (rule pure_run [where s = s1]) (rule 1(2))
  then show ?thesis
    using a loaded_segments_check [OF 1(1)] by (simp add: LOAD_ELF_def Let_def andThen_Inr del: forM.simps)
qed

text \<open>
  Two small files to try the loader on: an executable with one loadable segment of four bytes
  followed by four zeros, and one with no segment. Each has one section, its name table.
\<close>

definition tiny_elf :: "u8 list" where
  "tiny_elf =
    [0x7f, 0x45, 0x4c, 0x46, 2, 0, 0, 0, 0, 0, 0, 0, 0, 0, 0, 0, 2, 0, 0xf3, 0, 1, 0, 0, 0, 0, 0, 0,
     0x80, 0, 0, 0, 0, 0x40, 0, 0, 0, 0, 0, 0, 0, 0x78, 0, 0, 0, 0, 0, 0, 0, 0, 0, 0, 0, 0x40, 0, 0x38,
     0, 1, 0, 0x40, 0, 1, 0, 0, 0, 1, 0, 0, 0, 5, 0, 0, 0, 0xb8, 0, 0, 0, 0, 0, 0, 0, 0, 0, 0, 0x80, 0,
     0, 0, 0, 0, 0, 0, 0x80, 0, 0, 0, 0, 4, 0, 0, 0, 0, 0, 0, 0, 8, 0, 0, 0, 0, 0, 0, 0, 4, 0, 0, 0, 0,
     0, 0, 0, 0, 0, 0, 0, 3, 0, 0, 0, 0, 0, 0, 0, 0, 0, 0, 0, 0, 0, 0, 0, 0, 0, 0, 0, 0xbc, 0, 0, 0, 0,
     0, 0, 0, 1, 0, 0, 0, 0, 0, 0, 0, 0, 0, 0, 0, 0, 0, 0, 0, 1, 0, 0, 0, 0, 0, 0, 0, 0, 0, 0, 0, 0, 0,
     0, 0, 0x13, 0, 0, 0, 0]"

definition bare_elf :: "u8 list" where
  "bare_elf =
    [0x7f, 0x45, 0x4c, 0x46, 2, 0, 0, 0, 0, 0, 0, 0, 0, 0, 0, 0, 2, 0, 0xf3, 0, 1, 0, 0, 0, 0, 0, 0,
     0x80, 0, 0, 0, 0, 0x40, 0, 0, 0, 0, 0, 0, 0, 0x40, 0, 0, 0, 0, 0, 0, 0, 0, 0, 0, 0, 0x40, 0, 0x38,
     0, 0, 0, 0x40, 0, 1, 0, 0, 0, 0, 0, 0, 0, 3, 0, 0, 0, 0, 0, 0, 0, 0, 0, 0, 0, 0, 0, 0, 0, 0, 0, 0,
     0, 0x80, 0, 0, 0, 0, 0, 0, 0, 1, 0, 0, 0, 0, 0, 0, 0, 0, 0, 0, 0, 0, 0, 0, 0, 1, 0, 0, 0, 0, 0, 0,
     0, 0, 0, 0, 0, 0, 0, 0, 0, 0]"

lemma bare_header:
  "\<not> IS_ELF32 bare_elf" "IS_ELF64 bare_elf" "bare_elf \<noteq> []" "length bare_elf = 129"
  "e_phoff (ehdr64 bare_elf) = 64" "e_phnum (ehdr64 bare_elf) = 0" "e_shoff (ehdr64 bare_elf) = 64"
  "e_shnum (ehdr64 bare_elf) = 1" "e_shstrndx (ehdr64 bare_elf) = 0" "e_entry (ehdr64 bare_elf) = 0x80000000"
  by (simp_all add: IS_ELF32_def IS_ELF64_def IS_ELF_def bare_elf_def byte_of_def ehdr64_def field_def)

lemma tiny_header:
  "\<not> IS_ELF32 tiny_elf" "IS_ELF64 tiny_elf" "tiny_elf \<noteq> []" "length tiny_elf = 189"
  "e_phoff (ehdr64 tiny_elf) = 64" "e_phnum (ehdr64 tiny_elf) = 1" "e_shoff (ehdr64 tiny_elf) = 120"
  "e_shnum (ehdr64 tiny_elf) = 1" "e_shstrndx (ehdr64 tiny_elf) = 0" "e_entry (ehdr64 tiny_elf) = 0x80000000"
  by (simp_all add: IS_ELF32_def IS_ELF64_def IS_ELF_def tiny_elf_def byte_of_def ehdr64_def field_def)

lemma bare_section: "sh_name (shdr64 (take 64 (drop 64 bare_elf))) = 0"
  "sh_type (shdr64 (take 64 (drop 64 bare_elf))) = 3"
  "sh_offset (shdr64 (take 64 (drop 64 bare_elf))) = 128"
  "sh_size (shdr64 (take 64 (drop 64 bare_elf))) = 1"
  "drop 128 bare_elf = [0]"
  by (simp_all add: bare_elf_def shdr64_def field_def)

lemma tiny_section: "sh_name (shdr64 (take 64 (drop 120 tiny_elf))) = 0"
  "sh_type (shdr64 (take 64 (drop 120 tiny_elf))) = 3"
  "sh_offset (shdr64 (take 64 (drop 120 tiny_elf))) = 188"
  "sh_size (shdr64 (take 64 (drop 120 tiny_elf))) = 1"
  "drop 188 tiny_elf = [0]"
  by (simp_all add: tiny_elf_def shdr64_def field_def)

lemma tiny_segment:
  "phdr64 (take 56 (drop 64 tiny_elf)) = \<lparr>p_type = 1, p_flags = 5, p_offset = 184, p_vaddr = 0x80000000,
     p_paddr = 0x80000000, p_filesz = 4, p_memsz = 8, p_align = 4\<rparr>"
  by (simp add: tiny_elf_def phdr64_def field_def)

lemma bare_elf_loads: "load_elf h (Some bare_elf) s = (Inr (0x80000000, []), s)"
  by (simp add: load_elf_def elf_file_def bare_header LOAD_ELF_def ehdr_of_def elf_sections_def shdr_size_def
      shdr_at_def slice_def shdr_of_def bare_section wide_def scan_section_def name_in_def symbol_table_def SHT_NOBITS_def
      Let_def del: ret_run) simp

lemma tiny_elf_symbols: "load_elf_symbols_only (Some tiny_elf) s = (Inr (0x80000000, []), s)"
  by (simp add: load_elf_symbols_only_def elf_file_def tiny_header LOAD_ELF_def ehdr_of_def elf_sections_def shdr_size_def
      shdr_at_def slice_def shdr_of_def tiny_section wide_def scan_section_def name_in_def symbol_table_def SHT_NOBITS_def
      phdr_at_def phdr_size_def phdr_of_def tiny_segment check_segment_def file_part_ok_def alloc_vec_def
      Let_def del: ret_run) simp

text \<open>
  C20: whenever a file can be loaded, reading its symbols alone gives the same entry point and
  the same symbol map, and it leaves the target as it is.
\<close>

theorem symbols_only_agrees:
  fixes h :: "'t htif_ops" and t :: 't
  assumes "load_elf h file s = (Inr r, s')"
  shows "load_elf_symbols_only file t = (Inr r, t)"
proof (cases "file")
  case (Some buf)
  then show ?thesis
    using assms by (auto simp: load_elf_def load_elf_symbols_only_def elf_file_def assertM_def LOAD_ELF_checks
        split: if_splits)
qed (use assms in \<open>simp add: load_elf_def elf_file_def\<close>)

theorem symbols_only_agrees_witness:
  "load_elf_symbols_only (Some bare_elf) ((\<lambda>_. 0) :: memory) = (Inr (0x80000000, []), \<lambda>_. 0)"
  by (rule symbols_only_agrees [OF bare_elf_loads [of ideal "\<lambda>_. 0"]])

section \<open>The loaded image\<close>

definition class_of :: "u8 list \<Rightarrow> elf_class" where
  "class_of buf = (if IS_ELF32 buf then ELF32 else ELF64)"

definition width :: "elf_class \<Rightarrow> nat" where
  "width c = (case c of ELF32 \<Rightarrow> 32 | ELF64 \<Rightarrow> 64)"

text \<open>The program header \<open>i\<close>, and what its segment does to memory.\<close>

definition program_header :: "u8 list \<Rightarrow> nat \<Rightarrow> elf_phdr" where
  "program_header buf i =
    (let c = class_of buf in
     phdr_of c (take (phdr_size c) (drop (unat (e_phoff (ehdr_of c buf) + of_nat (i * phdr_size c))) buf)))"

definition program_headers :: "u8 list \<Rightarrow> elf_phdr list" where
  "program_headers buf = map (program_header buf) [0..<unat (e_phnum (ehdr_of (class_of buf) buf))]"

definition place :: "u8 list \<Rightarrow> elf_phdr \<Rightarrow> memory \<Rightarrow> memory" where
  "place buf ph m =
    (if PT_LOAD_bytes ph then
       upd_range m (p_vaddr ph) (take (unat (p_filesz ph)) (drop (unat (p_offset ph)) buf)
         @ replicate (unat (p_memsz ph) - unat (p_filesz ph)) 0)
     else m)"

text \<open>A segment that lies in the addresses served, and whose sums do not wrap.\<close>

definition segment_fits :: "elf_class \<Rightarrow> (addr \<Rightarrow> bool) \<Rightarrow> elf_phdr \<Rightarrow> bool" where
  "segment_fits c ok ph \<longleftrightarrow> (PT_LOAD_bytes ph \<longrightarrow>
     unat (p_offset ph) + unat (p_filesz ph) < 2 ^ width c \<and> p_filesz ph \<le> p_memsz ph
     \<and> unat (p_memsz ph) < 2 ^ 63 \<and> 0x80000000 \<le> p_vaddr ph
     \<and> unat (p_vaddr ph) + unat (p_memsz ph) < 2 ^ width c
     \<and> (\<forall>i < unat (p_memsz ph). ok (p_vaddr ph + of_nat i)))"

lemma width_le: "2 ^ width c \<le> (2 ^ 64 :: nat)"
  by (cases c) (simp_all add: width_def)

lemma unat_add_no_wrap: "unat a + unat b < 2 ^ width c \<Longrightarrow> unat (a + b) = unat a + unat (b :: u64)"
  using width_le [of c] by (subst unat_add_lem [symmetric]) simp

lemma wide_id:
  assumes "unat x < 2 ^ width c"
  shows "wide c x = x"
proof (cases c)
  case ELF32
  have "ucast (ucast x :: u32) = take_bit 32 x"
    by (rule bit_word_eqI) (auto simp: bit_simps)
  moreover have "take_bit 32 x = x"
    using assms ELF32 by (simp add: word_unat_eq_iff unsigned_take_bit_eq width_def take_bit_nat_eq_self)
  ultimately show ?thesis
    by (simp add: wide_def ELF32)
qed (simp add: wide_def)

lemma load_segment_run:
  fixes h :: "'t htif_ops" and t0 :: 't
  assumes t: "chunk_target h DMA k iv mem ok" and "iv s" and fit: "segment_fits c ok ph"
    and len: "length buf < 2 ^ 64" and chk: "check_segment c buf ph t0 = (Inr u, t1)"
  shows "\<exists>s'. load_segment h c buf ph s = (Inr (), s') \<and> iv s' \<and> mem s' = place buf ph (mem s)"
proof (cases "PT_LOAD_bytes ph")
  case True
  let ?f = "unat (p_filesz ph)" and ?m = "unat (p_memsz ph)" and ?o = "unat (p_offset ph)"
  let ?bs = "take ?f (drop ?o buf)" and ?z = "replicate (?m - ?f) (0 :: u8)"
  have fits: "?o + ?f < 2 ^ width c" "?f \<le> ?m" "?m < 2 ^ 63" "0x80000000 \<le> p_vaddr ph"
      "unat (p_vaddr ph) + ?m < 2 ^ width c" "\<forall>i < ?m. ok (p_vaddr ph + of_nat i)"
    using fit True by (simp_all add: segment_fits_def word_le_nat_alt)
  have wm: "wide c (p_memsz ph - p_filesz ph) = p_memsz ph - p_filesz ph" "unat (p_memsz ph - p_filesz ph) = ?m - ?f"
    using fits by (simp_all add: wide_id unat_sub word_le_nat_alt)
  have va: "unat (p_vaddr ph + p_filesz ph) = unat (p_vaddr ph) + ?f"
    using fits by (intro unat_add_no_wrap [of _ _ c]) simp
  then have wv: "wide c (p_vaddr ph + p_filesz ph) = p_vaddr ph + p_filesz ph" "0x80000000 \<le> p_vaddr ph + p_filesz ph"
    using fits by (simp_all add: wide_id word_le_nat_alt)
  have fp: "?o + ?f \<le> length buf" if "p_filesz ph \<noteq> 0"
  proof -
    have "file_part_ok c buf ph t0 = (Inr (), t0)"
      using chk True that by (auto simp: check_segment_def file_part_ok_def assertM_def split: if_splits)
    moreover have "wide c (p_offset ph + p_filesz ph) = p_offset ph + p_filesz ph"
        "unat (p_offset ph + p_filesz ph) = ?o + ?f"
      using fits(1) unat_add_no_wrap [OF fits(1)] by (simp_all add: wide_id)
    ultimately show ?thesis
      using len by (simp add: file_part_ok_def assertM_def word_le_nat_alt split: if_splits)
  qed
  obtain s1 where 1: "(if p_filesz ph \<noteq> 0 then
       andThen (file_part_ok c buf ph)
         (bnd (slice buf (p_offset ph) ?f) (\<lambda>bs. memif_write h (p_vaddr ph) bs DMA))
       else ret ()) s = (Inr (), s1)" "iv s1" "mem s1 = upd_range (mem s) (p_vaddr ph) ?bs"
  proof (cases "p_filesz ph = 0")
    case True
    then show ?thesis
      using that [of s] \<open>iv s\<close> by simp
  next
    case False
    obtain s1 where "memif_write h (p_vaddr ph) ?bs DMA s = (Inr (), s1)" "iv s1"
        "mem s1 = upd_range (mem s) (p_vaddr ph) ?bs"
      using chunk_target.memif_write_law [OF t \<open>iv s\<close>, of "p_vaddr ph" ?bs] fits by fastforce
    moreover have "(file_part_ok c buf ph :: ('t, unit) prog) = ret ()"
      using chk True False by (auto simp: check_segment_def file_part_ok_def assertM_def split: if_splits)
    ultimately show ?thesis
      using that [of s1] False fp by (simp add: slice_def)
  qed
  have len_bs: "length ?bs = ?f"
    using fp by (cases "p_filesz ph = 0") simp_all
  obtain s2 where 2: "memif_write h (p_vaddr ph + p_filesz ph) ?z DMA s1 = (Inr (), s2)" "iv s2"
      "mem s2 = upd_range (mem s1) (p_vaddr ph + p_filesz ph) ?z"
  proof -
    have "\<forall>i < length ?z. ok (p_vaddr ph + p_filesz ph + of_nat i)"
    proof safe
      fix i
      assume "i < length ?z"
      then have "ok (p_vaddr ph + of_nat (?f + i))"
        by (intro fits(6) [rule_format]) simp
      then show "ok (p_vaddr ph + p_filesz ph + of_nat i)"
        by (simp add: add.assoc)
    qed
    moreover have "length ?z \<le> 2 ^ 64"
      using fits(3) by simp
    ultimately show ?thesis
      using chunk_target.memif_write_law [OF t 1(2), of "p_vaddr ph + p_filesz ph" ?z] wv(2) that by blast
  qed
  have "mem s2 = place buf ph (mem s)"
    using upd_range_append [of ?bs ?z "mem s" "p_vaddr ph"] fits(2,3) len_bs
    by (simp add: place_def True 2(3) 1(3))
  moreover have "load_segment h c buf ph s
      = bnd (alloc_vec (wide c (p_memsz ph - p_filesz ph))) (\<lambda>zeros.
          memif_write h (wide c (p_vaddr ph + p_filesz ph)) zeros DMA) s1"
    unfolding load_segment_def if_P [OF True] by (rule andThen_Inr) (rule 1(1))
  then have "load_segment h c buf ph s = (Inr (), s2)"
    using 2(1) wm wv fits(3) by (simp add: alloc_vec_ok)
  ultimately show ?thesis
    using 2(2) by blast
qed (use assms in \<open>simp add: load_segment_def place_def\<close>)

lemma phdr_at_Inr:
  fixes t :: 't
  shows "phdr_at (class_of buf) buf (ehdr_of (class_of buf) buf) i t = (Inr ph, t')
    \<Longrightarrow> ph = program_header buf i
      \<and> (phdr_at (class_of buf) buf (ehdr_of (class_of buf) buf) i :: ('t, elf_phdr) prog) = ret ph"
  by (auto simp: phdr_at_def slice_def program_header_def Let_def bnd_def split: if_splits)

lemma load_segments_run:
  fixes h :: "'t htif_ops" and t0 :: 't
  assumes t: "chunk_target h DMA k iv mem ok" and "iv s" and len: "length buf < 2 ^ 64"
    and fit: "\<forall>i \<in> set is. segment_fits (class_of buf) ok (program_header buf i)"
    and chk: "forM is (\<lambda>i. bnd (phdr_at (class_of buf) buf (ehdr_of (class_of buf) buf) i)
        (check_segment (class_of buf) buf)) t0 = (Inr u, t1)"
  shows "\<exists>s'. forM is (\<lambda>i. bnd (phdr_at (class_of buf) buf (ehdr_of (class_of buf) buf) i)
        (load_segment h (class_of buf) buf)) s = (Inr (), s')
    \<and> iv s' \<and> mem s' = fold (place buf) (map (program_header buf) is) (mem s)"
  using \<open>iv s\<close> fit chk
proof (induction "is" arbitrary: s t0)
  case Nil
  then show ?case by auto
next
  case (Cons i "is")
  let ?at = "phdr_at (class_of buf) buf (ehdr_of (class_of buf) buf) i :: ('t, elf_phdr) prog"
  obtain t2 ph t3 where 2: "?at t0 = (Inr ph, t3)" "check_segment (class_of buf) buf ph t3 = (Inr (), t2)"
      "forM is (\<lambda>i. bnd (phdr_at (class_of buf) buf (ehdr_of (class_of buf) buf) i)
        (check_segment (class_of buf) buf)) t2 = (Inr u, t1)"
    using Cons.prems(3) by (auto elim!: andThen_InrE bnd_InrE)
  note ph = phdr_at_Inr [OF 2(1)]
  obtain s1 where 1: "load_segment h (class_of buf) buf ph s = (Inr (), s1)" "iv s1"
      "mem s1 = place buf ph (mem s)"
    using load_segment_run [OF t Cons.prems(1) _ len 2(2)] Cons.prems(2) ph by auto
  obtain s2 where "forM is (\<lambda>i. bnd (phdr_at (class_of buf) buf (ehdr_of (class_of buf) buf) i)
        (load_segment h (class_of buf) buf)) s1 = (Inr (), s2)" "iv s2"
      "mem s2 = fold (place buf) (map (program_header buf) is) (mem s1)"
    using Cons.IH [OF 1(2) _ 2(3)] Cons.prems(2) by auto
  then show ?case
    using 1 ph by (auto simp: andThen_Inr)
qed

text \<open>
  C19: a file whose symbols can be read, and whose segments lie in the addresses the target
  serves, is loaded: the entry point and the symbol map are the same, and target memory becomes
  what placing each segment in turn gives, its bytes from the file followed by zeros.
\<close>

theorem elf_loaded:
  fixes h :: "'t htif_ops"
  assumes "chunk_target h DMA k iv mem ok" and "iv s" and "length buf < 2 ^ 64"
    and "\<forall>ph \<in> set (program_headers buf). segment_fits (class_of buf) ok ph"
    and "load_elf_symbols_only (Some buf) s = (Inr r, t)"
  shows "\<exists>s'. load_elf h (Some buf) s = (Inr r, s') \<and> iv s' \<and> mem s' = fold (place buf) (program_headers buf) (mem s)"
proof -
  let ?c = "class_of buf" and ?eh = "ehdr_of (class_of buf) buf"
  let ?sections = "bnd (elf_sections ?c buf ?eh) (\<lambda>symbols. ret (e_entry ?eh, symbols)) :: ('t, _) prog"
  let ?load = "\<lambda>seg :: elf_class \<Rightarrow> u8 list \<Rightarrow> elf_phdr \<Rightarrow> ('t, unit) prog.
    forM [0..<unat (e_phnum ?eh)] (\<lambda>i. bnd (phdr_at ?c buf ?eh i) (seg ?c buf))"
  have whole: "elf_file seg (Some buf) = andThen (?load seg) ?sections"
      if "elf_file check_segment (Some buf) s = (Inr r, t)"
    for seg :: "elf_class \<Rightarrow> u8 list \<Rightarrow> elf_phdr \<Rightarrow> ('t, unit) prog"
    using that by (auto simp: elf_file_def LOAD_ELF_def Let_def assertM_def class_of_def split: if_splits)
  have chk: "elf_file check_segment (Some buf) s = (Inr r, t)"
    using assms(5) by (simp add: load_elf_symbols_only_def)
  obtain s1 where 1: "?load check_segment s = (Inr (), s1)" "?sections s1 = (Inr r, t)"
    using chk unfolding whole [OF chk] by (auto elim: andThen_InrE)
  obtain s2 where 2: "?load (load_segment h) s = (Inr (), s2)" "iv s2"
      "mem s2 = fold (place buf) (program_headers buf) (mem s)"
    using load_segments_run [OF assms(1,2,3) _ 1(1)] assms(4) by (auto simp: program_headers_def)
  have "pure_prog ?sections"
    by (auto intro!: pure_bnd simp del: ret_run)
  then have "?sections s2 = (Inr r, s2)"
    by (rule pure_run [where s = s1]) (rule 1(2))
  then show ?thesis
    using 2 by (auto simp: load_elf_def whole [OF chk] andThen_Inr)
qed

theorem elf_loaded_witness:
  "\<exists>s'. load_elf ideal (Some tiny_elf) (\<lambda>_. 7) = (Inr (0x80000000, []), s') \<and> True
    \<and> s' = fold (place tiny_elf) (program_headers tiny_elf) (\<lambda>_. 7)"
proof (rule elf_loaded [OF ideal_is_chunk_target _ _ _ tiny_elf_symbols])
  show "\<forall>ph \<in> set (program_headers tiny_elf). segment_fits (class_of tiny_elf) (\<lambda>_. True) ph"
    by (simp add: program_headers_def program_header_def class_of_def tiny_header ehdr_of_def phdr_of_def phdr_size_def
        tiny_segment segment_fits_def width_def)
qed (simp_all add: tiny_header)

section \<open>No access outside the file\<close>

text \<open>The table of section headers and each section lie where their sums do not wrap.\<close>

definition section_header :: "u8 list \<Rightarrow> nat \<Rightarrow> elf_shdr" where
  "section_header buf i =
    (let c = class_of buf in
     shdr_of c (take (shdr_size c) (drop (unat (e_shoff (ehdr_of c buf)) + i * shdr_size c) buf)))"

definition offsets_do_not_wrap :: "u8 list \<Rightarrow> bool" where
  "offsets_do_not_wrap buf \<longleftrightarrow>
    (let c = class_of buf; eh = ehdr_of c buf in
     unat (e_phoff eh) + unat (e_phnum eh) * phdr_size c < 2 ^ 64
     \<and> unat (e_shoff eh) + unat (e_shnum eh) * shdr_size c < 2 ^ 64
     \<and> (\<forall>i < unat (e_shnum eh).
          unat (sh_offset (section_header buf i)) + unat (sh_size (section_header buf i)) < 2 ^ width c))"

text \<open>A section whose bytes are inside the file.\<close>

definition inside :: "u8 list \<Rightarrow> elf_shdr \<Rightarrow> bool" where
  "inside buf sh \<longleftrightarrow> unat (sh_offset sh) + unat (sh_size sh) \<le> length buf"

lemma yields_slice: "unat off + n \<le> length buf \<Longrightarrow> Q (take n (drop (unat off) buf)) \<Longrightarrow> yields (slice buf off n) Q"
  by (simp add: slice_def yields_ret del: ret_run)

lemma table_offset:
  fixes off :: u64
  assumes "unat off + n * sz < 2 ^ 64" and "off + of_nat (n * sz) \<le> of_nat (length buf)"
    and "length buf < 2 ^ 64" and "i < n"
  shows "unat (off + of_nat (i * sz)) = unat off + i * sz" and "unat off + i * sz + sz \<le> length buf"
proof -
  have m: "i * sz + sz \<le> n * sz"
    using \<open>i < n\<close> by (metis Suc_leI add.commute mult_Suc mult_le_mono1)
  have u: "unat (off + of_nat j) = unat off + j" if "j \<le> n * sz" for j :: nat
    using assms(1) that by (subst unat_add_lem [THEN iffD1]) simp_all
  show "unat (off + of_nat (i * sz)) = unat off + i * sz"
    by (rule u) (use m in linarith)
  have "unat off + n * sz \<le> length buf"
    using assms(2,3) u [of "n * sz"] by (simp add: word_le_nat_alt)
  then show "unat off + i * sz + sz \<le> length buf"
    using m by simp
qed

lemma yields_name_in:
  assumes "inside buf tab" and "length buf < 2 ^ 64"
  shows "yields (name_in buf tab name) (\<lambda>_. True)"
  unfolding name_in_def Let_def
proof (rule yields_andThen, rule yields_assertM)
  assume lt: "(ucast name :: u64) < sh_size tab"
  let ?m = "unat (ucast (sh_size tab - ucast name) :: u32)"
    and ?o = "unat (sh_offset tab + ucast name)"
  have "?m \<le> unat (sh_size tab - ucast name)"
    by (simp add: unsigned_ucast_eq take_bit_nat_less_eq_self)
  also have "\<dots> = unat (sh_size tab) - unat (ucast name :: u64)"
    using lt by (simp add: unat_sub order_less_imp_le)
  finally have m: "?m \<le> unat (sh_size tab) - unat (ucast name :: u64)" .
  have o: "?o = unat (sh_offset tab) + unat (ucast name :: u64)"
    using assms lt by (subst unat_add_lem [THEN iffD1]) (simp_all add: inside_def word_less_nat_alt)
  have "length (take ?m (drop ?o buf)) = ?m"
    using assms(1) m o lt by (simp add: inside_def word_less_nat_alt)
  then show "yields (if 0 \<in> set (take ?m (drop ?o buf))
      then ret (string_of (takeWhile (\<lambda>b. b \<noteq> 0) (take ?m (drop ?o buf))))
      else if length (take ?m (drop ?o buf)) < ?m then raise (Undefined ''read outside the ELF image'')
      else raise (Assert_failed ''strnlen < max_len'')) (\<lambda>_. True)"
    by (auto intro!: yields_ret yields_raise simp del: ret_run raise_run)
qed simp

lemma size_pos [simp]: "0 < sym_size c"
  by (cases c) (simp_all add: sym_size_def)

lemma yields_shdr_at:
  assumes "offsets_do_not_wrap buf" and "length buf < 2 ^ 64" and "i < unat (e_shnum (ehdr_of (class_of buf) buf))"
    and "e_shoff (ehdr_of (class_of buf) buf) + of_nat (unat (e_shnum (ehdr_of (class_of buf) buf)) * shdr_size (class_of buf))
      \<le> of_nat (length buf)"
  shows "yields (shdr_at (class_of buf) buf (ehdr_of (class_of buf) buf) i) (\<lambda>sh. sh = section_header buf i)"
  unfolding shdr_at_def
  by (rule yields_bnd [where P = "\<lambda>bs. shdr_of (class_of buf) bs = section_header buf i"], rule yields_slice)
    (use assms table_offset [OF _ assms(4,2,3)] in
      \<open>simp_all add: offsets_do_not_wrap_def section_header_def Let_def yields_ret del: ret_run of_nat_mult\<close>)

lemma no_wrap_inside:
  assumes "unat (sh_offset sh) + unat (sh_size sh) < 2 ^ width c" and "length buf < 2 ^ 64"
    and "wide c (sh_offset sh + sh_size sh) \<le> of_nat (length buf)"
  shows "inside buf sh"
proof -
  have "unat (sh_offset sh + sh_size sh) = unat (sh_offset sh) + unat (sh_size sh)"
    by (rule unat_add_no_wrap [OF assms(1)])
  then show ?thesis
    using assms by (simp add: inside_def wide_id word_le_nat_alt)
qed

text \<open>The index pairs the scan passes on: zero, or a section whose bytes are inside the file.\<close>

definition found_inside :: "u8 list \<Rightarrow> nat \<times> nat \<Rightarrow> bool" where
  "found_inside buf idx \<longleftrightarrow>
    (\<forall>j \<in> {fst idx, snd idx}. j \<noteq> 0 \<longrightarrow>
       j < unat (e_shnum (ehdr_of (class_of buf) buf)) \<and> inside buf (section_header buf j))"

lemma yields_scan_sections:
  assumes "offsets_do_not_wrap buf" and "length buf < 2 ^ 64" and "inside buf shstr"
    and "e_shoff (ehdr_of (class_of buf) buf) + of_nat (unat (e_shnum (ehdr_of (class_of buf) buf)) * shdr_size (class_of buf))
      \<le> of_nat (length buf)"
    and "\<forall>i \<in> set is. i < unat (e_shnum (ehdr_of (class_of buf) buf))" and "found_inside buf idx"
  shows "yields (scan_sections (class_of buf) buf (ehdr_of (class_of buf) buf) shstr is idx) (found_inside buf)"
  using assms(5,6)
proof (induction "is" arbitrary: idx)
  case (Cons i "is")
  have i: "i < unat (e_shnum (ehdr_of (class_of buf) buf))"
    using Cons.prems(1) by simp
  have sum: "unat (sh_offset (section_header buf i)) + unat (sh_size (section_header buf i)) < 2 ^ width (class_of buf)"
    using assms(1) i by (simp add: offsets_do_not_wrap_def Let_def)
  have "yields (scan_section (class_of buf) buf (ehdr_of (class_of buf) buf) shstr i idx) (found_inside buf)"
    unfolding scan_section_def
  proof (rule yields_bnd [OF yields_shdr_at [OF assms(1,2) i assms(4)]],
      rule yields_bnd [OF yields_name_in [OF assms(3,2)]])
    fix sh name
    assume sh: "sh = section_header buf i"
    let ?b = "wide (class_of buf) (sh_offset sh + sh_size sh) \<le> of_nat (length buf)"
    have "yields (andThen (assertM ''size >= sh_offset + sh_size'' ?b)
        (ret (if name = ''.strtab'' then i else fst idx, if name = ''.symtab'' then i else snd idx))) (found_inside buf)"
    proof (rule yields_andThen [where B = ?b], rule yields_assertM, assumption, rule yields_ret)
      assume ?b
      then have "inside buf (section_header buf i)"
        using no_wrap_inside [OF sum assms(2)] sh by simp
      then show "found_inside buf (if name = ''.strtab'' then i else fst idx, if name = ''.symtab'' then i else snd idx)"
        using Cons.prems(2) i by (auto simp: found_inside_def)
    qed
    then show "yields (if sh_type sh AND SHT_NOBITS \<noteq> 0 then ret idx
      else andThen (assertM ''size >= sh_offset + sh_size'' ?b)
        (ret (if name = ''.strtab'' then i else fst idx, if name = ''.symtab'' then i else snd idx))) (found_inside buf)"
      by (intro yields_if yields_ret Cons.prems(2))
  qed
  then show ?case
    using Cons.prems(1) by (auto intro!: yields_bnd Cons.IH)
qed (auto intro: yields_ret simp del: ret_run)

lemma yields_read_symbols:
  assumes "inside buf strtab" and "inside buf symtab" and "length buf < 2 ^ 64"
    and "\<forall>i \<in> set is. i < unat (sh_size symtab) div sym_size c"
  shows "yields (read_symbols c buf strtab (sh_offset symtab) is syms) (\<lambda>_. True)"
  using assms(4)
proof (induction "is" arbitrary: syms)
  case (Cons i "is")
  let ?n = "unat (sh_size symtab) div sym_size c"
  have n: "unat (sh_offset symtab) + ?n * sym_size c \<le> length buf"
    using assms(2) div_times_less_eq_dividend [of "unat (sh_size symtab)" "sym_size c"]
    unfolding inside_def by linarith
  then have "sh_offset symtab + of_nat (?n * sym_size c) \<le> of_nat (length buf)"
    using assms(3) by (subst word_le_nat_alt, subst unat_add_lem [THEN iffD1]) (simp_all del: of_nat_mult)
  then have "unat (sh_offset symtab + of_nat (i * sym_size c)) + sym_size c \<le> length buf"
    using table_offset [of "sh_offset symtab" ?n "sym_size c" buf i] n assms(3) Cons.prems by simp
  then have "yields (sym_at c buf (sh_offset symtab) i) (\<lambda>_. True)"
    unfolding sym_at_def by (auto intro!: yields_bnd [where P = "\<lambda>_. True"] yields_slice yields_ret simp del: ret_run)
  then show ?case
    using Cons by (auto intro!: yields_bnd [where P = "\<lambda>_. True"] yields_name_in assms)
qed (auto intro: yields_ret simp del: ret_run)

lemma yields_elf_sections:
  assumes "offsets_do_not_wrap buf" and "length buf < 2 ^ 64"
  shows "yields (elf_sections (class_of buf) buf (ehdr_of (class_of buf) buf) :: ('t, _) prog) (\<lambda>_. True)"
  unfolding elf_sections_def
proof (rule yields_andThen, rule yields_assertM, assumption,
    rule yields_andThen [where B = "e_shstrndx (ehdr_of (class_of buf) buf) < e_shnum (ehdr_of (class_of buf) buf)"],
    rule yields_assertM, assumption)
  let ?c = "class_of buf" and ?eh = "ehdr_of (class_of buf) buf"
  assume tab: "e_shoff ?eh + of_nat (unat (e_shnum ?eh) * shdr_size ?c) \<le> of_nat (length buf)"
    and "e_shstrndx ?eh < e_shnum ?eh"
  then have ix: "unat (e_shstrndx ?eh) < unat (e_shnum ?eh)"
    by (simp add: word_less_nat_alt)
  have sum: "unat (sh_offset (section_header buf i)) + unat (sh_size (section_header buf i)) < 2 ^ width ?c"
    if "i < unat (e_shnum ?eh)" for i
    using assms(1) that by (simp add: offsets_do_not_wrap_def Let_def)
  have syms: "yields (symbol_table ?c buf ?eh idx :: ('t, _) prog) (\<lambda>_. True)" if "found_inside buf idx" for idx
    unfolding symbol_table_def using that
    by (auto simp: found_inside_def intro!: yields_ret yields_bnd [OF yields_shdr_at [OF assms _ tab]] yields_read_symbols [OF _ _ assms(2)]
        simp del: ret_run)
  show "yields (bnd (shdr_at ?c buf ?eh (unat (e_shstrndx ?eh))) (\<lambda>shstr.
     andThen (assertM ''size >= sh_offset + sh_size'' (wide ?c (sh_offset shstr + sh_size shstr) \<le> of_nat (length buf)))
     (bnd (scan_sections ?c buf ?eh shstr [0..<unat (e_shnum ?eh)] (0, 0)) (\<lambda>idx.
      symbol_table ?c buf ?eh idx))) :: ('t, _) prog) (\<lambda>_. True)"
  proof (rule yields_bnd [OF yields_shdr_at [OF assms ix tab]])
    fix sh
    assume sh: "sh = section_header buf (unat (e_shstrndx ?eh))"
    let ?b = "wide ?c (sh_offset sh + sh_size sh) \<le> of_nat (length buf)"
    have "yields (bnd (scan_sections ?c buf ?eh sh [0..<unat (e_shnum ?eh)] (0, 0)) (\<lambda>idx.
        symbol_table ?c buf ?eh idx) :: ('t, _) prog) (\<lambda>_. True)" if ?b
    proof (rule yields_bnd [OF yields_scan_sections [OF assms _ tab] syms])
      show "inside buf sh"
        using no_wrap_inside [OF sum [OF ix] assms(2)] that sh by simp
    qed (auto simp: found_inside_def)
    then show "yields (andThen (assertM ''size >= sh_offset + sh_size'' ?b)
      (bnd (scan_sections ?c buf ?eh sh [0..<unat (e_shnum ?eh)] (0, 0)) (\<lambda>idx.
        symbol_table ?c buf ?eh idx)) :: ('t, _) prog) (\<lambda>_. True)"
      by (rule yields_andThen [where B = ?b, rotated]) (simp_all add: yields_assertM)
  qed
qed

lemma yields_check_segment: "yields (check_segment c buf ph) (\<lambda>_. True)"
  by (auto simp: check_segment_def file_part_ok_def alloc_vec_def
      intro!: yields_ret yields_raise yields_andThen [where B = True] yields_assertM simp del: ret_run raise_run)

lemma yields_LOAD_ELF:
  assumes "offsets_do_not_wrap buf" and "length buf < 2 ^ 64"
  shows "yields (LOAD_ELF check_segment (class_of buf) buf) (\<lambda>_. True)"
  unfolding LOAD_ELF_def Let_def
proof (rule yields_andThen, rule yields_assertM, assumption, rule yields_andThen)
  let ?c = "class_of buf" and ?eh = "ehdr_of (class_of buf) buf"
  assume tab: "e_phoff ?eh + of_nat (unat (e_phnum ?eh) * phdr_size ?c) \<le> of_nat (length buf)"
  show "yields (forM [0..<unat (e_phnum ?eh)] (\<lambda>i. bnd (phdr_at ?c buf ?eh i) (check_segment ?c buf))) (\<lambda>_. True)"
  proof (rule yields_forM)
    fix i
    assume "i \<in> set [0..<unat (e_phnum ?eh)]"
    then have "yields (phdr_at ?c buf ?eh i) (\<lambda>_. True)"
      using table_offset [OF _ tab assms(2), of i] assms(1)
      by (auto simp: phdr_at_def offsets_do_not_wrap_def Let_def
          intro!: yields_bnd [where P = "\<lambda>_. True"] yields_slice yields_ret simp del: ret_run of_nat_mult)
    then show "yields (bnd (phdr_at ?c buf ?eh i) (check_segment ?c buf)) (\<lambda>_. True)"
      by (rule yields_bnd) (rule yields_check_segment)
  qed
  show "yields (bnd (elf_sections ?c buf ?eh) (\<lambda>symbols. ret (e_entry ?eh, symbols))) (\<lambda>_. True)"
    by (rule yields_bnd [OF yields_elf_sections [OF assms]]) (simp add: yields_ret del: ret_run)
qed

text \<open>
  C21: reading the symbols of a file whose header sums do not wrap never looks outside the
  bytes of the file, whatever else is wrong with it.
\<close>

theorem elf_reads_inside:
  assumes "offsets_do_not_wrap buf" and "length buf < 2 ^ 64"
  shows "fst (load_elf_symbols_only (Some buf) s) \<noteq> Inl (Undefined msg)"
  by (rule yieldsD [where Q = "\<lambda>_. True"])
    (simp add: load_elf_symbols_only_def elf_file_def class_of_def [symmetric] yields_andThen [where B = True]
      yields_assertM yields_LOAD_ELF [OF assms])

theorem elf_reads_inside_witness:
  "\<forall>msg. fst (load_elf_symbols_only (Some tiny_elf) ()) \<noteq> Inl (Undefined msg)"
  by (rule allI, rule elf_reads_inside)
    (simp_all add: offsets_do_not_wrap_def section_header_def class_of_def tiny_header ehdr_of_def shdr_of_def
      shdr_size_def phdr_size_def tiny_section width_def)

text \<open>A header of 64 bytes whose section table starts 64 bytes before the mapping.\<close>

definition wrapping_file :: "u8 list" where
  "wrapping_file =
    [0x7f, 0x45, 0x4c, 0x46, 2, 0, 0, 0, 0, 0, 0, 0, 0, 0, 0, 0, 0, 0, 0, 0, 0, 0, 0, 0, 0, 0, 0, 0, 0,
     0, 0, 0, 0, 0, 0, 0, 0, 0, 0, 0, 0xc0, 0xff, 0xff, 0xff, 0xff, 0xff, 0xff, 0xff, 0, 0, 0, 0, 0, 0,
     0, 0, 0, 0, 0, 0, 1, 0, 0, 0]"



end
