(* ===== verification/Cstring.thy ===== *)
theory Cstring
  imports Host
begin

text \<open>
  The functions of the C and C++ libraries with which the server reads its arguments: the number
  conversions \<open>strtoul\<close>, \<open>strtol\<close>, \<open>atoi\<close>, \<open>std::stoul\<close> and \<open>std::stoll\<close>, substring search, and
  the hexadecimal output format.
\<close>

section \<open>Numbers in text\<close>

definition digit_val :: "char \<Rightarrow> nat option" where
  "digit_val c =
    (let n = of_char c :: nat in
     if 48 \<le> n \<and> n \<le> 57 then Some (n - 48)
     else if 65 \<le> n \<and> n \<le> 90 then Some (n - 55)
     else if 97 \<le> n \<and> n \<le> 122 then Some (n - 87)
     else None)"

definition is_digit :: "nat \<Rightarrow> char \<Rightarrow> bool" where
  "is_digit base c = (case digit_val c of None \<Rightarrow> False | Some d \<Rightarrow> d < base)"

text \<open>The value of the longest prefix of digits, and what follows it.\<close>

fun digits :: "nat \<Rightarrow> nat \<Rightarrow> string \<Rightarrow> nat \<times> string" where
  "digits base acc [] = (acc, [])"
| "digits base acc (c # cs) =
    (if is_digit base c then digits base (acc * base + the (digit_val c)) cs else (acc, c # cs))"

definition is_space :: "char \<Rightarrow> bool" where
  "is_space c \<longleftrightarrow> (let n = of_char c :: nat in n = 32 \<or> (9 \<le> n \<and> n \<le> 13))"

text \<open>A \<open>0x\<close> that a digit follows.\<close>

definition hex_prefix :: "string \<Rightarrow> bool" where
  "hex_prefix s \<longleftrightarrow>
    (case s of c # x # d # _ \<Rightarrow> c = CHR ''0'' \<and> (x = CHR ''x'' \<or> x = CHR ''X'') \<and> is_digit 16 d | _ \<Rightarrow> False)"

definition strto_unsigned :: "nat \<Rightarrow> string \<Rightarrow> (nat \<times> string) option" where
  "strto_unsigned base s =
    (let hex = hex_prefix s \<and> (base = 0 \<or> base = 16);
         b = (if base = 0 then (if hex then 16 else if take 1 s = ''0'' then 8 else 10) else base);
         t = (if hex then drop 2 s else s) in
     case t of [] \<Rightarrow> None | c # _ \<Rightarrow> if is_digit b c then Some (digits b 0 t) else None)"

text \<open>
  The common part of the conversions: white space, a sign, the digits. The result is the sign,
  the value without it, and the rest of the text; \<open>None\<close> when there is no number.
\<close>

definition strto :: "nat \<Rightarrow> string \<Rightarrow> (bool \<times> nat \<times> string) option" where
  "strto base s =
    (let t = dropWhile is_space s; neg = take 1 t = ''-'';
         u = (if neg \<or> take 1 t = ''+'' then drop 1 t else t) in
     map_option (\<lambda>(n, rest). (neg, n, rest)) (strto_unsigned base u))"

text \<open>\<open>strtoul\<close> saturates at the largest value, and negates modulo \<open>2 ^ 64\<close>.\<close>

definition strtoul :: "nat \<Rightarrow> string \<Rightarrow> u64" where
  "strtoul base s =
    (case strto base s of
       None \<Rightarrow> 0
     | Some (neg, n, _) \<Rightarrow> if 2 ^ 64 \<le> n then - 1 else if neg then - of_nat n else of_nat n)"

text \<open>The text \<open>strtoul\<close> leaves unread; all of it when it finds no number.\<close>

definition strto_rest :: "nat \<Rightarrow> string \<Rightarrow> string" where
  "strto_rest base s = (case strto base s of None \<Rightarrow> s | Some (_, _, rest) \<Rightarrow> rest)"

definition strtol :: "nat \<Rightarrow> string \<Rightarrow> int" where
  "strtol base s =
    (case strto base s of
       None \<Rightarrow> 0
     | Some (neg, n, _) \<Rightarrow> if neg then max (- (2 ^ 63)) (- int n) else min (2 ^ 63 - 1) (int n))"

text \<open>\<open>atoi\<close> of the C library used here is \<open>strtol\<close> cut to an \<open>int\<close>.\<close>

definition atoi :: "string \<Rightarrow> int" where
  "atoi s = sint (of_int (strtol 10 s) :: u32)"

text \<open>\<open>std::stoul\<close> and \<open>std::stoll\<close> throw where the C functions are silent.\<close>

definition stoul :: "nat \<Rightarrow> string \<Rightarrow> ('s, u64) prog" where
  "stoul base s =
    (case strto base s of
       None \<Rightarrow> raise (Runtime_error ''invalid_argument: stoul'')
     | Some (_, n, _) \<Rightarrow>
         if 2 ^ 64 \<le> n then raise (Runtime_error ''out_of_range: stoul'') else ret (strtoul base s))"

definition stoll :: "string \<Rightarrow> ('s, int) prog" where
  "stoll s =
    (case strto 10 s of
       None \<Rightarrow> raise (Runtime_error ''invalid_argument: stoll'')
     | Some (neg, n, _) \<Rightarrow>
         if (if neg then 2 ^ 63 < n else 2 ^ 63 \<le> n) then raise (Runtime_error ''out_of_range: stoll'')
         else ret (strtol 10 s))"

section \<open>Searching and printing\<close>

text \<open>\<open>std::string::find\<close> and \<open>strstr\<close>: the first position at which the pattern occurs.\<close>

fun find_from :: "string \<Rightarrow> string \<Rightarrow> nat \<Rightarrow> nat option" where
  "find_from pat [] i = (if pat = [] then Some i else None)"
| "find_from pat (c # cs) i =
    (if take (length pat) (c # cs) = pat then Some i else find_from pat cs (Suc i))"

definition find_sub :: "string \<Rightarrow> string \<Rightarrow> nat option" where
  "find_sub pat s = find_from pat s 0"

definition contains :: "string \<Rightarrow> string \<Rightarrow> bool" where
  "contains pat s \<longleftrightarrow> find_sub pat s \<noteq> None"

definition hex_digit_char :: "nat \<Rightarrow> char" where
  "hex_digit_char n = (if n < 10 then char_of (48 + n) else char_of (87 + n))"

text \<open>\<open>%02x\<close> of a byte, and \<open>%x\<close> of a number.\<close>

definition hex2 :: "u8 \<Rightarrow> string" where
  "hex2 b = [hex_digit_char (unat b div 16), hex_digit_char (unat b mod 16)]"

fun to_hex :: "nat \<Rightarrow> string" where
  "to_hex n = (if n < 16 then [hex_digit_char n] else to_hex (n div 16) @ [hex_digit_char (n mod 16)])"

declare to_hex.simps [simp del]

section \<open>Facts\<close>

lemma digits_to_dec_step: "n < 10 \<Longrightarrow> digit_val (char_of (48 + n)) = Some n"
  by (simp add: digit_val_def)

lemma digits_append:
  "\<forall>c \<in> set xs. is_digit base c \<Longrightarrow> digits base acc (xs @ ys) = digits base (fst (digits base acc xs)) ys"
  by (induction xs arbitrary: acc) simp_all

lemma digits_stop: "ys = [] \<or> \<not> is_digit base (hd ys) \<Longrightarrow> digits base acc ys = (acc, ys)"
  by (cases ys) simp_all

end
