(* ===== verification/Stations.thy ===== *)
theory Stations
  imports Fesvr_Prelude
begin

text \<open>
  The register addresses of the chip that the boot code uses, from the generated headers
  \<open>src/subproj/es1y/rtl_gen/station_*.h\<close>. All of them lie below \<open>0x80000000\<close>.
\<close>

named_theorems station_defs \<open>the values of the register addresses\<close>

definition STATION_BYP_S2B_DDRLS_CLKDIV_HALF_DIV_LESS_1_ADDR :: u64 where [station_defs]:
  "STATION_BYP_S2B_DDRLS_CLKDIV_HALF_DIV_LESS_1_ADDR = 0x1000020"

definition STATION_BYP_S2B_DDRLS_CLKDIV_DIVCLK_SEL_ADDR :: u64 where [station_defs]:
  "STATION_BYP_S2B_DDRLS_CLKDIV_DIVCLK_SEL_ADDR = 0x1000030"

definition STATION_BYP_S2B_DDR_BYPASS_EN_ADDR :: u64 where [station_defs]:
  "STATION_BYP_S2B_DDR_BYPASS_EN_ADDR = 0x1000038"

definition STATION_CACHE_BASE_ADDR_0 :: u64 where [station_defs]:
  "STATION_CACHE_BASE_ADDR_0 = 0xa00000"

definition STATION_CACHE_DBG_VLDRAM_ADDR_0 :: u64 where [station_defs]:
  "STATION_CACHE_DBG_VLDRAM_ADDR_0 = 0xa00000"

definition STATION_CACHE_DBG_VLDRAM_ADDR_1 :: u64 where [station_defs]:
  "STATION_CACHE_DBG_VLDRAM_ADDR_1 = 0xb00000"

definition STATION_CACHE_DBG_VLDRAM_ADDR_2 :: u64 where [station_defs]:
  "STATION_CACHE_DBG_VLDRAM_ADDR_2 = 0xc00000"

definition STATION_CACHE_DBG_VLDRAM_ADDR_3 :: u64 where [station_defs]:
  "STATION_CACHE_DBG_VLDRAM_ADDR_3 = 0xd00000"

definition STATION_CACHE_S2B_CTRL_REG_ADDR_0 :: u64 where [station_defs]:
  "STATION_CACHE_S2B_CTRL_REG_ADDR_0 = 0xac0000"

definition STATION_CACHE_S2B_CTRL_REG_ADDR_1 :: u64 where [station_defs]:
  "STATION_CACHE_S2B_CTRL_REG_ADDR_1 = 0xbc0000"

definition STATION_CACHE_S2B_CTRL_REG_ADDR_2 :: u64 where [station_defs]:
  "STATION_CACHE_S2B_CTRL_REG_ADDR_2 = 0xcc0000"

definition STATION_CACHE_S2B_CTRL_REG_ADDR_3 :: u64 where [station_defs]:
  "STATION_CACHE_S2B_CTRL_REG_ADDR_3 = 0xdc0000"

definition STATION_CACHE_S2B_RSTN_ADDR_0 :: u64 where [station_defs]:
  "STATION_CACHE_S2B_RSTN_ADDR_0 = 0xac0008"

definition STATION_CACHE_S2B_RSTN_ADDR_1 :: u64 where [station_defs]:
  "STATION_CACHE_S2B_RSTN_ADDR_1 = 0xbc0008"

definition STATION_CACHE_S2B_RSTN_ADDR_2 :: u64 where [station_defs]:
  "STATION_CACHE_S2B_RSTN_ADDR_2 = 0xcc0008"

definition STATION_CACHE_S2B_RSTN_ADDR_3 :: u64 where [station_defs]:
  "STATION_CACHE_S2B_RSTN_ADDR_3 = 0xdc0008"

definition STATION_CACHE_S2ICG_CLK_EN_ADDR_0 :: u64 where [station_defs]:
  "STATION_CACHE_S2ICG_CLK_EN_ADDR_0 = 0xac0010"

definition STATION_CACHE_S2ICG_CLK_EN_ADDR_1 :: u64 where [station_defs]:
  "STATION_CACHE_S2ICG_CLK_EN_ADDR_1 = 0xbc0010"

definition STATION_CACHE_S2ICG_CLK_EN_ADDR_2 :: u64 where [station_defs]:
  "STATION_CACHE_S2ICG_CLK_EN_ADDR_2 = 0xcc0010"

definition STATION_CACHE_S2ICG_CLK_EN_ADDR_3 :: u64 where [station_defs]:
  "STATION_CACHE_S2ICG_CLK_EN_ADDR_3 = 0xdc0010"

definition STATION_DDR_TOP_DDR_PHY_ADDR :: u64 where [station_defs]:
  "STATION_DDR_TOP_DDR_PHY_ADDR = 0x1800000"

definition STATION_DDR_TOP_DDR_UCTRL_ADDR :: u64 where [station_defs]:
  "STATION_DDR_TOP_DDR_UCTRL_ADDR = 0x1c00000"

definition STATION_DDR_TOP_B2S_RD_MRR_DATA_ADDR :: u64 where [station_defs]:
  "STATION_DDR_TOP_B2S_RD_MRR_DATA_ADDR = 0x1c20018"

definition STATION_DDR_TOP_S2B_CORE_DDRC_RSTN_ADDR :: u64 where [station_defs]:
  "STATION_DDR_TOP_S2B_CORE_DDRC_RSTN_ADDR = 0x1c20068"

definition STATION_DDR_TOP_S2B_PWR_OK_IN_ADDR :: u64 where [station_defs]:
  "STATION_DDR_TOP_S2B_PWR_OK_IN_ADDR = 0x1c20070"

definition STATION_DDR_TOP_S2B_ARESETN_0_ADDR :: u64 where [station_defs]:
  "STATION_DDR_TOP_S2B_ARESETN_0_ADDR = 0x1c20078"

definition STATION_DDR_TOP_S2B_PRESETN_ADDR :: u64 where [station_defs]:
  "STATION_DDR_TOP_S2B_PRESETN_ADDR = 0x1c20080"

definition STATION_DDR_TOP_S2B_CSYSREQ_DDRC_ADDR :: u64 where [station_defs]:
  "STATION_DDR_TOP_S2B_CSYSREQ_DDRC_ADDR = 0x1c20090"

definition STATION_DDR_TOP_S2B_DFI_RESET_N_IN_ADDR :: u64 where [station_defs]:
  "STATION_DDR_TOP_S2B_DFI_RESET_N_IN_ADDR = 0x1c200a8"

definition STATION_DDR_TOP_S2B_INIT_MR_DONE_IN_ADDR :: u64 where [station_defs]:
  "STATION_DDR_TOP_S2B_INIT_MR_DONE_IN_ADDR = 0x1c200b0"

definition STATION_DDR_TOP_B2S_RD_MRR_DATA_VALID_ADDR :: u64 where [station_defs]:
  "STATION_DDR_TOP_B2S_RD_MRR_DATA_VALID_ADDR = 0x1c200d8"

definition STATION_DMA_BASE_ADDR :: u64 where [station_defs]:
  "STATION_DMA_BASE_ADDR = 0x500000"

definition STATION_DMA_S2B_PLIC_INTR_EN_OFFSET__DEPTH_0 :: u64 where [station_defs]:
  "STATION_DMA_S2B_PLIC_INTR_EN_OFFSET__DEPTH_0 = 0x0"

definition STATION_DMA_S2B_PLIC_INTR_EN_ADDR__DEPTH_0 :: u64 where [station_defs]:
  "STATION_DMA_S2B_PLIC_INTR_EN_ADDR__DEPTH_0 = 0x500000"

definition STATION_DMA_S2B_PLIC_DBG_EN_OFFSET__DEPTH_0 :: u64 where [station_defs]:
  "STATION_DMA_S2B_PLIC_DBG_EN_OFFSET__DEPTH_0 = 0x118"

definition STATION_DMA_S2B_PLIC_DBG_EN_ADDR__DEPTH_0 :: u64 where [station_defs]:
  "STATION_DMA_S2B_PLIC_DBG_EN_ADDR__DEPTH_0 = 0x500118"

definition STATION_DMA_S2B_PLIC_INTR_CORE_ID_OFFSET__DEPTH_0 :: u64 where [station_defs]:
  "STATION_DMA_S2B_PLIC_INTR_CORE_ID_OFFSET__DEPTH_0 = 0x230"

definition STATION_DMA_S2B_PLIC_INTR_CORE_ID_ADDR__DEPTH_0 :: u64 where [station_defs]:
  "STATION_DMA_S2B_PLIC_INTR_CORE_ID_ADDR__DEPTH_0 = 0x500230"

definition STATION_DMA_B2S_PLIC_INTR_SRC_OFFSET__DEPTH_0 :: u64 where [station_defs]:
  "STATION_DMA_B2S_PLIC_INTR_SRC_OFFSET__DEPTH_0 = 0x348"

definition STATION_DMA_S2B_DMA_FLUSH_ADDR_ADDR :: u64 where [station_defs]:
  "STATION_DMA_S2B_DMA_FLUSH_ADDR_ADDR = 0x5004d0"

definition STATION_DMA_S2B_DMA_FLUSH_REQ_TYPE_ADDR :: u64 where [station_defs]:
  "STATION_DMA_S2B_DMA_FLUSH_REQ_TYPE_ADDR = 0x5004d8"

definition STATION_DMA_DMA_FLUSH_CMD_VLD_ADDR :: u64 where [station_defs]:
  "STATION_DMA_DMA_FLUSH_CMD_VLD_ADDR = 0x5005a8"

definition STATION_DT_PRAM_ADDR_ADDR :: u64 where [station_defs]:
  "STATION_DT_PRAM_ADDR_ADDR = 0xe00000"

definition STATION_DT_PRAM_DATA_ADDR :: u64 where [station_defs]:
  "STATION_DT_PRAM_DATA_ADDR = 0xe00400"

definition STATION_DT_ERAM_ADDR_ADDR :: u64 where [station_defs]:
  "STATION_DT_ERAM_ADDR_ADDR = 0xe00800"

definition STATION_DT_ERAM_DATA_ADDR :: u64 where [station_defs]:
  "STATION_DT_ERAM_DATA_ADDR = 0xe00840"

definition STATION_DT_ACTIVATE_ADDR :: u64 where [station_defs]:
  "STATION_DT_ACTIVATE_ADDR = 0xe00880"

definition STATION_DT_MODE_ADDR :: u64 where [station_defs]:
  "STATION_DT_MODE_ADDR = 0xe00888"

definition STATION_DT_ERR_CNT_ADDR :: u64 where [station_defs]:
  "STATION_DT_ERR_CNT_ADDR = 0xe00890"

definition STATION_DT_BUSY_ADDR :: u64 where [station_defs]:
  "STATION_DT_BUSY_ADDR = 0xe00898"

definition STATION_DT_INIT_MSB_ADDR_ADDR :: u64 where [station_defs]:
  "STATION_DT_INIT_MSB_ADDR_ADDR = 0xe008b0"

definition STATION_DT_INIT_MSB_DATA_ADDR :: u64 where [station_defs]:
  "STATION_DT_INIT_MSB_DATA_ADDR = 0xe008b8"

definition STATION_DT_INIT_POLY_ADDR_ADDR :: u64 where [station_defs]:
  "STATION_DT_INIT_POLY_ADDR_ADDR = 0xe008c0"

definition STATION_DT_INIT_POLY_DATA_ADDR :: u64 where [station_defs]:
  "STATION_DT_INIT_POLY_DATA_ADDR = 0xe008c8"

definition STATION_DT_INIT_LFSR_ADDR_ADDR :: u64 where [station_defs]:
  "STATION_DT_INIT_LFSR_ADDR_ADDR = 0xe008d0"

definition STATION_DT_INIT_LFSR_DATA_ADDR :: u64 where [station_defs]:
  "STATION_DT_INIT_LFSR_DATA_ADDR = 0xe008d8"

definition STATION_ORV32_IC_TAG_WAY_0_ADDR :: u64 where [station_defs]:
  "STATION_ORV32_IC_TAG_WAY_0_ADDR = 0x3000"

definition STATION_ORV32_IC_TAG_WAY_1_ADDR :: u64 where [station_defs]:
  "STATION_ORV32_IC_TAG_WAY_1_ADDR = 0x3400"

definition STATION_ORV32_ITB_ADDR :: u64 where [station_defs]:
  "STATION_ORV32_ITB_ADDR = 0x80"

definition STATION_ORV32_S2B_CFG_RST_PC_ADDR :: u64 where [station_defs]:
  "STATION_ORV32_S2B_CFG_RST_PC_ADDR = 0x10"

definition STATION_ORV32_B2S_ITB_LAST_PTR_ADDR :: u64 where [station_defs]:
  "STATION_ORV32_B2S_ITB_LAST_PTR_ADDR = 0x18"

definition STATION_ORV32_S2B_BP_IF_PC_0_ADDR :: u64 where [station_defs]:
  "STATION_ORV32_S2B_BP_IF_PC_0_ADDR = 0x3800"

definition STATION_ORV32_S2B_BP_IF_PC_1_ADDR :: u64 where [station_defs]:
  "STATION_ORV32_S2B_BP_IF_PC_1_ADDR = 0x20"

definition STATION_ORV32_S2B_BP_IF_PC_2_ADDR :: u64 where [station_defs]:
  "STATION_ORV32_S2B_BP_IF_PC_2_ADDR = 0x108"

definition STATION_ORV32_S2B_BP_IF_PC_3_ADDR :: u64 where [station_defs]:
  "STATION_ORV32_S2B_BP_IF_PC_3_ADDR = 0x28"

definition STATION_ORV32_S2B_BP_WB_PC_0_ADDR :: u64 where [station_defs]:
  "STATION_ORV32_S2B_BP_WB_PC_0_ADDR = 0x3808"

definition STATION_ORV32_S2B_BP_WB_PC_1_ADDR :: u64 where [station_defs]:
  "STATION_ORV32_S2B_BP_WB_PC_1_ADDR = 0x30"

definition STATION_ORV32_S2B_BP_WB_PC_2_ADDR :: u64 where [station_defs]:
  "STATION_ORV32_S2B_BP_WB_PC_2_ADDR = 0x110"

definition STATION_ORV32_S2B_BP_WB_PC_3_ADDR :: u64 where [station_defs]:
  "STATION_ORV32_S2B_BP_WB_PC_3_ADDR = 0x38"

definition STATION_ORV32_CS2MA_EXCP_OFFSET :: u64 where [station_defs]:
  "STATION_ORV32_CS2MA_EXCP_OFFSET = 0x120"

definition STATION_ORV32_CS2MA_EXCP_ADDR :: u64 where [station_defs]:
  "STATION_ORV32_CS2MA_EXCP_ADDR = 0x120"

definition STATION_ORV32_IF_PC_ADDR :: u64 where [station_defs]:
  "STATION_ORV32_IF_PC_ADDR = 0x58"

definition STATION_ORV32_WB_PC_ADDR :: u64 where [station_defs]:
  "STATION_ORV32_WB_PC_ADDR = 0x3820"

definition STATION_ORV32_MINSTRET_ADDR :: u64 where [station_defs]:
  "STATION_ORV32_MINSTRET_ADDR = 0x140"

definition STATION_ORV32_HPMCOUNTER_3_OFFSET :: u64 where [station_defs]:
  "STATION_ORV32_HPMCOUNTER_3_OFFSET = 0x150"

definition STATION_ORV32_HPMCOUNTER_3_ADDR :: u64 where [station_defs]:
  "STATION_ORV32_HPMCOUNTER_3_ADDR = 0x150"

definition STATION_ORV32_HPMCOUNTER_9_ADDR :: u64 where [station_defs]:
  "STATION_ORV32_HPMCOUNTER_9_ADDR = 0x168"

definition STATION_ORV32_HPMCOUNTER_10_ADDR :: u64 where [station_defs]:
  "STATION_ORV32_HPMCOUNTER_10_ADDR = 0x3868"

definition STATION_ORV32_S2B_EARLY_RSTN_ADDR :: u64 where [station_defs]:
  "STATION_ORV32_S2B_EARLY_RSTN_ADDR = 0x3870"

definition STATION_ORV32_S2B_RSTN_ADDR :: u64 where [station_defs]:
  "STATION_ORV32_S2B_RSTN_ADDR = 0x178"

definition STATION_ORV32_S2B_EXT_EVENT_ADDR :: u64 where [station_defs]:
  "STATION_ORV32_S2B_EXT_EVENT_ADDR = 0x3880"

definition STATION_ORV32_S2B_DEBUG_STALL_ADDR :: u64 where [station_defs]:
  "STATION_ORV32_S2B_DEBUG_STALL_ADDR = 0x188"

definition STATION_ORV32_B2S_DEBUG_STALL_OUT_ADDR :: u64 where [station_defs]:
  "STATION_ORV32_B2S_DEBUG_STALL_OUT_ADDR = 0x3888"

definition STATION_ORV32_S2B_DEBUG_RESUME_ADDR :: u64 where [station_defs]:
  "STATION_ORV32_S2B_DEBUG_RESUME_ADDR = 0x190"

definition STATION_ORV32_S2B_CFG_ITB_EN_ADDR :: u64 where [station_defs]:
  "STATION_ORV32_S2B_CFG_ITB_EN_ADDR = 0x3890"

definition STATION_ORV32_S2B_CFG_EN_HPMCOUNTER_ADDR :: u64 where [station_defs]:
  "STATION_ORV32_S2B_CFG_EN_HPMCOUNTER_ADDR = 0x3898"

definition STATION_ORV32_S2B_CFG_BYPASS_IC_ADDR :: u64 where [station_defs]:
  "STATION_ORV32_S2B_CFG_BYPASS_IC_ADDR = 0x1a0"

definition STATION_ORV32_S2B_EN_BP_IF_PC_0_ADDR :: u64 where [station_defs]:
  "STATION_ORV32_S2B_EN_BP_IF_PC_0_ADDR = 0x1b0"

definition STATION_ORV32_S2B_EN_BP_IF_PC_1_ADDR :: u64 where [station_defs]:
  "STATION_ORV32_S2B_EN_BP_IF_PC_1_ADDR = 0x38b0"

definition STATION_ORV32_S2B_EN_BP_IF_PC_2_ADDR :: u64 where [station_defs]:
  "STATION_ORV32_S2B_EN_BP_IF_PC_2_ADDR = 0x1b8"

definition STATION_ORV32_S2B_EN_BP_IF_PC_3_ADDR :: u64 where [station_defs]:
  "STATION_ORV32_S2B_EN_BP_IF_PC_3_ADDR = 0x38b8"

definition STATION_ORV32_S2B_EN_BP_WB_PC_0_ADDR :: u64 where [station_defs]:
  "STATION_ORV32_S2B_EN_BP_WB_PC_0_ADDR = 0x1c0"

definition STATION_ORV32_S2B_EN_BP_WB_PC_1_ADDR :: u64 where [station_defs]:
  "STATION_ORV32_S2B_EN_BP_WB_PC_1_ADDR = 0x38c0"

definition STATION_ORV32_S2B_EN_BP_WB_PC_2_ADDR :: u64 where [station_defs]:
  "STATION_ORV32_S2B_EN_BP_WB_PC_2_ADDR = 0x1c8"

definition STATION_ORV32_S2B_EN_BP_WB_PC_3_ADDR :: u64 where [station_defs]:
  "STATION_ORV32_S2B_EN_BP_WB_PC_3_ADDR = 0x38c8"

definition STATION_ORV32_IF_STALL_ADDR :: u64 where [station_defs]:
  "STATION_ORV32_IF_STALL_ADDR = 0x38d8"

definition STATION_ORV32_MA2CS_EXCP_VALID_ADDR :: u64 where [station_defs]:
  "STATION_ORV32_MA2CS_EXCP_VALID_ADDR = 0x3950"

definition STATION_PLL_BASE_ADDR :: u64 where [station_defs]:
  "STATION_PLL_BASE_ADDR = 0x800000"

definition STATION_PLL_SYSTEM_CFG_ADDR :: u64 where [station_defs]:
  "STATION_PLL_SYSTEM_CFG_ADDR = 0x800010"

definition STATION_SDIO_BASE_ADDR :: u64 where [station_defs]:
  "STATION_SDIO_BASE_ADDR = 0x600000"

definition STATION_SDIO_MSHC_CTRL_ADDR :: u64 where [station_defs]:
  "STATION_SDIO_MSHC_CTRL_ADDR = 0x600000"

definition STATION_SDIO_S2B_TEST_IO_CLKDIV_HALF_DIV_LESS_1_ADDR :: u64 where [station_defs]:
  "STATION_SDIO_S2B_TEST_IO_CLKDIV_HALF_DIV_LESS_1_ADDR = 0x601008"

definition STATION_SDIO_S2B_RESETN_ADDR :: u64 where [station_defs]:
  "STATION_SDIO_S2B_RESETN_ADDR = 0x601070"

definition STATION_SDIO_S2ICG_PLLCLK_EN_ADDR :: u64 where [station_defs]:
  "STATION_SDIO_S2ICG_PLLCLK_EN_ADDR = 0x601078"

definition STATION_SLOW_IO_FLASH_ADDR :: u64 where [station_defs]:
  "STATION_SLOW_IO_FLASH_ADDR = 0x1600000"

definition STATION_SLOW_IO_QSPIM_BLOCK_REG_ADDR :: u64 where [station_defs]:
  "STATION_SLOW_IO_QSPIM_BLOCK_REG_ADDR = 0x1400000"

definition STATION_SLOW_IO_SSPIM0_BLOCK_REG_ADDR :: u64 where [station_defs]:
  "STATION_SLOW_IO_SSPIM0_BLOCK_REG_ADDR = 0x1400400"

definition STATION_SLOW_IO_SSPIM1_BLOCK_REG_ADDR :: u64 where [station_defs]:
  "STATION_SLOW_IO_SSPIM1_BLOCK_REG_ADDR = 0x1400800"

definition STATION_SLOW_IO_SSPIM2_BLOCK_REG_ADDR :: u64 where [station_defs]:
  "STATION_SLOW_IO_SSPIM2_BLOCK_REG_ADDR = 0x1400c00"

definition STATION_SLOW_IO_SPIS_BLOCK_REG_ADDR :: u64 where [station_defs]:
  "STATION_SLOW_IO_SPIS_BLOCK_REG_ADDR = 0x1401000"

definition STATION_SLOW_IO_UART0_BLOCK_REG_ADDR :: u64 where [station_defs]:
  "STATION_SLOW_IO_UART0_BLOCK_REG_ADDR = 0x1401400"

definition STATION_SLOW_IO_UART1_BLOCK_REG_ADDR :: u64 where [station_defs]:
  "STATION_SLOW_IO_UART1_BLOCK_REG_ADDR = 0x1401800"

definition STATION_SLOW_IO_UART2_BLOCK_REG_ADDR :: u64 where [station_defs]:
  "STATION_SLOW_IO_UART2_BLOCK_REG_ADDR = 0x1401c00"

definition STATION_SLOW_IO_UART3_BLOCK_REG_ADDR :: u64 where [station_defs]:
  "STATION_SLOW_IO_UART3_BLOCK_REG_ADDR = 0x1402000"

definition STATION_SLOW_IO_I2SM_BLOCK_REG_ADDR :: u64 where [station_defs]:
  "STATION_SLOW_IO_I2SM_BLOCK_REG_ADDR = 0x1402400"

definition STATION_SLOW_IO_I2SS0_BLOCK_REG_ADDR :: u64 where [station_defs]:
  "STATION_SLOW_IO_I2SS0_BLOCK_REG_ADDR = 0x1402800"

definition STATION_SLOW_IO_I2SS1_BLOCK_REG_ADDR :: u64 where [station_defs]:
  "STATION_SLOW_IO_I2SS1_BLOCK_REG_ADDR = 0x1402c00"

definition STATION_SLOW_IO_I2SS2_BLOCK_REG_ADDR :: u64 where [station_defs]:
  "STATION_SLOW_IO_I2SS2_BLOCK_REG_ADDR = 0x1403000"

definition STATION_SLOW_IO_I2SS3_BLOCK_REG_ADDR :: u64 where [station_defs]:
  "STATION_SLOW_IO_I2SS3_BLOCK_REG_ADDR = 0x1403400"

definition STATION_SLOW_IO_I2SS4_BLOCK_REG_ADDR :: u64 where [station_defs]:
  "STATION_SLOW_IO_I2SS4_BLOCK_REG_ADDR = 0x1403800"

definition STATION_SLOW_IO_I2SS5_BLOCK_REG_ADDR :: u64 where [station_defs]:
  "STATION_SLOW_IO_I2SS5_BLOCK_REG_ADDR = 0x1403c00"

definition STATION_SLOW_IO_I2C0_BLOCK_REG_ADDR :: u64 where [station_defs]:
  "STATION_SLOW_IO_I2C0_BLOCK_REG_ADDR = 0x1404000"

definition STATION_SLOW_IO_I2C1_BLOCK_REG_ADDR :: u64 where [station_defs]:
  "STATION_SLOW_IO_I2C1_BLOCK_REG_ADDR = 0x1404400"

definition STATION_SLOW_IO_I2C2_BLOCK_REG_ADDR :: u64 where [station_defs]:
  "STATION_SLOW_IO_I2C2_BLOCK_REG_ADDR = 0x1404800"

definition STATION_SLOW_IO_GPIO_BLOCK_REG_ADDR :: u64 where [station_defs]:
  "STATION_SLOW_IO_GPIO_BLOCK_REG_ADDR = 0x1404c00"

definition STATION_SLOW_IO_RTC_BLOCK_REG_ADDR :: u64 where [station_defs]:
  "STATION_SLOW_IO_RTC_BLOCK_REG_ADDR = 0x1405000"

definition STATION_SLOW_IO_TIMERS_BLOCK_REG_ADDR :: u64 where [station_defs]:
  "STATION_SLOW_IO_TIMERS_BLOCK_REG_ADDR = 0x1405400"

definition STATION_SLOW_IO_WDT_BLOCK_REG_ADDR :: u64 where [station_defs]:
  "STATION_SLOW_IO_WDT_BLOCK_REG_ADDR = 0x1405800"

definition STATION_SLOW_IO_SCU_FUNC_CLKF_ADDR :: u64 where [station_defs]:
  "STATION_SLOW_IO_SCU_FUNC_CLKF_ADDR = 0x1405c40"

definition STATION_SLOW_IO_SCU_FUNC_BWADJ_ADDR :: u64 where [station_defs]:
  "STATION_SLOW_IO_SCU_FUNC_BWADJ_ADDR = 0x1405c48"

definition STATION_SLOW_IO_SCU_FUNC_CLKR_ADDR :: u64 where [station_defs]:
  "STATION_SLOW_IO_SCU_FUNC_CLKR_ADDR = 0x1405c68"

definition STATION_SLOW_IO_SCU_FUNC_CLKOD_ADDR :: u64 where [station_defs]:
  "STATION_SLOW_IO_SCU_FUNC_CLKOD_ADDR = 0x1405c70"

definition STATION_SLOW_IO_SCU_LP_MODE_ADDR :: u64 where [station_defs]:
  "STATION_SLOW_IO_SCU_LP_MODE_ADDR = 0x1405c90"

definition STATION_SLOW_IO_SCU_FUNC_RESET_ADDR :: u64 where [station_defs]:
  "STATION_SLOW_IO_SCU_FUNC_RESET_ADDR = 0x1405e18"

definition STATION_SLOW_IO_SCU_FUNC_INTFB_ADDR :: u64 where [station_defs]:
  "STATION_SLOW_IO_SCU_FUNC_INTFB_ADDR = 0x1405e20"

definition STATION_SLOW_IO_SCU_FUNC_BYPASS_ADDR :: u64 where [station_defs]:
  "STATION_SLOW_IO_SCU_FUNC_BYPASS_ADDR = 0x1405e28"

definition STATION_SLOW_IO_SCU_FUNC_CLK_SEL_ADDR :: u64 where [station_defs]:
  "STATION_SLOW_IO_SCU_FUNC_CLK_SEL_ADDR = 0x1405e40"

definition STATION_SLOW_IO_SCU_FUNC_PROG_DONE_ADDR :: u64 where [station_defs]:
  "STATION_SLOW_IO_SCU_FUNC_PROG_DONE_ADDR = 0x1405e48"

definition STATION_SLOW_IO_S2B_BOOTUP_ENA_ADDR :: u64 where [station_defs]:
  "STATION_SLOW_IO_S2B_BOOTUP_ENA_ADDR = 0x1406060"

definition STATION_SLOW_IO_S2B_BOOTUP_ENA_SW_CTRL_ADDR :: u64 where [station_defs]:
  "STATION_SLOW_IO_S2B_BOOTUP_ENA_SW_CTRL_ADDR = 0x1406068"

definition STATION_SLOW_IO_S2B_BOOT_FROM_FLASH_ENA_ADDR :: u64 where [station_defs]:
  "STATION_SLOW_IO_S2B_BOOT_FROM_FLASH_ENA_ADDR = 0x1406070"

definition STATION_SLOW_IO_S2B_BOOT_FROM_FLASH_ENA_SW_CTRL_ADDR :: u64 where [station_defs]:
  "STATION_SLOW_IO_S2B_BOOT_FROM_FLASH_ENA_SW_CTRL_ADDR = 0x1406078"

definition STATION_USB_TOP_USB3_CFG_ADDR :: u64 where [station_defs]:
  "STATION_USB_TOP_USB3_CFG_ADDR = 0x700000"

definition STATION_USB_TOP_S2B_VCC_RESET_N_ADDR :: u64 where [station_defs]:
  "STATION_USB_TOP_S2B_VCC_RESET_N_ADDR = 0x710128"

definition STATION_VP_BASE_ADDR_0 :: u64 where [station_defs]:
  "STATION_VP_BASE_ADDR_0 = 0x100000"

definition STATION_VP_IC_DATA_WAY_0_ADDR_0 :: u64 where [station_defs]:
  "STATION_VP_IC_DATA_WAY_0_ADDR_0 = 0x101000"

definition STATION_VP_IC_TAG_WAY_0_ADDR_0 :: u64 where [station_defs]:
  "STATION_VP_IC_TAG_WAY_0_ADDR_0 = 0x103000"

definition STATION_VP_IC_TAG_WAY_0_ADDR_1 :: u64 where [station_defs]:
  "STATION_VP_IC_TAG_WAY_0_ADDR_1 = 0x203000"

definition STATION_VP_IC_TAG_WAY_0_ADDR_2 :: u64 where [station_defs]:
  "STATION_VP_IC_TAG_WAY_0_ADDR_2 = 0x303000"

definition STATION_VP_IC_TAG_WAY_0_ADDR_3 :: u64 where [station_defs]:
  "STATION_VP_IC_TAG_WAY_0_ADDR_3 = 0x403000"

definition STATION_VP_IC_TAG_WAY_1_ADDR_0 :: u64 where [station_defs]:
  "STATION_VP_IC_TAG_WAY_1_ADDR_0 = 0x103400"

definition STATION_VP_IC_TAG_WAY_1_ADDR_1 :: u64 where [station_defs]:
  "STATION_VP_IC_TAG_WAY_1_ADDR_1 = 0x203400"

definition STATION_VP_IC_TAG_WAY_1_ADDR_2 :: u64 where [station_defs]:
  "STATION_VP_IC_TAG_WAY_1_ADDR_2 = 0x303400"

definition STATION_VP_IC_TAG_WAY_1_ADDR_3 :: u64 where [station_defs]:
  "STATION_VP_IC_TAG_WAY_1_ADDR_3 = 0x403400"

definition STATION_VP_VCORE_PMU_OFFSET :: u64 where [station_defs]:
  "STATION_VP_VCORE_PMU_OFFSET = 0x10000"

definition STATION_VP_ITB_DATA_OFFSET :: u64 where [station_defs]:
  "STATION_VP_ITB_DATA_OFFSET = 0x5000"

definition STATION_VP_ITB_DATA_ADDR_0 :: u64 where [station_defs]:
  "STATION_VP_ITB_DATA_ADDR_0 = 0x105000"

definition STATION_VP_IBUF_LINE_DATA_ADDR_0__DEPTH_0 :: u64 where [station_defs]:
  "STATION_VP_IBUF_LINE_DATA_ADDR_0__DEPTH_0 = 0x106000"

definition STATION_VP_S2B_CFG_RST_PC_ADDR_0 :: u64 where [station_defs]:
  "STATION_VP_S2B_CFG_RST_PC_ADDR_0 = 0x100000"

definition STATION_VP_S2B_CFG_RST_PC_ADDR_1 :: u64 where [station_defs]:
  "STATION_VP_S2B_CFG_RST_PC_ADDR_1 = 0x200000"

definition STATION_VP_S2B_CFG_RST_PC_ADDR_2 :: u64 where [station_defs]:
  "STATION_VP_S2B_CFG_RST_PC_ADDR_2 = 0x300000"

definition STATION_VP_S2B_CFG_RST_PC_ADDR_3 :: u64 where [station_defs]:
  "STATION_VP_S2B_CFG_RST_PC_ADDR_3 = 0x400000"

definition STATION_VP_B2S_ITB_LAST_PTR_ADDR_0 :: u64 where [station_defs]:
  "STATION_VP_B2S_ITB_LAST_PTR_ADDR_0 = 0x100010"

definition STATION_VP_S2B_BP_IF_PC_0_ADDR_0 :: u64 where [station_defs]:
  "STATION_VP_S2B_BP_IF_PC_0_ADDR_0 = 0x100018"

definition STATION_VP_S2B_BP_IF_PC_0_ADDR_1 :: u64 where [station_defs]:
  "STATION_VP_S2B_BP_IF_PC_0_ADDR_1 = 0x200018"

definition STATION_VP_S2B_BP_IF_PC_0_ADDR_2 :: u64 where [station_defs]:
  "STATION_VP_S2B_BP_IF_PC_0_ADDR_2 = 0x300018"

definition STATION_VP_S2B_BP_IF_PC_0_ADDR_3 :: u64 where [station_defs]:
  "STATION_VP_S2B_BP_IF_PC_0_ADDR_3 = 0x400018"

definition STATION_VP_S2B_BP_IF_PC_1_ADDR_0 :: u64 where [station_defs]:
  "STATION_VP_S2B_BP_IF_PC_1_ADDR_0 = 0x100020"

definition STATION_VP_S2B_BP_IF_PC_1_ADDR_1 :: u64 where [station_defs]:
  "STATION_VP_S2B_BP_IF_PC_1_ADDR_1 = 0x200020"

definition STATION_VP_S2B_BP_IF_PC_1_ADDR_2 :: u64 where [station_defs]:
  "STATION_VP_S2B_BP_IF_PC_1_ADDR_2 = 0x300020"

definition STATION_VP_S2B_BP_IF_PC_1_ADDR_3 :: u64 where [station_defs]:
  "STATION_VP_S2B_BP_IF_PC_1_ADDR_3 = 0x400020"

definition STATION_VP_S2B_BP_IF_PC_2_ADDR_0 :: u64 where [station_defs]:
  "STATION_VP_S2B_BP_IF_PC_2_ADDR_0 = 0x100028"

definition STATION_VP_S2B_BP_IF_PC_2_ADDR_1 :: u64 where [station_defs]:
  "STATION_VP_S2B_BP_IF_PC_2_ADDR_1 = 0x200028"

definition STATION_VP_S2B_BP_IF_PC_2_ADDR_2 :: u64 where [station_defs]:
  "STATION_VP_S2B_BP_IF_PC_2_ADDR_2 = 0x300028"

definition STATION_VP_S2B_BP_IF_PC_2_ADDR_3 :: u64 where [station_defs]:
  "STATION_VP_S2B_BP_IF_PC_2_ADDR_3 = 0x400028"

definition STATION_VP_S2B_BP_IF_PC_3_ADDR_0 :: u64 where [station_defs]:
  "STATION_VP_S2B_BP_IF_PC_3_ADDR_0 = 0x100030"

definition STATION_VP_S2B_BP_IF_PC_3_ADDR_1 :: u64 where [station_defs]:
  "STATION_VP_S2B_BP_IF_PC_3_ADDR_1 = 0x200030"

definition STATION_VP_S2B_BP_IF_PC_3_ADDR_2 :: u64 where [station_defs]:
  "STATION_VP_S2B_BP_IF_PC_3_ADDR_2 = 0x300030"

definition STATION_VP_S2B_BP_IF_PC_3_ADDR_3 :: u64 where [station_defs]:
  "STATION_VP_S2B_BP_IF_PC_3_ADDR_3 = 0x400030"

definition STATION_VP_S2B_BP_WB_PC_0_ADDR_0 :: u64 where [station_defs]:
  "STATION_VP_S2B_BP_WB_PC_0_ADDR_0 = 0x100038"

definition STATION_VP_S2B_BP_WB_PC_0_ADDR_1 :: u64 where [station_defs]:
  "STATION_VP_S2B_BP_WB_PC_0_ADDR_1 = 0x200038"

definition STATION_VP_S2B_BP_WB_PC_0_ADDR_2 :: u64 where [station_defs]:
  "STATION_VP_S2B_BP_WB_PC_0_ADDR_2 = 0x300038"

definition STATION_VP_S2B_BP_WB_PC_0_ADDR_3 :: u64 where [station_defs]:
  "STATION_VP_S2B_BP_WB_PC_0_ADDR_3 = 0x400038"

definition STATION_VP_S2B_BP_WB_PC_1_ADDR_0 :: u64 where [station_defs]:
  "STATION_VP_S2B_BP_WB_PC_1_ADDR_0 = 0x100040"

definition STATION_VP_S2B_BP_WB_PC_1_ADDR_1 :: u64 where [station_defs]:
  "STATION_VP_S2B_BP_WB_PC_1_ADDR_1 = 0x200040"

definition STATION_VP_S2B_BP_WB_PC_1_ADDR_2 :: u64 where [station_defs]:
  "STATION_VP_S2B_BP_WB_PC_1_ADDR_2 = 0x300040"

definition STATION_VP_S2B_BP_WB_PC_1_ADDR_3 :: u64 where [station_defs]:
  "STATION_VP_S2B_BP_WB_PC_1_ADDR_3 = 0x400040"

definition STATION_VP_S2B_BP_WB_PC_2_ADDR_0 :: u64 where [station_defs]:
  "STATION_VP_S2B_BP_WB_PC_2_ADDR_0 = 0x100048"

definition STATION_VP_S2B_BP_WB_PC_2_ADDR_1 :: u64 where [station_defs]:
  "STATION_VP_S2B_BP_WB_PC_2_ADDR_1 = 0x200048"

definition STATION_VP_S2B_BP_WB_PC_2_ADDR_2 :: u64 where [station_defs]:
  "STATION_VP_S2B_BP_WB_PC_2_ADDR_2 = 0x300048"

definition STATION_VP_S2B_BP_WB_PC_2_ADDR_3 :: u64 where [station_defs]:
  "STATION_VP_S2B_BP_WB_PC_2_ADDR_3 = 0x400048"

definition STATION_VP_S2B_BP_WB_PC_3_ADDR_0 :: u64 where [station_defs]:
  "STATION_VP_S2B_BP_WB_PC_3_ADDR_0 = 0x100050"

definition STATION_VP_S2B_BP_WB_PC_3_ADDR_1 :: u64 where [station_defs]:
  "STATION_VP_S2B_BP_WB_PC_3_ADDR_1 = 0x200050"

definition STATION_VP_S2B_BP_WB_PC_3_ADDR_2 :: u64 where [station_defs]:
  "STATION_VP_S2B_BP_WB_PC_3_ADDR_2 = 0x300050"

definition STATION_VP_S2B_BP_WB_PC_3_ADDR_3 :: u64 where [station_defs]:
  "STATION_VP_S2B_BP_WB_PC_3_ADDR_3 = 0x400050"

definition STATION_VP_S2B_BP_INSTRET_ADDR_0 :: u64 where [station_defs]:
  "STATION_VP_S2B_BP_INSTRET_ADDR_0 = 0x100058"

definition STATION_VP_S2B_BP_INSTRET_ADDR_1 :: u64 where [station_defs]:
  "STATION_VP_S2B_BP_INSTRET_ADDR_1 = 0x200058"

definition STATION_VP_S2B_BP_INSTRET_ADDR_2 :: u64 where [station_defs]:
  "STATION_VP_S2B_BP_INSTRET_ADDR_2 = 0x300058"

definition STATION_VP_S2B_BP_INSTRET_ADDR_3 :: u64 where [station_defs]:
  "STATION_VP_S2B_BP_INSTRET_ADDR_3 = 0x400058"

definition STATION_VP_IBUF_LINE_PADDR_ADDR_0__DEPTH_0 :: u64 where [station_defs]:
  "STATION_VP_IBUF_LINE_PADDR_ADDR_0__DEPTH_0 = 0x100060"

definition STATION_VP_IBUF_LINE_EXCP_CAUSE_ADDR_0__DEPTH_1 :: u64 where [station_defs]:
  "STATION_VP_IBUF_LINE_EXCP_CAUSE_ADDR_0__DEPTH_1 = 0x100078"

definition STATION_VP_ITLB_ASID_OFFSET__DEPTH_0 :: u64 where [station_defs]:
  "STATION_VP_ITLB_ASID_OFFSET__DEPTH_0 = 0x80"

definition STATION_VP_ITLB_VPN_OFFSET__DEPTH_0 :: u64 where [station_defs]:
  "STATION_VP_ITLB_VPN_OFFSET__DEPTH_0 = 0xc0"

definition STATION_VP_ITLB_PTE_OFFSET__DEPTH_0 :: u64 where [station_defs]:
  "STATION_VP_ITLB_PTE_OFFSET__DEPTH_0 = 0x100"

definition STATION_VP_DTLB_ASID_OFFSET__DEPTH_0 :: u64 where [station_defs]:
  "STATION_VP_DTLB_ASID_OFFSET__DEPTH_0 = 0x140"

definition STATION_VP_DTLB_VPN_OFFSET__DEPTH_0 :: u64 where [station_defs]:
  "STATION_VP_DTLB_VPN_OFFSET__DEPTH_0 = 0x180"

definition STATION_VP_DTLB_PTE_OFFSET__DEPTH_0 :: u64 where [station_defs]:
  "STATION_VP_DTLB_PTE_OFFSET__DEPTH_0 = 0x1c0"

definition STATION_VP_VTLB_ASID_OFFSET__DEPTH_0 :: u64 where [station_defs]:
  "STATION_VP_VTLB_ASID_OFFSET__DEPTH_0 = 0x200"

definition STATION_VP_VTLB_VPN_OFFSET__DEPTH_0 :: u64 where [station_defs]:
  "STATION_VP_VTLB_VPN_OFFSET__DEPTH_0 = 0x210"

definition STATION_VP_VTLB_PTE_OFFSET__DEPTH_0 :: u64 where [station_defs]:
  "STATION_VP_VTLB_PTE_OFFSET__DEPTH_0 = 0x220"

definition STATION_VP_IF_PC_ADDR_0 :: u64 where [station_defs]:
  "STATION_VP_IF_PC_ADDR_0 = 0x100238"

definition STATION_VP_WB_PC_ADDR_0 :: u64 where [station_defs]:
  "STATION_VP_WB_PC_ADDR_0 = 0x100258"

definition STATION_VP_MINSTRET_ADDR_0 :: u64 where [station_defs]:
  "STATION_VP_MINSTRET_ADDR_0 = 0x1002b0"

definition STATION_VP_MINSTRET_ADDR_1 :: u64 where [station_defs]:
  "STATION_VP_MINSTRET_ADDR_1 = 0x2002b0"

definition STATION_VP_MINSTRET_ADDR_2 :: u64 where [station_defs]:
  "STATION_VP_MINSTRET_ADDR_2 = 0x3002b0"

definition STATION_VP_MINSTRET_ADDR_3 :: u64 where [station_defs]:
  "STATION_VP_MINSTRET_ADDR_3 = 0x4002b0"

definition STATION_VP_HPMCOUNTER_3_OFFSET :: u64 where [station_defs]:
  "STATION_VP_HPMCOUNTER_3_OFFSET = 0x360"

definition STATION_VP_HPMCOUNTER_9_ADDR_0 :: u64 where [station_defs]:
  "STATION_VP_HPMCOUNTER_9_ADDR_0 = 0x100390"

definition STATION_VP_HPMCOUNTER_9_ADDR_1 :: u64 where [station_defs]:
  "STATION_VP_HPMCOUNTER_9_ADDR_1 = 0x200390"

definition STATION_VP_HPMCOUNTER_9_ADDR_2 :: u64 where [station_defs]:
  "STATION_VP_HPMCOUNTER_9_ADDR_2 = 0x300390"

definition STATION_VP_HPMCOUNTER_9_ADDR_3 :: u64 where [station_defs]:
  "STATION_VP_HPMCOUNTER_9_ADDR_3 = 0x400390"

definition STATION_VP_HPMCOUNTER_10_ADDR_0 :: u64 where [station_defs]:
  "STATION_VP_HPMCOUNTER_10_ADDR_0 = 0x100398"

definition STATION_VP_HPMCOUNTER_10_ADDR_1 :: u64 where [station_defs]:
  "STATION_VP_HPMCOUNTER_10_ADDR_1 = 0x200398"

definition STATION_VP_HPMCOUNTER_10_ADDR_2 :: u64 where [station_defs]:
  "STATION_VP_HPMCOUNTER_10_ADDR_2 = 0x300398"

definition STATION_VP_HPMCOUNTER_10_ADDR_3 :: u64 where [station_defs]:
  "STATION_VP_HPMCOUNTER_10_ADDR_3 = 0x400398"

definition STATION_VP_S2B_EARLY_RSTN_ADDR_0 :: u64 where [station_defs]:
  "STATION_VP_S2B_EARLY_RSTN_ADDR_0 = 0x100460"

definition STATION_VP_S2B_EARLY_RSTN_ADDR_1 :: u64 where [station_defs]:
  "STATION_VP_S2B_EARLY_RSTN_ADDR_1 = 0x200460"

definition STATION_VP_S2B_EARLY_RSTN_ADDR_2 :: u64 where [station_defs]:
  "STATION_VP_S2B_EARLY_RSTN_ADDR_2 = 0x300460"

definition STATION_VP_S2B_EARLY_RSTN_ADDR_3 :: u64 where [station_defs]:
  "STATION_VP_S2B_EARLY_RSTN_ADDR_3 = 0x400460"

definition STATION_VP_S2B_RSTN_ADDR_0 :: u64 where [station_defs]:
  "STATION_VP_S2B_RSTN_ADDR_0 = 0x100468"

definition STATION_VP_S2B_RSTN_ADDR_1 :: u64 where [station_defs]:
  "STATION_VP_S2B_RSTN_ADDR_1 = 0x200468"

definition STATION_VP_S2B_RSTN_ADDR_2 :: u64 where [station_defs]:
  "STATION_VP_S2B_RSTN_ADDR_2 = 0x300468"

definition STATION_VP_S2B_RSTN_ADDR_3 :: u64 where [station_defs]:
  "STATION_VP_S2B_RSTN_ADDR_3 = 0x400468"

definition STATION_VP_S2B_EXT_EVENT_ADDR_0 :: u64 where [station_defs]:
  "STATION_VP_S2B_EXT_EVENT_ADDR_0 = 0x100470"

definition STATION_VP_S2B_EXT_EVENT_ADDR_1 :: u64 where [station_defs]:
  "STATION_VP_S2B_EXT_EVENT_ADDR_1 = 0x200470"

definition STATION_VP_S2B_EXT_EVENT_ADDR_2 :: u64 where [station_defs]:
  "STATION_VP_S2B_EXT_EVENT_ADDR_2 = 0x300470"

definition STATION_VP_S2B_EXT_EVENT_ADDR_3 :: u64 where [station_defs]:
  "STATION_VP_S2B_EXT_EVENT_ADDR_3 = 0x400470"

definition STATION_VP_S2B_DEBUG_STALL_ADDR_0 :: u64 where [station_defs]:
  "STATION_VP_S2B_DEBUG_STALL_ADDR_0 = 0x100478"

definition STATION_VP_S2B_DEBUG_STALL_ADDR_1 :: u64 where [station_defs]:
  "STATION_VP_S2B_DEBUG_STALL_ADDR_1 = 0x200478"

definition STATION_VP_S2B_DEBUG_STALL_ADDR_2 :: u64 where [station_defs]:
  "STATION_VP_S2B_DEBUG_STALL_ADDR_2 = 0x300478"

definition STATION_VP_S2B_DEBUG_STALL_ADDR_3 :: u64 where [station_defs]:
  "STATION_VP_S2B_DEBUG_STALL_ADDR_3 = 0x400478"

definition STATION_VP_B2S_DEBUG_STALL_OUT_ADDR_0 :: u64 where [station_defs]:
  "STATION_VP_B2S_DEBUG_STALL_OUT_ADDR_0 = 0x100480"

definition STATION_VP_B2S_DEBUG_STALL_OUT_ADDR_1 :: u64 where [station_defs]:
  "STATION_VP_B2S_DEBUG_STALL_OUT_ADDR_1 = 0x200480"

definition STATION_VP_B2S_DEBUG_STALL_OUT_ADDR_2 :: u64 where [station_defs]:
  "STATION_VP_B2S_DEBUG_STALL_OUT_ADDR_2 = 0x300480"

definition STATION_VP_B2S_DEBUG_STALL_OUT_ADDR_3 :: u64 where [station_defs]:
  "STATION_VP_B2S_DEBUG_STALL_OUT_ADDR_3 = 0x400480"

definition STATION_VP_S2B_DEBUG_RESUME_ADDR_0 :: u64 where [station_defs]:
  "STATION_VP_S2B_DEBUG_RESUME_ADDR_0 = 0x100488"

definition STATION_VP_S2B_DEBUG_RESUME_ADDR_1 :: u64 where [station_defs]:
  "STATION_VP_S2B_DEBUG_RESUME_ADDR_1 = 0x200488"

definition STATION_VP_S2B_DEBUG_RESUME_ADDR_2 :: u64 where [station_defs]:
  "STATION_VP_S2B_DEBUG_RESUME_ADDR_2 = 0x300488"

definition STATION_VP_S2B_DEBUG_RESUME_ADDR_3 :: u64 where [station_defs]:
  "STATION_VP_S2B_DEBUG_RESUME_ADDR_3 = 0x400488"

definition STATION_VP_S2B_CFG_EN_HPMCOUNTER_ADDR_0 :: u64 where [station_defs]:
  "STATION_VP_S2B_CFG_EN_HPMCOUNTER_ADDR_0 = 0x100498"

definition STATION_VP_S2B_CFG_BYPASS_IC_ADDR_0 :: u64 where [station_defs]:
  "STATION_VP_S2B_CFG_BYPASS_IC_ADDR_0 = 0x1004b0"

definition STATION_VP_S2B_CFG_BYPASS_IC_ADDR_1 :: u64 where [station_defs]:
  "STATION_VP_S2B_CFG_BYPASS_IC_ADDR_1 = 0x2004b0"

definition STATION_VP_S2B_CFG_BYPASS_IC_ADDR_2 :: u64 where [station_defs]:
  "STATION_VP_S2B_CFG_BYPASS_IC_ADDR_2 = 0x3004b0"

definition STATION_VP_S2B_CFG_BYPASS_IC_ADDR_3 :: u64 where [station_defs]:
  "STATION_VP_S2B_CFG_BYPASS_IC_ADDR_3 = 0x4004b0"

definition STATION_VP_S2B_CFG_BYPASS_TLB_ADDR_0 :: u64 where [station_defs]:
  "STATION_VP_S2B_CFG_BYPASS_TLB_ADDR_0 = 0x1004b8"

definition STATION_VP_S2B_CFG_BYPASS_TLB_ADDR_1 :: u64 where [station_defs]:
  "STATION_VP_S2B_CFG_BYPASS_TLB_ADDR_1 = 0x2004b8"

definition STATION_VP_S2B_CFG_BYPASS_TLB_ADDR_2 :: u64 where [station_defs]:
  "STATION_VP_S2B_CFG_BYPASS_TLB_ADDR_2 = 0x3004b8"

definition STATION_VP_S2B_CFG_BYPASS_TLB_ADDR_3 :: u64 where [station_defs]:
  "STATION_VP_S2B_CFG_BYPASS_TLB_ADDR_3 = 0x4004b8"

definition STATION_VP_S2B_CFG_ITB_EN_ADDR_0 :: u64 where [station_defs]:
  "STATION_VP_S2B_CFG_ITB_EN_ADDR_0 = 0x1004d0"

definition STATION_VP_S2B_EN_BP_IF_PC_0_ADDR_0 :: u64 where [station_defs]:
  "STATION_VP_S2B_EN_BP_IF_PC_0_ADDR_0 = 0x1004e0"

definition STATION_VP_S2B_EN_BP_IF_PC_0_ADDR_1 :: u64 where [station_defs]:
  "STATION_VP_S2B_EN_BP_IF_PC_0_ADDR_1 = 0x2004e0"

definition STATION_VP_S2B_EN_BP_IF_PC_0_ADDR_2 :: u64 where [station_defs]:
  "STATION_VP_S2B_EN_BP_IF_PC_0_ADDR_2 = 0x3004e0"

definition STATION_VP_S2B_EN_BP_IF_PC_0_ADDR_3 :: u64 where [station_defs]:
  "STATION_VP_S2B_EN_BP_IF_PC_0_ADDR_3 = 0x4004e0"

definition STATION_VP_S2B_EN_BP_IF_PC_1_ADDR_0 :: u64 where [station_defs]:
  "STATION_VP_S2B_EN_BP_IF_PC_1_ADDR_0 = 0x1004e8"

definition STATION_VP_S2B_EN_BP_IF_PC_1_ADDR_1 :: u64 where [station_defs]:
  "STATION_VP_S2B_EN_BP_IF_PC_1_ADDR_1 = 0x2004e8"

definition STATION_VP_S2B_EN_BP_IF_PC_1_ADDR_2 :: u64 where [station_defs]:
  "STATION_VP_S2B_EN_BP_IF_PC_1_ADDR_2 = 0x3004e8"

definition STATION_VP_S2B_EN_BP_IF_PC_1_ADDR_3 :: u64 where [station_defs]:
  "STATION_VP_S2B_EN_BP_IF_PC_1_ADDR_3 = 0x4004e8"

definition STATION_VP_S2B_EN_BP_IF_PC_2_ADDR_0 :: u64 where [station_defs]:
  "STATION_VP_S2B_EN_BP_IF_PC_2_ADDR_0 = 0x1004f0"

definition STATION_VP_S2B_EN_BP_IF_PC_2_ADDR_1 :: u64 where [station_defs]:
  "STATION_VP_S2B_EN_BP_IF_PC_2_ADDR_1 = 0x2004f0"

definition STATION_VP_S2B_EN_BP_IF_PC_2_ADDR_2 :: u64 where [station_defs]:
  "STATION_VP_S2B_EN_BP_IF_PC_2_ADDR_2 = 0x3004f0"

definition STATION_VP_S2B_EN_BP_IF_PC_2_ADDR_3 :: u64 where [station_defs]:
  "STATION_VP_S2B_EN_BP_IF_PC_2_ADDR_3 = 0x4004f0"

definition STATION_VP_S2B_EN_BP_IF_PC_3_ADDR_0 :: u64 where [station_defs]:
  "STATION_VP_S2B_EN_BP_IF_PC_3_ADDR_0 = 0x1004f8"

definition STATION_VP_S2B_EN_BP_IF_PC_3_ADDR_1 :: u64 where [station_defs]:
  "STATION_VP_S2B_EN_BP_IF_PC_3_ADDR_1 = 0x2004f8"

definition STATION_VP_S2B_EN_BP_IF_PC_3_ADDR_2 :: u64 where [station_defs]:
  "STATION_VP_S2B_EN_BP_IF_PC_3_ADDR_2 = 0x3004f8"

definition STATION_VP_S2B_EN_BP_IF_PC_3_ADDR_3 :: u64 where [station_defs]:
  "STATION_VP_S2B_EN_BP_IF_PC_3_ADDR_3 = 0x4004f8"

definition STATION_VP_S2B_EN_BP_WB_PC_0_ADDR_0 :: u64 where [station_defs]:
  "STATION_VP_S2B_EN_BP_WB_PC_0_ADDR_0 = 0x100500"

definition STATION_VP_S2B_EN_BP_WB_PC_0_ADDR_1 :: u64 where [station_defs]:
  "STATION_VP_S2B_EN_BP_WB_PC_0_ADDR_1 = 0x200500"

definition STATION_VP_S2B_EN_BP_WB_PC_0_ADDR_2 :: u64 where [station_defs]:
  "STATION_VP_S2B_EN_BP_WB_PC_0_ADDR_2 = 0x300500"

definition STATION_VP_S2B_EN_BP_WB_PC_0_ADDR_3 :: u64 where [station_defs]:
  "STATION_VP_S2B_EN_BP_WB_PC_0_ADDR_3 = 0x400500"

definition STATION_VP_S2B_EN_BP_WB_PC_1_ADDR_0 :: u64 where [station_defs]:
  "STATION_VP_S2B_EN_BP_WB_PC_1_ADDR_0 = 0x100508"

definition STATION_VP_S2B_EN_BP_WB_PC_1_ADDR_1 :: u64 where [station_defs]:
  "STATION_VP_S2B_EN_BP_WB_PC_1_ADDR_1 = 0x200508"

definition STATION_VP_S2B_EN_BP_WB_PC_1_ADDR_2 :: u64 where [station_defs]:
  "STATION_VP_S2B_EN_BP_WB_PC_1_ADDR_2 = 0x300508"

definition STATION_VP_S2B_EN_BP_WB_PC_1_ADDR_3 :: u64 where [station_defs]:
  "STATION_VP_S2B_EN_BP_WB_PC_1_ADDR_3 = 0x400508"

definition STATION_VP_S2B_EN_BP_WB_PC_2_ADDR_0 :: u64 where [station_defs]:
  "STATION_VP_S2B_EN_BP_WB_PC_2_ADDR_0 = 0x100510"

definition STATION_VP_S2B_EN_BP_WB_PC_2_ADDR_1 :: u64 where [station_defs]:
  "STATION_VP_S2B_EN_BP_WB_PC_2_ADDR_1 = 0x200510"

definition STATION_VP_S2B_EN_BP_WB_PC_2_ADDR_2 :: u64 where [station_defs]:
  "STATION_VP_S2B_EN_BP_WB_PC_2_ADDR_2 = 0x300510"

definition STATION_VP_S2B_EN_BP_WB_PC_2_ADDR_3 :: u64 where [station_defs]:
  "STATION_VP_S2B_EN_BP_WB_PC_2_ADDR_3 = 0x400510"

definition STATION_VP_S2B_EN_BP_WB_PC_3_ADDR_0 :: u64 where [station_defs]:
  "STATION_VP_S2B_EN_BP_WB_PC_3_ADDR_0 = 0x100518"

definition STATION_VP_S2B_EN_BP_WB_PC_3_ADDR_1 :: u64 where [station_defs]:
  "STATION_VP_S2B_EN_BP_WB_PC_3_ADDR_1 = 0x200518"

definition STATION_VP_S2B_EN_BP_WB_PC_3_ADDR_2 :: u64 where [station_defs]:
  "STATION_VP_S2B_EN_BP_WB_PC_3_ADDR_2 = 0x300518"

definition STATION_VP_S2B_EN_BP_WB_PC_3_ADDR_3 :: u64 where [station_defs]:
  "STATION_VP_S2B_EN_BP_WB_PC_3_ADDR_3 = 0x400518"

definition STATION_VP_S2B_EN_BP_INSTRET_ADDR_0 :: u64 where [station_defs]:
  "STATION_VP_S2B_EN_BP_INSTRET_ADDR_0 = 0x100520"

definition STATION_VP_S2B_EN_BP_INSTRET_ADDR_1 :: u64 where [station_defs]:
  "STATION_VP_S2B_EN_BP_INSTRET_ADDR_1 = 0x200520"

definition STATION_VP_S2B_EN_BP_INSTRET_ADDR_2 :: u64 where [station_defs]:
  "STATION_VP_S2B_EN_BP_INSTRET_ADDR_2 = 0x300520"

definition STATION_VP_S2B_EN_BP_INSTRET_ADDR_3 :: u64 where [station_defs]:
  "STATION_VP_S2B_EN_BP_INSTRET_ADDR_3 = 0x400520"

definition STATION_VP_S2B_VCORE_PMU_EN_ADDR_0 :: u64 where [station_defs]:
  "STATION_VP_S2B_VCORE_PMU_EN_ADDR_0 = 0x100710"

end
