(* ===== verification/Htif.thy ===== *)
theory Htif
  imports Device_List Cstring Elfloader Stations
begin

text \<open>
  The front-end server itself, \<open>htif.cc\<close>, \<open>htif.h\<close> and \<open>htif_proj.h\<close>: the state of \<open>htif_t\<close>
  around the server objects, the register accesses \<open>OURSBUS_*\<close>, the reading of the command
  line, the start and stop of a run, and the loop that serves the target until it exits.
\<close>

section \<open>State\<close>

text \<open>
  What the server asks of its host besides the services of \<open>os_ops\<close>: whether a path exists, the
  bytes of a file, \<open>rand()\<close>, and whether a signal has arrived. Files do not change while the
  server runs.
\<close>

record 'e host_ops =
  ho_os :: "'e os_ops"
  ho_access :: "string \<Rightarrow> 'e \<Rightarrow> bool"
  ho_file :: "string \<Rightarrow> 'e \<Rightarrow> u8 list option"
  ho_rand :: "'e \<Rightarrow> int \<times> 'e"
  ho_signal :: "'e \<Rightarrow> bool \<times> 'e"

text \<open>
  The members of \<open>htif_t\<close> that the objects of the server record do not hold; its \<open>symbols\<close> are
  \<open>sv_symbols\<close>. \<open>ht_signature\<close> is what \<open>stop\<close> wrote to the signature file.
\<close>

record ('t, 'e) htif =
  ht_server :: "('t, 'e) server"
  ht_argmap :: "(string \<times> string) list"
  ht_hargs :: "string list"
  ht_entry :: u64
  ht_path :: string
  ht_tohost_addr :: u64
  ht_fromhost_addr :: u64
  ht_program_symbols :: "(string \<times> u64) list"
  ht_symbols_s :: "(string \<times> int) list"
  ht_program_symbols_s :: "(string \<times> int) list"
  ht_addr_to_symbols :: "(int \<times> string) list"
  ht_addr_to_program_symbols :: "(int \<times> string) list"
  ht_sig_file :: string
  ht_sig_addr :: u64
  ht_sig_len :: u64
  ht_signature :: "string option"
  ht_stopped :: bool
  ht_snap_period :: u64
  ht_snap_initial :: u64
  ht_debug_interrupt :: bool
  ht_count :: int

type_synonym ('t, 'e, 'a) hprog = "(('t, 'e) htif, 'a) prog"

text \<open>An operation of the server objects, and one of target memory.\<close>

definition on_server :: "('t, 'e, 'a) sprog \<Rightarrow> ('t, 'e, 'a) hprog" where
  "on_server m s = (case m (ht_server s) of (r, sv) \<Rightarrow> (r, s\<lparr>ht_server := sv\<rparr>))"

definition on_mem :: "('t, 'a) prog \<Rightarrow> ('t, 'e, 'a) hprog" where
  "on_mem m = on_server (on_target m)"

definition host_call :: "('e \<Rightarrow> 'a \<times> 'e) \<Rightarrow> ('t, 'e, 'a) hprog" where
  "host_call f = on_server (on_env f)"

definition ht_write :: "'t htif_ops \<Rightarrow> addr \<Rightarrow> u8 list \<Rightarrow> ('t, 'e, unit) hprog" where
  "ht_write h a bs = on_mem (memif_write h a bs DMA)"

definition ht_read :: "'t htif_ops \<Rightarrow> addr \<Rightarrow> u8 list \<Rightarrow> ('t, 'e, u8 list) hprog" where
  "ht_read h a dst = on_mem (memif_read h a dst DMA)"

text \<open>
  \<open>argmap[key]\<close>. Looking a missing key up inserts it with an empty value, which nothing after the
  constructor can tell from a missing key.
\<close>

definition arg_of :: "('t, 'e) htif \<Rightarrow> string \<Rightarrow> string" where
  "arg_of s k = (case smap_get (ht_argmap s) k of None \<Rightarrow> [] | Some v \<Rightarrow> v)"

definition arg :: "string \<Rightarrow> ('t, 'e, string) hprog" where
  "arg k = getS (\<lambda>s. arg_of s k)"

definition flag :: "string \<Rightarrow> ('t, 'e, bool) hprog" where
  "flag k = getS (\<lambda>s. arg_of s k \<noteq> [])"

section \<open>Register accesses\<close>

definition OURSBUS_WRITE :: "'t htif_ops \<Rightarrow> u64 \<Rightarrow> u64 \<Rightarrow> ('t, 'e, unit) hprog" where
  "OURSBUS_WRITE h a data =
    ht_write h a
      ([ucast data, ucast (drop_bit 8 data), ucast (drop_bit 16 data), ucast (drop_bit 24 data)]
       @ (if 0xffffffff < data
          then [ucast (drop_bit 32 data), ucast (drop_bit 40 data), ucast (drop_bit 48 data), ucast (drop_bit 56 data)]
          else [0, 0, 0, 0]))"

text \<open>The bytes are shifted into the variable from the most significant down.\<close>

definition shift_in :: "u64 \<Rightarrow> u8 list \<Rightarrow> u64" where
  "shift_in data bs = foldl (\<lambda>d b. push_bit 8 d + ucast b) data (rev bs)"

definition OURSBUS_READ :: "'t htif_ops \<Rightarrow> u64 \<Rightarrow> u64 \<Rightarrow> ('t, 'e, u64) hprog" where
  "OURSBUS_READ h a data = bnd (ht_read h a (replicate 8 0)) (\<lambda>bs. ret (shift_in data bs))"

definition OURSBUS_READ_4B :: "'t htif_ops \<Rightarrow> u64 \<Rightarrow> u64 \<Rightarrow> ('t, 'e, u64) hprog" where
  "OURSBUS_READ_4B h a data =
    bnd (ht_read h a (replicate 4 0)) (\<lambda>bs. ret (shift_in data (bs @ replicate 4 0)))"

text \<open>\<open>OURSBUS_CHECK\<close> prints whether the values agree; the value is the outcome here.\<close>

definition OURSBUS_CHECK :: "'t htif_ops \<Rightarrow> u64 \<Rightarrow> u64 \<Rightarrow> ('t, 'e, bool) hprog" where
  "OURSBUS_CHECK h a refdata =
    bnd (ht_read h a (replicate 4 0)) (\<lambda>bs. ret (shift_in 0 (bs @ replicate 4 0) = refdata))"

lemma bus_bytes:
  "[ucast data, ucast (drop_bit 8 data), ucast (drop_bit 16 data), ucast (drop_bit 24 data)]
    @ (if 0xffffffff < data
       then [ucast (drop_bit 32 data), ucast (drop_bit 40 data), ucast (drop_bit 48 data), ucast (drop_bit 56 data)]
       else [0, 0, 0, 0]) = le_bytes 8 (data :: u64)"
proof -
  have "drop_bit (n + 32) data = 0" if "\<not> 0xffffffff < data" for n
  proof -
    have "unat data < 2 ^ 32"
      using that by (simp add: word_less_nat_alt)
    then have "drop_bit 32 data = 0"
      by (simp add: word_unat_eq_iff unat_div drop_bit_eq_div)
    then show ?thesis
      by (simp add: add.commute flip: drop_bit_drop_bit)
  qed
  from this [of 0] this [of 8] this [of 16] this [of 24] show ?thesis
    by (auto simp: numeral_eq_Suc)
qed

lemma OURSBUS_WRITE_bytes: "OURSBUS_WRITE h a data = ht_write h a (le_bytes 8 data)"
  by (simp only: OURSBUS_WRITE_def bus_bytes)

lemma shift_in_OR: "shift_in d bs = push_bit (8 * length bs) d OR le_word bs"
proof (induction bs)
  case (Cons b bs)
  have plus_or: "push_bit 8 x + ucast b = push_bit 8 x OR (ucast b :: u64)" for x :: u64
    by (rule disjunctive_add) (auto simp: bit_simps dest: bit_imp_le_length)
  have "shift_in d (b # bs) = push_bit 8 (shift_in d bs) OR ucast b"
    unfolding plus_or [symmetric] by (simp add: shift_in_def)
  also have "\<dots> = push_bit (8 * length (b # bs)) d OR le_word (b # bs)"
    by (simp add: Cons.IH push_bit_or or.assoc or.commute or.left_commute)
  finally show ?case .
qed (simp add: shift_in_def)

lemma shift_in_8: "length bs = 8 \<Longrightarrow> shift_in d bs = le_word bs"
  by (simp add: shift_in_OR)

text \<open>
  A list of register writes, and the loops that read a register until it has a value. The old
  value of the variable never reaches the result, so the loops read into zero.
\<close>

definition write_regs :: "'t htif_ops \<Rightarrow> (u64 \<times> u64) list \<Rightarrow> ('t, 'e, unit) hprog" where
  "write_regs h ws = forM ws (\<lambda>(a, v). OURSBUS_WRITE h a v)"

definition await_reg :: "'t htif_ops \<Rightarrow> nat \<Rightarrow> u64 \<Rightarrow> (u64 \<Rightarrow> bool) \<Rightarrow> ('t, 'e, unit) hprog" where
  "await_reg h fuel a P = bnd (poll fuel (OURSBUS_READ_4B h a 0) P) (\<lambda>_. ret ())"

section \<open>The command line\<close>

text \<open>
  The keys of \<open>argmap\<close> are inserted with empty values, by the project's constructor first. A key
  that ends in \<open>=\<close> takes the rest of the argument as its value; any other key is its own value.
\<close>

definition htif_keys :: "string list" where
  "htif_keys = [''filename1'', ''filename2'', ''filename3'', ''load_2nd_file'', ''load_3rd_file'', ''proj='', ''vcorelog'']"

definition insert_key :: "string \<Rightarrow> (string \<times> string) list \<Rightarrow> (string \<times> string) list" where
  "insert_key k m = (case smap_get m k of None \<Rightarrow> smap_put k [] m | Some _ \<Rightarrow> m)"

definition initial_argmap :: "string list \<Rightarrow> (string \<times> string) list" where
  "initial_argmap proj_keys = fold insert_key (proj_keys @ htif_keys) []"

text \<open>The first key, in map order, that the argument starts with.\<close>

fun matching_key :: "(string \<times> string) list \<Rightarrow> string \<Rightarrow> string option" where
  "matching_key [] txt = None"
| "matching_key ((k, v) # m) txt = (if k = take (length k) txt then Some k else matching_key m txt)"

definition arg_value :: "string \<Rightarrow> string \<Rightarrow> string \<Rightarrow> string" where
  "arg_value k txt old =
    (if length k = length txt then txt
     else if drop (length k - 1) k = ''='' then drop (length k) txt
     else old)"

text \<open>
  One argument. Without \<open>++\<close> it is passed over; one that no key matches is the next file name, and
  a fourth one is dropped.
\<close>

definition parse_arg :: "string \<Rightarrow> (string \<times> string) list \<times> nat \<Rightarrow> (string \<times> string) list \<times> nat" where
  "parse_arg a st =
    (let (m, j) = st; txt = drop 2 a in
     if 2 < length a \<and> take 2 a = ''++'' then
       (case matching_key m txt of
          Some k \<Rightarrow> (smap_put k (arg_value k txt (the (smap_get m k))) m, j)
        | None \<Rightarrow>
            (if j = 0 then smap_put ''filename1'' txt m
             else if j = 1 then smap_put ''filename2'' txt m
             else if j = 2 then smap_put ''filename3'' txt m
             else m, j + 1))
     else st)"

definition parse_args :: "string list \<Rightarrow> (string \<times> string) list \<Rightarrow> (string \<times> string) list" where
  "parse_args args m = fst (fold parse_arg args (m, 0))"

text \<open>The arguments the target program is given.\<close>

definition target_args :: "(string \<times> string) list \<Rightarrow> string list" where
  "target_args m =
    map (\<lambda>k. case smap_get m k of None \<Rightarrow> [] | Some v \<Rightarrow> v)
      [''filename1'', ''filename2'', ''filename3'', ''load_image='', ''load_weight='']"

text \<open>\<open>snap_period\<close> and \<open>snap_initial\<close>: a number, or zero when the argument is absent.\<close>

definition number_arg :: "string \<Rightarrow> ('t, 'e, u64) hprog" where
  "number_arg k =
    bnd (arg k) (\<lambda>v. if v \<noteq> [] then bnd (stoll v) (\<lambda>n. ret (of_int n)) else ret 0)"

definition read_snap_args :: "('t, 'e, unit) hprog" where
  "read_snap_args =
    bnd (number_arg ''snap_period='') (\<lambda>p.
    andThen (modS (\<lambda>s. s\<lparr>ht_snap_period := p\<rparr>))
    (bnd (number_arg ''snap_initial='') (\<lambda>i. modS (\<lambda>s. s\<lparr>ht_snap_initial := i\<rparr>))))"

section \<open>Start and stop\<close>

text \<open>The project: \<open>htif_proj\<close> with its virtual functions \<open>setup\<close> and \<open>bg\<close>.\<close>

record ('t, 'e) htif_proj =
  proj_setup :: "('t, 'e, unit) hprog"
  proj_bg :: "('t, 'e, unit) hprog"

text \<open>
  Where the program file is: at the path as given, or under the installation's target directory
  when the name has no slash. \<open>prefix\<close> is the compile-time \<open>PREFIX TARGET_DIR\<close>.
\<close>

definition find_file :: "'e host_ops \<Rightarrow> string \<Rightarrow> string \<Rightarrow> string \<Rightarrow> ('t, 'e, string) hprog" where
  "find_file ho prefix old name =
    bnd (getS (\<lambda>s. sv_env (ht_server s))) (\<lambda>e.
    let path = (if ho_access ho name e then name
                else if CHR ''/'' \<notin> set name \<and> ho_access ho (prefix @ name) e then prefix @ name
                else old) in
    if path = [] then raise (Runtime_error (''could not open '' @ name)) else ret path)"

definition load_program :: "'e host_ops \<Rightarrow> string \<Rightarrow> ('t, 'e) htif_proj \<Rightarrow> ('t, 'e, unit) hprog" where
  "load_program ho prefix proj =
    bnd (arg ''filename1'') (\<lambda>f.
    andThen
      (if f \<noteq> [] then
         bnd (getS ht_path) (\<lambda>old. bnd (find_file ho prefix old f) (\<lambda>path. modS (\<lambda>s. s\<lparr>ht_path := path\<rparr>)))
       else ret ())
      (proj_setup proj))"

definition htif_start :: "'t htif_ops \<Rightarrow> 'e host_ops \<Rightarrow> string \<Rightarrow> ('t, 'e) htif_proj \<Rightarrow> ('t, 'e, unit) hprog" where
  "htif_start h ho prefix proj = andThen (load_program ho prefix proj) (on_mem (reset h))"

text \<open>The signature: lines of sixteen bytes, each line most significant byte first.\<close>

fun signature_lines :: "nat \<Rightarrow> u8 list \<Rightarrow> string" where
  "signature_lines 0 bs = []"
| "signature_lines (Suc n) bs = concat (map hex2 (rev (take 16 bs))) @ [CHR 0x0A] @ signature_lines n (drop 16 bs)"

definition htif_stop :: "'t htif_ops \<Rightarrow> ('t, 'e, unit) hprog" where
  "htif_stop h =
    bnd (getS (\<lambda>s. (ht_sig_file s, ht_sig_addr s, ht_sig_len s))) (\<lambda>(file, a, len).
    andThen
      (if file \<noteq> [] \<and> len \<noteq> 0 then
         bnd (alloc_vec len) (\<lambda>buf.
         bnd (ht_read h a buf) (\<lambda>bs.
         andThen (assertM ''sig_len % incr == 0'' (unat len mod 16 = 0))
           (modS (\<lambda>s. s\<lparr>ht_signature := Some (signature_lines (unat len div 16) bs)\<rparr>))))
       else ret ())
      (modS (\<lambda>s. s\<lparr>ht_stopped := True\<rparr>)))"

definition htif_done :: "('t, 'e) htif \<Rightarrow> bool" where
  "htif_done s = ht_stopped s"

section \<open>Weighted choice\<close>

text \<open>
  \<open>weighted_random\<close>, which occurs in both files: the first key at which the running sum of the
  weights reaches the random number. A weight sum of zero divides by zero.
\<close>

fun pick_weighted :: "(int \<times> int) list \<Rightarrow> int \<Rightarrow> int \<Rightarrow> int" where
  "pick_weighted [] wsum rand = 0"
| "pick_weighted ((k, w) # m) wsum rand =
    (if rand \<le> wsum + w then k else pick_weighted m (wsum + w) rand)"

definition weighted_random :: "'e os_ops \<Rightarrow> (int \<times> int) list \<Rightarrow> ('t, 'e, int) hprog" where
  "weighted_random os wmap =
    (let wsum = sum_list (map snd wmap) in
     bnd (host_call (os_random os)) (\<lambda>r.
     if wsum = 0 then raise (Undefined ''division by zero'')
     else ret (pick_weighted wmap 0 (r mod wsum))))"

section \<open>Serving the target\<close>

record run_flags =
  rf_freeze :: bool
  rf_test_bp :: bool
  rf_test_instret :: bool
  rf_background :: bool
  rf_log_step :: bool
  rf_test_bg :: bool

definition run_flags_of :: "('t, 'e) htif \<Rightarrow> run_flags" where
  "run_flags_of s =
    \<lparr>rf_freeze = arg_of s ''freeze'' \<noteq> [], rf_test_bp = arg_of s ''test_bp='' \<noteq> [],
     rf_test_instret = arg_of s ''test_instret='' \<noteq> [], rf_background = arg_of s ''background_traffic'' \<noteq> [],
     rf_log_step = arg_of s ''log_step='' \<noteq> [], rf_test_bg = arg_of s ''test_bg='' \<noteq> []\<rparr>"

text \<open>\<open>bg_cnt\<close> is an \<open>int\<close>.\<close>

definition run_test_bg :: "('t, 'e) htif_proj \<Rightarrow> ('t, 'e, unit) hprog" where
  "run_test_bg proj =
    bnd (arg ''test_bg='') (\<lambda>v. bnd (stoul 10 v) (\<lambda>n.
      forM [0..<nat (sint (ucast n :: u32))] (\<lambda>_. proj_bg proj)))"

definition freeze_core :: "'t htif_ops \<Rightarrow> nat \<Rightarrow> ('t, 'e, unit) hprog" where
  "freeze_core h fuel =
    andThen (on_mem (write_uint64 h STATION_ORV32_S2B_DEBUG_STALL_ADDR 1))
      (bnd (poll fuel (on_mem (read_uint64 h STATION_ORV32_B2S_DEBUG_STALL_OUT_ADDR)) (\<lambda>x. x = 1)) (\<lambda>_. ret ()))"

definition unfreeze_core :: "'t htif_ops \<Rightarrow> ('t, 'e, unit) hprog" where
  "unfreeze_core h =
    andThen (on_mem (write_uint64 h STATION_ORV32_S2B_DEBUG_STALL_ADDR 0))
      (on_mem (write_uint64 h STATION_ORV32_S2B_DEBUG_RESUME_ADDR 1))"

text \<open>
  A stalled core is resumed when two readings of three of its counters agree. On cores 1 to 3 the
  last reading is of the breakpoint enable and lands in the variable of the second instruction
  count; the second reading of the third counter is never made, so an uninitialised local,
  \<open>garbage\<close>, is compared.
\<close>

definition resume_settled :: "'t htif_ops \<Rightarrow> u64 \<Rightarrow> u64 \<Rightarrow> u64 \<Rightarrow> u64 \<Rightarrow> ('t, 'e, unit) hprog" where
  "resume_settled h instret hpm9 hpm10 resume =
    bnd (OURSBUS_READ h instret 0) (\<lambda>i0. bnd (OURSBUS_READ h hpm9 0) (\<lambda>a0. bnd (OURSBUS_READ h hpm10 0) (\<lambda>b0.
    bnd (OURSBUS_READ h instret 0) (\<lambda>i1. bnd (OURSBUS_READ h hpm9 0) (\<lambda>a1. bnd (OURSBUS_READ h hpm10 0) (\<lambda>b1.
    if i0 = i1 \<and> a0 = a1 \<and> b0 = b1 then OURSBUS_WRITE h resume 1 else ret ()))))))"

definition resume_settled_vp ::
    "'t htif_ops \<Rightarrow> u64 \<Rightarrow> u64 \<Rightarrow> u64 \<Rightarrow> u64 \<Rightarrow> u64 \<Rightarrow> u64 \<Rightarrow> ('t, 'e, unit) hprog" where
  "resume_settled_vp h garbage instret hpm9 hpm10 en_bp resume =
    bnd (OURSBUS_READ h instret 0) (\<lambda>i0. bnd (OURSBUS_READ h hpm9 0) (\<lambda>a0. bnd (OURSBUS_READ h hpm10 0) (\<lambda>b0.
    bnd (OURSBUS_READ h instret 0) (\<lambda>i1. bnd (OURSBUS_READ h hpm9 0) (\<lambda>a1. bnd (OURSBUS_READ h en_bp i1) (\<lambda>i1'.
    if i0 = i1' \<and> a0 = a1 \<and> b0 = garbage then OURSBUS_WRITE h resume 1 else ret ()))))))"

definition resume_stalled :: "'t htif_ops \<Rightarrow> u64 \<Rightarrow> ('t, 'e, unit) hprog" where
  "resume_stalled h garbage =
    bnd (OURSBUS_READ h STATION_ORV32_B2S_DEBUG_STALL_OUT_ADDR 0) (\<lambda>orv32.
    bnd (OURSBUS_READ h STATION_VP_B2S_DEBUG_STALL_OUT_ADDR_0 0) (\<lambda>vp0.
    bnd (OURSBUS_READ h STATION_VP_B2S_DEBUG_STALL_OUT_ADDR_1 0) (\<lambda>vp1.
    bnd (OURSBUS_READ h STATION_VP_B2S_DEBUG_STALL_OUT_ADDR_2 0) (\<lambda>vp2.
    bnd (OURSBUS_READ h STATION_VP_B2S_DEBUG_STALL_OUT_ADDR_3 0) (\<lambda>vp3.
    if orv32 = 1 then
      resume_settled h STATION_ORV32_MINSTRET_ADDR STATION_ORV32_HPMCOUNTER_9_ADDR
        STATION_ORV32_HPMCOUNTER_10_ADDR STATION_ORV32_S2B_DEBUG_RESUME_ADDR
    else if vp0 = 1 then
      resume_settled h STATION_VP_MINSTRET_ADDR_0 STATION_VP_HPMCOUNTER_9_ADDR_0
        STATION_VP_HPMCOUNTER_10_ADDR_0 STATION_VP_S2B_DEBUG_RESUME_ADDR_0
    else if vp1 = 1 then
      resume_settled_vp h garbage STATION_VP_MINSTRET_ADDR_1 STATION_VP_HPMCOUNTER_9_ADDR_1
        STATION_VP_HPMCOUNTER_10_ADDR_1 STATION_VP_S2B_EN_BP_INSTRET_ADDR_1 STATION_VP_S2B_DEBUG_RESUME_ADDR_1
    else if vp2 = 1 then
      resume_settled_vp h garbage STATION_VP_MINSTRET_ADDR_2 STATION_VP_HPMCOUNTER_9_ADDR_2
        STATION_VP_HPMCOUNTER_10_ADDR_2 STATION_VP_S2B_EN_BP_INSTRET_ADDR_2 STATION_VP_S2B_DEBUG_RESUME_ADDR_2
    else if vp3 = 1 then
      resume_settled_vp h garbage STATION_VP_MINSTRET_ADDR_3 STATION_VP_HPMCOUNTER_9_ADDR_3
        STATION_VP_HPMCOUNTER_10_ADDR_3 STATION_VP_S2B_EN_BP_INSTRET_ADDR_3 STATION_VP_S2B_DEBUG_RESUME_ADDR_3
    else ret ())))))"

text \<open>
  An idle turn of the loop. The branch that talks to a debugger is not taken: \<open>has_socket\<close> is the
  constant \<open>false\<close>.
\<close>

definition idle_turn ::
    "'t htif_ops \<Rightarrow> 'e host_ops \<Rightarrow> ('t, 'e) htif_proj \<Rightarrow> u64 \<Rightarrow> run_flags \<Rightarrow> ('t, 'e, unit) hprog" where
  "idle_turn h ho proj garbage fl =
    bnd (host_call (ho_rand ho)) (\<lambda>r.
    if r mod 100 < 33 \<and> (rf_test_bp fl \<or> rf_test_instret fl) then resume_stalled h garbage
    else if rf_background fl then proj_bg proj
    else on_mem (idle h))"

definition deliver_fromhost :: "'t htif_ops \<Rightarrow> ('t, 'e, unit) hprog" where
  "deliver_fromhost h =
    bnd (getS (\<lambda>s. (sv_fromhost_queue (ht_server s), ht_fromhost_addr s))) (\<lambda>(q, a).
    if q \<noteq> [] then
      bnd (on_mem (read_uint64 h a)) (\<lambda>v.
      if v = 0 then
        andThen (on_mem (write_uint64 h a (hd q)))
          (on_server (modS (\<lambda>sv. sv\<lparr>sv_fromhost_queue := tl q\<rparr>)))
      else ret ())
    else ret ())"

definition unblock_wfe :: "'t htif_ops \<Rightarrow> run_flags \<Rightarrow> ('t, 'e, unit) hprog" where
  "unblock_wfe h fl =
    bnd (getS (\<lambda>s. sv_exitcode (ht_server s))) (\<lambda>ec.
    if rf_log_step fl \<and> ec = 0 then
      bnd (arg ''log_step='') (\<lambda>mode.
      if mode = ''beak'' then OURSBUS_WRITE h 0x00801000 1
      else if mode = ''orv32'' then OURSBUS_WRITE h STATION_ORV32_S2B_EXT_EVENT_ADDR 1
      else if mode = ''single_vp'' then OURSBUS_WRITE h STATION_VP_S2B_EXT_EVENT_ADDR_0 1
      else write_regs h
        [(STATION_VP_S2B_EXT_EVENT_ADDR_0, 1), (STATION_VP_S2B_EXT_EVENT_ADDR_1, 1),
         (STATION_VP_S2B_EXT_EVENT_ADDR_2, 1), (STATION_VP_S2B_EXT_EVENT_ADDR_3, 1)])
    else ret ())"

text \<open>
  One pass of the loop: a request is taken when two readings of \<open>tohost\<close> agree on a word that is
  not zero; it is cleared before the device sees it. The value is \<open>wfe_flag\<close>, whether a request
  was taken.
\<close>

definition serve_tohost ::
    "'t htif_ops \<Rightarrow> 'e host_ops \<Rightarrow> (syscall \<Rightarrow> reg list \<Rightarrow> ('t, 'e, reg) sprog) \<Rightarrow> ('t, 'e) htif_proj
      \<Rightarrow> u64 \<Rightarrow> run_flags \<Rightarrow> ('t, 'e, bool) hprog" where
  "serve_tohost h ho run proj garbage fl =
    bnd (getS ht_tohost_addr) (\<lambda>a.
    bnd (on_mem (read_uint64 h a)) (\<lambda>tohost.
    bnd (on_mem (read_uint64 h a)) (\<lambda>tohost_1.
    if tohost = tohost_1 \<and> tohost \<noteq> 0 then
      andThen (on_mem (write_uint64 h a 0))
      (andThen (on_server (handle_command h (ho_os ho) run tohost))
      (andThen (if rf_freeze fl then unfreeze_core h else ret ())
      (ret True)))
    else
      andThen (if rf_freeze fl then unfreeze_core h else ret ())
      (andThen (idle_turn h ho proj garbage fl)
      (ret False)))))"

definition run_turn ::
    "'t htif_ops \<Rightarrow> 'e host_ops \<Rightarrow> (syscall \<Rightarrow> reg list \<Rightarrow> ('t, 'e, reg) sprog) \<Rightarrow> ('t, 'e) htif_proj
      \<Rightarrow> u64 \<Rightarrow> nat \<Rightarrow> run_flags \<Rightarrow> ('t, 'e, unit) hprog" where
  "run_turn h ho run proj garbage fuel fl =
    andThen (if rf_test_bg fl then run_test_bg proj else ret ())
    (andThen (if rf_freeze fl then freeze_core h fuel else ret ())
    (bnd (serve_tohost h ho run proj garbage fl) (\<lambda>wfe.
     andThen (on_server (device_list_tick h (ho_os ho)))
     (andThen (deliver_fromhost h)
     (if wfe then unblock_wfe h fl else ret ())))))"

text \<open>The loop ends when a signal has arrived or the exit word is set.\<close>

fun run_loop ::
    "'t htif_ops \<Rightarrow> 'e host_ops \<Rightarrow> (syscall \<Rightarrow> reg list \<Rightarrow> ('t, 'e, reg) sprog) \<Rightarrow> ('t, 'e) htif_proj
      \<Rightarrow> u64 \<Rightarrow> nat \<Rightarrow> run_flags \<Rightarrow> nat \<Rightarrow> ('t, 'e, unit) hprog" where
  "run_loop h ho run proj garbage fuel fl 0 = raise Diverges"
| "run_loop h ho run proj garbage fuel fl (Suc n) =
    bnd (host_call (ho_signal ho)) (\<lambda>sig.
    bnd (getS (\<lambda>s. sv_exitcode (ht_server s))) (\<lambda>ec.
    if \<not> sig \<and> ec = 0
    then andThen (run_turn h ho run proj garbage fuel fl) (run_loop h ho run proj garbage fuel fl n)
    else ret ()))"

text \<open>
  \<open>htif_t::run\<close>. Without a \<open>tohost\<close> address it idles for ever. The performance report at the end
  is left out: its argument is not a key of \<open>argmap\<close> in this project, so it is never printed.
\<close>

definition htif_run ::
    "'t htif_ops \<Rightarrow> 'e host_ops \<Rightarrow> (syscall \<Rightarrow> reg list \<Rightarrow> ('t, 'e, reg) sprog) \<Rightarrow> string \<Rightarrow> ('t, 'e) htif_proj
      \<Rightarrow> u64 \<Rightarrow> nat \<Rightarrow> nat \<Rightarrow> ('t, 'e, int) hprog" where
  "htif_run h ho run prefix proj garbage fuel n =
    andThen (htif_start h ho prefix proj)
    (bnd (getS ht_tohost_addr) (\<lambda>a.
     if a = - 1 then raise Diverges
     else
       bnd (getS run_flags_of) (\<lambda>fl.
       andThen (modS (\<lambda>s. s\<lparr>ht_debug_interrupt := True, ht_count := 1\<rparr>))
       (andThen (run_loop h ho run proj garbage fuel fl n)
       (andThen (htif_stop h)
       (getS (\<lambda>s. exit_code (ht_server s))))))))"

section \<open>Words in target memory\<close>

text \<open>
  A target that serves both the default of \<open>memif_t\<close>, \<open>DMA\<close>, and that of \<open>write_chunk\<close>, \<open>L2\<close>,
  in blocks that divide a word. On it the 64-bit accessors read and write words of memory.
\<close>

definition word_at :: "memory \<Rightarrow> addr \<Rightarrow> u64" where
  "word_at m a = le_word (get_range m a 8)"

definition set_word :: "memory \<Rightarrow> addr \<Rightarrow> u64 \<Rightarrow> memory" where
  "set_word m a v = upd_range m a (le_bytes 8 v)"

definition target_of :: "('t, 'e) htif \<Rightarrow> 't" where
  "target_of s = sv_target (ht_server s)"

definition with_target :: "'t \<Rightarrow> ('t, 'e) htif \<Rightarrow> ('t, 'e) htif" where
  "with_target t s = s\<lparr>ht_server := (ht_server s)\<lparr>sv_target := t\<rparr>\<rparr>"

lemma with_target_simps [simp]:
  "target_of (with_target t s) = t" "with_target t' (with_target t s) = with_target t' s"
  "with_target (target_of s) s = s"
  "ht_server (with_target t s) = (ht_server s)\<lparr>sv_target := t\<rparr>" "ht_argmap (with_target t s) = ht_argmap s"
  "ht_tohost_addr (with_target t s) = ht_tohost_addr s" "ht_fromhost_addr (with_target t s) = ht_fromhost_addr s"
  "arg_of (with_target t s) k = arg_of s k"
  by (simp_all add: target_of_def with_target_def arg_of_def)

lemma on_server_ok: "m (ht_server s) = (Inr x, sv) \<Longrightarrow> on_server m s = (Inr x, s\<lparr>ht_server := sv\<rparr>)"
  by (simp add: on_server_def)

lemma on_mem_ok: "m (target_of s) = (Inr x, t) \<Longrightarrow> on_mem m s = (Inr x, with_target t s)"
  by (simp add: on_mem_def on_server_def on_target_def target_of_def with_target_def)

lemma word_at_set_word [simp]: "word_at (set_word m a v) a = v"
proof -
  have "get_range (upd_range m a (le_bytes 8 v)) a 8 = le_bytes 8 v"
    by (rule get_upd_range_same) simp_all
  then show ?thesis
    by (simp add: word_at_def set_word_def le_word_le_bytes_full)
qed

lemma ht_write_law:
  assumes "chunk_target h DMA k iv mem ok" and "iv (target_of s)"
    and "0x80000000 \<le> a \<or> take_bit k a = 0 \<and> 2 ^ k dvd length bs"
    and "\<forall>i < length bs. ok (a + of_nat i)" and "length bs \<le> 2 ^ 64"
  shows "\<exists>t. ht_write h a bs s = (Inr (), with_target t s) \<and> iv t
    \<and> mem t = upd_range (mem (target_of s)) a bs"
proof -
  obtain t where "memif_write h a bs DMA (target_of s) = (Inr (), t)" "iv t"
      "mem t = upd_range (mem (target_of s)) a bs"
    using chunk_target.memif_write_law [OF assms(1,2,3,4,5)] by blast
  then show ?thesis
    by (auto simp: ht_write_def intro!: exI [of _ t] on_mem_ok)
qed

lemma ht_read_law:
  assumes "chunk_target h DMA k iv mem ok" and "iv (target_of s)"
    and "0x80000000 \<le> a \<or> take_bit k a = 0 \<and> 2 ^ k dvd length dst"
    and "\<forall>i < length dst. ok (a + of_nat i)"
  shows "\<exists>t. ht_read h a dst s = (Inr (get_range (mem (target_of s)) a (length dst)), with_target t s) \<and> iv t
    \<and> mem t = mem (target_of s)"
proof -
  obtain t where "memif_read h a dst DMA (target_of s) = (Inr (get_range (mem (target_of s)) a (length dst)), t)"
      "iv t" "mem t = mem (target_of s)"
    using chunk_target.memif_read_law [OF assms] by blast
  then show ?thesis
    by (auto simp: ht_read_def intro!: exI [of _ t] on_mem_ok)
qed

text \<open>The address of a word the target serves, given the addresses it serves.\<close>

definition word_addr :: "(addr \<Rightarrow> bool) \<Rightarrow> addr \<Rightarrow> bool" where
  "word_addr ok a \<longleftrightarrow> 0x80000000 \<le> a \<and> take_bit 3 a = 0 \<and> (\<forall>i < 8. ok (a + of_nat i))"

text \<open>The next answer is delivered only while the word at \<open>fromhost\<close> is zero, in the order of the queue.\<close>

definition delivered :: "('t \<Rightarrow> bool) \<Rightarrow> ('t \<Rightarrow> memory) \<Rightarrow> ('t, 'e) htif \<Rightarrow> ('t, 'e) htif \<Rightarrow> bool" where
  "delivered iv mem s s' \<longleftrightarrow>
    (\<exists>t. iv t \<and> (case sv_fromhost_queue (ht_server s) of
        [] \<Rightarrow> s' = with_target t s \<and> mem t = mem (target_of s)
      | x # q \<Rightarrow>
          if word_at (mem (target_of s)) (ht_fromhost_addr s) = 0
          then s' = s\<lparr>ht_server := (ht_server s)\<lparr>sv_target := t, sv_fromhost_queue := q\<rparr>\<rparr>
            \<and> mem t = set_word (mem (target_of s)) (ht_fromhost_addr s) x
          else s' = with_target t s \<and> mem t = mem (target_of s)))"

locale word_target =
  dma: chunk_target h DMA k iv mem ok + l2: chunk_target h L2 k iv mem ok
  for h :: "'t htif_ops" and k :: nat and iv :: "'t \<Rightarrow> bool" and mem :: "'t \<Rightarrow> memory" and ok :: "addr \<Rightarrow> bool" +
  assumes word_blocks: "k \<le> 3" and word_fits: "8 \<le> chunk_max_size h"
begin

lemma word_addr_block: "word_addr ok a \<Longrightarrow> take_bit k a = 0"
proof -
  assume "word_addr ok a"
  then have "take_bit k (take_bit 3 a) = 0" by (simp add: word_addr_def)
  then show ?thesis using word_blocks by simp
qed

lemma read_word:
  assumes "iv (target_of s)" and "word_addr ok a"
  shows "\<exists>t. on_mem (read_uint64 h a) s = (Inr (word_at (mem (target_of s)) a), with_target t s)
    \<and> iv t \<and> mem t = mem (target_of s)"
proof -
  have "a AND mask 3 = 0"
    using assms(2) by (simp add: word_addr_def flip: take_bit_eq_mask)
  then have al: "a AND 7 = 0"
    by (simp add: mask_eq_exp_minus_1)
  obtain t where "memif_read h a (uninit h 8) DMA (target_of s) = (Inr (get_range (mem (target_of s)) a 8), t)"
      "iv t" "mem t = mem (target_of s)"
    using dma.memif_read_law [OF assms(1), of a "uninit h 8"] assms(2) by (auto simp: word_addr_def)
  then show ?thesis
    using al by (auto simp: read_uint64_def memif_read_func_def bnd_Inr word_at_def intro!: exI on_mem_ok)
qed

lemma write_word:
  assumes "iv (target_of s)" and "word_addr ok a"
  shows "\<exists>t. on_mem (write_uint64 h a v) s = (Inr (), with_target t s)
    \<and> iv t \<and> mem t = set_word (mem (target_of s)) a v"
proof -
  have "(2::nat) ^ k dvd 8"
    using le_imp_power_dvd [OF word_blocks, of "2 :: nat"] by simp
  then obtain t where "write_chunk h a (le_bytes 8 v) L2 (target_of s) = (Inr (), t)" "iv t"
      "mem t = upd_range (mem (target_of s)) a (le_bytes 8 v)"
    using l2.write_law [OF assms(1) word_addr_block [OF assms(2)], of "le_bytes 8 v"] word_fits assms(2)
    by (auto simp: word_addr_def)
  then show ?thesis
    by (auto simp: write_uint64_def set_word_def intro!: exI on_mem_ok)
qed

lemma deliver_fromhost_law:
  assumes "iv (target_of s)" and "word_addr ok (ht_fromhost_addr s)"
  shows "\<exists>s'. deliver_fromhost h s = (Inr (), s') \<and> delivered iv mem s s'"
proof (cases "sv_fromhost_queue (ht_server s)")
  case Nil
  then show ?thesis
    using assms(1) by (auto simp: deliver_fromhost_def delivered_def bnd_Inr intro!: exI [of _ "target_of s"])
next
  case (Cons x q)
  let ?a = "ht_fromhost_addr s"
  obtain t where t: "on_mem (read_uint64 h ?a) s = (Inr (word_at (mem (target_of s)) ?a), with_target t s)"
      "iv t" "mem t = mem (target_of s)"
    using read_word [OF assms] by blast
  obtain t' where t': "on_mem (write_uint64 h ?a x) (with_target t s) = (Inr (), with_target t' s)"
      "iv t'" "mem t' = set_word (mem t) ?a x"
    using write_word [of "with_target t s" ?a x] t(2) assms(2) by auto
  show ?thesis
    using Cons t t'
    by (auto simp: deliver_fromhost_def delivered_def bnd_Inr andThen_Inr on_server_def modS_def getS_def with_target_def)
qed

lemma serve_request:
  assumes "iv (target_of s)" and "word_addr ok (ht_tohost_addr s)"
    and "word_at (mem (target_of s)) (ht_tohost_addr s) = v" and "v \<noteq> 0" and "\<not> rf_freeze fl"
  shows "\<exists>t. iv t \<and> mem t = set_word (mem (target_of s)) (ht_tohost_addr s) 0
    \<and> serve_tohost h ho run proj garbage fl s
      = andThen (on_server (handle_command h (ho_os ho) run v)) (ret True) (with_target t s)"
proof -
  let ?a = "ht_tohost_addr s"
  obtain t1 where 1: "on_mem (read_uint64 h ?a) s = (Inr v, with_target t1 s)" "iv t1" "mem t1 = mem (target_of s)"
    using read_word [OF assms(1,2)] assms(3) by blast
  obtain t2 where 2: "on_mem (read_uint64 h ?a) (with_target t1 s) = (Inr v, with_target t2 s)" "iv t2" "mem t2 = mem t1"
    using read_word [of "with_target t1 s" ?a] assms(2,3) 1 by auto
  obtain t3 where 3: "on_mem (write_uint64 h ?a 0) (with_target t2 s) = (Inr (), with_target t3 s)"
      "iv t3" "mem t3 = set_word (mem t2) ?a 0"
    using write_word [of "with_target t2 s" ?a 0] assms(2) 2 by auto
  show ?thesis
    using 1 2 3 assms(4,5) by (intro exI [of _ t3]) (simp add: serve_tohost_def bnd_Inr andThen_Inr)
qed

end

lemma ideal_is_word_target: "word_target ideal 3 (\<lambda>_. True) (\<lambda>m. m) (\<lambda>_. True)"
  unfolding word_target_def word_target_axioms_def
  by (simp add: ideal_is_chunk_target) (simp add: ideal_def)

interpretation ideal_words: word_target ideal 3 "\<lambda>_. True" "\<lambda>m. m" "\<lambda>_. True"
  by (rule ideal_is_word_target)

section \<open>Requests and answers\<close>

text \<open>A server to try the loop on: the ideal target and a host on which nothing happens.\<close>

definition null_host :: "unit host_ops" where
  "null_host = \<lparr>ho_os = null_os 0, ho_access = (\<lambda>_ _. False), ho_file = (\<lambda>_ _. None),
    ho_rand = (\<lambda>e. (0, e)), ho_signal = (\<lambda>e. (False, e))\<rparr>"

definition null_proj :: "('t, 'e) htif_proj" where
  "null_proj = \<lparr>proj_setup = ret (), proj_bg = ret ()\<rparr>"

definition htif_on :: "('t, 'e) server \<Rightarrow> u64 \<Rightarrow> u64 \<Rightarrow> ('t, 'e) htif" where
  "htif_on sv th fh = \<lparr>ht_server = sv, ht_argmap = [], ht_hargs = [], ht_entry = 0, ht_path = [],
     ht_tohost_addr = th, ht_fromhost_addr = fh, ht_program_symbols = [], ht_symbols_s = [],
     ht_program_symbols_s = [], ht_addr_to_symbols = [], ht_addr_to_program_symbols = [], ht_sig_file = [],
     ht_sig_addr = 0, ht_sig_len = 0, ht_signature = None, ht_stopped = False, ht_snap_period = 0,
     ht_snap_initial = 0, ht_debug_interrupt = True, ht_count = 0\<rparr>"

definition quiet_flags :: run_flags where
  "quiet_flags = \<lparr>rf_freeze = False, rf_test_bp = False, rf_test_instret = False, rf_background = False,
     rf_log_step = False, rf_test_bg = False\<rparr>"

text \<open>Memory with one word, and a server whose answers are the given words.\<close>

definition one_word :: "addr \<Rightarrow> u64 \<Rightarrow> memory" where
  "one_word a v = set_word (\<lambda>_. 0) a v"

definition answering :: "reg list \<Rightarrow> memory \<Rightarrow> (memory, unit) htif" where
  "answering q m = htif_on ((server_on m ())\<lparr>sv_fromhost_queue := q\<rparr>) 0x80001000 0x80001040"

lemma word_at_one_word [simp]: "word_at (one_word a v) a = v"
  by (simp add: one_word_def)

lemma answering_simps [simp]:
  "target_of (answering q m) = m" "ht_tohost_addr (answering q m) = 0x80001000"
  "ht_fromhost_addr (answering q m) = 0x80001040" "sv_fromhost_queue (ht_server (answering q m)) = q"
  by (simp_all add: answering_def htif_on_def target_of_def server_on_def)

lemma answering_addrs [simp]: "word_addr (\<lambda>_. True) 0x80001000" "word_addr (\<lambda>_. True) 0x80001040"
  by (simp_all add: word_addr_def)

text \<open>
  C23: a request is handled exactly once. When the word at \<open>tohost\<close> is not zero, a pass of the loop
  clears it and then handles that word, so the next pass does not see it again; whatever the handler
  does, it starts from memory in which only \<open>tohost\<close> has changed.
\<close>

theorem request_is_taken:
  assumes "word_target h k iv mem ok" and "iv (target_of s)" and "word_addr ok (ht_tohost_addr s)"
    and "word_at (mem (target_of s)) (ht_tohost_addr s) \<noteq> 0" and "\<not> rf_freeze fl"
  shows "\<exists>t. iv t \<and> mem t = set_word (mem (target_of s)) (ht_tohost_addr s) 0
    \<and> serve_tohost h ho run proj garbage fl s
      = andThen (on_server (handle_command h (ho_os ho) run (word_at (mem (target_of s)) (ht_tohost_addr s))))
          (ret True) (with_target t s)"
  by (rule word_target.serve_request [OF assms(1,2,3) refl assms(4,5)])

theorem request_is_taken_witness:
  "\<exists>t. True \<and> t = set_word (one_word 0x80001000 7) 0x80001000 0
    \<and> serve_tohost ideal null_host (\<lambda>_ _. ret 0) null_proj 0 quiet_flags (answering [] (one_word 0x80001000 7))
      = andThen (on_server (handle_command ideal (ho_os null_host) (\<lambda>_ _. ret 0) 7)) (ret True)
          (with_target t (answering [] (one_word 0x80001000 7)))"
  using request_is_taken [OF ideal_is_word_target, of "answering [] (one_word 0x80001000 7)" quiet_flags null_host
      "\<lambda>_ _. ret 0" null_proj 0]
  by (simp add: quiet_flags_def)

text \<open>
  C24: answers reach the target in order and none is lost: one is written to \<open>fromhost\<close> only when
  the word there is zero, and it leaves the queue exactly then; otherwise neither the queue nor
  memory changes.
\<close>

theorem answers_are_delivered:
  assumes "word_target h k iv mem ok" and "iv (target_of s)" and "word_addr ok (ht_fromhost_addr s)"
  shows "\<exists>s'. deliver_fromhost h s = (Inr (), s') \<and> delivered iv mem s s'"
  by (rule word_target.deliver_fromhost_law [OF assms])

lemma word_at_zero [simp]: "word_at (\<lambda>_. 0) a = 0"
  by (simp add: word_at_def get_range_def numeral_eq_Suc)

theorem answers_are_delivered_witness:
  "\<exists>s'. deliver_fromhost ideal (answering [5, 6] (\<lambda>_. 0)) = (Inr (), s')
    \<and> sv_fromhost_queue (ht_server s') = [6] \<and> target_of s' = set_word (\<lambda>_. 0) 0x80001040 5"
  using answers_are_delivered [OF ideal_is_word_target, of "answering [5, 6] (\<lambda>_. 0)"]
  by (auto simp: delivered_def split: if_splits) (simp_all add: target_of_def)

text \<open>The whole loop: a server that nothing disturbs, and the request that ends the test.\<close>

definition quiet_device :: "device \<Rightarrow> bool" where
  "quiet_device d \<longleftrightarrow> (case dev_class d of Bcd p \<Rightarrow> p = [] | Rfb r \<Rightarrow> \<not> rfb_memif r | _ \<Rightarrow> True)"

definition quiet_devices :: "('t, 'e) server \<Rightarrow> bool" where
  "quiet_devices s \<longleftrightarrow> (\<forall>i < sv_num_devices s. quiet_device (sv_devices s ! i))"

lemma device_tick_quiet: "quiet_device (sv_devices s ! i) \<Longrightarrow> device_tick h os i s = (Inr (), s)"
  by (simp add: device_tick_def bnd_getS quiet_device_def bcd_tick_def rfb_tick_def split: dev_class.splits)

lemma device_list_tick_quiet: "quiet_devices s \<Longrightarrow> device_list_tick h os s = (Inr (), s)"
proof -
  assume q: "quiet_devices s"
  have "forM is (device_tick h os) s = (Inr (), s)" if "\<forall>i \<in> set is. i < sv_num_devices s" for "is"
    using that
  proof (induction "is")
    case (Cons i "is")
    then have "device_tick h os i s = (Inr (), s)"
      using q by (simp add: device_tick_quiet quiet_devices_def)
    then show ?case
      using Cons by (simp add: andThen_Inr)
  qed simp
  then show ?thesis
    by (simp add: device_list_tick_def bnd_getS)
qed

lemma command_fields:
  assumes "v < 2 ^ 48"
  shows "cmd_device v = 0" and "cmd_cmd v = 0" and "cmd_payload v = v"
proof -
  have "take_bit 48 v = v"
    using assms by (simp add: word_unat_eq_iff unsigned_take_bit_eq take_bit_nat_eq_self word_less_nat_alt)
  then have b: "\<not> bit v n" if "48 \<le> n" for n
    using that by (metis bit_take_bit_iff leD)
  show "cmd_device v = 0"
    by (rule bit_word_eqI) (simp add: cmd_device_def bit_simps b)
  show "cmd_cmd v = 0"
    by (rule bit_word_eqI) (simp add: cmd_cmd_def bit_simps b)
  show "cmd_payload v = v"
    by (rule bit_word_eqI) (use b in \<open>auto simp: cmd_payload_def bit_simps intro: leI\<close>)
qed

text \<open>The system-call device in slot 0, where the constructor of \<open>htif_t\<close> registers it.\<close>

definition proxy_first :: "('t, 'e) server \<Rightarrow> bool" where
  "proxy_first s \<longleftrightarrow> sv_devices s \<noteq> [] \<and> command_handlers (sv_devices s ! 0) ! 0 = H_syscall"

text \<open>What an exit request does, as a fact of \<open>handle_syscall\<close>.\<close>

lemma handle_test_end:
  assumes "v AND 1 \<noteq> 0" and "v < 2 ^ 48" and "proxy_first s"
  shows "handle_command h os run v s = (Inr (), s\<lparr>sv_exitcode := ucast v\<rparr>)"
  using assms
  by (simp add: handle_command_def bnd_getS command_fields run_handler_def handle_syscall_def proxy_first_def)

lemma odd_exit:
  assumes "v AND 1 \<noteq> (0 :: u64)"
  shows "(ucast v :: u32) \<noteq> 0" and "drop_bit 1 (sint (ucast v :: u32)) = signed_take_bit 30 (drop_bit 1 (uint v))"
proof -
  have "bit v 0"
    using assms by (simp add: bit_0 and_one_eq mod_2_eq_odd)
  then have "bit (ucast v :: u32) 0"
    by (simp add: bit_simps)
  then show "(ucast v :: u32) \<noteq> 0"
    by auto
  show "drop_bit 1 (sint (ucast v :: u32)) = signed_take_bit 30 (drop_bit 1 (uint v))"
    by (rule bit_eqI) (auto simp: bit_simps min_def)
qed

lemma delivered_exitcode: "delivered iv mem s s' \<Longrightarrow> sv_exitcode (ht_server s') = sv_exitcode (ht_server s)"
  by (cases "sv_fromhost_queue (ht_server s)") (auto simp: delivered_def with_target_def split: if_split_asm)

text \<open>The loop over passes that change nothing the condition reads.\<close>

lemma run_loop_turn:
  assumes "sv_exitcode (ht_server s) = 0" and "\<not> fst (ho_signal ho (sv_env (ht_server s)))"
    and "run_turn h ho run proj g fuel fl (s\<lparr>ht_server := (ht_server s)\<lparr>sv_env := snd (ho_signal ho (sv_env (ht_server s)))\<rparr>\<rparr>)
      = (Inr (), s')"
  shows "run_loop h ho run proj g fuel fl (Suc n) s = run_loop h ho run proj g fuel fl n s'"
  using assms by (simp add: bnd_def host_call_def on_server_def on_env_run getS_def andThen_Inr)

lemma run_loop_exit:
  assumes "sv_exitcode (ht_server s) \<noteq> 0"
  shows "\<exists>s'. run_loop h ho run proj g fuel fl (Suc n) s = (Inr (), s')
    \<and> ht_server s' = (ht_server s)\<lparr>sv_env := snd (ho_signal ho (sv_env (ht_server s)))\<rparr>"
  using assms by (simp add: bnd_def host_call_def on_server_def on_env_run getS_def)

context word_target begin

lemma test_end_law:
  assumes "iv (target_of s)"
    and "word_addr ok (ht_tohost_addr s)" and "word_addr ok (ht_fromhost_addr s)"
    and "word_at (mem (target_of s)) (ht_tohost_addr s) = v" and "v AND 1 \<noteq> 0" and "v < 2 ^ 48"
    and "proxy_first (ht_server s)" and "quiet_devices (ht_server s)" and "sv_exitcode (ht_server s) = 0"
    and "\<not> fst (ho_signal ho (sv_env (ht_server s)))"
  shows "\<exists>s'. run_loop h ho run proj g fuel quiet_flags (Suc (Suc n)) s = (Inr (), s')
    \<and> exit_code (ht_server s') = signed_take_bit 30 (drop_bit 1 (uint v))"
proof -
  let ?e = "snd (ho_signal ho (sv_env (ht_server s)))"
  let ?s = "s\<lparr>ht_server := (ht_server s)\<lparr>sv_env := ?e\<rparr>\<rparr>"
  have fl: "\<not> rf_freeze quiet_flags" "\<not> rf_test_bg quiet_flags" "\<not> rf_log_step quiet_flags"
    by (simp_all add: quiet_flags_def)
  have tg: "target_of ?s = target_of s"
    by (simp add: target_of_def)
  have nz: "word_at (mem (target_of ?s)) (ht_tohost_addr ?s) = v" "v \<noteq> 0"
    using assms(4,5) by (auto simp: tg)
  obtain t where t: "iv t" "serve_tohost h ho run proj g quiet_flags ?s
      = andThen (on_server (handle_command h (ho_os ho) run v)) (ret True) (with_target t ?s)"
    using serve_request [OF _ _ nz fl(1), of ho run proj g] assms(1,2)
    by (auto simp: tg)
  let ?sv = "(ht_server (with_target t ?s))\<lparr>sv_exitcode := ucast v\<rparr>"
  let ?s1 = "(with_target t ?s)\<lparr>ht_server := ?sv\<rparr>"
  have "proxy_first (ht_server (with_target t ?s))"
    using assms(7) by (simp add: proxy_first_def)
  then have "on_server (handle_command h (ho_os ho) run v) (with_target t ?s) = (Inr (), ?s1)"
    by (rule on_server_ok [OF handle_test_end [OF assms(5,6)]])
  then have s1: "serve_tohost h ho run proj g quiet_flags ?s = (Inr True, ?s1)"
    unfolding t(2) by (simp only: andThen_Inr ret_def)
  have "quiet_devices ?sv"
    using assms(8) by (simp add: quiet_devices_def)
  then have s2: "on_server (device_list_tick h (ho_os ho)) ?s1 = (Inr (), ?s1)"
    by (simp add: on_server_def device_list_tick_quiet)
  obtain s3 where s3: "deliver_fromhost h ?s1 = (Inr (), s3)" "delivered iv mem ?s1 s3"
    using deliver_fromhost_law [of ?s1] t(1) assms(3)
    by (auto simp: target_of_def with_target_def)
  then have ec: "sv_exitcode (ht_server s3) = ucast v"
    by (simp add: delivered_exitcode)
  have "run_turn h ho run proj g fuel quiet_flags ?s = (Inr (), s3)"
    using fl s1 s2 s3(1) ec odd_exit(1) [OF assms(5)]
    by (simp add: run_turn_def bnd_Inr andThen_Inr unblock_wfe_def bnd_getS)
  then have loop: "run_loop h ho run proj g fuel quiet_flags (Suc (Suc n)) s
      = run_loop h ho run proj g fuel quiet_flags (Suc n) s3"
    by (rule run_loop_turn [OF assms(9,10)])
  from run_loop_exit [of s3 h ho run proj g fuel quiet_flags n] ec odd_exit [OF assms(5)]
  show ?thesis
    unfolding loop by (auto simp: exit_code_def)
qed

end

text \<open>
  C25: a test that ends is seen to end: when the target puts a word with an odd payload below
  \<open>2 ^ 48\<close> at \<open>tohost\<close>, no signal has arrived and the devices are idle, two turns of the loop are
  enough for it to return, with the exit code the target asked for, the signed upper 31 bits of the
  low half of the word.
\<close>

theorem test_end_stops_the_loop:
  assumes "word_target h k iv mem ok" and "iv (target_of s)"
    and "word_addr ok (ht_tohost_addr s)" and "word_addr ok (ht_fromhost_addr s)"
    and "word_at (mem (target_of s)) (ht_tohost_addr s) = v" and "v AND 1 \<noteq> 0" and "v < 2 ^ 48"
    and "proxy_first (ht_server s)" and "quiet_devices (ht_server s)" and "sv_exitcode (ht_server s) = 0"
    and "\<not> fst (ho_signal ho (sv_env (ht_server s)))"
  shows "\<exists>s'. run_loop h ho run proj g fuel quiet_flags (Suc (Suc n)) s = (Inr (), s')
    \<and> exit_code (ht_server s') = signed_take_bit 30 (drop_bit 1 (uint v))"
  by (rule word_target.test_end_law [OF assms])

definition exiting :: "(memory, unit) htif" where
  "exiting = htif_on ((server_on (one_word 0x80001000 7) ())\<lparr>sv_devices :=
     [\<lparr>dev_class = Syscall_proxy, command_handlers = [H_syscall], command_names = [[]]\<rparr>]\<rparr>) 0x80001000 0x80001040"

theorem test_end_stops_the_loop_witness:
  "\<exists>s'. run_loop ideal null_host (\<lambda>_ _. ret 0) null_proj 0 0 quiet_flags (Suc (Suc 0)) exiting = (Inr (), s')
    \<and> exit_code (ht_server s') = 3"
  using test_end_stops_the_loop [OF ideal_is_word_target, of exiting 7 null_host "\<lambda>_ _. ret 0" null_proj 0 0 0]
  by (simp add: exiting_def htif_on_def server_on_def target_of_def proxy_first_def quiet_devices_def null_host_def
      signed_take_bit_def)

end
