(* ===== verification/Command_Line.thy ===== *)
theory Command_Line
  imports Htif
begin

text \<open>
  What the reading of the command line, the register accesses and the weighted choice of \<open>Htif\<close>
  guarantee, and where they do not do what they are meant to.
\<close>

section \<open>Arguments\<close>

text \<open>No key is the beginning of another one.\<close>

definition prefix_free :: "string list \<Rightarrow> bool" where
  "prefix_free ks \<longleftrightarrow> (\<forall>k \<in> set ks. \<forall>k' \<in> set ks. take (length k) k' = k \<longrightarrow> k = k')"

lemma matching_key_some: "matching_key m txt = Some k \<Longrightarrow> k \<in> set (map fst m) \<and> take (length k) txt = k"
  by (induction m "txt" rule: matching_key.induct) (auto split: if_splits)

lemma matching_key_exists:
  "k \<in> set (map fst m) \<Longrightarrow> take (length k) txt = k \<Longrightarrow> matching_key m txt \<noteq> None"
  by (induction m "txt" rule: matching_key.induct) auto

lemma matching_key_unique:
  assumes "prefix_free (map fst m)" and "k \<in> set (map fst m)"
  shows "matching_key m (k @ v) = Some k"
proof -
  obtain k' where k': "matching_key m (k @ v) = Some k'"
    using matching_key_exists [OF assms(2), of "k @ v"] by auto
  then have mk: "k' \<in> set (map fst m)" "take (length k') (k @ v) = k'"
    using matching_key_some by blast+
  have "k' = k"
  proof (cases "length k' \<le> length k")
    case True
    then have "take (length k') k = k'"
      using mk(2) by simp
    then show ?thesis
      using assms mk(1) unfolding prefix_free_def by blast
  next
    case False
    then have "take (length k) k' = k"
      using arg_cong [OF mk(2), of "take (length k)"] by (simp add: min_def split: if_splits)
    then show ?thesis
      using assms mk(1) unfolding prefix_free_def by metis
  qed
  with k' show ?thesis by simp
qed

text \<open>
  An option as the user writes it: a key alone, or a key that ends in \<open>=\<close> with a value. The entry of
  a key alone becomes the key itself.
\<close>

definition key_arg :: "string \<times> string \<Rightarrow> string" where
  "key_arg kv = ''++'' @ fst kv @ snd kv"

definition option_ok :: "string list \<Rightarrow> string \<times> string \<Rightarrow> bool" where
  "option_ok ks kv \<longleftrightarrow>
    fst kv \<in> set ks \<and> fst kv \<noteq> [] \<and> (snd kv = [] \<or> last (fst kv) = CHR ''='')"

definition option_value :: "string \<times> string \<Rightarrow> string" where
  "option_value kv = (if snd kv = [] then fst kv else snd kv)"

lemma arg_value_of:
  assumes "k \<noteq> []" and "v = [] \<or> last k = CHR ''=''"
  shows "arg_value k (k @ v) old = option_value (k, v)"
proof (cases "v = []")
  case False
  then have "drop (length k - 1) k = ''=''"
    using assms append_butlast_last_id [of k] append_eq_conv_conj [of "butlast k" "[last k]" k] by simp
  then show ?thesis
    using False by (simp add: arg_value_def option_value_def)
qed (simp add: arg_value_def option_value_def)

lemma parse_arg_option:
  assumes "prefix_free (map fst m)" and "option_ok (map fst m) kv"
  shows "parse_arg (key_arg kv) (m, j) = (smap_put (fst kv) (option_value kv) m, j)"
  using assms
  by (cases kv) (auto simp: parse_arg_def key_arg_def matching_key_unique arg_value_of option_ok_def Let_def)

lemma prefix_free_put:
  "prefix_free (map fst m) \<Longrightarrow> k \<in> set (map fst m) \<Longrightarrow> prefix_free (map fst (smap_put k v m))"
  unfolding prefix_free_def set_smap_put by (simp add: insert_absorb)

lemma parse_args_fold:
  assumes "prefix_free (map fst m)" and "\<forall>kv \<in> set kvs. option_ok (map fst m) kv"
  shows "fold parse_arg (map key_arg kvs) (m, j) = (fold (\<lambda>kv. smap_put (fst kv) (option_value kv)) kvs m, j)"
  using assms
proof (induction kvs arbitrary: m)
  case (Cons kv kvs)
  have k: "fst kv \<in> set (map fst m)" and ok: "option_ok (map fst m) kv"
    using Cons.prems(2) by (simp_all add: option_ok_def)
  have "set (map fst (smap_put (fst kv) (option_value kv) m)) = set (map fst m)"
    using k by (simp only: set_smap_put insert_absorb)
  then have "\<forall>kv' \<in> set kvs. option_ok (map fst (smap_put (fst kv) (option_value kv) m)) kv'"
    using Cons.prems(2) by (simp add: option_ok_def)
  then show ?case
    using Cons.IH prefix_free_put [OF Cons.prems(1) k] by (simp add: parse_arg_option [OF Cons.prems(1) ok])
qed simp

lemma smap_get_fold:
  "distinct (map fst kvs) \<Longrightarrow> kv \<in> set kvs
    \<Longrightarrow> smap_get (fold (\<lambda>kv. smap_put (fst kv) (f kv)) kvs m) (fst kv) = Some (f kv)"
proof (induction kvs arbitrary: m)
  case (Cons kv' kvs)
  have other: "k \<notin> set (map fst kvs) \<Longrightarrow> smap_get (fold (\<lambda>kv. smap_put (fst kv) (f kv)) kvs m) k = smap_get m k" for k m
    by (induction kvs arbitrary: m) auto
  show ?case
  proof (cases "kv = kv'")
    case True
    then show ?thesis using Cons.prems other by simp
  next
    case False
    then show ?thesis using Cons by auto
  qed
qed simp

text \<open>
  Options are read back as they were given. When no registered key is the beginning of another, each
  option sets the entry of its key, whatever their order, and uses up none of the three file names.
\<close>

lemma parse_options:
  assumes "prefix_free (map fst m)" and "distinct (map fst kvs)"
    and "\<forall>kv \<in> set kvs. option_ok (map fst m) kv" and "kv \<in> set kvs"
  shows "smap_get (parse_args (map key_arg kvs) m) (fst kv) = Some (option_value kv)
    \<and> snd (fold parse_arg (map key_arg kvs) (m, j)) = j"
  using assms by (simp add: parse_args_def parse_args_fold smap_get_fold)

lemma smap_put_same: "smap_inv m \<Longrightarrow> smap_get m k = Some v \<Longrightarrow> smap_put k v m = m"
proof (induction k v m rule: smap_put.induct)
  case (2 k v k' v' m)
  have "k \<in> set (map fst m)" if "smap_get m k = Some v" for m :: "('a \<times> 'b) list"
    using that by (induction m) (auto split: if_splits)
  with 2 show ?case
    by (fastforce simp: smap_inv_def split: if_splits)
qed simp

lemma smap_get_some: "k \<in> set (map fst m) \<Longrightarrow> smap_get m k \<noteq> None"
  by (induction m k rule: smap_get.induct) auto

text \<open>
  A file name is lost when it begins with a registered flag. A key that does not end in \<open>=\<close>
  takes every argument it is the beginning of, and when the argument is longer than the key nothing
  is stored: the map keeps its entries, no file name is set and no slot is used up.
\<close>

theorem file_name_lost:
  assumes "smap_inv m" and "matching_key m txt = Some k"
    and "length k < length txt" and "k \<noteq> []" and "last k \<noteq> CHR ''=''"
  shows "parse_arg (''++'' @ txt) (m, j) = (m, j)"
proof -
  have "k \<in> set (map fst m)"
    using matching_key_some [OF assms(2)] by blast
  then have "smap_get m k \<noteq> None"
    by (rule smap_get_some)
  then obtain v where v: "smap_get m k = Some v"
    by blast
  have "drop (length k - 1) k = [last k]"
    using assms(4) by (metis append_butlast_last_id append_eq_conv_conj length_butlast)
  then have "arg_value k txt v = v"
    using assms(3,5) by (simp add: arg_value_def)
  then show ?thesis
    using assms(2,3) v smap_put_same [OF assms(1) v] by (auto simp: parse_arg_def Let_def)
qed

theorem file_name_lost_witness:
  "parse_arg (''++'' @ ''freeze_test.elf'') (initial_argmap [''freeze''], 0) = (initial_argmap [''freeze''], 0)"
  by (rule file_name_lost [where k = "''freeze''"])
    (simp_all add: initial_argmap_def htif_keys_def insert_key_def smap_inv_def)

text \<open>
  An option that is not registered is never seen: whatever the command line says, the entry of
  a key that is neither in the map nor one of the three file names stays absent, so a test of it is
  false. This is the case of \<open>perf_report\<close>, which no list of keys holds any more.
\<close>

definition file_keys :: "string set" where
  "file_keys = {''filename1'', ''filename2'', ''filename3''}"

lemma parse_arg_keys: "set (map fst (fst (parse_arg a st))) \<subseteq> set (map fst (fst st)) \<union> file_keys"
proof (cases st)
  case (Pair m j)
  have "set (map fst (smap_put k v m)) \<subseteq> set (map fst m)" if "matching_key m txt = Some k" for k v "txt"
    using matching_key_some [OF that] by (simp only: set_smap_put) blast
  then show ?thesis
    unfolding Pair file_keys_def parse_arg_def
    by (auto simp: Let_def simp del: set_map split: option.split)
qed

lemma parse_args_keys: "set (map fst (fst (fold parse_arg args st))) \<subseteq> set (map fst (fst st)) \<union> file_keys"
proof (induction args arbitrary: st)
  case (Cons a args)
  show ?case
    using Cons.IH [of "parse_arg a st"] parse_arg_keys [of a st] by (simp del: set_map) blast
qed simp

lemma smap_get_None: "k \<notin> set (map fst m) \<Longrightarrow> smap_get m k = None"
  by (induction m) auto

theorem unregistered_option_is_never_seen:
  assumes "k \<notin> set (map fst m)" and "k \<notin> file_keys" and "ht_argmap s = parse_args args m"
  shows "arg_of s k = []"
proof -
  have "k \<notin> set (map fst (parse_args args m))"
    using parse_args_keys [of args "(m, 0)"] assms(1,2) by (auto simp: parse_args_def simp del: set_map)
  then show ?thesis
    by (simp add: arg_of_def assms(3) smap_get_None del: set_map)
qed

theorem unregistered_option_is_never_seen_witness:
  "arg_of ((htif_on (server_on () ()) 0 0)\<lparr>ht_argmap := parse_args [''++perf_report''] (initial_argmap [''freeze''])\<rparr>)
    ''perf_report'' = []"
  by (rule unregistered_option_is_never_seen [OF _ _ refl [THEN trans]])
    (simp_all add: initial_argmap_def htif_keys_def insert_key_def file_keys_def)

section \<open>The weighted choice\<close>

lemma pick_weighted_sum:
  assumes "\<forall>(k, w) \<in> set m. 0 \<le> w" and "m \<noteq> []" and "r \<le> wsum + sum_list (map snd m)"
  shows "pick_weighted m wsum r \<in> fst ` set m"
  using assms by (induction m wsum r rule: pick_weighted.induct) (auto simp: add.assoc, force+)

text \<open>
  The choice is off by one towards the front. Of the \<open>W\<close> equally likely random numbers, where
  \<open>W\<close> is the sum of the weights, the first key is picked by one more than its weight, so a first
  key of weight zero is still picked.
\<close>

theorem first_weight_counts_one_more:
  assumes "0 \<le> w" and "\<forall>(k', w') \<in> set m. 0 \<le> w' \<and> k' \<noteq> k" and "0 < w + sum_list (map snd m)"
  shows "card {r \<in> {0..<w + sum_list (map snd m)}. pick_weighted ((k, w) # m) 0 r = k}
    = nat (min (w + 1) (w + sum_list (map snd m)))"
proof -
  let ?W = "w + sum_list (map snd m)"
  have "pick_weighted m w r \<noteq> k" if "w < r" "r < ?W" for r
  proof -
    have "m \<noteq> []" using that by auto
    then have "pick_weighted m w r \<in> fst ` set m"
      using assms(2) that by (intro pick_weighted_sum) auto
    then show ?thesis using assms(2) by auto
  qed
  then have "pick_weighted ((k, w) # m) 0 r = k \<longleftrightarrow> r < w + 1" if "r < ?W" for r
    using that by auto
  then have "{r \<in> {0..<?W}. pick_weighted ((k, w) # m) 0 r = k} = {r \<in> {0..<?W}. r < w + 1}"
    by (simp del: pick_weighted.simps cong: conj_cong)
  also have "\<dots> = {0..<min (w + 1) ?W}"
    by auto
  finally have "{r \<in> {0..<?W}. pick_weighted ((k, w) # m) 0 r = k} = {0..<min (w + 1) ?W}" .
  then show ?thesis by simp
qed

theorem first_weight_counts_one_more_witness:
  "card {r \<in> {0..<(0 :: int) + sum_list (map snd [(2 :: int, 4 :: int)])}. pick_weighted ((1, 0) # [(2, 4)]) 0 r = 1} = nat (min (0 + 1) (0 + sum_list (map snd [(2 :: int, 4 :: int)])))"
  by (rule first_weight_counts_one_more) simp_all

section \<open>Registers\<close>

lemma le_word_pad: "le_word (bs @ replicate n 0) = le_word bs"
proof -
  have "le_word (replicate n 0) = (0 :: 'a word)"
    by (induction n) simp_all
  then show ?thesis
    by (induction bs) simp_all
qed

text \<open>
  C29: what is written to eight bytes of memory through the register interface is read back by it,
  whatever the variable it is read into held before, and the four-byte read gives the low half.
\<close>

theorem register_round_trip:
  assumes "chunk_target h DMA k iv mem ok" and "iv (target_of s)" and "0x80000000 \<le> a"
    and "\<forall>i < 8. ok (a + of_nat i)"
  shows "\<exists>s' s''. andThen (OURSBUS_WRITE h a v) (OURSBUS_READ h a x) s = (Inr v, s')
    \<and> andThen (OURSBUS_WRITE h a v) (OURSBUS_READ_4B h a x) s = (Inr (take_bit 32 v), s'')"
proof -
  obtain t where t: "ht_write h a (le_bytes 8 v) s = (Inr (), with_target t s)" "iv t"
      "mem t = upd_range (mem (target_of s)) a (le_bytes 8 v)"
    using ht_write_law [OF assms(1,2), of a "le_bytes 8 v"] assms(3,4) by auto
  have same: "get_range (mem t) a 8 = le_bytes 8 v"
    unfolding t(3) by (rule get_upd_range_same) simp_all
  then have low: "get_range (mem t) a 4 = take 4 (le_bytes 8 v)"
    using take_get_range [of 4 8 "mem t" a] by simp
  have read: "\<exists>t'. ht_read h a (replicate n 0) (with_target t s) = (Inr (get_range (mem t) a n), with_target t' s)"
    if "n \<le> 8" for n
    using ht_read_law [OF assms(1), of "with_target t s" a "replicate n 0"] t(2) assms(3,4) that by auto
  have "take 4 (le_bytes 8 v) = le_bytes 4 v"
    by (rule nth_equalityI) (simp_all add: nth_le_bytes)
  then have low_word: "le_word (take 4 (le_bytes 8 v) @ replicate 4 0) = take_bit 32 v"
    by (simp add: le_word_pad le_word_le_bytes)
  from read [of 8] read [of 4] show ?thesis
    by (auto simp: OURSBUS_WRITE_bytes OURSBUS_READ_def OURSBUS_READ_4B_def t(1) andThen_Inr bnd_Inr
        same low shift_in_8 le_word_le_bytes_full low_word)
qed

theorem register_round_trip_witness:
  "\<exists>s' s''. andThen (OURSBUS_WRITE ideal 0x80000010 0x1122334455667788) (OURSBUS_READ ideal 0x80000010 9)
      (answering [] (\<lambda>_. 0)) = (Inr 0x1122334455667788, s')
    \<and> andThen (OURSBUS_WRITE ideal 0x80000010 0x1122334455667788) (OURSBUS_READ_4B ideal 0x80000010 9)
      (answering [] (\<lambda>_. 0)) = (Inr (take_bit 32 0x1122334455667788), s'')"
  by (rule register_round_trip [OF ideal_is_chunk_target]) simp_all

end
