(* ===== verification/Boot_Args.thy ===== *)
theory Boot_Args
  imports Command_Line
begin

text \<open>
  How the boot code of \<open>es1y.cc\<close> reads its arguments: token splitting, breakpoint lists, the chip
  configuration word, and memory layouts.
\<close>

section \<open>Tokens\<close>

text \<open>\<open>split\<close>: \<open>std::getline\<close> drops an empty last token.\<close>

fun split :: "char \<Rightarrow> string \<Rightarrow> string list" where
  "split d s =
    (if s = [] then []
     else takeWhile (\<lambda>c. c \<noteq> d) s # split d (drop (Suc (length (takeWhile (\<lambda>c. c \<noteq> d) s))) s))"

declare split.simps [simp del]

lemma find_from_bound: "find_from pat s i = Some n \<Longrightarrow> i \<le> n \<and> n + length pat \<le> i + length s"
  by (induction pat s i rule: find_from.induct) (auto split: if_splits simp: min_def dest: arg_cong [where f = length])

lemma find_sub_bound: "find_sub pat s = Some n \<Longrightarrow> n + length pat \<le> length s"
  using find_from_bound [of pat s 0 n] by (simp add: find_sub_def)

text \<open>\<open>split_multi\<close> with \<open>multi_tok\<close>. The only delimiter it is called with is \<open>__\<close>.\<close>

function split_multi :: "string \<Rightarrow> string list" where
  "split_multi s =
    (case find_sub ''__'' s of
       None \<Rightarrow> [s]
     | Some n \<Rightarrow> take n s # split_multi (drop (n + 2) s))"
  by pat_completeness auto
termination
  by (relation "measure length") (auto dest!: find_sub_bound)

declare split_multi.simps [simp del]

section \<open>Breakpoints\<close>

text \<open>\<open>get_breakpoints\<close>: only tokens that a \<open>_\<close> follows are read.\<close>

function get_breakpoints :: "string \<Rightarrow> ('s, u64 list) prog" where
  "get_breakpoints s =
    (if CHR ''_'' \<in> set s then
       bnd (stoul 10 (takeWhile (\<lambda>c. c \<noteq> CHR ''_'') s)) (\<lambda>v.
       bnd (get_breakpoints (drop (Suc (length (takeWhile (\<lambda>c. c \<noteq> CHR ''_'') s))) s)) (\<lambda>vs. ret (v # vs)))
     else ret [])"
  by pat_completeness auto
termination
  by (relation "measure length") (auto intro!: diff_less intro: length_pos_if_in_set)

declare get_breakpoints.simps [simp del]

text \<open>
  Each breakpoint goes to a register pair chosen at random among those left. With none left the
  remainder of the random number divides by zero.
\<close>

fun set_breakpoints :: "'t htif_ops \<Rightarrow> 'e os_ops \<Rightarrow> u64 list \<Rightarrow> u64 list \<Rightarrow> u64 list \<Rightarrow> ('t, 'e, unit) hprog" where
  "set_breakpoints h os en ad [] = ret ()"
| "set_breakpoints h os en ad (b # bs) =
    bnd (host_call (os_random os)) (\<lambda>r.
    if en = [] then raise (Undefined ''division by zero'')
    else let i = nat (r mod int (length en)) in
      if length ad \<le> i then raise (Runtime_error ''out_of_range: vector::at'')
      else andThen (OURSBUS_WRITE h (en ! i) 1)
        (andThen (OURSBUS_WRITE h (ad ! i) b)
          (set_breakpoints h os (take i en @ drop (Suc i) en) (take i ad @ drop (Suc i) ad) bs)))"

section \<open>The chip configuration word\<close>

text \<open>
  Bits 0 to 7 are the number of cores, bit 8 the width, bits 9 to 24 the frequency in MHz, bit 25
  the base of the instruction set and bits 26 to 31 its extensions. A bit is set by an \<open>int\<close>
  constant, so bit 31 brings all the higher bits with it.
\<close>

definition set_flag :: "nat \<Rightarrow> u64 \<Rightarrow> u64" where
  "set_flag n data = data OR scast (push_bit n 1 :: u32)"

definition clear_flag :: "nat \<Rightarrow> u64 \<Rightarrow> u64" where
  "clear_flag n data = data AND NOT (scast (push_bit n 1 :: u32))"

definition isa_flags :: "string \<Rightarrow> u64 \<Rightarrow> u64" where
  "isa_flags isa data =
    fold (\<lambda>(c, n) d. if contains c isa then set_flag n d else d)
      [(''i'', 26), (''m'', 27), (''a'', 28), (''f'', 29), (''d'', 30), (''c'', 31)]
      (if contains ''64'' isa then set_flag 25 data
       else if contains ''32'' isa then clear_flag 25 data else data)"

definition config_entry :: "string list \<Rightarrow> u64 \<Rightarrow> ('s, u64) prog" where
  "config_entry config data =
    (case config of
       [] \<Rightarrow> raise (Undefined ''config[0]'')
     | name # vals \<Rightarrow>
         if name \<in> {''nc'', ''xlen'', ''f'', ''isa''} then
           (case vals of
              [] \<Rightarrow> raise (Undefined ''config[1]'')
            | v # _ \<Rightarrow> ret
                (if name = ''nc'' then data OR ucast (of_int (strtol 10 v) :: u8)
                 else if name = ''xlen'' then
                   (if (of_int (strtol 10 v) :: u64) = 64 then set_flag 8 data else clear_flag 8 data)
                 else if name = ''f'' then data OR push_bit 9 (ucast (of_int (strtol 10 v) :: u16))
                 else isa_flags v data))
         else ret data)"

fun config_word :: "string list \<Rightarrow> u64 \<Rightarrow> ('s, u64) prog" where
  "config_word [] data = ret data"
| "config_word (c # cs) data = bnd (config_entry (split (CHR ''_'') c) data) (config_word cs)"

definition chip_config :: "'t htif_ops \<Rightarrow> ('t, 'e, unit) hprog" where
  "chip_config h =
    bnd (arg ''chip_config='') (\<lambda>v.
    bnd (config_word (split_multi v) 0) (\<lambda>data. OURSBUS_WRITE h STATION_PLL_SYSTEM_CFG_ADDR data))"

section \<open>Memory layouts\<close>

text \<open>
  \<open>make_mems\<close>: a number of megabytes at \<open>DRAM_BASE\<close>, or a list of bases and sizes. Only base and
  size of a \<open>mem_t\<close> are used; its constructor throws for size zero.
\<close>

definition DRAM_BASE :: u64 where "DRAM_BASE = 0x80000000"
definition PGSIZE :: u64 where "PGSIZE = 4096"

definition mem_new :: "u64 \<Rightarrow> ('s, u64) prog" where
  "mem_new sz = (if sz = 0 then raise (Runtime_error ''zero bytes of target memory requested'') else ret sz)"

lemma digits_length: "length (snd (digits b n s)) \<le> length s"
  by (induction b n s rule: digits.induct) auto

lemma strto_unsigned_length: "strto_unsigned b s = Some (n, rest) \<Longrightarrow> length rest \<le> length s"
proof -
  define hex where "hex \<longleftrightarrow> hex_prefix s \<and> (b = 0 \<or> b = 16)"
  define b' where "b' = (if b = 0 then (if hex then 16 else if take 1 s = ''0'' then 8 else 10) else b)"
  define t where "t = (if hex then drop 2 s else s)"
  assume "strto_unsigned b s = Some (n, rest)"
  then have "(case t of [] \<Rightarrow> None | c # _ \<Rightarrow> if is_digit b' c then Some (digits b' 0 t) else None) = Some (n, rest)"
    by (simp only: strto_unsigned_def Let_def hex_def b'_def t_def)
  then have "digits b' 0 t = (n, rest)"
    by (simp split: list.split_asm if_split_asm del: digits.simps)
  then show ?thesis
    using digits_length [of b' 0 t] by (simp add: t_def split: if_splits)
qed

lemma strto_rest_length: "length (strto_rest b s) \<le> length s"
proof (cases "strto b s")
  case None
  then show ?thesis by (simp add: strto_rest_def)
next
  case (Some r)
  then obtain neg n rest where r: "strto b s = Some (neg, n, rest)" by (cases r) auto
  let ?t = "dropWhile is_space s"
  from r have "strto_unsigned b (if neg \<or> take 1 ?t = ''+'' then drop 1 ?t else ?t) = Some (n, rest)"
    by (auto simp: strto_def Let_def)
  then have "length rest \<le> length ?t"
    by (auto dest!: strto_unsigned_length split: if_splits)
  also have "\<dots> \<le> length s" by (rule length_dropWhile_le)
  finally show ?thesis using r by (simp add: strto_rest_def)
qed

function mem_list :: "string \<Rightarrow> ('s, (u64 \<times> u64) list) prog" where
  "mem_list s =
    (let p = strto_rest 0 s; q = strto_rest 0 (drop 1 p) in
     if take 1 p \<noteq> '':'' then raise (Exited (- 1))
     else if (strtoul 0 (drop 1 p) OR strtoul 0 s) mod PGSIZE \<noteq> 0 then raise (Exited (- 1))
     else bnd (mem_new (strtoul 0 (drop 1 p))) (\<lambda>sz.
       if q = [] then ret [(strtoul 0 s, sz)]
       else if take 1 q \<noteq> '','' then raise (Exited (- 1))
       else bnd (mem_list (drop 1 q)) (\<lambda>ms. ret ((strtoul 0 s, sz) # ms))))"
  by pat_completeness auto
termination
proof (relation "measure length", simp_all, goal_cases)
  case (1 s)
  then show ?case
    using strto_rest_length [of 0 s] strto_rest_length [of 0 "drop 1 (strto_rest 0 s)"]
    by (cases "strto_rest 0 s") auto
qed

declare mem_list.simps [simp del]

definition make_mems :: "string \<Rightarrow> ('s, (u64 \<times> u64) list) prog" where
  "make_mems s =
    (if strto_rest 0 s = [] then bnd (mem_new (push_bit 20 (strtoul 0 s))) (\<lambda>sz. ret [(DRAM_BASE, sz)])
     else mem_list s)"

section \<open>Reading numbers back\<close>

lemma dec_char: "n < 10 \<Longrightarrow> ''0123456789'' ! n = char_of (48 + n)"
proof -
  assume "n < 10"
  then have "n \<in> {0, 1, 2, 3, 4, 5, 6, 7, 8, 9}" by auto
  then show ?thesis by (elim insertE emptyE) (simp_all add: char_of_def bit_0)
qed

lemma to_dec_unfold:
  "to_dec n = (if n < 10 then [char_of (48 + n)] else to_dec (n div 10) @ [char_of (48 + n mod 10)])"
  using dec_char [of n] dec_char [of "n mod 10"] by (simp add: to_dec.simps [of n])

lemma dec_digit:
  assumes "k < (10 :: nat)"
  shows "is_digit 10 (char_of (48 + k))" and "the (digit_val (char_of (48 + k))) = k"
    and "\<not> is_space (char_of (48 + k))" and "char_of (48 + k) \<notin> {CHR ''-'', CHR ''+'', CHR ''_''}"
proof -
  show "is_digit 10 (char_of (48 + k))" "the (digit_val (char_of (48 + k))) = k"
    using assms by (simp_all add: is_digit_def digits_to_dec_step)
  have n: "(of_char (char_of (48 + k)) :: nat) = 48 + k"
    using assms by simp
  then show "\<not> is_space (char_of (48 + k))"
    using assms by (simp add: is_space_def)
  show "char_of (48 + k) \<notin> {CHR ''-'', CHR ''+'', CHR ''_''}"
  proof
    assume "char_of (48 + k) \<in> {CHR ''-'', CHR ''+'', CHR ''_''}"
    then have "(of_char (char_of (48 + k)) :: nat) \<in> {45, 43, 95}"
      by (elim insertE emptyE) (simp_all only:, simp_all)
    with n assms show False by auto
  qed
qed

lemma digits_to_dec:
  "digits 10 a (to_dec n @ ys) = digits 10 (a * 10 ^ length (to_dec n) + n) ys"
proof (induction n arbitrary: a ys rule: to_dec.induct)
  case (1 n)
  show ?case
  proof (cases "n < 10")
    case True
    then show ?thesis by (simp add: to_dec_unfold dec_digit)
  next
    case False
    have "(a * 10 ^ length (to_dec (n div 10)) + n div 10) * 10 + n mod 10 = a * 10 ^ length (to_dec n) + n"
      using False by (simp add: to_dec_unfold [of n] algebra_simps)
    then show ?thesis
      using False 1 dec_digit [of "n mod 10"] by (simp add: to_dec_unfold [of n] algebra_simps)
  qed
qed

lemma to_dec_head: "\<exists>k cs. to_dec n = char_of (48 + k) # cs \<and> k < (10 :: nat)"
proof (induction n rule: to_dec.induct)
  case (1 n)
  show ?case
  proof (cases "n < 10")
    case True
    then show ?thesis by (intro exI [of _ n] exI [of _ "[]"]) (simp add: to_dec_unfold [of n])
  next
    case False
    with 1 obtain k cs where "to_dec (n div 10) = char_of (48 + k) # cs" "k < (10 :: nat)" by blast
    with False show ?thesis
      by (intro exI [of _ k] exI [of _ "cs @ [char_of (48 + n mod 10)]"]) (simp add: to_dec_unfold [of n])
  qed
qed

lemma to_dec_digits: "c \<in> set (to_dec n) \<Longrightarrow> \<exists>k < (10 :: nat). c = char_of (48 + k)"
proof (induction n rule: to_dec.induct)
  case (1 n)
  show ?case
  proof (cases "n < 10")
    case True
    with 1 show ?thesis by (intro exI [of _ n]) (simp add: to_dec_unfold [of n])
  next
    case False
    with 1 show ?thesis
      by (auto simp: to_dec_unfold [of n] intro: exI [of _ "n mod 10"])
  qed
qed

lemma strto_to_dec: "strto 10 (to_dec n) = Some (False, n, [])"
proof -
  obtain k cs where k: "to_dec n = char_of (48 + k) # cs" "k < (10 :: nat)"
    using to_dec_head by blast
  have "digits 10 0 (to_dec n) = (n, [])"
    using digits_to_dec [of 0 n "[]"] by simp
  then show ?thesis
    using k dec_digit [OF k(2)] by (simp add: strto_def Let_def strto_unsigned_def del: digits.simps char_of_take_bit_eq)
qed

lemma stoul_to_dec: "n < 2 ^ 64 \<Longrightarrow> stoul 10 (to_dec n) = ret (of_nat n)"
  by (simp add: stoul_def strto_to_dec strtoul_def)

lemma strtol_to_dec: "n < 2 ^ 63 \<Longrightarrow> strtol 10 (to_dec n) = int n"
  by (simp add: strtol_def strto_to_dec)

text \<open>
  The last breakpoint of a list is lost. Of the numbers in \<open>bp_pc=\<close> and \<open>instret=\<close> exactly those
  that an underscore follows are used, so what comes after the last underscore is never set, and a
  single breakpoint without one sets none.
\<close>

theorem last_breakpoint_lost:
  assumes "\<forall>n \<in> set ns. n < 2 ^ 64" and "CHR ''_'' \<notin> set t"
  shows "get_breakpoints (concat (map (\<lambda>n. to_dec n @ ''_'') ns) @ t) = ret (map of_nat ns)"
  using assms(1)
proof (induction ns)
  case Nil
  then show ?case using assms(2) by (simp add: get_breakpoints.simps)
next
  case (Cons n ns)
  have "c \<noteq> CHR ''_''" if c: "c \<in> set (to_dec n)" for c
  proof -
    obtain k :: nat where "k < 10" "c = char_of (48 + k)"
      using to_dec_digits [OF c] by blast
    then show ?thesis using dec_digit(4) [of k] by simp
  qed
  then have w: "takeWhile (\<lambda>c. c \<noteq> CHR ''_'') (to_dec n @ CHR ''_'' # r) = to_dec n" for r
    using takeWhile_append2 [of "to_dec n" "\<lambda>c. c \<noteq> CHR ''_''" "CHR ''_'' # r"] by simp
  show ?case
    using Cons by (subst get_breakpoints.simps) (simp add: w stoul_to_dec del: ret_run)
qed

theorem last_breakpoint_lost_witness:
  "get_breakpoints (concat (map (\<lambda>n. to_dec n @ ''_'') [2147483648, 2147483660]) @ ''2147483668'')
    = ret (map of_nat [2147483648, 2147483660 :: nat])"
  by (rule last_breakpoint_lost) simp_all

end
