(* ===== verification/Device_Tree.thy ===== *)
theory Device_Tree
  imports Boot_Args
begin

text \<open>
  The boot ROM that \<open>es1y.cc\<close> builds: the device tree text, its compilation by the external \<open>dtc\<close>,
  the reset vector in front of it, and the words that \<open>load_rom\<close> writes to memory.
\<close>

text \<open>
  The external programs the boot code runs: the device tree compiler, which gives the output or
  fails, and the calculator of PLL parameters, of which one line of output is read.
\<close>

record 'e tool_ops =
  tl_dtc :: "string \<Rightarrow> 'e \<Rightarrow> u8 list option \<times> 'e"
  tl_pll :: "string \<Rightarrow> string \<Rightarrow> 'e \<Rightarrow> string \<times> 'e"

section \<open>The device tree text\<close>

definition text_lines :: "string list \<Rightarrow> string" where
  "text_lines ls = concat (map (\<lambda>l. l @ [CHR 0x0A]) ls)"

definition CLINT_BASE :: u64 where "CLINT_BASE = STATION_PLL_BASE_ADDR"
definition CLINT_SIZE :: u64 where "CLINT_SIZE = 0x000c0000"
definition PLIC_BASE :: u64 where "PLIC_BASE = STATION_DMA_BASE_ADDR"
definition PLIC_SIZE :: u64 where "PLIC_SIZE = 0x000002a8"
definition CODEC_BASE :: u64 where "CODEC_BASE = 0x20000000"
definition CODEC_SIZE :: u64 where "CODEC_SIZE = 0x4"
definition I2SRX0_BASE :: u64 where "I2SRX0_BASE = STATION_SLOW_IO_I2SS0_BLOCK_REG_ADDR"
definition I2SRX0_SIZE :: u64 where "I2SRX0_SIZE = 0x400"
definition DMA_BASE :: u64 where "DMA_BASE = STATION_DMA_BASE_ADDR"
definition DMA_SIZE :: u64 where "DMA_SIZE = 0x600"
definition DBG_EN_BASE :: u64 where "DBG_EN_BASE = STATION_DMA_S2B_PLIC_DBG_EN_OFFSET__DEPTH_0"
definition INTR_EN_BASE :: u64 where "INTR_EN_BASE = STATION_DMA_S2B_PLIC_INTR_EN_OFFSET__DEPTH_0"
definition INTR_CORE_ID_BASE :: u64 where "INTR_CORE_ID_BASE = STATION_DMA_S2B_PLIC_INTR_CORE_ID_OFFSET__DEPTH_0"
definition INTR_SRC_BASE :: u64 where "INTR_SRC_BASE = STATION_DMA_B2S_PLIC_INTR_SRC_OFFSET__DEPTH_0"

text \<open>The parts of \<open>make_dts\<close>, in the order in which it prints them.\<close>

definition dts_head :: "nat \<Rightarrow> nat \<Rightarrow> string" where
  "dts_head ticks hz = text_lines
    [''/dts-v1/;'',
     '''',
     ''/ {'',
     ''  #address-cells = <2>;'',
     ''  #size-cells = <2>;'',
     ''  compatible = \"ucbbar,spike-bare-dev\";'',
     ''  model = \"ucbbar,spike-bare\";'',
     ''  chosen {'',
     ''       bootargs = \"console=hvc0 earlycon=sbi\";'',
     ''  };'',
     ''  cpus {'',
     ''    #address-cells = <1>;'',
     ''    #size-cells = <0>;'',
     ''    timebase-frequency = <'' @ to_dec (hz div ticks) @ ''>;'']"

definition dts_cpu :: "nat \<Rightarrow> nat \<Rightarrow> string \<Rightarrow> nat \<Rightarrow> string" where
  "dts_cpu hz xlen isa i = text_lines
    [''    CPU'' @ to_dec i @ '': cpu@'' @ to_dec i @ '' {'',
     ''      device_type = \"cpu\";'',
     ''      reg = <'' @ to_dec i @ ''>;'',
     ''      status = \"okay\";'',
     ''      compatible = \"riscv\";'',
     ''      riscv,isa = \"'' @ isa @ ''\";'',
     ''      mmu-type = \"riscv,'' @ (if xlen = 0 then ''sv32'' else ''sv39'') @ ''\";'',
     ''      clock-frequency = <'' @ to_dec hz @ ''>;'',
     ''      CPU'' @ to_dec i @ ''_intc: interrupt-controller {'',
     ''        #interrupt-cells = <1>;'',
     ''        interrupt-controller;'',
     ''        compatible = \"riscv,cpu-intc\";'',
     ''      };'',
     ''    };'']"

definition dts_memory :: "u64 \<times> u64 \<Rightarrow> string" where
  "dts_memory = (\<lambda>(base, sz). text_lines
    [''  memory@'' @ to_hex (unat base) @ '' {'',
     ''    device_type = \"memory\";'',
     ''    reg = <0x'' @ to_hex (unat (drop_bit 32 base)) @ '' 0x'' @ to_hex (unat (take_bit 32 base)) @
        '' 0x'' @ to_hex (unat (drop_bit 32 sz)) @ '' 0x'' @ to_hex (unat (take_bit 32 sz)) @ ''>;'',
     ''  };''])"

text \<open>
  The interrupt controller is printed in the number base the stream was left in: hexadecimal after
  a memory, decimal when there was none.
\<close>

definition dts_plic :: "(nat \<Rightarrow> string) \<Rightarrow> string" where
  "dts_plic num = text_lines
    [''  soc {'',
     ''    #address-cells = <2>;'',
     ''    #size-cells = <2>;'',
     ''    compatible = \"ucbbar,spike-bare-soc\", \"simple-bus\";'',
     ''    ranges;'',
     ''    plic0: interrupt-controller@'' @ num (unat PLIC_BASE) @ '' {'',
     ''      #interrupt-cells = <1>;'',
     ''      compatible = \"rivai,plic-1.0.0\";'',
     ''      interrupt-controller;'',
     ''      regs_base = <0x'' @ num (unat DBG_EN_BASE) @ '' 0x'' @ num (unat INTR_EN_BASE) @ '' 0x'' @
        num (unat INTR_CORE_ID_BASE) @ '' 0x'' @ num (unat INTR_SRC_BASE) @ ''>;'',
     ''      reg = <0x'' @ num (unat (drop_bit 32 PLIC_BASE)) @ '' 0x'' @
        num (unat (take_bit 32 PLIC_BASE)) @ '' 0x'' @ num (unat (drop_bit 32 PLIC_SIZE)) @ '' 0x'' @
        num (unat (take_bit 32 PLIC_SIZE)) @ ''>;'',
     ''      riscv,ndev = <'' @ to_dec 35 @ ''>;'',
     ''    };'']"

definition dts_dma :: string where
  "dts_dma = text_lines
    [''    dma: dma@'' @ to_hex (unat DMA_BASE) @ '' {'',
     ''      #interrupt-cells = <1>;'',
     ''      compatible = \"adi,axi-dmac-1.00.a\";'',
     ''      reg = <0x'' @ to_hex (unat (drop_bit 32 DMA_BASE)) @ '' 0x'' @
        to_hex (unat (take_bit 32 DMA_BASE)) @ '' 0x'' @ to_hex (unat (drop_bit 32 DMA_SIZE)) @ '' 0x'' @
        to_hex (unat (take_bit 32 DMA_SIZE)) @ ''>;'',
     ''      interrupt-parent = <&plic0>;'',
     ''      interrupts = <31'' @ '' 32'' @ ''>;'',
     '''',
     ''      #dma-cells = <1>;'',
     ''	adi,channels {'',
     ''       #size-cells = <0>;'',
     ''       #address-cells = <1>;'',
     ''       dma-channel@0 {'',
     ''               reg = <0>;'',
     ''               adi,source-bus-width = <32>;'',
     ''               adi,source-bus-type = <'' @ to_hex 2 @ ''>;'',
     ''               adi,destination-bus-width = <32>;'',
     ''               adi,destination-bus-type = <'' @ to_hex 0 @ ''>;'',
     ''       };'',
     ''       };'',
     ''    };'']"

definition dts_codec :: string where
  "dts_codec = text_lines
    [''    rivai_fake_codec: codec@'' @ to_hex (unat CODEC_BASE) @ '' {'',
     ''	#sound-dai-cells = <0>;'',
     ''      #interrupt-cells = <1>;'',
     ''      compatible = \"rivai-fake-codec\";'',
     ''      reg = <0x'' @ to_hex (unat (drop_bit 32 CODEC_BASE)) @ '' 0x'' @
        to_hex (unat (take_bit 32 CODEC_BASE)) @ '' 0x'' @ to_hex (unat (drop_bit 32 CODEC_SIZE)) @
        '' 0x'' @ to_hex (unat (take_bit 32 CODEC_SIZE)) @ ''>;'',
     ''      interrupt-parent = <&plic0>;'',
     '''',
     ''      bus-width = <4>;'',
     ''    };'',
     ''    i2srx0: i2srx@'' @ to_hex (unat I2SRX0_BASE) @ '' {'',
     ''      #sound-dai-cells = <1>;'',
     ''      #interrupt-cells = <1>;'',
     ''      compatible = \"snps,designware-i2s\";'',
     ''      reg = <0x'' @ to_hex (unat (drop_bit 32 I2SRX0_BASE)) @ '' 0x'' @
        to_hex (unat (take_bit 32 I2SRX0_BASE)) @ '' 0x'' @ to_hex (unat (drop_bit 32 I2SRX0_SIZE)) @
        '' 0x'' @ to_hex (unat (take_bit 32 I2SRX0_SIZE)) @ ''>;'',
     ''      dmas = <&dma 0>;'',
     ''      dma-names = \"rx\";'',
     ''    };'']"

text \<open>The processors are numbered in hexadecimal here, where the stream still is, and in decimal above.\<close>

definition clint_ref :: "nat \<Rightarrow> string" where
  "clint_ref i = ''&CPU'' @ to_hex i @ ''_intc 3 &CPU'' @ to_hex i @ ''_intc 7 ''"

definition dts_clint :: "nat \<Rightarrow> string" where
  "dts_clint num_cores = (text_lines
    [''    clint@'' @ to_hex (unat CLINT_BASE) @ '' {'',
     ''      compatible = \"riscv,clint0\";''])
    @ ''      interrupts-extended = <''
    @ concat (map clint_ref [0..<num_cores])"

definition dts_tail :: string where
  "dts_tail = text_lines
    [''>;'',
     ''      reg = <0x'' @ to_hex (unat (drop_bit 32 CLINT_BASE)) @ '' 0x'' @
        to_hex (unat (take_bit 32 CLINT_BASE)) @ '' 0x'' @ to_hex (unat (drop_bit 32 CLINT_SIZE)) @
        '' 0x'' @ to_hex (unat (take_bit 32 CLINT_SIZE)) @ ''>;'',
     ''    };'',
     ''  };'',
     ''  htif {'',
     ''    compatible = \"ucb,htif0\";'',
     ''  };'',
     '' sound '' @ ''{'',
     ''    compatible = \"simple-audio-card\";'',
     ''    simple-audio-card,name = \"rivai-soundcard\";'',
     ''    simple-audio-card,format = \"i2s\";'',
     ''    simple-audio-card,cpu {'',
     ''            sound-dai = <&i2srx0 0>;'',
     ''    };'',
     ''    dailink0_master: simple-audio-card,codec {'',
     ''    sound-dai = <&rivai_fake_codec>; '',
     ''    };'',
     ''  };'',
     ''};'']"

definition make_dts :: "nat \<Rightarrow> nat \<Rightarrow> nat \<Rightarrow> nat \<Rightarrow> string \<Rightarrow> (u64 \<times> u64) list \<Rightarrow> string" where
  "make_dts ticks hz num_cores xlen isa mems =
    dts_head ticks hz
    @ concat (map (dts_cpu hz xlen isa) [0..<num_cores])
    @ text_lines [''  };'']
    @ concat (map dts_memory mems)
    @ dts_plic (if mems = [] then to_dec else to_hex)
    @ dts_dma @ dts_codec @ dts_clint num_cores @ dts_tail"

section \<open>The ROM\<close>

text \<open>The fields of the configuration word, as \<open>make_dtb\<close> reads them.\<close>

definition cfg_cores :: "u64 \<Rightarrow> nat" where
  "cfg_cores data = unat (data AND 0xff)"

definition cfg_xlen :: "u64 \<Rightarrow> nat" where
  "cfg_xlen data = unat (drop_bit 8 data AND 1)"

definition cfg_hz :: "u64 \<Rightarrow> nat" where
  "cfg_hz data = unat ((drop_bit 9 data AND 0xffff) * 1000000)"

definition cfg_isa :: "u64 \<Rightarrow> string" where
  "cfg_isa data =
    (if drop_bit 25 data AND 1 = 1 then ''rv64'' else ''rv32'')
    @ concat (map (\<lambda>(n, c). if drop_bit n (drop_bit 26 data AND 0x3f) AND 1 = 1 then c else [])
        (enumerate 0 [''i'', ''m'', ''a'', ''f'', ''d'', ''c'']))"

text \<open>Seven instructions' worth of start code and the address it jumps to, eight words.\<close>

definition reset_vec :: "u64 \<Rightarrow> u32 list" where
  "reset_vec data =
    [0x297, 0x28593 + push_bit 20 (8 * 4), 0xf1402573,
     (if cfg_xlen data = 0 then 0x0182a283 else 0x0182b283), 0x28067, 0,
     ucast (DRAM_BASE AND 0xffffffff), ucast (drop_bit 32 DRAM_BASE)]"

text \<open>\<open>rom.resize\<close> to a multiple of 4096, and the packing into words as the loop does it.\<close>

definition rom_image :: "u64 \<Rightarrow> u8 list \<Rightarrow> u8 list" where
  "rom_image data dtb =
    (let rom = concat (map (le_bytes 4) (reset_vec data)) @ dtb;
         n = (length rom + 0x1000 - 1) div 0x1000 * 0x1000 in
     rom @ replicate (n - length rom) 0)"

fun rom_words :: "u32 \<Rightarrow> nat \<Rightarrow> u8 list \<Rightarrow> u32 list" where
  "rom_words tmp idx [] = (if idx mod 4 \<noteq> 0 then [drop_bit (8 * (3 - idx mod 4)) tmp] else [])"
| "rom_words tmp idx (b # bs) =
    (let tmp' = drop_bit 8 tmp OR push_bit 24 (ucast b) in
     (if idx mod 4 = 3 then [tmp'] else []) @ rom_words tmp' (Suc idx) bs)"

definition make_dtb :: "'e tool_ops \<Rightarrow> u64 \<Rightarrow> (u64 \<times> u64) list \<Rightarrow> ('t, 'e, u32 list) hprog" where
  "make_dtb tool data mems =
    bnd (host_call (tl_dtc tool (make_dts 1 (cfg_hz data) (cfg_cores data) (cfg_xlen data) (cfg_isa data) mems)))
      (\<lambda>r. case r of
         None \<Rightarrow> raise (Exited 1)
       | Some dtb \<Rightarrow> ret (rom_words 0 0 (rom_image data dtb)))"

fun write_rom :: "'t htif_ops \<Rightarrow> u64 \<Rightarrow> u32 list \<Rightarrow> ('t, 'e, unit) hprog" where
  "write_rom h a [] = ret ()"
| "write_rom h a [w] = ht_write h a (le_bytes 4 w @ replicate 4 0)"
| "write_rom h a (w # w' # ws) =
    andThen (ht_write h a (le_bytes 4 w @ le_bytes 4 w')) (write_rom h (a + 8) ws)"

definition rom_addr :: "('t, 'e) htif \<Rightarrow> u64" where
  "rom_addr s = (if arg_of s ''linux_rom'' \<noteq> [] then 0x80016000 else 0x82000000)"

definition load_rom :: "'t htif_ops \<Rightarrow> 'e tool_ops \<Rightarrow> ('t, 'e, unit) hprog" where
  "load_rom h tool =
    bnd (OURSBUS_READ h STATION_PLL_SYSTEM_CFG_ADDR 0) (\<lambda>data.
    bnd (make_mems ''2048'') (\<lambda>mems.
    bnd (make_dtb tool data mems) (\<lambda>rom.
    bnd (getS rom_addr) (\<lambda>a. write_rom h a rom))))"

lemma le_bytes_4: "le_bytes 4 w = [ucast w, ucast (drop_bit 8 w), ucast (drop_bit 16 w), ucast (drop_bit 24 w)]"
  by (simp add: numeral_eq_Suc)

lemma rom_words_4:
  assumes "idx mod 4 = 0"
  shows "rom_words tmp idx (b0 # b1 # b2 # b3 # bs)
    = le_word [b0, b1, b2, b3] # rom_words (le_word [b0, b1, b2, b3]) (idx + 4) bs"
proof -
  have m: "Suc idx mod 4 = 1" "Suc (Suc idx) mod 4 = 2" "Suc (Suc (Suc idx)) mod 4 = 3"
    using assms by (simp_all add: mod_Suc)
  have w: "drop_bit 8 (drop_bit 8 (drop_bit 8 (drop_bit 8 tmp OR push_bit 24 (ucast b0)) OR push_bit 24 (ucast b1))
      OR push_bit 24 (ucast b2)) OR push_bit 24 (ucast b3) = (le_word [b0, b1, b2, b3] :: u32)" (is "?w = _")
  proof -
    have "ucast ?w = b0" "ucast (drop_bit 8 ?w) = b1" "ucast (drop_bit 16 ?w) = b2" "ucast (drop_bit 24 ?w) = b3"
      by (rule bit_word_eqI, simp add: bit_simps)+
    then have bytes: "le_bytes 4 ?w = [b0, b1, b2, b3]"
      by (simp only: le_bytes_4)
    have "?w = le_word (le_bytes 4 ?w)"
      by (rule le_word_le_bytes_full [symmetric]) simp
    also have "\<dots> = le_word [b0, b1, b2, b3]"
      by (simp only: bytes)
    finally show ?thesis .
  qed
  show ?thesis
    unfolding rom_words.simps(2) Let_def w m assms by (simp add: eval_nat_numeral del: rom_words.simps le_word.simps)
qed

lemma rom_words_bytes:
  "idx mod 4 = 0 \<Longrightarrow> 4 dvd length bs \<Longrightarrow> concat (map (le_bytes 4) (rom_words tmp idx bs)) = bs"
proof (induction "length bs" arbitrary: bs tmp idx rule: less_induct)
  case less
  show ?case
  proof (cases "bs = []")
    case True
    then show ?thesis using less.prems(1) by simp
  next
    case False
    then have "4 \<le> length bs"
      using less.prems(2) by (auto dest: dvd_imp_le)
    then obtain b0 b1 b2 b3 r where bs: "bs = b0 # b1 # b2 # b3 # r"
      by (auto simp: numeral_eq_Suc Suc_le_length_iff)
    have "le_bytes 4 (le_word [b0, b1, b2, b3] :: u32) = [b0, b1, b2, b3]"
      by (rule le_bytes_le_word) simp_all
    moreover have "4 dvd length r"
      using less.prems(2) dvd_add_right_iff [of 4 4 "length r"] by (simp add: bs eval_nat_numeral)
    ultimately show ?thesis
      using less.hyps [of r "idx + 4"] less.prems(1) by (simp add: bs rom_words_4 del: rom_words.simps le_bytes.simps)
  qed
qed

section \<open>What the ROM holds\<close>

lemma write_rom_law:
  assumes "chunk_target h DMA k iv mem ok" and "iv (target_of s)" and "\<forall>x. ok x"
    and "0x80000000 \<le> a" and "unat a + 4 * length ws < 2 ^ 64" and "even (length ws)"
  shows "\<exists>t. write_rom h a ws s = (Inr (), with_target t s) \<and> iv t
    \<and> mem t = upd_range (mem (target_of s)) a (concat (map (le_bytes 4) ws))"
  using assms
proof (induction h a ws arbitrary: s rule: write_rom.induct)
  case (1 h a)
  then show ?case by (auto intro: exI [of _ "target_of s"])
next
  case (2 h a w)
  then show ?case by simp
next
  case (3 h a w w' ws)
  let ?bs = "le_bytes 4 w @ le_bytes 4 w'"
  obtain t where t: "ht_write h a ?bs s = (Inr (), with_target t s)" "iv t"
      "mem t = upd_range (mem (target_of s)) a ?bs"
    using ht_write_law [OF "3.prems"(1,2), of a ?bs] "3.prems"(3,4) by auto
  have "unat (a + 8) = unat a + 8"
    using "3.prems"(5) by (simp add: unat_word_ariths)
  then have "0x80000000 \<le> a + 8" "unat (a + 8) + 4 * length ws < 2 ^ 64" "even (length ws)"
    using "3.prems"(4-6) by (simp_all add: word_le_nat_alt)
  then obtain t' where t': "write_rom h (a + 8) ws (with_target t s) = (Inr (), with_target t' s)" "iv t'"
      "mem t' = upd_range (mem t) (a + 8) (concat (map (le_bytes 4) ws))"
    using "3.IH" [of "with_target t s"] "3.prems"(1,3) t(2) by auto
  have len: "length (concat (map (le_bytes 4) ws)) = 4 * length ws"
    by (induction ws) simp_all
  have "mem t' = upd_range (mem (target_of s)) a (?bs @ concat (map (le_bytes 4) ws))"
    using upd_range_append [of ?bs "concat (map (le_bytes 4) ws)" "mem (target_of s)" a] len "3.prems"(5)
    by (simp add: t'(3) t(3))
  then show ?case
    using t t' by (intro exI [of _ t']) (simp add: andThen_Inr)
qed

lemma rom_image_length: "\<exists>n. length (rom_image data dtb) = 4096 * n"
proof -
  let ?l = "length (concat (map (le_bytes 4) (reset_vec data)) @ dtb)"
  have "?l \<le> (?l + 0x1000 - 1) div 0x1000 * 0x1000"
    by (simp add: algebra_simps)
  moreover have "length (rom_image data dtb) = ?l + ((?l + 0x1000 - 1) div 0x1000 * 0x1000 - ?l)"
    by (simp only: rom_image_def Let_def length_append length_replicate)
  ultimately show ?thesis
    by (intro exI [of _ "(?l + 0x1000 - 1) div 0x1000"]) linarith
qed

lemma rom_image_bound: "length (rom_image data dtb) < length dtb + 4128"
  unfolding rom_image_def Let_def by (simp add: reset_vec_def)

lemma rom_image_bytes: "concat (map (le_bytes 4) (rom_words 0 0 (rom_image data dtb))) = rom_image data dtb"
  using rom_image_length [of data dtb] by (intro rom_words_bytes) auto

lemma low_bits_zero: "k \<le> 3 \<Longrightarrow> take_bit 3 a = 0 \<Longrightarrow> take_bit k (a :: u64) = 0"
  using take_bit_take_bit [of k 3 a] by simp

lemma make_mems_2048: "make_mems ''2048'' = ret [(DRAM_BASE, 0x80000000)]"
proof -
  have "strto_rest 0 ''2048'' = []" and "strtoul 0 ''2048'' = 2048"
    by (simp_all add: strto_rest_def strtoul_def strto_def strto_unsigned_def hex_prefix_def is_digit_def
        digit_val_def is_space_def Let_def)
  then show ?thesis
    by (simp add: make_mems_def mem_new_def del: ret_run)
qed

text \<open>
  C30: the ROM in memory is the reset vector followed by the compiled device tree, padded with zeros
  to whole pages, byte for byte, at the address the option chooses; nothing else in memory changes.
  The device tree is compiled for the fields of the configuration word the chip holds.
\<close>

theorem rom_is_loaded:
  assumes "chunk_target h DMA k iv mem ok" and "iv (target_of s)" and "\<forall>x. ok x" and "k \<le> 3"
    and "data = word_at (mem (target_of s)) STATION_PLL_SYSTEM_CFG_ADDR"
    and "tl_dtc tool (make_dts 1 (cfg_hz data) (cfg_cores data) (cfg_xlen data) (cfg_isa data)
        [(DRAM_BASE, 0x80000000)]) (sv_env (ht_server s)) = (Some dtb, e)"
    and "length dtb < 2 ^ 32"
  shows "\<exists>s'. load_rom h tool s = (Inr (), s')
    \<and> mem (target_of s') = upd_range (mem (target_of s)) (rom_addr s) (rom_image data dtb)"
proof -
  obtain t where t: "ht_read h STATION_PLL_SYSTEM_CFG_ADDR (replicate 8 0) s
      = (Inr (get_range (mem (target_of s)) STATION_PLL_SYSTEM_CFG_ADDR 8), with_target t s)" "iv t"
      "mem t = mem (target_of s)"
    using ht_read_law [OF assms(1,2), of STATION_PLL_SYSTEM_CFG_ADDR "replicate 8 0"] assms(3)
      low_bits_zero [OF assms(4), of STATION_PLL_SYSTEM_CFG_ADDR] le_imp_power_dvd [OF assms(4), of "2 :: nat"]
    by (auto simp: station_defs)
  let ?ws = "rom_words 0 0 (rom_image data dtb)"
  let ?s = "(with_target t s)\<lparr>ht_server := (ht_server (with_target t s))\<lparr>sv_env := e\<rparr>\<rparr>"
  have mems: "make_mems ''2048'' = ret [(DRAM_BASE, 0x80000000)]"
    by (rule make_mems_2048)
  have rd: "OURSBUS_READ h STATION_PLL_SYSTEM_CFG_ADDR 0 s = (Inr data, with_target t s)"
    using t(1) by (simp add: OURSBUS_READ_def bnd_Inr shift_in_8 assms(5) word_at_def)
  have dt: "make_dtb tool data [(DRAM_BASE, 0x80000000)] (with_target t s) = (Inr ?ws, ?s)"
    using assms(6) by (simp add: make_dtb_def host_call_def on_server_def on_env_run bnd_def)
  have len: "4 * length ?ws = length (rom_image data dtb)"
  proof -
    have "length (concat (map (le_bytes 4) ws)) = 4 * length ws" for ws :: "u32 list"
      by (induction ws) simp_all
    then show ?thesis
      using rom_image_bytes [of data dtb] by metis
  qed
  obtain n where "length (rom_image data dtb) = 4096 * n"
    using rom_image_length by blast
  then have even: "even (length ?ws)"
    using len by simp
  have a: "0x80000000 \<le> rom_addr s" "unat (rom_addr s) \<le> 0x82000000"
    by (simp_all add: rom_addr_def)
  have "rom_addr ?s = rom_addr s"
    by (simp add: rom_addr_def arg_of_def with_target_def)
  moreover obtain t' where "write_rom h (rom_addr s) ?ws ?s = (Inr (), with_target t' ?s)"
      "mem t' = upd_range (mem (target_of ?s)) (rom_addr s) (concat (map (le_bytes 4) ?ws))"
    using write_rom_law [OF assms(1) _ assms(3) a(1) _ even, of ?s] t(2) len rom_image_bound [of data dtb] assms(7) a(2)
    by (auto simp: target_of_def)
  moreover have "target_of ?s = t"
    by (simp add: target_of_def)
  ultimately show ?thesis
    by (intro exI [of _ "with_target t' ?s"]) (simp add: load_rom_def bnd_Inr rd mems dt t(3) rom_image_bytes)
qed

definition echo_tool :: "u8 list \<Rightarrow> unit tool_ops" where
  "echo_tool out = \<lparr>tl_dtc = (\<lambda>_ e. (Some out, e)), tl_pll = (\<lambda>_ _ e. ([], e))\<rparr>"

theorem rom_is_loaded_witness:
  "\<exists>s'. load_rom ideal (echo_tool [0xd0, 0x0d, 0xfe, 0xed]) (answering [] (\<lambda>_. 0)) = (Inr (), s')
    \<and> target_of s' = upd_range (\<lambda>_. 0) (rom_addr (answering [] (\<lambda>_. 0))) (rom_image 0 [0xd0, 0x0d, 0xfe, 0xed])"
  using rom_is_loaded [OF ideal_is_chunk_target, where s = "answering [] (\<lambda>_. 0)" and data = 0
      and tool = "echo_tool [0xd0, 0x0d, 0xfe, 0xed]" and dtb = "[0xd0, 0x0d, 0xfe, 0xed]"]
  by (simp add: echo_tool_def)

section \<open>The configuration word there and back\<close>

lemma find_skip: "\<forall>c \<in> set xs. c \<noteq> CHR ''_'' \<Longrightarrow> find_from ''__'' (xs @ ys) i = find_from ''__'' ys (i + length xs)"
  by (induction xs arbitrary: i) auto

text \<open>Entries \<open>key_value\<close>, joined by \<open>__\<close>.\<close>

definition entry_text :: "string \<times> string \<Rightarrow> string" where
  "entry_text = (\<lambda>(k, v). k @ ''_'' @ v)"

definition plain :: "string \<Rightarrow> bool" where
  "plain s \<longleftrightarrow> s \<noteq> [] \<and> (\<forall>c \<in> set s. c \<noteq> CHR ''_'')"

fun config_text :: "(string \<times> string) list \<Rightarrow> string" where
  "config_text [] = []"
| "config_text [kv] = entry_text kv"
| "config_text (kv # kv' # kvs) = entry_text kv @ ''__'' @ config_text (kv' # kvs)"

lemma find_entry:
  assumes "plain k" and "plain v"
  shows "find_from ''__'' (k @ ''_'' @ v @ ys) i = find_from ''__'' ys (i + length (k @ ''_'' @ v))"
proof -
  from assms(2) obtain c cs where v: "v = c # cs" "c \<noteq> CHR ''_''"
    by (cases v) (auto simp: plain_def)
  have "find_from ''__'' (k @ ''_'' @ v @ ys) i = find_from ''__'' (CHR ''_'' # v @ ys) (i + length k)"
    using find_skip [of k "''_'' @ v @ ys" i] assms(1) by (auto simp: plain_def)
  also have "\<dots> = find_from ''__'' (v @ ys) (Suc (i + length k))"
    using v by simp
  also have "\<dots> = find_from ''__'' ys (Suc (i + length k) + length v)"
    using find_skip [of v ys] assms(2) by (auto simp: plain_def)
  finally show ?thesis by (simp add: add.assoc)
qed

lemma split_multi_config:
  assumes "kvs \<noteq> []" and "\<forall>(k, v) \<in> set kvs. plain k \<and> plain v"
  shows "split_multi (config_text kvs) = map entry_text kvs"
  using assms
proof (induction kvs rule: config_text.induct)
  case (2 kv)
  then have "find_sub ''__'' (entry_text kv) = None"
    using find_entry [of "fst kv" "snd kv" "[]" 0] by (auto simp: entry_text_def find_sub_def split: prod.splits)
  then show ?case by (simp add: split_multi.simps)
next
  case (3 kv kv' kvs)
  then have "find_sub ''__'' (entry_text kv @ ''__'' @ config_text (kv' # kvs)) = Some (length (entry_text kv))"
    using find_entry [of "fst kv" "snd kv" "''__'' @ config_text (kv' # kvs)" 0]
    by (auto simp: entry_text_def find_sub_def split: prod.splits)
  then show ?case
    using 3 by (simp add: split_multi.simps [of "entry_text kv @ _"])
qed simp

lemma split_entry: "plain k \<Longrightarrow> plain v \<Longrightarrow> split (CHR ''_'') (entry_text (k, v)) = [k, v]"
proof -
  assume p: "plain k" "plain v"
  then have k: "takeWhile (\<lambda>c. c \<noteq> CHR ''_'') (k @ ''_'' @ v) = k"
    using takeWhile_append2 [of k "\<lambda>c. c \<noteq> CHR ''_''" "''_'' @ v"] by (auto simp: plain_def)
  have v: "takeWhile (\<lambda>c. c \<noteq> CHR ''_'') v = v"
    using p(2) by (simp add: plain_def takeWhile_eq_all_conv)
  have "split (CHR ''_'') (entry_text (k, v)) = k # split (CHR ''_'') v"
    using p k by (subst split.simps) (simp add: entry_text_def plain_def)
  also have "split (CHR ''_'') v = [v]"
    using p by (subst split.simps) (simp add: plain_def v split.simps [of _ "[]"])
  finally show ?thesis .
qed

lemma bit_set_flag: "m < 32 \<Longrightarrow> n < 32 \<Longrightarrow> bit (set_flag m d) n \<longleftrightarrow> bit d n \<or> n = m"
  by (auto simp: set_flag_def bit_simps)

lemma bit_clear_flag: "m < 32 \<Longrightarrow> n < 32 \<Longrightarrow> bit (clear_flag m d) n \<longleftrightarrow> bit d n \<and> n \<noteq> m"
  by (auto simp: clear_flag_def bit_simps)

lemma bit_test: "drop_bit n (x :: u64) AND 1 = 1 \<longleftrightarrow> bit x n"
  by (simp add: and_one_eq odd_iff_mod_2_eq_one [symmetric] bit_iff_odd_drop_bit)

lemma bit_isa_flags:
  assumes "n < 32"
  shows "bit (isa_flags isa d) n \<longleftrightarrow>
    (if n = 25 then contains ''64'' isa \<or> bit d n \<and> \<not> contains ''32'' isa
     else bit d n \<or> (n = 26 \<and> contains ''i'' isa) \<or> (n = 27 \<and> contains ''m'' isa) \<or> (n = 28 \<and> contains ''a'' isa)
       \<or> (n = 29 \<and> contains ''f'' isa) \<or> (n = 30 \<and> contains ''d'' isa) \<or> (n = 31 \<and> contains ''c'' isa))"
  using assms by (auto simp: isa_flags_def bit_set_flag bit_clear_flag)

text \<open>The configuration of one chip, as the command line writes it.\<close>

definition chip_entries :: "nat \<Rightarrow> bool \<Rightarrow> nat \<Rightarrow> string \<Rightarrow> (string \<times> string) list" where
  "chip_entries nc w64 f isa =
    [(''nc'', to_dec nc), (''xlen'', if w64 then ''64'' else ''32''), (''f'', to_dec f), (''isa'', isa)]"

definition packed_word :: "nat \<Rightarrow> bool \<Rightarrow> nat \<Rightarrow> string \<Rightarrow> u64" where
  "packed_word nc w64 f isa =
    isa_flags isa
      ((if w64 then set_flag 8 (ucast (of_nat nc :: u8)) else clear_flag 8 (ucast (of_nat nc :: u8)))
       OR push_bit 9 (ucast (of_nat f :: u16)))"

lemma plain_to_dec: "plain (to_dec n)"
proof -
  have "c \<noteq> CHR ''_''" if c: "c \<in> set (to_dec n)" for c
  proof -
    obtain k :: nat where "k < 10" "c = char_of (48 + k)"
      using to_dec_digits [OF c] by blast
    then show ?thesis using dec_digit(4) [of k] by simp
  qed
  moreover have "to_dec n \<noteq> []"
    using to_dec_head [of n] by auto
  ultimately show ?thesis by (simp add: plain_def)
qed

lemma strtol_widths: "strtol 10 ''64'' = 64" "strtol 10 ''32'' = 32"
  by (simp_all add: strtol_def strto_def strto_unsigned_def hex_prefix_def is_digit_def digit_val_def is_space_def
      Let_def)

lemma config_word_chip:
  assumes "nc < 256" and "f < 65536" and "plain isa"
  shows "config_word (map entry_text (chip_entries nc w64 f isa)) 0 = ret (packed_word nc w64 f isa)"
proof -
  have "plain ''nc''" "plain ''xlen''" "plain ''f''" "plain ''isa''" "plain ''64''" "plain ''32''"
    by (simp_all add: plain_def)
  then have e: "split (CHR ''_'') (entry_text (''nc'', to_dec nc)) = [''nc'', to_dec nc]"
      "split (CHR ''_'') (entry_text (''xlen'', ''64'')) = [''xlen'', ''64'']"
      "split (CHR ''_'') (entry_text (''xlen'', ''32'')) = [''xlen'', ''32'']"
      "split (CHR ''_'') (entry_text (''f'', to_dec f)) = [''f'', to_dec f]"
      "split (CHR ''_'') (entry_text (''isa'', isa)) = [''isa'', isa]"
    using assms(3) plain_to_dec by (simp_all only: split_entry)
  have v: "strtol 10 (to_dec nc) = int nc" "strtol 10 (to_dec f) = int f"
    using assms(1,2) by (simp_all add: strtol_to_dec)
  show ?thesis
    by (cases w64)
      (simp_all add: chip_entries_def e config_entry_def v strtol_widths packed_word_def del: ret_run)
qed

lemma bit_packed:
  assumes "nc < 256" and "f < 65536" and "n < 25"
  shows "bit (packed_word nc w64 f isa) n \<longleftrightarrow>
    (if n < 8 then bit nc n else if n = 8 then w64 else bit f (n - 9))"
  using assms
  by (auto simp: packed_word_def bit_isa_flags bit_set_flag bit_clear_flag bit_simps)

lemma bit_packed_isa:
  assumes "nc < 256" and "f < 65536" and "25 \<le> n" and "n < 32"
  shows "bit (packed_word nc w64 f isa) n \<longleftrightarrow>
    (if n = 25 then contains ''64'' isa
     else (n = 26 \<and> contains ''i'' isa) \<or> (n = 27 \<and> contains ''m'' isa) \<or> (n = 28 \<and> contains ''a'' isa)
       \<or> (n = 29 \<and> contains ''f'' isa) \<or> (n = 30 \<and> contains ''d'' isa) \<or> (n = 31 \<and> contains ''c'' isa))"
proof -
  have "\<not> bit ((if w64 then set_flag 8 (ucast (of_nat nc :: u8)) else clear_flag 8 (ucast (of_nat nc :: u8)))
      OR push_bit 9 (ucast (of_nat f :: u16))) n"
    using assms(3,4) by (auto simp: bit_set_flag bit_clear_flag bit_simps)
  then show ?thesis
    using assms(4) by (simp only: packed_word_def bit_isa_flags [OF assms(4)]) simp
qed

lemma masks_8_16: "(0xff :: u64) = mask 8" "(0xffff :: u64) = mask 16" "(0x3f :: u64) = mask 6"
  by (simp_all add: mask_eq_exp_minus_1)

lemma cfg_fields:
  assumes "nc < 256" and "f < 65536"
  shows "packed_word nc w64 f isa AND 0xff = of_nat nc"
    and "drop_bit 8 (packed_word nc w64 f isa) AND 1 = of_bool w64"
    and "drop_bit 9 (packed_word nc w64 f isa) AND 0xffff = of_nat f"
proof -
  have "take_bit 16 f = f" "take_bit 8 nc = nc"
    using assms by (simp_all add: take_bit_nat_eq_self)
  then have high: "bit f i \<Longrightarrow> i < 16" "bit nc i \<Longrightarrow> i < 8" for i
    by (metis bit_take_bit_iff)+
  then have low: "bit f i \<Longrightarrow> i + 9 < 25" "bit nc i \<Longrightarrow> i < 25" for i
    by fastforce+
  show "packed_word nc w64 f isa AND 0xff = of_nat nc"
    unfolding masks_8_16
    by (rule bit_word_eqI) (use high low in \<open>auto simp: bit_simps bit_packed [OF assms]\<close>)
  show "drop_bit 8 (packed_word nc w64 f isa) AND 1 = of_bool w64"
    using bit_packed [OF assms, of 8 w64 isa] bit_test [of 8 "packed_word nc w64 f isa"]
    by (cases w64) (simp_all add: and_one_eq)
  show "drop_bit 9 (packed_word nc w64 f isa) AND 0xffff = of_nat f"
    unfolding masks_8_16
    by (rule bit_word_eqI) (use high low in \<open>auto simp: bit_simps bit_packed [OF assms]\<close>)
qed

lemma cfg_isa_packed:
  assumes "nc < 256" and "f < 65536"
  shows "cfg_isa (packed_word nc w64 f isa)
    = (if contains ''64'' isa then ''rv64'' else ''rv32'')
      @ concat (filter (\<lambda>c. contains c isa) [''i'', ''m'', ''a'', ''f'', ''d'', ''c''])"
proof -
  let ?w = "packed_word nc w64 f isa"
  have ext: "drop_bit i (drop_bit 26 ?w AND 0x3f) AND 1 = 1 \<longleftrightarrow> bit ?w (26 + i)" if "i < 6" for i
    using that by (simp only: bit_test masks_8_16) (simp add: bit_simps)
  let ?L = "enumerate 0 [''i'', ''m'', ''a'', ''f'', ''d'', ''c'']"
  have "map (\<lambda>(n, c). if drop_bit n (drop_bit 26 ?w AND 0x3f) AND 1 = 1 then c else []) ?L
      = map (\<lambda>(n, c). if bit ?w (26 + n) then c else []) ?L"
  proof (rule map_cong [OF refl])
    fix x assume "x \<in> set ?L"
    then obtain i c where "x = (i, c)" "i < 6"
      by (auto simp: in_set_enumerate_eq)
    then show "(\<lambda>(n, c). if drop_bit n (drop_bit 26 ?w AND 0x3f) AND 1 = 1 then c else []) x
        = (\<lambda>(n, c). if bit ?w (26 + n) then c else []) x"
      by (simp only: ext split)
  qed
  then show ?thesis
    unfolding cfg_isa_def bit_test
    using bit_packed_isa [OF assms, of 25 w64 isa] by (simp only: bit_test) (simp add: bit_packed_isa [OF assms])
qed

text \<open>
  The configuration word is read back as it was given. From the text the command line gives for
  a number of cores below 256, a width, a frequency below 65536 MHz and an instruction set name, the
  word is packed so that \<open>make_dtb\<close> finds exactly those cores, that width and that frequency, and the
  extensions the name contains, in the standard order.
\<close>

theorem chip_config_round_trip:
  assumes "nc < 256" and "f < 65536" and "plain isa"
  shows "\<exists>data. config_word (split_multi (config_text (chip_entries nc w64 f isa))) 0 = ret data
    \<and> cfg_cores data = nc \<and> cfg_xlen data = of_bool w64 \<and> cfg_hz data = f * 1000000
    \<and> cfg_isa data = (if contains ''64'' isa then ''rv64'' else ''rv32'')
        @ concat (filter (\<lambda>c. contains c isa) [''i'', ''m'', ''a'', ''f'', ''d'', ''c''])"
proof -
  have "split_multi (config_text (chip_entries nc w64 f isa)) = map entry_text (chip_entries nc w64 f isa)"
    using assms(3) plain_to_dec by (intro split_multi_config) (auto simp: chip_entries_def plain_def)
  moreover have "unat (of_nat f * 1000000 :: u64) = f * 1000000" "unat (of_nat nc :: u64) = nc"
    using assms(1,2) by (simp_all add: unat_word_ariths unsigned_of_nat take_bit_nat_eq_self)
  ultimately show ?thesis
    using assms
    by (intro exI [of _ "packed_word nc w64 f isa"])
      (simp add: config_word_chip cfg_cores_def cfg_xlen_def cfg_hz_def cfg_fields cfg_isa_packed del: ret_run)
qed

theorem chip_config_round_trip_witness:
  "\<exists>data. config_word (split_multi (config_text (chip_entries 4 True 600 ''rv64imafdc''))) 0 = (ret data :: (unit, u64) prog)
    \<and> cfg_cores data = 4 \<and> cfg_xlen data = of_bool True \<and> cfg_hz data = 600 * 1000000
    \<and> cfg_isa data = (if contains ''64'' ''rv64imafdc'' then ''rv64'' else ''rv32'')
        @ concat (filter (\<lambda>c. contains c ''rv64imafdc'') [''i'', ''m'', ''a'', ''f'', ''d'', ''c''])"
  by (rule chip_config_round_trip) (simp_all add: plain_def)

text \<open>
  With more than ten cores the device tree names a processor that it does not define. The
  interrupt controllers are labelled in decimal and listed in hexadecimal, so the reference for the
  eleventh is \<open>CPUa_intc\<close>, and no core has that label.
\<close>

definition cpu_label :: "nat \<Rightarrow> string" where
  "cpu_label i = ''CPU'' @ to_dec i @ ''_intc''"

lemma line_printed: "l \<in> set ls \<Longrightarrow> \<exists>a b. text_lines ls = a @ l @ b"
proof -
  assume "l \<in> set ls"
  then obtain xs ys where "ls = xs @ l # ys" by (auto dest: split_list)
  then have "text_lines ls = text_lines xs @ l @ [CHR 0x0A] @ text_lines ys"
    by (simp add: text_lines_def)
  then show ?thesis by blast
qed

lemma cpu_label_printed: "\<exists>a b. dts_cpu hz xlen isa j = a @ cpu_label j @ b"
proof -
  have "\<exists>a b. dts_cpu hz xlen isa j = a @ (''      CPU'' @ to_dec j @ ''_intc: interrupt-controller {'') @ b"
    unfolding dts_cpu_def by (rule line_printed) (simp only: list.set insert_iff simp_thms)
  then obtain a b where "dts_cpu hz xlen isa j = a @ (''      CPU'' @ to_dec j @ ''_intc: interrupt-controller {'') @ b"
    by blast
  moreover have "''      CPU'' @ to_dec j @ ''_intc: interrupt-controller {''
      = ''      '' @ cpu_label j @ '': interrupt-controller {''"
    by (simp add: cpu_label_def)
  ultimately have "dts_cpu hz xlen isa j = (a @ ''      '') @ cpu_label j @ ('': interrupt-controller {'' @ b)"
    by (simp only: append_assoc)
  then show ?thesis by blast
qed

lemma to_hex_small: "i < 10 \<Longrightarrow> to_hex i = to_dec i"
  by (simp add: to_hex.simps to_dec_unfold hex_digit_char_def)

theorem eleventh_core_dangles:
  "clint_ref 10 = ''&CPUa_intc 3 &CPUa_intc 7 ''
    \<and> (\<forall>j. cpu_label j \<noteq> ''CPUa_intc'') \<and> (\<exists>a b. dts_cpu hz xlen isa j = a @ cpu_label j @ b)
    \<and> map clint_ref [0..<10] = map (\<lambda>i. ''&'' @ cpu_label i @ '' 3 &'' @ cpu_label i @ '' 7 '') [0..<10]"
proof (intro conjI allI)
  show "clint_ref 10 = ''&CPUa_intc 3 &CPUa_intc 7 ''"
    by (simp add: clint_ref_def to_hex.simps hex_digit_char_def char_of_def bit_0)
  show "cpu_label j \<noteq> ''CPUa_intc''" for j
  proof
    assume "cpu_label j = ''CPUa_intc''"
    then have "to_dec j @ ''_intc'' = ''a'' @ ''_intc''"
      by (simp add: cpu_label_def)
    then have a: "to_dec j = ''a''"
      by (simp only: append_same_eq)
    obtain k cs where "to_dec j = char_of (48 + k) # cs" "k < (10 :: nat)"
      using to_dec_head by blast
    with a have k: "char_of (48 + k) = CHR ''a''" "k < 10" by simp_all
    have n: "(of_char (char_of (48 + k)) :: nat) = 48 + k" using k(2) by simp
    have "(of_char (char_of (48 + k)) :: nat) = 97"
      unfolding k(1) by simp
    then show False using n k(2) by linarith
  qed
  show "\<exists>a b. dts_cpu hz xlen isa j = a @ cpu_label j @ b"
    by (rule cpu_label_printed)
  show "map clint_ref [0..<10] = map (\<lambda>i. ''&'' @ cpu_label i @ '' 3 &'' @ cpu_label i @ '' 7 '') [0..<10]"
    by (rule map_cong) (simp_all add: clint_ref_def cpu_label_def to_hex_small)
qed

end
