(* ===== verification/Es1y.thy ===== *)
theory Es1y
  imports Device_Tree
begin

text \<open>
  The steps of the boot sequence in \<open>es1y.cc\<close> that set up clocks, caches, resets and the debug
  registers. Progress messages and the comparisons that only print are left out, except that the
  self tests return whether all their checks agreed. A loop that waits for a register takes
  \<open>fuel\<close>, the number of readings it may make.
\<close>

section \<open>Clocks and self test\<close>

definition incr_test_io_freq :: "'t htif_ops \<Rightarrow> ('t, 'e, unit) hprog" where
  "incr_test_io_freq h =
    bnd (arg ''incr_test_io_freq='') (\<lambda>v.
      OURSBUS_WRITE h STATION_SDIO_S2B_TEST_IO_CLKDIV_HALF_DIV_LESS_1_ADDR (of_int (atoi v)))"

definition io_test :: "'t htif_ops \<Rightarrow> ('t, 'e, bool) hprog" where
  "io_test h =
    (let data = 0x123456789abcdef0 in
     andThen (OURSBUS_WRITE h (0x8000000000 + 8 * 4) data)
     (bnd (OURSBUS_READ h (0x8000000000 + 8 * 4) 0) (\<lambda>d1.
      andThen (OURSBUS_WRITE h 0x9000001000 data)
      (bnd (OURSBUS_READ h 0x9000001000 0) (\<lambda>d2. ret (d1 = data \<and> d2 = data))))))"

text \<open>\<open>strtok\<close> skips empty tokens.\<close>

definition strtok_tokens :: "char \<Rightarrow> string \<Rightarrow> string list" where
  "strtok_tokens d s = filter (\<lambda>t. t \<noteq> []) (split d s)"

text \<open>
  \<open>program_pll\<close>: the two frequencies are handed to an external calculator, whose line of output
  gives four numbers. A missing token is a null pointer; the command line is built in 256 bytes,
  98 of which are not the frequencies.
\<close>

definition program_pll :: "'t htif_ops \<Rightarrow> 'e tool_ops \<Rightarrow> string \<Rightarrow> ('t, 'e, unit) hprog" where
  "program_pll h tool key =
    (let ts = strtok_tokens (CHR ''_'') key in
     andThen (definedM ''strcpy into pll_str'' (length key < 256))
     (andThen (definedM ''null string in sprintf'' (2 \<le> length ts))
     (andThen (definedM ''sprintf into cmd'' (length (ts ! 0) + length (ts ! 1) + 98 < 256))
     (bnd (host_call (tl_pll tool (ts ! 0) (ts ! 1))) (\<lambda>line.
      let ns = strtok_tokens (CHR '' '') (take 254 line) in
      andThen (definedM ''null string in strtoul'' (4 \<le> length ns))
        (write_regs h
          [(STATION_SLOW_IO_SCU_FUNC_CLKR_ADDR, strtoul 10 (ns ! 0) - 1),
           (STATION_SLOW_IO_SCU_FUNC_CLKF_ADDR, strtoul 10 (ns ! 1) - 1),
           (STATION_SLOW_IO_SCU_FUNC_CLKOD_ADDR, strtoul 10 (ns ! 2) - 1),
           (STATION_SLOW_IO_SCU_FUNC_BWADJ_ADDR, strtoul 10 (ns ! 3) - 1),
           (STATION_SLOW_IO_SCU_FUNC_INTFB_ADDR, 1),
           (STATION_SLOW_IO_SCU_FUNC_PROG_DONE_ADDR, 1),
           (STATION_SLOW_IO_SCU_FUNC_BYPASS_ADDR, 0),
           (STATION_SLOW_IO_SCU_FUNC_RESET_ADDR, 0),
           (STATION_SLOW_IO_SCU_FUNC_CLK_SEL_ADDR, 1)]))))))"

definition sram_ddr :: "'t htif_ops \<Rightarrow> ('t, 'e, unit) hprog" where
  "sram_ddr h = write_regs h
    [(STATION_BYP_S2B_DDRLS_CLKDIV_DIVCLK_SEL_ADDR, 0), (STATION_BYP_S2B_DDR_BYPASS_EN_ADDR, 0)]"

definition reset_sdio :: "'t htif_ops \<Rightarrow> nat \<Rightarrow> ('t, 'e, unit) hprog" where
  "reset_sdio h fuel =
    andThen (write_regs h [(STATION_SDIO_S2ICG_PLLCLK_EN_ADDR, 1), (STATION_SDIO_S2B_RESETN_ADDR, 1)])
      (await_reg h fuel STATION_SDIO_S2B_RESETN_ADDR (\<lambda>x. x = 1))"

section \<open>Caches\<close>

definition config_l1 :: "'t htif_ops \<Rightarrow> ('t, 'e, unit) hprog" where
  "config_l1 h =
    bnd (arg ''config_l1='') (\<lambda>mode.
    andThen
      (if mode = ''tlb_bypass'' then write_regs h
         [(STATION_VP_S2B_CFG_BYPASS_TLB_ADDR_0, 1), (STATION_VP_S2B_CFG_BYPASS_TLB_ADDR_1, 1),
          (STATION_VP_S2B_CFG_BYPASS_TLB_ADDR_2, 1), (STATION_VP_S2B_CFG_BYPASS_TLB_ADDR_3, 1)]
       else ret ())
    (andThen
      (if mode = ''ic_bypass'' then write_regs h
         [(STATION_VP_S2B_CFG_BYPASS_IC_ADDR_0, 1), (STATION_VP_S2B_CFG_BYPASS_IC_ADDR_1, 1),
          (STATION_VP_S2B_CFG_BYPASS_IC_ADDR_2, 1), (STATION_VP_S2B_CFG_BYPASS_IC_ADDR_3, 1)]
       else ret ())
      (if mode = ''nobypass'' then OURSBUS_WRITE h STATION_ORV32_S2B_CFG_BYPASS_IC_ADDR 0 else ret ())))"

text \<open>
  \<open>config_l2\<close>. The three values drawn for \<open>random\<close>, and the sleep modes drawn for \<open>lp\<close>, which
  \<open>ctrl_reg\<close> holds before it is overwritten.
\<close>

definition l2_random :: "'e os_ops \<Rightarrow> ('t, 'e, int \<times> int \<times> int) hprog" where
  "l2_random os =
    bnd (host_call (os_random os)) (\<lambda>r.
    let rate = r mod 100 in
    if rate < 20 then bnd (host_call (os_random os)) (\<lambda>m. ret (m mod 4, 0, 0))
    else bnd (host_call (os_random os)) (\<lambda>p.
      ret (if rate < 40 then 1 else if rate < 60 then 2 else if rate < 80 then 3 else 0, 1, p AND 0xffffff)))"

fun draw_ways :: "'e os_ops \<Rightarrow> nat \<Rightarrow> nat \<Rightarrow> u64 \<Rightarrow> ('t, 'e, u64) hprog" where
  "draw_ways os i 0 ctrl = ret ctrl"
| "draw_ways os i (Suc n) ctrl =
    bnd (host_call (os_random os)) (\<lambda>r.
      draw_ways os (Suc i) n (ctrl OR of_int (push_bit (2 * (7 - i)) (r mod 2 + 2))))"

definition config_l2 :: "'t htif_ops \<Rightarrow> 'e os_ops \<Rightarrow> ('t, 'e, unit) hprog" where
  "config_l2 h os =
    (let two = (\<lambda>v. [(STATION_CACHE_S2B_CTRL_REG_ADDR_0, v), (STATION_CACHE_S2B_CTRL_REG_ADDR_1, v)]);
         vls_mode = 0 :: int; vls_en = 0 :: int; pbase = 0 :: int in
     bnd (arg ''config_l2='') (\<lambda>mode.
     if mode = ''random'' then bnd (l2_random os) (\<lambda>_. ret ())
     else if mode = ''test'' then write_regs h (two (push_bit 28 0x5555) @ two (push_bit 28 0))
     else if mode = ''shutdown'' then write_regs h (two (push_bit 28 0xffff))
     else if mode = ''sleep'' then write_regs h (two (push_bit 28 0x5555))
     else if mode = ''lp'' then
       bnd (host_call (os_random os)) (\<lambda>r.
       bnd (draw_ways os 0 (nat (r mod 7 + 1)) 0) (\<lambda>_.
       let ctrl = of_int (push_bit 25 vls_mode + push_bit 24 vls_en + pbase) in
       write_regs h
         [(STATION_CACHE_S2B_CTRL_REG_ADDR_0, ctrl), (STATION_CACHE_S2B_CTRL_REG_ADDR_1, ctrl),
          (STATION_CACHE_S2B_CTRL_REG_ADDR_2, ctrl), (STATION_CACHE_S2B_CTRL_REG_ADDR_3, ctrl)]))
     else ret ()))"

text \<open>The macro \<open>release_bank_reset\<close>, instantiated for the four banks.\<close>

definition release_bank_reset :: "'t htif_ops \<Rightarrow> nat \<Rightarrow> u64 \<Rightarrow> u64 \<Rightarrow> ('t, 'e, unit) hprog" where
  "release_bank_reset h fuel clk_en rstn =
    andThen (write_regs h [(clk_en, 1), (rstn, 1)]) (await_reg h fuel rstn (\<lambda>x. x = 1))"

definition release_bank0_reset :: "'t htif_ops \<Rightarrow> nat \<Rightarrow> ('t, 'e, unit) hprog" where
  "release_bank0_reset h fuel = release_bank_reset h fuel STATION_CACHE_S2ICG_CLK_EN_ADDR_0 STATION_CACHE_S2B_RSTN_ADDR_0"
definition release_bank1_reset :: "'t htif_ops \<Rightarrow> nat \<Rightarrow> ('t, 'e, unit) hprog" where
  "release_bank1_reset h fuel = release_bank_reset h fuel STATION_CACHE_S2ICG_CLK_EN_ADDR_1 STATION_CACHE_S2B_RSTN_ADDR_1"
definition release_bank2_reset :: "'t htif_ops \<Rightarrow> nat \<Rightarrow> ('t, 'e, unit) hprog" where
  "release_bank2_reset h fuel = release_bank_reset h fuel STATION_CACHE_S2ICG_CLK_EN_ADDR_2 STATION_CACHE_S2B_RSTN_ADDR_2"
definition release_bank3_reset :: "'t htif_ops \<Rightarrow> nat \<Rightarrow> ('t, 'e, unit) hprog" where
  "release_bank3_reset h fuel = release_bank_reset h fuel STATION_CACHE_S2ICG_CLK_EN_ADDR_3 STATION_CACHE_S2B_RSTN_ADDR_3"

definition release_reset_for_l2 :: "'t htif_ops \<Rightarrow> nat \<Rightarrow> ('t, 'e, unit) hprog" where
  "release_reset_for_l2 h fuel =
    seqM [release_bank0_reset h fuel, release_bank1_reset h fuel, release_bank2_reset h fuel, release_bank3_reset h fuel]"

text \<open>\<open>test_l2\<close> and \<open>test_l1\<close> are empty.\<close>

definition test_l2 :: "('t, 'e, unit) hprog" where "test_l2 = ret ()"
definition test_l1 :: "('t, 'e, unit) hprog" where "test_l1 = ret ()"

text \<open>Eight ways of 512 entries each, two thousand entries apart.\<close>

definition set_0_to_bank_vldram :: "'t htif_ops \<Rightarrow> u64 \<Rightarrow> ('t, 'e, unit) hprog" where
  "set_0_to_bank_vldram h base =
    forM [0..<8] (\<lambda>way. forM [0..<512] (\<lambda>idx.
      let index = push_bit 9 (push_bit 2 way) + idx in
      OURSBUS_WRITE h (base + of_nat index * 8) 0))"

definition set_0_to_bank0_vldram :: "'t htif_ops \<Rightarrow> ('t, 'e, unit) hprog" where
  "set_0_to_bank0_vldram h = set_0_to_bank_vldram h STATION_CACHE_DBG_VLDRAM_ADDR_0"
definition set_0_to_bank1_vldram :: "'t htif_ops \<Rightarrow> ('t, 'e, unit) hprog" where
  "set_0_to_bank1_vldram h = set_0_to_bank_vldram h STATION_CACHE_DBG_VLDRAM_ADDR_1"
definition set_0_to_bank2_vldram :: "'t htif_ops \<Rightarrow> ('t, 'e, unit) hprog" where
  "set_0_to_bank2_vldram h = set_0_to_bank_vldram h STATION_CACHE_DBG_VLDRAM_ADDR_2"
definition set_0_to_bank3_vldram :: "'t htif_ops \<Rightarrow> ('t, 'e, unit) hprog" where
  "set_0_to_bank3_vldram h = set_0_to_bank_vldram h STATION_CACHE_DBG_VLDRAM_ADDR_3"

definition set_0_to_l2_vldram :: "'t htif_ops \<Rightarrow> ('t, 'e, unit) hprog" where
  "set_0_to_l2_vldram h =
    seqM [set_0_to_bank0_vldram h, set_0_to_bank1_vldram h, set_0_to_bank2_vldram h, set_0_to_bank3_vldram h]"

end
