(* ===== verification/Cores.thy ===== *)
theory Cores
  imports Es1y
begin

text \<open>
  The steps of \<open>es1y.cc\<close> around the processors: early resets, the tag memories and warm-up of the
  first-level caches, reset addresses, breakpoints and the release of the resets.
\<close>

section \<open>Early resets\<close>

definition release_early_reset :: "'t htif_ops \<Rightarrow> u64 \<Rightarrow> ('t, 'e, unit) hprog" where
  "release_early_reset h a = OURSBUS_WRITE h a 1"

definition release_orv32_early_reset :: "'t htif_ops \<Rightarrow> ('t, 'e, unit) hprog" where
  "release_orv32_early_reset h = release_early_reset h STATION_ORV32_S2B_EARLY_RSTN_ADDR"
definition release_vp0_early_reset :: "'t htif_ops \<Rightarrow> ('t, 'e, unit) hprog" where
  "release_vp0_early_reset h = release_early_reset h STATION_VP_S2B_EARLY_RSTN_ADDR_0"
definition release_vp1_early_reset :: "'t htif_ops \<Rightarrow> ('t, 'e, unit) hprog" where
  "release_vp1_early_reset h = release_early_reset h STATION_VP_S2B_EARLY_RSTN_ADDR_1"
definition release_vp2_early_reset :: "'t htif_ops \<Rightarrow> ('t, 'e, unit) hprog" where
  "release_vp2_early_reset h = release_early_reset h STATION_VP_S2B_EARLY_RSTN_ADDR_2"
definition release_vp3_early_reset :: "'t htif_ops \<Rightarrow> ('t, 'e, unit) hprog" where
  "release_vp3_early_reset h = release_early_reset h STATION_VP_S2B_EARLY_RSTN_ADDR_3"

definition release_all_early_reset :: "'t htif_ops \<Rightarrow> ('t, 'e, unit) hprog" where
  "release_all_early_reset h =
    seqM [release_orv32_early_reset h, release_vp0_early_reset h, release_vp1_early_reset h,
          release_vp2_early_reset h, release_vp3_early_reset h]"

section \<open>First-level caches\<close>

text \<open>Two random numbers side by side, the upper one drawn first.\<close>

definition random64 :: "'e os_ops \<Rightarrow> ('t, 'e, u64) hprog" where
  "random64 os =
    bnd (host_call (os_random os)) (\<lambda>hi. bnd (host_call (os_random os)) (\<lambda>lo. ret (of_int (push_bit 32 hi + lo))))"

text \<open>Each tag is written with a random word and read, which only prints a mismatch, then cleared.\<close>

definition set_zero_to_l1_tagram :: "'t htif_ops \<Rightarrow> 'e os_ops \<Rightarrow> u64 \<Rightarrow> u64 \<Rightarrow> ('t, 'e, unit) hprog" where
  "set_zero_to_l1_tagram h os way0 way1 =
    forM [0..<128] (\<lambda>index.
      bnd (random64 os) (\<lambda>w0. bnd (random64 os) (\<lambda>w1.
      andThen (write_regs h [(way0 + of_nat index * 8, w0), (way1 + of_nat index * 8, w1)])
      (bnd (OURSBUS_READ_4B h (way0 + of_nat index * 8) 0) (\<lambda>_.
       bnd (OURSBUS_READ_4B h (way1 + of_nat index * 8) 0) (\<lambda>_.
       write_regs h [(way0 + of_nat index * 8, 0), (way1 + of_nat index * 8, 0)]))))))"

definition set_0_to_orv32_l1_tagram :: "'t htif_ops \<Rightarrow> 'e os_ops \<Rightarrow> ('t, 'e, unit) hprog" where
  "set_0_to_orv32_l1_tagram h os = set_zero_to_l1_tagram h os STATION_ORV32_IC_TAG_WAY_0_ADDR STATION_ORV32_IC_TAG_WAY_1_ADDR"
definition set_0_to_vp0_l1_tagram :: "'t htif_ops \<Rightarrow> 'e os_ops \<Rightarrow> ('t, 'e, unit) hprog" where
  "set_0_to_vp0_l1_tagram h os = set_zero_to_l1_tagram h os STATION_VP_IC_TAG_WAY_0_ADDR_0 STATION_VP_IC_TAG_WAY_1_ADDR_0"
definition set_0_to_vp1_l1_tagram :: "'t htif_ops \<Rightarrow> 'e os_ops \<Rightarrow> ('t, 'e, unit) hprog" where
  "set_0_to_vp1_l1_tagram h os = set_zero_to_l1_tagram h os STATION_VP_IC_TAG_WAY_0_ADDR_1 STATION_VP_IC_TAG_WAY_1_ADDR_1"
definition set_0_to_vp2_l1_tagram :: "'t htif_ops \<Rightarrow> 'e os_ops \<Rightarrow> ('t, 'e, unit) hprog" where
  "set_0_to_vp2_l1_tagram h os = set_zero_to_l1_tagram h os STATION_VP_IC_TAG_WAY_0_ADDR_2 STATION_VP_IC_TAG_WAY_1_ADDR_2"
definition set_0_to_vp3_l1_tagram :: "'t htif_ops \<Rightarrow> 'e os_ops \<Rightarrow> ('t, 'e, unit) hprog" where
  "set_0_to_vp3_l1_tagram h os = set_zero_to_l1_tagram h os STATION_VP_IC_TAG_WAY_0_ADDR_3 STATION_VP_IC_TAG_WAY_1_ADDR_3"

definition set_0_to_l1_tagram :: "'t htif_ops \<Rightarrow> 'e os_ops \<Rightarrow> ('t, 'e, unit) hprog" where
  "set_0_to_l1_tagram h os =
    seqM [set_0_to_vp0_l1_tagram h os, set_0_to_vp1_l1_tagram h os, set_0_to_vp2_l1_tagram h os,
          set_0_to_vp3_l1_tagram h os]"

text \<open>
  \<open>warmup_l1_cache\<close>: the tags of one way are made valid, then for each line a program of no-ops
  before it and jumps-to-self from it on is started and stopped. Its last part runs only when
  \<open>release_vcore_reset\<close> is given, which is not a key of the argument map.
\<close>

definition warmup_tag :: "nat \<Rightarrow> nat \<Rightarrow> u8 list" where
  "warmup_tag wayid index = [0x00, 0x00, 0x80, 0x00, of_nat index, (0x22 + of_nat wayid) * 4, 0xc2, 0x01]"

definition warmup_line :: "nat \<Rightarrow> u64" where
  "warmup_line i = 0x10000000 + of_nat i * 0x10000 + 32 * of_nat i"

definition warmup_l1_cache :: "'t htif_ops \<Rightarrow> ('t, 'e, unit) hprog" where
  "warmup_l1_cache h =
    andThen
      (forM [0..<2] (\<lambda>wayid. forM [0..<128] (\<lambda>index. ht_write h (0x8000000000 + 8 * 5) (warmup_tag wayid index))))
      (forM [0..<128] (\<lambda>i.
        andThen (forM (rev [1..<17]) (\<lambda>j. OURSBUS_WRITE h (warmup_line i - 8 * of_nat j) 0x0000001300000013))
        (andThen (forM [0..<16] (\<lambda>j. OURSBUS_WRITE h (warmup_line i + 8 * of_nat j) 0x0000006f0000006f))
        (andThen (write_regs h [(0x8000000000 + 8 * 3, warmup_line i - 4), (0x8000000000 + 8 * 2, 0x3f8)])
        (andThen (forM [0..<50] (\<lambda>_. bnd (OURSBUS_READ h 0x8000000000 0) (\<lambda>_. ret ())))
          (OURSBUS_WRITE h (0x8000000000 + 8 * 2) 0x3fc))))))"

section \<open>Reset addresses\<close>

definition set_reset_pc :: "'t htif_ops \<Rightarrow> string \<Rightarrow> u64 \<Rightarrow> ('t, 'e, unit) hprog" where
  "set_reset_pc h key a = bnd (arg key) (\<lambda>v. bnd (stoul 16 v) (\<lambda>rst_pc. OURSBUS_WRITE h a rst_pc))"

definition set_orv32_reset_pc :: "'t htif_ops \<Rightarrow> ('t, 'e, unit) hprog" where
  "set_orv32_reset_pc h = set_reset_pc h ''set_orv32_rst_pc='' STATION_ORV32_S2B_CFG_RST_PC_ADDR"
definition set_vp0_reset_pc :: "'t htif_ops \<Rightarrow> ('t, 'e, unit) hprog" where
  "set_vp0_reset_pc h = set_reset_pc h ''set_vp0_rst_pc='' STATION_VP_S2B_CFG_RST_PC_ADDR_0"
definition set_vp1_reset_pc :: "'t htif_ops \<Rightarrow> ('t, 'e, unit) hprog" where
  "set_vp1_reset_pc h = set_reset_pc h ''set_vp1_rst_pc='' STATION_VP_S2B_CFG_RST_PC_ADDR_1"
definition set_vp2_reset_pc :: "'t htif_ops \<Rightarrow> ('t, 'e, unit) hprog" where
  "set_vp2_reset_pc h = set_reset_pc h ''set_vp2_rst_pc='' STATION_VP_S2B_CFG_RST_PC_ADDR_2"
definition set_vp3_reset_pc :: "'t htif_ops \<Rightarrow> ('t, 'e, unit) hprog" where
  "set_vp3_reset_pc h = set_reset_pc h ''set_vp3_rst_pc='' STATION_VP_S2B_CFG_RST_PC_ADDR_3"

text \<open>Each of the four reads its own argument, not \<open>set_all_vp_rst_pc=\<close>.\<close>

definition set_all_vp_reset_pc :: "'t htif_ops \<Rightarrow> ('t, 'e, unit) hprog" where
  "set_all_vp_reset_pc h =
    seqM [set_vp0_reset_pc h, set_vp1_reset_pc h, set_vp2_reset_pc h, set_vp3_reset_pc h]"

section \<open>Resets with breakpoints\<close>

text \<open>The registers of one vector processor that the macro \<open>release_vp_reset\<close> names.\<close>

record vp_regs =
  vp_stall :: u64
  vp_early_rstn :: u64
  vp_rstn :: u64
  vp_en_bp :: "u64 list"
  vp_bp :: "u64 list"
  vp_en_instret :: u64
  vp_instret :: u64

definition release_vp_reset :: "'t htif_ops \<Rightarrow> 'e os_ops \<Rightarrow> vp_regs \<Rightarrow> ('t, 'e, unit) hprog" where
  "release_vp_reset h os r =
    bnd (arg ''test_bp='') (\<lambda>bp.
    andThen (if bp = ''step_through'' then OURSBUS_WRITE h (vp_stall r) 1 else ret ())
    (bnd (if bp \<noteq> [] then bnd (arg ''bp_pc='') get_breakpoints else ret []) (\<lambda>breakpoints.
     bnd (arg ''test_instret='') (\<lambda>instret.
     andThen (if instret = ''step_through'' then OURSBUS_WRITE h (vp_stall r) 1 else ret ())
     (bnd (if instret \<noteq> [] then bnd (arg ''instret='') get_breakpoints else ret []) (\<lambda>inst_breakpoints.
      andThen (write_regs h [(vp_early_rstn r, 1), (vp_rstn r, 1)])
      (andThen (if bp \<noteq> [] then set_breakpoints h os (vp_en_bp r) (vp_bp r) breakpoints else ret ())
        (if instret \<noteq> [] then set_breakpoints h os [vp_en_instret r] [vp_instret r] inst_breakpoints
         else ret ()))))))))"

definition vp0_regs :: vp_regs where
  "vp0_regs = \<lparr>vp_stall = STATION_VP_S2B_DEBUG_STALL_ADDR_0, vp_early_rstn = STATION_VP_S2B_EARLY_RSTN_ADDR_0,
     vp_rstn = STATION_VP_S2B_RSTN_ADDR_0,
     vp_en_bp =
      [STATION_VP_S2B_EN_BP_IF_PC_0_ADDR_0, STATION_VP_S2B_EN_BP_IF_PC_1_ADDR_0,
       STATION_VP_S2B_EN_BP_IF_PC_2_ADDR_0, STATION_VP_S2B_EN_BP_IF_PC_3_ADDR_0,
       STATION_VP_S2B_EN_BP_WB_PC_0_ADDR_0, STATION_VP_S2B_EN_BP_WB_PC_1_ADDR_0,
       STATION_VP_S2B_EN_BP_WB_PC_2_ADDR_0, STATION_VP_S2B_EN_BP_WB_PC_3_ADDR_0],
     vp_bp =
      [STATION_VP_S2B_BP_IF_PC_0_ADDR_0, STATION_VP_S2B_BP_IF_PC_1_ADDR_0,
       STATION_VP_S2B_BP_IF_PC_2_ADDR_0, STATION_VP_S2B_BP_IF_PC_3_ADDR_0,
       STATION_VP_S2B_BP_WB_PC_0_ADDR_0, STATION_VP_S2B_BP_WB_PC_1_ADDR_0,
       STATION_VP_S2B_BP_WB_PC_2_ADDR_0, STATION_VP_S2B_BP_WB_PC_3_ADDR_0],
     vp_en_instret = STATION_VP_S2B_EN_BP_INSTRET_ADDR_0, vp_instret = STATION_VP_S2B_BP_INSTRET_ADDR_0\<rparr>"

definition vp1_regs :: vp_regs where
  "vp1_regs = \<lparr>vp_stall = STATION_VP_S2B_DEBUG_STALL_ADDR_1, vp_early_rstn = STATION_VP_S2B_EARLY_RSTN_ADDR_1,
     vp_rstn = STATION_VP_S2B_RSTN_ADDR_1,
     vp_en_bp =
      [STATION_VP_S2B_EN_BP_IF_PC_0_ADDR_1, STATION_VP_S2B_EN_BP_IF_PC_1_ADDR_1,
       STATION_VP_S2B_EN_BP_IF_PC_2_ADDR_1, STATION_VP_S2B_EN_BP_IF_PC_3_ADDR_1,
       STATION_VP_S2B_EN_BP_WB_PC_0_ADDR_1, STATION_VP_S2B_EN_BP_WB_PC_1_ADDR_1,
       STATION_VP_S2B_EN_BP_WB_PC_2_ADDR_1, STATION_VP_S2B_EN_BP_WB_PC_3_ADDR_1],
     vp_bp =
      [STATION_VP_S2B_BP_IF_PC_0_ADDR_1, STATION_VP_S2B_BP_IF_PC_1_ADDR_1,
       STATION_VP_S2B_BP_IF_PC_2_ADDR_1, STATION_VP_S2B_BP_IF_PC_3_ADDR_1,
       STATION_VP_S2B_BP_WB_PC_0_ADDR_1, STATION_VP_S2B_BP_WB_PC_1_ADDR_1,
       STATION_VP_S2B_BP_WB_PC_2_ADDR_1, STATION_VP_S2B_BP_WB_PC_3_ADDR_1],
     vp_en_instret = STATION_VP_S2B_EN_BP_INSTRET_ADDR_1, vp_instret = STATION_VP_S2B_BP_INSTRET_ADDR_1\<rparr>"

definition vp2_regs :: vp_regs where
  "vp2_regs = \<lparr>vp_stall = STATION_VP_S2B_DEBUG_STALL_ADDR_2, vp_early_rstn = STATION_VP_S2B_EARLY_RSTN_ADDR_2,
     vp_rstn = STATION_VP_S2B_RSTN_ADDR_2,
     vp_en_bp =
      [STATION_VP_S2B_EN_BP_IF_PC_0_ADDR_2, STATION_VP_S2B_EN_BP_IF_PC_1_ADDR_2,
       STATION_VP_S2B_EN_BP_IF_PC_2_ADDR_2, STATION_VP_S2B_EN_BP_IF_PC_3_ADDR_2,
       STATION_VP_S2B_EN_BP_WB_PC_0_ADDR_2, STATION_VP_S2B_EN_BP_WB_PC_1_ADDR_2,
       STATION_VP_S2B_EN_BP_WB_PC_2_ADDR_2, STATION_VP_S2B_EN_BP_WB_PC_3_ADDR_2],
     vp_bp =
      [STATION_VP_S2B_BP_IF_PC_0_ADDR_2, STATION_VP_S2B_BP_IF_PC_1_ADDR_2,
       STATION_VP_S2B_BP_IF_PC_2_ADDR_2, STATION_VP_S2B_BP_IF_PC_3_ADDR_2,
       STATION_VP_S2B_BP_WB_PC_0_ADDR_2, STATION_VP_S2B_BP_WB_PC_1_ADDR_2,
       STATION_VP_S2B_BP_WB_PC_2_ADDR_2, STATION_VP_S2B_BP_WB_PC_3_ADDR_2],
     vp_en_instret = STATION_VP_S2B_EN_BP_INSTRET_ADDR_2, vp_instret = STATION_VP_S2B_BP_INSTRET_ADDR_2\<rparr>"

definition vp3_regs :: vp_regs where
  "vp3_regs = \<lparr>vp_stall = STATION_VP_S2B_DEBUG_STALL_ADDR_3, vp_early_rstn = STATION_VP_S2B_EARLY_RSTN_ADDR_3,
     vp_rstn = STATION_VP_S2B_RSTN_ADDR_3,
     vp_en_bp =
      [STATION_VP_S2B_EN_BP_IF_PC_0_ADDR_3, STATION_VP_S2B_EN_BP_IF_PC_1_ADDR_3,
       STATION_VP_S2B_EN_BP_IF_PC_2_ADDR_3, STATION_VP_S2B_EN_BP_IF_PC_3_ADDR_3,
       STATION_VP_S2B_EN_BP_WB_PC_0_ADDR_3, STATION_VP_S2B_EN_BP_WB_PC_1_ADDR_3,
       STATION_VP_S2B_EN_BP_WB_PC_2_ADDR_3, STATION_VP_S2B_EN_BP_WB_PC_3_ADDR_3],
     vp_bp =
      [STATION_VP_S2B_BP_IF_PC_0_ADDR_3, STATION_VP_S2B_BP_IF_PC_1_ADDR_3,
       STATION_VP_S2B_BP_IF_PC_2_ADDR_3, STATION_VP_S2B_BP_IF_PC_3_ADDR_3,
       STATION_VP_S2B_BP_WB_PC_0_ADDR_3, STATION_VP_S2B_BP_WB_PC_1_ADDR_3,
       STATION_VP_S2B_BP_WB_PC_2_ADDR_3, STATION_VP_S2B_BP_WB_PC_3_ADDR_3],
     vp_en_instret = STATION_VP_S2B_EN_BP_INSTRET_ADDR_3, vp_instret = STATION_VP_S2B_BP_INSTRET_ADDR_3\<rparr>"

definition release_vp0_reset :: "'t htif_ops \<Rightarrow> 'e os_ops \<Rightarrow> ('t, 'e, unit) hprog" where
  "release_vp0_reset h os = release_vp_reset h os vp0_regs"
definition release_vp1_reset :: "'t htif_ops \<Rightarrow> 'e os_ops \<Rightarrow> ('t, 'e, unit) hprog" where
  "release_vp1_reset h os = release_vp_reset h os vp1_regs"
definition release_vp2_reset :: "'t htif_ops \<Rightarrow> 'e os_ops \<Rightarrow> ('t, 'e, unit) hprog" where
  "release_vp2_reset h os = release_vp_reset h os vp2_regs"
definition release_vp3_reset :: "'t htif_ops \<Rightarrow> 'e os_ops \<Rightarrow> ('t, 'e, unit) hprog" where
  "release_vp3_reset h os = release_vp_reset h os vp3_regs"

definition release_all_vp_reset :: "'t htif_ops \<Rightarrow> 'e os_ops \<Rightarrow> ('t, 'e, unit) hprog" where
  "release_all_vp_reset h os =
    seqM [release_vp0_reset h os, release_vp1_reset h os, release_vp2_reset h os, release_vp3_reset h os]"

definition orv32_en_bp :: "u64 list" where
  "orv32_en_bp =
       [STATION_ORV32_S2B_EN_BP_IF_PC_0_ADDR,
        STATION_ORV32_S2B_EN_BP_IF_PC_1_ADDR,
        STATION_ORV32_S2B_EN_BP_IF_PC_2_ADDR,
        STATION_ORV32_S2B_EN_BP_IF_PC_3_ADDR,
        STATION_ORV32_S2B_EN_BP_WB_PC_0_ADDR,
        STATION_ORV32_S2B_EN_BP_WB_PC_1_ADDR,
        STATION_ORV32_S2B_EN_BP_WB_PC_2_ADDR,
        STATION_ORV32_S2B_EN_BP_WB_PC_3_ADDR]"

definition orv32_bp :: "u64 list" where
  "orv32_bp =
       [STATION_ORV32_S2B_BP_IF_PC_0_ADDR,
        STATION_ORV32_S2B_BP_IF_PC_1_ADDR,
        STATION_ORV32_S2B_BP_IF_PC_2_ADDR,
        STATION_ORV32_S2B_BP_IF_PC_3_ADDR,
        STATION_ORV32_S2B_BP_WB_PC_0_ADDR,
        STATION_ORV32_S2B_BP_WB_PC_1_ADDR,
        STATION_ORV32_S2B_BP_WB_PC_2_ADDR,
        STATION_ORV32_S2B_BP_WB_PC_3_ADDR]"

definition release_orv32_reset :: "'t htif_ops \<Rightarrow> 'e os_ops \<Rightarrow> ('t, 'e, unit) hprog" where
  "release_orv32_reset h os =
    bnd (arg ''test_bp='') (\<lambda>bp.
    andThen
      (if bp \<noteq> [] then
         andThen (if bp = ''step_through'' then OURSBUS_WRITE h STATION_ORV32_S2B_DEBUG_STALL_ADDR 1 else ret ())
           (bnd (bnd (arg ''bp_pc='') get_breakpoints) (set_breakpoints h os orv32_en_bp orv32_bp))
       else ret ())
      (write_regs h [(STATION_ORV32_S2B_EARLY_RSTN_ADDR, 1), (STATION_ORV32_S2B_RSTN_ADDR, 1)]))"

section \<open>Flash\<close>

definition enable_flash_fsm :: "'t htif_ops \<Rightarrow> ('t, 'e, unit) hprog" where
  "enable_flash_fsm h = write_regs h
    [(STATION_SLOW_IO_S2B_BOOT_FROM_FLASH_ENA_ADDR, 1), (STATION_SLOW_IO_S2B_BOOT_FROM_FLASH_ENA_SW_CTRL_ADDR, 1)]"

definition enable_boot_fsm :: "'t htif_ops \<Rightarrow> ('t, 'e, unit) hprog" where
  "enable_boot_fsm h = write_regs h
    [(STATION_SLOW_IO_S2B_BOOTUP_ENA_ADDR, 1), (STATION_SLOW_IO_S2B_BOOTUP_ENA_SW_CTRL_ADDR, 1)]"

definition read_from_flash :: "'t htif_ops \<Rightarrow> ('t, 'e, bool) hprog" where
  "read_from_flash h =
    bnd (OURSBUS_READ h STATION_SLOW_IO_FLASH_ADDR 0) (\<lambda>d0.
    bnd (OURSBUS_READ h (STATION_SLOW_IO_FLASH_ADDR + 0x8) 0) (\<lambda>d1.
      ret (d0 = 0x8967452301efcdab \<and> d1 = 0x1111111111111111)))"

end
