(* ===== verification/Images.thy ===== *)
theory Images
  imports Cores
begin

text \<open>
  The steps of \<open>es1y.cc\<close> that fill target memory: programs and their symbols, images and weights,
  the stack, the magic-memory registers, the memory test script, and the dump of the second-level
  cache.
\<close>

section \<open>Programs\<close>

definition load_elf_file :: "'t htif_ops \<Rightarrow> 'e host_ops \<Rightarrow> string \<Rightarrow> ('t, 'e, (string \<times> u64) list) hprog" where
  "load_elf_file h ho path =
    bnd (getS (\<lambda>s. ho_file ho path (sv_env (ht_server s)))) (\<lambda>file.
    bnd (on_mem (load_elf h file)) (\<lambda>(entry, syms).
    andThen (modS (\<lambda>s. s\<lparr>ht_entry := entry\<rparr>)) (ret syms)))"

definition load_symbols_file :: "'e host_ops \<Rightarrow> string \<Rightarrow> ('t, 'e, (string \<times> u64) list) hprog" where
  "load_symbols_file ho path =
    bnd (getS (\<lambda>s. ho_file ho path (sv_env (ht_server s)))) (\<lambda>file.
    bnd (on_mem (load_elf_symbols_only file)) (\<lambda>(entry, syms).
    andThen (modS (\<lambda>s. s\<lparr>ht_entry := entry\<rparr>)) (ret syms)))"

definition load_elf_file_s :: "'t htif_ops \<Rightarrow> 'e host_ops \<Rightarrow> string \<Rightarrow> ('t, 'e, (string \<times> int) list) hprog" where
  "load_elf_file_s h ho path =
    bnd (getS (\<lambda>s. ho_file ho path (sv_env (ht_server s)))) (\<lambda>file.
    bnd (on_mem (load_elf_s h file)) (\<lambda>(entry, syms).
    andThen (modS (\<lambda>s. s\<lparr>ht_entry := entry\<rparr>)) (ret syms)))"

definition load_symbols_file_s :: "'e host_ops \<Rightarrow> string \<Rightarrow> ('t, 'e, (string \<times> int) list) hprog" where
  "load_symbols_file_s ho path =
    bnd (getS (\<lambda>s. ho_file ho path (sv_env (ht_server s)))) (\<lambda>file.
    bnd (on_mem (load_elf_symbols_only_s file)) (\<lambda>(entry, syms).
    andThen (modS (\<lambda>s. s\<lparr>ht_entry := entry\<rparr>)) (ret syms)))"

text \<open>The first program, or its symbols alone.\<close>

definition load_first :: "'t htif_ops \<Rightarrow> 'e host_ops \<Rightarrow> ('t, 'e, unit) hprog" where
  "load_first h ho =
    bnd (flag ''load_pk'') (\<lambda>pk.
    bnd (flag ''load_2nd_file'') (\<lambda>second.
    bnd (flag ''filename1'') (\<lambda>f1.
    bnd (getS ht_path) (\<lambda>path.
    if pk then
      bnd (load_elf_file h ho path) (\<lambda>syms.
      andThen (on_server (modS (\<lambda>sv. sv\<lparr>sv_symbols := syms\<rparr>)))
        (if second then ret () else modS (\<lambda>s. s\<lparr>ht_program_symbols := syms\<rparr>)))
    else if f1 then
      bnd (load_symbols_file ho path) (\<lambda>syms. on_server (modS (\<lambda>sv. sv\<lparr>sv_symbols := syms\<rparr>)))
    else ret ()))))"

text \<open>
  A symbol names \<open>tohost\<close> when it is that name, or that name with a dotted suffix; the last one in
  map order counts.
\<close>

definition names :: "string \<Rightarrow> string \<Rightarrow> bool" where
  "names base nm \<longleftrightarrow> take (length base) nm = base
    \<and> (length nm = length base \<or> take 1 (drop (length base) nm) = ''.'')"

definition host_addrs :: "(string \<times> u64) list \<Rightarrow> u64 \<times> u64 \<Rightarrow> u64 \<times> u64" where
  "host_addrs syms = fold (\<lambda>(nm, v) (th, fh).
    (if names ''tohost'' nm then v else th, if names ''fromhost'' nm then v else fh)) syms"

definition set_host_addrs :: "('t, 'e, unit) hprog" where
  "set_host_addrs = modS (\<lambda>s.
    let (th, fh) = host_addrs (sv_symbols (ht_server s)) (ht_tohost_addr s, ht_fromhost_addr s) in
    s\<lparr>ht_tohost_addr := th, ht_fromhost_addr := fh\<rparr>)"

text \<open>The second and the third file: as a program, read twice, or as symbols.\<close>

definition load_further :: "'t htif_ops \<Rightarrow> 'e host_ops \<Rightarrow> string \<Rightarrow> string \<Rightarrow> string \<Rightarrow> ('t, 'e, unit) hprog" where
  "load_further h ho prefix name_key load_key =
    bnd (arg name_key) (\<lambda>name.
    if name = [] then ret ()
    else
      bnd (find_file ho prefix [] name) (\<lambda>path.
      bnd (flag load_key) (\<lambda>load.
      bnd (if load then load_elf_file h ho path else load_symbols_file ho path) (\<lambda>syms.
      andThen (modS (\<lambda>s. s\<lparr>ht_program_symbols := syms\<rparr>))
      (bnd (if load then load_elf_file_s h ho path else load_symbols_file_s ho path) (\<lambda>syms_s.
       modS (\<lambda>s. s\<lparr>ht_program_symbols_s := syms_s\<rparr>)))))))"

text \<open>
  The maps from addresses to names. The offset of the payload needs the symbol \<open>_start\<close> of the
  program: without it the end of the map is dereferenced.
\<close>

definition invert :: "(string \<times> int) list \<Rightarrow> int \<Rightarrow> (int \<times> string) list \<Rightarrow> (int \<times> string) list" where
  "invert syms offset m = fold (\<lambda>(name, v) m. smap_put (v + offset) name m) syms m"

definition map_addresses :: "('t, 'e, unit) hprog" where
  "map_addresses =
    andThen (modS (\<lambda>s. s\<lparr>ht_addr_to_symbols := invert (ht_symbols_s s) 0 (ht_addr_to_symbols s)\<rparr>))
    (bnd (getS (\<lambda>s. (smap_get (ht_symbols_s s) ''_payload_start'', smap_get (ht_program_symbols_s s) ''_start'')))
      (\<lambda>(payload, start).
      bnd (case payload of
             None \<Rightarrow> ret 0
           | Some p \<Rightarrow> (case start of None \<Rightarrow> raise (Undefined ''dereference of map::end()'') | Some v \<Rightarrow> ret (v - p)))
        (\<lambda>offset. modS (\<lambda>s.
          s\<lparr>ht_addr_to_program_symbols := invert (ht_program_symbols_s s) offset (ht_addr_to_program_symbols s)\<rparr>))))"

definition load_kernel :: "'t htif_ops \<Rightarrow> 'e host_ops \<Rightarrow> string \<Rightarrow> ('t, 'e, unit) hprog" where
  "load_kernel h ho prefix =
    andThen (load_first h ho)
    (andThen set_host_addrs
    (andThen (load_further h ho prefix ''filename2'' ''load_2nd_file'')
    (andThen (load_further h ho prefix ''filename3'' ''load_3rd_file'')
      map_addresses)))"

section \<open>Images and weights\<close>

text \<open>The value of the first symbol with the prefix, zero when there is none.\<close>

definition first_with :: "string \<Rightarrow> (string \<times> u64) list \<Rightarrow> u64" where
  "first_with pre syms = (case filter (\<lambda>(n, v). take (length pre) n = pre) syms of [] \<Rightarrow> 0 | (n, v) # _ \<Rightarrow> v)"

text \<open>
  The file is mapped and copied eight bytes at a time; the last page of a mapping is filled up with
  zeros. An empty file cannot be mapped.
\<close>

definition copy_mapped :: "'t htif_ops \<Rightarrow> addr \<Rightarrow> u8 list \<Rightarrow> ('t, 'e, unit) hprog" where
  "copy_mapped h a buf =
    forM [0..<(length buf + 7) div 8] (\<lambda>j.
      ht_write h (a + 8 * of_nat j) (take 8 (drop (8 * j) (buf @ replicate 8 0))))"

definition load_blob :: "'t htif_ops \<Rightarrow> 'e host_ops \<Rightarrow> string \<Rightarrow> string \<Rightarrow> ('t, 'e, unit) hprog" where
  "load_blob h ho pre key =
    bnd (getS (\<lambda>s. (first_with pre (sv_symbols (ht_server s)), first_with pre (ht_program_symbols s)))) (\<lambda>(a1, a2).
    let a = (if a1 = 0 then a2 else a1) in
    if a = 0 then raise Aborted
    else
      bnd (arg key) (\<lambda>path.
      bnd (getS (\<lambda>s. ho_file ho path (sv_env (ht_server s)))) (\<lambda>file.
      case file of
        None \<Rightarrow> raise (Assert_failed ''fd != -1'')
      | Some buf \<Rightarrow>
          andThen (assertM ''buf != MAP_FAILED'' (buf \<noteq> [])) (copy_mapped h a buf))))"

definition load_image :: "'t htif_ops \<Rightarrow> 'e host_ops \<Rightarrow> ('t, 'e, unit) hprog" where
  "load_image h ho =
    bnd (flag ''load_image='') (\<lambda>f. if f then load_blob h ho ''image.'' ''load_image='' else ret ())"

definition load_weight :: "'t htif_ops \<Rightarrow> 'e host_ops \<Rightarrow> ('t, 'e, unit) hprog" where
  "load_weight h ho = load_blob h ho ''weights.'' ''load_weight=''"

section \<open>Stack and magic memory\<close>

text \<open>Zeros below the stack pointer, then zeros above it.\<close>

definition alloc_stack :: "'t htif_ops \<Rightarrow> ('t, 'e, unit) hprog" where
  "alloc_stack h =
    bnd (arg ''alloc_sp='') (\<lambda>v.
    let sp = of_int (strtol 16 v) :: u64 in
    andThen (forM [0..<1024] (\<lambda>i. ht_write h (sp - of_nat i * 8) (replicate 8 0)))
      (forM [0..<1024] (\<lambda>i. ht_write h (sp + (of_nat i + 1) * 8) (replicate 8 0))))"

definition zero_until_read :: "'t htif_ops \<Rightarrow> nat \<Rightarrow> addr \<Rightarrow> ('t, 'e, unit) hprog" where
  "zero_until_read h fuel a =
    bnd (poll fuel (andThen (ht_write h a (replicate 8 0)) (ht_read h a (uninit h 8))) (\<lambda>bs. \<forall>b \<in> set bs. b = 0))
      (\<lambda>_. ret ())"

definition set_magic_mem_address :: "'t htif_ops \<Rightarrow> nat \<Rightarrow> ('t, 'e, unit) hprog" where
  "set_magic_mem_address h fuel =
    (let touch = (\<lambda>a. bnd (ht_read h a (uninit h 8)) (\<lambda>_.
                     andThen (ht_write h a (replicate 8 0)) (bnd (ht_read h a (uninit h 8)) (\<lambda>_. ret ())))) in
     bnd (getS (\<lambda>s. (ht_fromhost_addr s, ht_tohost_addr s))) (\<lambda>(fh, th).
     seqM
       [touch 0x844000d000, touch 0x844000d008,
        ht_write h (0x8000000000 + 8 * 6) (replicate 8 0),
        ht_write h (0x8000000000 + 8 * 7) (replicate 8 0),
        ht_write h (0x8000000000 + 8 * 8) (le_bytes 8 fh),
        ht_write h (0x8000000000 + 8 * 9) (le_bytes 8 th),
        zero_until_read h fuel fh, zero_until_read h fuel th]))"

section \<open>The memory test\<close>

text \<open>One command of the script: its name, an address and a value.\<close>

definition mem_test_command :: "'t htif_ops \<Rightarrow> string \<times> string \<times> string \<Rightarrow> ('t, 'e, unit) hprog" where
  "mem_test_command h = (\<lambda>(cmd, a, d).
    if cmd = ''WR'' then
      bnd (stoul 0 d) (\<lambda>data. bnd (stoul 0 a) (\<lambda>ad. ht_write h ad (le_bytes 8 data)))
    else
      bnd (stoul 0 a) (\<lambda>ad. bnd (ht_read h ad (uninit h 8)) (\<lambda>_.
      if d \<noteq> ''X'' then bnd (stoul 0 d) (\<lambda>_. ret ()) else ret ())))"

text \<open>
  The words of the file. Reading past the end leaves a string as it was, and the stream is tested
  only before the next command, so a command made of what is left is still run.
\<close>

function file_words :: "string \<Rightarrow> string list" where
  "file_words s =
    (let t = dropWhile is_space s in
     if t = [] then []
     else takeWhile (\<lambda>c. \<not> is_space c) t # file_words (dropWhile (\<lambda>c. \<not> is_space c) t))"
  by pat_completeness auto
termination
proof (relation "measure length", simp_all, goal_cases)
  case (1 s)
  have "length (dropWhile (\<lambda>c. \<not> is_space c) (dropWhile is_space s)) < length (dropWhile is_space s)"
    using 1 hd_dropWhile [of is_space s] by (cases "dropWhile is_space s") (auto simp: length_dropWhile_le less_Suc_eq_le)
  also have "\<dots> \<le> length s" by (rule length_dropWhile_le)
  finally show ?case .
qed

declare file_words.simps [simp del]

fun mem_test_loop :: "'t htif_ops \<Rightarrow> string \<times> string \<times> string \<Rightarrow> string list \<Rightarrow> ('t, 'e, unit) hprog" where
  "mem_test_loop h old (a # b # c # ws) = andThen (mem_test_command h (a, b, c)) (mem_test_loop h (a, b, c) ws)"
| "mem_test_loop h (x, y, z) [a, b] = mem_test_command h (a, b, z)"
| "mem_test_loop h (x, y, z) [a] = mem_test_command h (a, y, z)"
| "mem_test_loop h old [] = mem_test_command h old"

definition mem_test :: "'t htif_ops \<Rightarrow> 'e host_ops \<Rightarrow> ('t, 'e, unit) hprog" where
  "mem_test h ho =
    bnd (arg ''mem_test='') (\<lambda>path.
    bnd (getS (\<lambda>s. ho_file ho path (sv_env (ht_server s)))) (\<lambda>file.
    case file of
      None \<Rightarrow> ret ()
    | Some bs \<Rightarrow> mem_test_loop h ([], [], []) (file_words (string_of bs))))"

section \<open>Dump and trigger\<close>

text \<open>
  \<open>dump_l2_after_loading\<close>: the lines it prints, an offset and eight bytes each. The address has no
  part for the index \<open>idx\<close>.
\<close>

definition dump_addr :: "nat \<Rightarrow> nat \<Rightarrow> nat \<Rightarrow> u64" where
  "dump_addr way bank chunk =
    push_bit 8 (push_bit 2 (push_bit 3 (push_bit 3 (push_bit 18 0x2b) + of_nat bank) + of_nat way) + of_nat chunk)"

definition dump_offset :: "nat \<Rightarrow> nat \<Rightarrow> nat \<Rightarrow> nat \<Rightarrow> nat" where
  "dump_offset way idx bank chunk =
    push_bit 3 (push_bit 2 (push_bit 3 (push_bit 8 way + idx) + bank) + chunk)"

definition dump_line :: "'t htif_ops \<Rightarrow> nat \<times> nat \<times> nat \<times> nat \<Rightarrow> ('t, 'e, nat \<times> u8 list) hprog" where
  "dump_line h = (\<lambda>(way, idx, bank, chunk).
    bnd (ht_read h (dump_addr way bank chunk) (replicate 8 0)) (\<lambda>bs. ret (dump_offset way idx bank chunk, bs)))"

definition dump_l2_after_loading :: "'t htif_ops \<Rightarrow> ('t, 'e, (nat \<times> u8 list) list) hprog" where
  "dump_l2_after_loading h =
    mapM (dump_line h)
      [(way, idx, bank, chunk). way \<leftarrow> [0..<8], idx \<leftarrow> [0..<256], bank \<leftarrow> [0..<8], chunk \<leftarrow> [0..<4]]"

definition trigger_afterwards :: "'t htif_ops \<Rightarrow> ('t, 'e, unit) hprog" where
  "trigger_afterwards h = ht_write h 0xffffffff00 (replicate 8 0)"

end
