(* ===== verification/Ddr_Firmware.thy ===== *)
theory Ddr_Firmware
  imports Htif
begin

text \<open>
  The register writes of the trained bring-up, \<open>train_1d.cc\<close> and \<open>train_1d_400.cc\<close>: the setup of the
  PHY, the program of its microcontroller in the SRAM from \<open>0x50000\<close> on, its data from \<open>0x54000\<close> on, and
  what is written once the training is over. The files are cut into blocks of 128 lines; a block that
  the second file has in common with the first is named after it. The words of a block that fills
  consecutive registers follow the number of the first.
\<close>

definition words_at :: "u64 \<Rightarrow> u64 list \<Rightarrow> (u64 \<times> u64) list" where
  "words_at a ds = map (\<lambda>(i, d). (a + of_nat i, d)) (enumerate 0 ds)"

subsection \<open>\<open>train_1d.cc\<close>\<close>

definition train_setup_600 :: "(u64 \<times> u64) list" where
  "train_setup_600 = [
    (0x1005f,0x1ff), (0x1015f,0x1ff), (0x1105f,0x1ff), (0x1115f,0x1ff), (0x55,0x1ff), (0x1055,0x1ff),
    (0x2055,0x1ff), (0x200c5,0xa), (0x2002e,0x2), (0x90204,0x0), (0x20024,0x1eb), (0x2003a,0x0),
    (0x20056,0x2), (0x1004d,0x280), (0x1014d,0x280), (0x1104d,0x280), (0x1114d,0x280), (0x10049,0x618),
    (0x10149,0x618), (0x11049,0x618), (0x11149,0x618), (0x43,0x3ff), (0x1043,0x3ff), (0x2043,0x3ff),
    (0x20018,0x1), (0x20075,0x4), (0x20050,0x0), (0x20008,0x258), (0x20088,0x9), (0x200b2,0x19c),
    (0x10043,0x5a1), (0x10143,0x5a1), (0x11043,0x5a1), (0x11143,0x5a1), (0x200fa,0x1), (0x20019,0x1),
    (0x200f0,0x0), (0x200f1,0x0), (0x200f2,0x4444), (0x200f3,0x8888), (0x200f4,0x5555), (0x200f5,0x0),
    (0x200f6,0x0), (0x200f7,0xf000), (0x2000b,0x4c), (0x2000c,0x97), (0x2000d,0x5dd), (0x2000e,0x2c),
    (0x20025,0x0), (0x2002d,0x0), (0x20060,0x2), (0xd0000,0x0)]"

definition train_imem_600_0 :: "(u64 \<times> u64) list" where
  "train_imem_600_0 = words_at 0x50000 [
    0x108, 0x0, 0x50, 0x0, 0x50, 0x0, 0x50, 0x0, 0x50, 0x0, 0x50, 0x0,
    0x50, 0x0, 0x50, 0x0, 0x50, 0x0, 0x50, 0x0, 0x50, 0x0, 0x50, 0x0,
    0x50, 0x0, 0x50, 0x0, 0x50, 0x0, 0x50, 0x0, 0x50, 0x0, 0x50, 0x0,
    0x50, 0x0, 0x50, 0x0, 0x2069, 0x40, 0x264a, 0x7000, 0x264a, 0x7000, 0x264a, 0x7000,
    0x0, 0x0, 0x0, 0x0, 0x0, 0x0, 0x0, 0x0, 0x0, 0x0, 0x0, 0x0,
    0x0, 0x0, 0x0, 0x0, 0xc0f1, 0xc0d1, 0x7ee0, 0x0, 0xc0f1, 0xc0d1, 0x7ee0, 0x0,
    0xc4e1, 0x44cb, 0x8000, 0x3000, 0xc15, 0x1703, 0x44cb, 0x8000, 0x4000, 0xc0d, 0x1702, 0xc4c1,
    0x2020, 0x7c0, 0x7fff, 0x78e0, 0x1cfc, 0xb3c8, 0x1cfc, 0xb388, 0x7fe0, 0x1cfc, 0xb348, 0x78e0,
    0x7ee0, 0x78e0, 0x748d, 0xdd0c, 0xf00c, 0x78e0, 0x748d, 0xdd08, 0xf009, 0x78e0, 0x748d, 0x74ad,
    0xf006, 0x78e0, 0x748d, 0xf006, 0xc702, 0xc601, 0x24b0, 0x334d, 0x24b0, 0x331f, 0x7ee0, 0x78e0,
    0x2244, 0x8ffc, 0x264a, 0x7000, 0x20e8, 0x1a2, 0x202f, 0x8000]"

definition train_imem_600_1 :: "(u64 \<times> u64) list" where
  "train_imem_600_1 = words_at 0x50080 [
    0x212f, 0x4b, 0x7ee0, 0x78e0, 0x44db, 0x8000, 0x4000, 0x42db, 0x8000, 0x400, 0x706f, 0x78e0,
    0xf72, 0xffcf, 0x2022, 0xf80, 0x0, 0x33b8, 0x2069, 0x40, 0x78e0, 0xf1fe, 0xc3e1, 0xc2e1,
    0xc1e1, 0xc0e1, 0xc0f1, 0xc5e1, 0xc1a1, 0xe806, 0x7487, 0xdc14, 0x797, 0xffcf, 0xda25, 0xba9f,
    0x8a60, 0x1233, 0x80, 0x7865, 0x1aea, 0x8002, 0x12ed, 0x8080, 0x208c, 0x8fc3, 0xf20d, 0xc085,
    0xc040, 0x4020, 0xc6a, 0x320, 0xc185, 0x41c3, 0x402, 0x0, 0xe9e, 0x60, 0xd8ff, 0x70ad,
    0x8c6, 0x2e0, 0x1a09, 0x3342, 0xbd2, 0x320, 0xd8ff, 0x25ab, 0x10c4, 0x7fff, 0xf1ff, 0x78e0,
    0xc2e6, 0x1cfc, 0xb6c8, 0xc1a6, 0xc141, 0xc001, 0x70ed, 0xc242, 0xa0e0, 0xc002, 0xc340, 0xa0e0,
    0xd83f, 0x1c11, 0x33c2, 0xc064, 0xc00b, 0xc043, 0xf002, 0x71e5, 0xf0b, 0x10b2, 0x70cd, 0xf080,
    0x71c5, 0xef7, 0x90d3, 0xc003, 0x8f9, 0x83ae, 0xc084, 0x60eb, 0xd83f, 0xe15, 0x10b0, 0x7866,
    0xe15, 0x1071, 0x4260, 0x780f, 0x4100, 0xf00a, 0x780f, 0x4100, 0x4200, 0xf007, 0xee87, 0x780f,
    0x4160, 0x4200, 0x4300, 0xde2, 0x340, 0x40c3, 0x0, 0x4e20]"

definition train_imem_600_2 :: "(u64 \<times> u64) list" where
  "train_imem_600_2 = words_at 0x50100 [
    0xede, 0x1a0, 0x702c, 0xc000, 0x706f, 0x84d, 0x3f, 0x70ad, 0xf028, 0x41c3, 0x8000, 0x714,
    0x8100, 0x60a8, 0x201a, 0xf80, 0x0, 0x2000, 0x2005, 0xf80, 0x9002, 0x54, 0x9040, 0x8100,
    0x60a9, 0xe2a, 0x60, 0x784f, 0xc184, 0x61e9, 0xb8c5, 0x71a5, 0xf821, 0xe806, 0xb861, 0x801,
    0x31, 0x7a5b, 0xc001, 0x8020, 0x7945, 0xa020, 0x1600, 0x7080, 0x8000, 0x711, 0xdb7, 0x9002,
    0xc000, 0x84f, 0x5f, 0xf1ae, 0x41c3, 0x8000, 0x718, 0x8100, 0x2032, 0x6c0, 0x201a, 0xf80,
    0x0, 0x2000, 0x2005, 0xf80, 0x9002, 0x54, 0x9040, 0x8100, 0x2032, 0x6c1, 0xdce, 0x60,
    0x784f, 0xc184, 0x61e9, 0xb8c5, 0x7167, 0xf80b, 0xe805, 0xb861, 0x8ff, 0x8031, 0x7a5b, 0xc002,
    0x8020, 0x7945, 0xa020, 0x40c3, 0x8000, 0x711, 0x8801, 0xbb5, 0xb002, 0xf184, 0xc0a6, 0x1404,
    0x341b, 0xc6c6, 0x7907, 0x265a, 0x1200, 0x4220, 0xb8c4, 0x7ee0, 0xc2e6, 0x1cfc, 0xb6c8, 0x2482,
    0x360d, 0x206f, 0x243, 0x1054, 0x81, 0x88a0, 0x1021, 0x80, 0xc145, 0x2400, 0x3f81, 0x0,
    0x344, 0xc048, 0xf0e, 0x160, 0x710c, 0x2455, 0x3800, 0xc040]"

definition train_imem_600_3 :: "(u64 \<times> u64) list" where
  "train_imem_600_3 = words_at 0x50180 [
    0xc08c, 0x2456, 0x3dc1, 0x2400, 0x3f82, 0x0, 0x1ac, 0xf6a, 0xa0, 0x2440, 0x39c3, 0x704c,
    0xc243, 0xf011, 0x2400, 0x3f80, 0x0, 0x284, 0x6059, 0x700c, 0xa900, 0x2400, 0x3f80, 0x0,
    0x1c4, 0x6059, 0x700c, 0xa900, 0x7144, 0x228c, 0x8fc2, 0xf6f0, 0x706c, 0xf003, 0x7164, 0xb19,
    0x332, 0x704c, 0xf00d, 0x235a, 0x601, 0x6038, 0x6059, 0x700c, 0xa900, 0x7144, 0xaf3, 0x8632,
    0x2455, 0x38c0, 0xf1f0, 0x251a, 0x1f80, 0x20, 0x0, 0x702c, 0x2005, 0xf80, 0x9001, 0xe100,
    0xc047, 0xb020, 0x251a, 0x1f80, 0x10, 0x0, 0xb887, 0xe3e, 0xa0, 0xc046, 0xe7e, 0xa0,
    0xc02c, 0xc04a, 0xe76, 0xa0, 0xc02e, 0xc04b, 0xf004, 0xc003, 0x7104, 0xc043, 0xc003, 0x7314,
    0x3cc, 0x29, 0x71cd, 0xc003, 0x47cb, 0x8000, 0x714, 0x849, 0x93, 0xc003, 0x1f10, 0x1003,
    0xc20a, 0x2079, 0x1, 0x1600, 0x7080, 0x8000, 0x4a, 0x2044, 0x4d, 0x7d27, 0x40a1, 0xc9e,
    0xe0, 0x702c, 0xc042, 0xc008, 0x43d9, 0x2544, 0x17ca, 0xa13, 0x1010, 0x2242, 0x104a, 0xaff,
    0x9031, 0x232f, 0x36c0, 0x2011, 0x8340, 0xf020, 0xc003, 0xafd0]"

definition train_imem_600_4 :: "(u64 \<times> u64) list" where
  "train_imem_600_4 = words_at 0x50200 [
    0xc20b, 0x2079, 0x81, 0x1600, 0x7080, 0x8000, 0x7d, 0x2044, 0x4d, 0x7d27, 0x40a1, 0xc5e,
    0xe0, 0x712c, 0xc042, 0xc005, 0x43d9, 0x2544, 0x17ce, 0xee07, 0xbe61, 0xe01, 0x1031, 0x232f,
    0x36c0, 0x2011, 0x8340, 0x72cd, 0xf3b3, 0xf5e, 0x60, 0x40c1, 0x40c3, 0x8000, 0x658, 0x41c3,
    0x8000, 0x6fd, 0x2055, 0xa42, 0x6901, 0x70b5, 0x20ca, 0x81, 0x8800, 0x6943, 0xa914, 0x4020,
    0x20c0, 0xa2, 0x8800, 0x70b5, 0xa915, 0x491b, 0x20ca, 0x81, 0xa700, 0x6945, 0x491d, 0x20ca,
    0x81, 0xa701, 0x6947, 0x491f, 0x70b5, 0x20ca, 0x81, 0xa702, 0x2140, 0x242, 0x4929, 0x20ca,
    0x81, 0xa703, 0xf02, 0x60, 0x40c1, 0x1e00, 0x7043, 0x8000, 0x658, 0xef6, 0x60, 0x40c1,
    0xc102, 0x202f, 0x6c7, 0xfba, 0x60, 0xc041, 0xc001, 0x70ed, 0x1e00, 0x73c2, 0x8000, 0x658,
    0xdfe, 0x0, 0xed2, 0x60, 0x40c1, 0x40c3, 0x3, 0xd090, 0xc0e, 0x1a0, 0x702c, 0xc005,
    0x230b, 0xb000, 0x2644, 0x1080, 0x2078, 0xd, 0xc044, 0xc008, 0x25c5, 0x1061, 0x230b, 0xb000,
    0x2644, 0x1040, 0x2078, 0x1b, 0x23c5, 0x3061, 0xc042, 0xf003]"

definition train_imem_600_5 :: "(u64 \<times> u64) list" where
  "train_imem_600_5 = words_at 0x50280 [
    0x71e5, 0xf0d, 0x1072, 0x70cd, 0xf073, 0x71c5, 0xe6bf, 0xf63a, 0x78db, 0x2084, 0x1, 0x2653,
    0x1101, 0x7905, 0x704c, 0xf00e, 0x6048, 0x7144, 0x201a, 0xf83, 0x0, 0x1000, 0xc006, 0x7865,
    0x781b, 0xb89c, 0xb89f, 0xb020, 0x1427, 0x3080, 0xae5, 0x8022, 0x2456, 0x3dc0, 0xc7e, 0x80,
    0xc001, 0xc193, 0xc292, 0x736c, 0xc42, 0xffef, 0x1c00, 0x31c1, 0xb4b, 0x303f, 0xdc08, 0x2400,
    0x3f80, 0x0, 0x284, 0x60d9, 0xc213, 0x8960, 0x2253, 0x140, 0x7865, 0xa900, 0x4040, 0x1140,
    0x83, 0xbc61, 0xcff, 0x9031, 0x781d, 0xb8c5, 0x7865, 0x1940, 0x2, 0x4040, 0xda10, 0x1180,
    0x83, 0xba61, 0xaff, 0x8031, 0x781d, 0xb8c5, 0x7865, 0x1980, 0x2, 0xd6b, 0x903f, 0xdc08,
    0x2400, 0x3f80, 0x0, 0x1c4, 0x60d9, 0xc212, 0x8960, 0x2253, 0x140, 0x7865, 0xa900, 0x4040,
    0x1140, 0x83, 0xbc61, 0xc01, 0x1031, 0x781d, 0xb8c5, 0x7865, 0x1940, 0x2, 0x4040, 0xda10,
    0x1180, 0x83, 0xba61, 0xa01, 0x31, 0x781d, 0xb8c5, 0x7865, 0x1980, 0x2, 0xf18f, 0xc007,
    0x70cd, 0xb0c0, 0x1e00, 0x7043, 0x8000, 0x658, 0xbc6, 0x80]"

definition train_imem_600_6 :: "(u64 \<times> u64) list" where
  "train_imem_600_6 = words_at 0x50300 [
    0xa0e, 0xa0, 0xc001, 0xc201, 0x41c3, 0x9f, 0x1, 0xa02, 0x60, 0x740c, 0xf002, 0x71c5,
    0x75d5, 0x586, 0xffe9, 0x740c, 0x41c3, 0xa0, 0x1, 0x9ea, 0x60, 0x42c1, 0x2440, 0x3c1b,
    0x2332, 0x3380, 0x208c, 0x8fc3, 0xf297, 0xc002, 0x70ed, 0x70ad, 0xe89c, 0xf045, 0x2332, 0x3381,
    0x2400, 0x3f80, 0x0, 0x1ac, 0x6028, 0x205f, 0x601, 0x2455, 0x38c0, 0x6038, 0x79bc, 0x793c,
    0x793c, 0x6119, 0x8900, 0x7865, 0xa900, 0x41c3, 0xa2, 0x1, 0x99e, 0x60, 0x740c, 0xe508,
    0x41a1, 0x706c, 0x708d, 0x258c, 0x9fc2, 0xf6db, 0xf01d, 0x2400, 0x3f80, 0x0, 0x284, 0x6028,
    0x2644, 0x17c3, 0xeb05, 0xbb61, 0xbff, 0x8031, 0x781d, 0xb8c0, 0x4300, 0x2444, 0x17c0, 0xe806,
    0xb861, 0x801, 0x31, 0x7b7b, 0x7b45, 0x7185, 0x7124, 0xcd3, 0x9232, 0x7a6f, 0xf1c4, 0x41c3,
    0xa3, 0x0, 0x94a, 0x60, 0x740c, 0xc004, 0x84b, 0x8030, 0x740c, 0x41c3, 0xa4, 0x1,
    0x936, 0x60, 0x42c1, 0xf01d, 0xc08c, 0x60d8, 0x8828, 0x2400, 0x3f80, 0x0, 0x1ac, 0x6028,
    0x205f, 0x601, 0x2455, 0x38c0, 0x6038, 0x79fc, 0x793c, 0x793c]"

definition train_imem_600_7 :: "(u64 \<times> u64) list" where
  "train_imem_600_7 = words_at 0x50380 [
    0x6119, 0x8900, 0x7865, 0xa900, 0x41c3, 0xa5, 0x1, 0x902, 0x60, 0x740c, 0xe708, 0x706c,
    0x41e1, 0x708d, 0x278c, 0x9fc2, 0xf6da, 0xf01e, 0x2400, 0x3f80, 0x0, 0x1c4, 0x6028, 0x2644,
    0x17c3, 0xeb06, 0xbb61, 0xb01, 0x31, 0x781d, 0xb8c0, 0x4300, 0x2444, 0x17c0, 0xe805, 0xb861,
    0x8ff, 0x8031, 0x7b7b, 0x7b45, 0x7185, 0x7124, 0xcd1, 0x9232, 0x7a6f, 0xf1c4, 0x740c, 0x41c3,
    0xa6, 0x0, 0xf005, 0x740c, 0x41c3, 0xa1, 0x0, 0x8a2, 0x40, 0xf153, 0x700c, 0xc045,
    0xc007, 0x702c, 0xa46, 0xa0, 0xb020, 0x700c, 0xf003, 0xc002, 0x7104, 0xc042, 0xc002, 0x7114,
    0x1ec, 0x9, 0x1427, 0x3080, 0x47cb, 0x0, 0xffff, 0xc744, 0xc043, 0x700c, 0xf003, 0xc001,
    0x7104, 0xc041, 0xc101, 0xc003, 0x7110, 0x148, 0x2a, 0x2455, 0x3801, 0xc001, 0x706c, 0x70ad,
    0x6109, 0xc002, 0xdaff, 0x70cd, 0x4778, 0x9df, 0x8021, 0x708d, 0xf002, 0x7185, 0x248c, 0x9fc2,
    0x7c, 0x29, 0x799c, 0x793c, 0xd81d, 0xb861, 0x8ff, 0x8031, 0x793d, 0x6438, 0xb8c2, 0x2002,
    0x8040, 0xf20b, 0x2044, 0x7c1, 0x40e3, 0xe906, 0xb961, 0x901]"

definition train_imem_600_8 :: "(u64 \<times> u64) list" where
  "train_imem_600_8 = words_at 0x50400 [
    0x31, 0x781d, 0xf00c, 0xc001, 0x2455, 0x38c1, 0x205a, 0x600, 0x6119, 0x789c, 0x781c, 0x781c,
    0x6108, 0x4718, 0x7950, 0x218c, 0x8fc3, 0xf40b, 0xe4df, 0x7ae, 0xffe9, 0xdaff, 0x8a7, 0x801f,
    0x70cd, 0x4281, 0xf1cf, 0xb8e0, 0x26c0, 0x1061, 0xf3cb, 0x79d0, 0x7870, 0x203c, 0x41, 0x247f,
    0x1fc0, 0x790b, 0x755c, 0x73dd, 0xdaff, 0xf1c1, 0x262f, 0xf0c8, 0xf406, 0x4548, 0x43c1, 0x262f,
    0xf388, 0xf249, 0x2304, 0xf80, 0x0, 0xfffe, 0x781d, 0x79b0, 0x6119, 0x782f, 0xe0c0, 0xf647,
    0xe0a0, 0xdc20, 0xd840, 0xf689, 0xf006, 0xe0df, 0xd85f, 0xdc5f, 0xf603, 0x4020, 0x4428, 0x7e0f,
    0x79af, 0x7d6f, 0x40c1, 0xb0e, 0x160, 0x42a1, 0x7c8f, 0x4308, 0x4081, 0xb02, 0x160, 0x42a1,
    0xc101, 0xc39a, 0x7b34, 0x2655, 0x1c01, 0x7a3b, 0x2284, 0x1, 0xb9c4, 0x7a25, 0xc101, 0xb340,
    0xc394, 0x7b34, 0x799b, 0x2156, 0xe01, 0x2442, 0x1802, 0x2184, 0x1, 0xbac4, 0x7945, 0xb320,
    0x79f0, 0x230c, 0x9040, 0xc104, 0x27ca, 0x12cb, 0x7930, 0x7030, 0xc104, 0x21ca, 0xb, 0xc144,
    0xf15b, 0x710c, 0xc045, 0xf159, 0xc004, 0x7910, 0x78f0, 0x845]"

definition train_imem_600_9 :: "(u64 \<times> u64) list" where
  "train_imem_600_9 = words_at 0x50480 [
    0x65, 0x2454, 0x3d0b, 0xc002, 0xc48c, 0x42c3, 0x9000, 0x0, 0x7c16, 0x8c06, 0xdb40, 0x2454,
    0x3a0b, 0x201a, 0xf81, 0x0, 0x1000, 0xc006, 0x7825, 0x781b, 0x7845, 0xb060, 0x8c07, 0x201a,
    0xf81, 0x0, 0x1000, 0xc006, 0x7825, 0x781b, 0x7845, 0xb060, 0x702c, 0xf003, 0x7124, 0x1427,
    0x3080, 0x7110, 0x63a, 0xffea, 0x2455, 0x3800, 0x602a, 0xc002, 0xaed, 0x8021, 0x2456, 0x3dc0,
    0x6028, 0x23f4, 0x1042, 0x201a, 0xf83, 0x0, 0x1000, 0xc006, 0x7865, 0x781b, 0xb89c, 0xb89f,
    0xb040, 0xf1e6, 0xc005, 0x41c3, 0xb5, 0x0, 0xfaa, 0xffaf, 0x2078, 0x0, 0x836, 0x80,
    0xcce, 0x240, 0x1600, 0x7080, 0x8000, 0x1b, 0xb8e0, 0xe84, 0xc2, 0x2400, 0x3f81, 0x0,
    0x344, 0x85a, 0x160, 0x700c, 0x2480, 0x360d, 0x1404, 0x341b, 0xc6c6, 0x78e0, 0xb8e6, 0x781d,
    0x781d, 0x781d, 0xb8c2, 0xf209, 0x205f, 0x101, 0x6904, 0x80f, 0x352, 0x6906, 0xf003, 0x781b,
    0x7404, 0x7104, 0x7fe0, 0x780f, 0x42c3, 0x8000, 0x724, 0x8a20, 0x215f, 0xc81, 0x6038, 0x8a21,
    0x215f, 0x641, 0x6038, 0x8823, 0x8802, 0xb9e6, 0x205f, 0x100]"

definition train_imem_600_10 :: "(u64 \<times> u64) list" where
  "train_imem_600_10 = words_at 0x50500 [
    0x2044, 0x700, 0x6826, 0xf20d, 0xe802, 0x4898, 0x782f, 0x819, 0x454, 0x6822, 0x7a2f, 0xa11,
    0x5d4, 0x6824, 0xf004, 0x909, 0x3d2, 0x4898, 0x7fe0, 0x782f, 0xc2e6, 0x1cfc, 0xb6c8, 0xc1b1,
    0xc250, 0xc14e, 0x4200, 0x41c3, 0xfc, 0x1, 0xdd2, 0x20, 0x750c, 0x70ad, 0xf023, 0x448b,
    0x9412, 0x9479, 0x943a, 0xc04f, 0x941b, 0x9455, 0x94f6, 0x94d7, 0x9498, 0x1426, 0x311b, 0x1428,
    0x311f, 0xc048, 0xc147, 0xc346, 0xc30f, 0xc445, 0xc644, 0xc743, 0xc242, 0x750c, 0x41c3, 0xfd,
    0xb, 0x4261, 0x1c04, 0x37c0, 0xd8e, 0x20, 0x1c00, 0x36c0, 0x71a5, 0xc00e, 0x79b0, 0x4320,
    0x4328, 0x91b, 0x22, 0x704c, 0xf00e, 0xc010, 0x20f4, 0xcc, 0xc089, 0x7834, 0xb080, 0xc00e,
    0x631b, 0x794f, 0x9ef, 0x82b4, 0x7144, 0xf1cb, 0xc0b1, 0x1404, 0x341b, 0xc6c6, 0xc2e4, 0xc1a4,
    0x4608, 0x700c, 0x866, 0x20, 0x702c, 0x702c, 0xd8ff, 0x754c, 0x726c, 0x1c0c, 0x30c1, 0xc142,
    0xc141, 0x4528, 0x93e, 0x20, 0xc140, 0x265f, 0x1100, 0x702c, 0xc543, 0xb98d, 0x78c5, 0x2084,
    0xf03, 0xc042, 0xd8ff, 0x734c, 0x746c, 0xc541, 0x91e, 0x20]"

definition train_imem_600_11 :: "(u64 \<times> u64) list" where
  "train_imem_600_11 = words_at 0x50580 [
    0xc540, 0xd8ff, 0xd980, 0x754c, 0x726c, 0xc543, 0xc542, 0xc541, 0x90a, 0x20, 0xc540, 0xc0a4,
    0xc6c4, 0x78e0, 0x1e00, 0x7005, 0x9004, 0x102, 0x7ee0, 0x78e0, 0xc2e2, 0x4308, 0x700c, 0xb5a,
    0x20, 0x4220, 0xb36, 0x20, 0x700c, 0xb16, 0x20, 0x700c, 0x228c, 0x8fc3, 0xf227, 0x216f,
    0x243, 0x8900, 0x43c3, 0x8000, 0x728, 0x201a, 0xf80, 0x20, 0x0, 0x2005, 0xf80, 0x9004,
    0x40, 0xb040, 0x8b80, 0xf012, 0x8900, 0x241a, 0x1f8d, 0x0, 0x2000, 0x7185, 0x201a, 0xf80,
    0x20, 0x0, 0x78a5, 0x2005, 0xf80, 0x9002, 0x40, 0xb040, 0x8b01, 0x8e1, 0x8303, 0xad2,
    0x240, 0x208a, 0x21a, 0x41c3, 0x900e, 0x2a, 0x1e00, 0x72c4, 0x9008, 0x1e0, 0xb100, 0x40c3,
    0x0, 0xfac, 0xb101, 0x40c3, 0x8000, 0x43e, 0x1800, 0x3, 0x700c, 0xc6c2, 0x702c, 0x7110,
    0x20e0, 0x7ca, 0x1600, 0x7102, 0x9008, 0x1d6, 0xaf3, 0x803e, 0x7124, 0x7ee0, 0xc2e6, 0x1cfc,
    0xb6c8, 0x4338, 0xde6, 0x60, 0x4508, 0x71ed, 0x46cb, 0x9004, 0xf2, 0xb6e0, 0x1e00, 0x1005,
    0x1e00, 0x7344, 0x9008, 0x1e2, 0xc8e, 0x160, 0x760c, 0xb17]"

definition train_imem_600_12 :: "(u64 \<times> u64) list" where
  "train_imem_600_12 = words_at 0x50600 [
    0x3030, 0xb6e8, 0x40c3, 0x0, 0x61a8, 0xfb6, 0xffcf, 0x1e10, 0x1005, 0x1404, 0x341b, 0xc6c6,
    0xc2e6, 0x1cfc, 0xb6c8, 0xc1a6, 0xc70b, 0xc345, 0xdb7f, 0xc040, 0x7be4, 0xd84b, 0x4328, 0x2338,
    0x1, 0xd87d, 0x78e4, 0xbfe6, 0x21c5, 0x61, 0x20b8, 0x341, 0x7825, 0x23b8, 0x441, 0x2305,
    0x803e, 0x208a, 0x3e, 0x70cd, 0x761c, 0xc000, 0x1600, 0x7083, 0x8000, 0x43e, 0xc100, 0x208c,
    0x8fc3, 0x6a09, 0x21ca, 0xc1, 0x7b0f, 0xc344, 0xc30c, 0x857, 0x6b5, 0xc343, 0xdb30, 0xc504,
    0xc341, 0xdb50, 0xc342, 0xdb20, 0xd810, 0x278a, 0x3801, 0x4378, 0x708d, 0x2025, 0x340, 0xf01b,
    0xf019, 0xf019, 0xf017, 0xf061, 0xf016, 0xf015, 0xf048, 0xf04a, 0xf04b, 0xf011, 0xf00f, 0xf04c,
    0xf03c, 0xf042, 0xf00b, 0xf00b, 0xf009, 0xf009, 0xf007, 0xf007, 0xf005, 0xf044, 0xf035, 0xf004,
    0xf0af, 0x706c, 0xa51, 0x6b5, 0x4060, 0x726c, 0x748d, 0xc042, 0xc041, 0x4318, 0x4718, 0x4608,
    0x2025, 0x80, 0xf03d, 0xf035, 0xf032, 0xf018, 0xf016, 0xf018, 0xf09e, 0xf0a0, 0xf01a, 0xf022,
    0xf023, 0xf012, 0xf00e, 0xf024, 0xf014, 0xf014, 0xf00c, 0xf00c]"

definition train_imem_600_13 :: "(u64 \<times> u64) list" where
  "train_imem_600_13 = words_at 0x50680 [
    0xf00a, 0xf00a, 0xf008, 0xf021, 0xf01e, 0xf01c, 0xf00d, 0xf00d, 0xdb07, 0xf01b, 0xa09, 0x2f1,
    0xdc20, 0xf01e, 0x708d, 0xf01c, 0xc602, 0x758d, 0xf019, 0x758d, 0x46eb, 0xf017, 0xdb10, 0xf1cc,
    0xc601, 0x758d, 0xf011, 0x718d, 0x466b, 0xf00f, 0x768d, 0xf00c, 0x708d, 0xf00b, 0x736c, 0xa0f,
    0xd1, 0xc403, 0x249a, 0x1004, 0x7f85, 0x4468, 0x4608, 0xb09, 0x11de, 0xbc86, 0x208a, 0xffd,
    0x232f, 0x2c2, 0x2004, 0x2c0, 0x1438, 0x301b, 0xc50d, 0x2344, 0xc03, 0xe0b0, 0xa13, 0x1b1,
    0x23cf, 0x1e1, 0x78f0, 0x80b, 0x51, 0xbe86, 0x7ecf, 0x202f, 0x2c2, 0x781d, 0x781d, 0x2004,
    0xf82, 0x0, 0x2000, 0xc005, 0x272f, 0x3040, 0x7a05, 0xd858, 0x2004, 0x2c0, 0x7865, 0x7885,
    0x209a, 0x4, 0x43c3, 0x9008, 0x0, 0x2754, 0x380c, 0x7c65, 0x7a05, 0x2705, 0x30c0, 0xb040,
    0x4061, 0x209a, 0x4, 0x2004, 0xf82, 0x0, 0xf00, 0xc003, 0x201a, 0xf80, 0x0, 0x1000,
    0x7a05, 0x2553, 0x10c0, 0x7845, 0x7acf, 0x7845, 0xb400, 0x2755, 0x3800, 0x7865, 0xb0e0, 0x2304,
    0x1f80, 0x0, 0xff00, 0x2305, 0x3002, 0x2755, 0x3c00, 0x7b05]"

definition train_imem_600_14 :: "(u64 \<times> u64) list" where
  "train_imem_600_14 = words_at 0x50700 [
    0xb340, 0x6901, 0xc100, 0x218c, 0x8fc3, 0xf406, 0x1e00, 0x7002, 0x8000, 0x43e, 0x780f, 0xc0a6,
    0x1404, 0x341b, 0xc6c6, 0x738d, 0xde10, 0xf19b, 0x758d, 0xf198, 0x718d, 0xf196, 0xc0f1, 0xc1a4,
    0xc408, 0xc443, 0xc407, 0xc442, 0xc406, 0xc441, 0xc405, 0xdde, 0xffef, 0xc440, 0xc0a4, 0xc0d1,
    0x7ee0, 0x78e0, 0x41c3, 0x8000, 0x43e, 0x8920, 0x208c, 0x8fc3, 0x20ca, 0x41, 0x1e00, 0x7004,
    0x9008, 0x1e8, 0x7ee0, 0x78e0, 0x41c3, 0x8000, 0x43e, 0x8920, 0x208c, 0x8fc3, 0x20ca, 0x41,
    0x1e00, 0x7004, 0x9008, 0x1e6, 0x7ee0, 0x78e0, 0x41c3, 0x8000, 0x43e, 0x8920, 0x208c, 0x8fc3,
    0x20ca, 0x41, 0x1e00, 0x7004, 0x9008, 0x1e4, 0x7ee0, 0x78e0, 0x41c3, 0x900e, 0x4c, 0x9160,
    0x9141, 0x221a, 0xf8c, 0x1, 0x0, 0x7c65, 0xe807, 0x231a, 0xf81, 0x8000, 0x0, 0x789d,
    0xf008, 0x4140, 0xda0f, 0xba61, 0xaff, 0x8031, 0x793d, 0x789b, 0x7825, 0x41c3, 0x900f, 0xfe4c,
    0xda10, 0xb100, 0xba61, 0xa01, 0x31, 0x781d, 0x7fe0, 0xb101, 0xc0e4, 0x70ad, 0xf002, 0x71a5,
    0xd1f, 0x10b2, 0x70cd, 0xf010, 0x255a, 0x1c83, 0x607c, 0x265a]"

definition train_imem_600_15 :: "(u64 \<times> u64) list" where
  "train_imem_600_15 = words_at 0x50780 [
    0x1643, 0x71c5, 0x639b, 0x633b, 0x8b80, 0x7c44, 0xab80, 0xeed, 0x9092, 0xf1ef, 0xc4c4, 0x78e0,
    0xc0f1, 0xc1a4, 0x700c, 0xc0e, 0xffef, 0xd9ff, 0x700c, 0xc043, 0xc042, 0xc041, 0xc040, 0xd8ff,
    0xd988, 0x754c, 0xce6, 0xffef, 0xdb40, 0x700c, 0xc9a, 0xffef, 0x712c, 0xc0a4, 0xc0d1, 0x7ee0,
    0x7014, 0x20c0, 0xfe9, 0x7fe0, 0x2884, 0x1, 0x42c3, 0x8000, 0x724, 0x8a01, 0x205f, 0x641,
    0x8a00, 0x205f, 0xc80, 0x6038, 0x6058, 0x8817, 0x781d, 0x781d, 0x781d, 0x781d, 0x781d, 0x781d,
    0x7fe0, 0xb8c0, 0x917, 0x3f0, 0x228a, 0xfc7, 0x714c, 0xb9c4, 0xe905, 0xb961, 0x9ff, 0x8031,
    0x7a5b, 0x201a, 0xf80, 0x0, 0x2000, 0x224f, 0x241, 0x2005, 0xf80, 0x9002, 0x16a, 0x1800,
    0x5, 0xb040, 0xb020, 0xb040, 0x7fe0, 0x1800, 0x5, 0x78e0, 0xc0f1, 0x4200, 0xd6a, 0x60,
    0x4020, 0x795b, 0x2144, 0x181, 0xb9c4, 0xe906, 0xb961, 0x901, 0x31, 0x781d, 0xc0d1, 0x7fe0,
    0xb8c1, 0x78e0, 0xc0f1, 0xc1a4, 0x700c, 0xb4a, 0xffef, 0xd9ff, 0x700c, 0xc043, 0xc042, 0xc041,
    0xc040, 0xd8ff, 0xd990, 0x754c, 0xc22, 0xffef, 0xdb40, 0x700c]"

definition train_imem_600_16 :: "(u64 \<times> u64) list" where
  "train_imem_600_16 = words_at 0x50800 [
    0xbd6, 0xffef, 0x712c, 0xc0a4, 0xc0d1, 0x7ee0, 0xc3e1, 0xc2e1, 0xc1e1, 0xc0e1, 0xc0f1, 0xc1a1,
    0x4220, 0xc184, 0xc140, 0x1600, 0x7081, 0x8000, 0x12, 0x80f, 0x64, 0x4040, 0xda2, 0x2a0,
    0xc100, 0x7487, 0xc0d1, 0x7fe0, 0xc0a4, 0x78e0, 0x791d, 0x793d, 0x793d, 0x793d, 0x793d, 0x793d,
    0x215f, 0x802, 0x219a, 0x1, 0x7822, 0x6058, 0x7fe0, 0x780e, 0xc0e6, 0x215f, 0x483, 0x44cb,
    0x8000, 0x658, 0x70cd, 0x647a, 0x8aa2, 0x8a43, 0x7d04, 0xf003, 0x71c5, 0xe1d, 0x10a3, 0x2314,
    0x381, 0x6199, 0x89e4, 0x7f0b, 0xf3f8, 0x89e5, 0x79af, 0x210f, 0x3cd, 0xf1f4, 0x78af, 0xc4c6,
    0xc2e6, 0x1cfc, 0xb6c8, 0xc1a4, 0x46cb, 0x8000, 0x724, 0x4e2c, 0x9da, 0xa0, 0x4318, 0x70ed,
    0x70ad, 0xf003, 0x71a5, 0xd1d, 0x10b2, 0x708d, 0xf00d, 0x245a, 0x1641, 0x255a, 0x1c80, 0x6038,
    0x8a2, 0x260, 0x7063, 0x7185, 0xcef, 0x9092, 0xf1f0, 0x1e10, 0x16c0, 0xb6e0, 0x85a, 0xa0,
    0xaeee, 0x862, 0xa0, 0x4508, 0x4100, 0x98e, 0x260, 0x40a1, 0x266f, 0x10c3, 0x8e18, 0xe809,
    0x41c3, 0xb9, 0x0, 0xf1a, 0xffef, 0xd80a, 0xf01e, 0x8e00]"

definition train_imem_600_17 :: "(u64 \<times> u64) list" where
  "train_imem_600_17 = words_at 0x50880 [
    0x45cb, 0x1e, 0x8480, 0x41c3, 0x5f5, 0xe100, 0x2044, 0x808f, 0x40a1, 0x20ca, 0x41, 0xfca,
    0x120, 0x702c, 0x70f5, 0x40c3, 0x3b9a, 0xca00, 0x25ca, 0x1001, 0x40a1, 0x1e00, 0x70c5, 0x9004,
    0xc0, 0xfae, 0x120, 0x702c, 0x1600, 0x7080, 0x8000, 0xd, 0x80d, 0x1e, 0x1e00, 0x7045,
    0x9004, 0xc0, 0x47cb, 0x8000, 0x658, 0x8f00, 0xe804, 0x8e00, 0x817, 0xde, 0xdbe, 0xffcf,
    0x40c3, 0xf, 0x4240, 0xf7a, 0x120, 0x702c, 0xf054, 0xd62, 0x0, 0x40c3, 0x0, 0xa00,
    0x9b2, 0xffef, 0xd9ff, 0x70ad, 0xd8ff, 0x702c, 0x754c, 0x736c, 0xc543, 0xc542, 0xc541, 0xa8e,
    0xffef, 0xc540, 0x8f01, 0x825, 0xb4, 0x702c, 0x7104, 0x781d, 0xb862, 0x780f, 0xc542, 0xc541,
    0xc540, 0xc043, 0xd8ff, 0x754c, 0xa6a, 0xffef, 0x726c, 0x8f01, 0xc542, 0xc541, 0xc540, 0xc043,
    0xd8ff, 0x702c, 0x754c, 0xa56, 0xffef, 0xdb0c, 0x8f01, 0xd908, 0x754c, 0xc043, 0xd8ff, 0x726c,
    0xc542, 0xc541, 0xa3e, 0xffef, 0xc540, 0xc8a, 0xffef, 0xd8ff, 0x8f01, 0x702c, 0x754c, 0xc043,
    0xd8ff, 0x726c, 0xc542, 0xc541, 0xa22, 0xffef, 0xc540, 0xc52]"

definition train_imem_600_18 :: "(u64 \<times> u64) list" where
  "train_imem_600_18 = words_at 0x50900 [
    0xffef, 0xd8ff, 0xbf6, 0x240, 0xd896, 0x9ce, 0xffef, 0x712c, 0xeba, 0x0, 0x8e00, 0x83f,
    0x1e, 0x43c3, 0x9004, 0x14, 0x9320, 0xca01, 0x80d, 0x1b0, 0x214f, 0x82, 0x80b, 0xd1,
    0x2185, 0x108, 0x4220, 0xb340, 0xd823, 0x42c3, 0x9005, 0xe034, 0xb200, 0x702c, 0x40c3, 0x9003,
    0xe034, 0xb020, 0xb8b1, 0xb020, 0xb221, 0xddff, 0x4063, 0x702c, 0x228a, 0xdff, 0x776c, 0xc8a,
    0x2e0, 0xc540, 0x774c, 0x4063, 0x712c, 0x4340, 0xc7a, 0x2e0, 0xc540, 0xc0a4, 0x1404, 0x341b,
    0xc6c6, 0x78e0, 0x706c, 0x704c, 0xf002, 0x7144, 0xca04, 0x7210, 0x20e0, 0x7ca, 0x40c3, 0x8000,
    0x728, 0x8820, 0xa0b, 0x42, 0x8801, 0x8eb, 0x8083, 0x221a, 0xf80, 0x0, 0x2000, 0x2005,
    0xf80, 0x9002, 0x1f64, 0xb060, 0xf1e9, 0x78e0, 0xc2e4, 0x70ad, 0xbd9a, 0x70cd, 0xd8ff, 0x41a1,
    0xd4e, 0xffef, 0x1a09, 0x3382, 0xf76, 0x200, 0x254f, 0x1401, 0xd3e, 0xffef, 0xd8ff, 0xa7e,
    0x2a0, 0xd8ff, 0x26ab, 0x10c4, 0x7fff, 0xf000, 0xc2e6, 0x1cfc, 0xb6c8, 0x2482, 0x3d02, 0x4358,
    0x4728, 0x4300, 0xc080, 0x702c, 0xfce, 0x120, 0xdab4, 0xeb8c]"

definition train_imem_600_19 :: "(u64 \<times> u64) list" where
  "train_imem_600_19 = words_at 0x50980 [
    0x41c3, 0x101, 0x0, 0xd0a, 0xffef, 0x750c, 0x72ad, 0xde8c, 0xd880, 0xf019, 0xdd09, 0xb21,
    0xb1, 0x750c, 0x702c, 0xcf2, 0xffef, 0xb998, 0xc080, 0x702c, 0xa46, 0x220, 0x714c, 0x700c,
    0xd909, 0xf026, 0x41c3, 0x102, 0x0, 0xcd6, 0xffcf, 0xdec0, 0xd8d0, 0x271a, 0x1f8f, 0x10,
    0x0, 0x7063, 0xc180, 0x724c, 0x8c6, 0x220, 0x78e5, 0x700c, 0x722c, 0xed2, 0xffaf, 0xc280,
    0xc080, 0x702c, 0xf62, 0x120, 0xdab4, 0x7663, 0x2605, 0x13c0, 0xc180, 0x8a6, 0x220, 0x42a1,
    0x710c, 0x41a1, 0xeae, 0xffaf, 0xc280, 0x2480, 0x3d02, 0x1404, 0x341b, 0xc6c6, 0x7fe0, 0x1a09,
    0x3002, 0x78e0, 0xc0e4, 0x43c3, 0x8000, 0x726, 0x41c3, 0x9004, 0xe4, 0x83f, 0xb1, 0xdc25,
    0x8b86, 0x789b, 0xab00, 0x8b47, 0x785b, 0x7104, 0xab01, 0xab82, 0xab43, 0x704c, 0xb140, 0x1600,
    0x7080, 0x8000, 0x58, 0xb101, 0x41c3, 0x9004, 0xf6, 0xd8ff, 0xb140, 0xb144, 0x1906, 0x3c5,
    0x19fe, 0x8004, 0xc4c4, 0x8ba4, 0x46cb, 0x9004, 0x30, 0x7abb, 0x825, 0x71, 0xbc9f, 0xab40,
    0x8b05, 0x7a1b, 0x7144, 0xab41, 0xaba2, 0xab03, 0x9640, 0x8c00]"

definition train_imem_600_20 :: "(u64 \<times> u64) list" where
  "train_imem_600_20 = words_at 0x50a00 [
    0xa29, 0x171, 0xb100, 0x8c00, 0xb101, 0xf012, 0xab40, 0x8b07, 0x7a1b, 0x7144, 0xab41, 0xaba2,
    0xab03, 0x8c00, 0xb100, 0x9600, 0x827, 0x151, 0x8c00, 0xf015, 0x1902, 0x5, 0x40c3, 0x9004,
    0xfe, 0xd9ff, 0x1800, 0x3c5, 0x18f8, 0x8044, 0x18f6, 0x8005, 0x18fe, 0x8005, 0xc4c4, 0x1600,
    0x7080, 0x8000, 0x58, 0xb101, 0x702c, 0x40c3, 0x9004, 0xf6, 0xb020, 0xb024, 0x18fe, 0x8044,
    0xb023, 0xc4c4, 0xc2e6, 0x1cfc, 0xb6c8, 0xc1a6, 0x47cb, 0x8000, 0x71c, 0x4318, 0x8f08, 0x2740,
    0x170e, 0xc144, 0xc043, 0x40c1, 0xd86, 0x220, 0xd90d, 0x40c1, 0xd90d, 0x81e, 0x120, 0xda40,
    0x40c1, 0xd90d, 0xa56, 0xffef, 0xda7f, 0x235f, 0x3100, 0x2005, 0x6c0, 0xc042, 0x1600, 0x7080,
    0x8000, 0x658, 0x2353, 0x305b, 0xe808, 0x1600, 0x7080, 0x8000, 0x1, 0x821, 0xfe, 0x704c,
    0xc003, 0x704c, 0xf87d, 0x1c00, 0x3fc1, 0x6038, 0x60d9, 0xc002, 0xe56, 0x2a0, 0x780f, 0xf00e,
    0xc003, 0xf878, 0x1c04, 0x3001, 0x1c00, 0x3fc1, 0x6038, 0x60d9, 0xc002, 0xf82, 0x2a0, 0x780f,
    0x70ad, 0x40c3, 0x9003, 0xe04c, 0x43a9, 0x218a, 0xfc7, 0xb0a0]"

definition train_imem_600_21 :: "(u64 \<times> u64) list" where
  "train_imem_600_21 = words_at 0x50a80 [
    0x18fc, 0x8044, 0xf01b, 0x8700, 0x2032, 0x2c0, 0xc045, 0xc004, 0x9ca, 0x260, 0xc105, 0xc305,
    0x41c3, 0x9002, 0x50, 0xb88a, 0x231a, 0xf83, 0x0, 0x2000, 0x7165, 0x2305, 0x42, 0xb964,
    0x7965, 0xb200, 0x1900, 0xfc5, 0xb200, 0x1600, 0x7080, 0x8000, 0x711, 0xbc7, 0x9002, 0xf01a,
    0x8701, 0x60a9, 0xc004, 0x98e, 0x260, 0x4328, 0x231a, 0x1f8b, 0x0, 0x2000, 0x42c3, 0x9002,
    0x50, 0xb88a, 0x71a5, 0x2305, 0x1081, 0xba64, 0x2305, 0x108b, 0xb100, 0x1b00, 0x1fc5, 0xb100,
    0x40c3, 0x8000, 0x711, 0x8801, 0xdc9, 0x9022, 0x40c1, 0xd90d, 0x962, 0xffef, 0xda7f, 0x40c1,
    0xd90d, 0xf16, 0xe0, 0xda49, 0x1600, 0x7080, 0x8000, 0x658, 0xe808, 0x1600, 0x7080, 0x8000,
    0x1, 0x84f, 0xfe, 0x70ad, 0xc003, 0x704c, 0x43c3, 0xffff, 0xdfff, 0x205f, 0xc81, 0x2378,
    0x3080, 0x205f, 0x640, 0x1c00, 0x3fc1, 0x6038, 0x60d9, 0xc002, 0xd56, 0x2a0, 0x780f, 0x40c3,
    0x0, 0x2710, 0xb02, 0x120, 0x702c, 0x9fe, 0xffcf, 0x40c3, 0x0, 0x1d4c, 0xaf2, 0x120,
    0x732c, 0x70ad, 0xf017, 0xc003, 0x704c, 0x205f, 0xc81, 0x2378]"

definition train_imem_600_22 :: "(u64 \<times> u64) list" where
  "train_imem_600_22 = words_at 0x50b00 [
    0x3080, 0x205f, 0x640, 0x43c3, 0xffff, 0xdfff, 0xc541, 0x1c00, 0x3fc1, 0x6038, 0x60d9, 0xc002,
    0xe52, 0x2a0, 0x780f, 0xf003, 0x71a5, 0x1600, 0x7080, 0x8000, 0x711, 0xd3d, 0x1023, 0x706d,
    0x8700, 0x60a9, 0xc004, 0x8a6, 0x260, 0x4338, 0xf00e, 0x231a, 0x3f81, 0x0, 0x2000, 0x7165,
    0x2105, 0xf81, 0x9002, 0x50, 0xb140, 0x204f, 0x282, 0xb140, 0xbe7, 0x90b2, 0x204f, 0x242,
    0xf1e0, 0x7165, 0x40c3, 0x8000, 0x711, 0x8801, 0xb3d, 0x1023, 0x40c1, 0x8701, 0x2032, 0x2cd,
    0xc004, 0x862, 0x260, 0x41a1, 0x702c, 0xf00f, 0x251a, 0x1f82, 0x0, 0x2000, 0x7124, 0x2205,
    0xf82, 0x9002, 0x50, 0xb260, 0x204f, 0x283, 0xb260, 0x9e9, 0x80b2, 0x204f, 0x243, 0xf1df,
    0xf7e, 0x1e0, 0xd90d, 0xc0a6, 0x1404, 0x341b, 0xc6c6, 0x78e0, 0x43c3, 0xffbf, 0xc7f7, 0x205f,
    0xc81, 0x2378, 0x3080, 0x205f, 0x640, 0x7ee0, 0xc2e6, 0x1cfc, 0xb6c8, 0xc1a2, 0x46cb, 0x9004,
    0xf4, 0x9600, 0x6ea2, 0x702c, 0xc040, 0x9500, 0xc041, 0xd8ff, 0x95e3, 0x1508, 0x111b, 0x1d08,
    0x13c5, 0xb500, 0x1d06, 0x13c5, 0xb600, 0x1600, 0x7080, 0x8000]"

definition train_imem_600_23 :: "(u64 \<times> u64) list" where
  "train_imem_600_23 = words_at 0x50b80 [
    0x710, 0x1e00, 0x7004, 0x9008, 0x190, 0x40c3, 0x0, 0x2af8, 0x9ce, 0x120, 0x1efa, 0x9485,
    0xc000, 0x41c3, 0x8000, 0x658, 0xb600, 0xb5e3, 0xc001, 0xb500, 0x1d08, 0x16c4, 0x1600, 0x7080,
    0x8000, 0x710, 0x781d, 0xb8a0, 0x2080, 0xfc3, 0xa901, 0xc0a2, 0x1404, 0x341b, 0xc6c6, 0x78e0,
    0xc2e6, 0x1cfc, 0xb6c8, 0xc1a1, 0x43db, 0x9004, 0x1e0, 0x1300, 0x3101, 0x1600, 0x7080, 0x8000,
    0x4, 0x205f, 0x100, 0x2044, 0x7c2, 0x4020, 0xea05, 0xba61, 0xaff, 0x8031, 0x781d, 0xb8c3,
    0x702c, 0x811, 0x70, 0xc140, 0x809, 0x1b0, 0x710c, 0xc040, 0x700c, 0x956, 0x120, 0xd940,
    0x71ed, 0x45cb, 0x9005, 0xe112, 0x1dde, 0x13d4, 0x1da6, 0x93d4, 0x13b6, 0xb10e, 0xc000, 0xe827,
    0xe4b, 0x13bf, 0x2684, 0x1c07, 0x264f, 0x13c0, 0xb500, 0x700c, 0xd91c, 0x926, 0x120, 0x1df6,
    0x9205, 0x40c3, 0xf, 0x4240, 0x702c, 0x916, 0x120, 0x1df6, 0x9245, 0x13be, 0xb100, 0x1df0,
    0x9045, 0x1df6, 0x9205, 0x209a, 0x8, 0x2004, 0xf80, 0x0, 0x3e00, 0x78c5, 0xb88e, 0xb500,
    0xf005, 0x1df6, 0x9205, 0x1df0, 0x93c4, 0x1e00, 0x73c4, 0x9013]"

definition train_imem_600_24 :: "(u64 \<times> u64) list" where
  "train_imem_600_24 = words_at 0x50c00 [
    0xe050, 0x7487, 0x1404, 0x341b, 0xc6c6, 0x78e0, 0xc2e6, 0x1cfc, 0xb6c8, 0xc1a2, 0x4708, 0x40c3,
    0x8000, 0x724, 0x88c0, 0xe014, 0xd90d, 0x9e6, 0x220, 0x4318, 0x4063, 0xd90d, 0xebe, 0xffaf,
    0xda7f, 0x4063, 0xd90d, 0xeb6, 0xffaf, 0xdafe, 0x40c3, 0x8000, 0x658, 0x8800, 0x2753, 0x104d,
    0xe809, 0x1600, 0x7080, 0x8000, 0x1, 0x82b, 0xfe, 0x2578, 0x1080, 0xec2, 0xff8f, 0x2578,
    0x1080, 0xf815, 0x1c00, 0x3fc1, 0x6119, 0x275f, 0x1100, 0x7163, 0x7f05, 0xab6, 0x2a0, 0x78ef,
    0xf00b, 0xf80f, 0x1c04, 0x3041, 0x6119, 0x7163, 0x40e1, 0xbe6, 0x2a0, 0x1c00, 0x3fc1, 0x40c3,
    0x0, 0x36b0, 0x84a, 0x120, 0xd90a, 0x4063, 0xd8a, 0x1e0, 0xd90d, 0x1e00, 0x7005, 0x9003,
    0xe048, 0xc0a2, 0x1404, 0x341b, 0xc6c6, 0x78e0, 0x265f, 0x1c81, 0x205f, 0x640, 0x704c, 0x43c3,
    0xffff, 0xdfff, 0x7ee0, 0x78e0, 0xc2e6, 0x1cfc, 0xb6c8, 0xc1a1, 0x46cb, 0x9004, 0xf4, 0x9600,
    0x6ea2, 0xc040, 0xd8ff, 0x1500, 0x111b, 0x1506, 0x110b, 0x95e4, 0x1d08, 0x13c5, 0xb500, 0x1d06,
    0x13c5, 0xb600, 0xd834, 0x1e00, 0x7005, 0x9008, 0x190, 0x1efa]"

definition train_imem_600_25 :: "(u64 \<times> u64) list" where
  "train_imem_600_25 = words_at 0x50c80 [
    0x9004, 0x40c3, 0x0, 0x2af8, 0xfd6, 0xe0, 0x702c, 0xc000, 0xb600, 0x1d06, 0x12c4, 0x1d00,
    0x16c4, 0xb5e4, 0x7487, 0x1404, 0x341b, 0xc6c6, 0xc2e6, 0x1cfc, 0xb6c8, 0x246f, 0x1343, 0x4320,
    0x9420, 0x218c, 0x864a, 0x84, 0x2d, 0x4348, 0xe7e, 0xffaf, 0x712c, 0x4318, 0x14fe, 0x9080,
    0x235f, 0x180d, 0x70cd, 0x201a, 0xf8c, 0x10, 0x0, 0x75c3, 0x0, 0xfffc, 0xf02a, 0x231a,
    0xf81, 0x0, 0x1000, 0x7825, 0x2005, 0x301, 0x40c1, 0x209a, 0x4, 0x7825, 0x781b, 0x2005,
    0xf8f, 0x9002, 0x0, 0xec2, 0xffaf, 0x9700, 0x60b8, 0x7a0e, 0x785c, 0x781c, 0x781c, 0x781c,
    0x4100, 0xd81b, 0xb861, 0x801, 0x31, 0x793d, 0x6238, 0xb8c4, 0x4831, 0x2a44, 0x800, 0x71c5,
    0x209a, 0x1, 0x7825, 0xb700, 0xeaf, 0x90b2, 0x2355, 0x3800, 0x1404, 0x341b, 0xc6c6, 0x78e0,
    0xc2e2, 0x45cb, 0x9004, 0x6, 0xd820, 0xebe, 0xe0, 0x1d00, 0x1045, 0x1d00, 0x1005, 0xc6c2,
    0xc2e6, 0x45cb, 0x9004, 0x1c6, 0x95c0, 0x208a, 0xfdf, 0x78c4, 0x204f, 0x2cf, 0xb88a, 0xb88b,
    0xb5e0, 0xb500, 0xe92, 0xe0, 0xd80a, 0xb5e0, 0x9501, 0xbecb]"

definition train_imem_600_26 :: "(u64 \<times> u64) list" where
  "train_imem_600_26 = words_at 0x50d00 [
    0xb5c0, 0xb8c9, 0xc6c6, 0x78e0, 0xc1e2, 0xc1a1, 0x781b, 0x2005, 0xf80, 0x9000, 0x86, 0x9000,
    0x706c, 0x704c, 0x2053, 0x101, 0x781d, 0x781d, 0x781d, 0x781d, 0x781d, 0xb8c4, 0x1c02, 0x3042,
    0x1c03, 0x3002, 0xf008, 0x782f, 0xd978, 0x2905, 0x1, 0x786f, 0x7144, 0x611b, 0xa21, 0xb3,
    0x2440, 0x3080, 0x604c, 0x712c, 0x700c, 0xf005, 0x61b9, 0x7c9d, 0x7104, 0x8fd, 0x8172, 0x2444,
    0x104d, 0xf1eb, 0x2384, 0xf83, 0x787d, 0xc5c2, 0x751, 0xff6f, 0x4040, 0x78e0, 0xc2e6, 0x1cfc,
    0xb6c8, 0xc1a8, 0x4308, 0xca01, 0x706f, 0x708d, 0xc044, 0xc00d, 0xc345, 0xf013, 0x45cb, 0x9004,
    0x200, 0x2705, 0x1343, 0x9360, 0xc680, 0xe520, 0x63db, 0x7fa5, 0xab80, 0x9760, 0x667e, 0x2440,
    0x1203, 0xae68, 0x7185, 0xce1, 0x91b2, 0x7f9b, 0xc304, 0xb0d, 0x290, 0xc304, 0xe38c, 0xf4b0,
    0xc304, 0x71ed, 0x72ad, 0x73cd, 0x274a, 0x31c0, 0xa8e3, 0x1802, 0x6c2, 0x1801, 0x6c2, 0x1800,
    0x6c2, 0xa8e5, 0xba5, 0x331, 0xa8e4, 0xc005, 0x766c, 0xa860, 0xd808, 0xa9e0, 0xa9a1, 0xa9c2,
    0xa963, 0x1904, 0x7c2, 0xa905, 0x740c, 0xaae2, 0x1a01, 0x3]"

definition train_imem_600_27 :: "(u64 \<times> u64) list" where
  "train_imem_600_27 = words_at 0x50d80 [
    0xaaa3, 0xaac6, 0xaa07, 0x1a08, 0x143, 0xc020, 0x7061, 0xa8c0, 0x1401, 0x3080, 0x7061, 0xa8e0,
    0x1402, 0x3080, 0x7061, 0xa8c0, 0x1403, 0x3080, 0x7061, 0xa8a0, 0xc021, 0x7061, 0xa8a0, 0x1405,
    0x3080, 0x7061, 0xa8e0, 0x740c, 0x1b07, 0x1243, 0x1b06, 0x1002, 0xc022, 0x7061, 0x1800, 0x7c2,
    0x1409, 0x3081, 0xd808, 0x7161, 0xa900, 0x140a, 0x3081, 0xd808, 0x7161, 0xa900, 0x140b, 0x3081,
    0xd808, 0x7161, 0xa900, 0xc023, 0x7061, 0x1800, 0x7c2, 0x140d, 0x3080, 0x7061, 0xa860, 0x1b0f,
    0x1283, 0x1b0e, 0x1143, 0xf0c3, 0xc405, 0x746c, 0x1800, 0x6c2, 0x1801, 0x6c2, 0xa8e2, 0xa8e3,
    0xac60, 0xdb08, 0xa9a0, 0xa9c1, 0x1902, 0x7c2, 0xa963, 0xaae3, 0x1a02, 0x6c2, 0xaac8, 0xaaa7,
    0xc320, 0x7361, 0xaba0, 0x1401, 0x3083, 0x7361, 0xaba0, 0x1402, 0x3083, 0x7361, 0xaba0, 0x1403,
    0x3083, 0x7361, 0xaba0, 0xc321, 0x7361, 0xabc0, 0x1405, 0x3083, 0x7361, 0xabc0, 0x1b07, 0x16c2,
    0x1b06, 0x13c2, 0xc322, 0x7361, 0x1b00, 0x7c2, 0x1409, 0x3083, 0x7361, 0x1b00, 0x7c2, 0x140a,
    0x3083, 0x7361, 0x1b00, 0x7c2, 0x140b, 0x3083, 0x7361, 0x1b00]"

definition train_imem_600_28 :: "(u64 \<times> u64) list" where
  "train_imem_600_28 = words_at 0x50e00 [
    0x7c2, 0xc423, 0xdb08, 0x7461, 0xac60, 0x140d, 0x308c, 0xdb08, 0x7461, 0xac60, 0x1b0f, 0x1143,
    0x1b0e, 0x1183, 0xc304, 0xb0d, 0xd0, 0xc304, 0xbdf, 0x191, 0xc305, 0x74ef, 0x71ad, 0x1b00,
    0x7c2, 0xc320, 0x1401, 0x308c, 0x1403, 0x308f, 0x7361, 0x1402, 0x309b, 0xc346, 0xc304, 0x7461,
    0xc447, 0x7674, 0x2300, 0x32db, 0x7761, 0x706c, 0x728d, 0xf43d, 0xa860, 0xa861, 0xa8a2, 0xa8a3,
    0x730c, 0x75cd, 0xa960, 0xa981, 0xa902, 0xa9c3, 0xc106, 0xaa60, 0xaaa2, 0xaa83, 0xaa05, 0xa960,
    0xc107, 0xa960, 0x1b00, 0x3302, 0xaf80, 0xc121, 0x7161, 0xa980, 0x1405, 0x3081, 0x7161, 0xa980,
    0x1b07, 0x1342, 0x1b06, 0x1342, 0xc122, 0x7161, 0xa900, 0x1409, 0x3081, 0x7161, 0xa900, 0x140a,
    0x3080, 0x7061, 0xa8c0, 0x140b, 0x3080, 0x7061, 0xa8c0, 0xc023, 0x7061, 0xa8c0, 0x140d, 0x3080,
    0x7061, 0xa8c0, 0x1b0f, 0x17c2, 0x1b0e, 0x17c2, 0xf01b, 0xc605, 0xae80, 0xa860, 0xa861, 0xc006,
    0xa960, 0xa981, 0xaa60, 0xaaa2, 0xa860, 0xc007, 0xa860, 0x1b00, 0x3302, 0xaf80, 0xc021, 0x7061,
    0xa880, 0x1405, 0x3080, 0x7061, 0xa880, 0x1b07, 0x1342, 0x1b06]"

definition train_imem_600_29 :: "(u64 \<times> u64) list" where
  "train_imem_600_29 = words_at 0x50e80 [
    0x1342, 0xc0a8, 0x1404, 0x341b, 0xc6c6, 0x78e0, 0x215f, 0x641, 0x205f, 0xc80, 0x6038, 0x2032,
    0xf80, 0x8000, 0x744, 0x7fe0, 0xb8c6, 0x78e0, 0x7014, 0x1600, 0x7080, 0x8000, 0x4, 0x41c3,
    0x9004, 0x160, 0x21c0, 0x221, 0x201a, 0xf80, 0x20, 0x0, 0x7825, 0x7fe0, 0x9000, 0x78e0,
    0xc2e6, 0x1cfc, 0xb6c8, 0xc1a7, 0xc044, 0x1600, 0x7080, 0x8000, 0x4, 0x47cb, 0x8000, 0x728,
    0xc145, 0xc046, 0x8723, 0xc004, 0x704c, 0xbda, 0xa0, 0x706c, 0x700c, 0xdba, 0xff6f, 0xd9ff,
    0xc004, 0x712c, 0x70cd, 0xb8c4, 0xe805, 0xb861, 0x8ff, 0x8031, 0x793b, 0x215a, 0x101, 0xc004,
    0xc643, 0x734c, 0x210f, 0x0, 0x7d0f, 0xd840, 0xc542, 0x1c04, 0x35c1, 0xc040, 0xd8ff, 0x702c,
    0xe72, 0xff6f, 0xdb22, 0xd84b, 0xc643, 0xc542, 0xc641, 0xc040, 0xd8ff, 0xd980, 0xda17, 0xe5e,
    0xff6f, 0x746c, 0x700c, 0xe12, 0xff6f, 0x712c, 0x892, 0x1c0, 0xab6, 0xe0, 0x208a, 0x10,
    0x40c3, 0x0, 0x9c40, 0xb02, 0xe0, 0xd908, 0x700c, 0xd46, 0xff6f, 0xd9ff, 0x43db, 0x0,
    0x1200, 0xd8ff, 0xd908, 0xda0d, 0xdb20, 0xc643, 0xc542, 0xc641]"

definition train_imem_600_30 :: "(u64 \<times> u64) list" where
  "train_imem_600_30 = words_at 0x50f00 [
    0xe1a, 0xff6f, 0x1c00, 0x36c0, 0x2356, 0x3800, 0xc643, 0xc542, 0xc641, 0xc040, 0xd8ff, 0xd988,
    0xda0d, 0xe02, 0xff6f, 0xdb08, 0x700c, 0xdb6, 0xff6f, 0x712c, 0x8fa0, 0xf003, 0x71a5, 0x8f01,
    0x821, 0x362, 0x7eaf, 0xc004, 0xbda, 0x20, 0x41c1, 0xe878, 0x40c1, 0xe2a, 0x1a0, 0x702c,
    0xc105, 0x79b4, 0xb100, 0xf1f0, 0x8fc0, 0xf003, 0x71c5, 0x8f01, 0x875, 0x3a2, 0x7dcf, 0xc004,
    0xbb2, 0x20, 0x41a1, 0xe878, 0x40a1, 0xe02, 0x1a0, 0xd910, 0xc505, 0x209a, 0x4, 0x42c1,
    0x7dd4, 0x9520, 0x7825, 0xb500, 0x7810, 0x41c3, 0xf2, 0x1, 0xaa6, 0xff2f, 0x2079, 0x0,
    0x1600, 0x7100, 0x8000, 0x6, 0x208c, 0x81c3, 0xf703, 0x710c, 0xf00c, 0x9500, 0x80d, 0x95,
    0x40c3, 0x0, 0xffff, 0xf006, 0x2e05, 0x7000, 0x1, 0x0, 0xb500, 0x7a10, 0x740c, 0x41c3,
    0xf3, 0x2, 0x94a, 0xffaf, 0x43c1, 0xf1c6, 0x8fa0, 0xf003, 0x71a5, 0x8f01, 0x823, 0x362,
    0x79af, 0xb3a, 0x20, 0xc004, 0xe8f8, 0xc005, 0xd0d, 0x103e, 0x78b4, 0x10fe, 0x8101, 0xf003,
    0x9021, 0xb020, 0xf1ee, 0x8f20, 0xf018, 0xc004, 0x42c3, 0x9002]"

definition train_imem_600_31 :: "(u64 \<times> u64) list" where
  "train_imem_600_31 = words_at 0x50f80 [
    0x15e, 0x7014, 0xc006, 0x22c2, 0xa1, 0x201a, 0xf80, 0x20, 0x0, 0x7a05, 0x211a, 0xf80,
    0x0, 0x2000, 0x7a05, 0xc005, 0x20f4, 0x40, 0x7124, 0xb200, 0x8f01, 0x8d3, 0x8043, 0xf32,
    0x180, 0xc0a7, 0x1404, 0x341b, 0xc6c6, 0x78e0, 0xc2e6, 0x1cfc, 0xb6c8, 0xc1a4, 0xc041, 0x1600,
    0x7080, 0x8000, 0x4, 0x77ad, 0x708d, 0x201a, 0xf80, 0x10, 0x0, 0x46a9, 0xc142, 0xc540,
    0xc043, 0xf003, 0x7185, 0xcd9, 0x1135, 0x710c, 0xdba, 0xffcf, 0x4318, 0x40c3, 0x8000, 0x724,
    0x8840, 0xd925, 0xb99f, 0x7054, 0x21c0, 0xce2, 0x89e0, 0x702c, 0x704c, 0xf003, 0x7124, 0x95d,
    0x135, 0x7b3b, 0x2344, 0x7df, 0x4363, 0xf11, 0x3010, 0x2742, 0x305f, 0xfff, 0xb031, 0x7b7d,
    0xbbc1, 0xbe5, 0x8321, 0x716c, 0x2144, 0x7ca, 0x4778, 0xa11, 0x1010, 0x2242, 0x104a, 0xaff,
    0x9031, 0x7b7b, 0x7beb, 0x6964, 0x2344, 0x7ca, 0x43e3, 0xa11, 0x1010, 0x2242, 0x104a, 0xaff,
    0x9031, 0x7b7b, 0x22c0, 0x62, 0x7beb, 0x22c0, 0x62, 0xf1d4, 0xa7d, 0x8010, 0x8842, 0xf022,
    0x221a, 0xf81, 0x0, 0x800, 0xc303, 0x2104, 0xf81, 0x37fe]"

definition train_imem_600_32 :: "(u64 \<times> u64) list" where
  "train_imem_600_32 = words_at 0x51000 [
    0xf000, 0x7be5, 0x7b25, 0x4140, 0x219a, 0x4, 0x2184, 0x4, 0x7965, 0x793b, 0xb991, 0xb99c,
    0xb99f, 0x9160, 0xc100, 0x7330, 0x2308, 0x41, 0x25ca, 0x1089, 0x26ca, 0x1309, 0xc140, 0x7144,
    0x8823, 0x9c1, 0x80a3, 0x2455, 0x180f, 0xf196, 0x40c1, 0xd91f, 0xb961, 0x901, 0x31, 0x781d,
    0x41c3, 0x104, 0x0, 0x8e2, 0xff2f, 0x2052, 0x0, 0xc001, 0xe803, 0xc001, 0xa0c0, 0xc002,
    0xe803, 0xc002, 0xa0a0, 0xc000, 0xc0a4, 0x1404, 0x341b, 0xc6c6, 0xc2e2, 0x4508, 0x4320, 0x4020,
    0xc96, 0xffef, 0x41a1, 0xe8b8, 0x216f, 0xdc3, 0x1109, 0x48c, 0xc65, 0x103e, 0x70b5, 0x496b,
    0x4308, 0x20ca, 0x41, 0x8800, 0x235f, 0xc81, 0x7c1d, 0x13f3, 0x9080, 0x7c9d, 0x7c9d, 0xb8c0,
    0x205f, 0x640, 0x7c9d, 0x7095, 0x24ca, 0x1061, 0x6038, 0x2032, 0xf80, 0x8000, 0x743, 0x781d,
    0x781d, 0x781d, 0x791d, 0xb9c2, 0xd8f0, 0x2805, 0x40, 0x2805, 0x8301, 0x208a, 0x404, 0xf209,
    0x238a, 0xa0f, 0x7b2c, 0x6158, 0x781b, 0x2b05, 0x0, 0xf0a, 0x20, 0x7810, 0xc6c2, 0x78e0,
    0xc2e2, 0x700c, 0xe4a, 0xffef, 0x702c, 0x4100, 0xdd08, 0x780f]"

definition train_imem_600_33 :: "(u64 \<times> u64) list" where
  "train_imem_600_33 = words_at 0x51080 [
    0xbd61, 0xd01, 0x1031, 0x793c, 0x2079, 0x0, 0x6038, 0x7204, 0xc6c2, 0x78e0, 0x1600, 0x7100,
    0x8000, 0x22, 0x7014, 0x7de0, 0x1600, 0x7100, 0x9004, 0x8, 0x7ee0, 0x78e0, 0x40c3, 0x8000,
    0x734, 0xb1, 0xff6f, 0x8000, 0x41c3, 0x8000, 0x724, 0x8900, 0x8144, 0x205f, 0xc80, 0x621a,
    0x8901, 0x702c, 0x205f, 0x640, 0x6058, 0x8842, 0x119, 0xffef, 0x700c, 0x78e0, 0xc0e2, 0x42c3,
    0x8000, 0x726, 0x8a60, 0xf004, 0xb500, 0x7164, 0x8a01, 0x849, 0xe2, 0x248a, 0x1fcf, 0x231a,
    0xf80, 0x0, 0x800, 0x2004, 0xf81, 0x0, 0x800, 0x231a, 0xf80, 0x0, 0x1000, 0x2004,
    0xf80, 0x6ffd, 0xe000, 0x7825, 0x2005, 0xf8d, 0x9002, 0x64, 0x9520, 0x4928, 0x7c04, 0xcc5,
    0x9832, 0xb970, 0x7830, 0x2080, 0x10, 0xf1dc, 0xc4c2, 0x78e0, 0xc0e4, 0x4408, 0x249a, 0x1008,
    0x45cb, 0x900e, 0x48, 0x2405, 0x134e, 0xb620, 0x6d22, 0x2405, 0x104d, 0x7224, 0xb540, 0x2405,
    0x1042, 0xb260, 0x6962, 0xc102, 0x7c65, 0x80f, 0x3f1, 0xb420, 0x208a, 0xfc7, 0xf005, 0x137c,
    0x101, 0x210f, 0x0, 0x1b7c, 0x4, 0xc4c4, 0x44cb, 0x900e]"

definition train_imem_600_34 :: "(u64 \<times> u64) list" where
  "train_imem_600_34 = words_at 0x51100 [
    0xc2, 0x1c02, 0x1014, 0xb420, 0xb441, 0x7fe0, 0xb462, 0x78e0, 0xc1a4, 0x42c3, 0x8000, 0x6fc,
    0xe809, 0x8a02, 0xc042, 0x8a03, 0xc043, 0x4a28, 0xc040, 0x4a2a, 0xf008, 0x8a00, 0xc042, 0x8a01,
    0xc043, 0x4a18, 0xc040, 0x4a1a, 0x704c, 0xc041, 0xf002, 0x7144, 0xa1f, 0xb3, 0xc082, 0x4844,
    0x706c, 0xbf7, 0x8323, 0xc080, 0x4840, 0x6068, 0x7164, 0x7030, 0x710c, 0xf5f9, 0xf002, 0x700c,
    0x7fe0, 0xc0a4, 0x4100, 0xb863, 0x7314, 0x710c, 0x20e0, 0x7c5, 0x7fe0, 0x2178, 0x180, 0x78e0,
    0xc0e2, 0x706c, 0x704c, 0xf004, 0xb160, 0x7144, 0x7950, 0x9fd, 0x8674, 0x2014, 0x41, 0xda32,
    0xba9f, 0x1201, 0x481, 0x708d, 0xa821, 0x1201, 0x481, 0xa822, 0x1201, 0x481, 0xa823, 0x1201,
    0x481, 0xa824, 0x1201, 0x481, 0xa82b, 0x1201, 0x481, 0xa82c, 0x1201, 0x481, 0xa82d, 0x1201,
    0x481, 0xa82e, 0x1201, 0x481, 0xa830, 0x8a20, 0xa831, 0x8a21, 0xa836, 0x8a22, 0xa838, 0x12dd,
    0x8081, 0x7034, 0xf48e, 0xda3e, 0xba9f, 0x1201, 0x481, 0xa83a, 0x1201, 0x481, 0xa83b, 0x1201,
    0x481, 0xa83c, 0x1201, 0x481, 0xa83d, 0x1201, 0x481, 0x1824]"

definition train_imem_600_35 :: "(u64 \<times> u64) list" where
  "train_imem_600_35 = words_at 0x51180 [
    0x42, 0x1201, 0x481, 0x1825, 0x42, 0x1201, 0x481, 0x1826, 0x42, 0x1201, 0x481, 0x1827,
    0x42, 0x1201, 0x481, 0x1829, 0x42, 0x1201, 0x481, 0x182a, 0x42, 0x1201, 0x481, 0x182f,
    0x42, 0x121c, 0x481, 0x1831, 0x42, 0x1201, 0x481, 0x1833, 0x42, 0x1201, 0x481, 0x1834,
    0x42, 0x1201, 0x481, 0x1835, 0x42, 0x1201, 0x481, 0x1836, 0x42, 0x1201, 0x481, 0x183d,
    0x42, 0x1201, 0x481, 0x183e, 0x42, 0x1201, 0x481, 0x183f, 0x42, 0x1201, 0x481, 0x1840,
    0x42, 0x1201, 0x481, 0x1842, 0x42, 0x1201, 0x481, 0x1843, 0x42, 0x1201, 0x481, 0x1848,
    0x42, 0x1201, 0x481, 0x184a, 0x42, 0x1201, 0x481, 0x184c, 0x42, 0x1201, 0x481, 0x184d,
    0x42, 0x1201, 0x481, 0x184e, 0x42, 0x1201, 0x481, 0x184f, 0x42, 0x1201, 0x481, 0x1856,
    0x42, 0x1201, 0x481, 0x1857, 0x42, 0x1201, 0x481, 0x1858, 0x42, 0x1201, 0x481, 0x1859,
    0x42, 0x1201, 0x481, 0x185b, 0x42, 0x8a20, 0x185c, 0x42, 0x8a21, 0x1861, 0x42, 0x8a22,
    0x1863, 0x42, 0xf031, 0x7185, 0xc59, 0x10b2, 0x706c, 0xf02d]"

definition train_imem_600_36 :: "(u64 \<times> u64) list" where
  "train_imem_600_36 = words_at 0x51200 [
    0x245a, 0x1c81, 0x235a, 0x64d, 0x7164, 0x6119, 0x653d, 0x12f7, 0x8081, 0xad21, 0x12f8, 0x8081,
    0xad22, 0x12f9, 0x8081, 0xad23, 0x12fa, 0x8081, 0xad24, 0x12fb, 0x8081, 0xad2b, 0x12fc, 0x8081,
    0xad2c, 0x12fd, 0x8081, 0xad2d, 0x12fe, 0x8081, 0xad2e, 0x12ff, 0x8081, 0xad30, 0x8a20, 0xad31,
    0x8a21, 0xad36, 0x8a22, 0xad38, 0xbb1, 0x8092, 0xf1d1, 0xc4c2, 0xc2e4, 0xc1a1, 0x40c3, 0x8000,
    0x62c, 0xbb2, 0x260, 0xd92a, 0xde25, 0xbe9f, 0x8e00, 0x45cb, 0x9004, 0xe4, 0xb500, 0x1633,
    0x1080, 0xb501, 0x16f4, 0x9080, 0xe887, 0x1e00, 0x7005, 0x9003, 0xe154, 0x1d42, 0x905d, 0xc8a,
    0xffcf, 0x791d, 0x793d, 0x793d, 0x7b3d, 0x4100, 0xda08, 0xba61, 0xaff, 0x8031, 0x793d, 0x2053,
    0xc2, 0xbbc3, 0xb9c1, 0x1a02, 0x30c2, 0x1a06, 0x3042, 0x1a01, 0x3082, 0xc140, 0x41c3, 0x426,
    0x3, 0xb4e, 0xff6f, 0x740c, 0x9fe, 0x1c0, 0x9c6, 0x0, 0xcc6, 0x180, 0x154c, 0x9100,
    0x80d, 0x151, 0x8e00, 0xb500, 0x8e00, 0xb501, 0x7487, 0xc6c4, 0xc2e2, 0x4508, 0x40c3, 0x8000,
    0x448, 0xb22, 0x260, 0xd972, 0xed07, 0x208a, 0xc07, 0x1e00]"

definition train_imem_600_37 :: "(u64 \<times> u64) list" where
  "train_imem_600_37 = words_at 0x51280 [
    0x7004, 0x9003, 0xe8c4, 0xc6c2, 0xc2e6, 0x1cfc, 0xb6c8, 0xc1a7, 0xc2a, 0xffef, 0x4708, 0xbde,
    0xffef, 0xc044, 0xc12, 0xffef, 0xc045, 0xc046, 0x40c3, 0x0, 0x2710, 0xbd6, 0xa0, 0x742c,
    0x4608, 0x700c, 0xdf6, 0xff2f, 0xd91f, 0xca00, 0x702c, 0x70ad, 0x7604, 0x7b0f, 0xd8ff, 0xb98e,
    0x754c, 0xc543, 0xc742, 0xc541, 0xeca, 0xff2f, 0xc540, 0x7bcf, 0xd8ff, 0x702c, 0x704c, 0xc543,
    0xc742, 0xc541, 0xeb6, 0xff2f, 0xc540, 0x71cd, 0xd8ff, 0x702c, 0x704c, 0xdb7c, 0xc543, 0xc742,
    0xc641, 0xea2, 0xff2f, 0xc540, 0x8ea, 0xff6f, 0xd8ff, 0x41c3, 0x1, 0x0, 0xd8ff, 0x724c,
    0xdb08, 0xc643, 0xc742, 0xc641, 0xc540, 0xe82, 0xff2f, 0x4338, 0xf839, 0xc543, 0xc742, 0xc541,
    0xe72, 0xff2f, 0xc540, 0xf836, 0xc543, 0xc742, 0xc641, 0xe66, 0xff2f, 0xc540, 0xd8ff, 0x4163,
    0x724c, 0xdb08, 0xc643, 0xc742, 0xc641, 0xe52, 0xff2f, 0xc540, 0xc004, 0x754c, 0xc543, 0x2042,
    0x800, 0x2044, 0x41, 0xc004, 0xc542, 0xc541, 0x6038, 0xe020, 0x7b0f, 0xd8ff, 0x702c, 0xe2e,
    0xff2f, 0xc540, 0xd8ff, 0x218a, 0x10, 0x714c, 0xdb08, 0xc543]"

definition train_imem_600_38 :: "(u64 \<times> u64) list" where
  "train_imem_600_38 = words_at 0x51300 [
    0xc742, 0xc541, 0xe16, 0xff2f, 0xc540, 0xc106, 0xc005, 0x714c, 0xc543, 0x7914, 0x2142, 0x700,
    0xb8c0, 0x6038, 0x2054, 0xc80, 0x7b0f, 0xd8ff, 0x218a, 0x10, 0xc742, 0xc641, 0xdee, 0xff2f,
    0xc540, 0x700c, 0xb88e, 0x791b, 0xd8ff, 0x754c, 0x726c, 0x1c0c, 0x30c1, 0xc542, 0xc541, 0xdd6,
    0xff2f, 0xc540, 0xd8ff, 0x702c, 0x754c, 0xdb40, 0xc543, 0xc542, 0xc541, 0xdc2, 0xff2f, 0xc540,
    0xfee, 0xff2f, 0xd8ff, 0xbfc1, 0xd8ff, 0xd980, 0x764c, 0x746c, 0xc543, 0xc742, 0xc541, 0xda6,
    0xff2f, 0xc640, 0xc0a7, 0x1404, 0x341b, 0xc6c6, 0xd8ff, 0x218a, 0x10, 0x724c, 0xdb08, 0x7ee0,
    0xc2e6, 0x1cfc, 0xb6c8, 0x1600, 0x7101, 0x9004, 0x1e0, 0x1600, 0x7082, 0x8000, 0x4, 0x225f,
    0x100, 0x2044, 0x7c3, 0x4020, 0xeb05, 0xbb61, 0xbff, 0x8031, 0x781d, 0xb8c3, 0x80b, 0x50,
    0x887, 0x1b1, 0x71ed, 0x46cb, 0x9004, 0x116, 0x1e08, 0x1094, 0x71ad, 0x1e02, 0x1354, 0xd829,
    0xb6a0, 0x1e6c, 0x1205, 0x1e6c, 0x1004, 0x702c, 0x40c3, 0x98, 0x9680, 0x1ef2, 0x9044, 0x4728,
    0x9ee, 0xa0, 0x1e66, 0x1044, 0xd8a9, 0x1e6c, 0x1004, 0x208a]"

definition train_imem_600_39 :: "(u64 \<times> u64) list" where
  "train_imem_600_39 = words_at 0x51380 [
    0xa46, 0x1e6c, 0x1004, 0x208a, 0xa44, 0x1e6c, 0x1004, 0x1e6c, 0x1004, 0x700c, 0x218a, 0xd07,
    0x1e72, 0x935c, 0x1ed0, 0x9344, 0x1e72, 0x90dd, 0x9ba, 0xa0, 0x1ed0, 0x93c4, 0x700c, 0xd920,
    0x1e72, 0x935c, 0x9aa, 0xa0, 0x1e72, 0x93dc, 0x1ed0, 0x13c4, 0x1e72, 0x909d, 0xf050, 0x45cb,
    0x9004, 0x116, 0x1d08, 0x1094, 0x1d02, 0x13d4, 0x702c, 0x40c3, 0xf, 0x4240, 0x234a, 0x1200,
    0x43db, 0x0, 0x818, 0xb5e0, 0x1d6c, 0x12c4, 0x1df2, 0x9044, 0x1d66, 0x1044, 0x4628, 0x96a,
    0xa0, 0x1d6c, 0x16c4, 0x40c3, 0xf, 0x4240, 0x2342, 0x341b, 0x781d, 0x702c, 0x952, 0xa0,
    0x1d6c, 0x16c4, 0x40c3, 0x98, 0x9680, 0x702c, 0x942, 0xa0, 0x1d6c, 0x12c4, 0xd888, 0x1d6c,
    0x1004, 0x700c, 0x218a, 0xd07, 0x1d6c, 0x12c4, 0x1d6c, 0x1384, 0x1d72, 0x93dc, 0x1dd0, 0x93c4,
    0x1d72, 0x90dd, 0x91a, 0xa0, 0x1dd0, 0x9384, 0x700c, 0xd920, 0x1d72, 0x93dc, 0x90a, 0xa0,
    0x1d72, 0x939c, 0x1dd0, 0x1384, 0x1d72, 0x909d, 0x1404, 0x341b, 0xc6c6, 0x78e0, 0xe0e4, 0xd964,
    0x20ca, 0x45, 0x208c, 0x8906, 0x218a, 0x906, 0x20ca, 0x4d]"

definition train_imem_600_40 :: "(u64 \<times> u64) list" where
  "train_imem_600_40 = words_at 0x51400 [
    0x2080, 0x78e, 0x781d, 0x781d, 0x9, 0x20, 0x780f, 0x78e0, 0x80b, 0x8d4, 0x2080, 0x883,
    0xb886, 0x7fe0, 0x780f, 0x78e0, 0xc3e6, 0xc1ac, 0x45cb, 0x8000, 0x714, 0x70cd, 0xd80a, 0x41c3,
    0x94, 0x0, 0xb5ce, 0xfda, 0xff2f, 0xb5cd, 0xf002, 0x71c5, 0x71d5, 0x2f0, 0x29, 0x70d5,
    0x40c3, 0x8000, 0x658, 0x41c3, 0x8000, 0x6fd, 0x2055, 0xa42, 0x6901, 0x20ca, 0x81, 0x8800,
    0x6943, 0xa914, 0x4020, 0x20c0, 0xa2, 0x8800, 0x70d5, 0xa915, 0x491b, 0x20ca, 0x81, 0xa500,
    0x6945, 0x491d, 0x20ca, 0x81, 0xa501, 0x6947, 0x491f, 0x70d5, 0x20ca, 0x81, 0xa502, 0x2140,
    0x242, 0x4929, 0x20ca, 0x81, 0xa503, 0x710c, 0x2644, 0x17c1, 0xe905, 0xb961, 0x9ff, 0x8031,
    0x781b, 0x1bec, 0xb000, 0x700c, 0xf002, 0x7104, 0x7a0f, 0xa8b, 0x80b5, 0xad10, 0x79cf, 0xc52,
    0xffaf, 0x4040, 0xa1b, 0x71, 0x1be0, 0xb000, 0x1600, 0x7081, 0x8000, 0x58, 0x13ec, 0xb000,
    0x790b, 0x710c, 0xf00a, 0xea8b, 0x1600, 0x7081, 0x8000, 0x25, 0x13ec, 0xb000, 0x790b, 0x700c,
    0xf3e1, 0x71ed, 0x40e1, 0xbac4, 0xea05, 0xba61, 0xaff, 0x8031]"

definition train_imem_600_41 :: "(u64 \<times> u64) list" where
  "train_imem_600_41 = words_at 0x51480 [
    0x781b, 0xa96, 0xff6f, 0x780f, 0x13ec, 0xb000, 0x13e0, 0xb001, 0x1e00, 0x73c2, 0x8000, 0x658,
    0x780f, 0xb4e, 0xff6f, 0x1bf0, 0xb000, 0x70ed, 0x40c3, 0x3, 0xd090, 0x1e00, 0x73c2, 0x8000,
    0x658, 0xfae, 0x60, 0x702c, 0xd854, 0x1bfc, 0xb700, 0x2402, 0x301c, 0xc083, 0xf4e, 0xfeaf,
    0x1be8, 0xb000, 0x13e8, 0xb001, 0x700c, 0xf005, 0x1901, 0x13, 0x7104, 0xe0d0, 0xf6fc, 0xf003,
    0x71e5, 0x700c, 0xe7d0, 0x9e, 0x29, 0x1bf4, 0xb000, 0xea6, 0xffef, 0x78ef, 0x1bdc, 0xb000,
    0x8d30, 0x13dc, 0xb002, 0x700c, 0xf06, 0x20, 0x1bf8, 0xb000, 0x40c3, 0x3, 0xd090, 0xf52,
    0x60, 0x702c, 0x92a, 0xff2f, 0x13f0, 0xb000, 0x8d30, 0x710c, 0x2342, 0x3202, 0xb9c4, 0xe906,
    0xb961, 0x901, 0x31, 0x781b, 0x7b0f, 0x13f0, 0xb000, 0x2342, 0x3201, 0xfda, 0xfeaf, 0x1c00,
    0x3081, 0x13f8, 0xb000, 0x8d30, 0x13dc, 0xb002, 0x2004, 0xf80, 0x0, 0x3f00, 0x1bf8, 0xb000,
    0xc041, 0x1be0, 0xb000, 0xc140, 0x740c, 0x41c3, 0x95, 0x4, 0xe26, 0xff2f, 0x43c1, 0x13e0,
    0xb000, 0x871, 0x8010, 0x13e8, 0xb000, 0x60f9, 0x710c, 0xa900]"

definition train_imem_600_42 :: "(u64 \<times> u64) list" where
  "train_imem_600_42 = words_at 0x51500 [
    0xf1b0, 0x77ed, 0x700c, 0x1be4, 0xb3c0, 0x1bdc, 0xb3c0, 0xf015, 0x13dc, 0xb000, 0xc142, 0x13e0,
    0xb002, 0xc041, 0x13e4, 0xb000, 0x41c3, 0x96, 0x5, 0x43e1, 0xc040, 0xde6, 0xff2f, 0x740c,
    0x13e0, 0xb000, 0x7104, 0x1be0, 0xb000, 0x13e0, 0xb000, 0xe0d0, 0x56, 0x29, 0x770c, 0x13e8,
    0xb000, 0x1001, 0x481, 0x1be8, 0xb000, 0x13dc, 0xb000, 0x7104, 0xe817, 0xe95c, 0x13e4, 0xb000,
    0x48f2, 0x13e0, 0xb000, 0x6869, 0x13dc, 0xb000, 0x4b10, 0x7050, 0x13e4, 0xb000, 0x20ca, 0xc9,
    0x1be4, 0xb000, 0x13dc, 0xb000, 0x27ca, 0x1009, 0xf002, 0xe904, 0x770c, 0xf004, 0x13e0, 0xb000,
    0x1bdc, 0xb000, 0xf1be, 0x13dc, 0xb001, 0x2139, 0x1, 0x2738, 0x1000, 0x782b, 0x13e4, 0xb000,
    0xd950, 0x703c, 0x1be4, 0xb000, 0x13dc, 0xb000, 0x771c, 0x77f5, 0xf208, 0x13e4, 0xb000, 0x78e2,
    0x207f, 0x100, 0x1bf4, 0xb000, 0x8d70, 0x13f4, 0xb000, 0x41c3, 0x97, 0x2, 0xe5a, 0xfeaf,
    0x42c1, 0x13e4, 0xb000, 0x60f8, 0x2844, 0x80, 0xd2e, 0xffef, 0x780f, 0xc26, 0x1a0, 0x4300,
    0x8d30, 0x2845, 0x282, 0x2614, 0x1041, 0x61b9, 0xa97a, 0x8d30]"

definition train_imem_600_43 :: "(u64 \<times> u64) list" where
  "train_imem_600_43 = words_at 0x51580 [
    0xc142, 0xc641, 0xc340, 0x2849, 0x283, 0x41c3, 0x98, 0x5, 0xcfe, 0xff2f, 0x740c, 0x13f0,
    0xb000, 0x1e00, 0x7043, 0x8000, 0x658, 0xcee, 0xff4f, 0x13fc, 0xb01c, 0x58b, 0xffef, 0x8d10,
    0x1d1e, 0x1043, 0xc7c6, 0x78e0, 0xc2e6, 0x1cfc, 0xb6c8, 0xc1bc, 0x43db, 0x8000, 0x700, 0x1310,
    0x308b, 0x710c, 0xeb6, 0x20, 0xc192, 0xd80c, 0x2805, 0x2c0, 0x702c, 0xc146, 0x205a, 0x100,
    0x7404, 0xc047, 0xf005, 0x7a34, 0x700c, 0xb200, 0x7124, 0x9fb, 0x82b2, 0xc297, 0x700c, 0xf004,
    0xc004, 0x7104, 0xc044, 0xc004, 0x7214, 0x49e, 0x29, 0x712c, 0xc004, 0x4528, 0xb8c4, 0xe806,
    0xb861, 0x801, 0x31, 0x7dbb, 0xd825, 0xb89f, 0x1600, 0x7081, 0x8000, 0x25, 0x1033, 0x80,
    0x7825, 0x78ab, 0xf3e6, 0x78af, 0x47cb, 0x8000, 0x658, 0xc045, 0x8f00, 0xe808, 0x1600, 0x7080,
    0x8000, 0x1, 0xb8e3, 0xf287, 0x700c, 0xf62, 0xfeef, 0xd9ff, 0x70cd, 0xd820, 0xc643, 0xc041,
    0x255a, 0x1100, 0x702c, 0x734c, 0xdb22, 0x7d05, 0xd8ff, 0x7daf, 0xc640, 0xa46, 0xff2f, 0xc542,
    0xd828, 0xc643, 0xc542, 0xc041, 0xd8ff, 0x702c, 0x734c, 0xdb22]"

definition train_imem_600_44 :: "(u64 \<times> u64) list" where
  "train_imem_600_44 = words_at 0x51600 [
    0xa2e, 0xff2f, 0xc640, 0xd8ff, 0x702c, 0x734c, 0xdb22, 0xc643, 0xc542, 0x1c04, 0x33c1, 0xa1a,
    0xff2f, 0xc040, 0xd8ff, 0x702c, 0x734c, 0xdb22, 0xc643, 0xc542, 0x1c04, 0x3501, 0xa02, 0xff2f,
    0xc640, 0xd8ff, 0xd980, 0x734c, 0xdb22, 0xc643, 0xc542, 0x1c04, 0x3081, 0x9ee, 0xff2f, 0xc640,
    0x700c, 0xf8e, 0xfeef, 0x712c, 0x1600, 0x7080, 0x8000, 0x4, 0xdae0, 0x201a, 0xf81, 0x20,
    0x0, 0x40c3, 0x9008, 0x100, 0x2105, 0x3, 0x7204, 0x7825, 0xb340, 0x1800, 0x485, 0x700c,
    0xeb2, 0xfeef, 0xd9ff, 0x9ee, 0xff2f, 0xd8ff, 0xc005, 0x702c, 0xc643, 0xc042, 0xd8ff, 0xb990,
    0x714c, 0x746c, 0xc641, 0xf86, 0xfeef, 0xc640, 0xd90c, 0xd8ff, 0xb98d, 0x734c, 0x746c, 0xc643,
    0xc542, 0xc641, 0xf6e, 0xfeef, 0xc640, 0x99e, 0xff2f, 0xd8ff, 0xd8ff, 0xd980, 0x754c, 0x746c,
    0xc643, 0xc642, 0xc641, 0xf56, 0xfeef, 0xc640, 0xd850, 0xc047, 0xf0ef, 0x9fe, 0xff4f, 0x70ad,
    0x70cd, 0xf003, 0x71c5, 0x74d5, 0x106, 0x29, 0x2679, 0x1080, 0x7704, 0xc049, 0x2650, 0x90be,
    0xf409, 0x40c3, 0x0, 0xa00, 0xe32, 0xfeef, 0xd9ff, 0x956]"

definition train_imem_600_45 :: "(u64 \<times> u64) list" where
  "train_imem_600_45 = words_at 0x51680 [
    0x180, 0x8f01, 0x702c, 0x704c, 0xc043, 0xc005, 0x726c, 0xc042, 0x710c, 0xc041, 0xc009, 0x780f,
    0xc048, 0x781d, 0x781d, 0x2045, 0x180, 0x2044, 0x980, 0xc040, 0xef2, 0xfeef, 0xd8ff, 0x8f01,
    0x702c, 0x704c, 0xc043, 0x710c, 0xc542, 0xc041, 0x2632, 0x1f80, 0x8000, 0x440, 0x726c, 0xb8c5,
    0xc040, 0xed2, 0xfeef, 0xd8ff, 0x8f01, 0x702c, 0x704c, 0xc043, 0xc005, 0x726c, 0xc042, 0x710c,
    0xc041, 0xc008, 0x781d, 0x2045, 0x580, 0x2044, 0xd80, 0xc040, 0xeaa, 0xfeef, 0xd8ff, 0x8f01,
    0x702c, 0x704c, 0xc043, 0x710c, 0xc542, 0xc041, 0xc009, 0x726c, 0xb8c5, 0xc040, 0xe8e, 0xfeef,
    0xd8ff, 0x40c3, 0x0, 0x2710, 0xb66, 0x60, 0xd90a, 0x781d, 0x781d, 0x7704, 0x780f, 0xc542,
    0xc541, 0xc540, 0xc048, 0xc043, 0xd8ff, 0x702c, 0x704c, 0xe66, 0xfeef, 0x726c, 0xc008, 0x702c,
    0x704c, 0xc043, 0xd8ff, 0x726c, 0xc542, 0xc541, 0xe4e, 0xfeef, 0xc540, 0x6e0b, 0x809, 0x8095,
    0x822, 0x180, 0x700c, 0xdfa, 0xfeef, 0x712c, 0xf17c, 0x40c3, 0x0, 0xa00, 0xd3e, 0xfeef,
    0xd9ff, 0x862, 0x180, 0x8f01, 0x702c, 0x71cd, 0xc043, 0xd8ff]"

definition train_imem_600_46 :: "(u64 \<times> u64) list" where
  "train_imem_600_46 = words_at 0x51700 [
    0x704c, 0xdb18, 0xc142, 0xc641, 0x4528, 0xe12, 0xfeef, 0xc140, 0x85a, 0xff2f, 0xd8ff, 0x8f01,
    0x702c, 0x704c, 0xc043, 0xc005, 0x726c, 0xc042, 0xd820, 0xc641, 0xc040, 0xdf2, 0xfeef, 0xd8ff,
    0x8f01, 0x702c, 0x704c, 0xc043, 0xd8ff, 0x726c, 0xc542, 0xc641, 0xdda, 0xfeef, 0x1c00, 0x30c1,
    0x8f01, 0x702c, 0x704c, 0xc043, 0xc005, 0x726c, 0xc042, 0xd8ff, 0xc641, 0xdc2, 0xfeef, 0x1c00,
    0x3481, 0x8f01, 0x702c, 0x704c, 0xc043, 0xd8ff, 0x726c, 0xc542, 0xc641, 0xdaa, 0xfeef, 0xc540,
    0x8f01, 0x702c, 0x704c, 0xc043, 0xd8ff, 0xdb08, 0xc542, 0xc641, 0xd92, 0xfeef, 0xc540, 0xfc2,
    0xfeef, 0xd8ff, 0x8f01, 0x702c, 0x704c, 0xc043, 0xd8ff, 0xdb18, 0xc542, 0xc641, 0xd76, 0xfeef,
    0xc540, 0xf52, 0x140, 0x218a, 0xfc7, 0x40c3, 0x9003, 0xe048, 0xb020, 0x1804, 0x5, 0x1600,
    0x7081, 0x8000, 0x25, 0xc005, 0x45cb, 0x8000, 0x72a, 0x790b, 0xf24d, 0xc007, 0x702c, 0xd02,
    0xfeef, 0x7810, 0x700c, 0xa02, 0x60, 0xd91e, 0x8d20, 0xf010, 0x211a, 0xf80, 0x0, 0x2000,
    0xc28e, 0x7a34, 0x7124, 0x2005, 0xf80, 0x9002, 0x54, 0x9000]"

definition train_imem_600_47 :: "(u64 \<times> u64) list" where
  "train_imem_600_47 = words_at 0x51780 [
    0x780f, 0xb200, 0x8d01, 0x8e5, 0x8063, 0x70ed, 0x8d40, 0x70cd, 0xf002, 0x7144, 0x8d01, 0x849,
    0xa2, 0xc397, 0x7b54, 0x9320, 0x214f, 0x0, 0xb300, 0xc08e, 0x20f4, 0x80, 0xe807, 0xc104,
    0x6f01, 0x7763, 0xe90b, 0xaf4c, 0xf00a, 0xc004, 0x6e81, 0x7663, 0xe808, 0xae48, 0x2145, 0x240,
    0xf007, 0xaf44, 0x4708, 0xf1e3, 0x2145, 0x140, 0xae40, 0x4689, 0xb300, 0xf1dd, 0x40c3, 0x0,
    0x9c4, 0xc5e, 0xfecf, 0xbba, 0xfecf, 0xd825, 0xb89f, 0x1033, 0x81, 0xc005, 0x790b, 0xf250,
    0xc007, 0x702c, 0xc5a, 0xfeef, 0x7810, 0x700c, 0x95a, 0x60, 0xd91e, 0x8d22, 0xf00f, 0x211a,
    0xf80, 0x0, 0x2000, 0xc28a, 0x7a34, 0x7124, 0x2005, 0xf80, 0x9002, 0x54, 0x9000, 0x780f,
    0xb200, 0x8d03, 0x8e3, 0x8063, 0x708d, 0x8d22, 0x704c, 0xf003, 0x7124, 0x8d03, 0x84b, 0x62,
    0xc08a, 0x20f4, 0x40, 0xe809, 0xc004, 0x6c61, 0xe811, 0x2300, 0x3300, 0xa82e, 0xf010, 0xc704,
    0xc097, 0x6a61, 0x2014, 0x4e, 0x7263, 0xef0c, 0x20f4, 0x40, 0xaa2a, 0xb883, 0xf00a, 0x2300,
    0x3300, 0xa826, 0x4468, 0xf1e2, 0x20f4, 0x40, 0xaa22, 0xb882]"

definition train_imem_600_48 :: "(u64 \<times> u64) list" where
  "train_imem_600_48 = words_at 0x51800 [
    0x4260, 0xb600, 0xf1da, 0x40c3, 0x0, 0x9c4, 0xbb2, 0xfecf, 0xb0e, 0xfecf, 0x365, 0xffcf,
    0xc006, 0x7104, 0xc046, 0xc006, 0x833, 0x2b3, 0xc197, 0xc006, 0x21f4, 0x2, 0xea76, 0x1600,
    0x7080, 0x8000, 0x19, 0xe8f2, 0xc006, 0x201a, 0xf80, 0x0, 0x2000, 0x2005, 0xf81, 0x9002,
    0x154, 0x2244, 0x300, 0xb100, 0xf1e4, 0x40c3, 0x8000, 0x658, 0x8800, 0xe809, 0x1600, 0x7080,
    0x8000, 0x1, 0xb8e3, 0x864, 0xff41, 0x700c, 0x1e00, 0x7005, 0x9003, 0xe048, 0x98e, 0x20,
    0xc192, 0xc0bc, 0x1404, 0x341b, 0xc6c6, 0x78e0, 0xc2e6, 0x1cfc, 0xb6c8, 0xc1a1, 0x70ad, 0xc240,
    0xe983, 0xf021, 0x71a5, 0x40c3, 0x8000, 0x711, 0x8801, 0xd71, 0x1003, 0x40c3, 0x8000, 0x720,
    0x8000, 0x60af, 0xc000, 0xf81a, 0x82e, 0x60, 0x1b00, 0x33c4, 0x700c, 0xf007, 0x1b00, 0x3044,
    0x1b00, 0x33c4, 0x7104, 0x8f9, 0x80b2, 0x264f, 0x1241, 0xf1e4, 0x71a5, 0x1600, 0x7080, 0x8000,
    0x711, 0xd35, 0x1003, 0x40c3, 0x8000, 0x71c, 0x8000, 0x60af, 0xc000, 0xf80b, 0xff2, 0x20,
    0x1b00, 0x33c4, 0x700c, 0xf007, 0x1b00, 0x3044, 0x1b00, 0x33c4]"

definition train_imem_600_49 :: "(u64 \<times> u64) list" where
  "train_imem_600_49 = words_at 0x51880 [
    0x7104, 0x8f9, 0x80b2, 0x264f, 0x1241, 0xf1e4, 0x7487, 0x1404, 0x341b, 0xc6c6, 0xc0f1, 0xdc6,
    0x160, 0x41e1, 0x4608, 0x271a, 0x1f80, 0x0, 0x2000, 0x264f, 0x128f, 0x702c, 0x2005, 0xf9b,
    0x9002, 0x50, 0x40c3, 0x0, 0xbb8, 0xc0d1, 0x7ee0, 0x78e0, 0xc2e6, 0x1cfc, 0xb6c8, 0xc1a1,
    0x4318, 0x4628, 0x4020, 0x732c, 0x4768, 0x8b6, 0x160, 0x4548, 0x710c, 0x2344, 0x37ca, 0xa11,
    0x1010, 0x2242, 0x104a, 0xaff, 0x9031, 0x781b, 0x205a, 0x10b, 0xed86, 0x40c1, 0x732c, 0xd76,
    0xfeef, 0xdabf, 0x230f, 0x16cd, 0xef86, 0x40c1, 0x732c, 0xd66, 0xfeef, 0xda7f, 0x1600, 0x7080,
    0x8000, 0x724, 0x235f, 0x364f, 0x704c, 0x205f, 0xc80, 0x238a, 0xdff, 0x1c00, 0x3fc1, 0x60d8,
    0x60f9, 0x97e, 0x1e0, 0x78af, 0xf7e, 0xff4f, 0xf86, 0xff6f, 0x4508, 0x4100, 0x8b2, 0x160,
    0x40a1, 0x1600, 0x7080, 0x8000, 0x724, 0x205f, 0xc80, 0x60d8, 0x60f8, 0x1003, 0xc1, 0xd840,
    0x7824, 0x781d, 0x781d, 0x781d, 0x781d, 0x7034, 0x20c5, 0x4ab, 0x1e00, 0x7004, 0x900e, 0x22,
    0x40c1, 0xc36, 0x120, 0x732c, 0x7487, 0x1404, 0x341b, 0xc6c6]"

definition train_imem_600_50 :: "(u64 \<times> u64) list" where
  "train_imem_600_50 = words_at 0x51900 [
    0xc0e2, 0x1600, 0x7082, 0x8000, 0x4, 0x7014, 0x221a, 0xf83, 0x20, 0x0, 0x2305, 0xf82,
    0x9002, 0x86, 0x9240, 0x2305, 0xf8c, 0x9003, 0xfe86, 0x706c, 0x22c4, 0xf81, 0x0, 0xbfff,
    0xf202, 0xba8e, 0xb440, 0xf004, 0xb440, 0x7164, 0xb39, 0x293, 0x231a, 0xf82, 0x0, 0x1000,
    0x2205, 0xf82, 0x1, 0x4a, 0x7a5b, 0x2205, 0xf8c, 0x9000, 0x0, 0xe80b, 0x9440, 0x2114,
    0xcd, 0xb540, 0x2204, 0xf82, 0x0, 0xfbff, 0xf1e6, 0x21f4, 0xc2, 0xf1e4, 0xc4c2, 0x78e0,
    0xc0e2, 0xdd24, 0x43c3, 0x8000, 0x72a, 0x1b00, 0x3, 0xbd9f, 0x8d20, 0x6907, 0x7a1d, 0x7a5d,
    0x7a5d, 0xd8ff, 0x6058, 0xab01, 0x1534, 0x108c, 0xec0e, 0xca02, 0x7c1d, 0xab82, 0x1533, 0x1082,
    0x6a07, 0x781d, 0x781d, 0x781d, 0x6098, 0x2080, 0xfc3, 0xf005, 0xab42, 0x1533, 0x1082, 0xab03,
    0x491f, 0x791d, 0x4a1f, 0x793d, 0x781d, 0x793d, 0x781d, 0x781d, 0x793d, 0x43c3, 0x8000, 0x6fc,
    0xab20, 0xab22, 0x781d, 0x793b, 0xab01, 0xab03, 0x6941, 0x6903, 0x1b04, 0x43, 0x1b0c, 0x43,
    0x1b05, 0xc3, 0x1b0d, 0xc3, 0x1b08, 0x3, 0x1b10, 0x3]"

definition train_imem_600_51 :: "(u64 \<times> u64) list" where
  "train_imem_600_51 = words_at 0x51980 [
    0x1b09, 0x83, 0x1b11, 0x83, 0xab46, 0xab07, 0xab4e, 0xab0f, 0x6902, 0xab2a, 0xab0b, 0xab32,
    0xab13, 0xc4c2, 0xc2e4, 0x1cfc, 0xb6c8, 0xc1a1, 0x4318, 0x710c, 0x4628, 0x4100, 0x2344, 0x37c0,
    0xe805, 0xb861, 0x8ff, 0x8031, 0x793b, 0x1600, 0x7080, 0x8000, 0x724, 0x81b, 0x71, 0x4548,
    0x1600, 0x7080, 0x8000, 0x58, 0x782b, 0x720c, 0xc040, 0x700c, 0xf00d, 0x7014, 0x730c, 0xc040,
    0xf40a, 0x1600, 0x7080, 0x8000, 0x25, 0x782b, 0x712c, 0x700c, 0xc140, 0xf213, 0xc6a, 0xfecf,
    0x81e, 0xff2f, 0xc000, 0xb9e, 0xfecf, 0x1600, 0x7001, 0x8000, 0x734, 0x4063, 0x42c1, 0xdb6,
    0xffef, 0x43a1, 0x710c, 0x7487, 0x1404, 0x341b, 0xc6c4, 0x78e0, 0x4833, 0x4910, 0x621a, 0x2348,
    0x3, 0x2248, 0x0, 0x2309, 0x0, 0x7fe0, 0x780f, 0x78e0, 0xc0f1, 0xf1e, 0x0, 0xc0d1,
    0x7fe0, 0x700c, 0x1600, 0x7101, 0x8000, 0x6, 0x782c, 0x2885, 0x41f, 0x7fe0, 0x7104, 0x78e0,
    0x790d, 0x218c, 0x8bff, 0xf607, 0x208c, 0x8802, 0xf451, 0x7fe0, 0x730c, 0x911, 0x733, 0x208c,
    0x8c03, 0x720c, 0x7ce0, 0xf049, 0xe1f7, 0x58, 0x29, 0xe1df]"

definition train_imem_600_52 :: "(u64 \<times> u64) list" where
  "train_imem_600_52 = words_at 0x51a00 [
    0x58, 0x29, 0xe1cf, 0x5c, 0x29, 0xe1c4, 0x5c, 0x29, 0xe0c5, 0x95f, 0xf13, 0x963,
    0xd53, 0x967, 0xc13, 0xb87c, 0x867, 0x475, 0x790f, 0x2025, 0x40, 0xf012, 0xf02d, 0xf02f,
    0xf02b, 0xf02f, 0xf029, 0xf02f, 0xf027, 0xf027, 0xf02d, 0xf025, 0xf023, 0xf02d, 0xf021, 0xf021,
    0xf01f, 0xf02b, 0x7fe0, 0xd83f, 0xe0f8, 0xf41b, 0x7fe0, 0xd808, 0xe0e0, 0xf417, 0x7fe0, 0xd807,
    0xe0d0, 0xf413, 0x7fe0, 0xd80a, 0xf40f, 0x7fe0, 0xd80b, 0x81b, 0xf31, 0xd818, 0x7ee0, 0x813,
    0xd71, 0xd80f, 0x7ee0, 0x80b, 0xc31, 0xd81a, 0x7ee0, 0x7fe0, 0x700c, 0x7fe0, 0xd83e, 0x7fe0,
    0xd83b, 0x7fe0, 0xd83a, 0x7fe0, 0xd81f, 0x7fe0, 0xd838, 0x7fe0, 0xd81b, 0x78e0, 0xc0e4, 0x70ad,
    0xf002, 0x71a5, 0xd1f, 0x10b2, 0x70cd, 0xf010, 0x255a, 0x1c83, 0x607c, 0x265a, 0x1643, 0x71c5,
    0x639b, 0x633b, 0x8b80, 0x7c45, 0xab80, 0xeed, 0x9092, 0xf1ef, 0xc4c4, 0x78e0, 0xc2e6, 0x1cfc,
    0xb6c8, 0x2482, 0x3f06, 0xd9e, 0xff6f, 0xc085, 0xc085, 0xd90d, 0xfbe, 0xffef, 0xdac8, 0x1600,
    0x7080, 0x8000, 0x1b, 0x45cb, 0x8000, 0x724, 0x86d, 0x1e]"

definition train_imem_600_53 :: "(u64 \<times> u64) list" where
  "train_imem_600_53 = words_at 0x51a80 [
    0x8d0e, 0xe834, 0x8dca, 0x8d0b, 0xdb4b, 0xc668, 0x1c39, 0x3002, 0x8d0c, 0xbb9f, 0x42c3, 0x9000,
    0x0, 0x1c52, 0x3002, 0x8d0d, 0x1c6b, 0x3002, 0x1b01, 0x392, 0x8d0b, 0xab00, 0x8d2c, 0x209a,
    0x4, 0x1b32, 0x42, 0x8d2d, 0x7e05, 0x1b33, 0x42, 0x13b8, 0x8080, 0x205f, 0x18c, 0x40c3,
    0x12, 0x310, 0x6419, 0x7204, 0x7945, 0xb1c0, 0x6098, 0x7a05, 0x1333, 0x80, 0x1332, 0x81,
    0x209a, 0x4, 0x7825, 0xb200, 0xd8ff, 0xc040, 0xc085, 0x712c, 0x42c3, 0x40, 0x5800, 0x972,
    0x1e0, 0x706c, 0xb72, 0x0, 0xa5e, 0xfecf, 0xa72, 0x40, 0x702c, 0x1e00, 0x7044, 0x9004,
    0xdc, 0x1600, 0x7080, 0x8000, 0x19, 0x7014, 0x228, 0x2, 0xf002, 0x6821, 0x782f, 0x7114,
    0x21c, 0x2d, 0xad20, 0xe809, 0x1600, 0x7080, 0x8000, 0x58, 0x7014, 0x710c, 0xf007, 0x1600,
    0x7080, 0x8000, 0x25, 0x7014, 0x700c, 0xf3ed, 0x6901, 0xdca, 0xfeef, 0x780f, 0x1600, 0x709b,
    0x8000, 0x4, 0x2400, 0x3f80, 0x0, 0x11c, 0x702c, 0xce2, 0x20, 0xdaa0, 0xc09f, 0xcda,
    0x20, 0xdaa0, 0x231a, 0x3f9b, 0x10, 0x0, 0x70cd, 0xf003]"

definition train_imem_600_54 :: "(u64 \<times> u64) list" where
  "train_imem_600_54 = words_at 0x51b00 [
    0x71c5, 0xe65, 0x1133, 0x2655, 0x1800, 0x265a, 0x1a0f, 0x2400, 0x3f81, 0x0, 0x11c, 0x2005,
    0x6c0, 0x61f9, 0xdfa, 0xe0, 0x724c, 0x2655, 0x1d00, 0xc19f, 0x2005, 0x6c0, 0xdea, 0xe0,
    0x61f9, 0x1503, 0x108b, 0x8d62, 0xf013, 0x2400, 0x3f8c, 0x0, 0x11c, 0x64fc, 0x7c74, 0x9fa,
    0xfeef, 0x9400, 0xb400, 0xc49f, 0x64fc, 0x7c74, 0x9ea, 0xfeef, 0x9400, 0xb400, 0x7164, 0xbdf,
    0x90c3, 0xf1d0, 0x8d20, 0xd830, 0xb89f, 0x2040, 0xcc3, 0x7034, 0x2342, 0x282, 0x23ca, 0x1,
    0xb86a, 0x718d, 0x22ca, 0x1, 0xc442, 0xf003, 0x7785, 0xc0d, 0x1033, 0x71cd, 0xf041, 0x77c5,
    0xef5, 0x9012, 0xefb, 0x9300, 0x8d03, 0x8de2, 0xc044, 0x700c, 0xb88f, 0x4308, 0xf022, 0x265a,
    0x1a1f, 0xc19f, 0x245a, 0x1a1b, 0x2100, 0x7c0, 0x20f4, 0x3c0, 0x7163, 0x21f4, 0x3c1, 0xc043,
    0xc003, 0x4910, 0x2308, 0x100b, 0x2400, 0x3f80, 0x0, 0x11c, 0x2700, 0x301f, 0x7063, 0x27f4,
    0x33c1, 0x20f4, 0x3c0, 0x71e5, 0x4831, 0xc001, 0x2008, 0x40, 0x780e, 0xc041, 0xc004, 0x8bb,
    0x83e3, 0x232f, 0x12c6, 0x856, 0xfeef, 0xc001, 0x4100, 0x84e]"

definition train_imem_600_55 :: "(u64 \<times> u64) list" where
  "train_imem_600_55 = words_at 0x51b80 [
    0xfeef, 0x4061, 0x1a01, 0x52, 0x1b01, 0x12, 0xf1c1, 0x8d20, 0xd82c, 0xb89f, 0x2040, 0xcc3,
    0x7034, 0x6b8c, 0x23ca, 0x1, 0xb864, 0x24ca, 0x1001, 0xf005, 0xc002, 0x7704, 0xc042, 0xc002,
    0x821, 0x33, 0x714c, 0xf045, 0x812, 0xfeef, 0xc001, 0x4100, 0x80a, 0xfeef, 0xc003, 0x1c01,
    0x1052, 0x1b01, 0x12, 0x7744, 0xad9, 0x8032, 0x70cd, 0x8d03, 0x8d22, 0xbe8f, 0xc05e, 0x40c1,
    0xf027, 0x225a, 0xa1f, 0x1408, 0x300b, 0x2400, 0x3f9b, 0x0, 0x11c, 0xc69f, 0x2300, 0x37c0,
    0x235a, 0x1a0b, 0x20f4, 0x40, 0xc044, 0x2600, 0x12c0, 0x20f4, 0x4f, 0xc004, 0x76e3, 0x2300,
    0x32db, 0x26f4, 0x105f, 0x23f4, 0x304b, 0x7f02, 0xc003, 0xc601, 0x2302, 0x17cb, 0x2008, 0x3c0,
    0x2608, 0x12ce, 0x7124, 0x780e, 0xc043, 0xc01e, 0x7ece, 0x8af, 0x8063, 0xc641, 0xf1be, 0x5e7,
    0xffef, 0x8d00, 0xbd2, 0xfeef, 0x730c, 0x700c, 0xb500, 0x1600, 0x7080, 0x8000, 0x19, 0x7014,
    0xc88, 0x101, 0x41c3, 0x9003, 0xe174, 0x700c, 0xb100, 0xf66, 0xfeef, 0xb101, 0x2480, 0x3f06,
    0x1404, 0x341b, 0xc6c6, 0x78e0, 0xc2e4, 0xc1a4, 0x4608, 0x700c]"

definition train_imem_600_56 :: "(u64 \<times> u64) list" where
  "train_imem_600_56 = words_at 0x51c00 [
    0xb2a, 0xfeaf, 0xd9ff, 0x1200, 0x3083, 0x702c, 0xd8ff, 0x754c, 0xc143, 0xc142, 0xc141, 0x4528,
    0xc02, 0xfeaf, 0xc140, 0xbec1, 0xd8ff, 0xd980, 0x764c, 0xdb20, 0xc543, 0xc642, 0xc541, 0xbee,
    0xfeaf, 0x1c00, 0x3041, 0x700c, 0xb9e, 0xfeaf, 0x712c, 0xc0a4, 0xc6c4, 0x78e0, 0xc2e4, 0xc1a4,
    0xd858, 0xb89f, 0x88a0, 0x10cd, 0x808e, 0x700c, 0xad6, 0xfeaf, 0xd9ff, 0x2505, 0x1380, 0x702c,
    0xb8c1, 0xc143, 0xc042, 0xc141, 0xc140, 0xd8ff, 0xd980, 0xda09, 0xbaa, 0xfeaf, 0xdb20, 0x700c,
    0xb5e, 0xfeaf, 0x712c, 0xc0a4, 0xc6c4, 0x78e0, 0x21aa, 0xc4, 0x911, 0x3f, 0x722c, 0x21ab,
    0xc4, 0x712c, 0x21ab, 0xc4, 0x80f, 0x415, 0x1600, 0x7100, 0x9008, 0x1d6, 0x7ee0, 0x21aa,
    0x104, 0x7b32, 0xb19, 0x25, 0x24aa, 0x1144, 0x22aa, 0x104, 0x9fd, 0x8084, 0x7862, 0x24aa,
    0x1144, 0xf003, 0x6038, 0x21aa, 0x104, 0x7110, 0x20e1, 0x7c6, 0x22aa, 0x144, 0xcf3, 0x9080,
    0x7ee0, 0x78e0, 0xc0f1, 0x866, 0x0, 0xfa6, 0xffcf, 0xc0d1, 0x7ee0, 0x78e0, 0xc0f1, 0xf5a,
    0xffcf, 0xf96, 0xffef, 0xd814, 0xc0d1, 0x7ee0, 0xc0f1, 0x846]"

definition train_imem_600_57 :: "(u64 \<times> u64) list" where
  "train_imem_600_57 = words_at 0x51c80 [
    0x0, 0x41c3, 0x8000, 0x658, 0x8920, 0x781b, 0xe915, 0x1600, 0x7081, 0x8000, 0x1, 0x923,
    0xdf, 0x41c3, 0x8000, 0x710, 0x8920, 0x917, 0x134, 0x216c, 0x41, 0x2809, 0x8042, 0xf208,
    0x6038, 0x7842, 0xf004, 0x809, 0x115, 0x740c, 0xc0d1, 0x7ee0, 0x246f, 0x1343, 0x9460, 0x231a,
    0x2, 0x2a05, 0xf82, 0x1e, 0x8480, 0x817, 0xf84, 0x3, 0xd41, 0x2885, 0xa0f, 0x201a,
    0xc2, 0x2a85, 0x41f, 0x793d, 0x6a01, 0x6941, 0x41c3, 0x8000, 0x658, 0x8920, 0xe90c, 0x14fb,
    0x9081, 0x915, 0xdf, 0x41c3, 0x8000, 0x710, 0x8920, 0x7034, 0x22da, 0x42, 0x7210, 0x7fe0,
    0x20ca, 0x8d, 0xc2e6, 0xf82, 0xff2f, 0xc1a4, 0x791d, 0x793d, 0x793d, 0x793d, 0xdd58, 0xb9c3,
    0xbd9f, 0x1a02, 0x3042, 0x8d20, 0xe90b, 0x781d, 0x1600, 0x7081, 0x8000, 0x57, 0x781d, 0x2044,
    0xe00, 0x611e, 0xf005, 0x1600, 0x708e, 0x8000, 0x24, 0xf4a, 0xff0f, 0x79cf, 0x7a3d, 0x7a5d,
    0x2653, 0x9083, 0x7a5d, 0x1a07, 0x30c2, 0x7b3d, 0x22c0, 0x62, 0x7b7d, 0x2653, 0x907e, 0xb8c3,
    0x23c0, 0x62, 0x1a03, 0x3002, 0x1a04, 0x3082, 0x1a05, 0x30c2]"

definition train_imem_600_58 :: "(u64 \<times> u64) list" where
  "train_imem_600_58 = words_at 0x51d00 [
    0xc040, 0x41c3, 0x5b, 0x3, 0xe06, 0xfeaf, 0xd80a, 0x216f, 0xc3, 0x8900, 0x69c5, 0xb8e2,
    0x730c, 0x78c0, 0x1a08, 0x3002, 0x491f, 0x8d60, 0x4528, 0x1524, 0x148f, 0x9080, 0x1002, 0x8b,
    0x9600, 0x150d, 0x1482, 0x41c3, 0x5d, 0x6, 0xc043, 0xd80a, 0xc742, 0x1c04, 0x32c0, 0xdca,
    0xfeaf, 0xc440, 0x1501, 0x1483, 0x8d21, 0x8d02, 0x16fe, 0x9082, 0x8d80, 0xc042, 0xc141, 0xd80a,
    0x41c3, 0x62, 0x5, 0xdaa, 0xfeaf, 0xc440, 0x41c3, 0x9008, 0x1a0, 0x1902, 0x15, 0x208a,
    0x44, 0x1902, 0x14, 0x208a, 0x144, 0x1902, 0x14, 0x208a, 0x1c4, 0x1904, 0x14, 0x208a,
    0x88, 0xb100, 0x208a, 0x288, 0xb101, 0x208a, 0x2c8, 0xb102, 0x208a, 0x3cc, 0x1e00, 0x7004,
    0x9009, 0xe180, 0xd934, 0x40c3, 0x9005, 0xe0ee, 0xb020, 0xe3a, 0xffef, 0x18fc, 0x8105, 0xc0a4,
    0xc6c6, 0x78e0, 0x621a, 0xf004, 0x1801, 0x52, 0x8fd, 0x8084, 0x7ee0, 0x78e0, 0xc2e6, 0x1cfc,
    0xb6c8, 0xc1a8, 0x704c, 0xba8c, 0x40c3, 0x0, 0xdabe, 0x45cb, 0x9012, 0x328, 0x1e00, 0x7084,
    0x8000, 0x2, 0xb500, 0xd829, 0xb501, 0x41c3, 0xc4, 0x1]"

definition train_imem_600_59 :: "(u64 \<times> u64) list" where
  "train_imem_600_59 = words_at 0x51d80 [
    0xd0e, 0xfeaf, 0xd80a, 0xcc1c, 0x9520, 0x7030, 0x700c, 0xf406, 0xcc1d, 0x9521, 0x2038, 0x40,
    0x41c3, 0xc6, 0x0, 0xe12, 0xfe0f, 0x1600, 0x7080, 0x8000, 0x4, 0xc041, 0x201a, 0xf80,
    0x20, 0x0, 0xc040, 0x2005, 0xf81, 0x9004, 0x32, 0x206f, 0x243, 0x90e6, 0x9100, 0xc043,
    0x1600, 0x7080, 0x8000, 0x4, 0x201a, 0xf80, 0x20, 0x0, 0x2005, 0xf80, 0x9002, 0x40,
    0x9000, 0x1a00, 0x3103, 0x1e00, 0x7043, 0x8000, 0x658, 0xf6e, 0xe0, 0xc047, 0xbfee, 0xce0,
    0x2, 0xbfe0, 0x266, 0x21, 0x70ad, 0xc000, 0x2005, 0xf81, 0x9005, 0xe032, 0xc003, 0xb880,
    0xb100, 0xc000, 0x2005, 0xf80, 0x9003, 0xe090, 0xc5a, 0x20, 0xb0a0, 0x256f, 0x1cc3, 0x8d00,
    0xe885, 0x1e00, 0x7085, 0x9004, 0xc0, 0xde6, 0xffcf, 0x8a6, 0xff4f, 0x8d00, 0x7014, 0xf4b7,
    0x1600, 0x7080, 0x8000, 0x4, 0x45cb, 0x8000, 0x428, 0x46cb, 0x8000, 0x414, 0xc045, 0x201a,
    0xf80, 0x20, 0x0, 0xc044, 0x2005, 0xf80, 0x9002, 0x86, 0x9020, 0x1600, 0x7083, 0x8000,
    0x0, 0x783d, 0x781d, 0x781d, 0x781d, 0xb8c2, 0x835, 0x90]"

definition train_imem_600_60 :: "(u64 \<times> u64) list" where
  "train_imem_600_60 = words_at 0x51e00 [
    0x81b, 0xf1, 0xbbe7, 0xce07, 0x46cb, 0x8000, 0x418, 0x761c, 0xce0c, 0x45cb, 0x8000, 0x42c,
    0xf00b, 0xbbe7, 0xce04, 0x46cb, 0x8000, 0x40c, 0x761c, 0xce09, 0x45cb, 0x8000, 0x420, 0x751c,
    0x1600, 0x7082, 0x8000, 0xc, 0x221a, 0xf80, 0x1, 0x86a0, 0xc042, 0x1408, 0x301b, 0xd807,
    0xb861, 0x801, 0x31, 0x232f, 0x36c2, 0x2144, 0x80, 0xb1b, 0x1fe, 0xc046, 0x233a, 0x3f80,
    0x1, 0x4c08, 0x41c3, 0x13f, 0x1, 0xcc6, 0xfe0f, 0xc006, 0x6612, 0x6511, 0xc005, 0xe893,
    0x2302, 0x3040, 0x2048, 0x0, 0x2804, 0x80, 0xd97f, 0x780f, 0xe0fe, 0x21ca, 0xc, 0x40c3,
    0x9003, 0xfe80, 0xb020, 0x18e0, 0x8044, 0xc002, 0xc501, 0x2805, 0xf80, 0x0, 0xfa00, 0x251a,
    0x1f8d, 0x10, 0x0, 0x7104, 0x790f, 0x218c, 0x8002, 0xf68d, 0x2300, 0x3f80, 0xffff, 0x793c,
    0x708d, 0x208c, 0x8d47, 0xf687, 0x2884, 0xd07, 0xf004, 0x718d, 0xf002, 0x710c, 0x205a, 0x202,
    0xc104, 0x780f, 0xe0ff, 0x245f, 0x1100, 0x2105, 0xf83, 0x9005, 0xe164, 0x2284, 0xe1f, 0x218a,
    0xe0f, 0x21ca, 0x8b, 0x7905, 0x1600, 0x7100, 0x9004, 0x164]"

definition train_imem_600_61 :: "(u64 \<times> u64) list" where
  "train_imem_600_61 = words_at 0x51e80 [
    0xb8c1, 0x7825, 0xb300, 0xc000, 0x2005, 0xf80, 0x9002, 0x86, 0xe6e, 0xe0, 0x90c0, 0xdfe,
    0xe0, 0x40a1, 0xc000, 0xbe80, 0x2005, 0xf81, 0x9003, 0xfe86, 0xb1c0, 0xaee, 0x0, 0xd4e,
    0xff8f, 0xb62, 0xfe8f, 0xe06, 0xff4f, 0x702c, 0x706c, 0x71cd, 0xf002, 0x7164, 0xca04, 0xb71,
    0x23, 0x708d, 0x235a, 0x49f, 0x2700, 0x3f82, 0x8000, 0x658, 0xb221, 0xf003, 0x7185, 0xce7,
    0x9213, 0x231a, 0xf80, 0x0, 0x1000, 0x7885, 0x781b, 0x2005, 0xf80, 0x9002, 0x140, 0x9000,
    0x7d0f, 0xd15, 0x1321, 0x2544, 0x17db, 0x8a02, 0x200f, 0x300, 0xaa02, 0xf1ea, 0x8a03, 0x45c9,
    0x7104, 0xaa03, 0x780f, 0x2714, 0x3000, 0xb11, 0x3010, 0x2342, 0x305b, 0xbff, 0xb031, 0x7dbb,
    0x70c3, 0x8000, 0x658, 0xa8a2, 0xa883, 0xf1d6, 0xf13, 0x133e, 0x710c, 0xd1a, 0xfe0f, 0xa7e,
    0x20, 0xd80d, 0x700c, 0xb66, 0x180, 0x952, 0xfe8f, 0x70ad, 0x1e00, 0x7342, 0x8000, 0x658,
    0xa62, 0x20, 0x700c, 0xf003, 0x71a5, 0xca04, 0xd2d, 0x1022, 0x702c, 0xf019, 0x2000, 0xf82,
    0x8000, 0x844, 0x251a, 0x1f80, 0x0, 0x1000, 0x7825, 0x781b]"

definition train_imem_600_62 :: "(u64 \<times> u64) list" where
  "train_imem_600_62 = words_at 0x51f00 [
    0x2005, 0xf80, 0x9002, 0x140, 0x9060, 0xaa60, 0xb020, 0x7124, 0x9dd, 0x8232, 0x2116, 0x340,
    0xf1e4, 0xd76, 0xfeaf, 0x710c, 0xf11, 0x10be, 0x700c, 0x90a, 0x100, 0xa12, 0x20, 0x720c,
    0x2744, 0x908e, 0xf207, 0x8fa, 0x120, 0x710c, 0x9fe, 0x20, 0x710c, 0xf1d, 0x121e, 0x1600,
    0x7080, 0x8000, 0x4, 0xe888, 0x8de, 0x120, 0x730c, 0x9e6, 0x20, 0xd80a, 0x2744, 0x920d,
    0xf207, 0x8ce, 0x120, 0x750c, 0x9d2, 0x20, 0xd8fd, 0xee08, 0x8be, 0x120, 0x720c, 0x9c6,
    0x20, 0xd8fe, 0xf11, 0x113e, 0x760c, 0x8ae, 0x100, 0x9b6, 0x20, 0x740c, 0xf15, 0x1051,
    0x1600, 0x7080, 0x8000, 0x19, 0xe884, 0x896, 0x120, 0xd80d, 0xed07, 0x88e, 0x120, 0x740c,
    0x992, 0x20, 0x730c, 0xf7d, 0x127e, 0xdd0f, 0x1600, 0x7080, 0x8000, 0x1, 0x46cb, 0x8000,
    0x724, 0xb8e2, 0x25ca, 0x1062, 0x700c, 0xf003, 0x7104, 0xae00, 0x780f, 0x84b, 0x95, 0xe809,
    0x1600, 0x7080, 0x8000, 0x58, 0x7014, 0x710c, 0xf007, 0x1600, 0x7080, 0x8000, 0x25, 0x7014,
    0x700c, 0xf3ee, 0x8ea, 0xfe8f, 0x8e00, 0x7104, 0xc9a, 0xfeaf]"

definition train_imem_600_63 :: "(u64 \<times> u64) list" where
  "train_imem_600_63 = words_at 0x51f80 [
    0x780f, 0x81a, 0xfe8f, 0x852, 0xfeaf, 0x1e01, 0x1003, 0x4100, 0xafa, 0x120, 0x40a1, 0x8e00,
    0xf1da, 0xc7e, 0xfeaf, 0x730c, 0x91a, 0x20, 0xd809, 0xf010, 0x1600, 0x7080, 0x8000, 0x4,
    0x201a, 0xf80, 0x20, 0x0, 0x2005, 0xf81, 0x9003, 0xe040, 0xc007, 0xb100, 0xd825, 0xb89f,
    0x88e0, 0x1033, 0x80, 0x70cd, 0x43d9, 0x7f05, 0xf002, 0x7167, 0xb39, 0x30b3, 0x710c, 0x2344,
    0x37c1, 0xe906, 0xb961, 0x901, 0x31, 0x781b, 0x7f0b, 0xf3f5, 0x4063, 0x84a, 0xfeaf, 0x712c,
    0xc101, 0x4508, 0x710c, 0xb6a, 0xfeaf, 0x42a1, 0xc101, 0x700c, 0xb5e, 0xfeaf, 0x42a1, 0xf1e5,
    0xd46, 0xff8f, 0xf002, 0x71c5, 0xca04, 0xe2f, 0x1022, 0x704c, 0xf016, 0x261a, 0x1f80, 0x0,
    0x1000, 0x7845, 0x781b, 0x2005, 0xf81, 0x9002, 0x140, 0x2216, 0x380, 0x2032, 0xf80, 0x8000,
    0x844, 0x7144, 0xb100, 0xadf, 0x8212, 0xf1e7, 0xc000, 0x2005, 0xf81, 0x9005, 0xe032, 0xc003,
    0xb100, 0xbb6, 0xfeaf, 0x700c, 0xa5e, 0xc0, 0xd6e, 0x120, 0xd807, 0x700c, 0x20ab, 0xc4,
    0x7fff, 0xf000, 0xc2e2, 0x45cb, 0x9004, 0x4, 0x9500, 0xb8a1]"

definition train_imem_600_64 :: "(u64 \<times> u64) list" where
  "train_imem_600_64 = words_at 0x52000 [
    0xb500, 0x886, 0xffef, 0x740c, 0xd81f, 0x87e, 0xffef, 0x1df6, 0x105d, 0xc6c2, 0xc2e2, 0x872,
    0xffef, 0xd81f, 0x45cb, 0x9004, 0x1f0, 0x740c, 0x862, 0xffef, 0x1d00, 0x1005, 0x150a, 0x9700,
    0xb881, 0x1d0a, 0x901c, 0xc6c2, 0xc0f1, 0x1600, 0x7081, 0x8000, 0x12, 0x218c, 0x8203, 0xd0c,
    0x10e, 0x826, 0x0, 0xc0d1, 0x7ee0, 0x78e0, 0xc0f1, 0x40c3, 0x3, 0xd40, 0xb6a, 0xff8f,
    0x826, 0xffef, 0x781d, 0xc0d1, 0x7ee0, 0x78e0, 0xc2e2, 0x1600, 0x7080, 0x8000, 0x1, 0x81b,
    0x3e, 0xd80a, 0x45cb, 0x9005, 0xe036, 0x806, 0xffef, 0x1d00, 0x1045, 0x1d00, 0x1005, 0xc6c2,
    0x40c3, 0x9004, 0xf2, 0x1800, 0x45, 0x7fe0, 0x1800, 0x5, 0xc2e6, 0x1cfc, 0xb6c8, 0xc1be,
    0x4708, 0x4040, 0x4568, 0x4648, 0x9b6, 0xff2f, 0x4338, 0xc04f, 0x4060, 0xdc08, 0xbc61, 0xc01,
    0x1031, 0x781d, 0xb8c0, 0xc26, 0xff2f, 0xc04e, 0x2553, 0x10c0, 0x41c3, 0x9003, 0xe0c4, 0xb100,
    0xc00e, 0xdaf0, 0xb98b, 0x7014, 0x208a, 0xc07, 0x20ca, 0x81, 0x2004, 0x342, 0xb140, 0xc094,
    0x702c, 0xda28, 0x9d2, 0xffef, 0xc394, 0x1490, 0x3000, 0xc743]"

definition train_imem_600_65 :: "(u64 \<times> u64) list" where
  "train_imem_600_65 = words_at 0x52080 [
    0x714c, 0xc050, 0xc044, 0x1494, 0x3000, 0x41c1, 0xc045, 0xc051, 0xd820, 0xc346, 0x1c1c, 0x3103,
    0x1c20, 0x36c0, 0x1c24, 0x3003, 0xc04a, 0x40c3, 0x0, 0xf00, 0xc04b, 0x78af, 0x20b8, 0xfc3,
    0xc54c, 0xc06d, 0x4040, 0x2744, 0x17c3, 0xeb06, 0xbb61, 0xb01, 0x31, 0x781b, 0x205a, 0x100,
    0x1c25, 0x3382, 0x200f, 0x3c0, 0x780f, 0x9ee, 0x20, 0xc052, 0xc00f, 0xe820, 0x42c3, 0x9008,
    0x1ea, 0x9200, 0x2004, 0xf81, 0x0, 0xc0ff, 0x2004, 0xf80, 0x0, 0x3f00, 0x2080, 0x10,
    0x7825, 0xb200, 0x1e00, 0x7005, 0x900f, 0xe022, 0x1600, 0x711b, 0x9004, 0xee, 0x2350, 0x3140,
    0x1e00, 0x7004, 0x9005, 0xe0ee, 0x148c, 0x3000, 0xc053, 0xa1e, 0x60, 0xc083, 0x47cb, 0x8000,
    0x726, 0x8fa0, 0xf005, 0xf82, 0xfdef, 0x42a1, 0x71a5, 0x8f01, 0x843, 0x362, 0x6e09, 0xc010,
    0x78b4, 0x9860, 0x4200, 0xeb95, 0xc094, 0x20f5, 0x340, 0x823, 0x813, 0x43c3, 0x0, 0xffe0,
    0x6079, 0xb220, 0x6b09, 0x7a30, 0x7b2e, 0x203c, 0x80, 0x41c3, 0x3d, 0x2, 0xf1e1, 0x237c,
    0x800, 0x41c3, 0x3e, 0x2, 0xf1db, 0x843, 0xb5, 0x77cd]"

definition train_imem_600_66 :: "(u64 \<times> u64) list" where
  "train_imem_600_66 = words_at 0x52100 [
    0xc00e, 0x45cb, 0x0, 0xf0f0, 0x7014, 0x40c3, 0xffff, 0xf0f0, 0x70dd, 0x7b10, 0xd80f, 0x41a1,
    0x42a1, 0xfa2, 0xfeef, 0xc340, 0xc00e, 0x41a1, 0x42a1, 0x7014, 0x40c3, 0xffff, 0xf0f0, 0x761c,
    0x7bd0, 0xd808, 0xf86, 0xfeef, 0xc340, 0xbaa, 0x60, 0xc083, 0x8fa0, 0xf006, 0xeea, 0xfdef,
    0x42a1, 0x71a5, 0x8f01, 0x843, 0x342, 0xc011, 0x78b4, 0x9860, 0xb2b, 0x7f1, 0x4200, 0xc094,
    0x20f5, 0x340, 0x81f, 0x833, 0x48c8, 0x2104, 0xf80, 0x0, 0xffe0, 0xb220, 0x7b2e, 0x2078,
    0x800, 0x41c3, 0x41, 0x2, 0xf1e2, 0x237c, 0x800, 0x41c3, 0x42, 0x2, 0xf1dc, 0xc00f,
    0xe884, 0xd6a, 0xffaf, 0xc012, 0x8fa0, 0xf02c, 0xc010, 0x20f5, 0x341, 0xc011, 0x20f5, 0x342,
    0x623b, 0x202f, 0x80c1, 0x203f, 0x30c, 0x207f, 0x7c0, 0x7884, 0x4408, 0x24c5, 0x1064, 0x7014,
    0x700c, 0x20ca, 0x7e2, 0x7b7d, 0x7095, 0x731c, 0xc013, 0x78b4, 0xb060, 0x4a30, 0x7b0e, 0xc242,
    0xc141, 0x237f, 0x140, 0x41c3, 0x46, 0x5, 0x42a1, 0xe4a, 0xfdef, 0x1c00, 0x3181, 0x71a5,
    0x8f01, 0x8ad, 0x8363, 0x778d, 0xc00f, 0xe819, 0x41c3, 0x9008]"

definition train_imem_600_67 :: "(u64 \<times> u64) list" where
  "train_imem_600_67 = words_at 0x52180 [
    0x1ea, 0x9100, 0x234f, 0x315b, 0x2004, 0xf82, 0x0, 0xc0ff, 0x2004, 0xf80, 0x0, 0x3f00,
    0x70c3, 0x0, 0xfc00, 0x7845, 0xb100, 0x1e00, 0x76c4, 0x9005, 0xe0ee, 0x1e00, 0x7005, 0x9003,
    0xe004, 0xc0be, 0x1404, 0x341b, 0xc6c6, 0x78e0, 0xc2e6, 0x1cfc, 0xb6c8, 0xc1ac, 0xc247, 0x4728,
    0xdaa, 0xfeef, 0xc046, 0xc048, 0xf16, 0xfeef, 0x40e1, 0xc02, 0xfe6f, 0x4608, 0x4508, 0xee97,
    0x700c, 0xfca, 0xfe2f, 0x702c, 0x1200, 0x3083, 0xd981, 0x700c, 0xc043, 0xc042, 0xc041, 0xc040,
    0xd8ff, 0xb98e, 0x89e, 0xfe6f, 0x754c, 0x700c, 0x852, 0xfe6f, 0x712c, 0xda6, 0xfecf, 0xdae,
    0xfeef, 0x4318, 0xc04b, 0x40c3, 0x0, 0x2710, 0xd62, 0xffaf, 0xd908, 0xc04a, 0xc008, 0x6f49,
    0x794f, 0x2314, 0x301b, 0x2342, 0x3400, 0x2044, 0x4c, 0x710c, 0x203c, 0x43, 0x2678, 0x1001,
    0x796b, 0x218a, 0xfc7, 0x20ca, 0x222, 0x79c0, 0xee05, 0x2578, 0x1003, 0xeb83, 0xb882, 0x2300,
    0x331b, 0x43c3, 0x900f, 0xe0c0, 0x1c10, 0x36c0, 0xb300, 0xb325, 0x772c, 0x70b5, 0x43db, 0xffff,
    0xf0f0, 0x4020, 0x707f, 0x23ca, 0x3042, 0xc145, 0xa2d, 0xb5]"

definition train_imem_600_68 :: "(u64 \<times> u64) list" where
  "train_imem_600_68 = words_at 0x52200 [
    0xc045, 0x45cb, 0x0, 0xf0f0, 0x232f, 0x6c8, 0xd80f, 0x41a1, 0x42a1, 0xdaa, 0xfeef, 0xc340,
    0xc005, 0x41a1, 0x42a1, 0x7b10, 0xd808, 0xd9a, 0xfeef, 0xc340, 0xc004, 0xe030, 0xc049, 0x274f,
    0x1040, 0x899, 0xb1, 0x70d5, 0xc006, 0xb8c1, 0xc044, 0xc008, 0x790f, 0xeea, 0xfe2f, 0x700c,
    0x702c, 0x70ad, 0x716f, 0xd8ff, 0xb98e, 0x754c, 0x746c, 0xc543, 0xc542, 0x1c04, 0x36c0, 0xfbe,
    0xfe2f, 0xc540, 0xc006, 0x702c, 0x704c, 0x7f0f, 0xd8ff, 0x746c, 0xc543, 0xc742, 0xc541, 0xfa6,
    0xfe2f, 0xc540, 0xc004, 0xc543, 0x702c, 0xc042, 0xd8ff, 0x764c, 0x746c, 0x1c04, 0x36c0, 0xf8e,
    0xfe2f, 0xc540, 0xc004, 0xc543, 0x702c, 0xc042, 0x750c, 0xc041, 0xd8ff, 0x764c, 0xdb28, 0xf76,
    0xfe2f, 0xc540, 0x9be, 0xfe6f, 0xd8ff, 0xc007, 0x46cb, 0x0, 0x3100, 0xe817, 0x1c0c, 0x3441,
    0xc541, 0xc540, 0xc742, 0xf098, 0x2e6, 0x21, 0x73f5, 0x46cb, 0x0, 0xaaaa, 0xf207, 0x75f5,
    0x45a, 0x2, 0x46cb, 0x0, 0xb2b2, 0x46b, 0x0, 0xd8ff, 0x41c1, 0x724c, 0x746c, 0xc543,
    0xc541, 0xc540, 0xf26, 0xfe2f, 0xc742, 0xd8ff, 0x702c, 0x704c]"

definition train_imem_600_69 :: "(u64 \<times> u64) list" where
  "train_imem_600_69 = words_at 0x52280 [
    0x746c, 0xc543, 0xc742, 0x1c04, 0x36c0, 0xf12, 0xfe2f, 0xc540, 0xd8ff, 0x41c1, 0x724c, 0xdb08,
    0x1c0c, 0x36c0, 0xc742, 0xc541, 0xefa, 0xfe2f, 0xc540, 0xd8ff, 0x41c1, 0x724c, 0x746c, 0xc543,
    0xc742, 0xc541, 0xee6, 0xfe2f, 0xc540, 0x750c, 0xc543, 0xc742, 0xc041, 0xd8ff, 0x702c, 0x704c,
    0x746c, 0xed2, 0xfe2f, 0xc540, 0xd8ff, 0x41c1, 0x724c, 0xdb08, 0x1c0c, 0x36c0, 0xc742, 0xc541,
    0xeba, 0xfe2f, 0xc540, 0x750c, 0xc043, 0xd8ff, 0x41c1, 0x724c, 0xdb08, 0xc742, 0xc541, 0xea6,
    0xfe2f, 0xc540, 0xd8ff, 0x41c1, 0x724c, 0x746c, 0xc543, 0xc742, 0xc541, 0xe92, 0xfe2f, 0xc540,
    0xc004, 0xc543, 0x702c, 0xc042, 0xd8ff, 0x764c, 0x746c, 0x1c04, 0x36c0, 0xe7a, 0xfe2f, 0xc540,
    0xd8ff, 0x41c1, 0x724c, 0xdb08, 0x1c0c, 0x36c0, 0xc742, 0xc541, 0xe62, 0xfe2f, 0xc540, 0xd8ff,
    0x41c1, 0x724c, 0x746c, 0xc543, 0xc742, 0xc541, 0xe4e, 0xfe2f, 0xc540, 0xc004, 0xc543, 0x702c,
    0xc042, 0x750c, 0xc041, 0xd8ff, 0x764c, 0x746c, 0xe36, 0xfe2f, 0xc540, 0x1c0c, 0x36c0, 0xc742,
    0xc541, 0xc540, 0xd8ff, 0x41c1, 0x724c, 0xe22, 0xfe2f, 0xdb08]"

definition train_imem_600_70 :: "(u64 \<times> u64) list" where
  "train_imem_600_70 = words_at 0x52300 [
    0xc009, 0x70ad, 0x702c, 0x780f, 0xc045, 0xc305, 0xd8ff, 0x754c, 0xc543, 0xc542, 0xc541, 0xe06,
    0xfe2f, 0xc540, 0xc007, 0x46cb, 0x0, 0x2100, 0x716f, 0x7014, 0xf289, 0xd8ff, 0x41c1, 0x714c,
    0x746c, 0xc543, 0xc541, 0xc540, 0xde2, 0xfe2f, 0xc742, 0xd8ff, 0x702c, 0x704c, 0x746c, 0xc543,
    0xc742, 0x1c04, 0x36c0, 0xdce, 0xfe2f, 0xc540, 0xd8ff, 0x41c1, 0x714c, 0xdb08, 0x1c0c, 0x36c0,
    0xc742, 0xc541, 0xdb6, 0xfe2f, 0xc540, 0xd8ff, 0x41c1, 0x714c, 0x746c, 0xc543, 0xc742, 0xc541,
    0xda2, 0xfe2f, 0xc540, 0x750c, 0xc543, 0xc742, 0xc041, 0xd8ff, 0x702c, 0x704c, 0x746c, 0xd8e,
    0xfe2f, 0xc540, 0xd8ff, 0x41c1, 0x714c, 0xdb08, 0x1c0c, 0x36c0, 0xc742, 0xc541, 0xd76, 0xfe2f,
    0xc540, 0x750c, 0xc043, 0xd8ff, 0x41c1, 0x714c, 0xdb08, 0xc742, 0xc541, 0xd62, 0xfe2f, 0xc540,
    0xd8ff, 0x41c1, 0x714c, 0x746c, 0xc543, 0xc742, 0xc541, 0xd4e, 0xfe2f, 0xc540, 0xc004, 0xc543,
    0x702c, 0xc042, 0xd8ff, 0x764c, 0x746c, 0x1c04, 0x36c0, 0xd36, 0xfe2f, 0xc540, 0xd8ff, 0x41c1,
    0x714c, 0xdb08, 0x1c0c, 0x36c0, 0xc742, 0xc541, 0xd1e, 0xfe2f]"

definition train_imem_600_71 :: "(u64 \<times> u64) list" where
  "train_imem_600_71 = words_at 0x52380 [
    0xc540, 0xd8ff, 0x41c1, 0x714c, 0x746c, 0xc543, 0xc742, 0xc541, 0xd0a, 0xfe2f, 0xc540, 0xc004,
    0xc543, 0x702c, 0xc042, 0x750c, 0xc041, 0xd8ff, 0x764c, 0x746c, 0xcf2, 0xfe2f, 0xc540, 0x1c0c,
    0x36c0, 0xc742, 0xc541, 0xc540, 0xf006, 0x1c0c, 0x3441, 0xc541, 0xc540, 0xc742, 0xd8ff, 0x41c1,
    0x714c, 0xcd2, 0xfe2f, 0xdb08, 0xc305, 0x702c, 0xd8ff, 0x754c, 0xc143, 0xc142, 0xc141, 0x4528,
    0xcba, 0xfe2f, 0xc140, 0x702c, 0xd8ff, 0xb98f, 0x754c, 0x746c, 0x1c0c, 0x30c1, 0xc542, 0xc541,
    0xca2, 0xfe2f, 0xc540, 0xd8ff, 0x702c, 0x754c, 0xdb30, 0xc543, 0xc542, 0xc541, 0xc8e, 0xfe2f,
    0xc540, 0xebe, 0xfe2f, 0xd8ff, 0xc004, 0xc543, 0xd980, 0xc042, 0xc541, 0x1c00, 0x3041, 0xd8ff,
    0x403, 0x20, 0x764c, 0xc00a, 0x71f5, 0x70ad, 0x791d, 0xc00b, 0x70ed, 0x6038, 0xe008, 0x2044,
    0x41, 0x6038, 0x3ec, 0x22, 0xc047, 0xf064, 0x2779, 0x1000, 0x7704, 0x7e10, 0x232f, 0x6c8,
    0xd80f, 0x41c1, 0x42c1, 0x9de, 0xfeef, 0xc340, 0xc005, 0x41c1, 0x42c1, 0x7b10, 0xd808, 0x9ce,
    0xfeef, 0xc340, 0xc104, 0xb36, 0xfe2f, 0x700c, 0x1200, 0x3083]"

definition train_imem_600_72 :: "(u64 \<times> u64) list" where
  "train_imem_600_72 = words_at 0x52400 [
    0xd8ff, 0x702c, 0x754c, 0xc543, 0xc542, 0xc541, 0xc0e, 0xfe2f, 0xc540, 0xd8ff, 0x702c, 0x754c,
    0x726c, 0xc543, 0xc542, 0xc541, 0xbfa, 0xfe2f, 0xc540, 0xc006, 0x73cd, 0xc643, 0x780f, 0xc042,
    0xc044, 0xd8ff, 0x702c, 0x724c, 0xdb08, 0xc541, 0xbde, 0xfe2f, 0x1c00, 0x3281, 0xc004, 0xc643,
    0x702c, 0xc042, 0xd8ff, 0x724c, 0xdb08, 0xc541, 0xbc6, 0xfe2f, 0xc540, 0xd8ff, 0x702c, 0x724c,
    0xdb08, 0xc643, 0xc542, 0xc541, 0xbb2, 0xfe2f, 0x1c00, 0x3281, 0xc007, 0xd980, 0x754c, 0x7b0f,
    0xd8ff, 0xc543, 0xc542, 0xc541, 0xb9a, 0xfe2f, 0xc540, 0x700c, 0xb4e, 0xfe2f, 0x712c, 0x71e5,
    0xc008, 0x780f, 0xf39, 0x90b2, 0xc044, 0xc104, 0xa8e, 0xfe2f, 0x700c, 0x1200, 0x3083, 0xd8ff,
    0x702c, 0x754c, 0xc543, 0xc542, 0xc541, 0xb6a, 0xfe2f, 0xc540, 0xdb2, 0xfe2f, 0xd8ff, 0xd8ff,
    0x702c, 0x754c, 0x726c, 0xc543, 0xc542, 0xc541, 0xb4e, 0xfe2f, 0xc540, 0xca08, 0x702c, 0x714c,
    0xc043, 0xc006, 0xdb08, 0x780f, 0xc042, 0xd8ff, 0xc541, 0xb36, 0xfe2f, 0xc540, 0xc009, 0x702c,
    0x754c, 0x2054, 0xc80, 0x7b0f, 0xd8ff, 0xc543, 0xc542, 0xc541]"

definition train_imem_600_73 :: "(u64 \<times> u64) list" where
  "train_imem_600_73 = words_at 0x52480 [
    0xb1a, 0xfe2f, 0xc540, 0x702c, 0xd8ff, 0xb98f, 0x754c, 0x746c, 0x1c0c, 0x3081, 0xc542, 0xc541,
    0xb02, 0xfe2f, 0xc540, 0xd8ff, 0x702c, 0x754c, 0xdb50, 0xc543, 0xc542, 0xc541, 0x267, 0x20,
    0xc540, 0xf11, 0x1131, 0x70cd, 0x46cb, 0x0, 0xcccc, 0xf007, 0xf0b, 0x1191, 0x46cb, 0x0,
    0x8282, 0xd80f, 0x41c1, 0x42c1, 0x43c1, 0x86a, 0xfeef, 0xc640, 0xc008, 0x790f, 0x700c, 0x9ce,
    0xfe2f, 0x4338, 0xc006, 0x702c, 0xc143, 0x7f0f, 0xd820, 0xc742, 0xc041, 0xd8fe, 0x78c4, 0xc040,
    0xd8ff, 0x734c, 0xdb22, 0xa9e, 0xfe2f, 0x4528, 0xd828, 0xc543, 0xc742, 0xc041, 0xd808, 0xb861,
    0x8ff, 0x8031, 0x7edd, 0xd8ff, 0x702c, 0x734c, 0xdb22, 0xa7e, 0xfe2f, 0xc640, 0xd8ff, 0x702c,
    0x734c, 0xdb22, 0xc543, 0xc742, 0x1c04, 0x33c1, 0xa66, 0xfe2f, 0xc540, 0xd8ff, 0xd980, 0x734c,
    0xdb22, 0xc543, 0xc742, 0x1c04, 0x3501, 0xa52, 0xfe2f, 0xc540, 0x700c, 0xa06, 0xfe2f, 0x712c,
    0x1600, 0x7080, 0x8000, 0x4, 0xdae0, 0x201a, 0xf81, 0x20, 0x0, 0x40c3, 0x9008, 0x100,
    0x2105, 0x3, 0x7204, 0x7825, 0xb340, 0x1800, 0x485, 0x700c]"

definition train_imem_600_74 :: "(u64 \<times> u64) list" where
  "train_imem_600_74 = words_at 0x52500 [
    0x92a, 0xfe2f, 0x4163, 0xc66, 0xfe2f, 0xd8ff, 0x70cd, 0xbe90, 0xd8ff, 0x41c1, 0x714c, 0x746c,
    0xc543, 0xc742, 0xc541, 0x9fe, 0xfe2f, 0xc540, 0x41c3, 0x0, 0x2000, 0xd8ff, 0x734c, 0x746c,
    0xc543, 0xc742, 0xc541, 0xc540, 0x9e2, 0xfe2f, 0x4338, 0xd8ff, 0x41c1, 0x714c, 0x746c, 0xc543,
    0xc742, 0xc541, 0x9ce, 0xfe2f, 0xc540, 0xd8ff, 0x4163, 0x734c, 0x746c, 0xc543, 0xc742, 0xc541,
    0x9ba, 0xfe2f, 0xc540, 0xd8ff, 0x41c1, 0x714c, 0x746c, 0xc543, 0xc742, 0xc541, 0x9a6, 0xfe2f,
    0xc540, 0xd8ff, 0x4163, 0x734c, 0x746c, 0xc543, 0xc742, 0xc541, 0x992, 0xfe2f, 0xc540, 0xd8ff,
    0x41c1, 0x714c, 0x746c, 0xc543, 0xc742, 0xc541, 0x97e, 0xfe2f, 0xc540, 0xd8ff, 0x4163, 0x734c,
    0x746c, 0xc543, 0xc742, 0xc541, 0x96a, 0xfe2f, 0xc540, 0xd8ff, 0x41c1, 0x714c, 0x746c, 0xc543,
    0xc742, 0xc541, 0x956, 0xfe2f, 0xc540, 0xd8ff, 0x4163, 0x734c, 0x746c, 0xc543, 0xc742, 0xc541,
    0x942, 0xfe2f, 0xc540, 0xd8ff, 0x41c1, 0x714c, 0x746c, 0xc543, 0xc742, 0xc541, 0x92e, 0xfe2f,
    0xc540, 0xd8ff, 0x4163, 0x734c, 0x746c, 0xc543, 0xc742, 0xc541]"

definition train_imem_600_75 :: "(u64 \<times> u64) list" where
  "train_imem_600_75 = words_at 0x52580 [
    0x91a, 0xfe2f, 0xc540, 0xd8ff, 0x41c1, 0x714c, 0x746c, 0xc543, 0xc742, 0xc541, 0x906, 0xfe2f,
    0xc540, 0xd8ff, 0x4163, 0x734c, 0x746c, 0xc543, 0xc742, 0xc541, 0x8f2, 0xfe2f, 0xc540, 0xd8ff,
    0x41c1, 0x714c, 0x746c, 0xc543, 0xc742, 0xc541, 0x8de, 0xfe2f, 0xc540, 0xd8ff, 0x4163, 0x734c,
    0x746c, 0xc543, 0xc742, 0xc541, 0x8ca, 0xfe2f, 0xc540, 0xc009, 0x702c, 0x754c, 0x7b0f, 0xd8ff,
    0xc543, 0xc542, 0xc541, 0x8b6, 0xfe2f, 0xc540, 0x79dd, 0xd8ff, 0x754c, 0x746c, 0x1c0c, 0x3081,
    0xc542, 0xc541, 0x89e, 0xfe2f, 0xc540, 0xc543, 0xc542, 0xc541, 0xc540, 0xd8ff, 0x702c, 0x754c,
    0xdb30, 0x88a, 0xfe0f, 0xaba, 0xfe2f, 0xd8ff, 0xd8ff, 0xd980, 0x754c, 0xc543, 0xc542, 0xc541,
    0xc540, 0x872, 0xfe2f, 0x746c, 0xc0ac, 0x1404, 0x341b, 0xc6c6, 0xc2e6, 0x1cfc, 0xb6c8, 0xc1a9,
    0x4708, 0x1600, 0x7100, 0x9008, 0x1e0, 0x218a, 0x804, 0x43db, 0x900e, 0x4c, 0xc047, 0x2004,
    0xf80, 0x0, 0xff7f, 0xc046, 0xca08, 0x7104, 0xc048, 0x782c, 0xc045, 0x8f19, 0xc044, 0x8f10,
    0xc040, 0x1300, 0x3100, 0xc041, 0x1302, 0x3100, 0xc042, 0xc004]"

definition train_imem_600_76 :: "(u64 \<times> u64) list" where
  "train_imem_600_76 = words_at 0x52600 [
    0xe889, 0x40c3, 0x0, 0xffff, 0x4100, 0x4200, 0xdf2, 0xfeaf, 0x4300, 0xc000, 0xd90f, 0x2078,
    0x100, 0xc043, 0xb62, 0xfe2f, 0xd80f, 0x8708, 0x70ad, 0x781b, 0x2005, 0xf80, 0x9003, 0xe064,
    0xc62, 0xffaf, 0xb0a0, 0xc006, 0x1e00, 0x7004, 0x9009, 0xe1e0, 0x8729, 0xf7e, 0x60, 0x710c,
    0x40c3, 0x9003, 0xe064, 0x2042, 0x98e, 0x208a, 0xfc7, 0xb6a0, 0xb6a0, 0x1e9c, 0x101c, 0x1e9b,
    0x135c, 0xc105, 0x1ee6, 0x9044, 0x712c, 0x1ef2, 0x9044, 0x1ee4, 0x9004, 0xf66, 0xfdef, 0x970e,
    0xc101, 0xc202, 0x98e, 0x60, 0x40e1, 0xd80f, 0xafa, 0xfe2f, 0xd90f, 0x8729, 0xf32, 0x60,
    0x710c, 0xc007, 0x712c, 0x1e00, 0x7004, 0x9009, 0xe1e0, 0xb6a0, 0x1ee6, 0x9f84, 0x0, 0xff00,
    0x1ef2, 0x9044, 0x1ee4, 0x9044, 0xf26, 0xfdef, 0x970a, 0x8f58, 0x8701, 0x8b6, 0x60, 0x712c,
    0xc101, 0xc202, 0x946, 0x60, 0x40e1, 0xd80f, 0xab2, 0xfe2f, 0xd90f, 0xc004, 0xe805, 0x9ce,
    0xfe2f, 0xc003, 0xf00f, 0xc100, 0xc003, 0x2179, 0x101, 0xb962, 0xb862, 0x7a30, 0x41c3, 0x0,
    0xffff, 0x7810, 0xd0a, 0xfeaf, 0x4320, 0x1300, 0x3100, 0xc040]"

definition train_imem_600_77 :: "(u64 \<times> u64) list" where
  "train_imem_600_77 = words_at 0x52680 [
    0x1302, 0x3100, 0xc041, 0xc006, 0x1e00, 0x7004, 0x9009, 0xe1e0, 0xc003, 0x8729, 0x781b, 0x781b,
    0x7504, 0xea6, 0x60, 0xc042, 0x8708, 0x781b, 0x2005, 0xf80, 0x9003, 0xe064, 0xb66, 0xffaf,
    0x1800, 0x7c5, 0x70ad, 0x238a, 0x1fc7, 0xb6a0, 0x1e9b, 0x12dc, 0x1e9c, 0x135c, 0xc008, 0xc105,
    0x42c3, 0x0, 0xffe0, 0x780f, 0x7944, 0x2905, 0x1, 0x4a3f, 0x6038, 0x712c, 0x1ee6, 0x9004,
    0x1ef2, 0x9044, 0x1ee4, 0x92c4, 0x970e, 0xe6e, 0xfdef, 0x4338, 0xc100, 0xc201, 0x896, 0x60,
    0x40e1, 0xc007, 0xd90f, 0x1e00, 0x7004, 0x9009, 0xe1e0, 0xd80f, 0xb6a0, 0x9f6, 0xfe2f, 0x1e9b,
    0x135c, 0x8729, 0xe2a, 0x60, 0xc002, 0x1ee6, 0x9f84, 0x0, 0xff00, 0x1ef2, 0x96c4, 0x1ee4,
    0x96c4, 0x8705, 0x712c, 0x7104, 0xe26, 0xfdef, 0x7810, 0xc100, 0xc201, 0x852, 0x60, 0x40e1,
    0xc004, 0xe807, 0xc003, 0x8de, 0xfe2f, 0x2052, 0x0, 0x8f58, 0x8703, 0xf9e, 0x20, 0x712c,
    0xc0a9, 0x1404, 0x341b, 0xc6c6, 0xc2e6, 0x1cfc, 0xb6c8, 0xc1a9, 0x4608, 0xca08, 0x218a, 0x804,
    0x8eb0, 0x7104, 0xc048, 0x782c, 0xc044, 0x1600, 0x7100, 0x9008]"

definition train_imem_600_78 :: "(u64 \<times> u64) list" where
  "train_imem_600_78 = words_at 0x52700 [
    0x1e0, 0xc047, 0x2004, 0xf80, 0x0, 0xff7f, 0xc045, 0x8e19, 0xc043, 0x1600, 0x7100, 0x900e,
    0x4c, 0xc040, 0x40c3, 0x900e, 0x4c, 0x9001, 0xc041, 0xc003, 0xe889, 0x40c3, 0x0, 0xffff,
    0x4100, 0x4200, 0xbca, 0xfeaf, 0x4300, 0x2578, 0x1100, 0xc042, 0xd80f, 0x93e, 0xfe2f, 0xd90f,
    0x8608, 0x47cb, 0x9003, 0xe064, 0x791b, 0x2579, 0x1100, 0x4318, 0x209a, 0x10, 0x79e5, 0x2045,
    0x7c0, 0xa32, 0xffaf, 0xb100, 0xc005, 0x1e00, 0x7004, 0x9009, 0xe1e0, 0x8629, 0xd4a, 0x60,
    0x730c, 0x2742, 0x198d, 0x700c, 0xb500, 0xc004, 0x712c, 0x1de6, 0x9004, 0x208a, 0xfc7, 0x1df2,
    0x9045, 0x1de4, 0x9004, 0x1f88, 0x101c, 0x700c, 0x1f89, 0x101c, 0xd36, 0xfdef, 0x960e, 0xc100,
    0xc201, 0xf62, 0x20, 0x40c1, 0xd80f, 0x8ce, 0xfe2f, 0xd90f, 0xc007, 0x712c, 0x1e00, 0x7004,
    0x9009, 0xe1e0, 0x700c, 0xb500, 0xd0e, 0xfdef, 0x960a, 0x8e58, 0x8602, 0xe9e, 0x20, 0x712c,
    0xc100, 0xc201, 0xf2e, 0x20, 0x40c1, 0xd80f, 0x89a, 0xfe2f, 0xd90f, 0xc003, 0xe807, 0xc002,
    0xfb2, 0xfdef, 0x2052, 0x0, 0xf00d, 0xc102, 0x2342, 0x3080]"

definition train_imem_600_79 :: "(u64 \<times> u64) list" where
  "train_imem_600_79 = words_at 0x52780 [
    0x7810, 0xb962, 0x7a30, 0x41c3, 0x0, 0xffff, 0xaf2, 0xfeaf, 0x4320, 0x1600, 0x7100, 0x900e,
    0x4c, 0xc046, 0x40c3, 0x900e, 0x4c, 0x9001, 0xc040, 0xc005, 0x1e00, 0x7004, 0x9009, 0xe1e0,
    0x202f, 0x6c0, 0x8629, 0x781b, 0xe007, 0xc86, 0x60, 0xc041, 0x8608, 0x224a, 0x1280, 0x2242,
    0x104a, 0xaff, 0x9031, 0x232f, 0x36c0, 0x781b, 0x78e5, 0x93e, 0xffaf, 0x1800, 0x6c4, 0x706f,
    0x1d00, 0x16c4, 0xc004, 0x2004, 0xf81, 0x0, 0xffe0, 0xc008, 0x780f, 0x2905, 0x1, 0x40c3,
    0x0, 0xffe0, 0xe01f, 0x6038, 0x1de6, 0x9004, 0x712c, 0x208a, 0xfc7, 0x1df2, 0x9044, 0x1de4,
    0x9004, 0x1f88, 0x16dc, 0x1f89, 0x101c, 0xc3e, 0xfdef, 0x960e, 0xc106, 0xc200, 0xe66, 0x20,
    0x40c1, 0xc007, 0xd90f, 0x1e00, 0x7004, 0x9009, 0xe1e0, 0xd80f, 0x1d00, 0x16c4, 0xfc2, 0xfdef,
    0x1f89, 0x16dc, 0x8629, 0xbfa, 0x60, 0xc001, 0x40c3, 0x0, 0xffe0, 0x2058, 0xe00, 0x712c,
    0x1de6, 0x9004, 0x1df2, 0x9044, 0x1de4, 0x9044, 0x8605, 0x7104, 0xbee, 0xfdef, 0x7810, 0xc106,
    0xc200, 0xe1a, 0x20, 0x40c1, 0xc003, 0xe805, 0xea6, 0xfdef]"

definition train_imem_600_80 :: "(u64 \<times> u64) list" where
  "train_imem_600_80 = words_at 0x52800 [
    0xc002, 0x8e58, 0x8603, 0xd6a, 0x20, 0x712c, 0xc0a9, 0x1404, 0x341b, 0xc6c6, 0xc2e6, 0x1cfc,
    0xb6c8, 0x2482, 0x3906, 0xc14a, 0x712c, 0xf9a, 0xfdef, 0x4318, 0x1600, 0x708d, 0x8000, 0x4,
    0xc042, 0x251a, 0x1f80, 0x20, 0x0, 0x2005, 0xf80, 0x9002, 0x86, 0x9000, 0x791d, 0x793d,
    0x793d, 0x793d, 0x793d, 0x793d, 0x710c, 0x7826, 0x41c3, 0x49, 0x0, 0x8d6, 0xfd8f, 0xc8e,
    0xfeaf, 0x700c, 0x700c, 0x46cb, 0x9003, 0xff68, 0xc041, 0xb600, 0x208a, 0x4, 0x1e00, 0x7004,
    0x9003, 0xe004, 0x2455, 0x3f00, 0xd9ff, 0xa46, 0xff6f, 0xdab4, 0xd80f, 0xef6, 0xfdef, 0xd90f,
    0x710c, 0x2344, 0x37cf, 0xef06, 0xbf61, 0xf01, 0x1031, 0x781b, 0x205a, 0x100, 0x251a, 0x1f8d,
    0x10, 0x0, 0x200f, 0x6c0, 0xc04e, 0x1600, 0x7100, 0x9008, 0x1ea, 0xc54c, 0x43db, 0x8000,
    0x728, 0xc049, 0x16c3, 0x1700, 0xc048, 0xf010, 0xc008, 0xb885, 0x1e00, 0x7004, 0x9005, 0xe0ee,
    0xc009, 0x1e00, 0x7004, 0x9008, 0x1ea, 0xc001, 0x7104, 0xc041, 0xc001, 0x780f, 0xc044, 0xc104,
    0xc00a, 0x7110, 0x256, 0x2d, 0x70ad, 0xc009, 0x714c, 0x2004]"

definition train_imem_600_81 :: "(u64 \<times> u64) list" where
  "train_imem_600_81 = words_at 0x52880 [
    0xf81, 0x0, 0xc0ff, 0x2004, 0xf80, 0x0, 0x3f00, 0x2080, 0x10, 0x7825, 0x1e00, 0x7004,
    0x9008, 0x1ea, 0x1e00, 0x7344, 0x900f, 0xe022, 0xc008, 0x762c, 0xb8a5, 0x1e00, 0x7004, 0x9005,
    0xe0ee, 0xc00e, 0xa0a, 0xffaf, 0x780f, 0x1e00, 0x7344, 0x9003, 0xfec4, 0xc004, 0x2079, 0x0,
    0x791b, 0x793b, 0x793b, 0xc14b, 0xc20b, 0xe008, 0xc04d, 0xf012, 0x4300, 0x2144, 0x7c0, 0x219a,
    0x8, 0xe806, 0xb861, 0x801, 0x31, 0x7b7b, 0x7144, 0x2105, 0xf80, 0x9003, 0xe0c4, 0xb060,
    0xc00d, 0x794f, 0x9dd, 0x8024, 0x710c, 0x78af, 0x849, 0x8675, 0xc045, 0x1300, 0x3082, 0xf013,
    0xc002, 0x2055, 0x8c1, 0xc00c, 0x7905, 0x231a, 0xf80, 0x0, 0x1000, 0x7825, 0x781b, 0x2005,
    0xf81, 0x9002, 0x1e00, 0xc005, 0xb100, 0x1301, 0x3080, 0x7b4f, 0x8d9, 0x80e5, 0x7144, 0xc004,
    0x41c3, 0x9003, 0xf064, 0x7014, 0x40c3, 0x9003, 0xfe64, 0x703c, 0xec2, 0xff6f, 0x1800, 0x5,
    0xeba, 0xff4f, 0x258a, 0x1fc7, 0x730c, 0x9de, 0x60, 0x41a1, 0x208a, 0x7c4, 0x46cb, 0x9003,
    0xe024, 0xb600, 0xd83f, 0x712c, 0x1e0c, 0x1045, 0x9da, 0xfdef]"

definition train_imem_600_82 :: "(u64 \<times> u64) list" where
  "train_imem_600_82 = words_at 0x52900 [
    0x1efe, 0x9344, 0x1300, 0x3081, 0xf013, 0xc002, 0x2055, 0x8c2, 0xc00c, 0x7a05, 0x231a, 0xf80,
    0x0, 0x1000, 0x7845, 0x781b, 0x2005, 0xf82, 0x9002, 0x1e00, 0xc005, 0x7104, 0xb200, 0x1301,
    0x3080, 0x7b2f, 0x8d7, 0x80e5, 0x7124, 0xe5a, 0xff4f, 0xd80f, 0xd3e, 0xfdef, 0xd90f, 0x700c,
    0x712c, 0x1e00, 0x1fc5, 0x1e0c, 0x1fc5, 0x986, 0xfdef, 0x1efe, 0x9005, 0x1300, 0x3080, 0x716c,
    0xc046, 0xf005, 0xc006, 0x7104, 0xc046, 0xc006, 0x1301, 0x3081, 0x780f, 0x9cf, 0x24, 0xc040,
    0xc201, 0xc60b, 0x710c, 0xf003, 0x71c5, 0xc10d, 0x7dcf, 0xde1, 0x9065, 0x2455, 0x3f0c, 0xc100,
    0x74b5, 0x215f, 0x481, 0x22c0, 0x61, 0x20ca, 0x61, 0xc147, 0x6199, 0x79b4, 0x9180, 0x248c,
    0x9002, 0xf7ac, 0xc400, 0x706d, 0x241a, 0x1f8c, 0x0, 0x1000, 0xc443, 0x44a9, 0x249a, 0x1004,
    0xc703, 0x7ce5, 0x7f9b, 0x2705, 0x1f8c, 0x9002, 0x166, 0x9480, 0x47f9, 0x7095, 0x708d, 0x23ca,
    0x10c1, 0x24ca, 0x1001, 0xec0d, 0xd21, 0x10d0, 0xd19, 0x1211, 0x2705, 0x3f83, 0x9002, 0x64,
    0x9360, 0xb160, 0xf023, 0x4361, 0x700c, 0xf1c4, 0xd3f, 0x11d1]"

definition train_imem_600_83 :: "(u64 \<times> u64) list" where
  "train_imem_600_83 = words_at 0x52980 [
    0x784f, 0x2079, 0x0, 0x205f, 0x103, 0xf011, 0xc107, 0x7164, 0x673f, 0x7f14, 0x209a, 0x4,
    0xc103, 0x7825, 0x781b, 0x2005, 0xf80, 0x9002, 0x64, 0x9000, 0xb700, 0x786f, 0xde1, 0x9025,
    0x2455, 0x3f0f, 0x4361, 0x4081, 0xf1a4, 0x4361, 0xf1a2, 0xc005, 0x7074, 0x68a1, 0xf31f, 0x589,
    0xffcf, 0x1600, 0x7080, 0x8000, 0x0, 0xb8c6, 0x7104, 0xc043, 0x1300, 0x3080, 0xf003, 0xc000,
    0x7104, 0xc040, 0xc000, 0x7e0f, 0x1301, 0x3080, 0x85b, 0x3a5, 0x70ed, 0xf035, 0x265f, 0x1481,
    0x42c1, 0x43a1, 0x6038, 0xc047, 0x20f4, 0x340, 0x41c3, 0x51, 0x2, 0xda6, 0xfd6f, 0x20bc,
    0x2, 0xc002, 0x261a, 0x1f81, 0x0, 0x1000, 0x71e5, 0x2054, 0xd00, 0x7905, 0x40a1, 0x209a,
    0x4, 0x7825, 0x781b, 0x2005, 0xf81, 0x9002, 0x0, 0xc007, 0x20f4, 0x342, 0xc003, 0x6058,
    0x2089, 0xfc1, 0xb100, 0xc00a, 0x7def, 0x2079, 0x0, 0xe008, 0xda5, 0x9022, 0x2455, 0x3f00,
    0xf1c3, 0xc08f, 0x702c, 0xeea, 0xff2f, 0xdab4, 0xc002, 0xc18f, 0xda09, 0x82e, 0x20, 0x2054,
    0xd00, 0x41c3, 0x52, 0x0, 0xc16, 0xfdef, 0x750c, 0x700c]"

definition train_imem_600_84 :: "(u64 \<times> u64) list" where
  "train_imem_600_84 = words_at 0x52a00 [
    0xd909, 0xe2a, 0xfdaf, 0xc28f, 0x2480, 0x3906, 0x1404, 0x341b, 0xc6c6, 0x78e0, 0xc2e6, 0x44cb,
    0x8000, 0x728, 0x8cc0, 0x261f, 0x108f, 0xf003, 0x71c5, 0x8c61, 0xb31, 0x3a3, 0x706d, 0xf01c,
    0x261a, 0x1f9f, 0x0, 0x1000, 0x239a, 0x4, 0x2114, 0x34d, 0x2705, 0x301f, 0x2305, 0x7c3,
    0x7b7b, 0xbb91, 0xbb9c, 0xbb9f, 0x9360, 0x71e5, 0x7165, 0xb560, 0x232f, 0x2c7, 0xbd5, 0x80a2,
    0x7df0, 0xf1e2, 0xc6c6, 0x78e0, 0xc2e6, 0x1cfc, 0xb6c8, 0x201a, 0xf8e, 0x0, 0x2000, 0x4220,
    0x7d5d, 0x7fbd, 0x4100, 0x40c3, 0x9002, 0xb2, 0x2605, 0x1003, 0x708d, 0x2745, 0x160d, 0x7204,
    0xb380, 0xb3a0, 0x2605, 0x100d, 0x7204, 0x95a0, 0x78c5, 0xbac1, 0x90c0, 0xb380, 0x6a83, 0x2444,
    0x17c3, 0x40a1, 0xeb05, 0xbb61, 0xbff, 0x8031, 0x781d, 0x2044, 0x83, 0x40a1, 0x2244, 0x7cf,
    0xef05, 0xbf61, 0xfff, 0x9031, 0x781d, 0xb8c0, 0x6ae6, 0x7b05, 0x2744, 0x17db, 0x40a1, 0xb11,
    0x3010, 0x2342, 0x305b, 0xbff, 0xb031, 0x781d, 0x2044, 0x100, 0x2240, 0x25f, 0x7b05, 0x40a1,
    0x2744, 0x37cd, 0xed05, 0xbd61, 0xdff, 0x9031, 0x781d, 0x2044]"

definition train_imem_600_85 :: "(u64 \<times> u64) list" where
  "train_imem_600_85 = words_at 0x52a80 [
    0x200, 0x7b05, 0x40c1, 0xbcc4, 0xec05, 0xbc61, 0xcff, 0x9031, 0x781d, 0x2044, 0x8c, 0x40c1,
    0xbac4, 0xea06, 0xba61, 0xa01, 0x31, 0x781d, 0xb8c0, 0x2005, 0x302, 0x40c1, 0xbfc4, 0xef06,
    0xbf61, 0xf01, 0x1031, 0x781d, 0x2044, 0x100, 0x7a05, 0x40c1, 0x2744, 0x37df, 0xf0f, 0x3010,
    0x2742, 0x305f, 0xffd, 0xb031, 0x781d, 0x2044, 0x200, 0x7845, 0x205f, 0x400, 0x7865, 0xafe,
    0xfdef, 0x780f, 0x1404, 0x341b, 0xc6c6, 0x78e0, 0xc2e6, 0x1cfc, 0xb6c8, 0xc1a2, 0x43db, 0x8000,
    0x728, 0x1300, 0x308d, 0x706c, 0x71ef, 0xc141, 0xc040, 0xea86, 0x7ebb, 0x742c, 0x748d, 0xf010,
    0x255f, 0x124e, 0xa13, 0xb1, 0xdc08, 0xe608, 0x274a, 0x3240, 0x712c, 0xdb08, 0xf004, 0x712c,
    0xf002, 0x71a5, 0x1301, 0x3080, 0x813, 0x363, 0x4260, 0xf026, 0xc700, 0x623a, 0x7fd4, 0xb700,
    0x76e3, 0xceb, 0x90a2, 0x4040, 0x209a, 0x8, 0x251a, 0x1f8f, 0x0, 0x2000, 0x78e5, 0x2005,
    0xf80, 0x9002, 0x64, 0x9000, 0xc701, 0xef6c, 0x278a, 0x1fcf, 0x224a, 0x1280, 0x7f04, 0x2242,
    0x104a, 0xaff, 0x9031, 0x781d, 0x205f, 0x800, 0x60f8, 0xf1de]"

definition train_imem_600_86 :: "(u64 \<times> u64) list" where
  "train_imem_600_86 = words_at 0x52b00 [
    0xc0a2, 0x1404, 0x341b, 0xc6c6, 0xc0f1, 0x8819, 0xc5a, 0xfe6f, 0x4320, 0xe807, 0x40c3, 0x900e,
    0x1e4c, 0xb060, 0xb041, 0xc0d1, 0x7ee0, 0x78e0, 0xc0e4, 0x70ad, 0xf002, 0x71a5, 0xd27, 0x10b2,
    0x708d, 0xf014, 0x255a, 0x1c82, 0x605b, 0x245a, 0x1642, 0x627a, 0x623e, 0x2414, 0x1343, 0x42c3,
    0x8000, 0x434, 0x634a, 0x7185, 0xae40, 0xce5, 0x9092, 0xf1eb, 0xc4c4, 0x78e0, 0xc2e2, 0x45cb,
    0x9005, 0xe000, 0xd820, 0xa22, 0xff2f, 0x1d00, 0x1045, 0x1d00, 0x1005, 0xc6c2, 0xc2e6, 0x1cfc,
    0xb6c8, 0xc1ad, 0x4318, 0x710c, 0x2344, 0x37c2, 0xea05, 0xba61, 0xaff, 0x8031, 0x781b, 0x205a,
    0x100, 0xc142, 0x702c, 0x200f, 0x6cd, 0x1600, 0x7080, 0x8000, 0x4, 0x201a, 0xf80, 0x10,
    0x0, 0xc044, 0xf010, 0x211a, 0xf80, 0x0, 0x2000, 0x7124, 0x2005, 0xf82, 0x9002, 0x94,
    0x9200, 0x2004, 0xf80, 0x0, 0xfbff, 0xb200, 0x9e3, 0x8292, 0x1600, 0x7100, 0x9004, 0xaa,
    0xc047, 0x40c3, 0x8000, 0x51c, 0x1e00, 0x7085, 0x9005, 0xe0aa, 0x92a, 0xe0, 0xd978, 0xb92,
    0xfdcf, 0xd80f, 0x88a, 0xfdef, 0xd90f, 0x99a, 0xff4f, 0x40c3]"

definition train_imem_600_87 :: "(u64 \<times> u64) list" where
  "train_imem_600_87 = words_at 0x52b80 [
    0x8000, 0x724, 0xe014, 0x712c, 0xafe, 0x20, 0xc041, 0xc001, 0x712c, 0xfda, 0xfdaf, 0xdaf7,
    0x1600, 0x7081, 0x8000, 0x724, 0x235f, 0x3640, 0x704c, 0x215f, 0xc81, 0x238a, 0xf7f, 0xc043,
    0x1c00, 0x3fc1, 0x6119, 0xc001, 0x6119, 0x255a, 0x1100, 0x78a5, 0x780f, 0xbe6, 0xa0, 0xc046,
    0xc001, 0xede, 0xffef, 0x712c, 0x1600, 0x7080, 0x8000, 0x724, 0x7daf, 0x205f, 0xc81, 0xc003,
    0x6038, 0x70c3, 0x8000, 0x724, 0x88d5, 0x40c3, 0x9003, 0xe024, 0x218a, 0x44, 0x1800, 0x45,
    0x180c, 0x45, 0x18fe, 0x8044, 0x40a1, 0xa9e, 0xa0, 0x702c, 0xd830, 0xc4e, 0xfdaf, 0x712c,
    0x2644, 0x1200, 0x9ca, 0xfe6f, 0xc045, 0x700c, 0xf005, 0x6119, 0x1900, 0xfc3, 0x7104, 0x8fb,
    0x8532, 0xc188, 0x700c, 0xc2a, 0xfdaf, 0x712c, 0xd80f, 0xfca, 0xfdaf, 0xd90f, 0x40a1, 0xa62,
    0xa0, 0x712c, 0x208a, 0xfc7, 0x45cb, 0x9003, 0xe174, 0x70cd, 0xb500, 0xb501, 0x1d59, 0x939c,
    0xe8d, 0x1a33, 0x40e1, 0x700c, 0xbf6, 0xfdaf, 0x712c, 0x40c3, 0x8000, 0x724, 0x8822, 0x70ed,
    0xf002, 0x7124, 0x40c3, 0x8000, 0x724, 0x8803, 0x85b, 0x62]"

definition train_imem_600_88 :: "(u64 \<times> u64) list" where
  "train_imem_600_88 = words_at 0x52c00 [
    0xd80f, 0x211a, 0xf80, 0x0, 0x1000, 0xc388, 0x633b, 0x206c, 0x302, 0x2205, 0xf80, 0x9002,
    0x166, 0x9000, 0x8b80, 0x2079, 0x0, 0x7c9b, 0x7885, 0xab00, 0x211a, 0xf80, 0x0, 0x800,
    0x2004, 0xf80, 0x0, 0x800, 0x7845, 0x2005, 0xf82, 0x9002, 0x64, 0x9200, 0x8b60, 0x2353,
    0x80be, 0xf3d5, 0x2080, 0x10, 0x71ed, 0xb200, 0xf1cf, 0xf2a, 0xfdaf, 0xd90f, 0x71c5, 0xf7d,
    0x9031, 0x700c, 0x41c3, 0x6e, 0x0, 0x8c6, 0xfd6f, 0x2078, 0x0, 0x1d00, 0x1005, 0x8ea,
    0xfe6f, 0x1d02, 0x1005, 0x700c, 0xa22, 0x20, 0x732c, 0xd840, 0xb4e, 0xfdaf, 0x712c, 0xc002,
    0x702c, 0xcde, 0xffef, 0x704c, 0xc005, 0x206c, 0x80, 0x781d, 0x781d, 0x781d, 0x204e, 0x8b,
    0x40c3, 0x8000, 0x724, 0x8863, 0x40c3, 0x8000, 0x724, 0x8842, 0xf00c, 0xc002, 0x20f4, 0x81,
    0x4061, 0x209a, 0x10, 0x7902, 0xc002, 0x7854, 0xb020, 0x7144, 0xbeb, 0x80a3, 0x4063, 0xee6,
    0xfdaf, 0x712c, 0x2055, 0x801, 0xc004, 0x714c, 0x706c, 0x7825, 0xf8e, 0xa0, 0xc102, 0x704c,
    0x1e00, 0x7084, 0x9003, 0xe004, 0x1e00, 0x7084, 0x9005, 0xe076]"

definition train_imem_600_89 :: "(u64 \<times> u64) list" where
  "train_imem_600_89 = words_at 0x52c80 [
    0xc007, 0x1e00, 0x7004, 0x9005, 0xe0aa, 0x1e00, 0x7004, 0x9005, 0xe0aa, 0xf00e, 0x221a, 0xf80,
    0x0, 0x2000, 0x7144, 0x2005, 0xf81, 0x9002, 0x94, 0x9100, 0xb88a, 0xb100, 0xae9, 0x8292,
    0xd2e, 0xffcf, 0x1600, 0x7080, 0x8000, 0x724, 0x704c, 0x238a, 0xf7f, 0x205f, 0xc81, 0xc003,
    0x1c00, 0x3fc1, 0x6119, 0xc001, 0x6119, 0x9d6, 0xa0, 0xc006, 0xc0ad, 0x1404, 0x341b, 0xc6c6,
    0x8821, 0xdac8, 0x216c, 0x41, 0xa821, 0x8822, 0xb9c6, 0xa822, 0x886d, 0x2344, 0xc01, 0x7a25,
    0xb13, 0x17f, 0xa84d, 0x2185, 0xa03, 0xa82d, 0x8823, 0xb987, 0xa823, 0x702c, 0xa831, 0xa830,
    0x7fe0, 0xa838, 0xc2e2, 0x846, 0xfe0f, 0x256f, 0x1343, 0x9520, 0x205a, 0x400, 0x7b3d, 0x218a,
    0x2c5, 0x233f, 0x4c, 0x238c, 0x82c5, 0xd920, 0x21ca, 0xc29, 0x7c25, 0x238c, 0x84c8, 0xd942,
    0x24ca, 0x1049, 0x238c, 0x87cc, 0xd953, 0x24ca, 0x1049, 0x238c, 0x8bd2, 0xd954, 0x24ca, 0x1049,
    0x15fe, 0x9081, 0x2004, 0xf80, 0x0, 0x1ff0, 0xb881, 0x211a, 0xf83, 0x20, 0x0, 0x41c3,
    0x9004, 0xf8, 0x2305, 0x42, 0x7224, 0x7965, 0xb280, 0xb100]"

definition train_imem_600_90 :: "(u64 \<times> u64) list" where
  "train_imem_600_90 = words_at 0x52d00 [
    0xc6c2, 0x78e0, 0xc0e4, 0x708d, 0xf002, 0x7185, 0xc23, 0x10b2, 0x70ad, 0xf014, 0x42c3, 0x8000,
    0x434, 0x635b, 0x245a, 0x1c82, 0x605e, 0x255a, 0x1642, 0x71a5, 0x62da, 0x622a, 0xab40, 0xde9,
    0x90b2, 0x2514, 0x1303, 0xf1eb, 0xc4c4, 0x78e0, 0xc2e6, 0x1209, 0x308d, 0x70ed, 0x70cd, 0x1a09,
    0x33c2, 0xf009, 0x26f0, 0x7380, 0x8000, 0x894, 0xb1a, 0x40, 0x71c5, 0xcc1e, 0xef1, 0x9002,
    0x1a1e, 0x33dc, 0x1a09, 0x3342, 0xc6c6, 0x78e0, 0x209a, 0x4, 0x43c3, 0x9008, 0x1ea, 0x71c3,
    0x0, 0xfffe, 0x2000, 0xf82, 0x0, 0xfe00, 0x9300, 0x2004, 0xf80, 0x0, 0xc0ff, 0x7845,
    0x9341, 0xb300, 0x226c, 0x140, 0x7825, 0x7fe0, 0xb301, 0x78e0, 0x7a1b, 0x2205, 0xf82, 0x9003,
    0xe164, 0x1a00, 0x5, 0x43c3, 0x8000, 0x728, 0x8b80, 0xf00e, 0x241a, 0x1f82, 0x0, 0x1000,
    0x7185, 0x7a05, 0x7a5b, 0x2205, 0xf82, 0x9002, 0x164, 0xb220, 0x8b41, 0xae9, 0x8303, 0x7ee0,
    0xc2e2, 0x1600, 0x710d, 0x8000, 0x6, 0xe56d, 0x2d85, 0x1b81, 0x2553, 0x9040, 0xf205, 0x79af,
    0x204e, 0x100, 0x603d, 0x7aaf, 0x41c3, 0xbb, 0x1, 0xd12]"

definition train_imem_600_91 :: "(u64 \<times> u64) list" where
  "train_imem_600_91 = words_at 0x52d80 [
    0xfdaf, 0xd80a, 0x40c3, 0x8000, 0x710, 0xa8a0, 0xc6c2, 0x78e0, 0xc2e6, 0x266f, 0x15c3, 0x8e40,
    0x4508, 0xea17, 0x8be, 0xfeef, 0x4040, 0x4708, 0xe887, 0x41c3, 0xe7, 0x1, 0xe02, 0xfd2f,
    0x700c, 0x40e1, 0x209a, 0x1, 0x7f05, 0x78bb, 0x2005, 0xf80, 0x9003, 0xfe92, 0xb0e0, 0x16ff,
    0x9082, 0xea18, 0x88e, 0xfeef, 0x4040, 0x228c, 0x8fc3, 0xf209, 0xe888, 0x41c3, 0xe8, 0x1,
    0xdce, 0xfd2f, 0x700c, 0x700c, 0x209a, 0x1, 0x79bb, 0x2105, 0xf81, 0x9003, 0xfe9a, 0xb100,
    0xc6c6, 0x78e0, 0xc0f1, 0x1600, 0x7080, 0x8000, 0x9, 0x208c, 0x8c03, 0xf210, 0xe816, 0x81f,
    0xa30, 0x722c, 0xe0f8, 0xf404, 0x712c, 0xf009, 0x41c3, 0xe9, 0x0, 0xd8e, 0xfd2f, 0x700c,
    0x702c, 0x215f, 0x400, 0x7825, 0x1e00, 0x7004, 0x9005, 0xe0a0, 0xc0d1, 0x7ee0, 0xc2e6, 0x1cfc,
    0xb6c8, 0x4328, 0x4100, 0x70ed, 0x40c3, 0x9003, 0xff64, 0xb0e0, 0x1804, 0x45, 0x40c3, 0x8000,
    0x728, 0x88c0, 0x232f, 0x32c7, 0xf002, 0x71c5, 0x8841, 0xa77, 0x3a2, 0x270a, 0x32c0, 0x706c,
    0x238c, 0xbfc3, 0xf41a, 0x261a, 0x1f83, 0x0, 0x2000, 0x42c3]"

definition train_imem_600_92 :: "(u64 \<times> u64) list" where
  "train_imem_600_92 = words_at 0x52e00 [
    0x9002, 0x1f64, 0x2305, 0x8c, 0x7444, 0x7b45, 0xb420, 0xbd7, 0x923f, 0xb3e0, 0x42c3, 0x9003,
    0xf164, 0xb2e0, 0x1a04, 0x45, 0xf1e1, 0x7164, 0x272f, 0x37c2, 0xfbb, 0xb010, 0xbb7, 0x8253,
    0xff3, 0xb03e, 0x4260, 0x261a, 0x1f8c, 0x0, 0x2000, 0x229a, 0x8, 0x7c45, 0x42c3, 0x9002,
    0x164, 0x2405, 0x108d, 0x7444, 0x7a85, 0xb520, 0x1a00, 0x5, 0xf1e5, 0x1404, 0x341b, 0xc6c6,
    0xc2e6, 0x1cfc, 0xb6c8, 0xc1a1, 0xdb25, 0x41c3, 0x9004, 0x30, 0xbb9f, 0x11b4, 0x502, 0x8b00,
    0xa0b, 0x171, 0xb100, 0x8b00, 0xf005, 0x1600, 0x7080, 0x8000, 0x58, 0xb101, 0x8be0, 0xf6f,
    0x1030, 0x2744, 0x1080, 0xc040, 0x1600, 0x7080, 0x8000, 0x32, 0x1600, 0x708d, 0x8000, 0x72a,
    0x2744, 0x105b, 0xf84f, 0xf003, 0x71a5, 0x40c3, 0x8000, 0x72a, 0x8801, 0x843, 0x362, 0x4063,
    0x209a, 0x4, 0x2753, 0x1041, 0x7905, 0xc000, 0x209a, 0x4, 0x7905, 0x40c1, 0x209a, 0x10,
    0xf83d, 0xb13, 0x3030, 0xb100, 0x79af, 0x7acf, 0xc42, 0xfdef, 0x700c, 0xc000, 0xe862, 0x79af,
    0x7acf, 0xc36, 0xfdef, 0x710c, 0xf1dc, 0x1600, 0x708f, 0x8000]"

definition train_imem_600_93 :: "(u64 \<times> u64) list" where
  "train_imem_600_93 = words_at 0x52e80 [
    0x58, 0xf6f, 0x1030, 0x2744, 0x105b, 0x40c3, 0x8000, 0x72a, 0x88a2, 0x2744, 0x1080, 0xc040,
    0x1600, 0x7080, 0x8000, 0x65, 0xf832, 0xf003, 0x71a5, 0x40c3, 0x8000, 0x72a, 0x8803, 0x843,
    0x362, 0x4063, 0x209a, 0x4, 0x2753, 0x1041, 0x7905, 0xc000, 0x209a, 0x4, 0x7905, 0x40c1,
    0x209a, 0x10, 0xf820, 0xb13, 0x3030, 0xb100, 0x79af, 0x7acf, 0xbce, 0xfdef, 0x700c, 0xc000,
    0xe862, 0x79af, 0x7acf, 0xbc2, 0xfdef, 0x710c, 0xf1dc, 0x1600, 0x708e, 0x8000, 0x4, 0xbba,
    0xfe0f, 0xbc2, 0xfe2f, 0x4508, 0x4100, 0xcee, 0xffef, 0x40a1, 0x43c3, 0x9008, 0x1ea, 0x261a,
    0x1f8c, 0x20, 0x0, 0x9300, 0x45cb, 0x9012, 0x402, 0x2004, 0xf81, 0x0, 0x3f00, 0x2405,
    0x1342, 0xb220, 0x6d44, 0x7a85, 0x71c3, 0x0, 0xc00, 0x6d02, 0xb220, 0x7c05, 0x9301, 0xb8c5,
    0xb400, 0x7487, 0x1404, 0x341b, 0xc6c6, 0x78e0, 0x2105, 0x2, 0x251a, 0x1f80, 0x0, 0x2000,
    0x2005, 0xf81, 0x9002, 0x154, 0x9100, 0x7845, 0x7ee0, 0x78e0, 0x2044, 0x200, 0x781d, 0x781d,
    0x781d, 0x204e, 0x8e, 0x7ee0, 0xc2e2, 0xc1a4, 0x1600, 0x7080]"

definition train_imem_600_94 :: "(u64 \<times> u64) list" where
  "train_imem_600_94 = words_at 0x52f00 [
    0x8000, 0x659, 0x702c, 0x754c, 0xc043, 0xd8ff, 0xdb08, 0xc142, 0xc141, 0x4528, 0xe06, 0xfd6f,
    0xc140, 0x1600, 0x7080, 0x8000, 0x659, 0xd910, 0x754c, 0xc043, 0xd8ff, 0xdb0c, 0xc542, 0xc541,
    0xdea, 0xfd6f, 0xc540, 0xd8ff, 0xd980, 0x754c, 0x726c, 0xc543, 0xc542, 0xc541, 0xdd6, 0xfd6f,
    0xc540, 0xc0a4, 0xc6c2, 0x78e0, 0xc2e4, 0xc1a4, 0x70ad, 0xd8ff, 0x702c, 0x754c, 0x736c, 0xc543,
    0xc542, 0xc541, 0xdb6, 0xfd6f, 0xc540, 0x46cb, 0x8000, 0x659, 0x8e00, 0x825, 0xb4, 0x702c,
    0x7104, 0x781d, 0xb862, 0x780f, 0xc542, 0xc541, 0xc540, 0xc043, 0xd8ff, 0x754c, 0xd8e, 0xfd6f,
    0x726c, 0x8e00, 0xc542, 0xc541, 0xc540, 0xc043, 0xd8ff, 0x702c, 0x754c, 0xd7a, 0xfd6f, 0xdb08,
    0x8e00, 0xd908, 0x754c, 0xc043, 0xd8ff, 0xdb0c, 0xc542, 0xc541, 0xd62, 0xfd6f, 0xc540, 0xc0a4,
    0xc6c4, 0x78e0, 0x42c3, 0x9004, 0x110, 0x9200, 0x204f, 0x101, 0xb8a4, 0xb220, 0x7fe0, 0xb200,
    0xc0e6, 0x215f, 0x483, 0x44cb, 0x8000, 0x658, 0x702c, 0x647a, 0x8aa2, 0x8ac3, 0x7d04, 0xf003,
    0x7124, 0x919, 0x3a3, 0x2314, 0x42, 0x629a, 0x8ae5, 0x8f5]"

definition train_imem_600_95 :: "(u64 \<times> u64) list" where
  "train_imem_600_95 = words_at 0x52f80 [
    0x83ce, 0x8a44, 0x7d45, 0xf1f6, 0x40a1, 0xc4c6, 0xb8e6, 0x205f, 0x100, 0xd964, 0xdadc, 0x22ca,
    0x41, 0x2084, 0xf03, 0x6058, 0x2004, 0xf80, 0x0, 0xfffc, 0x7ee0, 0x78e0, 0xc2e6, 0x1cfc,
    0xb6c8, 0x2482, 0x3909, 0x4608, 0xd825, 0xb89f, 0x8880, 0x1033, 0x83, 0x10df, 0x8082, 0x70ed,
    0x700c, 0xe1f, 0x11b5, 0xc047, 0x2653, 0x1141, 0xd839, 0xb9c4, 0xe905, 0xb961, 0x9ff, 0x8031,
    0x781d, 0xb8c0, 0xc047, 0x221a, 0xf80, 0x10, 0x0, 0x7b85, 0xc348, 0x1600, 0x7083, 0x8000,
    0x1, 0x1208, 0x308c, 0xc04a, 0x2455, 0x3fc0, 0x702c, 0xb42, 0xfeef, 0xdab4, 0xc092, 0xb3a,
    0xfeef, 0xdab4, 0xbbe2, 0x710c, 0x20ca, 0x3e1, 0x6c21, 0x782c, 0x43db, 0x8000, 0x724, 0xc046,
    0x2679, 0x1180, 0xc049, 0x700c, 0xc044, 0xf003, 0x71e5, 0x71f5, 0x23e, 0x29, 0x706c, 0x2650,
    0x1000, 0x2078, 0x101, 0x2678, 0x10c0, 0x7825, 0xc04c, 0x710c, 0x4408, 0x2744, 0x17c0, 0xc107,
    0xe805, 0xb861, 0x8ff, 0x8031, 0x7c9b, 0xfda, 0xfd6f, 0x40e1, 0xc04b, 0xc008, 0x788b, 0xf406,
    0xf1e2, 0x1300, 0x3080, 0x6861, 0x786f, 0x7114, 0x1f0, 0x2d]"

definition train_imem_600_96 :: "(u64 \<times> u64) list" where
  "train_imem_600_96 = words_at 0x53000 [
    0x1b00, 0x30c2, 0xc10c, 0x7def, 0x40a1, 0xb16, 0xfeaf, 0x704c, 0xe871, 0x700c, 0x1b01, 0x33c2,
    0xc045, 0xe41, 0x11f5, 0xc043, 0xd858, 0x2011, 0x8380, 0x700c, 0xc043, 0xf218, 0xc007, 0x7014,
    0xf24, 0xfd42, 0xf411, 0x1300, 0x3080, 0x255f, 0x1641, 0x205f, 0xc80, 0x6038, 0x7063, 0x8817,
    0x781d, 0x781d, 0x781d, 0x781d, 0x781d, 0x781d, 0x781d, 0xc043, 0x2456, 0x3d80, 0x702c, 0xa6a,
    0xfeef, 0xdab4, 0xe09, 0x11d4, 0xc004, 0xf024, 0x2025, 0x380, 0xf026, 0xf02c, 0xf030, 0xf034,
    0xf003, 0xf003, 0xf036, 0xc092, 0xc042, 0x2455, 0x3fc0, 0xc041, 0x2456, 0x3d80, 0xc040, 0xc003,
    0xdbff, 0xc106, 0x7014, 0x208a, 0xfc7, 0x731c, 0x75d5, 0x704c, 0x22ca, 0x1a1, 0xffe, 0xfeef,
    0x40e1, 0xd88c, 0xc045, 0x710c, 0xc043, 0xed3, 0x1190, 0xed7, 0x1351, 0xf065, 0x40a1, 0xdba,
    0xffaf, 0x2456, 0x3d81, 0xf010, 0x40a1, 0xd86, 0xa0, 0x2456, 0x3d81, 0xf00a, 0x902, 0xa0,
    0x40a1, 0xf006, 0xc103, 0xf3a, 0xff6f, 0x40e1, 0x700c, 0xf064, 0x704c, 0x1e00, 0x7084, 0x900f,
    0xe022, 0xc092, 0xc106, 0xc041, 0x2455, 0x3fc0, 0xc040, 0x40e1]"

definition train_imem_600_97 :: "(u64 \<times> u64) list" where
  "train_imem_600_97 = words_at 0x53080 [
    0xd1e, 0x20, 0x2456, 0x3d83, 0xc003, 0x7014, 0x710c, 0xc043, 0xd8c0, 0xc045, 0xf237, 0x1304,
    0x3083, 0x235f, 0x240, 0xf004, 0x7164, 0x40e3, 0x1305, 0x3081, 0x951, 0xe3, 0x704c, 0xf042,
    0x2456, 0x3d81, 0x21f5, 0xc, 0xd91b, 0x789c, 0x781c, 0x781c, 0x781c, 0xb961, 0x9ff, 0x8031,
    0x781d, 0x6419, 0x2c44, 0x180c, 0xb9c4, 0x7902, 0x231a, 0xf80, 0x0, 0x2000, 0x249a, 0x1010,
    0x7985, 0x6a81, 0x229a, 0x8, 0x7845, 0x2005, 0xf80, 0x9002, 0x64, 0xb020, 0x4281, 0x40e3,
    0xab9, 0x8232, 0x2040, 0x5f, 0xf1d0, 0x40a1, 0xbc6, 0xfdef, 0xc18d, 0xc003, 0x7014, 0x700c,
    0xc044, 0xf331, 0xc105, 0xc00b, 0xc209, 0x716c, 0x6119, 0xc00a, 0x7825, 0xed6, 0x60, 0x2456,
    0x3d81, 0xc003, 0xc044, 0xf123, 0x2340, 0x3500, 0xc044, 0xc104, 0x40a1, 0x704c, 0xf86, 0xfe6f,
    0x716c, 0xc092, 0xc106, 0xc041, 0x2455, 0x3fc0, 0xc040, 0x40e1, 0x714c, 0xc4e, 0x20, 0x2456,
    0x3d83, 0xc104, 0x40a1, 0x704c, 0xf62, 0xfe6f, 0x706c, 0xd8c0, 0xc045, 0xf165, 0x9aa, 0xfdaf,
    0x730c, 0x5c5, 0xffcf, 0x1e00, 0x70c2, 0x8000, 0xf, 0x2480]"

definition train_imem_600_98 :: "(u64 \<times> u64) list" where
  "train_imem_600_98 = words_at 0x53100 [
    0x3909, 0x1404, 0x341b, 0xc6c6, 0xc2e6, 0x1cfc, 0xb6c8, 0xc1b2, 0xc051, 0x1600, 0x7080, 0x8000,
    0x4, 0xc047, 0xace, 0xfe2f, 0x4020, 0x40c3, 0x0, 0xffff, 0x4100, 0x4200, 0xfd2, 0xfdef,
    0x4300, 0xd80f, 0xd4a, 0xfd6f, 0xd90f, 0x700c, 0x47cb, 0x9003, 0xe004, 0xc04b, 0x1f22, 0x1014,
    0x208a, 0xfc7, 0x1fa7, 0x101c, 0x1fa8, 0x101c, 0x710c, 0xd9ff, 0xb700, 0x1ffe, 0x9004, 0xb705,
    0x95e, 0xffef, 0x1ffc, 0x9004, 0x46cb, 0x8000, 0x724, 0x8e03, 0xc050, 0x8e02, 0xc04f, 0x8e05,
    0xc04a, 0x8e04, 0xc049, 0x206f, 0x243, 0x10fd, 0x8082, 0x700c, 0xa0f, 0x17e, 0xc042, 0xc00a,
    0xc04b, 0xc009, 0xc042, 0xc007, 0x201a, 0xf80, 0x10, 0x0, 0xc045, 0xf007, 0x10fd, 0x8082,
    0xc002, 0x7104, 0xc042, 0xc102, 0xc00b, 0x7110, 0x274, 0x29, 0x706f, 0x770c, 0xa15, 0x17e,
    0xc043, 0xc002, 0xae04, 0xae05, 0x781b, 0xae02, 0x7104, 0xae03, 0x71ad, 0xf003, 0x77a5, 0x70b5,
    0x1aa, 0x2b, 0xd825, 0xaea1, 0x8e20, 0xb89f, 0x7034, 0x20c0, 0xce2, 0x8820, 0x710c, 0x2544,
    0x17c2, 0xea06, 0xba61, 0xa01, 0x31, 0x781b, 0x205a, 0x100]"

definition train_imem_600_99 :: "(u64 \<times> u64) list" where
  "train_imem_600_99 = words_at 0x53180 [
    0x200f, 0x340, 0x780f, 0xc04e, 0x790b, 0xf3e6, 0x78af, 0xc04d, 0x4e2c, 0xc04c, 0xc00d, 0xc10c,
    0x714c, 0xe2a, 0xfe6f, 0x706c, 0xc00e, 0x702c, 0x81a, 0xff2f, 0x714c, 0x700c, 0x8aa, 0xfd6f,
    0x712c, 0xf003, 0x7167, 0x234c, 0xb7c0, 0x116, 0x29, 0x700c, 0xc007, 0x201a, 0xf80, 0x20,
    0x0, 0x2005, 0xf80, 0x9005, 0xe040, 0x1800, 0x6c4, 0x206f, 0x243, 0x10fd, 0x8080, 0x825,
    0x15e, 0xc002, 0x201a, 0xf81, 0x0, 0x1000, 0xc005, 0x7825, 0x781b, 0x2005, 0xf80, 0x9002,
    0x40, 0x1800, 0x6c4, 0xf015, 0x8e24, 0xf010, 0x211a, 0xf82, 0x0, 0x1000, 0xc005, 0x7124,
    0x7845, 0x781b, 0x2005, 0xf80, 0x9002, 0x40, 0x1800, 0x6c4, 0x8e05, 0x8e5, 0x8043, 0xce2,
    0xfeaf, 0xd814, 0xab2, 0xff8f, 0xc011, 0x712c, 0x822, 0xfd6f, 0x7810, 0x8e04, 0xc044, 0x700c,
    0xc048, 0xf016, 0xc006, 0x41c3, 0x11, 0x4, 0x42a1, 0x7810, 0xc041, 0xc004, 0x4363, 0xc040,
    0xc36, 0xfd6f, 0x740c, 0xc106, 0xc008, 0x7825, 0xc048, 0xc004, 0x7104, 0xc044, 0x8e25, 0xc004,
    0x947, 0x22, 0xd80f, 0xc004, 0x704c, 0x201a, 0xf81, 0x0]"

definition train_imem_600_100 :: "(u64 \<times> u64) list" where
  "train_imem_600_100 = words_at 0x53200 [
    0x2000, 0x2105, 0xf80, 0x9002, 0x170, 0x9000, 0xc246, 0xf003, 0x7144, 0xab5, 0x8233, 0x4040,
    0x209a, 0x8, 0x7825, 0x2005, 0xf80, 0x9002, 0x166, 0x9000, 0xe874, 0xc006, 0x7810, 0x200f,
    0x80, 0xc046, 0xf1ee, 0xb4a, 0xfd6f, 0xd90f, 0xc008, 0x262f, 0xf008, 0xf57a, 0xc003, 0x2008,
    0x6c0, 0xc043, 0x710c, 0x41c3, 0x13, 0x1, 0xcda, 0xfcef, 0x42a1, 0x740c, 0x41c3, 0x14,
    0x2, 0x42a1, 0xbaa, 0xfd6f, 0x4363, 0xb92, 0xfeaf, 0xc00e, 0xc00d, 0xc10c, 0x704c, 0xcce,
    0xfe6f, 0x706c, 0x140c, 0x301b, 0xf12a, 0xc003, 0xd91f, 0xb961, 0x9ff, 0x8031, 0x781d, 0x41c3,
    0x15, 0x0, 0xc9a, 0xfcef, 0x2052, 0x0, 0x1600, 0x7081, 0x8000, 0x16, 0xc003, 0xc203,
    0x6038, 0x2049, 0x7cd, 0x7bb0, 0x41c3, 0x16, 0x2, 0xb5a, 0xfd6f, 0x750c, 0xc007, 0x201a,
    0xf80, 0x20, 0x0, 0x2005, 0xf80, 0x9005, 0xe040, 0xb0a0, 0x206f, 0x243, 0x10fd, 0x8080,
    0x821, 0x15e, 0xc002, 0x201a, 0xf81, 0x0, 0x1000, 0xc005, 0x7825, 0x781b, 0x2005, 0xf80,
    0x9002, 0x40, 0xb0a0, 0xf016, 0x8e24, 0xf00f, 0x211a, 0xf82]"

definition train_imem_600_101 :: "(u64 \<times> u64) list" where
  "train_imem_600_101 = words_at 0x53280 [
    0x0, 0x1000, 0xc005, 0x7124, 0x7845, 0x781b, 0x2005, 0xf80, 0x9002, 0x40, 0xb0a0, 0x8e05,
    0x8e5, 0x8043, 0x942, 0xff8f, 0x585, 0xffef, 0x206f, 0x243, 0xa15, 0x15e, 0xc009, 0xae04,
    0xc00a, 0xae05, 0xc00f, 0xae02, 0xc010, 0xae03, 0x700c, 0x1fa7, 0x101c, 0x1fa8, 0x101c, 0xb700,
    0xc0b2, 0x1404, 0x341b, 0xc6c6, 0x4200, 0xca09, 0xe804, 0x19, 0x20, 0x4040, 0x41c3, 0x9018,
    0x64, 0xb140, 0x51, 0x20, 0x1902, 0x5, 0xc2e2, 0x4508, 0xca09, 0xe812, 0xcc1e, 0x208c,
    0x8010, 0xf785, 0xd3a, 0xfd4f, 0xcc1e, 0x6821, 0x2615, 0x7000, 0x8000, 0x894, 0x1a1e, 0x305c,
    0xa0a0, 0xc6c2, 0x40c3, 0x9018, 0x64, 0xd910, 0xb0a0, 0xb961, 0x9ff, 0x8031, 0x7dbd, 0xb0a2,
    0x80e, 0x20, 0x1802, 0x5, 0xc6c2, 0x78e0, 0x41c3, 0x9018, 0x8, 0x9100, 0x8ff, 0x801f,
    0x195e, 0x45, 0x9100, 0x801, 0x1e, 0x7ee0, 0xc2e4, 0x1cfc, 0xb6c8, 0x4608, 0x1600, 0x7080,
    0x8000, 0x1, 0x83b, 0x13f, 0x4338, 0xca09, 0x7dd0, 0xe80a, 0xcc1e, 0x218a, 0x10, 0x7902,
    0x6d02, 0x7030, 0xcc0, 0xfd4a, 0xf5a, 0xffef, 0xd808, 0xf72]"

definition train_imem_600_102 :: "(u64 \<times> u64) list" where
  "train_imem_600_102 = words_at 0x53300 [
    0xffef, 0x40c1, 0x70cd, 0xf007, 0xf66, 0xffef, 0x1304, 0x3400, 0x71c5, 0xef9, 0x9342, 0x1404,
    0x341b, 0xc6c4, 0xc2e6, 0x1cfc, 0xb6c8, 0x2482, 0x3803, 0xc143, 0xc348, 0x1600, 0x708e, 0x8000,
    0x4, 0x1600, 0x710f, 0x9008, 0x1e0, 0x702c, 0x4358, 0x97e, 0xfd6f, 0x4508, 0xc042, 0x40c3,
    0x0, 0xffff, 0x4100, 0x4200, 0xbae, 0xfdef, 0x4300, 0x40c3, 0x0, 0xffff, 0x2058, 0x800,
    0x78e4, 0x1e00, 0x7004, 0x9009, 0xe1e0, 0x40c3, 0x8000, 0x4bc, 0x9a2, 0x60, 0xd960, 0x718d,
    0x4081, 0x2544, 0x17cf, 0xef06, 0xbf61, 0xf01, 0x1031, 0x781b, 0x205a, 0x100, 0x702c, 0xb33,
    0x3030, 0x200f, 0x342, 0xd8ff, 0x1e00, 0x7004, 0x9003, 0xf0c4, 0xf014, 0x209a, 0x8, 0x4381,
    0xed05, 0xbd61, 0xdff, 0x9031, 0x7b7b, 0x7124, 0x2005, 0xf80, 0x9003, 0xe0c4, 0xb060, 0x7830,
    0x8e3, 0x8234, 0x2044, 0x7cd, 0x14f8, 0x3000, 0x261a, 0x1f8e, 0x10, 0x0, 0x702c, 0xc046,
    0x14f4, 0x3000, 0xc647, 0xc045, 0x784f, 0x704c, 0xc5a, 0xfeef, 0xc049, 0x1600, 0x708f, 0x8000,
    0x728, 0x710c, 0x7077, 0x275f, 0x124d, 0xc044, 0x20ca, 0x262]"

definition train_imem_600_103 :: "(u64 \<times> u64) list" where
  "train_imem_600_103 = words_at 0x53380 [
    0xc044, 0x25c0, 0x1222, 0xf003, 0x71e5, 0x40c3, 0x8000, 0x728, 0x8801, 0x823, 0x3e3, 0x702c,
    0xf048, 0x205a, 0x800, 0x7ac5, 0x7124, 0x2305, 0x1003, 0x785b, 0x2005, 0xf80, 0x9002, 0x64,
    0xb060, 0x9d9, 0x8253, 0xc002, 0x271a, 0x1f8e, 0x0, 0x1000, 0x2055, 0xc02, 0xc007, 0x7845,
    0x4220, 0x229a, 0x4, 0x78c5, 0x7845, 0x781b, 0xb891, 0xb89c, 0xb89f, 0x9060, 0x787d, 0x206c,
    0x10c, 0x2716, 0x13c0, 0xbbc4, 0x2100, 0x1f, 0xc08b, 0x2405, 0x10cb, 0x2014, 0x7c0, 0x911,
    0x231, 0x1800, 0x2c4, 0x2379, 0x3000, 0xe888, 0xb1f, 0x3031, 0x4081, 0x993, 0x8230, 0x4368,
    0x700c, 0xc8b, 0x9832, 0x4308, 0x2400, 0x1f80, 0x0, 0xffe0, 0xf002, 0x4081, 0x4368, 0xf1bb,
    0xd80f, 0xfd6, 0xfd2f, 0xd90f, 0x710c, 0xc0e, 0xffaf, 0xd9ff, 0x47cb, 0x9003, 0xe024, 0x712c,
    0x700c, 0x1f00, 0x1f84, 0x0, 0xffff, 0xb726, 0x1ffe, 0x9044, 0x1fa8, 0x101c, 0x1fa9, 0x101c,
    0xc003, 0xe020, 0x7810, 0xbfa, 0xfd2f, 0xc04a, 0x2379, 0x3000, 0xc047, 0x7104, 0xc043, 0xc005,
    0xc203, 0xd7e, 0xff6f, 0x712c, 0x40c3, 0x8000, 0x728, 0x8801]"

definition train_imem_600_104 :: "(u64 \<times> u64) list" where
  "train_imem_600_104 = words_at 0x53400 [
    0x46a9, 0x205f, 0x240, 0xe008, 0xc042, 0xf00f, 0xc005, 0x41c3, 0x18, 0x2, 0x20f5, 0x383,
    0xd8a0, 0x916, 0xfcef, 0x233a, 0x0, 0xc004, 0x661e, 0xc002, 0x8e5, 0x83a3, 0x42c1, 0x1600,
    0x708c, 0x8000, 0x728, 0xf003, 0x7185, 0x40c3, 0x8000, 0x728, 0x8801, 0x82b, 0x323, 0x704c,
    0xf037, 0x205f, 0x800, 0x6b41, 0x239a, 0x8, 0x7905, 0x241a, 0x1f80, 0x0, 0x2000, 0x7b05,
    0x2305, 0xf80, 0x9002, 0x64, 0xb020, 0xad1, 0x8273, 0x4340, 0x2416, 0x1300, 0x6319, 0xc08b,
    0x20f5, 0x4b, 0x2304, 0x1f82, 0x0, 0xffe0, 0xb0d, 0x231, 0x2353, 0x110b, 0xc007, 0xe88c,
    0x7077, 0x21ca, 0x2c2, 0x20ca, 0x82, 0xf5d9, 0x4161, 0xbaf, 0x8230, 0x4040, 0xd8a0, 0x228c,
    0x87c2, 0x7a2, 0xffe9, 0xd91f, 0x4a48, 0x4161, 0xf1cb, 0x730c, 0xb06, 0xffaf, 0xd9ff, 0x700c,
    0x1f00, 0x1f84, 0x0, 0xffff, 0x1f0c, 0x1045, 0x1ffe, 0x9045, 0x1fa8, 0x101c, 0x1fa9, 0x101c,
    0xc00a, 0xafe, 0xfd2f, 0x712c, 0xc006, 0xc203, 0xc8a, 0xff6f, 0x712c, 0x46a9, 0xf00e, 0xc006,
    0x41c3, 0x1a, 0x2, 0x20f5, 0x383, 0xd8c0, 0x832, 0xfcef]"

definition train_imem_600_105 :: "(u64 \<times> u64) list" where
  "train_imem_600_105 = words_at 0x53480 [
    0x233c, 0x0, 0xc004, 0x661e, 0xc002, 0x8e7, 0x83a3, 0x42c1, 0xeea, 0xfe6f, 0xc009, 0x1600,
    0x708f, 0x8000, 0x728, 0x7077, 0x77cd, 0x26ca, 0x1222, 0xf004, 0xc004, 0x651d, 0xc002, 0x865,
    0x362, 0x700c, 0xb1b, 0x3011, 0x71c5, 0xe17, 0x1211, 0xc008, 0x71e5, 0x77cd, 0x78b4, 0x10f2,
    0x8101, 0xb020, 0xf1ee, 0xc005, 0xc308, 0x20f5, 0x341, 0xc006, 0x7bb4, 0x20f5, 0x342, 0x6238,
    0x262f, 0xf001, 0x781d, 0x20ca, 0x24, 0xb300, 0x4a30, 0x780e, 0x1c04, 0x3181, 0xc040, 0x207f,
    0x140, 0x41c3, 0x1d, 0x4, 0x42e1, 0xfae, 0xfcaf, 0x43c1, 0x7077, 0x27c0, 0x1062, 0xf1ce,
    0x1e00, 0x7004, 0x9003, 0xe004, 0x2480, 0x3803, 0x1404, 0x341b, 0xc6c6, 0x78e0, 0xc2e6, 0xc1a4,
    0x712c, 0x2044, 0x7c3, 0xeb06, 0xbb61, 0xb01, 0x31, 0x793b, 0x215a, 0x101, 0x205f, 0x643,
    0x210f, 0xe, 0x41c3, 0x8000, 0x724, 0x8900, 0x205f, 0xc80, 0x6078, 0x6038, 0x88f6, 0xea03,
    0xbf87, 0x700c, 0x94e, 0xfd2f, 0x702c, 0x702c, 0x78cf, 0xc143, 0xc042, 0xd8ff, 0x734c, 0xdb22,
    0x1c04, 0x3081, 0x4528, 0xc3a, 0xfd2f, 0xc740, 0xd8ff, 0xd980]"

definition train_imem_600_106 :: "(u64 \<times> u64) list" where
  "train_imem_600_106 = words_at 0x53500 [
    0x754c, 0x726c, 0xc543, 0xc542, 0xc541, 0xa12, 0xfd2f, 0xc540, 0x700c, 0x9c6, 0xfd2f, 0x712c,
    0xc0a4, 0xc6c6, 0xc2e6, 0x1cfc, 0xb6c8, 0xc1a4, 0x4338, 0xf0a, 0xfdaf, 0x4608, 0x4708, 0x700c,
    0x8fa, 0xfd2f, 0xd908, 0x70ad, 0xd8ff, 0x702c, 0x704c, 0xdb28, 0xc543, 0xc642, 0xc541, 0x9d6,
    0xfd2f, 0xc540, 0xc1e, 0xfd2f, 0xd8ff, 0xb2f, 0x3030, 0xe72e, 0xd8ff, 0xd90c, 0x714c, 0xdb08,
    0xc543, 0xc642, 0xc541, 0x9b6, 0xfd2f, 0xc540, 0xd8ff, 0xd90c, 0x714c, 0xdb0a, 0xc543, 0xc642,
    0xc541, 0xc540, 0xf00a, 0x1c0c, 0x3041, 0xc642, 0xc541, 0xc540, 0xd8ff, 0xd90c, 0x714c, 0xdb08,
    0x98a, 0xfd0f, 0xd8ff, 0x702c, 0x714c, 0xdb08, 0xc543, 0xc642, 0xc541, 0x97a, 0xfd2f, 0xc540,
    0x7bef, 0xd8ff, 0xd90c, 0x714c, 0xc543, 0xc541, 0xc540, 0x966, 0xfd2f, 0xc642, 0xd8ff, 0x702c,
    0x754c, 0x726c, 0x1c0c, 0x30c1, 0xc542, 0xc541, 0x94e, 0xfd2f, 0xc540, 0x702c, 0xd8ff, 0xb98f,
    0x754c, 0x746c, 0x1c0c, 0x3041, 0xc542, 0xc541, 0x936, 0xfd2f, 0xc540, 0xd8ff, 0x702c, 0x754c,
    0xdb10, 0xc543, 0xc542, 0xc541, 0x922, 0xfd2f, 0xc540, 0xb52]"

definition train_imem_600_107 :: "(u64 \<times> u64) list" where
  "train_imem_600_107 = words_at 0x53580 [
    0xfd2f, 0xd8ff, 0xbec1, 0xd8ff, 0xd980, 0x764c, 0x746c, 0xc543, 0xc642, 0xc541, 0x906, 0xfd2f,
    0x1c00, 0x3041, 0xc0a4, 0x1404, 0x341b, 0xc6c6, 0xc2e6, 0x1cfc, 0xb6c8, 0xc1a8, 0xc146, 0xc044,
    0x700c, 0xd9ff, 0xc347, 0xff6, 0xfcef, 0xc245, 0x1434, 0x301b, 0x70cd, 0x70ad, 0xf002, 0x71a5,
    0xd77, 0x1335, 0x710c, 0x2532, 0x1f8f, 0x8000, 0x620, 0x702c, 0xd9a, 0xfcaf, 0x42e1, 0x2104,
    0x6c2, 0xc107, 0x7824, 0x2005, 0x80be, 0xf5ef, 0xc006, 0x734c, 0xdb22, 0x60e9, 0xc004, 0x1c0c,
    0x3001, 0xc042, 0xc741, 0xc140, 0xd8ff, 0xaae, 0xfd2f, 0x702c, 0xed03, 0xdbf, 0x9191, 0x70b5,
    0xd9c8, 0xd8fa, 0x832, 0xfe6f, 0x20ca, 0x41, 0x781d, 0x781d, 0x781d, 0x781d, 0x781d, 0x702c,
    0x780f, 0xc142, 0xc141, 0xc140, 0xc043, 0xd8ff, 0x754c, 0xa7a, 0xfd2f, 0xdb20, 0xf1c5, 0xd8ff,
    0x702c, 0x754c, 0xdb41, 0x1c0c, 0x3401, 0xc642, 0xc641, 0x84e, 0xfd2f, 0xc640, 0xd8ff, 0xd980,
    0x754c, 0x746c, 0xc643, 0xc642, 0xc641, 0x83a, 0xfd2f, 0xc640, 0x700c, 0xfee, 0xfcef, 0x712c,
    0xc005, 0xe837, 0x700c, 0xf36, 0xfcef, 0xd9ff, 0xc604, 0x70ad]"

definition train_imem_600_108 :: "(u64 \<times> u64) list" where
  "train_imem_600_108 = words_at 0x53600 [
    0xd84f, 0xbec1, 0xc543, 0xc642, 0xc541, 0xc040, 0xd8ff, 0xd980, 0xda17, 0x80a, 0xfd2f, 0x746c,
    0x700c, 0xfbe, 0xfcef, 0x712c, 0x40c3, 0xf, 0x4240, 0xcba, 0xfe6f, 0x702c, 0x700c, 0xefe,
    0xfcef, 0xd9ff, 0xd851, 0xc543, 0xc642, 0xc541, 0xc040, 0xd8ff, 0xd980, 0xda17, 0xfd6, 0xfcef,
    0x746c, 0x700c, 0xf8a, 0xfcef, 0x712c, 0x40c3, 0x0, 0x1f40, 0xc86, 0xfe6f, 0xd91e, 0xc0a8,
    0x1404, 0x341b, 0xc6c6, 0x78e0, 0xc2e6, 0x1cfc, 0xb6c8, 0xc1ad, 0xc34a, 0xc248, 0xc14b, 0xa5a,
    0xfd6f, 0xc045, 0xc012, 0x70cd, 0xddff, 0xc04c, 0xc013, 0xc049, 0x40c1, 0xf004, 0xc004, 0x7104,
    0xc044, 0xc004, 0xe08b, 0x170, 0xd, 0xc004, 0x2032, 0xf80, 0x8000, 0x620, 0xc047, 0xc107,
    0xc00b, 0x6028, 0xc046, 0x78af, 0x208c, 0x8fc3, 0xf40a, 0x40c3, 0x0, 0xa00, 0xe6e, 0xfcef,
    0xd9ff, 0x992, 0xff8f, 0x70ad, 0xc007, 0x712c, 0xc20a, 0xb8c4, 0xe805, 0xb861, 0x8ff, 0x8031,
    0x793b, 0xd81f, 0x7a24, 0xb861, 0x8ff, 0x8031, 0x793c, 0xc00c, 0x7824, 0x2205, 0x803e, 0xf47b,
    0xc006, 0x47cb, 0x8000, 0x658, 0x781d, 0x781d, 0x2045, 0x19b]"

definition train_imem_600_109 :: "(u64 \<times> u64) list" where
  "train_imem_600_109 = words_at 0x53680 [
    0xc009, 0xe80e, 0x8f01, 0x702c, 0x704c, 0xc043, 0x700c, 0xc042, 0xc041, 0xc040, 0xd8ff, 0xf06,
    0xfcef, 0xdb20, 0x8f01, 0x702c, 0x704c, 0xc043, 0xc005, 0x726c, 0x71a5, 0xc042, 0x710c, 0xc041,
    0x2344, 0x3980, 0xc040, 0xee6, 0xfcef, 0xd8ff, 0x8f01, 0x702c, 0x704c, 0xc043, 0x710c, 0xc642,
    0xc041, 0xc007, 0x726c, 0xb8c5, 0xc040, 0xeca, 0xfcef, 0xd8ff, 0x8f01, 0x702c, 0x704c, 0xc043,
    0xc005, 0x726c, 0xc042, 0x710c, 0xc041, 0xc006, 0x781d, 0x2045, 0x580, 0x2044, 0xd80, 0xc040,
    0xea2, 0xfcef, 0xd8ff, 0x8f01, 0x702c, 0x704c, 0xc043, 0x710c, 0xc642, 0xc041, 0xc006, 0x726c,
    0xb8c5, 0xc040, 0xe86, 0xfcef, 0xd8ff, 0xc004, 0xe818, 0x40c3, 0x0, 0x2710, 0xb5a, 0xfe6f,
    0xd90a, 0x781d, 0x781d, 0x7704, 0x7f0f, 0xf84a, 0xc642, 0xc641, 0xc640, 0xe62, 0xfcef, 0xc743,
    0xf846, 0xc743, 0xc642, 0xc641, 0xc640, 0xf00b, 0x8f01, 0x702c, 0x704c, 0xc043, 0xc642, 0xc641,
    0xc640, 0xd8ff, 0xdb18, 0xe3e, 0xfccf, 0x78af, 0x811, 0x110, 0xc104, 0xe18b, 0xf550, 0x70ad,
    0x7014, 0xf34e, 0x806, 0xff8f, 0x700c, 0xdde, 0xfcef, 0x712c]"

definition train_imem_600_110 :: "(u64 \<times> u64) list" where
  "train_imem_600_110 = words_at 0x53700 [
    0xddff, 0xf146, 0xc008, 0x8c9, 0x30, 0xd9ff, 0x40c3, 0x0, 0xa00, 0xd1a, 0xfcef, 0x4318,
    0x83a, 0xff8f, 0x46cb, 0x8000, 0x659, 0x8e00, 0x702c, 0xdf20, 0xc043, 0xc005, 0x704c, 0x726c,
    0xc042, 0xd8ff, 0xc141, 0x4528, 0xde2, 0xfcef, 0xc740, 0x8e00, 0x702c, 0x704c, 0xc043, 0xd8ff,
    0x726c, 0xc542, 0xc541, 0xdce, 0xfcef, 0x1c00, 0x33c1, 0xfa6, 0xff4f, 0x700c, 0xd7a, 0xfcef,
    0x712c, 0x40c3, 0xf, 0x4240, 0xa76, 0xfe6f, 0x702c, 0x4063, 0xcba, 0xfcef, 0xd9ff, 0xfde,
    0xff4f, 0x8e00, 0x702c, 0x704c, 0xc043, 0xc005, 0x726c, 0xc042, 0xd8ff, 0xc541, 0xd8e, 0xfcef,
    0xc740, 0x8e00, 0x702c, 0x704c, 0xc043, 0xd8ff, 0x726c, 0xc542, 0xc541, 0xd7a, 0xfcef, 0x1c00,
    0x3441, 0x8e00, 0x702c, 0x704c, 0xc043, 0xd8ff, 0xdb10, 0xc542, 0xc541, 0xd62, 0xfcef, 0xc540,
    0xf3a, 0xff4f, 0x700c, 0xd12, 0xfcef, 0x712c, 0x9fe, 0xfd4f, 0xc0ad, 0x1404, 0x341b, 0xc6c6,
    0xd8ff, 0x702c, 0x704c, 0x726c, 0x7ee0, 0x78e0, 0xc2e6, 0x1cfc, 0xb6c8, 0xc1aa, 0xc043, 0x1600,
    0x7080, 0x8000, 0x58, 0x70ad, 0xc346, 0xc048, 0xd858, 0xb89f]"

definition train_imem_600_111 :: "(u64 \<times> u64) list" where
  "train_imem_600_111 = words_at 0x53780 [
    0x10cd, 0x809b, 0xc00f, 0xc245, 0xc144, 0xc047, 0xf002, 0x71a5, 0xdb7, 0x10b3, 0x710c, 0x2544,
    0x17c1, 0xe906, 0xb961, 0x901, 0x31, 0x781b, 0xc042, 0xc102, 0xc007, 0x70cd, 0x7824, 0xc049,
    0xf002, 0x71c5, 0xedb, 0x90b3, 0x70d5, 0xc108, 0x4063, 0x703c, 0xc109, 0x782b, 0xf3f7, 0xc002,
    0x2644, 0x17c1, 0x7f0f, 0x710c, 0xe905, 0xb961, 0x9ff, 0x8031, 0x781b, 0xc3e, 0xfd2f, 0x780f,
    0x40c3, 0x8000, 0x658, 0x8800, 0xe807, 0xd858, 0xb89f, 0x10a9, 0x8080, 0x82d, 0xde, 0xc006,
    0x265a, 0x1c81, 0x275f, 0x1102, 0xc040, 0xc003, 0xc305, 0x6038, 0x255a, 0x1641, 0x6119, 0xc002,
    0x7845, 0xc204, 0xb92, 0xffef, 0x780f, 0xf1cd, 0xc006, 0x265a, 0x1c81, 0x1c04, 0x3001, 0xc040,
    0xc003, 0x275f, 0x1102, 0xc305, 0x6038, 0x255a, 0x1641, 0x6119, 0xc002, 0x7845, 0xc204, 0xcae,
    0xffef, 0x780f, 0xf1b7, 0xbd2, 0xfd2f, 0x730c, 0xc0aa, 0x1404, 0x341b, 0xc6c6, 0xc2e2, 0x219a,
    0x1, 0x239a, 0x1, 0x44cb, 0x9008, 0x100, 0x7825, 0x1600, 0x7081, 0x8000, 0x4, 0x7b45,
    0x211a, 0xf8d, 0x20, 0x0, 0x2505, 0x1301, 0xb100, 0x6c02]"

definition train_imem_600_112 :: "(u64 \<times> u64) list" where
  "train_imem_600_112 = words_at 0x53800 [
    0x78a5, 0xb060, 0x700c, 0xbd2, 0xfcef, 0x712c, 0xc6c2, 0x78e0, 0xc2e2, 0x1cfc, 0xb6c8, 0x4338,
    0x4308, 0x70ad, 0xf002, 0x71a5, 0x2b45, 0x3180, 0xd49, 0x1005, 0x255a, 0x1182, 0x7261, 0x8a01,
    0x8a60, 0x8a22, 0x209a, 0x4, 0x7b05, 0x8a03, 0x209a, 0x4, 0x7825, 0x201a, 0xf80, 0x1,
    0x0, 0x2005, 0xc1, 0x8a05, 0x8a64, 0x7734, 0x209a, 0x4, 0x7865, 0xf207, 0x793b, 0xb99c,
    0xb99f, 0xb100, 0xf1dd, 0x822, 0xfe4f, 0xf1db, 0x1404, 0x341b, 0xc6c2, 0x78e0, 0xc2e6, 0x1cfc,
    0xb6c8, 0xc1a2, 0x45cb, 0x8000, 0x728, 0x8de0, 0x4318, 0xc340, 0xc141, 0xea04, 0x7bfb, 0xf004,
    0x275f, 0x1243, 0x7054, 0x274a, 0x3200, 0x27ca, 0x3062, 0xf003, 0x71e5, 0x8d01, 0x7710, 0x700c,
    0xf6d3, 0xf03b, 0x219a, 0x1, 0x7104, 0x7164, 0x7e25, 0x271a, 0x1f81, 0x0, 0x1000, 0x2105,
    0x6c1, 0x7985, 0x793b, 0xb991, 0xb99c, 0xb99f, 0xb1c0, 0xfd5, 0xb022, 0x4408, 0xc101, 0x249a,
    0x1004, 0x21f5, 0xc2, 0xc100, 0xe912, 0x7e5c, 0x7edc, 0x7edc, 0x7edc, 0x224a, 0x16c0, 0x2242,
    0x104a, 0xaff, 0x9031, 0x7edd, 0x2a44, 0x801, 0x62da, 0xbac4]"

definition train_imem_600_113 :: "(u64 \<times> u64) list" where
  "train_imem_600_113 = words_at 0x53880 [
    0x4ad6, 0xf1d6, 0x268a, 0x1fcf, 0x7e44, 0x2204, 0xf81, 0x0, 0xfc00, 0xda0a, 0xba61, 0xa01,
    0x31, 0x793d, 0xf1c8, 0xc0a2, 0x1404, 0x341b, 0xc6c6, 0x78e0, 0xc2e6, 0x1cfc, 0xb6c8, 0xc1a1,
    0x7014, 0x1600, 0x7080, 0x8000, 0x1b, 0x41c3, 0x40, 0x1800, 0x70ed, 0x27ca, 0x1041, 0x45cb,
    0x8000, 0x72e, 0x82d, 0x3e, 0x706f, 0x8d04, 0xe812, 0x8d00, 0x8d41, 0xad16, 0x40c3, 0x8000,
    0x75d, 0xa840, 0x8d42, 0xa859, 0x8d43, 0x40c3, 0x8000, 0x78f, 0xa840, 0x2150, 0x300, 0x7f04,
    0xe50a, 0x40a1, 0x88a, 0xff6f, 0xd90d, 0x40a1, 0xd90d, 0xb22, 0xfe2f, 0xda40, 0x40a1, 0xd90d,
    0xd5a, 0xfcef, 0xda7f, 0xdeff, 0x40a1, 0x702c, 0x42e1, 0x4363, 0xd46, 0xffef, 0xc640, 0x40a1,
    0xd90d, 0xafe, 0xfe2f, 0xda80, 0x40a1, 0x702c, 0x42c3, 0xffff, 0xdfff, 0x776c, 0xd2a, 0xffef,
    0xc640, 0x40a1, 0xc62, 0xff2f, 0xd90d, 0x7487, 0x1404, 0x341b, 0xc6c6, 0x78e0, 0xc2e6, 0x1cfc,
    0xb6c8, 0x2482, 0x3603, 0x702c, 0xdda, 0xfcef, 0x4708, 0x1600, 0x708d, 0x8000, 0x4, 0xc46,
    0x20, 0xc041, 0x40e1, 0xb56, 0xfd6f, 0x2455, 0x3c41, 0x71cd]"

definition train_imem_600_114 :: "(u64 \<times> u64) list" where
  "train_imem_600_114 = words_at 0x53900 [
    0x40c1, 0x2744, 0x17db, 0xb11, 0x3010, 0x2342, 0x305b, 0xbff, 0xb031, 0x781b, 0x205a, 0x100,
    0x200f, 0x3c0, 0xaee, 0xfdaf, 0x780f, 0x251a, 0x1f8d, 0x10, 0x0, 0x702c, 0x40c3, 0x9003,
    0xfe64, 0x1e00, 0x7044, 0x9003, 0xfe64, 0x1882, 0x5c, 0x208a, 0x808, 0x1e00, 0x7004, 0x9003,
    0xe004, 0x1e00, 0x7384, 0x900f, 0xe0c0, 0x1e00, 0x7044, 0x9003, 0xfe64, 0xc542, 0xf010, 0x6941,
    0x219a, 0x8, 0x43c1, 0xe806, 0xb861, 0x801, 0x31, 0x7b7b, 0x2105, 0xf80, 0x9003, 0xe0c4,
    0xb060, 0x4140, 0x9e3, 0x8232, 0x2144, 0x7c0, 0x45cb, 0x0, 0xaaaa, 0xd80f, 0x41a1, 0x42a1,
    0x43a1, 0xf2a, 0xfd6f, 0xc540, 0xd80f, 0xce6, 0xfcef, 0xd90f, 0x40c3, 0x0, 0xf00, 0xffe,
    0xff2f, 0x712c, 0x47cb, 0x9003, 0xe174, 0x700c, 0xb700, 0x208a, 0xfc7, 0xb701, 0x43db, 0x0,
    0xffff, 0xd830, 0x1f58, 0x96dc, 0x1f5e, 0x939c, 0x90a, 0xfcef, 0x1f57, 0x939c, 0xd80f, 0x702c,
    0x704c, 0x4363, 0xede, 0xfd6f, 0x1c00, 0x36c0, 0x740c, 0x8f2, 0xfcef, 0x712c, 0xd80f, 0x41a1,
    0x42a1, 0x43a1, 0xec6, 0xfd6f, 0xc540, 0x700c, 0xb700, 0xb701]"

definition train_imem_600_115 :: "(u64 \<times> u64) list" where
  "train_imem_600_115 = words_at 0x53980 [
    0xd820, 0x1f58, 0x901c, 0x208a, 0x844, 0x1f5e, 0x939c, 0x1f57, 0x901c, 0x40c3, 0x0, 0xf00,
    0xf8a, 0xff2f, 0x732c, 0xd830, 0x8b6, 0xfcef, 0x712c, 0x1600, 0x7081, 0x8000, 0x728, 0xf003,
    0x7124, 0x40c3, 0x8000, 0x728, 0x8801, 0x83d, 0x63, 0x704c, 0xf01e, 0x209a, 0x8, 0x211a,
    0xf83, 0x0, 0x2000, 0x2216, 0x4c, 0x7144, 0x7865, 0x2005, 0xf80, 0x9002, 0x64, 0x9000,
    0x7b1d, 0x7b7d, 0x7b7d, 0x7b7d, 0x7b7d, 0xb8c4, 0x7b05, 0xc089, 0x7894, 0xb060, 0xacf, 0x8232,
    0x4040, 0xf1dc, 0x208a, 0xfc7, 0xb700, 0x70cd, 0x710c, 0xb7c1, 0x1f58, 0x96dc, 0x1f5e, 0x901c,
    0x1f57, 0x901c, 0x208a, 0x7d0, 0x1e00, 0x7004, 0x9003, 0xfe64, 0xd830, 0x836, 0xfcef, 0x712c,
    0xd80f, 0x702c, 0x704c, 0x4363, 0xe0a, 0xfd6f, 0x1c00, 0x36c0, 0x740c, 0x81e, 0xfcef, 0x712c,
    0xd80f, 0x41a1, 0x42a1, 0x43a1, 0xdf2, 0xfd6f, 0xc540, 0x40c3, 0x0, 0xf00, 0x712c, 0xb7c0,
    0xeca, 0xff2f, 0xb7c1, 0xd820, 0x1f58, 0x901c, 0x710c, 0x1f5e, 0x901c, 0x208a, 0x844, 0x1f57,
    0x901c, 0xfe6, 0xfcaf, 0xd830, 0x1600, 0x708d, 0x8000, 0x728]"

definition train_imem_600_116 :: "(u64 \<times> u64) list" where
  "train_imem_600_116 = words_at 0x53a00 [
    0xf00c, 0x251a, 0x1f80, 0x0, 0x2000, 0x71a5, 0x2005, 0xf81, 0x9002, 0x1e64, 0xc005, 0xb100,
    0x40c3, 0x8000, 0x728, 0x8801, 0x7510, 0x118, 0x29, 0xd8ff, 0xc001, 0x708d, 0x2055, 0xd01,
    0xc002, 0x7905, 0x251a, 0x1f80, 0x0, 0x1000, 0xc043, 0x7825, 0x781b, 0xb891, 0xb89c, 0xb89f,
    0x9000, 0xb8c4, 0xc045, 0xe010, 0xc046, 0xf003, 0x7185, 0xcaf, 0x9233, 0x4799, 0x279a, 0x3004,
    0xc003, 0x2416, 0x1343, 0x2005, 0x7c0, 0x781b, 0x2005, 0xf80, 0x9002, 0x64, 0x9000, 0xc106,
    0x7a1d, 0x7a5d, 0x7a5d, 0x7a5d, 0x7a5d, 0xb8c4, 0x7a05, 0x2455, 0x3c40, 0x20f4, 0x340, 0x6119,
    0xc089, 0x20f5, 0xc0, 0x7050, 0x20d4, 0x82b, 0x6058, 0x780e, 0x7b1c, 0x232f, 0x3046, 0x2302,
    0x6c1, 0xc047, 0x7831, 0x2354, 0x802, 0xc044, 0x2202, 0x6c0, 0x224a, 0x17c0, 0x2242, 0x104a,
    0xafd, 0x9031, 0x781c, 0xc048, 0x6038, 0x2054, 0x801, 0xc008, 0x7907, 0xc004, 0x923, 0x2,
    0xc007, 0x7a1d, 0x208a, 0x3f, 0x2002, 0x6c0, 0x6078, 0x7911, 0xc004, 0x90f, 0x3, 0x2300,
    0xf82, 0x0, 0xffc0, 0x262f, 0xf086, 0x22ca, 0x24, 0x784e]"

definition train_imem_600_117 :: "(u64 \<times> u64) list" where
  "train_imem_600_117 = words_at 0x53a80 [
    0x791b, 0x2184, 0x7, 0xb8c4, 0x7905, 0xc001, 0x2055, 0xc02, 0xc002, 0x7845, 0xc203, 0x7a05,
    0x2705, 0x3080, 0x781b, 0xb891, 0xb89c, 0xb89f, 0xc31, 0x91f1, 0xb020, 0x785b, 0x2005, 0xf80,
    0x9002, 0x1000, 0xb020, 0xf190, 0x1f58, 0x901c, 0x712c, 0x40c3, 0x0, 0xf00, 0x1f5e, 0x905c,
    0x4528, 0xd5a, 0xff2f, 0x1f57, 0x905c, 0xb42, 0xfe4f, 0x40c3, 0x9003, 0xfe64, 0x1e00, 0x7384,
    0x9003, 0xe004, 0x1e00, 0x7344, 0x900f, 0xe0c0, 0x1e00, 0x7384, 0x9003, 0xfec4, 0x1882, 0x39c,
    0xd80f, 0xa06, 0xfcef, 0xd90f, 0x41c3, 0x0, 0xffff, 0xd80f, 0x704c, 0x4320, 0xc2e, 0xfd6f,
    0xc640, 0xf009, 0x9ea, 0xfcef, 0xd90f, 0xafa, 0xfe4f, 0x71c5, 0x40a1, 0xe6f, 0x1233, 0x70ad,
    0x700c, 0xe2e, 0xfcaf, 0x712c, 0x1600, 0x7081, 0x8000, 0x728, 0xf003, 0x655d, 0x7124, 0x40c3,
    0x8000, 0x728, 0x8801, 0x8d1, 0x8062, 0xd80f, 0x211a, 0xf80, 0x0, 0x2000, 0x2005, 0xf80,
    0x9002, 0x166, 0x9040, 0xea6f, 0xc001, 0x2055, 0xd03, 0xc002, 0x7b05, 0x211a, 0xf80, 0x0,
    0x1000, 0x7865, 0x781b, 0x2005, 0xf83, 0x9002, 0x1e00, 0xb891]"

definition train_imem_600_118 :: "(u64 \<times> u64) list" where
  "train_imem_600_118 = words_at 0x53b00 [
    0xb89c, 0xb89f, 0x9000, 0x2055, 0x800, 0xb300, 0xf1d7, 0x41c3, 0x151, 0x0, 0xb1a, 0xfc6f,
    0x2078, 0x0, 0x1e00, 0x7344, 0x9003, 0xe004, 0x2480, 0x3603, 0x1404, 0x341b, 0xc6c6, 0x78e0,
    0xc0f1, 0x40c3, 0x8000, 0x594, 0x9da, 0xffef, 0xd98a, 0xd80f, 0x93e, 0xfcef, 0xd90f, 0xc0d1,
    0x7ee0, 0x78e0, 0xc2e6, 0x1cfc, 0xb6c8, 0xc1b0, 0x4318, 0x710c, 0x2344, 0x37c2, 0xea05, 0xba61,
    0xaff, 0x8031, 0x781b, 0x205a, 0x100, 0xc148, 0x702c, 0x200f, 0x6c0, 0xc045, 0x946, 0xfcef,
    0x4063, 0x1600, 0x708e, 0x8000, 0x4, 0xaba, 0xfd6f, 0x4708, 0x2054, 0x880, 0x208c, 0x8f83,
    0x70ad, 0xd8fe, 0xc044, 0xf607, 0xaa2, 0xfd4f, 0x2054, 0x880, 0xc044, 0x261a, 0x1f8e, 0x10,
    0x0, 0x710c, 0xc18b, 0xb56, 0xfdef, 0xc649, 0xf7e, 0xffcf, 0x700c, 0xb88f, 0x1e00, 0x7004,
    0x9003, 0xe002, 0xd940, 0x40c3, 0x9003, 0xe002, 0xbb2, 0xfcef, 0xb032, 0x1600, 0x7100, 0x9004,
    0x4a, 0xd998, 0x46cb, 0x9008, 0x0, 0x2011, 0x83c0, 0xd8aa, 0x703c, 0x47cb, 0x9005, 0xe04c,
    0x1f9c, 0x1014, 0x202f, 0x6c0, 0x2056, 0xe00, 0x78c5, 0x9000]"

definition train_imem_600_119 :: "(u64 \<times> u64) list" where
  "train_imem_600_119 = words_at 0x53b80 [
    0x712c, 0xc046, 0x16e9, 0x1700, 0xc047, 0xc22, 0xfcaf, 0x208a, 0x4, 0x1200, 0x3083, 0xd8ff,
    0x702c, 0x754c, 0xc543, 0xc542, 0xc541, 0xcfa, 0xfcaf, 0xc540, 0xc005, 0xc543, 0x724c, 0x780f,
    0xc042, 0xc045, 0xc004, 0xc541, 0xc540, 0x2044, 0x41, 0x6038, 0x780f, 0xc044, 0xc304, 0xd980,
    0xd8ff, 0xcd2, 0xfcaf, 0xb990, 0x700c, 0xc86, 0xfcaf, 0x712c, 0x4063, 0xa4e, 0xffaf, 0x714c,
    0x16f0, 0x1700, 0x46cb, 0x9009, 0xe1e0, 0xc04a, 0xb888, 0xb600, 0xc006, 0x209a, 0x4, 0xc046,
    0x2004, 0xf81, 0x0, 0xf00, 0xc007, 0x2004, 0xf80, 0x0, 0xf0ff, 0x7825, 0xc046, 0xb887,
    0x1ef2, 0x9004, 0x710c, 0x99a, 0xfd6f, 0xb700, 0xc047, 0x208a, 0x4, 0xb8a, 0xfcaf, 0x712c,
    0x1200, 0x3083, 0xd8ff, 0x702c, 0x754c, 0xc543, 0xc542, 0xc541, 0xc62, 0xfcaf, 0xc540, 0xeae,
    0xfcaf, 0xd8ff, 0xc005, 0xc543, 0xc304, 0xc042, 0x700c, 0xb88f, 0x791b, 0xd8ff, 0x724c, 0xc541,
    0xc42, 0xfcaf, 0xc540, 0xc007, 0x714c, 0xc543, 0xe01e, 0x2044, 0x41, 0x6038, 0x7b0f, 0xd8ff,
    0x742c, 0xc542, 0xc541, 0xc26, 0xfcaf, 0xc540, 0x702c, 0x710c]"

definition train_imem_600_120 :: "(u64 \<times> u64) list" where
  "train_imem_600_120 = words_at 0x53c00 [
    0xc043, 0xd8ff, 0xb98f, 0x754c, 0x746c, 0xc542, 0xc541, 0xc0e, 0xfcaf, 0xc540, 0xd8ff, 0x702c,
    0x754c, 0xdb10, 0xc543, 0xc542, 0xc541, 0xbfa, 0xfcaf, 0xc540, 0xe26, 0xfcaf, 0xd8ff, 0xd8ff,
    0xd980, 0x754c, 0x746c, 0xc543, 0xc542, 0xc541, 0xbde, 0xfcaf, 0xc540, 0x1600, 0x7080, 0x8000,
    0x1, 0x80d, 0xbe, 0x208a, 0x606, 0xd833, 0xb82, 0xfcaf, 0x712c, 0xc006, 0x704c, 0x1ef2,
    0x9004, 0x946, 0xffaf, 0x4063, 0x700c, 0x99a, 0xfdef, 0xc18b, 0x40c3, 0x9003, 0xe002, 0x1e00,
    0x7344, 0x9003, 0xe002, 0xb0b2, 0x208a, 0x4, 0xaa6, 0xfcaf, 0x712c, 0x1200, 0x3083, 0xd8ff,
    0x702c, 0x754c, 0xc543, 0xc542, 0xc541, 0xb82, 0xfcaf, 0xc540, 0xc005, 0xc304, 0x702c, 0xc543,
    0xc042, 0xd8ff, 0xb990, 0x724c, 0xc541, 0xb6a, 0xfcaf, 0xc540, 0xd8ff, 0xd980, 0x754c, 0x746c,
    0xc543, 0xc542, 0xc541, 0xb56, 0xfcaf, 0xc540, 0x700c, 0xb0a, 0xfcaf, 0x712c, 0xc00a, 0x702c,
    0x704c, 0xb600, 0xb7a0, 0x1e00, 0x7344, 0x9003, 0xe004, 0xc8a, 0xfeef, 0xc008, 0x4063, 0xece,
    0xfcaf, 0x702c, 0x2055, 0xd01, 0xc009, 0x714c, 0x706c, 0x7825]"

definition train_imem_600_121 :: "(u64 \<times> u64) list" where
  "train_imem_600_121 = words_at 0x53c80 [
    0xf76, 0xffaf, 0xc108, 0xf8e, 0xfe0f, 0xd56, 0xfecf, 0xc0b0, 0x1404, 0x341b, 0xc6c6, 0x0,
    0x0, 0x0, 0x0, 0x0, 0x0, 0x0, 0x0, 0x0, 0x0, 0x0, 0x0, 0x0,
    0x0, 0x0, 0x0, 0x0, 0x0, 0x0, 0x0, 0x0, 0x0, 0x0, 0x0, 0x0,
    0x0, 0x0, 0x0, 0x0, 0x0, 0x0, 0x0, 0x0, 0x0, 0x0, 0x0, 0x0,
    0x0, 0x0, 0x0, 0x0, 0x0, 0x0, 0x0, 0x0, 0x0, 0x0, 0x0, 0x0,
    0x0, 0x0, 0x0, 0x0, 0x0, 0x0, 0x0, 0x0, 0x0, 0x0, 0x0, 0x0,
    0x0, 0x0, 0x0, 0x0, 0x0, 0x0, 0x0, 0x0, 0x0, 0x0, 0x0, 0x0,
    0x0, 0x0, 0x0, 0x0, 0x0, 0x0, 0x0, 0x0, 0x0, 0x0, 0x0, 0x0,
    0x0, 0x0, 0x0, 0x0, 0x0, 0x0, 0x0, 0x0, 0x0, 0x0, 0x0, 0x0,
    0x0, 0x0, 0x0, 0x0, 0x0, 0x0, 0x0, 0x0, 0x0, 0x0, 0x0, 0x0,
    0x0, 0x0, 0x0, 0x0, 0x0, 0x0, 0x0, 0x0]"

definition train_imem_600_122 :: "(u64 \<times> u64) list" where
  "train_imem_600_122 = words_at 0x53d00 [
    0x0, 0x0, 0x0, 0x0, 0x0, 0x0, 0x0, 0x0, 0x0, 0x0, 0x0, 0x0,
    0x0, 0x0, 0x0, 0x0, 0x0, 0x0, 0x0, 0x0, 0x0, 0x0, 0x0, 0x0,
    0x0, 0x0, 0x0, 0x0, 0x0, 0x0, 0x0, 0x0, 0x0, 0x0, 0x0, 0x0,
    0x0, 0x0, 0x0, 0x0, 0x0, 0x0, 0x0, 0x0, 0x0, 0x0, 0x0, 0x0,
    0x0, 0x0, 0x0, 0x0, 0x0, 0x0, 0x0, 0x0, 0x0, 0x0, 0x0, 0x0,
    0x0, 0x0, 0x0, 0x0, 0x0, 0x0, 0x0, 0x0, 0x0, 0x0, 0x0, 0x0,
    0x0, 0x0, 0x0, 0x0, 0x0, 0x0, 0x0, 0x0, 0x0, 0x0, 0x0, 0x0,
    0x0, 0x0, 0x0, 0x0, 0x0, 0x0, 0x0, 0x0, 0x0, 0x0, 0x0, 0x0,
    0x0, 0x0, 0x0, 0x0, 0x0, 0x0, 0x0, 0x0, 0x0, 0x0, 0x0, 0x0,
    0x0, 0x0, 0x0, 0x0, 0x0, 0x0, 0x0, 0x0, 0x0, 0x0, 0x0, 0x0,
    0x0, 0x0, 0x0, 0x0, 0x0, 0x0, 0x0, 0x0]"

definition train_imem_600_123 :: "(u64 \<times> u64) list" where
  "train_imem_600_123 = words_at 0x53d80 [
    0x0, 0x0, 0x0, 0x0, 0x0, 0x0, 0x0, 0x0, 0x0, 0x0, 0x0, 0x0,
    0x0, 0x0, 0x0, 0x0, 0x0, 0x0, 0x0, 0x0, 0x0, 0x0, 0x0, 0x0,
    0x0, 0x0, 0x0, 0x0, 0x0, 0x0, 0x0, 0x0, 0x0, 0x0, 0x0, 0x0,
    0x0, 0x0, 0x0, 0x0, 0x0, 0x0, 0x0, 0x0, 0x0, 0x0, 0x0, 0x0,
    0x0, 0x0, 0x0, 0x0, 0x0, 0x0, 0x0, 0x0, 0x0, 0x0, 0x0, 0x0,
    0x0, 0x0, 0x0, 0x0, 0x0, 0x0, 0x0, 0x0, 0x0, 0x0, 0x0, 0x0,
    0x0, 0x0, 0x0, 0x0, 0x0, 0x0, 0x0, 0x0, 0x0, 0x0, 0x0, 0x0,
    0x0, 0x0, 0x0, 0x0, 0x0, 0x0, 0x0, 0x0, 0x0, 0x0, 0x0, 0x0,
    0x0, 0x0, 0x0, 0x0, 0x0, 0x0, 0x0, 0x0, 0x0, 0x0, 0x0, 0x0,
    0x0, 0x0, 0x0, 0x0, 0x0, 0x0, 0x0, 0x0, 0x0, 0x0, 0x0, 0x0,
    0x0, 0x0, 0x0, 0x0, 0x0, 0x0, 0x0, 0x0]"

definition train_imem_600_124 :: "(u64 \<times> u64) list" where
  "train_imem_600_124 = words_at 0x53e00 [
    0x0, 0x0, 0x0, 0x0, 0x0, 0x0, 0x0, 0x0, 0x0, 0x0, 0x0, 0x0,
    0x0, 0x0, 0x0, 0x0, 0x0, 0x0, 0x0, 0x0, 0x0, 0x0, 0x0, 0x0,
    0x0, 0x0, 0x0, 0x0, 0x0, 0x0, 0x0, 0x0, 0x0, 0x0, 0x0, 0x0,
    0x0, 0x0, 0x0, 0x0, 0x0, 0x0, 0x0, 0x0, 0x0, 0x0, 0x0, 0x0,
    0x0, 0x0, 0x0, 0x0, 0x0, 0x0, 0x0, 0x0, 0x0, 0x0, 0x0, 0x0,
    0x0, 0x0, 0x0, 0x0, 0x0, 0x0, 0x0, 0x0, 0x0, 0x0, 0x0, 0x0,
    0x0, 0x0, 0x0, 0x0, 0x0, 0x0, 0x0, 0x0, 0x0, 0x0, 0x0, 0x0,
    0x0, 0x0, 0x0, 0x0, 0x0, 0x0, 0x0, 0x0, 0x0, 0x0, 0x0, 0x0,
    0x0, 0x0, 0x0, 0x0, 0x0, 0x0, 0x0, 0x0, 0x0, 0x0, 0x0, 0x0,
    0x0, 0x0, 0x0, 0x0, 0x0, 0x0, 0x0, 0x0, 0x0, 0x0, 0x0, 0x0,
    0x0, 0x0, 0x0, 0x0, 0x0, 0x0, 0x0, 0x0]"

definition train_imem_600_125 :: "(u64 \<times> u64) list" where
  "train_imem_600_125 = words_at 0x53e80 [
    0x0, 0x0, 0x0, 0x0, 0x0, 0x0, 0x0, 0x0, 0x0, 0x0, 0x0, 0x0,
    0x0, 0x0, 0x0, 0x0, 0x0, 0x0, 0x0, 0x0, 0x0, 0x0, 0x0, 0x0,
    0x0, 0x0, 0x0, 0x0, 0x0, 0x0, 0x0, 0x0, 0x0, 0x0, 0x0, 0x0,
    0x0, 0x0, 0x0, 0x0, 0x0, 0x0, 0x0, 0x0, 0x0, 0x0, 0x0, 0x0,
    0x0, 0x0, 0x0, 0x0, 0x0, 0x0, 0x0, 0x0, 0x0, 0x0, 0x0, 0x0,
    0x0, 0x0, 0x0, 0x0, 0x0, 0x0, 0x0, 0x0, 0x0, 0x0, 0x0, 0x0,
    0x0, 0x0, 0x0, 0x0, 0x0, 0x0, 0x0, 0x0, 0x0, 0x0, 0x0, 0x0,
    0x0, 0x0, 0x0, 0x0, 0x0, 0x0, 0x0, 0x0, 0x0, 0x0, 0x0, 0x0,
    0x0, 0x0, 0x0, 0x0, 0x0, 0x0, 0x0, 0x0, 0x0, 0x0, 0x0, 0x0,
    0x0, 0x0, 0x0, 0x0, 0x0, 0x0, 0x0, 0x0, 0x0, 0x0, 0x0, 0x0,
    0x0, 0x0, 0x0, 0x0, 0x0, 0x0, 0x0, 0x0]"

definition train_imem_600_126 :: "(u64 \<times> u64) list" where
  "train_imem_600_126 = words_at 0x53f00 [
    0x0, 0x0, 0x0, 0x0, 0x0, 0x0, 0x0, 0x0, 0x0, 0x0, 0x0, 0x0,
    0x0, 0x0, 0x0, 0x0, 0x0, 0x0, 0x0, 0x0, 0x0, 0x0, 0x0, 0x0,
    0x0, 0x0, 0x0, 0x0, 0x0, 0x0, 0x0, 0x0, 0x0, 0x0, 0x0, 0x0,
    0x0, 0x0, 0x0, 0x0, 0x0, 0x0, 0x0, 0x0, 0x0, 0x0, 0x0, 0x0,
    0x0, 0x0, 0x0, 0x0, 0x0, 0x0, 0x0, 0x0, 0x0, 0x0, 0x0, 0x0,
    0x0, 0x0, 0x0, 0x0, 0x0, 0x0, 0x0, 0x0, 0x0, 0x0, 0x0, 0x0,
    0x0, 0x0, 0x0, 0x0, 0x0, 0x0, 0x0, 0x0, 0x0, 0x0, 0x0, 0x0,
    0x0, 0x0, 0x0, 0x0, 0x0, 0x0, 0x0, 0x0, 0x0, 0x0, 0x0, 0x0,
    0x0, 0x0, 0x0, 0x0, 0x0, 0x0, 0x0, 0x0, 0x0, 0x0, 0x0, 0x0,
    0x0, 0x0, 0x0, 0x0, 0x0, 0x0, 0x0, 0x0, 0x0, 0x0, 0x0, 0x0,
    0x0, 0x0, 0x0, 0x0, 0x0, 0x0, 0x0, 0x0]"

definition train_imem_600_127 :: "(u64 \<times> u64) list" where
  "train_imem_600_127 = words_at 0x53f80 [
    0x0, 0x0, 0x0, 0x0, 0x0, 0x0, 0x0, 0x0, 0x0, 0x0, 0x0, 0x0,
    0x0, 0x0, 0x0, 0x0, 0x0, 0x0, 0x0, 0x0, 0x0, 0x0, 0x0, 0x0,
    0x0, 0x0, 0x0, 0x0, 0x0, 0x0, 0x0, 0x0, 0x0, 0x0, 0x0, 0x0,
    0x0, 0x0, 0x0, 0x0, 0x0, 0x0, 0x0, 0x0, 0x0, 0x0, 0x0, 0x0,
    0x0, 0x0, 0x0, 0x0, 0x0, 0x0, 0x0, 0x0, 0x0, 0x0, 0x0, 0x0,
    0x0, 0x0, 0x0, 0x0, 0x0, 0x0, 0x0, 0x0, 0x0, 0x0, 0x0, 0x0,
    0x0, 0x0, 0x0, 0x0, 0x0, 0x0, 0x0, 0x0, 0x0, 0x0, 0x0, 0x0,
    0x0, 0x0, 0x0, 0x0, 0x0, 0x0, 0x0, 0x0, 0x0, 0x0, 0x0, 0x0,
    0x0, 0x0, 0x0, 0x0, 0x0, 0x0, 0x0, 0x0, 0x0, 0x0, 0x0, 0x0,
    0x0, 0x0, 0x0, 0x0, 0x0, 0x0, 0x0, 0x0, 0x0, 0x0, 0x0, 0x0,
    0x0, 0x0, 0x0, 0x0, 0x0, 0x0, 0x0, 0x0]"

definition train_imem_600 :: "(u64 \<times> u64) list" where
  "train_imem_600 = concat [train_imem_600_0, train_imem_600_1, train_imem_600_2, train_imem_600_3, train_imem_600_4, train_imem_600_5, train_imem_600_6, train_imem_600_7,
    train_imem_600_8, train_imem_600_9, train_imem_600_10, train_imem_600_11, train_imem_600_12, train_imem_600_13, train_imem_600_14, train_imem_600_15,
    train_imem_600_16, train_imem_600_17, train_imem_600_18, train_imem_600_19, train_imem_600_20, train_imem_600_21, train_imem_600_22, train_imem_600_23,
    train_imem_600_24, train_imem_600_25, train_imem_600_26, train_imem_600_27, train_imem_600_28, train_imem_600_29, train_imem_600_30, train_imem_600_31,
    train_imem_600_32, train_imem_600_33, train_imem_600_34, train_imem_600_35, train_imem_600_36, train_imem_600_37, train_imem_600_38, train_imem_600_39,
    train_imem_600_40, train_imem_600_41, train_imem_600_42, train_imem_600_43, train_imem_600_44, train_imem_600_45, train_imem_600_46, train_imem_600_47,
    train_imem_600_48, train_imem_600_49, train_imem_600_50, train_imem_600_51, train_imem_600_52, train_imem_600_53, train_imem_600_54, train_imem_600_55,
    train_imem_600_56, train_imem_600_57, train_imem_600_58, train_imem_600_59, train_imem_600_60, train_imem_600_61, train_imem_600_62, train_imem_600_63,
    train_imem_600_64, train_imem_600_65, train_imem_600_66, train_imem_600_67, train_imem_600_68, train_imem_600_69, train_imem_600_70, train_imem_600_71,
    train_imem_600_72, train_imem_600_73, train_imem_600_74, train_imem_600_75, train_imem_600_76, train_imem_600_77, train_imem_600_78, train_imem_600_79,
    train_imem_600_80, train_imem_600_81, train_imem_600_82, train_imem_600_83, train_imem_600_84, train_imem_600_85, train_imem_600_86, train_imem_600_87,
    train_imem_600_88, train_imem_600_89, train_imem_600_90, train_imem_600_91, train_imem_600_92, train_imem_600_93, train_imem_600_94, train_imem_600_95,
    train_imem_600_96, train_imem_600_97, train_imem_600_98, train_imem_600_99, train_imem_600_100, train_imem_600_101, train_imem_600_102, train_imem_600_103,
    train_imem_600_104, train_imem_600_105, train_imem_600_106, train_imem_600_107, train_imem_600_108, train_imem_600_109, train_imem_600_110, train_imem_600_111,
    train_imem_600_112, train_imem_600_113, train_imem_600_114, train_imem_600_115, train_imem_600_116, train_imem_600_117, train_imem_600_118, train_imem_600_119,
    train_imem_600_120, train_imem_600_121, train_imem_600_122, train_imem_600_123, train_imem_600_124, train_imem_600_125, train_imem_600_126, train_imem_600_127]"

definition train_switch_600 :: "(u64 \<times> u64) list" where
  "train_switch_600 = [
    (0xd0000,0x1), (0xd0000,0x0)]"

definition train_dmem_600_0 :: "(u64 \<times> u64) list" where
  "train_dmem_600_0 = words_at 0x54000 [
    0x600, 0x0, 0x0, 0x960, 0x2, 0x3c50, 0x14, 0x0, 0x131f, 0xc8, 0x0, 0x2,
    0x0, 0x100, 0x0, 0x0, 0x0, 0x0, 0x310, 0x0, 0x0, 0x0, 0x0, 0x0,
    0x0, 0x2444, 0x26, 0x4d64, 0x4f28, 0x0, 0x18, 0x2444, 0x26, 0x4d64, 0x4f28, 0x0,
    0x18, 0x0, 0x0, 0x0, 0x0, 0x0, 0x0, 0x0, 0x0, 0x0, 0x0, 0x0,
    0x0, 0x0, 0x4400, 0x2624, 0x6400, 0x284d, 0x4f, 0x1800, 0x4400, 0x2624, 0x6400, 0x284d,
    0x4f, 0x1800, 0x0, 0x0, 0x0, 0x0, 0x0, 0x0, 0x0, 0x0, 0x0, 0x0,
    0x0, 0x0, 0x0, 0x0, 0x0, 0x0, 0x0, 0x0, 0x0, 0x0, 0x0, 0x0,
    0x0, 0x0, 0x0, 0x0, 0x0, 0x0, 0x0, 0x0, 0x0, 0x0, 0x0, 0x0,
    0x0, 0x0, 0x0, 0x0, 0x0, 0x0, 0x0, 0x0, 0x0, 0x0, 0x0, 0x0,
    0x0, 0x0, 0x0, 0x0, 0x0, 0x0, 0x0, 0x0, 0x0, 0x0, 0x0, 0x0,
    0x0, 0x0, 0x0, 0x0, 0x0, 0x0, 0x0, 0x0]"

definition train_dmem_600_1 :: "(u64 \<times> u64) list" where
  "train_dmem_600_1 = words_at 0x54080 [
    0x0, 0x0, 0x0, 0x0, 0x0, 0x0, 0x0, 0x0, 0x0, 0x0, 0x0, 0x0,
    0x0, 0x0, 0x0, 0x0, 0x0, 0x0, 0x0, 0x0, 0x0, 0x0, 0x0, 0x0,
    0x0, 0x0, 0x0, 0x0, 0x0, 0x0, 0x0, 0x0, 0x0, 0x0, 0x0, 0x0,
    0x0, 0x0, 0x0, 0x0, 0x0, 0x0, 0x0, 0x0, 0x0, 0x0, 0x0, 0x0,
    0x0, 0x0, 0x0, 0x0, 0x0, 0x0, 0x0, 0x0, 0x0, 0x0, 0x0, 0x0,
    0x0, 0x0, 0x0, 0x0, 0x0, 0x0, 0x0, 0x0, 0x0, 0x0, 0x0, 0x0,
    0x0, 0x0, 0x0, 0x0, 0x0, 0x0, 0x0, 0x0, 0x0, 0x0, 0x0, 0x0,
    0x0, 0x0, 0x0, 0x0, 0x0, 0x0, 0x0, 0x0, 0x0, 0x0, 0x0, 0x0,
    0x0, 0x0, 0x0, 0x0, 0x0, 0x0, 0x0, 0x0, 0x0, 0x0, 0x0, 0x0,
    0x0, 0x0, 0x0, 0x0, 0x0, 0x0, 0x0, 0x0, 0x0, 0x0, 0x0, 0x0,
    0x0, 0x0, 0x0, 0x0, 0x0, 0x0, 0x0, 0x0]"

definition train_dmem_600_2 :: "(u64 \<times> u64) list" where
  "train_dmem_600_2 = words_at 0x54100 [
    0x0, 0x0, 0x0, 0x0, 0x0, 0x0, 0x0, 0x0, 0x0, 0x0, 0x0, 0x0,
    0x0, 0x0, 0x0, 0x0, 0x0, 0x0, 0x0, 0x0, 0x0, 0x0, 0x0, 0x0,
    0x0, 0x0, 0x0, 0x0, 0x0, 0x0, 0x0, 0x0, 0x0, 0x0, 0x0, 0x0,
    0x0, 0x0, 0x0, 0x0, 0x0, 0x0, 0x0, 0x0, 0x0, 0x0, 0x0, 0x0,
    0x0, 0x0, 0x0, 0x0, 0x0, 0x0, 0x0, 0x0, 0x0, 0x0, 0x0, 0x0,
    0x0, 0x0, 0x0, 0x0, 0x0, 0x0, 0x0, 0x0, 0x0, 0x0, 0x0, 0x0,
    0x0, 0x0, 0x0, 0x0, 0x0, 0x0, 0x0, 0x0, 0x0, 0x0, 0x0, 0x0,
    0x0, 0x0, 0x0, 0x0, 0x0, 0x0, 0x0, 0x0, 0x0, 0x0, 0x0, 0x0,
    0x0, 0x0, 0x0, 0x0, 0x0, 0x0, 0x0, 0x0, 0x0, 0x0, 0x0, 0x0,
    0x0, 0x0, 0x0, 0x0, 0x0, 0x0, 0x0, 0x0, 0x0, 0x0, 0x0, 0x0,
    0x0, 0x0, 0x0, 0x0, 0x0, 0x0, 0x0, 0x0]"

definition train_dmem_600_3 :: "(u64 \<times> u64) list" where
  "train_dmem_600_3 = words_at 0x54180 [
    0x0, 0x0, 0x0, 0x0, 0x0, 0x0, 0x0, 0x0, 0x0, 0x0, 0x0, 0x0,
    0x0, 0x0, 0x0, 0x0, 0x0, 0x0, 0x0, 0x0, 0x0, 0x0, 0x0, 0x0,
    0x0, 0x0, 0x0, 0x0, 0x0, 0x0, 0x0, 0x0, 0x0, 0x0, 0x0, 0x0,
    0x0, 0x0, 0x0, 0x0, 0x0, 0x0, 0x0, 0x0, 0x0, 0x0, 0x0, 0x0,
    0x0, 0x0, 0x0, 0x0, 0x0, 0x0, 0x0, 0x0, 0x0, 0x0, 0x0, 0x0,
    0x0, 0x0, 0x0, 0x0, 0x0, 0x0, 0x0, 0x0, 0x0, 0x0, 0x0, 0x0,
    0x0, 0x0, 0x0, 0x0, 0x0, 0x0, 0x0, 0x0, 0x0, 0x0, 0x0, 0x0,
    0x0, 0x0, 0x0, 0x0, 0x0, 0x0, 0x0, 0x0, 0x0, 0x0, 0x0, 0x0,
    0x0, 0x0, 0x0, 0x0, 0x0, 0x0, 0x0, 0x0, 0x0, 0x0, 0x0, 0x0,
    0x0, 0x0, 0x0, 0x0, 0x0, 0x0, 0x0, 0x0, 0x0, 0x0, 0x0, 0x0,
    0x0, 0x0, 0x0, 0x0, 0x0, 0x0, 0x0, 0x0]"

definition train_dmem_600_4 :: "(u64 \<times> u64) list" where
  "train_dmem_600_4 = words_at 0x54200 [
    0x0, 0x0, 0x0, 0x0, 0x0, 0x0, 0x14a, 0x181, 0x118, 0x118, 0x16f, 0x16f,
    0x159, 0x181, 0x120, 0x120, 0x701c, 0x61a8, 0x35ac, 0x35ac, 0x125c, 0x125c, 0xc738, 0xb0f4,
    0x6590, 0x6590, 0x0, 0x0, 0xdabe, 0x29, 0x0, 0x0, 0x2820, 0x140f, 0x2, 0x0,
    0xf01f, 0x1, 0x0, 0xffb4, 0x1, 0x1, 0xf0b4, 0x1, 0x0, 0xf4b4, 0x1, 0x0,
    0xf0b9, 0x1, 0x0, 0xf0ba, 0x1, 0x0, 0xf0bb, 0x1, 0x0, 0xf001, 0x1, 0x0,
    0xf011, 0x1, 0x1, 0xf012, 0x1, 0xf000, 0xf018, 0x1, 0x1, 0xf013, 0x1, 0x0,
    0xf0f9, 0x4, 0x200, 0xf0fa, 0x4, 0x0, 0xf0fb, 0x4, 0x400, 0xff62, 0x1, 0x0,
    0xf062, 0x1, 0xf, 0xf462, 0x1, 0xf0, 0xf002, 0x1, 0x204, 0x0, 0xf01f, 0x1,
    0x0, 0xffb4, 0x1, 0x1, 0xf0b4, 0x1, 0x0, 0xf4b4, 0x1, 0x0, 0xf0b9, 0x1,
    0x0, 0xf0ba, 0x1, 0x0, 0xf0bb, 0x1, 0x0, 0xf001, 0x1, 0x0, 0xf013, 0x1,
    0x0, 0xf0f9, 0x4, 0x200, 0xf0fa, 0x4, 0x0, 0xf0fb]"

definition train_dmem_600_5 :: "(u64 \<times> u64) list" where
  "train_dmem_600_5 = words_at 0x54280 [
    0x4, 0x400, 0xf060, 0x7, 0x8, 0xf065, 0x7, 0x0, 0xff62, 0x1, 0x0, 0xf002,
    0x1, 0x220, 0xf01f, 0x1, 0x0, 0xf03b, 0x2, 0x1, 0xffb2, 0x1, 0x0, 0xf0b2,
    0x1, 0x1, 0xffb4, 0x1, 0x1, 0xf0b4, 0x1, 0x0, 0xf0b9, 0x1, 0x0, 0xf0ba,
    0x1, 0x0, 0xf0bb, 0x1, 0x0, 0xf001, 0x1, 0x0, 0xf060, 0x7, 0x1, 0xf065,
    0x7, 0x1ff, 0xff26, 0x7, 0x0, 0xff27, 0x7, 0x0, 0xf013, 0x1, 0x2, 0xff32,
    0x1, 0x800, 0xff62, 0x1, 0x0, 0xf062, 0x1, 0x1, 0xf462, 0x1, 0x1, 0xf002,
    0x1, 0x208, 0xf01f, 0x1, 0x0, 0xffb2, 0x1, 0x0, 0xf0b2, 0x1, 0x1, 0xf4b2,
    0x1, 0x1, 0xffb4, 0x1, 0x1, 0xf0b4, 0x1, 0x0, 0xf4b4, 0x1, 0x0, 0xf0b9,
    0x1, 0x0, 0xf0ba, 0x1, 0x0, 0xf0bb, 0x1, 0x0, 0xf011, 0x1, 0x101, 0xf012,
    0x1, 0x1, 0xf013, 0x1, 0x2, 0xf018, 0x1, 0x1, 0xf060, 0x7, 0x1, 0xf065,
    0x7, 0x1ff, 0xff26, 0x7, 0xffff, 0xff27, 0x7, 0xffff]"

definition train_dmem_600_6 :: "(u64 \<times> u64) list" where
  "train_dmem_600_6 = words_at 0x54300 [
    0xff62, 0x1, 0x0, 0xf062, 0x1, 0x1, 0xf462, 0x1, 0x10, 0xff32, 0x1, 0x800,
    0xf002, 0x1, 0x210, 0x0, 0x20d, 0x301, 0xc0b, 0x160e, 0x1004, 0x1811, 0x6e, 0x2,
    0x1, 0xfd, 0x4, 0xf, 0x60, 0x7, 0x0, 0xe8, 0x4, 0xff, 0xfc, 0x4,
    0x404, 0x3a, 0x2, 0x2, 0x11, 0x7, 0x0, 0x0]"

definition train_dmem_600 :: "(u64 \<times> u64) list" where
  "train_dmem_600 = concat [train_dmem_600_0, train_dmem_600_1, train_dmem_600_2, train_dmem_600_3, train_dmem_600_4, train_dmem_600_5, train_dmem_600_6]"

definition train_after_600_0 :: "(u64 \<times> u64) list" where
  "train_after_600_0 = [
    (0xd0099,0x1), (0xd0000,0x0), (0xd0000,0x1), (0xd0000,0x0), (0x90000,0x10), (0x90001,0x400),
    (0x90002,0x10e), (0x90003,0x0), (0x90004,0x0), (0x90005,0x8), (0x90029,0xb), (0x9002a,0x480),
    (0x9002b,0x109), (0x9002c,0x8), (0x9002d,0x448), (0x9002e,0x139), (0x9002f,0x8), (0x90030,0x478),
    (0x90031,0x109), (0x90032,0x0), (0x90033,0xe8), (0x90034,0x109), (0x90035,0x2), (0x90036,0x10),
    (0x90037,0x139), (0x90038,0xf), (0x90039,0x7c0), (0x9003a,0x139), (0x9003b,0x44), (0x9003c,0x630),
    (0x9003d,0x159), (0x9003e,0x14f), (0x9003f,0x630), (0x90040,0x159), (0x90041,0x47), (0x90042,0x630),
    (0x90043,0x149), (0x90044,0x4f), (0x90045,0x630), (0x90046,0x179), (0x90047,0x8), (0x90048,0xe0),
    (0x90049,0x109), (0x9004a,0x0), (0x9004b,0x7c8), (0x9004c,0x109), (0x9004d,0x0), (0x9004e,0x1),
    (0x9004f,0x8), (0x90050,0x0), (0x90051,0x45a), (0x90052,0x9), (0x90053,0x0), (0x90054,0x448),
    (0x90055,0x109), (0x90056,0x40), (0x90057,0x630), (0x90058,0x179), (0x90059,0x1), (0x9005a,0x618),
    (0x9005b,0x109), (0x9005c,0x40c0), (0x9005d,0x630), (0x9005e,0x149), (0x9005f,0x8), (0x90060,0x4),
    (0x90061,0x48), (0x90062,0x4040), (0x90063,0x630), (0x90064,0x149), (0x90065,0x0), (0x90066,0x4),
    (0x90067,0x48), (0x90068,0x40), (0x90069,0x630), (0x9006a,0x149), (0x9006b,0x10), (0x9006c,0x4),
    (0x9006d,0x18), (0x9006e,0x0), (0x9006f,0x4), (0x90070,0x78), (0x90071,0x549), (0x90072,0x630),
    (0x90073,0x159), (0x90074,0xd49), (0x90075,0x630), (0x90076,0x159), (0x90077,0x94a), (0x90078,0x630),
    (0x90079,0x159), (0x9007a,0x441), (0x9007b,0x630), (0x9007c,0x149), (0x9007d,0x42), (0x9007e,0x630),
    (0x9007f,0x149), (0x90080,0x1), (0x90081,0x630), (0x90082,0x149), (0x90083,0x0), (0x90084,0xe0),
    (0x90085,0x109), (0x90086,0xa), (0x90087,0x10), (0x90088,0x109), (0x90089,0x9), (0x9008a,0x3c0),
    (0x9008b,0x149), (0x9008c,0x9), (0x9008d,0x3c0), (0x9008e,0x159), (0x9008f,0x18), (0x90090,0x10),
    (0x90091,0x109), (0x90092,0x0), (0x90093,0x3c0), (0x90094,0x109), (0x90095,0x18), (0x90096,0x4),
    (0x90097,0x48), (0x90098,0x18), (0x90099,0x4), (0x9009a,0x58), (0x9009b,0xa), (0x9009c,0x10),
    (0x9009d,0x109), (0x9009e,0x2)]"

definition train_after_600_1 :: "(u64 \<times> u64) list" where
  "train_after_600_1 = [
    (0x9009f,0x10), (0x900a0,0x109), (0x900a1,0x5), (0x900a2,0x7c0), (0x900a3,0x109), (0x900a4,0x10),
    (0x900a5,0x10), (0x900a6,0x109), (0x40000,0x811), (0x40020,0x880), (0x40040,0x0), (0x40060,0x0),
    (0x40001,0x4016), (0x40021,0x83), (0x40041,0x4f), (0x40061,0x0), (0x40002,0x4040), (0x40022,0x83),
    (0x40042,0x51), (0x40062,0x0), (0x40003,0x811), (0x40023,0x880), (0x40043,0x0), (0x40063,0x0),
    (0x40004,0x720), (0x40024,0xf), (0x40044,0x1740), (0x40064,0x0), (0x40005,0x16), (0x40025,0x83),
    (0x40045,0x4b), (0x40065,0x0), (0x40006,0x716), (0x40026,0xf), (0x40046,0x2001), (0x40066,0x0),
    (0x40007,0x716), (0x40027,0xf), (0x40047,0x2800), (0x40067,0x0), (0x40008,0x716), (0x40028,0xf),
    (0x40048,0xf00), (0x40068,0x0), (0x40009,0x720), (0x40029,0xf), (0x40049,0x1400), (0x40069,0x0),
    (0x4000a,0xe08), (0x4002a,0xc15), (0x4004a,0x0), (0x4006a,0x0), (0x4000b,0x623), (0x4002b,0x15),
    (0x4004b,0x0), (0x4006b,0x0), (0x4000c,0x4004), (0x4002c,0x80), (0x4004c,0x0), (0x4006c,0x0),
    (0x4000d,0xe08), (0x4002d,0xc1a), (0x4004d,0x0), (0x4006d,0x0), (0x4000e,0x623), (0x4002e,0x1a),
    (0x4004e,0x0), (0x4006e,0x0), (0x4000f,0x4040), (0x4002f,0x80), (0x4004f,0x0), (0x4006f,0x0),
    (0x40010,0x2604), (0x40030,0x15), (0x40050,0x0), (0x40070,0x0), (0x40011,0x708), (0x40031,0x5),
    (0x40051,0x0), (0x40071,0x2002), (0x40012,0x8), (0x40032,0x80), (0x40052,0x0), (0x40072,0x0),
    (0x40013,0x2604), (0x40033,0x1a), (0x40053,0x0), (0x40073,0x0), (0x40014,0x708), (0x40034,0xa),
    (0x40054,0x0), (0x40074,0x2002), (0x40015,0x4040), (0x40035,0x80), (0x40055,0x0), (0x40075,0x0),
    (0x40016,0x60a), (0x40036,0x15), (0x40056,0x1200), (0x40076,0x0), (0x40017,0x61a), (0x40037,0x15),
    (0x40057,0x1300), (0x40077,0x0), (0x40018,0x60a), (0x40038,0x1a), (0x40058,0x1200), (0x40078,0x0),
    (0x40019,0x642), (0x40039,0x1a), (0x40059,0x1300), (0x40079,0x0), (0x4001a,0x4808), (0x4003a,0x880),
    (0x4005a,0x0), (0x4007a,0x0), (0x900a7,0x0), (0x900a8,0x790), (0x900a9,0x11a), (0x900aa,0x8),
    (0x900ab,0x7aa), (0x900ac,0x2a), (0x900ad,0x10), (0x900ae,0x7b2), (0x900af,0x2a), (0x900b0,0x0),
    (0x900b1,0x7c8), (0x900b2,0x109)]"

definition train_after_600_2 :: "(u64 \<times> u64) list" where
  "train_after_600_2 = [
    (0x900b3,0x10), (0x900b4,0x2a8), (0x900b5,0x129), (0x900b6,0x8), (0x900b7,0x370), (0x900b8,0x129),
    (0x900b9,0xa), (0x900ba,0x3c8), (0x900bb,0x1a9), (0x900bc,0xc), (0x900bd,0x408), (0x900be,0x199),
    (0x900bf,0x14), (0x900c0,0x790), (0x900c1,0x11a), (0x900c2,0x8), (0x900c3,0x4), (0x900c4,0x18),
    (0x900c5,0xc), (0x900c6,0x408), (0x900c7,0x199), (0x900c8,0x8), (0x900c9,0x8568), (0x900ca,0x108),
    (0x900cb,0x18), (0x900cc,0x790), (0x900cd,0x16a), (0x900ce,0x8), (0x900cf,0x1d8), (0x900d0,0x169),
    (0x900d1,0x10), (0x900d2,0x8558), (0x900d3,0x168), (0x900d4,0x70), (0x900d5,0x788), (0x900d6,0x16a),
    (0x900d7,0x1ff8), (0x900d8,0x85a8), (0x900d9,0x1e8), (0x900da,0x50), (0x900db,0x798), (0x900dc,0x16a),
    (0x900dd,0x60), (0x900de,0x7a0), (0x900df,0x16a), (0x900e0,0x8), (0x900e1,0x8310), (0x900e2,0x168),
    (0x900e3,0x8), (0x900e4,0xa310), (0x900e5,0x168), (0x900e6,0xa), (0x900e7,0x408), (0x900e8,0x169),
    (0x900e9,0x6e), (0x900ea,0x0), (0x900eb,0x68), (0x900ec,0x0), (0x900ed,0x408), (0x900ee,0x169),
    (0x900ef,0x0), (0x900f0,0x8310), (0x900f1,0x168), (0x900f2,0x0), (0x900f3,0xa310), (0x900f4,0x168),
    (0x900f5,0x1ff8), (0x900f6,0x85a8), (0x900f7,0x1e8), (0x900f8,0x68), (0x900f9,0x798), (0x900fa,0x16a),
    (0x900fb,0x78), (0x900fc,0x7a0), (0x900fd,0x16a), (0x900fe,0x68), (0x900ff,0x790), (0x90100,0x16a),
    (0x90101,0x8), (0x90102,0x8b10), (0x90103,0x168), (0x90104,0x8), (0x90105,0xab10), (0x90106,0x168),
    (0x90107,0xa), (0x90108,0x408), (0x90109,0x169), (0x9010a,0x58), (0x9010b,0x0), (0x9010c,0x68),
    (0x9010d,0x0), (0x9010e,0x408), (0x9010f,0x169), (0x90110,0x0), (0x90111,0x8b10), (0x90112,0x168),
    (0x90113,0x0), (0x90114,0xab10), (0x90115,0x168), (0x90116,0x0), (0x90117,0x1d8), (0x90118,0x169),
    (0x90119,0x80), (0x9011a,0x790), (0x9011b,0x16a), (0x9011c,0x18), (0x9011d,0x7aa), (0x9011e,0x6a),
    (0x9011f,0xa), (0x90120,0x0), (0x90121,0x1e9), (0x90122,0x8), (0x90123,0x8080), (0x90124,0x108),
    (0x90125,0xf), (0x90126,0x408), (0x90127,0x169), (0x90128,0xc), (0x90129,0x0), (0x9012a,0x68),
    (0x9012b,0x9), (0x9012c,0x0), (0x9012d,0x1a9), (0x9012e,0x0), (0x9012f,0x408), (0x90130,0x169),
    (0x90131,0x0), (0x90132,0x8080)]"

definition train_after_600_3 :: "(u64 \<times> u64) list" where
  "train_after_600_3 = [
    (0x90133,0x108), (0x90134,0x8), (0x90135,0x7aa), (0x90136,0x6a), (0x90137,0x0), (0x90138,0x8568),
    (0x90139,0x108), (0x9013a,0xb7), (0x9013b,0x790), (0x9013c,0x16a), (0x9013d,0x1d), (0x9013e,0x0),
    (0x9013f,0x68), (0x90140,0x8), (0x90141,0x8558), (0x90142,0x168), (0x90143,0xf), (0x90144,0x408),
    (0x90145,0x169), (0x90146,0xc), (0x90147,0x0), (0x90148,0x68), (0x90149,0x0), (0x9014a,0x408),
    (0x9014b,0x169), (0x9014c,0x0), (0x9014d,0x8558), (0x9014e,0x168), (0x9014f,0x8), (0x90150,0x3c8),
    (0x90151,0x1a9), (0x90152,0x3), (0x90153,0x370), (0x90154,0x129), (0x90155,0x20), (0x90156,0x2aa),
    (0x90157,0x9), (0x90158,0x0), (0x90159,0x400), (0x9015a,0x10e), (0x9015b,0x8), (0x9015c,0xe8),
    (0x9015d,0x109), (0x9015e,0x0), (0x9015f,0x8140), (0x90160,0x10c), (0x90161,0x10), (0x90162,0x8138),
    (0x90163,0x10c), (0x90164,0x8), (0x90165,0x7c8), (0x90166,0x101), (0x90167,0x8), (0x90168,0x0),
    (0x90169,0x8), (0x9016a,0x8), (0x9016b,0x448), (0x9016c,0x109), (0x9016d,0xf), (0x9016e,0x7c0),
    (0x9016f,0x109), (0x90170,0x0), (0x90171,0xe8), (0x90172,0x109), (0x90173,0x47), (0x90174,0x630),
    (0x90175,0x109), (0x90176,0x8), (0x90177,0x618), (0x90178,0x109), (0x90179,0x8), (0x9017a,0xe0),
    (0x9017b,0x109), (0x9017c,0x0), (0x9017d,0x7c8), (0x9017e,0x109), (0x9017f,0x8), (0x90180,0x8140),
    (0x90181,0x10c), (0x90182,0x0), (0x90183,0x1), (0x90184,0x8), (0x90185,0x8), (0x90186,0x4),
    (0x90187,0x8), (0x90188,0x8), (0x90189,0x7c8), (0x9018a,0x101), (0x90006,0x0), (0x90007,0x0),
    (0x90008,0x8), (0x90009,0x0), (0x9000a,0x0), (0x9000b,0x0), (0xd00e7,0x400), (0x90017,0x0),
    (0x9001f,0x2a), (0x90026,0x6a), (0x400d0,0x0), (0x400d1,0x101), (0x400d2,0x105), (0x400d3,0x107),
    (0x400d4,0x10f), (0x400d5,0x202), (0x400d6,0x20a), (0x400d7,0x20b), (0x2003a,0x2), (0x9000c,0x0),
    (0x9000d,0x173), (0x9000e,0x60), (0x9000f,0x6110), (0x90010,0x2152), (0x90011,0xdfbd), (0x90012,0x60),
    (0x90013,0x6152), (0x20010,0x5a), (0x20011,0x3), (0x40080,0xe0), (0x40081,0x12), (0x40082,0xe0),
    (0x40083,0x12), (0x40084,0xe0), (0x40085,0x12), (0x400fd,0xf), (0x10011,0x1), (0x10012,0x1),
    (0x10013,0x180), (0x10018,0x1)]"

definition train_after_600_4 :: "(u64 \<times> u64) list" where
  "train_after_600_4 = [
    (0x10002,0x6209), (0x100b2,0x1), (0x101b4,0x1), (0x102b4,0x1), (0x103b4,0x1), (0x104b4,0x1),
    (0x105b4,0x1), (0x106b4,0x1), (0x107b4,0x1), (0x108b4,0x1), (0x11011,0x1), (0x11012,0x1),
    (0x11013,0x180), (0x11018,0x1), (0x11002,0x6209), (0x110b2,0x1), (0x111b4,0x1), (0x112b4,0x1),
    (0x113b4,0x1), (0x114b4,0x1), (0x115b4,0x1), (0x116b4,0x1), (0x117b4,0x1), (0x118b4,0x1),
    (0x2003a,0x2), (0xc0080,0x2), (0xd0000,0x1)]"

definition train_after_600 :: "(u64 \<times> u64) list" where
  "train_after_600 = concat [train_after_600_0, train_after_600_1, train_after_600_2, train_after_600_3, train_after_600_4]"

subsection \<open>\<open>train_1d_400.cc\<close>\<close>

definition train_setup_400 :: "(u64 \<times> u64) list" where
  "train_setup_400 = [
    (0x1005f,0x1ff), (0x1015f,0x1ff), (0x1105f,0x1ff), (0x1115f,0x1ff), (0x55,0x1ff), (0x1055,0x1ff),
    (0x2055,0x1ff), (0x200c5,0xb), (0x2002e,0x1), (0x90204,0x0), (0x20024,0x1ab), (0x2003a,0x0),
    (0x20056,0xa), (0x1004d,0x280), (0x1014d,0x280), (0x1104d,0x280), (0x1114d,0x280), (0x10049,0x618),
    (0x10149,0x618), (0x11049,0x618), (0x11149,0x618), (0x43,0x3ff), (0x1043,0x3ff), (0x2043,0x3ff),
    (0x20018,0x1), (0x20075,0x4), (0x20050,0x0), (0x20008,0x190), (0x20088,0x9), (0x200b2,0x19c),
    (0x10043,0x5a1), (0x10143,0x5a1), (0x11043,0x5a1), (0x11143,0x5a1), (0x200fa,0x1), (0x20019,0x1),
    (0x200f0,0x0), (0x200f1,0x0), (0x200f2,0x4444), (0x200f3,0x8888), (0x200f4,0x5555), (0x200f5,0x0),
    (0x200f6,0x0), (0x200f7,0xf000), (0x2000b,0x33), (0x2000c,0x65), (0x2000d,0x3e9), (0x2000e,0x2c),
    (0x20025,0x0), (0x2002d,0x0), (0x20060,0x2), (0xd0000,0x0)]"

definition train_imem_400_0 :: "(u64 \<times> u64) list" where
  "train_imem_400_0 = train_imem_600_0"

definition train_imem_400_1 :: "(u64 \<times> u64) list" where
  "train_imem_400_1 = train_imem_600_1"

definition train_imem_400_2 :: "(u64 \<times> u64) list" where
  "train_imem_400_2 = train_imem_600_2"

definition train_imem_400_3 :: "(u64 \<times> u64) list" where
  "train_imem_400_3 = train_imem_600_3"

definition train_imem_400_4 :: "(u64 \<times> u64) list" where
  "train_imem_400_4 = train_imem_600_4"

definition train_imem_400_5 :: "(u64 \<times> u64) list" where
  "train_imem_400_5 = train_imem_600_5"

definition train_imem_400_6 :: "(u64 \<times> u64) list" where
  "train_imem_400_6 = train_imem_600_6"

definition train_imem_400_7 :: "(u64 \<times> u64) list" where
  "train_imem_400_7 = train_imem_600_7"

definition train_imem_400_8 :: "(u64 \<times> u64) list" where
  "train_imem_400_8 = train_imem_600_8"

definition train_imem_400_9 :: "(u64 \<times> u64) list" where
  "train_imem_400_9 = train_imem_600_9"

definition train_imem_400_10 :: "(u64 \<times> u64) list" where
  "train_imem_400_10 = train_imem_600_10"

definition train_imem_400_11 :: "(u64 \<times> u64) list" where
  "train_imem_400_11 = train_imem_600_11"

definition train_imem_400_12 :: "(u64 \<times> u64) list" where
  "train_imem_400_12 = train_imem_600_12"

definition train_imem_400_13 :: "(u64 \<times> u64) list" where
  "train_imem_400_13 = train_imem_600_13"

definition train_imem_400_14 :: "(u64 \<times> u64) list" where
  "train_imem_400_14 = train_imem_600_14"

definition train_imem_400_15 :: "(u64 \<times> u64) list" where
  "train_imem_400_15 = train_imem_600_15"

definition train_imem_400_16 :: "(u64 \<times> u64) list" where
  "train_imem_400_16 = train_imem_600_16"

definition train_imem_400_17 :: "(u64 \<times> u64) list" where
  "train_imem_400_17 = train_imem_600_17"

definition train_imem_400_18 :: "(u64 \<times> u64) list" where
  "train_imem_400_18 = train_imem_600_18"

definition train_imem_400_19 :: "(u64 \<times> u64) list" where
  "train_imem_400_19 = train_imem_600_19"

definition train_imem_400_20 :: "(u64 \<times> u64) list" where
  "train_imem_400_20 = train_imem_600_20"

definition train_imem_400_21 :: "(u64 \<times> u64) list" where
  "train_imem_400_21 = train_imem_600_21"

definition train_imem_400_22 :: "(u64 \<times> u64) list" where
  "train_imem_400_22 = train_imem_600_22"

definition train_imem_400_23 :: "(u64 \<times> u64) list" where
  "train_imem_400_23 = train_imem_600_23"

definition train_imem_400_24 :: "(u64 \<times> u64) list" where
  "train_imem_400_24 = train_imem_600_24"

definition train_imem_400_25 :: "(u64 \<times> u64) list" where
  "train_imem_400_25 = train_imem_600_25"

definition train_imem_400_26 :: "(u64 \<times> u64) list" where
  "train_imem_400_26 = train_imem_600_26"

definition train_imem_400_27 :: "(u64 \<times> u64) list" where
  "train_imem_400_27 = train_imem_600_27"

definition train_imem_400_28 :: "(u64 \<times> u64) list" where
  "train_imem_400_28 = train_imem_600_28"

definition train_imem_400_29 :: "(u64 \<times> u64) list" where
  "train_imem_400_29 = train_imem_600_29"

definition train_imem_400_30 :: "(u64 \<times> u64) list" where
  "train_imem_400_30 = train_imem_600_30"

definition train_imem_400_31 :: "(u64 \<times> u64) list" where
  "train_imem_400_31 = train_imem_600_31"

definition train_imem_400_32 :: "(u64 \<times> u64) list" where
  "train_imem_400_32 = train_imem_600_32"

definition train_imem_400_33 :: "(u64 \<times> u64) list" where
  "train_imem_400_33 = train_imem_600_33"

definition train_imem_400_34 :: "(u64 \<times> u64) list" where
  "train_imem_400_34 = train_imem_600_34"

definition train_imem_400_35 :: "(u64 \<times> u64) list" where
  "train_imem_400_35 = train_imem_600_35"

definition train_imem_400_36 :: "(u64 \<times> u64) list" where
  "train_imem_400_36 = train_imem_600_36"

definition train_imem_400_37 :: "(u64 \<times> u64) list" where
  "train_imem_400_37 = train_imem_600_37"

definition train_imem_400_38 :: "(u64 \<times> u64) list" where
  "train_imem_400_38 = train_imem_600_38"

definition train_imem_400_39 :: "(u64 \<times> u64) list" where
  "train_imem_400_39 = train_imem_600_39"

definition train_imem_400_40 :: "(u64 \<times> u64) list" where
  "train_imem_400_40 = train_imem_600_40"

definition train_imem_400_41 :: "(u64 \<times> u64) list" where
  "train_imem_400_41 = train_imem_600_41"

definition train_imem_400_42 :: "(u64 \<times> u64) list" where
  "train_imem_400_42 = train_imem_600_42"

definition train_imem_400_43 :: "(u64 \<times> u64) list" where
  "train_imem_400_43 = train_imem_600_43"

definition train_imem_400_44 :: "(u64 \<times> u64) list" where
  "train_imem_400_44 = train_imem_600_44"

definition train_imem_400_45 :: "(u64 \<times> u64) list" where
  "train_imem_400_45 = train_imem_600_45"

definition train_imem_400_46 :: "(u64 \<times> u64) list" where
  "train_imem_400_46 = train_imem_600_46"

definition train_imem_400_47 :: "(u64 \<times> u64) list" where
  "train_imem_400_47 = train_imem_600_47"

definition train_imem_400_48 :: "(u64 \<times> u64) list" where
  "train_imem_400_48 = train_imem_600_48"

definition train_imem_400_49 :: "(u64 \<times> u64) list" where
  "train_imem_400_49 = train_imem_600_49"

definition train_imem_400_50 :: "(u64 \<times> u64) list" where
  "train_imem_400_50 = train_imem_600_50"

definition train_imem_400_51 :: "(u64 \<times> u64) list" where
  "train_imem_400_51 = train_imem_600_51"

definition train_imem_400_52 :: "(u64 \<times> u64) list" where
  "train_imem_400_52 = train_imem_600_52"

definition train_imem_400_53 :: "(u64 \<times> u64) list" where
  "train_imem_400_53 = train_imem_600_53"

definition train_imem_400_54 :: "(u64 \<times> u64) list" where
  "train_imem_400_54 = train_imem_600_54"

definition train_imem_400_55 :: "(u64 \<times> u64) list" where
  "train_imem_400_55 = train_imem_600_55"

definition train_imem_400_56 :: "(u64 \<times> u64) list" where
  "train_imem_400_56 = train_imem_600_56"

definition train_imem_400_57 :: "(u64 \<times> u64) list" where
  "train_imem_400_57 = train_imem_600_57"

definition train_imem_400_58 :: "(u64 \<times> u64) list" where
  "train_imem_400_58 = train_imem_600_58"

definition train_imem_400_59 :: "(u64 \<times> u64) list" where
  "train_imem_400_59 = train_imem_600_59"

definition train_imem_400_60 :: "(u64 \<times> u64) list" where
  "train_imem_400_60 = train_imem_600_60"

definition train_imem_400_61 :: "(u64 \<times> u64) list" where
  "train_imem_400_61 = train_imem_600_61"

definition train_imem_400_62 :: "(u64 \<times> u64) list" where
  "train_imem_400_62 = train_imem_600_62"

definition train_imem_400_63 :: "(u64 \<times> u64) list" where
  "train_imem_400_63 = train_imem_600_63"

definition train_imem_400_64 :: "(u64 \<times> u64) list" where
  "train_imem_400_64 = train_imem_600_64"

definition train_imem_400_65 :: "(u64 \<times> u64) list" where
  "train_imem_400_65 = train_imem_600_65"

definition train_imem_400_66 :: "(u64 \<times> u64) list" where
  "train_imem_400_66 = train_imem_600_66"

definition train_imem_400_67 :: "(u64 \<times> u64) list" where
  "train_imem_400_67 = train_imem_600_67"

definition train_imem_400_68 :: "(u64 \<times> u64) list" where
  "train_imem_400_68 = train_imem_600_68"

definition train_imem_400_69 :: "(u64 \<times> u64) list" where
  "train_imem_400_69 = train_imem_600_69"

definition train_imem_400_70 :: "(u64 \<times> u64) list" where
  "train_imem_400_70 = train_imem_600_70"

definition train_imem_400_71 :: "(u64 \<times> u64) list" where
  "train_imem_400_71 = train_imem_600_71"

definition train_imem_400_72 :: "(u64 \<times> u64) list" where
  "train_imem_400_72 = train_imem_600_72"

definition train_imem_400_73 :: "(u64 \<times> u64) list" where
  "train_imem_400_73 = train_imem_600_73"

definition train_imem_400_74 :: "(u64 \<times> u64) list" where
  "train_imem_400_74 = train_imem_600_74"

definition train_imem_400_75 :: "(u64 \<times> u64) list" where
  "train_imem_400_75 = train_imem_600_75"

definition train_imem_400_76 :: "(u64 \<times> u64) list" where
  "train_imem_400_76 = train_imem_600_76"

definition train_imem_400_77 :: "(u64 \<times> u64) list" where
  "train_imem_400_77 = train_imem_600_77"

definition train_imem_400_78 :: "(u64 \<times> u64) list" where
  "train_imem_400_78 = train_imem_600_78"

definition train_imem_400_79 :: "(u64 \<times> u64) list" where
  "train_imem_400_79 = train_imem_600_79"

definition train_imem_400_80 :: "(u64 \<times> u64) list" where
  "train_imem_400_80 = train_imem_600_80"

definition train_imem_400_81 :: "(u64 \<times> u64) list" where
  "train_imem_400_81 = train_imem_600_81"

definition train_imem_400_82 :: "(u64 \<times> u64) list" where
  "train_imem_400_82 = train_imem_600_82"

definition train_imem_400_83 :: "(u64 \<times> u64) list" where
  "train_imem_400_83 = train_imem_600_83"

definition train_imem_400_84 :: "(u64 \<times> u64) list" where
  "train_imem_400_84 = train_imem_600_84"

definition train_imem_400_85 :: "(u64 \<times> u64) list" where
  "train_imem_400_85 = train_imem_600_85"

definition train_imem_400_86 :: "(u64 \<times> u64) list" where
  "train_imem_400_86 = train_imem_600_86"

definition train_imem_400_87 :: "(u64 \<times> u64) list" where
  "train_imem_400_87 = train_imem_600_87"

definition train_imem_400_88 :: "(u64 \<times> u64) list" where
  "train_imem_400_88 = train_imem_600_88"

definition train_imem_400_89 :: "(u64 \<times> u64) list" where
  "train_imem_400_89 = train_imem_600_89"

definition train_imem_400_90 :: "(u64 \<times> u64) list" where
  "train_imem_400_90 = train_imem_600_90"

definition train_imem_400_91 :: "(u64 \<times> u64) list" where
  "train_imem_400_91 = train_imem_600_91"

definition train_imem_400_92 :: "(u64 \<times> u64) list" where
  "train_imem_400_92 = train_imem_600_92"

definition train_imem_400_93 :: "(u64 \<times> u64) list" where
  "train_imem_400_93 = train_imem_600_93"

definition train_imem_400_94 :: "(u64 \<times> u64) list" where
  "train_imem_400_94 = train_imem_600_94"

definition train_imem_400_95 :: "(u64 \<times> u64) list" where
  "train_imem_400_95 = train_imem_600_95"

definition train_imem_400_96 :: "(u64 \<times> u64) list" where
  "train_imem_400_96 = train_imem_600_96"

definition train_imem_400_97 :: "(u64 \<times> u64) list" where
  "train_imem_400_97 = train_imem_600_97"

definition train_imem_400_98 :: "(u64 \<times> u64) list" where
  "train_imem_400_98 = train_imem_600_98"

definition train_imem_400_99 :: "(u64 \<times> u64) list" where
  "train_imem_400_99 = train_imem_600_99"

definition train_imem_400_100 :: "(u64 \<times> u64) list" where
  "train_imem_400_100 = train_imem_600_100"

definition train_imem_400_101 :: "(u64 \<times> u64) list" where
  "train_imem_400_101 = train_imem_600_101"

definition train_imem_400_102 :: "(u64 \<times> u64) list" where
  "train_imem_400_102 = train_imem_600_102"

definition train_imem_400_103 :: "(u64 \<times> u64) list" where
  "train_imem_400_103 = train_imem_600_103"

definition train_imem_400_104 :: "(u64 \<times> u64) list" where
  "train_imem_400_104 = train_imem_600_104"

definition train_imem_400_105 :: "(u64 \<times> u64) list" where
  "train_imem_400_105 = train_imem_600_105"

definition train_imem_400_106 :: "(u64 \<times> u64) list" where
  "train_imem_400_106 = train_imem_600_106"

definition train_imem_400_107 :: "(u64 \<times> u64) list" where
  "train_imem_400_107 = train_imem_600_107"

definition train_imem_400_108 :: "(u64 \<times> u64) list" where
  "train_imem_400_108 = train_imem_600_108"

definition train_imem_400_109 :: "(u64 \<times> u64) list" where
  "train_imem_400_109 = train_imem_600_109"

definition train_imem_400_110 :: "(u64 \<times> u64) list" where
  "train_imem_400_110 = train_imem_600_110"

definition train_imem_400_111 :: "(u64 \<times> u64) list" where
  "train_imem_400_111 = train_imem_600_111"

definition train_imem_400_112 :: "(u64 \<times> u64) list" where
  "train_imem_400_112 = train_imem_600_112"

definition train_imem_400_113 :: "(u64 \<times> u64) list" where
  "train_imem_400_113 = train_imem_600_113"

definition train_imem_400_114 :: "(u64 \<times> u64) list" where
  "train_imem_400_114 = train_imem_600_114"

definition train_imem_400_115 :: "(u64 \<times> u64) list" where
  "train_imem_400_115 = train_imem_600_115"

definition train_imem_400_116 :: "(u64 \<times> u64) list" where
  "train_imem_400_116 = train_imem_600_116"

definition train_imem_400_117 :: "(u64 \<times> u64) list" where
  "train_imem_400_117 = train_imem_600_117"

definition train_imem_400_118 :: "(u64 \<times> u64) list" where
  "train_imem_400_118 = train_imem_600_118"

definition train_imem_400_119 :: "(u64 \<times> u64) list" where
  "train_imem_400_119 = train_imem_600_119"

definition train_imem_400_120 :: "(u64 \<times> u64) list" where
  "train_imem_400_120 = train_imem_600_120"

definition train_imem_400_121 :: "(u64 \<times> u64) list" where
  "train_imem_400_121 = train_imem_600_121"

definition train_imem_400_122 :: "(u64 \<times> u64) list" where
  "train_imem_400_122 = train_imem_600_122"

definition train_imem_400_123 :: "(u64 \<times> u64) list" where
  "train_imem_400_123 = train_imem_600_123"

definition train_imem_400_124 :: "(u64 \<times> u64) list" where
  "train_imem_400_124 = train_imem_600_124"

definition train_imem_400_125 :: "(u64 \<times> u64) list" where
  "train_imem_400_125 = train_imem_600_125"

definition train_imem_400_126 :: "(u64 \<times> u64) list" where
  "train_imem_400_126 = train_imem_600_126"

definition train_imem_400_127 :: "(u64 \<times> u64) list" where
  "train_imem_400_127 = train_imem_600_127"

definition train_imem_400 :: "(u64 \<times> u64) list" where
  "train_imem_400 = concat [train_imem_400_0, train_imem_400_1, train_imem_400_2, train_imem_400_3, train_imem_400_4, train_imem_400_5, train_imem_400_6, train_imem_400_7,
    train_imem_400_8, train_imem_400_9, train_imem_400_10, train_imem_400_11, train_imem_400_12, train_imem_400_13, train_imem_400_14, train_imem_400_15,
    train_imem_400_16, train_imem_400_17, train_imem_400_18, train_imem_400_19, train_imem_400_20, train_imem_400_21, train_imem_400_22, train_imem_400_23,
    train_imem_400_24, train_imem_400_25, train_imem_400_26, train_imem_400_27, train_imem_400_28, train_imem_400_29, train_imem_400_30, train_imem_400_31,
    train_imem_400_32, train_imem_400_33, train_imem_400_34, train_imem_400_35, train_imem_400_36, train_imem_400_37, train_imem_400_38, train_imem_400_39,
    train_imem_400_40, train_imem_400_41, train_imem_400_42, train_imem_400_43, train_imem_400_44, train_imem_400_45, train_imem_400_46, train_imem_400_47,
    train_imem_400_48, train_imem_400_49, train_imem_400_50, train_imem_400_51, train_imem_400_52, train_imem_400_53, train_imem_400_54, train_imem_400_55,
    train_imem_400_56, train_imem_400_57, train_imem_400_58, train_imem_400_59, train_imem_400_60, train_imem_400_61, train_imem_400_62, train_imem_400_63,
    train_imem_400_64, train_imem_400_65, train_imem_400_66, train_imem_400_67, train_imem_400_68, train_imem_400_69, train_imem_400_70, train_imem_400_71,
    train_imem_400_72, train_imem_400_73, train_imem_400_74, train_imem_400_75, train_imem_400_76, train_imem_400_77, train_imem_400_78, train_imem_400_79,
    train_imem_400_80, train_imem_400_81, train_imem_400_82, train_imem_400_83, train_imem_400_84, train_imem_400_85, train_imem_400_86, train_imem_400_87,
    train_imem_400_88, train_imem_400_89, train_imem_400_90, train_imem_400_91, train_imem_400_92, train_imem_400_93, train_imem_400_94, train_imem_400_95,
    train_imem_400_96, train_imem_400_97, train_imem_400_98, train_imem_400_99, train_imem_400_100, train_imem_400_101, train_imem_400_102, train_imem_400_103,
    train_imem_400_104, train_imem_400_105, train_imem_400_106, train_imem_400_107, train_imem_400_108, train_imem_400_109, train_imem_400_110, train_imem_400_111,
    train_imem_400_112, train_imem_400_113, train_imem_400_114, train_imem_400_115, train_imem_400_116, train_imem_400_117, train_imem_400_118, train_imem_400_119,
    train_imem_400_120, train_imem_400_121, train_imem_400_122, train_imem_400_123, train_imem_400_124, train_imem_400_125, train_imem_400_126, train_imem_400_127]"

definition train_switch_400 :: "(u64 \<times> u64) list" where
  "train_switch_400 = train_switch_600"

definition train_dmem_400_0 :: "(u64 \<times> u64) list" where
  "train_dmem_400_0 = words_at 0x54000 [
    0x600, 0x0, 0x0, 0x640, 0x2, 0x3c50, 0x14, 0x0, 0x131f, 0x4, 0x0, 0x2,
    0x0, 0x100, 0x0, 0x0, 0x0, 0x0, 0x310, 0x0, 0x0, 0x0, 0x0, 0x0,
    0x0, 0x1224, 0x26, 0x4d64, 0x4f28, 0x0, 0x18, 0x1224, 0x26, 0x4d64, 0x4f28, 0x0,
    0x18, 0x0, 0x0, 0x0, 0x0, 0x0, 0x0, 0x0, 0x0, 0x0, 0x0, 0x0,
    0x0, 0x0, 0x2400, 0x2612, 0x6400, 0x284d, 0x4f, 0x1800, 0x2400, 0x2612, 0x6400, 0x284d,
    0x4f, 0x1800, 0x0, 0x0, 0x0, 0x0, 0x0, 0x0, 0x0, 0x0, 0x0, 0x0,
    0x0, 0x0, 0x0, 0x0, 0x0, 0x0, 0x0, 0x0, 0x0, 0x0, 0x0, 0x0,
    0x0, 0x0, 0x0, 0x0, 0x0, 0x0, 0x0, 0x0, 0x0, 0x0, 0x0, 0x0,
    0x0, 0x0, 0x0, 0x0, 0x0, 0x0, 0x0, 0x0, 0x0, 0x0, 0x0, 0x0,
    0x0, 0x0, 0x0, 0x0, 0x0, 0x0, 0x0, 0x0, 0x0, 0x0, 0x0, 0x0,
    0x0, 0x0, 0x0, 0x0, 0x0, 0x0, 0x0, 0x0]"

definition train_dmem_400_1 :: "(u64 \<times> u64) list" where
  "train_dmem_400_1 = train_dmem_600_1"

definition train_dmem_400_2 :: "(u64 \<times> u64) list" where
  "train_dmem_400_2 = train_dmem_600_2"

definition train_dmem_400_3 :: "(u64 \<times> u64) list" where
  "train_dmem_400_3 = train_dmem_600_3"

definition train_dmem_400_4 :: "(u64 \<times> u64) list" where
  "train_dmem_400_4 = train_dmem_600_4"

definition train_dmem_400_5 :: "(u64 \<times> u64) list" where
  "train_dmem_400_5 = train_dmem_600_5"

definition train_dmem_400_6 :: "(u64 \<times> u64) list" where
  "train_dmem_400_6 = train_dmem_600_6"

definition train_dmem_400 :: "(u64 \<times> u64) list" where
  "train_dmem_400 = concat [train_dmem_400_0, train_dmem_400_1, train_dmem_400_2, train_dmem_400_3, train_dmem_400_4, train_dmem_400_5, train_dmem_400_6]"

definition train_after_400_0 :: "(u64 \<times> u64) list" where
  "train_after_400_0 = train_after_600_0"

definition train_after_400_1 :: "(u64 \<times> u64) list" where
  "train_after_400_1 = train_after_600_1"

definition train_after_400_2 :: "(u64 \<times> u64) list" where
  "train_after_400_2 = train_after_600_2"

definition train_after_400_3 :: "(u64 \<times> u64) list" where
  "train_after_400_3 = train_after_600_3"

definition train_after_400_4 :: "(u64 \<times> u64) list" where
  "train_after_400_4 = train_after_600_4"

definition train_after_400 :: "(u64 \<times> u64) list" where
  "train_after_400 = concat [train_after_400_0, train_after_400_1, train_after_400_2, train_after_400_3, train_after_400_4]"

end
