(* ===== verification/Ddr.thy ===== *)
theory Ddr
  imports Ddr_Tables Ddr_Firmware
begin

text \<open>
  Bringing up the DDR controller: \<open>reset_ddr\<close> of \<open>es1y.cc\<close> with the sequences it includes from
  \<open>ddr_seq_*.cc\<close>, and the mailbox loop of \<open>train_1d*.cc\<close>. The firmware image and the register
  values that \<open>train_1d*.cc\<close> writes before and after that loop are arguments, one pair of tables for
  each of the two frequencies. Every loop that waits takes \<open>fuel\<close>, the number of readings it may make.
\<close>

definition uctrl :: "u64 \<Rightarrow> u64" where
  "uctrl r = STATION_DDR_TOP_DDR_UCTRL_ADDR + 4 * r"

definition phy :: "u64 \<Rightarrow> u64" where
  "phy r = STATION_DDR_TOP_DDR_PHY_ADDR + 4 * r"

definition ctl_writes :: "'t htif_ops \<Rightarrow> (u64 \<times> u64) list \<Rightarrow> ('t, 'e, unit) hprog" where
  "ctl_writes h tab = write_regs h (map (\<lambda>(r, v). (uctrl r, v)) tab)"

definition phy_writes :: "'t htif_ops \<Rightarrow> (u64 \<times> u64) list \<Rightarrow> ('t, 'e, unit) hprog" where
  "phy_writes h tab = write_regs h (map (\<lambda>(r, v). (phy r, v)) tab)"

section \<open>Before the resets\<close>

text \<open>\<open>train\<close> and \<open>avery\<close> say whether \<open>ddr_train_1d\<close> and \<open>use_avery\<close> are given.\<close>

definition ddr_seq_bf_rst :: "bool \<Rightarrow> bool \<Rightarrow> (u64 \<times> u64) list" where
  "ddr_seq_bf_rst train avery =
    [(0x304, 0x1), (0x30, 0x1), (0x0, 0x83080020), (0x10, 0x30),
     (0x14, 0x2131), (0x20, 0x202), (0x24, 0x1e53b2f), (0x28, 0x0),
     (0x2c, 0x0)]
    @ (if train then [(0x30, 0x20)] else [(0x30, 0x0)])
    @ [(0x34, 0x405e03), (0x38, 0x4a0001), (0x50, 0x210000), (0x54, 0x30003),
     (0x60, 0x0), (0x64, 0x812400b0), (0x68, 0x3c0000), (0xc0, 0x0),
     (0xc4, 0xc000000)]
    @ (if train then [(0xd0, 0xc0010001)] else [(0xd0, 0x10001)])
    @ [(0xd4, 0x10008), (0xdc, 0xc40024), (0xe0, 0x200000), (0xe8, 0x4d),
     (0xec, 0x4d), (0xf0, 0x0), (0xf4, 0x888), (0xfc, 0x0),
     (0x100, 0x1719291a), (0x104, 0x50528), (0x108, 0x60c0f11), (0x10c, 0x1010000),
     (0x110, 0x1004070c), (0x114, 0x3050e0e), (0x118, 0x10d0006), (0x11c, 0xa09),
     (0x120, 0x501), (0x130, 0x20000), (0x134, 0x2100002), (0x138, 0xad),
     (0x180, 0x3e8000f), (0x184, 0x3200070), (0x188, 0x0)]
    @ (if train then (if avery then [(0x190, 0x2938208)] else [(0x190, 0x2938208)]) else (if avery then [(0x190, 0x2948208)] else [(0x190, 0x2978208)]))
    @ [(0x194, 0x80101), (0x198, 0x7f0b130), (0x1b0, 0x0), (0x1b4, 0x404),
     (0x1c0, 0x1), (0x1c4, 0x0), (0x200, 0x1f1f17), (0x204, 0x80808),
     (0x208, 0x0), (0x20c, 0x0), (0x210, 0x1f1f), (0x214, 0x7070707),
     (0x218, 0x7070707), (0x21c, 0x1f0f), (0x220, 0x3f3f), (0x224, 0x0),
     (0x228, 0x2080300), (0x22c, 0x3f3f00), (0x240, 0x9160230), (0x244, 0x0),
     (0x250, 0x3631f05), (0x254, 0xf9), (0x25c, 0x210002a7), (0x264, 0xf00ce4d),
     (0x26c, 0xb600718e), (0x300, 0x14), (0x30c, 0x0), (0x36c, 0x1),
     (0x400, 0x11), (0x404, 0x1309d), (0x408, 0x631d), (0x490, 0x1),
     (0x494, 0x110004)]"

definition ddr_seq_bf_rst_400 :: "bool \<Rightarrow> bool \<Rightarrow> (u64 \<times> u64) list" where
  "ddr_seq_bf_rst_400 train avery =
    [(0x304, 0x1), (0x30, 0x1), (0x0, 0x83080020), (0x10, 0x30),
     (0x14, 0x2131), (0x20, 0x100), (0x24, 0x1e53b2f), (0x28, 0x0),
     (0x2c, 0x0)]
    @ (if train then [(0x30, 0x20)] else [(0x30, 0x0)])
    @ [(0x34, 0x405e03), (0x38, 0x4a0001), (0x50, 0x210000), (0x54, 0x30003),
     (0x60, 0x0), (0x64, 0x80c30070), (0x68, 0x3c0000), (0xc0, 0x0),
     (0xc4, 0xc000000)]
    @ (if train then [(0xd0, 0xc0010001)] else [(0xd0, 0x10001)])
    @ [(0xd4, 0x10008), (0xdc, 0xa40012), (0xe0, 0x200000), (0xe8, 0x4d),
     (0xec, 0x4d), (0xf0, 0x0), (0xf4, 0x888), (0xfc, 0x0),
     (0x100, 0x1719291a), (0x104, 0x50528), (0x108, 0x4070e0f), (0x10c, 0x1010000),
     (0x110, 0x1004070c), (0x114, 0x3050e0e), (0x118, 0x10d0006), (0x11c, 0xa09),
     (0x120, 0x501), (0x130, 0x20000), (0x134, 0x2100002), (0x138, 0xad),
     (0x180, 0x3e8000f), (0x184, 0x3200070), (0x188, 0x0)]
    @ (if train then (if avery then [(0x190, 0x2898204)] else [(0x190, 0x2898204)]) else (if avery then [(0x190, 0x2898204)] else [(0x190, 0x28c8204)]))
    @ [(0x194, 0x80101), (0x198, 0x7f0b130), (0x1b0, 0x0), (0x1b4, 0x904),
     (0x1c0, 0x1), (0x1c4, 0x0), (0x200, 0x1f1f17), (0x204, 0x80808),
     (0x208, 0x0), (0x20c, 0x0), (0x210, 0x1f1f), (0x214, 0x7070707),
     (0x218, 0x7070707), (0x21c, 0x1f0f), (0x220, 0x3f3f), (0x224, 0x0),
     (0x228, 0x2080300), (0x22c, 0x3f3f00), (0x240, 0x9160230), (0x244, 0x0),
     (0x250, 0x3631f05), (0x254, 0xf9), (0x25c, 0x210002a7), (0x264, 0xf00ce4d),
     (0x26c, 0xb600718e), (0x300, 0x14), (0x30c, 0x0), (0x36c, 0x1),
     (0x400, 0x11), (0x404, 0x1309d), (0x408, 0x631d), (0x490, 0x1),
     (0x494, 0x110004)]"

definition ddr_seq_bf_rst_100 :: "(u64 \<times> u64) list" where
  "ddr_seq_bf_rst_100 =
    [(0x304, 0x1), (0x30, 0x1), (0x0, 0x83080020), (0x10, 0x30),
     (0x14, 0x2131), (0x20, 0x100), (0x24, 0x1e53b2f), (0x28, 0x0),
     (0x2c, 0x0), (0x30, 0x0), (0x34, 0x405e03), (0x38, 0x4a0001),
     (0x50, 0x110000), (0x54, 0x30003), (0x60, 0x0), (0x64, 0x80030007),
     (0x68, 0x3c0000), (0xc0, 0x0), (0xc4, 0xc000000), (0xd0, 0x10001),
     (0xd4, 0x10008), (0xdc, 0x840000), (0xe0, 0x200000), (0xe8, 0x4d),
     (0xec, 0x4d), (0xf0, 0x0), (0xf4, 0x888), (0xfc, 0x0),
     (0x100, 0x1719291a), (0x104, 0x50528), (0x108, 0x2030e11), (0x10c, 0x1010000),
     (0x110, 0x1004070c), (0x114, 0x3050e0e), (0x118, 0x10d0006), (0x11c, 0xa09),
     (0x120, 0x501), (0x130, 0x20000), (0x134, 0x2100002), (0x138, 0xad),
     (0x180, 0x3e8000f), (0x184, 0x3200070), (0x188, 0x0), (0x190, 0x2828200),
     (0x194, 0x80101), (0x198, 0x7f0b130), (0x1b0, 0x0), (0x1b4, 0x200),
     (0x1c0, 0x1), (0x1c4, 0x0), (0x200, 0x1f1f17), (0x204, 0x80808),
     (0x208, 0x0), (0x20c, 0x0), (0x210, 0x1f1f), (0x214, 0x7070707),
     (0x218, 0x7070707), (0x21c, 0x1f0f), (0x220, 0x3f3f), (0x224, 0x0),
     (0x228, 0x2080300), (0x22c, 0x3f3f00), (0x240, 0x9160230), (0x244, 0x0),
     (0x250, 0x3631f05), (0x254, 0xf9), (0x25c, 0x210002a7), (0x264, 0xf00ce4d),
     (0x26c, 0xb600718e), (0x300, 0x14), (0x30c, 0x0), (0x36c, 0x1),
     (0x400, 0x11), (0x404, 0x1309d), (0x408, 0x631d), (0x490, 0x1),
     (0x494, 0x110004)]"

section \<open>After the resets\<close>

text \<open>A mode register is written through \<open>MRCTRL0\<close> and \<open>MRCTRL1\<close>; the busy bit then has to clear.\<close>

definition mode_register :: "'t htif_ops \<Rightarrow> nat \<Rightarrow> u64 \<Rightarrow> ('t, 'e, unit) hprog" where
  "mode_register h fuel v =
    andThen (ctl_writes h [(0x14, v), (0x10, 0x80000038)])
      (await_reg h fuel (uctrl 0x18) (\<lambda>x. x AND 1 = 0))"

text \<open>
  \<open>ddr_seq_af_rst.cc\<close>, \<open>ddr_seq_af_rst_400.cc\<close> and \<open>ddr_seq_af_rst_100.cc\<close> differ in the table
  and in the values of the mode registers MR1 and MR2.
\<close>

definition ddr_seq_skip :: "'t htif_ops \<Rightarrow> nat \<Rightarrow> (u64 \<times> u64) list \<Rightarrow> u64 \<Rightarrow> u64 \<Rightarrow> ('t, 'e, unit) hprog" where
  "ddr_seq_skip h fuel tab mr1 mr2 = seqM
    [ctl_writes h [(0x304, 0), (0x30, 0x80), (0x30, 0x80), (0x320, 0), (0x1b0, 0), (0x1b0, 0)],
     phy_writes h tab,
     ctl_writes h [(0x1b0, 0x20)],
     await_reg h fuel (uctrl 0x1bc) (\<lambda>x. x AND 1 = 1),
     ctl_writes h [(0x1b0, 0), (0x1b0, 1), (0x1b0, 1), (0x320, 1)],
     await_reg h fuel (uctrl 0x324) (\<lambda>x. x AND 1 = 1),
     await_reg h fuel (uctrl 0x4) (\<lambda>x. x AND 1 = 1),
     ctl_writes h [(0x10, 0x38)],
     mode_register h fuel 0xd00, mode_register h fuel mr1, mode_register h fuel mr2, mode_register h fuel 0x320,
     ctl_writes h [(0x10, 0x30), (0x30, 0x80), (0x30, 0x80), (0x490, 1), (0x30, 1), (0x30, 0)]]"

definition ddr_seq_af_rst :: "'t htif_ops \<Rightarrow> nat \<Rightarrow> bool \<Rightarrow> ('t, 'e, unit) hprog" where
  "ddr_seq_af_rst h fuel avery =
    ddr_seq_skip h fuel
      (skiptrain_before @ (if avery then skiptrain_avery else skiptrain_board) @ skiptrain_after) 0x1c4 0x224"

definition ddr_seq_af_rst_400 :: "'t htif_ops \<Rightarrow> nat \<Rightarrow> ('t, 'e, unit) hprog" where
  "ddr_seq_af_rst_400 h fuel = ddr_seq_skip h fuel skiptrain_400 0x1a4 0x212"

definition ddr_seq_af_rst_100 :: "'t htif_ops \<Rightarrow> nat \<Rightarrow> ('t, 'e, unit) hprog" where
  "ddr_seq_af_rst_100 h fuel = ddr_seq_skip h fuel skiptrain_100 0x184 0x200"

section \<open>Training\<close>

text \<open>
  One message of the training firmware: wait until the write-protect bit is 0, read the message and,
  for a streaming message (8), its data, acknowledge, wait until the bit is 1, finish. The value is
  the message; 7 and \<open>0xff\<close> end the training, with success or without.
\<close>

definition training_round :: "'t htif_ops \<Rightarrow> nat \<Rightarrow> ('t, 'e, u64) hprog" where
  "training_round h fuel =
    andThen (await_reg h fuel (phy 0xd0004) (\<lambda>x. x AND 1 = 0))
    (bnd (OURSBUS_READ_4B h (phy 0xd0032) 0) (\<lambda>m.
     andThen (if m AND 0xff = 8 then bnd (OURSBUS_READ_4B h (phy 0xd0034) 0) (\<lambda>_. ret ()) else ret ())
     (andThen (OURSBUS_WRITE h (phy 0xd0031) 0)
     (andThen (await_reg h fuel (phy 0xd0004) (\<lambda>x. x AND 1 = 1))
     (andThen (OURSBUS_WRITE h (phy 0xd0031) 1) (ret (m AND 0xff)))))))"

definition training_over :: "u64 \<Rightarrow> bool" where
  "training_over m \<longleftrightarrow> m = 7 \<or> m = 0xff"

definition training_loop :: "'t htif_ops \<Rightarrow> nat \<Rightarrow> ('t, 'e, unit) hprog" where
  "training_loop h fuel = bnd (poll fuel (training_round h fuel) training_over) (\<lambda>_. ret ())"

text \<open>What \<open>set_0_to_ddr_sram\<close> adds: zeros in the rest of the SRAM.\<close>

definition sram_zeros :: "(u64 \<times> u64) list" where
  "sram_zeros = map (\<lambda>i. (of_nat i, 0)) [0x5432c..<0x56000]"

definition train_1d :: "'t htif_ops \<Rightarrow> nat \<Rightarrow> (u64 \<times> u64) list \<times> (u64 \<times> u64) list \<Rightarrow> ('t, 'e, unit) hprog" where
  "train_1d h fuel fw = seqM
    [phy_writes h (fst fw),
     bnd (flag ''set_0_to_ddr_sram'') (\<lambda>z. if z then phy_writes h sram_zeros else ret ()),
     phy_writes h [(0xd0000, 1), (0xd0000, 1), (0xd0099, 9), (0xd0099, 1), (0xd0099, 0)],
     training_loop h fuel,
     phy_writes h (snd fw)]"

text \<open>\<open>ddr_seq_af_rst_train_1d.cc\<close> and \<open>ddr_seq_af_rst_train_1d_400.cc\<close>.\<close>

definition ddr_seq_train :: "'t htif_ops \<Rightarrow> nat \<Rightarrow> (u64 \<times> u64) list \<times> (u64 \<times> u64) list \<Rightarrow> u64 \<Rightarrow> u64 \<Rightarrow> ('t, 'e, unit) hprog" where
  "ddr_seq_train h fuel fw mr1 mr2 = seqM
    [ctl_writes h [(0x304, 0), (0x60, 1), (0x30, 0x20), (0x320, 0), (0x1b0, 0), (0x320, 1)],
     await_reg h fuel (uctrl 0x324) (\<lambda>x. x AND 1 = 1),
     train_1d h fuel fw,
     ctl_writes h [(0x320, 0), (0x1b0, 0x20), (0x320, 1)],
     await_reg h fuel (uctrl 0x324) (\<lambda>x. x AND 1 = 1),
     await_reg h fuel (uctrl 0x1bc) (\<lambda>x. x AND 1 = 1),
     ctl_writes h [(0x320, 0), (0x1b0, 0), (0x1b0, 1), (0x30, 0), (0x320, 1)],
     await_reg h fuel (uctrl 0x324) (\<lambda>x. x AND 1 = 1),
     await_reg h fuel (uctrl 0x4) (\<lambda>x. x AND 7 = 1),
     mode_register h fuel mr1, mode_register h fuel mr2, mode_register h fuel 0x320,
     ctl_writes h [(0x60, 0), (0x490, 1)]]"

section \<open>The whole reset\<close>

definition train_600 :: "(u64 \<times> u64) list \<times> (u64 \<times> u64) list" where
  "train_600 = (train_setup_600 @ train_imem_600 @ train_switch_600 @ train_dmem_600, train_after_600)"

definition train_400 :: "(u64 \<times> u64) list \<times> (u64 \<times> u64) list" where
  "train_400 = (train_setup_400 @ train_imem_400 @ train_switch_400 @ train_dmem_400, train_after_400)"

definition ddr_power_on :: "'t htif_ops \<Rightarrow> ('t, 'e, unit) hprog" where
  "ddr_power_on h =
    bnd (flag ''ddr_bypass'') (\<lambda>bypass.
    bnd (arg ''program_pll='') (\<lambda>freq.
    write_regs h
      ((if bypass then
          [if freq \<noteq> [] then (STATION_BYP_S2B_DDRLS_CLKDIV_HALF_DIV_LESS_1_ADDR, 2)
           else (STATION_BYP_S2B_DDRLS_CLKDIV_DIVCLK_SEL_ADDR, 0),
           (STATION_BYP_S2B_DDR_BYPASS_EN_ADDR, 1)]
        else [(STATION_BYP_S2B_DDRLS_CLKDIV_DIVCLK_SEL_ADDR, 0), (STATION_BYP_S2B_DDR_BYPASS_EN_ADDR, 0)])
       @ [(STATION_DDR_TOP_S2B_CSYSREQ_DDRC_ADDR, 1), (STATION_DDR_TOP_S2B_DFI_RESET_N_IN_ADDR, 1),
          (STATION_DDR_TOP_S2B_INIT_MR_DONE_IN_ADDR, 1), (STATION_DDR_TOP_S2B_PWR_OK_IN_ADDR, 1),
          (STATION_DDR_TOP_S2B_PWR_OK_IN_ADDR, 1), (STATION_DDR_TOP_S2B_PRESETN_ADDR, 1)])))"

definition reset_ddr :: "'t htif_ops \<Rightarrow> nat \<Rightarrow> ('t, 'e, unit) hprog" where
  "reset_ddr h fuel =
    andThen (ddr_power_on h)
    (bnd (flag ''ddr_bypass'') (\<lambda>bypass.
     bnd (arg ''program_pll='') (\<lambda>freq.
     bnd (flag ''ddr_train_1d'') (\<lambda>train.
     bnd (flag ''use_avery'') (\<lambda>avery.
     andThen
       (if bypass then ctl_writes h ddr_seq_bf_rst_100
        else if freq = ''100e6_600e6'' then ctl_writes h (ddr_seq_bf_rst train avery)
        else if freq = ''100e6_400e6'' then ctl_writes h (ddr_seq_bf_rst_400 train avery)
        else ret ())
     (andThen (write_regs h [(STATION_DDR_TOP_S2B_ARESETN_0_ADDR, 1), (STATION_DDR_TOP_S2B_CORE_DDRC_RSTN_ADDR, 1)])
       (if train then
          (if freq = ''100e6_600e6'' then ddr_seq_train h fuel train_600 0x1c4 0x224
           else if freq = ''100e6_400e6'' then ddr_seq_train h fuel train_400 0x1a4 0x212
           else ret ())
        else if bypass then ddr_seq_af_rst_100 h fuel
        else if freq = ''100e6_600e6'' then ddr_seq_af_rst h fuel avery
        else if freq = ''100e6_400e6'' then ddr_seq_af_rst_400 h fuel
        else ret ())))))))"

end
