(* ===== verification/Peripherals.thy ===== *)
theory Peripherals
  imports Cores Ddr
begin

text \<open>
  The steps of \<open>es1y.cc\<close> that bring up the USB controller, run the DRAM tester and check the
  registers of the peripherals. A test returns whether all its checks agreed, which the code prints.
\<close>

section \<open>USB\<close>

definition usb :: "u64 \<Rightarrow> u64" where
  "usb r = STATION_USB_TOP_USB3_CFG_ADDR + r"

definition usb_writes :: "'t htif_ops \<Rightarrow> (u64 \<times> u64) list \<Rightarrow> ('t, 'e, unit) hprog" where
  "usb_writes h tab = write_regs h (map (\<lambda>(r, v). (usb r, v)) tab)"

text \<open>A command is written to a command register, whose active bit then has to clear.\<close>

definition usb_command :: "'t htif_ops \<Rightarrow> nat \<Rightarrow> u64 \<Rightarrow> u64 \<Rightarrow> ('t, 'e, unit) hprog" where
  "usb_command h fuel r v =
    andThen (OURSBUS_WRITE h (usb r) v) (await_reg h fuel (usb r) (\<lambda>x. x AND 0x400 = 0))"

text \<open>The endpoints 0 to 3, each in the directions out and in, with their first parameters.\<close>

definition endpoint_sizes :: "u64 list" where
  "endpoint_sizes = [0x1000, 0x1000, 0x2006, 0x22006, 0x2004, 0x42004, 0x2002, 0x62002]"

definition configure_endpoint :: "'t htif_ops \<Rightarrow> nat \<Rightarrow> nat \<Rightarrow> ('t, 'e, unit) hprog" where
  "configure_endpoint h fuel i =
    andThen (usb_writes h [(0xc804 + of_nat i * 0x10, 0x700 + of_nat i * 0x02000000),
                           (0xc808 + of_nat i * 0x10, endpoint_sizes ! i)])
      (usb_command h fuel (0xc80c + of_nat i * 0x10) 0x401)"

definition configure_transfer :: "'t htif_ops \<Rightarrow> nat \<Rightarrow> nat \<Rightarrow> ('t, 'e, unit) hprog" where
  "configure_transfer h fuel i =
    andThen (usb_writes h [(0xc808 + of_nat i * 0x10, 1)]) (usb_command h fuel (0xc80c + of_nat i * 0x10) 0x402)"

definition usb_init :: "'t htif_ops \<Rightarrow> nat \<Rightarrow> ('t, 'e, unit) hprog" where
  "usb_init h fuel = seqM
    [usb_writes h [(0xc704, 0x40000000)],
     await_reg h fuel (usb 0xc704) (\<lambda>x. x = 0),
     usb_writes h [(0xc400, 0x80000000), (0xc404, 0), (0xc408, 0x20), (0xc40c, 0), (0xc110, 0x30c12274), (0xc100, 2)],
     bnd (flag ''usb_ss'') (\<lambda>ss. bnd (flag ''usb_fs'') (\<lambda>fs.
       usb_writes h [(0xc700, if ss then 0x00480004 else if fs then 0x00480001 else 0x00480000)])),
     usb_writes h [(0xc708, 0x43ff)],
     usb_command h fuel 0xc80c 0x409,
     forM [0..<8] (configure_endpoint h fuel),
     forM [0..<8] (configure_transfer h fuel),
     write_regs h [(0x80000000, 0), (0x80000008, 0x2300000008)],
     usb_writes h [(0xc804, 0x80000100), (0xc808, 0)],
     usb_command h fuel 0xc80c 0x406,
     usb_writes h [(0xc720, 3), (0xc704, 0x80f00000)]]"

definition reset_usb :: "'t htif_ops \<Rightarrow> nat \<Rightarrow> ('t, 'e, unit) hprog" where
  "reset_usb h fuel =
    andThen (OURSBUS_WRITE h STATION_USB_TOP_S2B_VCC_RESET_N_ADDR 1)
      (bnd (flag ''usb_init'') (\<lambda>i. if i then usb_init h fuel else ret ()))"

section \<open>The DRAM tester\<close>

text \<open>Register \<open>i\<close> of a memory of the tester that takes eight bytes each.\<close>

definition dt_slot :: "u64 \<Rightarrow> nat \<Rightarrow> u64" where
  "dt_slot base i = base + of_nat i * 8"

definition random_dram :: "'e os_ops \<Rightarrow> int \<Rightarrow> ('t, 'e, u64) hprog" where
  "random_dram os n =
    bnd (host_call (os_random os)) (\<lambda>r. ret (of_int (r mod n + 0x80000000) AND 0xffffffe0))"

definition dt_wait :: "'t htif_ops \<Rightarrow> nat \<Rightarrow> ('t, 'e, unit) hprog" where
  "dt_wait h fuel =
    andThen (await_reg h fuel STATION_DT_BUSY_ADDR (\<lambda>x. x = 1)) (await_reg h fuel STATION_DT_BUSY_ADDR (\<lambda>x. x = 0))"

text \<open>
  The error memory is read as far as the error count says; the address is computed in \<open>int\<close>, which
  overflows from the given index on.
\<close>

definition dt_errors :: "'t htif_ops \<Rightarrow> u64 \<Rightarrow> (nat \<Rightarrow> ('t, 'e, unit) hprog) \<Rightarrow> ('t, 'e, unit) hprog" where
  "dt_errors h cnt f =
    forM [0..<unat cnt] (\<lambda>i. andThen (definedM ''STATION_DT_ERAM_DATA_ADDR + (idx << 3)'' (i < 0xfe3fef8)) (f i))"

definition simple_dt :: "'t htif_ops \<Rightarrow> 'e os_ops \<Rightarrow> nat \<Rightarrow> ('t, 'e, bool) hprog" where
  "simple_dt h os fuel =
    andThen (OURSBUS_WRITE h STATION_DT_MODE_ADDR 2)
    (andThen (forM [0..<4] (\<lambda>i.
       bnd (random_dram os 0x20000000) (\<lambda>a. bnd (random64 os) (\<lambda>d.
       write_regs h
         [(dt_slot STATION_DT_PRAM_ADDR_ADDR (2 * i), a + 2), (dt_slot STATION_DT_PRAM_DATA_ADDR (2 * i), d),
          (dt_slot STATION_DT_PRAM_ADDR_ADDR (2 * i + 1), a + 1), (dt_slot STATION_DT_PRAM_DATA_ADDR (2 * i + 1), d)]))))
    (andThen (write_regs h
       [(STATION_DT_PRAM_ADDR_ADDR + 0x40, 0), (STATION_DT_PRAM_DATA_ADDR + 0x40, 0), (STATION_DT_ACTIVATE_ADDR, 1)])
    (andThen (dt_wait h fuel)
    (bnd (OURSBUS_READ_4B h STATION_DT_ERR_CNT_ADDR 0) (\<lambda>cnt.
     andThen (dt_errors h cnt (\<lambda>i.
         bnd (OURSBUS_READ_4B h (dt_slot STATION_DT_ERAM_ADDR_ADDR i) 0) (\<lambda>_.
         bnd (OURSBUS_READ_4B h (dt_slot STATION_DT_ERAM_DATA_ADDR i) 0) (\<lambda>_. ret ()))))
       (ret (cnt = 0)))))))"

text \<open>
  One pair of commands of the program memory: a write and the read that checks it. One time in ten
  the data to compare with is wrong; the four errors this makes are entered in the arrays
  \<open>err_addr\<close> and \<open>err_data\<close> of eight elements.
\<close>

definition err_enter :: "u64 \<times> u64 \<Rightarrow> (u64 \<times> u64) list \<Rightarrow> ('t, 'e, (u64 \<times> u64) list) hprog" where
  "err_enter e log = andThen (definedM ''err_addr[err_inj_cnt]'' (length log < 8)) (ret (log @ [e]))"

fun err_enter_all :: "(u64 \<times> u64) list \<Rightarrow> (u64 \<times> u64) list \<Rightarrow> ('t, 'e, (u64 \<times> u64) list) hprog" where
  "err_enter_all [] log = ret log"
| "err_enter_all (e # es) log = bnd (err_enter e log) (err_enter_all es)"

definition dt_pair :: "'t htif_ops \<Rightarrow> 'e os_ops \<Rightarrow> bool \<Rightarrow> u64 \<Rightarrow> nat \<Rightarrow> (u64 \<times> u64) list \<Rightarrow> ('t, 'e, (u64 \<times> u64) list) hprog" where
  "dt_pair h os stress base i log =
    (let wr = (if stress then i else 2 * i); rd = (if stress then i + 64 else 2 * i + 1) in
     bnd (if stress then ret (base + of_nat i * 32) else random_dram os 0x80000000) (\<lambda>a.
     bnd (random64 os) (\<lambda>d.
     bnd (host_call (os_random os)) (\<lambda>inj.
     andThen (write_regs h
       [(dt_slot STATION_DT_PRAM_ADDR_ADDR wr, a + 2), (dt_slot STATION_DT_PRAM_DATA_ADDR wr, d),
        (dt_slot STATION_DT_PRAM_ADDR_ADDR rd, a + 1)])
       (if 8 < inj mod 10 \<and> length log < 8 then
          andThen (OURSBUS_WRITE h (dt_slot STATION_DT_PRAM_DATA_ADDR rd) (d + 1))
            (err_enter_all [(a, d), (a + 1, d), (a + 2, d), (a + 3, d)] log)
        else andThen (OURSBUS_WRITE h (dt_slot STATION_DT_PRAM_DATA_ADDR rd) d) (ret log))))))"

fun dt_program :: "'t htif_ops \<Rightarrow> 'e os_ops \<Rightarrow> bool \<Rightarrow> u64 \<Rightarrow> nat list \<Rightarrow> (u64 \<times> u64) list \<Rightarrow> ('t, 'e, (u64 \<times> u64) list) hprog" where
  "dt_program h os stress base [] log = ret log"
| "dt_program h os stress base (i # is) log =
    bnd (dt_pair h os stress base i log) (dt_program h os stress base is)"

fun all_ok :: "('s, bool) prog list \<Rightarrow> ('s, bool) prog" where
  "all_ok [] = ret True"
| "all_ok (m # ms) = bnd m (\<lambda>b. bnd (all_ok ms) (\<lambda>c. ret (b \<and> c)))"

definition dt_check :: "'t htif_ops \<Rightarrow> (u64 \<times> u64) list \<Rightarrow> nat \<Rightarrow> ('t, 'e, bool) hprog" where
  "dt_check h log i =
    bnd (OURSBUS_READ_4B h (dt_slot STATION_DT_ERAM_ADDR_ADDR i) 0) (\<lambda>a.
    bnd (OURSBUS_READ_4B h (dt_slot STATION_DT_ERAM_DATA_ADDR i) 0) (\<lambda>d.
      ret (a = fst (log ! i) \<and> d = snd (log ! i) AND 0xffffffff)))"

definition idle_reads :: "'t htif_ops \<Rightarrow> nat \<Rightarrow> ('t, 'e, unit) hprog" where
  "idle_reads h n = forM [0..<n] (\<lambda>_. bnd (OURSBUS_READ_4B h STATION_DT_ACTIVATE_ADDR 0) (\<lambda>_. ret ()))"

definition pram_dt :: "'t htif_ops \<Rightarrow> 'e os_ops \<Rightarrow> nat \<Rightarrow> int \<Rightarrow> bool \<Rightarrow> ('t, 'e, bool) hprog" where
  "pram_dt h os fuel mode stress =
    bnd (random_dram os 0x80000000) (\<lambda>base.
    bnd (dt_program h os stress base [0..<64] []) (\<lambda>log.
    andThen (OURSBUS_WRITE h STATION_DT_ACTIVATE_ADDR 1)
    (andThen (if mode = 1 then andThen (idle_reads h 8000) (OURSBUS_WRITE h STATION_DT_ACTIVATE_ADDR 0) else ret ())
    (andThen (dt_wait h fuel)
    (bnd (OURSBUS_READ_4B h STATION_DT_ERR_CNT_ADDR 0) (\<lambda>cnt.
     bnd (if unat cnt = length log then all_ok (map (dt_check h log) [0..<length log]) else ret False) (\<lambda>ok.
     andThen (OURSBUS_WRITE h STATION_DT_ERR_CNT_ADDR 0) (ret ok))))))))"

text \<open>The errors of the random mode are copied into the same arrays, whatever their number.\<close>

definition lfsr_dt :: "'t htif_ops \<Rightarrow> 'e os_ops \<Rightarrow> nat \<Rightarrow> ('t, 'e, bool) hprog" where
  "lfsr_dt h os fuel =
    bnd (host_call (os_random os)) (\<lambda>p. bnd (host_call (os_random os)) (\<lambda>l.
    let poly = of_int (p mod 0x7ffffff); lfsr = of_int (l mod 0x7ffffff) in
    andThen (write_regs h
      [(STATION_DT_INIT_MSB_ADDR_ADDR, 32 - 5), (STATION_DT_INIT_MSB_DATA_ADDR, 64),
       (STATION_DT_INIT_POLY_ADDR_ADDR, poly), (STATION_DT_INIT_POLY_DATA_ADDR, poly),
       (STATION_DT_INIT_LFSR_ADDR_ADDR, lfsr), (STATION_DT_INIT_LFSR_DATA_ADDR, lfsr), (STATION_DT_ACTIVATE_ADDR, 1)])
    (andThen (idle_reads h 800)
    (andThen (OURSBUS_WRITE h STATION_DT_ACTIVATE_ADDR 0)
    (andThen (await_reg h fuel STATION_DT_BUSY_ADDR (\<lambda>x. x = 0))
    (bnd (OURSBUS_READ_4B h STATION_DT_ERR_CNT_ADDR 0) (\<lambda>cnt.
     andThen (dt_errors h cnt (\<lambda>i.
         andThen (definedM ''err_addr[idx]'' (i < 8))
           (bnd (OURSBUS_READ_4B h (dt_slot STATION_DT_ERAM_ADDR_ADDR i) 0) (\<lambda>_.
            bnd (OURSBUS_READ_4B h (dt_slot STATION_DT_ERAM_DATA_ADDR i) 0) (\<lambda>_. ret ())))))
       (ret (cnt = 0)))))))))"

definition enable_dram_tester :: "'t htif_ops \<Rightarrow> 'e os_ops \<Rightarrow> nat \<Rightarrow> ('t, 'e, bool) hprog" where
  "enable_dram_tester h os fuel =
    bnd (flag ''simple_dt'') (\<lambda>simple.
    if simple then simple_dt h os fuel
    else
      bnd (host_call (os_random os)) (\<lambda>m.
      bnd (host_call (os_random os)) (\<lambda>st.
      let mode = m mod 3 + 1 in
      andThen (OURSBUS_WRITE h STATION_DT_MODE_ADDR (of_int mode))
        (if mode = 3 then lfsr_dt h os fuel else pram_dt h os fuel mode (st mod 2 \<noteq> 0)))))"

section \<open>Peripheral registers\<close>

text \<open>The version registers and the values they are expected to have.\<close>

definition io_versions :: "(u64 \<times> u64) list" where
  "io_versions =
    [(STATION_SLOW_IO_QSPIM_BLOCK_REG_ADDR + 0x5c, 0x3430322a),
     (STATION_SLOW_IO_SSPIM0_BLOCK_REG_ADDR + 0x5c, 0x3430312a),
     (STATION_SLOW_IO_SSPIM1_BLOCK_REG_ADDR + 0x5c, 0x3430312a),
     (STATION_SLOW_IO_SSPIM2_BLOCK_REG_ADDR + 0x5c, 0x3430312a),
     (STATION_SLOW_IO_SPIS_BLOCK_REG_ADDR + 0x5c, 0x3430312a),
     (STATION_SLOW_IO_UART0_BLOCK_REG_ADDR + 0xf8, 0x3430312a),
     (STATION_SLOW_IO_UART1_BLOCK_REG_ADDR + 0xf8, 0x3430312a),
     (STATION_SLOW_IO_UART2_BLOCK_REG_ADDR + 0xf8, 0x3430312a),
     (STATION_SLOW_IO_UART3_BLOCK_REG_ADDR + 0xf8, 0x3430312a),
     (STATION_SLOW_IO_I2SM_BLOCK_REG_ADDR + 0x1f8, 0x3131302a),
     (STATION_SLOW_IO_I2SS0_BLOCK_REG_ADDR + 0x1f8, 0x3131302a),
     (STATION_SLOW_IO_I2SS1_BLOCK_REG_ADDR + 0x1f8, 0x3131302a),
     (STATION_SLOW_IO_I2SS2_BLOCK_REG_ADDR + 0x1f8, 0x3131302a),
     (STATION_SLOW_IO_I2SS3_BLOCK_REG_ADDR + 0x1f8, 0x3131302a),
     (STATION_SLOW_IO_I2SS4_BLOCK_REG_ADDR + 0x1f8, 0x3131302a),
     (STATION_SLOW_IO_I2SS5_BLOCK_REG_ADDR + 0x1f8, 0x3131302a),
     (STATION_SLOW_IO_I2C0_BLOCK_REG_ADDR + 0xf8, 0x3230312a),
     (STATION_SLOW_IO_I2C1_BLOCK_REG_ADDR + 0xf8, 0x3230312a),
     (STATION_SLOW_IO_I2C2_BLOCK_REG_ADDR + 0xf8, 0x3230312a),
     (STATION_SLOW_IO_GPIO_BLOCK_REG_ADDR + 0x6c, 0x3231322a),
     (STATION_SLOW_IO_RTC_BLOCK_REG_ADDR + 0x1c, 0x3230362a),
     (STATION_SLOW_IO_TIMERS_BLOCK_REG_ADDR + 0xac, 0x3231312a),
     (STATION_SLOW_IO_WDT_BLOCK_REG_ADDR + 0xf8, 0x3131302a)]"

definition check_version :: "'t htif_ops \<Rightarrow> u64 \<times> u64 \<Rightarrow> ('t, 'e, bool) hprog" where
  "check_version h = (\<lambda>(a, v). bnd (OURSBUS_READ_4B h a 0) (\<lambda>x. ret (x = v)))"

definition random_word :: "'e os_ops \<Rightarrow> ('t, 'e, u64) hprog" where
  "random_word os = bnd (host_call (os_random os)) (\<lambda>r. ret (of_int r))"

text \<open>A random word is written to a register and the selected bits compared.\<close>

definition check_register :: "'t htif_ops \<Rightarrow> u64 \<Rightarrow> u64 \<Rightarrow> u64 \<Rightarrow> ('t, 'e, bool) hprog" where
  "check_register h a bits wdata =
    andThen (OURSBUS_WRITE h a wdata)
      (bnd (OURSBUS_READ_4B h a 0) (\<lambda>x. ret (x AND bits = wdata AND bits)))"

text \<open>The same with the old value put back.\<close>

definition check_restore :: "'t htif_ops \<Rightarrow> u64 \<Rightarrow> u64 \<Rightarrow> u64 \<Rightarrow> ('t, 'e, bool) hprog" where
  "check_restore h a bits wdata =
    bnd (OURSBUS_READ_4B h a 0) (\<lambda>orig.
    bnd (check_register h a bits wdata) (\<lambda>ok. andThen (OURSBUS_WRITE h a orig) (ret ok)))"

definition io_test_usb :: "'t htif_ops \<Rightarrow> 'e os_ops \<Rightarrow> ('t, 'e, bool) hprog" where
  "io_test_usb h os =
    andThen (OURSBUS_WRITE h STATION_USB_TOP_S2B_VCC_RESET_N_ADDR 1)
    (bnd (check_version h (usb 0xc128, 0x12345678)) (\<lambda>b.
     bnd (random_word os) (\<lambda>w.
     andThen (OURSBUS_WRITE h (usb 0xc128) w)
       (bnd (OURSBUS_READ_4B h (usb 0xc128) 0) (\<lambda>x. ret (b \<and> x = w))))))"

definition phy_sram :: "'t htif_ops \<Rightarrow> 'e os_ops \<Rightarrow> u64 \<Rightarrow> int \<Rightarrow> ('t, 'e, bool) hprog" where
  "phy_sram h os base n =
    bnd (random_word os) (\<lambda>w.
    bnd (host_call (os_random os)) (\<lambda>r.
    let a = phy base + push_bit 2 (of_int (r mod n)) in
    andThen (OURSBUS_WRITE h a w) (bnd (OURSBUS_READ_4B h a 0) (\<lambda>x. ret (x = w AND 0xffff)))))"

definition read_mode_register :: "'t htif_ops \<Rightarrow> nat \<Rightarrow> u64 \<Rightarrow> u64 \<Rightarrow> ('t, 'e, bool) hprog" where
  "read_mode_register h fuel mr want =
    andThen (ctl_writes h [(0x14, mr), (0x10, 0x11), (0x10, 0x80000011)])
    (andThen (await_reg h fuel (uctrl 0x18) (\<lambda>x. x AND 1 = 0))
    (andThen (await_reg h fuel STATION_DDR_TOP_B2S_RD_MRR_DATA_VALID_ADDR (\<lambda>x. x = 1))
    (bnd (OURSBUS_READ h STATION_DDR_TOP_B2S_RD_MRR_DATA_ADDR 0) (\<lambda>x.
     andThen (OURSBUS_WRITE h STATION_DDR_TOP_B2S_RD_MRR_DATA_VALID_ADDR 0) (ret (x AND 0xff = want))))))"

definition io_test_ddr :: "'t htif_ops \<Rightarrow> 'e os_ops \<Rightarrow> nat \<Rightarrow> ('t, 'e, bool) hprog" where
  "io_test_ddr h os fuel =
    andThen (phy_writes h [(0xd0000, 0), (0xc0080, 7)])
    (bnd (OURSBUS_READ_4B h (phy 0xd0099) 0) (\<lambda>orig.
     andThen (OURSBUS_WRITE h (phy 0xd0099) (orig OR 1))
     (bnd (host_call (os_random os)) (\<lambda>r.
      bnd (random_word os) (\<lambda>w.
      bnd (if r mod 3 = 0 then check_restore h (uctrl 0x30) 0x1ef w
           else if r mod 3 = 1 then check_restore h (uctrl 0x490) 1 w
           else check_restore h (uctrl 0x2050) 0xf1f3f0 w) (\<lambda>b1.
      bnd (host_call (os_random os)) (\<lambda>i.
      bnd (random_word os) (\<lambda>w'.
      bnd (check_restore h (phy 0x100d0 + push_bit 2 (of_int (i mod 2) * 0x1000)) 0xf w') (\<lambda>b2.
      bnd (all_ok [phy_sram h os 0x50000 0x3ff8, phy_sram h os 0x54000 0x400]) (\<lambda>b3.
      andThen (phy_writes h [(0xd0099, 1), (0xd0000, 1)])
        (bnd (all_ok [read_mode_register h fuel 0x500 0xff, read_mode_register h fuel 0x600 0]) (\<lambda>b4.
         ret (b1 \<and> b2 \<and> b3 \<and> b4)))))))))))))"

definition io_test_sdio :: "'t htif_ops \<Rightarrow> 'e os_ops \<Rightarrow> ('t, 'e, bool) hprog" where
  "io_test_sdio h os =
    bnd (random_word os) (\<lambda>w. check_register h (STATION_SDIO_MSHC_CTRL_ADDR + 0x34) 0xff w)"

definition io_reg_test :: "'t htif_ops \<Rightarrow> 'e os_ops \<Rightarrow> nat \<Rightarrow> ('t, 'e, bool) hprog" where
  "io_reg_test h os fuel =
    all_ok
      (map (check_version h) io_versions
       @ [bnd (flag ''reset_usb'') (\<lambda>f. if f then io_test_usb h os else ret True),
          bnd (flag ''reset_ddr'') (\<lambda>f. if f then io_test_ddr h os fuel else ret True),
          bnd (flag ''reset_sdio'') (\<lambda>f. if f then io_test_sdio h os else ret True)])"

end
