(* ===== verification/Sdio.thy ===== *)
theory Sdio
  imports Htif
begin

text \<open>
  The initialisation of the SD host controller, \<open>sdio_init.cc\<close>: the accesses to single bits and bit
  fields, and the sequences built from them. Loops take \<open>fuel\<close>, the number of rounds they may make.
\<close>

section \<open>Bits and fields\<close>

text \<open>
  The macro \<open>MASK\<close>. Shifting a 32-bit value by 32 or more is undefined, so it has a value only for
  \<open>n < 32\<close> and \<open>1 \<le> m \<le> 32\<close>.
\<close>

definition MASK :: "nat \<Rightarrow> nat \<Rightarrow> ('s, u32) prog" where
  "MASK n m =
    andThen (definedM ''shift in MASK'' (n < 32 \<and> 1 \<le> m \<and> m \<le> 32))
      (ret (drop_bit (31 - n) (-1) AND push_bit (32 - m) (-1)))"

text \<open>A single bit is an \<open>int\<close>, so bit 31 would bring the bits above it with it.\<close>

definition nth_bit :: "nat \<Rightarrow> u64" where
  "nth_bit p = scast (push_bit p 1 :: u32)"

definition clear_nth_bit :: "'t htif_ops \<Rightarrow> u64 \<Rightarrow> nat \<Rightarrow> ('t, 'e, unit) hprog" where
  "clear_nth_bit h a p =
    bnd (OURSBUS_READ_4B h a 0) (\<lambda>data. OURSBUS_WRITE h a (data AND NOT (nth_bit p)))"

definition set_nth_bit :: "'t htif_ops \<Rightarrow> u64 \<Rightarrow> nat \<Rightarrow> ('t, 'e, unit) hprog" where
  "set_nth_bit h a p =
    bnd (OURSBUS_READ_4B h a 0) (\<lambda>data. OURSBUS_WRITE h a (data OR nth_bit p))"

definition set_n_bits :: "'t htif_ops \<Rightarrow> u64 \<Rightarrow> nat \<Rightarrow> nat \<Rightarrow> ('t, 'e, unit) hprog" where
  "set_n_bits h a n m =
    bnd (OURSBUS_READ_4B h a 0) (\<lambda>data.
    bnd (MASK n m) (\<lambda>bits. OURSBUS_WRITE h a (data OR ucast bits)))"

definition clear_n_bits :: "'t htif_ops \<Rightarrow> u64 \<Rightarrow> nat \<Rightarrow> nat \<Rightarrow> ('t, 'e, unit) hprog" where
  "clear_n_bits h a n m =
    bnd (OURSBUS_READ_4B h a 0) (\<lambda>data.
    bnd (MASK n m) (\<lambda>bits. OURSBUS_WRITE h a (data AND ucast (NOT bits))))"

definition nth_bit_set :: "'t htif_ops \<Rightarrow> u64 \<Rightarrow> nat \<Rightarrow> ('t, 'e, bool) hprog" where
  "nth_bit_set h a p =
    bnd (OURSBUS_READ_4B h a 0) (\<lambda>data. let b = ucast (push_bit p 1 :: u32) in ret (data AND b = b))"

definition n_bits_nonzero :: "'t htif_ops \<Rightarrow> u64 \<Rightarrow> nat \<Rightarrow> nat \<Rightarrow> ('t, 'e, bool) hprog" where
  "n_bits_nonzero h a n m =
    bnd (OURSBUS_READ_4B h a 0) (\<lambda>data. bnd (MASK n m) (\<lambda>bits. ret (data AND ucast bits \<noteq> 0)))"

definition get_n_bits :: "'t htif_ops \<Rightarrow> u64 \<Rightarrow> nat \<Rightarrow> nat \<Rightarrow> ('t, 'e, u32) hprog" where
  "get_n_bits h a n m =
    bnd (OURSBUS_READ_4B h a 0) (\<lambda>data.
    bnd (MASK n m) (\<lambda>bits. ret (ucast (drop_bit m (data AND ucast bits)))))"

section \<open>Sequences\<close>

definition card_insertion_chk :: "'t htif_ops \<Rightarrow> u64 \<Rightarrow> ('t, 'e, bool) hprog" where
  "card_insertion_chk h hdr = nth_bit_set h (hdr + 0x24) 16"

definition card_detection :: "'t htif_ops \<Rightarrow> u64 \<Rightarrow> ('t, 'e, unit) hprog" where
  "card_detection h hdr = seqM
    [set_nth_bit h (hdr + 0x34) 6, set_nth_bit h (hdr + 0x38) 6,
     set_nth_bit h (hdr + 0x34) 7, set_nth_bit h (hdr + 0x38) 7,
     bnd (nth_bit_set h (hdr + 0x30) 6) (\<lambda>inserted.
       if inserted then set_nth_bit h (hdr + 0x30) 6
       else bnd (nth_bit_set h (hdr + 0x30) 7) (\<lambda>removed.
         if removed then set_nth_bit h (hdr + 0x30) 7 else ret ())),
     bnd (card_insertion_chk h hdr) (\<lambda>_. ret ())]"

definition host_controller_setup_sequence :: "'t htif_ops \<Rightarrow> u64 \<Rightarrow> ('t, 'e, unit) hprog" where
  "host_controller_setup_sequence h hdr = seqM
    [set_n_bits h (hdr + 0x29) 3 0,
     set_nth_bit h (hdr + 0x2e) 3, set_nth_bit h (hdr + 0x2e) 1,
     bnd (get_n_bits h (hdr + 0xfe) 7 0) (\<lambda>version.
       if version < 3 then ret ()
       else bnd (nth_bit_set h (hdr + 0x3e) 15) (\<lambda>preset.
         if preset then set_nth_bit h (hdr + 0x3e) 15 else ret ())),
     set_nth_bit h (hdr + 0x3e) 1,
     bnd (nth_bit_set h (hdr + 0x40) 27) (\<lambda>wide. if wide then set_nth_bit h (hdr + 0x3e) 13 else ret ()),
     bnd (nth_bit_set h (hdr + 0x44) 3) (\<lambda>uhs2.
       bnd (if uhs2 then nth_bit_set h (hdr + 0x44) 28 else ret False) (\<lambda>vdd2.
         if vdd2 then set_n_bits h (hdr + 0x29) 7 5 else ret ())),
     set_nth_bit h (hdr + 0x3e) 15, set_nth_bit h (hdr + 0x3e) 8, set_n_bits h (hdr + 0x3e) 2 0,
     set_nth_bit h (hdr + 0x3e) 3,
     bnd (get_n_bits h (hdr + 0x40) 5 0) (\<lambda>_. ret ()), bnd (get_n_bits h (hdr + 0x40) 7 7) (\<lambda>_. ret ()),
     bnd (nth_bit_set h (hdr + 0x40) 29) (\<lambda>async. if async then set_nth_bit h (hdr + 0x3e) 14 else ret ())]"

text \<open>The choice of the clock generator, with the field that says whether there is a base clock.\<close>

definition clock_mode :: "'t htif_ops \<Rightarrow> u64 \<Rightarrow> nat \<Rightarrow> nat \<Rightarrow> ('t, 'e, unit) hprog" where
  "clock_mode h hdr n m =
    bnd (n_bits_nonzero h (hdr + 0x44) 23 16) (\<lambda>mul.
    bnd (if mul then n_bits_nonzero h (hdr + 0x40) n m else ret True) (\<lambda>programmable.
    andThen (set_n_bits h (hdr + 0x2c) 15 8)
      (if programmable then set_nth_bit h (hdr + 0x2c) 5 else clear_nth_bit h (hdr + 0x2c) 5)))"

definition host_controller_clock_setup_sequence :: "'t htif_ops \<Rightarrow> u64 \<Rightarrow> ('t, 'e, unit) hprog" where
  "host_controller_clock_setup_sequence h hdr =
    andThen (clock_mode h hdr 15 8) (set_nth_bit h (hdr + 0x2c) 0)"

definition card_clock_supply_sequence :: "'t htif_ops \<Rightarrow> u64 \<Rightarrow> ('t, 'e, unit) hprog" where
  "card_clock_supply_sequence h hdr = set_nth_bit h (hdr + 0x2c) 2"

definition card_clock_stop_sequence :: "'t htif_ops \<Rightarrow> u64 \<Rightarrow> ('t, 'e, unit) hprog" where
  "card_clock_stop_sequence h hdr = clear_nth_bit h (hdr + 0x2c) 2"

definition clock_frequency_change_sequence :: "'t htif_ops \<Rightarrow> u64 \<Rightarrow> ('t, 'e, unit) hprog" where
  "clock_frequency_change_sequence h hdr = seqM
    [card_clock_stop_sequence h hdr,
     clear_nth_bit h (hdr + 0x2c) 3,
     bnd (nth_bit_set h (hdr + 0x3e) 15) (\<lambda>preset.
       if preset then set_n_bits h (hdr + 0x3e) 2 0 else clock_mode h hdr 15 18),
     set_nth_bit h (hdr + 0x2c) 3]"

definition card_interface_detection :: "'t htif_ops \<Rightarrow> u64 \<Rightarrow> ('t, 'e, unit) hprog" where
  "card_interface_detection h hdr =
    bnd (nth_bit_set h (hdr + 0x44) 3) (\<lambda>uhs2.
    if uhs2 then ret ()
    else seqM
      [clear_nth_bit h (hdr + 0x3e) 8, clear_n_bits h (hdr + 0x3e) 2 0, set_nth_bit h (hdr + 0x29) 0,
       card_clock_supply_sequence h hdr])"

text \<open>The tuning loop goes round while the buffer is ready or the tuning runs.\<close>

definition tuning_round :: "'t htif_ops \<Rightarrow> u64 \<Rightarrow> ('t, 'e, bool) hprog" where
  "tuning_round h hdr =
    bnd (nth_bit_set h (hdr + 0x30) 5) (\<lambda>ready.
    if ready then ret False
    else andThen (clear_nth_bit h (hdr + 0x30) 5)
      (bnd (nth_bit_set h (hdr + 0x3e) 6) (\<lambda>tuning. ret (\<not> tuning))))"

definition tuning_sequence :: "'t htif_ops \<Rightarrow> nat \<Rightarrow> u64 \<Rightarrow> ('t, 'e, bool) hprog" where
  "tuning_sequence h fuel hdr =
    andThen (set_nth_bit h (hdr + 0x3e) 6)
      (bnd (poll fuel (tuning_round h hdr) (\<lambda>over. over)) (\<lambda>_. nth_bit_set h (hdr + 0x3e) 7))"

definition mode1_retuning_flow_sequence :: "'t htif_ops \<Rightarrow> nat \<Rightarrow> u64 \<Rightarrow> ('t, 'e, unit) hprog" where
  "mode1_retuning_flow_sequence h fuel hdr =
    bnd (poll fuel
        (bnd (nth_bit_set h (hdr + 0x3e) 7) (\<lambda>sel. if sel then tuning_sequence h fuel hdr else ret True))
        (\<lambda>over. over)) (\<lambda>_. ret ())"

definition auto_tuning_sequence :: "'t htif_ops \<Rightarrow> nat \<Rightarrow> u64 \<Rightarrow> ('t, 'e, unit) hprog" where
  "auto_tuning_sequence h fuel hdr = bnd (poll fuel (tuning_sequence h fuel hdr) (\<lambda>ok. \<not> ok)) (\<lambda>_. ret ())"

text \<open>
  \<open>software_tuning_sequence\<close> passes an uninitialised variable as the position of the last bit and
  then loops without an end.
\<close>

definition software_tuning_sequence :: "'t htif_ops \<Rightarrow> u64 \<Rightarrow> ('t, 'e, unit) hprog" where
  "software_tuning_sequence h hdr = seqM
    [clear_nth_bit h (hdr + 0x2c) 2, clear_nth_bit h (hdr + 0x3e) 7, set_nth_bit h (hdr + 0x40) 4,
     clear_n_bits h (hdr + 0x44) 7 0, raise (Undefined ''data'')]"

definition bus_timing_setting :: "'t htif_ops \<Rightarrow> u64 \<Rightarrow> ('t, 'e, unit) hprog" where
  "bus_timing_setting h hdr = seqM
    [bnd (get_n_bits h (hdr + 0x40) 5 0) (\<lambda>_. ret ()), bnd (get_n_bits h (hdr + 0x40) 7 7) (\<lambda>_. ret ()),
     bnd (OURSBUS_READ_4B h (hdr + 0x2e) 0) (OURSBUS_WRITE h (hdr + 0x2e))]"

definition sdio_init :: "'t htif_ops \<Rightarrow> ('t, 'e, unit) hprog" where
  "sdio_init h =
    (let hdr = STATION_SDIO_MSHC_CTRL_ADDR in seqM
      [bnd (card_insertion_chk h hdr) (\<lambda>inserted. if inserted then ret () else card_detection h hdr),
       host_controller_setup_sequence h hdr,
       host_controller_clock_setup_sequence h hdr,
       card_interface_detection h hdr])"

section \<open>What the initialisation does\<close>

text \<open>Operations that always return, and operations that always end with the same fault.\<close>

definition returns :: "('s, 'a) prog \<Rightarrow> bool" where
  "returns m \<longleftrightarrow> (\<forall>s. \<exists>x s'. m s = (Inr x, s'))"

definition fails :: "fault \<Rightarrow> ('s, 'a) prog \<Rightarrow> bool" where
  "fails e m \<longleftrightarrow> (\<forall>s. \<exists>s'. m s = (Inl e, s'))"

lemma returns_ret [intro, simp]: "returns (ret x)"
  by (simp add: returns_def)

lemma returns_bnd [intro]: "returns m \<Longrightarrow> (\<And>x. returns (f x)) \<Longrightarrow> returns (bnd m f)"
  unfolding returns_def by (metis bnd_Inr)

lemma returns_andThen [intro]: "returns m \<Longrightarrow> returns n \<Longrightarrow> returns (andThen m n)"
  unfolding andThen_def by (rule returns_bnd)

lemma returns_if [intro]: "returns m \<Longrightarrow> returns n \<Longrightarrow> returns (if b then m else n)"
  by simp

lemma fails_first: "fails e m \<Longrightarrow> fails e (bnd m f)"
  unfolding fails_def by (metis bnd_Inl)

lemma fails_later: "returns m \<Longrightarrow> (\<And>x. fails e (f x)) \<Longrightarrow> fails e (bnd m f)"
  unfolding fails_def returns_def by (metis bnd_Inr)

lemma fails_seqM_first: "fails e m \<Longrightarrow> fails e (seqM (m # ms))"
  by (simp add: andThen_def fails_first)

lemma fails_seqM_later: "returns m \<Longrightarrow> fails e (seqM ms) \<Longrightarrow> fails e (seqM (m # ms))"
  by (simp add: andThen_def fails_later)

text \<open>A target that answers every access to a register below memory.\<close>

definition responsive :: "'t htif_ops \<Rightarrow> bool" where
  "responsive h \<longleftrightarrow> (\<forall>a < 0x80000000.
      returns (memif_read h a (replicate 4 0) DMA) \<and> (\<forall>bs. length bs = 8 \<longrightarrow> returns (memif_write h a bs DMA)))"

lemma returns_on_mem: "returns m \<Longrightarrow> returns (on_mem m)"
  unfolding returns_def by (metis on_mem_ok)

lemma responsive_read: "responsive h \<Longrightarrow> a < 0x80000000 \<Longrightarrow> returns (OURSBUS_READ_4B h a x)"
  unfolding OURSBUS_READ_4B_def ht_read_def
  by (rule returns_bnd) (simp_all add: responsive_def returns_on_mem)

lemma responsive_write: "responsive h \<Longrightarrow> a < 0x80000000 \<Longrightarrow> returns (OURSBUS_WRITE h a v)"
  unfolding OURSBUS_WRITE_bytes ht_write_def by (simp add: responsive_def returns_on_mem)

lemma returns_set_nth_bit: "responsive h \<Longrightarrow> a < 0x80000000 \<Longrightarrow> returns (set_nth_bit h a p)"
  unfolding set_nth_bit_def by (intro returns_bnd responsive_read responsive_write)

lemma returns_nth_bit_set: "responsive h \<Longrightarrow> a < 0x80000000 \<Longrightarrow> returns (nth_bit_set h a p)"
  unfolding nth_bit_set_def Let_def by (intro returns_bnd responsive_read returns_ret)

lemma returns_card_insertion_chk: "responsive h \<Longrightarrow> hdr + 0x24 < 0x80000000 \<Longrightarrow> returns (card_insertion_chk h hdr)"
  unfolding card_insertion_chk_def by (rule returns_nth_bit_set)

lemma returns_card_detection: "responsive h \<Longrightarrow> returns (card_detection h STATION_SDIO_MSHC_CTRL_ADDR)"
  unfolding card_detection_def seqM.simps
  by (intro returns_andThen returns_bnd returns_if returns_ret returns_set_nth_bit returns_nth_bit_set
      returns_card_insertion_chk) (simp_all add: station_defs)

text \<open>
  The macro \<open>MASK(n, m)\<close> gives the bits from \<open>m\<close> to \<open>n\<close> only for \<open>m = 16\<close>. It keeps the bits
  from \<open>32 - m\<close> up where it means those from \<open>m\<close> up, and shifts by the whole width for \<open>m = 0\<close>.
\<close>

theorem field_mask_needs_16:
  assumes "m \<le> n" and "n < 32"
  shows "(\<exists>w. MASK n m s = (Inr w, s) \<and> (\<forall>i. bit w i \<longleftrightarrow> m \<le> i \<and> i \<le> n)) \<longleftrightarrow> m = 16"
proof (cases "m = 0")
  case True
  then show ?thesis by (simp add: MASK_def andThen_def bnd_def)
next
  case False
  let ?w = "drop_bit (31 - n) (-1) AND push_bit (32 - m) (-1) :: u32"
  have w: "bit ?w i \<longleftrightarrow> 32 - m \<le> i \<and> i \<le> n" for i
    using assms by (auto simp: bit_simps)
  have "MASK n m s = (Inr ?w, s)"
    using assms False by (simp add: MASK_def)
  moreover have "(\<forall>i. bit ?w i \<longleftrightarrow> m \<le> i \<and> i \<le> n) \<longleftrightarrow> m = 16"
  proof
    assume a: "\<forall>i. bit ?w i \<longleftrightarrow> m \<le> i \<and> i \<le> n"
    have "32 - m \<le> m"
      using a [rule_format, of m] w [of m] assms by simp
    moreover have "\<not> 32 - m < m"
      using a [rule_format, of "32 - m"] w [of "32 - m"] assms by auto
    ultimately show "m = 16"
      using assms by linarith
  next
    assume "m = 16"
    then show "\<forall>i. bit ?w i \<longleftrightarrow> m \<le> i \<and> i \<le> n"
      unfolding w by simp
  qed
  ultimately show ?thesis by simp
qed

theorem field_mask_needs_16_witness:
  "(\<exists>w. MASK 15 8 () = (Inr w, ()) \<and> (\<forall>i. bit w i \<longleftrightarrow> 8 \<le> i \<and> i \<le> 15)) \<longleftrightarrow> 8 = (16 :: nat)"
  by (rule field_mask_needs_16) simp_all

text \<open>
  C39: \<open>sdio_init\<close> always runs into undefined behaviour. On a target that answers every register
  access, and whatever the registers hold, it gets as far as the supply voltage field of the setup
  sequence, bits 3 to 0, whose mask shifts a 32-bit value by 32.
\<close>

theorem sdio_init_undefined:
  fixes s :: "('t, 'e) htif"
  assumes "responsive h"
  shows "\<exists>s'. sdio_init h s = (Inl (Undefined ''shift in MASK''), s')"
proof -
  let ?e = "Undefined ''shift in MASK''" and ?hdr = STATION_SDIO_MSHC_CTRL_ADDR
  have "fails ?e (set_n_bits h (?hdr + 0x29) 3 0)"
    unfolding set_n_bits_def MASK_def
    by (intro fails_later responsive_read assms fails_first) (simp_all add: station_defs fails_def andThen_def bnd_def)
  then have "fails ?e (host_controller_setup_sequence h ?hdr)"
    unfolding host_controller_setup_sequence_def by (rule fails_seqM_first)
  moreover have "returns (bnd (card_insertion_chk h ?hdr)
      (\<lambda>inserted. if inserted then ret () else card_detection h ?hdr))"
    by (intro returns_bnd returns_if returns_ret returns_card_insertion_chk returns_card_detection assms)
      (simp add: station_defs)
  ultimately have "fails ?e (sdio_init h :: ('t, 'e, unit) hprog)"
    unfolding sdio_init_def Let_def by (intro fails_seqM_later fails_seqM_first)
  then show ?thesis by (simp add: fails_def)
qed

lemma ideal_is_responsive: "responsive ideal"
proof -
  have "returns (memif_read ideal a (replicate 4 0) DMA) \<and> (\<forall>bs. length bs = 8 \<longrightarrow> returns (memif_write ideal a bs DMA))"
    if "a < 0x80000000" for a
  proof -
    have "\<not> 0x80000000 \<le> a" using that by simp
    then show ?thesis
      by (auto simp: memif_read_def memif_write_def write_middle_def ideal_def read_blocks.simps write_blocks.simps
          returns_def bnd_def andThen_def)
  qed
  then show ?thesis by (simp add: responsive_def)
qed

theorem sdio_init_undefined_witness:
  "\<exists>s'. sdio_init ideal (answering [] (one_word STATION_SDIO_MSHC_CTRL_ADDR 0x10000))
    = (Inl (Undefined ''shift in MASK''), s')"
  by (rule sdio_init_undefined) (rule ideal_is_responsive)

end
