(* ===== verification/Boot.thy ===== *)
theory Boot
  imports Images Peripherals Sdio
begin

text \<open>
  The project \<open>es1y\<close>: the table of boot steps that its constructor builds, the keys it registers, and
  \<open>setup\<close>, which runs the steps.
\<close>

section \<open>The table\<close>

text \<open>
  What the steps work with: the target, the host, the external tools, the fuel of the loops that
  wait, the training tables, and the prefix under which program files are searched.
\<close>

record ('t, 'e) boot_env =
  be_target :: "'t htif_ops"
  be_host :: "'e host_ops"
  be_tools :: "'e tool_ops"
  be_fuel :: nat
  be_prefix :: string

definition quietly :: "('s, 'a) prog \<Rightarrow> ('s, unit) prog" where
  "quietly m = bnd m (\<lambda>_. ret ())"

definition boot_sequence :: "('t, 'e) boot_env \<Rightarrow> (string \<times> ('t, 'e, unit) hprog) list" where
  "boot_sequence b =
    (let h = be_target b; ho = be_host b; os = ho_os ho; tool = be_tools b; fuel = be_fuel b;
         prefix = be_prefix b in
     [(''incr_test_io_freq='', incr_test_io_freq h), (''chip_config='', chip_config h),
      (''io_test'', quietly (io_test h)), (''program_pll='', bnd (arg ''program_pll='') (program_pll h tool)),
      (''sram_ddr'', sram_ddr h), (''reset_ddr'', reset_ddr h fuel),
      (''enable_dram_tester'', quietly (enable_dram_tester h os fuel)), (''config_l1='', config_l1 h),
      (''config_l2='', config_l2 h os), (''release_bank0_reset'', release_bank0_reset h fuel),
      (''release_bank1_reset'', release_bank1_reset h fuel),
      (''release_bank2_reset'', release_bank2_reset h fuel),
      (''release_bank3_reset'', release_bank3_reset h fuel),
      (''release_l2_reset'', release_reset_for_l2 h fuel), (''reset_usb'', reset_usb h fuel),
      (''reset_sdio'', reset_sdio h fuel), (''sdio_init'', sdio_init h),
      (''io_reg_test'', quietly (io_reg_test h os fuel)), (''enable_boot_fsm'', enable_boot_fsm h),
      (''test_l2'', test_l2), (''set_0_to_bank0_vldram'', set_0_to_bank0_vldram h),
      (''set_0_to_bank1_vldram'', set_0_to_bank1_vldram h),
      (''set_0_to_bank2_vldram'', set_0_to_bank2_vldram h),
      (''set_0_to_bank3_vldram'', set_0_to_bank3_vldram h), (''set_0_to_l2_vldram'', set_0_to_l2_vldram h),
      (''release_orv32_early_reset'', release_orv32_early_reset h),
      (''release_vp0_early_reset'', release_vp0_early_reset h),
      (''release_vp1_early_reset'', release_vp1_early_reset h),
      (''release_vp2_early_reset'', release_vp2_early_reset h),
      (''release_vp3_early_reset'', release_vp3_early_reset h),
      (''release_all_early_reset'', release_all_early_reset h), (''test_l1'', test_l1),
      (''set_0_to_orv32_l1_tagram'', set_0_to_orv32_l1_tagram h os),
      (''set_0_to_vp0_l1_tagram'', set_0_to_vp0_l1_tagram h os),
      (''set_0_to_vp1_l1_tagram'', set_0_to_vp1_l1_tagram h os),
      (''set_0_to_vp2_l1_tagram'', set_0_to_vp2_l1_tagram h os),
      (''set_0_to_vp3_l1_tagram'', set_0_to_vp3_l1_tagram h os),
      (''set_0_to_l1_tagram'', set_0_to_l1_tagram h os), (''l1_warmup'', warmup_l1_cache h),
      (''load_pk'', load_kernel h ho prefix), (''load_image='', load_image h ho),
      (''load_weight='', load_weight h ho), (''alloc_sp='', alloc_stack h),
      (''set_magic_mem'', set_magic_mem_address h fuel), (''set_orv32_rst_pc='', set_orv32_reset_pc h),
      (''set_vp0_rst_pc='', set_vp0_reset_pc h), (''set_vp1_rst_pc='', set_vp1_reset_pc h),
      (''set_vp2_rst_pc='', set_vp2_reset_pc h), (''set_vp3_rst_pc='', set_vp3_reset_pc h),
      (''set_all_vp_rst_pc='', set_all_vp_reset_pc h), (''load_rom'', load_rom h tool),
      (''dump_l2_after_loading='', quietly (dump_l2_after_loading h)), (''mem_test='', mem_test h ho),
      (''release_vp0_reset'', release_vp0_reset h os), (''release_vp1_reset'', release_vp1_reset h os),
      (''release_vp2_reset'', release_vp2_reset h os), (''release_vp3_reset'', release_vp3_reset h os),
      (''release_all_vp_reset'', release_all_vp_reset h os), (''enable_flash_fsm'', enable_flash_fsm h),
      (''release_orv32_reset'', release_orv32_reset h os), (''trigger_afterwards'', trigger_afterwards h),
      (''read_from_flash'', quietly (read_from_flash h))])"

text \<open>The keys of the table and the options that other steps look at.\<close>

definition boot_keys :: "string list" where
  "boot_keys =
    [''incr_test_io_freq='', ''chip_config='', ''io_test'', ''program_pll='', ''sram_ddr'', ''reset_ddr'',
     ''enable_dram_tester'', ''config_l1='', ''config_l2='', ''release_bank0_reset'', ''release_bank1_reset'',
     ''release_bank2_reset'', ''release_bank3_reset'', ''release_l2_reset'', ''reset_usb'', ''reset_sdio'',
     ''sdio_init'', ''io_reg_test'', ''enable_boot_fsm'', ''test_l2'', ''set_0_to_bank0_vldram'',
     ''set_0_to_bank1_vldram'', ''set_0_to_bank2_vldram'', ''set_0_to_bank3_vldram'', ''set_0_to_l2_vldram'',
     ''release_orv32_early_reset'', ''release_vp0_early_reset'', ''release_vp1_early_reset'',
     ''release_vp2_early_reset'', ''release_vp3_early_reset'', ''release_all_early_reset'', ''test_l1'',
     ''set_0_to_orv32_l1_tagram'', ''set_0_to_vp0_l1_tagram'', ''set_0_to_vp1_l1_tagram'',
     ''set_0_to_vp2_l1_tagram'', ''set_0_to_vp3_l1_tagram'', ''set_0_to_l1_tagram'', ''l1_warmup'',
     ''load_pk'', ''load_image='', ''load_weight='', ''alloc_sp='', ''set_magic_mem'', ''set_orv32_rst_pc='',
     ''set_vp0_rst_pc='', ''set_vp1_rst_pc='', ''set_vp2_rst_pc='', ''set_vp3_rst_pc='',
     ''set_all_vp_rst_pc='', ''load_rom'', ''dump_l2_after_loading='', ''mem_test='', ''release_vp0_reset'',
     ''release_vp1_reset'', ''release_vp2_reset'', ''release_vp3_reset'', ''release_all_vp_reset'',
     ''enable_flash_fsm'', ''release_orv32_reset'', ''trigger_afterwards'', ''read_from_flash'']"

definition option_keys :: "string list" where
  "option_keys =
    [''use_avery'', ''ddr_bypass'', ''ddr_train_1d'', ''freeze'', ''test_bp='', ''bp_pc='',
     ''background_traffic'', ''disable_pc_chk'', ''usb_ss'', ''usb_fs'', ''usb_init'', ''snapshot'',
     ''plic_interrupt'', ''log_step='', ''snap_period='', ''snap_initial='', ''linux_rom'', ''simple_dt'',
     ''isa='', ''test_instret='', ''instret='', ''test_scu'', ''test_bg='', ''test_scan_f'',
     ''set_0_to_ddr_sram'']"

definition es1y_keys :: "string list" where
  "es1y_keys = boot_keys @ option_keys"

section \<open>The setup\<close>

text \<open>Every step runs when its argument is given; loading the kernel always runs.\<close>

definition boot_step :: "string \<times> ('t, 'e, unit) hprog \<Rightarrow> ('t, 'e, unit) hprog" where
  "boot_step = (\<lambda>(key, f).
    if key = ''load_pk'' then f else bnd (flag key) (\<lambda>given. if given then f else ret ()))"

definition es1y_setup :: "('t, 'e) boot_env \<Rightarrow> ('t, 'e, unit) hprog" where
  "es1y_setup b = seqM (map boot_step (boot_sequence b))"

lemma boot_sequence_keys: "map fst (boot_sequence b) = boot_keys"
  by (simp add: boot_sequence_def boot_keys_def Let_def)

section \<open>Steps leave the arguments alone\<close>

definition args_are :: "(string \<times> string) list \<Rightarrow> ('t, 'e) htif \<Rightarrow> bool" where
  "args_are m s \<longleftrightarrow> ht_argmap s = m"

named_theorems args_kept

lemma args_kept_on_server [args_kept]: "keeps (args_are m) (on_server p)"
  by (auto simp: keeps_def args_are_def on_server_def split: prod.split)

lemma args_kept_modS: "(\<And>s. ht_argmap (f s) = ht_argmap s) \<Longrightarrow> keeps (args_are m) (modS f)"
  by (simp add: keeps_def args_are_def)

lemma args_kept_pure: "pure_prog p \<Longrightarrow> keeps (args_are m) p"
  by (auto simp: keeps_def pure_prog_def args_are_def)

lemma args_kept_mapM [args_kept]: "(\<And>x. keeps I (f x)) \<Longrightarrow> keeps I (mapM f xs)"
  by (induction xs) (auto intro!: keeps_bnd)

lemmas args_kept_base [args_kept] =
  keeps_ret keeps_raise keeps_getS keeps_bnd keeps_andThen keeps_if keeps_assertM keeps_definedM keeps_forM
  keeps_poll keeps_seqM keeps_pair keeps_option

lemma args_kept_access [args_kept]:
  "keeps (args_are m) (on_mem p)" "keeps (args_are m) (host_call c)" "keeps (args_are m) (ht_write h a bs)"
  "keeps (args_are m) (ht_read h a bs)" "keeps (args_are m) (arg k)" "keeps (args_are m) (flag k)"
  by (auto simp: on_mem_def host_call_def ht_write_def ht_read_def arg_def flag_def intro: args_kept_on_server)

lemma args_kept_regs [args_kept]:
  "keeps (args_are m) (OURSBUS_WRITE h a v)" "keeps (args_are m) (OURSBUS_READ h a v)"
  "keeps (args_are m) (OURSBUS_READ_4B h a v)"
  unfolding OURSBUS_WRITE_def OURSBUS_READ_def OURSBUS_READ_4B_def by (intro args_kept)+

lemma args_kept_lists [args_kept]:
  "keeps (args_are m) (write_regs h ws)" "keeps (args_are m) (await_reg h n a P)"
  "keeps (args_are m) (ctl_writes h tab)" "keeps (args_are m) (phy_writes h tab)" "keeps (args_are m) (usb_writes h tab)"
  unfolding write_regs_def await_reg_def ctl_writes_def phy_writes_def usb_writes_def by (intro args_kept)+

lemma args_kept_numbers [args_kept]: "keeps (args_are m) (stoul b s)"
  by (simp add: stoul_def keeps_def split: option.split)

lemma args_kept_get_breakpoints [args_kept]: "keeps (args_are m) (get_breakpoints s)"
  by (induction s rule: get_breakpoints.induct) (subst get_breakpoints.simps, auto intro!: args_kept)

lemma args_kept_set_breakpoints [args_kept]: "keeps (args_are m) (set_breakpoints h os en ad bs)"
  by (induction bs arbitrary: en ad) (auto simp: Let_def simp del: ret_run intro!: args_kept)

lemma args_kept_config_entry [args_kept]: "keeps (args_are m) (config_entry c d)"
  by (auto simp: config_entry_def split: list.split intro!: args_kept)

lemma args_kept_config_word [args_kept]: "keeps (args_are m) (config_word cs d)"
  by (induction cs d rule: config_word.induct) (auto simp del: ret_run intro!: args_kept)

lemma args_kept_mems [args_kept]: "keeps (args_are m) (make_mems ''2048'')"
  by (simp add: make_mems_2048 keeps_ret del: ret_run)

lemma args_kept_write_rom [args_kept]: "keeps (args_are m) (write_rom h a ws)"
  by (induction h a ws rule: write_rom.induct) (auto simp del: ret_run intro!: args_kept)

lemma args_kept_draw_ways [args_kept]: "keeps (args_are m) (draw_ways os i n c)"
  by (induction os i n c rule: draw_ways.induct) (auto simp del: ret_run intro!: args_kept)

lemma args_kept_all_ok [args_kept]: "(\<And>p. p \<in> set ps \<Longrightarrow> keeps I p) \<Longrightarrow> keeps I (all_ok ps)"
  by (induction ps) (auto intro!: keeps_bnd)

lemma args_kept_err_enter_all [args_kept]: "keeps (args_are m) (err_enter_all es log)"
  by (induction es log rule: err_enter_all.induct) (auto simp: err_enter_def simp del: ret_run intro!: args_kept)

lemma args_kept_clocks [args_kept]:
  "keeps (args_are m) (incr_test_io_freq h)"
  "keeps (args_are m) (chip_config h)"
  "keeps (args_are m) (io_test h)"
  "keeps (args_are m) (program_pll h tool key)"
  "keeps (args_are m) (sram_ddr h)"
  "keeps (args_are m) (reset_sdio h n)"
  unfolding incr_test_io_freq_def chip_config_def io_test_def program_pll_def sram_ddr_def reset_sdio_def Let_def by (intro args_kept)+

lemma args_kept_l2_random [args_kept]:
  "keeps (args_are m) (l2_random os)"
  unfolding l2_random_def Let_def by (intro args_kept)+

lemma args_kept_config [args_kept]:
  "keeps (args_are m) (config_l1 h)"
  "keeps (args_are m) (config_l2 h os)"
  unfolding config_l1_def config_l2_def Let_def by (intro args_kept)+

lemma args_kept_banks [args_kept]:
  "keeps (args_are m) (release_bank0_reset h n)"
  "keeps (args_are m) (release_bank1_reset h n)"
  "keeps (args_are m) (release_bank2_reset h n)"
  "keeps (args_are m) (release_bank3_reset h n)"
  "keeps (args_are m) (set_0_to_bank0_vldram h)"
  "keeps (args_are m) (set_0_to_bank1_vldram h)"
  "keeps (args_are m) (set_0_to_bank2_vldram h)"
  "keeps (args_are m) (set_0_to_bank3_vldram h)"
  unfolding release_bank0_reset_def release_bank1_reset_def release_bank2_reset_def release_bank3_reset_def set_0_to_bank0_vldram_def set_0_to_bank1_vldram_def set_0_to_bank2_vldram_def set_0_to_bank3_vldram_def release_bank_reset_def set_0_to_bank_vldram_def Let_def by (intro args_kept)+

lemma args_kept_all_banks [args_kept]:
  "keeps (args_are m) (release_reset_for_l2 h n)"
  "keeps (args_are m) (set_0_to_l2_vldram h)"
  "keeps (args_are m) (test_l2)"
  "keeps (args_are m) (test_l1)"
  unfolding release_reset_for_l2_def set_0_to_l2_vldram_def test_l2_def test_l1_def Let_def by (intro args_kept)+

lemma args_kept_early [args_kept]:
  "keeps (args_are m) (release_orv32_early_reset h)"
  "keeps (args_are m) (release_vp0_early_reset h)"
  "keeps (args_are m) (release_vp1_early_reset h)"
  "keeps (args_are m) (release_vp2_early_reset h)"
  "keeps (args_are m) (release_vp3_early_reset h)"
  "keeps (args_are m) (set_0_to_orv32_l1_tagram h os)"
  "keeps (args_are m) (set_0_to_vp0_l1_tagram h os)"
  "keeps (args_are m) (set_0_to_vp1_l1_tagram h os)"
  "keeps (args_are m) (set_0_to_vp2_l1_tagram h os)"
  "keeps (args_are m) (set_0_to_vp3_l1_tagram h os)"
  "keeps (args_are m) (set_orv32_reset_pc h)"
  "keeps (args_are m) (set_vp0_reset_pc h)"
  "keeps (args_are m) (set_vp1_reset_pc h)"
  "keeps (args_are m) (set_vp2_reset_pc h)"
  "keeps (args_are m) (set_vp3_reset_pc h)"
  unfolding release_orv32_early_reset_def release_vp0_early_reset_def release_vp1_early_reset_def release_vp2_early_reset_def release_vp3_early_reset_def release_early_reset_def set_0_to_orv32_l1_tagram_def set_0_to_vp0_l1_tagram_def set_0_to_vp1_l1_tagram_def set_0_to_vp2_l1_tagram_def set_0_to_vp3_l1_tagram_def set_zero_to_l1_tagram_def random64_def set_orv32_reset_pc_def set_vp0_reset_pc_def set_vp1_reset_pc_def set_vp2_reset_pc_def set_vp3_reset_pc_def set_reset_pc_def Let_def by (intro args_kept)+

lemma args_kept_all_cores [args_kept]:
  "keeps (args_are m) (release_all_early_reset h)"
  "keeps (args_are m) (set_0_to_l1_tagram h os)"
  "keeps (args_are m) (warmup_l1_cache h)"
  "keeps (args_are m) (set_all_vp_reset_pc h)"
  unfolding release_all_early_reset_def set_0_to_l1_tagram_def warmup_l1_cache_def set_all_vp_reset_pc_def Let_def by (intro args_kept)+

lemma args_kept_vp_reset [args_kept]:
  "keeps (args_are m) (release_vp0_reset h os)"
  "keeps (args_are m) (release_vp1_reset h os)"
  "keeps (args_are m) (release_vp2_reset h os)"
  "keeps (args_are m) (release_vp3_reset h os)"
  "keeps (args_are m) (release_orv32_reset h os)"
  "keeps (args_are m) (enable_flash_fsm h)"
  "keeps (args_are m) (enable_boot_fsm h)"
  "keeps (args_are m) (read_from_flash h)"
  unfolding release_vp0_reset_def release_vp1_reset_def release_vp2_reset_def release_vp3_reset_def release_vp_reset_def release_orv32_reset_def enable_flash_fsm_def enable_boot_fsm_def read_from_flash_def Let_def by (intro args_kept)+

lemma args_kept_all_vp [args_kept]:
  "keeps (args_are m) (release_all_vp_reset h os)"
  unfolding release_all_vp_reset_def Let_def by (intro args_kept)+

lemma args_kept_sdio_bits [args_kept]:
  "keeps (args_are m) (clear_nth_bit h a p)"
  "keeps (args_are m) (set_nth_bit h a p)"
  "keeps (args_are m) (set_n_bits h a n k)"
  "keeps (args_are m) (clear_n_bits h a n k)"
  "keeps (args_are m) (nth_bit_set h a p)"
  "keeps (args_are m) (n_bits_nonzero h a n k)"
  "keeps (args_are m) (get_n_bits h a n k)"
  unfolding clear_nth_bit_def set_nth_bit_def set_n_bits_def clear_n_bits_def nth_bit_set_def n_bits_nonzero_def get_n_bits_def MASK_def Let_def by (intro args_kept)+

lemma args_kept_sdio [args_kept]:
  "keeps (args_are m) (sdio_init h)"
  unfolding sdio_init_def card_insertion_chk_def card_detection_def host_controller_setup_sequence_def host_controller_clock_setup_sequence_def clock_mode_def card_interface_detection_def card_clock_supply_sequence_def Let_def by (intro args_kept)+

lemma args_kept_ddr [args_kept]:
  "keeps (args_are m) (reset_ddr h n)"
  unfolding reset_ddr_def ddr_power_on_def ddr_seq_train_def ddr_seq_af_rst_100_def ddr_seq_af_rst_def ddr_seq_af_rst_400_def ddr_seq_skip_def mode_register_def train_1d_def training_loop_def training_round_def Let_def by (intro args_kept)+

lemma args_kept_usb [args_kept]:
  "keeps (args_are m) (reset_usb h n)"
  unfolding reset_usb_def usb_init_def usb_command_def configure_endpoint_def configure_transfer_def Let_def by (intro args_kept)+

lemma args_kept_dt_pair [args_kept]:
  "keeps (args_are m) (dt_pair h os st base i log)"
  "keeps (args_are m) (dt_check h log i)"
  unfolding dt_pair_def dt_check_def random_dram_def random64_def Let_def by (intro args_kept)+

lemma args_kept_dt_program [args_kept]: "keeps (args_are m) (dt_program h os st base is log)"
  by (induction h os st base "is" log rule: dt_program.induct) (auto simp del: ret_run intro!: args_kept)

lemma args_kept_dt_checks [args_kept]: "keeps (args_are m) (all_ok (map (dt_check h log) is))"
  by (auto intro!: args_kept)

lemma args_kept_dt [args_kept]:
  "keeps (args_are m) (enable_dram_tester h os n)"
  unfolding enable_dram_tester_def simple_dt_def lfsr_dt_def pram_dt_def dt_errors_def dt_wait_def idle_reads_def random_dram_def random64_def Let_def by (intro args_kept)+

lemma args_kept_io_test [args_kept]:
  "keeps (args_are m) (check_register h a bits w)" "keeps (args_are m) (check_version h av)"
  "keeps (args_are m) (phy_sram h os r i)" "keeps (args_are m) (read_mode_register h n r v)"
  "keeps (args_are m) (random_word os)"
  unfolding check_register_def check_version_def phy_sram_def read_mode_register_def random_word_def Let_def
  by (intro args_kept)+

lemma args_kept_check_restore [args_kept]: "keeps (args_are m) (check_restore h a bits w)"
  unfolding check_restore_def by (intro args_kept)+

lemma args_kept_io_parts [args_kept]:
  "keeps (args_are m) (io_test_usb h os)" "keeps (args_are m) (io_test_ddr h os n)" "keeps (args_are m) (io_test_sdio h os)"
  unfolding io_test_usb_def io_test_ddr_def io_test_sdio_def
  by (auto simp del: ret_run intro!: args_kept)

lemma args_kept_io_reg_test [args_kept]: "keeps (args_are m) (io_reg_test h os n)"
  unfolding io_reg_test_def by (auto simp del: ret_run intro!: args_kept)

lemma args_kept_load_rom [args_kept]: "keeps (args_are m) (load_rom h tool)"
  unfolding load_rom_def make_dtb_def by (intro args_kept)+

lemma args_kept_modS_fields [args_kept]:
  "keeps (args_are m) (modS (\<lambda>s. s\<lparr>ht_entry := e\<rparr>))"
  "keeps (args_are m) (modS (\<lambda>s. s\<lparr>ht_program_symbols := ps\<rparr>))"
  "keeps (args_are m) (modS (\<lambda>s. s\<lparr>ht_program_symbols_s := pss\<rparr>))"
  "keeps (args_are m) (modS (\<lambda>s. s\<lparr>ht_addr_to_symbols := f s\<rparr>))"
  "keeps (args_are m) (modS (\<lambda>s. s\<lparr>ht_addr_to_program_symbols := g s\<rparr>))"
  by (rule args_kept_modS, simp)+

lemma args_kept_set_host_addrs [args_kept]: "keeps (args_are m) set_host_addrs"
  unfolding set_host_addrs_def by (rule args_kept_modS) (simp add: Let_def split: prod.split)

lemma args_kept_elf [args_kept]:
  "keeps (args_are m) (load_elf_file h ho path)" "keeps (args_are m) (load_symbols_file ho path)"
  "keeps (args_are m) (load_elf_file_s h ho path)" "keeps (args_are m) (load_symbols_file_s ho path)"
  "keeps (args_are m) (find_file ho prefix old name)"
  unfolding load_elf_file_def load_symbols_file_def load_elf_file_s_def load_symbols_file_s_def find_file_def Let_def
  by (intro args_kept)+

lemma args_kept_load_kernel [args_kept]: "keeps (args_are m) (load_kernel h ho prefix)"
  unfolding load_kernel_def load_first_def load_further_def map_addresses_def by (intro args_kept)+

lemma args_kept_blob [args_kept]:
  "keeps (args_are m) (load_image h ho)"
  "keeps (args_are m) (load_weight h ho)"
  unfolding load_image_def load_weight_def load_blob_def copy_mapped_def Let_def by (intro args_kept)+

lemma args_kept_stack [args_kept]:
  "keeps (args_are m) (alloc_stack h)"
  "keeps (args_are m) (set_magic_mem_address h n)"
  "keeps (args_are m) (trigger_afterwards h)"
  "keeps (args_are m) (dump_l2_after_loading h)"
  unfolding alloc_stack_def set_magic_mem_address_def zero_until_read_def trigger_afterwards_def dump_l2_after_loading_def dump_line_def Let_def by (intro args_kept)+

lemma args_kept_mem_test_loop [args_kept]: "keeps (args_are m) (mem_test_loop h old ws)"
  by (induction h old ws rule: mem_test_loop.induct)
    (auto simp: mem_test_command_def simp del: ret_run intro!: args_kept)

lemma args_kept_mem_test [args_kept]: "keeps (args_are m) (mem_test h ho)"
  unfolding mem_test_def by (intro args_kept)+

lemma args_kept_quietly [args_kept]: "keeps I p \<Longrightarrow> keeps I (quietly p)"
  unfolding quietly_def by (intro args_kept)

lemma boot_steps_keep: "\<forall>(k, f) \<in> set (boot_sequence b). keeps (args_are m) f"
  unfolding boot_sequence_def Let_def by (simp add: args_kept)

lemma selected_steps:
  assumes "\<forall>(k, f) \<in> set tab. keeps (args_are (ht_argmap s)) f"
  shows "seqM (map boot_step tab) s
    = seqM (map snd (filter (\<lambda>(k, f). k = ''load_pk'' \<or> arg_of s k \<noteq> []) tab)) s"
  using assms
proof (induction tab arbitrary: s)
  case (Cons kf tab)
  obtain k f where kf: "kf = (k, f)" by fastforce
  have args: "arg_of s' = arg_of s" if "ht_argmap s' = ht_argmap s" for s' :: "('a, 'b) htif"
    using that by (simp add: arg_of_def fun_eq_iff)
  show ?case
  proof (cases "k = ''load_pk'' \<or> arg_of s k \<noteq> []")
    case True
    then have step: "boot_step kf s = f s"
      by (auto simp: boot_step_def kf flag_def bnd_def)
    have "keeps (args_are (ht_argmap s)) f"
      using Cons.prems by (simp add: kf)
    then have "args_are (ht_argmap s) (snd (f s))"
      by (rule keepsD) (simp add: args_are_def)
    then have "ht_argmap (snd (f s)) = ht_argmap s"
      by (simp add: args_are_def)
    then show ?thesis
      using Cons.IH [of "snd (f s)"] Cons.prems True step args [of "snd (f s)"]
      by (cases "f s") (simp add: kf andThen_def bnd_def split: sum.split)
  next
    case False
    then have "boot_step kf s = (Inr (), s)"
      by (simp add: boot_step_def kf flag_def bnd_def)
    then show ?thesis
      using Cons False by (simp add: kf andThen_Inr)
  qed
qed simp


end
