(* ===== verification/Boot_Options.thy ===== *)
theory Boot_Options
  imports Boot
begin

text \<open>
  What the options of the project mean: no key is the beginning of another, so each option on the
  command line reaches the entry of its own key.
\<close>

section \<open>The options\<close>

text \<open>A test for prefixes that stops at the first difference.\<close>

fun begins :: "string \<Rightarrow> string \<Rightarrow> bool" where
  "begins [] t = True"
| "begins (c # s) [] = False"
| "begins (c # s) (d # t) = (if c = d then begins s t else False)"

lemma begins_take: "begins s t \<longleftrightarrow> take (length s) t = s"
  by (induction s t rule: begins.induct) auto

lemma prefix_free_begins:
  "prefix_free ks \<longleftrightarrow> list_all (\<lambda>k. list_all (\<lambda>k'. if begins k k' then k = k' else True) ks) ks"
  by (simp add: prefix_free_def list_all_iff begins_take)

lemma es1y_keys_prefix_free: "prefix_free (es1y_keys @ htif_keys)"
  by (simp only: prefix_free_begins es1y_keys_def boot_keys_def option_keys_def htif_keys_def append.simps
      list.pred_inject begins.simps char.inject simp_thms if_True if_False)

lemma prefix_free_set: "set ks = set ks' \<Longrightarrow> prefix_free ks = prefix_free ks'"
  by (simp add: prefix_free_def)

lemma insert_key_keys [simp]: "set (map fst (insert_key k m)) = insert k (set (map fst m))"
proof (cases "smap_get m k")
  case (Some v)
  then have "k \<in> set (map fst m)"
    using smap_get_None [of k m] by (auto simp del: set_map)
  with Some show ?thesis by (simp add: insert_key_def insert_absorb del: set_map)
qed (simp add: insert_key_def del: set_map)

lemma initial_argmap_keys: "set (map fst (initial_argmap ks)) = set (ks @ htif_keys)"
proof -
  have "set (map fst (fold insert_key xs m)) = set xs \<union> set (map fst m)" for xs m
    by (induction xs arbitrary: m) (auto simp del: set_map)
  then show ?thesis by (simp add: initial_argmap_def Un_commute del: set_map)
qed

text \<open>
  C27: every option of the project does what the user asked for. With the keys the project and the
  server register, each option, given alone or as \<open>key=value\<close>, sets the entry of its own key,
  whatever the order of the options, and uses up none of the three file names.
\<close>

theorem options_round_trip:
  assumes "distinct (map fst kvs)" and "\<forall>kv \<in> set kvs. option_ok (es1y_keys @ htif_keys) kv" and "kv \<in> set kvs"
  shows "smap_get (parse_args (map key_arg kvs) (initial_argmap es1y_keys)) (fst kv) = Some (option_value kv)
    \<and> snd (fold parse_arg (map key_arg kvs) (initial_argmap es1y_keys, j)) = j"
proof (rule parse_options)
  show "prefix_free (map fst (initial_argmap es1y_keys))"
    using prefix_free_set [OF initial_argmap_keys] es1y_keys_prefix_free by simp
  show "\<forall>kv \<in> set kvs. option_ok (map fst (initial_argmap es1y_keys)) kv"
    using assms(2) by (simp add: option_ok_def initial_argmap_keys del: set_map)
qed (use assms in auto)

theorem options_round_trip_witness:
  "smap_get (parse_args (map key_arg [(''load_pk'', []), (''config_l2='', ''lp'')]) (initial_argmap es1y_keys))
      (fst (''config_l2='', ''lp'')) = Some (option_value (''config_l2='', ''lp''))
    \<and> snd (fold parse_arg (map key_arg [(''load_pk'', []), (''config_l2='', ''lp'')]) (initial_argmap es1y_keys, 0)) = 0"
  by (rule options_round_trip) (simp_all add: option_ok_def es1y_keys_def boot_keys_def)

end
