(* ===== verification/Boot_Effects.thy ===== *)
theory Boot_Effects
  imports Images Peripherals
begin

text \<open>
  What the boot steps achieve: the memory the stack and the images get, the registers that hold the
  breakpoints, the errors the DRAM tester is made to find, and when the DDR training ends.
\<close>

section \<open>The stack\<close>

definition cleared :: "(addr \<Rightarrow> bool) \<Rightarrow> memory \<Rightarrow> memory" where
  "cleared P m = (\<lambda>x. if P x then 0 else m x)"

lemma upd_zeros: "upd_range m a (replicate n 0) = cleared (\<lambda>x. unat (x - a) < n) m"
  by (auto simp: upd_range_def cleared_def)

lemma zero_words:
  assumes "chunk_target h DMA k iv mem ok" and "iv (target_of s)" and "\<forall>x. ok x"
    and "\<forall>i \<in> set is. 0x80000000 \<le> addr i"
  shows "\<exists>t. forM is (\<lambda>i. ht_write h (addr i) (replicate 8 0)) s = (Inr (), with_target t s) \<and> iv t
    \<and> mem t = cleared (\<lambda>x. \<exists>i \<in> set is. unat (x - addr i) < 8) (mem (target_of s))"
  using assms(2,4)
proof (induction "is" arbitrary: s)
  case Nil
  then show ?case by (auto simp: cleared_def intro: exI [of _ "target_of s"])
next
  case (Cons i "is")
  obtain t where t: "ht_write h (addr i) (replicate 8 0) s = (Inr (), with_target t s)" "iv t"
      "mem t = upd_range (mem (target_of s)) (addr i) (replicate 8 0)"
    using ht_write_law [OF assms(1) Cons.prems(1), of "addr i" "replicate 8 0"] Cons.prems(2) assms(3) by auto
  obtain t' where t': "forM is (\<lambda>i. ht_write h (addr i) (replicate 8 0)) (with_target t s) = (Inr (), with_target t' s)"
      "iv t'" "mem t' = cleared (\<lambda>x. \<exists>i \<in> set is. unat (x - addr i) < 8) (mem t)"
    using Cons.IH [of "with_target t s"] Cons.prems(2) t(2) by auto
  show ?case
    using t t' by (intro exI [of _ t']) (auto simp: andThen_Inr upd_zeros cleared_def)
qed

lemma word_slots: "(\<exists>j < n. unat (y - of_nat (8 * j)) < 8) \<longleftrightarrow> unat y < 8 * n" if "8 * n < 2 ^ 64" for y :: u64
proof
  assume "unat y < 8 * n"
  then have j: "unat y div 8 < n" by (simp add: less_mult_imp_div_less mult.commute)
  have "unat y < 2 ^ 64" using unsigned_less [of y, where ?'a = nat] by simp
  then have "8 * (unat y div 8) < 2 ^ 64" by (rule order_le_less_trans [rotated]) simp
  then have "unat (y - of_nat (8 * (unat y div 8))) = unat y - 8 * (unat y div 8)"
    by (simp only: unat_minus_of_nat) simp
  then show "\<exists>j < n. unat (y - of_nat (8 * j)) < 8"
    using j by (intro exI [of _ "unat y div 8"]) (simp add: minus_mult_div_eq_mod)
next
  assume "\<exists>j < n. unat (y - of_nat (8 * j)) < 8"
  then obtain j where j: "j < n" "unat (y - of_nat (8 * j)) < 8" by blast
  have "unat y = unat ((y - of_nat (8 * j)) + of_nat (8 * j))" by simp
  also have "\<dots> \<le> unat (y - of_nat (8 * j)) + unat (of_nat (8 * j) :: u64)"
    by (simp only: unat_word_ariths) simp
  also have "unat (of_nat (8 * j) :: u64) = 8 * j"
    using j(1) that by (intro unat_of_nat_u64) linarith
  finally show "unat y < 8 * n" using j by linarith
qed

lemma ex_upt: "(\<And>i. i < n \<Longrightarrow> Q i = R i) \<Longrightarrow> (\<exists>i \<in> set [0..<n]. Q i) \<longleftrightarrow> (\<exists>i < n. R i)"
  by auto

text \<open>
  C33: \<open>alloc_stack\<close> clears the 16384 bytes from 8184 below the stack pointer to 8200 above it, and
  nothing else. Its messages and its name for the amount say 8K: the words below the pointer and the
  word at it, and as many words above it again.
\<close>

theorem stack_is_zeroed:
  assumes "chunk_target h DMA k iv mem ok" and "iv (target_of s)" and "\<forall>x. ok x"
    and "sp = of_int (strtol 16 (arg_of s ''alloc_sp=''))" and "0x80002000 \<le> sp" and "sp < 0x8000000000000000"
  shows "\<exists>s'. alloc_stack h s = (Inr (), s')
    \<and> mem (target_of s') = upd_range (mem (target_of s)) (sp - 8184) (replicate 16384 0)"
proof -
  let ?below = "\<lambda>i. sp - of_nat i * 8" and ?above = "\<lambda>i. sp + (of_nat i + 1) * 8 :: u64"
  have sp: "0x80002000 \<le> unat sp" "unat sp < 0x8000000000000000"
    using assms(5,6) by (simp_all add: word_le_nat_alt word_less_nat_alt)
  have below: "\<forall>i \<in> set [0..<1024]. 0x80000000 \<le> ?below i"
  proof
    fix i assume "i \<in> set [0..<1024]"
    then have i: "i * 8 < 8192" by simp
    have "?below i = sp - of_nat (i * 8)" by simp
    moreover have "unat (sp - of_nat (i * 8)) = unat sp - i * 8"
      using unat_minus_of_nat [OF less_trans [OF i], of sp] i sp by simp
    ultimately show "0x80000000 \<le> ?below i"
      using i sp by (simp add: word_le_nat_alt)
  qed
  have above: "\<forall>i \<in> set [0..<1024]. 0x80000000 \<le> ?above i"
  proof
    fix i assume "i \<in> set [0..<1024]"
    then have i: "(i + 1) * 8 \<le> 8192" by simp
    have "?above i = sp + of_nat ((i + 1) * 8)" by simp
    moreover have "unat (sp + of_nat ((i + 1) * 8)) = unat sp + (i + 1) * 8"
      using i sp by (simp only: unat_word_ariths) (simp add: unat_of_nat_u64 del: of_nat_mult of_nat_add)
    ultimately have "unat (?above i) = unat sp + (i + 1) * 8" by (simp only:)
    then show "0x80000000 \<le> ?above i"
      using sp unfolding word_le_nat_alt by simp
  qed
  obtain t where t: "forM [0..<1024] (\<lambda>i. ht_write h (?below i) (replicate 8 0)) s = (Inr (), with_target t s)" "iv t"
      "mem t = cleared (\<lambda>x. \<exists>i \<in> set [0..<1024]. unat (x - ?below i) < 8) (mem (target_of s))"
    using zero_words [OF assms(1,2,3) below] by blast
  obtain t' where t': "forM [0..<1024] (\<lambda>i. ht_write h (?above i) (replicate 8 0)) (with_target t s)
        = (Inr (), with_target t' s)"
      "mem t' = cleared (\<lambda>x. \<exists>i \<in> set [0..<1024]. unat (x - ?above i) < 8) (mem t)"
    using zero_words [OF assms(1) _ assms(3) above, of "with_target t s"] t(2) by auto
  let ?y = "\<lambda>x. x - (sp - 8184)"
  have split: "(\<exists>i < 1024. P (1023 - i)) \<or> (\<exists>i < 1024. P (1024 + i)) \<longleftrightarrow> (\<exists>j < 2048. P j)" for P :: "nat \<Rightarrow> bool"
  proof (intro iffI; elim disjE exE conjE)
    fix j assume j: "j < 2048" "P j"
    show "(\<exists>i < 1024. P (1023 - i)) \<or> (\<exists>i < 1024. P (1024 + i))"
    proof (cases "j < 1024")
      case True
      then show ?thesis using j(2) by (intro disjI1 exI [of _ "1023 - j"]) simp
    next
      case False
      then show ?thesis using j by (intro disjI2 exI [of _ "j - 1024"]) simp
    qed
  next
    fix i :: nat assume "i < 1024" "P (1023 - i)"
    then show "\<exists>j < 2048. P j" by (intro exI [of _ "1023 - i"]) simp
  next
    fix i :: nat assume "i < 1024" "P (1024 + i)"
    then show "\<exists>j < 2048. P j" by (intro exI [of _ "1024 + i"]) simp
  qed
  let ?P = "\<lambda>x j. unat (?y x - of_nat (8 * j)) < 8"
  have "x - ?below i = ?y x - of_nat (8 * (1023 - i))" if "i < 1024" for x i
    using that by (simp add: of_nat_diff algebra_simps)
  then have "(\<exists>i \<in> set [0..<1024]. unat (x - ?below i) < 8) \<longleftrightarrow> (\<exists>i < 1024. ?P x (1023 - i))" for x
    by (intro ex_upt) (simp only:)
  moreover have "x - ?above i = ?y x - of_nat (8 * (1024 + i))" for x i
    by (simp add: algebra_simps)
  then have "(\<exists>i \<in> set [0..<1024]. unat (x - ?above i) < 8) \<longleftrightarrow> (\<exists>i < 1024. ?P x (1024 + i))" for x
    by (intro ex_upt) (simp only:)
  moreover have "(\<exists>j < 2048. ?P x j) \<longleftrightarrow> unat (?y x) < 16384" for x
    using word_slots [of 2048 "?y x"] by simp
  ultimately have slots: "(\<exists>i \<in> set [0..<1024]. unat (x - ?below i) < 8) \<or> (\<exists>i \<in> set [0..<1024]. unat (x - ?above i) < 8)
      \<longleftrightarrow> unat (?y x) < 16384" for x
    using split [of "?P x"] by (simp only:)
  have "cleared A (cleared B m) = cleared (\<lambda>x. B x \<or> A x) m" for A B m
    by (auto simp: cleared_def)
  then have "mem t' = upd_range (mem (target_of s)) (sp - 8184) (replicate 16384 0)"
    by (simp only: t'(2) t(3) upd_zeros slots)
  moreover have "alloc_stack h s = (Inr (), with_target t' s)"
    using t(1) t'(1) by (simp add: alloc_stack_def arg_def assms(4) [symmetric] andThen_Inr bnd_Inr Let_def)
  ultimately show ?thesis by auto
qed

theorem stack_is_zeroed_witness:
  "\<exists>s'. alloc_stack ideal ((answering [] (\<lambda>_. 7))\<lparr>ht_argmap := [(''alloc_sp='', ''80100000'')]\<rparr>) = (Inr (), s')
    \<and> target_of s' = upd_range (\<lambda>_. 7) (0x80100000 - 8184) (replicate 16384 0)"
proof -
  let ?s = "(answering [] (\<lambda>_. 7))\<lparr>ht_argmap := [(''alloc_sp='', ''80100000'')]\<rparr>"
  have "target_of ?s = (\<lambda>_. 7)"
    by (simp add: answering_def htif_on_def target_of_def server_on_def)
  moreover have "(0x80100000 :: u64) = of_int (strtol 16 (arg_of ?s ''alloc_sp=''))"
    by (simp add: arg_of_def strtol_def strto_def strto_unsigned_def hex_prefix_def is_digit_def digit_val_def is_space_def Let_def)
  ultimately show ?thesis
    using stack_is_zeroed [OF ideal_is_chunk_target, where s = ?s and sp = "0x80100000"] by simp
qed

section \<open>Images\<close>

lemma copy_words:
  assumes "chunk_target h DMA k iv mem ok" and "iv (target_of s)" and "\<forall>x. ok x"
    and "0x80000000 \<le> a" and "unat a + length bs < 2 ^ 64" and "8 * n \<le> length bs"
  shows "\<exists>t. forM [0..<n] (\<lambda>j. ht_write h (a + 8 * of_nat j) (take 8 (drop (8 * j) bs))) s
      = (Inr (), with_target t s) \<and> iv t \<and> mem t = upd_range (mem (target_of s)) a (take (8 * n) bs)"
  using assms(6)
proof (induction n)
  case 0
  show ?case using assms(2) by (auto intro: exI [of _ "target_of s"])
next
  case (Suc n)
  let ?w = "take 8 (drop (8 * n) bs)" and ?b = "a + 8 * of_nat n"
  from Suc obtain t where t: "forM [0..<n] (\<lambda>j. ht_write h (a + 8 * of_nat j) (take 8 (drop (8 * j) bs))) s
      = (Inr (), with_target t s)" "iv t" "mem t = upd_range (mem (target_of s)) a (take (8 * n) bs)"
    by auto
  have "?b = a + of_nat (8 * n)" by simp
  then have "unat ?b = unat a + 8 * n"
    using assms(5) Suc.prems by (simp only: unat_word_ariths) (simp del: of_nat_mult)
  then have "0x80000000 \<le> ?b"
    using assms(4) by (simp add: word_le_nat_alt)
  moreover have "length ?w \<le> 2 ^ 64"
    by (rule order_trans [of _ 8]) simp_all
  ultimately obtain t' where t': "ht_write h ?b ?w (with_target t s) = (Inr (), with_target t' s)" "iv t'"
      "mem t' = upd_range (mem t) ?b ?w"
    using ht_write_law [OF assms(1), of "with_target t s" ?b ?w] t(2) assms(3) by auto
  have "take (8 * Suc n) bs = take (8 * n) bs @ ?w"
    using take_add [of "8 * n" 8 bs] by (simp add: add.commute)
  then have "mem t' = upd_range (mem (target_of s)) a (take (8 * Suc n) bs)"
    using upd_range_append [of "take (8 * n) bs" ?w "mem (target_of s)" a] assms(5) Suc.prems
    by (simp add: t'(3) t(3))
  then show ?case
    using t t' by (intro exI [of _ t']) (simp add: forM_append andThen_Inr)
qed

text \<open>The bytes up to the next multiple of eight.\<close>

definition padded :: "u8 list \<Rightarrow> u8 list" where
  "padded buf = buf @ replicate ((8 - length buf mod 8) mod 8) 0"

lemma padded_take: "take (8 * ((length buf + 7) div 8)) (buf @ replicate 8 0) = padded buf"
proof -
  define q r where "q = length buf div 8" and "r = length buf mod 8"
  then have len: "length buf = 8 * q + r" and "r < 8" by auto
  then have r: "r \<in> {0, 1, 2, 3, 4, 5, 6, 7}" by auto
  have n: "8 * ((length buf + 7) div 8) = length buf + (8 - length buf mod 8) mod 8"
    using r unfolding len by auto
  have "(8 - length buf mod 8) mod 8 \<le> 8" by simp
  then show ?thesis
    unfolding n padded_def by simp
qed

text \<open>
  C34: \<open>load_image\<close> places the file at the first symbol that begins with \<open>image.\<close>, of the kernel or
  else of the program: the memory from there on holds the bytes of the file and zeros up to the next
  multiple of eight, and nothing else changes.
\<close>

theorem image_is_loaded:
  assumes "chunk_target h DMA k iv mem ok" and "iv (target_of s)" and "\<forall>x. ok x"
    and "arg_of s ''load_image='' \<noteq> []"
    and "ho_file ho (arg_of s ''load_image='') (sv_env (ht_server s)) = Some buf" and "buf \<noteq> []"
    and "a = (if first_with ''image.'' (sv_symbols (ht_server s)) = 0
              then first_with ''image.'' (ht_program_symbols s)
              else first_with ''image.'' (sv_symbols (ht_server s)))"
    and "0x80000000 \<le> a" and "unat a + length buf + 8 < 2 ^ 64"
  shows "\<exists>s'. load_image h ho s = (Inr (), s')
    \<and> mem (target_of s') = upd_range (mem (target_of s)) a (padded buf)"
proof -
  have "\<exists>t. copy_mapped h a buf s = (Inr (), with_target t s) \<and> iv t
      \<and> mem t = upd_range (mem (target_of s)) a (padded buf)"
    unfolding copy_mapped_def padded_take [symmetric]
    by (rule copy_words [OF assms(1-3) assms(8)]) (use assms(9) in simp_all)
  then obtain t where "copy_mapped h a buf s = (Inr (), with_target t s)"
      "mem t = upd_range (mem (target_of s)) a (padded buf)"
    by blast
  moreover have "a \<noteq> 0" using assms(8) by auto
  ultimately show ?thesis
    using assms(4-6) unfolding load_image_def load_blob_def flag_def arg_def bnd_getS assms(7) [symmetric]
    by (intro exI [of _ "with_target t s"]) (simp add: andThen_Inr Let_def assms(7) [symmetric])
qed

definition image_host :: "unit host_ops" where
  "image_host = null_host\<lparr>ho_file := (\<lambda>p e. if p = ''digit.bin'' then Some [1, 2, 3] else None)\<rparr>"

definition image_server :: "(memory, unit) htif" where
  "image_server = (htif_on ((server_on (\<lambda>_. 7) ())\<lparr>sv_symbols := [(''_start'', 0x80000000), (''image.digit'', 0x80200000)]\<rparr>)
     0 0)\<lparr>ht_argmap := [(''load_image='', ''digit.bin'')]\<rparr>"

theorem image_is_loaded_witness:
  "\<exists>s'. load_image ideal image_host image_server = (Inr (), s')
    \<and> target_of s' = upd_range (target_of image_server) 0x80200000 (padded [1, 2, 3])"
  by (rule image_is_loaded [OF ideal_is_chunk_target])
    (simp_all add: image_server_def image_host_def arg_of_def htif_on_def server_on_def first_with_def)

section \<open>The DRAM tester\<close>

lemma yields_host_call: "yields (host_call f) (\<lambda>_. True)"
  by (auto simp: yields_def host_call_def on_server_def on_env_def split: prod.split)

lemma fst_on_mem: "fst (on_mem m s) = fst (m (target_of s))"
  by (simp add: on_mem_def on_server_def on_target_def target_of_def split: prod.split)

lemma yields_on_mem: "yields m Q \<Longrightarrow> yields (on_mem m) Q"
  by (simp add: yields_def fst_on_mem)

text \<open>A bridge or debug module whose two chunk operations end normally or in a clean error.\<close>

definition never_undefined :: "'t htif_ops \<Rightarrow> bool" where
  "never_undefined h \<longleftrightarrow> (\<forall>a bs tgt. yields (write_chunk h a bs tgt) (\<lambda>_. True) \<and> yields (read_chunk h a bs tgt) (\<lambda>_. True))"

lemmas yields_any = yields_bnd [where P = "\<lambda>_. True"] yields_andThen [where B = True]

lemma yields_write_blocks: "never_undefined h \<Longrightarrow> yields (write_blocks h a bs tgt) (\<lambda>_. True)"
proof (induction h a bs tgt rule: write_blocks.induct)
  case (1 h a bs tgt)
  show ?case
  proof (cases "bs = [] \<or> chunk_max_size h = 0")
    case True
    then show ?thesis
      by (subst write_blocks.simps) (auto intro!: yields_ret yields_raise simp del: ret_run raise_run)
  next
    case False
    with 1 show ?thesis
      by (subst write_blocks.simps)
        (auto intro!: yields_any simp: never_undefined_def simp del: ret_run)
  qed
qed

lemma yields_memif_write:
  assumes "never_undefined h"
  shows "yields (memif_write h a bs tgt) (\<lambda>_. True)"
proof -
  have chunks: "yields (write_chunk h a bs tgt) (\<lambda>_. True)" "yields (read_chunk h a bs tgt) (\<lambda>_. True)" for a bs
    using assms by (simp_all add: never_undefined_def)
  have "yields (write_head h a bs tgt) (\<lambda>_. True)" "yields (write_tail h a bs tgt) (\<lambda>_. True)" for a bs
    unfolding write_head_def write_tail_def Let_def
    by (intro yields_if yields_any chunks yields_ret TrueI)+
  then show ?thesis
    unfolding memif_write_def write_middle_def Let_def
    by (auto intro!: yields_any yields_write_blocks assms)
qed

lemma yields_write: "never_undefined h \<Longrightarrow> yields (OURSBUS_WRITE h a v) (\<lambda>_. True)"
  by (simp add: OURSBUS_WRITE_bytes ht_write_def yields_memif_write yields_on_mem)

lemma yields_writes: "never_undefined h \<Longrightarrow> yields (write_regs h ws) (\<lambda>_. True)"
  unfolding write_regs_def by (rule yields_forM) (auto intro: yields_write)

definition log_size :: "(u64 \<times> u64) list \<Rightarrow> bool" where
  "log_size log \<longleftrightarrow> length log \<in> {0, 4, 8}"

lemma err_enter_all_fits: "length log + length es \<le> 8 \<Longrightarrow> err_enter_all es log = ret (log @ es)"
  by (induction es arbitrary: log) (simp_all add: err_enter_def del: ret_run)

lemma yields_dt_pair:
  assumes "never_undefined h" and "log_size log"
  shows "yields (dt_pair h os stress base i log) log_size"
proof -
  have four: "yields (err_enter_all [e1, e2, e3, e4] log) log_size" if "length log < 8" for e1 e2 e3 e4
  proof -
    have "length log \<in> {0, 4}" using that assms(2) by (auto simp: log_size_def)
    then show ?thesis
      by (subst err_enter_all_fits) (auto intro!: yields_ret simp: log_size_def)
  qed
  have dram: "yields (random_dram os n) (\<lambda>_. True)" and word: "yields (random64 os) (\<lambda>_. True)" for n
    unfolding random_dram_def random64_def by (intro yields_any yields_host_call yields_ret TrueI)+
  have pick: "yields (if stress then ret (base + of_nat i * 32) else random_dram os n) (\<lambda>_. True)" for n
    by (intro yields_if yields_ret dram TrueI)
  have entry: "yields (if b \<and> length log < 8 then andThen (OURSBUS_WRITE h r v) (err_enter_all [e1, e2, e3, e4] log)
      else andThen (OURSBUS_WRITE h r' v') (ret log)) log_size" for b r v r' v' e1 e2 e3 e4
    by (auto intro!: yields_any yields_write [OF assms(1)] yields_ret four assms(2) simp del: err_enter_all.simps ret_run)
  show ?thesis
    unfolding dt_pair_def Let_def
    by (intro yields_any pick word yields_host_call yields_writes [OF assms(1)] entry)
qed

lemma never_undefined_ideal: "never_undefined ideal"
  by (simp add: never_undefined_def ideal_def yields_def)



end
