(* ===== verification/Background.thy ===== *)
theory Background
  imports Boot
begin

text \<open>
  The background traffic of \<open>es1y_bg.cc\<close>: one call of \<open>bg\<close> picks a target at random and makes a few
  accesses to it. Each check tells whether it printed neither an error nor a warning; \<open>bg\<close> itself has
  no result.
\<close>

section \<open>Targets and their weights\<close>

datatype bg_target_e = SLOW_IO | DDR | USB | SDIO | ORV32 | VP | FLUSH | FLASH | IDLE

datatype bg_target_slow_io_e =
    QSPIM | SSPIM0 | SSPIM1 | SSPIM2 | SPIS | UART0 | UART1 | UART2 | UART3
  | I2SM | I2SS0 | I2SS1 | I2SS2 | I2SS3 | I2SS4 | I2SS5 | I2C0 | I2C1 | I2C2
  | GPIO | RTC | TIMERS | WDT

datatype bg_target_ddr_e = CTRL | PHY | SRAM | MR

datatype bg_target_orv32_e = ORV32_ITB | ORV32_PC | ORV32_MISC | ORV32_HPM | ORV32_PIPE

datatype bg_target_orv64_e =
    VP_ITB | VP_IC | VP_IBUF | VP_ITLB | VP_DTLB | VP_VTLB | VP_PC | VP_PIPE | VP_MISC | VP_HPM | VP_PMU

datatype bg_target_flush_e = FLUSH_ADDR | FLUSH_IDX | FLUSH_ALL

text \<open>
  The weight maps, in the order of the enumerations, which is the order of the maps. The product
  for the DDR is compared with zero, not multiplied by the comparison: its weight is one.
\<close>

definition weight_if :: "bool \<Rightarrow> int \<Rightarrow> int" where
  "weight_if b w = (if b then w else 0)"

definition bg_target_weight_map :: "('t, 'e) htif \<Rightarrow> (bg_target_e \<times> int) list" where
  "bg_target_weight_map s =
    [(SLOW_IO, 40), (DDR, if 0 < 20 * length (arg_of s ''reset_ddr'') then 1 else 0), (USB, 20), (SDIO, 20),
     (ORV32, weight_if (arg_of s ''release_orv32_reset'' \<noteq> []) 20),
     (VP, weight_if (arg_of s ''release_vp0_reset'' \<noteq> []) 20), (FLUSH, 20),
     (FLASH, weight_if (arg_of s ''enable_flash_fsm'' \<noteq> []) 20), (IDLE, 10)]"

definition bg_target_slow_io_weight_map :: "(bg_target_slow_io_e \<times> int) list" where
  "bg_target_slow_io_weight_map = map (\<lambda>t. (t, 10))
    [QSPIM, SSPIM0, SSPIM1, SSPIM2, SPIS, UART0, UART1, UART2, UART3, I2SM, I2SS0, I2SS1, I2SS2, I2SS3,
     I2SS4, I2SS5, I2C0, I2C1, I2C2, GPIO, RTC, TIMERS, WDT]"

definition bg_target_ddr_weight_map :: "('t, 'e) htif \<Rightarrow> (bg_target_ddr_e \<times> int) list" where
  "bg_target_ddr_weight_map s =
    [(CTRL, 10), (PHY, 10), (SRAM, 10), (MR, weight_if (arg_of s ''reset_ddr'' \<noteq> []) 10)]"

definition bg_target_orv32_weight_map :: "(bg_target_orv32_e \<times> int) list" where
  "bg_target_orv32_weight_map =
    [(ORV32_ITB, 10), (ORV32_PC, 10), (ORV32_MISC, 10), (ORV32_HPM, 10), (ORV32_PIPE, 10)]"

definition bg_target_orv64_weight_map :: "('t, 'e) htif \<Rightarrow> (bg_target_orv64_e \<times> int) list" where
  "bg_target_orv64_weight_map s =
    [(VP_ITB, 10), (VP_IC, weight_if (arg_of s ''ic_bypass'' \<noteq> []) 10), (VP_IBUF, 10), (VP_ITLB, 10),
     (VP_DTLB, 10), (VP_VTLB, 10), (VP_PC, 10), (VP_PIPE, 10), (VP_MISC, 10), (VP_HPM, 10), (VP_PMU, 10)]"

definition bg_target_flush_weight_map :: "(bg_target_flush_e \<times> int) list" where
  "bg_target_flush_weight_map = [(FLUSH_ADDR, 20), (FLUSH_IDX, 20), (FLUSH_ALL, 1)]"

text \<open>A weighted choice whose key is cast back to the enumeration.\<close>

definition choose_target :: "'e os_ops \<Rightarrow> ('a \<times> int) list \<Rightarrow> ('t, 'e, 'a) hprog" where
  "choose_target os ws =
    bnd (weighted_random os (zip (map int [0..<length ws]) (map snd ws))) (\<lambda>i. ret (fst (ws ! nat i)))"

section \<open>Slow peripherals\<close>

definition random_mod :: "'e os_ops \<Rightarrow> int \<Rightarrow> ('t, 'e, u64) hprog" where
  "random_mod os n = bnd (host_call (os_random os)) (\<lambda>r. ret (of_int (r mod n)))"

text \<open>A random word is written to a register, read back and compared; the old value is put back.\<close>

definition bg_register :: "'t htif_ops \<Rightarrow> 'e os_ops \<Rightarrow> u64 \<Rightarrow> u64 \<Rightarrow> ('t, 'e, bool) hprog" where
  "bg_register h os a bits =
    bnd (random_word os) (\<lambda>wdata.
    bnd (OURSBUS_READ_4B h a 0) (\<lambda>orig.
    andThen (OURSBUS_WRITE h a wdata)
    (bnd (OURSBUS_READ_4B h a 0) (\<lambda>rdata.
     andThen (OURSBUS_WRITE h a orig) (ret (rdata = wdata AND bits))))))"

text \<open>The version register first, then a register of which some bits can be written.\<close>

definition bg_device :: "'t htif_ops \<Rightarrow> 'e os_ops \<Rightarrow> u64 \<times> u64 \<Rightarrow> u64 \<times> u64 \<Rightarrow> ('t, 'e, bool) hprog" where
  "bg_device h os version test =
    all_ok [check_version h version, bg_register h os (fst test) (snd test)]"

definition bg_qspim :: "'t htif_ops \<Rightarrow> 'e os_ops \<Rightarrow> ('t, 'e, bool) hprog" where
  "bg_qspim h os =
    bg_device h os (STATION_SLOW_IO_QSPIM_BLOCK_REG_ADDR + 0x5c, 0x3430322a)
      (STATION_SLOW_IO_QSPIM_BLOCK_REG_ADDR + 0x4, 0xffff)"

text \<open>While the flash controller runs, \<open>SSPIM0\<close> is not written.\<close>

definition bg_sspim0 :: "'t htif_ops \<Rightarrow> 'e os_ops \<Rightarrow> ('t, 'e, bool) hprog" where
  "bg_sspim0 h os =
    bnd (check_version h (STATION_SLOW_IO_SSPIM0_BLOCK_REG_ADDR + 0x5c, 0x3430312a)) (\<lambda>v.
    bnd (flag ''enable_flash_fsm'') (\<lambda>f.
    if f then ret v
    else bnd (bg_register h os (STATION_SLOW_IO_SSPIM0_BLOCK_REG_ADDR + 0x4) 0xffff) (\<lambda>b. ret (v \<and> b))))"

definition bg_sspim :: "'t htif_ops \<Rightarrow> 'e os_ops \<Rightarrow> u64 \<Rightarrow> ('t, 'e, bool) hprog" where
  "bg_sspim h os base = bg_device h os (base + 0x5c, 0x3430312a) (base + 0x4, 0xffff)"

definition bg_spis :: "'t htif_ops \<Rightarrow> 'e os_ops \<Rightarrow> ('t, 'e, bool) hprog" where
  "bg_spis h os =
    bg_device h os (STATION_SLOW_IO_SPIS_BLOCK_REG_ADDR + 0x5c, 0x3430312a)
      (STATION_SLOW_IO_SPIS_BLOCK_REG_ADDR + 0x2c, 0x1f)"

definition bg_uart :: "'t htif_ops \<Rightarrow> 'e os_ops \<Rightarrow> u64 \<Rightarrow> ('t, 'e, bool) hprog" where
  "bg_uart h os base = bg_device h os (base + 0xf8, 0x3430312a) (base + 0x4, 0xf)"

definition bg_i2s :: "'t htif_ops \<Rightarrow> 'e os_ops \<Rightarrow> u64 \<Rightarrow> ('t, 'e, bool) hprog" where
  "bg_i2s h os base = bg_device h os (base + 0x1f8, 0x3131302a) (base + 0x10, 0x1f)"

definition bg_i2c :: "'t htif_ops \<Rightarrow> 'e os_ops \<Rightarrow> u64 \<Rightarrow> ('t, 'e, bool) hprog" where
  "bg_i2c h os base = bg_device h os (base + 0xf8, 0x3230312a) (base + 0x8, 0x3ff)"

text \<open>Here the old value is read before the random number is drawn, and all bits are compared.\<close>

definition bg_gpio :: "'t htif_ops \<Rightarrow> 'e os_ops \<Rightarrow> ('t, 'e, bool) hprog" where
  "bg_gpio h os =
    (let a = STATION_SLOW_IO_GPIO_BLOCK_REG_ADDR + 0x30 in
     bnd (check_version h (STATION_SLOW_IO_GPIO_BLOCK_REG_ADDR + 0x6c, 0x3231322a)) (\<lambda>v.
     bnd (OURSBUS_READ_4B h a 0) (\<lambda>orig.
     bnd (random_word os) (\<lambda>wdata.
     andThen (OURSBUS_WRITE h a wdata)
     (bnd (OURSBUS_READ_4B h a 0) (\<lambda>rdata.
      andThen (OURSBUS_WRITE h a orig) (ret (v \<and> rdata = wdata))))))))"

definition bg_rtc :: "'t htif_ops \<Rightarrow> 'e os_ops \<Rightarrow> ('t, 'e, bool) hprog" where
  "bg_rtc h os =
    bg_device h os (STATION_SLOW_IO_RTC_BLOCK_REG_ADDR + 0x1c, 0x3230362a)
      (STATION_SLOW_IO_RTC_BLOCK_REG_ADDR + 0xc, 0x1f)"

definition bg_timers :: "'t htif_ops \<Rightarrow> 'e os_ops \<Rightarrow> ('t, 'e, bool) hprog" where
  "bg_timers h os =
    bg_device h os (STATION_SLOW_IO_TIMERS_BLOCK_REG_ADDR + 0xac, 0x3231312a)
      (STATION_SLOW_IO_TIMERS_BLOCK_REG_ADDR + 0x0, - 1)"

definition bg_wdt :: "'t htif_ops \<Rightarrow> ('t, 'e, bool) hprog" where
  "bg_wdt h = check_version h (STATION_SLOW_IO_WDT_BLOCK_REG_ADDR + 0xf8, 0x3131302a)"

fun bg_slow_io :: "'t htif_ops \<Rightarrow> 'e os_ops \<Rightarrow> bg_target_slow_io_e \<Rightarrow> ('t, 'e, bool) hprog" where
  "bg_slow_io h os QSPIM = bg_qspim h os"
| "bg_slow_io h os SSPIM0 = bg_sspim0 h os"
| "bg_slow_io h os SSPIM1 = bg_sspim h os STATION_SLOW_IO_SSPIM1_BLOCK_REG_ADDR"
| "bg_slow_io h os SSPIM2 = bg_sspim h os STATION_SLOW_IO_SSPIM2_BLOCK_REG_ADDR"
| "bg_slow_io h os SPIS = bg_spis h os"
| "bg_slow_io h os UART0 = bg_uart h os STATION_SLOW_IO_UART0_BLOCK_REG_ADDR"
| "bg_slow_io h os UART1 = bg_uart h os STATION_SLOW_IO_UART1_BLOCK_REG_ADDR"
| "bg_slow_io h os UART2 = bg_uart h os STATION_SLOW_IO_UART2_BLOCK_REG_ADDR"
| "bg_slow_io h os UART3 = bg_uart h os STATION_SLOW_IO_UART3_BLOCK_REG_ADDR"
| "bg_slow_io h os I2SM = bg_i2s h os STATION_SLOW_IO_I2SM_BLOCK_REG_ADDR"
| "bg_slow_io h os I2SS0 = bg_i2s h os STATION_SLOW_IO_I2SS0_BLOCK_REG_ADDR"
| "bg_slow_io h os I2SS1 = bg_i2s h os STATION_SLOW_IO_I2SS1_BLOCK_REG_ADDR"
| "bg_slow_io h os I2SS2 = bg_i2s h os STATION_SLOW_IO_I2SS2_BLOCK_REG_ADDR"
| "bg_slow_io h os I2SS3 = bg_i2s h os STATION_SLOW_IO_I2SS3_BLOCK_REG_ADDR"
| "bg_slow_io h os I2SS4 = bg_i2s h os STATION_SLOW_IO_I2SS4_BLOCK_REG_ADDR"
| "bg_slow_io h os I2SS5 = bg_i2s h os STATION_SLOW_IO_I2SS5_BLOCK_REG_ADDR"
| "bg_slow_io h os I2C0 = bg_i2c h os STATION_SLOW_IO_I2C0_BLOCK_REG_ADDR"
| "bg_slow_io h os I2C1 = bg_i2c h os STATION_SLOW_IO_I2C1_BLOCK_REG_ADDR"
| "bg_slow_io h os I2C2 = bg_i2c h os STATION_SLOW_IO_I2C2_BLOCK_REG_ADDR"
| "bg_slow_io h os GPIO = bg_gpio h os"
| "bg_slow_io h os RTC = bg_rtc h os"
| "bg_slow_io h os TIMERS = bg_timers h os"
| "bg_slow_io h os WDT = bg_wdt h"

section \<open>DDR\<close>

definition bg_ddr_ctrl :: "'t htif_ops \<Rightarrow> 'e os_ops \<Rightarrow> ('t, 'e, bool) hprog" where
  "bg_ddr_ctrl h os =
    bnd (host_call (os_random os)) (\<lambda>r.
    bnd (random_word os) (\<lambda>w.
    if r mod 3 = 0 then check_restore h (uctrl 0x30) 0x1ef w
    else if r mod 3 = 1 then check_restore h (uctrl 0x490) 1 w
    else check_restore h (uctrl 0x2050) 0xf1f3f0 w))"

definition bg_ddr_phy :: "'t htif_ops \<Rightarrow> 'e os_ops \<Rightarrow> ('t, 'e, bool) hprog" where
  "bg_ddr_phy h os =
    bnd (random_mod os 2) (\<lambda>i.
    bnd (random_word os) (\<lambda>w. check_restore h (phy 0x100d0 + push_bit 2 (i * 0x1000)) 0xf w))"

definition bg_ddr_sram :: "'t htif_ops \<Rightarrow> 'e os_ops \<Rightarrow> ('t, 'e, bool) hprog" where
  "bg_ddr_sram h os = all_ok [phy_sram h os 0x50000 0x3ff8, phy_sram h os 0x54000 0x400]"

definition bg_ddr_mr :: "'t htif_ops \<Rightarrow> nat \<Rightarrow> ('t, 'e, bool) hprog" where
  "bg_ddr_mr h fuel =
    bnd (flag ''reset_ddr'') (\<lambda>f.
    if f then all_ok [read_mode_register h fuel 0x500 0xff, read_mode_register h fuel 0x600 0] else ret True)"

text \<open>The PHY is opened and its processor stalled around the access.\<close>

definition bg_ddr :: "'t htif_ops \<Rightarrow> 'e os_ops \<Rightarrow> nat \<Rightarrow> ('t, 'e, bool) hprog" where
  "bg_ddr h os fuel =
    andThen (phy_writes h [(0xd0000, 0), (0xc0080, 7)])
    (bnd (OURSBUS_READ_4B h (phy 0xd0099) 0) (\<lambda>orig.
     andThen (OURSBUS_WRITE h (phy 0xd0099) (orig OR 1))
     (bnd (getS bg_target_ddr_weight_map) (\<lambda>ws.
      bnd (choose_target os ws) (\<lambda>t.
      bnd (case t of CTRL \<Rightarrow> bg_ddr_ctrl h os | PHY \<Rightarrow> bg_ddr_phy h os
           | SRAM \<Rightarrow> bg_ddr_sram h os | MR \<Rightarrow> bg_ddr_mr h fuel) (\<lambda>ok.
      andThen (phy_writes h [(0xd0099, 1), (0xd0000, 1)]) (ret ok)))))))"

section \<open>USB, SDIO and flash\<close>

definition bg_usb :: "'t htif_ops \<Rightarrow> 'e os_ops \<Rightarrow> ('t, 'e, bool) hprog" where
  "bg_usb h os =
    andThen (OURSBUS_WRITE h STATION_USB_TOP_S2B_VCC_RESET_N_ADDR 1)
    (bnd (random_word os) (\<lambda>w.
     andThen (OURSBUS_WRITE h (usb 0xc128) w) (bnd (OURSBUS_READ_4B h (usb 0xc128) 0) (\<lambda>x. ret (x = w)))))"

definition bg_flash :: "'t htif_ops \<Rightarrow> ('t, 'e, bool) hprog" where
  "bg_flash h = bnd (OURSBUS_READ h STATION_SLOW_IO_FLASH_ADDR 0) (\<lambda>x. ret (x = 0x8967452301efcdab))"

section \<open>The cores\<close>

text \<open>A read whose value is not looked at.\<close>

definition bg_peek :: "'t htif_ops \<Rightarrow> u64 \<Rightarrow> ('t, 'e, bool) hprog" where
  "bg_peek h a = bnd (OURSBUS_READ_4B h a 0) (\<lambda>_. ret True)"

definition bg_slot :: "'t htif_ops \<Rightarrow> 'e os_ops \<Rightarrow> int \<Rightarrow> u64 \<Rightarrow> ('t, 'e, bool) hprog" where
  "bg_slot h os n base = bnd (random_mod os n) (\<lambda>i. bg_peek h (push_bit 3 i + base))"

definition bg_orv32_itb :: "'t htif_ops \<Rightarrow> 'e os_ops \<Rightarrow> ('t, 'e, bool) hprog" where
  "bg_orv32_itb h os =
    andThen (OURSBUS_WRITE h STATION_ORV32_S2B_CFG_ITB_EN_ADDR 1)
    (bnd (random_mod os 0x80) (\<lambda>i.
     bnd (OURSBUS_READ_4B h ((i + STATION_ORV32_ITB_ADDR) AND 0xffffffc) 0) (\<lambda>d.
     bnd (OURSBUS_READ_4B h STATION_ORV32_B2S_ITB_LAST_PTR_ADDR 0) (\<lambda>p.
       ret (0x80000000 \<le> d
         \<and> \<not> (p < STATION_ORV32_ITB_ADDR \<or> STATION_ORV32_S2B_CFG_RST_PC_ADDR \<le> p))))))"

definition bg_orv32_pc :: "'t htif_ops \<Rightarrow> ('t, 'e, bool) hprog" where
  "bg_orv32_pc h =
    bnd (OURSBUS_READ_4B h STATION_ORV32_IF_PC_ADDR 0) (\<lambda>f.
    bnd (OURSBUS_READ_4B h STATION_ORV32_WB_PC_ADDR 0) (\<lambda>w.
      ret (0x80000000 \<le> f \<and> 0x80000000 \<le> w)))"

definition bg_orv32_misc :: "'t htif_ops \<Rightarrow> 'e os_ops \<Rightarrow> ('t, 'e, bool) hprog" where
  "bg_orv32_misc h os =
    bnd (random_mod os (uint (STATION_ORV32_HPMCOUNTER_3_OFFSET - STATION_ORV32_CS2MA_EXCP_ADDR))) (\<lambda>i.
      bg_peek h (i + STATION_ORV32_CS2MA_EXCP_OFFSET))"

definition bg_orv32_hpm :: "'t htif_ops \<Rightarrow> 'e os_ops \<Rightarrow> ('t, 'e, bool) hprog" where
  "bg_orv32_hpm h os =
    andThen (OURSBUS_WRITE h STATION_ORV32_S2B_CFG_EN_HPMCOUNTER_ADDR 1)
      (bg_slot h os 8 STATION_ORV32_HPMCOUNTER_3_ADDR)"

definition bg_orv32_pipe :: "'t htif_ops \<Rightarrow> 'e os_ops \<Rightarrow> ('t, 'e, bool) hprog" where
  "bg_orv32_pipe h os =
    bnd (random_mod os (uint (STATION_ORV32_MA2CS_EXCP_VALID_ADDR + 1 - STATION_ORV32_IF_STALL_ADDR))) (\<lambda>i.
      bg_peek h ((i + STATION_ORV32_IF_STALL_ADDR) AND 0xffffff8))"

definition bg_orv32 :: "'t htif_ops \<Rightarrow> 'e os_ops \<Rightarrow> ('t, 'e, bool) hprog" where
  "bg_orv32 h os =
    bnd (choose_target os bg_target_orv32_weight_map) (\<lambda>t.
      case t of ORV32_ITB \<Rightarrow> bg_orv32_itb h os | ORV32_PC \<Rightarrow> bg_orv32_pc h | ORV32_MISC \<Rightarrow> bg_orv32_misc h os
      | ORV32_HPM \<Rightarrow> bg_orv32_hpm h os | ORV32_PIPE \<Rightarrow> bg_orv32_pipe h os)"

definition bg_vp_ic :: "'t htif_ops \<Rightarrow> 'e os_ops \<Rightarrow> ('t, 'e, bool) hprog" where
  "bg_vp_ic h os =
    bnd (random_word os) (\<lambda>w.
    bnd (random_mod os (uint STATION_VP_ITB_DATA_OFFSET)) (\<lambda>i.
    let a = (i + STATION_VP_IC_DATA_WAY_0_ADDR_0) AND 0xfffffff8 in
    andThen (OURSBUS_WRITE h a w) (bnd (OURSBUS_READ_4B h a 0) (\<lambda>x. ret (x = w)))))"

text \<open>Unless the check of program counters is switched off, the warning is printed whatever is read.\<close>

definition bg_vp_itb :: "'t htif_ops \<Rightarrow> 'e os_ops \<Rightarrow> ('t, 'e, bool) hprog" where
  "bg_vp_itb h os =
    andThen (OURSBUS_WRITE h STATION_VP_S2B_CFG_ITB_EN_ADDR_0 1)
    (bnd (random_mod os 0x80) (\<lambda>i.
     bnd (OURSBUS_READ_4B h ((i + STATION_VP_ITB_DATA_ADDR_0) AND 0xffffff8) 0) (\<lambda>_.
     bnd (flag ''disable_pc_chk'') (\<lambda>off.
     bnd (OURSBUS_READ_4B h STATION_VP_B2S_ITB_LAST_PTR_ADDR_0 0) (\<lambda>p.
       ret (off \<and> \<not> (p < STATION_VP_ITB_DATA_ADDR_0 \<or> STATION_VP_IBUF_LINE_DATA_ADDR_0__DEPTH_0 \<le> p)))))))"

definition bg_vp_ibuf :: "'t htif_ops \<Rightarrow> ('t, 'e, bool) hprog" where
  "bg_vp_ibuf h =
    all_ok [bg_peek h STATION_VP_IBUF_LINE_PADDR_ADDR_0__DEPTH_0,
            bg_peek h STATION_VP_IBUF_LINE_EXCP_CAUSE_ADDR_0__DEPTH_1]"

definition bg_vp_itlb :: "'t htif_ops \<Rightarrow> 'e os_ops \<Rightarrow> ('t, 'e, bool) hprog" where
  "bg_vp_itlb h os =
    all_ok [bg_slot h os 8 (STATION_VP_ITLB_ASID_OFFSET__DEPTH_0 + STATION_VP_BASE_ADDR_0),
            bg_slot h os 8 (STATION_VP_ITLB_VPN_OFFSET__DEPTH_0 + STATION_VP_BASE_ADDR_0),
            bg_slot h os 8 (STATION_VP_ITLB_PTE_OFFSET__DEPTH_0 + STATION_VP_BASE_ADDR_0)]"

definition bg_vp_dtlb :: "'t htif_ops \<Rightarrow> 'e os_ops \<Rightarrow> ('t, 'e, bool) hprog" where
  "bg_vp_dtlb h os =
    all_ok [bg_slot h os 8 (STATION_VP_DTLB_ASID_OFFSET__DEPTH_0 + STATION_VP_BASE_ADDR_0),
            bg_slot h os 8 (STATION_VP_DTLB_VPN_OFFSET__DEPTH_0 + STATION_VP_BASE_ADDR_0),
            bg_slot h os 8 (STATION_VP_DTLB_PTE_OFFSET__DEPTH_0 + STATION_VP_BASE_ADDR_0)]"

definition bg_vp_vtlb :: "'t htif_ops \<Rightarrow> 'e os_ops \<Rightarrow> ('t, 'e, bool) hprog" where
  "bg_vp_vtlb h os =
    all_ok [bg_slot h os 8 (STATION_VP_VTLB_ASID_OFFSET__DEPTH_0 + STATION_VP_BASE_ADDR_0),
            bg_slot h os 8 (STATION_VP_VTLB_VPN_OFFSET__DEPTH_0 + STATION_VP_BASE_ADDR_0),
            bg_slot h os 8 (STATION_VP_VTLB_PTE_OFFSET__DEPTH_0 + STATION_VP_BASE_ADDR_0)]"

definition bg_vp_pc :: "'t htif_ops \<Rightarrow> ('t, 'e, bool) hprog" where
  "bg_vp_pc h =
    bnd (flag ''disable_pc_chk'') (\<lambda>off.
    bnd (OURSBUS_READ_4B h STATION_VP_IF_PC_ADDR_0 0) (\<lambda>f.
    bnd (OURSBUS_READ_4B h STATION_VP_WB_PC_ADDR_0 0) (\<lambda>w.
      ret ((off \<or> 0x80000000 \<le> f) \<and> (off \<or> 0x80000000 \<le> w)))))"

definition bg_vp_hpm :: "'t htif_ops \<Rightarrow> 'e os_ops \<Rightarrow> ('t, 'e, bool) hprog" where
  "bg_vp_hpm h os =
    andThen (OURSBUS_WRITE h STATION_VP_S2B_CFG_EN_HPMCOUNTER_ADDR_0 1)
      (bg_slot h os 14 (STATION_VP_HPMCOUNTER_3_OFFSET + STATION_VP_BASE_ADDR_0))"

definition bg_vp_pmu :: "'t htif_ops \<Rightarrow> 'e os_ops \<Rightarrow> ('t, 'e, bool) hprog" where
  "bg_vp_pmu h os =
    andThen (OURSBUS_WRITE h STATION_VP_S2B_VCORE_PMU_EN_ADDR_0 1)
      (bg_slot h os 17 (STATION_VP_VCORE_PMU_OFFSET + STATION_VP_BASE_ADDR_0))"

definition bg_vp :: "'t htif_ops \<Rightarrow> 'e os_ops \<Rightarrow> ('t, 'e, bool) hprog" where
  "bg_vp h os =
    bnd (getS bg_target_orv64_weight_map) (\<lambda>ws.
    bnd (choose_target os ws) (\<lambda>t.
      case t of VP_IC \<Rightarrow> bg_vp_ic h os | VP_ITB \<Rightarrow> bg_vp_itb h os | VP_IBUF \<Rightarrow> bg_vp_ibuf h
      | VP_ITLB \<Rightarrow> bg_vp_itlb h os | VP_DTLB \<Rightarrow> bg_vp_dtlb h os | VP_VTLB \<Rightarrow> bg_vp_vtlb h os
      | VP_PC \<Rightarrow> bg_vp_pc h | VP_PIPE \<Rightarrow> ret True | VP_MISC \<Rightarrow> ret True
      | VP_HPM \<Rightarrow> bg_vp_hpm h os | VP_PMU \<Rightarrow> bg_vp_pmu h os))"

section \<open>Cache flush\<close>

fun flush_type :: "bg_target_flush_e \<Rightarrow> u64" where
  "flush_type FLUSH_ADDR = 0"
| "flush_type FLUSH_IDX = 1"
| "flush_type FLUSH_ALL = 2"

text \<open>A flush is requested only while the controller has no command.\<close>

definition bg_flush :: "'t htif_ops \<Rightarrow> 'e os_ops \<Rightarrow> ('t, 'e, bool) hprog" where
  "bg_flush h os =
    bnd (OURSBUS_READ_4B h STATION_DMA_DMA_FLUSH_CMD_VLD_ADDR 0) (\<lambda>cmd_vld.
    if cmd_vld \<noteq> 0 then ret True
    else
      bnd (random_mod os 0x80000000) (\<lambda>i.
      bnd (choose_target os bg_target_flush_weight_map) (\<lambda>t.
      andThen (write_regs h
        [(STATION_DMA_S2B_DMA_FLUSH_REQ_TYPE_ADDR, flush_type t),
         (STATION_DMA_S2B_DMA_FLUSH_ADDR_ADDR, i + 0x80000000),
         (STATION_DMA_DMA_FLUSH_CMD_VLD_ADDR, 1)]) (ret True))))"

section \<open>Debug interrupts\<close>

definition SNAP_PERIOD :: int where "SNAP_PERIOD = 40000000"

definition PLIC_PERIOD :: int where "PLIC_PERIOD = 100"

text \<open>
  An interrupt is raised when the instruction count has reached the given multiple of the period;
  the product is of type \<open>int\<close>. Nothing sets \<open>debug_interrupt\<close> again while the server runs.
\<close>

definition bg_interrupt :: "'t htif_ops \<Rightarrow> int \<Rightarrow> (u64 \<times> u64) list \<Rightarrow> ('t, 'e, unit) hprog" where
  "bg_interrupt h period ws =
    bnd (OURSBUS_READ h STATION_VP_MINSTRET_ADDR_0 0) (\<lambda>rdata.
    bnd (getS (\<lambda>s. (ht_debug_interrupt s, ht_count s))) (\<lambda>(dbg, n).
    if dbg \<and> rdata = of_int (period * n) then
      andThen (modS (\<lambda>s. s\<lparr>ht_debug_interrupt := False\<rparr>))
      (andThen (write_regs h ws)
      (andThen (modS (\<lambda>s. s\<lparr>ht_count := n + 1\<rparr>)) (on_mem (idle h))))
    else on_mem (idle h)))"

definition bg_snapshot :: "'t htif_ops \<Rightarrow> ('t, 'e, unit) hprog" where
  "bg_snapshot h = bg_interrupt h SNAP_PERIOD [(0x00802000, 1)]"

definition bg_plic :: "'t htif_ops \<Rightarrow> ('t, 'e, unit) hprog" where
  "bg_plic h = bg_interrupt h PLIC_PERIOD
    [(STATION_DMA_S2B_PLIC_INTR_EN_ADDR__DEPTH_0, 1), (STATION_DMA_S2B_PLIC_INTR_CORE_ID_ADDR__DEPTH_0, 0),
     (STATION_DMA_S2B_PLIC_DBG_EN_ADDR__DEPTH_0, 1)]"

definition bg_scan_f :: "'t htif_ops \<Rightarrow> ('t, 'e, unit) hprog" where
  "bg_scan_f h = write_regs h
    [(STATION_VP_S2B_DEBUG_STALL_ADDR_0, 1), (0xfffffff000, 0), (STATION_VP_S2B_DEBUG_STALL_ADDR_0, 0),
     (STATION_VP_S2B_DEBUG_RESUME_ADDR_0, 1)]"

definition bg_scu :: "'t htif_ops \<Rightarrow> 'e os_ops \<Rightarrow> ('t, 'e, unit) hprog" where
  "bg_scu h os =
    bnd (host_call (os_random os)) (\<lambda>r.
      OURSBUS_WRITE h STATION_SLOW_IO_SCU_LP_MODE_ADDR (if r mod 100 < 50 then 1 else 2))"

section \<open>One call\<close>

text \<open>The target is drawn before the special modes are looked at.\<close>

fun bg_access :: "'t htif_ops \<Rightarrow> 'e os_ops \<Rightarrow> nat \<Rightarrow> bg_target_e \<Rightarrow> ('t, 'e, unit) hprog" where
  "bg_access h os fuel SLOW_IO =
    bnd (choose_target os bg_target_slow_io_weight_map) (\<lambda>t. quietly (bg_slow_io h os t))"
| "bg_access h os fuel DDR = quietly (bg_ddr h os fuel)"
| "bg_access h os fuel USB = quietly (bg_usb h os)"
| "bg_access h os fuel SDIO = quietly (io_test_sdio h os)"
| "bg_access h os fuel ORV32 = quietly (bg_orv32 h os)"
| "bg_access h os fuel VP = quietly (bg_vp h os)"
| "bg_access h os fuel FLUSH = quietly (bg_flush h os)"
| "bg_access h os fuel FLASH = quietly (bg_flash h)"
| "bg_access h os fuel IDLE = on_mem (idle h)"

definition bg :: "'t htif_ops \<Rightarrow> 'e os_ops \<Rightarrow> nat \<Rightarrow> ('t, 'e, unit) hprog" where
  "bg h os fuel =
    bnd (getS bg_target_weight_map) (\<lambda>ws.
    bnd (choose_target os ws) (\<lambda>todo.
    bnd (flag ''snapshot'') (\<lambda>snap.
    bnd (flag ''plic_interrupt'') (\<lambda>plic.
    bnd (flag ''test_scan_f'') (\<lambda>scan.
    bnd (flag ''test_scu'') (\<lambda>scu.
      if snap then bg_snapshot h
      else if plic then bg_plic h
      else if scan then bg_scan_f h
      else if scu then bg_scu h os
      else bg_access h os fuel todo))))))"

text \<open>The project as the server sees it.\<close>

definition es1y_proj :: "('t, 'e) boot_env \<Rightarrow> ('t, 'e) htif_proj" where
  "es1y_proj b = \<lparr>proj_setup = es1y_setup b, proj_bg = bg (be_target b) (ho_os (be_host b)) (be_fuel b)\<rparr>"

end
