(* ===== verification/Ddr_Training.thy ===== *)
theory Ddr_Training
  imports Ddr Command_Line
begin

text \<open>
  The end of the DDR training. The firmware of the PHY and the host exchange messages through a
  mailbox of four registers; what the firmware promises of them is the hypothesis here, and the
  loop of \<open>train_1d\<close> is shown to take every message up to the last one and then to return.
\<close>

section \<open>The firmware's side\<close>

definition reg_read :: "'t htif_ops \<Rightarrow> addr \<Rightarrow> 't \<Rightarrow> u64 \<Rightarrow> 't \<Rightarrow> bool" where
  "reg_read h a t v t' \<longleftrightarrow>
    (\<exists>bs. length bs = 4 \<and> memif_read h a (replicate 4 0) DMA t = (Inr bs, t') \<and> v = le_word bs)"

definition reg_write :: "'t htif_ops \<Rightarrow> addr \<Rightarrow> u64 \<Rightarrow> 't \<Rightarrow> 't \<Rightarrow> bool" where
  "reg_write h a v t t' \<longleftrightarrow> memif_write h a (le_bytes 8 v) DMA t = (Inr (), t')"

lemma reg_read_4B: "reg_read h a (target_of s) v t \<Longrightarrow> OURSBUS_READ_4B h a 0 s = (Inr v, with_target t s)"
  by (auto simp: reg_read_def OURSBUS_READ_4B_def ht_read_def bnd_def on_mem_ok shift_in_8 le_word_pad
      simp flip: replicate_0)

lemma reg_write_WRITE: "reg_write h a v (target_of s) t \<Longrightarrow> OURSBUS_WRITE h a v s = (Inr (), with_target t s)"
  by (simp add: reg_write_def OURSBUS_WRITE_bytes ht_write_def on_mem_ok)

text \<open>
  \<open>prot t\<close> is \<open>DctWriteProt\<close> as last written, \<open>msgs t\<close> the messages the firmware has still to hand
  over, \<open>slack t\<close> how many more readings may find \<open>UctWriteProtShadow\<close> (\<open>0xd0004\<close>) unchanged. With
  \<open>prot\<close> set and a message to hand over the firmware clears the shadow's lowest bit; with \<open>prot\<close> clear
  it sets it. \<open>UctWriteOnlyShadow\<close> (\<open>0xd0032\<close>) holds the first message until clearing \<open>DctWriteProt\<close>
  (\<open>0xd0031\<close>) acknowledges it; each write there restarts the slack, which is at most \<open>D\<close>.
\<close>

definition mailbox :: "'t htif_ops \<Rightarrow> ('t \<Rightarrow> bool) \<Rightarrow> ('t \<Rightarrow> u64 list) \<Rightarrow> ('t \<Rightarrow> nat) \<Rightarrow> nat \<Rightarrow> bool" where
  "mailbox h prot msgs slack D \<longleftrightarrow>
    (\<forall>t. prot t \<longrightarrow> msgs t \<noteq> [] \<longrightarrow> (\<exists>v t'. reg_read h (phy 0xd0004) t v t' \<and> prot t' \<and> msgs t' = msgs t
       \<and> (v AND 1 = 0 \<or> slack t' < slack t))) \<and>
    (\<forall>t. \<not> prot t \<longrightarrow> (\<exists>v t'. reg_read h (phy 0xd0004) t v t' \<and> \<not> prot t' \<and> msgs t' = msgs t
       \<and> (v AND 1 = 1 \<or> slack t' < slack t))) \<and>
    (\<forall>t m ms. prot t \<longrightarrow> msgs t = m # ms \<longrightarrow> (\<exists>v t'. reg_read h (phy 0xd0032) t v t' \<and> v AND 0xff = m
       \<and> prot t' \<and> msgs t' = msgs t)) \<and>
    (\<forall>t. prot t \<longrightarrow> (\<exists>v t'. reg_read h (phy 0xd0034) t v t' \<and> prot t' \<and> msgs t' = msgs t)) \<and>
    (\<forall>t. prot t \<longrightarrow> (\<exists>t'. reg_write h (phy 0xd0031) 0 t t' \<and> \<not> prot t' \<and> msgs t' = tl (msgs t) \<and> slack t' \<le> D)) \<and>
    (\<forall>t. \<not> prot t \<longrightarrow> (\<exists>t'. reg_write h (phy 0xd0031) 1 t t' \<and> prot t' \<and> msgs t' = msgs t \<and> slack t' \<le> D))"

lemma mailbox_clears: "mailbox h prot msgs slack D \<Longrightarrow> prot t \<Longrightarrow> msgs t \<noteq> [] \<Longrightarrow> \<exists>v t'. reg_read h (phy 0xd0004) t v t'
    \<and> (prot t' \<and> msgs t' = msgs t) \<and> (v AND 1 = 0 \<or> slack t' < slack t)"
  unfolding mailbox_def by blast

lemma mailbox_sets: "mailbox h prot msgs slack D \<Longrightarrow> \<not> prot t \<Longrightarrow> \<exists>v t'. reg_read h (phy 0xd0004) t v t'
    \<and> (\<not> prot t' \<and> msgs t' = msgs t) \<and> (v AND 1 = 1 \<or> slack t' < slack t)"
  unfolding mailbox_def by blast

lemma mailbox_message: "mailbox h prot msgs slack D \<Longrightarrow> prot t \<Longrightarrow> msgs t = m # ms \<Longrightarrow> \<exists>v t'. reg_read h (phy 0xd0032) t v t'
    \<and> v AND 0xff = m \<and> prot t' \<and> msgs t' = m # ms"
  unfolding mailbox_def by metis

lemma mailbox_data: "mailbox h prot msgs slack D \<Longrightarrow> prot t \<Longrightarrow> \<exists>v t'. reg_read h (phy 0xd0034) t v t' \<and> prot t' \<and> msgs t' = msgs t"
  unfolding mailbox_def by blast

lemma mailbox_taken: "mailbox h prot msgs slack D \<Longrightarrow> prot t \<Longrightarrow> \<exists>t'. reg_write h (phy 0xd0031) 0 t t'
    \<and> \<not> prot t' \<and> msgs t' = tl (msgs t) \<and> slack t' \<le> D"
  unfolding mailbox_def by blast

lemma mailbox_next: "mailbox h prot msgs slack D \<Longrightarrow> \<not> prot t \<Longrightarrow> \<exists>t'. reg_write h (phy 0xd0031) 1 t t'
    \<and> prot t' \<and> msgs t' = msgs t \<and> slack t' \<le> D"
  unfolding mailbox_def by blast

section \<open>The host's side\<close>

text \<open>A wait ends when each reading either satisfies it or brings a measure down.\<close>

lemma await_decreasing:
  assumes "\<And>t. I t \<Longrightarrow> \<exists>v t'. reg_read h a t v t' \<and> I t' \<and> (P v \<or> slack t' < slack t)"
    and "I (target_of s)" and "slack (target_of s) < fuel"
  shows "\<exists>t'. await_reg h fuel a P s = (Inr (), with_target t' s) \<and> I t'"
  using assms(2,3)
proof (induction fuel arbitrary: s)
  case (Suc fuel)
  obtain v t' where v: "reg_read h a (target_of s) v t'" "I t'" "P v \<or> slack t' < slack (target_of s)"
    using assms(1) Suc.prems(1) by blast
  note read = reg_read_4B [OF v(1)]
  show ?case
  proof (cases "P v")
    case True
    then show ?thesis
      using v(2) by (intro exI [of _ t']) (simp add: await_reg_def bnd_Inr read)
  next
    case False
    then obtain t'' where "await_reg h fuel a P (with_target t' s) = (Inr (), with_target t'' s)" "I t''"
      using Suc.IH [of "with_target t' s"] Suc.prems v by auto
    then show ?thesis
      using False by (intro exI [of _ t'']) (auto simp: await_reg_def bnd_def read split: prod.splits sum.splits)
  qed
qed simp

lemma round_takes_message:
  assumes "mailbox h prot msgs slack D" and "prot (target_of s)" and "slack (target_of s) < fuel" and "D < fuel"
    and "msgs (target_of s) = m # ms"
  shows "\<exists>t. training_round h fuel s = (Inr m, with_target t s) \<and> prot t \<and> msgs t = ms \<and> slack t \<le> D"
proof -
  have clears: "\<exists>v t'. reg_read h (phy 0xd0004) t v t' \<and> (prot t' \<and> msgs t' = m # ms) \<and> (v AND 1 = 0 \<or> slack t' < slack t)"
    if "prot t \<and> msgs t = m # ms" for t
    using mailbox_clears [OF assms(1), of t] that by simp
  have sets: "\<exists>v t'. reg_read h (phy 0xd0004) t v t' \<and> (\<not> prot t' \<and> msgs t' = ms) \<and> (v AND 1 = 1 \<or> slack t' < slack t)"
    if "\<not> prot t \<and> msgs t = ms" for t
    using mailbox_sets [OF assms(1), of t] that by simp
  have "\<exists>t. await_reg h fuel (phy 0xd0004) (\<lambda>x. x AND 1 = 0) s = (Inr (), with_target t s) \<and> (prot t \<and> msgs t = m # ms)"
    by (rule await_decreasing [OF clears]) (simp_all add: assms)
  then obtain t1 where t1: "await_reg h fuel (phy 0xd0004) (\<lambda>x. x AND 1 = 0) s = (Inr (), with_target t1 s)"
      "prot t1" "msgs t1 = m # ms" by blast
  obtain v t2 where t2: "reg_read h (phy 0xd0032) t1 v t2" "v AND 0xff = m" "prot t2" "msgs t2 = m # ms"
    using mailbox_message [OF assms(1) t1(2,3)] by blast
  obtain w t3 where t3: "reg_read h (phy 0xd0034) t2 w t3" "prot t3" "msgs t3 = m # ms"
    using mailbox_data [OF assms(1) t2(3)] t2(4) by auto
  define t4 where "t4 = (if m = 8 then t3 else t2)"
  then have t4: "prot t4" "msgs t4 = m # ms" using t2 t3 by simp_all
  have data: "(if m = 8 then bnd (OURSBUS_READ_4B h (phy 0xd0034) 0) (\<lambda>_. ret ()) else ret ()) (with_target t2 s)
      = (Inr (), with_target t4 s)"
    using reg_read_4B [of h _ "with_target t2 s" w t3] t3(1) by (simp add: t4_def bnd_Inr)
  obtain t5 where t5: "reg_write h (phy 0xd0031) 0 t4 t5" "\<not> prot t5" "msgs t5 = ms" "slack t5 \<le> D"
    using mailbox_taken [OF assms(1) t4(1)] t4(2) by auto
  have "\<exists>t. await_reg h fuel (phy 0xd0004) (\<lambda>x. x AND 1 = 1) (with_target t5 s) = (Inr (), with_target t (with_target t5 s))
      \<and> (\<not> prot t \<and> msgs t = ms)"
    by (rule await_decreasing [OF sets]) (use t5 assms(4) in simp_all)
  then obtain t6 where t6: "await_reg h fuel (phy 0xd0004) (\<lambda>x. x AND 1 = 1) (with_target t5 s) = (Inr (), with_target t6 s)"
      "\<not> prot t6" "msgs t6 = ms" by auto
  obtain t7 where t7: "reg_write h (phy 0xd0031) 1 t6 t7" "prot t7" "msgs t7 = ms" "slack t7 \<le> D"
    using mailbox_next [OF assms(1) t6(2)] t6(3) by auto
  show ?thesis
    using t7(2-4) reg_read_4B [of h _ "with_target t1 s" v t2] t2(1,2) reg_write_WRITE [of h _ _ "with_target t4 s" t5] t5(1)
      reg_write_WRITE [of h _ _ "with_target t6 s" t7] t7(1)
    unfolding training_round_def
    by (intro exI [of _ t7]) (simp add: andThen_Inr bnd_Inr t1(1) data t6(1) split del: if_split)
qed

text \<open>
  C36: the training ends. With firmware that keeps to the mailbox protocol and sends a message 7 or
  \<open>0xff\<close> after \<open>ms\<close> others, the loop returns once it has acknowledged that message, when every wait
  may read the shadow more often than the firmware's slack; later messages are left to the firmware.
\<close>

theorem training_ends:
  assumes "mailbox h prot msgs slack D" and "prot (target_of s)" and "slack (target_of s) \<le> D" and "D < fuel"
    and "msgs (target_of s) = ms @ m # rest" and "training_over m" and "\<forall>x \<in> set ms. \<not> training_over x"
    and "length ms < fuel"
  shows "\<exists>t. training_loop h fuel s = (Inr (), with_target t s) \<and> prot t \<and> msgs t = rest"
proof -
  have "prot (target_of s) \<Longrightarrow> slack (target_of s) \<le> D \<Longrightarrow> msgs (target_of s) = ms @ m # rest
      \<Longrightarrow> \<exists>t. reads_until (training_round h fuel) training_over (length ms) s m (with_target t s) \<and> prot t \<and> msgs t = rest"
    using assms(7)
  proof (induction ms arbitrary: s)
    case Nil
    then show ?case
      using round_takes_message [OF assms(1), of s fuel m rest] assms(4,6) by (auto intro: reads_until.now)
  next
    case (Cons x ms)
    obtain t where t: "training_round h fuel s = (Inr x, with_target t s)" "prot t" "msgs t = ms @ m # rest" "slack t \<le> D"
      using round_takes_message [OF assms(1), of s fuel x "ms @ m # rest"] Cons.prems assms(4) by auto
    obtain t' where "reads_until (training_round h fuel) training_over (length ms) (with_target t s) m (with_target t' s)"
        "prot t'" "msgs t' = rest"
      using Cons.IH [of "with_target t s"] Cons.prems t by auto
    then show ?case
      using t(1) Cons.prems by (auto intro!: exI [of _ t'] reads_until.later)
  qed
  then obtain t where "reads_until (training_round h fuel) training_over (length ms) s m (with_target t s)"
      "prot t" "msgs t = rest"
    using assms by blast
  then show ?thesis
    by (intro exI [of _ t]) (simp add: training_loop_def bnd_Inr poll_enough [OF _ assms(8)])
qed

text \<open>A PHY that shows each change of the shadow after three readings.\<close>

lemma low_read:
  assumes "a < 0x80000000" and "dst \<noteq> []" and "length dst \<le> chunk_max_size h" and "read_chunk h a dst tgt t = (Inr bs, t')"
  shows "memif_read h a dst tgt t = (Inr bs, t')"
proof -
  have "read_blocks h (a + of_nat (chunk_max_size h)) [] tgt = ret []"
    by (subst read_blocks.simps) simp
  then have "read_blocks h a dst tgt t = (Inr bs, t')"
    using assms(2-4) order_less_le_trans [of 0 "length dst" "chunk_max_size h"]
    by (subst read_blocks.simps) (auto simp: bnd_def)
  then show ?thesis
    unfolding memif_read_def if_not_P [OF assms(1) [unfolded not_le [symmetric]]] .
qed

lemma low_write:
  assumes "a < 0x80000000" and "bs \<noteq> []" and "length bs \<le> chunk_max_size h" and "write_chunk h a bs tgt t = (Inr (), t')"
  shows "memif_write h a bs tgt t = (Inr (), t')"
proof -
  have "write_blocks h (a + of_nat (chunk_max_size h)) [] tgt = ret ()"
    by (subst write_blocks.simps) simp
  then have "write_blocks h a bs tgt t = (Inr (), t')"
    using assms(2-4) order_less_le_trans [of 0 "length bs" "chunk_max_size h"]
    by (subst write_blocks.simps) (auto simp: andThen_Inr)
  then show ?thesis
    unfolding memif_write_def write_middle_def if_not_P [OF assms(1) [unfolded not_le [symmetric]]] by simp
qed

definition phy_shows :: "addr \<Rightarrow> bool \<times> u8 list \<times> nat \<Rightarrow> u64" where
  "phy_shows a = (\<lambda>(p, ms, n). if a = phy 0xd0004 then of_bool (p = (n > 0)) else if a = phy 0xd0032 then ucast (hd ms) else 0)"

definition slow_phy :: "(bool \<times> u8 list \<times> nat) htif_ops" where
  "slow_phy =
    \<lparr>chunk_align = 8, chunk_max_size = 2048,
     read_chunk = (\<lambda>a dst tgt t. (Inr (le_bytes 4 (phy_shows a t)), (fst t, fst (snd t), snd (snd t) - 1))),
     write_chunk = (\<lambda>a bs tgt t. (Inr (), (le_word bs \<noteq> (0 :: u64), if le_word bs = (0 :: u64) then tl (fst (snd t)) else fst (snd t), 3))),
     clear_chunk = (\<lambda>a n. ret ()), reset = ret (), idle = ret (), junk = (\<lambda>_. 0)\<rparr>"

lemma slow_phy_read:
  assumes "a < 0x80000000"
  shows "reg_read slow_phy a t (take_bit 32 (phy_shows a t)) (fst t, fst (snd t), snd (snd t) - 1)"
  unfolding reg_read_def
  by (intro exI [of _ "le_bytes 4 (phy_shows a t)"] conjI low_read [OF assms]) (simp_all add: slow_phy_def le_word_le_bytes)

lemma slow_phy_write:
  assumes "a < 0x80000000"
  shows "reg_write slow_phy a v t (v \<noteq> 0, if v = 0 then tl (fst (snd t)) else fst (snd t), 3)"
  unfolding reg_write_def by (rule low_write [OF assms]) (simp_all add: slow_phy_def le_word_le_bytes_full)

lemma low_mailbox: "phy 0xd0004 < 0x80000000" "phy 0xd0032 < 0x80000000" "phy 0xd0034 < 0x80000000" "phy 0xd0031 < 0x80000000"
  by (simp_all add: phy_def STATION_DDR_TOP_DDR_PHY_ADDR_def)

lemma slow_phy_shows:
  "take_bit 32 (phy_shows (phy 0xd0004) t) = of_bool (fst t = (snd (snd t) > 0))"
  "take_bit 32 (phy_shows (phy 0xd0032) t) AND 0xff = ucast (hd (fst (snd t)))"
proof -
  have byte: "(0xff :: u64) = mask 8" by (simp add: mask_eq_exp_minus_1)
  have "take_bit 32 (ucast b :: u64) AND 0xff = ucast b" for b :: u8
    unfolding byte by (rule bit_word_eqI) (auto simp: bit_simps dest: bit_imp_le_length)
  then show "take_bit 32 (phy_shows (phy 0xd0032) t) AND 0xff = ucast (hd (fst (snd t)))"
    by (simp add: phy_shows_def phy_def split: prod.split)
qed (cases t, auto simp: phy_shows_def)

lemma slow_phy_mailbox: "mailbox slow_phy fst (\<lambda>t. map ucast (fst (snd t))) (\<lambda>t. snd (snd t)) 3"
  unfolding mailbox_def
proof (intro conjI allI impI)
  fix t :: "bool \<times> u8 list \<times> nat"
  assume "fst t"
  then show "\<exists>v t'. reg_read slow_phy (phy 0xd0004) t v t' \<and> fst t' \<and> map ucast (fst (snd t')) = map ucast (fst (snd t))
      \<and> (v AND 1 = 0 \<or> snd (snd t') < snd (snd t))"
    using slow_phy_read [OF low_mailbox(1), of t] by (auto simp: slow_phy_shows intro!: exI)
  show "\<exists>t'. reg_write slow_phy (phy 0xd0031) 0 t t' \<and> \<not> fst t' \<and> map ucast (fst (snd t')) = tl (map ucast (fst (snd t)))
      \<and> snd (snd t') \<le> 3"
    using slow_phy_write [OF low_mailbox(4), of 0 t] by (auto simp: map_tl intro!: exI)
  show "\<exists>v t'. reg_read slow_phy (phy 0xd0034) t v t' \<and> fst t' \<and> map ucast (fst (snd t')) = map ucast (fst (snd t))"
    using slow_phy_read [OF low_mailbox(3), of t] \<open>fst t\<close> by (auto intro!: exI)
next
  fix t :: "bool \<times> u8 list \<times> nat"
  assume "\<not> fst t"
  then show "\<exists>v t'. reg_read slow_phy (phy 0xd0004) t v t' \<and> \<not> fst t' \<and> map ucast (fst (snd t')) = map ucast (fst (snd t))
      \<and> (v AND 1 = 1 \<or> snd (snd t') < snd (snd t))"
    using slow_phy_read [OF low_mailbox(1), of t] by (auto simp: slow_phy_shows intro!: exI)
  show "\<exists>t'. reg_write slow_phy (phy 0xd0031) 1 t t' \<and> fst t' \<and> map ucast (fst (snd t')) = map ucast (fst (snd t))
      \<and> snd (snd t') \<le> 3"
    using slow_phy_write [OF low_mailbox(4), of 1 t] by (auto intro!: exI)
next
  fix t :: "bool \<times> u8 list \<times> nat" and m :: u64 and ms
  assume "fst t" and "map ucast (fst (snd t)) = m # ms"
  then show "\<exists>v t'. reg_read slow_phy (phy 0xd0032) t v t' \<and> v AND 0xff = m \<and> fst t'
      \<and> map ucast (fst (snd t')) = map ucast (fst (snd t))"
    using slow_phy_read [OF low_mailbox(2), of t] by (auto simp: slow_phy_shows intro!: exI)
qed

theorem training_ends_witness:
  "\<exists>t. training_loop slow_phy 4 (htif_on (server_on (True, [1, 8, 7, 5], 0) ()) 0 0)
      = (Inr (), with_target t (htif_on (server_on (True, [1, 8, 7, 5], 0) ()) 0 0))
    \<and> fst t \<and> map ucast (fst (snd t)) = [5 :: u64]"
  by (rule training_ends [OF slow_phy_mailbox, where ms = "[1, 8]" and m = 7])
    (simp_all add: htif_on_def server_on_def target_of_def training_over_def)

section \<open>The microcontroller's memory\<close>

definition fills :: "nat \<Rightarrow> nat \<Rightarrow> (u64 \<times> u64) list \<Rightarrow> bool" where
  "fills a n tab \<longleftrightarrow> map fst tab = map of_nat [a..<a + n]"

lemma fills_words: "w = of_nat a \<Longrightarrow> length ds = n \<Longrightarrow> fills a n (words_at w ds)"
proof -
  have "map fst (map (\<lambda>(i, d). (w + of_nat i, d)) (zip is ds)) = map (\<lambda>i. w + of_nat i) (take (length ds) is)"
    for "is" :: "nat list"
    by (induction "is" arbitrary: ds) (auto simp: zip_Cons1 take_Cons' split: list.split)
  then have "map fst (words_at w ds) = map (\<lambda>i. w + of_nat i) [0..<length ds]"
    by (simp add: words_at_def enumerate_eq_zip)
  moreover assume "w = of_nat a" and "length ds = n"
  ultimately show ?thesis
    by (simp add: fills_def map_add_upt [symmetric] add.commute [of a] del: map_add_upt)
qed

lemma fills_append: "fills a n xs \<Longrightarrow> fills (a + n) m ys \<Longrightarrow> fills a (n + m) (xs @ ys)"
  using upt_add_eq_append [of a "a + n" m] by (simp add: fills_def add.assoc)

text \<open>Tables that fill one range after the other, with their lengths.\<close>

fun fill_each :: "nat \<Rightarrow> (nat \<times> (u64 \<times> u64) list) list \<Rightarrow> bool" where
  "fill_each a [] \<longleftrightarrow> True"
| "fill_each a ((n, t) # ts) \<longleftrightarrow> fills a n t \<and> fill_each (a + n) ts"

lemma fill_each_concat: "fill_each a ts \<Longrightarrow> fills a (sum_list (map fst ts)) (concat (map snd ts))"
proof (induction a ts rule: fill_each.induct)
  case (1 a)
  then show ?case by (simp add: fills_def)
next
  case (2 a n t ts)
  then show ?case using fills_append [of a n t "sum_list (map fst ts)"] by simp
qed

lemma imem_600: "fills 0x50000 16384 train_imem_600"
proof -
  have "fill_each 0x50000 (map (Pair 128) [train_imem_600_0, train_imem_600_1, train_imem_600_2, train_imem_600_3, train_imem_600_4,
    train_imem_600_5, train_imem_600_6, train_imem_600_7, train_imem_600_8, train_imem_600_9,
    train_imem_600_10, train_imem_600_11, train_imem_600_12, train_imem_600_13, train_imem_600_14,
    train_imem_600_15, train_imem_600_16, train_imem_600_17, train_imem_600_18, train_imem_600_19,
    train_imem_600_20, train_imem_600_21, train_imem_600_22, train_imem_600_23, train_imem_600_24,
    train_imem_600_25, train_imem_600_26, train_imem_600_27, train_imem_600_28, train_imem_600_29,
    train_imem_600_30, train_imem_600_31, train_imem_600_32, train_imem_600_33, train_imem_600_34,
    train_imem_600_35, train_imem_600_36, train_imem_600_37, train_imem_600_38, train_imem_600_39,
    train_imem_600_40, train_imem_600_41, train_imem_600_42, train_imem_600_43, train_imem_600_44,
    train_imem_600_45, train_imem_600_46, train_imem_600_47, train_imem_600_48, train_imem_600_49,
    train_imem_600_50, train_imem_600_51, train_imem_600_52, train_imem_600_53, train_imem_600_54,
    train_imem_600_55, train_imem_600_56, train_imem_600_57, train_imem_600_58, train_imem_600_59,
    train_imem_600_60, train_imem_600_61, train_imem_600_62, train_imem_600_63, train_imem_600_64,
    train_imem_600_65, train_imem_600_66, train_imem_600_67, train_imem_600_68, train_imem_600_69,
    train_imem_600_70, train_imem_600_71, train_imem_600_72, train_imem_600_73, train_imem_600_74,
    train_imem_600_75, train_imem_600_76, train_imem_600_77, train_imem_600_78, train_imem_600_79,
    train_imem_600_80, train_imem_600_81, train_imem_600_82, train_imem_600_83, train_imem_600_84,
    train_imem_600_85, train_imem_600_86, train_imem_600_87, train_imem_600_88, train_imem_600_89,
    train_imem_600_90, train_imem_600_91, train_imem_600_92, train_imem_600_93, train_imem_600_94,
    train_imem_600_95, train_imem_600_96, train_imem_600_97, train_imem_600_98, train_imem_600_99,
    train_imem_600_100, train_imem_600_101, train_imem_600_102, train_imem_600_103, train_imem_600_104,
    train_imem_600_105, train_imem_600_106, train_imem_600_107, train_imem_600_108, train_imem_600_109,
    train_imem_600_110, train_imem_600_111, train_imem_600_112, train_imem_600_113, train_imem_600_114,
    train_imem_600_115, train_imem_600_116, train_imem_600_117, train_imem_600_118, train_imem_600_119,
    train_imem_600_120, train_imem_600_121, train_imem_600_122, train_imem_600_123, train_imem_600_124,
    train_imem_600_125, train_imem_600_126, train_imem_600_127])"
    by (simp add: fills_words
    train_imem_600_0_def train_imem_600_1_def train_imem_600_2_def train_imem_600_3_def train_imem_600_4_def
    train_imem_600_5_def train_imem_600_6_def train_imem_600_7_def train_imem_600_8_def train_imem_600_9_def
    train_imem_600_10_def train_imem_600_11_def train_imem_600_12_def train_imem_600_13_def train_imem_600_14_def
    train_imem_600_15_def train_imem_600_16_def train_imem_600_17_def train_imem_600_18_def train_imem_600_19_def
    train_imem_600_20_def train_imem_600_21_def train_imem_600_22_def train_imem_600_23_def train_imem_600_24_def
    train_imem_600_25_def train_imem_600_26_def train_imem_600_27_def train_imem_600_28_def train_imem_600_29_def
    train_imem_600_30_def train_imem_600_31_def train_imem_600_32_def train_imem_600_33_def train_imem_600_34_def
    train_imem_600_35_def train_imem_600_36_def train_imem_600_37_def train_imem_600_38_def train_imem_600_39_def
    train_imem_600_40_def train_imem_600_41_def train_imem_600_42_def train_imem_600_43_def train_imem_600_44_def
    train_imem_600_45_def train_imem_600_46_def train_imem_600_47_def train_imem_600_48_def train_imem_600_49_def
    train_imem_600_50_def train_imem_600_51_def train_imem_600_52_def train_imem_600_53_def train_imem_600_54_def
    train_imem_600_55_def train_imem_600_56_def train_imem_600_57_def train_imem_600_58_def train_imem_600_59_def
    train_imem_600_60_def train_imem_600_61_def train_imem_600_62_def train_imem_600_63_def train_imem_600_64_def
    train_imem_600_65_def train_imem_600_66_def train_imem_600_67_def train_imem_600_68_def train_imem_600_69_def
    train_imem_600_70_def train_imem_600_71_def train_imem_600_72_def train_imem_600_73_def train_imem_600_74_def
    train_imem_600_75_def train_imem_600_76_def train_imem_600_77_def train_imem_600_78_def train_imem_600_79_def
    train_imem_600_80_def train_imem_600_81_def train_imem_600_82_def train_imem_600_83_def train_imem_600_84_def
    train_imem_600_85_def train_imem_600_86_def train_imem_600_87_def train_imem_600_88_def train_imem_600_89_def
    train_imem_600_90_def train_imem_600_91_def train_imem_600_92_def train_imem_600_93_def train_imem_600_94_def
    train_imem_600_95_def train_imem_600_96_def train_imem_600_97_def train_imem_600_98_def train_imem_600_99_def
    train_imem_600_100_def train_imem_600_101_def train_imem_600_102_def train_imem_600_103_def
    train_imem_600_104_def train_imem_600_105_def train_imem_600_106_def train_imem_600_107_def
    train_imem_600_108_def train_imem_600_109_def train_imem_600_110_def train_imem_600_111_def
    train_imem_600_112_def train_imem_600_113_def train_imem_600_114_def train_imem_600_115_def
    train_imem_600_116_def train_imem_600_117_def train_imem_600_118_def train_imem_600_119_def
    train_imem_600_120_def train_imem_600_121_def train_imem_600_122_def train_imem_600_123_def
    train_imem_600_124_def train_imem_600_125_def train_imem_600_126_def train_imem_600_127_def)
  from fill_each_concat [OF this] show ?thesis
    by (simp add: train_imem_600_def)
qed

lemma imem_400: "train_imem_400 = train_imem_600"
  unfolding train_imem_400_def train_imem_600_def
    train_imem_400_0_def train_imem_400_1_def train_imem_400_2_def train_imem_400_3_def train_imem_400_4_def
    train_imem_400_5_def train_imem_400_6_def train_imem_400_7_def train_imem_400_8_def train_imem_400_9_def
    train_imem_400_10_def train_imem_400_11_def train_imem_400_12_def train_imem_400_13_def train_imem_400_14_def
    train_imem_400_15_def train_imem_400_16_def train_imem_400_17_def train_imem_400_18_def train_imem_400_19_def
    train_imem_400_20_def train_imem_400_21_def train_imem_400_22_def train_imem_400_23_def train_imem_400_24_def
    train_imem_400_25_def train_imem_400_26_def train_imem_400_27_def train_imem_400_28_def train_imem_400_29_def
    train_imem_400_30_def train_imem_400_31_def train_imem_400_32_def train_imem_400_33_def train_imem_400_34_def
    train_imem_400_35_def train_imem_400_36_def train_imem_400_37_def train_imem_400_38_def train_imem_400_39_def
    train_imem_400_40_def train_imem_400_41_def train_imem_400_42_def train_imem_400_43_def train_imem_400_44_def
    train_imem_400_45_def train_imem_400_46_def train_imem_400_47_def train_imem_400_48_def train_imem_400_49_def
    train_imem_400_50_def train_imem_400_51_def train_imem_400_52_def train_imem_400_53_def train_imem_400_54_def
    train_imem_400_55_def train_imem_400_56_def train_imem_400_57_def train_imem_400_58_def train_imem_400_59_def
    train_imem_400_60_def train_imem_400_61_def train_imem_400_62_def train_imem_400_63_def train_imem_400_64_def
    train_imem_400_65_def train_imem_400_66_def train_imem_400_67_def train_imem_400_68_def train_imem_400_69_def
    train_imem_400_70_def train_imem_400_71_def train_imem_400_72_def train_imem_400_73_def train_imem_400_74_def
    train_imem_400_75_def train_imem_400_76_def train_imem_400_77_def train_imem_400_78_def train_imem_400_79_def
    train_imem_400_80_def train_imem_400_81_def train_imem_400_82_def train_imem_400_83_def train_imem_400_84_def
    train_imem_400_85_def train_imem_400_86_def train_imem_400_87_def train_imem_400_88_def train_imem_400_89_def
    train_imem_400_90_def train_imem_400_91_def train_imem_400_92_def train_imem_400_93_def train_imem_400_94_def
    train_imem_400_95_def train_imem_400_96_def train_imem_400_97_def train_imem_400_98_def train_imem_400_99_def
    train_imem_400_100_def train_imem_400_101_def train_imem_400_102_def train_imem_400_103_def
    train_imem_400_104_def train_imem_400_105_def train_imem_400_106_def train_imem_400_107_def
    train_imem_400_108_def train_imem_400_109_def train_imem_400_110_def train_imem_400_111_def
    train_imem_400_112_def train_imem_400_113_def train_imem_400_114_def train_imem_400_115_def
    train_imem_400_116_def train_imem_400_117_def train_imem_400_118_def train_imem_400_119_def
    train_imem_400_120_def train_imem_400_121_def train_imem_400_122_def train_imem_400_123_def
    train_imem_400_124_def train_imem_400_125_def train_imem_400_126_def train_imem_400_127_def ..

lemma dmem_600: "fills 0x54000 812 train_dmem_600"
proof -
  have "fill_each 0x54000 (zip [128, 128, 128, 128, 128, 128, 44] [train_dmem_600_0, train_dmem_600_1, train_dmem_600_2, train_dmem_600_3, train_dmem_600_4, train_dmem_600_5, train_dmem_600_6])"
    by (simp add: fills_words
    train_dmem_600_0_def train_dmem_600_1_def train_dmem_600_2_def train_dmem_600_3_def train_dmem_600_4_def
    train_dmem_600_5_def train_dmem_600_6_def)
  from fill_each_concat [OF this] show ?thesis
    by (simp add: train_dmem_600_def)
qed

lemma dmem_400: "fills 0x54000 812 train_dmem_400"
proof -
  have "fill_each 0x54000 (zip [128, 128, 128, 128, 128, 128, 44] [train_dmem_400_0, train_dmem_400_1, train_dmem_400_2, train_dmem_400_3, train_dmem_400_4, train_dmem_400_5, train_dmem_400_6])"
    by (simp add: fills_words
    train_dmem_400_0_def train_dmem_400_1_def train_dmem_400_2_def train_dmem_400_3_def train_dmem_400_4_def
    train_dmem_400_5_def train_dmem_400_6_def train_dmem_600_1_def train_dmem_600_2_def train_dmem_600_3_def
    train_dmem_600_4_def train_dmem_600_5_def train_dmem_600_6_def)
  from fill_each_concat [OF this] show ?thesis
    by (simp add: train_dmem_400_def)
qed

lemma sram_zeros_fill: "fills 0x5432c 0x1cd4 sram_zeros"
  by (simp add: fills_def sram_zeros_def comp_def del: upt_rec_numeral)

definition in_sram :: "u64 \<Rightarrow> bool" where
  "in_sram a \<longleftrightarrow> 0x50000 \<le> a \<and> a < 0x56000"

lemma filter_fills: "fills a n tab \<Longrightarrow> 0x50000 \<le> a \<Longrightarrow> a + n \<le> 0x56000 \<Longrightarrow> filter in_sram (map fst tab) = map fst tab"
  by (auto simp: fills_def filter_id_conv in_sram_def word_le_nat_alt word_less_nat_alt unat_of_nat_u64)

lemma no_sram:
  "filter in_sram (map fst train_setup_600) = []" "filter in_sram (map fst train_setup_400) = []"
  "filter in_sram (map fst train_switch_600) = []" "filter in_sram (map fst train_switch_400) = []"
  by (simp_all add: in_sram_def train_setup_600_def train_setup_400_def train_switch_600_def train_switch_400_def)

text \<open>
  With \<open>set_0_to_ddr_sram\<close> every word of the microcontroller's memory, \<open>0x50000\<close> to \<open>0x55fff\<close>,
  is written exactly once before the microcontroller is started, in the order of the addresses, and
  that at both frequencies.
\<close>

theorem sram_written_once:
  "filter in_sram (map fst (fst train_600 @ sram_zeros)) = map of_nat [0x50000..<0x56000]
   \<and> filter in_sram (map fst (fst train_400 @ sram_zeros)) = map of_nat [0x50000..<0x56000]"
proof -
  have whole: "fills 0x50000 0x6000 (train_imem_600 @ dmem @ sram_zeros)" if "fills 0x54000 812 dmem" for dmem
    using fills_append [OF imem_600, where m = "0x2000" and ys = "dmem @ sram_zeros"]
      fills_append [OF that, where m = "0x1cd4" and ys = sram_zeros] sram_zeros_fill by simp
  have "filter in_sram (map fst (pre @ train_imem_600 @ switch @ dmem) @ map fst sram_zeros) = map of_nat [0x50000..<0x56000]"
    if "fills 0x54000 812 dmem" "filter in_sram (map fst pre) = []" "filter in_sram (map fst switch) = []" for dmem pre switch
    using filter_fills [OF imem_600] filter_fills [OF that(1)] filter_fills [OF sram_zeros_fill] whole [OF that(1)] that(2,3)
    by (simp add: fills_def del: upt_rec_numeral)
  from this [OF dmem_600 no_sram(1,3)] this [OF dmem_400 no_sram(2,4)] show ?thesis
    by (simp add: train_600_def train_400_def imem_400 del: upt_rec_numeral)
qed

end
