(* ===== verification/Background_Effects.thy ===== *)
theory Background_Effects
  imports Background Ddr_Training
begin

text \<open>
  What the background traffic does to the chip: the tests of the slow peripherals leave a chip that
  works as they found it and report nothing, and a target whose option was not given is not accessed.
\<close>

section \<open>Registers that work\<close>

text \<open>
  The registers below the memory hold 32-bit values: a read returns the value, a write changes the bits
  \<open>wbits\<close> that can be written, and no access touches another register.
\<close>

definition register_file ::
    "'t htif_ops \<Rightarrow> ('t \<Rightarrow> bool) \<Rightarrow> ('t \<Rightarrow> u64 \<Rightarrow> u64) \<Rightarrow> (u64 \<Rightarrow> u64) \<Rightarrow> bool" where
  "register_file h I regs wbits \<longleftrightarrow>
    (\<forall>t a. I t \<longrightarrow> a < 0x80000000 \<longrightarrow> (\<exists>t'. reg_read h a t (regs t a) t' \<and> I t' \<and> regs t' = regs t)) \<and>
    (\<forall>t a v. I t \<longrightarrow> a < 0x80000000 \<longrightarrow> (\<exists>t'. reg_write h a v t t' \<and> I t'
       \<and> regs t' = (regs t)(a := (v AND wbits a) OR (regs t a AND NOT (wbits a)))))"

lemma register_read:
  "register_file h I regs wbits \<Longrightarrow> I (target_of s) \<Longrightarrow> a < 0x80000000
    \<Longrightarrow> \<exists>t. OURSBUS_READ_4B h a 0 s = (Inr (regs (target_of s) a), with_target t s) \<and> I t \<and> regs t = regs (target_of s)"
  unfolding register_file_def using reg_read_4B by metis

lemma register_write:
  "register_file h I regs wbits \<Longrightarrow> I (target_of s) \<Longrightarrow> a < 0x80000000
    \<Longrightarrow> \<exists>t. OURSBUS_WRITE h a v s = (Inr (), with_target t s) \<and> I t
      \<and> regs t = (regs (target_of s))(a := (v AND wbits a) OR (regs (target_of s) a AND NOT (wbits a)))"
  unfolding register_file_def using reg_write_WRITE by metis

text \<open>The tested registers of the slow peripherals with the bits that can be written.\<close>

definition slow_io_masks :: "(u64 \<times> u64) list" where
  "slow_io_masks =
    [(STATION_SLOW_IO_QSPIM_BLOCK_REG_ADDR + 0x4, 0xffff), (STATION_SLOW_IO_SSPIM0_BLOCK_REG_ADDR + 0x4, 0xffff),
     (STATION_SLOW_IO_SSPIM1_BLOCK_REG_ADDR + 0x4, 0xffff), (STATION_SLOW_IO_SSPIM2_BLOCK_REG_ADDR + 0x4, 0xffff),
     (STATION_SLOW_IO_SPIS_BLOCK_REG_ADDR + 0x2c, 0x1f),
     (STATION_SLOW_IO_UART0_BLOCK_REG_ADDR + 0x4, 0xf), (STATION_SLOW_IO_UART1_BLOCK_REG_ADDR + 0x4, 0xf),
     (STATION_SLOW_IO_UART2_BLOCK_REG_ADDR + 0x4, 0xf), (STATION_SLOW_IO_UART3_BLOCK_REG_ADDR + 0x4, 0xf),
     (STATION_SLOW_IO_I2SM_BLOCK_REG_ADDR + 0x10, 0x1f), (STATION_SLOW_IO_I2SS0_BLOCK_REG_ADDR + 0x10, 0x1f),
     (STATION_SLOW_IO_I2SS1_BLOCK_REG_ADDR + 0x10, 0x1f), (STATION_SLOW_IO_I2SS2_BLOCK_REG_ADDR + 0x10, 0x1f),
     (STATION_SLOW_IO_I2SS3_BLOCK_REG_ADDR + 0x10, 0x1f), (STATION_SLOW_IO_I2SS4_BLOCK_REG_ADDR + 0x10, 0x1f),
     (STATION_SLOW_IO_I2SS5_BLOCK_REG_ADDR + 0x10, 0x1f),
     (STATION_SLOW_IO_I2C0_BLOCK_REG_ADDR + 0x8, 0x3ff), (STATION_SLOW_IO_I2C1_BLOCK_REG_ADDR + 0x8, 0x3ff),
     (STATION_SLOW_IO_I2C2_BLOCK_REG_ADDR + 0x8, 0x3ff), (STATION_SLOW_IO_GPIO_BLOCK_REG_ADDR + 0x30, 0xffffffff),
     (STATION_SLOW_IO_RTC_BLOCK_REG_ADDR + 0xc, 0x1f), (STATION_SLOW_IO_TIMERS_BLOCK_REG_ADDR + 0x0, 0xffffffff)]"

text \<open>The versions are those the tests expect, and a bit that cannot be written reads as zero.\<close>

definition healthy :: "(u64 \<Rightarrow> u64) \<Rightarrow> (u64 \<Rightarrow> u64) \<Rightarrow> bool" where
  "healthy wbits r \<longleftrightarrow>
    (\<forall>(a, v) \<in> set io_versions. r a = v) \<and>
    (\<forall>(a, m) \<in> set slow_io_masks. wbits a = m \<and> r a AND NOT m = 0)"

definition small_random :: "'e os_ops \<Rightarrow> bool" where
  "small_random os \<longleftrightarrow> (\<forall>e. 0 \<le> fst (os_random os e) \<and> fst (os_random os e) < 2 ^ 31)"

definition harmless :: "('t \<Rightarrow> bool) \<Rightarrow> ('t \<Rightarrow> u64 \<Rightarrow> u64) \<Rightarrow> ('t, 'e, bool) hprog \<Rightarrow> ('t, 'e) htif \<Rightarrow> bool" where
  "harmless I regs p s \<longleftrightarrow>
    (\<exists>s'. p s = (Inr True, s') \<and> I (target_of s') \<and> regs (target_of s') = regs (target_of s) \<and> ht_argmap s' = ht_argmap s)"

lemma harmless_then:
  assumes "harmless I regs p s"
    and "\<And>s'. I (target_of s') \<Longrightarrow> regs (target_of s') = regs (target_of s) \<Longrightarrow> harmless I regs q s'"
  shows "harmless I regs (bnd p (\<lambda>b. bnd q (\<lambda>c. ret (b \<and> c)))) s"
proof -
  obtain s' where 1: "p s = (Inr True, s')" "I (target_of s')" "regs (target_of s') = regs (target_of s)"
      "ht_argmap s' = ht_argmap s"
    using assms(1) by (auto simp: harmless_def)
  obtain s'' where 2: "q s' = (Inr True, s'')" "I (target_of s'')" "regs (target_of s'') = regs (target_of s')"
      "ht_argmap s'' = ht_argmap s'"
    using assms(2) [OF 1(2,3)] by (auto simp: harmless_def)
  from 1 2 show ?thesis
    by (auto simp: harmless_def bnd_Inr)
qed

lemma random_word_run:
  "random_word os s = (Inr (of_int (fst (os_random os (sv_env (ht_server s))))),
    s\<lparr>ht_server := (ht_server s)\<lparr>sv_env := snd (os_random os (sv_env (ht_server s)))\<rparr>\<rparr>)"
  by (simp add: random_word_def host_call_def on_server_def on_env_run bnd_def split: prod.split)

lemma small_random_word: "small_random os \<Longrightarrow> of_int (fst (os_random os e)) AND (0xffffffff :: u64) = of_int (fst (os_random os e))"
proof -
  assume "small_random os"
  then have "take_bit 32 (fst (os_random os e)) = fst (os_random os e)"
    by (intro take_bit_int_eq_self) (auto simp: small_random_def intro: order_less_trans)
  then have "take_bit 32 (of_int (fst (os_random os e)) :: u64) = of_int (fst (os_random os e))"
    by (metis take_bit_of_int)
  then show ?thesis
    by (simp add: take_bit_eq_mask mask_eq_exp_minus_1)
qed

lemma harmless_version:
  assumes "register_file h I regs wbits" and "I (target_of s)" and "healthy wbits (regs (target_of s))"
    and "(a, v) \<in> set io_versions" and "a < 0x80000000"
  shows "harmless I regs (check_version h (a, v)) s"
proof -
  have "regs (target_of s) a = v"
    using assms(3,4) by (auto simp: healthy_def)
  then show ?thesis
    using register_read [OF assms(1,2,5)] by (auto simp: harmless_def check_version_def bnd_Inr)
qed

text \<open>Written, read back and restored, whatever was drawn.\<close>

lemma restored:
  assumes "r AND NOT m = (0 :: u64)"
  shows "(w AND m) OR (r AND NOT m) = w AND m" and "(r AND m) OR ((w AND m) AND NOT m) = r"
proof -
  show "(w AND m) OR (r AND NOT m) = w AND m"
    by (simp add: assms)
  have "r AND m = r"
  proof (rule bit_word_eqI)
    fix n assume "n < LENGTH(64)"
    have "bit (r AND NOT m) n = bit (0 :: u64) n"
      by (simp only: assms)
    then show "bit (r AND m) n = bit r n"
      using \<open>n < LENGTH(64)\<close> by (auto simp: bit_simps)
  qed
  then show "(r AND m) OR ((w AND m) AND NOT m) = r"
    by (simp add: and.assoc)
qed

lemma write_read_restore:
  assumes "register_file h I regs wbits" and "I (target_of s)" and "healthy wbits (regs (target_of s))"
    and "(a, m) \<in> set slow_io_masks" and "a < 0x80000000" and "regs (target_of s) a = orig"
  shows "\<exists>t. andThen (OURSBUS_WRITE h a w)
      (bnd (OURSBUS_READ_4B h a 0) (\<lambda>rdata. andThen (OURSBUS_WRITE h a orig) (ret (P rdata)))) s
      = (Inr (P (w AND m)), with_target t s) \<and> I t \<and> regs t = regs (target_of s)"
proof -
  have m: "wbits a = m" and z: "regs (target_of s) a AND NOT m = 0"
    using assms(3,4) by (auto simp: healthy_def)
  obtain t1 where 1: "OURSBUS_WRITE h a w s = (Inr (), with_target t1 s)" "I t1"
      "regs t1 = (regs (target_of s))(a := w AND m)"
    using register_write [OF assms(1,2,5), of w] by (auto simp: m restored(1) [OF z])
  obtain t2 where 2: "OURSBUS_READ_4B h a 0 (with_target t1 s) = (Inr (w AND m), with_target t2 s)" "I t2" "regs t2 = regs t1"
    using register_read [OF assms(1), of "with_target t1 s" a] 1 assms(5) by auto
  obtain t3 where 3: "OURSBUS_WRITE h a orig (with_target t2 s) = (Inr (), with_target t3 s)" "I t3"
      "regs t3 = (regs t2)(a := (orig AND wbits a) OR (regs t2 a AND NOT (wbits a)))"
    using register_write [OF assms(1), of "with_target t2 s" a orig] 2(2) assms(5) by auto
  have "regs t2 a = w AND m"
    by (simp add: 2(3) 1(3))
  then have "(orig AND wbits a) OR (regs t2 a AND NOT (wbits a)) = orig"
    using restored(2) [OF z, of w] assms(6) by (simp only: m)
  then have "regs t3 = regs (target_of s)"
    using 1(3) 2(3) 3(3) assms(6) by (auto simp: fun_eq_iff)
  then show ?thesis
    using 1(1) 2(1) 3(1,2) by (intro exI [of _ t3]) (simp add: andThen_Inr bnd_Inr)
qed

lemma harmless_register:
  assumes "register_file h I regs wbits" and "I (target_of s)" and "healthy wbits (regs (target_of s))"
    and "(a, m) \<in> set slow_io_masks" and "a < 0x80000000"
    and "bits = m \<or> m = 0xffffffff \<and> bits = - 1" and "small_random os"
  shows "harmless I regs (bg_register h os a bits) s"
proof -
  define w :: u64 where "w = of_int (fst (os_random os (sv_env (ht_server s))))"
  define s1 where "s1 = s\<lparr>ht_server := (ht_server s)\<lparr>sv_env := snd (os_random os (sv_env (ht_server s)))\<rparr>\<rparr>"
  have rw: "random_word os s = (Inr w, s1)"
    by (simp add: random_word_run w_def s1_def)
  have tgt: "target_of s1 = target_of s" "ht_argmap s1 = ht_argmap s"
    by (simp_all add: s1_def target_of_def)
  have bits: "w AND m = w AND bits"
    using assms(6) small_random_word [OF assms(7)] by (auto simp: w_def)
  obtain t where t: "OURSBUS_READ_4B h a 0 s1 = (Inr (regs (target_of s) a), with_target t s1)" "I t" "regs t = regs (target_of s)"
    using register_read [OF assms(1), of s1 a] assms(2,5) tgt by auto
  obtain t' where "andThen (OURSBUS_WRITE h a w) (bnd (OURSBUS_READ_4B h a 0)
      (\<lambda>rdata. andThen (OURSBUS_WRITE h a (regs (target_of s) a)) (ret (rdata = w AND bits)))) (with_target t s1)
      = (Inr True, with_target t' s1)" "I t'" "regs t' = regs (target_of s)"
    using write_read_restore [OF assms(1), of "with_target t s1" a m _ w "\<lambda>x. x = w AND bits"] assms(3-5) t(2,3) bits by auto
  then show ?thesis
    using rw t(1) tgt by (auto simp: harmless_def bg_register_def bnd_Inr)
qed

lemma harmless_device:
  assumes "register_file h I regs wbits" and "I (target_of s)" and "healthy wbits (regs (target_of s))"
    and "(va, vv) \<in> set io_versions" and "va < 0x80000000" and "(a, m) \<in> set slow_io_masks" and "a < 0x80000000"
    and "bits = m \<or> m = 0xffffffff \<and> bits = - 1" and "small_random os"
  shows "harmless I regs (bg_device h os (va, vv) (a, bits)) s"
proof -
  have "harmless I regs (bnd (check_version h (va, vv)) (\<lambda>b. bnd (bg_register h os a bits) (\<lambda>c. ret (b \<and> c)))) s"
    by (rule harmless_then [OF harmless_version [OF assms(1-5)]]) (rule harmless_register [OF assms(1)]; use assms in simp)
  then show ?thesis
    by (simp add: bg_device_def bnd_assoc del: ret_run)
qed

text \<open>The two devices with an order of their own.\<close>

lemma harmless_sspim0:
  assumes "register_file h I regs wbits" and "I (target_of s)" and "healthy wbits (regs (target_of s))"
    and "small_random os"
  shows "harmless I regs (bg_sspim0 h os) s"
proof -
  let ?a = "STATION_SLOW_IO_SSPIM0_BLOCK_REG_ADDR"
  have "harmless I regs (check_version h (?a + 0x5c, 0x3430312a)) s"
    by (rule harmless_version [OF assms(1-3)]) (simp_all add: io_versions_def station_defs)
  then obtain s' where 1: "check_version h (?a + 0x5c, 0x3430312a) s = (Inr True, s')" "I (target_of s')"
      "regs (target_of s') = regs (target_of s)" "ht_argmap s' = ht_argmap s"
    by (auto simp: harmless_def)
  have "harmless I regs (bg_register h os (?a + 0x4) 0xffff) s'"
    by (rule harmless_register [OF assms(1)]) (use 1 assms in \<open>simp_all add: slow_io_masks_def station_defs\<close>)
  then show ?thesis
    using 1 by (auto simp: harmless_def bg_sspim0_def bnd_Inr flag_def getS_def)
qed

lemma harmless_gpio:
  assumes "register_file h I regs wbits" and "I (target_of s)" and "healthy wbits (regs (target_of s))"
    and "small_random os"
  shows "harmless I regs (bg_gpio h os) s"
proof -
  let ?b = "STATION_SLOW_IO_GPIO_BLOCK_REG_ADDR"
  let ?a = "?b + 0x30"
  have low: "?a < 0x80000000" and mem: "(?a, 0xffffffff) \<in> set slow_io_masks"
    by (simp_all add: slow_io_masks_def station_defs)
  have "harmless I regs (check_version h (?b + 0x6c, 0x3231322a)) s"
    by (rule harmless_version [OF assms(1-3)]) (simp_all add: io_versions_def station_defs)
  then obtain s' where 1: "check_version h (?b + 0x6c, 0x3231322a) s = (Inr True, s')" "I (target_of s')"
      "regs (target_of s') = regs (target_of s)" "ht_argmap s' = ht_argmap s"
    by (auto simp: harmless_def)
  obtain t where 2: "OURSBUS_READ_4B h ?a 0 s' = (Inr (regs (target_of s) ?a), with_target t s')" "I t" "regs t = regs (target_of s)"
    using register_read [OF assms(1) 1(2) low] 1(3) by auto
  define e where "e = sv_env (ht_server s')"
  define w :: u64 where "w = of_int (fst (os_random os e))"
  define s2 where "s2 = (with_target t s')\<lparr>ht_server := (ht_server (with_target t s'))\<lparr>sv_env := snd (os_random os e)\<rparr>\<rparr>"
  have rw: "random_word os (with_target t s') = (Inr w, s2)"
    by (simp add: random_word_run w_def s2_def e_def)
  have tgt: "target_of s2 = t" "ht_argmap s2 = ht_argmap s"
    using 1(4) by (simp_all add: s2_def target_of_def)
  have w: "w AND 0xffffffff = w"
    unfolding w_def by (rule small_random_word [OF assms(4)])
  obtain t' where "andThen (OURSBUS_WRITE h ?a w) (bnd (OURSBUS_READ_4B h ?a 0)
      (\<lambda>rdata. andThen (OURSBUS_WRITE h ?a (regs (target_of s) ?a)) (ret (True \<and> rdata = w)))) s2
      = (Inr True, with_target t' s2)" "I t'" "regs t' = regs (target_of s)"
    using write_read_restore [OF assms(1), of s2 ?a "0xffffffff" _ w "\<lambda>x. True \<and> x = w"] assms(3) 2(2,3) tgt low mem w by auto
  then show ?thesis
    using 1(1) 2(1) rw tgt unfolding harmless_def bg_gpio_def Let_def
    by (intro exI [of _ "with_target t' s2"]) (simp add: bnd_Inr)
qed

text \<open>
  C37: on a chip whose version registers hold the expected values and whose tested registers keep what
  is written to their writable bits, the background test of every one of the slow peripherals reports no
  error and leaves every register as it was, whatever random word is drawn.
\<close>

theorem slow_io_is_harmless:
  assumes "register_file h I regs wbits" and "I (target_of s)" and "healthy wbits (regs (target_of s))"
    and "small_random os"
  shows "\<exists>s'. bg_slow_io h os t s = (Inr True, s') \<and> I (target_of s') \<and> regs (target_of s') = regs (target_of s)"
proof -
  note device = harmless_device [OF assms(1-3) _ _ _ _ _ assms(4)]
  note facts = io_versions_def slow_io_masks_def station_defs
  have "harmless I regs (bg_slow_io h os t) s"
  proof (cases t)
    case SSPIM0
    then show ?thesis using harmless_sspim0 [OF assms] by simp
  next
    case GPIO
    then show ?thesis using harmless_gpio [OF assms] by simp
  next
    case WDT
    have "harmless I regs (bg_wdt h) s"
      unfolding bg_wdt_def by (rule harmless_version [OF assms(1-3)]) (simp_all add: facts)
    then show ?thesis using WDT by simp
  next
    case QSPIM
    have "harmless I regs (bg_qspim h os) s"
      unfolding bg_qspim_def by (rule device) (simp_all add: facts)
    then show ?thesis using QSPIM by simp
  next
    case TIMERS
    have "harmless I regs (bg_timers h os) s"
      unfolding bg_timers_def by (rule device [where m = "0xffffffff"]) (simp_all add: facts)
    then show ?thesis using TIMERS by simp
  qed (simp only: bg_slow_io.simps bg_sspim_def bg_spis_def bg_uart_def bg_i2s_def bg_i2c_def bg_rtc_def, rule device, simp_all add: facts)+
  then show ?thesis
    by (auto simp: harmless_def)
qed

text \<open>A chip whose registers are a map, with the writable bits of the tested registers.\<close>

definition chip_bits :: "u64 \<Rightarrow> u64" where
  "chip_bits a = take_bit 32 (case map_of slow_io_masks a of None \<Rightarrow> 0 | Some m \<Rightarrow> m)"

definition chip_regs :: "(u64 \<Rightarrow> u64) \<Rightarrow> u64 \<Rightarrow> u64" where
  "chip_regs t = (\<lambda>a. take_bit 32 (t a))"

definition chip :: "(u64 \<Rightarrow> u64) htif_ops" where
  "chip =
    \<lparr>chunk_align = 8, chunk_max_size = 2048,
     read_chunk = (\<lambda>a dst tgt t. (Inr (le_bytes 4 (t a)), t)),
     write_chunk = (\<lambda>a bs tgt t. (Inr (), t(a := (le_word bs AND chip_bits a) OR (t a AND NOT (chip_bits a))))),
     clear_chunk = (\<lambda>a n. ret ()), reset = ret (), idle = ret (), junk = (\<lambda>_. 0)\<rparr>"

definition chip_start :: "u64 \<Rightarrow> u64" where
  "chip_start a = (case map_of io_versions a of None \<Rightarrow> 0 | Some v \<Rightarrow> v)"

definition chip_server :: "(u64 \<Rightarrow> u64, unit) htif" where
  "chip_server = htif_on (server_on chip_start ()) 0 0"

lemma chip_registers: "register_file chip (\<lambda>_. True) chip_regs chip_bits"
  unfolding register_file_def
proof (intro conjI allI impI)
  fix t :: "u64 \<Rightarrow> u64" and a v :: u64
  assume a: "a < 0x80000000"
  have "reg_read chip a t (chip_regs t a) t"
    unfolding reg_read_def
    by (intro exI [of _ "le_bytes 4 (t a)"] conjI low_read [OF a]) (simp_all add: chip_def chip_regs_def le_word_le_bytes)
  then show "\<exists>t'. reg_read chip a t (chip_regs t a) t' \<and> True \<and> chip_regs t' = chip_regs t"
    by blast
  let ?t = "t(a := (v AND chip_bits a) OR (t a AND NOT (chip_bits a)))"
  have "reg_write chip a v t ?t"
    unfolding reg_write_def by (rule low_write [OF a]) (simp_all add: chip_def le_word_le_bytes_full)
  moreover have "take_bit 32 ((v AND chip_bits a) OR (t a AND NOT (chip_bits a)))
      = (v AND chip_bits a) OR (take_bit 32 (t a) AND NOT (chip_bits a))"
    by (rule bit_word_eqI) (auto simp: chip_bits_def bit_simps)
  then have "chip_regs ?t = (chip_regs t)(a := (v AND chip_bits a) OR (chip_regs t a AND NOT (chip_bits a)))"
    by (simp add: chip_regs_def fun_eq_iff)
  ultimately show "\<exists>t'. reg_write chip a v t t' \<and> True
      \<and> chip_regs t' = (chip_regs t)(a := (v AND chip_bits a) OR (chip_regs t a AND NOT (chip_bits a)))"
    by blast
qed

lemma chip_healthy: "healthy chip_bits (chip_regs chip_start)"
proof -
  have "\<forall>(a, v) \<in> set io_versions. chip_start a = v \<and> take_bit 32 v = v"
    by (simp add: chip_start_def io_versions_def station_defs)
  moreover have "\<forall>(a, m) \<in> set slow_io_masks. chip_start a = 0 \<and> chip_bits a = m"
    by (simp add: chip_start_def chip_bits_def io_versions_def slow_io_masks_def station_defs)
  ultimately show ?thesis
    by (auto simp: healthy_def chip_regs_def)
qed

theorem slow_io_is_harmless_witness:
  "\<exists>s'. bg_slow_io chip (null_os 0) I2C1 chip_server = (Inr True, s') \<and> True
    \<and> chip_regs (target_of s') = chip_regs (target_of chip_server)"
  by (rule slow_io_is_harmless [OF chip_registers])
    (simp_all add: chip_healthy small_random_def idle_os_def chip_server_def htif_on_def server_on_def target_of_def)

section \<open>Targets that are not there\<close>

lemma pick_positive:
  assumes "\<forall>(k, w) \<in> set m. 0 \<le> w" and "wsum < r" and "r \<le> wsum + sum_list (map snd m)"
  shows "\<exists>w > 0. (pick_weighted m wsum r, w) \<in> set m"
  using assms
proof (induction m wsum r rule: pick_weighted.induct)
  case (2 k w m wsum r)
  show ?case
  proof (cases "r \<le> wsum + w")
    case True
    then show ?thesis using 2(3) by (intro exI [of _ w]) simp
  next
    case False
    then show ?thesis using 2 by (auto simp: add.assoc)
  qed
qed simp

lemma weight_indices: "(i, w) \<in> set (zip (map int [0..<length ws]) (map snd ws)) \<Longrightarrow> nat i < length ws \<and> snd (ws ! nat i) = w"
  by (auto simp: set_zip)

lemma choose_positive:
  assumes "\<forall>(t, w) \<in> set ws. 0 \<le> w" and "0 < snd (hd ws)" and "ws \<noteq> []"
  shows "\<exists>i e. i < length ws \<and> 0 < snd (ws ! i)
    \<and> choose_target os ws s = (Inr (fst (ws ! i)), s\<lparr>ht_server := (ht_server s)\<lparr>sv_env := e\<rparr>\<rparr>)"
proof -
  let ?m = "zip (map int [0..<length ws]) (map snd ws)" and ?W = "sum_list (map snd ws)"
  obtain r e where r: "os_random os (sv_env (ht_server s)) = (r, e)"
    by fastforce
  obtain t w ws' where ws: "ws = (t, w) # ws'"
    using assms(3) by (cases ws) auto
  have w: "0 < w"
    using assms(2) by (simp add: ws)
  have rest: "0 \<le> sum_list (map snd ws')"
    using assms(1) by (intro sum_list_nonneg) (fastforce simp: ws)
  have W: "0 < ?W" using w rest by (simp add: ws)
  have sum: "sum_list (map snd ?m) = ?W" by simp
  have snds: "set (map snd ?m) = set (map snd ws)" by (simp del: set_map)
  have nonneg: "\<forall>(k, v) \<in> set ?m. 0 \<le> v"
  proof (clarify)
    fix k v assume "(k, v) \<in> set ?m"
    then have "v \<in> set (map snd ws)" by (metis in_set_zipE)
    then show "0 \<le> v" using assms(1) by auto
  qed
  have "\<exists>v > 0. (pick_weighted ?m 0 (r mod ?W), v) \<in> set ?m"
  proof (cases "r mod ?W = 0")
    case True
    have "?m = (0, w) # zip (map int [1..<length ws]) (map snd ws')"
      by (simp add: ws upt_rec [of 0] del: upt_Suc)
    then show ?thesis using True w by auto
  next
    case False
    then have "0 < r mod ?W" "r mod ?W \<le> ?W"
      using W by (simp_all add: order_less_le pos_mod_bound [THEN order_less_imp_le])
    then show ?thesis
      using pick_positive [OF nonneg, of 0 "r mod ?W"] sum by simp
  qed
  then have "nat (pick_weighted ?m 0 (r mod ?W)) < length ws" "0 < snd (ws ! nat (pick_weighted ?m 0 (r mod ?W)))"
    using weight_indices by fastforce+
  then show ?thesis
    using W sum by (intro exI [of _ "nat (pick_weighted ?m 0 (r mod ?W))"] exI [of _ e])
      (simp add: choose_target_def weighted_random_def host_call_def on_server_def on_env_run r bnd_def Let_def)
qed

text \<open>The option without which a target has no weight.\<close>

fun target_option :: "bg_target_e \<Rightarrow> string option" where
  "target_option DDR = Some ''reset_ddr''"
| "target_option ORV32 = Some ''release_orv32_reset''"
| "target_option VP = Some ''release_vp0_reset''"
| "target_option FLASH = Some ''enable_flash_fsm''"
| "target_option _ = None"

text \<open>
  C38: background traffic leaves parts alone that were not brought up. Every call draws a target that
  needs no option or whose option was given, whatever the random numbers are, and unless one of the four
  special modes is on it accesses that target; before that the chip has not been touched.
\<close>

theorem background_respects_options:
  "\<exists>t s'. target_of s' = target_of s \<and> ht_argmap s' = ht_argmap s
    \<and> (case target_option t of None \<Rightarrow> True | Some k \<Rightarrow> 0 < length (arg_of s k))
    \<and> bg h os fuel s =
      (if 0 < length (arg_of s ''snapshot'') then bg_snapshot h s'
       else if 0 < length (arg_of s ''plic_interrupt'') then bg_plic h s'
       else if 0 < length (arg_of s ''test_scan_f'') then bg_scan_f h s'
       else if 0 < length (arg_of s ''test_scu'') then bg_scu h os s'
       else bg_access h os fuel t s')"
proof -
  let ?ws = "bg_target_weight_map s"
  have "\<exists>i e. i < length ?ws \<and> 0 < snd (?ws ! i)
      \<and> choose_target os ?ws s = (Inr (fst (?ws ! i)), s\<lparr>ht_server := (ht_server s)\<lparr>sv_env := e\<rparr>\<rparr>)"
    by (rule choose_positive) (simp_all add: bg_target_weight_map_def weight_if_def)
  then obtain i e where i: "i < length ?ws" "0 < snd (?ws ! i)"
    and run: "choose_target os ?ws s = (Inr (fst (?ws ! i)), s\<lparr>ht_server := (ht_server s)\<lparr>sv_env := e\<rparr>\<rparr>)"
    by blast
  have "?ws ! i \<in> set ?ws" using i(1) by simp
  then have "case target_option (fst (?ws ! i)) of None \<Rightarrow> True | Some k \<Rightarrow> 0 < length (arg_of s k)"
    using i(2) by (auto simp: bg_target_weight_map_def weight_if_def split: if_splits)
  then show ?thesis
    by (intro exI [of _ "fst (?ws ! i)"] exI [of _ "s\<lparr>ht_server := (ht_server s)\<lparr>sv_env := e\<rparr>\<rparr>"])
      (simp add: bg_def getS_def bnd_def flag_def target_of_def arg_of_def run)
qed

end
