(* ===== verification/Socket.thy ===== *)
theory Socket
  imports Bridge Htif
begin

text \<open>
  The socket under the bus of the board driver: the client side of \<open>common-socket.c\<close> and
  \<open>socket_client.c\<close>, and \<open>server.tcl\<close>, which answers it on the machine the board hangs on and makes the
  AXI transactions. Together they are a bus, and the debug port behind the AXI engine is one behind it.
\<close>

section \<open>The client\<close>

text \<open>
  A connected socket: \<open>send\<close> returns how many bytes it took, \<open>recv\<close> a length, negative for an error,
  and the bytes. Opening the connection is left out.
\<close>

record 'c channel =
  ch_send :: "u8 list \<Rightarrow> ('c, int) prog"
  ch_recv :: "nat \<Rightarrow> ('c, int \<times> u8 list) prog"

text \<open>
  \<open>sendWaitForAck\<close> sends the first \<open>req_len\<close> bytes of the buffer, clears its first sixteen and receives
  over them. What a short answer leaves is zero.
\<close>

definition sendWaitForAck :: "'c channel \<Rightarrow> u8 list \<Rightarrow> nat \<Rightarrow> ('c, u8 list) prog" where
  "sendWaitForAck C buf req_len =
    bnd (ch_send C (take req_len buf)) (\<lambda>n.
    if n \<noteq> int req_len then raise (Exited 1)
    else
      bnd (ch_recv C 16) (\<lambda>(k, bs).
      if k < 0 then raise (Exited 1) else ret (take 16 (bs @ replicate (16 - length bs) 0) @ drop 16 buf)))"

text \<open>The five bytes of an address, and the eight of a word, most significant first.\<close>

definition addr5 :: "addr \<Rightarrow> u8 list" where
  "addr5 a = [ucast (drop_bit 32 a), ucast (drop_bit 24 a), ucast (drop_bit 16 a), ucast (drop_bit 8 a), ucast a]"

definition be8 :: "u64 \<Rightarrow> u8 list" where
  "be8 d = [ucast (drop_bit 56 d), ucast (drop_bit 48 d), ucast (drop_bit 40 d), ucast (drop_bit 32 d),
            ucast (drop_bit 24 d), ucast (drop_bit 16 d), ucast (drop_bit 8 d), ucast d]"

definition be_word :: "u8 list \<Rightarrow> u64" where
  "be_word bs = foldl (\<lambda>r b. push_bit 8 r + ucast b) 0 bs"

definition read_packet :: "u8 \<Rightarrow> addr \<Rightarrow> u8 list" where
  "read_packet cmd a = cmd # addr5 a @ 0xa5 # replicate 9 0"

definition write_packet :: "addr \<Rightarrow> u64 \<Rightarrow> u8 list" where
  "write_packet a d = 4 # addr5 a @ be8 d @ [0, 0]"

definition client_read :: "'c channel \<Rightarrow> addr \<Rightarrow> ('c, u64) prog" where
  "client_read C a =
    bnd (sendWaitForAck C (read_packet 5 a) 16) (\<lambda>buf. ret (be_word (take 8 (drop 6 buf))))"

definition client_write :: "'c channel \<Rightarrow> addr \<Rightarrow> u64 \<Rightarrow> ('c, unit) prog" where
  "client_write C a d = bnd (sendWaitForAck C (write_packet a d) 16) (\<lambda>_. ret ())"

text \<open>
  A burst is a header with the length in words and, after its acknowledgement, the words, the last one
  first. The buffer has 2048 bytes.
\<close>

definition burst_header :: "addr \<Rightarrow> nat \<Rightarrow> u8 list" where
  "burst_header a n = 6 # addr5 a @ [of_nat (n div 256), of_nat n] @ replicate 8 0"

definition client_write_burst :: "'c channel \<Rightarrow> addr \<Rightarrow> u64 list \<Rightarrow> ('c, unit) prog" where
  "client_write_burst C a ds =
    bnd (sendWaitForAck C (burst_header a (length ds)) 16) (\<lambda>_.
    andThen (definedM ''dataToBeSent[i * 8]'' (8 * length ds \<le> 2048))
      (bnd (sendWaitForAck C (concat (map be8 (rev ds))) (8 * length ds)) (\<lambda>_. ret ())))"

text \<open>The accesses of the debugger that bypass the bus, the reset line and the status check.\<close>

definition client_read_backdoor :: "'c channel \<Rightarrow> addr \<Rightarrow> ('c, u64) prog" where
  "client_read_backdoor C a =
    bnd (sendWaitForAck C (read_packet 0x16 a) 16) (\<lambda>buf. ret (be_word (rev (take 8 (drop 6 buf)))))"

definition client_write_backdoor :: "'c channel \<Rightarrow> addr \<Rightarrow> u64 \<Rightarrow> ('c, unit) prog" where
  "client_write_backdoor C a d =
    bnd (sendWaitForAck C (0x26 # addr5 a @ rev (be8 d) @ [0, 0]) 16) (\<lambda>_. ret ())"

definition set_reset :: "'c channel \<Rightarrow> ('c, unit) prog" where
  "set_reset C = bnd (sendWaitForAck C ([0xb0, 0, 1] @ replicate 13 0) 16) (\<lambda>_. ret ())"

definition release_reset :: "'c channel \<Rightarrow> ('c, unit) prog" where
  "release_reset C = bnd (sendWaitForAck C (0xb0 # replicate 15 0) 16) (\<lambda>_. ret ())"

definition do_status_check :: "'c channel \<Rightarrow> ('c, unit) prog" where
  "do_status_check C =
    bnd (sendWaitForAck C (replicate 16 0xaa) 16) (\<lambda>buf. if buf ! 6 \<noteq> 0x57 then raise Aborted else ret ())"

text \<open>The bus the driver works on.\<close>

definition socket_bus :: "'c channel \<Rightarrow> 'c bus_ops" where
  "socket_bus C = \<lparr>do_read = client_read C, do_write = client_write C, do_write_burst = client_write_burst C\<rparr>"

section \<open>The server\<close>

text \<open>
  The AXI engine \<open>server.tcl\<close> drives: single transactions, whose data are the hexadecimal digits of the
  command or of the report, here as bytes, and a burst of a number of beats.
\<close>

record 'x axi_ops =
  axi_write :: "addr \<Rightarrow> u8 list \<Rightarrow> ('x, unit) prog"
  axi_read :: "addr \<Rightarrow> ('x, u8 list) prog"
  axi_burst :: "addr \<Rightarrow> nat \<Rightarrow> u8 list \<Rightarrow> ('x, unit) prog"

text \<open>The two ends of the connection: bytes not yet read by the server and by the client, and a burst whose data is awaited.\<close>

record 'x tcl_server =
  tc_input :: "u8 list"
  tc_output :: "u8 list"
  tc_burst :: "(addr \<times> nat) option"
  tc_axi :: 'x

definition zeros16 :: "u8 list" where
  "zeros16 = replicate 16 0"

text \<open>
  An error of the engine ends the command without an answer. The value of a transaction is what
  follows in the answer.
\<close>

definition answer :: "('x, u8 list) prog \<Rightarrow> 'x tcl_server \<Rightarrow> 'x tcl_server" where
  "answer m s = (case m (tc_axi s) of
     (Inr out, x) \<Rightarrow> s\<lparr>tc_axi := x, tc_output := tc_output s @ out\<rparr>
   | (Inl e, x) \<Rightarrow> s\<lparr>tc_axi := x\<rparr>)"

definition do_command_tcl :: "'x axi_ops \<Rightarrow> u8 list \<Rightarrow> 'x tcl_server \<Rightarrow> 'x tcl_server" where
  "do_command_tcl X msg s =
    (let instr = hd msg; a = take 5 (drop 1 msg); data = take 8 (drop 6 msg) in
     if instr = 4 then answer (bnd (axi_write X (be_word a) data) (\<lambda>_. ret zeros16)) s
     else if instr = 5 then
       answer (bnd (axi_read X (be_word a)) (\<lambda>d. ret (instr # a @ d @ [0, 0]))) s
     else if instr = 6 then
       s\<lparr>tc_output := tc_output s @ zeros16, tc_burst := Some (be_word a, unat (be_word (take 2 data)))\<rparr>
     else s\<lparr>tc_output := tc_output s @ zeros16\<rparr>)"

definition burst_tcl :: "'x axi_ops \<Rightarrow> addr \<Rightarrow> nat \<Rightarrow> u8 list \<Rightarrow> 'x tcl_server \<Rightarrow> 'x tcl_server" where
  "burst_tcl X a n data s = (answer
     (bnd (axi_write X 0x005004e0 (be8 a)) (\<lambda>_. bnd (axi_write X 0x005004e8 (be8 2)) (\<lambda>_.
      bnd (axi_burst X 0x005004f0 n data) (\<lambda>_. ret zeros16)))) s)\<lparr>tc_burst := None\<rparr>"

text \<open>The server takes what has arrived as soon as a command or the data of a burst is complete.\<close>

definition tcl_work :: "'x tcl_server \<Rightarrow> nat" where
  "tcl_work s = 2 * length (tc_input s) + (if tc_burst s = None then 0 else 1)"

lemma answer_keeps [simp]: "tc_input (answer m s) = tc_input s" "tc_burst (answer m s) = tc_burst s"
  by (simp_all add: answer_def split: prod.split sum.split)

lemma do_command_tcl_input [simp]: "tc_input (do_command_tcl X msg s) = tc_input s"
  by (simp add: do_command_tcl_def Let_def)

lemma burst_tcl_keeps [simp]: "tc_input (burst_tcl X a n data s) = tc_input s" "tc_burst (burst_tcl X a n data s) = None"
  by (simp_all add: burst_tcl_def)

function tcl_serve :: "'x axi_ops \<Rightarrow> 'x tcl_server \<Rightarrow> 'x tcl_server" where
  "tcl_serve X s =
    (case tc_burst s of
       None \<Rightarrow>
         if 16 \<le> length (tc_input s)
         then tcl_serve X (do_command_tcl X (take 16 (tc_input s)) (s\<lparr>tc_input := drop 16 (tc_input s)\<rparr>))
         else s
     | Some (a, n) \<Rightarrow>
         if 8 * n \<le> length (tc_input s)
         then tcl_serve X (burst_tcl X a n (take (8 * n) (tc_input s)) (s\<lparr>tc_input := drop (8 * n) (tc_input s)\<rparr>))
         else s)"
  by pat_completeness auto
termination
proof (relation "measure (\<lambda>(X, s). tcl_work s)", goal_cases)
  case (2 X s)
  have "tcl_work (do_command_tcl X msg t) \<le> 2 * length (tc_input t) + 1" for msg t
    by (simp add: tcl_work_def)
  from this [of "take 16 (tc_input s)" "s\<lparr>tc_input := drop 16 (tc_input s)\<rparr>"] 2 show ?case
    by (simp add: tcl_work_def)
qed (auto simp: tcl_work_def)

declare tcl_serve.simps [simp del]

text \<open>A \<open>recv\<close> on which nothing has arrived waits, and the server has nothing left to do.\<close>

definition tcl_channel :: "'x axi_ops \<Rightarrow> 'x tcl_server channel" where
  "tcl_channel X =
    \<lparr>ch_send = (\<lambda>bs s. (Inr (int (length bs)), tcl_serve X (s\<lparr>tc_input := tc_input s @ bs\<rparr>))),
     ch_recv = (\<lambda>n s. if tc_output s = [] then (Inl Diverges, s)
       else (Inr (int (min n (length (tc_output s))), take n (tc_output s)),
             s\<lparr>tc_output := drop n (tc_output s)\<rparr>))\<rparr>"

section \<open>The connection carries the bus\<close>

text \<open>Between two accesses nothing is on its way.\<close>

definition quiet_link :: "'x \<Rightarrow> 'x tcl_server" where
  "quiet_link x = \<lparr>tc_input = [], tc_output = [], tc_burst = None, tc_axi = x\<rparr>"

text \<open>The bus with the AXI engine at hand.\<close>

definition axi_bus :: "'x axi_ops \<Rightarrow> 'x bus_ops" where
  "axi_bus X =
    \<lparr>do_read = (\<lambda>a. bnd (axi_read X a) (\<lambda>d. ret (be_word d))),
     do_write = (\<lambda>a d. axi_write X a (be8 d)),
     do_write_burst = (\<lambda>a ws. bnd (axi_write X 0x005004e0 (be8 a)) (\<lambda>_. bnd (axi_write X 0x005004e8 (be8 2)) (\<lambda>_.
       axi_burst X 0x005004f0 (length ws) (concat (map be8 (rev ws))))))\<rparr>"

lemma be_word_le_word: "be_word bs = le_word (rev bs)"
  using shift_in_OR [of 0 "rev bs"] by (simp add: be_word_def shift_in_def)

lemma be8_le_bytes: "be8 d = rev (le_bytes 8 d)"
  by (simp add: be8_def numeral_eq_Suc)

lemma addr5_le_bytes: "addr5 a = rev (le_bytes 5 a)"
  by (simp add: addr5_def numeral_eq_Suc)

lemma be_words [simp]: "be_word (be8 d) = d" "be_word (addr5 a) = take_bit 40 a"
  by (simp_all add: be_word_le_word be8_le_bytes addr5_le_bytes le_word_le_bytes) (simp add: take_bit_word_eq_self)

lemma length_addr5 [simp]: "length (addr5 a) = 5" and length_be8 [simp]: "length (be8 d) = 8"
  by (simp_all add: addr5_def be8_def)

lemma length_be8s [simp]: "length (concat (map be8 ws)) = 8 * length ws"
  by (induction ws) simp_all

lemma two_bytes: "n < 65536 \<Longrightarrow> unat (be_word [of_nat (n div 256), of_nat n]) = n"
proof -
  assume n: "n < 65536"
  have "unat (ucast (of_nat m :: u8) :: u64) = m mod 256" for m
    by (simp add: unsigned_ucast_eq unat_of_nat take_bit_nat_eq_self)
  then have bytes: "(ucast (of_nat (n div 256) :: u8) :: u64) = of_nat (n div 256)" "(ucast (of_nat n :: u8) :: u64) = of_nat (n mod 256)"
    using n by (simp_all add: word_unat_eq_iff unat_of_nat)
  have "be_word [of_nat (n div 256), of_nat n] = of_nat (n div 256 * 256 + n mod 256)"
    unfolding of_nat_add of_nat_mult by (simp add: be_word_def bytes push_bit_eq_mult)
  then show ?thesis
    using n by (simp add: unat_of_nat)
qed

text \<open>What the client makes of an operation of the engine that succeeds.\<close>

definition carries :: "('x tcl_server, 'a) prog \<Rightarrow> ('x, 'a) prog \<Rightarrow> bool" where
  "carries m' m \<longleftrightarrow> (\<forall>x r x'. m x = (Inr r, x') \<longrightarrow> m' (quiet_link x) = (Inr r, quiet_link x'))"

lemma carriesD: "carries m' m \<Longrightarrow> m x = (Inr r, x') \<Longrightarrow> m' (quiet_link x) = (Inr r, quiet_link x')"
  by (simp add: carries_def)

lemma carries_ret: "carries (ret r) (ret r)"
  by (simp add: carries_def)

lemma carries_bnd:
  assumes "carries m' m" and "\<And>r. carries (f' r) (f r)"
  shows "carries (bnd m' f') (bnd m f)"
  unfolding carries_def
proof (intro allI impI)
  fix x r x'
  assume "bnd m f x = (Inr r, x')"
  then obtain y x1 where "m x = (Inr y, x1)" "f y x1 = (Inr r, x')"
    by (auto elim: bnd_cases)
  then show "bnd m' f' (quiet_link x) = (Inr r, quiet_link x')"
    using carriesD [OF assms(1)] carriesD [OF assms(2)] by (simp add: bnd_Inr)
qed

lemma carries_andThen: "carries m' m \<Longrightarrow> carries n' n \<Longrightarrow> carries (andThen m' n') (andThen m n)"
  unfolding andThen_def by (rule carries_bnd)

lemma quiet_link_simps [simp]:
  "tc_input (quiet_link x) = []" "tc_output (quiet_link x) = []" "tc_burst (quiet_link x) = None" "tc_axi (quiet_link x) = x"
  by (simp_all add: quiet_link_def)

lemma quiet_link_again [simp]:
  "(quiet_link x)\<lparr>tc_input := []\<rparr> = quiet_link x" "(quiet_link x)\<lparr>tc_output := []\<rparr> = quiet_link x"
  "(quiet_link x)\<lparr>tc_axi := y\<rparr> = quiet_link y" "(quiet_link x)\<lparr>tc_axi := y, tc_output := []\<rparr> = quiet_link y"
  by (simp_all add: quiet_link_def)

lemma serve_command:
  assumes "length msg = 16" and "hd msg \<noteq> 6"
  shows "tcl_serve X ((quiet_link x)\<lparr>tc_input := msg\<rparr>) = do_command_tcl X msg (quiet_link x)"
proof -
  have "tc_burst (do_command_tcl X msg (quiet_link x)) = None"
    using assms(2) by (simp add: do_command_tcl_def Let_def)
  then have "tcl_serve X (do_command_tcl X msg (quiet_link x)) = do_command_tcl X msg (quiet_link x)"
    by (subst tcl_serve.simps) simp
  then show ?thesis
    using assms(1) by (subst tcl_serve.simps) simp
qed

lemma exchange:
  assumes "length msg = 16" and "hd msg \<noteq> 6" and "length ack = 16"
    and "do_command_tcl X msg (quiet_link x) = (quiet_link x')\<lparr>tc_output := ack\<rparr>"
  shows "sendWaitForAck (tcl_channel X) msg 16 (quiet_link x) = (Inr ack, quiet_link x')"
  using assms by (auto simp: sendWaitForAck_def tcl_channel_def bnd_def serve_command)

lemma client_write_carries:
  "carries (client_write (tcl_channel X) a d) (do_write (axi_bus X) (take_bit 40 a) d)"
  unfolding carries_def
proof (intro allI impI)
  fix x r x'
  assume run: "do_write (axi_bus X) (take_bit 40 a) d x = (Inr r, x')"
  have "do_command_tcl X (write_packet a d) (quiet_link x) = (quiet_link x')\<lparr>tc_output := zeros16\<rparr>"
    using run by (simp add: do_command_tcl_def write_packet_def answer_def bnd_def axi_bus_def)
  then have "sendWaitForAck (tcl_channel X) (write_packet a d) 16 (quiet_link x) = (Inr zeros16, quiet_link x')"
    by (rule exchange [rotated 3]) (simp_all add: write_packet_def zeros16_def)
  then show "client_write (tcl_channel X) a d (quiet_link x) = (Inr r, quiet_link x')"
    by (simp add: client_write_def bnd_Inr)
qed

text \<open>The AXI bus is 64 bits wide: a transaction reports eight bytes.\<close>

definition axi_wide :: "'x axi_ops \<Rightarrow> bool" where
  "axi_wide X \<longleftrightarrow> (\<forall>a x d x'. axi_read X a x = (Inr d, x') \<longrightarrow> length d = 8)"

lemma client_read_carries:
  assumes "axi_wide X"
  shows "carries (client_read (tcl_channel X) a) (do_read (axi_bus X) (take_bit 40 a))"
  unfolding carries_def
proof (intro allI impI)
  fix x r x'
  assume "do_read (axi_bus X) (take_bit 40 a) x = (Inr r, x')"
  then obtain d where run: "axi_read X (take_bit 40 a) x = (Inr d, x')" and r: "r = be_word d"
    by (auto simp: axi_bus_def elim: bnd_cases)
  have d: "length d = 8"
    using assms run unfolding axi_wide_def by blast
  let ?ack = "5 # addr5 a @ d @ [0, 0]"
  have "do_command_tcl X (read_packet 5 a) (quiet_link x) = (quiet_link x')\<lparr>tc_output := ?ack\<rparr>"
    using run by (simp add: do_command_tcl_def read_packet_def answer_def bnd_def)
  then have "sendWaitForAck (tcl_channel X) (read_packet 5 a) 16 (quiet_link x) = (Inr ?ack, quiet_link x')"
    by (rule exchange [rotated 3]) (simp_all add: read_packet_def d)
  then show "client_read (tcl_channel X) a (quiet_link x) = (Inr r, quiet_link x')"
    by (simp add: client_read_def bnd_Inr r d)
qed

lemma recv_ack:
  "tc_output s = zeros16 @ rest \<Longrightarrow> ch_recv (tcl_channel X) 16 s = (Inr (16, zeros16), s\<lparr>tc_output := rest\<rparr>)"
  by (auto simp: tcl_channel_def zeros16_def numeral_eq_Suc)

lemma sendWaitForAck_ack:
  assumes "length buf = n" and "tc_output (tcl_serve X (s\<lparr>tc_input := tc_input s @ buf\<rparr>)) = zeros16 @ rest"
  shows "\<exists>r. sendWaitForAck (tcl_channel X) buf n s
    = (Inr r, (tcl_serve X (s\<lparr>tc_input := tc_input s @ buf\<rparr>))\<lparr>tc_output := rest\<rparr>)"
proof -
  have "ch_send (tcl_channel X) buf s = (Inr (int n), tcl_serve X (s\<lparr>tc_input := tc_input s @ buf\<rparr>))"
    by (simp add: tcl_channel_def assms(1))
  then show ?thesis
    using recv_ack [OF assms(2)] assms(1) by (simp add: sendWaitForAck_def bnd_Inr)
qed

lemma burst_done:
  assumes "do_write_burst (axi_bus X) a ws x = (Inr r, x')"
  shows "burst_tcl X a (length ws) (concat (map be8 (rev ws))) ((quiet_link x)\<lparr>tc_burst := b, tc_output := out\<rparr>)
    = (quiet_link x')\<lparr>tc_output := out @ zeros16\<rparr>"
proof -
  let ?m = "bnd (axi_write X 0x005004e0 (be8 a)) (\<lambda>_. bnd (axi_write X 0x005004e8 (be8 2)) (\<lambda>_.
      bnd (axi_burst X 0x005004f0 (length ws) (concat (map be8 (rev ws)))) (\<lambda>_. ret zeros16)))"
  have "?m = bnd (do_write_burst (axi_bus X) a ws) (\<lambda>_. ret zeros16)"
    by (simp add: axi_bus_def bnd_assoc del: ret_run)
  then have "?m x = (Inr zeros16, x')"
    by (simp add: bnd_Inr [where m = "do_write_burst (axi_bus X) a ws", OF assms])
  then show ?thesis
    by (simp add: burst_tcl_def answer_def quiet_link_def del: ret_run)
qed

lemma serve_header:
  assumes "length ws \<le> 256" and "do_write_burst (axi_bus X) (take_bit 40 a) ws x = (Inr r, x')"
  shows "tcl_serve X ((quiet_link x)\<lparr>tc_input := burst_header a (length ws)\<rparr>)
    = (if ws = [] then (quiet_link x')\<lparr>tc_output := zeros16 @ zeros16\<rparr>
       else (quiet_link x)\<lparr>tc_burst := Some (take_bit 40 a, length ws), tc_output := zeros16\<rparr>)"
proof -
  let ?hdr = "burst_header a (length ws)" and ?s = "(quiet_link x)\<lparr>tc_burst := Some (take_bit 40 a, length ws), tc_output := zeros16\<rparr>"
  have hdr: "length ?hdr = 16" "hd ?hdr = 6" "take 5 (drop 1 ?hdr) = addr5 a"
      "take 2 (take 8 (drop 6 ?hdr)) = [of_nat (length ws div 256), of_nat (length ws)]"
    by (simp_all add: burst_header_def)
  have "do_command_tcl X ?hdr (quiet_link x) = ?s"
    unfolding do_command_tcl_def Let_def hdr using two_bytes [of "length ws"] assms(1) by (simp add: quiet_link_def)
  then have "tcl_serve X ((quiet_link x)\<lparr>tc_input := ?hdr\<rparr>) = tcl_serve X ?s"
    using hdr(1) by (subst tcl_serve.simps) simp
  also have "\<dots> = (if ws = [] then (quiet_link x')\<lparr>tc_output := zeros16 @ zeros16\<rparr> else ?s)"
  proof (cases "ws = []")
    case True
    have "burst_tcl X (take_bit 40 a) 0 [] ?s = (quiet_link x')\<lparr>tc_output := zeros16 @ zeros16\<rparr>"
      using burst_done [OF assms(2), where b = "Some (take_bit 40 a, length ws)" and out = zeros16] True by simp
    then show ?thesis
      using True by (subst tcl_serve.simps) (simp add: quiet_link_def, subst tcl_serve.simps, simp)
  next
    case False
    then show ?thesis by (subst tcl_serve.simps) simp
  qed
  finally show ?thesis .
qed

lemma serve_data:
  assumes "ws \<noteq> []" and "do_write_burst (axi_bus X) a ws x = (Inr r, x')"
  shows "tcl_serve X ((quiet_link x)\<lparr>tc_burst := Some (a, length ws), tc_input := concat (map be8 (rev ws))\<rparr>)
    = (quiet_link x')\<lparr>tc_output := zeros16\<rparr>"
proof -
  have "burst_tcl X a (length ws) (concat (map be8 (rev ws))) ((quiet_link x)\<lparr>tc_burst := Some (a, length ws), tc_output := []\<rparr>)
      = (quiet_link x')\<lparr>tc_output := zeros16\<rparr>"
    using burst_done [OF assms(2), where b = "Some (a, length ws)" and out = "[]"] by simp
  then show ?thesis
    by (subst tcl_serve.simps) (simp add: quiet_link_def, subst tcl_serve.simps, simp)
qed

lemma client_write_burst_carries:
  assumes "length ws \<le> 256"
  shows "carries (client_write_burst (tcl_channel X) a ws) (do_write_burst (axi_bus X) (take_bit 40 a) ws)"
  unfolding carries_def
proof (intro allI impI)
  fix x r x'
  assume run: "do_write_burst (axi_bus X) (take_bit 40 a) ws x = (Inr r, x')"
  let ?data = "concat (map be8 (rev ws))"
  define s1 where "s1 = (if ws = [] then (quiet_link x')\<lparr>tc_output := zeros16\<rparr>
    else (quiet_link x)\<lparr>tc_burst := Some (take_bit 40 a, length ws)\<rparr>)"
  have "tc_output (tcl_serve X ((quiet_link x)\<lparr>tc_input := burst_header a (length ws)\<rparr>))
      = zeros16 @ (if ws = [] then zeros16 else [])"
    using serve_header [OF assms run] by simp
  then obtain b1 where 1: "sendWaitForAck (tcl_channel X) (burst_header a (length ws)) 16 (quiet_link x) = (Inr b1, s1)"
    using sendWaitForAck_ack [of "burst_header a (length ws)" 16 X "quiet_link x"] serve_header [OF assms run]
    by (fastforce simp: burst_header_def s1_def quiet_link_def)
  have "tcl_serve X (s1\<lparr>tc_input := tc_input s1 @ ?data\<rparr>) = (quiet_link x')\<lparr>tc_output := zeros16\<rparr>"
  proof (cases "ws = []")
    case True
    then show ?thesis by (subst tcl_serve.simps) (simp add: s1_def quiet_link_def)
  next
    case False
    then show ?thesis using serve_data [OF False run] by (simp add: s1_def)
  qed
  then obtain b2 where 2: "sendWaitForAck (tcl_channel X) ?data (8 * length ws) s1 = (Inr b2, quiet_link x')"
    using sendWaitForAck_ack [of ?data "8 * length ws" X s1 "[]"] by auto
  show "client_write_burst (tcl_channel X) a ws (quiet_link x) = (Inr r, quiet_link x')"
    using 1 2 assms by (simp add: client_write_burst_def bnd_Inr)
qed

lemma axi_address: "a < 2 ^ 40 \<Longrightarrow> take_bit 40 a = (a :: u64)"
  by (simp add: word_unat_eq_iff unsigned_take_bit_eq take_bit_nat_eq_self word_less_nat_alt)

lemma dram_address: "in_dram a \<Longrightarrow> take_bit 40 a = a"
  by (rule axi_address) (auto simp: in_dram_def intro: order_less_trans)

lemma port_addresses: "take_bit 40 DEBUG_ADDR = DEBUG_ADDR" "take_bit 40 DEBUG_REQ_TYPE = DEBUG_REQ_TYPE"
  "take_bit 40 DEBUG_WR_DATA = DEBUG_WR_DATA" "take_bit 40 DEBUG_RD_DATA = DEBUG_RD_DATA"
  by (simp_all add: DEBUG_ADDR_def DEBUG_REQ_TYPE_def DEBUG_WR_DATA_def DEBUG_RD_DATA_def)

lemma socket_carries:
  assumes "axi_wide X"
  shows "take_bit 40 a = a \<Longrightarrow> carries (do_write (socket_bus (tcl_channel X)) a d) (do_write (axi_bus X) a d)"
    and "take_bit 40 a = a \<Longrightarrow> carries (do_read (socket_bus (tcl_channel X)) a) (do_read (axi_bus X) a)"
    and "take_bit 40 a = a \<Longrightarrow> length ws \<le> 256
      \<Longrightarrow> carries (do_write_burst (socket_bus (tcl_channel X)) a ws) (do_write_burst (axi_bus X) a ws)"
  using client_write_carries [of X a d] client_read_carries [OF assms, of a] client_write_burst_carries [of ws X a]
  by (simp_all add: socket_bus_def)

text \<open>A debug port behind the AXI engine is one behind the socket.\<close>

definition link_ok :: "('x \<Rightarrow> bool) \<Rightarrow> 'x tcl_server \<Rightarrow> bool" where
  "link_ok ainv s \<longleftrightarrow> s = quiet_link (tc_axi s) \<and> ainv (tc_axi s)"

lemma link_ok_quiet [simp]: "link_ok ainv (quiet_link x) \<longleftrightarrow> ainv x"
  by (simp add: link_ok_def)

lemma link_okE: "link_ok ainv s \<Longrightarrow> (\<And>x. s = quiet_link x \<Longrightarrow> ainv x \<Longrightarrow> thesis) \<Longrightarrow> thesis"
  by (auto simp: link_ok_def)

lemma socket_debug_port:
  assumes port: "debug_port (axi_bus X) ainv amem anext" and wide: "axi_wide X"
  shows "debug_port (socket_bus (tcl_channel X)) (link_ok ainv) (\<lambda>s. amem (tc_axi s)) (\<lambda>s. anext (tc_axi s))"
proof -
  let ?S = "socket_bus (tcl_channel X)" and ?A = "axi_bus X"
  note wr = socket_carries(1) [OF wide] and rd = socket_carries(2) [OF wide] and burst = socket_carries(3) [OF wide]
  have write3: "carries (seqM [do_write ?S DEBUG_ADDR a, do_write ?S DEBUG_REQ_TYPE 2, do_write ?S DEBUG_WR_DATA d])
      (seqM [do_write ?A DEBUG_ADDR a, do_write ?A DEBUG_REQ_TYPE 2, do_write ?A DEBUG_WR_DATA d])" for a d
    unfolding seqM.simps by (intro carries_andThen carries_ret wr port_addresses)
  have read3: "carries (andThen (do_write ?S DEBUG_ADDR a) (andThen (do_write ?S DEBUG_REQ_TYPE 0) (do_read ?S DEBUG_RD_DATA)))
      (andThen (do_write ?A DEBUG_ADDR a) (andThen (do_write ?A DEBUG_REQ_TYPE 0) (do_read ?A DEBUG_RD_DATA)))" for a
    by (intro carries_andThen wr rd port_addresses)
  show ?thesis
    unfolding debug_port_def
  proof (intro conjI allI impI; (elim conjE link_okE)?)
    fix s x a d
    assume "in_dram a" "take_bit 3 a = 0" "s = quiet_link x" "ainv x"
    then show "\<exists>b'. seqM [do_write ?S DEBUG_ADDR a, do_write ?S DEBUG_REQ_TYPE 2, do_write ?S DEBUG_WR_DATA d] s
          = (Inr (), b') \<and> link_ok ainv b' \<and> amem (tc_axi b') = upd_range (amem (tc_axi s)) a (le_bytes 8 d)
          \<and> anext (tc_axi b') = Some (a + 8)"
      using port_laws(1) [OF port, of x a d] carriesD [OF write3, of a d x] by fastforce
  next
    fix s x a d
    assume "in_dram a" "anext (tc_axi s) = Some a" "s = quiet_link x" "ainv x"
    then show "\<exists>b'. do_write ?S DEBUG_WR_DATA d s = (Inr (), b') \<and> link_ok ainv b'
        \<and> amem (tc_axi b') = upd_range (amem (tc_axi s)) a (le_bytes 8 d)"
      using port_laws(2) [OF port, of x a d] carriesD [OF wr [OF port_addresses(3)], of d x] by fastforce
  next
    fix s x a and ws :: "u64 list"
    assume "in_dram a" "take_bit 3 a = 0" "length ws \<le> 256" "s = quiet_link x" "ainv x"
    then show "\<exists>b'. do_write_burst ?S a ws s = (Inr (), b') \<and> link_ok ainv b'
        \<and> amem (tc_axi b') = upd_range (amem (tc_axi s)) a (bytes_of_words ws)"
      using port_laws(3) [OF port, of x a ws] carriesD [OF burst [OF dram_address], of a ws x] by fastforce
  next
    fix s x a
    assume "in_dram a" "take_bit 3 a = 0" "s = quiet_link x" "ainv x"
    then show "\<exists>b'. andThen (do_write ?S DEBUG_ADDR a) (andThen (do_write ?S DEBUG_REQ_TYPE 0) (do_read ?S DEBUG_RD_DATA)) s
        = (Inr (le_word (get_range (amem (tc_axi s)) a 8)), b') \<and> link_ok ainv b' \<and> amem (tc_axi b') = amem (tc_axi s)"
      using port_laws(4) [OF port, of x a] carriesD [OF read3, of a x] by fastforce
  qed
qed

section \<open>Properties\<close>

text \<open>
  C11: the socket is transparent. Each access of the driver, packed into its messages, parsed by the
  server and answered, has the effect and the result of the AXI transactions themselves, for addresses
  of 40 bits, and leaves no byte on the connection, so accesses never see each other's answers.
\<close>

theorem socket_is_transparent:
  assumes "axi_wide X" and "length ws \<le> 256"
  shows "carries (client_write (tcl_channel X) a d) (do_write (axi_bus X) (take_bit 40 a) d)
    \<and> carries (client_read (tcl_channel X) a) (do_read (axi_bus X) (take_bit 40 a))
    \<and> carries (client_write_burst (tcl_channel X) a ws) (do_write_burst (axi_bus X) (take_bit 40 a) ws)"
  using client_write_carries client_read_carries [OF assms(1)] client_write_burst_carries [OF assms(2)] by blast

text \<open>The chip of the bridge's properties behind an AXI engine.\<close>

definition port_axi :: "port_chip axi_ops" where
  "port_axi =
    \<lparr>axi_write = (\<lambda>a bs. do_write port_bus a (be_word bs)),
     axi_read = (\<lambda>a. bnd (do_read port_bus a) (\<lambda>d. ret (be8 d))),
     axi_burst = (\<lambda>a n bs c. (Inr (), c\<lparr>pc_mem := upd_range (pc_mem c) (pc_addr c) (rev bs)\<rparr>))\<rparr>"

lemma port_axi_wide: "axi_wide port_axi"
  by (simp add: axi_wide_def port_axi_def port_bus_def bnd_def)

theorem socket_is_transparent_witness:
  "carries (client_write (tcl_channel port_axi) 0x5004e0 0x80000000) (do_write (axi_bus port_axi) (take_bit 40 0x5004e0) 0x80000000)
    \<and> carries (client_read (tcl_channel port_axi) 0x5004e0) (do_read (axi_bus port_axi) (take_bit 40 0x5004e0))
    \<and> carries (client_write_burst (tcl_channel port_axi) 0x5004e0 [1, 2]) (do_write_burst (axi_bus port_axi) (take_bit 40 0x5004e0) [1, 2])"
  by (rule socket_is_transparent [OF port_axi_wide]) simp

lemma rev_be8s: "rev (concat (map be8 (rev ws))) = bytes_of_words ws"
  by (induction ws) (simp_all add: be8_le_bytes)

lemma port_axi_is_debug_port: "debug_port (axi_bus port_axi) (\<lambda>_. True) pc_mem (\<lambda>c. Some (pc_addr c))"
  by (simp add: debug_port_def axi_bus_def port_axi_def port_bus_def DEBUG_ADDR_def DEBUG_REQ_TYPE_def DEBUG_WR_DATA_def
      DEBUG_RD_DATA_def andThen_def bnd_def rev_be8s)

interpretation wire: chunk_target "dtm (bridge_serve (socket_bus (tcl_channel port_axi)) th fh) jk" DMA 3
    "bridge_ok (link_ok (\<lambda>_. True))" "\<lambda>s. pc_mem (tc_axi (br_bus s))" in_dram
  for th fh jk
  by (rule bridge_is_chunk_target [OF socket_debug_port [OF port_axi_is_debug_port port_axi_wide]])

text \<open>
  C12: a write of any length and alignment to the DRAM arrives byte for byte at the memory behind the
  AXI engine, through every layer of the program: the splitting into chunks, the debug transport, the
  state machine of the driver, the packets on the socket and the commands of the server.
\<close>

theorem write_over_the_wire:
  assumes "debug_port (axi_bus X) ainv amem anext" and "axi_wide X" and "bridge_ok (link_ok ainv) s"
    and "\<forall>i < length bs. in_dram (a + of_nat i)" and "0x80000000 \<le> a" and "length bs \<le> 2 ^ 64"
  shows "\<exists>s'. memif_write (dtm (bridge_serve (socket_bus (tcl_channel X)) th fh) jk) a bs DMA s = (Inr (), s')
    \<and> bridge_ok (link_ok ainv) s' \<and> amem (tc_axi (br_bus s')) = upd_range (amem (tc_axi (br_bus s))) a bs"
  by (rule chunk_target.memif_write_law [OF bridge_is_chunk_target [OF socket_debug_port [OF assms(1,2)]]])
    (use assms in simp_all)

definition sample_wire :: "port_chip tcl_server bridge" where
  "sample_wire = bridge_init (replicate 256 0) (quiet_link \<lparr>pc_mem = (\<lambda>_. 0x55), pc_addr = 0, pc_type = 0\<rparr>)"

theorem write_over_the_wire_witness:
  "\<exists>s'. memif_write (dtm (bridge_serve (socket_bus (tcl_channel port_axi)) 0x80001000 0x80001040) (\<lambda>_. 7))
      0x80000ffd [1, 2, 3, 4] DMA sample_wire = (Inr (), s')
    \<and> bridge_ok (link_ok (\<lambda>_. True)) s'
    \<and> pc_mem (tc_axi (br_bus s')) = upd_range (pc_mem (tc_axi (br_bus sample_wire))) 0x80000ffd [1, 2, 3, 4]"
  by (rule write_over_the_wire [OF port_axi_is_debug_port port_axi_wide])
    (simp_all add: in_dram_def All_less_Suc sample_wire_def bridge_init_def bridge_ok_def)

end
