(* ===== verification/Board_Server.thy ===== *)
theory Board_Server
  imports Socket
begin

text \<open>
  The server that runs on the board's own processor, \<open>fpga/socket_server.c\<close> over
  \<open>fpga/gpio_dev_mem.c\<close>, and the client of \<open>script/common-socket.c\<close>, whose reads it is made for.
\<close>

section \<open>Registers through \<open>/dev/mem\<close>\<close>

text \<open>The three windows mapped by \<open>open_fd\<close>: registers, block RAM, and the test area.\<close>

datatype window = Rst_spi | Bram | Test_area

text \<open>What is behind the windows, by byte offset, and whether a window can be mapped.\<close>

record 'g board_ops =
  bo_page_size :: u64
  bo_mmap :: "window \<Rightarrow> bool"
  bo_load :: "window \<Rightarrow> u64 \<Rightarrow> ('g, u64) prog"
  bo_store :: "window \<Rightarrow> u64 \<Rightarrow> u64 \<Rightarrow> ('g, unit) prog"

record 'g board =
  page_size :: u64
  page_addr :: u64
  page_addr2 :: u64
  page_addr_bram :: u64
  bd_io :: 'g

type_synonym ('g, 'a) bprog = "('g board, 'a) prog"

definition on_io :: "('g, 'a) prog \<Rightarrow> ('g, 'a) bprog" where
  "on_io m s = (case m (bd_io s) of (r, g) \<Rightarrow> (r, s\<lparr>bd_io := g\<rparr>))"

definition window_size :: "window \<Rightarrow> u64 \<Rightarrow> u64" where
  "window_size w sz = (if w = Bram then sz * 8 else sz)"

definition open_window :: "'g board_ops \<Rightarrow> window \<Rightarrow> u64 \<Rightarrow> u64 \<Rightarrow> ('g, u64) bprog" where
  "open_window B w base sz =
    (let a = base AND NOT (sz - 1) in
     if base \<noteq> a \<or> \<not> bo_mmap B w then raise (Exited 1) else ret a)"

definition open_fd :: "'g board_ops \<Rightarrow> ('g, unit) bprog" where
  "open_fd B =
    (let sz = bo_page_size B * 128 in
     bnd (open_window B Rst_spi 0xA0000000 sz) (\<lambda>a.
     bnd (open_window B Bram 0x10000000 sz) (\<lambda>ab.
     bnd (open_window B Test_area 0x4000000000 sz) (\<lambda>a2.
       modS (\<lambda>s. s\<lparr>page_size := sz, page_addr := a, page_addr_bram := ab, page_addr2 := a2\<rparr>)))))"

text \<open>An access at an offset of a window; outside the mapping it is undefined.\<close>

definition in_window :: "window \<Rightarrow> u64 \<Rightarrow> ('g, unit) bprog" where
  "in_window w off =
    bnd (getS page_size) (\<lambda>sz. definedM ''access outside the mapping'' (unat off + 8 \<le> unat (window_size w sz)))"

definition store_at :: "'g board_ops \<Rightarrow> window \<Rightarrow> u64 \<Rightarrow> u64 \<Rightarrow> ('g, unit) bprog" where
  "store_at B w off v = andThen (in_window w off) (on_io (bo_store B w off v))"

definition load_at :: "'g board_ops \<Rightarrow> window \<Rightarrow> u64 \<Rightarrow> ('g, u64) bprog" where
  "load_at B w off = andThen (in_window w off) (on_io (bo_load B w off))"

definition write_gpio :: "'g board_ops \<Rightarrow> u64 \<Rightarrow> u64 \<Rightarrow> ('g, int) bprog" where
  "write_gpio B a v =
    (if a = 0 then ret (- 1)
     else
       bnd (getS (\<lambda>s. (page_addr s, page_addr2 s))) (\<lambda>(p, p2).
       andThen (if 0x4000000000 \<le> a then store_at B Test_area (a - p2) v else store_at B Rst_spi (a - p) v)
         (ret 0)))"

definition read_gpio :: "'g board_ops \<Rightarrow> u64 \<Rightarrow> ('g, u64) bprog" where
  "read_gpio B a = bnd (getS page_addr) (\<lambda>p. load_at B Rst_spi (a - p))"

definition write_gpio_bram :: "'g board_ops \<Rightarrow> u64 \<Rightarrow> u64 \<Rightarrow> ('g, int) bprog" where
  "write_gpio_bram B a v =
    (if a = 0 then ret (- 1)
     else bnd (getS page_addr_bram) (\<lambda>p. andThen (store_at B Bram (a - p) v) (ret 0)))"

definition read_gpio_bram :: "'g board_ops \<Rightarrow> u64 \<Rightarrow> ('g, u64) bprog" where
  "read_gpio_bram B a = bnd (getS page_addr_bram) (\<lambda>p. load_at B Bram (a - p))"

section \<open>Requests\<close>

datatype cmd_t = BWRITE | BREAD | WRITE | READ | RST | STATUS | ERR

datatype rst_mode_t = ACTIVE_HIGH | ACITVE_LOW

text \<open>
  A second byte of \<open>0x10\<close> selects the block RAM, whatever the command; an unknown command ends the
  server.
\<close>

definition command_of :: "u8 list \<Rightarrow> ('g, cmd_t) bprog" where
  "command_of buff =
    (if buff ! 1 = 0x10 then
       (if buff ! 0 = 5 then ret BREAD else if buff ! 0 = 4 then ret BWRITE else raise (Exited 1))
     else if buff ! 0 = 5 then ret READ
     else if buff ! 0 = 4 then ret WRITE
     else if buff ! 0 = 0xaa then ret STATUS
     else if buff ! 0 = 0xb0 then ret RST
     else raise (Exited 1))"

definition buff_addr :: "u8 list \<Rightarrow> u64" where
  "buff_addr buff = be_word (take 5 (drop 1 buff))"

definition put_bytes :: "nat \<Rightarrow> u8 list \<Rightarrow> u8 list \<Rightarrow> u8 list" where
  "put_bytes i bs buff = take i buff @ bs @ drop (i + length bs) buff"

definition checked :: "('g, int) bprog \<Rightarrow> ('g, unit) bprog" where
  "checked m = bnd m (\<lambda>r. if r = - 1 then raise (Exited 1) else ret ())"

definition proc_reset :: "'g board_ops \<Rightarrow> rst_mode_t \<Rightarrow> u8 list \<Rightarrow> ('g, unit) bprog" where
  "proc_reset B mode buff =
    (let set_it = (buff ! 2 = 1) in
     checked (write_gpio B 0x4000000000 (if (mode = ACTIVE_HIGH) = set_it then 1 else 0)))"

text \<open>
  A read over the ring: address, direction and start, then up to 10000 looks at the start register.
  The count is decremented after each look, and a count of zero is a timeout even when the last look
  found the register clear.
\<close>

fun await_exec :: "'g board_ops \<Rightarrow> nat \<Rightarrow> ('g, nat) bprog" where
  "await_exec B 0 = ret 0"
| "await_exec B (Suc n) =
    bnd (read_gpio B 0xA0040000) (\<lambda>p. if p \<noteq> 0 \<and> 0 < n then await_exec B n else ret n)"

definition ring_read :: "'g board_ops \<Rightarrow> u64 \<Rightarrow> ('g, u64) bprog" where
  "ring_read B a =
    andThen (checked (write_gpio B 0xA0040010 a))
    (andThen (checked (write_gpio B 0xA0040008 0))
    (andThen (checked (write_gpio B 0xA0040000 1))
    (bnd (await_exec B 10000) (\<lambda>n.
     if n = 0 then raise (Exited 1) else read_gpio B 0xA0040020))))"

text \<open>
  The word for the block RAM is taken from bytes 9 to 16 of the buffer, where the data of a message is
  in bytes 6 to 13 and a message ends at byte 15.
\<close>

definition procReqDataFrmCl :: "'g board_ops \<Rightarrow> rst_mode_t \<Rightarrow> u8 list \<Rightarrow> ('g, u8 list) bprog" where
  "procReqDataFrmCl B mode buff =
    bnd (command_of buff) (\<lambda>cmd.
    case cmd of
      RST \<Rightarrow> andThen (proc_reset B mode buff) (ret buff)
    | WRITE \<Rightarrow> bnd (write_gpio B (buff_addr buff) (be_word (take 8 (drop 6 buff)))) (\<lambda>_. ret buff)
    | READ \<Rightarrow>
        bnd (ring_read B (buff_addr buff)) (\<lambda>d.
          ret (put_bytes 6 (le_bytes 8 d) (put_bytes 0 (replicate 16 0) buff)))
    | BWRITE \<Rightarrow>
        andThen (checked (write_gpio_bram B (buff_addr buff) (be_word (rev (take 8 (drop 9 buff)))))) (ret buff)
    | BREAD \<Rightarrow>
        bnd (read_gpio_bram B (buff_addr buff)) (\<lambda>d. ret (put_bytes 6 (le_bytes 8 d) buff))
    | STATUS \<Rightarrow> ret buff
    | ERR \<Rightarrow> ret buff)"

section \<open>The connection\<close>

text \<open>Bytes on their way to the server and to the client.\<close>

record 'g served =
  sv_input :: "u8 list"
  sv_output :: "u8 list"
  sv_board :: "'g board"

definition on_board :: "('g, 'a) bprog \<Rightarrow> ('g served, 'a) prog" where
  "on_board m s = (case m (sv_board s) of (r, b) \<Rightarrow> (r, s\<lparr>sv_board := b\<rparr>))"

text \<open>
  One message: \<open>jnk\<close> is what the hundred bytes from \<open>malloc\<close> hold. The answer has as many bytes as
  a whole message, so the server ends when the message was shorter. The value tells that the client
  is gone.
\<close>

definition handleTcpClient :: "'g board_ops \<Rightarrow> u8 list \<Rightarrow> ('g served, bool) prog" where
  "handleTcpClient B jnk =
    bnd (getS (\<lambda>s. take 16 (sv_input s))) (\<lambda>msg.
    andThen (modS (\<lambda>s. s\<lparr>sv_input := drop 16 (sv_input s)\<rparr>))
    (if msg = [] then ret True
     else
       bnd (on_board (procReqDataFrmCl B ACTIVE_HIGH (put_bytes 0 msg jnk))) (\<lambda>buff.
       andThen (modS (\<lambda>s. s\<lparr>sv_output := sv_output s @ take 16 buff\<rparr>))
         (if length msg \<noteq> 16 then raise (Exited 1) else ret False))))"

text \<open>
  The server as its client sees it: a message sent is handled at once. When the server has ended, a
  \<open>recv\<close> returns no byte.
\<close>

definition board_channel :: "'g board_ops \<Rightarrow> u8 list \<Rightarrow> 'g served channel" where
  "board_channel B jnk =
    \<lparr>ch_send = (\<lambda>bs s. (Inr (int (length bs)), snd (handleTcpClient B jnk (s\<lparr>sv_input := sv_input s @ bs\<rparr>)))),
     ch_recv = (\<lambda>n s. (Inr (int (min n (length (sv_output s))), take n (sv_output s)), s\<lparr>sv_output := drop n (sv_output s)\<rparr>))\<rparr>"

text \<open>The reads of \<open>script/common-socket.c\<close>, least significant byte first.\<close>

definition script_read :: "'c channel \<Rightarrow> addr \<Rightarrow> ('c, u64) prog" where
  "script_read C a =
    bnd (sendWaitForAck C (read_packet 5 a) 16) (\<lambda>buf. ret (be_word (rev (take 8 (drop 6 buf)))))"

section \<open>Properties\<close>

definition quiet_served :: "'g board \<Rightarrow> 'g served" where
  "quiet_served b = \<lparr>sv_input = [], sv_output = [], sv_board = b\<rparr>"

lemma put_message: "length msg = 16 \<Longrightarrow> put_bytes 0 msg jnk = msg @ drop 16 jnk"
  by (simp add: put_bytes_def)

lemma handle_message:
  assumes "length msg = 16" and "procReqDataFrmCl B ACTIVE_HIGH (msg @ drop 16 jnk) b = (Inr buff, b')"
  shows "handleTcpClient B jnk ((quiet_served b)\<lparr>sv_input := msg\<rparr>)
    = (Inr False, (quiet_served b')\<lparr>sv_output := take 16 buff\<rparr>)"
proof -
  have "msg \<noteq> []" using assms(1) by auto
  then show ?thesis
    using assms
    by (simp add: handleTcpClient_def bnd_def andThen_def put_message on_board_def quiet_served_def)
qed

lemma exchange_served:
  assumes "length msg = 16" and "procReqDataFrmCl B ACTIVE_HIGH (msg @ drop 16 jnk) b = (Inr buff, b')"
    and "16 \<le> length buff"
  shows "sendWaitForAck (board_channel B jnk) msg 16 (quiet_served b) = (Inr (take 16 buff), quiet_served b')"
  using handle_message [OF assms(1,2)] assms(1,3)
  by (simp add: sendWaitForAck_def board_channel_def bnd_def quiet_served_def)

lemma packets [simp]:
  "length (read_packet c a) = 16" "length (write_packet a d) = 16"
  "read_packet c a ! 0 = c" "write_packet a d ! 0 = 4"
  "read_packet c a ! Suc 0 = ucast (drop_bit 32 a)" "write_packet a d ! Suc 0 = ucast (drop_bit 32 a)"
  by (simp_all add: read_packet_def write_packet_def addr5_def)

lemma packet_fields [simp]:
  "buff_addr (read_packet c a @ rest) = take_bit 40 a" "buff_addr (write_packet a d @ rest) = take_bit 40 a"
  "take 8 (drop 6 (write_packet a d @ rest)) = be8 d" "take 8 (drop 6 (write_packet a d)) = be8 d"
  by (simp_all add: buff_addr_def read_packet_def write_packet_def)

text \<open>An address that does not select the block RAM.\<close>

definition ring_addr :: "addr \<Rightarrow> bool" where
  "ring_addr a \<longleftrightarrow> (ucast (drop_bit 32 a) :: u8) \<noteq> 0x10"

lemma served_read:
  assumes "length jnk = 100" and "ring_addr a" and "ring_read B (take_bit 40 a) b = (Inr v, b')"
  shows "\<exists>buf. sendWaitForAck (board_channel B jnk) (read_packet 5 a) 16 (quiet_served b) = (Inr buf, quiet_served b')
    \<and> take 8 (drop 6 buf) = le_bytes 8 v"
proof -
  let ?buff = "put_bytes 6 (le_bytes 8 v) (put_bytes 0 (replicate 16 0) (read_packet 5 a @ drop 16 jnk))"
  have "procReqDataFrmCl B ACTIVE_HIGH (read_packet 5 a @ drop 16 jnk) b = (Inr ?buff, b')"
    using assms(2,3) by (simp add: procReqDataFrmCl_def command_of_def ring_addr_def nth_append bnd_def)
  moreover have "length ?buff = 100" "take 8 (drop 6 (take 16 ?buff)) = le_bytes 8 v"
    using assms(1) by (simp_all add: put_bytes_def take_drop)
  ultimately show ?thesis
    using exchange_served [of "read_packet 5 a" B jnk b ?buff b'] by auto
qed

lemma served_write:
  assumes "length jnk = 100" and "ring_addr a" and "write_gpio B (take_bit 40 a) d b = (Inr r, b')"
  shows "client_write (board_channel B jnk) a d (quiet_served b) = (Inr (), quiet_served b')"
proof -
  have "procReqDataFrmCl B ACTIVE_HIGH (write_packet a d @ drop 16 jnk) b = (Inr (write_packet a d @ drop 16 jnk), b')"
    using assms(2,3) by (simp add: procReqDataFrmCl_def command_of_def ring_addr_def nth_append bnd_def)
  then have "sendWaitForAck (board_channel B jnk) (write_packet a d) 16 (quiet_served b)
      = (Inr (take 16 (write_packet a d @ drop 16 jnk)), quiet_served b')"
    by (rule exchange_served [rotated]) simp_all
  then show ?thesis
    by (simp add: client_write_def bnd_Inr)
qed

text \<open>A board whose test area is what the ring reads.\<close>

definition sample_ops :: "(u64 \<times> (u64 \<Rightarrow> u64)) board_ops" where
  "sample_ops =
    \<lparr>bo_page_size = 0x1000, bo_mmap = (\<lambda>_. True),
     bo_load = (\<lambda>w off g. (Inr (if off = 0x40020 then snd g (fst g) else 0), g)),
     bo_store = (\<lambda>w off v g. (Inr (),
       if w = Test_area then (fst g, (snd g)(0x4000000000 + off := v))
       else if off = 0x40010 then (v, snd g) else g))\<rparr>"

definition sample_board :: "u64 \<Rightarrow> (u64 \<Rightarrow> u64) \<Rightarrow> (u64 \<times> (u64 \<Rightarrow> u64)) board" where
  "sample_board a m = \<lparr>page_size = 0x80000, page_addr = 0xA0000000, page_addr2 = 0x4000000000,
     page_addr_bram = 0x10000000, bd_io = (a, m)\<rparr>"

lemma sample_open: "open_fd sample_ops ((sample_board x m)\<lparr>page_size := 0, page_addr := 0, page_addr2 := 0, page_addr_bram := 0\<rparr>)
    = (Inr (), sample_board x m)"
  by (simp add: open_fd_def open_window_def sample_ops_def sample_board_def bnd_def)

lemma sample_write: "write_gpio sample_ops (take_bit 40 0x4000000010) d (sample_board x m)
    = (Inr 0, sample_board x (m(0x4000000010 := d)))"
  by (simp add: write_gpio_def store_at_def in_window_def window_size_def on_io_def sample_ops_def sample_board_def
      bnd_def andThen_def definedM_def)

lemma sample_read: "ring_read sample_ops (take_bit 40 0x4000000010) (sample_board x m)
    = (Inr (m 0x4000000010), sample_board 0x4000000010 m)"
proof -
  have "(10000 :: nat) = Suc 9999" by simp
  then have "await_exec sample_ops 10000 s = bnd (read_gpio sample_ops 0xA0040000) (\<lambda>p. if p \<noteq> 0 then await_exec sample_ops 9999 else ret 9999) s" for s
    by (simp only: await_exec.simps) simp
  then show ?thesis
    by (simp add: ring_read_def checked_def read_gpio_def write_gpio_def load_at_def store_at_def in_window_def
        window_size_def on_io_def sample_ops_def sample_board_def bnd_def andThen_def definedM_def)
qed

text \<open>
  C13: the client of the scripts and the server on the board agree. What the client writes is stored
  by the server through \<open>/dev/mem\<close>, and what the server finds on the ring is what the client's read
  returns, for every address that does not select the block RAM and whatever the server's buffer held.
\<close>

theorem board_serves_the_scripts:
  assumes "length jnk = 100" and "ring_addr a" and "write_gpio B (take_bit 40 a) d b = (Inr r, b1)"
    and "ring_read B (take_bit 40 a) b1 = (Inr v, b2)"
  shows "bnd (client_write (board_channel B jnk) a d) (\<lambda>_. script_read (board_channel B jnk) a) (quiet_served b)
    = (Inr v, quiet_served b2)"
proof -
  obtain buf where "sendWaitForAck (board_channel B jnk) (read_packet 5 a) 16 (quiet_served b1) = (Inr buf, quiet_served b2)"
      "take 8 (drop 6 buf) = le_bytes 8 v"
    using served_read [OF assms(1,2,4)] by blast
  then have "script_read (board_channel B jnk) a (quiet_served b1) = (Inr v, quiet_served b2)"
    by (simp add: script_read_def bnd_Inr be_word_le_word le_word_le_bytes_full)
  then show ?thesis
    by (simp add: bnd_Inr [where m = "client_write (board_channel B jnk) a d", OF served_write [OF assms(1-3)]])
qed

theorem board_serves_the_scripts_witness:
  "bnd (client_write (board_channel sample_ops (replicate 100 7)) 0x4000000010 0x1122334455667788)
      (\<lambda>_. script_read (board_channel sample_ops (replicate 100 7)) 0x4000000010) (quiet_served (sample_board 0 (\<lambda>_. 0)))
    = (Inr 0x1122334455667788,
       quiet_served (sample_board 0x4000000010 ((\<lambda>_. 0)(0x4000000010 := 0x1122334455667788))))"
  using board_serves_the_scripts [OF _ _ sample_write sample_read, of "replicate 100 7" "0x1122334455667788" 0 "\<lambda>_. 0"]
  by (simp add: ring_addr_def)

text \<open>
  The driver's own client and this server do not agree: a read returns the word with its eight
  bytes in reverse order.
\<close>

theorem driver_reads_bytes_reversed:
  assumes "length jnk = 100" and "ring_addr a" and "ring_read B (take_bit 40 a) b = (Inr v, b')"
  shows "client_read (board_channel B jnk) a (quiet_served b) = (Inr (le_word (rev (le_bytes 8 v))), quiet_served b')"
proof -
  obtain buf where "sendWaitForAck (board_channel B jnk) (read_packet 5 a) 16 (quiet_served b) = (Inr buf, quiet_served b')"
      "take 8 (drop 6 buf) = le_bytes 8 v"
    using served_read [OF assms] by blast
  then show ?thesis
    by (simp add: client_read_def bnd_Inr be_word_le_word)
qed

theorem driver_reads_bytes_reversed_witness:
  "client_read (board_channel sample_ops (replicate 100 7)) 0x4000000010
      (quiet_served (sample_board 0 (\<lambda>_. 0x1122334455667788)))
    = (Inr (le_word (rev (le_bytes 8 (0x1122334455667788 :: u64)))), quiet_served (sample_board 0x4000000010 (\<lambda>_. 0x1122334455667788)))"
  using driver_reads_bytes_reversed [OF _ _ sample_read [of 0 "\<lambda>_. 0x1122334455667788"], of "replicate 100 7"]
  by (simp add: ring_addr_def del: le_bytes.simps)

text \<open>
  A word for the block RAM loses its upper three bytes; in their place are the two zeros that end the
  message and a byte of the server's buffer that was never received.
\<close>

lemma block_ram_write_is_garbled:
  assumes "length jnk = 100" and "\<not> ring_addr a"
    and "write_gpio_bram B (take_bit 40 a) (be_word (jnk ! 16 # 0 # 0 # rev (drop 3 (be8 d)))) b = (Inr 0, b')"
  shows "client_write (board_channel B jnk) a d (quiet_served b) = (Inr (), quiet_served b')"
proof -
  have "take 8 (drop 9 (write_packet a d @ drop 16 jnk)) = drop 3 (be8 d) @ [0, 0, jnk ! 16]"
    using assms(1) by (simp add: write_packet_def addr5_def be8_def numeral_eq_Suc take_Suc_conv_app_nth)
  then have "procReqDataFrmCl B ACTIVE_HIGH (write_packet a d @ drop 16 jnk) b = (Inr (write_packet a d @ drop 16 jnk), b')"
    using assms(2,3)
    by (simp add: procReqDataFrmCl_def command_of_def ring_addr_def nth_append bnd_def checked_def andThen_def)
  then have "sendWaitForAck (board_channel B jnk) (write_packet a d) 16 (quiet_served b)
      = (Inr (take 16 (write_packet a d @ drop 16 jnk)), quiet_served b')"
    by (rule exchange_served [rotated]) simp_all
  then show ?thesis
    by (simp add: client_write_def bnd_Inr)
qed

end
