(* ===== verification/Load_Mem.thy ===== *)
theory Load_Mem
  imports Board_Server
begin

text \<open>
  The loader \<open>fpga/load_mem.c\<close>, which runs on the board: it fills the DRAM through the DMA debug port
  with the words of a text file, two lines to a word.
\<close>

section \<open>Accesses\<close>

text \<open>
  The addresses of the debug port come from a header that is not in the repository; \<open>rtl_gen\<close> has
  them under other names.
\<close>

record dma_regs =
  dr_addr :: u64
  dr_req_type :: u64
  dr_wr_data :: u64
  dr_cmd_vld :: u64
  dr_rdata :: u64

definition silent :: "('s, int) prog \<Rightarrow> ('s, unit) prog" where
  "silent m = bnd m (\<lambda>_. ret ())"

definition arm2or_done :: "'g board_ops \<Rightarrow> nat \<Rightarrow> ('g, unit) bprog" where
  "arm2or_done B fuel = bnd (poll fuel (read_gpio B 0xa0040000) (\<lambda>busy. busy \<noteq> 1)) (\<lambda>_. ret ())"

definition do_arm2or_write :: "'g board_ops \<Rightarrow> nat \<Rightarrow> u64 \<Rightarrow> u64 \<Rightarrow> ('g, unit) bprog" where
  "do_arm2or_write B fuel a d =
    andThen (silent (write_gpio B 0xa0040008 1))
    (andThen (silent (write_gpio B 0xa0040010 a))
    (andThen (silent (write_gpio B 0xa0040018 d))
    (andThen (silent (write_gpio B 0xa0040000 1)) (arm2or_done B fuel))))"

definition do_arm2or_read :: "'g board_ops \<Rightarrow> nat \<Rightarrow> u64 \<Rightarrow> ('g, u64) bprog" where
  "do_arm2or_read B fuel a =
    andThen (silent (write_gpio B 0xa0040008 0))
    (andThen (silent (write_gpio B 0xa0040010 a))
    (andThen (silent (write_gpio B 0xa0040000 1))
    (andThen (arm2or_done B fuel) (read_gpio B 0xa0040020))))"

definition dma_done :: "'g board_ops \<Rightarrow> nat \<Rightarrow> dma_regs \<Rightarrow> ('g, unit) bprog" where
  "dma_done B fuel R =
    bnd (poll fuel (do_arm2or_read B fuel (dr_cmd_vld R)) (\<lambda>vld. vld \<noteq> 1)) (\<lambda>_. ret ())"

definition do_dma_write :: "'g board_ops \<Rightarrow> nat \<Rightarrow> dma_regs \<Rightarrow> u64 \<Rightarrow> u64 \<Rightarrow> ('g, unit) bprog" where
  "do_dma_write B fuel R a d = seqM
    [do_arm2or_write B fuel (dr_addr R) a, do_arm2or_write B fuel (dr_req_type R) 2,
     do_arm2or_write B fuel (dr_wr_data R) d, do_arm2or_write B fuel (dr_cmd_vld R) 1, dma_done B fuel R]"

definition do_dma_read :: "'g board_ops \<Rightarrow> nat \<Rightarrow> dma_regs \<Rightarrow> u64 \<Rightarrow> ('g, u64) bprog" where
  "do_dma_read B fuel R a =
    andThen (do_arm2or_write B fuel (dr_addr R) a)
    (andThen (do_arm2or_write B fuel (dr_req_type R) 0)
    (andThen (do_arm2or_write B fuel (dr_cmd_vld R) 1)
    (andThen (dma_done B fuel R) (do_arm2or_read B fuel (dr_rdata R)))))"

section \<open>The file\<close>

text \<open>
  \<open>fgets\<close> into a buffer of \<open>Suc n\<close> characters: the line read, the rest of the file, and whether its
  end was met. Where there is nothing to read the buffer keeps its contents.
\<close>

fun fgets_line :: "nat \<Rightarrow> string \<Rightarrow> string \<times> string \<times> bool" where
  "fgets_line 0 t = ([], t, False)"
| "fgets_line (Suc n) [] = ([], [], True)"
| "fgets_line (Suc n) (c # t) =
    (if c = CHR 0x0A then ([c], t, False)
     else (let (l, r, e) = fgets_line n t in (c # l, r, e)))"

definition fgets :: "nat \<Rightarrow> string \<Rightarrow> string \<Rightarrow> string \<times> string \<times> bool" where
  "fgets sz buf t = (let (l, r, e) = fgets_line (sz - 1) t in (if l = [] then buf else l, r, e))"

lemma fgets_line_shrinks: "fgets_line n t = (l, r, e) \<Longrightarrow> \<not> e \<Longrightarrow> 0 < n \<Longrightarrow> length r < length t"
  by (induction n t arbitrary: l r e rule: fgets_line.induct)
    (auto split: if_splits prod.splits intro: less_SucI elim: fgets_line.elims)

lemma fgets_line_le: "fgets_line n t = (l, r, e) \<Longrightarrow> length r \<le> length t"
  by (induction n t arbitrary: l r e rule: fgets_line.induct) (auto split: if_splits prod.splits intro: le_SucI)

text \<open>The words in the order in which they are written; the loop ends after the first word that meets the end of the file.\<close>

definition line_word :: "string \<Rightarrow> u32" where
  "line_word l = ucast (strtoul 16 l)"

function load_words :: "string \<Rightarrow> string \<Rightarrow> u64 \<Rightarrow> (u64 \<times> u64) list" where
  "load_words buf t a =
    (let (l0, t0, e0) = fgets 1024 buf t; (l1, t1, e1) = fgets 1024 l0 t0 in
     (a, push_bit 32 (ucast (line_word l1)) + ucast (line_word l0)) #
       (if e0 \<or> e1 then [] else load_words l1 t1 (a + 8)))"
  by pat_completeness auto
termination
  by (relation "measure (\<lambda>(buf, t, a). length t)")
    (auto simp: fgets_def split: prod.splits if_splits dest!: fgets_line_shrinks)

declare load_words.simps [simp del]

text \<open>\<open>main\<close>: \<open>buf\<close> is what the line buffer holds at the start. A missing file ends the program.\<close>

definition load_mem :: "'g board_ops \<Rightarrow> nat \<Rightarrow> dma_regs \<Rightarrow> string \<Rightarrow> string option \<Rightarrow> ('g, unit) bprog" where
  "load_mem B fuel R buf file =
    (case file of
       None \<Rightarrow> raise (Exited 1)
     | Some t \<Rightarrow> seqM
         [open_fd B,
          forM [STATION_CACHE_S2B_RSTN_ADDR_0, STATION_CACHE_S2B_RSTN_ADDR_1, STATION_CACHE_S2B_RSTN_ADDR_2,
                STATION_CACHE_S2B_RSTN_ADDR_3] (\<lambda>a. do_arm2or_write B fuel a 1),
          forM (load_words buf t 0x80000000) (\<lambda>(a, d). do_dma_write B fuel R a d),
          raise (Exited 0)])"

section \<open>One word too many\<close>

definition plain_line :: "string \<Rightarrow> bool" where
  "plain_line l \<longleftrightarrow> CHR 0x0A \<notin> set l \<and> length l < 1023"

lemma fgets_line_plain: "CHR 0x0A \<notin> set l \<Longrightarrow> length l < n \<Longrightarrow> fgets_line n (l @ CHR 0x0A # t) = (l @ [CHR 0x0A], t, False)"
proof (induction l arbitrary: n)
  case Nil
  then show ?case by (cases n) simp_all
next
  case (Cons c l)
  then obtain m where "n = Suc m" by (cases n) simp_all
  moreover have "c \<noteq> CHR 0x0A" using Cons.prems(1) by auto
  ultimately show ?case using Cons by simp
qed

lemma fgets_plain: "plain_line l \<Longrightarrow> fgets 1024 buf (l @ CHR 0x0A # t) = (l @ [CHR 0x0A], t, False)"
  by (simp add: fgets_def plain_line_def fgets_line_plain)

lemma fgets_end: "fgets 1024 buf [] = (buf, [], True)"
proof -
  have "fgets_line (Suc 1022) [] = ([], [], True)" by (rule fgets_line.simps)
  then show ?thesis by (simp add: fgets_def)
qed

definition file_of :: "(string \<times> string) list \<Rightarrow> string" where
  "file_of ps = concat (map (\<lambda>(lo, hi). lo @ [CHR 0x0A] @ hi @ [CHR 0x0A]) ps)"

definition pair_word :: "string \<times> string \<Rightarrow> u64" where
  "pair_word = (\<lambda>(lo, hi). push_bit 32 (ucast (line_word (hi @ [CHR 0x0A]))) + ucast (line_word (lo @ [CHR 0x0A])))"

fun placed :: "u64 \<Rightarrow> u64 list \<Rightarrow> (u64 \<times> u64) list" where
  "placed a [] = []"
| "placed a (w # ws) = (a, w) # placed (a + 8) ws"

text \<open>
  The loader writes the words of its file to consecutive addresses, the first line of a pair the low
  half, and then one word more: the end of the file is noticed only by a read that gets nothing, so the
  last line is used again for both halves of a word behind the image.
\<close>

theorem loader_writes_one_word_more:
  assumes "\<forall>(lo, hi) \<in> set ps. plain_line lo \<and> plain_line hi" and "last_line = snd (last ps)" and "0 < length ps"
  shows "load_words buf (file_of ps) a = placed a (map pair_word ps @ [pair_word (last_line, last_line)])"
  using assms
proof (induction ps arbitrary: buf a)
  case (Cons p ps)
  obtain lo hi where p: "p = (lo, hi)" by fastforce
  have plain: "plain_line lo" "plain_line hi" using Cons.prems(1) by (simp_all add: p)
  have whole: "file_of (p # ps) = lo @ CHR 0x0A # hi @ CHR 0x0A # file_of ps"
    by (simp add: file_of_def p)
  have step: "load_words buf (file_of (p # ps)) a = (a, pair_word p) # load_words (hi @ [CHR 0x0A]) (file_of ps) (a + 8)"
    unfolding whole by (subst load_words.simps) (simp add: fgets_plain plain pair_word_def p)
  show ?case
  proof (cases "ps = []")
    case True
    then have "last_line = hi" using Cons.prems(2) by (simp add: p)
    have "load_words (hi @ [CHR 0x0A]) [] (a + 8) = [(a + 8, pair_word (hi, hi))]"
      by (subst load_words.simps) (simp add: fgets_end pair_word_def)
    then show ?thesis using step True \<open>last_line = hi\<close> by (simp add: file_of_def)
  next
    case False
    then show ?thesis using step Cons by simp
  qed
qed simp

theorem loader_writes_one_word_more_witness:
  "load_words [] (file_of [(''00000013'', ''0010009b''), (''01f09093'', ''0000a023'')]) 0x80000000
    = placed 0x80000000 (map pair_word [(''00000013'', ''0010009b''), (''01f09093'', ''0000a023'')]
        @ [pair_word (''0000a023'', ''0000a023'')])"
  by (rule loader_writes_one_word_more) (simp_all add: plain_line_def)

end
