(* ===== verification/Tsi.thy ===== *)
theory Tsi
  imports Memif
begin

text \<open>
  The tethered serial interface \<open>tsi_t\<close> of \<open>tsi.h\<close> and \<open>tsi.cc\<close>: chunk operations as commands in a
  queue of 32-bit words, and the words that come back. The serial adapter of the chip is not in the
  repository: it is a parameter that takes one word after the other.
\<close>

section \<open>The queues\<close>

record 'x tsi =
  in_data :: "u32 list"
  out_data :: "u32 list"
  ts_adapter :: 'x

text \<open>
  The adapter: what it sends when it takes a word, and how many words more than one it takes before
  control goes back to the host.
\<close>

record 'x adapter =
  ad_pace :: "'x \<Rightarrow> nat"
  ad_word :: "u32 \<Rightarrow> 'x \<Rightarrow> u32 list \<times> 'x"

definition data_available :: "'x tsi \<Rightarrow> bool" where
  "data_available s \<longleftrightarrow> in_data s \<noteq> []"

definition send_word :: "u32 \<Rightarrow> 'x tsi \<Rightarrow> 'x tsi" where
  "send_word w s = s\<lparr>out_data := out_data s @ [w]\<rparr>"

definition recv_word :: "('x tsi, u32) prog" where
  "recv_word =
    bnd (getS in_data) (\<lambda>ws.
    andThen (definedM ''front of an empty deque'' (ws \<noteq> []))
    (andThen (modS (\<lambda>s. s\<lparr>in_data := tl ws\<rparr>)) (ret (hd ws))))"

text \<open>One clock of a target that is connected by wires; it is always ready to take a word from the chip.\<close>

definition tsi_tick :: "bool \<Rightarrow> u32 \<Rightarrow> bool \<Rightarrow> 'x tsi \<Rightarrow> 'x tsi" where
  "tsi_tick out_valid out_bits in_ready s =
    (let s1 = (if out_valid then send_word out_bits s else s) in
     if data_available s1 \<and> in_ready then s1\<lparr>in_data := tl (in_data s1)\<rparr> else s1)"

text \<open>The target's turn: the adapter takes words while there are some.\<close>

fun adapter_takes :: "'x adapter \<Rightarrow> nat \<Rightarrow> 'x tsi \<Rightarrow> 'x tsi" where
  "adapter_takes A 0 s = s"
| "adapter_takes A (Suc n) s = (case in_data s of
     [] \<Rightarrow> s
   | w # ws \<Rightarrow> (case ad_word A w (ts_adapter s) of (out, x) \<Rightarrow>
       adapter_takes A n (fold send_word out (s\<lparr>in_data := ws, ts_adapter := x\<rparr>))))"

definition switch_to_target :: "'x adapter \<Rightarrow> 'x tsi \<Rightarrow> 'x tsi" where
  "switch_to_target A s = adapter_takes A (Suc (ad_pace A (ts_adapter s))) s"

section \<open>Commands\<close>

definition SAI_CMD_READ :: u32 where "SAI_CMD_READ = 0"
definition SAI_CMD_WRITE :: u32 where "SAI_CMD_WRITE = 1"

text \<open>\<open>push_addr\<close> and \<open>push_len\<close>: two words each, low half first.\<close>

definition halves :: "u64 \<Rightarrow> u32 list" where
  "halves a = [ucast a, ucast (drop_bit 32 a)]"

definition push_words :: "u32 list \<Rightarrow> ('x tsi, unit) prog" where
  "push_words ws = modS (\<lambda>s. s\<lparr>in_data := in_data s @ ws\<rparr>)"

definition push_addr :: "addr \<Rightarrow> ('x tsi, unit) prog" where
  "push_addr a = push_words (halves a)"

definition push_len :: "u64 \<Rightarrow> ('x tsi, unit) prog" where
  "push_len n = push_words (halves n)"

text \<open>
  The host waits for a word by giving the target its turn. When the queue to the adapter is empty
  there is nothing it could answer, and the wait is for ever.
\<close>

lemma in_data_send [simp]: "in_data (fold send_word ws s) = in_data s"
  by (induction ws arbitrary: s) (simp_all add: send_word_def)

lemma out_data_send [simp]: "out_data (fold send_word ws s) = out_data s @ ws"
  by (induction ws arbitrary: s) (simp_all add: send_word_def)

lemma adapter_send [simp]: "ts_adapter (fold send_word ws s) = ts_adapter s"
  by (induction ws arbitrary: s) (simp_all add: send_word_def)

lemma adapter_takes_le: "length (in_data (adapter_takes A n s)) \<le> length (in_data s)"
proof (induction A n s rule: adapter_takes.induct)
  case (2 A n s)
  show ?case
  proof (cases "in_data s")
    case (Cons w ws)
    obtain out x where "ad_word A w (ts_adapter s) = (out, x)" by fastforce
    with Cons 2 [OF Cons this [symmetric]] show ?thesis by simp
  qed simp
qed simp

lemma switch_takes_one:
  assumes "in_data s \<noteq> []"
  shows "length (in_data (switch_to_target A s)) < length (in_data s)"
proof -
  obtain w ws out x where w: "in_data s = w # ws" "ad_word A w (ts_adapter s) = (out, x)"
    using assms by (metis list.exhaust surj_pair)
  then show ?thesis
    using adapter_takes_le [of A "ad_pace A (ts_adapter s)" "fold send_word out (s\<lparr>in_data := ws, ts_adapter := x\<rparr>)"]
    by (simp add: switch_to_target_def)
qed

function await_word :: "'x adapter \<Rightarrow> ('x tsi, u32) prog" where
  "await_word A s =
    (case out_data s of
       w # ws \<Rightarrow> (Inr w, s\<lparr>out_data := ws\<rparr>)
     | [] \<Rightarrow> if in_data s = [] then (Inl Diverges, s) else await_word A (switch_to_target A s))"
  by pat_completeness auto
termination
  by (relation "measure (\<lambda>(A, s). length (in_data s))") (auto intro: switch_takes_one)

declare await_word.simps [simp del]

fun await_words :: "'x adapter \<Rightarrow> nat \<Rightarrow> ('x tsi, u32 list) prog" where
  "await_words A 0 = ret []"
| "await_words A (Suc n) = bnd (await_word A) (\<lambda>w. bnd (await_words A n) (\<lambda>ws. ret (w # ws)))"

fun words4 :: "nat \<Rightarrow> u8 list \<Rightarrow> u32 list" where
  "words4 0 bs = []"
| "words4 (Suc n) bs = le_word (take 4 bs) # words4 n (drop 4 bs)"

definition bytes4 :: "u32 list \<Rightarrow> u8 list" where
  "bytes4 ws = concat (map (le_bytes 4) ws)"

text \<open>Bytes behind the last whole word are neither read nor written.\<close>

definition tsi_read_chunk :: "'x adapter \<Rightarrow> addr \<Rightarrow> u8 list \<Rightarrow> rw_target \<Rightarrow> ('x tsi, u8 list) prog" where
  "tsi_read_chunk A a dst tgt =
    (let len = length dst div 4 in
     andThen (push_words [SAI_CMD_READ])
     (andThen (push_addr a)
     (andThen (push_len (of_nat len - 1))
     (bnd (await_words A len) (\<lambda>ws. ret (bytes4 ws @ drop (4 * len) dst))))))"

definition tsi_write_chunk :: "addr \<Rightarrow> u8 list \<Rightarrow> rw_target \<Rightarrow> ('x tsi, unit) prog" where
  "tsi_write_chunk a bs tgt =
    (let len = length bs div 4 in
     andThen (push_words [SAI_CMD_WRITE])
     (andThen (push_addr a)
     (andThen (push_len (of_nat len - 1)) (push_words (words4 len bs)))))"

text \<open>\<open>reset\<close> interrupts core 0.\<close>

definition MSIP_BASE :: addr where "MSIP_BASE = 0x2000000"

definition tsi_reset :: "('x tsi, unit) prog" where
  "tsi_reset = tsi_write_chunk MSIP_BASE (le_bytes 4 (1 :: u32)) L2"

text \<open>
  \<open>clear_chunk\<close> and \<open>idle\<close> are those of the base class, given by the caller: the first is not reached
  by \<open>memif_t\<close>.
\<close>

definition tsi_ops :: "'x adapter \<Rightarrow> (addr \<Rightarrow> nat \<Rightarrow> ('x tsi, unit) prog) \<Rightarrow> (nat \<Rightarrow> u8) \<Rightarrow> 'x tsi htif_ops" where
  "tsi_ops A clr jnk =
    \<lparr>chunk_align = 4, chunk_max_size = 1024, read_chunk = tsi_read_chunk A, write_chunk = tsi_write_chunk,
     clear_chunk = clr, reset = tsi_reset, idle = ret (), junk = jnk\<rparr>"

section \<open>An adapter that speaks the protocol\<close>

text \<open>The words of a command, and what an adapter sends over a sequence of words.\<close>

definition sai_read :: "addr \<Rightarrow> nat \<Rightarrow> u32 list" where
  "sai_read a n = SAI_CMD_READ # halves a @ halves (of_nat n - 1)"

definition sai_write :: "addr \<Rightarrow> u32 list \<Rightarrow> u32 list" where
  "sai_write a ws = SAI_CMD_WRITE # halves a @ halves (of_nat (length ws) - 1) @ ws"

fun run_words :: "'x adapter \<Rightarrow> u32 list \<Rightarrow> 'x \<Rightarrow> u32 list \<times> 'x" where
  "run_words A [] x = ([], x)"
| "run_words A (w # ws) x =
    (let (o1, x1) = ad_word A w x; (o2, x2) = run_words A ws x1 in (o1 @ o2, x2))"

text \<open>
  Between commands the adapter stands for a memory; a write of words updates it silently, a read
  answers with its words. Commands are for at least one word and at most a chunk.
\<close>

definition speaks_sai :: "'x adapter \<Rightarrow> ('x \<Rightarrow> bool) \<Rightarrow> ('x \<Rightarrow> memory) \<Rightarrow> bool" where
  "speaks_sai A rest m \<longleftrightarrow>
    (\<forall>x a ws. rest x \<longrightarrow> ws \<noteq> [] \<longrightarrow> length ws \<le> 256 \<longrightarrow>
      fst (run_words A (sai_write a ws) x) = [] \<and> rest (snd (run_words A (sai_write a ws) x))
      \<and> m (snd (run_words A (sai_write a ws) x)) = upd_range (m x) a (bytes4 ws)) \<and>
    (\<forall>x a n. rest x \<longrightarrow> 0 < n \<longrightarrow> n \<le> 256 \<longrightarrow>
      fst (run_words A (sai_read a n) x) = words4 n (get_range (m x) a (4 * n))
      \<and> rest (snd (run_words A (sai_read a n) x)) \<and> m (snd (run_words A (sai_read a n) x)) = m x)"

lemma run_words_append:
  "run_words A (vs @ ws) x =
    (fst (run_words A vs x) @ fst (run_words A ws (snd (run_words A vs x))), snd (run_words A ws (snd (run_words A vs x))))"
  by (induction vs arbitrary: x) (simp_all add: Let_def split: prod.split)

text \<open>What will have come and where the adapter will be when it has taken all that is queued.\<close>

definition all_out :: "'x adapter \<Rightarrow> 'x tsi \<Rightarrow> u32 list" where
  "all_out A s = out_data s @ fst (run_words A (in_data s) (ts_adapter s))"

definition final :: "'x adapter \<Rightarrow> 'x tsi \<Rightarrow> 'x" where
  "final A s = snd (run_words A (in_data s) (ts_adapter s))"

lemma adapter_takes_total:
  "all_out A (adapter_takes A n s) = all_out A s \<and> final A (adapter_takes A n s) = final A s"
proof (induction A n s rule: adapter_takes.induct)
  case (2 A n s)
  show ?case
  proof (cases "in_data s")
    case (Cons w ws)
    obtain out x where w: "ad_word A w (ts_adapter s) = (out, x)" by fastforce
    with Cons 2 [OF Cons w [symmetric]] show ?thesis
      by (simp add: all_out_def final_def split: prod.split)
  qed simp
qed simp

lemma await_word_takes:
  assumes "all_out A s = w # ws"
  shows "\<exists>s'. await_word A s = (Inr w, s') \<and> all_out A s' = ws \<and> final A s' = final A s"
  using assms
proof (induction A s rule: await_word.induct)
  case (1 A s)
  show ?case
  proof (cases "out_data s")
    case (Cons v vs)
    with 1 show ?thesis
      by (subst await_word.simps) (auto simp: all_out_def final_def)
  next
    case Nil
    then have ne: "in_data s \<noteq> []"
      using 1 by (auto simp: all_out_def)
    have "all_out A (switch_to_target A s) = w # ws" "final A (switch_to_target A s) = final A s"
      using adapter_takes_total [of A "Suc (ad_pace A (ts_adapter s))" s] 1 by (simp_all add: switch_to_target_def)
    with 1 Nil ne show ?thesis
      by (subst await_word.simps) simp
  qed
qed

lemma await_words_takes:
  "all_out A s = ws @ vs \<Longrightarrow>
    \<exists>s'. await_words A (length ws) s = (Inr ws, s') \<and> all_out A s' = vs \<and> final A s' = final A s"
proof (induction ws arbitrary: s)
  case (Cons w ws)
  then obtain s1 where s1: "await_word A s = (Inr w, s1)" "all_out A s1 = ws @ vs" "final A s1 = final A s"
    using await_word_takes [of A s w "ws @ vs"] by auto
  then obtain s2 where "await_words A (length ws) s1 = (Inr ws, s2)" "all_out A s2 = vs" "final A s2 = final A s1"
    using Cons.IH by blast
  with s1 show ?case
    by (auto simp: bnd_Inr)
qed simp

text \<open>Words and bytes.\<close>

lemma length_words4 [simp]: "length (words4 n bs) = n"
  by (induction n arbitrary: bs) simp_all

lemma length_bytes4 [simp]: "length (bytes4 ws) = 4 * length ws"
  by (induction ws) (simp_all add: bytes4_def)

lemma bytes4_words4: "4 * n \<le> length bs \<Longrightarrow> bytes4 (words4 n bs) = take (4 * n) bs"
proof (induction n arbitrary: bs)
  case (Suc n)
  have "le_bytes 4 (le_word (take 4 bs) :: u32) = take 4 bs"
    using Suc.prems by (intro le_bytes_le_word) simp_all
  then have "bytes4 (words4 (Suc n) bs) = take 4 bs @ take (4 * n) (drop 4 bs)"
    using Suc by (simp add: bytes4_def)
  also have "\<dots> = take (4 + 4 * n) bs"
    by (simp add: take_add)
  finally show ?case by simp
qed (simp add: bytes4_def)

lemma words4_bytes4: "words4 (length ws) (bytes4 ws) = ws"
  by (induction ws) (simp_all add: bytes4_def le_word_le_bytes_full)

section \<open>The chunk operations on such an adapter\<close>

text \<open>
  Writes may still be queued; the memory the host sees is the one behind all of them.
\<close>

definition tsi_settled :: "'x adapter \<Rightarrow> ('x \<Rightarrow> bool) \<Rightarrow> 'x tsi \<Rightarrow> bool" where
  "tsi_settled A rest s \<longleftrightarrow> all_out A s = [] \<and> rest (final A s)"

lemma queue_words:
  "all_out A (s\<lparr>in_data := in_data s @ ws\<rparr>) = all_out A s @ fst (run_words A ws (final A s))"
  "final A (s\<lparr>in_data := in_data s @ ws\<rparr>) = snd (run_words A ws (final A s))"
  by (simp_all add: all_out_def final_def run_words_append)

lemma tsi_write_queues:
  "tsi_write_chunk a bs tgt s
    = (Inr (), s\<lparr>in_data := in_data s @ sai_write a (words4 (length bs div 4) bs)\<rparr>)"
  by (simp add: tsi_write_chunk_def Let_def push_words_def push_addr_def push_len_def sai_write_def andThen_modS)

lemma tsi_read_queues:
  "tsi_read_chunk A a dst tgt s =
    bnd (await_words A (length dst div 4)) (\<lambda>ws. ret (bytes4 ws @ drop (4 * (length dst div 4)) dst))
      (s\<lparr>in_data := in_data s @ sai_read a (length dst div 4)\<rparr>)"
  by (simp add: tsi_read_chunk_def Let_def push_words_def push_addr_def push_len_def sai_read_def andThen_modS)

lemma tsi_is_chunk_target:
  assumes "speaks_sai A rest m"
  shows "chunk_target (tsi_ops A clr jnk) tgt 2 (tsi_settled A rest) (\<lambda>s. m (final A s)) (\<lambda>_. True)"
proof (unfold_locales, goal_cases)
  case (6 s a dst)
  let ?n = "length dst div 4"
  have n: "0 < ?n" "?n \<le> 256" "4 * ?n = length dst"
    using 6 by (auto simp: tsi_ops_def elim!: dvdE intro!: Nat.gr0I)
  let ?s = "s\<lparr>in_data := in_data s @ sai_read a ?n\<rparr>" and ?ws = "words4 ?n (get_range (m (final A s)) a (4 * ?n))"
  have "rest (final A s)" and "all_out A s = []"
    using 6 by (simp_all add: tsi_settled_def)
  with assms n have "all_out A ?s = ?ws @ []" "rest (final A ?s)" "m (final A ?s) = m (final A s)"
    by (simp_all add: queue_words speaks_sai_def)
  moreover from this(1) obtain s' where "await_words A (length ?ws) ?s = (Inr ?ws, s')" "all_out A s' = []"
      "final A s' = final A ?s"
    using await_words_takes by blast
  moreover have "bytes4 ?ws = get_range (m (final A s)) a (length dst)"
    using n(3) by (simp add: bytes4_words4)
  ultimately show ?case
    using n(3) by (auto simp: tsi_ops_def tsi_read_queues bnd_Inr tsi_settled_def)
next
  case (7 s a bs)
  let ?n = "length bs div 4"
  have n: "0 < ?n" "?n \<le> 256" "4 * ?n = length bs"
    using 7 by (auto simp: tsi_ops_def elim!: dvdE intro!: Nat.gr0I)
  then have "words4 ?n bs \<noteq> []" "bytes4 (words4 ?n bs) = bs"
    by (simp_all add: bytes4_words4 flip: length_0_conv)
  with assms n 7 show ?case
    by (auto simp: tsi_ops_def tsi_write_queues queue_words tsi_settled_def speaks_sai_def)
qed (simp_all add: tsi_ops_def)

text \<open>An adapter over a memory, which collects the words of a command.\<close>

definition join :: "u32 \<Rightarrow> u32 \<Rightarrow> u64" where
  "join lo hi = ucast lo OR push_bit 32 (ucast hi)"

definition sample_word :: "u32 \<Rightarrow> u32 list \<times> memory \<Rightarrow> u32 list \<times> (u32 list \<times> memory)" where
  "sample_word w x =
    (let b = fst x @ [w]; m = snd x; a = join (b ! 1) (b ! 2); n = Suc (unat (join (b ! 3) (b ! 4))) in
     if length b < 5 then ([], (b, m))
     else if b ! 0 = SAI_CMD_READ then (words4 n (get_range m a (4 * n)), ([], m))
     else if length b < 5 + n then ([], (b, m))
     else ([], ([], upd_range m a (bytes4 (drop 5 b)))))"

definition sample_adapter :: "(u32 list \<times> memory) adapter" where
  "sample_adapter = \<lparr>ad_pace = (\<lambda>x. length (fst x)), ad_word = sample_word\<rparr>"

lemma join_halves [simp]: "join (ucast a) (ucast (drop_bit 32 a)) = a"
  by (rule bit_word_eqI) (auto simp: join_def bit_simps)

lemma sample_header:
  "run_words sample_adapter (c # halves a @ halves l @ ws) ([], m) =
    (let (out, x) = sample_word (ucast (drop_bit 32 l)) (c # halves a @ [ucast l], m); (out', x') = run_words sample_adapter ws x
     in (out @ out', x'))"
  by (simp add: sample_adapter_def halves_def sample_word_def Let_def split: prod.split)

lemma sample_collect:
  assumes "b = SAI_CMD_WRITE # halves a @ halves (of_nat n - 1) @ vs" and "length vs + length ws = n" and "ws \<noteq> []"
    and "n \<le> 256"
  shows "run_words sample_adapter ws (b, m) = ([], ([], upd_range m a (bytes4 (vs @ ws))))"
  using assms
proof (induction ws arbitrary: b vs)
  case (Cons w ws)
  have n: "Suc (unat (of_nat n - 1 :: u64)) = n"
    using Cons.prems by (cases n) simp_all
  have l: "join (ucast (of_nat n - 1 :: u64)) (ucast (drop_bit 32 (of_nat n - 1 :: u64))) = of_nat n - 1"
    by (rule join_halves)
  show ?case
  proof (cases "ws = []")
    case True
    with Cons.prems n show ?thesis
      by (simp add: sample_adapter_def sample_word_def halves_def SAI_CMD_WRITE_def SAI_CMD_READ_def Let_def)
  next
    case False
    then have "length vs + 1 < n"
      using Cons.prems by (cases ws) simp_all
    with Cons.prems n have "sample_word w (b, m) = ([], (b @ [w], m))"
      by (simp add: sample_word_def halves_def SAI_CMD_WRITE_def SAI_CMD_READ_def Let_def)
    moreover have "run_words sample_adapter ws (b @ [w], m) = ([], ([], upd_range m a (bytes4 ((vs @ [w]) @ ws))))"
      by (rule Cons.IH) (use Cons.prems False in simp_all)
    ultimately show ?thesis
      by (simp add: sample_adapter_def)
  qed
qed simp

lemma sample_speaks: "speaks_sai sample_adapter (\<lambda>x. fst x = []) snd"
proof -
  have n: "Suc (unat (of_nat n - 1 :: u64)) = n" if "0 < n" "n \<le> 256" for n
    using that by (cases n) simp_all
  have "run_words sample_adapter (sai_read a n) ([], m) = (words4 n (get_range m a (4 * n)), ([], m))"
    if "0 < n" "n \<le> 256" for a n m
    using sample_header [of SAI_CMD_READ a "of_nat n - 1" "[]" m] n [OF that]
    by (simp add: sai_read_def sample_word_def halves_def Let_def)
  moreover have "run_words sample_adapter (sai_write a ws) ([], m) = ([], ([], upd_range m a (bytes4 ws)))"
    if ws: "ws \<noteq> []" "length ws \<le> 256" for a ws m
  proof -
    let ?n = "length ws"
    have "sample_word (ucast (drop_bit 32 (of_nat ?n - 1 :: u64))) (SAI_CMD_WRITE # halves a @ [ucast (of_nat ?n - 1 :: u64)], m)
        = ([], (SAI_CMD_WRITE # halves a @ halves (of_nat ?n - 1) @ [], m))"
      using n [of ?n] ws
      by (simp add: sample_word_def halves_def SAI_CMD_WRITE_def SAI_CMD_READ_def Let_def)
    then show ?thesis
      using sample_header [of SAI_CMD_WRITE a "of_nat ?n - 1" ws m]
        sample_collect [of "SAI_CMD_WRITE # halves a @ halves (of_nat ?n - 1) @ []" a ?n "[]" ws m] ws
      by (simp add: sai_write_def)
  qed
  ultimately show ?thesis
    unfolding speaks_sai_def by (auto simp: split_paired_all)
qed


definition sample_tsi :: "(u32 list \<times> memory) tsi" where
  "sample_tsi = \<lparr>in_data = [], out_data = [], ts_adapter = ([], \<lambda>_. 0)\<rparr>"


end
