(* ===== verification/Option_Parser.thy ===== *)
theory Option_Parser
  imports Fesvr_Prelude
begin

text \<open>
  The option parser of the library, \<open>option_parser.h\<close> and \<open>option_parser.cc\<close>: short options with an
  attached argument, long options with the argument behind \<open>=\<close> or in the next word.
\<close>

section \<open>The parser\<close>

text \<open>An option: its letter, NUL for none, its name if it has one, whether it takes an argument, its action.\<close>

record 's opt =
  op_chr :: char
  op_str :: "string option"
  op_arg :: bool
  op_func :: "string option \<Rightarrow> ('s, unit) prog"

text \<open>A character of a C string; its end is NUL.\<close>

definition char_at :: "string \<Rightarrow> nat \<Rightarrow> char" where
  "char_at t i = (if i < length t then t ! i else CHR 0x00)"

lemma char_at_simps [simp]:
  "char_at [] i = CHR 0x00" "char_at (c # t) 0 = c" "char_at (c # t) (Suc i) = char_at t i"
  "char_at (c # d # t) (2 + i) = char_at t i" "char_at (c # d # t) 2 = char_at t 0"
  by (simp_all add: char_at_def numeral_2_eq_2)

lemma char_at_end [simp]: "char_at t (length t) = CHR 0x00"
  by (simp add: char_at_def)

lemma char_at_append: "char_at (xs @ ys) i = (if i < length xs then xs ! i else char_at ys (i - length xs))"
  by (auto simp: char_at_def nth_append)

definition name_of :: "'s opt \<Rightarrow> string" where
  "name_of o' = (case op_str o' of None \<Rightarrow> [] | Some t \<Rightarrow> t)"

definition chr_match :: "string \<Rightarrow> 's opt \<Rightarrow> bool" where
  "chr_match opt o' \<longleftrightarrow> char_at opt 1 \<noteq> CHR ''-'' \<and> op_chr o' \<noteq> CHR 0x00 \<and> char_at opt 1 = op_chr o'"

definition str_match :: "string \<Rightarrow> 's opt \<Rightarrow> bool" where
  "str_match opt o' \<longleftrightarrow> char_at opt 1 = CHR ''-'' \<and> name_of o' \<noteq> []
    \<and> take (length (name_of o')) (drop 2 opt) = name_of o'"

definition opt_match :: "string \<Rightarrow> 's opt \<Rightarrow> bool" where
  "opt_match opt o' \<longleftrightarrow> chr_match opt o' \<or>
    str_match opt o' \<and> char_at opt (2 + length (name_of o')) \<in> {CHR ''='', CHR 0x00}"

text \<open>The argument of an option, and the words left behind it.\<close>

definition optarg :: "string \<Rightarrow> 's opt \<Rightarrow> string list \<Rightarrow> string option \<times> string list" where
  "optarg opt o' rest =
    (let slen = length (name_of o') in
     if chr_match opt o' then (if char_at opt 2 \<noteq> CHR 0x00 then Some (drop 2 opt) else None, rest)
     else if char_at opt (2 + slen) \<noteq> CHR 0x00 then (Some (drop (3 + slen) opt), rest)
     else if op_arg o' then (case rest of [] \<Rightarrow> (None, []) | a # r \<Rightarrow> (Some a, r))
     else (None, rest))"

lemma optarg_shrinks: "optarg opt o' rest = (v, r) \<Longrightarrow> length r \<le> length rest"
  by (auto simp: optarg_def Let_def split: if_splits list.splits)

text \<open>An error prints the help, if there is one, and ends the program.\<close>

definition opt_error :: "('s, unit) prog option \<Rightarrow> ('s, 'a) prog" where
  "opt_error helpmsg = andThen (case helpmsg of None \<Rightarrow> ret () | Some h \<Rightarrow> h) (raise (Exited 1))"

text \<open>\<open>parse\<close> on the words behind the program's name; the value is where it stopped.\<close>

function parse :: "'s opt list \<Rightarrow> ('s, unit) prog option \<Rightarrow> string list \<Rightarrow> ('s, string list) prog" where
  "parse opts helpmsg [] = ret []"
| "parse opts helpmsg (opt # rest) =
    (if char_at opt 0 \<noteq> CHR ''-'' then ret (opt # rest)
     else case find (opt_match opt) opts of
       None \<Rightarrow> opt_error helpmsg
     | Some o' \<Rightarrow> (case optarg opt o' rest of (v, r) \<Rightarrow>
         if v \<noteq> None \<and> \<not> op_arg o' then opt_error helpmsg
         else if v = None \<and> op_arg o' then opt_error helpmsg
         else andThen (op_func o' v) (parse opts helpmsg r)))"
  by pat_completeness auto
termination
  by (relation "measure (\<lambda>(opts, h, ws). length ws)") (auto dest: optarg_shrinks [OF sym])

declare parse.simps(2) [simp del]

section \<open>Options as they can be written\<close>

datatype 's opt_use =
    Short "'s opt" "string option"
  | Long "'s opt"
  | Long_eq "'s opt" string
  | Long_next "'s opt" string

primrec opt_words :: "'s opt_use \<Rightarrow> string list" where
  "opt_words (Short o' v) = [CHR ''-'' # op_chr o' # (case v of None \<Rightarrow> [] | Some t \<Rightarrow> t)]"
| "opt_words (Long o') = [''--'' @ name_of o']"
| "opt_words (Long_eq o' t) = [''--'' @ name_of o' @ ''='' @ t]"
| "opt_words (Long_next o' t) = [''--'' @ name_of o', t]"

primrec opt_act :: "'s opt_use \<Rightarrow> ('s, unit) prog" where
  "opt_act (Short o' v) = op_func o' v"
| "opt_act (Long o') = op_func o' None"
| "opt_act (Long_eq o' t) = op_func o' (Some t)"
| "opt_act (Long_next o' t) = op_func o' (Some t)"

text \<open>A use that fits its option: a letter or a name to write, an argument where one is taken.\<close>

definition has_letter :: "'s opt \<Rightarrow> bool" where
  "has_letter o' \<longleftrightarrow> op_chr o' \<noteq> CHR 0x00 \<and> op_chr o' \<noteq> CHR ''-''"

definition has_name :: "'s opt \<Rightarrow> bool" where
  "has_name o' \<longleftrightarrow> name_of o' \<noteq> [] \<and> CHR ''='' \<notin> set (name_of o') \<and> CHR 0x00 \<notin> set (name_of o')"

primrec fits :: "'s opt list \<Rightarrow> 's opt_use \<Rightarrow> bool" where
  "fits opts (Short o' v) \<longleftrightarrow> o' \<in> set opts \<and> has_letter o' \<and>
     (case v of None \<Rightarrow> \<not> op_arg o' | Some t \<Rightarrow> op_arg o' \<and> t \<noteq> [] \<and> CHR 0x00 \<notin> set t)"
| "fits opts (Long o') \<longleftrightarrow> o' \<in> set opts \<and> has_name o' \<and> \<not> op_arg o'"
| "fits opts (Long_eq o' t) \<longleftrightarrow> o' \<in> set opts \<and> has_name o' \<and> op_arg o'"
| "fits opts (Long_next o' t) \<longleftrightarrow> o' \<in> set opts \<and> has_name o' \<and> op_arg o'"

text \<open>No two options share a letter or a name, and no name holds a character that ends it.\<close>

definition unambiguous :: "'s opt list \<Rightarrow> bool" where
  "unambiguous opts \<longleftrightarrow>
    (\<forall>o1 \<in> set opts. \<forall>o2 \<in> set opts.
      (op_chr o1 = op_chr o2 \<and> has_letter o1 \<or> op_str o1 = op_str o2 \<and> has_name o1 \<longrightarrow> o1 = o2)) \<and>
    (\<forall>o1 \<in> set opts. name_of o1 \<noteq> [] \<longrightarrow> has_name o1)"

lemma same_letter: "unambiguous opts \<Longrightarrow> o1 \<in> set opts \<Longrightarrow> o2 \<in> set opts \<Longrightarrow> op_chr o1 = op_chr o2 \<Longrightarrow> has_letter o1 \<Longrightarrow> o1 = o2"
  unfolding unambiguous_def by blast

lemma same_str: "unambiguous opts \<Longrightarrow> o1 \<in> set opts \<Longrightarrow> o2 \<in> set opts \<Longrightarrow> op_str o1 = op_str o2 \<Longrightarrow> has_name o1 \<Longrightarrow> o1 = o2"
  unfolding unambiguous_def by blast

lemma named: "unambiguous opts \<Longrightarrow> o1 \<in> set opts \<Longrightarrow> name_of o1 \<noteq> [] \<Longrightarrow> has_name o1"
  unfolding unambiguous_def by blast

lemma find_only:
  assumes "x \<in> set xs" and "P x" and "\<And>y. y \<in> set xs \<Longrightarrow> P y \<Longrightarrow> y = x"
  shows "find P xs = Some x"
proof (cases "find P xs")
  case None
  with assms(1,2) show ?thesis by (auto simp: find_None_iff)
next
  case (Some y)
  then have "y \<in> set xs" "P y" by (auto simp: find_Some_iff)
  with assms(3) Some show ?thesis by simp
qed

lemma match_letter:
  assumes "unambiguous opts" and "o' \<in> set opts" and "has_letter o'"
  shows "find (opt_match (CHR ''-'' # op_chr o' # t)) opts = Some o'"
proof (rule find_only)
  show "opt_match (CHR ''-'' # op_chr o' # t) o'"
    using assms(3) by (simp add: opt_match_def chr_match_def has_letter_def)
  show "o2 = o'" if "o2 \<in> set opts" "opt_match (CHR ''-'' # op_chr o' # t) o2" for o2
  proof (rule same_letter [OF assms(1) that(1) assms(2)])
    have "\<not> str_match (CHR ''-'' # op_chr o' # t) o2"
      using assms(3) by (simp add: str_match_def has_letter_def)
    then show "op_chr o2 = op_chr o'"
      using that(2) by (simp add: opt_match_def chr_match_def)
    with assms(3) show "has_letter o2"
      by (simp add: has_letter_def)
  qed
qed (use assms in simp)

text \<open>Two names without \<open>=\<close> and NUL that are followed by one of them in the same text are the same.\<close>

lemma same_name:
  assumes "take (length n2) (n1 @ r) = n2" and "char_at (n1 @ r) (length n2) \<in> {CHR ''='', CHR 0x00}"
    and "CHR ''='' \<notin> set n1" "CHR 0x00 \<notin> set n1" "CHR ''='' \<notin> set n2"
    and "r = [] \<or> hd r = CHR ''=''"
  shows "n2 = n1"
proof (cases "length n2 < length n1")
  case True
  then have "char_at (n1 @ r) (length n2) \<in> set n1"
    by (simp add: char_at_append)
  with assms(2-4) show ?thesis by auto
next
  case False
  show ?thesis
  proof (cases "length n2 = length n1")
    case True
    with assms(1) show ?thesis by simp
  next
    case neq: False
    have "length n2 \<le> length (n1 @ r)"
      using arg_cong [OF assms(1), of length] by simp
    with False neq have "r \<noteq> []" and "length n1 < length n2"
      by auto
    then have "n2 ! length n1 = hd r"
      by (subst assms(1) [symmetric]) (simp add: nth_append hd_conv_nth)
    with assms(5,6) \<open>r \<noteq> []\<close> \<open>length n1 < length n2\<close> show ?thesis
      using nth_mem [of "length n1" n2] by auto
  qed
qed

lemma match_name:
  assumes "unambiguous opts" and "o' \<in> set opts" and "has_name o'" and "r = [] \<or> hd r = CHR ''=''"
  shows "find (opt_match (''--'' @ name_of o' @ r)) opts = Some o'"
proof (rule find_only)
  show "opt_match (''--'' @ name_of o' @ r) o'"
    using assms(3,4) by (cases r) (auto simp: opt_match_def str_match_def has_name_def char_at_append)
  show "o2 = o'" if o2: "o2 \<in> set opts" "opt_match (''--'' @ name_of o' @ r) o2" for o2
  proof -
    have name2: "name_of o2 \<noteq> []" "take (length (name_of o2)) (name_of o' @ r) = name_of o2"
        "char_at (name_of o' @ r) (length (name_of o2)) \<in> {CHR ''='', CHR 0x00}"
      using o2(2) by (auto simp: opt_match_def chr_match_def str_match_def)
    have "has_name o2"
      using assms(1) o2(1) name2(1) by (rule named)
    then have "name_of o2 = name_of o'"
      using same_name [OF name2(2,3)] assms(3,4) unfolding has_name_def by blast
    then have "op_str o2 = op_str o'"
      using name2(1) by (auto simp: name_of_def split: option.splits)
    then show ?thesis
      using same_str [OF assms(1) o2(1) assms(2)] \<open>has_name o2\<close> by simp
  qed
qed (use assms in simp)

lemma parse_use:
  assumes "unambiguous opts" and "fits opts u"
  shows "parse opts h (opt_words u @ rest) = andThen (opt_act u) (parse opts h rest)"
proof (cases u)
  case (Short o' v)
  with assms show ?thesis
    by (cases v) (auto simp: parse.simps match_letter optarg_def chr_match_def has_letter_def Let_def neq_Nil_conv)
next
  case (Long o')
  with assms match_name [of opts o' "[]"] show ?thesis
    by (auto simp: parse.simps optarg_def chr_match_def Let_def)
next
  case (Long_eq o' t)
  with assms match_name [of opts o' "CHR ''='' # t"] show ?thesis
    by (auto simp: parse.simps optarg_def chr_match_def Let_def char_at_append numeral_3_eq_3)
next
  case (Long_next o' t)
  with assms match_name [of opts o' "[]"] show ?thesis
    by (auto simp: parse.simps optarg_def chr_match_def Let_def)
qed

text \<open>
  C26: options written in any of their forms run their actions in the order of the command line, each
  with its own argument, and the parser stops at the first word that is not an option.
\<close>

theorem options_run_in_order:
  assumes "unambiguous opts" and "\<forall>u \<in> set us. fits opts u"
    and "rest = [] \<or> char_at (hd rest) 0 \<noteq> CHR ''-''"
  shows "parse opts helpmsg (concat (map opt_words us) @ rest) = andThen (seqM (map opt_act us)) (ret rest)"
  using assms(2)
proof (induction us)
  case Nil
  show ?case
    using assms(3) by (cases rest) (simp_all add: parse.simps del: ret_run)
next
  case (Cons u us)
  then show ?case
    by (simp add: parse_use [OF assms(1)] andThen_assoc)
qed

definition sample_opts :: "string list opt list" where
  "sample_opts =
    [\<lparr>op_chr = CHR ''v'', op_str = Some ''verbose'', op_arg = False, op_func = (\<lambda>v. modS (\<lambda>s. s @ [''v'']))\<rparr>,
     \<lparr>op_chr = CHR 0x00, op_str = Some ''out'', op_arg = True, op_func = (\<lambda>v. modS (\<lambda>s. s @ [the v]))\<rparr>]"

theorem options_run_in_order_witness:
  "parse sample_opts None [''--out=a'', ''-v'', ''--out'', ''-b'', ''file''] [] = (Inr [''file''], [''a'', ''v'', ''-b''])"
proof -
  have "unambiguous sample_opts"
    by (simp add: unambiguous_def sample_opts_def has_letter_def has_name_def name_of_def)
  from options_run_in_order [OF this, of "[Long_eq (sample_opts ! 1) ''a'', Short (sample_opts ! 0) None, Long_next (sample_opts ! 1) ''-b'']"
      "[''file'']" None]
  have "parse sample_opts None [''--out=a'', ''-v'', ''--out'', ''-b'', ''file''] =
      andThen (seqM [modS (\<lambda>s. s @ [''a'']), modS (\<lambda>s. s @ [''v'']), modS (\<lambda>s. s @ [''-b''])]) (ret [''file''])"
    by (simp add: sample_opts_def has_letter_def has_name_def name_of_def )
  then show ?thesis
    by (simp add: andThen_def bnd_def)
qed

end
