(* ===== verification/Image_Calls.thy ===== *)
theory Image_Calls
  imports Syscall Boot_Args
begin

text \<open>
  The system calls over the socket of the console and the memory dump of \<open>syscall.cc\<close>, which complete
  the table of \<open>Syscall\<close>. \<open>behind\<close> stands for the bytes behind an array that no other object uses;
  an access further out is undefined.
\<close>

section \<open>Commands to the image server\<close>

definition EAGAIN :: int where "EAGAIN = 11"

definition show_int :: "int \<Rightarrow> string" where
  "show_int i = (if i < 0 then ''-'' @ to_dec (nat (- i)) else to_dec (nat i))"

text \<open>
  \<open>floor(log10(abs(n))) + 1\<close>: the number of digits; for zero minus infinity, which is no \<open>int\<close>, and
  the smallest \<open>int\<close> has no absolute value.
\<close>

definition digit_count :: "int \<Rightarrow> ('s, nat) prog" where
  "digit_count n =
    andThen (definedM ''floor(log10(abs(n)))'' (n \<noteq> 0 \<and> n \<noteq> - (2 ^ 31))) (ret (length (to_dec (nat \<bar>n\<bar>))))"

definition send_text :: "'e os_ops \<Rightarrow> int \<Rightarrow> u8 list \<Rightarrow> ('t, 'e, unit) sprog" where
  "send_text os sock bs = bnd (on_env (os_send os sock bs)) (\<lambda>_. ret ())"

text \<open>
  \<open>send_command\<close>: the size of the answer behind the nine characters of the command, and before that
  the size of all this. The array has as many bytes as the text has characters, so the terminator of
  \<open>strcat\<close> is behind it. \<open>snprintf\<close> cuts the minus sign's digit off.
\<close>

definition send_command :: "'e os_ops \<Rightarrow> u8 list \<Rightarrow> int \<Rightarrow> int \<Rightarrow> string \<Rightarrow> ('t, 'e, unit) sprog" where
  "send_command os behind sock n upper_half =
    bnd (digit_count n) (\<lambda>dl.
    let command_size = 9 + dl; command = upper_half @ take dl (show_int n) in
    andThen (definedM ''command[command_size]'' (length command + 1 \<le> command_size + length behind))
    (andThen (send_text os sock (bytes_of (to_dec command_size)))
      (send_text os sock (bytes_of command))))"

section \<open>Answers\<close>

text \<open>What \<open>recv\<close> leaves in a buffer, and what it returned.\<close>

definition recv_into :: "'e os_ops \<Rightarrow> int \<Rightarrow> u8 list \<Rightarrow> nat \<Rightarrow> nat \<Rightarrow> ('t, 'e, int \<times> u8 list) sprog" where
  "recv_into os sock buf i n =
    bnd (on_env (os_recv os sock n)) (\<lambda>(k, bs). ret (k, if k < 0 then buf else copy_at buf i (take n bs)))"

definition timed_out :: "'e os_ops \<Rightarrow> int \<Rightarrow> ('t, 'e, bool) sprog" where
  "timed_out os k = getS (\<lambda>s. k = - 1 \<and> os_errno os (sv_env s) = EAGAIN)"

text \<open>A failed call clears the state byte of the target.\<close>

definition give_up :: "'t htif_ops \<Rightarrow> reg \<Rightarrow> ('t, 'e, reg) sprog" where
  "give_up h state_addr = andThen (mem_write h state_addr [0]) (ret (- 1))"

text \<open>Where \<open>strtol\<close> stops: it must be inside the object.\<close>

definition scan_end :: "string \<Rightarrow> string" where
  "scan_end t =
    (let u = dropWhile is_space t in
     dropWhile (is_digit 10) (if take 1 u = ''-'' \<or> take 1 u = ''+'' then drop 1 u else u))"

definition has_digits :: "int \<Rightarrow> nat \<Rightarrow> bool" where
  "has_digits v n \<longleftrightarrow> v \<noteq> 0 \<and> length (to_dec (nat \<bar>v\<bar>)) = n"

text \<open>A number of \<open>n\<close> digits is awaited: whatever else arrives is dropped. \<open>None\<close> is a timeout.\<close>

fun await_number :: "'e os_ops \<Rightarrow> u8 list \<Rightarrow> nat \<Rightarrow> int \<Rightarrow> nat \<Rightarrow> u8 list \<Rightarrow> ('t, 'e, int option) sprog" where
  "await_number os behind 0 sock n buf = raise Diverges"
| "await_number os behind (Suc fuel) sock n buf =
    bnd (recv_into os sock buf 0 n) (\<lambda>(k, buf').
    bnd (timed_out os k) (\<lambda>late.
    if late then ret None
    else
      andThen (definedM ''strtol behind the array'' (scan_end (string_of (buf' @ behind)) \<noteq> []))
      (let v = atoi (string_of (buf' @ behind)) in
       andThen (definedM ''abs'' (v \<noteq> - (2 ^ 31)))
         (if has_digits v n then ret (Some v) else await_number os behind fuel sock n buf'))))"

definition ask_number ::
    "'t htif_ops \<Rightarrow> 'e os_ops \<Rightarrow> u8 list \<Rightarrow> nat \<Rightarrow> int \<Rightarrow> reg \<Rightarrow> string \<Rightarrow> ('t, 'e, int option) sprog" where
  "ask_number h os behind fuel sock n command =
    andThen (definedM ''array of no elements'' (n \<noteq> 0))
    (andThen (send_command os behind sock (int32 n) command)
      (await_number os behind fuel sock (unat n) (uninit h (unat n))))"

text \<open>The image, in pieces of 500 bytes; a short piece counts as a whole one.\<close>

function recv_image :: "'e os_ops \<Rightarrow> int \<Rightarrow> nat \<Rightarrow> u8 list \<Rightarrow> nat \<Rightarrow> ('t, 'e, u8 list option) sprog" where
  "recv_image os sock img_size buf got =
    (if got < img_size then
       let n = min 500 (img_size - got) in
       bnd (recv_into os sock buf got n) (\<lambda>(k, buf').
       bnd (timed_out os k) (\<lambda>late. if late then ret None else recv_image os sock img_size buf' (got + n)))
     else ret (Some buf))"
  by pat_completeness auto
termination
  by (relation "measure (\<lambda>(os, sock, n, buf, got). n - got)") auto

declare recv_image.simps [simp del]

definition store_word :: "'t htif_ops \<Rightarrow> u8 list \<Rightarrow> reg \<Rightarrow> u8 list \<Rightarrow> nat \<Rightarrow> ('t, 'e, unit) sprog" where
  "store_word h behind a img i =
    andThen (definedM ''recieved_bytes[cnt + 7]'' (8 * i + 8 \<le> length img + length behind))
      (mem_write h (a + of_nat (8 * i)) (take 8 (drop (8 * i) (img @ behind))))"

definition store_image :: "'t htif_ops \<Rightarrow> u8 list \<Rightarrow> reg \<Rightarrow> u8 list \<Rightarrow> ('t, 'e, unit) sprog" where
  "store_image h behind a img =
    forM [0..<(length img + 7) div 8] (store_word h behind a img)"

section \<open>The calls\<close>

definition sys_get_image ::
    "'t htif_ops \<Rightarrow> 'e os_ops \<Rightarrow> u8 list \<Rightarrow> nat \<Rightarrow> reg \<Rightarrow> reg \<Rightarrow> reg \<Rightarrow> ('t, 'e, reg) sprog" where
  "sys_get_image h os behind fuel image_size image_addr state_addr =
    bnd (getS (\<lambda>s. (sv_has_socket s, sv_sock s))) (\<lambda>(has_socket, sock).
    if \<not> has_socket then give_up h state_addr
    else
      bnd (ask_number h os behind fuel sock image_size ''send_107_'') (\<lambda>r. case r of
        None \<Rightarrow> give_up h state_addr
      | Some img_size \<Rightarrow>
          if img_size < 0 then raise (Runtime_error ''bad_array_new_length'')
          else
            bnd (recv_image os sock (nat img_size) (uninit h (nat img_size)) 0) (\<lambda>r. case r of
              None \<Rightarrow> give_up h state_addr
            | Some img \<Rightarrow>
                andThen (store_image h behind image_addr img) (andThen (mem_write h state_addr [1]) (ret 1)))))"

text \<open>
  The scores are read eight bytes at a time. The counters of the loops have 16 and 32 bits; a depth
  they cannot reach is a loop without end.
\<close>

definition read_scores ::
    "'t htif_ops \<Rightarrow> reg \<Rightarrow> nat \<Rightarrow> nat \<Rightarrow> ('t, 'e, u64 list) sprog" where
  "read_scores h start_addr sz depth =
    bnd (mapM (\<lambda>i. bnd (mem_read h (start_addr + of_nat (8 * i)) (uninit h 8)) (\<lambda>bs.
        ret (map (\<lambda>j. le_word (take sz (drop (sz * j) bs))) [0..<8 div sz])))
      [0..<(sz * depth + 7) div 8])
    (\<lambda>vs. ret (take depth (concat vs)))"

definition hex_pad :: "nat \<Rightarrow> nat \<Rightarrow> string" where
  "hex_pad w n = replicate (w - length (to_hex n)) (CHR ''0'') @ to_hex n"

text \<open>A value is sent as the text \<open>snprintf\<close> fits into \<open>n\<close> bytes, with its terminator.\<close>

definition send_value :: "'e os_ops \<Rightarrow> u8 list \<Rightarrow> int \<Rightarrow> nat \<Rightarrow> string \<Rightarrow> ('t, 'e, unit) sprog" where
  "send_value os behind sock n t =
    andThen (send_command os behind sock (int n) ''recv_108_'')
      (send_text os sock (bytes_of (take (n - 1) t) @ [0]))"

definition sys_return_scores ::
    "'t htif_ops \<Rightarrow> 'e os_ops \<Rightarrow> u8 list \<Rightarrow> reg \<Rightarrow> reg \<Rightarrow> reg \<Rightarrow> reg \<Rightarrow> ('t, 'e, reg) sprog" where
  "sys_return_scores h os behind start_addr elem_size depth mode =
    bnd (getS sv_sock) (\<lambda>sock.
    andThen
      (if elem_size = 2 then
         andThen (definedM ''values[0]'' (depth \<noteq> 0))
         (if 65532 < depth then raise Diverges
          else
            bnd (read_scores h start_addr 2 (unat depth)) (\<lambda>vs.
            if mode = 0 then send_value os behind sock 3 (hex_pad 2 (unat (hd vs)))
            else if mode = 1 then forM vs (\<lambda>v. send_value os behind sock 5 (hex_pad 4 (unat v)))
            else ret ()))
       else if elem_size = 8 then
         andThen (definedM ''values[0]'' (depth \<noteq> 0))
         (if 0xffffffff < depth then raise Diverges
          else
            bnd (read_scores h start_addr 8 (unat depth)) (\<lambda>vs.
            send_value os behind sock 9 (hex_pad 8 (unat (ucast (hd vs) :: u32)))))
       else ret ())
      (ret 1))"

text \<open>
  The number of vector cores goes to the first address that is not zero: one byte, or eight of which
  only the first is set.
\<close>

definition sys_get_num_vcores ::
    "'t htif_ops \<Rightarrow> 'e os_ops \<Rightarrow> u8 list \<Rightarrow> nat \<Rightarrow> reg \<Rightarrow> reg \<Rightarrow> reg \<Rightarrow> reg \<Rightarrow> reg \<Rightarrow> ('t, 'e, reg) sprog" where
  "sys_get_num_vcores h os behind fuel vcore_digits vcore_address fp_digits fp_address state_addr =
    bnd (getS sv_sock) (\<lambda>sock.
    if fp_address \<noteq> 0 then
      bnd (ask_number h os behind fuel sock fp_digits ''send_109_'') (\<lambda>r. case r of
        None \<Rightarrow> give_up h state_addr
      | Some v \<Rightarrow> andThen (mem_write h fp_address [of_int v]) (ret 1))
    else if vcore_address \<noteq> 0 then
      bnd (ask_number h os behind fuel sock vcore_digits ''send_109_'') (\<lambda>r. case r of
        None \<Rightarrow> give_up h state_addr
      | Some v \<Rightarrow> andThen (mem_write h vcore_address (of_int v # tl (uninit h 8))) (ret 1))
    else ret 1)"

section \<open>The memory dump\<close>

text \<open>Files that are written: whether \<open>fopen\<close> opens one, and \<open>fprintf\<close> to it.\<close>

record 'e file_ops =
  fo_create :: "string \<Rightarrow> 'e \<Rightarrow> bool \<times> 'e"
  fo_append :: "string \<Rightarrow> string \<Rightarrow> 'e \<Rightarrow> 'e"

definition fprintf :: "'e file_ops \<Rightarrow> string \<Rightarrow> bool \<Rightarrow> string \<Rightarrow> ('t, 'e, unit) sprog" where
  "fprintf fo f opened t = andThen (definedM ''fprintf(NULL)'' opened) (set_env (fo_append fo f t))"

definition force_line :: "string \<Rightarrow> u64 \<Rightarrow> string" where
  "force_line name v = ''force `'' @ name @ '' = 64'' @ [CHR 0x27] @ ''h'' @ hex64 v @ '';'' @ [CHR 0x0A]"

definition half_line :: "u32 \<Rightarrow> string" where
  "half_line w = hex_pad 8 (unat w) @ [CHR 0x0A]"

definition dump_words :: "'t htif_ops \<Rightarrow> 'e file_ops \<Rightarrow> string \<Rightarrow> bool \<Rightarrow> addr \<Rightarrow> nat \<Rightarrow> ('t, 'e, unit) sprog" where
  "dump_words h fo f opened a n =
    forM [0..<n] (\<lambda>i.
      bnd (mem_read h (a + of_nat (8 * i)) (uninit h 8)) (\<lambda>bs.
        let w = le_word bs :: u64 in
        andThen (fprintf fo f opened (half_line (ucast w)))
          (fprintf fo f opened (half_line (ucast (drop_bit 32 w))))))"

text \<open>The timer registers of the cores, and 2 GiB of memory from \<open>0x80000000\<close>, whatever the arguments say.\<close>

definition sys_mem_dump :: "'t htif_ops \<Rightarrow> 'e file_ops \<Rightarrow> ('t, 'e, reg) sprog" where
  "sys_mem_dump h fo =
    bnd (getS (\<lambda>s. show_int (int32 (sv_snap_count s)))) (\<lambda>count.
    let snap = ''snap'' @ count @ ''.hex''; clint = ''clint'' @ count @ ''.sv'' in
    bnd (on_env (fo_create fo snap)) (\<lambda>ok.
    bnd (on_env (fo_create fo clint)) (\<lambda>ok1.
    andThen (forM [(0x800000, ''MSIP''), (0x804000, ''MTIMECMP''), (0x80bff8, ''MTIME'')] (\<lambda>(a, name).
      bnd (mem_read h a (uninit h 8)) (\<lambda>bs. fprintf fo clint ok1 (force_line name (le_word bs)))))
    (andThen (forM [0x80000000, 0, 0, 0] (\<lambda>w. fprintf fo snap ok (half_line w)))
    (andThen (dump_words h fo snap ok 0x80000000 (2 ^ 28))
    (andThen (modS (\<lambda>s. s\<lparr>sv_snap_count := sv_snap_count s + 1\<rparr>))
      (ret 0)))))))"

section \<open>The table, complete\<close>

text \<open>The four calls; the others are those of \<open>run_syscall\<close> itself.\<close>

definition image_call ::
    "'t htif_ops \<Rightarrow> 'e os_ops \<Rightarrow> 'e file_ops \<Rightarrow> u8 list \<Rightarrow> nat \<Rightarrow> syscall \<Rightarrow> reg list \<Rightarrow> ('t, 'e, reg) sprog" where
  "image_call h os fo behind fuel c a = (case c of
     Get_image \<Rightarrow> sys_get_image h os behind fuel (a ! 0) (a ! 1) (a ! 2)
   | Return_scores \<Rightarrow> sys_return_scores h os behind (a ! 0) (a ! 1) (a ! 2) (a ! 3)
   | Get_num_vcores \<Rightarrow> sys_get_num_vcores h os behind fuel (a ! 0) (a ! 1) (a ! 2) (a ! 3) (a ! 4)
   | Mem_dump \<Rightarrow> sys_mem_dump h fo
   | _ \<Rightarrow> ret 0)"

definition run_any_syscall ::
    "'t htif_ops \<Rightarrow> 'e os_ops \<Rightarrow> 'e file_ops \<Rightarrow> host_stat \<Rightarrow> u8 list \<Rightarrow> nat \<Rightarrow> syscall \<Rightarrow> reg list \<Rightarrow> ('t, 'e, reg) sprog" where
  "run_any_syscall h os fo st0 behind fuel = run_syscall h os st0 fuel (image_call h os fo behind fuel)"

section \<open>Properties\<close>

lemma digit_count_ok: "n \<noteq> 0 \<Longrightarrow> n \<noteq> - (2 ^ 31) \<Longrightarrow> digit_count n = ret (length (to_dec (nat \<bar>n\<bar>)))"
  by (simp add: digit_count_def)

lemma length_digits_shown: "length (take (length (to_dec (nat \<bar>n\<bar>))) (show_int n)) = length (to_dec (nat \<bar>n\<bar>))"
  by (simp add: show_int_def)

lemma send_command_undefined:
  assumes "length upper = 9"
  shows "\<exists>msg. send_command os [] sock n upper s = (Inl (Undefined msg), s)"
proof (cases "n = 0 \<or> n = - (2 ^ 31)")
  case True
  then show ?thesis
    by (auto simp: send_command_def digit_count_def)
next
  case False
  then show ?thesis
    using length_digits_shown [of n] assms by (simp add: send_command_def digit_count_ok Let_def)
qed

text \<open>
  Every command to the image server is written past the end of its array: by one byte, whatever
  the size asked for. With no spare byte behind the array none of the three commands is ever sent.
\<close>

theorem commands_overflow:
  "(\<exists>msg. send_command os [] sock n ''send_107_'' s = (Inl (Undefined msg), s))
   \<and> (\<exists>msg. send_command os [] sock n ''recv_108_'' s = (Inl (Undefined msg), s))
   \<and> (\<exists>msg. send_command os [] sock n ''send_109_'' s = (Inl (Undefined msg), s))"
  by (intro conjI send_command_undefined) simp_all

text \<open>A connection that takes what is sent and delivers a stream of bytes without delay.\<close>

definition full_stream :: "'e os_ops \<Rightarrow> int \<Rightarrow> (u8 list \<Rightarrow> 'e) \<Rightarrow> bool" where
  "full_stream os sock st \<longleftrightarrow>
    (\<forall>n ds. os_recv os sock n (st ds) = ((int (min n (length ds)), take n ds), st (drop n ds))) \<and>
    (\<forall>bs ds. \<exists>k. os_send os sock bs (st ds) = (k, st ds))"

lemma send_text_stream:
  assumes "full_stream os sock st" and "sv_env s = st ds"
  shows "send_text os sock bs s = (Inr (), s)"
proof -
  obtain k where "os_send os sock bs (st ds) = (k, st ds)"
    using assms(1) unfolding full_stream_def by blast
  then show ?thesis
    using assms(2) by (simp add: send_text_def on_env_def bnd_def)
qed

lemma send_command_stream:
  assumes "full_stream os sock st" and "sv_env s = st ds" and "behind \<noteq> []" and "length upper = 9"
    and "n \<noteq> 0" and "n \<noteq> - (2 ^ 31)"
  shows "send_command os behind sock n upper s = (Inr (), s)"
proof -
  have "Suc 0 \<le> length behind" using assms(3) by (cases behind) simp_all
  then show ?thesis
    using length_digits_shown [of n] assms(4-6) send_text_stream [OF assms(1,2)]
    by (simp add: send_command_def digit_count_ok Let_def andThen_Inr)
qed

lemma recv_stream:
  assumes "full_stream os sock st" and "sv_env s = st ds" and "n \<le> length ds"
  shows "recv_into os sock buf i n s = (Inr (int n, copy_at buf i (take n ds)), s\<lparr>sv_env := st (drop n ds)\<rparr>)"
proof -
  have "os_recv os sock n (st ds) = ((int (min n (length ds)), take n ds), st (drop n ds))"
    using assms(1) unfolding full_stream_def by blast
  then have "os_recv os sock n (sv_env s) = ((int n, take n ds), st (drop n ds))"
    using assms(2,3) by (simp add: min_def)
  then show ?thesis
    by (simp add: recv_into_def on_env_def bnd_def)
qed

lemma timed_out_not: "timed_out os (int n) s = (Inr False, s)"
  by (simp add: timed_out_def)

lemma bnd_timed_out_not [simp]: "bnd (timed_out os (int n)) f s = f False s"
  by (simp add: bnd_Inr timed_out_not)

text \<open>Reading the number.\<close>

lemma to_dec_not_Nil [simp]: "to_dec n \<noteq> []"
  using to_dec_head [of n] by auto

lemma strto_to_dec_then:
  assumes "rest = [] \<or> \<not> is_digit 10 (hd rest)"
  shows "strto 10 (to_dec n @ rest) = Some (False, n, rest)"
proof -
  obtain k cs where k: "to_dec n = char_of (48 + k) # cs" "k < (10 :: nat)"
    using to_dec_head by blast
  have "digits 10 0 (to_dec n @ rest) = (n, rest)"
    using digits_to_dec [of 0 n rest] digits_stop [OF assms, of n] by simp
  then show ?thesis
    using k dec_digit [OF k(2)] by (simp add: strto_def Let_def strto_unsigned_def del: digits.simps char_of_take_bit_eq)
qed

lemma atoi_to_dec:
  assumes "rest = [] \<or> \<not> is_digit 10 (hd rest)" and "n < 2 ^ 31"
  shows "atoi (to_dec n @ rest) = int n"
proof -
  have "strtol 10 (to_dec n @ rest) = int n"
    using assms strto_to_dec_then [OF assms(1), of n] by (simp add: strtol_def)
  then show ?thesis
    using assms(2) by (simp add: atoi_def signed_of_nat signed_take_bit_int_eq_self)
qed

lemma scan_end_to_dec:
  assumes "rest \<noteq> []" and "\<not> is_digit 10 (hd rest)"
  shows "scan_end (to_dec n @ rest) \<noteq> []"
proof -
  obtain k cs where k: "to_dec n = char_of (48 + k) # cs" "k < (10 :: nat)"
    using to_dec_head by blast
  have "\<not> is_space (char_of (48 + k))" "char_of (48 + k) \<notin> {CHR ''-'', CHR ''+'', CHR ''_''}"
    using dec_digit [OF k(2)] by auto
  then have "scan_end (to_dec n @ rest) = dropWhile (is_digit 10) (to_dec n @ rest)"
    using k(1) by (simp add: scan_end_def Let_def del: char_of_take_bit_eq)
  moreover have "\<exists>c \<in> set (to_dec n @ rest). \<not> is_digit 10 c"
    using assms by (cases rest) auto
  ultimately show ?thesis
    by (metis dropWhile_eq_Nil_conv)
qed

text \<open>A terminator that \<open>strtol\<close> stops at.\<close>

definition stops_number :: "u8 list \<Rightarrow> bool" where
  "stops_number behind \<longleftrightarrow> behind \<noteq> [] \<and> \<not> is_digit 10 (char_of_byte (hd behind))"

lemma string_of_append [simp]: "string_of (xs @ ys) = string_of xs @ string_of ys"
  by (simp add: string_of_def)

lemma length_to_dec_le: "n < 10 ^ k \<Longrightarrow> 0 < k \<Longrightarrow> length (to_dec n) \<le> k"
proof (induction n arbitrary: k rule: to_dec.induct)
  case (1 n)
  show ?case
  proof (cases "n < 10")
    case True
    with 1 show ?thesis by (simp add: to_dec_unfold [of n])
  next
    case False
    then obtain j where j: "k = Suc j" "0 < j"
      using 1 by (cases k; cases "k - 1") auto
    with 1 False have "length (to_dec (n div 10)) \<le> j"
      by (simp add: div_less_iff_less_mult mult.commute)
    with False j show ?thesis by (simp add: to_dec_unfold [of n])
  qed
qed

lemma ask_number_stream:
  assumes "full_stream os sock st" and "stops_number behind" and "0 < n" and "n < 2 ^ 31"
    and "sv_env s = st (bytes_of (to_dec n) @ ds)" and "length command = 9"
  shows "ask_number h os behind (Suc fuel) sock (of_nat (length (to_dec n))) command s
    = (Inr (Some (int n)), s\<lparr>sv_env := st ds\<rparr>)"
proof -
  let ?l = "length (to_dec n)" and ?bs = "bytes_of (to_dec n)"
  have l: "0 < ?l" "?l \<le> 10"
    using length_to_dec_le [of n 10] assms(4) by simp_all
  have b: "behind \<noteq> []" and rest: "string_of behind \<noteq> []" "\<not> is_digit 10 (hd (string_of behind))"
    using assms(2) by (cases behind, simp_all add: stops_number_def string_of_def)+
  have u: "unat (of_nat ?l :: u64) = ?l"
    using l by (intro unat_of_nat_u64) simp
  have nz: "(of_nat ?l :: u64) \<noteq> 0"
  proof
    assume "(of_nat ?l :: u64) = 0"
    with u have "?l = 0" by (metis unat_0)
    with l(1) show False by simp
  qed
  have i: "int32 (of_nat ?l) = int ?l"
    using l by (intro int32_small) simp
  let ?buf = "uninit h ?l" and ?s = "s\<lparr>sv_env := st ds\<rparr>"
  have "copy_at ?buf 0 (take ?l (?bs @ ds)) = ?bs"
    by (simp add: copy_at_def)
  with recv_stream [OF assms(1,5), of ?l ?buf 0] have recv: "recv_into os sock ?buf 0 ?l s = (Inr (int ?l, ?bs), ?s)"
    by simp
  have shown: "string_of (?bs @ behind) = to_dec n @ string_of behind"
    by simp
  have "has_digits (int n) ?l"
    using assms(3) by (simp add: has_digits_def)
  then have "await_number os behind (Suc fuel) sock ?l ?buf s = (Inr (Some (int n)), ?s)"
    using scan_end_to_dec [OF rest, of n] atoi_to_dec [of "string_of behind" n] rest assms(4)
    by (simp add: bnd_Inr recv timed_out_not Let_def del: string_of_append add: shown)
  moreover have "send_command os behind sock (int ?l) command s = (Inr (), s)"
    using l by (intro send_command_stream [OF assms(1,5) b assms(6)]) simp_all
  ultimately show ?thesis
    by (simp add: ask_number_def u nz i andThen_Inr del: of_nat_eq_0_iff)
qed

lemma recv_image_stream:
  assumes "full_stream os sock st" and "length buf = length img" and "take got buf = take got img"
    and "sv_env s = st (drop got img @ ds)" and "got \<le> length img"
  shows "recv_image os sock (length img) buf got s = (Inr (Some img), s\<lparr>sv_env := st ds\<rparr>)"
  using assms(2-)
proof (induction "length img - got" arbitrary: got buf s rule: less_induct)
  case less
  show ?case
  proof (cases "got < length img")
    case False
    with less.prems have "buf = img" "sv_env s = st ds" by simp_all
    moreover from this have "s\<lparr>sv_env := st ds\<rparr> = s" by (metis server.surjective server.update_convs(2))
    ultimately show ?thesis
      using False by (simp add: recv_image.simps)
  next
    case True
    let ?n = "min 500 (length img - got)" and ?buf = "copy_at buf got (take (min 500 (length img - got)) (drop got img))"
    have n: "got + ?n \<le> length img" "?n \<le> length (drop got img @ ds)"
      using less.prems(4) by auto
    have recv: "recv_into os sock buf got ?n s = (Inr (int ?n, ?buf), s\<lparr>sv_env := st (drop (got + ?n) img @ ds)\<rparr>)"
      using recv_stream [OF assms(1) less.prems(3) n(2), of buf got] n(1) by (simp add: add.commute)
    have "recv_image os sock (length img) ?buf (got + ?n) (s\<lparr>sv_env := st (drop (got + ?n) img @ ds)\<rparr>)
        = (Inr (Some img), s\<lparr>sv_env := st (drop (got + ?n) img @ ds), sv_env := st ds\<rparr>)"
    proof (rule less.hyps)
      show "length img - (got + ?n) < length img - got"
        using True by simp
      show "length ?buf = length img"
        using n(1) less.prems(1) by (simp add: copy_at_def)
      have "take (got + ?n) ?buf = take got img @ take ?n (drop got img)"
        using n(1) less.prems(1,2) by (simp add: copy_at_def min_def)
      then show "take (got + ?n) ?buf = take (got + ?n) img"
        by (simp add: take_add)
    qed (use n in simp_all)
    with True recv show ?thesis
      by (subst recv_image.simps) (simp add: Let_def bnd_Inr del: of_nat_min)
  qed
qed

text \<open>The words of the image, one after the other, make up the range.\<close>

lemma store_words:
  assumes "chunk_target h DMA k iv mem ok" and "iv (sv_target s)" and "0x80000000 \<le> a" and "unat a + length img \<le> 2 ^ 64"
    and "\<forall>i < length img. ok (a + of_nat i)" and "8 * n \<le> length img"
  shows "\<exists>t. forM [0..<n] (store_word h behind a img) s = (Inr (), s\<lparr>sv_target := t\<rparr>)
    \<and> iv t \<and> mem t = upd_range (mem (sv_target s)) a (take (8 * n) img)"
  using assms(6)
proof (induction n)
  case 0
  show ?case
    using assms(2) by (intro exI [of _ "sv_target s"]) simp
next
  case (Suc n)
  then obtain t where t: "forM [0..<n] (store_word h behind a img) s = (Inr (), s\<lparr>sv_target := t\<rparr>)"
      "iv t" "mem t = upd_range (mem (sv_target s)) a (take (8 * n) img)"
    by auto
  have bytes: "take 8 (drop (8 * n) (img @ behind)) = take 8 (drop (8 * n) img)" and
      len: "length (take 8 (drop (8 * n) img)) = 8"
    using Suc.prems by simp_all
  have u: "unat (of_nat (8 * n) :: u64) = 8 * n"
    using assms(4) Suc.prems by (intro unat_of_nat_u64) simp
  have "a \<le> a + of_nat (8 * n)"
    using assms(4) Suc.prems u by (intro word_le_nat_alt [THEN iffD2]) (simp add: unat_word_ariths)
  then have hi: "0x80000000 \<le> a + of_nat (8 * n)"
    using assms(3) by (rule order_trans [rotated])
  have oks: "ok (a + of_nat (8 * n) + of_nat i)" if "i < 8" for i
    using assms(5) [rule_format, of "8 * n + i"] that Suc.prems by (simp add: add.assoc)
  obtain t' where t': "mem_write h (a + of_nat (8 * n)) (take 8 (drop (8 * n) img)) (s\<lparr>sv_target := t\<rparr>)
        = (Inr (), s\<lparr>sv_target := t'\<rparr>)" "iv t'"
      "mem t' = upd_range (mem t) (a + of_nat (8 * n)) (take 8 (drop (8 * n) img))"
    using mem_write_law [OF assms(1), of "s\<lparr>sv_target := t\<rparr>" "a + of_nat (8 * n)" "take 8 (drop (8 * n) img)"]
      t(2) hi oks len by auto
  have "store_word h behind a img n (s\<lparr>sv_target := t\<rparr>) = (Inr (), s\<lparr>sv_target := t'\<rparr>)"
    using Suc.prems t'(1) unfolding store_word_def bytes by simp
  then have "forM [0..<Suc n] (store_word h behind a img) s = (Inr (), s\<lparr>sv_target := t'\<rparr>)"
    using t(1) by (simp add: forM_append andThen_Inr)
  moreover have "take (8 * n) img @ take 8 (drop (8 * n) img) = take (8 * Suc n) img"
    by (simp add: take_add [symmetric] add.commute)
  moreover have "length (take (8 * n) img) = 8 * n" "8 * n + 8 \<le> 2 ^ 64"
    using Suc.prems assms(4) by simp_all
  ultimately show ?case
    using upd_range_append [of "take (8 * n) img" "take 8 (drop (8 * n) img)" "mem (sv_target s)" a] t(3) t'(2,3) len
    by (intro exI [of _ t']) simp
qed


text \<open>A host whose state is the stream that is still to come.\<close>

definition stream_os :: "u8 list os_ops" where
  "stream_os = (idle_os 0)\<lparr>os_send := (\<lambda>_ bs e. (int (length bs), e)),
     os_recv := (\<lambda>_ n e. ((int (min n (length e)), take n e), drop n e))\<rparr>"

lemma stream_os_full: "full_stream stream_os sock (\<lambda>ds. ds)"
  by (simp add: full_stream_def stream_os_def)

definition sample_image :: "u8 list" where
  "sample_image = [1, 2, 3, 4, 5, 6, 7, 8]"

lemma length_sample_image: "length sample_image = 8"
  by (simp add: sample_image_def)

definition image_server :: "(memory, u8 list) server" where
  "image_server = (server_on (\<lambda>_. 0) (bytes_of (to_dec (length sample_image)) @ sample_image @ [9]))\<lparr>sv_has_socket := True\<rparr>"


end
