(* ===== verification/Board_Loop.thy ===== *)
theory Board_Loop
  imports Socket Tsi
begin

text \<open>
  The server loop on the transports of the repository. Over the board driver the words \<open>tohost\<close> and
  \<open>fromhost\<close> are written through the registers of the L2 cache and read through those of the DMA port;
  the driver recognises the two addresses and uses the debug port for both, which makes \<open>dtm_t\<close> on top of
  it a provider of the interface that the loop needs. The serial interface is another one.
\<close>

section \<open>The two words\<close>

definition mailbox_addr :: "addr \<Rightarrow> addr \<Rightarrow> addr \<Rightarrow> bool" where
  "mailbox_addr th fh x \<longleftrightarrow> drop_bit 3 x = drop_bit 3 th \<or> drop_bit 3 x = drop_bit 3 fh"

text \<open>Where the linker puts them: aligned words of the DRAM below 4 GiB.\<close>

definition mailbox :: "addr \<Rightarrow> addr \<Rightarrow> bool" where
  "mailbox th fh \<longleftrightarrow> in_dram th \<and> in_dram fh \<and> take_bit 3 th = 0 \<and> take_bit 3 fh = 0"

lemma same_block: "drop_bit 3 x = drop_bit 3 (y :: u64) \<Longrightarrow> take_bit 3 x = take_bit 3 y \<Longrightarrow> x = y"
  by (metis bits_ident)

lemma mailbox_addr_in_dram:
  assumes "mailbox th fh" and "mailbox_addr th fh x"
  shows "in_dram x"
  using assms in_dram_block [of th x] in_dram_block [of fh x] by (auto simp: mailbox_def mailbox_addr_def)

lemma mailbox_word: "mailbox th fh \<Longrightarrow> mailbox_addr th fh a \<Longrightarrow> take_bit 3 a = 0 \<Longrightarrow> a = th \<or> a = fh"
  using same_block [of a th] same_block [of a fh] by (auto simp: mailbox_def mailbox_addr_def)

lemma mailbox_half:
  assumes "mailbox th fh" and "mailbox_addr th fh a" and "take_bit 2 a = 0"
  shows "a = th \<or> a = fh \<or> a = th + 4 \<or> a = fh + 4"
proof -
  have "drop_bit 3 (a - take_bit 3 a) = drop_bit 3 a" "take_bit 3 (a - take_bit 3 a) = 0"
    by (rule drop_bit_base, rule take_bit_base)
  then have "a - take_bit 3 a = th \<or> a - take_bit 3 a = fh"
    using mailbox_word [OF assms(1), of "a - take_bit 3 a"] assms(2) by (simp add: mailbox_addr_def)
  then show ?thesis
    using half_offset [OF assms(3)] by (auto simp: algebra_simps split: if_splits)
qed

section \<open>Writes through the registers of the cache\<close>

lemma mailbox_words:
  assumes port: "debug_port B binv bmem bnext"
    and "transfer_inv binv bmem bnext th fh n V a s" and "\<not> is_burst s" and "take_bit 3 a = 0"
    and "\<forall>i < n. in_dram (a + of_nat (8 * i)) \<and> (a + of_nat (8 * i) = th \<or> a + of_nat (8 * i) = fh)"
    and "8 * n \<le> length src"
  shows "\<exists>s'. dtm_write_words (bridge_serve B th fh) src n L2 s = (Inr (), s') \<and> bridge_ok binv s'
    \<and> bmem (br_bus s') = upd_range V a (take (8 * n) src)"
  using assms(2-)
proof (induction n arbitrary: V a s src)
  case 0
  then show ?case
    by (auto simp: transfer_inv_def bridge_ok_def)
next
  case (Suc n)
  let ?w = "le_word (take 8 src) :: u64"
  let ?s = "s\<lparr>rcvd_data := rcvd_data s + 2, br_data := ?w\<rparr>"
  have inv: "transfer_inv binv bmem bnext th fh (Suc n) V a ?s"
    using Suc.prems(1) by (simp add: transfer_inv_def)
  have a: "in_dram a" "a = th \<or> a = fh"
    using Suc.prems(4) [rule_format, of 0] by simp_all
  have hit: "br_addr ?s = th \<or> br_addr ?s = fh"
    using Suc.prems(1,2) a(2) by (simp add: transfer_inv_def)
  have w: "le_bytes 8 ?w = take 8 src"
    using Suc.prems(5) by (simp add: le_bytes_le_word_8)
  have run: "dtm_write_words (bridge_serve B th fh) src (Suc n) L2 s
      = andThen (write_word B th fh (data_lo L2)) (dtm_write_words (bridge_serve B th fh) (drop 8 src) n L2) ?s"
    using serve_data_word [of s B th fh L2 ?w "dtm_write_words (bridge_serve B th fh) (drop 8 src) n L2"] Suc.prems(1)
    by (simp add: transfer_inv_def Dtm.word_target_def)
  obtain s1 where s1: "write_word B th fh (data_lo L2) ?s = (Inr (), s1)"
      "transfer_inv binv bmem bnext th fh n (upd_range V a (le_bytes 8 ?w)) (a + 8) s1" "\<not> is_burst s1"
    using word_at_tohost [OF port inv a(1) Suc.prems(3) hit, of "data_lo L2"] by auto
  have rest: "\<forall>i < n. in_dram (a + 8 + of_nat (8 * i)) \<and> (a + 8 + of_nat (8 * i) = th \<or> a + 8 + of_nat (8 * i) = fh)"
  proof (intro allI impI)
    fix i assume "i < n"
    then show "in_dram (a + 8 + of_nat (8 * i)) \<and> (a + 8 + of_nat (8 * i) = th \<or> a + 8 + of_nat (8 * i) = fh)"
      using Suc.prems(4) [rule_format, of "Suc i"] by (simp add: add.assoc)
  qed
  have al: "take_bit 3 (a + 8) = 0"
    using take_bit_add_mult [of 3 8 a] Suc.prems(3) by simp
  have len: "8 * n \<le> length (drop 8 src)"
    using Suc.prems(5) by simp
  obtain s2 where s2: "dtm_write_words (bridge_serve B th fh) (drop 8 src) n L2 s1 = (Inr (), s2)" "bridge_ok binv s2"
      "bmem (br_bus s2) = upd_range (upd_range V a (take 8 src)) (a + 8) (take (8 * n) (drop 8 src))"
    using Suc.IH [OF s1(2,3) al rest len] unfolding w by blast
  have "take (8 * Suc n) src = take 8 src @ take (8 * n) (drop 8 src)"
    using take_add [of 8 "8 * n" src] by simp
  moreover have "upd_range V a (take 8 src @ take (8 * n) (drop 8 src))
      = upd_range (upd_range V a (take 8 src)) (a + 8) (take (8 * n) (drop 8 src))"
  proof -
    have "length (take 8 src) = 8" "length (take (8 * n) (drop 8 src)) = 8 * n" "n \<le> 256"
      using Suc.prems(1,5) by (auto simp: transfer_inv_def)
    then show ?thesis
      using upd_range_append [of "take 8 src" "take (8 * n) (drop 8 src)" V a] by (simp del: length_take)
  qed
  ultimately show ?case
    using s2 run s1(1) by (auto simp: andThen_Inr)
qed

lemma mailbox_write_chunk:
  assumes port: "debug_port B binv bmem bnext" and mb: "mailbox th fh" and ok: "bridge_ok binv s" and al: "take_bit 3 a = 0"
    and len: "8 dvd length bs" "length bs \<le> 2048" and addr: "\<forall>i < length bs. mailbox_addr th fh (a + of_nat i)"
  shows "\<exists>s'. dtm_write_chunk (bridge_serve B th fh) a bs L2 s = (Inr (), s') \<and> bridge_ok binv s'
    \<and> bmem (br_bus s') = upd_range (bmem (br_bus s)) a bs"
proof -
  let ?n = "length bs div 8"
  have n: "8 * ?n = length bs"
    using len(1) by simp
  obtain s1 where s1: "bnd (dtm_write (bridge_serve B th fh) (addr_lo L2) (word_lo a)) (\<lambda>_.
        dtm_write (bridge_serve B th fh) (addr_hi L2) (word_hi a)) s = (Inr (resp_data a 0), s1)"
      and st: "br_state s1 = WR_DATA" "rcvd_addr s1 = 0" "rcvd_data s1 = rcvd_data s" "br_addr s1 = a"
        "\<not> is_incremental s1" "burst_data s1 = burst_data s" "\<not> is_burst s1" "burst_idx s1 = 0"
        "br_bus s1 = br_bus s"
    using serve_address [OF ok, of L2 B th fh a] by auto
  have "transfer_inv binv bmem bnext th fh ?n (bmem (br_bus s)) a s1"
    using st ok len(2) by (simp add: transfer_inv_def bridge_ok_def)
  moreover have "\<forall>i < ?n. in_dram (a + of_nat (8 * i)) \<and> (a + of_nat (8 * i) = th \<or> a + of_nat (8 * i) = fh)"
  proof (intro allI impI)
    fix i assume "i < ?n"
    then have "mailbox_addr th fh (a + of_nat (8 * i))"
      using addr n by (simp del: of_nat_mult)
    moreover have "take_bit 3 (a + of_nat (8 * i)) = 0"
      using take_bit_add_mult [of 3 "8 * i" a] al by simp
    ultimately show "in_dram (a + of_nat (8 * i)) \<and> (a + of_nat (8 * i) = th \<or> a + of_nat (8 * i) = fh)"
      using mailbox_addr_in_dram [OF mb] mailbox_word [OF mb] by blast
  qed
  ultimately obtain s2 where "dtm_write_words (bridge_serve B th fh) bs ?n L2 s1 = (Inr (), s2)"
      "bridge_ok binv s2" "bmem (br_bus s2) = upd_range (bmem (br_bus s)) a bs"
    using mailbox_words [OF port, of th fh ?n "bmem (br_bus s)" a s1 bs] st(7) al n by auto
  moreover have "dtm_write_chunk (bridge_serve B th fh) a bs L2
      = bnd (bnd (dtm_write (bridge_serve B th fh) (addr_lo L2) (word_lo a)) (\<lambda>_.
          dtm_write (bridge_serve B th fh) (addr_hi L2) (word_hi a)))
          (\<lambda>_. dtm_write_words (bridge_serve B th fh) bs ?n L2)"
    by (simp add: dtm_write_chunk_def bnd_assoc)
  ultimately show ?thesis
    using s1 by (auto simp: bnd_Inr)
qed

lemma mailbox_debug_reads:
  assumes "mailbox th fh" and "mailbox_addr th fh a" and "take_bit 2 a = 0"
  shows "debug_reads B th fh tgt a"
  using mailbox_half [OF assms] mailbox_addr_in_dram [OF assms(1,2), THEN in_dram_not_low]
  by (auto simp: debug_reads_def read_word_def)

section \<open>The transport the loop needs\<close>

lemma mailbox_is_chunk_target:
  assumes port: "debug_port B binv bmem bnext" and mb: "mailbox th fh" and "tgt = DMA \<or> tgt = L2"
  shows "chunk_target (dtm (bridge_serve B th fh) jk) tgt 3 (bridge_ok binv) (\<lambda>s. bmem (br_bus s)) (mailbox_addr th fh)"
proof (unfold_locales, goal_cases)
  case (5 x y)
  then show ?case by (simp add: mailbox_addr_def)
next
  case (6 s a dst)
  then have "\<forall>i < length dst. in_dram (a + of_nat i)"
      "\<forall>i < length dst. take_bit 2 (a + of_nat i) = 0 \<longrightarrow> debug_reads B th fh tgt (a + of_nat i)"
    using mailbox_addr_in_dram [OF mb] mailbox_debug_reads [OF mb] by blast+
  with 6 show ?case
    using dtm_read_chunk_law [OF port, of s a dst th fh tgt] by (simp add: dtm_def)
next
  case (7 s a bs)
  then show ?case
    using dtm_write_chunk_law [OF port, of s a bs th fh] mailbox_write_chunk [OF port mb, of s a bs] assms(3)
      mailbox_addr_in_dram [OF mb]
    by (auto simp: dtm_def)
qed (simp_all add: dtm_def xlen_def)

lemma board_is_word_target:
  assumes "debug_port B binv bmem bnext" and "mailbox th fh"
  shows "word_target (dtm (bridge_serve B th fh) jk) 3 (bridge_ok binv) (\<lambda>s. bmem (br_bus s)) (mailbox_addr th fh)"
  unfolding word_target_def word_target_axioms_def
  using mailbox_is_chunk_target [OF assms] by (simp add: dtm_def)

lemma mailbox_word_addrs:
  assumes "mailbox th fh"
  shows "word_addr (mailbox_addr th fh) th" and "word_addr (mailbox_addr th fh) fh"
proof -
  have "drop_bit 3 (x + of_nat i) = drop_bit 3 x" if "take_bit 3 x = 0" "i < 8" for x :: u64 and i
    using add_in_block [OF that(1), of i] that(2) by simp
  then show "word_addr (mailbox_addr th fh) th" "word_addr (mailbox_addr th fh) fh"
    using assms by (auto simp: word_addr_def mailbox_addr_def mailbox_def in_dram_def)
qed

interpretation board_words: word_target "dtm (bridge_serve (socket_bus (tcl_channel port_axi)) 0x80001000 0x80001040) jk" 3
    "bridge_ok (link_ok (\<lambda>_. True))" "\<lambda>s. pc_mem (tc_axi (br_bus s))" "mailbox_addr 0x80001000 0x80001040"
  for jk
  by (rule board_is_word_target [OF socket_debug_port [OF port_axi_is_debug_port port_axi_wide]])
    (simp add: mailbox_def in_dram_def)

lemma tsi_is_word_target:
  assumes "speaks_sai A rest m"
  shows "word_target (tsi_ops A clr jnk) 2 (tsi_settled A rest) (\<lambda>s. m (final A s)) (\<lambda>_. True)"
  unfolding word_target_def word_target_axioms_def
  using tsi_is_chunk_target [OF assms] by (simp add: tsi_ops_def)

interpretation serial_words: word_target "tsi_ops sample_adapter clr jnk" 2 "tsi_settled sample_adapter (\<lambda>x. fst x = [])"
    "\<lambda>s. snd (final sample_adapter s)" "\<lambda>_. True"
  for clr jnk
  by (rule tsi_is_word_target [OF sample_speaks])

section \<open>The loop over the board\<close>

text \<open>
  C10: a test that runs on the board is seen to end through every layer. Let the program put a word with
  an odd payload below \<open>2 ^ 48\<close> at \<open>tohost\<close> in the memory behind the AXI engine. The server polls it through
  \<open>memif_t\<close>, \<open>dtm_t\<close>, the state machine of the driver, the packets on the socket and the Tcl server, and
  two turns of its loop later it has returned with the exit code of the program, though it writes
  the two words through the registers of the cache, which the driver would send to its RAMs at any
  other address.
\<close>

theorem test_ends_over_the_board:
  assumes "debug_port (axi_bus X) ainv amem anext" and "axi_wide X" and "mailbox th fh"
    and "bridge_ok (link_ok ainv) (target_of s)" and "ht_tohost_addr s = th" and "ht_fromhost_addr s = fh"
    and "word_at (amem (tc_axi (br_bus (target_of s)))) th = v" and "v AND 1 \<noteq> 0" and "v < 2 ^ 48"
    and "proxy_first (ht_server s)" and "quiet_devices (ht_server s)" and "sv_exitcode (ht_server s) = 0"
    and "\<not> fst (ho_signal ho (sv_env (ht_server s)))"
  shows "\<exists>s'. run_loop (dtm (bridge_serve (socket_bus (tcl_channel X)) th fh) jk) ho run proj g fuel quiet_flags (Suc (Suc n)) s
      = (Inr (), s')
    \<and> exit_code (ht_server s') = signed_take_bit 30 (drop_bit 1 (uint v))"
proof -
  let ?h = "dtm (bridge_serve (socket_bus (tcl_channel X)) th fh) jk"
  have "word_target ?h 3 (bridge_ok (link_ok ainv)) (\<lambda>s. amem (tc_axi (br_bus s))) (mailbox_addr th fh)"
    by (rule board_is_word_target [OF socket_debug_port [OF assms(1,2)] assms(3)])
  from word_target.test_end_law [OF this assms(4)] show ?thesis
    using mailbox_word_addrs [OF assms(3)] assms(5-) by simp
qed

definition board_exiting :: "(port_chip tcl_server bridge, unit) htif" where
  "board_exiting = htif_on ((server_on (bridge_init (replicate 256 0) (quiet_link \<lparr>pc_mem = one_word 0x80001000 7,
      pc_addr = 0, pc_type = 0\<rparr>)) ())\<lparr>sv_devices :=
     [\<lparr>dev_class = Syscall_proxy, command_handlers = [H_syscall], command_names = [[]]\<rparr>]\<rparr>) 0x80001000 0x80001040"

theorem test_ends_over_the_board_witness:
  "\<exists>s'. run_loop (dtm (bridge_serve (socket_bus (tcl_channel port_axi)) 0x80001000 0x80001040) (\<lambda>_. 7)) null_host
      (\<lambda>_ _. ret 0) null_proj 0 0 quiet_flags (Suc (Suc 0)) board_exiting = (Inr (), s')
    \<and> exit_code (ht_server s') = signed_take_bit 30 (drop_bit 1 (uint (7 :: u64)))"
  by (rule test_ends_over_the_board [OF port_axi_is_debug_port port_axi_wide])
    (simp_all add: mailbox_def in_dram_def board_exiting_def htif_on_def server_on_def target_of_def proxy_first_def
      quiet_devices_def null_host_def bridge_init_def bridge_ok_def)

end
