(* ===== verification/Rfb_Frames.thy ===== *)
theory Rfb_Frames
  imports Device_Types
begin

text \<open>
  What the ticks of the remote frame buffer add up to: a round of them sends the memory behind the
  buffer's address as one frame.
\<close>

section \<open>One tick\<close>

text \<open>A configured buffer of \<open>n\<close> blocks that the target serves, with \<open>j\<close> of them read.\<close>

definition rfb_at :: "(addr \<Rightarrow> bool) \<Rightarrow> nat \<Rightarrow> nat \<Rightarrow> rfb \<Rightarrow> bool" where
  "rfb_at ok n j r \<longleftrightarrow> rfb_memif r \<and> fb_bytes r = of_nat (256 * n) \<and> 256 * n < 2 ^ 64 \<and> j < n
    \<and> rfb_read_pos r = of_nat (256 * j) \<and> 0x80000000 \<le> rfb_addr r \<and> unat (rfb_addr r) + 256 * n \<le> 2 ^ 64
    \<and> (\<forall>i < 256 * n. ok (rfb_addr r + of_nat i))"

lemma of_nat_mod_word:
  assumes "x < 2 ^ 64" and "y < 2 ^ 64"
  shows "(of_nat x :: u64) mod of_nat y = of_nat (x mod y)"
proof -
  have "x mod y < 2 ^ 64"
    using assms(1) by (rule le_less_trans [OF mod_less_eq_dividend])
  with assms show ?thesis
    by (simp add: word_unat_eq_iff unat_mod unat_of_nat)
qed

lemma next_pos:
  assumes "j < n" and "256 * n < 2 ^ 64"
  shows "(of_nat (256 * j) + FB_ALIGN) mod of_nat (256 * n) = (if Suc j < n then of_nat (256 * Suc j) else 0 :: u64)"
proof -
  have "of_nat (256 * j) + FB_ALIGN = (of_nat (256 * Suc j) :: u64)"
    by (simp add: FB_ALIGN_def)
  also have "\<dots> mod of_nat (256 * n) = of_nat (256 * Suc j mod (256 * n))"
    using assms by (intro of_nat_mod_word) simp_all
  also have "256 * Suc j mod (256 * n) = (if Suc j < n then 256 * Suc j else 0)"
    using assms(1) by (auto simp: less_Suc_eq_le not_less simp del: mult_Suc_right dest!: le_antisym [of n "Suc j"])
  finally show ?thesis
    by (simp del: of_nat_mult mult_Suc_right)
qed

lemma rfb_tick_block:
  assumes "chunk_target h DMA k iv mem ok" and "iv (sv_target s)" and "rfb_at ok n j r"
    and "rfb_fb2 r = Some fb" and "length fb = 256 * n"
  defines "fb' \<equiv> take (256 * j) fb @ get_range (mem (sv_target s)) (rfb_addr r + of_nat (256 * j)) 256 @ drop (256 * Suc j) fb"
  shows "\<exists>t. iv t \<and> mem t = mem (sv_target s) \<and> rfb_tick h os i d r s =
    (if Suc j < n then set_rfb i d (r\<lparr>rfb_fb2 := Some fb', rfb_read_pos := of_nat (256 * Suc j)\<rparr>)
     else let r' = r\<lparr>rfb_fb1 := Some fb', rfb_fb2 := rfb_fb1 r, rfb_read_pos := 0\<rparr> in
       andThen (set_rfb i d r') (send_frame os r')) (s\<lparr>sv_target := t\<rparr>)"
proof -
  let ?a = "rfb_addr r + of_nat (256 * j)"
  have at: "j < n" "256 * n < 2 ^ 64" "rfb_memif r" "fb_bytes r = of_nat (256 * n)" "rfb_read_pos r = of_nat (256 * j)"
    using assms(3) by (simp_all add: rfb_at_def)
  have j: "256 * j + 256 \<le> 256 * n"
    using at(1) by simp
  have p: "unat (of_nat (256 * j) :: u64) = 256 * j" and nz: "fb_bytes r \<noteq> 0"
    using j at(2,4) by (simp_all add: unat_of_nat word_unat_eq_iff del: of_nat_mult)
  have le: "0x80000000 \<le> ?a"
    using assms(3) j by (auto simp: rfb_at_def word_le_nat_alt unat_word_ariths unat_of_nat simp del: of_nat_mult)
  have "\<forall>x < 256. ok (?a + of_nat x)"
  proof (intro allI impI)
    fix x :: nat assume "x < 256"
    then have "ok (rfb_addr r + of_nat (256 * j + x))"
      using assms(3) j by (simp add: rfb_at_def del: of_nat_add of_nat_mult)
    then show "ok (?a + of_nat x)"
      by (simp add: add.assoc)
  qed
  moreover have "length (take 256 (drop (256 * j) fb)) = 256"
    using j assms(5) by simp
  ultimately obtain t where t: "mem_read h ?a (take 256 (drop (256 * j) fb)) s
      = (Inr (get_range (mem (sv_target s)) ?a 256), s\<lparr>sv_target := t\<rparr>)" "iv t" "mem t = mem (sv_target s)"
    using mem_read_law [OF assms(1,2) le, of "take 256 (drop (256 * j) fb)"] by auto
  have c: "256 * j + 256 \<le> length fb" "256 * Suc j = 256 * j + 256"
    using j assms(5) by simp_all
  define P Q :: u64 where "P = of_nat (256 * j)" and "Q = of_nat (256 * j + 256)"
  have pq: "rfb_read_pos r = P" "unat P = 256 * j" "(P + FB_ALIGN) mod fb_bytes r = (if Suc j < n then Q else 0)"
    using at p next_pos [OF at(1,2)] by (simp_all only: P_def Q_def c(2))
  have nonzero: "(of_nat x :: u64) \<noteq> 0" if "0 < x" "x < 2 ^ 64" for x
    using that by (simp add: word_unat_eq_iff unat_of_nat)
  have "Q \<noteq> 0" if "Suc j < n"
    unfolding Q_def using that at(2) by (intro nonzero) simp_all
  then show ?thesis
    using t at(3) c(1) nz pq unfolding rfb_tick_def fb'_def P_def [symmetric] Q_def [symmetric] c(2)
    by (intro exI [of _ t]) (simp add: assms(4) bnd_Inr Let_def)
qed


section \<open>A round of ticks\<close>

text \<open>The buffer in a slot of the device list, and the tick of that slot.\<close>

definition rfb_in :: "nat \<Rightarrow> rfb \<Rightarrow> ('t, 'e) server \<Rightarrow> bool" where
  "rfb_in i r s \<longleftrightarrow> i < length (sv_devices s) \<and> dev_class (sv_devices s ! i) = Rfb r"

lemma set_rfb_run: "set_rfb i d r s = (Inr (), s\<lparr>sv_devices := (sv_devices s)[i := d\<lparr>dev_class := Rfb r\<rparr>]\<rparr>)"
  by (simp add: set_rfb_def set_device_def)

lemma rfb_in_set: "i < length (sv_devices s) \<Longrightarrow> rfb_in i r (s\<lparr>sv_target := t, sv_devices := (sv_devices s)[i := d\<lparr>dev_class := Rfb r\<rparr>]\<rparr>)"
  by (simp add: rfb_in_def)

lemma device_tick_rfb: "rfb_in i r s \<Longrightarrow> device_tick h os i s = rfb_tick h os i (sv_devices s ! i) r s"
  by (simp add: device_tick_def bnd_getS rfb_in_def)

text \<open>After some blocks of a round: their bytes are in the back buffer, and nothing was sent.\<close>

lemma ticks_of_round:
  assumes "chunk_target h DMA k iv mem ok" and "iv (sv_target s)" and "rfb_in i r s" and "rfb_at ok n 0 r"
    and "rfb_fb2 r = Some fb" and "length fb = 256 * n" and "j < n"
  shows "\<exists>s'. forM [0..<j] (\<lambda>_. device_tick h os i) s = (Inr (), s') \<and> iv (sv_target s')
    \<and> mem (sv_target s') = mem (sv_target s) \<and> sv_env s' = sv_env s
    \<and> rfb_in i (r\<lparr>rfb_fb2 := Some (get_range (mem (sv_target s)) (rfb_addr r) (256 * j) @ drop (256 * j) fb),
         rfb_read_pos := of_nat (256 * j)\<rparr>) s'"
  using assms(7)
proof (induction j)
  case 0
  have "r\<lparr>rfb_fb2 := Some fb, rfb_read_pos := 0\<rparr> = r"
    using assms(4,5) by (cases r) (simp add: rfb_at_def)
  with assms show ?case
    by auto
next
  case (Suc j)
  let ?M = "mem (sv_target s)"
  let ?r = "r\<lparr>rfb_fb2 := Some (get_range ?M (rfb_addr r) (256 * j) @ drop (256 * j) fb), rfb_read_pos := of_nat (256 * j)\<rparr>"
  obtain s1 where s1: "forM [0..<j] (\<lambda>_. device_tick h os i) s = (Inr (), s1)" "iv (sv_target s1)"
      "mem (sv_target s1) = ?M" "sv_env s1 = sv_env s" "rfb_in i ?r s1"
    using Suc by auto
  have at: "rfb_at ok n j ?r"
    using assms(4) Suc.prems by (simp add: rfb_at_def fb_bytes_def)
  have len: "length (get_range ?M (rfb_addr r) (256 * j) @ drop (256 * j) fb) = 256 * n"
    using assms(6) Suc.prems by simp
  have next_block: "get_range ?M (rfb_addr r) (256 * Suc j)
      = get_range ?M (rfb_addr r) (256 * j) @ get_range ?M (rfb_addr r + of_nat (256 * j)) 256"
    using get_range_add [of ?M "rfb_addr r" "256 * j" 256] by (simp add: add.commute)
  obtain t where t: "iv t" "mem t = ?M" "rfb_tick h os i (sv_devices s1 ! i) ?r s1
      = set_rfb i (sv_devices s1 ! i) (?r\<lparr>rfb_fb2 := Some (get_range ?M (rfb_addr r) (256 * Suc j) @ drop (256 * Suc j) fb),
          rfb_read_pos := of_nat (256 * Suc j)\<rparr>) (s1\<lparr>sv_target := t\<rparr>)"
    using rfb_tick_block [OF assms(1) s1(2) at _ len, of os i "sv_devices s1 ! i"] Suc.prems
    unfolding s1(3) by (auto simp: next_block simp del: mult_Suc_right of_nat_mult)
  with s1 show ?case
    by (auto simp: forM_append andThen_Inr device_tick_rfb set_rfb_run rfb_in_def simp del: mult_Suc_right of_nat_mult)
qed


text \<open>
  C14: a frame is what target memory holds. From the start of a round, the ticks that read the blocks of
  the buffer leave the device ready for the next round with the bytes behind its address in the front
  buffer, whatever the buffers held before; memory and the other devices stay as they are. If the
  thread holds the lock at that moment nothing is sent; otherwise the client gets one update, the
  rectangle of the configured size followed by those bytes, and nothing else.
\<close>

theorem frame_is_sent:
  assumes "chunk_target h DMA k iv mem ok" and "iv (sv_target s)" and "rfb_in i r s" and "rfb_at ok n 0 r"
    and "rfb_fb2 r = Some fb" and "length fb = 256 * n"
  shows "\<exists>s'. forM [0..<n] (\<lambda>_. device_tick h os i) s = (Inr (), s') \<and> mem (sv_target s') = mem (sv_target s)
    \<and> rfb_in i (r\<lparr>rfb_fb1 := Some (get_range (mem (sv_target s)) (rfb_addr r) (256 * n)), rfb_fb2 := rfb_fb1 r\<rparr>) s'
    \<and> sv_env s' = (case os_try_client os (rfb_display r) (sv_env s) of
        (None, e) \<Rightarrow> e
      | (Some afd, e) \<Rightarrow> snd (os_write os afd (frame_header r @ get_range (mem (sv_target s)) (rfb_addr r) (256 * n)) e))"
proof -
  let ?M = "mem (sv_target s)"
  obtain j where n: "n = Suc j"
    using assms(4) by (cases n) (simp_all add: rfb_at_def)
  let ?r = "r\<lparr>rfb_fb2 := Some (get_range ?M (rfb_addr r) (256 * j) @ drop (256 * j) fb), rfb_read_pos := of_nat (256 * j)\<rparr>"
  let ?r' = "r\<lparr>rfb_fb1 := Some (get_range ?M (rfb_addr r) (256 * n)), rfb_fb2 := rfb_fb1 r\<rparr>"
  obtain s1 where s1: "forM [0..<j] (\<lambda>_. device_tick h os i) s = (Inr (), s1)" "iv (sv_target s1)"
      "mem (sv_target s1) = ?M" "sv_env s1 = sv_env s" "rfb_in i ?r s1"
    using ticks_of_round [OF assms, of j os] n by auto
  have at: "rfb_at ok n j ?r"
    using assms(4) n by (simp add: rfb_at_def fb_bytes_def)
  have len: "length (get_range ?M (rfb_addr r) (256 * j) @ drop (256 * j) fb) = 256 * n"
    using assms(6) n by simp
  have whole: "get_range ?M (rfb_addr r) (256 * n)
      = get_range ?M (rfb_addr r) (256 * j) @ get_range ?M (rfb_addr r + of_nat (256 * j)) 256"
    using get_range_add [of ?M "rfb_addr r" "256 * j" 256] n by (simp add: add.commute)
  have rest: "drop (256 * n) fb = []"
    using assms(6) by simp
  have r': "?r\<lparr>rfb_fb1 := Some (get_range ?M (rfb_addr r) (256 * n)), rfb_fb2 := rfb_fb1 ?r, rfb_read_pos := 0\<rparr> = ?r'"
    using assms(4) by (cases r) (simp add: rfb_at_def)
  obtain t where t: "mem t = ?M" "rfb_tick h os i (sv_devices s1 ! i) ?r s1
      = andThen (set_rfb i (sv_devices s1 ! i) ?r') (send_frame os ?r') (s1\<lparr>sv_target := t\<rparr>)"
    using rfb_tick_block [OF assms(1) s1(2) at _ len, of os i "sv_devices s1 ! i"] r' rest whole
    unfolding s1(3) Let_def by (auto simp: n simp del: mult_Suc_right of_nat_mult)
  have bytes: "take (unat (fb_bytes ?r')) (get_range ?M (rfb_addr r) (256 * n)) = get_range ?M (rfb_addr r) (256 * n)"
    using assms(4) by (simp add: rfb_at_def fb_bytes_def unat_of_nat del: of_nat_mult)
  have hd: "frame_header ?r' = frame_header r"
    by (simp add: frame_header_def)
  obtain c e where c: "os_try_client os (rfb_display r) (sv_env s) = (c, e)"
    by fastforce
  show ?thesis
    using s1 t bytes c
    by (cases c) (auto simp: n forM_append andThen_Inr device_tick_rfb set_rfb_run send_frame_def fb_update_def frame_message_def
        on_env_run bnd_Inr rfb_in_def hd [unfolded n] simp del: mult_Suc_right of_nat_mult)
qed

text \<open>A host that keeps what is written, with a client on descriptor 4; a buffer of 8 by 8 pixels.\<close>

definition frame_os :: "u8 list os_ops" where
  "frame_os = (idle_os 0)\<lparr>os_try_client := (\<lambda>_ e. (Some 4, e)), os_write := (\<lambda>_ bs e. (int (length bs), e @ bs))\<rparr>"

definition small_rfb :: rfb where
  "small_rfb = (rfb_init 0)\<lparr>rfb_memif := True, rfb_addr := 0x80000100, rfb_width := 8, rfb_height := 8, rfb_bpp := 32,
     rfb_fb1 := Some (replicate 256 1), rfb_fb2 := Some (replicate 256 2)\<rparr>"

definition frame_server :: "(memory, u8 list) server" where
  "frame_server = (server_on (\<lambda>_. 9) [])\<lparr>sv_devices := [\<lparr>dev_class = Rfb small_rfb, command_handlers = [], command_names = []\<rparr>]\<rparr>"

theorem frame_is_sent_witness:
  "\<exists>s'. forM [0..<1] (\<lambda>_. device_tick ideal frame_os 0) frame_server = (Inr (), s') \<and> sv_target s' = sv_target frame_server
    \<and> rfb_in 0 (small_rfb\<lparr>rfb_fb1 := Some (get_range (\<lambda>_. 9) 0x80000100 256), rfb_fb2 := Some (replicate 256 1)\<rparr>) s'
    \<and> sv_env s' = [0, 0, 0, 1, 0, 0, 0, 0, 0, 8, 0, 8, 0, 0, 0, 0] @ get_range (\<lambda>_. 9) 0x80000100 256"
proof -
  have b: "fb_bytes small_rfb = 256"
    by (simp add: fb_bytes_def small_rfb_def)
  have at: "rfb_at (\<lambda>_. True) 1 0 small_rfb"
    unfolding rfb_at_def b by (simp add: small_rfb_def rfb_init_def)
  have hd: "frame_header small_rfb = [0, 0, 0, 1, 0, 0, 0, 0, 0, 8, 0, 8, 0, 0, 0, 0]"
    by code_simp
  show ?thesis
    using frame_is_sent [OF ideal_is_chunk_target, where s = frame_server and i = 0 and r = small_rfb and n = 1
        and fb = "replicate 256 2" and os = frame_os] at hd
    by (simp add: frame_server_def server_on_def rfb_in_def frame_os_def) (simp add: small_rfb_def)
qed

end
