(* ===== verification/Rfb_Thread.thy ===== *)
theory Rfb_Thread
  imports Rfb_Frames "HOL-Library.While_Combinator"
begin

text \<open>
  The thread of the remote frame buffer, \<open>thread_main\<close> of \<open>rfb.cc\<close>, beside the server that ticks the
  device: a step relation of the two, and what a client sees of it.
\<close>

section \<open>Messages\<close>

definition rfb_version :: "u8 list" where
  "rfb_version = bytes_of ''RFB 003.003'' @ [10]"

text \<open>\<open>pixel_format\<close>; the loop rounds the bits of a pixel up to a power of two.\<close>

definition pixel_bits :: "int \<Rightarrow> int" where
  "pixel_bits bpp = while (\<lambda>b. b AND (b - 1) \<noteq> 0) (\<lambda>b. b + 1) bpp"

definition pixel_format :: "u8 list" where
  "pixel_format =
    (let red_bits = 8; green_bits = 8; blue_bits = 8; bpp = pixel_bits (red_bits + green_bits + blue_bits) in
     [of_int bpp] @ [of_int (red_bits + green_bits + blue_bits)] @ [0] @ [1]
     @ be16 (of_int (2 ^ nat red_bits - 1)) @ be16 (of_int (2 ^ nat green_bits - 1)) @ be16 (of_int (2 ^ nat blue_bits - 1))
     @ [of_int (blue_bits + green_bits)] @ [of_int blue_bits] @ [0] @ [0, 0] @ [0])"

definition server_init :: "rfb \<Rightarrow> u8 list" where
  "server_init r =
    be16 (rfb_width r) @ be16 (rfb_height r) @ pixel_format @ be32 (of_nat (length ''RISC-V'')) @ bytes_of ''RISC-V''"

section \<open>The thread\<close>

text \<open>
  Where the thread is: before \<open>pthread_mutex_lock\<close>, in the calls up to \<open>accept\<close>, at the version of the
  client, at its initialisation, waiting for an address, in the loop over its messages, in the rest
  of a list of encodings of so many bytes, before the second lock; an exception of the thread ends
  the process.
\<close>

datatype rfb_pc =
    T_start
  | T_connect
  | T_hello
  | T_init
  | T_waiting
  | T_serving
  | T_encodings nat
  | T_closing
  | T_dead

text \<open>
  What thread and server share: the lock, which only the thread holds from one step to the next, the
  descriptors, whether an address is set, and what was written to the client since it was accepted.
\<close>

record rfb_sys =
  ry_pc :: rfb_pc
  ry_locked :: bool
  ry_sockfd :: int
  ry_afd :: int
  ry_memif :: bool
  ry_out :: "u8 list list"

definition rfb_sys_init :: rfb_sys where
  "rfb_sys_init = \<lparr>ry_pc = T_start, ry_locked = False, ry_sockfd = - 1, ry_afd = - 1, ry_memif = False, ry_out = []\<rparr>"

text \<open>What the host answers to the calls of a step: nothing to wait for, two descriptors, a message, an error.\<close>

datatype rfb_input = Go | Accepted int int | Received "u8 list" | Failed

text \<open>\<open>set_pixel_format\<close>, \<open>set_encodings\<close> and the other messages; \<open>n\<close> is a \<open>uint16_t\<close>.\<close>

definition pixel_format_ok :: "u8 list \<Rightarrow> bool" where
  "pixel_format_ok s \<longleftrightarrow> length s = 20 \<and> take 16 (drop 4 s) = pixel_format"

definition encodings_bytes :: "u8 list \<Rightarrow> nat" where
  "encodings_bytes s = 4 + 4 * unat (ucast (s ! 2) * 256 + ucast (s ! 3) :: u16)"

definition serve_message :: "u8 list \<Rightarrow> rfb_pc" where
  "serve_message s =
    (if length s < 4 then T_closing
     else if s ! 0 = 0 then (if pixel_format_ok s then T_serving else T_dead)
     else if s ! 0 = 2 then
       (if length s < encodings_bytes s then T_encodings (encodings_bytes s - length s) else T_serving)
     else T_serving)"

text \<open>\<open>read\<close> takes a full buffer for a message that was cut off.\<close>

definition oversized :: "u8 list \<Rightarrow> bool" where
  "oversized s \<longleftrightarrow> 2048 \<le> length s"

fun thread_step :: "rfb \<Rightarrow> rfb_input \<Rightarrow> rfb_sys \<Rightarrow> rfb_sys option" where
  "thread_step r Go y = (case ry_pc y of
       T_start \<Rightarrow> if ry_locked y then None else Some (y\<lparr>ry_locked := True, ry_pc := T_connect\<rparr>)
     | T_waiting \<Rightarrow> Some (if ry_memif y then y\<lparr>ry_pc := T_serving\<rparr> else y)
     | T_closing \<Rightarrow> if ry_locked y then None else Some (y\<lparr>ry_afd := - 1, ry_sockfd := - 1, ry_pc := T_start\<rparr>)
     | _ \<Rightarrow> None)"
| "thread_step r (Accepted sfd fd) y = (case ry_pc y of
       T_connect \<Rightarrow> Some (if sfd < 0 \<or> fd < 0 then y\<lparr>ry_pc := T_dead\<rparr>
         else y\<lparr>ry_sockfd := sfd, ry_afd := fd, ry_out := [], ry_pc := T_hello\<rparr>)
     | _ \<Rightarrow> None)"
| "thread_step r (Received s) y = (case ry_pc y of
       T_hello \<Rightarrow> Some (if oversized s \<or> s \<noteq> rfb_version then y\<lparr>ry_pc := T_dead\<rparr>
         else y\<lparr>ry_out := ry_out y @ [rfb_version], ry_pc := T_init\<rparr>)
     | T_init \<Rightarrow> Some (if oversized s then y\<lparr>ry_pc := T_dead\<rparr>
         else y\<lparr>ry_out := ry_out y @ [be32 1, server_init r], ry_locked := False, ry_pc := T_waiting\<rparr>)
     | T_serving \<Rightarrow> Some (y\<lparr>ry_pc := (if oversized s then T_dead else serve_message s)\<rparr>)
     | T_encodings n \<Rightarrow> Some (y\<lparr>ry_pc := (if oversized s then T_dead
         else if length s < n then T_encodings (n - length s) else T_serving)\<rparr>)
     | _ \<Rightarrow> None)"
| "thread_step r Failed y = (case ry_pc y of
       T_start \<Rightarrow> None | T_waiting \<Rightarrow> None | T_closing \<Rightarrow> None | T_dead \<Rightarrow> None
     | _ \<Rightarrow> Some (y\<lparr>ry_pc := T_dead\<rparr>))"

section \<open>The two together\<close>

text \<open>
  A step of the thread; an address set by the target; a frame sent by a tick that got the lock, of
  which the client may get a part only, and which nobody gets when there is no client.
\<close>

inductive rfb_step :: "rfb \<Rightarrow> rfb_sys \<Rightarrow> rfb_sys \<Rightarrow> bool" for r where
  of_thread: "thread_step r i y = Some y' \<Longrightarrow> rfb_step r y y'"
| set_address: "ry_pc y \<noteq> T_dead \<Longrightarrow> rfb_step r y (y\<lparr>ry_memif := True\<rparr>)"
| frame_sent: "\<lbrakk>ry_pc y \<noteq> T_dead; \<not> ry_locked y; ry_afd y \<noteq> - 1\<rbrakk>
    \<Longrightarrow> rfb_step r y (y\<lparr>ry_out := ry_out y @ [take k (frame_message r fb)]\<rparr>)"
| frame_lost: "\<lbrakk>ry_pc y \<noteq> T_dead; \<not> ry_locked y\<rbrakk> \<Longrightarrow> rfb_step r y y"

inductive rfb_reachable :: "rfb \<Rightarrow> rfb_sys \<Rightarrow> bool" for r where
  at_start: "rfb_reachable r rfb_sys_init"
| after_step: "\<lbrakk>rfb_reachable r y; rfb_step r y y'\<rbrakk> \<Longrightarrow> rfb_reachable r y'"

inductive_simps dead_step: "rfb_step r (y\<lparr>ry_pc := T_dead\<rparr>) y'"

section \<open>What a client sees\<close>

definition handshake :: "rfb \<Rightarrow> u8 list list" where
  "handshake r = [rfb_version, be32 1, server_init r]"

definition frames_only :: "rfb \<Rightarrow> u8 list list \<Rightarrow> bool" where
  "frames_only r ms \<longleftrightarrow> (\<forall>m \<in> set ms. \<exists>fb k. m = take k (frame_message r fb))"

definition seen :: "rfb \<Rightarrow> u8 list list \<Rightarrow> bool" where
  "seen r out \<longleftrightarrow> (\<exists>ms. out = handshake r @ ms \<and> frames_only r ms)"

text \<open>The invariant: who holds the lock, whether there is a client, and how far its conversation is.\<close>

definition rfb_inv :: "rfb \<Rightarrow> rfb_sys \<Rightarrow> bool" where
  "rfb_inv r y \<longleftrightarrow> (case ry_pc y of
     T_start \<Rightarrow> \<not> ry_locked y \<and> ry_afd y = - 1
   | T_connect \<Rightarrow> ry_locked y
   | T_hello \<Rightarrow> ry_locked y \<and> ry_out y = []
   | T_init \<Rightarrow> ry_locked y \<and> ry_out y = [rfb_version]
   | T_dead \<Rightarrow> True
   | _ \<Rightarrow> \<not> ry_locked y \<and> seen r (ry_out y))"

lemma seen_frame: "seen r out \<Longrightarrow> seen r (out @ [take k (frame_message r fb)])"
proof -
  assume "seen r out"
  then obtain ms where "out = handshake r @ ms" "frames_only r ms"
    by (auto simp: seen_def)
  then have "out @ [take k (frame_message r fb)] = handshake r @ ms @ [take k (frame_message r fb)]"
    and "frames_only r (ms @ [take k (frame_message r fb)])"
    by (auto simp: frames_only_def)
  then show ?thesis
    unfolding seen_def by blast
qed

lemma seen_handshake: "seen r (handshake r)"
  by (auto simp: seen_def frames_only_def)

lemma thread_step_inv:
  assumes "rfb_inv r y" and "thread_step r i y = Some y'"
  shows "rfb_inv r y'"
  using assms seen_handshake [of r, unfolded handshake_def]
  by (cases i; cases "ry_pc y") (auto simp: rfb_inv_def serve_message_def split: if_splits)

lemma rfb_step_inv:
  assumes "rfb_step r y y'" and "rfb_inv r y"
  shows "rfb_inv r y'"
  using assms
proof (induction rule: rfb_step.induct)
  case (of_thread i y y')
  then show ?case
    using thread_step_inv by blast
next
  case (set_address y)
  then show ?case
    by (auto simp: rfb_inv_def split: rfb_pc.splits)
next
  case (frame_sent y k fb)
  then show ?case
    using seen_frame by (cases "ry_pc y") (auto simp: rfb_inv_def)
qed

lemma reachable_inv: "rfb_reachable r y \<Longrightarrow> rfb_inv r y"
proof (induction rule: rfb_reachable.induct)
  case at_start
  show ?case
    by (simp add: rfb_sys_init_def rfb_inv_def)
qed (rule rfb_step_inv)

text \<open>A thread that an exception has ended takes no step, and neither does the server.\<close>

lemma dead_stays: "\<not> rfb_step r (y\<lparr>ry_pc := T_dead\<rparr>) y'"
proof -
  have "thread_step r i (y\<lparr>ry_pc := T_dead\<rparr>) = None" for i
    by (cases i) simp_all
  then show ?thesis
    by (simp add: dead_step)
qed

lemma pixel_bits_24: "pixel_bits 24 = 32"
  by (simp add: pixel_bits_def while_unfold)

text \<open>
  C31: whatever the order in which the thread, the ticks and the commands of the target run, a client is
  sent the version, the security type and the server's initialisation, in this order and as one
  uninterrupted beginning, and after them nothing but frames, each possibly cut short by the
  network. A frame never reaches a client whose handshake is not over, and no client is served twice
  the beginning.
\<close>

theorem handshake_comes_first:
  assumes "rfb_reachable r y" and "ry_pc y \<noteq> T_dead" and "\<not> ry_locked y" and "ry_afd y \<noteq> - 1"
  shows "\<exists>ms. ry_out y = [rfb_version, be32 1, server_init r] @ ms
    \<and> (\<forall>m \<in> set ms. \<exists>fb k. m = take k (frame_header r @ take (unat (fb_bytes r)) fb))"
  using reachable_inv [OF assms(1)] assms(2-4)
  by (cases "ry_pc y") (auto simp: rfb_inv_def seen_def handshake_def frames_only_def frame_message_def)

definition greeted :: rfb_sys where
  "greeted = \<lparr>ry_pc = T_waiting, ry_locked = False, ry_sockfd = 3, ry_afd = 4, ry_memif = False,
     ry_out = handshake small_rfb\<rparr>"

lemma greeted_reachable: "rfb_reachable small_rfb greeted"
proof -
  let ?r = small_rfb and ?y0 = rfb_sys_init
  let ?y1 = "?y0\<lparr>ry_locked := True, ry_pc := T_connect\<rparr>"
  let ?y2 = "?y1\<lparr>ry_sockfd := 3, ry_afd := 4, ry_pc := T_hello\<rparr>"
  let ?y3 = "?y2\<lparr>ry_out := [rfb_version], ry_pc := T_init\<rparr>"
  have "thread_step ?r Go ?y0 = Some ?y1" "thread_step ?r (Accepted 3 4) ?y1 = Some ?y2"
    "thread_step ?r (Received rfb_version) ?y2 = Some ?y3" "thread_step ?r (Received [1]) ?y3 = Some greeted"
    by (simp_all add: rfb_sys_init_def greeted_def handshake_def oversized_def rfb_version_def)
  then show ?thesis
    by (meson at_start after_step of_thread)
qed

theorem handshake_comes_first_witness:
  "\<exists>ms. [rfb_version, be32 1, server_init small_rfb] = [rfb_version, be32 1, server_init small_rfb] @ ms
    \<and> (\<forall>m \<in> set ms. \<exists>fb k. m = take k (frame_header small_rfb @ take (unat (fb_bytes small_rfb)) fb))"
  using handshake_comes_first [OF greeted_reachable] by (simp add: greeted_def handshake_def)

end
