(* ===== verification/Server_Setup.thy ===== *)
theory Server_Setup
  imports Boot_Options Device_Types
begin

text \<open>
  The constructor of \<open>htif_t\<close>: the objects it owns, the command line, the devices that options of the
  host add, their registration, and the state in which the boot steps and the loop find the server.
\<close>

section \<open>The proxy\<close>

definition construct :: "fault + 'a \<Rightarrow> ('s, 'a) prog" where
  "construct r = (case r of Inl e \<Rightarrow> raise e | Inr x \<Rightarrow> ret x)"

text \<open>
  The constructor of \<open>syscall_t\<close>. Whether the console found its debugger, and on which socket, is the
  pair \<open>console\<close>.
\<close>

definition syscall_new :: "'e os_ops \<Rightarrow> bool \<times> int \<Rightarrow> ('t, 'e, device) sprog" where
  "syscall_new os console =
    bnd (construct syscall_device) (\<lambda>d.
    bnd (on_env (os_dup os 0)) (\<lambda>stdin_fd.
    bnd (on_env (os_dup os 1)) (\<lambda>stdout_fd0.
    bnd (on_env (os_dup os 1)) (\<lambda>stdout_fd1.
    andThen (if stdin_fd < 0 \<or> stdout_fd0 < 0 \<or> stdout_fd1 < 0
             then raise (Runtime_error ''could not dup stdin/stdout'') else ret ())
    (andThen (forM [stdin_fd, stdout_fd0, stdout_fd1] (\<lambda>fd. bnd (fds_alloc fd) (\<lambda>_. ret ())))
    (andThen (modS (\<lambda>s. s\<lparr>sv_has_socket := fst console, sv_sock := snd console\<rparr>)) (ret d)))))))"

section \<open>Options of the host\<close>

definition begins_with :: "string \<Rightarrow> string \<Rightarrow> bool" where
  "begins_with p a \<longleftrightarrow> take (length p) a = p"

definition PATH_MAX :: nat where "PATH_MAX = 4096"

text \<open>One host argument: the devices it adds.\<close>

definition host_arg :: "'e os_ops \<Rightarrow> host_stat \<Rightarrow> string \<Rightarrow> ('t, 'e, device list) hprog" where
  "host_arg os st0 a =
    (if a = ''+rfb'' then bnd (construct (rfb_device 0)) (\<lambda>d. ret [d])
     else if begins_with ''+rfb='' a then bnd (construct (rfb_device (atoi (drop 5 a)))) (\<lambda>d. ret [d])
     else if begins_with ''+disk='' a then bnd (on_server (disk_new os st0 (drop 6 a))) (\<lambda>d. ret [d])
     else if begins_with ''+signature='' a then andThen (modS (\<lambda>s. s\<lparr>ht_sig_file := drop 11 a\<rparr>)) (ret [])
     else if begins_with ''+chroot='' a then andThen (on_server (set_chroot os PATH_MAX (drop 8 a))) (ret [])
     else ret [])"

section \<open>The constructor\<close>

text \<open>
  The members with their initialisers, the ones the body fills in being empty; \<open>cnt\<close> is the member that
  nothing initialises.
\<close>

definition htif_members :: "int \<Rightarrow> 't \<Rightarrow> 'e \<Rightarrow> ('t, 'e) htif" where
  "htif_members cnt t e =
    \<lparr>ht_server = \<lparr>sv_target = t, sv_env = e, sv_exitcode = 0, sv_fromhost_queue = [], sv_devices = [],
       sv_num_devices = 0, sv_chroot = [], sv_fds = [], sv_symbols = [], sv_targs = [], sv_has_socket = False,
       sv_sock = 0, sv_snap_count = 0, sv_vfile = []\<rparr>,
     ht_argmap = [], ht_hargs = [], ht_entry = 0x80000000, ht_path = [], ht_tohost_addr = - 1, ht_fromhost_addr = 0,
     ht_program_symbols = [], ht_symbols_s = [], ht_program_symbols_s = [], ht_addr_to_symbols = [],
     ht_addr_to_program_symbols = [], ht_sig_file = [], ht_sig_addr = 0, ht_sig_len = 0, ht_signature = None,
     ht_stopped = False, ht_snap_period = 0, ht_snap_initial = 0, ht_debug_interrupt = True, ht_count = cnt\<rparr>"

definition htif_new ::
    "'e os_ops \<Rightarrow> host_stat \<Rightarrow> bool \<times> int \<Rightarrow> string list \<Rightarrow> string list \<Rightarrow> ('t, 'e, unit) hprog" where
  "htif_new os st0 console keys args =
    bnd (construct null_device) (\<lambda>null.
    andThen (modS (\<lambda>s. s\<lparr>ht_server := (ht_server s)\<lparr>sv_devices := device_list_init null\<rparr>\<rparr>))
    (bnd (on_server (syscall_new os console)) (\<lambda>syscall_proxy.
    bnd (construct bcd_device) (\<lambda>bcd.
    let argmap = parse_args args (initial_argmap keys) in
    andThen (modS (\<lambda>s. s\<lparr>ht_argmap := argmap, ht_hargs := args,
        ht_server := (ht_server s)\<lparr>sv_targs := target_args argmap\<rparr>\<rparr>))
    (bnd (mapM (host_arg os st0) args) (\<lambda>dynamic_devices.
    andThen (on_server (forM (syscall_proxy # bcd # concat dynamic_devices) register_device))
      read_snap_args))))))"

section \<open>The devices\<close>

definition handlers_of :: "(nat \<times> handler \<times> string) list \<Rightarrow> handler list" where
  "handlers_of regs = fold (\<lambda>(c, x, _) hs. hs[c := x]) regs ((replicate 256 H_null)[255 := H_identify])"

lemma make_device_built:
  assumes "\<forall>(cmd, hnd, name) \<in> set regs. cmd < 256 \<and> length (c_str name) < 64"
  shows "\<exists>nms. make_device c regs = Inr \<lparr>dev_class = c, command_handlers = handlers_of regs, command_names = nms\<rparr>"
proof -
  have "\<exists>nms. forM regs (\<lambda>(cmd, hnd, name). register_command cmd hnd name) d
      = (Inr (), \<lparr>dev_class = dev_class d,
          command_handlers = fold (\<lambda>(c, x, _) hs. hs[c := x]) regs (command_handlers d), command_names = nms\<rparr>)" for d
    using assms
  proof (induction regs arbitrary: d)
    case Nil
    show ?case by (intro exI [of _ "command_names d"]) simp
  next
    case (Cons r regs)
    obtain cmd hnd name where r: "r = (cmd, hnd, name)" by (cases r)
    let ?d = "d\<lparr>command_handlers := (command_handlers d)[cmd := hnd],
        command_names := (command_names d)[cmd := c_str name]\<rparr>"
    have "register_command cmd hnd name d = (Inr (), ?d)"
      using Cons.prems r by (simp add: register_command_def MAX_COMMANDS_def IDENTITY_SIZE_def andThen_Inr)
    then show ?case
      using Cons.IH [of ?d] Cons.prems r by (auto simp: andThen_Inr)
  qed
  from this [of "\<lparr>dev_class = c, command_handlers = (replicate 256 H_null)[255 := H_identify],
      command_names = (replicate 256 [])[255 := ''identity'']\<rparr>"] show ?thesis
    unfolding make_device_def andThen_Inr [where m = device_init, OF device_init_run]
    by (auto simp: handlers_of_def split: prod.split)
qed

lemma built_devices:
  "\<exists>nms. syscall_device = Inr \<lparr>dev_class = Syscall_proxy, command_handlers = handlers_of [(0, H_syscall, '''')],
     command_names = nms\<rparr>"
  "\<exists>nms. bcd_device = Inr \<lparr>dev_class = Bcd [], command_handlers = handlers_of [(0, H_bcd_read, ''''), (1, H_bcd_write, '''')],
     command_names = nms\<rparr>"
  "\<exists>nms. rfb_device n = Inr \<lparr>dev_class = Rfb (rfb_init n),
     command_handlers = handlers_of [(0, H_rfb_configure, ''''), (1, H_rfb_set_address, '''')], command_names = nms\<rparr>"
  "\<exists>nms. null_device = Inr \<lparr>dev_class = Null_device, command_handlers = handlers_of [], command_names = nms\<rparr>"
  using make_device_built [of "[(0, H_syscall, ''syscall'')]" Syscall_proxy]
    make_device_built [of "[(0, H_bcd_read, ''read''), (1, H_bcd_write, ''write'')]" "Bcd []"]
    make_device_built [of "[(0, H_rfb_configure, ''configure''), (1, H_rfb_set_address, ''set_address'')]" "Rfb (rfb_init n)"]
    make_device_built [of "[]" Null_device]
  by (simp_all add: syscall_device_def bcd_device_def rfb_device_def null_device_def c_str_def handlers_of_def)


lemma register_devices:
  assumes "sv_num_devices s = n" and "n + length ds < 256" and "length (sv_devices s) = 256"
  shows "forM ds register_device s = (Inr (), s\<lparr>sv_num_devices := n + length ds,
      sv_devices := take n (sv_devices s) @ ds @ drop (n + length ds) (sv_devices s)\<rparr>)"
  using assms
proof (induction ds arbitrary: n s)
  case (Cons d ds)
  let ?s = "s\<lparr>sv_num_devices := Suc n, sv_devices := (sv_devices s)[n := d]\<rparr>"
  have "register_device d s = (Inr (), ?s)"
    using Cons.prems by (simp add: register_device_def MAX_DEVICES_def set_device_def andThen_Inr bnd_getS)
  moreover have "take (Suc n) ((sv_devices s)[n := d]) = take n (sv_devices s) @ [d]"
    using Cons.prems by (simp add: take_Suc_conv_app_nth)
  ultimately show ?case
    using Cons.IH [of ?s "Suc n"] Cons.prems by (simp add: andThen_Inr)
qed simp

section \<open>A server that is ready\<close>

text \<open>The arguments that neither open a disk nor change the root, and the displays they ask for.\<close>

definition plain_arg :: "string \<Rightarrow> bool" where
  "plain_arg a \<longleftrightarrow> \<not> begins_with ''+disk='' a \<and> \<not> begins_with ''+chroot='' a"

definition display_of :: "string \<Rightarrow> int list" where
  "display_of a =
    (if a = ''+rfb'' then [0] else if begins_with ''+rfb='' a then [atoi (drop 5 a)] else [])"

definition rfb_built :: "int \<Rightarrow> device" where
  "rfb_built n = built (rfb_device n)"

lemma construct_built: "r = Inr d \<Longrightarrow> construct r = ret (built r)"
  by (simp add: construct_def built_def)

lemma host_arg_plain:
  assumes "plain_arg a"
  shows "\<exists>f. host_arg os st0 a s = (Inr (map rfb_built (display_of a)), s\<lparr>ht_sig_file := f\<rparr>)"
proof -
  have c: "construct (rfb_device n) = ret (rfb_built n)" for n
    using built_devices(3) [of n] construct_built unfolding rfb_built_def by blast
  show ?thesis
    using assms
    by (auto simp: host_arg_def display_of_def plain_arg_def c andThen_modS intro: exI [of _ "ht_sig_file s"])
qed

lemma host_args_plain:
  assumes "\<forall>a \<in> set args. plain_arg a"
  shows "\<exists>f. mapM (host_arg os st0) args s = (Inr (map (\<lambda>a. map rfb_built (display_of a)) args), s\<lparr>ht_sig_file := f\<rparr>)"
  using assms
proof (induction args arbitrary: s)
  case Nil
  show ?case
    by (intro exI [of _ "ht_sig_file s"]) simp
next
  case (Cons a args)
  obtain f where "host_arg os st0 a s = (Inr (map rfb_built (display_of a)), s\<lparr>ht_sig_file := f\<rparr>)"
    using host_arg_plain Cons.prems by fastforce
  then show ?case
    using Cons.IH [of "s\<lparr>ht_sig_file := f\<rparr>"] Cons.prems by (auto simp: bnd_Inr)
qed

lemma syscall_new_run:
  assumes "os_dup os 0 (sv_env s) = (i, e1)" and "os_dup os 1 e1 = (o0, e2)" and "os_dup os 1 e2 = (o1, e3)"
    and "0 \<le> i" and "0 \<le> o0" and "0 \<le> o1" and "sv_fds s = []"
  shows "syscall_new os console s = (Inr (built syscall_device),
    s\<lparr>sv_env := e3, sv_fds := [i, o0, o1], sv_has_socket := fst console, sv_sock := snd console\<rparr>)"
proof -
  have c: "construct syscall_device = ret (built syscall_device)"
    using built_devices(1) construct_built by blast
  show ?thesis
    using assms by (simp add: syscall_new_def c bnd_Inr on_env_run andThen_Inr andThen_modS fds_alloc_def bnd_getS Let_def)
qed


lemma snap_args_absent:
  assumes "arg_of s ''snap_period='' = []" and "arg_of s ''snap_initial='' = []"
  shows "read_snap_args s = (Inr (), s\<lparr>ht_snap_period := 0, ht_snap_initial := 0\<rparr>)"
proof -
  have "number_arg k s = (Inr 0, s)" if "arg_of s k = []" for k and s :: "('a, 'b) htif"
    using that by (simp add: number_arg_def arg_def bnd_getS)
  moreover have "arg_of (s\<lparr>ht_snap_period := 0\<rparr>) k = arg_of s k" for k
    by (simp add: arg_of_def)
  ultimately show ?thesis
    using assms by (simp add: read_snap_args_def bnd_Inr andThen_modS)
qed

lemma built_Inr: "r = Inr d \<Longrightarrow> built r = d"
  by (simp add: built_def)

lemma built_classes:
  "dev_class (built syscall_device) = Syscall_proxy" "dev_class (built bcd_device) = Bcd []"
  "dev_class (rfb_built n) = Rfb (rfb_init n)" "command_handlers (built syscall_device) ! 0 = H_syscall"
  using built_devices(1,2) built_devices(3) [of n] unfolding rfb_built_def
  by (auto dest!: built_Inr simp: handlers_of_def)

text \<open>The devices in the order of their registration, and the rest of the list.\<close>

definition owned_devices :: "string list \<Rightarrow> device list" where
  "owned_devices args = built syscall_device # built bcd_device # map rfb_built (concat (map display_of args))"

definition device_table :: "string list \<Rightarrow> device list" where
  "device_table args = owned_devices args @ replicate (256 - length (owned_devices args)) (built null_device)"

lemma built_wf: "\<exists>d. r = Inr d \<and> device_wf d \<Longrightarrow> device_wf (built r)"
  by (auto simp: built_def)

lemma owned_classes:
  "map dev_class (owned_devices args) = Syscall_proxy # Bcd [] # map (\<lambda>n. Rfb (rfb_init n)) (concat (map display_of args))"
  by (simp add: owned_devices_def built_classes)

lemma device_table_wf:
  assumes "length (owned_devices args) < 256"
  shows "length (device_table args) = 256" and "\<forall>d \<in> set (device_table args). device_wf d"
    and "command_handlers (device_table args ! 0) ! 0 = H_syscall"
  using assms built_wf [OF constructed_devices(1)] built_wf [OF constructed_devices(2)]
    built_wf [OF constructed_devices(4)] built_wf [OF constructed_devices(5)]
  by (auto simp: device_table_def owned_devices_def rfb_built_def built_classes)

lemma table_quiet:
  assumes "i < length (owned_devices args)"
  shows "quiet_device (device_table args ! i)"
proof -
  have "dev_class (device_table args ! i) = map dev_class (owned_devices args) ! i"
    using assms by (simp add: device_table_def nth_append)
  also have "\<dots> \<in> set (map dev_class (owned_devices args))"
    using assms by (intro nth_mem) simp
  also have "\<dots> \<subseteq> {Syscall_proxy, Bcd []} \<union> range (\<lambda>n. Rfb (rfb_init n))"
    unfolding owned_classes by auto
  finally show ?thesis
    by (auto simp: quiet_device_def rfb_init_def)
qed

lemma htif_new_run:
  fixes t :: 't and e :: 'e
  assumes "\<forall>a \<in> set args. plain_arg a" and "length (owned_devices args) < 256"
    and "os_dup os 0 e = (i, e1)" and "os_dup os 1 e1 = (o0, e2)" and "os_dup os 1 e2 = (o1, e3)"
    and "0 \<le> i" and "0 \<le> o0" and "0 \<le> o1"
    and "arg_of (htif_members cnt t e\<lparr>ht_argmap := parse_args args (initial_argmap keys)\<rparr>) ''snap_period='' = []"
    and "arg_of (htif_members cnt t e\<lparr>ht_argmap := parse_args args (initial_argmap keys)\<rparr>) ''snap_initial='' = []"
  shows "\<exists>f. htif_new os st0 console keys args (htif_members cnt t e) = (Inr (),
    (htif_members cnt t e)\<lparr>ht_argmap := parse_args args (initial_argmap keys), ht_hargs := args, ht_sig_file := f,
      ht_server := (ht_server (htif_members cnt t e))\<lparr>sv_env := e3, sv_fds := [i, o0, o1],
        sv_targs := target_args (parse_args args (initial_argmap keys)), sv_has_socket := fst console,
        sv_sock := snd console, sv_devices := device_table args, sv_num_devices := length (owned_devices args)\<rparr>\<rparr>)"
proof -
  let ?m = "parse_args args (initial_argmap keys)" and ?s0 = "htif_members cnt t e"
  have null: "construct null_device = ret (built null_device)" and bcd: "construct bcd_device = ret (built bcd_device)"
    using built_devices(2,4) construct_built by blast+
  let ?sv1 = "(ht_server ?s0)\<lparr>sv_devices := device_list_init (built null_device)\<rparr>"
  let ?sv2 = "?sv1\<lparr>sv_env := e3, sv_fds := [i, o0, o1], sv_has_socket := fst console, sv_sock := snd console\<rparr>"
  let ?s3 = "?s0\<lparr>ht_argmap := ?m, ht_hargs := args, ht_server := ?sv2\<lparr>sv_targs := target_args ?m\<rparr>\<rparr>"
  have proxy: "syscall_new os console ?sv1 = (Inr (built syscall_device), ?sv2)"
    using assms(3-8) by (intro syscall_new_run) (simp_all add: htif_members_def)
  obtain f where dyn: "mapM (host_arg os st0) args ?s3
      = (Inr (map (\<lambda>a. map rfb_built (display_of a)) args), ?s3\<lparr>ht_sig_file := f\<rparr>)"
    using host_args_plain [OF assms(1)] by blast
  let ?ds = "owned_devices args" and ?sv3 = "?sv2\<lparr>sv_targs := target_args ?m\<rparr>"
  have ds: "built syscall_device # built bcd_device # concat (map (\<lambda>a. map rfb_built (display_of a)) args) = ?ds"
    by (simp add: owned_devices_def map_concat comp_def)
  have reg: "forM ?ds register_device ?sv3 = (Inr (), ?sv3\<lparr>sv_num_devices := length ?ds, sv_devices := device_table args\<rparr>)"
    using register_devices [of ?sv3 0 ?ds] assms(2)
    by (simp add: htif_members_def device_list_init_def MAX_COMMANDS_def device_table_def)
  have snap: "read_snap_args (?s3\<lparr>ht_sig_file := f, ht_server := ?sv3\<lparr>sv_num_devices := length ?ds, sv_devices := device_table args\<rparr>\<rparr>)
      = (Inr (), ?s3\<lparr>ht_sig_file := f, ht_server := ?sv3\<lparr>sv_num_devices := length ?ds, sv_devices := device_table args\<rparr>,
          ht_snap_period := 0, ht_snap_initial := 0\<rparr>)"
    using assms(9,10) by (intro snap_args_absent) (simp_all add: arg_of_def)
  show ?thesis
    unfolding htif_new_def null bcd Let_def
    using proxy dyn reg snap
    by (intro exI [of _ f]) (simp add: bnd_Inr andThen_Inr andThen_modS on_server_def htif_members_def ds comp_def
        del: forM.simps)
qed

text \<open>
  C28: the constructor leaves a server that is ready to serve. When the three descriptors can be duplicated,
  no argument opens a disk, changes the root or sets a snapshot, and there is room for the frame
  buffers, it returns: the arguments are those of the command line, the program gets its own, the
  descriptors 0, 1 and 2 of the target are the duplicates, the system calls are device 0, the terminal
  is device 1 and the frame buffers follow in the order of their options; the list of devices is
  well-formed, none has anything to do, and no exit is pending.
\<close>

theorem server_is_ready:
  fixes t :: 't and e :: 'e
  assumes "\<forall>a \<in> set args. plain_arg a" and "length (concat (map display_of args)) < 254"
    and "os_dup os 0 e = (i, e1)" and "os_dup os 1 e1 = (o0, e2)" and "os_dup os 1 e2 = (o1, e3)"
    and "0 \<le> i" and "0 \<le> o0" and "0 \<le> o1"
    and "smap_get (parse_args args (initial_argmap keys)) ''snap_period='' \<in> {None, Some []}"
    and "smap_get (parse_args args (initial_argmap keys)) ''snap_initial='' \<in> {None, Some []}"
  shows "\<exists>s. htif_new os st0 console keys args (htif_members cnt t e) = (Inr (), s)
    \<and> ht_argmap s = parse_args args (initial_argmap keys) \<and> sv_targs (ht_server s) = target_args (ht_argmap s)
    \<and> target_of s = t \<and> sv_fds (ht_server s) = [i, o0, o1]
    \<and> map dev_class (take (sv_num_devices (ht_server s)) (sv_devices (ht_server s)))
        = Syscall_proxy # Bcd [] # map (\<lambda>n. Rfb (rfb_init n)) (concat (map display_of args))
    \<and> devices_wf (ht_server s) \<and> proxy_first (ht_server s) \<and> quiet_devices (ht_server s)
    \<and> sv_exitcode (ht_server s) = 0"
proof -
  have len: "length (owned_devices args) < 256"
    using assms(2) by (simp add: owned_devices_def)
  let ?m = "htif_members cnt t e\<lparr>ht_argmap := parse_args args (initial_argmap keys)\<rparr>"
  have "arg_of ?m ''snap_period='' = []" and "arg_of ?m ''snap_initial='' = []"
    using assms(9,10) by (auto simp: arg_of_def)
  then obtain f where "htif_new os st0 console keys args (htif_members cnt t e) = (Inr (),
    (htif_members cnt t e)\<lparr>ht_argmap := parse_args args (initial_argmap keys), ht_hargs := args, ht_sig_file := f,
      ht_server := (ht_server (htif_members cnt t e))\<lparr>sv_env := e3, sv_fds := [i, o0, o1],
        sv_targs := target_args (parse_args args (initial_argmap keys)), sv_has_socket := fst console,
        sv_sock := snd console, sv_devices := device_table args, sv_num_devices := length (owned_devices args)\<rparr>\<rparr>)"
    using htif_new_run [OF assms(1) len assms(3-8), where cnt = cnt and t = t and keys = keys and ?st0.0 = st0
        and console = console] by auto
  moreover have "take (length (owned_devices args)) (device_table args) = owned_devices args"
    by (simp add: device_table_def)
  moreover have "device_table args \<noteq> []"
    by (simp add: device_table_def owned_devices_def)
  ultimately show ?thesis
    using len device_table_wf [OF len] table_quiet owned_classes [of args]
    by (auto simp: htif_members_def target_of_def devices_wf_def proxy_first_def quiet_devices_def)
qed

text \<open>A host on which only descriptors can be duplicated.\<close>

definition dup_os :: "unit os_ops" where
  "dup_os = (idle_os 0)\<lparr>os_dup := (\<lambda>fd e. (fd + 3, e))\<rparr>"

theorem server_is_ready_witness:
  "\<exists>s. htif_new dup_os empty_stat (False, 0) [''load_pk'', ''snap_period=''] [''+rfb=1'', ''++load_pk'', ''++a.elf'']
      (htif_members 0 (\<lambda>_. 7 :: u8) ()) = (Inr (), s)
    \<and> ht_argmap s = parse_args [''+rfb=1'', ''++load_pk'', ''++a.elf''] (initial_argmap [''load_pk'', ''snap_period=''])
    \<and> sv_targs (ht_server s) = target_args (ht_argmap s)
    \<and> target_of s = (\<lambda>_. 7) \<and> sv_fds (ht_server s) = [3, 4, 4]
    \<and> map dev_class (take (sv_num_devices (ht_server s)) (sv_devices (ht_server s)))
        = Syscall_proxy # Bcd [] # map (\<lambda>n. Rfb (rfb_init n)) (concat (map display_of [''+rfb=1'', ''++load_pk'', ''++a.elf'']))
    \<and> devices_wf (ht_server s) \<and> proxy_first (ht_server s) \<and> quiet_devices (ht_server s)
    \<and> sv_exitcode (ht_server s) = 0"
proof (rule server_is_ready)
  show "\<forall>a \<in> set [''+rfb=1'', ''++load_pk'', ''++a.elf'']. plain_arg a"
    by (simp add: plain_arg_def begins_with_def)
  show "length (concat (map display_of [''+rfb=1'', ''++load_pk'', ''++a.elf''])) < 254"
    by (simp add: display_of_def begins_with_def)
  show "smap_get (parse_args [''+rfb=1'', ''++load_pk'', ''++a.elf''] (initial_argmap [''load_pk'', ''snap_period=''])) ''snap_period='' \<in> {None, Some []}"
    "smap_get (parse_args [''+rfb=1'', ''++load_pk'', ''++a.elf''] (initial_argmap [''load_pk'', ''snap_period=''])) ''snap_initial='' \<in> {None, Some []}"
    by code_simp+
qed (simp_all add: dup_os_def)

end
