(* ===== verification/Debug_Regs.thy ===== *)
theory Debug_Regs
  imports Stations
begin

text \<open>
  The registers of core 0 that \<open>debug-socket.c\<close> knows by name: their addresses, from
  \<open>src/subproj/es1y/rtl_gen/station_vp.h\<close>, and the table \<open>debug_map\<close> of their names.
\<close>

section \<open>Addresses\<close>

named_theorems debug_defs \<open>the values of the addresses and the parts of the table\<close>

definition STATION_VP_IC_DATA_WAY_1_ADDR_0 :: u64 where [debug_defs]:
  "STATION_VP_IC_DATA_WAY_1_ADDR_0 = 0x102000"

definition STATION_VP_IBUF_LINE_DATA_ADDR_0__DEPTH_1 :: u64 where [debug_defs]:
  "STATION_VP_IBUF_LINE_DATA_ADDR_0__DEPTH_1 = 0x106020"

definition STATION_VP_S2B_CFG_ITB_SEL_ADDR_0 :: u64 where [debug_defs]:
  "STATION_VP_S2B_CFG_ITB_SEL_ADDR_0 = 0x100008"

definition STATION_VP_IBUF_LINE_PADDR_ADDR_0__DEPTH_1 :: u64 where [debug_defs]:
  "STATION_VP_IBUF_LINE_PADDR_ADDR_0__DEPTH_1 = 0x100068"

definition STATION_VP_IBUF_LINE_EXCP_CAUSE_ADDR_0__DEPTH_0 :: u64 where [debug_defs]:
  "STATION_VP_IBUF_LINE_EXCP_CAUSE_ADDR_0__DEPTH_0 = 0x100070"

definition STATION_VP_ITLB_ASID_ADDR_0__DEPTH_0 :: u64 where [debug_defs]:
  "STATION_VP_ITLB_ASID_ADDR_0__DEPTH_0 = 0x100080"

definition STATION_VP_ITLB_ASID_ADDR_0__DEPTH_1 :: u64 where [debug_defs]:
  "STATION_VP_ITLB_ASID_ADDR_0__DEPTH_1 = 0x100088"

definition STATION_VP_ITLB_ASID_ADDR_0__DEPTH_2 :: u64 where [debug_defs]:
  "STATION_VP_ITLB_ASID_ADDR_0__DEPTH_2 = 0x100090"

definition STATION_VP_ITLB_ASID_ADDR_0__DEPTH_3 :: u64 where [debug_defs]:
  "STATION_VP_ITLB_ASID_ADDR_0__DEPTH_3 = 0x100098"

definition STATION_VP_ITLB_ASID_ADDR_0__DEPTH_4 :: u64 where [debug_defs]:
  "STATION_VP_ITLB_ASID_ADDR_0__DEPTH_4 = 0x1000a0"

definition STATION_VP_ITLB_ASID_ADDR_0__DEPTH_5 :: u64 where [debug_defs]:
  "STATION_VP_ITLB_ASID_ADDR_0__DEPTH_5 = 0x1000a8"

definition STATION_VP_ITLB_ASID_ADDR_0__DEPTH_6 :: u64 where [debug_defs]:
  "STATION_VP_ITLB_ASID_ADDR_0__DEPTH_6 = 0x1000b0"

definition STATION_VP_ITLB_ASID_ADDR_0__DEPTH_7 :: u64 where [debug_defs]:
  "STATION_VP_ITLB_ASID_ADDR_0__DEPTH_7 = 0x1000b8"

definition STATION_VP_ITLB_VPN_ADDR_0__DEPTH_0 :: u64 where [debug_defs]:
  "STATION_VP_ITLB_VPN_ADDR_0__DEPTH_0 = 0x1000c0"

definition STATION_VP_ITLB_VPN_ADDR_0__DEPTH_1 :: u64 where [debug_defs]:
  "STATION_VP_ITLB_VPN_ADDR_0__DEPTH_1 = 0x1000c8"

definition STATION_VP_ITLB_VPN_ADDR_0__DEPTH_2 :: u64 where [debug_defs]:
  "STATION_VP_ITLB_VPN_ADDR_0__DEPTH_2 = 0x1000d0"

definition STATION_VP_ITLB_VPN_ADDR_0__DEPTH_3 :: u64 where [debug_defs]:
  "STATION_VP_ITLB_VPN_ADDR_0__DEPTH_3 = 0x1000d8"

definition STATION_VP_ITLB_VPN_ADDR_0__DEPTH_4 :: u64 where [debug_defs]:
  "STATION_VP_ITLB_VPN_ADDR_0__DEPTH_4 = 0x1000e0"

definition STATION_VP_ITLB_VPN_ADDR_0__DEPTH_5 :: u64 where [debug_defs]:
  "STATION_VP_ITLB_VPN_ADDR_0__DEPTH_5 = 0x1000e8"

definition STATION_VP_ITLB_VPN_ADDR_0__DEPTH_6 :: u64 where [debug_defs]:
  "STATION_VP_ITLB_VPN_ADDR_0__DEPTH_6 = 0x1000f0"

definition STATION_VP_ITLB_VPN_ADDR_0__DEPTH_7 :: u64 where [debug_defs]:
  "STATION_VP_ITLB_VPN_ADDR_0__DEPTH_7 = 0x1000f8"

definition STATION_VP_ITLB_PTE_ADDR_0__DEPTH_0 :: u64 where [debug_defs]:
  "STATION_VP_ITLB_PTE_ADDR_0__DEPTH_0 = 0x100100"

definition STATION_VP_ITLB_PTE_ADDR_0__DEPTH_1 :: u64 where [debug_defs]:
  "STATION_VP_ITLB_PTE_ADDR_0__DEPTH_1 = 0x100108"

definition STATION_VP_ITLB_PTE_ADDR_0__DEPTH_2 :: u64 where [debug_defs]:
  "STATION_VP_ITLB_PTE_ADDR_0__DEPTH_2 = 0x100110"

definition STATION_VP_ITLB_PTE_ADDR_0__DEPTH_3 :: u64 where [debug_defs]:
  "STATION_VP_ITLB_PTE_ADDR_0__DEPTH_3 = 0x100118"

definition STATION_VP_ITLB_PTE_ADDR_0__DEPTH_4 :: u64 where [debug_defs]:
  "STATION_VP_ITLB_PTE_ADDR_0__DEPTH_4 = 0x100120"

definition STATION_VP_ITLB_PTE_ADDR_0__DEPTH_5 :: u64 where [debug_defs]:
  "STATION_VP_ITLB_PTE_ADDR_0__DEPTH_5 = 0x100128"

definition STATION_VP_ITLB_PTE_ADDR_0__DEPTH_6 :: u64 where [debug_defs]:
  "STATION_VP_ITLB_PTE_ADDR_0__DEPTH_6 = 0x100130"

definition STATION_VP_ITLB_PTE_ADDR_0__DEPTH_7 :: u64 where [debug_defs]:
  "STATION_VP_ITLB_PTE_ADDR_0__DEPTH_7 = 0x100138"

definition STATION_VP_DTLB_ASID_ADDR_0__DEPTH_0 :: u64 where [debug_defs]:
  "STATION_VP_DTLB_ASID_ADDR_0__DEPTH_0 = 0x100140"

definition STATION_VP_DTLB_ASID_ADDR_0__DEPTH_1 :: u64 where [debug_defs]:
  "STATION_VP_DTLB_ASID_ADDR_0__DEPTH_1 = 0x100148"

definition STATION_VP_DTLB_ASID_ADDR_0__DEPTH_2 :: u64 where [debug_defs]:
  "STATION_VP_DTLB_ASID_ADDR_0__DEPTH_2 = 0x100150"

definition STATION_VP_DTLB_ASID_ADDR_0__DEPTH_3 :: u64 where [debug_defs]:
  "STATION_VP_DTLB_ASID_ADDR_0__DEPTH_3 = 0x100158"

definition STATION_VP_DTLB_ASID_ADDR_0__DEPTH_4 :: u64 where [debug_defs]:
  "STATION_VP_DTLB_ASID_ADDR_0__DEPTH_4 = 0x100160"

definition STATION_VP_DTLB_ASID_ADDR_0__DEPTH_5 :: u64 where [debug_defs]:
  "STATION_VP_DTLB_ASID_ADDR_0__DEPTH_5 = 0x100168"

definition STATION_VP_DTLB_ASID_ADDR_0__DEPTH_6 :: u64 where [debug_defs]:
  "STATION_VP_DTLB_ASID_ADDR_0__DEPTH_6 = 0x100170"

definition STATION_VP_DTLB_ASID_ADDR_0__DEPTH_7 :: u64 where [debug_defs]:
  "STATION_VP_DTLB_ASID_ADDR_0__DEPTH_7 = 0x100178"

definition STATION_VP_DTLB_VPN_ADDR_0__DEPTH_0 :: u64 where [debug_defs]:
  "STATION_VP_DTLB_VPN_ADDR_0__DEPTH_0 = 0x100180"

definition STATION_VP_DTLB_VPN_ADDR_0__DEPTH_1 :: u64 where [debug_defs]:
  "STATION_VP_DTLB_VPN_ADDR_0__DEPTH_1 = 0x100188"

definition STATION_VP_DTLB_VPN_ADDR_0__DEPTH_2 :: u64 where [debug_defs]:
  "STATION_VP_DTLB_VPN_ADDR_0__DEPTH_2 = 0x100190"

definition STATION_VP_DTLB_VPN_ADDR_0__DEPTH_3 :: u64 where [debug_defs]:
  "STATION_VP_DTLB_VPN_ADDR_0__DEPTH_3 = 0x100198"

definition STATION_VP_DTLB_VPN_ADDR_0__DEPTH_4 :: u64 where [debug_defs]:
  "STATION_VP_DTLB_VPN_ADDR_0__DEPTH_4 = 0x1001a0"

definition STATION_VP_DTLB_VPN_ADDR_0__DEPTH_5 :: u64 where [debug_defs]:
  "STATION_VP_DTLB_VPN_ADDR_0__DEPTH_5 = 0x1001a8"

definition STATION_VP_DTLB_VPN_ADDR_0__DEPTH_6 :: u64 where [debug_defs]:
  "STATION_VP_DTLB_VPN_ADDR_0__DEPTH_6 = 0x1001b0"

definition STATION_VP_DTLB_VPN_ADDR_0__DEPTH_7 :: u64 where [debug_defs]:
  "STATION_VP_DTLB_VPN_ADDR_0__DEPTH_7 = 0x1001b8"

definition STATION_VP_DTLB_PTE_ADDR_0__DEPTH_0 :: u64 where [debug_defs]:
  "STATION_VP_DTLB_PTE_ADDR_0__DEPTH_0 = 0x1001c0"

definition STATION_VP_DTLB_PTE_ADDR_0__DEPTH_1 :: u64 where [debug_defs]:
  "STATION_VP_DTLB_PTE_ADDR_0__DEPTH_1 = 0x1001c8"

definition STATION_VP_DTLB_PTE_ADDR_0__DEPTH_2 :: u64 where [debug_defs]:
  "STATION_VP_DTLB_PTE_ADDR_0__DEPTH_2 = 0x1001d0"

definition STATION_VP_DTLB_PTE_ADDR_0__DEPTH_3 :: u64 where [debug_defs]:
  "STATION_VP_DTLB_PTE_ADDR_0__DEPTH_3 = 0x1001d8"

definition STATION_VP_DTLB_PTE_ADDR_0__DEPTH_4 :: u64 where [debug_defs]:
  "STATION_VP_DTLB_PTE_ADDR_0__DEPTH_4 = 0x1001e0"

definition STATION_VP_DTLB_PTE_ADDR_0__DEPTH_5 :: u64 where [debug_defs]:
  "STATION_VP_DTLB_PTE_ADDR_0__DEPTH_5 = 0x1001e8"

definition STATION_VP_DTLB_PTE_ADDR_0__DEPTH_6 :: u64 where [debug_defs]:
  "STATION_VP_DTLB_PTE_ADDR_0__DEPTH_6 = 0x1001f0"

definition STATION_VP_DTLB_PTE_ADDR_0__DEPTH_7 :: u64 where [debug_defs]:
  "STATION_VP_DTLB_PTE_ADDR_0__DEPTH_7 = 0x1001f8"

definition STATION_VP_VTLB_ASID_ADDR_0__DEPTH_0 :: u64 where [debug_defs]:
  "STATION_VP_VTLB_ASID_ADDR_0__DEPTH_0 = 0x100200"

definition STATION_VP_VTLB_ASID_ADDR_0__DEPTH_1 :: u64 where [debug_defs]:
  "STATION_VP_VTLB_ASID_ADDR_0__DEPTH_1 = 0x100208"

definition STATION_VP_VTLB_VPN_ADDR_0__DEPTH_0 :: u64 where [debug_defs]:
  "STATION_VP_VTLB_VPN_ADDR_0__DEPTH_0 = 0x100210"

definition STATION_VP_VTLB_VPN_ADDR_0__DEPTH_1 :: u64 where [debug_defs]:
  "STATION_VP_VTLB_VPN_ADDR_0__DEPTH_1 = 0x100218"

definition STATION_VP_VTLB_PTE_ADDR_0__DEPTH_0 :: u64 where [debug_defs]:
  "STATION_VP_VTLB_PTE_ADDR_0__DEPTH_0 = 0x100220"

definition STATION_VP_VTLB_PTE_ADDR_0__DEPTH_1 :: u64 where [debug_defs]:
  "STATION_VP_VTLB_PTE_ADDR_0__DEPTH_1 = 0x100228"

definition STATION_VP_VCORE_MEM_EXCEPTION_ADDR_0 :: u64 where [debug_defs]:
  "STATION_VP_VCORE_MEM_EXCEPTION_ADDR_0 = 0x100230"

definition STATION_VP_IF2IC_VPC_ADDR_0 :: u64 where [debug_defs]:
  "STATION_VP_IF2IC_VPC_ADDR_0 = 0x100268"

definition STATION_VP_IC2IF_INST_ADDR_0 :: u64 where [debug_defs]:
  "STATION_VP_IC2IF_INST_ADDR_0 = 0x100270"

definition STATION_VP_IC2IF_EXCP_CAUSE_ADDR_0 :: u64 where [debug_defs]:
  "STATION_VP_IC2IF_EXCP_CAUSE_ADDR_0 = 0x100278"

definition STATION_VP_IF2ID_EXCP_CAUSE_ADDR_0 :: u64 where [debug_defs]:
  "STATION_VP_IF2ID_EXCP_CAUSE_ADDR_0 = 0x100280"

definition STATION_VP_ID2EX_EXCP_CAUSE_ADDR_0 :: u64 where [debug_defs]:
  "STATION_VP_ID2EX_EXCP_CAUSE_ADDR_0 = 0x100288"

definition STATION_VP_EX2MA_EXCP_CAUSE_ADDR_0 :: u64 where [debug_defs]:
  "STATION_VP_EX2MA_EXCP_CAUSE_ADDR_0 = 0x100290"

definition STATION_VP_MA2CS_EXCP_CAUSE_ADDR_0 :: u64 where [debug_defs]:
  "STATION_VP_MA2CS_EXCP_CAUSE_ADDR_0 = 0x100298"

definition STATION_VP_CS2MA_EXCP_ADDR_0 :: u64 where [debug_defs]:
  "STATION_VP_CS2MA_EXCP_ADDR_0 = 0x1002a0"

definition STATION_VP_MCYCLE_ADDR_0 :: u64 where [debug_defs]:
  "STATION_VP_MCYCLE_ADDR_0 = 0x1002a8"

definition STATION_VP_MSTATUS_ADDR_0 :: u64 where [debug_defs]:
  "STATION_VP_MSTATUS_ADDR_0 = 0x1002b8"

definition STATION_VP_MCAUSE_ADDR_0 :: u64 where [debug_defs]:
  "STATION_VP_MCAUSE_ADDR_0 = 0x1002c0"

definition STATION_VP_MEPC_ADDR_0 :: u64 where [debug_defs]:
  "STATION_VP_MEPC_ADDR_0 = 0x1002c8"

definition STATION_VP_MISA_ADDR_0 :: u64 where [debug_defs]:
  "STATION_VP_MISA_ADDR_0 = 0x1002d0"

definition STATION_VP_MIP_ADDR_0 :: u64 where [debug_defs]:
  "STATION_VP_MIP_ADDR_0 = 0x1002d8"

definition STATION_VP_MIE_ADDR_0 :: u64 where [debug_defs]:
  "STATION_VP_MIE_ADDR_0 = 0x1002e0"

definition STATION_VP_MEDELEG_ADDR_0 :: u64 where [debug_defs]:
  "STATION_VP_MEDELEG_ADDR_0 = 0x1002e8"

definition STATION_VP_MIDELEG_ADDR_0 :: u64 where [debug_defs]:
  "STATION_VP_MIDELEG_ADDR_0 = 0x1002f0"

definition STATION_VP_MTVEC_ADDR_0 :: u64 where [debug_defs]:
  "STATION_VP_MTVEC_ADDR_0 = 0x1002f8"

definition STATION_VP_MTVAL_ADDR_0 :: u64 where [debug_defs]:
  "STATION_VP_MTVAL_ADDR_0 = 0x100300"

definition STATION_VP_SATP_ADDR_0 :: u64 where [debug_defs]:
  "STATION_VP_SATP_ADDR_0 = 0x100308"

definition STATION_VP_SEPC_ADDR_0 :: u64 where [debug_defs]:
  "STATION_VP_SEPC_ADDR_0 = 0x100310"

definition STATION_VP_SCAUSE_ADDR_0 :: u64 where [debug_defs]:
  "STATION_VP_SCAUSE_ADDR_0 = 0x100318"

definition STATION_VP_SEDELEG_ADDR_0 :: u64 where [debug_defs]:
  "STATION_VP_SEDELEG_ADDR_0 = 0x100320"

definition STATION_VP_SIDELEG_ADDR_0 :: u64 where [debug_defs]:
  "STATION_VP_SIDELEG_ADDR_0 = 0x100328"

definition STATION_VP_STVEC_ADDR_0 :: u64 where [debug_defs]:
  "STATION_VP_STVEC_ADDR_0 = 0x100330"

definition STATION_VP_STVAL_ADDR_0 :: u64 where [debug_defs]:
  "STATION_VP_STVAL_ADDR_0 = 0x100338"

definition STATION_VP_UEPC_ADDR_0 :: u64 where [debug_defs]:
  "STATION_VP_UEPC_ADDR_0 = 0x100340"

definition STATION_VP_UCAUSE_ADDR_0 :: u64 where [debug_defs]:
  "STATION_VP_UCAUSE_ADDR_0 = 0x100348"

definition STATION_VP_UTVEC_ADDR_0 :: u64 where [debug_defs]:
  "STATION_VP_UTVEC_ADDR_0 = 0x100350"

definition STATION_VP_UTVAL_ADDR_0 :: u64 where [debug_defs]:
  "STATION_VP_UTVAL_ADDR_0 = 0x100358"

definition STATION_VP_HPMCOUNTER_3_ADDR_0 :: u64 where [debug_defs]:
  "STATION_VP_HPMCOUNTER_3_ADDR_0 = 0x100360"

definition STATION_VP_HPMCOUNTER_4_ADDR_0 :: u64 where [debug_defs]:
  "STATION_VP_HPMCOUNTER_4_ADDR_0 = 0x100368"

definition STATION_VP_HPMCOUNTER_5_ADDR_0 :: u64 where [debug_defs]:
  "STATION_VP_HPMCOUNTER_5_ADDR_0 = 0x100370"

definition STATION_VP_HPMCOUNTER_6_ADDR_0 :: u64 where [debug_defs]:
  "STATION_VP_HPMCOUNTER_6_ADDR_0 = 0x100378"

definition STATION_VP_HPMCOUNTER_7_ADDR_0 :: u64 where [debug_defs]:
  "STATION_VP_HPMCOUNTER_7_ADDR_0 = 0x100380"

definition STATION_VP_HPMCOUNTER_8_ADDR_0 :: u64 where [debug_defs]:
  "STATION_VP_HPMCOUNTER_8_ADDR_0 = 0x100388"

definition STATION_VP_HPMCOUNTER_11_ADDR_0 :: u64 where [debug_defs]:
  "STATION_VP_HPMCOUNTER_11_ADDR_0 = 0x1003a0"

definition STATION_VP_HPMCOUNTER_12_ADDR_0 :: u64 where [debug_defs]:
  "STATION_VP_HPMCOUNTER_12_ADDR_0 = 0x1003a8"

definition STATION_VP_HPMCOUNTER_13_ADDR_0 :: u64 where [debug_defs]:
  "STATION_VP_HPMCOUNTER_13_ADDR_0 = 0x1003b0"

definition STATION_VP_HPMCOUNTER_14_ADDR_0 :: u64 where [debug_defs]:
  "STATION_VP_HPMCOUNTER_14_ADDR_0 = 0x1003b8"

definition STATION_VP_HPMCOUNTER_15_ADDR_0 :: u64 where [debug_defs]:
  "STATION_VP_HPMCOUNTER_15_ADDR_0 = 0x1003c0"

definition STATION_VP_HPMCOUNTER_16_ADDR_0 :: u64 where [debug_defs]:
  "STATION_VP_HPMCOUNTER_16_ADDR_0 = 0x1003c8"

definition STATION_VP_S2B_POWERLINE_CTRL_ADDR_0 :: u64 where [debug_defs]:
  "STATION_VP_S2B_POWERLINE_CTRL_ADDR_0 = 0x100438"

definition STATION_VP_S2B_CFG_LFSR_SEED_ADDR_0 :: u64 where [debug_defs]:
  "STATION_VP_S2B_CFG_LFSR_SEED_ADDR_0 = 0x100440"

definition STATION_VP_S2B_POWERVBANK_CTRL_ADDR_0 :: u64 where [debug_defs]:
  "STATION_VP_S2B_POWERVBANK_CTRL_ADDR_0 = 0x100448"

definition STATION_VP_IBUF_CNT_ADDR_0 :: u64 where [debug_defs]:
  "STATION_VP_IBUF_CNT_ADDR_0 = 0x100450"

definition STATION_VP_IBUF_RPTR_ADDR_0 :: u64 where [debug_defs]:
  "STATION_VP_IBUF_RPTR_ADDR_0 = 0x100458"

definition STATION_VP_B2S_VLOAD_DRT_REQ_VLEN_ILLEGAL_ADDR_0 :: u64 where [debug_defs]:
  "STATION_VP_B2S_VLOAD_DRT_REQ_VLEN_ILLEGAL_ADDR_0 = 0x100490"

definition STATION_VP_S2B_CFG_PWR_ON_ADDR_0 :: u64 where [debug_defs]:
  "STATION_VP_S2B_CFG_PWR_ON_ADDR_0 = 0x1004a0"

definition STATION_VP_S2B_CFG_SLEEP_ADDR_0 :: u64 where [debug_defs]:
  "STATION_VP_S2B_CFG_SLEEP_ADDR_0 = 0x1004a8"

definition STATION_VP_S2ICG_CLK_EN_ADDR_0 :: u64 where [debug_defs]:
  "STATION_VP_S2ICG_CLK_EN_ADDR_0 = 0x1004c0"

definition STATION_VP_S2B_CFG_ITB_WRAP_AROUND_ADDR_0 :: u64 where [debug_defs]:
  "STATION_VP_S2B_CFG_ITB_WRAP_AROUND_ADDR_0 = 0x1004d8"

definition STATION_VP_S2B_VCORE_EN_ADDR_0 :: u64 where [debug_defs]:
  "STATION_VP_S2B_VCORE_EN_ADDR_0 = 0x100528"

definition STATION_VP_IBUF_LINE_EXCP_VALID_ADDR_0__DEPTH_0 :: u64 where [debug_defs]:
  "STATION_VP_IBUF_LINE_EXCP_VALID_ADDR_0__DEPTH_0 = 0x100530"

definition STATION_VP_IBUF_LINE_EXCP_VALID_ADDR_0__DEPTH_1 :: u64 where [debug_defs]:
  "STATION_VP_IBUF_LINE_EXCP_VALID_ADDR_0__DEPTH_1 = 0x100538"

definition STATION_VP_ITLB_VALID_ADDR_0__DEPTH_0 :: u64 where [debug_defs]:
  "STATION_VP_ITLB_VALID_ADDR_0__DEPTH_0 = 0x100540"

definition STATION_VP_ITLB_VALID_ADDR_0__DEPTH_1 :: u64 where [debug_defs]:
  "STATION_VP_ITLB_VALID_ADDR_0__DEPTH_1 = 0x100548"

definition STATION_VP_ITLB_VALID_ADDR_0__DEPTH_2 :: u64 where [debug_defs]:
  "STATION_VP_ITLB_VALID_ADDR_0__DEPTH_2 = 0x100550"

definition STATION_VP_ITLB_VALID_ADDR_0__DEPTH_3 :: u64 where [debug_defs]:
  "STATION_VP_ITLB_VALID_ADDR_0__DEPTH_3 = 0x100558"

definition STATION_VP_ITLB_VALID_ADDR_0__DEPTH_4 :: u64 where [debug_defs]:
  "STATION_VP_ITLB_VALID_ADDR_0__DEPTH_4 = 0x100560"

definition STATION_VP_ITLB_VALID_ADDR_0__DEPTH_5 :: u64 where [debug_defs]:
  "STATION_VP_ITLB_VALID_ADDR_0__DEPTH_5 = 0x100568"

definition STATION_VP_ITLB_VALID_ADDR_0__DEPTH_6 :: u64 where [debug_defs]:
  "STATION_VP_ITLB_VALID_ADDR_0__DEPTH_6 = 0x100570"

definition STATION_VP_ITLB_VALID_ADDR_0__DEPTH_7 :: u64 where [debug_defs]:
  "STATION_VP_ITLB_VALID_ADDR_0__DEPTH_7 = 0x100578"

definition STATION_VP_DTLB_VALID_ADDR_0__DEPTH_0 :: u64 where [debug_defs]:
  "STATION_VP_DTLB_VALID_ADDR_0__DEPTH_0 = 0x100580"

definition STATION_VP_DTLB_VALID_ADDR_0__DEPTH_1 :: u64 where [debug_defs]:
  "STATION_VP_DTLB_VALID_ADDR_0__DEPTH_1 = 0x100588"

definition STATION_VP_DTLB_VALID_ADDR_0__DEPTH_2 :: u64 where [debug_defs]:
  "STATION_VP_DTLB_VALID_ADDR_0__DEPTH_2 = 0x100590"

definition STATION_VP_DTLB_VALID_ADDR_0__DEPTH_3 :: u64 where [debug_defs]:
  "STATION_VP_DTLB_VALID_ADDR_0__DEPTH_3 = 0x100598"

definition STATION_VP_DTLB_VALID_ADDR_0__DEPTH_4 :: u64 where [debug_defs]:
  "STATION_VP_DTLB_VALID_ADDR_0__DEPTH_4 = 0x1005a0"

definition STATION_VP_DTLB_VALID_ADDR_0__DEPTH_5 :: u64 where [debug_defs]:
  "STATION_VP_DTLB_VALID_ADDR_0__DEPTH_5 = 0x1005a8"

definition STATION_VP_DTLB_VALID_ADDR_0__DEPTH_6 :: u64 where [debug_defs]:
  "STATION_VP_DTLB_VALID_ADDR_0__DEPTH_6 = 0x1005b0"

definition STATION_VP_DTLB_VALID_ADDR_0__DEPTH_7 :: u64 where [debug_defs]:
  "STATION_VP_DTLB_VALID_ADDR_0__DEPTH_7 = 0x1005b8"

definition STATION_VP_VTLB_VALID_ADDR_0__DEPTH_0 :: u64 where [debug_defs]:
  "STATION_VP_VTLB_VALID_ADDR_0__DEPTH_0 = 0x1005c0"

definition STATION_VP_VTLB_VALID_ADDR_0__DEPTH_1 :: u64 where [debug_defs]:
  "STATION_VP_VTLB_VALID_ADDR_0__DEPTH_1 = 0x1005c8"

definition STATION_VP_IF_STALL_ADDR_0 :: u64 where [debug_defs]:
  "STATION_VP_IF_STALL_ADDR_0 = 0x1005d0"

definition STATION_VP_IF_KILL_ADDR_0 :: u64 where [debug_defs]:
  "STATION_VP_IF_KILL_ADDR_0 = 0x1005d8"

definition STATION_VP_IF_VALID_ADDR_0 :: u64 where [debug_defs]:
  "STATION_VP_IF_VALID_ADDR_0 = 0x1005e0"

definition STATION_VP_IF_READY_ADDR_0 :: u64 where [debug_defs]:
  "STATION_VP_IF_READY_ADDR_0 = 0x1005e8"

definition STATION_VP_ID_STALL_ADDR_0 :: u64 where [debug_defs]:
  "STATION_VP_ID_STALL_ADDR_0 = 0x1005f0"

definition STATION_VP_ID_KILL_ADDR_0 :: u64 where [debug_defs]:
  "STATION_VP_ID_KILL_ADDR_0 = 0x1005f8"

definition STATION_VP_ID_VALID_ADDR_0 :: u64 where [debug_defs]:
  "STATION_VP_ID_VALID_ADDR_0 = 0x100600"

definition STATION_VP_ID_READY_ADDR_0 :: u64 where [debug_defs]:
  "STATION_VP_ID_READY_ADDR_0 = 0x100608"

definition STATION_VP_EX_STALL_ADDR_0 :: u64 where [debug_defs]:
  "STATION_VP_EX_STALL_ADDR_0 = 0x100610"

definition STATION_VP_EX_KILL_ADDR_0 :: u64 where [debug_defs]:
  "STATION_VP_EX_KILL_ADDR_0 = 0x100618"

definition STATION_VP_EX_VALID_ADDR_0 :: u64 where [debug_defs]:
  "STATION_VP_EX_VALID_ADDR_0 = 0x100620"

definition STATION_VP_EX_READY_ADDR_0 :: u64 where [debug_defs]:
  "STATION_VP_EX_READY_ADDR_0 = 0x100628"

definition STATION_VP_MA_STALL_ADDR_0 :: u64 where [debug_defs]:
  "STATION_VP_MA_STALL_ADDR_0 = 0x100630"

definition STATION_VP_MA_KILL_ADDR_0 :: u64 where [debug_defs]:
  "STATION_VP_MA_KILL_ADDR_0 = 0x100638"

definition STATION_VP_MA_VALID_ADDR_0 :: u64 where [debug_defs]:
  "STATION_VP_MA_VALID_ADDR_0 = 0x100640"

definition STATION_VP_MA_READY_ADDR_0 :: u64 where [debug_defs]:
  "STATION_VP_MA_READY_ADDR_0 = 0x100648"

definition STATION_VP_WB_VALID_ADDR_0 :: u64 where [debug_defs]:
  "STATION_VP_WB_VALID_ADDR_0 = 0x100650"

definition STATION_VP_WB_READY_ADDR_0 :: u64 where [debug_defs]:
  "STATION_VP_WB_READY_ADDR_0 = 0x100658"

definition STATION_VP_CS2IF_KILL_ADDR_0 :: u64 where [debug_defs]:
  "STATION_VP_CS2IF_KILL_ADDR_0 = 0x100660"

definition STATION_VP_CS2ID_KILL_ADDR_0 :: u64 where [debug_defs]:
  "STATION_VP_CS2ID_KILL_ADDR_0 = 0x100668"

definition STATION_VP_CS2EX_KILL_ADDR_0 :: u64 where [debug_defs]:
  "STATION_VP_CS2EX_KILL_ADDR_0 = 0x100670"

definition STATION_VP_CS2MA_KILL_ADDR_0 :: u64 where [debug_defs]:
  "STATION_VP_CS2MA_KILL_ADDR_0 = 0x100678"

definition STATION_VP_L2_REQ_VALID_ADDR_0 :: u64 where [debug_defs]:
  "STATION_VP_L2_REQ_VALID_ADDR_0 = 0x100680"

definition STATION_VP_L2_REQ_READY_ADDR_0 :: u64 where [debug_defs]:
  "STATION_VP_L2_REQ_READY_ADDR_0 = 0x100688"

definition STATION_VP_L2_RESP_VALID_ADDR_0 :: u64 where [debug_defs]:
  "STATION_VP_L2_RESP_VALID_ADDR_0 = 0x100690"

definition STATION_VP_L2_RESP_READY_ADDR_0 :: u64 where [debug_defs]:
  "STATION_VP_L2_RESP_READY_ADDR_0 = 0x100698"

definition STATION_VP_WFE_STALL_ADDR_0 :: u64 where [debug_defs]:
  "STATION_VP_WFE_STALL_ADDR_0 = 0x1006a8"

definition STATION_VP_MA2IF_NPC_VALID_ADDR_0 :: u64 where [debug_defs]:
  "STATION_VP_MA2IF_NPC_VALID_ADDR_0 = 0x1006b0"

definition STATION_VP_EX2IF_KILL_ADDR_0 :: u64 where [debug_defs]:
  "STATION_VP_EX2IF_KILL_ADDR_0 = 0x1006b8"

definition STATION_VP_EX2ID_KILL_ADDR_0 :: u64 where [debug_defs]:
  "STATION_VP_EX2ID_KILL_ADDR_0 = 0x1006c0"

definition STATION_VP_BRANCH_SOLVED_ADDR_0 :: u64 where [debug_defs]:
  "STATION_VP_BRANCH_SOLVED_ADDR_0 = 0x1006c8"

definition STATION_VP_IF2IC_EN_ADDR_0 :: u64 where [debug_defs]:
  "STATION_VP_IF2IC_EN_ADDR_0 = 0x1006d0"

definition STATION_VP_IC2IF_EXCP_VALID_ADDR_0 :: u64 where [debug_defs]:
  "STATION_VP_IC2IF_EXCP_VALID_ADDR_0 = 0x1006d8"

definition STATION_VP_IC2IF_IS_RVC_ADDR_0 :: u64 where [debug_defs]:
  "STATION_VP_IC2IF_IS_RVC_ADDR_0 = 0x1006e0"

definition STATION_VP_IC2IF_VALID_ADDR_0 :: u64 where [debug_defs]:
  "STATION_VP_IC2IF_VALID_ADDR_0 = 0x1006e8"

definition STATION_VP_IF2ID_EXCP_VALID_ADDR_0 :: u64 where [debug_defs]:
  "STATION_VP_IF2ID_EXCP_VALID_ADDR_0 = 0x1006f0"

definition STATION_VP_ID2EX_EXCP_VALID_ADDR_0 :: u64 where [debug_defs]:
  "STATION_VP_ID2EX_EXCP_VALID_ADDR_0 = 0x1006f8"

definition STATION_VP_EX2MA_EXCP_VALID_ADDR_0 :: u64 where [debug_defs]:
  "STATION_VP_EX2MA_EXCP_VALID_ADDR_0 = 0x100700"

definition STATION_VP_MA2CS_EXCP_VALID_ADDR_0 :: u64 where [debug_defs]:
  "STATION_VP_MA2CS_EXCP_VALID_ADDR_0 = 0x100708"

section \<open>The table\<close>

text \<open>Caches, trace buffer and breakpoints.\<close>

definition debug_caches :: "(string \<times> u64) list" where [debug_defs]:
  "debug_caches =
    [(''ic_data_way_0'', STATION_VP_IC_DATA_WAY_0_ADDR_0),
     (''ic_data_way_1'', STATION_VP_IC_DATA_WAY_1_ADDR_0),
     (''ic_tag_way_0'', STATION_VP_IC_TAG_WAY_0_ADDR_0),
     (''ic_tag_way_1'', STATION_VP_IC_TAG_WAY_1_ADDR_0),
     (''itb_data'', STATION_VP_ITB_DATA_ADDR_0),
     (''ibuf_line_data__depth_0'', STATION_VP_IBUF_LINE_DATA_ADDR_0__DEPTH_0),
     (''ibuf_line_data__depth_1'', STATION_VP_IBUF_LINE_DATA_ADDR_0__DEPTH_1),
     (''rst_pc'', STATION_VP_S2B_CFG_RST_PC_ADDR_0),
     (''itb_sel'', STATION_VP_S2B_CFG_ITB_SEL_ADDR_0),
     (''b2s_itb_last_ptr'', STATION_VP_B2S_ITB_LAST_PTR_ADDR_0),
     (''bp_if_pc_0'', STATION_VP_S2B_BP_IF_PC_0_ADDR_0),
     (''bp_if_pc_1'', STATION_VP_S2B_BP_IF_PC_1_ADDR_0),
     (''bp_if_pc_2'', STATION_VP_S2B_BP_IF_PC_2_ADDR_0),
     (''bp_if_pc_3'', STATION_VP_S2B_BP_IF_PC_3_ADDR_0),
     (''bp_wb_pc_0'', STATION_VP_S2B_BP_WB_PC_0_ADDR_0),
     (''bp_wb_pc_1'', STATION_VP_S2B_BP_WB_PC_1_ADDR_0),
     (''bp_wb_pc_2'', STATION_VP_S2B_BP_WB_PC_2_ADDR_0),
     (''bp_wb_pc_3'', STATION_VP_S2B_BP_WB_PC_3_ADDR_0),
     (''bp_instret'', STATION_VP_S2B_BP_INSTRET_ADDR_0)]"

text \<open>Instruction buffer and translation buffers.\<close>

definition debug_tlbs :: "(string \<times> u64) list" where [debug_defs]:
  "debug_tlbs =
    [(''ibuf_line_paddr__depth_0'', STATION_VP_IBUF_LINE_PADDR_ADDR_0__DEPTH_0),
     (''ibuf_line_paddr__depth_1'', STATION_VP_IBUF_LINE_PADDR_ADDR_0__DEPTH_1),
     (''ibuf_line_excp_cause__depth_0'', STATION_VP_IBUF_LINE_EXCP_CAUSE_ADDR_0__DEPTH_0),
     (''ibuf_line_excp_cause__depth_1'', STATION_VP_IBUF_LINE_EXCP_CAUSE_ADDR_0__DEPTH_1),
     (''itlb_asid__depth_0'', STATION_VP_ITLB_ASID_ADDR_0__DEPTH_0),
     (''itlb_asid__depth_1'', STATION_VP_ITLB_ASID_ADDR_0__DEPTH_1),
     (''itlb_asid__depth_2'', STATION_VP_ITLB_ASID_ADDR_0__DEPTH_2),
     (''itlb_asid__depth_3'', STATION_VP_ITLB_ASID_ADDR_0__DEPTH_3),
     (''itlb_asid__depth_4'', STATION_VP_ITLB_ASID_ADDR_0__DEPTH_4),
     (''itlb_asid__depth_5'', STATION_VP_ITLB_ASID_ADDR_0__DEPTH_5),
     (''itlb_asid__depth_6'', STATION_VP_ITLB_ASID_ADDR_0__DEPTH_6),
     (''itlb_asid__depth_7'', STATION_VP_ITLB_ASID_ADDR_0__DEPTH_7),
     (''itlb_vpn__depth_0'', STATION_VP_ITLB_VPN_ADDR_0__DEPTH_0),
     (''itlb_vpn__depth_1'', STATION_VP_ITLB_VPN_ADDR_0__DEPTH_1),
     (''itlb_vpn__depth_2'', STATION_VP_ITLB_VPN_ADDR_0__DEPTH_2),
     (''itlb_vpn__depth_3'', STATION_VP_ITLB_VPN_ADDR_0__DEPTH_3),
     (''itlb_vpn__depth_4'', STATION_VP_ITLB_VPN_ADDR_0__DEPTH_4),
     (''itlb_vpn__depth_5'', STATION_VP_ITLB_VPN_ADDR_0__DEPTH_5),
     (''itlb_vpn__depth_6'', STATION_VP_ITLB_VPN_ADDR_0__DEPTH_6),
     (''itlb_vpn__depth_7'', STATION_VP_ITLB_VPN_ADDR_0__DEPTH_7),
     (''itlb_pte__depth_0'', STATION_VP_ITLB_PTE_ADDR_0__DEPTH_0),
     (''itlb_pte__depth_1'', STATION_VP_ITLB_PTE_ADDR_0__DEPTH_1),
     (''itlb_pte__depth_2'', STATION_VP_ITLB_PTE_ADDR_0__DEPTH_2),
     (''itlb_pte__depth_3'', STATION_VP_ITLB_PTE_ADDR_0__DEPTH_3),
     (''itlb_pte__depth_4'', STATION_VP_ITLB_PTE_ADDR_0__DEPTH_4),
     (''itlb_pte__depth_5'', STATION_VP_ITLB_PTE_ADDR_0__DEPTH_5),
     (''itlb_pte__depth_6'', STATION_VP_ITLB_PTE_ADDR_0__DEPTH_6),
     (''itlb_pte__depth_7'', STATION_VP_ITLB_PTE_ADDR_0__DEPTH_7),
     (''dtlb_asid__depth_0'', STATION_VP_DTLB_ASID_ADDR_0__DEPTH_0),
     (''dtlb_asid__depth_1'', STATION_VP_DTLB_ASID_ADDR_0__DEPTH_1),
     (''dtlb_asid__depth_2'', STATION_VP_DTLB_ASID_ADDR_0__DEPTH_2),
     (''dtlb_asid__depth_3'', STATION_VP_DTLB_ASID_ADDR_0__DEPTH_3),
     (''dtlb_asid__depth_4'', STATION_VP_DTLB_ASID_ADDR_0__DEPTH_4),
     (''dtlb_asid__depth_5'', STATION_VP_DTLB_ASID_ADDR_0__DEPTH_5),
     (''dtlb_asid__depth_6'', STATION_VP_DTLB_ASID_ADDR_0__DEPTH_6),
     (''dtlb_asid__depth_7'', STATION_VP_DTLB_ASID_ADDR_0__DEPTH_7),
     (''dtlb_vpn__depth_0'', STATION_VP_DTLB_VPN_ADDR_0__DEPTH_0),
     (''dtlb_vpn__depth_1'', STATION_VP_DTLB_VPN_ADDR_0__DEPTH_1),
     (''dtlb_vpn__depth_2'', STATION_VP_DTLB_VPN_ADDR_0__DEPTH_2),
     (''dtlb_vpn__depth_3'', STATION_VP_DTLB_VPN_ADDR_0__DEPTH_3),
     (''dtlb_vpn__depth_4'', STATION_VP_DTLB_VPN_ADDR_0__DEPTH_4),
     (''dtlb_vpn__depth_5'', STATION_VP_DTLB_VPN_ADDR_0__DEPTH_5),
     (''dtlb_vpn__depth_6'', STATION_VP_DTLB_VPN_ADDR_0__DEPTH_6),
     (''dtlb_vpn__depth_7'', STATION_VP_DTLB_VPN_ADDR_0__DEPTH_7),
     (''dtlb_pte__depth_0'', STATION_VP_DTLB_PTE_ADDR_0__DEPTH_0),
     (''dtlb_pte__depth_1'', STATION_VP_DTLB_PTE_ADDR_0__DEPTH_1),
     (''dtlb_pte__depth_2'', STATION_VP_DTLB_PTE_ADDR_0__DEPTH_2),
     (''dtlb_pte__depth_3'', STATION_VP_DTLB_PTE_ADDR_0__DEPTH_3),
     (''dtlb_pte__depth_4'', STATION_VP_DTLB_PTE_ADDR_0__DEPTH_4),
     (''dtlb_pte__depth_5'', STATION_VP_DTLB_PTE_ADDR_0__DEPTH_5),
     (''dtlb_pte__depth_6'', STATION_VP_DTLB_PTE_ADDR_0__DEPTH_6),
     (''dtlb_pte__depth_7'', STATION_VP_DTLB_PTE_ADDR_0__DEPTH_7),
     (''vtlb_asid__depth_0'', STATION_VP_VTLB_ASID_ADDR_0__DEPTH_0),
     (''vtlb_asid__depth_1'', STATION_VP_VTLB_ASID_ADDR_0__DEPTH_1),
     (''vtlb_vpn__depth_0'', STATION_VP_VTLB_VPN_ADDR_0__DEPTH_0),
     (''vtlb_vpn__depth_1'', STATION_VP_VTLB_VPN_ADDR_0__DEPTH_1),
     (''vtlb_pte__depth_0'', STATION_VP_VTLB_PTE_ADDR_0__DEPTH_0),
     (''vtlb_pte__depth_1'', STATION_VP_VTLB_PTE_ADDR_0__DEPTH_1)]"

text \<open>The words of the pipeline.\<close>

definition debug_pipe_words :: "(string \<times> u64) list" where [debug_defs]:
  "debug_pipe_words =
    [(''vcore_mem_exception'', STATION_VP_VCORE_MEM_EXCEPTION_ADDR_0),
     (''if_pc'', STATION_VP_IF_PC_ADDR_0),
     (''wb_pc'', STATION_VP_WB_PC_ADDR_0),
     (''if2ic_vpc'', STATION_VP_IF2IC_VPC_ADDR_0),
     (''ic2if_inst'', STATION_VP_IC2IF_INST_ADDR_0),
     (''ic2if_excp_cause'', STATION_VP_IC2IF_EXCP_CAUSE_ADDR_0),
     (''if2id_excp_cause'', STATION_VP_IF2ID_EXCP_CAUSE_ADDR_0),
     (''id2ex_excp_cause'', STATION_VP_ID2EX_EXCP_CAUSE_ADDR_0),
     (''ex2ma_excp_cause'', STATION_VP_EX2MA_EXCP_CAUSE_ADDR_0),
     (''ma2cs_excp_cause'', STATION_VP_MA2CS_EXCP_CAUSE_ADDR_0),
     (''cs2ma_excp'', STATION_VP_CS2MA_EXCP_ADDR_0)]"

text \<open>Control and status registers and counters.\<close>

definition debug_csrs :: "(string \<times> u64) list" where [debug_defs]:
  "debug_csrs =
    [(''mcycle'', STATION_VP_MCYCLE_ADDR_0),
     (''minstret'', STATION_VP_MINSTRET_ADDR_0),
     (''mstatus'', STATION_VP_MSTATUS_ADDR_0),
     (''mcause'', STATION_VP_MCAUSE_ADDR_0),
     (''mepc'', STATION_VP_MEPC_ADDR_0),
     (''misa'', STATION_VP_MISA_ADDR_0),
     (''mip'', STATION_VP_MIP_ADDR_0),
     (''mie'', STATION_VP_MIE_ADDR_0),
     (''medeleg'', STATION_VP_MEDELEG_ADDR_0),
     (''mideleg'', STATION_VP_MIDELEG_ADDR_0),
     (''mtvec'', STATION_VP_MTVEC_ADDR_0),
     (''mtval'', STATION_VP_MTVAL_ADDR_0),
     (''satp'', STATION_VP_SATP_ADDR_0),
     (''sepc'', STATION_VP_SEPC_ADDR_0),
     (''scause'', STATION_VP_SCAUSE_ADDR_0),
     (''sedeleg'', STATION_VP_SEDELEG_ADDR_0),
     (''sideleg'', STATION_VP_SIDELEG_ADDR_0),
     (''stvec'', STATION_VP_STVEC_ADDR_0),
     (''stval'', STATION_VP_STVAL_ADDR_0),
     (''uepc'', STATION_VP_UEPC_ADDR_0),
     (''ucause'', STATION_VP_UCAUSE_ADDR_0),
     (''utvec'', STATION_VP_UTVEC_ADDR_0),
     (''utval'', STATION_VP_UTVAL_ADDR_0),
     (''hpmcounter_3'', STATION_VP_HPMCOUNTER_3_ADDR_0),
     (''hpmcounter_4'', STATION_VP_HPMCOUNTER_4_ADDR_0),
     (''hpmcounter_5'', STATION_VP_HPMCOUNTER_5_ADDR_0),
     (''hpmcounter_6'', STATION_VP_HPMCOUNTER_6_ADDR_0),
     (''hpmcounter_7'', STATION_VP_HPMCOUNTER_7_ADDR_0),
     (''hpmcounter_8'', STATION_VP_HPMCOUNTER_8_ADDR_0),
     (''hpmcounter_9'', STATION_VP_HPMCOUNTER_9_ADDR_0),
     (''hpmcounter_10'', STATION_VP_HPMCOUNTER_10_ADDR_0),
     (''hpmcounter_11'', STATION_VP_HPMCOUNTER_11_ADDR_0),
     (''hpmcounter_12'', STATION_VP_HPMCOUNTER_12_ADDR_0),
     (''hpmcounter_13'', STATION_VP_HPMCOUNTER_13_ADDR_0),
     (''hpmcounter_14'', STATION_VP_HPMCOUNTER_14_ADDR_0),
     (''hpmcounter_15'', STATION_VP_HPMCOUNTER_15_ADDR_0),
     (''hpmcounter_16'', STATION_VP_HPMCOUNTER_16_ADDR_0)]"

text \<open>Power, resets, stalls and enables.\<close>

definition debug_controls :: "(string \<times> u64) list" where [debug_defs]:
  "debug_controls =
    [(''powerline_ctrl'', STATION_VP_S2B_POWERLINE_CTRL_ADDR_0),
     (''lfsr_seed'', STATION_VP_S2B_CFG_LFSR_SEED_ADDR_0),
     (''powervbank_ctrl'', STATION_VP_S2B_POWERVBANK_CTRL_ADDR_0),
     (''ibuf_cnt'', STATION_VP_IBUF_CNT_ADDR_0),
     (''ibuf_rptr'', STATION_VP_IBUF_RPTR_ADDR_0),
     (''early_rstn'', STATION_VP_S2B_EARLY_RSTN_ADDR_0),
     (''rstn'', STATION_VP_S2B_RSTN_ADDR_0),
     (''ext_event'', STATION_VP_S2B_EXT_EVENT_ADDR_0),
     (''debug_stall'', STATION_VP_S2B_DEBUG_STALL_ADDR_0),
     (''b2s_debug_stall_out'', STATION_VP_B2S_DEBUG_STALL_OUT_ADDR_0),
     (''debug_resume'', STATION_VP_S2B_DEBUG_RESUME_ADDR_0),
     (''b2s_vload_drt_req_vlen_illegal'', STATION_VP_B2S_VLOAD_DRT_REQ_VLEN_ILLEGAL_ADDR_0),
     (''en_hpmcounter'', STATION_VP_S2B_CFG_EN_HPMCOUNTER_ADDR_0),
     (''pwr_on'', STATION_VP_S2B_CFG_PWR_ON_ADDR_0),
     (''sleep'', STATION_VP_S2B_CFG_SLEEP_ADDR_0),
     (''bypass_ic'', STATION_VP_S2B_CFG_BYPASS_IC_ADDR_0),
     (''bypass_tlb'', STATION_VP_S2B_CFG_BYPASS_TLB_ADDR_0),
     (''s2icg_clk_en'', STATION_VP_S2ICG_CLK_EN_ADDR_0),
     (''itb_en'', STATION_VP_S2B_CFG_ITB_EN_ADDR_0),
     (''itb_wrap_around'', STATION_VP_S2B_CFG_ITB_WRAP_AROUND_ADDR_0),
     (''en_bp_if_pc_0'', STATION_VP_S2B_EN_BP_IF_PC_0_ADDR_0),
     (''en_bp_if_pc_1'', STATION_VP_S2B_EN_BP_IF_PC_1_ADDR_0),
     (''en_bp_if_pc_2'', STATION_VP_S2B_EN_BP_IF_PC_2_ADDR_0),
     (''en_bp_if_pc_3'', STATION_VP_S2B_EN_BP_IF_PC_3_ADDR_0),
     (''en_bp_wb_pc_0'', STATION_VP_S2B_EN_BP_WB_PC_0_ADDR_0),
     (''en_bp_wb_pc_1'', STATION_VP_S2B_EN_BP_WB_PC_1_ADDR_0),
     (''en_bp_wb_pc_2'', STATION_VP_S2B_EN_BP_WB_PC_2_ADDR_0),
     (''en_bp_wb_pc_3'', STATION_VP_S2B_EN_BP_WB_PC_3_ADDR_0),
     (''en_bp_instret'', STATION_VP_S2B_EN_BP_INSTRET_ADDR_0),
     (''vcore_en'', STATION_VP_S2B_VCORE_EN_ADDR_0)]"

text \<open>Valid bits of the buffers.\<close>

definition debug_valids :: "(string \<times> u64) list" where [debug_defs]:
  "debug_valids =
    [(''ibuf_line_excp_valid__depth_0'', STATION_VP_IBUF_LINE_EXCP_VALID_ADDR_0__DEPTH_0),
     (''ibuf_line_excp_valid__depth_1'', STATION_VP_IBUF_LINE_EXCP_VALID_ADDR_0__DEPTH_1),
     (''itlb_valid__depth_0'', STATION_VP_ITLB_VALID_ADDR_0__DEPTH_0),
     (''itlb_valid__depth_1'', STATION_VP_ITLB_VALID_ADDR_0__DEPTH_1),
     (''itlb_valid__depth_2'', STATION_VP_ITLB_VALID_ADDR_0__DEPTH_2),
     (''itlb_valid__depth_3'', STATION_VP_ITLB_VALID_ADDR_0__DEPTH_3),
     (''itlb_valid__depth_4'', STATION_VP_ITLB_VALID_ADDR_0__DEPTH_4),
     (''itlb_valid__depth_5'', STATION_VP_ITLB_VALID_ADDR_0__DEPTH_5),
     (''itlb_valid__depth_6'', STATION_VP_ITLB_VALID_ADDR_0__DEPTH_6),
     (''itlb_valid__depth_7'', STATION_VP_ITLB_VALID_ADDR_0__DEPTH_7),
     (''dtlb_valid__depth_0'', STATION_VP_DTLB_VALID_ADDR_0__DEPTH_0),
     (''dtlb_valid__depth_1'', STATION_VP_DTLB_VALID_ADDR_0__DEPTH_1),
     (''dtlb_valid__depth_2'', STATION_VP_DTLB_VALID_ADDR_0__DEPTH_2),
     (''dtlb_valid__depth_3'', STATION_VP_DTLB_VALID_ADDR_0__DEPTH_3),
     (''dtlb_valid__depth_4'', STATION_VP_DTLB_VALID_ADDR_0__DEPTH_4),
     (''dtlb_valid__depth_5'', STATION_VP_DTLB_VALID_ADDR_0__DEPTH_5),
     (''dtlb_valid__depth_6'', STATION_VP_DTLB_VALID_ADDR_0__DEPTH_6),
     (''dtlb_valid__depth_7'', STATION_VP_DTLB_VALID_ADDR_0__DEPTH_7),
     (''vtlb_valid__depth_0'', STATION_VP_VTLB_VALID_ADDR_0__DEPTH_0),
     (''vtlb_valid__depth_1'', STATION_VP_VTLB_VALID_ADDR_0__DEPTH_1)]"

text \<open>The bits of the pipeline.\<close>

definition debug_pipe_bits :: "(string \<times> u64) list" where [debug_defs]:
  "debug_pipe_bits =
    [(''if_stall'', STATION_VP_IF_STALL_ADDR_0),
     (''if_kill'', STATION_VP_IF_KILL_ADDR_0),
     (''if_valid'', STATION_VP_IF_VALID_ADDR_0),
     (''if_ready'', STATION_VP_IF_READY_ADDR_0),
     (''id_stall'', STATION_VP_ID_STALL_ADDR_0),
     (''id_kill'', STATION_VP_ID_KILL_ADDR_0),
     (''id_valid'', STATION_VP_ID_VALID_ADDR_0),
     (''id_ready'', STATION_VP_ID_READY_ADDR_0),
     (''ex_stall'', STATION_VP_EX_STALL_ADDR_0),
     (''ex_kill'', STATION_VP_EX_KILL_ADDR_0),
     (''ex_valid'', STATION_VP_EX_VALID_ADDR_0),
     (''ex_ready'', STATION_VP_EX_READY_ADDR_0),
     (''ma_stall'', STATION_VP_MA_STALL_ADDR_0),
     (''ma_kill'', STATION_VP_MA_KILL_ADDR_0),
     (''ma_valid'', STATION_VP_MA_VALID_ADDR_0),
     (''ma_ready'', STATION_VP_MA_READY_ADDR_0),
     (''wb_valid'', STATION_VP_WB_VALID_ADDR_0),
     (''wb_ready'', STATION_VP_WB_READY_ADDR_0),
     (''cs2if_kill'', STATION_VP_CS2IF_KILL_ADDR_0),
     (''cs2id_kill'', STATION_VP_CS2ID_KILL_ADDR_0),
     (''cs2ex_kill'', STATION_VP_CS2EX_KILL_ADDR_0),
     (''cs2ma_kill'', STATION_VP_CS2MA_KILL_ADDR_0),
     (''l2_req_valid'', STATION_VP_L2_REQ_VALID_ADDR_0),
     (''l2_req_ready'', STATION_VP_L2_REQ_READY_ADDR_0),
     (''l2_resp_valid'', STATION_VP_L2_RESP_VALID_ADDR_0),
     (''l2_resp_ready'', STATION_VP_L2_RESP_READY_ADDR_0),
     (''is_wfe'', STATION_VP_WFE_STALL_ADDR_0),
     (''ma2if_npc_valid'', STATION_VP_MA2IF_NPC_VALID_ADDR_0),
     (''ex2if_kill'', STATION_VP_EX2IF_KILL_ADDR_0),
     (''ex2id_kill'', STATION_VP_EX2ID_KILL_ADDR_0),
     (''branch_solved'', STATION_VP_BRANCH_SOLVED_ADDR_0),
     (''if2ic_en'', STATION_VP_IF2IC_EN_ADDR_0),
     (''ic2if_excp_valid'', STATION_VP_IC2IF_EXCP_VALID_ADDR_0),
     (''ic2if_is_rvc'', STATION_VP_IC2IF_IS_RVC_ADDR_0),
     (''ic2if_valid'', STATION_VP_IC2IF_VALID_ADDR_0),
     (''if2id_excp_valid'', STATION_VP_IF2ID_EXCP_VALID_ADDR_0),
     (''id2ex_excp_valid'', STATION_VP_ID2EX_EXCP_VALID_ADDR_0),
     (''ex2ma_excp_valid'', STATION_VP_EX2MA_EXCP_VALID_ADDR_0),
     (''ma2cs_excp_valid'', STATION_VP_MA2CS_EXCP_VALID_ADDR_0)]"

definition debug_entries :: "(string \<times> u64) list" where
  "debug_entries =
    debug_caches @ debug_tlbs @ debug_pipe_words @ debug_csrs @ debug_controls @ debug_valids @ debug_pipe_bits"

text \<open>\<open>std::map::insert\<close> keeps the value of a key that is there.\<close>

fun insert_all :: "('k::linorder \<times> 'v) list \<Rightarrow> ('k \<times> 'v) list \<Rightarrow> ('k \<times> 'v) list" where
  "insert_all [] m = m"
| "insert_all ((k, v) # es) m = insert_all es (if smap_get m k = None then smap_put k v m else m)"

definition debug_map :: "(string \<times> u64) list" where
  "debug_map = insert_all debug_entries []"

section \<open>Facts\<close>

lemma smap_get_insert_all:
  "smap_get (insert_all es m) k = (case smap_get m k of Some v \<Rightarrow> Some v | None \<Rightarrow> map_of es k)"
  by (induction es m rule: insert_all.induct) (auto split: option.splits)

lemma debug_lookup: "smap_get debug_map k = map_of debug_entries k"
  by (simp add: debug_map_def smap_get_insert_all)

lemma smap_inv_insert_all: "smap_inv m \<Longrightarrow> smap_inv (insert_all es m)"
  by (induction es m rule: insert_all.induct) simp_all

lemma debug_map_sorted: "smap_inv debug_map"
  by (simp add: debug_map_def smap_inv_insert_all)

text \<open>Every name stands for an aligned register in the window of core 0.\<close>

definition core0_register :: "addr \<Rightarrow> bool" where
  "core0_register a \<longleftrightarrow> STATION_VP_BASE_ADDR_0 \<le> a \<and> a < 0x200000 \<and> take_bit 3 a = 0"

lemma debug_entries_core0: "list_all (\<lambda>p. core0_register (snd p)) debug_entries"
  by code_simp

end
