(* ===== verification/Debug_Console.thy ===== *)
theory Debug_Console
  imports Debug_Regs Boot_Args Socket Image_Calls
begin

text \<open>
  \<open>debug-socket.c\<close>, the console with which a user reads and writes the chip by hand: it splits each
  line of its input into words, runs the command over the same bus as the board driver, and prints
  the answer. The bus is the client of \<open>Socket\<close>.
\<close>

section \<open>State\<close>

text \<open>\<open>con_out\<close> holds the lines printed, without the prompt.\<close>

record 'b console =
  con_bus :: 'b
  con_out :: "string list"

definition on_chip :: "('b, 'a) prog \<Rightarrow> ('b console, 'a) prog" where
  "on_chip m s = (case m (con_bus s) of (r, b) \<Rightarrow> (r, s\<lparr>con_bus := b\<rparr>))"

definition say :: "string \<Rightarrow> ('b console, unit) prog" where
  "say l = modS (\<lambda>s. s\<lparr>con_out := con_out s @ [l]\<rparr>)"

definition hex :: "u64 \<Rightarrow> string" where
  "hex w = ''0x'' @ to_hex (unat w)"

section \<open>One access\<close>

definition process_reset :: "'b bus_ops \<Rightarrow> ('b console, unit) prog" where
  "process_reset B = seqM
    [on_chip (do_write B 0x7ffff000 0), say ''Set RESET'',
     on_chip (do_write B 0x7ffff000 1), say ''Release RESET'']"

definition target_read :: "'b bus_ops \<Rightarrow> string \<Rightarrow> addr \<Rightarrow> ('b, u64) prog" where
  "target_read B target a =
    (if target = ''rb'' then do_read B a
     else if target = ''dma'' then
       andThen (do_write B DEBUG_ADDR a) (andThen (do_write B DEBUG_REQ_TYPE 0) (do_read B DEBUG_RD_DATA))
     else if target = ''dt'' then andThen (do_write B DT_DBG_ADDR a) (do_read B DT_DBG_DATA)
     else do_read B (addr2oraddr target a))"

definition target_write :: "'b bus_ops \<Rightarrow> string \<Rightarrow> addr \<Rightarrow> u64 \<Rightarrow> ('b, unit) prog" where
  "target_write B target a d =
    (if target = ''rb'' then do_write B a d
     else if target = ''dma'' then
       seqM [do_write B DEBUG_ADDR a, do_write B DEBUG_REQ_TYPE 2, do_write B DEBUG_WR_DATA d]
     else if target = ''dt'' then seqM [do_write B DT_DBG_ADDR a, do_write B DT_DBG_DATA d]
     else do_write B (addr2oraddr target a) d)"

section \<open>The commands\<close>

text \<open>A line is cut at single blanks; two blanks in a row give an empty word.\<close>

definition words_in :: "string \<Rightarrow> string list" where
  "words_in cmd = split (CHR '' '') cmd"

definition cmd_read :: "'b bus_ops \<Rightarrow> string \<Rightarrow> string \<Rightarrow> ('b console, unit) prog" where
  "cmd_read B ta target =
    (let a = strtoul 16 ta in
     if strto_rest 16 ta = '''' then
       bnd (on_chip (target_read B target a)) (\<lambda>d.
       say (''Do Read to Addr '' @ hex a @ '', Got Data '' @ hex d))
     else ret ())"

text \<open>Only the end of the last number is looked at.\<close>

definition cmd_write :: "'b bus_ops \<Rightarrow> string \<Rightarrow> string \<Rightarrow> string \<Rightarrow> ('b console, unit) prog" where
  "cmd_write B ta td target =
    (let a = strtoul 16 ta; d = strtoul 16 td in
     if strto_rest 16 td = '''' then
       andThen (on_chip (target_write B target a d))
         (say (''Do Write to Addr '' @ hex a @ '' with Data '' @ hex d))
     else ret ())"

text \<open>The two halves of a word, at the addresses of the halves.\<close>

definition dump_word :: "'b bus_ops \<Rightarrow> string \<Rightarrow> addr \<Rightarrow> ('b console, unit) prog" where
  "dump_word B target a =
    bnd (on_chip (target_read B target a)) (\<lambda>d.
    andThen (say (hex a @ '': 0x'' @ hex_pad 8 (unat (d AND 0xffffffff))))
      (say (hex (a + 4) @ '': 0x'' @ hex_pad 8 (unat (drop_bit 32 d AND 0xffffffff)))))"

fun dump_from :: "'b bus_ops \<Rightarrow> string \<Rightarrow> nat \<Rightarrow> addr \<Rightarrow> addr \<Rightarrow> ('b console, unit) prog" where
  "dump_from B target 0 a hi = raise Diverges"
| "dump_from B target (Suc n) a hi =
    (if a \<le> hi then andThen (dump_word B target a) (dump_from B target n (a + 8) hi) else ret ())"

definition cmd_dump :: "'b bus_ops \<Rightarrow> nat \<Rightarrow> string \<Rightarrow> string \<Rightarrow> string \<Rightarrow> ('b console, unit) prog" where
  "cmd_dump B fuel tlo thi target =
    (if strto_rest 16 thi = '''' then dump_from B target fuel (strtoul 16 tlo) (strtoul 16 thi) else ret ())"

text \<open>The counter of the steps is an \<open>int\<close>, their number a \<open>uint32_t\<close>.\<close>

definition cmd_step :: "'b bus_ops \<Rightarrow> string \<Rightarrow> ('b console, unit) prog" where
  "cmd_step B tcnt =
    (let cnt = unat (ucast (strtoul 10 tcnt) :: u32) in
     andThen
       (forM [0..<min cnt (2 ^ 31)] (\<lambda>_.
         andThen (on_chip (do_write B STATION_VP_S2B_DEBUG_RESUME_ADDR_0 1))
           (bnd (on_chip (do_read B STATION_VP_WB_PC_ADDR_0)) (\<lambda>pc. say (''pc = '' @ hex pc)))))
       (definedM ''i ++'' (cnt < 2 ^ 31)))"

definition cmd_register :: "'b bus_ops \<Rightarrow> string \<Rightarrow> ('b console, unit) prog" where
  "cmd_register B name =
    (let a = the (smap_get debug_map name) in
     bnd (on_chip (do_read B a)) (\<lambda>d.
     say (''Do Read to Addr '' @ hex a @ '' ('' @ name @ ''), Got Data '' @ hex d)))"

text \<open>The chain of tests on the words of a line. The result is whether the console quits.\<close>

definition console_cmd :: "'b bus_ops \<Rightarrow> nat \<Rightarrow> string \<Rightarrow> ('b console, bool) prog" where
  "console_cmd B fuel cmd =
    (let q = words_in cmd; go = (\<lambda>m. andThen m (ret False)) in
     if q = [''status''] then ret False
     else if q = [''setpc''] then go (on_chip (do_write B STATION_VP_S2B_CFG_RST_PC_ADDR_0 0x80000000))
     else if q = [''list_debug''] then go (forM debug_map (\<lambda>(k, _). say (CHR 0x09 # k)))
     else if q = [''reset''] then go (process_reset B)
     else if length q = 1 \<and> smap_get debug_map (hd q) \<noteq> None then go (cmd_register B (hd q))
     else if q = [''test_ddr''] then ret False
     else if q = [''release_vp0_reset''] then go (on_chip (do_write B STATION_VP_S2B_RSTN_ADDR_0 1))
     else if length q = 2 \<and> hd q = ''step'' then go (cmd_step B (q ! 1))
     else if q = [] \<or> hd q = ''help'' \<or> hd q = ''h'' then go (say ''This is Help Info'')
     else if hd q = ''quit'' \<or> hd q = ''q'' \<or> hd q = ''exit'' then ret True
     else if length q = 3 \<and> hd q = ''read'' then go (cmd_read B (q ! 1) (q ! 2))
     else if length q = 4 \<and> hd q = ''write'' then go (cmd_write B (q ! 1) (q ! 2) (q ! 3))
     else if length q = 4 \<and> hd q = ''dump'' then go (cmd_dump B fuel (q ! 1) (q ! 2) (q ! 3))
     else go (say ''Unrecognized Command; Please use help or h to see supported command list.''))"

text \<open>
  The loop of \<open>main\<close>. \<open>std::getline\<close> leaves an empty string at the end of the input, and nothing
  looks at the state of the stream.
\<close>

fun console_run :: "'b bus_ops \<Rightarrow> nat \<Rightarrow> nat \<Rightarrow> string list \<Rightarrow> ('b console, unit) prog" where
  "console_run B fuel 0 lines' = raise Diverges"
| "console_run B fuel (Suc n) lines' =
    bnd (console_cmd B fuel (case lines' of [] \<Rightarrow> '''' | l # _ \<Rightarrow> l)) (\<lambda>quit.
    if quit then ret () else console_run B fuel n (drop 1 lines'))"

text \<open>The port of the server, from the last argument \<open>serverPort=\<close>.\<close>

definition server_port :: "string list \<Rightarrow> u16" where
  "server_port args =
    (let p = foldl (\<lambda>p arg'. if take 11 arg' = ''serverPort='' then of_int (atoi (drop 11 arg')) else p) 0 args
     in if p = 0 then 8900 else p)"

section \<open>Reading a number back\<close>

definition plain_digit :: "nat \<Rightarrow> char \<Rightarrow> bool" where
  "plain_digit m c \<longleftrightarrow> is_digit 16 c \<and> digit_val c = Some m \<and> \<not> is_space c
     \<and> c \<noteq> CHR ''-'' \<and> c \<noteq> CHR ''+'' \<and> c \<noteq> CHR ''x'' \<and> c \<noteq> CHR ''X'' \<and> c \<noteq> CHR '' ''"

lemma hex_digit_chars: "list_all (\<lambda>m. plain_digit m (hex_digit_char m)) [0..<16]"
  by (simp add: upt_conv_Cons plain_digit_def is_digit_def digit_val_def is_space_def hex_digit_char_def
      Let_def char_of_eq_iff)

lemma hex_digit_char_facts:
  assumes "m < 16"
  shows "is_digit 16 (hex_digit_char m)" "digit_val (hex_digit_char m) = Some m" "\<not> is_space (hex_digit_char m)"
    "hex_digit_char m \<notin> {CHR ''-'', CHR ''+'', CHR ''x'', CHR ''X'', CHR '' ''}"
  using hex_digit_chars assms by (auto simp: list_all_iff plain_digit_def)

definition hex_text :: "string \<Rightarrow> bool" where
  "hex_text t \<longleftrightarrow> t \<noteq> [] \<and>
    (\<forall>c \<in> set t. is_digit 16 c \<and> \<not> is_space c \<and> c \<notin> {CHR ''-'', CHR ''+'', CHR ''x'', CHR ''X'', CHR '' ''})"

lemma hex_text_to_hex: "hex_text (to_hex n)"
proof (induction n rule: to_hex.induct)
  case (1 n)
  show ?case
    using 1 hex_digit_char_facts [of n] hex_digit_char_facts [of "n mod 16"]
    by (cases "n < 16") (auto simp: hex_text_def to_hex.simps [of n])
qed

lemma digits_to_hex: "digits 16 0 (to_hex n) = (n, [])"
proof (induction n rule: to_hex.induct)
  case (1 n)
  show ?case
  proof (cases "n < 16")
    case True
    then show ?thesis using hex_digit_char_facts [of n] by (simp add: to_hex.simps [of n])
  next
    case False
    have "\<forall>c \<in> set (to_hex (n div 16)). is_digit 16 c"
      using hex_text_to_hex [of "n div 16"] by (simp add: hex_text_def)
    with False 1 show ?thesis
      using hex_digit_char_facts [of "n mod 16"] by (simp add: to_hex.simps [of n] digits_append)
  qed
qed

lemma strto_to_hex: "strto 16 (to_hex n) = Some (False, n, [])"
proof -
  from hex_text_to_hex [of n] obtain c cs where eq: "to_hex n = c # cs"
    and c: "is_digit 16 c" "\<not> is_space c" "c \<noteq> CHR ''-''" "c \<noteq> CHR ''+''"
    and x: "\<not> hex_prefix (c # cs)"
    by (cases "to_hex n") (auto simp: hex_text_def hex_prefix_def split: list.splits)
  then show ?thesis
    using digits_to_hex [of n] by (simp add: strto_def strto_unsigned_def Let_def)
qed

lemma strtoul_to_hex [simp]: "strtoul 16 (to_hex (unat w)) = w"
proof -
  have "unat w < 2 ^ 64" using unsigned_less [of w, where ?'a = nat] by simp
  then show ?thesis by (simp add: strtoul_def strto_to_hex)
qed

lemma strto_rest_to_hex [simp]: "strto_rest 16 (to_hex n) = ''''"
  by (simp add: strto_rest_def strto_to_hex)

section \<open>Words of a line\<close>

lemma split_word: "d \<notin> set w \<Longrightarrow> split d (w @ d # s) = w # split d s"
proof -
  assume "d \<notin> set w"
  then have "takeWhile (\<lambda>c. c \<noteq> d) (w @ d # s) = w" by (induction w) auto
  then show "split d (w @ d # s) = w # split d s" by (subst split.simps) simp
qed

lemma split_last:
  assumes "d \<notin> set w" and "w \<noteq> []"
  shows "split d w = [w]"
proof -
  have w: "takeWhile (\<lambda>c. c \<noteq> d) w = w" using assms(1) by (induction w) auto
  have "split d [] = []" by (subst split.simps) simp
  with assms(2) show ?thesis by (subst split.simps) (simp only: w drop_all le_SucI order_refl if_False)
qed

text \<open>A line of words with single blanks between them.\<close>

fun line_of :: "string list \<Rightarrow> string" where
  "line_of [] = ''''"
| "line_of [w] = w"
| "line_of (w # ws) = w @ CHR '' '' # line_of ws"

theorem words_in_line:
  "list_all (\<lambda>w. w \<noteq> [] \<and> CHR '' '' \<notin> set w) ws \<Longrightarrow> words_in (line_of ws) = ws"
  unfolding words_in_def
proof (induction ws rule: line_of.induct)
  case 1
  show ?case by (subst split.simps) simp
qed (simp_all add: split_word split_last)

lemma blank_in_to_hex [simp]: "CHR '' '' \<notin> set (to_hex n)" "to_hex n \<noteq> []"
  using hex_text_to_hex [of n] by (auto simp: hex_text_def)

section \<open>What the commands do\<close>

text \<open>\<open>write\<close>, \<open>read\<close> and \<open>quit\<close> as a user types them.\<close>

definition write_line :: "addr \<Rightarrow> u64 \<Rightarrow> string \<Rightarrow> string" where
  "write_line a d target = line_of [''write'', to_hex (unat a), to_hex (unat d), target]"

definition read_line :: "addr \<Rightarrow> string \<Rightarrow> string" where
  "read_line a target = line_of [''read'', to_hex (unat a), target]"

definition plain_word :: "string \<Rightarrow> bool" where
  "plain_word w \<longleftrightarrow> w \<noteq> [] \<and> CHR '' '' \<notin> set w"

lemma console_write:
  assumes "plain_word target"
  shows "console_cmd B fuel (write_line a d target) =
    andThen (andThen (on_chip (target_write B target a d))
      (say (''Do Write to Addr '' @ hex a @ '' with Data '' @ hex d))) (ret False)"
proof -
  have "words_in (write_line a d target) = [''write'', to_hex (unat a), to_hex (unat d), target]"
    unfolding write_line_def by (rule words_in_line) (use assms in \<open>simp add: plain_word_def\<close>)
  then show ?thesis by (simp add: console_cmd_def cmd_write_def Let_def)
qed

lemma console_read:
  assumes "plain_word target"
  shows "console_cmd B fuel (read_line a target) =
    andThen (bnd (on_chip (target_read B target a)) (\<lambda>d.
      say (''Do Read to Addr '' @ hex a @ '', Got Data '' @ hex d))) (ret False)"
proof -
  have "words_in (read_line a target) = [''read'', to_hex (unat a), target]"
    unfolding read_line_def by (rule words_in_line) (use assms in \<open>simp add: plain_word_def\<close>)
  then show ?thesis by (simp add: console_cmd_def cmd_read_def Let_def)
qed

lemma console_quit: "console_cmd B fuel ''quit'' = ret True"
proof -
  have "words_in ''quit'' = [''quit'']"
    using words_in_line [of "[''quit'']"] by simp
  moreover have "smap_get debug_map ''quit'' = None"
    unfolding debug_lookup by code_simp
  ultimately show ?thesis by (simp add: console_cmd_def Let_def)
qed

text \<open>The two accesses through the debug port.\<close>

lemma target_write_dma:
  assumes "debug_port B binv bmem bnext" and "binv b" and "in_dram a" and "take_bit 3 a = 0"
  shows "\<exists>b'. target_write B ''dma'' a d b = (Inr (), b') \<and> binv b' \<and> bmem b' = upd_range (bmem b) a (le_bytes 8 d)"
  using assms unfolding debug_port_def target_write_def by simp blast

lemma target_read_dma:
  assumes "debug_port B binv bmem bnext" and "binv b" and "in_dram a" and "take_bit 3 a = 0"
  shows "\<exists>b'. target_read B ''dma'' a b = (Inr (le_word (get_range (bmem b) a 8)), b') \<and> binv b' \<and> bmem b' = bmem b"
  using assms unfolding debug_port_def target_read_def by simp

lemma console_session:
  assumes port: "debug_port B binv bmem bnext" and ok: "binv (con_bus s)" and a: "in_dram a" "take_bit 3 a = 0"
  shows "\<exists>s'. console_run B fuel 3 [write_line a d ''dma'', read_line a ''dma'', ''quit''] s = (Inr (), s')
    \<and> con_out s' = con_out s @ [''Do Write to Addr '' @ hex a @ '' with Data '' @ hex d,
        ''Do Read to Addr '' @ hex a @ '', Got Data '' @ hex d]
    \<and> bmem (con_bus s') = upd_range (bmem (con_bus s)) a (le_bytes 8 d)"
proof -
  obtain b1 where w: "target_write B ''dma'' a d (con_bus s) = (Inr (), b1)" "binv b1"
      "bmem b1 = upd_range (bmem (con_bus s)) a (le_bytes 8 d)"
    using target_write_dma [OF port ok a] by blast
  moreover have "get_range (bmem b1) a 8 = le_bytes 8 d"
    unfolding w(3) by (rule get_upd_range_same) simp_all
  ultimately obtain b2 where r: "target_read B ''dma'' a b1 = (Inr d, b2)" "bmem b2 = bmem b1"
    using target_read_dma [OF port _ a, of b1] by (auto simp: le_word_le_bytes_full)
  have dma: "plain_word ''dma''" by (simp add: plain_word_def)
  show ?thesis
    using w(3) r(2)
    by (simp add: numeral_3_eq_3 console_write [OF dma] console_read [OF dma] console_quit say_def
        bnd_def andThen_def on_chip_def w(1) r(1))
qed

text \<open>
  C18: a session at the console that writes an aligned word of DRAM through the debug port and reads
  it back: the numbers the user types come back as printed, the word is in the memory behind the AXI
  engine and nothing else has changed there, through the text of the commands, the debug port, the
  packets on the socket and the Tcl server.
\<close>

theorem console_round_trip:
  assumes "debug_port (axi_bus X) ainv amem anext" and "axi_wide X" and "link_ok ainv (con_bus s)"
    and "in_dram a" and "take_bit 3 a = 0"
  shows "\<exists>s'. console_run (socket_bus (tcl_channel X)) fuel 3
      [write_line a d ''dma'', read_line a ''dma'', ''quit''] s = (Inr (), s')
    \<and> con_out s' = con_out s @ [''Do Write to Addr '' @ hex a @ '' with Data '' @ hex d,
        ''Do Read to Addr '' @ hex a @ '', Got Data '' @ hex d]
    \<and> amem (tc_axi (con_bus s')) = upd_range (amem (tc_axi (con_bus s))) a (le_bytes 8 d)"
  by (rule console_session [OF socket_debug_port [OF assms(1,2)] assms(3-5)])

definition sample_console :: "port_chip tcl_server console" where
  "sample_console =
    \<lparr>con_bus = quiet_link \<lparr>pc_mem = (\<lambda>_. 0x55), pc_addr = 0, pc_type = 0\<rparr>, con_out = []\<rparr>"

theorem console_round_trip_witness:
  "\<exists>s'. console_run (socket_bus (tcl_channel port_axi)) 0 3
      [write_line 0x80001008 0xcafe ''dma'', read_line 0x80001008 ''dma'', ''quit''] sample_console = (Inr (), s')
    \<and> con_out s' = con_out sample_console @ [''Do Write to Addr '' @ hex 0x80001008 @ '' with Data '' @ hex 0xcafe,
        ''Do Read to Addr '' @ hex 0x80001008 @ '', Got Data '' @ hex 0xcafe]
    \<and> pc_mem (tc_axi (con_bus s')) = upd_range (pc_mem (tc_axi (con_bus sample_console))) 0x80001008 (le_bytes 8 (0xcafe :: u64))"
proof -
  have "link_ok (\<lambda>_. True) (con_bus sample_console)" "in_dram 0x80001008" "take_bit 3 (0x80001008 :: addr) = 0"
    by (simp_all add: in_dram_def sample_console_def)
  from console_round_trip [OF port_axi_is_debug_port port_axi_wide this] show ?thesis .
qed

section \<open>Registers by name\<close>

text \<open>None of the names is a command that is tested before the table, and none has a blank.\<close>

lemma debug_names_plain:
  "list_all (\<lambda>p. fst p \<notin> {''status'', ''setpc'', ''list_debug'', ''reset''} \<and> plain_word (fst p)) debug_entries"
  by code_simp

theorem named_register_is_read:
  assumes "map_of debug_entries name = Some a"
  shows "console_cmd B fuel name =
      andThen (bnd (on_chip (do_read B a)) (\<lambda>d.
        say (''Do Read to Addr '' @ hex a @ '' ('' @ name @ ''), Got Data '' @ hex d))) (ret False)
    \<and> core0_register a"
proof -
  from assms have mem: "(name, a) \<in> set debug_entries" by (rule map_of_SomeD)
  with debug_names_plain have n: "name \<notin> {''status'', ''setpc'', ''list_debug'', ''reset''}" "plain_word name"
    by (auto simp: list_all_iff)
  then have "words_in name = [name]"
    using words_in_line [of "[name]"] by (simp add: plain_word_def)
  with n(1) assms have "console_cmd B fuel name = andThen (cmd_register B name) (ret False)"
    by (simp add: console_cmd_def Let_def debug_lookup)
  moreover have "core0_register a" using debug_entries_core0 mem by (auto simp: list_all_iff)
  ultimately show ?thesis using assms by (simp add: cmd_register_def debug_lookup)
qed

section \<open>Loops that do not end\<close>

text \<open>At the end of its input the console prints its help for ever.\<close>

lemma console_empty_line: "console_cmd B fuel '''' = andThen (say ''This is Help Info'') (ret False)"
  using words_in_line [of "[]"] by (simp add: console_cmd_def Let_def)

theorem end_of_input_hangs:
  "console_run B fuel n [] s = (Inl Diverges, s\<lparr>con_out := con_out s @ replicate n ''This is Help Info''\<rparr>)"
  by (induction n arbitrary: s)
    (simp_all add: console_empty_line say_def andThen_def bnd_def replicate_append_same [symmetric])

text \<open>A bus that answers every read.\<close>

definition reads_ok :: "'b bus_ops \<Rightarrow> string \<Rightarrow> bool" where
  "reads_ok B target \<longleftrightarrow> (\<forall>a b. \<exists>d b'. target_read B target a b = (Inr d, b'))"

lemma dump_word_ok: "reads_ok B target \<Longrightarrow> \<exists>s'. dump_word B target a s = (Inr (), s')"
  unfolding reads_ok_def
  by (drule spec [of _ a], drule spec [of _ "con_bus s"]) (auto simp: dump_word_def on_chip_def say_def bnd_def andThen_def)

text \<open>A dump ends, with one reading per word, when the address after the last word does not wrap.\<close>

lemma dump_ends:
  assumes "reads_ok B target" and "unat hi < 2 ^ 64 - 8" and "unat hi < unat a + 8 * n"
  shows "\<exists>s'. dump_from B target (Suc n) a hi s = (Inr (), s')"
  using assms(3)
proof (induction n arbitrary: a s)
  case 0
  then show ?case by (simp add: word_le_nat_alt)
next
  case (Suc n)
  show ?case
  proof (cases "a \<le> hi")
    case True
    with assms(2) have "unat (a + 8) = unat a + 8"
      by (simp add: word_le_nat_alt unat_word_ariths)
    with Suc.prems Suc.IH [of "a + 8"] dump_word_ok [OF assms(1), of a s] True show ?thesis
      by (auto simp del: dump_from.simps simp: dump_from.simps(2) [of _ _ "Suc n"] andThen_Inr)
  qed simp
qed

text \<open>One that reaches the top of the address space starts again at the bottom.\<close>

lemma dump_to_the_top_hangs:
  assumes "reads_ok B target" and "2 ^ 64 - 8 \<le> unat hi" and "8 dvd unat a"
  shows "\<exists>s'. dump_from B target n a hi s = (Inl Diverges, s')"
  using assms(3)
proof (induction n arbitrary: a s)
  case 0
  show ?case by simp
next
  case (Suc n)
  from Suc.prems obtain k where k: "unat a = 8 * k" by (auto elim: dvdE)
  moreover have "unat a < 2 ^ 64" using unsigned_less [of a, where ?'a = nat] by simp
  ultimately have "a \<le> hi" using assms(2) by (simp add: word_le_nat_alt)
  moreover have "8 dvd unat (a + 8)"
    using k by (simp add: unat_word_ariths dvd_mod_iff)
  ultimately show ?case
    using Suc.IH [of "a + 8"] dump_word_ok [OF assms(1), of a s] by (auto simp: andThen_Inr)
qed

section \<open>Numbers that are not checked\<close>

text \<open>The end of the address is overwritten by the end of the data: any word passes as an address.\<close>

lemma write_checks_data_only:
  "console_cmd B fuel ''write there 7 rb'' =
    andThen (andThen (on_chip (do_write B 0 7)) (say ''Do Write to Addr 0x0 with Data 0x7'')) (ret False)"
proof -
  have w: "words_in ''write there 7 rb'' = [''write'', ''there'', ''7'', ''rb'']"
    using words_in_line [of "[''write'', ''there'', ''7'', ''rb'']"] by simp
  have n: "strtoul 16 ''there'' = 0" "strtoul 16 ''7'' = 7" "strto_rest 16 ''7'' = ''''"
    by (simp_all add: strtoul_def strto_rest_def strto_def strto_unsigned_def hex_prefix_def is_space_def
        is_digit_def digit_val_def Let_def)
  have "hex 0 = ''0x0''" "hex 7 = ''0x7''"
    by (simp_all add: hex_def to_hex.simps hex_digit_char_def char_of_def bit_0)
  then show ?thesis by (simp add: console_cmd_def cmd_write_def target_write_def Let_def w n)
qed

end
