(* ===== verification/Runtime.thy ===== *)
theory Runtime
  imports Board_Loop
begin

text \<open>
  The other end of the protocol: the runtime library with which the test programs of the chip are linked
  (\<open>tb/test_program/benchmarks/common/syscalls.c\<close>). Its \<open>syscall\<close> puts a request into a block of its stack,
  the address of the block at \<open>tohost\<close>, and waits for \<open>fromhost\<close>; \<open>exit\<close> leaves an odd word at \<open>tohost\<close>.
  The program runs beside the server loop: a step of the system is one access of the program to memory or
  one turn of the server, in any order.
\<close>

section \<open>The program\<close>

text \<open>
  A call: what the program puts into the buffer of the call before it makes it (\<open>putchar\<close> collects its
  characters there), where the \<open>magic_mem\<close> is, and the number and the three arguments that go into it.
\<close>

record rt_call =
  ca_fill :: "u8 list"
  ca_mem :: addr
  ca_args :: "reg list"

text \<open>
  The accesses of a call in order: the bytes of the buffer, then, in \<open>syscall\<close>, the four stores, the store to \<open>tohost\<close>, the loop on \<open>fromhost\<close>, the
  store that clears it, the load of the result; \<open>Finish\<close> and \<open>Halted\<close> are those of \<open>tohost_exit\<close>.
\<close>

datatype rt_pc = Fill nat | Store nat | Ring | Spin | Clear | Load | Finish | Halted

record program =
  pr_pc :: rt_pc
  pr_calls :: "rt_call list"
  pr_results :: "reg list"
  pr_status :: reg

definition first_pc :: "rt_call list \<Rightarrow> rt_pc" where
  "first_pc cs = (case cs of [] \<Rightarrow> Finish | c # _ \<Rightarrow> if ca_fill c = [] then Store 0 else Fill 0)"

definition program_init :: "rt_call list \<Rightarrow> reg \<Rightarrow> program" where
  "program_init cs st = \<lparr>pr_pc = first_pc cs, pr_calls = cs, pr_results = [], pr_status = st\<rparr>"

text \<open>The word that ends the test.\<close>

definition exit_word_of :: "reg \<Rightarrow> reg" where
  "exit_word_of st = push_bit 1 st OR 1"

text \<open>The store of the next access, if it is one.\<close>

definition rt_store :: "addr \<Rightarrow> addr \<Rightarrow> program \<Rightarrow> (addr \<times> u8 list) option" where
  "rt_store th fh p = (let c = hd (pr_calls p) in case pr_pc p of
     Fill i \<Rightarrow> Some (ca_args c ! 2 + of_nat i, [ca_fill c ! i])
   | Store i \<Rightarrow> Some (ca_mem c + of_nat (8 * i), le_bytes 8 (ca_args c ! i))
   | Ring \<Rightarrow> Some (th, le_bytes 8 (ca_mem c))
   | Clear \<Rightarrow> Some (fh, le_bytes 8 (0 :: u64))
   | Finish \<Rightarrow> Some (th, le_bytes 8 (exit_word_of (pr_status p)))
   | _ \<Rightarrow> None)"

text \<open>Where the program is after the access, given the memory it reads.\<close>

definition rt_next :: "addr \<Rightarrow> memory \<Rightarrow> program \<Rightarrow> program" where
  "rt_next fh m p = (case pr_pc p of
     Fill i \<Rightarrow> p\<lparr>pr_pc := (if Suc i < length (ca_fill (hd (pr_calls p))) then Fill (Suc i) else Store 0)\<rparr>
   | Store i \<Rightarrow> p\<lparr>pr_pc := (if i < 3 then Store (Suc i) else Ring)\<rparr>
   | Ring \<Rightarrow> p\<lparr>pr_pc := Spin\<rparr>
   | Spin \<Rightarrow> p\<lparr>pr_pc := (if word_at m fh = 0 then Spin else Clear)\<rparr>
   | Clear \<Rightarrow> p\<lparr>pr_pc := Load\<rparr>
   | Load \<Rightarrow> p\<lparr>pr_pc := first_pc (tl (pr_calls p)), pr_calls := tl (pr_calls p),
       pr_results := pr_results p @ [word_at m (ca_mem (hd (pr_calls p)))]\<rparr>
   | Finish \<Rightarrow> p\<lparr>pr_pc := Halted\<rparr>
   | Halted \<Rightarrow> p)"

text \<open>\<open>printstr\<close> and \<open>putchar\<close> write a buffer to descriptor 1.\<close>

definition SYS_write :: reg where "SYS_write = 64"

definition write_call :: "u8 list \<Rightarrow> addr \<Rightarrow> reg \<Rightarrow> addr \<Rightarrow> reg \<Rightarrow> rt_call" where
  "write_call bs mm fd p n = \<lparr>ca_fill = bs, ca_mem = mm, ca_args = [SYS_write, fd, p, n]\<rparr>"

section \<open>The system\<close>

text \<open>One turn of the loop of the server, if the loop is still going.\<close>

definition server_turn ::
    "'t htif_ops \<Rightarrow> 'e host_ops \<Rightarrow> (syscall \<Rightarrow> reg list \<Rightarrow> ('t, 'e, reg) sprog) \<Rightarrow> ('t, 'e) htif_proj
      \<Rightarrow> u64 \<Rightarrow> nat \<Rightarrow> ('t, 'e, unit) hprog" where
  "server_turn h ho run proj garbage fuel =
    bnd (host_call (ho_signal ho)) (\<lambda>sig.
    bnd (getS (\<lambda>s. sv_exitcode (ht_server s))) (\<lambda>ec.
    if \<not> sig \<and> ec = 0 then run_turn h ho run proj garbage fuel quiet_flags else ret ()))"

text \<open>
  A step of the program and a turn of the server. \<open>store\<close> is what a store of the processor does to the
  chip, which only its memory interface shows.
\<close>

inductive sys_step ::
    "'t htif_ops \<Rightarrow> 'e host_ops \<Rightarrow> (syscall \<Rightarrow> reg list \<Rightarrow> ('t, 'e, reg) sprog) \<Rightarrow> ('t, 'e) htif_proj
      \<Rightarrow> u64 \<Rightarrow> nat \<Rightarrow> ('t \<Rightarrow> memory) \<Rightarrow> (addr \<Rightarrow> u8 list \<Rightarrow> 't \<Rightarrow> 't)
      \<Rightarrow> program \<times> ('t, 'e) htif \<Rightarrow> program \<times> ('t, 'e) htif \<Rightarrow> bool"
  for h ho run proj garbage fuel mem store where
  program_stores: "rt_store (ht_tohost_addr s) (ht_fromhost_addr s) p = Some (a, v) \<Longrightarrow>
    sys_step h ho run proj garbage fuel mem store (p, s)
      (rt_next (ht_fromhost_addr s) (mem (target_of s)) p, with_target (store a v (target_of s)) s)"
| program_reads: "rt_store (ht_tohost_addr s) (ht_fromhost_addr s) p = None \<Longrightarrow>
    sys_step h ho run proj garbage fuel mem store (p, s)
      (rt_next (ht_fromhost_addr s) (mem (target_of s)) p, s)"
| server_turns: "server_turn h ho run proj garbage fuel s = (Inr (), s') \<Longrightarrow>
    sys_step h ho run proj garbage fuel mem store (p, s) (p, s')"

inductive_cases sys_stepE: "sys_step h ho run proj garbage fuel mem store (p, s) x"

section \<open>Memory\<close>

definition block :: "addr \<Rightarrow> nat \<Rightarrow> addr set" where
  "block a n = {x. unat (x - a) < n}"

definition agree :: "addr set \<Rightarrow> memory \<Rightarrow> memory \<Rightarrow> bool" where
  "agree T m m' \<longleftrightarrow> (\<forall>x. x \<notin> T \<longrightarrow> m x = m' x)"

lemma agree_refl [simp]: "agree T m m"
  by (simp add: agree_def)

lemma agree_trans: "agree T m m' \<Longrightarrow> agree T m' m'' \<Longrightarrow> agree T m m''"
  by (simp add: agree_def)

lemma agree_upd_both: "agree T m m' \<Longrightarrow> agree T (upd_range m a bs) (upd_range m' a bs)"
  by (simp add: agree_def upd_range_def)

lemma agree_subset: "agree S m m' \<Longrightarrow> S \<subseteq> T \<Longrightarrow> agree T m m'"
  by (auto simp: agree_def)

lemma agree_upd_range: "block a (length bs) \<subseteq> T \<Longrightarrow> agree T (upd_range m a bs) m"
  by (auto simp: agree_def upd_range_def block_def)

lemma agree_set_word: "block a 8 \<subseteq> T \<Longrightarrow> agree T (set_word m a v) m"
  unfolding set_word_def by (rule agree_upd_range) simp

lemma in_block: "i < n \<Longrightarrow> n \<le> 2 ^ 64 \<Longrightarrow> a + of_nat i \<in> block a n"
  by (simp add: block_def)

lemma get_range_agree:
  assumes "agree T m m'" and "block a n \<inter> T = {}" and "n \<le> 2 ^ 64"
  shows "get_range m a n = get_range m' a n"
proof (rule nth_equalityI)
  fix i assume "i < length (get_range m a n)"
  then have "i < n" by simp
  with in_block [of i n a] assms have "a + of_nat i \<notin> T" by blast
  with assms(1) \<open>i < n\<close> show "get_range m a n ! i = get_range m' a n ! i"
    by (simp add: agree_def)
qed simp

lemma word_at_agree: "agree T m m' \<Longrightarrow> block a 8 \<inter> T = {} \<Longrightarrow> word_at m a = word_at m' a"
  using get_range_agree [of T m m' a 8] by (simp add: word_at_def)

lemma word_at_set_other: "block a 8 \<inter> block b 8 = {} \<Longrightarrow> word_at (set_word m b v) a = word_at m a"
  by (rule word_at_agree [OF agree_set_word [OF subset_refl]])

section \<open>What the chip and the host promise\<close>

text \<open>
  A transport that serves the two words and all of the memory of the program, leaves memory alone when
  it idles, and shows the stores of the processor.
\<close>

locale running_target = word_target h k iv mem okw
  for h :: "'t htif_ops" and k :: nat and iv :: "'t \<Rightarrow> bool" and mem :: "'t \<Rightarrow> memory" and okw :: "addr \<Rightarrow> bool" +
  fixes ok :: "addr \<Rightarrow> bool" and store :: "addr \<Rightarrow> u8 list \<Rightarrow> 't \<Rightarrow> 't"
  assumes all_memory: "chunk_target h DMA k iv mem ok"
    and store_law: "iv t \<Longrightarrow> iv (store a bs t) \<and> mem (store a bs t) = upd_range (mem t) a bs"
    and idle_law: "iv t \<Longrightarrow> \<exists>t'. idle h t = (Inr (), t') \<and> iv t' \<and> mem t' = mem t"

text \<open>\<open>out\<close> is what has been written to each descriptor; the host takes all it is given, and no signal comes.\<close>

definition taking_host :: "'e host_ops \<Rightarrow> ('e \<Rightarrow> (int \<times> u8 list) list) \<Rightarrow> bool" where
  "taking_host ho out \<longleftrightarrow>
     (\<forall>e. \<not> fst (ho_signal ho e) \<and> out (snd (ho_signal ho e)) = out e \<and> out (snd (ho_rand ho e)) = out e)
   \<and> (\<forall>fd bs e. fst (os_write (ho_os ho) fd bs e) = int (length bs)
        \<and> out (snd (os_write (ho_os ho) fd bs e)) = out e @ [(fd, bs)])"

text \<open>The parts of the server that a turn may change.\<close>

definition with_world :: "'t \<Rightarrow> 'e \<Rightarrow> u32 \<Rightarrow> ('t, 'e) htif \<Rightarrow> ('t, 'e) htif" where
  "with_world t e x s = s\<lparr>ht_server := (ht_server s)\<lparr>sv_target := t, sv_env := e, sv_exitcode := x\<rparr>\<rparr>"

definition env_of :: "('t, 'e) htif \<Rightarrow> 'e" where
  "env_of s = sv_env (ht_server s)"

lemma with_world_simps [simp]:
  "target_of (with_world t e x s) = t" "env_of (with_world t e x s) = e"
  "sv_exitcode (ht_server (with_world t e x s)) = x"
  "ht_tohost_addr (with_world t e x s) = ht_tohost_addr s" "ht_fromhost_addr (with_world t e x s) = ht_fromhost_addr s"
  "with_world t' e' x' (with_world t e x s) = with_world t' e' x' s"
  "with_target t' (with_world t e x s) = with_world t' e x s"
  "with_world (target_of s) (env_of s) (sv_exitcode (ht_server s)) s = s"
  "sv_fromhost_queue (ht_server (with_world t e x s)) = sv_fromhost_queue (ht_server s)"
  "sv_fds (ht_server (with_world t e x s)) = sv_fds (ht_server s)"
  "proxy_first (ht_server (with_world t e x s)) = proxy_first (ht_server s)"
  "quiet_devices (ht_server (with_world t e x s)) = quiet_devices (ht_server s)"
  by (simp_all add: with_world_def with_target_def target_of_def env_of_def proxy_first_def quiet_devices_def)

lemma with_target_world: "with_target t s = with_world t (env_of s) (sv_exitcode (ht_server s)) s"
  by (simp add: with_world_def with_target_def env_of_def)

lemma host_call_run:
  "host_call f s = (Inr (fst (f (env_of s))), with_world (target_of s) (snd (f (env_of s))) (sv_exitcode (ht_server s)) s)"
  by (simp add: host_call_def on_server_def on_env_run env_of_def with_world_def target_of_def)

text \<open>A server that is running, with nothing to deliver and devices that do nothing.\<close>

definition settled :: "('t, 'e) htif \<Rightarrow> bool" where
  "settled s \<longleftrightarrow> sv_fromhost_queue (ht_server s) = [] \<and> proxy_first (ht_server s) \<and> quiet_devices (ht_server s)"

lemma settled_with_world [simp]: "settled (with_world t e x s) = settled s"
  by (simp add: settled_def)

lemma quiet_flags_simps [simp]:
  "\<not> rf_freeze quiet_flags" "\<not> rf_test_bp quiet_flags" "\<not> rf_test_instret quiet_flags"
  "\<not> rf_background quiet_flags" "\<not> rf_log_step quiet_flags" "\<not> rf_test_bg quiet_flags"
  by (simp_all add: quiet_flags_def)

text \<open>After the host has been asked for a signal, a turn of a running server is \<open>run_turn\<close>.\<close>

lemma server_turn_runs:
  assumes "taking_host ho out" and "sv_exitcode (ht_server s) = 0"
  shows "\<exists>e. out e = out (env_of s) \<and>
    server_turn h ho run proj g fuel s = run_turn h ho run proj g fuel quiet_flags (with_world (target_of s) e 0 s)"
  using assms
  by (intro exI [of _ "snd (ho_signal ho (env_of s))"])
    (simp add: taking_host_def server_turn_def bnd_def host_call_run)

lemma server_turn_stopped:
  assumes "taking_host ho out" and "sv_exitcode (ht_server s) \<noteq> 0"
  shows "\<exists>e. out e = out (env_of s) \<and>
    server_turn h ho run proj g fuel s = (Inr (), with_world (target_of s) e (sv_exitcode (ht_server s)) s)"
  using assms
  by (intro exI [of _ "snd (ho_signal ho (env_of s))"])
    (simp add: taking_host_def server_turn_def bnd_def host_call_run)

lemma tick_settled:
  assumes "settled s"
  shows "on_server (device_list_tick h (ho_os ho)) s = (Inr (), s)"
  using assms by (simp add: settled_def on_server_def device_list_tick_quiet)

lemma unblock_quiet: "unblock_wfe h quiet_flags s = (Inr (), s)"
  by (simp add: unblock_wfe_def bnd_getS)

lemma run_turn_quiet:
  assumes "serve_tohost h ho run proj g quiet_flags s = (Inr w, s1)"
    and "on_server (device_list_tick h (ho_os ho)) s1 = (Inr (), s1)"
    and "deliver_fromhost h s1 = (Inr (), s2)"
  shows "run_turn h ho run proj g fuel quiet_flags s = (Inr (), s2)"
  using assms by (simp add: run_turn_def bnd_Inr andThen_Inr unblock_quiet)

context running_target begin

lemma store_word: "iv t \<Longrightarrow> mem (store a (le_bytes 8 v) t) = set_word (mem t) a (v :: u64)"
  using store_law by (simp add: set_word_def)

lemma idle_turn_run:
  assumes "taking_host ho out" and "iv (target_of s)"
  shows "\<exists>t e. idle_turn h ho proj g quiet_flags s = (Inr (), with_world t e (sv_exitcode (ht_server s)) s)
    \<and> iv t \<and> mem t = mem (target_of s) \<and> out e = out (env_of s)"
proof -
  let ?e = "snd (ho_rand ho (env_of s))"
  obtain t where t: "idle h (target_of s) = (Inr (), t)" "iv t" "mem t = mem (target_of s)"
    using idle_law [OF assms(2)] by blast
  have "on_mem (idle h) (with_world (target_of s) ?e (sv_exitcode (ht_server s)) s)
      = (Inr (), with_world t ?e (sv_exitcode (ht_server s)) s)"
    using on_mem_ok [of "idle h" "with_world (target_of s) ?e (sv_exitcode (ht_server s)) s" "()" t] t(1) by simp
  moreover have "out ?e = out (env_of s)"
    using assms(1) by (simp add: taking_host_def)
  ultimately show ?thesis
    using t by (auto simp: idle_turn_def bnd_def host_call_run)
qed

lemma deliver_settled:
  assumes "settled s" and "iv (target_of s)" and "word_addr okw (ht_fromhost_addr s)"
  shows "\<exists>t. deliver_fromhost h s = (Inr (), with_target t s) \<and> iv t \<and> mem t = mem (target_of s)"
  using deliver_fromhost_law [OF assms(2,3)] assms(1) by (auto simp: delivered_def settled_def)

text \<open>A turn that finds no request changes nothing the program or the host can see.\<close>

lemma quiet_turn:
  assumes "taking_host ho out" and "iv (target_of s)" and "settled s" and "sv_exitcode (ht_server s) = 0"
    and "word_addr okw (ht_tohost_addr s)" and "word_addr okw (ht_fromhost_addr s)"
    and "word_at (mem (target_of s)) (ht_tohost_addr s) = 0"
  shows "\<exists>t e. server_turn h ho run proj g fuel s = (Inr (), with_world t e 0 s)
    \<and> iv t \<and> mem t = mem (target_of s) \<and> out e = out (env_of s)"
proof -
  obtain e0 where e0: "out e0 = out (env_of s)" "server_turn h ho run proj g fuel s
      = run_turn h ho run proj g fuel quiet_flags (with_world (target_of s) e0 0 s)"
    using server_turn_runs [OF assms(1,4)] by blast
  let ?s = "with_world (target_of s) e0 0 s" and ?a = "ht_tohost_addr s"
  obtain t1 where 1: "on_mem (read_uint64 h ?a) ?s = (Inr 0, with_target t1 ?s)" "iv t1" "mem t1 = mem (target_of s)"
    using read_word [of ?s ?a] assms(2,5,7) by auto
  obtain t2 where 2: "on_mem (read_uint64 h ?a) (with_target t1 ?s) = (Inr 0, with_target t2 ?s)" "iv t2" "mem t2 = mem t1"
    using read_word [of "with_target t1 ?s" ?a] assms(5,7) 1(2,3) by auto
  obtain t3 e3 where 3: "idle_turn h ho proj g quiet_flags (with_target t2 ?s) = (Inr (), with_world t3 e3 0 s)"
      "iv t3" "mem t3 = mem t2" "out e3 = out e0"
    using idle_turn_run [OF assms(1), of "with_target t2 ?s" proj g] 2(2) by auto
  have serve: "serve_tohost h ho run proj g quiet_flags ?s = (Inr False, with_world t3 e3 0 s)"
    using 1(1) 2(1) 3(1) by (simp add: serve_tohost_def bnd_Inr andThen_Inr bnd_getS)
  obtain t4 where 4: "deliver_fromhost h (with_world t3 e3 0 s) = (Inr (), with_target t4 (with_world t3 e3 0 s))"
      "iv t4" "mem t4 = mem t3"
    using deliver_settled [of "with_world t3 e3 0 s"] assms(3,6) 3(2) by auto
  have "run_turn h ho run proj g fuel quiet_flags ?s = (Inr (), with_world t4 e3 0 s)"
    using run_turn_quiet [OF serve tick_settled 4(1)] assms(3) by simp
  with e0 1(3) 2(3) 3(3,4) 4(2,3) show ?thesis by auto
qed

end

text \<open>A \<open>write\<close> of the program, as the handler sees it.\<close>

definition buffer_ok :: "(addr \<Rightarrow> bool) \<Rightarrow> addr \<Rightarrow> reg \<Rightarrow> bool" where
  "buffer_ok ok p n \<longleftrightarrow> 0x80000000 \<le> p \<and> unat n < 2 ^ 63 \<and> (\<forall>i < unat n. ok (p + of_nat i))"

definition magic_ok :: "(addr \<Rightarrow> bool) \<Rightarrow> addr \<Rightarrow> bool" where
  "magic_ok ok mm \<longleftrightarrow> 0x80000000 \<le> mm \<and> mm < 2 ^ 48 \<and> mm AND 1 = 0 \<and> (\<forall>i < 64. ok (mm + of_nat i))"

lemma write_handler:
  assumes "chunk_target h DMA k iv mem ok" and "taking_host ho out" and "iv (sv_target s)"
    and "magic_ok ok mm" and "buffer_ok ok p n" and "proxy_first s"
    and "words_of 8 (get_range (mem (sv_target s)) mm 64) = SYS_write # fd # p # n # rest"
  shows "\<exists>t e. handle_command h (ho_os ho) (run_syscall h (ho_os ho) st0 fuel ext) mm s
      = (Inr (), s\<lparr>sv_target := t, sv_env := e, sv_fromhost_queue := sv_fromhost_queue s @ [1]\<rparr>)
    \<and> iv t \<and> mem t = upd_range (mem (sv_target s)) mm (bytes_of_words (n # fd # p # n # rest))
    \<and> out e = out (sv_env s) @ [(fds_lookup (sv_fds s) fd, get_range (mem (sv_target s)) p (unat n))]"
proof -
  let ?run = "run_syscall h (ho_os ho) st0 fuel ext"
  let ?bs = "get_range (mem (sv_target s)) p (unat n)" and ?fd = "fds_lookup (sv_fds s) fd"
  let ?e = "snd (os_write (ho_os ho) ?fd ?bs (sv_env s))"
  let ?Q = "\<lambda>s2. \<exists>t. s2 = s\<lparr>sv_target := t, sv_env := ?e\<rparr> \<and> mem t = mem (sv_target s)"
  have w: "syscall_table SYS_write = Some Write"
    by (simp add: SYS_write_def syscall_table_def syscall_entries_def)
  have m: "mm < 2 ^ 48" "0x80000000 \<le> mm" "mm AND 1 = 0" "\<forall>i < 64. ok (mm + of_nat i)"
    using assms(4) by (simp_all add: magic_ok_def)
  have nn: "uint n \<noteq> - 1"
    using unsigned_greater_eq [of n, where ?'a = int] by linarith
  have wr: "os_write (ho_os ho) ?fd ?bs (sv_env s) = (int (unat n), ?e)"
    using assms(2) by (simp add: taking_host_def prod_eq_iff)
  have "\<exists>s2. ?run Write (fd # p # n # rest) (s\<lparr>sv_target := t\<rparr>) = (Inr n, s2) \<and> iv (sv_target s2) \<and> ?Q s2"
    if "iv t" "mem t = mem (sv_target s)" for t
  proof -
    let ?s = "s\<lparr>sv_target := t\<rparr>"
    have "os_write (ho_os ho) (fds_lookup (sv_fds ?s) fd) (get_range (mem (sv_target ?s)) p (unat n)) (sv_env ?s)
        = (int (unat n), ?e)"
      using that wr by simp
    from sys_write_run [OF assms(1) _ _ _ _ this] that nn assms(5)
    obtain t2 where "sys_write h (ho_os ho) fd p n ?s = (Inr (reg_of_int (uint n)),
        s\<lparr>sv_target := t2, sv_env := ?e\<rparr>)" "iv t2" "mem t2 = mem t"
      by (auto simp: buffer_ok_def)
    then show ?thesis
      using that by (auto simp: run_syscall_def reg_of_int_def)
  qed
  from magic_memory_run [OF assms(1,3) command_fields(3) [OF m(1), symmetric] m(3,2,4) assms(7) w, where Q = ?Q and v = n and run = ?run, OF this]
  obtain s2 t2 t' where q: "s2 = s\<lparr>sv_target := t2, sv_env := ?e\<rparr>" "mem t2 = mem (sv_target s)"
      and r: "handle_syscall h ?run mm s
      = (Inr (), s2\<lparr>sv_target := t', sv_fromhost_queue := sv_fromhost_queue s2 @ [response mm 1]\<rparr>)"
      "iv t'" "mem t' = upd_range (mem (sv_target s2)) mm (bytes_of_words (n # fd # p # n # rest))"
    by blast
  have "drop_bit 48 mm = 0"
    using m(1) by (simp add: drop_bit_eq_div word_unat_eq_iff word_arith_nat_div word_less_nat_alt)
  then have "response mm 1 = 1"
    by (simp add: response_def)
  moreover have "handle_command h (ho_os ho) ?run mm s = handle_syscall h ?run mm s"
    using assms(6) by (simp add: handle_command_def bnd_getS command_fields [OF m(1)] run_handler_def proxy_first_def)
  moreover have "out ?e = out (sv_env s) @ [(?fd, ?bs)]"
    using assms(2) by (simp add: taking_host_def)
  ultimately show ?thesis
    using q r by (intro exI [of _ t'] exI [of _ ?e]) simp
qed

lemma with_world_queue:
  assumes "sv_fromhost_queue (ht_server s) = []"
  shows "s\<lparr>ht_server := (ht_server s)\<lparr>sv_target := t, sv_env := e, sv_exitcode := x, sv_fromhost_queue := []\<rparr>\<rparr>
    = with_world t e x s"
proof -
  have "(ht_server s)\<lparr>sv_fromhost_queue := []\<rparr> = ht_server s"
    using assms by (cases "ht_server s") simp
  then have "(ht_server s)\<lparr>sv_target := t, sv_env := e, sv_exitcode := x, sv_fromhost_queue := []\<rparr>
      = (ht_server s)\<lparr>sv_target := t, sv_env := e, sv_exitcode := x\<rparr>"
    by (cases "ht_server s") simp
  then show ?thesis by (simp add: with_world_def)
qed

text \<open>What the program and the server agree on: three places in memory that do not overlap.\<close>

definition apart :: "addr \<Rightarrow> addr \<Rightarrow> addr \<Rightarrow> bool" where
  "apart th fh mm \<longleftrightarrow> block mm 64 \<inter> block th 8 = {} \<and> block fh 8 \<inter> block mm 64 = {} \<and> block fh 8 \<inter> block th 8 = {}"

definition after_write :: "addr \<Rightarrow> addr \<Rightarrow> addr \<Rightarrow> u64 list \<Rightarrow> memory \<Rightarrow> memory" where
  "after_write th fh mm ws m = set_word (upd_range (set_word m th 0) mm (bytes_of_words ws)) fh 1"

context running_target begin

text \<open>A turn that finds a \<open>write\<close>.\<close>

lemma write_turn:
  assumes host: "taking_host ho out" and iv: "iv (target_of s)" and st: "settled s" "sv_exitcode (ht_server s) = 0"
    and words: "word_addr okw (ht_tohost_addr s)" "word_addr okw (ht_fromhost_addr s)"
    and magic: "magic_ok ok mm" and buf: "buffer_ok ok p n"
    and th: "word_at (mem (target_of s)) (ht_tohost_addr s) = mm" and fh: "word_at (mem (target_of s)) (ht_fromhost_addr s) = 0"
    and ap: "apart (ht_tohost_addr s) (ht_fromhost_addr s) mm" "block p (unat n) \<inter> block (ht_tohost_addr s) 8 = {}"
    and call: "words_of 8 (get_range (mem (target_of s)) mm 64) = SYS_write # fd # p # n # rest"
  shows "\<exists>t e. server_turn h ho (run_syscall h (ho_os ho) st0 fuel ext) proj g fuel' s = (Inr (), with_world t e 0 s)
    \<and> iv t \<and> mem t = after_write (ht_tohost_addr s) (ht_fromhost_addr s) mm (n # fd # p # n # rest) (mem (target_of s))
    \<and> out e = out (env_of s) @ [(fds_lookup (sv_fds (ht_server s)) fd, get_range (mem (target_of s)) p (unat n))]"
proof -
  let ?run = "run_syscall h (ho_os ho) st0 fuel ext" and ?m = "mem (target_of s)"
  let ?th = "ht_tohost_addr s" and ?fh = "ht_fromhost_addr s" and ?ws = "n # fd # p # n # rest"
  obtain e0 where e0: "out e0 = out (env_of s)" "server_turn h ho ?run proj g fuel' s
      = run_turn h ho ?run proj g fuel' quiet_flags (with_world (target_of s) e0 0 s)"
    using server_turn_runs [OF host st(2)] by blast
  let ?s = "with_world (target_of s) e0 0 s"
  have "mm \<noteq> 0" using magic by (auto simp: magic_ok_def)
  then obtain t1 where 1: "iv t1" "mem t1 = set_word ?m ?th 0"
      "serve_tohost h ho ?run proj g quiet_flags ?s = andThen (on_server (handle_command h (ho_os ho) ?run mm)) (ret True) (with_target t1 ?s)"
    using serve_request [of ?s mm quiet_flags ho ?run proj g] iv words(1) th by auto
  let ?sv = "ht_server (with_target t1 ?s)"
  have cleared: "agree (block ?th 8) (mem t1) ?m"
    unfolding 1(2) by (rule agree_set_word) simp
  have "unat n \<le> 2 ^ 64" using unsigned_less [of n, where ?'a = nat] by simp
  then have same: "get_range (mem t1) mm 64 = get_range ?m mm 64" "get_range (mem t1) p (unat n) = get_range ?m p (unat n)"
    "word_at (mem t1) ?fh = 0"
    using get_range_agree [OF cleared] word_at_agree [OF cleared] ap fh by (auto simp: apart_def)
  have sv: "sv_target ?sv = t1" "sv_env ?sv = e0" "sv_fds ?sv = sv_fds (ht_server s)" "sv_fromhost_queue ?sv = []"
      "proxy_first ?sv" "quiet_devices ?sv"
    using st(1) by (simp_all add: settled_def with_world_def proxy_first_def quiet_devices_def)
  obtain t2 e2 where 2: "handle_command h (ho_os ho) ?run mm ?sv
      = (Inr (), ?sv\<lparr>sv_target := t2, sv_env := e2, sv_fromhost_queue := [1]\<rparr>)"
      "iv t2" "mem t2 = upd_range (mem t1) mm (bytes_of_words ?ws)"
      "out e2 = out e0 @ [(fds_lookup (sv_fds (ht_server s)) fd, get_range ?m p (unat n))]"
    using write_handler [OF all_memory host _ magic buf, of ?sv fd rest st0 fuel ext] sv 1(1) same call by auto
  let ?s2 = "(with_target t1 ?s)\<lparr>ht_server := ?sv\<lparr>sv_target := t2, sv_env := e2, sv_fromhost_queue := [1]\<rparr>\<rparr>"
  have "on_server (handle_command h (ho_os ho) ?run mm) (with_target t1 ?s) = (Inr (), ?s2)"
    by (rule on_server_ok, rule 2(1))
  then have serve: "serve_tohost h ho ?run proj g quiet_flags ?s = (Inr True, ?s2)"
    unfolding 1(3) by (simp only: andThen_Inr ret_def)
  have "quiet_devices (ht_server ?s2)"
    using sv(6) by (simp add: quiet_devices_def)
  then have tick: "on_server (device_list_tick h (ho_os ho)) ?s2 = (Inr (), ?s2)"
    by (simp add: on_server_def device_list_tick_quiet)
  have "length ?ws = 8"
    using call length_words_of by (metis length_Cons)
  then have "length (bytes_of_words ?ws) = 64" by simp
  then have "word_at (mem t2) ?fh = 0"
    using same(3) word_at_agree [OF agree_upd_range [of mm "bytes_of_words ?ws" "block mm 64" "mem t1"], of ?fh] ap(1)
    by (simp only: 2(3)) (auto simp: apart_def)
  moreover have "ht_fromhost_addr ?s2 = ?fh" "target_of ?s2 = t2" "sv_fromhost_queue (ht_server ?s2) = [1]"
    by (simp_all add: target_of_def with_world_def)
  ultimately obtain s3 t3 where 3: "deliver_fromhost h ?s2 = (Inr (), s3)" "iv t3" "mem t3 = set_word (mem t2) ?fh 1"
      "s3 = ?s2\<lparr>ht_server := (ht_server ?s2)\<lparr>sv_target := t3, sv_fromhost_queue := []\<rparr>\<rparr>"
    using deliver_fromhost_law [of ?s2] words(2) 2(2) by (auto simp: delivered_def)
  have "s3 = with_world t3 e2 0 s"
    using with_world_queue [where s = s and t = t3 and e = e2 and x = 0] st unfolding 3(4) by (simp add: settled_def with_world_def with_target_def)
  then have "server_turn h ho ?run proj g fuel' s = (Inr (), with_world t3 e2 0 s)"
    using run_turn_quiet [OF serve tick 3(1)] e0(2) by simp
  with 1(2) 2(3,4) 3(2,3) e0(1) show ?thesis
    by (auto simp: after_write_def)
qed

end

context running_target begin

text \<open>A turn that finds the exit word.\<close>

lemma exit_turn:
  assumes host: "taking_host ho out" and iv: "iv (target_of s)" and st: "settled s" "sv_exitcode (ht_server s) = 0"
    and words: "word_addr okw (ht_tohost_addr s)" "word_addr okw (ht_fromhost_addr s)"
    and th: "word_at (mem (target_of s)) (ht_tohost_addr s) = v" and v: "v AND 1 \<noteq> 0" "v < 2 ^ 48"
  shows "\<exists>t e. server_turn h ho run proj g fuel' s = (Inr (), with_world t e (ucast v) s)
    \<and> iv t \<and> mem t = set_word (mem (target_of s)) (ht_tohost_addr s) 0 \<and> out e = out (env_of s)"
proof -
  obtain e0 where e0: "out e0 = out (env_of s)" "server_turn h ho run proj g fuel' s
      = run_turn h ho run proj g fuel' quiet_flags (with_world (target_of s) e0 0 s)"
    using server_turn_runs [OF host st(2)] by blast
  let ?s = "with_world (target_of s) e0 0 s"
  have "v \<noteq> 0" using v(1) by auto
  then obtain t1 where 1: "iv t1" "mem t1 = set_word (mem (target_of s)) (ht_tohost_addr s) 0"
      "serve_tohost h ho run proj g quiet_flags ?s = andThen (on_server (handle_command h (ho_os ho) run v)) (ret True) (with_target t1 ?s)"
    using serve_request [of ?s v quiet_flags ho run proj g] iv words(1) th by auto
  let ?sv = "ht_server (with_target t1 ?s)"
  have "proxy_first ?sv"
    using st(1) by (simp add: settled_def with_world_def proxy_first_def)
  then have "on_server (handle_command h (ho_os ho) run v) (with_target t1 ?s)
      = (Inr (), (with_target t1 ?s)\<lparr>ht_server := ?sv\<lparr>sv_exitcode := ucast v\<rparr>\<rparr>)"
    by (rule on_server_ok [OF handle_test_end [OF v]])
  moreover have "(with_target t1 ?s)\<lparr>ht_server := ?sv\<lparr>sv_exitcode := ucast v\<rparr>\<rparr> = with_world t1 e0 (ucast v) s"
    by (simp add: with_world_def with_target_def)
  ultimately have serve: "serve_tohost h ho run proj g quiet_flags ?s = (Inr True, with_world t1 e0 (ucast v) s)"
    unfolding 1(3) by (simp only: andThen_Inr ret_def)
  obtain t2 where 2: "deliver_fromhost h (with_world t1 e0 (ucast v) s) = (Inr (), with_target t2 (with_world t1 e0 (ucast v) s))"
      "iv t2" "mem t2 = mem t1"
    using deliver_settled [of "with_world t1 e0 (ucast v) s"] st(1) words(2) 1(1) by auto
  have "run_turn h ho run proj g fuel' quiet_flags ?s = (Inr (), with_world t2 e0 (ucast v) s)"
    using run_turn_quiet [OF serve tick_settled 2(1)] st(1) by simp
  with e0 1(2) 2(2,3) show ?thesis by auto
qed

end

section \<open>The words of a request\<close>

lemma words_of_get_range:
  "words_of n (get_range m a (8 * n)) = map (\<lambda>j. word_at m (a + of_nat (8 * j))) [0..<n]"
proof (induction n arbitrary: a)
  case (Suc n)
  have "drop 8 (get_range m a (8 * Suc n)) = get_range m (a + 8) (8 * n)"
    using take_drop_get_range [of 8 "8 * n" "8 * Suc n" m a] by simp
  moreover have "take 8 (get_range m a (8 * Suc n)) = get_range m a 8"
    by (rule take_get_range) simp
  moreover have "map (\<lambda>j. word_at m (a + of_nat (8 * j))) [0..<Suc n]
      = word_at m a # map (\<lambda>j. word_at m (a + 8 + of_nat (8 * j))) [0..<n]"
    by (simp add: upt_conv_Cons map_Suc_upt [symmetric] del: upt_Suc map_Suc_upt) (simp add: algebra_simps)
  ultimately show ?case
    using Suc.IH [of "a + 8"] by (simp only: words_of.simps) (simp add: word_at_def)
qed simp

lemma nth_words_of_block: "j < 8 \<Longrightarrow> words_of 8 (get_range m mm 64) ! j = word_at m (mm + of_nat (8 * j))"
  using words_of_get_range [of 8 m mm] by simp

lemma request_words:
  assumes "\<forall>j < 4. word_at m (mm + of_nat (8 * j)) = ws ! j" and "length ws = 4"
  shows "\<exists>rest. words_of 8 (get_range m mm 64) = ws @ rest"
proof -
  have "take 4 (words_of 8 (get_range m mm 64)) = ws"
    by (rule nth_equalityI) (use assms nth_words_of_block [of _ m mm] in auto)
  then show ?thesis by (metis append_take_drop_id)
qed

lemma word_at_first_word:
  assumes "length ws = 8"
  shows "word_at (upd_range m mm (bytes_of_words ws)) mm = ws ! 0"
proof -
  have "get_range (upd_range m mm (bytes_of_words ws)) mm 64 = bytes_of_words ws"
    by (rule get_upd_range_same) (simp_all add: assms)
  then have "words_of 8 (get_range (upd_range m mm (bytes_of_words ws)) mm 64) = ws"
    using words_of_bytes_of_words [of 8 ws] assms by simp
  then show ?thesis
    using nth_words_of_block [of 0 "upd_range m mm (bytes_of_words ws)" mm] by simp
qed

end
