(* ===== verification/Runtime_Output.thy ===== *)
theory Runtime_Output
  imports Runtime
begin

text \<open>
  What a program on the chip prints is what the host gets: an invariant of the program, its calls to
  \<open>write\<close> and the server, for every order of their steps, and the end of the program.
\<close>

section \<open>Programs that print\<close>

text \<open>
  The memory that the protocol changes; a program does not print from there. \<open>buffers\<close> is where the calls
  have what they print.
\<close>

definition touched :: "addr \<Rightarrow> addr \<Rightarrow> rt_call list \<Rightarrow> addr set" where
  "touched th fh cs = block th 8 \<union> block fh 8 \<union> (\<Union>c \<in> set cs. block (ca_mem c) 64)"

definition buffers :: "rt_call list \<Rightarrow> addr set" where
  "buffers cs = (\<Union>c \<in> set cs. block (ca_args c ! 2) (unat (ca_args c ! 3)))"

definition call_ok :: "(addr \<Rightarrow> bool) \<Rightarrow> addr \<Rightarrow> addr \<Rightarrow> rt_call list \<Rightarrow> rt_call \<Rightarrow> bool" where
  "call_ok ok th fh cs c \<longleftrightarrow>
    (\<exists>fd p n. ca_args c = [SYS_write, fd, p, n] \<and> buffer_ok ok p n \<and> length (ca_fill c) \<le> unat n
        \<and> block p (unat n) \<inter> touched th fh cs = {})
    \<and> magic_ok ok (ca_mem c) \<and> apart th fh (ca_mem c)"

definition program_ok :: "(addr \<Rightarrow> bool) \<Rightarrow> addr \<Rightarrow> addr \<Rightarrow> rt_call list \<Rightarrow> reg \<Rightarrow> bool" where
  "program_ok ok th fh cs st \<longleftrightarrow> list_all (call_ok ok th fh cs) cs \<and> block fh 8 \<inter> block th 8 = {} \<and> st < 2 ^ 47"

text \<open>What a program puts into memory for a call, what the call then writes, and what it returns.\<close>

definition fill_of :: "rt_call \<Rightarrow> memory \<Rightarrow> memory" where
  "fill_of c m = upd_range m (ca_args c ! 2) (ca_fill c)"

definition filled :: "rt_call list \<Rightarrow> memory \<Rightarrow> memory" where
  "filled cs m = fold fill_of cs m"

definition printed :: "int list \<Rightarrow> memory \<Rightarrow> rt_call \<Rightarrow> int \<times> u8 list" where
  "printed fds m c = (fds_lookup fds (ca_args c ! 1), get_range m (ca_args c ! 2) (unat (ca_args c ! 3)))"

text \<open>The writes of the host, from the memory at the start.\<close>

fun outputs :: "int list \<Rightarrow> memory \<Rightarrow> rt_call list \<Rightarrow> (int \<times> u8 list) list" where
  "outputs fds m [] = []"
| "outputs fds m (c # cs) = printed fds (fill_of c m) c # outputs fds (fill_of c m) cs"

definition count_of :: "rt_call \<Rightarrow> reg" where
  "count_of c = ca_args c ! 3"

text \<open>The first \<open>i\<close> words of the request are in place.\<close>

definition stored :: "memory \<Rightarrow> rt_call \<Rightarrow> nat \<Rightarrow> bool" where
  "stored m c i \<longleftrightarrow> (\<forall>j < i. word_at m (ca_mem c + of_nat (8 * j)) = ca_args c ! j)"

text \<open>
  Where the program and the server are with call \<open>k\<close>: the words \<open>t\<close> and \<open>f\<close> at \<open>tohost\<close> and \<open>fromhost\<close>, the
  number of calls the host has seen, and the exit word.
\<close>

definition phase :: "rt_call list \<Rightarrow> reg \<Rightarrow> rt_pc \<Rightarrow> nat \<Rightarrow> memory \<Rightarrow> u64 \<Rightarrow> u64 \<Rightarrow> nat \<Rightarrow> u32 \<Rightarrow> bool" where
  "phase cs st pc k m t f seen x = (case pc of
     Fill i \<Rightarrow> k < length cs \<and> i < length (ca_fill (cs ! k)) \<and> t = 0 \<and> f = 0 \<and> seen = k \<and> x = 0
   | Store i \<Rightarrow> k < length cs \<and> i < 4 \<and> stored m (cs ! k) i \<and> t = 0 \<and> f = 0 \<and> seen = k \<and> x = 0
   | Ring \<Rightarrow> k < length cs \<and> stored m (cs ! k) 4 \<and> t = 0 \<and> f = 0 \<and> seen = k \<and> x = 0
   | Spin \<Rightarrow> k < length cs \<and> x = 0 \<and>
       (t = ca_mem (cs ! k) \<and> f = 0 \<and> stored m (cs ! k) 4 \<and> seen = k
        \<or> t = 0 \<and> f \<noteq> 0 \<and> word_at m (ca_mem (cs ! k)) = count_of (cs ! k) \<and> seen = Suc k)
   | Clear \<Rightarrow> k < length cs \<and> word_at m (ca_mem (cs ! k)) = count_of (cs ! k) \<and> t = 0 \<and> f \<noteq> 0 \<and> seen = Suc k \<and> x = 0
   | Load \<Rightarrow> k < length cs \<and> word_at m (ca_mem (cs ! k)) = count_of (cs ! k) \<and> t = 0 \<and> f = 0 \<and> seen = Suc k \<and> x = 0
   | Finish \<Rightarrow> k = length cs \<and> t = 0 \<and> f = 0 \<and> seen = k \<and> x = 0
   | Halted \<Rightarrow> k = length cs \<and> f = 0 \<and> seen = k \<and>
       (t = exit_word_of st \<and> x = 0 \<or> t = 0 \<and> x = ucast (exit_word_of st)))"

text \<open>The memory of the program outside the words and blocks.\<close>

definition prog_mem :: "rt_call list \<Rightarrow> rt_pc \<Rightarrow> nat \<Rightarrow> memory \<Rightarrow> memory" where
  "prog_mem cs pc k m = (case pc of
     Fill i \<Rightarrow> upd_range (filled (take k cs) m) (ca_args (cs ! k) ! 2) (take i (ca_fill (cs ! k)))
   | _ \<Rightarrow> filled (take (Suc k) cs) m)"

definition in_phase ::
    "('t \<Rightarrow> bool) \<Rightarrow> ('t \<Rightarrow> memory) \<Rightarrow> ('e \<Rightarrow> (int \<times> u8 list) list) \<Rightarrow> rt_call list \<Rightarrow> reg \<Rightarrow> ('t, 'e) htif
      \<Rightarrow> program \<Rightarrow> nat \<Rightarrow> 't \<Rightarrow> 'e \<Rightarrow> nat \<Rightarrow> u32 \<Rightarrow> bool" where
  "in_phase iv mem out cs st s0 p k t e seen x \<longleftrightarrow>
     iv t \<and> agree (touched (ht_tohost_addr s0) (ht_fromhost_addr s0) cs) (mem t) (prog_mem cs (pr_pc p) k (mem (target_of s0)))
   \<and> out e = out (env_of s0) @ outputs (sv_fds (ht_server s0)) (mem (target_of s0)) (take seen cs)
   \<and> pr_calls p = drop k cs \<and> pr_results p = map count_of (take k cs) \<and> pr_status p = st
   \<and> phase cs st (pr_pc p) k (mem t) (word_at (mem t) (ht_tohost_addr s0)) (word_at (mem t) (ht_fromhost_addr s0)) seen x"

definition system_inv ::
    "('t \<Rightarrow> bool) \<Rightarrow> ('t \<Rightarrow> memory) \<Rightarrow> ('e \<Rightarrow> (int \<times> u8 list) list) \<Rightarrow> rt_call list \<Rightarrow> reg \<Rightarrow> ('t, 'e) htif
      \<Rightarrow> program \<times> ('t, 'e) htif \<Rightarrow> bool" where
  "system_inv iv mem out cs st s0 = (\<lambda>(p, s). \<exists>t e x k seen.
     s = with_world t e x s0 \<and> in_phase iv mem out cs st s0 p k t e seen x)"

section \<open>Blocks\<close>

lemma unat_add_word: "unat d < 8 \<Longrightarrow> i < 8 \<Longrightarrow> unat (d + of_nat (8 * i) :: u64) = unat d + 8 * i"
  by (simp add: unat_word_ariths unsigned_of_nat take_bit_nat_eq_self del: of_nat_mult)

lemma block_word:
  assumes "i < 8" and "x \<in> block (mm + of_nat (8 * i)) 8"
  shows "unat (x - mm) div 8 = i" and "x \<in> block mm 64"
proof -
  let ?d = "x - (mm + of_nat (8 * i))"
  have d: "unat ?d < 8" using assms(2) by (simp add: block_def)
  have "x - mm = ?d + of_nat (8 * i)" by simp
  moreover have "unat (?d + of_nat (8 * i)) = unat ?d + 8 * i"
    using d assms(1) by (rule unat_add_word)
  ultimately have "unat (x - mm) = unat ?d + 8 * i" by simp
  with d assms(1) show "unat (x - mm) div 8 = i" "x \<in> block mm 64"
    by (auto simp: block_def)
qed

lemma block_words_apart:
  "i < 8 \<Longrightarrow> j < 8 \<Longrightarrow> i \<noteq> j \<Longrightarrow> block (mm + of_nat (8 * i)) 8 \<inter> block (mm + of_nat (8 * j)) 8 = {}"
  using block_word(1) [of i _ mm] block_word(1) [of j _ mm] by blast

lemma stored_Suc:
  assumes "stored m c i" and "i < 4"
  shows "stored (set_word m (ca_mem c + of_nat (8 * i)) (ca_args c ! i)) c (Suc i)"
  unfolding stored_def
proof (intro allI impI)
  fix j assume "j < Suc i"
  then consider "j = i" | "j < i" by linarith
  then show "word_at (set_word m (ca_mem c + of_nat (8 * i)) (ca_args c ! i)) (ca_mem c + of_nat (8 * j)) = ca_args c ! j"
  proof cases
    case 2
    then have "block (ca_mem c + of_nat (8 * j)) 8 \<inter> block (ca_mem c + of_nat (8 * i)) 8 = {}"
      using assms(2) by (intro block_words_apart) simp_all
    with 2 assms(1) show ?thesis by (simp only: word_at_set_other stored_def)
  qed simp
qed

lemma word_outside:
  assumes "apart th fh mm" and "i < 8"
  shows "block th 8 \<inter> block (mm + of_nat (8 * i)) 8 = {}" and "block fh 8 \<inter> block (mm + of_nat (8 * i)) 8 = {}"
  using assms(1) block_word(2) [OF assms(2), of _ mm] by (auto simp: apart_def)

lemma stored_first: "stored m c i \<Longrightarrow> 0 < i \<Longrightarrow> word_at m (ca_mem c) = ca_args c ! 0"
  unfolding stored_def by (drule spec [of _ 0]) simp

lemma stored_other:
  assumes "stored m c i" and "i \<le> 8" and "block (ca_mem c) 64 \<inter> block a 8 = {}"
  shows "stored (set_word m a v) c i"
  unfolding stored_def
proof (intro allI impI)
  fix j assume "j < i"
  then have "block (ca_mem c + of_nat (8 * j)) 8 \<inter> block a 8 = {}"
    using block_word(2) [of j _ "ca_mem c"] assms(2,3) by auto
  with \<open>j < i\<close> assms(1) show "word_at (set_word m a v) (ca_mem c + of_nat (8 * j)) = ca_args c ! j"
    by (simp only: word_at_set_other stored_def)
qed

section \<open>Buffers\<close>

lemma filled_snoc: "filled (cs @ [c]) m = fill_of c (filled cs m)"
  by (simp add: filled_def)

lemma filled_Suc: "k < length cs \<Longrightarrow> filled (take (Suc k) cs) m = fill_of (cs ! k) (filled (take k cs) m)"
  by (simp add: take_Suc_conv_app_nth filled_snoc)

lemma outputs_snoc: "outputs fds m (cs @ [c]) = outputs fds m cs @ [printed fds (filled (cs @ [c]) m) c]"
  by (induction cs arbitrary: m) (simp_all add: filled_def)

lemma outputs_Suc: "k < length cs \<Longrightarrow>
    outputs fds m (take (Suc k) cs) = outputs fds m (take k cs) @ [printed fds (filled (take (Suc k) cs) m) (cs ! k)]"
  by (simp add: take_Suc_conv_app_nth outputs_snoc)

lemma block_mono: "n \<le> n' \<Longrightarrow> block a n \<subseteq> block a n'"
  by (auto simp: block_def)

lemma agree_fill: "length (ca_fill c) \<le> unat (ca_args c ! 3) \<Longrightarrow> c \<in> set cs \<Longrightarrow> agree (buffers cs) (fill_of c m) m"
  unfolding fill_of_def buffers_def by (rule agree_upd_range) (use block_mono in blast)

lemma agree_filled: "list_all (\<lambda>c. length (ca_fill c) \<le> unat (ca_args c ! 3)) cs' \<Longrightarrow> set cs' \<subseteq> set cs \<Longrightarrow>
    agree (buffers cs) (filled cs' m) m"
proof (induction cs' arbitrary: m)
  case (Cons c cs')
  then have "agree (buffers cs) (filled cs' (fill_of c m)) (fill_of c m)" "agree (buffers cs) (fill_of c m) m"
    using agree_fill by auto
  then show ?case by (auto simp: filled_def intro: agree_trans)
qed (simp add: filled_def)

lemma upd_range_snoc: "length bs < 2 ^ 64 \<Longrightarrow> upd_range (upd_range m a bs) (a + of_nat (length bs)) [b] = upd_range m a (bs @ [b])"
  by (simp add: upd_range_append)

section \<open>The invariant\<close>

text \<open>A program of calls that start from a server at rest.\<close>

locale running_program = running_target h k iv mem okw ok store
  for h :: "'t htif_ops" and k iv mem okw ok store +
  fixes ho :: "'e host_ops" and out :: "'e \<Rightarrow> (int \<times> u8 list) list" and cs :: "rt_call list" and st :: reg
    and s0 :: "('t, 'e) htif"
  assumes host: "taking_host ho out"
    and target_ok: "iv (target_of s0)" and at_rest: "settled s0" "sv_exitcode (ht_server s0) = 0"
    and addrs: "word_addr okw (ht_tohost_addr s0)" "word_addr okw (ht_fromhost_addr s0)"
    and prog: "program_ok ok (ht_tohost_addr s0) (ht_fromhost_addr s0) cs st"
    and empty_words: "word_at (mem (target_of s0)) (ht_tohost_addr s0) = 0" "word_at (mem (target_of s0)) (ht_fromhost_addr s0) = 0"
begin

lemma call:
  assumes "i < length cs"
  shows "apart (ht_tohost_addr s0) (ht_fromhost_addr s0) (ca_mem (cs ! i))" "magic_ok ok (ca_mem (cs ! i))"
    "block (ca_mem (cs ! i)) 64 \<subseteq> touched (ht_tohost_addr s0) (ht_fromhost_addr s0) cs"
    "\<exists>fd p n. ca_args (cs ! i) = [SYS_write, fd, p, n] \<and> buffer_ok ok p n \<and> length (ca_fill (cs ! i)) \<le> unat n
      \<and> block p (unat n) \<inter> touched (ht_tohost_addr s0) (ht_fromhost_addr s0) cs = {}"
  using prog assms unfolding program_ok_def list_all_length call_ok_def touched_def by auto

lemma th_fh: "block (ht_fromhost_addr s0) 8 \<inter> block (ht_tohost_addr s0) 8 = {}"
  "block (ht_tohost_addr s0) 8 \<inter> block (ht_fromhost_addr s0) 8 = {}"
  using prog by (auto simp: program_ok_def)

lemma touched_words: "block (ht_tohost_addr s0) 8 \<subseteq> touched (ht_tohost_addr s0) (ht_fromhost_addr s0) cs"
  "block (ht_fromhost_addr s0) 8 \<subseteq> touched (ht_tohost_addr s0) (ht_fromhost_addr s0) cs"
  by (auto simp: touched_def)

text \<open>The first call of the rest of the program.\<close>

lemma next_call: "in_phase iv mem out cs st s0 p i t e seen x \<Longrightarrow> i < length cs \<Longrightarrow>
    hd (pr_calls p) = cs ! i \<and> tl (pr_calls p) = drop (Suc i) cs"
  by (simp add: in_phase_def hd_drop_conv_nth drop_Suc tl_drop)

lemma step_Store:
  assumes ph: "in_phase iv mem out cs st s0 p i t e seen x" and pc: "pr_pc p = Store j"
  shows "in_phase iv mem out cs st s0 (rt_next (ht_fromhost_addr s0) m p) i
      (store (ca_mem (cs ! i) + of_nat (8 * j)) (le_bytes 8 (ca_args (cs ! i) ! j)) t) e seen x"
proof -
  let ?a = "ca_mem (cs ! i) + of_nat (8 * j)" and ?v = "ca_args (cs ! i) ! j"
  let ?M = "filled (take (Suc i) cs) (mem (target_of s0))"
  have i: "i < length cs" "j < 4" "stored (mem t) (cs ! i) j" and t: "iv t"
    using ph pc by (simp_all add: in_phase_def phase_def)
  have m: "iv (store ?a (le_bytes 8 ?v) t)" "mem (store ?a (le_bytes 8 ?v) t) = set_word (mem t) ?a ?v"
    using store_law [OF t] store_word [OF t] by simp_all
  have j: "j < 8" using i(2) by simp
  have "block ?a 8 \<subseteq> touched (ht_tohost_addr s0) (ht_fromhost_addr s0) cs"
    using block_word(2) [OF j] call(3) [OF i(1)] by blast
  moreover have "agree (touched (ht_tohost_addr s0) (ht_fromhost_addr s0) cs) (mem t) ?M"
    using ph pc by (simp add: in_phase_def prog_mem_def)
  ultimately have ag: "agree (touched (ht_tohost_addr s0) (ht_fromhost_addr s0) cs)
      (set_word (mem t) ?a ?v) ?M"
    by (intro agree_trans [OF agree_set_word])
  have w: "word_at (set_word (mem t) ?a ?v) (ht_tohost_addr s0) = word_at (mem t) (ht_tohost_addr s0)"
      "word_at (set_word (mem t) ?a ?v) (ht_fromhost_addr s0) = word_at (mem t) (ht_fromhost_addr s0)"
    by (rule word_at_set_other, rule word_outside [OF call(1) [OF i(1)] j])+
  have "stored (set_word (mem t) ?a ?v) (cs ! i) (Suc j)"
    using i(2,3) by (intro stored_Suc)
  moreover have "j \<noteq> 3 \<Longrightarrow> Suc j < 4" "Suc 3 = 4" using i(2) by simp_all
  ultimately show ?thesis
    using ph pc m ag w i(2) by (cases "j = 3") (auto simp: in_phase_def phase_def rt_next_def prog_mem_def)
qed

lemma agree_word:
  assumes "agree (touched (ht_tohost_addr s0) (ht_fromhost_addr s0) cs) m M"
    and "a = ht_tohost_addr s0 \<or> a = ht_fromhost_addr s0"
  shows "agree (touched (ht_tohost_addr s0) (ht_fromhost_addr s0) cs) (set_word m a v) M"
  using agree_trans [OF agree_set_word assms(1)] assms(2) touched_words by auto

lemma result_stays:
  assumes "i < length cs" and "a = ht_tohost_addr s0 \<or> a = ht_fromhost_addr s0"
  shows "word_at (set_word m a v) (ca_mem (cs ! i)) = word_at m (ca_mem (cs ! i))"
    and "block (ca_mem (cs ! i)) 64 \<inter> block a 8 = {}"
proof -
  show b: "block (ca_mem (cs ! i)) 64 \<inter> block a 8 = {}"
    using call(1) [OF assms(1)] assms(2) by (auto simp: apart_def)
  have "block (ca_mem (cs ! i)) 8 \<subseteq> block (ca_mem (cs ! i)) 64" by (auto simp: block_def)
  with b have "block (ca_mem (cs ! i)) 8 \<inter> block a 8 = {}" by blast
  then show "word_at (set_word m a v) (ca_mem (cs ! i)) = word_at m (ca_mem (cs ! i))"
    by (rule word_at_set_other)
qed

lemma step_Ring:
  assumes ph: "in_phase iv mem out cs st s0 p i t e seen x" and pc: "pr_pc p = Ring"
  shows "in_phase iv mem out cs st s0 (rt_next (ht_fromhost_addr s0) m p) i
      (store (ht_tohost_addr s0) (le_bytes 8 (ca_mem (cs ! i))) t) e seen x"
proof -
  have i: "i < length cs" "stored (mem t) (cs ! i) 4" and t: "iv t"
    using ph pc by (simp_all add: in_phase_def phase_def)
  have "stored (set_word (mem t) (ht_tohost_addr s0) (ca_mem (cs ! i))) (cs ! i) 4"
    by (rule stored_other [OF i(2) _ result_stays(2) [OF i(1)]]) simp_all
  then show ?thesis
    using ph pc store_law [OF t] store_word [OF t] agree_word word_at_set_other [OF th_fh(1)]
    by (simp add: in_phase_def phase_def rt_next_def prog_mem_def)
qed

lemma step_Spin:
  assumes ph: "in_phase iv mem out cs st s0 p i t e seen x" and pc: "pr_pc p = Spin"
  shows "in_phase iv mem out cs st s0 (rt_next (ht_fromhost_addr s0) (mem t) p) i t e seen x"
  using ph pc by (auto simp: in_phase_def phase_def rt_next_def prog_mem_def)

lemma step_Clear:
  assumes ph: "in_phase iv mem out cs st s0 p i t e seen x" and pc: "pr_pc p = Clear"
  shows "in_phase iv mem out cs st s0 (rt_next (ht_fromhost_addr s0) m p) i
      (store (ht_fromhost_addr s0) (le_bytes 8 (0 :: u64)) t) e seen x"
proof -
  have i: "i < length cs" and t: "iv t"
    using ph pc by (simp_all add: in_phase_def phase_def)
  show ?thesis
    using ph pc store_law [OF t, THEN conjunct1, of "ht_fromhost_addr s0"] store_word [OF t, of "ht_fromhost_addr s0" 0] agree_word word_at_set_other [OF th_fh(2)] result_stays(1) [OF i]
    by (simp add: in_phase_def phase_def rt_next_def prog_mem_def)
qed

text \<open>Between two calls.\<close>

lemma first_of_rest:
  assumes "n \<le> length cs"
  shows "prog_mem cs (first_pc (drop n cs)) n m = filled (take n cs) m"
    and "first_pc (drop n cs) = (if n = length cs then Finish else if ca_fill (cs ! n) = [] then Store 0 else Fill 0)"
proof -
  show f: "first_pc (drop n cs) = (if n = length cs then Finish else if ca_fill (cs ! n) = [] then Store 0 else Fill 0)"
    using assms by (simp add: first_pc_def Cons_nth_drop_Suc [symmetric] split: list.splits)
  show "prog_mem cs (first_pc (drop n cs)) n m = filled (take n cs) m"
    using assms by (auto simp: f prog_mem_def filled_Suc fill_of_def)
qed

lemma step_Fill:
  assumes ph: "in_phase iv mem out cs st s0 p i t e seen x" and pc: "pr_pc p = Fill j"
  shows "in_phase iv mem out cs st s0 (rt_next (ht_fromhost_addr s0) m p) i
      (store (ca_args (cs ! i) ! 2 + of_nat j) [ca_fill (cs ! i) ! j] t) e seen x"
proof -
  let ?T = "touched (ht_tohost_addr s0) (ht_fromhost_addr s0) cs" and ?a = "ca_args (cs ! i) ! 2 + of_nat j"
  let ?b = "[ca_fill (cs ! i) ! j]" and ?M = "filled (take i cs) (mem (target_of s0))"
  have i: "i < length cs" "j < length (ca_fill (cs ! i))" and t: "iv t"
    using ph pc by (simp_all add: in_phase_def phase_def)
  obtain fd q n where q: "ca_args (cs ! i) = [SYS_write, fd, q, n]" "length (ca_fill (cs ! i)) \<le> unat n"
      "block q (unat n) \<inter> ?T = {}"
    using call(4) [OF i(1)] by blast
  have n: "unat n < 2 ^ 64" using unsigned_less [of n, where ?'a = nat] by simp
  have "x = q + of_nat j" if "x \<in> block (q + of_nat j) 1" for x
    using that by (simp add: block_def unat_eq_zero)
  then have "block ?a 1 \<subseteq> block q (unat n)"
    using q(1,2) i(2) n in_block [of j "unat n" q] by auto
  with q(3) have free: "block ?a 1 \<inter> ?T = {}" by blast
  have "agree (block ?a 1) (upd_range (mem t) ?a ?b) (mem t)"
    by (rule agree_upd_range) simp
  from word_at_agree [OF this] free
  have w: "word_at (upd_range (mem t) ?a ?b) (ht_tohost_addr s0) = word_at (mem t) (ht_tohost_addr s0)"
      "word_at (upd_range (mem t) ?a ?b) (ht_fromhost_addr s0) = word_at (mem t) (ht_fromhost_addr s0)"
    by (auto simp: touched_def)
  have "agree ?T (upd_range (mem t) ?a ?b) (upd_range (upd_range ?M q (take j (ca_fill (cs ! i)))) ?a ?b)"
    using ph pc q(1) by (intro agree_upd_both) (simp add: in_phase_def prog_mem_def)
  moreover have "upd_range (upd_range ?M q (take j (ca_fill (cs ! i)))) ?a ?b = upd_range ?M q (take (Suc j) (ca_fill (cs ! i)))"
    using upd_range_snoc [of "take j (ca_fill (cs ! i))"] i(2) q(1,2) n by (simp add: take_Suc_conv_app_nth)
  ultimately have ag: "agree ?T (upd_range (mem t) ?a ?b) (upd_range ?M q (take (Suc j) (ca_fill (cs ! i))))"
    by simp
  show ?thesis
  proof (cases "Suc j < length (ca_fill (cs ! i))")
    case True
    then show ?thesis
      using ph pc i next_call [OF ph i(1)] store_law [OF t] w ag q(1)
      by (simp add: in_phase_def phase_def rt_next_def prog_mem_def)
  next
    case False
    then have "take (Suc j) (ca_fill (cs ! i)) = ca_fill (cs ! i)" using i(2) by simp
    with False show ?thesis
      using ph pc i next_call [OF ph i(1)] store_law [OF t] w ag q(1)
      by (simp add: in_phase_def phase_def rt_next_def prog_mem_def stored_def filled_Suc fill_of_def)
  qed
qed

lemma step_Load:
  assumes ph: "in_phase iv mem out cs st s0 p i t e seen x" and pc: "pr_pc p = Load"
  shows "in_phase iv mem out cs st s0 (rt_next (ht_fromhost_addr s0) (mem t) p) (Suc i) t e seen x"
proof -
  have i: "i < length cs" using ph pc by (simp add: in_phase_def phase_def)
  have "drop (Suc i) cs = [] \<longleftrightarrow> Suc i = length cs" using i by auto
  moreover have "map count_of (take (Suc i) cs) = map count_of (take i cs) @ [count_of (cs ! i)]"
    using i by (simp add: take_Suc_conv_app_nth)
  ultimately show ?thesis
    using ph pc i next_call [OF ph i] first_of_rest(1) [of "Suc i" "mem (target_of s0)"] first_of_rest(2) [of "Suc i"]
    by (auto simp: in_phase_def phase_def rt_next_def stored_def prog_mem_def [of cs Load] split: rt_pc.splits)
qed

lemma step_Finish:
  assumes ph: "in_phase iv mem out cs st s0 p i t e seen x" and pc: "pr_pc p = Finish"
  shows "in_phase iv mem out cs st s0 (rt_next (ht_fromhost_addr s0) m p) i
      (store (ht_tohost_addr s0) (le_bytes 8 (exit_word_of st)) t) e seen x"
proof -
  have t: "iv t" using ph by (auto simp: in_phase_def)
  show ?thesis
    using ph pc store_law [OF t] store_word [OF t] agree_word word_at_set_other [OF th_fh(1)]
    by (auto simp: in_phase_def phase_def rt_next_def prog_mem_def)
qed

text \<open>Every access of the program.\<close>

lemma program_access:
  assumes ph: "in_phase iv mem out cs st s0 p i t e seen x"
  shows "case rt_store (ht_tohost_addr s0) (ht_fromhost_addr s0) p of
      None \<Rightarrow> \<exists>i'. in_phase iv mem out cs st s0 (rt_next (ht_fromhost_addr s0) (mem t) p) i' t e seen x
    | Some (a, v) \<Rightarrow> in_phase iv mem out cs st s0 (rt_next (ht_fromhost_addr s0) (mem t) p) i (store a v t) e seen x"
proof -
  have hd: "i < length cs \<Longrightarrow> hd (pr_calls p) = cs ! i" using next_call [OF ph] by blast
  have lt: "pr_pc p \<in> {Ring} \<union> range Store \<union> range Fill \<Longrightarrow> i < length cs" and stt: "pr_status p = st"
    using ph by (auto simp: in_phase_def phase_def)
  show ?thesis
  proof (cases "pr_pc p")
    case (Fill j)
    with step_Fill [OF ph Fill] hd lt show ?thesis by (simp add: rt_store_def Let_def)
  next
    case (Store j)
    with step_Store [OF ph Store] hd lt show ?thesis by (simp add: rt_store_def Let_def)
  next
    case Ring
    with step_Ring [OF ph Ring] hd lt show ?thesis by (simp add: rt_store_def Let_def)
  next
    case Spin
    with step_Spin [OF ph Spin] show ?thesis by (auto simp: rt_store_def Let_def)
  next
    case Clear
    with step_Clear [OF ph Clear] show ?thesis by (simp add: rt_store_def Let_def)
  next
    case Load
    with step_Load [OF ph Load] show ?thesis by (auto simp: rt_store_def Let_def)
  next
    case Finish
    with step_Finish [OF ph Finish] stt show ?thesis by (simp add: rt_store_def Let_def)
  next
    case Halted
    with ph show ?thesis by (auto simp: rt_store_def Let_def rt_next_def)
  qed
qed

text \<open>A turn of the server.\<close>

lemma in_phase_cong:
  "in_phase iv mem out cs st s0 p i t e seen x \<Longrightarrow> iv t' \<Longrightarrow> mem t' = mem t \<Longrightarrow> out e' = out e \<Longrightarrow>
    in_phase iv mem out cs st s0 p i t' e' seen x"
  by (simp add: in_phase_def)

lemma exit_word_facts: "exit_word_of st AND 1 \<noteq> 0" "exit_word_of st < 2 ^ 48"
proof -
  show "exit_word_of st AND 1 \<noteq> 0"
    by (simp add: exit_word_of_def and_one_eq odd_iff_mod_2_eq_one [symmetric] even_or_iff)
  have "unat st < 2 ^ 47" using prog by (simp add: program_ok_def word_less_nat_alt)
  then have "unat (push_bit 1 st) = 2 * unat st"
    by (simp add: push_bit_eq_mult unat_word_ariths)
  moreover have "exit_word_of st = push_bit 1 st + 1"
    unfolding exit_word_of_def by (rule disjunctive_add [symmetric]) (simp only: bit_push_bit_iff, auto simp: bit_simps)
  ultimately show "exit_word_of st < 2 ^ 48"
    using \<open>unat st < 2 ^ 47\<close> by (simp add: word_less_nat_alt unat_word_ariths)
qed

lemma written_memory:
  assumes "i < length cs" and "length ws = 8"
    and "agree (touched (ht_tohost_addr s0) (ht_fromhost_addr s0) cs) m M"
  defines "m' \<equiv> after_write (ht_tohost_addr s0) (ht_fromhost_addr s0) (ca_mem (cs ! i)) ws m"
  shows "agree (touched (ht_tohost_addr s0) (ht_fromhost_addr s0) cs) m' M"
    and "word_at m' (ht_tohost_addr s0) = 0" and "word_at m' (ht_fromhost_addr s0) = 1"
    and "word_at m' (ca_mem (cs ! i)) = ws ! 0"
proof -
  let ?th = "ht_tohost_addr s0" and ?fh = "ht_fromhost_addr s0" and ?mm = "ca_mem (cs ! i)"
  let ?m1 = "set_word m ?th 0" and ?m2 = "upd_range (set_word m ?th 0) ?mm (bytes_of_words ws)"
  have len: "length (bytes_of_words ws) = 64" using assms(2) by simp
  have ag2: "agree (block ?mm 64) ?m2 ?m1"
    by (rule agree_upd_range) (simp only: len subset_refl)
  have "agree (touched ?th ?fh cs) ?m2 ?m1"
    by (rule agree_upd_range) (use call(3) [OF assms(1)] in \<open>simp only: len\<close>)
  from agree_trans [OF this agree_word [OF assms(3)]]
  have "agree (touched ?th ?fh cs) ?m2 M" by simp
  from agree_word [OF this] show "agree (touched ?th ?fh cs) m' M"
    by (simp add: m'_def after_write_def)
  have "block ?th 8 \<inter> block ?mm 64 = {}" using result_stays(2) [OF assms(1), of ?th] by blast
  from word_at_agree [OF ag2 this] show "word_at m' ?th = 0"
    by (simp add: m'_def after_write_def word_at_set_other [OF th_fh(2)])
  show "word_at m' ?fh = 1" by (simp add: m'_def after_write_def)
  show "word_at m' ?mm = ws ! 0"
    using result_stays(1) [OF assms(1), of ?fh ?m2 1] word_at_first_word [OF assms(2), of ?m1 ?mm]
    by (simp add: m'_def after_write_def)
qed

lemma server_writes:
  assumes ph: "in_phase iv mem out cs st s0 p i t e seen 0" and pc: "pr_pc p = Spin"
    and rung: "word_at (mem t) (ht_tohost_addr s0) \<noteq> 0"
  shows "\<exists>t' e'. server_turn h ho (run_syscall h (ho_os ho) st0 fuel ext) proj g fuel' (with_world t e 0 s0)
      = (Inr (), with_world t' e' 0 s0) \<and> in_phase iv mem out cs st s0 p i t' e' (Suc i) 0"
proof -
  let ?th = "ht_tohost_addr s0" and ?fh = "ht_fromhost_addr s0" and ?mm = "ca_mem (cs ! i)"
  let ?s = "with_world t e 0 s0" and ?T = "touched (ht_tohost_addr s0) (ht_fromhost_addr s0) cs"
  let ?M = "filled (take (Suc i) cs) (mem (target_of s0))"
  have i: "i < length cs" and w: "word_at (mem t) ?th = ?mm" "word_at (mem t) ?fh = 0" "stored (mem t) (cs ! i) 4"
      and sn: "seen = i" and t: "iv t" and ag: "agree ?T (mem t) ?M"
    using ph pc rung by (auto simp: in_phase_def phase_def prog_mem_def)
  obtain fd q n where args: "ca_args (cs ! i) = [SYS_write, fd, q, n]" and buf: "buffer_ok ok q n"
      and free: "block q (unat n) \<inter> ?T = {}"
    using call(4) [OF i] by blast
  obtain rest where words: "words_of 8 (get_range (mem t) ?mm 64) = SYS_write # fd # q # n # rest"
    using request_words [of "mem t" ?mm "ca_args (cs ! i)"] w(3) args by (auto simp: stored_def)
  have len: "length (n # fd # q # n # rest) = 8"
    using words length_words_of by (metis length_Cons)
  have "block q (unat n) \<inter> block ?th 8 = {}" using free by (auto simp: touched_def)
  then obtain t' e' where turn: "server_turn h ho (run_syscall h (ho_os ho) st0 fuel ext) proj g fuel' ?s
        = (Inr (), with_world t' e' 0 s0)" and t': "iv t'"
      and m': "mem t' = after_write ?th ?fh ?mm (n # fd # q # n # rest) (mem t)"
      and o': "out e' = out e @ [(fds_lookup (sv_fds (ht_server s0)) fd, get_range (mem t) q (unat n))]"
    using write_turn [OF host, of ?s ?mm q n fd rest st0 fuel ext proj g fuel'] at_rest addrs t w(1,2) call(1,2) [OF i]
      buf words by auto
  have "unat n \<le> 2 ^ 64" using unsigned_less [of n, where ?'a = nat] by simp
  then have "get_range (mem t) q (unat n) = get_range ?M q (unat n)"
    by (rule get_range_agree [OF ag free])
  then have "out e' = out e @ [printed (sv_fds (ht_server s0)) ?M (cs ! i)]"
    using o' args by (simp add: printed_def)
  then have "out e' = out (env_of s0) @ outputs (sv_fds (ht_server s0)) (mem (target_of s0)) (take (Suc i) cs)"
    using ph sn i by (simp add: in_phase_def outputs_Suc)
  moreover have "ca_args (cs ! i) ! 3 = n" using args by simp
  ultimately have "in_phase iv mem out cs st s0 p i t' e' (Suc i) 0"
    using ph pc i t' written_memory [OF i len ag] unfolding in_phase_def phase_def count_of_def m' by (simp add: prog_mem_def)
  with turn show ?thesis by blast
qed

lemma server_exits:
  assumes ph: "in_phase iv mem out cs st s0 p i t e seen 0" and pc: "pr_pc p = Halted"
  shows "\<exists>t' e'. server_turn h ho run proj g fuel' (with_world t e 0 s0)
      = (Inr (), with_world t' e' (ucast (exit_word_of st)) s0)
      \<and> in_phase iv mem out cs st s0 p i t' e' seen (ucast (exit_word_of st))"
proof -
  let ?s = "with_world t e 0 s0" and ?th = "ht_tohost_addr s0"
  have t: "iv t" and w: "word_at (mem t) ?th = exit_word_of st"
    using ph pc odd_exit(1) [OF exit_word_facts(1)] by (auto simp: in_phase_def phase_def)
  obtain t' e' where "server_turn h ho run proj g fuel' ?s = (Inr (), with_world t' e' (ucast (exit_word_of st)) s0)"
      "iv t'" "mem t' = set_word (mem t) ?th 0" "out e' = out e"
    using exit_turn [OF host, of ?s "exit_word_of st" run proj g fuel'] at_rest addrs t w exit_word_facts by auto
  moreover from this ph pc agree_word word_at_set_other [OF th_fh(1)]
  have "in_phase iv mem out cs st s0 p i t' e' seen (ucast (exit_word_of st))"
    unfolding in_phase_def phase_def by (auto simp: prog_mem_def)
  ultimately show ?thesis by blast
qed

lemma server_access:
  assumes ph: "in_phase iv mem out cs st s0 p i t e seen x"
  shows "\<exists>t' e' seen' x'. server_turn h ho (run_syscall h (ho_os ho) st0 fuel ext) proj g fuel' (with_world t e x s0)
      = (Inr (), with_world t' e' x' s0) \<and> in_phase iv mem out cs st s0 p i t' e' seen' x'"
proof -
  let ?s = "with_world t e x s0" and ?run = "run_syscall h (ho_os ho) st0 fuel ext"
  have t: "iv t" using ph by (simp add: in_phase_def)
  consider "x \<noteq> 0" | "x = 0" "word_at (mem t) (ht_tohost_addr s0) = 0"
    | "x = 0" "word_at (mem t) (ht_tohost_addr s0) \<noteq> 0" "pr_pc p = Spin"
    | "x = 0" "pr_pc p = Halted"
    using ph by (cases "pr_pc p") (auto simp: in_phase_def phase_def)
  then show ?thesis
  proof cases
    case 1
    then obtain e' where "out e' = out e"
        "server_turn h ho ?run proj g fuel' ?s = (Inr (), with_world t e' x s0)"
      using server_turn_stopped [OF host, of ?s h ?run proj g fuel'] by auto
    with in_phase_cong [OF ph t refl] show ?thesis by blast
  next
    case 2
    with quiet_turn [OF host, of ?s ?run proj g fuel'] t at_rest addrs
    obtain t' e' where "server_turn h ho ?run proj g fuel' ?s = (Inr (), with_world t' e' 0 s0)"
        "iv t'" "mem t' = mem t" "out e' = out e"
      by auto
    with in_phase_cong [OF ph] 2(1) show ?thesis by blast
  next
    case 3
    with server_writes [of p i t e seen] ph show ?thesis by blast
  next
    case 4
    with server_exits [of p i t e seen] ph show ?thesis by blast
  qed
qed


text \<open>The invariant along every run.\<close>

lemma inv_init: "system_inv iv mem out cs st s0 (program_init cs st, s0)"
proof -
  have "in_phase iv mem out cs st s0 (program_init cs st) 0 (target_of s0) (env_of s0) 0 0"
    using target_ok empty_words first_of_rest [of 0]
    by (auto simp: in_phase_def phase_def program_init_def stored_def filled_def)
  moreover have "s0 = with_world (target_of s0) (env_of s0) 0 s0"
    using with_world_simps(8) [of s0] at_rest(2) by simp
  ultimately show ?thesis unfolding system_inv_def by blast
qed

lemma invI: "in_phase iv mem out cs st s0 p i t e seen x \<Longrightarrow> system_inv iv mem out cs st s0 (p, with_world t e x s0)"
  unfolding system_inv_def by blast

lemma inv_step:
  assumes "sys_step h ho (run_syscall h (ho_os ho) st0 fuel ext) proj g fuel' mem store (p, s) y"
    and "system_inv iv mem out cs st s0 (p, s)"
  shows "system_inv iv mem out cs st s0 y"
proof -
  obtain t e x i seen where s: "s = with_world t e x s0" and ph: "in_phase iv mem out cs st s0 p i t e seen x"
    using assms(2) by (auto simp: system_inv_def)
  from assms(1) show ?thesis
  proof (rule sys_stepE)
    fix a v
    assume "y = (rt_next (ht_fromhost_addr s) (mem (target_of s)) p, with_target (store a v (target_of s)) s)"
      and "rt_store (ht_tohost_addr s) (ht_fromhost_addr s) p = Some (a, v)"
    with program_access [OF ph] show ?thesis
      by (auto simp: s intro: invI)
  next
    assume "y = (rt_next (ht_fromhost_addr s) (mem (target_of s)) p, s)"
      and "rt_store (ht_tohost_addr s) (ht_fromhost_addr s) p = None"
    with program_access [OF ph] show ?thesis
      by (auto simp: s intro: invI)
  next
    fix s' assume "y = (p, s')"
      and "server_turn h ho (run_syscall h (ho_os ho) st0 fuel ext) proj g fuel' s = (Inr (), s')"
    with server_access [OF ph, of st0 fuel ext proj g fuel'] show ?thesis
      by (auto simp: s intro: invI)
  qed
qed

lemma inv_reachable:
  assumes "(sys_step h ho (run_syscall h (ho_os ho) st0 fuel ext) proj g fuel' mem store)\<^sup>*\<^sup>* (program_init cs st, s0) y"
  shows "system_inv iv mem out cs st s0 y"
  using assms
proof (induction rule: rtranclp_induct)
  case base
  show ?case by (rule inv_init)
next
  case (step y z)
  then show ?case by (cases y) (auto intro: inv_step)
qed

lemma exit_code_odd: "(ucast (exit_word_of st) :: u32) \<noteq> 0"
  by (rule odd_exit(1) [OF exit_word_facts(1)])

lemma seen_le: "in_phase iv mem out cs st s0 p i t e seen x \<Longrightarrow> seen \<le> length cs"
  by (auto simp: in_phase_def phase_def split: rt_pc.splits)

lemma finished:
  assumes "in_phase iv mem out cs st s0 p i t e seen x" and "x \<noteq> 0"
  shows "pr_pc p = Halted" "i = length cs" "seen = length cs" "x = ucast (exit_word_of st)"
  using assms by (auto simp: in_phase_def phase_def split: rt_pc.splits)

lemma fills_fit: "list_all (\<lambda>c. length (ca_fill c) \<le> unat (ca_args c ! 3)) cs"
  using prog by (auto simp: program_ok_def call_ok_def list_all_iff)

lemma agree_prog_mem:
  assumes "in_phase iv mem out cs st s0 p i t e seen x"
  shows "agree (buffers cs) (prog_mem cs (pr_pc p) i m) m"
proof -
  have ag: "agree (buffers cs) (filled (take n cs) m) m" for n
    using fills_fit set_take_subset [of n cs] by (intro agree_filled) (auto simp: list_all_iff)
  show ?thesis
  proof (cases "\<exists>j. pr_pc p = Fill j")
    case True
    then obtain j where pc: "pr_pc p = Fill j" by blast
    then have i: "i < length cs" using assms by (simp add: in_phase_def phase_def)
    let ?c = "cs ! i"
    have "length (take j (ca_fill ?c)) \<le> unat (ca_args ?c ! 3)" "?c \<in> set cs"
      using fills_fit i by (auto simp: list_all_iff intro: min.coboundedI1)
    then have "block (ca_args ?c ! 2) (length (take j (ca_fill ?c))) \<subseteq> buffers cs"
      unfolding buffers_def using block_mono by blast
    from agree_trans [OF agree_upd_range [OF this] ag] show ?thesis
      by (simp add: pc prog_mem_def)
  next
    case False
    then show ?thesis using ag by (auto simp: prog_mem_def split: rt_pc.splits)
  qed
qed

text \<open>In every state of every run.\<close>

lemma output_of_run:
  assumes "(sys_step h ho (run_syscall h (ho_os ho) st0 fuel ext) proj g fuel' mem store)\<^sup>*\<^sup>* (program_init cs st, s0) (p, s)"
  shows "\<exists>n \<le> length cs. out (env_of s) = out (env_of s0) @ outputs (sv_fds (ht_server s0)) (mem (target_of s0)) (take n cs)"
    and "sv_exitcode (ht_server s) \<noteq> 0 \<Longrightarrow>
      out (env_of s) = out (env_of s0) @ outputs (sv_fds (ht_server s0)) (mem (target_of s0)) cs
      \<and> pr_results p = map count_of cs \<and> sv_exitcode (ht_server s) = ucast (exit_word_of st)"
    and "fst (server_turn h ho (run_syscall h (ho_os ho) st0 fuel ext) proj g fuel' s) = Inr ()"
    and "agree (touched (ht_tohost_addr s0) (ht_fromhost_addr s0) cs \<union> buffers cs) (mem (target_of s)) (mem (target_of s0))"
proof -
  obtain t e x i seen where s: "s = with_world t e x s0" and ph: "in_phase iv mem out cs st s0 p i t e seen x"
    using inv_reachable [OF assms] by (auto simp: system_inv_def)
  show "\<exists>n \<le> length cs. out (env_of s) = out (env_of s0) @ outputs (sv_fds (ht_server s0)) (mem (target_of s0)) (take n cs)"
    using ph seen_le [OF ph] by (auto simp: s in_phase_def)
  show "agree (touched (ht_tohost_addr s0) (ht_fromhost_addr s0) cs \<union> buffers cs) (mem (target_of s)) (mem (target_of s0))"
  proof (rule agree_trans)
    show "agree (touched (ht_tohost_addr s0) (ht_fromhost_addr s0) cs \<union> buffers cs) (mem (target_of s))
        (prog_mem cs (pr_pc p) i (mem (target_of s0)))"
      using ph by (intro agree_subset [where T = "_ \<union> _"]) (auto simp: s in_phase_def)
    show "agree (touched (ht_tohost_addr s0) (ht_fromhost_addr s0) cs \<union> buffers cs)
        (prog_mem cs (pr_pc p) i (mem (target_of s0))) (mem (target_of s0))"
      by (rule agree_subset [OF agree_prog_mem [OF ph]]) simp
  qed
  show "fst (server_turn h ho (run_syscall h (ho_os ho) st0 fuel ext) proj g fuel' s) = Inr ()"
    using server_access [OF ph, of st0 fuel ext proj g fuel'] by (auto simp: s)
  assume "sv_exitcode (ht_server s) \<noteq> 0"
  then have "x \<noteq> 0" by (simp add: s)
  from finished [OF ph this] ph
  show "out (env_of s) = out (env_of s0) @ outputs (sv_fds (ht_server s0)) (mem (target_of s0)) cs
      \<and> pr_results p = map count_of cs \<and> sv_exitcode (ht_server s) = ucast (exit_word_of st)"
    by (simp add: s in_phase_def)
qed

end

section \<open>Progress\<close>

text \<open>A bound on the steps that are left.\<close>

definition steps_left :: "memory \<Rightarrow> addr \<Rightarrow> u32 \<Rightarrow> program \<Rightarrow> nat" where
  "steps_left m fh x p = sum_list (map (\<lambda>c. 20 + length (ca_fill c)) (tl (pr_calls p))) + (case pr_pc p of
     Fill i \<Rightarrow> 11 + length (ca_fill (hd (pr_calls p))) - i | Store i \<Rightarrow> 11 - i | Ring \<Rightarrow> 7
   | Spin \<Rightarrow> (if word_at m fh = 0 then 6 else 5) | Clear \<Rightarrow> 4 | Load \<Rightarrow> 3
   | Finish \<Rightarrow> 2 | Halted \<Rightarrow> (if x = 0 then 1 else 0))"

context running_program begin

lemma access_decreases:
  assumes ph: "in_phase iv mem out cs st s0 p i t e seen 0"
    and pc: "\<not> (pr_pc p \<in> {Spin, Halted} \<and> (pr_pc p = Spin \<longrightarrow> word_at (mem t) (ht_fromhost_addr s0) = 0))"
  shows "steps_left m (ht_fromhost_addr s0) 0 (rt_next (ht_fromhost_addr s0) (mem t) p)
    < steps_left (mem t) (ht_fromhost_addr s0) 0 p"
proof (cases "pr_pc p = Load")
  case True
  then have i: "i < length cs" using ph by (simp add: in_phase_def phase_def)
  have "first_pc (drop (Suc i) cs) = Finish \<and> drop (Suc i) cs = [] \<or> (\<exists>c r. drop (Suc i) cs = c # r
      \<and> first_pc (drop (Suc i) cs) \<in> {Store 0, Fill 0})"
    by (cases "drop (Suc i) cs") (auto simp: first_pc_def)
  with True next_call [OF ph i] show ?thesis
    by (auto simp: steps_left_def rt_next_def)
next
  case False
  with pc show ?thesis
    using ph next_call [OF ph] by (cases "pr_pc p") (auto simp: steps_left_def rt_next_def in_phase_def phase_def)
qed

lemma server_progress:
  assumes ph: "in_phase iv mem out cs st s0 p i t e seen 0" and pc: "pr_pc p \<in> {Spin, Halted}"
    and "pr_pc p = Spin \<longrightarrow> word_at (mem t) (ht_fromhost_addr s0) = 0"
  shows "\<exists>t' e' x'. server_turn h ho (run_syscall h (ho_os ho) st0 fuel ext) proj g fuel' (with_world t e 0 s0)
        = (Inr (), with_world t' e' x' s0)
      \<and> steps_left (mem t') (ht_fromhost_addr s0) x' p < steps_left (mem t) (ht_fromhost_addr s0) 0 p"
proof (cases "pr_pc p = Spin")
  case True
  with assms have "word_at (mem t) (ht_tohost_addr s0) \<noteq> 0"
    using call(2) [of i] by (auto simp: in_phase_def phase_def magic_ok_def)
  from server_writes [OF ph True this, of st0 fuel ext proj g fuel']
  obtain t' e' where turn: "server_turn h ho (run_syscall h (ho_os ho) st0 fuel ext) proj g fuel' (with_world t e 0 s0)
        = (Inr (), with_world t' e' 0 s0)" and ph': "in_phase iv mem out cs st s0 p i t' e' (Suc i) 0"
    by blast
  have "word_at (mem t') (ht_fromhost_addr s0) \<noteq> 0"
    using ph' True by (auto simp: in_phase_def phase_def)
  with turn True assms(3) show ?thesis
    by (intro exI conjI) (assumption, simp add: steps_left_def)
next
  case False
  with pc have h: "pr_pc p = Halted" by simp
  from server_exits [OF ph h, of "run_syscall h (ho_os ho) st0 fuel ext" proj g fuel']
  obtain t' e' where "server_turn h ho (run_syscall h (ho_os ho) st0 fuel ext) proj g fuel' (with_world t e 0 s0)
        = (Inr (), with_world t' e' (ucast (exit_word_of st)) s0)" by blast
  with h exit_code_odd show ?thesis
    by (intro exI conjI) (assumption, simp add: steps_left_def)
qed

lemma progress:
  assumes inv: "system_inv iv mem out cs st s0 (p, s)" and "sv_exitcode (ht_server s) = 0"
  shows "\<exists>p' s'. sys_step h ho (run_syscall h (ho_os ho) st0 fuel ext) proj g fuel' mem store (p, s) (p', s')
    \<and> steps_left (mem (target_of s')) (ht_fromhost_addr s0) (sv_exitcode (ht_server s')) p'
      < steps_left (mem (target_of s)) (ht_fromhost_addr s0) 0 p"
proof -
  let ?step = "sys_step h ho (run_syscall h (ho_os ho) st0 fuel ext) proj g fuel' mem store"
  obtain t e i seen where s: "s = with_world t e 0 s0" and ph: "in_phase iv mem out cs st s0 p i t e seen 0"
    using assms by (auto simp: system_inv_def)
  show ?thesis
  proof (cases "pr_pc p \<in> {Spin, Halted} \<and> (pr_pc p = Spin \<longrightarrow> word_at (mem t) (ht_fromhost_addr s0) = 0)")
    case True
    then obtain t' e' x' where turn: "server_turn h ho (run_syscall h (ho_os ho) st0 fuel ext) proj g fuel' s
        = (Inr (), with_world t' e' x' s0)"
      and "steps_left (mem t') (ht_fromhost_addr s0) x' p < steps_left (mem t) (ht_fromhost_addr s0) 0 p"
      using server_progress [OF ph, of st0 fuel ext proj g fuel'] by (auto simp: s)
    moreover have "?step (p, s) (p, with_world t' e' x' s0)"
      by (rule server_turns [OF turn])
    ultimately show ?thesis by (intro exI conjI) (assumption, simp add: s)
  next
    case False
    let ?p = "rt_next (ht_fromhost_addr s) (mem t) p"
    have less: "steps_left m (ht_fromhost_addr s0) 0 ?p < steps_left (mem t) (ht_fromhost_addr s0) 0 p" for m
      using False access_decreases [OF ph, of m] by (simp add: s)
    show ?thesis
    proof (cases "rt_store (ht_tohost_addr s) (ht_fromhost_addr s) p")
      case None
      from program_reads [OF this] less show ?thesis by (intro exI conjI) (assumption, simp add: s)
    next
      case (Some av)
      then obtain a v where "rt_store (ht_tohost_addr s) (ht_fromhost_addr s) p = Some (a, v)" by (cases av) auto
      from program_stores [OF this] less show ?thesis by (intro exI conjI) (assumption, simp add: s)
    qed
  qed
qed

text \<open>The end of the program can be reached from every state of every run.\<close>

lemma can_finish:
  assumes "system_inv iv mem out cs st s0 (p, s)"
  shows "\<exists>p' s'. (sys_step h ho (run_syscall h (ho_os ho) st0 fuel ext) proj g fuel' mem store)\<^sup>*\<^sup>* (p, s) (p', s')
    \<and> sv_exitcode (ht_server s') = ucast (exit_word_of st)"
  using assms
proof (induction "steps_left (mem (target_of s)) (ht_fromhost_addr s0) (sv_exitcode (ht_server s)) p"
    arbitrary: p s rule: less_induct)
  case less
  show ?case
  proof (cases "sv_exitcode (ht_server s) = 0")
    case True
    with progress [OF less.prems True, of st0 fuel ext proj g fuel'] obtain p1 s1
      where 1: "sys_step h ho (run_syscall h (ho_os ho) st0 fuel ext) proj g fuel' mem store (p, s) (p1, s1)"
        "steps_left (mem (target_of s1)) (ht_fromhost_addr s0) (sv_exitcode (ht_server s1)) p1
          < steps_left (mem (target_of s)) (ht_fromhost_addr s0) (sv_exitcode (ht_server s)) p"
      by auto
    from less.hyps [OF 1(2) inv_step [OF 1(1) less.prems]] 1(1) show ?thesis
      by (meson converse_rtranclp_into_rtranclp)
  next
    case False
    with less.prems have "sv_exitcode (ht_server s) = ucast (exit_word_of st)"
      by (auto simp: system_inv_def dest: finished(4))
    then show ?thesis by blast
  qed
qed

end

end
