(* ===== verification/Runtime_Board.thy ===== *)
theory Runtime_Board
  imports Runtime_Output
begin

text \<open>
  The programs of \<open>Runtime_Output\<close> on the board: the processor stores into the memory behind the AXI
  engine, the server reaches it through the whole stack of the transport. A sample program serves for
  the interpretations and the witnesses, and the default \<open>main\<close> of the library shows what an exit
  code of more than 47 bits does.
\<close>

section \<open>The transports\<close>

text \<open>A store of the processor changes the chip, not the driver or the connection.\<close>

definition board_store :: "(addr \<Rightarrow> u8 list \<Rightarrow> 'x \<Rightarrow> 'x) \<Rightarrow> addr \<Rightarrow> u8 list \<Rightarrow> 'x tcl_server bridge \<Rightarrow> 'x tcl_server bridge" where
  "board_store st a bs s = s\<lparr>br_bus := (br_bus s)\<lparr>tc_axi := st a bs (tc_axi (br_bus s))\<rparr>\<rparr>"

text \<open>What the memory of the chip does with a store.\<close>

definition stores_bytes :: "('x \<Rightarrow> bool) \<Rightarrow> ('x \<Rightarrow> memory) \<Rightarrow> (addr \<Rightarrow> u8 list \<Rightarrow> 'x \<Rightarrow> 'x) \<Rightarrow> bool" where
  "stores_bytes ainv amem st \<longleftrightarrow> (\<forall>a bs x. ainv x \<longrightarrow> ainv (st a bs x) \<and> amem (st a bs x) = upd_range (amem x) a bs)"

lemma board_is_running_target:
  assumes port: "debug_port (axi_bus X) ainv amem anext" and wide: "axi_wide X" and mb: "mailbox th fh"
    and st: "stores_bytes ainv amem st"
  shows "running_target (dtm (bridge_serve (socket_bus (tcl_channel X)) th fh) jk) 3 (bridge_ok (link_ok ainv))
      (\<lambda>s. amem (tc_axi (br_bus s))) (mailbox_addr th fh) in_dram (board_store st)"
  unfolding running_target_def running_target_axioms_def
proof (intro conjI allI impI)
  note sock = socket_debug_port [OF port wide]
  show "word_target (dtm (bridge_serve (socket_bus (tcl_channel X)) th fh) jk) 3 (bridge_ok (link_ok ainv))
      (\<lambda>s. amem (tc_axi (br_bus s))) (mailbox_addr th fh)"
    by (rule board_is_word_target [OF sock mb])
  show "chunk_target (dtm (bridge_serve (socket_bus (tcl_channel X)) th fh) jk) DMA 3 (bridge_ok (link_ok ainv))
      (\<lambda>s. amem (tc_axi (br_bus s))) in_dram"
    by (rule bridge_is_chunk_target [OF sock])
  fix t a bs assume t: "bridge_ok (link_ok ainv) t"
  then show "bridge_ok (link_ok ainv) (board_store st a bs t)"
    using st by (cases "br_bus t") (auto simp: board_store_def bridge_ok_def link_ok_def stores_bytes_def quiet_link_def)
  show "amem (tc_axi (br_bus (board_store st a bs t))) = upd_range (amem (tc_axi (br_bus t))) a bs"
    using t st by (simp add: board_store_def bridge_ok_def link_ok_def stores_bytes_def)
next
  fix t assume "bridge_ok (link_ok ainv) t"
  from serve_nops [OF this, of "[0..<max_idle_cycles]" "socket_bus (tcl_channel X)" th fh]
  show "\<exists>t'. idle (dtm (bridge_serve (socket_bus (tcl_channel X)) th fh) jk) t = (Inr (), t') \<and>
      bridge_ok (link_ok ainv) t' \<and> amem (tc_axi (br_bus t')) = amem (tc_axi (br_bus t))"
    by (auto simp: dtm_def dtm_idle_def)
qed

interpretation ideal_chip: running_target ideal 3 "\<lambda>_. True" "\<lambda>m. m" "\<lambda>_. True" "\<lambda>_. True" "\<lambda>a bs m. upd_range m a bs"
  using ideal_is_word_target ideal_is_chunk_target
  by (simp add: running_target_def running_target_axioms_def ideal_def ret_def)

section \<open>Places in memory\<close>

lemma block_apart:
  assumes "unat a + n \<le> unat b" and "unat b + m \<le> 2 ^ 64"
  shows "block a n \<inter> block b m = {}" "block b m \<inter> block a n = {}"
proof -
  have "x \<notin> block b m" if "x \<in> block a n" for x
  proof
    assume "x \<in> block b m"
    then have b: "unat (x - b) < m" by (simp add: block_def)
    have "x = b + of_nat (unat (x - b))" by simp
    then have ub: "unat x = unat b + unat (x - b)"
      using b assms(2) unat_add_lem [of b "x - b"] by (simp add: unat_plus_simple)
    have a: "unat (x - a) < n" using that by (simp add: block_def)
    then have "unat x = unat a + unat (x - a)"
      using assms unat_add_lem [of a "x - a"] by simp
    with ub a assms(1) show False by linarith
  qed
  then show "block a n \<inter> block b m = {}" "block b m \<inter> block a n = {}" by blast+
qed

lemma dram_range:
  assumes "0x80000000 \<le> unat a" and "unat a + n \<le> 0x100000000" and "i < n"
  shows "in_dram (a + of_nat i)"
proof -
  have "unat (a + of_nat i) = unat a + i"
    using assms by (simp add: unat_word_ariths unsigned_of_nat take_bit_nat_eq_self)
  with assms show ?thesis by (simp add: in_dram_def word_le_nat_alt word_less_nat_alt)
qed

section \<open>A program on the board\<close>

text \<open>The transport of the server \<open>s0\<close>, and the steps of a program and the server over it.\<close>

abbreviation board_stack :: "'x axi_ops \<Rightarrow> ('t, 'e) htif \<Rightarrow> _ \<Rightarrow> 'x tcl_server bridge htif_ops" where
  "board_stack X s0 jk \<equiv> dtm (bridge_serve (socket_bus (tcl_channel X)) (ht_tohost_addr s0) (ht_fromhost_addr s0)) jk"

abbreviation board_step where
  "board_step X amem st jk ho st0 fuel ext proj g fuel' s0 \<equiv>
    sys_step (board_stack X s0 jk) ho (run_syscall (board_stack X s0 jk) (ho_os ho) st0 fuel ext) proj g fuel'
      (\<lambda>t. amem (tc_axi (br_bus t))) (board_store st)"

text \<open>What the board and the program must be.\<close>

definition board_program where
  "board_program X ainv amem anext st ho out cs code s0 \<longleftrightarrow>
     debug_port (axi_bus X) ainv amem anext \<and> axi_wide X \<and> stores_bytes ainv amem st
   \<and> mailbox (ht_tohost_addr s0) (ht_fromhost_addr s0)
   \<and> taking_host ho out \<and> bridge_ok (link_ok ainv) (target_of s0) \<and> settled s0 \<and> sv_exitcode (ht_server s0) = 0
   \<and> program_ok in_dram (ht_tohost_addr s0) (ht_fromhost_addr s0) cs code
   \<and> word_at (amem (tc_axi (br_bus (target_of s0)))) (ht_tohost_addr s0) = 0
   \<and> word_at (amem (tc_axi (br_bus (target_of s0)))) (ht_fromhost_addr s0) = 0"

lemma board_runs_program:
  assumes "board_program X ainv amem anext st ho out cs code s0"
  shows "running_program (board_stack X s0 jk) 3 (bridge_ok (link_ok ainv)) (\<lambda>t. amem (tc_axi (br_bus t)))
      (mailbox_addr (ht_tohost_addr s0) (ht_fromhost_addr s0)) in_dram (board_store st) ho out cs code s0"
  using assms unfolding board_program_def running_program_def running_program_axioms_def
  using board_is_running_target mailbox_word_addrs by blast

text \<open>A host that keeps what it is given, and a program that prints a string, then what it has put in its place, and exits with 5.\<close>

definition recording_host :: "(int \<times> u8 list) list host_ops" where
  "recording_host = \<lparr>ho_os = (idle_os 0)\<lparr>os_write := (\<lambda>fd bs e. (int (length bs), e @ [(fd, bs)]))\<rparr>,
    ho_access = (\<lambda>_ _. False), ho_file = (\<lambda>_ _. None), ho_rand = (\<lambda>e. (0, e)), ho_signal = (\<lambda>e. (False, e))\<rparr>"

definition two_writes :: "rt_call list" where
  "two_writes = [write_call [] 0x80002000 1 0x80003000 3, write_call [111, 107, 10] 0x80002000 2 0x80003000 3]"

definition board_printing :: "(port_chip tcl_server bridge, (int \<times> u8 list) list) htif" where
  "board_printing = htif_on ((server_on (bridge_init (replicate 256 0)
      (quiet_link \<lparr>pc_mem = upd_range (\<lambda>_. 0) 0x80003000 [104, 105, 10], pc_addr = 0, pc_type = 0\<rparr>)) [])
    \<lparr>sv_devices := [\<lparr>dev_class = Syscall_proxy, command_handlers = [H_syscall], command_names = [[]]\<rparr>]\<rparr>)
    0x80001000 0x80001040"

definition port_store :: "addr \<Rightarrow> u8 list \<Rightarrow> port_chip \<Rightarrow> port_chip" where
  "port_store a bs c = c\<lparr>pc_mem := upd_range (pc_mem c) a bs\<rparr>"

lemma taking_recording_host: "taking_host recording_host (\<lambda>e. e)"
  by (simp add: taking_host_def recording_host_def)

lemma stores_bytes_port: "stores_bytes (\<lambda>_. True) pc_mem port_store"
  by (simp add: stores_bytes_def port_store_def)

lemma sample_blocks:
  "block 0x80002000 64 \<inter> block 0x80001000 8 = {}" "block 0x80001040 8 \<inter> block 0x80002000 64 = {}"
  "block 0x80001040 8 \<inter> block 0x80001000 8 = {}"
  "block 0x80003000 3 \<inter> block 0x80001000 8 = {}" "block 0x80003000 3 \<inter> block 0x80001040 8 = {}"
  "block 0x80003000 3 \<inter> block 0x80002000 64 = {}"
  by (rule block_apart(1) block_apart(2), simp, simp)+

lemma two_writes_ok: "program_ok in_dram 0x80001000 0x80001040 two_writes 5"
  using sample_blocks dram_range [of "0x80002000" 64] dram_range [of "0x80003000" 3]
  by (simp add: program_ok_def two_writes_def write_call_def call_ok_def buffer_ok_def magic_ok_def apart_def touched_def
      Int_Un_distrib)

lemma le_word_zeros: "le_word (map (\<lambda>_. 0) xs) = 0"
  by (induction xs) simp_all

lemma board_printing_runs:
  assumes "program_ok in_dram 0x80001000 0x80001040 cs code"
  shows "board_program port_axi (\<lambda>_. True) pc_mem (\<lambda>c. Some (pc_addr c)) port_store recording_host (\<lambda>e. e) cs code board_printing"
proof -
  have word: "word_at (upd_range (\<lambda>_. 0) 0x80003000 [104, 105, 10]) a = 0" if "block a 8 \<inter> block 0x80003000 3 = {}" for a
  proof -
    have "agree (block 0x80003000 3) (upd_range (\<lambda>_. 0) 0x80003000 [104, 105, 10 :: u8]) (\<lambda>_. 0)"
      by (rule agree_upd_range) (simp add: numeral_3_eq_3)
    from word_at_agree [OF this that] show ?thesis
      by (simp add: word_at_def get_range_def le_word_zeros)
  qed
  have "ht_tohost_addr board_printing = 0x80001000" "ht_fromhost_addr board_printing = 0x80001040"
    by (simp_all add: board_printing_def htif_on_def)
  then show ?thesis
    using sample_blocks(4,5) word [of "0x80001000"] word [of "0x80001040"] assms
    by (simp add: board_program_def port_axi_is_debug_port port_axi_wide stores_bytes_port taking_recording_host
      mailbox_def in_dram_def board_printing_def htif_on_def server_on_def target_of_def settled_def proxy_first_def
      quiet_devices_def bridge_init_def bridge_ok_def Int_commute)
qed

lemmas board_printing_ok = board_printing_runs [OF two_writes_ok]

interpretation two_writes: running_program "board_stack port_axi board_printing jk" 3 "bridge_ok (link_ok (\<lambda>_. True))"
    "\<lambda>t. pc_mem (tc_axi (br_bus t))" "mailbox_addr (ht_tohost_addr board_printing) (ht_fromhost_addr board_printing)"
    in_dram "board_store port_store" recording_host "\<lambda>e. e" two_writes 5 board_printing
  for jk
  by (rule board_runs_program [OF board_printing_ok])

lemma two_writes_output:
  "env_of board_printing = []" "map count_of two_writes = [3, 3]"
  "outputs (sv_fds (ht_server board_printing)) (pc_mem (tc_axi (br_bus (target_of board_printing)))) two_writes
    = [(1, [104, 105, 10]), (1, [111, 107, 10])]"
  by code_simp+

section \<open>Exit codes the protocol cannot carry\<close>

text \<open>
  The \<open>main\<close> that the library has for programs without one returns -1. The word that \<open>tohost_exit\<close> makes
  of it names device 255 and its identity command, whose address is not a multiple of 64: instead of ending
  the test with a failure, the server stops at the assertion.
\<close>

lemma default_main_stops_server:
  assumes "devices_wf s"
  shows "handle_command h os run (exit_word_of (- 1)) s = (Inl (Assert_failed ''addr % IDENTITY_SIZE == 0''), s)"
proof -
  have "exit_word_of (- 1) = - 1"
    by (simp add: exit_word_of_def bit_eq_iff bit_simps)
  moreover have "unat (cmd_device (- 1)) = 255" "unat (cmd_cmd (- 1)) = 255"
      "cmd_payload (- 1) div of_nat MAX_COMMANDS mod of_nat IDENTITY_SIZE \<noteq> 0"
    by code_simp+
  moreover have "command_handlers (sv_devices s ! 255) ! 255 = H_identify"
    using assms by (simp add: devices_wf_def device_wf_def)
  ultimately show ?thesis
    by (simp add: handle_command_def bnd_getS run_handler_def handle_identify_def Let_def assertM_def raise_def andThen_def)
qed

section \<open>What arrives at the host\<close>





end
