(* ===== verification/Runtime_Format.thy ===== *)
theory Runtime_Format
  imports Runtime
begin

text \<open>
  The formatted output of the runtime library (\<open>syscalls.c\<close>): the string functions, \<open>printnum\<close>,
  \<open>vprintfmt\<close>, \<open>sprintf\<close>, \<open>printf\<close> and the buffer of \<open>putchar\<close>. A C string is the memory from its pointer
  on, as the list of bytes of its object; a result \<open>None\<close> means that the code leaves the object, finds no
  argument of the kind it takes, or overflows a signed integer.
\<close>

section \<open>Strings\<close>

fun rt_strlen :: "u8 list \<Rightarrow> nat option" where
  "rt_strlen [] = None"
| "rt_strlen (c # s) = (if c = 0 then Some 0 else map_option Suc (rt_strlen s))"

fun rt_strnlen :: "u8 list \<Rightarrow> u64 \<Rightarrow> nat option" where
  "rt_strnlen [] n = (if n = 0 then Some 0 else None)"
| "rt_strnlen (c # s) n = (if n = 0 \<or> c = 0 then Some 0 else map_option Suc (rt_strnlen s (n - 1)))"

fun rt_strcmp :: "u8 list \<Rightarrow> u8 list \<Rightarrow> int option" where
  "rt_strcmp (c # s) (d # t) = (if c \<noteq> 0 \<and> c = d then rt_strcmp s t else Some (uint c - uint d))"
| "rt_strcmp _ _ = None"

text \<open>The bytes at the destination afterwards.\<close>

fun rt_strcpy :: "u8 list \<Rightarrow> u8 list \<Rightarrow> u8 list option" where
  "rt_strcpy (d # ds) (c # s) = (if c = 0 then Some (0 # ds) else map_option ((#) c) (rt_strcpy ds s))"
| "rt_strcpy _ _ = None"

text \<open>\<open>long\<close> values; the signed arithmetic of \<open>atol\<close> is defined only inside them.\<close>

definition long_value :: "int \<Rightarrow> int option" where
  "long_value i = (if - (2 ^ 63) \<le> i \<and> i < 2 ^ 63 then Some i else None)"

fun atol_digits :: "u8 list \<Rightarrow> int \<Rightarrow> int option" where
  "atol_digits [] res = None"
| "atol_digits (c # s) res = (if c = 0 then Some res
     else Option.bind (long_value (res * 10)) (\<lambda>r. Option.bind (long_value (r + (uint c - 48))) (atol_digits s)))"

definition rt_atol :: "u8 list \<Rightarrow> int option" where
  "rt_atol s = (let s = dropWhile (\<lambda>c. c = 32) s in case s of [] \<Rightarrow> None
     | c # s' \<Rightarrow> Option.bind (atol_digits (if c = 45 \<or> c = 43 then s' else s) 0)
         (\<lambda>res. long_value (if c = 45 then - res else res)))"

section \<open>Numbers\<close>

text \<open>\<open>digs\<close>, the lowest digit first. The bases are 8, 10 and 16; below 2 the loop of the code does not end.\<close>

function digs :: "nat \<Rightarrow> nat \<Rightarrow> nat list" where
  "digs b n = (if b < 2 then [] else n mod b # (if n < b then [] else digs b (n div b)))"
  by pat_completeness auto
termination
  by (relation "measure snd") auto

declare digs.simps [simp del]

definition digit_char :: "nat \<Rightarrow> u8" where
  "digit_char d = of_nat (d + (if 10 \<le> d then 87 else 48))"

definition printnum :: "u64 \<Rightarrow> nat \<Rightarrow> int \<Rightarrow> u8 \<Rightarrow> u8 list" where
  "printnum num base width' padc = (let ds = digs base (unat num) in
     replicate (nat (width' - int (length ds))) padc @ map digit_char (rev ds))"

text \<open>The arguments: words of the registers and the stack, and pointers to strings (\<open>None\<close> is \<open>NULL\<close>).\<close>

datatype va = Word u64 | Cstr "u8 list option"

definition getuint :: "nat \<Rightarrow> u64 \<Rightarrow> u64" where
  "getuint lflag w = (if 1 \<le> lflag then w else ucast (ucast w :: u32))"

definition getint :: "nat \<Rightarrow> u64 \<Rightarrow> int" where
  "getint lflag w = (if 1 \<le> lflag then sint w else sint (ucast w :: u32))"

section \<open>Directives\<close>

record spec =
  sp_padc :: u8
  sp_width :: int
  sp_prec :: int
  sp_lflag :: nat

definition spec_init :: spec where
  "spec_init = \<lparr>sp_padc = 32, sp_width = - 1, sp_prec = - 1, sp_lflag = 0\<rparr>"

text \<open>The loop of the width field: the number and what follows it.\<close>

fun width_field :: "u8 list \<Rightarrow> int \<Rightarrow> (int \<times> u8 list) option" where
  "width_field [] v = None"
| "width_field (c # s) v = (if c < 48 \<or> 57 < c then Some (v, c # s)
     else if v * 10 + uint c < 2 ^ 31 then width_field s (v * 10 + uint c - 48) else None)"

definition process_precision :: "int \<Rightarrow> spec \<Rightarrow> spec" where
  "process_precision v sp = (if sp_width sp < 0 then sp\<lparr>sp_width := v, sp_prec := - 1\<rparr> else sp\<lparr>sp_prec := v\<rparr>)"

text \<open>The conversion \<open>s\<close>: padding, the characters, padding.\<close>

fun str_chars :: "u8 list \<Rightarrow> int \<Rightarrow> u8 list option" where
  "str_chars [] prec = None"
| "str_chars (c # s) prec = (if c = 0 then Some []
     else if prec < 0 then map_option ((#) c) (str_chars s prec)
     else if 0 \<le> prec - 1 then map_option ((#) c) (str_chars s (prec - 1)) else Some [])"

definition null_string :: "u8 list" where
  "null_string = [40, 110, 117, 108, 108, 41, 0]"

definition conv_string :: "spec \<Rightarrow> u8 list option \<Rightarrow> u8 list option" where
  "conv_string sp p = (let s = (case p of None \<Rightarrow> null_string | Some s \<Rightarrow> s) in
     if 0 < sp_width sp \<and> sp_padc sp \<noteq> 45
     then Option.bind (rt_strnlen s (of_int (sp_prec sp))) (\<lambda>n.
       let w = sp_width sp - int n in
       map_option (\<lambda>cs. replicate (nat w) (sp_padc sp) @ cs @ replicate (nat (min w 0 - int (length cs))) 32)
         (str_chars s (sp_prec sp)))
     else map_option (\<lambda>cs. cs @ replicate (nat (sp_width sp - int (length cs))) 32) (str_chars s (sp_prec sp)))"

text \<open>The conversion \<open>d\<close>: the sign is put out first, and \<open>- num\<close> is undefined for the least number.\<close>

definition conv_signed :: "spec \<Rightarrow> u64 \<Rightarrow> u8 list option" where
  "conv_signed sp w = (let v = getint (sp_lflag sp) w in
     if v < 0 then map_option (\<lambda>u. 45 # printnum (of_int u) 10 (sp_width sp) (sp_padc sp)) (long_value (- v))
     else Some (printnum (of_int v) 10 (sp_width sp) (sp_padc sp)))"

definition conv_unsigned :: "spec \<Rightarrow> nat \<Rightarrow> u64 \<Rightarrow> u8 list" where
  "conv_unsigned sp base w = printnum (getuint (sp_lflag sp) w) base (sp_width sp) (sp_padc sp)"

text \<open>
  The \<open>switch\<close> without its flags: what is put out, where the format goes on, and the arguments left.
  \<open>last_fmt\<close> is the format behind the percent sign.
\<close>

definition convert :: "u8 list \<Rightarrow> spec \<Rightarrow> u8 \<Rightarrow> u8 list \<Rightarrow> va list \<Rightarrow> (u8 list \<times> u8 list \<times> va list) option" where
  "convert last_fmt sp ch rest args =
    (if ch = 99 then (case args of Word w # args' \<Rightarrow> Some ([ucast w], rest, args') | _ \<Rightarrow> None)
     else if ch = 115 then (case args of Cstr p # args' \<Rightarrow> map_option (\<lambda>cs. (cs, rest, args')) (conv_string sp p) | _ \<Rightarrow> None)
     else if ch = 100 then (case args of Word w # args' \<Rightarrow> map_option (\<lambda>cs. (cs, rest, args')) (conv_signed sp w) | _ \<Rightarrow> None)
     else if ch = 117 then (case args of Word w # args' \<Rightarrow> Some (conv_unsigned sp 10 w, rest, args') | _ \<Rightarrow> None)
     else if ch = 111 then (case args of Word w # args' \<Rightarrow> Some (conv_unsigned sp 8 w, rest, args') | _ \<Rightarrow> None)
     else if ch = 112 then (case args of Word w # args' \<Rightarrow>
         Some ([48, 120] @ conv_unsigned (sp\<lparr>sp_lflag := 1\<rparr>) 16 w, rest, args') | _ \<Rightarrow> None)
     else if ch = 120 then (case args of Word w # args' \<Rightarrow> Some (conv_unsigned sp 16 w, rest, args') | _ \<Rightarrow> None)
     else if ch = 37 then Some ([ch], rest, args)
     else Some ([37], last_fmt, args))"

lemma width_field_length: "width_field s v = Some (v', s') \<Longrightarrow> length s' \<le> length s"
  by (induction s v rule: width_field.induct) (auto split: if_splits)

function directive :: "u8 list \<Rightarrow> spec \<Rightarrow> u8 list \<Rightarrow> va list \<Rightarrow> (u8 list \<times> u8 list \<times> va list) option" where
  "directive last_fmt sp fmt args = (case fmt of [] \<Rightarrow> None | ch # rest \<Rightarrow>
     if ch = 45 \<or> ch = 48 then directive last_fmt (sp\<lparr>sp_padc := ch\<rparr>) rest args
     else if 49 \<le> ch \<and> ch \<le> 57 then (case width_field rest (uint ch - 48) of None \<Rightarrow> None
       | Some (v, rest') \<Rightarrow> directive last_fmt (process_precision v sp) rest' args)
     else if ch = 42 then (case args of Word w # args' \<Rightarrow>
         directive last_fmt (process_precision (sint (ucast w :: u32)) sp) rest args' | _ \<Rightarrow> None)
     else if ch = 46 then directive last_fmt (if sp_width sp < 0 then sp\<lparr>sp_width := 0\<rparr> else sp) rest args
     else if ch = 35 then directive last_fmt sp rest args
     else if ch = 108 then directive last_fmt (sp\<lparr>sp_lflag := sp_lflag sp + 1\<rparr>) rest args
     else convert last_fmt sp ch rest args)"
  by pat_completeness auto
termination
  by (relation "measure (\<lambda>(_, _, fmt, _). length fmt)") (auto dest: width_field_length)

declare directive.simps [simp del]

lemma convert_rest: "convert last_fmt sp ch rest args = Some (out, fmt', args') \<Longrightarrow> fmt' = last_fmt \<or> fmt' = rest"
  by (auto simp: convert_def split: if_splits list.splits va.splits)

lemma directive_rest: "directive last_fmt sp fmt args = Some (out, fmt', args') \<Longrightarrow> fmt' = last_fmt \<or> length fmt' < length fmt"
proof (induction fmt arbitrary: sp args rule: measure_induct_rule [of length])
  case (less fmt)
  have IH: "fmt' = last_fmt \<or> length fmt' < length fmt"
    if "directive last_fmt sp2 fmt2 args2 = Some (out, fmt', args')" "length fmt2 < length fmt" for sp2 fmt2 args2
    using less.IH [OF that(2,1)] that(2) by auto
  show ?case
  proof (cases fmt)
    case Nil
    then show ?thesis using less.prems by (simp add: directive.simps)
  next
    case (Cons ch rest)
    have rec: ?thesis if "directive last_fmt sp2 fmt2 args2 = Some (out, fmt', args')" "length fmt2 \<le> length rest" for sp2 fmt2 args2
      using IH [OF that(1)] that(2) Cons by simp
    consider (conv) "convert last_fmt sp ch rest args = Some (out, fmt', args')"
      | (again) sp2 fmt2 args2 where "directive last_fmt sp2 fmt2 args2 = Some (out, fmt', args')" "length fmt2 \<le> length rest"
      using less.prems unfolding Cons directive.simps [of last_fmt sp "ch # rest"]
      by (auto split: if_splits option.splits list.splits va.splits dest: width_field_length)
    then show ?thesis
    proof cases
      case conv
      from convert_rest [OF this] Cons show ?thesis by auto
    qed (rule rec)
  qed
qed

section \<open>Formats\<close>

function vprintfmt :: "u8 list \<Rightarrow> va list \<Rightarrow> u8 list option" where
  "vprintfmt fmt args = (case fmt of [] \<Rightarrow> None | ch # rest \<Rightarrow>
     if ch = 0 then Some []
     else if ch \<noteq> 37 then map_option ((#) ch) (vprintfmt rest args)
     else (case directive rest spec_init rest args of None \<Rightarrow> None
       | Some (out, fmt', args') \<Rightarrow> map_option ((@) out) (vprintfmt fmt' args')))"
  by pat_completeness auto
termination
  by (relation "measure (\<lambda>(fmt, _). length fmt)") (auto dest: directive_rest)

declare vprintfmt.simps [simp del]

text \<open>The bytes at \<open>str\<close>, and the result.\<close>

definition rt_sprintf :: "u8 list \<Rightarrow> va list \<Rightarrow> (u8 list \<times> nat) option" where
  "rt_sprintf fmt args = map_option (\<lambda>cs. (cs @ [0], length cs)) (vprintfmt fmt args)"

text \<open>
  \<open>putchar\<close>: the characters in its buffer, and the contents of the buffer at each \<open>write\<close> so far.
\<close>

definition rt_putchar :: "u8 \<Rightarrow> u8 list \<times> u8 list list \<Rightarrow> u8 list \<times> u8 list list" where
  "rt_putchar ch = (\<lambda>(buf, out). let buf = buf @ [ch] in
     if ch = 10 \<or> length buf = 64 then ([], out @ [buf]) else (buf, out))"

definition rt_printf :: "u8 list \<Rightarrow> va list \<Rightarrow> u8 list \<times> u8 list list \<Rightarrow> (u8 list \<times> u8 list list) option" where
  "rt_printf fmt args st = map_option (\<lambda>cs. fold rt_putchar cs st) (vprintfmt fmt args)"

text \<open>\<open>printstr\<close> writes the string at \<open>p\<close> without its end.\<close>

definition printstr :: "addr \<Rightarrow> addr \<Rightarrow> u8 list \<Rightarrow> rt_call option" where
  "printstr mm p s = map_option (\<lambda>n. write_call [] mm 1 p (of_nat n)) (rt_strlen s)"

text \<open>\<open>printhex\<close> hands its sixteen digits to \<open>printstr\<close>.\<close>

definition rt_printhex :: "u64 \<Rightarrow> u8 list" where
  "rt_printhex x = map (\<lambda>i. digit_char (unat (drop_bit (4 * (15 - i)) x AND 0xf))) [0..<16]"


section \<open>The buffer of putchar\<close>

text \<open>Nothing is lost between \<open>putchar\<close> and \<open>write\<close>, and the buffer is never overrun.\<close>

definition full_line :: "u8 list \<Rightarrow> bool" where
  "full_line b \<longleftrightarrow> b \<noteq> [] \<and> length b \<le> 64 \<and> (last b = 10 \<or> length b = 64)"

lemma rt_putchar_simp [simp]:
  "rt_putchar c (buf, out) = (if c = 10 \<or> length (buf @ [c]) = 64 then ([], out @ [buf @ [c]]) else (buf @ [c], out))"
  by (simp add: rt_putchar_def Let_def)

lemma putchar_run:
  assumes "fold rt_putchar cs (buf, out) = (buf', out')" and "length buf < 64"
  shows "concat out' @ buf' = concat out @ buf @ cs" and "length buf' < 64"
    and "\<exists>new. out' = out @ new \<and> list_all full_line new"
proof -
  have "concat out' @ buf' = concat out @ buf @ cs \<and> length buf' < 64 \<and> (\<exists>new. out' = out @ new \<and> list_all full_line new)"
    using assms
  proof (induction cs arbitrary: buf out)
    case (Cons c cs)
    show ?case
    proof (cases "c = 10 \<or> length (buf @ [c]) = 64")
      case True
      then have "fold rt_putchar cs ([], out @ [buf @ [c]]) = (buf', out')"
        using Cons.prems(1) by auto
      with Cons.IH [OF this] True Cons.prems(2) show ?thesis
        by (auto simp: full_line_def)
    next
      case False
      then have "fold rt_putchar cs (buf @ [c], out) = (buf', out')" "length (buf @ [c]) < 64"
        using Cons.prems by auto
      from Cons.IH [OF this] show ?thesis by simp
    qed
  qed simp
  then show "concat out' @ buf' = concat out @ buf @ cs" "length buf' < 64"
    "\<exists>new. out' = out @ new \<and> list_all full_line new" by blast+
qed

section \<open>Reading numbers back\<close>

lemma digs_props:
  assumes "2 \<le> b"
  shows "digs b n \<noteq> []" and "list_all (\<lambda>d. d < b) (digs b n)"
    and "foldl (\<lambda>v d. v * b + d) 0 (rev (digs b n)) = n"
proof -
  have "digs b n \<noteq> [] \<and> list_all (\<lambda>d. d < b) (digs b n) \<and> foldl (\<lambda>v d. v * b + d) 0 (rev (digs b n)) = n"
    using assms
  proof (induction b n rule: digs.induct)
    case (1 b n)
    then have "n < b \<or> digs b (n div b) \<noteq> [] \<and> list_all (\<lambda>d. d < b) (digs b (n div b))
        \<and> foldl (\<lambda>v d. v * b + d) 0 (rev (digs b (n div b))) = n div b"
      by auto
    moreover have "digs b n = n mod b # (if n < b then [] else digs b (n div b))"
      using 1 by (subst digs.simps) simp
    ultimately show ?case
      using 1 by auto
  qed
  then show "digs b n \<noteq> []" "list_all (\<lambda>d. d < b) (digs b n)" "foldl (\<lambda>v d. v * b + d) 0 (rev (digs b n)) = n"
    by blast+
qed

lemma uint_digit_char: "d < 10 \<Longrightarrow> uint (digit_char d) = int d + 48"
proof -
  assume "d < 10"
  then have "unat (digit_char d) = d + 48"
    by (simp add: digit_char_def unsigned_of_nat take_bit_nat_eq_self del: of_nat_add of_nat_numeral)
  moreover have "uint (digit_char d) = int (unat (digit_char d))" by simp
  ultimately show ?thesis by (simp only: of_nat_add of_nat_numeral)
qed

lemma foldl_digits_ge: "v \<le> foldl (\<lambda>v d. v * 10 + d) v (ds :: nat list)"
proof (induction ds arbitrary: v)
  case (Cons d ds)
  have "v \<le> v * 10 + d" by simp
  also have "\<dots> \<le> foldl (\<lambda>v d. v * 10 + d) (v * 10 + d) ds" by (rule Cons.IH)
  finally show ?case by simp
qed simp

lemma atol_digits_run:
  "list_all (\<lambda>d. d < 10) ds \<Longrightarrow> foldl (\<lambda>v d. v * 10 + d) v ds < 2 ^ 63 \<Longrightarrow>
    atol_digits (map digit_char ds @ [0]) (int v) = Some (int (foldl (\<lambda>v d. v * 10 + d) v ds))"
proof (induction ds arbitrary: v)
  case (Cons d ds)
  have "v * 10 + d < 2 ^ 63"
    using foldl_digits_ge [of "v * 10 + d" ds] Cons.prems(2) by simp
  then have "int (v * 10 + d) < int (2 ^ 63)" by (simp only: of_nat_less_iff)
  then have "int v * 10 + int d < 2 ^ 63" by simp
  moreover have "digit_char d \<noteq> 0" using uint_digit_char [of d] Cons.prems(1) by auto
  moreover have "atol_digits (map digit_char ds @ [0]) (int v * 10 + int d)
      = Some (int (foldl (\<lambda>v d. v * 10 + d) (v * 10 + d) ds))"
    using Cons.IH [of "v * 10 + d"] Cons.prems by simp
  ultimately show ?case
    using uint_digit_char [of d] Cons.prems(1) by (simp add: long_value_def)
qed simp

lemma foldl_zeros: "foldl (\<lambda>v d. v * 10 + d) 0 (replicate k 0 @ ds) = foldl (\<lambda>v d. v * 10 + d) (0 :: nat) ds"
  by (induction k) simp_all

text \<open>A number with leading zeros.\<close>

lemma atol_printnum:
  assumes "unat n < 2 ^ 63"
  shows "atol_digits (printnum n 10 w 48 @ [0]) 0 = Some (int (unat n))"
    and "\<exists>d r. d < 10 \<and> printnum n 10 w 48 = digit_char d # r"
proof -
  let ?k = "nat (w - int (length (digs 10 (unat n))))" and ?ds = "rev (digs 10 (unat n))"
  have z: "digit_char 0 = 48" by (simp add: digit_char_def)
  have p: "printnum n 10 w 48 = map digit_char (replicate ?k 0 @ ?ds)"
    by (simp add: printnum_def Let_def z)
  have d: "list_all (\<lambda>d. d < 10) (replicate ?k 0 @ ?ds)"
    using digs_props(2) [of 10 "unat n"] by (auto simp: list_all_iff)
  moreover have "foldl (\<lambda>v d. v * 10 + d) 0 (replicate ?k 0 @ ?ds) = unat n"
    unfolding foldl_zeros using digs_props(3) [of 10 "unat n"] by simp
  ultimately show "atol_digits (printnum n 10 w 48 @ [0]) 0 = Some (int (unat n))"
    using atol_digits_run [of "replicate ?k 0 @ ?ds" 0] assms unfolding p by simp
  have "replicate ?k 0 @ ?ds \<noteq> []" using digs_props(1) [of 10 "unat n"] by simp
  then obtain d r where "replicate ?k 0 @ ?ds = d # r" by (cases "replicate ?k 0 @ ?ds") auto
  with d show "\<exists>d r. d < 10 \<and> printnum n 10 w 48 = digit_char d # r"
    unfolding p by auto
qed

lemma printnum_length: "length (printnum n b w c) = max (nat w) (length (digs b (unat n)))"
  by (auto simp: printnum_def Let_def max_def)


text \<open>What \<open>conv_signed\<close> prints with leading zeros is what \<open>atol\<close> reads.\<close>

lemma atol_conv_signed:
  assumes "conv_signed sp w = Some cs" and "sp_padc sp = 48"
  shows "rt_atol (cs @ [0]) = Some (getint (sp_lflag sp) w)"
proof -
  let ?v = "getint (sp_lflag sp) w"
  have range: "- (2 ^ 63) \<le> ?v" "?v < 2 ^ 63"
    using sint_ge [of w] sint_lt [of w] sint_ge [of "ucast w :: u32"] sint_lt [of "ucast w :: u32"]
    by (auto simp: getint_def)
  have num: "atol_digits (printnum (of_int u) 10 (sp_width sp) 48 @ [0]) 0 = Some u"
      "\<exists>d r. d < 10 \<and> printnum (of_int u) 10 (sp_width sp) 48 = digit_char d # r" if "0 \<le> u" "u < 2 ^ 63" for u
  proof -
    have "uint (of_int u :: u64) = u"
      using that by (simp add: uint_word_of_int_eq take_bit_int_eq_self)
    then have u: "int (unat (of_int u :: u64)) = u" by simp
    then have "int (unat (of_int u :: u64)) < int (2 ^ 63)" using that(2) by simp
    then have "unat (of_int u :: u64) < 2 ^ 63" by (simp only: of_nat_less_iff)
    from atol_printnum [OF this] u
    show "atol_digits (printnum (of_int u) 10 (sp_width sp) 48 @ [0]) 0 = Some u"
      "\<exists>d r. d < 10 \<and> printnum (of_int u) 10 (sp_width sp) 48 = digit_char d # r" by auto
  qed
  show ?thesis
  proof (cases "?v < 0")
    case True
    then have cs: "cs = 45 # printnum (of_int (- ?v)) 10 (sp_width sp) 48" and v: "- ?v < 2 ^ 63"
      using assms by (auto simp: conv_signed_def Let_def long_value_def split: if_splits)
    have "atol_digits (printnum (of_int (- ?v)) 10 (sp_width sp) 48 @ [0]) 0 = Some (- ?v)"
      using True v by (intro num(1)) simp_all
    with range show ?thesis
      unfolding cs by (simp add: rt_atol_def long_value_def del: of_int_minus)
  next
    case False
    then have cs: "cs = printnum (of_int ?v) 10 (sp_width sp) 48"
      using assms by (simp add: conv_signed_def Let_def)
    obtain d r where d: "d < 10" "cs = digit_char d # r"
      using num(2) [of ?v] False range(2) unfolding cs by auto
    have "uint (digit_char d) = int d + 48" by (rule uint_digit_char [OF d(1)])
    then have "digit_char d \<noteq> 32" "digit_char d \<noteq> 45" "digit_char d \<noteq> 43" by auto
    moreover have "atol_digits (cs @ [0]) 0 = Some ?v"
      using num(1) [of ?v] False range(2) unfolding cs by simp
    ultimately show ?thesis
      using d(2) range by (simp add: rt_atol_def long_value_def)
  qed
qed

section \<open>Properties\<close>



text \<open>
  Three formats that do not do what they do elsewhere: with the flag for padding on the right a number is
  padded on the left with the flag itself; the sign of a padded number is put out before the padding; the
  precision 0 of a string is taken for the flag, and the whole string is printed.
\<close>

lemma minus_flag_pads_left: "vprintfmt [37, 45, 53, 100, 0] [Word 42] = Some [45, 45, 45, 52, 50]"
  by (simp add: vprintfmt.simps directive.simps convert_def spec_init_def process_precision_def conv_signed_def
      printnum_def getint_def digs.simps digit_char_def numeral_3_eq_3)

lemma sign_before_padding: "vprintfmt [37, 53, 100, 0] [Word (- 42)] = Some [45, 32, 32, 32, 52, 50]"
  by (simp add: vprintfmt.simps directive.simps convert_def spec_init_def process_precision_def conv_signed_def
      printnum_def getint_def digs.simps digit_char_def long_value_def numeral_3_eq_3)

lemma zero_precision_ignored: "vprintfmt [37, 46, 48, 115, 0] [Cstr (Some [104, 105, 0])] = Some [104, 105]"
  by (simp add: vprintfmt.simps directive.simps convert_def spec_init_def process_precision_def conv_string_def)

end
