(* ===== verification/Runtime_Print.thy ===== *)
theory Runtime_Print
  imports Runtime_Board Runtime_Format
begin

text \<open>
  \<open>printf\<close> on the chip and the descriptor of the host: the characters of \<open>vprintfmt\<close>, through the buffer of
  \<open>putchar\<close>, the system calls, the board and the server.
\<close>

section \<open>The calls of putchar\<close>

text \<open>Each full buffer is written from the same place, \<open>a\<close>, with the request block at \<open>mm\<close>.\<close>

definition line_calls :: "addr \<Rightarrow> addr \<Rightarrow> u8 list list \<Rightarrow> rt_call list" where
  "line_calls mm a bufs = map (\<lambda>b. write_call b mm 1 a (of_nat (length b))) bufs"

lemma unat_short: "n \<le> 64 \<Longrightarrow> unat (of_nat n :: u64) = n"
  by (simp add: unsigned_of_nat take_bit_nat_eq_self)

lemma outputs_line_calls:
  "list_all full_line bufs \<Longrightarrow> outputs fds m (line_calls mm a bufs) = map (Pair (fds_lookup fds 1)) bufs"
proof (induction bufs arbitrary: m)
  case (Cons b bufs)
  then have "length b \<le> 64" by (simp add: full_line_def)
  then have "get_range (upd_range m a b) a (length b) = b" "unat (of_nat (length b) :: u64) = length b"
    by (simp_all add: get_upd_range_same unat_short)
  with Cons show ?case
    by (simp add: line_calls_def write_call_def printed_def fill_of_def)
qed (simp add: line_calls_def)

section \<open>Properties\<close>

text \<open>
  C3: \<open>printf\<close> on the chip prints on the host. Let a test program call \<open>printf\<close> and exit, on the board,
  with the buffer of \<open>putchar\<close> and the stack of \<open>syscall\<close> in DRAM, apart from each other and from the words
  of the protocol. However the steps of the program and the server interleave, when the server has an
  exit code the host has been given the characters of the format, in order and without gaps, in writes to
  descriptor 1 that end at a newline or after 64 characters. What follows the last of these stays in the
  buffer: nothing flushes it when the program exits.
\<close>

theorem printf_reaches_the_host:
  assumes "rt_printf fmt args ([], []) = Some (rest, bufs)"
    and "board_program X ainv amem anext st ho out (line_calls mm a bufs) code s0"
    and "(board_step X amem st jk ho st0 fuel ext proj g fuel' s0)\<^sup>*\<^sup>* (program_init (line_calls mm a bufs) code, s0) (p, s)"
    and "sv_exitcode (ht_server s) \<noteq> 0"
  shows "out (env_of s) = out (env_of s0) @ map (Pair (fds_lookup (sv_fds (ht_server s0)) 1)) bufs
    \<and> list_all full_line bufs \<and> length rest < 64 \<and> vprintfmt fmt args = Some (concat bufs @ rest)"
proof -
  obtain cs where cs: "vprintfmt fmt args = Some cs" "fold rt_putchar cs ([], []) = (rest, bufs)"
    using assms(1) by (auto simp: rt_printf_def)
  from putchar_run [OF cs(2)] have bufs: "concat bufs @ rest = cs" "length rest < 64" "list_all full_line bufs"
    by auto
  with running_program.output_of_run(2) [OF board_runs_program [OF assms(2)] assms(3,4)] cs(1)
  show ?thesis by (simp add: outputs_line_calls)
qed

text \<open>A program that prints \<open>x=42\<close> and a newline, and one character more.\<close>

definition answer_line :: "u8 list" where
  "answer_line = [120, 61, 52, 50, 10]"

lemma answer_printed: "rt_printf [120, 61, 37, 100, 10, 33, 0] [Word 42] ([], []) = Some ([33], [answer_line])"
  by (simp add: rt_printf_def vprintfmt.simps directive.simps convert_def spec_init_def conv_signed_def
      printnum_def getint_def digs.simps digit_char_def answer_line_def)

lemma answer_program: "program_ok in_dram 0x80001000 0x80001040 (line_calls 0x80002000 0x80003000 [answer_line]) 3"
proof -
  have "block 0x80003000 5 \<inter> block 0x80001000 8 = {}" "block 0x80003000 5 \<inter> block 0x80001040 8 = {}"
    "block 0x80003000 5 \<inter> block 0x80002000 64 = {}"
    by (rule block_apart(2), simp, simp)+
  then show ?thesis
    using sample_blocks(1-3) dram_range [of "0x80002000" 64] dram_range [of "0x80003000" 5]
    by (simp add: program_ok_def line_calls_def write_call_def call_ok_def buffer_ok_def magic_ok_def apart_def touched_def
      Int_Un_distrib answer_line_def)
qed

interpretation answer: running_program "board_stack port_axi board_printing jk" 3 "bridge_ok (link_ok (\<lambda>_. True))"
    "\<lambda>t. pc_mem (tc_axi (br_bus t))" "mailbox_addr (ht_tohost_addr board_printing) (ht_fromhost_addr board_printing)"
    in_dram "board_store port_store" recording_host "\<lambda>e. e" "line_calls 0x80002000 0x80003000 [answer_line]" 3 board_printing
  for jk
  by (rule board_runs_program [OF board_printing_runs [OF answer_program]])

theorem printf_reaches_the_host_witness:
  "\<exists>p s. (board_step port_axi pc_mem port_store (\<lambda>_. 7) recording_host empty_stat 9 (\<lambda>_ _. ret 0) null_proj 0 0 board_printing)\<^sup>*\<^sup>*
        (program_init (line_calls 0x80002000 0x80003000 [answer_line]) 3, board_printing) (p, s)
    \<and> env_of s = [(1, [120, 61, 52, 50, 10])]"
proof -
  obtain p s where run: "(board_step port_axi pc_mem port_store (\<lambda>_. 7) recording_host empty_stat 9 (\<lambda>_ _. ret 0) null_proj 0 0 board_printing)\<^sup>*\<^sup>*
        (program_init (line_calls 0x80002000 0x80003000 [answer_line]) 3, board_printing) (p, s)"
      and code: "sv_exitcode (ht_server s) = ucast (exit_word_of 3)"
    using answer.can_finish [OF answer.inv_init] by blast
  have "exit_word_of 3 = 7" by (simp add: exit_word_of_def)
  then have "sv_exitcode (ht_server s) \<noteq> 0" using code by simp
  moreover have "fds_lookup (sv_fds (ht_server board_printing)) 1 = 1" by code_simp
  ultimately have "env_of s = [(1, [120, 61, 52, 50, 10])]"
    using printf_reaches_the_host [OF answer_printed board_printing_runs [OF answer_program] run]
    unfolding two_writes_output(1) answer_line_def by simp
  with run show ?thesis by blast
qed

end
