(* ===== verification/Runtime_Memory.thy ===== *)
theory Runtime_Memory
  imports Runtime_Format
begin

text \<open>
  The rest of the runtime library (\<open>syscalls.c\<close>): \<open>memcpy\<close> and \<open>memset\<close>, the counters of \<open>setStats\<close> and what
  \<open>_init\<close> prints of them.
\<close>

section \<open>Loops over memory\<close>

text \<open>
  \<open>memcpy\<close> and \<open>memset\<close> work on words when the pointers and the length allow it, else on bytes. The loop
  runs while the destination is below its end; \<open>fuel\<close> bounds its rounds.
\<close>

fun copy_loop :: "nat \<Rightarrow> nat \<Rightarrow> memory \<Rightarrow> addr \<Rightarrow> addr \<Rightarrow> addr \<Rightarrow> memory option" where
  "copy_loop 0 w m d s e = None"
| "copy_loop (Suc fuel) w m d s e =
    (if d < e then copy_loop fuel w (upd_range m d (get_range m s w)) (d + of_nat w) (s + of_nat w) e else Some m)"

definition rt_memcpy :: "nat \<Rightarrow> memory \<Rightarrow> addr \<Rightarrow> addr \<Rightarrow> u64 \<Rightarrow> memory option" where
  "rt_memcpy fuel m dest src len =
    copy_loop fuel (if (dest OR src OR len) AND 7 = 0 then 8 else 1) m dest src (dest + len)"

fun fill_loop :: "nat \<Rightarrow> u8 list \<Rightarrow> memory \<Rightarrow> addr \<Rightarrow> addr \<Rightarrow> memory option" where
  "fill_loop 0 bs m d e = None"
| "fill_loop (Suc fuel) bs m d e =
    (if d < e then fill_loop fuel bs (upd_range m d bs) (d + of_nat (length bs)) e else Some m)"

definition byte_word :: "u64 \<Rightarrow> u64" where
  "byte_word b = (let w = b AND 0xff; w = w OR push_bit 8 w; w = w OR push_bit 16 w in w OR push_bit 16 (push_bit 16 w))"

definition rt_memset :: "nat \<Rightarrow> memory \<Rightarrow> addr \<Rightarrow> u64 \<Rightarrow> u64 \<Rightarrow> memory option" where
  "rt_memset fuel m dest byte len =
    fill_loop fuel (if (dest OR len) AND 7 = 0 then le_bytes 8 (byte_word byte) else [ucast byte]) m dest (dest + len)"

lemma below_end: "unat d + n * w < 2 ^ 64 \<Longrightarrow> 0 < w \<Longrightarrow> d < d + of_nat (n * w) \<longleftrightarrow> 0 < n"
  for d :: addr
  by (simp add: word_less_nat_alt unat_word_ariths unsigned_of_nat take_bit_nat_eq_self mod_less del: of_nat_mult)

lemma copy_loop_run:
  assumes "unat d + n * w < 2 ^ 64" and "0 < w" and "n < fuel" and "block d (n * w) \<inter> block s (n * w) = {}"
  shows "copy_loop fuel w m d s (d + of_nat (n * w)) = Some (upd_range m d (get_range m s (n * w)))"
  using assms
proof (induction n arbitrary: fuel m d s)
  case 0
  then obtain f where "fuel = Suc f" by (cases fuel) auto
  then show ?case by (simp add: upd_range_def)
next
  case (Suc n)
  then obtain f where f: "fuel = Suc f" "n < f" by (cases fuel) auto
  let ?m = "upd_range m d (get_range m s w)"
  have sub: "block (x + of_nat w) (n * w) \<subseteq> block x (Suc n * w)" "block x w \<subseteq> block x (Suc n * w)" for x :: addr
  proof -
    have "unat (y - x) < Suc n * w" if "unat (y - (x + of_nat w)) < n * w" for y
    proof -
      have "y - x = (y - (x + of_nat w)) + of_nat w" by simp
      then have "unat (y - x) \<le> unat (y - (x + of_nat w)) + unat (of_nat w :: addr)"
        by (metis unat_plus_if' diff_le_self le_refl)
      moreover have "unat (of_nat w :: addr) \<le> w" by (simp add: unsigned_of_nat take_bit_nat_less_eq_self)
      ultimately show ?thesis using that by simp
    qed
    then show "block (x + of_nat w) (n * w) \<subseteq> block x (Suc n * w)" by (auto simp: block_def)
    show "block x w \<subseteq> block x (Suc n * w)" by (auto simp: block_def)
  qed
  have w: "unat d + w < 2 ^ 64" using Suc.prems(1) by simp
  then have "unat (d + of_nat w) = unat d + w"
    by (simp add: unat_word_ariths unsigned_of_nat take_bit_nat_eq_self)
  then have bound: "unat (d + of_nat w) + n * w < 2 ^ 64" using Suc.prems(1) by simp
  have "block (d + of_nat w) (n * w) \<inter> block (s + of_nat w) (n * w) = {}"
    using Suc.prems(4) sub(1) [of d] sub(1) [of s] by blast
  from Suc.IH [OF bound Suc.prems(2) f(2) this, of ?m]
  have rec: "copy_loop f w ?m (d + of_nat w) (s + of_nat w) (d + of_nat (Suc n * w))
      = Some (upd_range ?m (d + of_nat w) (get_range ?m (s + of_nat w) (n * w)))"
    by (simp add: add.assoc)
  have "agree (block d w) ?m m" by (rule agree_upd_range) simp
  moreover have "block (s + of_nat w) (n * w) \<inter> block d w = {}"
    using Suc.prems(4) sub(1) [of s] sub(2) [of d] by blast
  moreover have "n * w \<le> 2 ^ 64" using Suc.prems(1) by simp
  ultimately have "get_range ?m (s + of_nat w) (n * w) = get_range m (s + of_nat w) (n * w)"
    by (rule get_range_agree)
  moreover have "get_range m s (Suc n * w) = get_range m s w @ get_range m (s + of_nat w) (n * w)"
    using get_range_add [of m s w "n * w"] by simp
  ultimately show ?case
    using rec below_end [OF Suc.prems(1,2)] Suc.prems(1) f(1) by (simp add: upd_range_append)
qed

lemma low_bits_clear: "len AND 7 = 0 \<Longrightarrow> unat len = unat len div 8 * 8"
  for len :: u64
proof -
  assume "len AND 7 = 0"
  then have "take_bit 3 len = 0" by (simp add: take_bit_eq_mask mask_eq_exp_minus_1)
  then have "take_bit 3 (unat len) = 0" by (metis unsigned_take_bit_eq unsigned_0)
  then show ?thesis by (simp add: take_bit_eq_mod mod_eq_0_iff_dvd)
qed

lemma or_low: "(a OR b) AND 7 = 0 \<Longrightarrow> b AND 7 = 0" for a b :: u64
  by (auto simp: bit_eq_iff bit_simps)

text \<open>Of two arrays that do not overlap, \<open>memcpy\<close> copies one onto the other, by words or by bytes.\<close>

lemma memcpy_copies:
  assumes "unat dest + unat len < 2 ^ 64" and "unat len < fuel" and "block dest (unat len) \<inter> block src (unat len) = {}"
  shows "rt_memcpy fuel m dest src len = Some (upd_range m dest (get_range m src (unat len)))"
proof (cases "(dest OR src OR len) AND 7 = 0")
  case True
  have n: "unat len = unat len div 8 * 8" using True by (intro low_bits_clear) (auto dest!: or_low)
  have "len = of_nat (unat len div 8 * 8)" using n by simp
  with copy_loop_run [of dest "unat len div 8" 8 fuel src m] assms n True show ?thesis
    by (simp add: rt_memcpy_def)
next
  case False
  with copy_loop_run [of dest "unat len" 1 fuel src m] assms show ?thesis
    by (simp add: rt_memcpy_def)
qed

lemma bit_byte_word: "q < 8 \<Longrightarrow> r < 8 \<Longrightarrow> bit (byte_word b) (8 * q + r) = bit b r"
proof -
  assume "q < 8" and r: "r < 8"
  then consider "q = 0" | "q = 1" | "q = 2" | "q = 3" | "q = 4" | "q = 5" | "q = 6" | "q = 7" by linarith
  moreover define x where "x = b AND 0xff"
  have "x = take_bit 8 b" by (simp add: x_def take_bit_eq_mask mask_eq_exp_minus_1)
  then have "bit x n \<longleftrightarrow> n < 8 \<and> bit b n" for n by (simp add: bit_take_bit_iff)
  ultimately show ?thesis
    unfolding byte_word_def Let_def x_def [symmetric]
    using r by cases (simp_all add: bit_simps)
qed

lemma le_bytes_byte_word: "le_bytes 8 (byte_word b) = replicate 8 (ucast b)"
proof (rule nth_equalityI)
  fix i assume "i < length (le_bytes 8 (byte_word b))"
  then have "i < 8" by simp
  then show "le_bytes 8 (byte_word b) ! i = replicate 8 (ucast b) ! i"
    by (intro bit_word_eqI) (simp add: nth_le_bytes bit_simps bit_byte_word)
qed simp

lemma fill_loop_run:
  assumes "unat d + n * length bs < 2 ^ 64" and "bs \<noteq> []" and "n < fuel"
  shows "fill_loop fuel bs m d (d + of_nat (n * length bs)) = Some (upd_range m d (concat (replicate n bs)))"
  using assms
proof (induction n arbitrary: fuel m d)
  case 0
  then obtain f where "fuel = Suc f" by (cases fuel) auto
  then show ?case by (simp add: upd_range_def)
next
  case (Suc n)
  then obtain f where f: "fuel = Suc f" "n < f" by (cases fuel) auto
  have "unat (d + of_nat (length bs)) = unat d + length bs"
    using Suc.prems(1) by (simp add: unat_word_ariths unsigned_of_nat take_bit_nat_eq_self)
  then have "unat (d + of_nat (length bs)) + n * length bs < 2 ^ 64" using Suc.prems(1) by simp
  from Suc.IH [OF this Suc.prems(2) f(2), of "upd_range m d bs"]
  have rec: "fill_loop f bs (upd_range m d bs) (d + of_nat (length bs)) (d + of_nat (Suc n * length bs))
      = Some (upd_range (upd_range m d bs) (d + of_nat (length bs)) (concat (replicate n bs)))"
    by (simp add: add.assoc)
  have "length (concat (replicate n bs)) = n * length bs" by (simp add: length_concat sum_list_replicate)
  then show ?case
    using rec below_end [OF Suc.prems(1)] Suc.prems(1,2) f(1) by (simp add: upd_range_append)
qed

lemma memset_fills:
  assumes "unat dest + unat len < 2 ^ 64" and "unat len < fuel"
  shows "rt_memset fuel m dest byte len = Some (upd_range m dest (replicate (unat len) (ucast byte)))"
proof (cases "(dest OR len) AND 7 = 0")
  case True
  have n: "unat len = unat len div 8 * 8" using True by (intro low_bits_clear) (auto dest!: or_low)
  have "concat (replicate k (replicate 8 (ucast byte))) = replicate (k * 8) (ucast byte :: u8)" for k
    by (induction k) (simp_all add: replicate_add [symmetric] del: replicate_add)
  then have "concat (replicate (unat len div 8) (le_bytes 8 (byte_word byte))) = replicate (unat len) (ucast byte)"
    using n by (simp only: le_bytes_byte_word)
  moreover have "dest + len = dest + of_nat (unat len div 8 * length (le_bytes 8 (byte_word byte)))"
    using n by (simp del: of_nat_mult)
  ultimately show ?thesis
    using fill_loop_run [of dest "unat len div 8" "le_bytes 8 (byte_word byte)" fuel m] assms n True
    by (simp add: rt_memset_def)
next
  case False
  have "concat (replicate k [c]) = replicate k c" for k and c :: u8 by (induction k) simp_all
  with fill_loop_run [of dest "unat len" "[ucast byte]" fuel m] assms False show ?thesis
    by (simp add: rt_memset_def)
qed

text \<open>
  \<open>init_tls\<close>: the initialised data of the thread, from the symbols of the linker, and zeros behind them.
\<close>

definition init_tls :: "nat \<Rightarrow> memory \<Rightarrow> addr \<Rightarrow> addr \<Rightarrow> addr \<Rightarrow> addr \<Rightarrow> memory option" where
  "init_tls fuel m tp tdata_begin tdata_end tbss_end = (let n = tdata_end - tdata_begin in
     Option.bind (rt_memcpy fuel m tp tdata_begin n) (\<lambda>m'. rt_memset fuel m' (tp + n) 0 (tbss_end - tdata_end)))"

lemma init_tls_memory:
  assumes "tdata_end - tdata_begin = n" and "tbss_end - tdata_end = z" and "unat n + unat z < fuel"
    and "unat tp + unat n + unat z < 2 ^ 64" and "block tp (unat n) \<inter> block tdata_begin (unat n) = {}"
  shows "init_tls fuel m tp tdata_begin tdata_end tbss_end
    = Some (upd_range m tp (get_range m tdata_begin (unat n) @ replicate (unat z) 0))"
proof -
  have "unat (tp + n) = unat tp + unat n" using assms(4) by (simp add: unat_word_ariths)
  then have "unat (tp + n) + unat z < 2 ^ 64" "unat tp + unat n < 2 ^ 64" using assms(4) by simp_all
  with memcpy_copies [of tp n fuel tdata_begin m] memset_fills [of "tp + n" z fuel] assms(3,5)
  have "init_tls fuel m tp tdata_begin tdata_end tbss_end
      = Some (upd_range (upd_range m tp (get_range m tdata_begin (unat n))) (tp + n) (replicate (unat z) 0))"
    by (simp add: init_tls_def assms(1,2))
  then show ?thesis using assms(4) by (simp add: upd_range_append)
qed

section \<open>Counters\<close>

record stats =
  st_counters :: "u64 list"
  st_names :: "u8 list option list"

definition mcycle_name :: "u8 list" where "mcycle_name = [109, 99, 121, 99, 108, 101, 0]"
definition minstret_name :: "u8 list" where "minstret_name = [109, 105, 110, 115, 116, 114, 101, 116, 0]"

definition stats_init :: stats where
  "stats_init = \<lparr>st_counters = [0, 0], st_names = [None, None]\<rparr>"

text \<open>\<open>setStats\<close>, given the values of \<open>mcycle\<close> and \<open>minstret\<close>.\<close>

definition read_ctr :: "bool \<Rightarrow> nat \<Rightarrow> u8 list \<Rightarrow> u64 \<Rightarrow> stats \<Rightarrow> stats" where
  "read_ctr enable i nm csr s =
     (if enable then s\<lparr>st_counters := (st_counters s)[i := csr]\<rparr>
      else s\<lparr>st_counters := (st_counters s)[i := csr - st_counters s ! i], st_names := (st_names s)[i := Some nm]\<rparr>)"

definition setStats :: "bool \<Rightarrow> u64 \<Rightarrow> u64 \<Rightarrow> stats \<Rightarrow> stats" where
  "setStats enable cyc ins s = read_ctr enable 1 minstret_name ins (read_ctr enable 0 mcycle_name cyc s)"

text \<open>What \<open>_init\<close> prints of them, with the format \<open>%s = %d\<close> and a newline.\<close>

definition counter_line :: "stats \<Rightarrow> nat \<Rightarrow> u8 list option" where
  "counter_line s i = (if st_counters s ! i = 0 then Some []
     else vprintfmt [37, 115, 32, 61, 32, 37, 100, 10, 0] [Cstr (st_names s ! i), Word (st_counters s ! i)])"

definition counter_report :: "stats \<Rightarrow> u8 list option" where
  "counter_report s = Option.bind (counter_line s 0) (\<lambda>l. map_option ((@) l) (counter_line s 1))"

text \<open>
  The report is right for runs of fewer than \<open>2 ^ 31\<close> cycles. The counters have 64 bits and the format 32:
  a run of \<open>2 ^ 32 + 5\<close> cycles is reported as one of 5.
\<close>

lemma long_counter_truncated:
  "counter_report (setStats False (2 ^ 32 + 12) 7 (setStats True 7 7 stats_init))
    = Some [109, 99, 121, 99, 108, 101, 32, 61, 32, 53, 10]"
  by (simp add: counter_report_def counter_line_def setStats_def read_ctr_def stats_init_def mcycle_name_def
      vprintfmt.simps directive.simps convert_def spec_init_def conv_signed_def conv_string_def
      printnum_def getint_def digs.simps digit_char_def)

end
