(* ===== verification/Spec2Isabelle.thy ===== *)
theory Spec2Isabelle
  imports Hexwriter Device_Types Bridge Elfloader Boot_Options Boot_Effects Background_Effects Load_Mem Tsi Option_Parser Image_Calls Elf2hex Board_Loop Rfb_Thread Server_Setup Debug_Console Runtime_Print Runtime_Memory
begin

text \<open>
  A verification library for the front-end server of the ORV64 test chip: the program that runs on a
  host computer, reaches the chip or its FPGA prototype through a debug port, brings it up, loads
  programs into its memory and serves their system calls until they exit.

  \<^bold>\<open>The program and its parts\<close> (paths under \<open>src/\<close>; \<open>fesvr\<close> is \<open>tool/fesvr/fesvr\<close>, \<open>vcu118\<close> is
  \<open>tool/driver/es1y_fpga_vcu118\<close>). The server object \<open>htif_t\<close> reads its command line, runs the boot
  steps of the project \<open>es1y\<close>, and then polls the words \<open>tohost\<close> and \<open>fromhost\<close> in target memory. All
  its accesses to the chip go through \<open>memif_t\<close>, which cuts them into the chunk operations of a
  transport: \<open>dtm_t\<close> (the debug module), \<open>tsi_t\<close> (the serial interface) or \<open>htif_hexwriter_t\<close> (a hex
  file). The requests of \<open>dtm_t\<close> are served by the board driver \<open>fesvr2socket.c\<close>, which turns them into
  bus accesses; these go over a socket to a Tcl script in front of the AXI engine, or to a server on
  the board's own processor. At the other end of the words \<open>tohost\<close> and \<open>fromhost\<close> is the runtime library
  with which the test programs of the chip are linked (\<open>tb/test_program/benchmarks/common/syscalls.c\<close>).

  \<^bold>\<open>Theories\<close>, from the bottom up:

  \<^item> \<open>Fesvr_Prelude\<close>: words of 8, 16, 32 and 64 bits, faults, state-and-fault programs \<open>prog\<close> with
    \<open>bnd\<close>, \<open>andThen\<close>, \<open>seqM\<close>, \<open>forM\<close>, byte sequences, the byte memory that interfaces promise, and
    \<open>std::map\<close> as a list in key order.
  \<^item> \<open>Memif\<close> (\<open>fesvr/memif.cc\<close>): \<open>memif_read\<close> and \<open>memif_write\<close> over the record \<open>htif_ops\<close> of virtual
    functions. The locale \<open>chunk_target\<close> states what a transport promises; inside it every read and
    write of any address and length is shown to touch exactly its bytes.
  \<^item> Providers of that interface: \<open>Hexwriter\<close> with \<open>Elf2hex\<close> (\<open>fesvr/htif_hexwriter.cc\<close>, \<open>fesvr/elf2hex.cc\<close>), \<open>Tsi\<close> (\<open>fesvr/tsi.cc\<close>), and
    \<open>Dtm\<close> with \<open>Bridge\<close> (\<open>fesvr/dtm.cc\<close>, \<open>vcu118/fesvr2socket.c\<close>, addresses from \<open>Addr_Translate\<close>).
    \<open>Dtm\<close> also has the request handshake, shown to be a direct call of the peer.
  \<^item> \<open>Socket\<close>, \<open>Board_Server\<close>, \<open>Load_Mem\<close>: the bus behind the driver (\<open>vcu118/common-socket.c\<close>,
    \<open>vcu118/script/server.tcl\<close>, \<open>vcu118/fpga/socket_server.c\<close>, \<open>vcu118/fpga/gpio_dev_mem.c\<close>,
    \<open>vcu118/fpga/load_mem.c\<close>), down to the AXI transactions and the mapped registers. \<open>Debug_Regs\<close> and
    \<open>Debug_Console\<close>: the console over the same connection (\<open>vcu118/debug-socket.c\<close>).
  \<^item> \<open>Host\<close>: the record \<open>server\<close> of the objects \<open>htif_t\<close> owns, and the operating system as the record
    \<open>os_ops\<close>. \<open>Device\<close>, \<open>Syscall\<close>, \<open>Image_Calls\<close>, \<open>Device_List\<close>, \<open>Device_Types\<close>: the devices of
    \<open>fesvr/device.cc\<close>, the proxied system calls of \<open>fesvr/syscall.cc\<close> with the calls to the image
    server, the dispatch of a command to device and handler, and the invariant of the device list.
    \<open>Rfb\<close>, \<open>Rfb_Frames\<close>, \<open>Rfb_Thread\<close> (\<open>fesvr/rfb.cc\<close>): the frame buffer, its ticks, and the thread that
    serves the clients, interleaved with the server as a step relation.
  \<^item> \<open>Elfloader\<close> (\<open>fesvr/elfloader.cc\<close>), \<open>Cstring\<close> (number conversion), \<open>Option_Parser\<close>
    (\<open>fesvr/option_parser.cc\<close>).
  \<^item> \<open>Htif\<close>, \<open>Command_Line\<close>, \<open>Server_Setup\<close> (\<open>fesvr/htif.cc\<close>, \<open>fesvr/htif_proj.h\<close>): the record \<open>htif\<close> of the server's own
    fields, the constructor and the command line, the register accesses \<open>OURSBUS_*\<close>, start and stop, one
    turn of the loop and the loop. The locale \<open>word_target\<close> is a transport that serves both ways of access;
    \<open>Board_Loop\<close> interprets it on the board driver and on the serial interface.
  \<^item> \<open>Boot_Args\<close>, \<open>Device_Tree\<close>, \<open>Es1y\<close>, \<open>Cores\<close>, \<open>Images\<close>, \<open>Peripherals\<close>, \<open>Sdio\<close>, \<open>Boot\<close>,
    \<open>Boot_Options\<close>, \<open>Boot_Effects\<close> (\<open>fesvr/es1y/es1y.cc\<close>, \<open>fesvr/es1y/sdio_init.cc\<close>): one definition per
    boot step, the table \<open>boot_sequence\<close> with its options, and what the steps achieve.
  \<^item> \<open>Stations\<close> (\<open>subproj/es1y/rtl_gen/station_*.h\<close>), \<open>Ddr_Tables\<close>, \<open>Ddr_Firmware\<close> (\<open>fesvr/es1y/ddr_*.cc\<close>,
    \<open>fesvr/es1y/train_1d*.cc\<close>): the constants, word for word. \<open>Ddr\<close>, \<open>Ddr_Training\<close>: the bring-up of the
    memory controller and the end of its training.
  \<^item> \<open>Background\<close>, \<open>Background_Effects\<close> (\<open>fesvr/es1y/es1y_bg.cc\<close>): the background traffic.
  \<^item> \<open>Runtime\<close>, \<open>Runtime_Output\<close>, \<open>Runtime_Board\<close> (\<open>syscalls.c\<close> of the test programs): a program of \<open>write\<close> calls,
    access by access, and the turns of the server as the step relation \<open>sys_step\<close>. The locale
    \<open>running_target\<close> adds the stores of the processor to \<open>word_target\<close>; \<open>running_program\<close> is a program on
    it, with the invariant \<open>system_inv\<close> of all interleavings and the measure \<open>steps_left\<close>. \<open>Runtime_Format\<close>,
    \<open>Runtime_Memory\<close>, \<open>Runtime_Print\<close>: \<open>printf\<close> and its parts, the string and memory functions, the
    counters, and \<open>printf\<close> through all of this to the host.

  \<^bold>\<open>What is shown.\<close> Transport: reads and writes of any alignment arrive byte for byte through every
  layer, up to the AXI engine. Server: a request is cleared and handled once, answers are delivered in
  order and none is lost, the loop ends after an exit request, system calls write their result back,
  the constructor leaves a server with its devices in place, frames reach the clients after the handshake,
  a well-formed ELF file is loaded and a reading of its symbols stays inside it unless a sum wraps.
  Boot: options reach their own steps and only those run; the ROM, the stack and the images are in
  memory as computed; the training ends. Composition: what a test program prints arrives at the host,
  in order and once, however its steps and the turns of the server interleave, and its end can always be
  reached. Beside these, properties of the kind \<open>error\<close> prove faults
  of the code: the statement then says what the code does instead.

  \<^bold>\<open>Faults.\<close> An operation returns \<open>Inl\<close> of a \<open>fault\<close> or \<open>Inr\<close> of a value, with the state reached:
  \<open>Runtime_error\<close> and \<open>Length_error\<close> are exceptions, \<open>Assert_failed\<close> a failed \<open>assert\<close>, \<open>Exited\<close> and \<open>Aborted\<close>
  the end of the process, \<open>Diverges\<close> a loop out of fuel, and \<open>Undefined\<close> what C++ leaves undefined (an
  access outside an array, a shift by the width, a division by zero).

  \<^bold>\<open>Loops and fuel.\<close> A loop that waits for a register takes \<open>fuel\<close>, the number of readings it may make,
  and is \<open>Diverges\<close> without; \<open>poll_enough\<close> and \<open>training_ends\<close> show that it returns when the register has
  the value within that many readings. \<open>run_loop\<close> takes the number of its turns; two are enough after an
  exit request. The loops of \<open>memcpy\<close> and \<open>memset\<close> take the number of their rounds, for which the length is
  enough. The Tcl server, the serial queues, the board server and the parsers terminate by
  proved measures and need no fuel. Values that C++ leaves uninitialised are arguments (\<open>junk\<close>, \<open>garbage\<close>,
  \<open>behind\<close>), so that nothing is proved that depends on them.

  \<^bold>\<open>Hypotheses on code outside the repository\<close>: \<open>debug_port\<close> and \<open>axi_wide\<close> (the debug port of the chip
  and the AXI engine), \<open>speaks_sai\<close> (the serial adapter), \<open>full_stream\<close> (the stream of the image server),
  the mailbox protocol of the training firmware in \<open>Ddr_Training\<close>, registers that work in
  \<open>Background_Effects\<close>, \<open>stores_bytes\<close> (the stores of the processor, which the server's view of memory
  shows), \<open>taking_host\<close> (a host that takes what it is given), the device tree compiler in \<open>tool_ops\<close>, the operating system in \<open>os_ops\<close> and
  \<open>host_ops\<close>. Each has an instance in the theory that uses it.

  \<^bold>\<open>Not modelled\<close>: progress messages and logs, the log of the vector cores among them; opening of
  sockets, terminals and files; signal handlers and destructors; the debugger branch of \<open>htif_t::run\<close>,
  which is switched off, and the performance report, which no option reaches; \<open>fesvr/htif_pthread.cc\<close>, a
  base class of simulators that this program does not use; the driver variant for the SPI bridge
  (\<open>vcu118/fesvr2spim.c\<close>), whose headers are not in the repository; the copies of the DDR sequences in
  \<open>fesvr\<close>, which are not built, beside the used ones in \<open>fesvr/es1y\<close>; generated constants (\<open>encoding.h\<close>)
  that no modelled code uses; the RTL, its test benches, and the benchmarks that are linked with the
  runtime library.
\<close>

end
